(* ===== verification/Prelude.thy ===== *)
theory Prelude
  imports Main "HOL-Library.Word" "HOL-Library.List_Lexorder"
begin

text \<open>
  Shared vocabulary of the development.

  \<^item> \<open>ustr\<close> is a Python \<open>str\<close>: a list of Unicode code points.  Its order is the
    lexicographic order of \<open>HOL-Library.List_Lexorder\<close>, which is how Python compares strings.
    \<open>u ''abc''\<close> writes an ASCII literal.
  \<^item> \<open>uuid\<close> is a \<open>uuid.UUID\<close> (and a PostgreSQL UUID): a 128-bit word, ordered as an unsigned
    number, the order of both.  \<open>uuid_text\<close> is \<open>str(uuid)\<close> (theory \<open>Uuid_Text\<close> has \<open>UUID(text)\<close>).
  \<^item> \<open>'e + 'a\<close> is the result of code that may raise: \<open>Inl\<close> is the exception, \<open>Inr\<close> the value.
    \<open>transaction\<close> is psycopg's \<open>with connection.transaction()\<close>: an exception rolls back.
  \<^item> a table is a list of rows in insertion order; \<open>update_rows\<close> is an UPDATE, \<open>hits\<close> the number of rows it
    changes (\<open>cursor.rowcount\<close>), \<open>fresh\<close> the test of a unique key.
\<close>

named_theorems text_simps \<open>evaluation of Python string operations\<close>
named_theorems sql_simps \<open>evaluation of table statements\<close>

section \<open>Text\<close>

type_synonym ustr = "nat list"

definition u :: "string \<Rightarrow> ustr" where
  "u s = map of_char s"

lemma u_simps [simp, text_simps]:
  "u [] = []"
  "u (c # cs) = of_char c # u cs"
  by (simp_all add: u_def)

lemma u_append [simp]: "u (s @ t) = u s @ u t"
  by (simp add: u_def)

lemma length_u [simp]: "length (u s) = length s"
  by (simp add: u_def)

lemma inj_of_char: "inj (of_char :: char \<Rightarrow> nat)"
  by (rule injI) simp

lemma u_inject [simp]: "u s = u t \<longleftrightarrow> s = t"
  by (auto simp: u_def inj_of_char inj_map_eq_map)

text \<open>\<open>str.isspace\<close> of one code point: what \<open>str.strip()\<close> and \<open>str.split()\<close> treat as white space.\<close>

definition py_isspace :: "nat \<Rightarrow> bool" where
  "py_isspace c \<longleftrightarrow>
     9 \<le> c \<and> c \<le> 13 \<or> 28 \<le> c \<and> c \<le> 32 \<or> c = 133 \<or> c = 160 \<or> c = 5760 \<or>
     8192 \<le> c \<and> c \<le> 8202 \<or> c = 8232 \<or> c = 8233 \<or> c = 8239 \<or> c = 8287 \<or> c = 12288"

definition py_lstrip :: "ustr \<Rightarrow> ustr" where
  "py_lstrip s = dropWhile py_isspace s"

definition py_rstrip :: "ustr \<Rightarrow> ustr" where
  "py_rstrip s = rev (dropWhile py_isspace (rev s))"

definition py_strip :: "ustr \<Rightarrow> ustr" where
  "py_strip s = py_rstrip (py_lstrip s)"

text \<open>\<open>not value.strip()\<close>\<close>

definition is_blank :: "ustr \<Rightarrow> bool" where
  "is_blank s \<longleftrightarrow> py_strip s = []"

lemma dropWhile_Nil_iff: "dropWhile P xs = [] \<longleftrightarrow> (\<forall>x \<in> set xs. P x)"
  by (induction xs) auto

lemma py_rstrip_Nil_iff: "py_rstrip s = [] \<longleftrightarrow> (\<forall>c \<in> set s. py_isspace c)"
  by (simp add: py_rstrip_def dropWhile_Nil_iff)

lemma is_blank_iff: "is_blank s \<longleftrightarrow> (\<forall>c \<in> set s. py_isspace c)"
proof
  assume blank: "is_blank s"
  then have *: "\<forall>c \<in> set (dropWhile py_isspace s). py_isspace c"
    by (simp add: is_blank_def py_strip_def py_lstrip_def py_rstrip_Nil_iff)
  show "\<forall>c \<in> set s. py_isspace c"
  proof (rule ccontr)
    assume "\<not> (\<forall>c \<in> set s. py_isspace c)"
    then have ne: "dropWhile py_isspace s \<noteq> []" by (simp add: dropWhile_Nil_iff)
    then have "\<not> py_isspace (hd (dropWhile py_isspace s))" by (rule hd_dropWhile)
    with * ne show False by simp
  qed
next
  assume "\<forall>c \<in> set s. py_isspace c"
  then have "dropWhile py_isspace s = []" by (simp only: dropWhile_Nil_iff)
  then show "is_blank s" unfolding is_blank_def py_strip_def py_lstrip_def py_rstrip_def
    by (simp only: rev.simps dropWhile.simps)
qed

lemma is_blank_Nil [simp]: "is_blank []"
  by (simp add: is_blank_iff)

lemma is_blank_Cons [text_simps]: "is_blank (c # s) \<longleftrightarrow> py_isspace c \<and> is_blank s"
  by (simp add: is_blank_iff)

lemma is_blank_append [text_simps]: "is_blank (s @ t) \<longleftrightarrow> is_blank s \<and> is_blank t"
  by (auto simp: is_blank_iff)

declare py_isspace_def [text_simps]

lemma length_py_strip: "length (py_strip s) \<le> length s"
proof -
  have "length (py_rstrip t) \<le> length t" for t
    using length_dropWhile_le [of py_isspace "rev t"] by (simp add: py_rstrip_def)
  moreover have "length (py_lstrip s) \<le> length s"
    by (simp add: py_lstrip_def length_dropWhile_le)
  ultimately show ?thesis unfolding py_strip_def by (meson le_trans)
qed

text \<open>
  Dropping the leading characters that satisfy a test, then the trailing ones, is done once for
  all: a second pass changes nothing.
\<close>

lemma dropWhile_hd: "xs = [] \<or> \<not> P (hd xs) \<Longrightarrow> dropWhile P xs = xs"
  by (cases xs) auto

lemma hd_dropWhile_rev:
  assumes "xs = [] \<or> \<not> P (hd xs)"
  shows "rev (dropWhile P (rev xs)) = [] \<or> \<not> P (hd (rev (dropWhile P (rev xs))))"
proof (cases "rev (dropWhile P (rev xs)) = []")
  case False
  obtain pre where pre: "rev xs = pre @ dropWhile P (rev xs)"
    by (metis takeWhile_dropWhile_id)
  then have "xs = rev (dropWhile P (rev xs)) @ rev pre"
    by (metis rev_append rev_rev_ident)
  with False have "hd xs = hd (rev (dropWhile P (rev xs)))" by (metis hd_append2)
  moreover from False have "xs \<noteq> []" by auto
  ultimately show ?thesis using assms by auto
qed simp

lemma py_strip_idem [simp]: "py_strip (py_strip s) = py_strip s"
proof -
  let ?d = "dropWhile py_isspace s"
  have h: "?d = [] \<or> \<not> py_isspace (hd ?d)" by (meson hd_dropWhile)
  from hd_dropWhile_rev [where P = py_isspace and xs = ?d, OF h]
  have l: "py_lstrip (py_strip s) = py_strip s"
    unfolding py_strip_def py_lstrip_def py_rstrip_def by (rule dropWhile_hd)
  have "dropWhile py_isspace (dropWhile py_isspace (rev ?d)) = dropWhile py_isspace (rev ?d)"
    by (rule dropWhile_hd) (meson hd_dropWhile)
  then have r: "py_rstrip (py_strip s) = py_strip s"
    by (simp add: py_strip_def py_rstrip_def py_lstrip_def)
  show ?thesis using l r by (simp add: py_strip_def [of "py_strip s"])
qed

section \<open>Numbers and identifiers as text\<close>

text \<open>\<open>str(n)\<close> for an integer that is not negative, and for any integer.\<close>

fun dec_digits :: "nat \<Rightarrow> ustr" where
  "dec_digits n = (if n < 10 then [48 + n] else dec_digits (n div 10) @ [48 + n mod 10])"

declare dec_digits.simps [simp del]

definition int_text :: "int \<Rightarrow> ustr" where
  "int_text i = (if i < 0 then 45 # dec_digits (nat (- i)) else dec_digits (nat i))"

lemma dec_digits_ne [simp]: "dec_digits n \<noteq> []"
  by (subst dec_digits.simps) simp

lemma set_dec_digits: "c \<in> set (dec_digits n) \<Longrightarrow> 48 \<le> c \<and> c \<le> 57"
proof (induction n rule: dec_digits.induct)
  case (1 n)
  then show ?case
    by (auto simp: dec_digits.simps [of n] split: if_splits)
qed

definition digits_value :: "ustr \<Rightarrow> nat" where
  "digits_value s = foldl (\<lambda>acc c. 10 * acc + (c - 48)) 0 s"

lemma digits_value_snoc: "digits_value (s @ [c]) = 10 * digits_value s + (c - 48)"
  by (simp add: digits_value_def)

lemma digits_value_dec [simp]: "digits_value (dec_digits n) = n"
proof (induction n rule: dec_digits.induct)
  case (1 n)
  show ?case
  proof (cases "n < 10")
    case True
    then show ?thesis by (simp add: dec_digits.simps [of n] digits_value_def)
  next
    case False
    with 1 have "digits_value (dec_digits (n div 10)) = n div 10" by simp
    with False show ?thesis
      by (simp add: dec_digits.simps [of n] digits_value_snoc)
  qed
qed

lemma dec_digits_inject [simp]: "dec_digits m = dec_digits n \<longleftrightarrow> m = n"
  by (metis digits_value_dec)

lemma int_text_inject [simp]: "int_text i = int_text j \<longleftrightarrow> i = j"
proof
  assume eq: "int_text i = int_text j"
  have hd_dec: "hd (dec_digits n) \<noteq> 45" for n
  proof -
    have "hd (dec_digits n) \<in> set (dec_digits n)" by (rule hd_in_set) simp
    then show ?thesis using set_dec_digits by fastforce
  qed
  show "i = j"
  proof (cases "i < 0"; cases "j < 0")
    assume "i < 0" "j < 0"
    with eq show ?thesis by (simp add: int_text_def)
  next
    assume "i < 0" "\<not> j < 0"
    with eq hd_dec [of "nat j"] show ?thesis by (auto simp: int_text_def split: if_splits) (metis list.sel(1))
  next
    assume "\<not> i < 0" "j < 0"
    with eq hd_dec [of "nat i"] show ?thesis by (auto simp: int_text_def split: if_splits)
  next
    assume "\<not> i < 0" "\<not> j < 0"
    with eq show ?thesis by (simp add: int_text_def)
  qed
qed simp

type_synonym uuid = "128 word"

definition hex_char :: "nat \<Rightarrow> nat" where
  "hex_char d = (if d < 10 then 48 + d else 87 + d)"

fun hex_pad :: "nat \<Rightarrow> nat \<Rightarrow> ustr" where
  "hex_pad 0 n = []"
| "hex_pad (Suc k) n = hex_pad k (n div 16) @ [hex_char (n mod 16)]"

lemma length_hex_pad [simp]: "length (hex_pad k n) = k"
  by (induction k n rule: hex_pad.induct) auto

lemma hex_char_inject: "a < 16 \<Longrightarrow> b < 16 \<Longrightarrow> hex_char a = hex_char b \<longleftrightarrow> a = b"
  by (auto simp: hex_char_def split: if_splits)

lemma hex_pad_inject: "m < 16 ^ k \<Longrightarrow> n < 16 ^ k \<Longrightarrow> hex_pad k m = hex_pad k n \<longleftrightarrow> m = n"
proof (induction k arbitrary: m n)
  case (Suc k)
  have "m div 16 < 16 ^ k" "n div 16 < 16 ^ k" using Suc.prems by (simp_all add: less_mult_imp_div_less mult.commute)
  then have "hex_pad (Suc k) m = hex_pad (Suc k) n \<longleftrightarrow> m div 16 = n div 16 \<and> m mod 16 = n mod 16"
    using Suc.IH by (simp add: hex_char_inject)
  then show ?case by (metis div_mult_mod_eq)
qed simp

text \<open>\<open>str(uuid)\<close>: thirty-two lower-case hexadecimal digits in groups of 8, 4, 4, 4 and 12.\<close>

definition uuid_text :: "uuid \<Rightarrow> ustr" where
  "uuid_text x =
     (let h = hex_pad 32 (unat x)
      in take 8 h @ [45] @ take 4 (drop 8 h) @ [45] @ take 4 (drop 12 h) @ [45] @
         take 4 (drop 16 h) @ [45] @ drop 20 h)"

lemma length_uuid_text [simp]: "length (uuid_text x) = 36"
  by (simp add: uuid_text_def Let_def)

lemma unat_uuid_less: "unat (x :: uuid) < 16 ^ 32"
proof -
  have "unat x < 2 ^ LENGTH(128)" by (rule unsigned_less)
  then show ?thesis by simp
qed

lemma regroup:
  assumes "length h = 32"
  shows "take 8 h @ take 4 (drop 8 h) @ take 4 (drop 12 h) @ take 4 (drop 16 h) @ drop 20 h = h"
proof -
  have "take 4 (drop 16 h) @ drop 20 h = drop 16 h"
    using append_take_drop_id [of 4 "drop 16 h"] by simp
  moreover have "take 4 (drop 12 h) @ drop 16 h = drop 12 h"
    using append_take_drop_id [of 4 "drop 12 h"] by simp
  moreover have "take 4 (drop 8 h) @ drop 12 h = drop 8 h"
    using append_take_drop_id [of 4 "drop 8 h"] by simp
  ultimately show ?thesis by simp
qed

lemma hex_char_ne_dash: "hex_char d \<noteq> 45"
  by (simp add: hex_char_def)

lemma set_hex_pad: "c \<in> set (hex_pad k n) \<Longrightarrow> \<exists>d < 16. c = hex_char d"
proof (induction k n rule: hex_pad.induct)
  case (2 k n)
  show ?case
  proof (cases "c = hex_char (n mod 16)")
    case True
    then show ?thesis by (intro exI [of _ "n mod 16"]) simp
  next
    case False
    with 2 show ?thesis by simp
  qed
qed simp

lemma filter_dash_hex:
  assumes "\<forall>c \<in> set xs. c \<noteq> 45"
  shows "filter (\<lambda>c. c \<noteq> 45) xs = xs"
  using assms by (simp add: filter_id_conv)

lemma hex_pad_no_dash: "c \<in> set (hex_pad k n) \<Longrightarrow> c \<noteq> 45"
  using set_hex_pad [of c k n] hex_char_ne_dash by auto

text \<open>Removing the dashes gives the thirty-two digits back.\<close>

lemma uuid_text_digits: "filter (\<lambda>c. c \<noteq> 45) (uuid_text x) = hex_pad 32 (unat x)"
proof -
  let ?h = "hex_pad 32 (unat x)"
  have nd: "filter (\<lambda>c. c \<noteq> 45) (take i (drop j ?h)) = take i (drop j ?h)"
    "filter (\<lambda>c. c \<noteq> 45) (take i ?h) = take i ?h"
    "filter (\<lambda>c. c \<noteq> 45) (drop j ?h) = drop j ?h" for i j
    by (rule filter_dash_hex, metis hex_pad_no_dash in_set_takeD in_set_dropD)+
  show ?thesis
    unfolding uuid_text_def Let_def
    by (simp add: nd regroup del: filter_append) (simp add: nd regroup)
qed

lemma uuid_text_inject [simp]: "uuid_text x = uuid_text y \<longleftrightarrow> x = y"
proof
  assume "uuid_text x = uuid_text y"
  then have "hex_pad 32 (unat x) = hex_pad 32 (unat y)" by (metis uuid_text_digits)
  then have "unat x = unat y"
    by (rule iffD1 [OF hex_pad_inject [OF unat_uuid_less unat_uuid_less]])
  then show "x = y" by (simp only: word_unat_eq_iff)
qed simp


section \<open>Exceptions and transactions\<close>

text \<open>
  The body of a \<open>with connection.transaction()\<close> block either raises (\<open>Inl\<close>, nothing is kept) or
  returns a value and the new state; \<open>transaction\<close> runs it on the committed state.
\<close>

type_synonym ('e, 'a, 's) body = "'s \<Rightarrow> 'e + 'a \<times> 's"

definition transaction :: "('e, 'a, 's) body \<Rightarrow> 's \<Rightarrow> ('e + 'a) \<times> 's" where
  "transaction f s = (case f s of Inl e \<Rightarrow> (Inl e, s) | Inr (a, s') \<Rightarrow> (Inr a, s'))"

lemma transaction_simps [simp]:
  "f s = Inl e \<Longrightarrow> transaction f s = (Inl e, s)"
  "f s = Inr (a, s') \<Longrightarrow> transaction f s = (Inr a, s')"
  by (simp_all add: transaction_def)

lemma transaction_Inl_iff: "transaction f s = (Inl e, s') \<longleftrightarrow> f s = Inl e \<and> s' = s"
  by (auto simp: transaction_def split: sum.splits)

lemma transaction_Inr_iff: "transaction f s = (Inr a, s') \<longleftrightarrow> f s = Inr (a, s')"
  by (auto simp: transaction_def split: sum.splits)

lemma transaction_cases:
  obtains e where "f s = Inl e" "transaction f s = (Inl e, s)"
  | a s' where "f s = Inr (a, s')" "transaction f s = (Inr a, s')"
  by (cases "f s") auto

text \<open>A check that raises \<open>e\<close> unless \<open>b\<close> holds, then continues.\<close>

definition require :: "bool \<Rightarrow> 'e \<Rightarrow> 'e + 'a \<Rightarrow> 'e + 'a" where
  "require b e k = (if b then k else Inl e)"

lemma require_simps [simp]:
  "require True e k = k"
  "require False e k = Inl e"
  by (simp_all add: require_def)

lemma require_Inr [simp]: "require b e k = Inr v \<longleftrightarrow> b \<and> k = Inr v"
  by (simp add: require_def)

lemma require_Inl [simp]: "require b e k = Inl e' \<longleftrightarrow> \<not> b \<and> e' = e \<or> b \<and> k = Inl e'"
  by (auto simp: require_def)

text \<open>Sequencing: the first exception wins.\<close>

definition and_then :: "'e + 'a \<Rightarrow> ('a \<Rightarrow> 'e + 'b) \<Rightarrow> 'e + 'b" where
  "and_then r k = (case r of Inl e \<Rightarrow> Inl e | Inr v \<Rightarrow> k v)"

lemma and_then_simps [simp]:
  "and_then (Inl e) k = Inl e"
  "and_then (Inr v) k = k v"
  by (simp_all add: and_then_def)

lemma and_then_Inr: "and_then r k = Inr w \<longleftrightarrow> (\<exists>v. r = Inr v \<and> k v = Inr w)"
  by (cases r) auto

lemma and_then_Inl: "and_then r k = Inl e \<longleftrightarrow> r = Inl e \<or> (\<exists>v. r = Inr v \<and> k v = Inl e)"
  by (cases r) auto

text \<open>A loop that threads a value through a list and stops at the first exception.\<close>

fun fold_result :: "('x \<Rightarrow> 'a \<Rightarrow> 'e + 'a) \<Rightarrow> 'x list \<Rightarrow> 'a \<Rightarrow> 'e + 'a" where
  "fold_result f [] a = Inr a"
| "fold_result f (x # xs) a = and_then (f x a) (fold_result f xs)"

lemma fold_result_invariant:
  assumes "fold_result f xs a = Inr b" "I a"
    "\<And>x a a'. x \<in> set xs \<Longrightarrow> I a \<Longrightarrow> f x a = Inr a' \<Longrightarrow> I a'"
  shows "I b"
  using assms
proof (induction xs arbitrary: a)
  case (Cons x xs)
  from Cons.prems(1) obtain a' where a': "f x a = Inr a'" "fold_result f xs a' = Inr b"
    by (auto simp: and_then_Inr)
  have "I a'" using Cons.prems(3) [OF _ Cons.prems(2) a'(1)] by simp
  with a'(2) Cons.prems(3) show ?case by (intro Cons.IH [of a']) auto
qed simp

text \<open>The same loop building a list of results in order.\<close>

fun map_result :: "('x \<Rightarrow> 'e + 'a) \<Rightarrow> 'x list \<Rightarrow> 'e + 'a list" where
  "map_result f [] = Inr []"
| "map_result f (x # xs) = and_then (f x) (\<lambda>y. and_then (map_result f xs) (\<lambda>ys. Inr (y # ys)))"

lemma map_result_Inr_iff:
  "map_result f xs = Inr ys \<longleftrightarrow> list_all2 (\<lambda>x y. f x = Inr y) xs ys"
  by (induction xs arbitrary: ys) (auto simp: and_then_Inr list_all2_Cons1)

lemma map_result_length: "map_result f xs = Inr ys \<Longrightarrow> length ys = length xs"
  by (simp add: map_result_Inr_iff list_all2_lengthD)

lemma map_result_all:
  assumes "map_result f xs = Inr ys" "y \<in> set ys"
  obtains x where "x \<in> set xs" "f x = Inr y"
proof -
  from assms obtain i where i: "i < length ys" "y = ys ! i" by (auto simp: in_set_conv_nth)
  with assms(1) have "i < length xs" "f (xs ! i) = Inr y"
    by (auto simp: map_result_Inr_iff list_all2_conv_all_nth)
  then show ?thesis using that [of "xs ! i"] by simp
qed

lemma map_result_Inr_all: "(\<And>x. x \<in> set xs \<Longrightarrow> f x = Inr (g x)) \<Longrightarrow> map_result f xs = Inr (map g xs)"
  by (induction xs) auto

lemma map_result_map: "(\<And>x. x \<in> set xs \<Longrightarrow> f (g x) = Inr (h x)) \<Longrightarrow> map_result f (map g xs) = Inr (map h xs)"
  by (induction xs) simp_all

section \<open>Tables\<close>

datatype pg_error =
    UniqueViolation \<comment> \<open>a PRIMARY KEY or UNIQUE constraint (SQLSTATE 23505)\<close>
  | CheckViolation \<comment> \<open>a CHECK constraint or a constraint trigger (SQLSTATE 23514)\<close>
  | ForeignKeyViolation \<comment> \<open>a REFERENCES constraint (SQLSTATE 23503)\<close>
  | RaiseException \<comment> \<open>a trigger's RAISE EXCEPTION (SQLSTATE P0001)\<close>

definition hits :: "('r \<Rightarrow> bool) \<Rightarrow> 'r list \<Rightarrow> nat" where
  "hits P t = length (filter P t)"

definition update_rows :: "('r \<Rightarrow> bool) \<Rightarrow> ('r \<Rightarrow> 'r) \<Rightarrow> 'r list \<Rightarrow> 'r list" where
  "update_rows P f t = map (\<lambda>r. if P r then f r else r) t"

definition fresh :: "('r \<Rightarrow> 'k) \<Rightarrow> 'r \<Rightarrow> 'r list \<Rightarrow> bool" where
  "fresh key r t \<longleftrightarrow> key r \<notin> set (map key t)"

lemma find_append: "find P (xs @ ys) = (case find P xs of None \<Rightarrow> find P ys | Some x \<Rightarrow> Some x)"
  by (induction xs) auto

lemma find_append_new: "\<forall>x \<in> set xs. \<not> P x \<Longrightarrow> find P (xs @ ys) = find P ys"
  by (induction xs) auto

lemma fresh_ne: "fresh key r t \<Longrightarrow> x \<in> set t \<Longrightarrow> key x \<noteq> key r"
  by (metis fresh_def image_eqI set_map)

lemma find_snoc_fresh: "fresh key r t \<Longrightarrow> key r = k \<Longrightarrow> find (\<lambda>x. key x = k) (t @ [r]) = Some r"
  by (induction t) (auto simp: fresh_def)

lemma hits_simps [simp, sql_simps]:
  "hits P [] = 0"
  "hits P (r # t) = (if P r then Suc (hits P t) else hits P t)"
  "hits P (t @ t') = hits P t + hits P t'"
  by (simp_all add: hits_def)

lemma update_rows_simps [simp, sql_simps]:
  "update_rows P f [] = []"
  "update_rows P f (r # t) = (if P r then f r else r) # update_rows P f t"
  "update_rows P f (t @ t') = update_rows P f t @ update_rows P f t'"
  by (simp_all add: update_rows_def)

lemma length_update_rows [simp]: "length (update_rows P f t) = length t"
  by (simp add: update_rows_def)

lemma set_update_rows: "set (update_rows P f t) = (\<lambda>r. if P r then f r else r) ` set t"
  by (simp add: update_rows_def)

lemma in_update_rows:
  assumes "r' \<in> set (update_rows P f t)"
  obtains r where "r \<in> set t" "r' = (if P r then f r else r)"
  using assms by (auto simp: set_update_rows)

lemma map_update_rows_same:
  "(\<And>r. P r \<Longrightarrow> key (f r) = key r) \<Longrightarrow> map key (update_rows P f t) = map key t"
  by (simp add: update_rows_def)

lemma update_rows_none: "(\<And>r. r \<in> set t \<Longrightarrow> \<not> P r) \<Longrightarrow> update_rows P f t = t"
  by (induction t) auto

lemma hits_zero_iff: "hits P t = 0 \<longleftrightarrow> (\<forall>r \<in> set t. \<not> P r)"
  by (induction t) auto

lemma hits_update_rows:
  "(\<And>r. P r \<Longrightarrow> Q (f r) = Q r) \<Longrightarrow> hits Q (update_rows P f t) = hits Q t"
  by (induction t) auto

lemma distinct_key_unique:
  "distinct (map key t) \<Longrightarrow> r \<in> set t \<Longrightarrow> r' \<in> set t \<Longrightarrow> key r = key r' \<Longrightarrow> r = r'"
  by (induction t) (auto simp: image_iff)

lemma hits_one_of_key:
  assumes "distinct (map key t)" "r \<in> set t" "P r" "\<And>r'. P r' \<Longrightarrow> key r' = key r"
  shows "hits P t = 1"
  using assms
proof (induction t)
  case (Cons a t)
  show ?case
  proof (cases "r = a")
    case True
    have "\<not> P x" if x: "x \<in> set t" for x
    proof
      assume "P x"
      then have "key x = key r" by (rule Cons.prems(4))
      with x True Cons.prems(1) show False by (auto simp: image_iff)
    qed
    then have "hits P t = 0" by (simp add: hits_zero_iff)
    with True Cons.prems(3) show ?thesis by simp
  next
    case False
    with Cons.prems have "r \<in> set t" by simp
    moreover have "\<not> P a"
    proof
      assume "P a"
      then have "key a = key r" by (rule Cons.prems(4))
      with Cons.prems(1) \<open>r \<in> set t\<close> show False by (auto simp: image_iff)
    qed
    moreover have "distinct (map key t)" using Cons.prems(1) by simp
    ultimately have "hits P t = 1" using Cons.IH Cons.prems(3,4) by blast
    with \<open>\<not> P a\<close> show ?thesis by simp
  qed
qed simp

lemma find_Some_set: "find P t = Some r \<Longrightarrow> r \<in> set t \<and> P r"
  by (induction t) (auto split: if_splits)

lemma find_key_unique:
  "distinct (map key t) \<Longrightarrow> r \<in> set t \<Longrightarrow> find (\<lambda>r'. key r' = key r) t = Some r"
  by (induction t) (auto simp: image_iff)

lemma fresh_Cons [sql_simps]: "fresh key r (a # t) \<longleftrightarrow> key r \<noteq> key a \<and> fresh key r t"
  by (simp add: fresh_def)

lemma fresh_Nil [simp, sql_simps]: "fresh key r []"
  by (simp add: fresh_def)

lemma distinct_snoc_fresh: "distinct (map key (t @ [r])) \<longleftrightarrow> distinct (map key t) \<and> fresh key r t"
  by (auto simp: fresh_def)

section \<open>Counting\<close>

text \<open>\<open>counts[key] = counts.get(key, 0) + 1\<close> on a dictionary in insertion order.\<close>

fun bump :: "ustr \<Rightarrow> (ustr \<times> nat) list \<Rightarrow> (ustr \<times> nat) list" where
  "bump r [] = [(r, 1)]"
| "bump r ((k, n) # rest) = (if k = r then (k, n + 1) # rest else (k, n) # bump r rest)"

lemma map_of_bump: "map_of (bump r m) k = (if k = r then Some (Suc (case map_of m r of None \<Rightarrow> 0 | Some n \<Rightarrow> n)) else map_of m k)"
  by (induction r m rule: bump.induct) auto

lemma keys_bump: "set (map fst (bump r m)) = insert r (set (map fst m))"
  by (induction r m rule: bump.induct) auto

lemma distinct_bump: "distinct (map fst m) \<Longrightarrow> distinct (map fst (bump r m))"
  by (induction r m rule: bump.induct) (auto simp: keys_bump simp del: set_map)

lemma sum_bump: "sum_list (map snd (bump r m)) = Suc (sum_list (map snd m))"
  by (induction r m rule: bump.induct) auto

lemma fold_bump:
  "distinct (map fst (fold bump rs [])) \<and> sum_list (map snd (fold bump rs [])) = length rs \<and>
   map_of (fold bump rs []) k = (if k \<in> set rs then Some (count_list rs k) else None)"
proof (induction rs rule: rev_induct)
  case (snoc r rs)
  then show ?case by (auto simp: distinct_bump sum_bump map_of_bump count_notin)
qed simp

lemma find_by_predicate: "distinct (map key xs) \<Longrightarrow> x \<in> set xs \<Longrightarrow> P x \<Longrightarrow> (\<And>y. P y \<Longrightarrow> key y = key x) \<Longrightarrow> find P xs = Some x"
proof (induction xs)
  case (Cons y ys)
  show ?case
  proof (cases "P y")
    case True
    then have "key y = key x" by (rule Cons.prems(4))
    then have "y = x" using Cons.prems(1,2) by (metis distinct.simps(2) image_eqI list.simps(9) set_ConsD set_map)
    then show ?thesis using True by simp
  next
    case False
    then have "x \<in> set ys" using Cons.prems(2,3) by auto
    then show ?thesis using Cons.IH [OF _ _ Cons.prems(3,4)] Cons.prems(1) False by simp
  qed
qed simp

end
