(* ===== verification/Domain_Models.thy ===== *)
theory Domain_Models
  imports Prelude
begin

text \<open>
  \<open>apps/api/app/domain/models.py\<close>: the value objects of the domain package.  A \<open>StrEnum\<close> is a
  datatype with its \<open>.value\<close> and its constructor from a string; a frozen dataclass is a record, and
  its \<open>__post_init__\<close> a constructor function (\<open>make_...\<close>) that returns the record or the exception.
  Exceptions keep the data they carry (\<open>CloseBlockedError\<close> its revision ids, the others the message).
\<close>

datatype domain_error =
    DomainInvariantError ustr
  | DomainSessionStateError ustr
  | ActorNotMemberError ustr
  | HostAuthorizationError ustr
  | CloseBlockedError "ustr list"
  | JobNotClaimableError ustr
  | DomainStaleLeaseError ustr
  | PyTypeError ustr

section \<open>Enumerations\<close>

datatype talk_session_state = DRAFT | OPEN | CLOSED | PROCESSING | READY | NEEDS_ATTENTION

fun session_state_value :: "talk_session_state \<Rightarrow> ustr" where
  "session_state_value DRAFT = u ''draft''"
| "session_state_value OPEN = u ''open''"
| "session_state_value CLOSED = u ''closed''"
| "session_state_value PROCESSING = u ''processing''"
| "session_state_value READY = u ''ready''"
| "session_state_value NEEDS_ATTENTION = u ''needs_attention''"

datatype revision_processing_state = R_UPLOADED | R_QUEUED | R_EXTRACTING | R_READY | R_FAILED

fun revision_state_value :: "revision_processing_state \<Rightarrow> ustr" where
  "revision_state_value R_UPLOADED = u ''uploaded''"
| "revision_state_value R_QUEUED = u ''queued''"
| "revision_state_value R_EXTRACTING = u ''extracting''"
| "revision_state_value R_READY = u ''ready''"
| "revision_state_value R_FAILED = u ''failed''"

datatype generation_kind = SUMMARY | RESEARCH

fun generation_kind_value :: "generation_kind \<Rightarrow> ustr" where
  "generation_kind_value SUMMARY = u ''summary''"
| "generation_kind_value RESEARCH = u ''research''"

datatype generation_run_state =
  G_QUEUED | G_RUNNING | G_SUCCEEDED | G_FAILED_RETRYABLE | G_FAILED_TERMINAL

fun run_state_value :: "generation_run_state \<Rightarrow> ustr" where
  "run_state_value G_QUEUED = u ''queued''"
| "run_state_value G_RUNNING = u ''running''"
| "run_state_value G_SUCCEEDED = u ''succeeded''"
| "run_state_value G_FAILED_RETRYABLE = u ''failed_retryable''"
| "run_state_value G_FAILED_TERMINAL = u ''failed_terminal''"

definition is_active :: "generation_run_state \<Rightarrow> bool" where
  "is_active s \<longleftrightarrow> s \<in> {G_QUEUED, G_RUNNING}"

definition is_failure :: "generation_run_state \<Rightarrow> bool" where
  "is_failure s \<longleftrightarrow> s \<in> {G_FAILED_RETRYABLE, G_FAILED_TERMINAL}"

definition is_retryable_failure :: "generation_run_state \<Rightarrow> bool" where
  "is_retryable_failure s \<longleftrightarrow> s = G_FAILED_RETRYABLE"

datatype job_state = J_PENDING | J_RUNNING | J_SUCCEEDED | J_FAILED_RETRYABLE | J_FAILED_TERMINAL

fun job_state_value :: "job_state \<Rightarrow> ustr" where
  "job_state_value J_PENDING = u ''pending''"
| "job_state_value J_RUNNING = u ''running''"
| "job_state_value J_SUCCEEDED = u ''succeeded''"
| "job_state_value J_FAILED_RETRYABLE = u ''failed_retryable''"
| "job_state_value J_FAILED_TERMINAL = u ''failed_terminal''"

datatype aggregate_action = A_NONE | A_RETRY | A_OPERATOR_OR_REPLAN

text \<open>\<open>TalkSessionState(value)\<close> and \<open>JobState(value)\<close>: the enum constructors; \<open>None\<close> is \<open>ValueError\<close>.\<close>

definition parse_session_state :: "ustr \<Rightarrow> talk_session_state option" where
  "parse_session_state v =
     find (\<lambda>s. session_state_value s = v) [DRAFT, OPEN, CLOSED, PROCESSING, READY, NEEDS_ATTENTION]"

definition parse_job_state :: "ustr \<Rightarrow> job_state option" where
  "parse_job_state v =
     find (\<lambda>s. job_state_value s = v)
       [J_PENDING, J_RUNNING, J_SUCCEEDED, J_FAILED_RETRYABLE, J_FAILED_TERMINAL]"

lemma parse_session_state_value [simp]: "parse_session_state (session_state_value s) = Some s"
  by (cases s) (simp_all add: parse_session_state_def)

lemma parse_job_state_value [simp]: "parse_job_state (job_state_value s) = Some s"
  by (cases s) (simp_all add: parse_job_state_def)

lemma session_state_value_inject [simp]:
  "session_state_value s = session_state_value t \<longleftrightarrow> s = t"
  by (metis parse_session_state_value option.inject)

lemma job_state_value_inject [simp]: "job_state_value s = job_state_value t \<longleftrightarrow> s = t"
  by (metis parse_job_state_value option.inject)

lemma generation_kind_value_inject [simp]:
  "generation_kind_value k = generation_kind_value k' \<longleftrightarrow> k = k'"
  by (cases k; cases k') simp_all

lemma not_blank_values [simp]:
  "\<not> is_blank (generation_kind_value k @ t)"
  "\<not> is_blank (session_state_value s)"
  by (cases k; simp add: text_simps) (cases s; simp add: text_simps)

section \<open>Value objects\<close>

definition require_identifier :: "ustr \<Rightarrow> ustr \<Rightarrow> domain_error + unit" where
  "require_identifier field_name value =
     require (\<not> is_blank value) (DomainInvariantError (field_name @ u '' must not be blank'')) (Inr ())"

record revision_status =
  rs_revision_id :: ustr
  rs_state :: revision_processing_state

definition make_revision_status ::
  "ustr \<Rightarrow> revision_processing_state \<Rightarrow> domain_error + revision_status" where
  "make_revision_status rid st =
     and_then (require_identifier (u ''revision_id'') rid)
       (\<lambda>_. Inr \<lparr>rs_revision_id = rid, rs_state = st\<rparr>)"

record close_exclusion =
  ce_revision_id :: ustr
  ce_reason :: ustr

definition make_close_exclusion :: "ustr \<Rightarrow> ustr \<Rightarrow> domain_error + close_exclusion" where
  "make_close_exclusion rid reason =
     and_then (require_identifier (u ''revision_id'') rid)
       (\<lambda>_. require (\<not> is_blank reason)
              (DomainInvariantError (u ''exclusion reason must not be blank''))
              (Inr \<lparr>ce_revision_id = rid, ce_reason = reason\<rparr>))"

record close_eligibility =
  eligible :: bool
  included_revision_ids :: "ustr list"
  excluded_revision_ids :: "ustr list"
  blocking_revision_ids :: "ustr list"

record generation_run_view =
  rv_kind :: generation_kind
  rv_state :: generation_run_state
  rv_error_code :: "ustr option"

definition make_generation_run_view ::
  "generation_kind \<Rightarrow> generation_run_state \<Rightarrow> ustr option \<Rightarrow> domain_error + generation_run_view" where
  "make_generation_run_view k s e =
     (case e of
        Some code \<Rightarrow> require (\<not> is_blank code)
          (DomainInvariantError (u ''generation error_code must not be blank''))
          (Inr \<lparr>rv_kind = k, rv_state = s, rv_error_code = e\<rparr>)
      | None \<Rightarrow> Inr \<lparr>rv_kind = k, rv_state = s, rv_error_code = e\<rparr>)"

text \<open>What \<open>__post_init__\<close> guarantees of every run view the code can hold.\<close>

definition run_view_ok :: "generation_run_view \<Rightarrow> bool" where
  "run_view_ok r \<longleftrightarrow> (case rv_error_code r of Some code \<Rightarrow> \<not> is_blank code | None \<Rightarrow> True)"

lemma make_generation_run_view_ok:
  "make_generation_run_view k s e = Inr r \<Longrightarrow>
     run_view_ok r \<and> rv_kind r = k \<and> rv_state r = s \<and> rv_error_code r = e"
  by (auto simp: make_generation_run_view_def run_view_ok_def split: option.splits)

record aggregate_reason =
  ar_code :: ustr
  ar_kind :: "generation_kind option"
  ar_retryable :: bool

definition make_aggregate_reason ::
  "ustr \<Rightarrow> generation_kind option \<Rightarrow> bool \<Rightarrow> domain_error + aggregate_reason" where
  "make_aggregate_reason code k retryable =
     require (\<not> is_blank code) (DomainInvariantError (u ''aggregate reason code must not be blank''))
       (Inr \<lparr>ar_code = code, ar_kind = k, ar_retryable = retryable\<rparr>)"

record generation_aggregate =
  ga_state :: talk_session_state
  ga_reasons :: "aggregate_reason list"
  ga_retry_available :: bool
  ga_action :: aggregate_action

section \<open>Job leases\<close>

text \<open>
  A Python \<open>datetime\<close>: the instant in microseconds and whether it carries a UTC offset.  Instants are
  unbounded integers: the year-9999 limit of \<open>datetime\<close> is not modelled.
\<close>

record py_datetime =
  dt_instant :: int
  dt_aware :: bool

record job_lease_view =
  jl_job_id :: ustr
  jl_state :: job_state
  jl_lease_generation :: int
  jl_lease_token :: "ustr option"
  jl_lease_until :: "py_datetime option"

definition make_job_lease_view ::
  "ustr \<Rightarrow> job_state \<Rightarrow> int \<Rightarrow> ustr option \<Rightarrow> py_datetime option \<Rightarrow> domain_error + job_lease_view" where
  "make_job_lease_view jid st gen tok until =
     and_then (require_identifier (u ''job_id'') jid) (\<lambda>_.
     require (0 \<le> gen) (DomainInvariantError (u ''lease_generation must not be negative''))
     (require (case tok of None \<Rightarrow> True | Some t \<Rightarrow> \<not> is_blank t)
        (DomainInvariantError (u ''lease_token must not be blank''))
     (require (st = J_RUNNING \<longrightarrow> gen \<noteq> 0)
        (DomainInvariantError (u ''running job must have a lease generation''))
     (require (st = J_RUNNING \<longrightarrow> tok \<noteq> None \<and> until \<noteq> None)
        (DomainInvariantError (u ''running job must have a token and expiry''))
     (Inr \<lparr>jl_job_id = jid, jl_state = st, jl_lease_generation = gen,
           jl_lease_token = tok, jl_lease_until = until\<rparr>)))))"

text \<open>The class invariant of a \<open>JobLeaseView\<close>.\<close>

definition job_lease_view_ok :: "job_lease_view \<Rightarrow> bool" where
  "job_lease_view_ok j \<longleftrightarrow>
     \<not> is_blank (jl_job_id j) \<and> 0 \<le> jl_lease_generation j \<and>
     (case jl_lease_token j of None \<Rightarrow> True | Some t \<Rightarrow> \<not> is_blank t) \<and>
     (jl_state j = J_RUNNING \<longrightarrow>
        jl_lease_generation j \<noteq> 0 \<and> jl_lease_token j \<noteq> None \<and> jl_lease_until j \<noteq> None)"

lemma make_job_lease_view_ok:
  "make_job_lease_view jid st gen tok until = Inr j \<Longrightarrow> job_lease_view_ok j"
  by (auto simp: make_job_lease_view_def job_lease_view_ok_def require_identifier_def and_then_Inr)

record job_claim_intent =
  ci_job_id :: ustr
  ci_expected_state :: job_state
  ci_expected_lease_generation :: int
  ci_expected_lease_token :: "ustr option"
  ci_owner_id :: ustr
  ci_lease_generation :: int
  ci_lease_token :: ustr
  ci_lease_until :: py_datetime
  ci_reclaimed :: bool

record job_heartbeat_intent =
  hi_job_id :: ustr
  hi_lease_generation :: int
  hi_lease_token :: ustr
  hi_lease_until :: py_datetime

record job_completion_intent =
  co_job_id :: ustr
  co_lease_generation :: int
  co_lease_token :: ustr
  co_target_state :: job_state

record job_requeue_intent =
  ri_job_id :: ustr
  ri_expected_lease_generation :: int

end
