(* ===== verification/Domain_Policies.thy ===== *)
theory Domain_Policies
  imports Domain_Models "HOL-Library.Multiset"
begin

text \<open>
  \<open>apps/api/app/domain/policies.py\<close>: the session state graph, the membership and host checks, the
  close decision and the projection of the two generation runs to the state of the session.
\<close>

section \<open>Session transitions and actors\<close>

fun allowed_session_targets :: "talk_session_state \<Rightarrow> talk_session_state set" where
  "allowed_session_targets DRAFT = {OPEN}"
| "allowed_session_targets OPEN = {CLOSED}"
| "allowed_session_targets CLOSED = {PROCESSING}"
| "allowed_session_targets PROCESSING = {READY, NEEDS_ATTENTION}"
| "allowed_session_targets NEEDS_ATTENTION = {PROCESSING}"
| "allowed_session_targets READY = {}"

definition assert_session_transition ::
  "talk_session_state \<Rightarrow> talk_session_state \<Rightarrow> domain_error + unit" where
  "assert_session_transition cur target =
     require (target \<in> allowed_session_targets cur)
       (DomainSessionStateError (u ''cannot transition talk session '' @ session_state_value cur @
          u '' -> '' @ session_state_value target))
       (Inr ())"

definition require_open_session :: "talk_session_state \<Rightarrow> domain_error + unit" where
  "require_open_session st =
     require (st = OPEN)
       (DomainSessionStateError (u ''talk session must be open, got '' @ session_state_value st))
       (Inr ())"

definition assert_room_member :: "ustr \<Rightarrow> ustr list \<Rightarrow> domain_error + unit" where
  "assert_room_member actor members =
     require (\<not> is_blank actor) (DomainInvariantError (u ''actor_id must not be blank''))
     (require (actor \<in> set members) (ActorNotMemberError (u ''actor is not a room member''))
     (Inr ()))"

definition assert_host_actor :: "ustr \<Rightarrow> ustr \<Rightarrow> ustr list \<Rightarrow> domain_error + unit" where
  "assert_host_actor actor host members =
     and_then (assert_room_member actor members) (\<lambda>_.
     require (\<not> is_blank host) (DomainInvariantError (u ''host_user_id must not be blank''))
     (require (actor = host)
        (HostAuthorizationError (u ''only the room host may perform this action''))
     (Inr ())))"

text \<open>Membership first: what a non-member sees does not depend on who the host is.\<close>

lemma assert_host_actor_non_member:
  "actor \<notin> set members \<Longrightarrow> assert_host_actor actor host members = assert_host_actor actor host' members"
  by (simp add: assert_host_actor_def assert_room_member_def require_def)

section \<open>Closing a session\<close>

text \<open>
  The two dictionaries are association lists in insertion order; \<open>index_unique\<close> is the loop that
  builds one and raises on the first repeated key.
\<close>

fun index_unique :: "('r \<Rightarrow> ustr) \<Rightarrow> ustr \<Rightarrow> 'r list \<Rightarrow> (ustr \<times> 'r) list \<Rightarrow> domain_error + (ustr \<times> 'r) list" where
  "index_unique key msg [] acc = Inr acc"
| "index_unique key msg (r # rs) acc =
     (if key r \<in> fst ` set acc then Inl (DomainInvariantError (msg @ key r))
      else index_unique key msg rs (acc @ [(key r, r)]))"

definition ustr_join :: "ustr \<Rightarrow> ustr list \<Rightarrow> ustr" where
  "ustr_join sep xs = (case xs of [] \<Rightarrow> [] | x # rest \<Rightarrow> x @ concat (map (\<lambda>y. sep @ y) rest))"

definition close_decision :: "(ustr \<times> revision_status) list \<Rightarrow> (ustr \<times> close_exclusion) list \<Rightarrow> close_eligibility" where
  "close_decision revisions_by_id exclusions_by_id =
     (let ordered = sort (map fst revisions_by_id);
          excluded = (\<lambda>rid. rid \<in> fst ` set exclusions_by_id);
          ready = (\<lambda>rid. map_option rs_state (map_of revisions_by_id rid) = Some R_READY);
          blocking = filter (\<lambda>rid. \<not> ready rid \<and> \<not> excluded rid) ordered
      in \<lparr>eligible = (blocking = []),
          included_revision_ids = filter (\<lambda>rid. \<not> excluded rid \<and> ready rid) ordered,
          excluded_revision_ids = filter excluded ordered,
          blocking_revision_ids = blocking\<rparr>)"

definition evaluate_close_eligibility ::
  "revision_status list \<Rightarrow> close_exclusion list \<Rightarrow> domain_error + close_eligibility" where
  "evaluate_close_eligibility current_revisions exclusions =
     and_then (index_unique rs_revision_id (u ''duplicate current revision: '') current_revisions [])
       (\<lambda>revisions_by_id.
     and_then (index_unique ce_revision_id (u ''duplicate close exclusion: '') exclusions [])
       (\<lambda>exclusions_by_id.
     let unknown = sort (filter (\<lambda>x. x \<notin> fst ` set revisions_by_id) (map fst exclusions_by_id))
     in require (unknown = [])
          (DomainInvariantError (u ''close exclusions must reference current revisions: '' @
             ustr_join (u '', '') unknown))
          (Inr (close_decision revisions_by_id exclusions_by_id))))"

definition require_close_eligibility ::
  "revision_status list \<Rightarrow> close_exclusion list \<Rightarrow> domain_error + close_eligibility" where
  "require_close_eligibility current_revisions exclusions =
     and_then (evaluate_close_eligibility current_revisions exclusions) (\<lambda>decision.
     require (eligible decision) (CloseBlockedError (blocking_revision_ids decision))
       (Inr decision))"

lemma index_unique_Inr:
  "index_unique key msg rs acc = Inr res \<longleftrightarrow>
     distinct (map key rs) \<and> (\<forall>r \<in> set rs. key r \<notin> fst ` set acc) \<and>
     res = acc @ map (\<lambda>r. (key r, r)) rs"
  by (induction rs arbitrary: acc) (auto, metis image_eqI)

lemma index_unique_total:
  "distinct (map key rs) \<Longrightarrow> index_unique key msg rs [] = Inr (map (\<lambda>r. (key r, r)) rs)"
  by (simp add: index_unique_Inr)

lemma index_unique_dup:
  "\<not> distinct (map key rs) \<Longrightarrow> \<exists>m. index_unique key msg rs [] = Inl (DomainInvariantError m)"
proof -
  have "index_unique key msg rs acc = Inl e \<Longrightarrow> \<exists>m. e = DomainInvariantError m" for acc e
    by (induction rs arbitrary: acc) (auto split: if_splits)
  moreover assume "\<not> distinct (map key rs)"
  then have "\<nexists>res. index_unique key msg rs [] = Inr res" by (simp add: index_unique_Inr)
  then obtain e where "index_unique key msg rs [] = Inl e" by (cases "index_unique key msg rs []") auto
  ultimately show ?thesis by blast
qed

text \<open>The inputs the close invariant speaks of: one status per revision, one exclusion per revision.\<close>

definition close_inputs_ok :: "revision_status list \<Rightarrow> close_exclusion list \<Rightarrow> bool" where
  "close_inputs_ok revs excls \<longleftrightarrow>
     distinct (map rs_revision_id revs) \<and> distinct (map ce_revision_id excls) \<and>
     ce_revision_id ` set excls \<subseteq> rs_revision_id ` set revs"

lemma sort_Nil_iff: "sort xs = [] \<longleftrightarrow> xs = []"
  by (metis length_0_conv length_sort)

lemma map_of_keyed:
  "distinct (map key rs) \<Longrightarrow> map_of (map (\<lambda>r. (key r, r)) rs) k = find (\<lambda>r. key r = k) rs"
  by (induction rs) auto

lemma evaluate_Inr_iff:
  "evaluate_close_eligibility revs excls = Inr d \<longleftrightarrow>
     close_inputs_ok revs excls \<and>
     d = close_decision (map (\<lambda>r. (rs_revision_id r, r)) revs) (map (\<lambda>x. (ce_revision_id x, x)) excls)"
  by (auto simp: evaluate_close_eligibility_def close_inputs_ok_def and_then_Inr index_unique_Inr Let_def
      sort_Nil_iff filter_empty_conv image_image)

lemma evaluate_rejects:
  "\<not> close_inputs_ok revs excls \<Longrightarrow>
     \<exists>m. evaluate_close_eligibility revs excls = Inl (DomainInvariantError m)"
proof -
  assume bad: "\<not> close_inputs_ok revs excls"
  show ?thesis
  proof (cases "distinct (map rs_revision_id revs) \<and> distinct (map ce_revision_id excls)")
    case True
    with bad have "\<exists>x \<in> set excls. ce_revision_id x \<notin> rs_revision_id ` set revs"
      by (auto simp: close_inputs_ok_def)
    with True show ?thesis
      by (auto simp: evaluate_close_eligibility_def index_unique_total Let_def sort_Nil_iff
          filter_empty_conv image_image)
  next
    case False
    then show ?thesis
      using index_unique_dup [of rs_revision_id revs "u ''duplicate current revision: ''"]
        index_unique_dup [of ce_revision_id excls "u ''duplicate close exclusion: ''"]
      by (cases "distinct (map rs_revision_id revs)")
        (auto simp: evaluate_close_eligibility_def index_unique_total simp del: u_simps)
  qed
qed

lemma state_of_id:
  assumes "distinct (map rs_revision_id revs)" "r \<in> set revs"
  shows "map_of (map (\<lambda>r. (rs_revision_id r, r)) revs) (rs_revision_id r) = Some r"
  using assms by (simp add: map_of_keyed find_key_unique)

lemma decision_members:
  assumes ok: "close_inputs_ok revs excls"
  defines "d \<equiv> close_decision (map (\<lambda>r. (rs_revision_id r, r)) revs) (map (\<lambda>x. (ce_revision_id x, x)) excls)"
  shows "set (included_revision_ids d) =
           rs_revision_id ` {r \<in> set revs. rs_state r = R_READY \<and> rs_revision_id r \<notin> ce_revision_id ` set excls}"
    and "set (excluded_revision_ids d) = ce_revision_id ` set excls"
    and "set (blocking_revision_ids d) =
           rs_revision_id ` {r \<in> set revs. rs_state r \<noteq> R_READY \<and> rs_revision_id r \<notin> ce_revision_id ` set excls}"
  using ok state_of_id [of revs]
  by (auto simp: d_def close_decision_def close_inputs_ok_def Let_def image_image)

lemma decision_lists:
  "sorted (included_revision_ids (close_decision rm xm))"
  "sorted (excluded_revision_ids (close_decision rm xm))"
  "sorted (blocking_revision_ids (close_decision rm xm))"
  "eligible (close_decision rm xm) \<longleftrightarrow> blocking_revision_ids (close_decision rm xm) = []"
  by (simp_all add: close_decision_def Let_def sorted_wrt_filter)

lemma decision_distinct:
  assumes "close_inputs_ok revs excls"
  defines "d \<equiv> close_decision (map (\<lambda>r. (rs_revision_id r, r)) revs) (map (\<lambda>x. (ce_revision_id x, x)) excls)"
  shows "distinct (included_revision_ids d)" "distinct (excluded_revision_ids d)"
    "distinct (blocking_revision_ids d)"
  using assms by (simp_all add: close_decision_def close_inputs_ok_def Let_def comp_def)

lemmas evaluate_simps = evaluate_Inr_iff decision_members decision_lists decision_distinct

lemma require_close_Inr_iff:
  "require_close_eligibility revs excls = Inr d \<longleftrightarrow>
     evaluate_close_eligibility revs excls = Inr d \<and> blocking_revision_ids d = []"
proof -
  have "eligible d \<longleftrightarrow> blocking_revision_ids d = []" if "evaluate_close_eligibility revs excls = Inr d"
    using that by (auto simp: evaluate_Inr_iff decision_lists)
  then show ?thesis by (auto simp: require_close_eligibility_def and_then_Inr)
qed

text \<open>The decision does not depend on the order in which a repository returns the rows.\<close>

lemma close_decision_perm:
  assumes "mset revs = mset revs'" "set excls = set excls'" "distinct (map rs_revision_id revs)"
  shows "close_decision (map (\<lambda>r. (rs_revision_id r, r)) revs) (map (\<lambda>x. (ce_revision_id x, x)) excls) =
    close_decision (map (\<lambda>r. (rs_revision_id r, r)) revs') (map (\<lambda>x. (ce_revision_id x, x)) excls')"
proof -
  have d': "distinct (map rs_revision_id revs')"
    using assms(1,3) by (metis mset_map mset_eq_imp_distinct_iff)
  have ids: "sort (map rs_revision_id revs) = sort (map rs_revision_id revs')"
    by (rule properties_for_sort) (use assms(1) in \<open>auto simp: mset_map\<close>)
  have set_eq: "set revs = set revs'" using assms(1) by (metis set_mset_mset)
  have "map_of (map (\<lambda>r. (rs_revision_id r, r)) revs) = map_of (map (\<lambda>r. (rs_revision_id r, r)) revs')"
    using set_eq assms(3) d' by (intro map_of_eqI) (auto simp: comp_def image_image map_of_keyed find_key_unique)
  then show ?thesis using ids assms(2) by (simp add: close_decision_def comp_def image_image)
qed


section \<open>Projecting the generation runs\<close>

definition canonical_generation_kinds :: "generation_kind list" where
  "canonical_generation_kinds = [SUMMARY, RESEARCH]"

definition runs_of_kind :: "generation_run_view list \<Rightarrow> generation_kind \<Rightarrow> generation_run_view list" where
  "runs_of_kind runs k = filter (\<lambda>r. rv_kind r = k) runs"

definition run_count_reason :: "generation_run_view list \<Rightarrow> generation_kind \<Rightarrow> domain_error + aggregate_reason list" where
  "run_count_reason runs k =
     (let count = length (runs_of_kind runs k)
      in if count = 0 then
           map_result (\<lambda>c. make_aggregate_reason c (Some k) False) [u ''invariant_error_missing_run'']
         else if count > 1 then
           map_result (\<lambda>c. make_aggregate_reason c (Some k) False) [u ''invariant_error_duplicate_run'']
         else Inr [])"

definition canonical_run_invariant_reasons ::
  "generation_run_view list \<Rightarrow> domain_error + aggregate_reason list" where
  "canonical_run_invariant_reasons runs =
     and_then (map_result (run_count_reason runs) canonical_generation_kinds) (\<lambda>rs. Inr (concat rs))"

definition failure_reason :: "generation_run_view \<Rightarrow> domain_error + aggregate_reason" where
  "failure_reason r =
     (let fallback = generation_kind_value (rv_kind r) @ u ''_'' @ run_state_value (rv_state r);
          code = (case rv_error_code r of Some c \<Rightarrow> if c = [] then fallback else c | None \<Rightarrow> fallback)
      in make_aggregate_reason code (Some (rv_kind r)) (is_retryable_failure (rv_state r)))"

definition project_generation_aggregate ::
  "generation_run_view list \<Rightarrow> domain_error + generation_aggregate" where
  "project_generation_aggregate canonical_runs =
     and_then (canonical_run_invariant_reasons canonical_runs) (\<lambda>invariant_reasons.
     if invariant_reasons \<noteq> [] then
       Inr \<lparr>ga_state = NEEDS_ATTENTION, ga_reasons = invariant_reasons,
            ga_retry_available = False, ga_action = A_OPERATOR_OR_REPLAN\<rparr>
     else
       let runs = map (\<lambda>k. hd (runs_of_kind canonical_runs k)) canonical_generation_kinds
       in if list_all (\<lambda>r. rv_state r = G_SUCCEEDED) runs then
            Inr \<lparr>ga_state = READY, ga_reasons = [], ga_retry_available = False, ga_action = A_NONE\<rparr>
          else if list_ex (\<lambda>r. is_active (rv_state r)) runs then
            Inr \<lparr>ga_state = PROCESSING, ga_reasons = [], ga_retry_available = False, ga_action = A_NONE\<rparr>
          else
            and_then (map_result failure_reason (filter (\<lambda>r. is_failure (rv_state r)) runs))
              (\<lambda>failure_reasons.
               require (failure_reasons \<noteq> [])
                 (DomainInvariantError (u ''canonical generation runs cannot be projected''))
               (let retry = list_ex ar_retryable failure_reasons
                in Inr \<lparr>ga_state = NEEDS_ATTENTION, ga_reasons = failure_reasons,
                        ga_retry_available = retry,
                        ga_action = (if retry then A_RETRY else A_OPERATOR_OR_REPLAN)\<rparr>)))"

text \<open>Exactly one run of each kind: what the close transaction creates.\<close>

definition canonical_pair :: "generation_run_view list \<Rightarrow> bool" where
  "canonical_pair runs \<longleftrightarrow> (\<forall>k \<in> {SUMMARY, RESEARCH}. length (runs_of_kind runs k) = 1)"

lemma make_aggregate_reason_ok: "\<not> is_blank c \<Longrightarrow> make_aggregate_reason c k b = Inr \<lparr>ar_code = c, ar_kind = k, ar_retryable = b\<rparr>"
  by (simp add: make_aggregate_reason_def)

lemma failure_reason_total:
  "run_view_ok r \<Longrightarrow> \<exists>a. failure_reason r = Inr a \<and> ar_retryable a = is_retryable_failure (rv_state r) \<and>
     ar_kind a = Some (rv_kind r) \<and> (\<forall>c. rv_error_code r = Some c \<longrightarrow> ar_code a = c)"
  by (cases "rv_error_code r")
    (auto simp: failure_reason_def run_view_ok_def make_aggregate_reason_ok Let_def)

lemma run_count_reason_cases:
  "length (runs_of_kind runs k) = 1 \<Longrightarrow> run_count_reason runs k = Inr []"
  "length (runs_of_kind runs k) \<noteq> 1 \<Longrightarrow>
     \<exists>c. run_count_reason runs k = Inr [\<lparr>ar_code = c, ar_kind = Some k, ar_retryable = False\<rparr>]"
  by (simp add: run_count_reason_def Let_def)
    (cases "runs_of_kind runs k",
      auto simp: run_count_reason_def make_aggregate_reason_ok text_simps Let_def)

lemma invariant_reasons_canonical: "canonical_pair runs \<Longrightarrow> canonical_run_invariant_reasons runs = Inr []"
  by (simp add: canonical_pair_def canonical_run_invariant_reasons_def canonical_generation_kinds_def
      run_count_reason_cases)

lemma invariant_reasons_broken:
  assumes "\<not> canonical_pair runs"
  shows "\<exists>rs. canonical_run_invariant_reasons runs = Inr rs \<and> rs \<noteq> []"
proof -
  have "\<exists>rs. run_count_reason runs k = Inr rs \<and> (length (runs_of_kind runs k) = 1 \<longleftrightarrow> rs = [])" for k
    using run_count_reason_cases [of runs k] by (cases "length (runs_of_kind runs k) = 1") auto
  then obtain s r where "run_count_reason runs SUMMARY = Inr s" "run_count_reason runs RESEARCH = Inr r"
    "length (runs_of_kind runs SUMMARY) = 1 \<longleftrightarrow> s = []" "length (runs_of_kind runs RESEARCH) = 1 \<longleftrightarrow> r = []"
    by meson
  with assms show ?thesis
    by (auto simp: canonical_run_invariant_reasons_def canonical_generation_kinds_def canonical_pair_def)
qed

lemma project_broken:
  assumes "\<not> canonical_pair runs"
  shows "\<exists>rs. project_generation_aggregate runs =
    Inr \<lparr>ga_state = NEEDS_ATTENTION, ga_reasons = rs, ga_retry_available = False, ga_action = A_OPERATOR_OR_REPLAN\<rparr>
    \<and> rs \<noteq> []"
  using invariant_reasons_broken [OF assms] by (auto simp: project_generation_aggregate_def)

lemma canonical_pair_obtain:
  assumes "canonical_pair runs"
  obtains s r where "runs_of_kind runs SUMMARY = [s]" "runs_of_kind runs RESEARCH = [r]"
    "s \<in> set runs" "r \<in> set runs" "rv_kind s = SUMMARY" "rv_kind r = RESEARCH"
proof -
  from assms obtain s r where sr: "runs_of_kind runs SUMMARY = [s]" "runs_of_kind runs RESEARCH = [r]"
    by (auto simp: canonical_pair_def length_Suc_conv)
  then have "s \<in> set (runs_of_kind runs SUMMARY)" "r \<in> set (runs_of_kind runs RESEARCH)" by auto
  then show ?thesis using that sr by (auto simp: runs_of_kind_def)
qed

lemma canonical_pair_set:
  assumes "runs_of_kind runs SUMMARY = [s]" "runs_of_kind runs RESEARCH = [r]"
  shows "set runs = {s, r}"
proof -
  have "set runs = set (runs_of_kind runs SUMMARY) \<union> set (runs_of_kind runs RESEARCH)"
    using generation_kind.exhaust by (auto simp: runs_of_kind_def)
  then show ?thesis using assms by (simp add: insert_commute)
qed

lemma state_not_succeeded_not_active:
  "s \<noteq> G_SUCCEEDED \<Longrightarrow> \<not> is_active s \<Longrightarrow> is_failure s"
  by (cases s) (simp_all add: is_active_def is_failure_def)

text \<open>The whole decision table of a canonical pair.\<close>

lemma project_canonical:
  assumes pair: "runs_of_kind runs SUMMARY = [s]" "runs_of_kind runs RESEARCH = [r]"
    and ok: "run_view_ok s" "run_view_ok r"
  shows "\<exists>agg. project_generation_aggregate runs = Inr agg \<and>
    ga_state agg =
      (if rv_state s = G_SUCCEEDED \<and> rv_state r = G_SUCCEEDED then READY
       else if is_active (rv_state s) \<or> is_active (rv_state r) then PROCESSING
       else NEEDS_ATTENTION) \<and>
    (ga_retry_available agg \<longleftrightarrow>
       ga_state agg = NEEDS_ATTENTION \<and> (\<exists>x \<in> {s, r}. rv_state x = G_FAILED_RETRYABLE)) \<and>
    (ga_action agg =
       (if ga_retry_available agg then A_RETRY
        else if ga_state agg = NEEDS_ATTENTION then A_OPERATOR_OR_REPLAN else A_NONE)) \<and>
    (ga_reasons agg = [] \<longleftrightarrow> ga_state agg \<noteq> NEEDS_ATTENTION)"
proof -
  have inv: "canonical_run_invariant_reasons runs = Inr []"
    using pair by (intro invariant_reasons_canonical) (simp add: canonical_pair_def)
  from failure_reason_total [OF ok(1)] obtain a where
    a: "failure_reason s = Inr a" "ar_retryable a = is_retryable_failure (rv_state s)" by auto
  from failure_reason_total [OF ok(2)] obtain b where
    b: "failure_reason r = Inr b" "ar_retryable b = is_retryable_failure (rv_state r)" by auto
  show ?thesis
    using a b
    by (cases "rv_state s"; cases "rv_state r")
      (simp_all add: project_generation_aggregate_def inv canonical_generation_kinds_def pair Let_def
        is_active_def is_failure_def is_retryable_failure_def)
qed

lemma project_perm:
  assumes "mset runs = mset runs'" "canonical_pair runs"
  shows "project_generation_aggregate runs = project_generation_aggregate runs'"
proof -
  have eq: "mset (runs_of_kind runs k) = mset (runs_of_kind runs' k)" for k
    using assms(1) by (simp add: runs_of_kind_def mset_filter)
  then have same: "length (runs_of_kind runs k) = length (runs_of_kind runs' k)" for k
    by (metis size_mset)
  from assms(2) obtain s r where sr: "runs_of_kind runs SUMMARY = [s]" "runs_of_kind runs RESEARCH = [r]"
    by (rule canonical_pair_obtain)
  then have sr': "runs_of_kind runs' SUMMARY = [s]" "runs_of_kind runs' RESEARCH = [r]"
    using eq [of SUMMARY] eq [of RESEARCH] by (auto simp: mset_single_iff_right)
  show ?thesis
    using assms(2) same sr sr'
    by (simp add: project_generation_aggregate_def invariant_reasons_canonical canonical_pair_def
        canonical_generation_kinds_def)
qed

lemma close_partition_facts:
  assumes "evaluate_close_eligibility revs excls = Inr d"
  shows "set (included_revision_ids d) =
      rs_revision_id ` {r \<in> set revs. rs_state r = R_READY \<and> rs_revision_id r \<notin> ce_revision_id ` set excls}"
    and "set (excluded_revision_ids d) = ce_revision_id ` set excls"
    and "set (blocking_revision_ids d) =
      rs_revision_id ` {r \<in> set revs. rs_state r \<noteq> R_READY \<and> rs_revision_id r \<notin> ce_revision_id ` set excls}"
    and "eligible d \<longleftrightarrow> blocking_revision_ids d = []"
    and "sorted (included_revision_ids d) \<and> distinct (included_revision_ids d)"
    and "sorted (excluded_revision_ids d) \<and> distinct (excluded_revision_ids d)"
    and "sorted (blocking_revision_ids d) \<and> distinct (blocking_revision_ids d)"
proof -
  from assms have ok: "close_inputs_ok revs excls"
    and d: "d = close_decision (map (\<lambda>r. (rs_revision_id r, r)) revs) (map (\<lambda>x. (ce_revision_id x, x)) excls)"
    by (simp_all add: evaluate_Inr_iff)
  show "set (included_revision_ids d) =
      rs_revision_id ` {r \<in> set revs. rs_state r = R_READY \<and> rs_revision_id r \<notin> ce_revision_id ` set excls}"
    "set (excluded_revision_ids d) = ce_revision_id ` set excls"
    "set (blocking_revision_ids d) =
      rs_revision_id ` {r \<in> set revs. rs_state r \<noteq> R_READY \<and> rs_revision_id r \<notin> ce_revision_id ` set excls}"
    using decision_members [OF ok] by (simp_all add: d)
  show "eligible d \<longleftrightarrow> blocking_revision_ids d = []"
    "sorted (included_revision_ids d) \<and> distinct (included_revision_ids d)"
    "sorted (excluded_revision_ids d) \<and> distinct (excluded_revision_ids d)"
    "sorted (blocking_revision_ids d) \<and> distinct (blocking_revision_ids d)"
    using decision_distinct [OF ok] by (simp_all add: d decision_lists)
qed

lemma close_partition_cover:
  assumes ev: "evaluate_close_eligibility revs excls = Inr d"
  shows "rs_revision_id ` set revs =
      set (included_revision_ids d) \<union> set (excluded_revision_ids d) \<union> set (blocking_revision_ids d)"
    and "length revs = length (included_revision_ids d) + length (excluded_revision_ids d) +
      length (blocking_revision_ids d)"
proof -
  note f = close_partition_facts [OF ev]
  have ok: "close_inputs_ok revs excls" using ev by (simp add: evaluate_Inr_iff)
  then have inj: "inj_on rs_revision_id (set revs)" and len: "length revs = card (rs_revision_id ` set revs)"
    by (simp_all add: close_inputs_ok_def distinct_map card_image distinct_card)
  show all: "rs_revision_id ` set revs =
      set (included_revision_ids d) \<union> set (excluded_revision_ids d) \<union> set (blocking_revision_ids d)"
    using ok unfolding f(1-3) by (auto simp: close_inputs_ok_def)
  have "card (set (included_revision_ids d) \<union> set (excluded_revision_ids d) \<union> set (blocking_revision_ids d)) =
      card (set (included_revision_ids d)) + card (set (excluded_revision_ids d)) + card (set (blocking_revision_ids d))"
    using inj unfolding f(1-3) by (subst card_Un_disjoint | auto dest: inj_onD)+
  with len all show "length revs = length (included_revision_ids d) + length (excluded_revision_ids d) +
      length (blocking_revision_ids d)"
    using f(5-7) by (simp add: distinct_card)
qed

section \<open>Properties\<close>

text \<open>
  Closing splits the current revisions.  When the close policy accepts its inputs, every current
  revision is in exactly one of the three lists: the excluded ids are the ones the host named, the
  included ids the other ready ones, the blocking ids the other unready ones; the lists are sorted
  without repetition, and the session may close exactly when nothing blocks.
\<close>

theorem close_decision_partition:
  assumes "evaluate_close_eligibility revs excls = Inr d"
  shows "set (excluded_revision_ids d) = ce_revision_id ` set excls \<and>
    set (included_revision_ids d) =
      rs_revision_id ` {r \<in> set revs. rs_state r = R_READY \<and> rs_revision_id r \<notin> ce_revision_id ` set excls} \<and>
    set (blocking_revision_ids d) =
      rs_revision_id ` {r \<in> set revs. rs_state r \<noteq> R_READY \<and> rs_revision_id r \<notin> ce_revision_id ` set excls} \<and>
    rs_revision_id ` set revs =
      set (included_revision_ids d) \<union> set (excluded_revision_ids d) \<union> set (blocking_revision_ids d) \<and>
    length revs = length (included_revision_ids d) + length (excluded_revision_ids d) +
      length (blocking_revision_ids d) \<and>
    sorted (included_revision_ids d) \<and> distinct (included_revision_ids d) \<and>
    sorted (excluded_revision_ids d) \<and> distinct (excluded_revision_ids d) \<and>
    sorted (blocking_revision_ids d) \<and> distinct (blocking_revision_ids d) \<and>
    (eligible d \<longleftrightarrow> blocking_revision_ids d = [])"
  using close_partition_facts [OF assms] close_partition_cover [OF assms] by (intro conjI) simp_all

definition sample_revisions :: "revision_status list" where
  "sample_revisions =
     [\<lparr>rs_revision_id = u ''r2'', rs_state = R_FAILED\<rparr>, \<lparr>rs_revision_id = u ''r1'', rs_state = R_READY\<rparr>,
      \<lparr>rs_revision_id = u ''r3'', rs_state = R_READY\<rparr>]"

definition sample_exclusions :: "close_exclusion list" where
  "sample_exclusions = [\<lparr>ce_revision_id = u ''r2'', ce_reason = u ''bad scan''\<rparr>]"

definition sample_eligibility :: close_eligibility where
  "sample_eligibility =
     \<lparr>eligible = True, included_revision_ids = [u ''r1'', u ''r3''],
      excluded_revision_ids = [u ''r2''], blocking_revision_ids = []\<rparr>"

lemma sample_evaluates:
  "evaluate_close_eligibility sample_revisions sample_exclusions = Inr sample_eligibility"
  by code_simp

theorem close_decision_partition_witness:
  "rs_revision_id ` set sample_revisions =
     set (included_revision_ids sample_eligibility) \<union> set (excluded_revision_ids sample_eligibility) \<union>
     set (blocking_revision_ids sample_eligibility)"
  using close_decision_partition [OF sample_evaluates] by blast

text \<open>
  The close policy decides every input.  It raises \<open>DomainInvariantError\<close> exactly when a revision
  or an exclusion is repeated or an exclusion names no current revision; on valid inputs it raises
  \<open>CloseBlockedError\<close> with the sorted unready unexcluded ids exactly when there is one; otherwise it
  returns the decision.
\<close>

theorem close_policy_outcomes:
  "(\<not> close_inputs_ok revs excls \<longleftrightarrow>
      (\<exists>m. require_close_eligibility revs excls = Inl (DomainInvariantError m))) \<and>
   (close_inputs_ok revs excls \<longleftrightarrow>
      (\<exists>d. evaluate_close_eligibility revs excls = Inr d \<and>
         require_close_eligibility revs excls =
           (if blocking_revision_ids d = [] then Inr d else Inl (CloseBlockedError (blocking_revision_ids d)))))"
proof (cases "close_inputs_ok revs excls")
  case True
  then obtain d where ev: "evaluate_close_eligibility revs excls = Inr d" by (auto simp: evaluate_Inr_iff)
  then have "require_close_eligibility revs excls =
      (if blocking_revision_ids d = [] then Inr d else Inl (CloseBlockedError (blocking_revision_ids d)))"
    using close_partition_facts(4) [OF ev] by (simp add: require_close_eligibility_def require_def)
  with True ev show ?thesis by auto
next
  case False
  then obtain m where m: "evaluate_close_eligibility revs excls = Inl (DomainInvariantError m)"
    using evaluate_rejects by blast
  then have "require_close_eligibility revs excls = Inl (DomainInvariantError m)"
    by (simp add: require_close_eligibility_def)
  with False m show ?thesis by simp
qed

text \<open>
  The close decision is deterministic.  It does not depend on the order in which the current
  revisions or the exclusions are supplied.
\<close>

theorem close_decision_order_irrelevant:
  assumes "mset revs = mset revs'" "mset excls = mset excls'"
    and "evaluate_close_eligibility revs excls = Inr d"
  shows "evaluate_close_eligibility revs' excls' = Inr d"
proof -
  from assms have ok: "close_inputs_ok revs excls" by (simp add: evaluate_Inr_iff)
  have "close_inputs_ok revs' excls'"
    using ok assms(1,2) unfolding close_inputs_ok_def
    by (metis mset_eq_imp_distinct_iff mset_map set_mset_mset)
  moreover have "set excls = set excls'" using assms(2) by (metis set_mset_mset)
  ultimately show ?thesis
    using assms ok close_decision_perm [of revs revs' excls excls']
    by (simp add: evaluate_Inr_iff close_inputs_ok_def)
qed

theorem close_decision_order_irrelevant_witness:
  "evaluate_close_eligibility (rev sample_revisions) (rev sample_exclusions) = Inr sample_eligibility"
  by (rule close_decision_order_irrelevant [OF _ _ sample_evaluates]) (simp_all add: sample_revisions_def sample_exclusions_def)

text \<open>
  The aggregate is total and follows the two-kind table.  For every list of run views the code can
  construct, the projection returns: READY exactly when there is one run of each kind and both
  succeeded; PROCESSING exactly when there is one of each and one is still active (and not both
  succeeded); NEEDS_ATTENTION otherwise, with RETRY offered exactly when one of the pair failed
  retryably.
\<close>

theorem aggregate_decision_table:
  assumes "list_all run_view_ok runs"
  shows "\<exists>agg. project_generation_aggregate runs = Inr agg \<and>
    (ga_state agg = READY \<longleftrightarrow> canonical_pair runs \<and> list_all (\<lambda>r. rv_state r = G_SUCCEEDED) runs) \<and>
    (ga_state agg = PROCESSING \<longleftrightarrow> canonical_pair runs \<and> list_ex (\<lambda>r. is_active (rv_state r)) runs) \<and>
    (ga_state agg \<in> {READY, PROCESSING, NEEDS_ATTENTION}) \<and>
    (ga_retry_available agg \<longleftrightarrow> canonical_pair runs \<and> ga_state agg = NEEDS_ATTENTION \<and>
       list_ex (\<lambda>r. rv_state r = G_FAILED_RETRYABLE) runs) \<and>
    ga_action agg =
      (if ga_retry_available agg then A_RETRY
       else if ga_state agg = NEEDS_ATTENTION then A_OPERATOR_OR_REPLAN else A_NONE) \<and>
    (ga_reasons agg = [] \<longleftrightarrow> ga_state agg \<noteq> NEEDS_ATTENTION)"
proof (cases "canonical_pair runs")
  case True
  then obtain s r where sr: "runs_of_kind runs SUMMARY = [s]" "runs_of_kind runs RESEARCH = [r]"
    "s \<in> set runs" "r \<in> set runs" by (rule canonical_pair_obtain)
  note all = canonical_pair_set [OF sr(1,2)]
  have "run_view_ok s" "run_view_ok r" using assms sr(3,4) by (simp_all add: list_all_iff)
  from project_canonical [OF sr(1,2) this]
  obtain agg where agg: "project_generation_aggregate runs = Inr agg"
    "ga_state agg =
      (if rv_state s = G_SUCCEEDED \<and> rv_state r = G_SUCCEEDED then READY
       else if is_active (rv_state s) \<or> is_active (rv_state r) then PROCESSING else NEEDS_ATTENTION)"
    "ga_retry_available agg \<longleftrightarrow>
       ga_state agg = NEEDS_ATTENTION \<and> (\<exists>x \<in> {s, r}. rv_state x = G_FAILED_RETRYABLE)"
    "ga_action agg = (if ga_retry_available agg then A_RETRY
        else if ga_state agg = NEEDS_ATTENTION then A_OPERATOR_OR_REPLAN else A_NONE)"
    "ga_reasons agg = [] \<longleftrightarrow> ga_state agg \<noteq> NEEDS_ATTENTION"
    by blast
  have "is_active G_SUCCEEDED = False" by (simp add: is_active_def)
  with True all show ?thesis
    by (intro exI [of _ agg] conjI agg(1,4,5)) (auto simp: agg(2,3) list_all_iff list_ex_iff split: if_splits)
next
  case False
  from project_broken [OF False] obtain rs where
    rs: "project_generation_aggregate runs =
      Inr \<lparr>ga_state = NEEDS_ATTENTION, ga_reasons = rs, ga_retry_available = False,
           ga_action = A_OPERATOR_OR_REPLAN\<rparr>" "rs \<noteq> []" by blast
  show ?thesis
    by (rule exI, rule conjI, rule rs(1)) (use False rs(2) in simp)
qed

theorem aggregate_decision_table_witness:
  "\<exists>agg. project_generation_aggregate
      [\<lparr>rv_kind = RESEARCH, rv_state = G_FAILED_RETRYABLE, rv_error_code = Some (u ''timeout'')\<rparr>,
       \<lparr>rv_kind = SUMMARY, rv_state = G_SUCCEEDED, rv_error_code = None\<rparr>] = Inr agg \<and>
     ga_state agg = NEEDS_ATTENTION \<and> ga_action agg = A_RETRY"
proof -
  let ?runs = "[\<lparr>rv_kind = RESEARCH, rv_state = G_FAILED_RETRYABLE, rv_error_code = Some (u ''timeout'')\<rparr>,
       \<lparr>rv_kind = SUMMARY, rv_state = G_SUCCEEDED, rv_error_code = None\<rparr>]"
  have ok: "list_all run_view_ok ?runs" by (simp add: run_view_ok_def text_simps)
  have pair: "canonical_pair ?runs" by (simp add: canonical_pair_def runs_of_kind_def)
  from aggregate_decision_table [OF ok] obtain agg where
    agg: "project_generation_aggregate ?runs = Inr agg"
      "ga_state agg = READY \<longleftrightarrow> canonical_pair ?runs \<and> list_all (\<lambda>r. rv_state r = G_SUCCEEDED) ?runs"
      "ga_state agg = PROCESSING \<longleftrightarrow> canonical_pair ?runs \<and> list_ex (\<lambda>r. is_active (rv_state r)) ?runs"
      "ga_state agg \<in> {READY, PROCESSING, NEEDS_ATTENTION}"
      "ga_retry_available agg \<longleftrightarrow> canonical_pair ?runs \<and> ga_state agg = NEEDS_ATTENTION \<and>
         list_ex (\<lambda>r. rv_state r = G_FAILED_RETRYABLE) ?runs"
      "ga_action agg = (if ga_retry_available agg then A_RETRY
         else if ga_state agg = NEEDS_ATTENTION then A_OPERATOR_OR_REPLAN else A_NONE)"
    by blast
  have "ga_state agg \<noteq> READY" unfolding agg(2) by simp
  moreover have "ga_state agg \<noteq> PROCESSING" unfolding agg(3) by (simp add: is_active_def)
  ultimately have st: "ga_state agg = NEEDS_ATTENTION" using agg(4) by blast
  then have "ga_retry_available agg" unfolding agg(5) using pair by simp
  with agg(1,6) st show ?thesis by auto
qed

text \<open>
  The projection does not depend on the order in which the repository returns the runs, and from a
  session in PROCESSING it leads only along the session state graph (or stays).
\<close>

theorem aggregate_projection_follows_graph:
  assumes "list_all run_view_ok runs" and "mset runs = mset runs'" and "canonical_pair runs"
  shows "\<exists>agg. project_generation_aggregate runs = Inr agg \<and> project_generation_aggregate runs' = Inr agg \<and>
    (ga_state agg = PROCESSING \<or> ga_state agg \<in> allowed_session_targets PROCESSING)"
proof -
  from assms(3) obtain s r where sr: "runs_of_kind runs SUMMARY = [s]" "runs_of_kind runs RESEARCH = [r]"
    "s \<in> set runs" "r \<in> set runs" by (rule canonical_pair_obtain)
  with assms(1) have "run_view_ok s" "run_view_ok r" by (simp_all add: list_all_iff)
  from project_canonical [OF sr(1,2) this] show ?thesis
    using project_perm [OF assms(2,3)] by (auto split: if_splits)
qed

theorem aggregate_projection_follows_graph_witness:
  "\<exists>agg. project_generation_aggregate
      [\<lparr>rv_kind = RESEARCH, rv_state = G_RUNNING, rv_error_code = None\<rparr>,
       \<lparr>rv_kind = SUMMARY, rv_state = G_SUCCEEDED, rv_error_code = None\<rparr>] = Inr agg \<and>
     (ga_state agg = PROCESSING \<or> ga_state agg \<in> allowed_session_targets PROCESSING)"
proof -
  let ?runs = "[\<lparr>rv_kind = RESEARCH, rv_state = G_RUNNING, rv_error_code = None\<rparr>,
       \<lparr>rv_kind = SUMMARY, rv_state = G_SUCCEEDED, rv_error_code = None\<rparr>]"
  have ok: "list_all run_view_ok ?runs" by (simp add: run_view_ok_def)
  have pair: "canonical_pair ?runs" by (simp add: canonical_pair_def runs_of_kind_def)
  show ?thesis using aggregate_projection_follows_graph [OF ok refl pair] by blast
qed

end
