(* ===== verification/Domain_Queue.thy ===== *)
theory Domain_Queue
  imports Domain_Models
begin

text \<open>
  \<open>apps/api/app/domain/queue.py\<close>: pure construction of the compare-and-set intents of the queue.
  A \<open>timedelta\<close> is its number of microseconds.  \<open>apply_claim\<close> and \<open>apply_completion\<close> are not code: they
  say what a repository that honours an intent does to the persisted row, and serve as the abstract
  specification of fencing.
\<close>

definition completion_states :: "job_state set" where
  "completion_states = {J_SUCCEEDED, J_FAILED_RETRYABLE, J_FAILED_TERMINAL}"

definition require_aware :: "ustr \<Rightarrow> py_datetime \<Rightarrow> domain_error + unit" where
  "require_aware field_name value =
     require (dt_aware value) (DomainInvariantError (field_name @ u '' must be timezone-aware'')) (Inr ())"

definition require_positive_duration :: "int \<Rightarrow> domain_error + unit" where
  "require_positive_duration d =
     require (0 < d) (DomainInvariantError (u ''lease_duration must be positive'')) (Inr ())"

definition dt_add :: "py_datetime \<Rightarrow> int \<Rightarrow> py_datetime" where
  "dt_add t d = t\<lparr>dt_instant := dt_instant t + d\<rparr>"

text \<open>\<open>hmac.compare_digest\<close> on two strings: equality, but only ASCII strings are accepted.\<close>

definition compare_digest :: "ustr \<Rightarrow> ustr \<Rightarrow> domain_error + bool" where
  "compare_digest a b =
     require (list_all (\<lambda>c. c < 128) a \<and> list_all (\<lambda>c. c < 128) b)
       (PyTypeError (u ''comparing strings with non-ASCII characters is not supported''))
       (Inr (a = b))"

definition build_claim_intent ::
  "job_lease_view \<Rightarrow> ustr \<Rightarrow> ustr \<Rightarrow> py_datetime \<Rightarrow> int \<Rightarrow> domain_error + job_claim_intent" where
  "build_claim_intent job owner_id new_lease_token database_now lease_duration =
     and_then (require_identifier (u ''owner_id'') owner_id) (\<lambda>_.
     and_then (require_identifier (u ''new_lease_token'') new_lease_token) (\<lambda>_.
     and_then (require_aware (u ''database_now'') database_now) (\<lambda>_.
     and_then (require_positive_duration lease_duration) (\<lambda>_.
     and_then
       (case (jl_state job, jl_lease_until job) of
          (J_PENDING, _) \<Rightarrow> Inr False
        | (J_RUNNING, Some lease_until) \<Rightarrow>
            and_then (require_aware (u ''job.lease_until'') lease_until) (\<lambda>_.
            require (\<not> dt_instant lease_until > dt_instant database_now)
              (JobNotClaimableError (u ''running job lease has not expired''))
              (Inr True))
        | _ \<Rightarrow> Inl (JobNotClaimableError (u ''job in '' @ job_state_value (jl_state job) @
                  u '' cannot be claimed without an explicit requeue'')))
       (\<lambda>reclaimed_expired_lease.
     Inr \<lparr>ci_job_id = jl_job_id job, ci_expected_state = jl_state job,
          ci_expected_lease_generation = jl_lease_generation job,
          ci_expected_lease_token = jl_lease_token job, ci_owner_id = owner_id,
          ci_lease_generation = jl_lease_generation job + 1, ci_lease_token = new_lease_token,
          ci_lease_until = dt_add database_now lease_duration,
          ci_reclaimed = reclaimed_expired_lease\<rparr>)))))"

definition assert_current_lease :: "job_lease_view \<Rightarrow> int \<Rightarrow> ustr \<Rightarrow> domain_error + unit" where
  "assert_current_lease job lease_generation lease_token =
     require (\<not> lease_generation < 1) (DomainStaleLeaseError (u ''lease generation must be positive''))
     (and_then (require_identifier (u ''lease_token'') lease_token) (\<lambda>_.
      let stale = DomainStaleLeaseError (u ''job lease generation or token is stale'')
      in if jl_state job \<noteq> J_RUNNING \<or> jl_lease_generation job \<noteq> lease_generation then Inl stale
         else case jl_lease_token job of
                None \<Rightarrow> Inl stale
              | Some t \<Rightarrow> and_then (compare_digest t lease_token) (\<lambda>same. require same stale (Inr ()))))"

definition build_heartbeat_intent ::
  "job_lease_view \<Rightarrow> int \<Rightarrow> ustr \<Rightarrow> py_datetime \<Rightarrow> int \<Rightarrow> domain_error + job_heartbeat_intent" where
  "build_heartbeat_intent job lease_generation lease_token database_now lease_duration =
     and_then (assert_current_lease job lease_generation lease_token) (\<lambda>_.
     and_then (require_aware (u ''database_now'') database_now) (\<lambda>_.
     and_then (require_positive_duration lease_duration) (\<lambda>_.
     Inr \<lparr>hi_job_id = jl_job_id job, hi_lease_generation = lease_generation,
          hi_lease_token = lease_token, hi_lease_until = dt_add database_now lease_duration\<rparr>)))"

definition build_completion_intent ::
  "job_lease_view \<Rightarrow> int \<Rightarrow> ustr \<Rightarrow> job_state \<Rightarrow> domain_error + job_completion_intent" where
  "build_completion_intent job lease_generation lease_token target_state =
     and_then (assert_current_lease job lease_generation lease_token) (\<lambda>_.
     require (target_state \<in> completion_states)
       (DomainInvariantError
          (u ''completion target must be succeeded, failed_retryable, or failed_terminal''))
       (Inr \<lparr>co_job_id = jl_job_id job, co_lease_generation = lease_generation,
             co_lease_token = lease_token, co_target_state = target_state\<rparr>))"

definition build_requeue_intent :: "job_lease_view \<Rightarrow> domain_error + job_requeue_intent" where
  "build_requeue_intent job =
     require (jl_state job = J_FAILED_RETRYABLE)
       (DomainInvariantError (u ''only failed_retryable jobs may be requeued''))
       (Inr \<lparr>ri_job_id = jl_job_id job, ri_expected_lease_generation = jl_lease_generation job\<rparr>)"

section \<open>The row a repository leaves when it honours an intent\<close>

definition apply_claim :: "job_claim_intent \<Rightarrow> job_lease_view \<Rightarrow> job_lease_view" where
  "apply_claim i job = job\<lparr>jl_state := J_RUNNING, jl_lease_generation := ci_lease_generation i,
     jl_lease_token := Some (ci_lease_token i), jl_lease_until := Some (ci_lease_until i)\<rparr>"

definition apply_heartbeat :: "job_heartbeat_intent \<Rightarrow> job_lease_view \<Rightarrow> job_lease_view" where
  "apply_heartbeat i job = job\<lparr>jl_lease_until := Some (hi_lease_until i)\<rparr>"

definition apply_completion :: "job_completion_intent \<Rightarrow> job_lease_view \<Rightarrow> job_lease_view" where
  "apply_completion i job =
     job\<lparr>jl_state := co_target_state i, jl_lease_token := None, jl_lease_until := None\<rparr>"

definition apply_requeue :: "job_requeue_intent \<Rightarrow> job_lease_view \<Rightarrow> job_lease_view" where
  "apply_requeue i job = job\<lparr>jl_state := J_PENDING\<rparr>"

lemmas intent_defs =
  build_claim_intent_def build_heartbeat_intent_def build_completion_intent_def build_requeue_intent_def
  assert_current_lease_def require_identifier_def require_aware_def require_positive_duration_def
  compare_digest_def

lemma claim_intent_iff:
  "(\<exists>i. build_claim_intent job owner tok now d = Inr i) \<longleftrightarrow>
     \<not> is_blank owner \<and> \<not> is_blank tok \<and> dt_aware now \<and> 0 < d \<and>
     (jl_state job = J_PENDING \<or>
      (\<exists>until. jl_state job = J_RUNNING \<and> jl_lease_until job = Some until \<and> dt_aware until \<and>
         dt_instant until \<le> dt_instant now))"
  by (cases "jl_state job"; cases "jl_lease_until job")
    (auto simp: intent_defs and_then_Inr and_then_Inl not_less)

lemma claim_intent_Inr:
  "build_claim_intent job owner tok now d = Inr i \<Longrightarrow>
     ci_job_id i = jl_job_id job \<and> ci_lease_generation i = jl_lease_generation job + 1 \<and>
     ci_lease_token i = tok \<and> ci_lease_until i = dt_add now d \<and> \<not> is_blank tok \<and>
     ci_expected_lease_generation i = jl_lease_generation job \<and> ci_expected_state i = jl_state job \<and>
     ci_reclaimed i = (jl_state job = J_RUNNING)"
  by (cases "jl_state job"; cases "jl_lease_until job") (auto simp: intent_defs and_then_Inr)

lemma current_lease_Inr:
  "assert_current_lease job g tok = Inr () \<longleftrightarrow>
     1 \<le> g \<and> \<not> is_blank tok \<and> jl_state job = J_RUNNING \<and> jl_lease_generation job = g \<and>
     jl_lease_token job = Some tok \<and> list_all (\<lambda>c. c < 128) tok"
  by (cases "jl_lease_token job") (auto simp: intent_defs and_then_Inr Let_def)

section \<open>Properties\<close>

text \<open>
  A claim fences every earlier lease.  Once a repository has applied a claim intent, no heartbeat
  and no completion intent can be built with a generation that existed before the claim, whatever the
  token; the claimed row satisfies the class invariant and its own lease is accepted.
\<close>

theorem claim_fences_earlier_leases:
  assumes "build_claim_intent job owner tok now d = Inr i"
    and "job_lease_view_ok job" and "g \<le> jl_lease_generation job"
  shows "(\<nexists>h. build_heartbeat_intent (apply_claim i job) g t now' d' = Inr h) \<and>
    (\<nexists>c. build_completion_intent (apply_claim i job) g t s = Inr c) \<and>
    job_lease_view_ok (apply_claim i job) \<and>
    (list_all (\<lambda>c. c < 128) tok \<longrightarrow>
       assert_current_lease (apply_claim i job) (jl_lease_generation job + 1) tok = Inr ())"
  using assms claim_intent_Inr [OF assms(1)]
  by (auto simp: build_heartbeat_intent_def build_completion_intent_def and_then_Inr
      current_lease_Inr apply_claim_def job_lease_view_ok_def)

definition sample_job :: job_lease_view where
  "sample_job = \<lparr>jl_job_id = u ''j'', jl_state = J_RUNNING, jl_lease_generation = 3,
     jl_lease_token = Some (u ''old''), jl_lease_until = Some \<lparr>dt_instant = 100, dt_aware = True\<rparr>\<rparr>"

lemma sample_claim:
  "\<exists>i. build_claim_intent sample_job (u ''w'') (u ''new'') \<lparr>dt_instant = 100, dt_aware = True\<rparr> 60 = Inr i"
  by (simp add: claim_intent_iff sample_job_def text_simps)

theorem claim_fences_earlier_leases_witness:
  "\<exists>i. build_claim_intent sample_job (u ''w'') (u ''new'') \<lparr>dt_instant = 100, dt_aware = True\<rparr> 60 = Inr i \<and>
     (\<nexists>c. build_completion_intent (apply_claim i sample_job) 3 (u ''old'') J_SUCCEEDED = Inr c)"
proof -
  obtain i where i: "build_claim_intent sample_job (u ''w'') (u ''new'')
      \<lparr>dt_instant = 100, dt_aware = True\<rparr> 60 = Inr i" using sample_claim by blast
  have "job_lease_view_ok sample_job" by (simp add: job_lease_view_ok_def sample_job_def text_simps)
  from claim_fences_earlier_leases [OF i this, of 3] i show ?thesis by (auto simp: sample_job_def)
qed

text \<open>
  A completed lease is over.  After the worker that holds generation \<open>g\<close> completes its job, the
  row keeps generation \<open>g\<close> but the same worker no longer holds it, nobody can claim it, and a requeue
  can be built exactly when the job failed retryably; the claim after that requeue gets generation
  \<open>g + 1\<close>, so no generation is ever used twice.
\<close>

theorem lease_life_cycle:
  assumes "assert_current_lease job g t = Inr ()"
    and "build_completion_intent job g t s = Inr c"
  shows "jl_lease_generation (apply_completion c job) = g \<and>
    build_claim_intent (apply_completion c job) owner tok now d \<noteq> Inr i \<and>
    assert_current_lease (apply_completion c job) g t \<noteq> Inr () \<and>
    ((\<exists>r. build_requeue_intent (apply_completion c job) = Inr r) \<longleftrightarrow> s = J_FAILED_RETRYABLE) \<and>
    (\<forall>r j. build_requeue_intent (apply_completion c job) = Inr r \<longrightarrow>
       build_claim_intent (apply_requeue r (apply_completion c job)) owner tok now d = Inr j \<longrightarrow>
       ci_lease_generation j = g + 1)"
proof -
  have c: "co_target_state c = s" "s \<in> completion_states"
    using assms(2) by (auto simp: build_completion_intent_def and_then_Inr)
  have s: "s \<noteq> J_PENDING" "s \<noteq> J_RUNNING" using c(2) by (auto simp: completion_states_def)
  have "build_claim_intent (apply_completion c job) owner tok now d \<noteq> Inr i"
    using claim_intent_iff [of "apply_completion c job" owner tok now d] s c(1)
    by (auto simp: apply_completion_def)
  moreover have "jl_lease_generation job = g" using assms(1) by (simp add: current_lease_Inr)
  ultimately show ?thesis
    using c s by (auto simp: current_lease_Inr apply_completion_def apply_requeue_def build_requeue_intent_def
        dest: claim_intent_Inr)
qed

theorem lease_life_cycle_witness:
  "\<exists>c. build_completion_intent sample_job 3 (u ''old'') J_FAILED_RETRYABLE = Inr c \<and>
     (\<exists>r. build_requeue_intent (apply_completion c sample_job) = Inr r) \<and>
     assert_current_lease (apply_completion c sample_job) 3 (u ''old'') \<noteq> Inr ()"
proof -
  have cur: "assert_current_lease sample_job 3 (u ''old'') = Inr ()"
    by (simp add: current_lease_Inr sample_job_def text_simps)
  then obtain c where c: "build_completion_intent sample_job 3 (u ''old'') J_FAILED_RETRYABLE = Inr c"
    by (auto simp: build_completion_intent_def completion_states_def)
  from lease_life_cycle [OF cur c] c show ?thesis by blast
qed

end
