(* ===== verification/Errors.thy ===== *)
theory Errors
  imports Domain_Models
begin

text \<open>
  The exceptions the application services raise, one constructor per Python class; the argument is the
  message.  \<open>PgError\<close> is a constraint violation reported by PostgreSQL, \<open>DomainError\<close> an exception of
  the domain package.
\<close>

datatype app_error =
    QueueInvariantError ustr
  | StaleLeaseError ustr
  | PgError pg_error
  | DomainError domain_error
  | ValueError ustr
  | PermissionError ustr
  | RuntimeErr ustr
  | KeyError ustr
  | SessionAccessError ustr
  | SessionHostRequiredError ustr
  | SessionStateError ustr
  | ExtractionRunMissingError "uuid list"
  | ExtractionAnchorSchemaMismatchError ustr
  | SessionRetryAccessError ustr
  | SessionRetryHostRequiredError ustr
  | SessionRetryUnavailableError ustr
  | GenerationRepositoryError ustr
  | GenerationRunnerError ustr
  | GenerationDocumentUnavailableError ustr
  | MergedDocumentAccessError ustr
  | MergedDocumentStaleVersionError ustr
  | CommentReplayConflictError ustr
  | CollaborationError ustr
  | CollaborationAccessError ustr
  | CollaborationHostRequiredError ustr
  | FriendshipRequiredError ustr
  | FriendshipConflictError ustr
  | FriendshipStateError ustr
  | UserUnavailableError ustr
  | SessionUnavailableError ustr
  | StaleProfileVersionError ustr
  | ProfileInvariantError ustr
  | InvalidCursorError ustr
  | DataError ustr \<comment> \<open>\<open>psycopg.DataError\<close>\<close>
  | OSErr ustr \<comment> \<open>\<open>OSError\<close>\<close>
  | TextSubmissionError ustr
  | TextSubmissionAccessError ustr
  | TextSubmissionOwnerError ustr
  | TextSubmissionStateError ustr
  | TextSubmissionLimitError ustr
  | TextViewerUnavailableError ustr
  | FileSubmissionError ustr
  | FileSubmissionValidationError ustr
  | FileSubmissionAccessError ustr
  | FileSubmissionStateError ustr
  | FileSubmissionLimitError ustr
  | InvalidCredentialsError ustr
  | SessionAuthenticationError ustr
  | EmailAlreadyRegisteredError ustr
  | RegistrationValidationError ustr
  | UntrustedOriginalHostError ustr
  | UntrustedOriginError ustr
  | MissingCsrfTokenError ustr
  | InvalidCsrfTokenError ustr
  | DocumentComparisonAccessError ustr
  | ReportSuggestionAccessError ustr
  | ReportSuggestionStateError ustr
  | AutomaticSuggestionRunnerError ustr
  | CitationUnavailableError ustr
  | CitationResolverInvariantError ustr
  | RunnerFailure ustr bool \<comment> \<open>\<open>_RunnerFailure(code, retryable)\<close>\<close>
  | ExtractionSourceError ustr bool
  | GenerationProviderFailure ustr bool
  | SummaryGroundingError ustr ustr \<comment> \<open>code and detail\<close>

text \<open>Run a domain policy inside a service: its exception propagates.\<close>

definition lift_domain :: "domain_error + 'a \<Rightarrow> app_error + 'a" where
  "lift_domain r = (case r of Inl e \<Rightarrow> Inl (DomainError e) | Inr v \<Rightarrow> Inr v)"

lemma lift_domain_simps [simp]:
  "lift_domain (Inl e) = Inl (DomainError e)"
  "lift_domain (Inr v) = Inr v"
  by (simp_all add: lift_domain_def)

lemma lift_domain_Inr [simp]: "lift_domain r = Inr v \<longleftrightarrow> r = Inr v"
  by (cases r) simp_all

definition lift_pg :: "pg_error + 'a \<Rightarrow> app_error + 'a" where
  "lift_pg r = (case r of Inl e \<Rightarrow> Inl (PgError e) | Inr v \<Rightarrow> Inr v)"

lemma lift_pg_Inr [simp]: "lift_pg r = Inr v \<longleftrightarrow> r = Inr v"
  by (cases r) (simp_all add: lift_pg_def)

end
