(* ===== verification/Json.thy ===== *)
theory Json
  imports Prelude "HOL-Library.Multiset"
begin

text \<open>
  JSON values as Python's \<open>json\<close> module handles them, and the canonical encoding the repositories hash:
  \<open>json.dumps(value, allow_nan=False, ensure_ascii=False, separators=(",", ":"), sort_keys=True)\<close>
  followed by \<open>.encode("utf-8")\<close> (\<open>queue_repository.canonical_json_bytes\<close> and
  \<open>generation_repository._canonical_json_bytes\<close>).  A dictionary is an association list in insertion
  order with distinct keys; a float is represented by its \<open>repr\<close>.
\<close>

datatype json =
    JNull
  | JBool bool
  | JInt int
  | JFloat ustr
  | JStr ustr
  | JList "json list"
  | JObj "(ustr \<times> json) list"

definition get_key :: "(ustr \<times> json) list \<Rightarrow> ustr \<Rightarrow> json option" where
  "get_key kvs k = map_of kvs k"

fun json_string :: "json \<Rightarrow> ustr option" where
  "json_string (JStr s) = Some s"
| "json_string _ = None"

text \<open>\<open>isinstance(d.get(k), str)\<close> and its value.\<close>

definition get_str :: "(ustr \<times> json) list \<Rightarrow> ustr \<Rightarrow> ustr option" where
  "get_str kvs k = Option.bind (get_key kvs k) json_string"

section \<open>Serialization\<close>

text \<open>One character of a JSON string with \<open>ensure_ascii=False\<close>.\<close>

definition escape_char :: "nat \<Rightarrow> ustr" where
  "escape_char c =
     (if c = 34 then [92, 34] else if c = 92 then [92, 92]
      else if c = 10 then [92, 110] else if c = 13 then [92, 114] else if c = 9 then [92, 116]
      else if c = 8 then [92, 98] else if c = 12 then [92, 102]
      else if c < 32 then [92, 117] @ hex_pad 4 c
      else [c])"

definition quote_text :: "ustr \<Rightarrow> ustr" where
  "quote_text s = [34] @ concat (map escape_char s) @ [34]"

definition comma_join :: "ustr list \<Rightarrow> ustr" where
  "comma_join xs = (case xs of [] \<Rightarrow> [] | x # rest \<Rightarrow> x @ concat (map (\<lambda>y. 44 # y) rest))"

definition dump_members :: "(ustr \<times> ustr) list \<Rightarrow> ustr" where
  "dump_members ms =
     [123] @ comma_join (map (\<lambda>(k, v). quote_text k @ [58] @ v) (sort_key fst ms)) @ [125]"

fun dump :: "json \<Rightarrow> ustr" where
  "dump JNull = u ''null''"
| "dump (JBool b) = (if b then u ''true'' else u ''false'')"
| "dump (JInt i) = int_text i"
| "dump (JFloat r) = r"
| "dump (JStr s) = quote_text s"
| "dump (JList xs) = [91] @ comma_join (map dump xs) @ [93]"
| "dump (JObj kvs) = dump_members (map (\<lambda>(k, v). (k, dump v)) kvs)"

definition nonfinite_reprs :: "ustr set" where
  "nonfinite_reprs = {u ''nan'', u ''inf'', u ''-inf''}"

fun finite_json :: "json \<Rightarrow> bool" where
  "finite_json (JFloat r) = (r \<notin> nonfinite_reprs)"
| "finite_json (JList xs) = (\<forall>x \<in> set xs. finite_json x)"
| "finite_json (JObj kvs) = (\<forall>kv \<in> set kvs. finite_json (snd kv))"
| "finite_json _ = True"

text \<open>UTF-8; a surrogate code point makes \<open>str.encode\<close> raise \<open>UnicodeEncodeError\<close>, a \<open>ValueError\<close>.\<close>

definition utf8_char :: "nat \<Rightarrow> nat list option" where
  "utf8_char c =
     (if c < 128 then Some [c]
      else if c < 2048 then Some [192 + c div 64, 128 + c mod 64]
      else if 55296 \<le> c \<and> c \<le> 57343 then None
      else if c < 65536 then Some [224 + c div 4096, 128 + c div 64 mod 64, 128 + c mod 64]
      else Some [240 + c div 262144, 128 + c div 4096 mod 64, 128 + c div 64 mod 64, 128 + c mod 64])"

fun utf8 :: "ustr \<Rightarrow> nat list option" where
  "utf8 [] = Some []"
| "utf8 (c # cs) =
     (case (utf8_char c, utf8 cs) of (Some b, Some bs) \<Rightarrow> Some (b @ bs) | _ \<Rightarrow> None)"

text \<open>\<open>None\<close> is the \<open>TypeError\<close> or \<open>ValueError\<close> that the callers turn into their own exception.\<close>

definition canonical_json_bytes :: "json \<Rightarrow> nat list option" where
  "canonical_json_bytes v = (if finite_json v then utf8 (dump v) else None)"

section \<open>Encodable values\<close>

text \<open>The values the encoder accepts: finite floats and no surrogate code point in any string.\<close>

definition encodable :: "ustr \<Rightarrow> bool" where
  "encodable s \<longleftrightarrow> list_all (\<lambda>c. \<not> (55296 \<le> c \<and> c \<le> 57343)) s"

fun encodable_json :: "json \<Rightarrow> bool" where
  "encodable_json (JStr s) = encodable s"
| "encodable_json (JFloat r) = (encodable r \<and> r \<notin> nonfinite_reprs)"
| "encodable_json (JList xs) = list_all encodable_json xs"
| "encodable_json (JObj kvs) = list_all (\<lambda>kv. encodable (fst kv) \<and> encodable_json (snd kv)) kvs"
| "encodable_json _ = True"

lemma utf8_encodable: "encodable s \<Longrightarrow> \<exists>b. utf8 s = Some b"
proof (induction s)
  case (Cons c cs)
  then have "\<exists>b. utf8_char c = Some b" by (auto simp: encodable_def utf8_char_def)
  with Cons show ?case by (auto simp: encodable_def)
qed simp

lemma encodable_simps [simp]:
  "encodable []" "encodable (c # s) \<longleftrightarrow> \<not> (55296 \<le> c \<and> c \<le> 57343) \<and> encodable s"
  "encodable (s @ t) \<longleftrightarrow> encodable s \<and> encodable t" "encodable (concat ss) \<longleftrightarrow> list_all encodable ss"
  by (auto simp: encodable_def list_all_iff)

lemma encodable_u [simp]: "encodable (u s)"
proof -
  have "\<not> (55296 \<le> (of_char c :: nat) \<and> (of_char c :: nat) \<le> 57343)" for c using nat_of_char_less_256 [of c] by linarith
  then show ?thesis by (simp add: encodable_def u_def list_all_iff)
qed

lemma encodable_hex_pad [simp]: "encodable (hex_pad k n)"
  unfolding encodable_def list_all_iff
proof (intro ballI)
  fix c assume "c \<in> set (hex_pad k n)"
  then obtain d where "d < 16" "c = hex_char d" using set_hex_pad by blast
  then show "\<not> (55296 \<le> c \<and> c \<le> 57343)" by (auto simp: hex_char_def)
qed

lemma encodable_uuid_text [simp]: "encodable (uuid_text x)"
  unfolding uuid_text_def Let_def
  using encodable_hex_pad [of 32 "unat x"] by (auto simp: encodable_def list_all_iff dest!: in_set_takeD in_set_dropD)

lemma encodable_int_text [simp]: "encodable (int_text i)"
proof -
  have "encodable (dec_digits n)" for n
    unfolding encodable_def list_all_iff using set_dec_digits [of _ n] by fastforce
  then show ?thesis by (simp add: int_text_def)
qed

lemma encodable_quote: "encodable s \<Longrightarrow> encodable (quote_text s)"
  by (induction s) (auto simp: quote_text_def escape_char_def)

lemma encodable_comma_join: "list_all encodable xs \<Longrightarrow> encodable (comma_join xs)"
  by (auto simp: comma_join_def list_all_iff split: list.splits)

lemma encodable_dump: "encodable_json v \<Longrightarrow> encodable (dump v)"
proof (induction v rule: dump.induct)
  case (6 xs)
  then have "list_all encodable (map dump xs)" by (auto simp: list_all_iff)
  then show ?case by (simp add: encodable_comma_join)
next
  case (7 kvs)
  have "list_all encodable (map (\<lambda>(k, v). quote_text k @ [58] @ v) (sort_key fst (map (\<lambda>(k, v). (k, dump v)) kvs)))"
    using 7 by (fastforce simp: list_all_iff encodable_quote)
  then show ?case using encodable_comma_join by (simp add: dump_members_def)
qed (simp_all add: encodable_quote)

lemma encodable_finite: "encodable_json v \<Longrightarrow> finite_json v"
  by (induction v rule: finite_json.induct) (auto simp: list_all_iff)

lemma encodable_bytes: "encodable_json v \<Longrightarrow> \<exists>b. canonical_json_bytes v = Some b"
  using utf8_encodable [OF encodable_dump] by (simp add: canonical_json_bytes_def encodable_finite)

section \<open>Key order is irrelevant\<close>

text \<open>Equality of two values as Python compares dictionaries: member order does not matter.\<close>

inductive same_json :: "json \<Rightarrow> json \<Rightarrow> bool" where
  same_refl: "same_json v v"
| same_list: "list_all2 same_json xs ys \<Longrightarrow> same_json (JList xs) (JList ys)"
| same_obj: "list_all2 (\<lambda>a b. fst a = fst b \<and> same_json (snd a) (snd b)) kvs kvs' \<Longrightarrow>
    mset kvs' = mset kvs'' \<Longrightarrow> distinct (map fst kvs) \<Longrightarrow> same_json (JObj kvs) (JObj kvs'')"

lemma sort_key_mset_eq:
  assumes "mset xs = mset ys" "distinct (map f xs)"
  shows "sort_key f xs = sort_key f ys"
proof (rule properties_for_sort_key)
  show "mset (sort_key f ys) = mset xs" using assms(1) by simp
  show "sorted (map f (sort_key f ys))" by simp
next
  fix k assume "k \<in> set (sort_key f ys)"
  moreover have "set xs = set ys" using assms(1) by (metis set_mset_mset)
  ultimately have kx: "k \<in> set xs" by simp
  have d: "distinct (map f ys)" using assms by (metis mset_eq_imp_distinct_iff mset_map)
  have one: "filter (\<lambda>y. f k = f y) zs = [k]" if "distinct (map f zs)" "k \<in> set zs" for zs
    using that
  proof (induction zs)
    case (Cons z zs)
    show ?case
    proof (cases "k = z")
      case True
      with Cons.prems(1) have "\<forall>y \<in> set zs. f k \<noteq> f y" by (auto simp: image_iff)
      then have "filter (\<lambda>y. f k = f y) zs = []" by (simp add: filter_empty_conv)
      with True show ?thesis by simp
    next
      case False
      with Cons.prems have kz: "k \<in> set zs" by simp
      with Cons.prems(1) have "f k \<noteq> f z" by (auto simp: image_iff)
      with kz Cons show ?thesis by simp
    qed
  qed simp
  from d have "distinct (map f (sort_key f ys))" by (simp add: distinct_map)
  then show "filter (\<lambda>y. f k = f y) (sort_key f ys) = filter (\<lambda>x. f k = f x) xs"
    using one [of "sort_key f ys"] one [of xs] assms(2) kx \<open>k \<in> set (sort_key f ys)\<close> by simp
qed

lemma dump_members_perm:
  "mset ms = mset ms' \<Longrightarrow> distinct (map fst ms) \<Longrightarrow> dump_members ms = dump_members ms'"
  by (simp add: dump_members_def sort_key_mset_eq)

lemma same_json_dump: "same_json v w \<Longrightarrow> dump v = dump w"
proof (induction rule: same_json.induct)
  case (same_list xs ys)
  then have "map dump xs = map dump ys" by (induction rule: list_all2_induct) auto
  then show ?case by simp
next
  case (same_obj kvs kvs' kvs'')
  from same_obj(1) have eq: "map (\<lambda>(k, v). (k, dump v)) kvs = map (\<lambda>(k, v). (k, dump v)) kvs'"
    by (induction rule: list_all2_induct) auto
  have "mset (map (\<lambda>(k, v). (k, dump v)) kvs') = mset (map (\<lambda>(k, v). (k, dump v)) kvs'')"
    using same_obj(2) by simp
  moreover have "map fst kvs = map fst (map (\<lambda>(k, v). (k, dump v)) kvs')"
    unfolding eq [symmetric] by (simp add: comp_def case_prod_beta)
  ultimately show ?case using same_obj(3) eq by (simp add: dump_members_perm)
qed simp

lemma same_json_finite: "same_json v w \<Longrightarrow> finite_json v = finite_json w"
proof (induction rule: same_json.induct)
  case (same_list xs ys)
  then show ?case by (auto simp: list_all2_conv_all_nth Ball_def in_set_conv_nth)
next
  case (same_obj kvs kvs' kvs'')
  have "(\<forall>kv \<in> set kvs. finite_json (snd kv)) = (\<forall>kv \<in> set kvs'. finite_json (snd kv))"
    using same_obj(1) by (induction rule: list_all2_induct) auto
  then show ?case using same_obj(2) by (metis finite_json.simps(3) set_mset_mset)
qed simp

text \<open>
  The canonical encoding is canonical.  Two JSON values that are equal as Python values, whatever
  the insertion order of their dictionaries at any depth, have the same canonical bytes, so the stored
  integrity hash of a result does not depend on how the worker built its dictionaries.
\<close>

theorem canonical_json_order_irrelevant:
  assumes "same_json v w"
  shows "canonical_json_bytes v = canonical_json_bytes w"
  using same_json_dump [OF assms] same_json_finite [OF assms] by (simp add: canonical_json_bytes_def)

theorem canonical_json_order_irrelevant_witness:
  "canonical_json_bytes (JObj [(u ''b'', JInt 2), (u ''a'', JStr (u ''x''))]) =
   canonical_json_bytes (JObj [(u ''a'', JStr (u ''x'')), (u ''b'', JInt 2)])"
  by (rule canonical_json_order_irrelevant, rule same_obj [of _ "[(u ''b'', JInt 2), (u ''a'', JStr (u ''x''))]"])
    (simp_all add: same_refl)

end
