(* ===== verification/Job_Queue.thy ===== *)
theory Job_Queue
  imports Errors Json Domain_Queue
begin

text \<open>
  \<open>apps/api/app/queue_repository.py\<close> (\<open>PostgresJobQueue\<close>) over its three tables, with the constraints
  of \<open>alembic/versions/0001_durable_core.py\<close> and \<open>0011_automatic_report_suggestions.py\<close>.

  \<^item> The tables are a record, so a component with more tables extends it and every queue operation
    applies to the extended state (\<open>'z queue_db_scheme\<close>).
  \<^item> Instants are microseconds.  A parameter \<open>now\<close> is one reading of \<open>clock_timestamp()\<close>; an operation
    that reads the clock in several statements takes one reading for each.
  \<^item> \<open>uuid4()\<close> results are parameters; the PRIMARY KEY constraint is checked, so no freshness is assumed.
  \<^item> \<open>locked\<close> says which job rows other transactions hold: \<open>FOR UPDATE SKIP LOCKED\<close> skips them.
  \<^item> The text column \<open>state\<close> holds one of the five values its CHECK allows, so it is a \<open>job_state\<close>.
\<close>

section \<open>Tables\<close>

record job_row =
  j_id :: uuid
  j_logical_key :: ustr
  j_kind :: ustr
  j_snapshot_id :: "uuid option"
  j_payload :: json
  j_state :: job_state
  j_attempts :: int
  j_generation :: int
  j_token :: "uuid option"
  j_owner :: "ustr option"
  j_until :: "int option"
  j_heartbeat_at :: "int option"
  j_error :: "ustr option"
  j_created_at :: int
  j_updated_at :: int

datatype attempt_status = AT_RUNNING | AT_SUCCEEDED | AT_FAILED | AT_EXPIRED | AT_STALE

record attempt_row =
  at_id :: uuid
  at_job_id :: uuid
  at_generation :: int
  at_token :: uuid
  at_owner :: ustr
  at_ended_at :: "int option"
  at_status :: attempt_status
  at_error :: "ustr option"

record result_row =
  re_id :: uuid
  re_job_id :: uuid
  re_json :: json
  re_hash :: ustr

record queue_db =
  jobs :: "job_row list"
  attempts :: "attempt_row list"
  results :: "result_row list"

record durable_job =
  dj_id :: uuid
  dj_logical_key :: ustr
  dj_kind :: ustr
  dj_state :: job_state
  dj_generation :: int

record claimed_job =
  cl_id :: uuid
  cl_logical_key :: ustr
  cl_kind :: ustr
  cl_payload :: "(ustr \<times> json) list"
  cl_owner :: ustr
  cl_generation :: int
  cl_token :: uuid
  cl_attempt_id :: uuid

section \<open>The claim order\<close>

text \<open>\<open>ORDER BY created_at, id\<close>: a lexicographic order, as an instance of the library's class.\<close>

datatype claim_key = ClaimKey (ck_created: int) (ck_id: uuid)

instantiation claim_key :: linorder
begin

definition less_eq_claim_key :: "claim_key \<Rightarrow> claim_key \<Rightarrow> bool" where
  "less_eq_claim_key a b \<longleftrightarrow> ck_created a < ck_created b \<or> ck_created a = ck_created b \<and> ck_id a \<le> ck_id b"

definition less_claim_key :: "claim_key \<Rightarrow> claim_key \<Rightarrow> bool" where
  "less_claim_key a b \<longleftrightarrow> ck_created a < ck_created b \<or> ck_created a = ck_created b \<and> ck_id a < ck_id b"

instance
  by standard (auto simp: less_eq_claim_key_def less_claim_key_def intro: claim_key.expand)

end

definition claim_key_of :: "job_row \<Rightarrow> claim_key" where
  "claim_key_of j = ClaimKey (j_created_at j) (j_id j)"

section \<open>Input checks\<close>

definition allowed_kinds :: "ustr set" where
  "allowed_kinds = {u ''extraction'', u ''summary'', u ''research'', u ''report_suggestions''}"

definition require_logical_key :: "ustr \<Rightarrow> app_error + unit" where
  "require_logical_key k =
     require (\<not> (is_blank k \<or> length k > 500))
       (QueueInvariantError (u ''logical_key must be non-empty and at most 500 characters'')) (Inr ())"

definition require_kind :: "ustr \<Rightarrow> app_error + unit" where
  "require_kind k =
     require (k \<in> allowed_kinds) (QueueInvariantError (u ''unsupported job kind: '' @ k)) (Inr ())"

text \<open>\<open>tuple(sorted(set(kinds)))\<close>, every element checked.\<close>

definition normalize_claim_kinds :: "ustr list option \<Rightarrow> app_error + ustr list option" where
  "normalize_claim_kinds kinds =
     (case kinds of
        None \<Rightarrow> Inr None
      | Some ks \<Rightarrow>
          let normalized = sort (remdups ks)
          in and_then (map_result require_kind normalized) (\<lambda>_. Inr (Some normalized)))"

definition require_owner :: "ustr \<Rightarrow> app_error + unit" where
  "require_owner owner =
     require (\<not> (is_blank owner \<or> length owner > 200))
       (QueueInvariantError (u ''owner must be non-empty and at most 200 characters'')) (Inr ())"

definition require_lease_seconds :: "int \<Rightarrow> app_error + unit" where
  "require_lease_seconds s =
     require (\<not> (s < 1 \<or> s > 3600))
       (QueueInvariantError (u ''lease_seconds must be between 1 and 3600'')) (Inr ())"

definition as_nonempty_string :: "ustr \<Rightarrow> ustr \<Rightarrow> app_error + ustr" where
  "as_nonempty_string value label =
     require (\<not> is_blank value)
       (QueueInvariantError (u ''persisted '' @ label @ u '' must be non-empty text'')) (Inr value)"

definition durable_job_from_row :: "job_row \<Rightarrow> app_error + durable_job" where
  "durable_job_from_row r =
     and_then (as_nonempty_string (j_logical_key r) (u ''logical key'')) (\<lambda>k.
     and_then (as_nonempty_string (j_kind r) (u ''job kind'')) (\<lambda>kd.
     Inr \<lparr>dj_id = j_id r, dj_logical_key = k, dj_kind = kd, dj_state = j_state r,
          dj_generation = j_generation r\<rparr>))"

section \<open>Operations\<close>

definition new_job_row :: "uuid \<Rightarrow> ustr \<Rightarrow> ustr \<Rightarrow> uuid option \<Rightarrow> json \<Rightarrow> int \<Rightarrow> job_row" where
  "new_job_row jid key kind snap payload now =
     \<lparr>j_id = jid, j_logical_key = key, j_kind = kind, j_snapshot_id = snap, j_payload = payload,
      j_state = J_PENDING, j_attempts = 0, j_generation = 0, j_token = None, j_owner = None,
      j_until = None, j_heartbeat_at = None, j_error = None, j_created_at = now, j_updated_at = now\<rparr>"

text \<open>\<open>INSERT INTO jobs ... 'pending'\<close>, with and without \<open>ON CONFLICT (logical_key) DO NOTHING\<close>.\<close>

definition insert_job :: "job_row \<Rightarrow> 'z queue_db_scheme \<Rightarrow> app_error + 'z queue_db_scheme" where
  "insert_job r db =
     require (fresh j_logical_key r (jobs db) \<and> fresh j_id r (jobs db)) (PgError UniqueViolation)
       (Inr (db\<lparr>jobs := jobs db @ [r]\<rparr>))"

definition insert_job_if_new :: "job_row \<Rightarrow> 'z queue_db_scheme \<Rightarrow> app_error + 'z queue_db_scheme" where
  "insert_job_if_new r db =
     (if \<not> fresh j_logical_key r (jobs db) then Inr db
      else require (fresh j_id r (jobs db)) (PgError UniqueViolation)
             (Inr (db\<lparr>jobs := jobs db @ [r]\<rparr>)))"

definition enqueue_body ::
  "uuid \<Rightarrow> int \<Rightarrow> ustr \<Rightarrow> ustr \<Rightarrow> (ustr \<times> json) list \<Rightarrow> uuid option \<Rightarrow>
   (app_error, job_row, 'z queue_db_scheme) body" where
  "enqueue_body job_id now logical_key kind payload snapshot_id db =
     and_then (insert_job_if_new (new_job_row job_id logical_key kind snapshot_id (JObj payload) now) db)
       (\<lambda>db'. case find (\<lambda>j. j_logical_key j = logical_key) (jobs db') of
          None \<Rightarrow> Inl (QueueInvariantError (u ''idempotent job does not exist''))
        | Some row \<Rightarrow> Inr (row, db'))"

definition enqueue ::
  "uuid \<Rightarrow> int \<Rightarrow> ustr \<Rightarrow> ustr \<Rightarrow> (ustr \<times> json) list \<Rightarrow> uuid option \<Rightarrow>
   'z queue_db_scheme \<Rightarrow> (app_error + durable_job) \<times> 'z queue_db_scheme" where
  "enqueue job_id now logical_key kind payload snapshot_id db =
     (case and_then (require_logical_key logical_key) (\<lambda>_.
           and_then (require_kind kind) (\<lambda>_.
           case canonical_json_bytes (JObj payload) of
             None \<Rightarrow> Inl (QueueInvariantError (u ''queue payload must be finite JSON-compatible data''))
           | Some _ \<Rightarrow> Inr ())) of
        Inl e \<Rightarrow> (Inl e, db)
      | Inr _ \<Rightarrow>
          let (r, db') = transaction (enqueue_body job_id now logical_key kind payload snapshot_id) db
          in (and_then r durable_job_from_row, db'))"

text \<open>The WHERE clause and the ORDER BY ... SKIP LOCKED LIMIT 1 of the claim.\<close>

definition claimable :: "int \<Rightarrow> job_row \<Rightarrow> bool" where
  "claimable now j \<longleftrightarrow>
     j_state j = J_PENDING \<or>
     j_state j = J_RUNNING \<and> (case j_until j of None \<Rightarrow> False | Some t \<Rightarrow> t \<le> now)"

definition select_claim :: "int \<Rightarrow> (uuid \<Rightarrow> bool) \<Rightarrow> ustr list option \<Rightarrow> job_row list \<Rightarrow> job_row option" where
  "select_claim now locked kinds js =
     (case sort_key claim_key_of
             (filter (\<lambda>j. claimable now j \<and> \<not> locked (j_id j) \<and>
                (case kinds of None \<Rightarrow> True | Some ks \<Rightarrow> j_kind j \<in> set ks)) js) of
        [] \<Rightarrow> None
      | j # _ \<Rightarrow> Some j)"

definition micros :: "int \<Rightarrow> int" where
  "micros s = s * 1000000"

definition claim_update :: "int \<Rightarrow> ustr \<Rightarrow> uuid \<Rightarrow> int \<Rightarrow> int \<Rightarrow> job_row \<Rightarrow> job_row" where
  "claim_update gen owner token secs now j =
     j\<lparr>j_state := J_RUNNING, j_attempts := j_attempts j + 1, j_generation := gen,
       j_token := Some token, j_owner := Some owner, j_until := Some (now + micros secs),
       j_heartbeat_at := Some now, j_error := None, j_updated_at := now\<rparr>"

definition expire_attempt :: "int \<Rightarrow> attempt_row \<Rightarrow> attempt_row" where
  "expire_attempt now a =
     a\<lparr>at_ended_at := Some now, at_status := AT_EXPIRED, at_error := Some (u ''lease_expired'')\<rparr>"

definition open_attempt :: "uuid \<Rightarrow> int \<Rightarrow> attempt_row \<Rightarrow> bool" where
  "open_attempt jid gen a \<longleftrightarrow>
     at_job_id a = jid \<and> at_generation a = gen \<and> at_status a = AT_RUNNING \<and> at_ended_at a = None"

definition insert_attempt :: "attempt_row \<Rightarrow> 'z queue_db_scheme \<Rightarrow> app_error + 'z queue_db_scheme" where
  "insert_attempt a db =
     require (fresh at_id a (attempts db) \<and> fresh (\<lambda>x. (at_job_id x, at_generation x)) a (attempts db))
       (PgError UniqueViolation) (Inr (db\<lparr>attempts := attempts db @ [a]\<rparr>))"

definition claim_body ::
  "(uuid \<Rightarrow> bool) \<Rightarrow> uuid \<Rightarrow> uuid \<Rightarrow> int \<Rightarrow> int \<Rightarrow> ustr \<Rightarrow> int \<Rightarrow> ustr list option \<Rightarrow>
   (app_error, (job_row \<times> int) option, 'z queue_db_scheme) body" where
  "claim_body locked lease_token attempt_id now now' owner lease_seconds claim_kinds db =
     (if claim_kinds = Some [] then Inr (None, db)
      else case select_claim now locked claim_kinds (jobs db) of
        None \<Rightarrow> Inr (None, db)
      | Some row \<Rightarrow>
          let previous = j_generation row;
              next = previous + 1;
              db1 = (if j_state row = J_RUNNING
                     then db\<lparr>attempts := update_rows (open_attempt (j_id row) previous)
                                          (expire_attempt now') (attempts db)\<rparr>
                     else db);
              db2 = db1\<lparr>jobs := update_rows (\<lambda>j. j_id j = j_id row)
                                  (claim_update next owner lease_token lease_seconds now') (jobs db1)\<rparr>
          in and_then (insert_attempt
                 \<lparr>at_id = attempt_id, at_job_id = j_id row, at_generation = next, at_token = lease_token,
                  at_owner = owner, at_ended_at = None, at_status = AT_RUNNING, at_error = None\<rparr> db2)
               (\<lambda>db3. Inr (Some (row, next), db3)))"

text \<open>
  After the commit the payload and the identity columns of the row are checked: a failure there raises
  with the lease already taken.
\<close>

definition claimed_from_row :: "ustr \<Rightarrow> uuid \<Rightarrow> uuid \<Rightarrow> job_row \<times> int \<Rightarrow> app_error + claimed_job" where
  "claimed_from_row owner lease_token attempt_id rg =
     (let (row, gen) = rg
      in case j_payload row of
           JObj kvs \<Rightarrow>
             and_then (as_nonempty_string (j_logical_key row) (u ''logical key'')) (\<lambda>k.
             and_then (as_nonempty_string (j_kind row) (u ''job kind'')) (\<lambda>kd.
             Inr \<lparr>cl_id = j_id row, cl_logical_key = k, cl_kind = kd, cl_payload = kvs, cl_owner = owner,
                  cl_generation = gen, cl_token = lease_token, cl_attempt_id = attempt_id\<rparr>))
         | _ \<Rightarrow> Inl (QueueInvariantError (u ''persisted job payload must be a JSON object'')))"

definition claim_next ::
  "(uuid \<Rightarrow> bool) \<Rightarrow> uuid \<Rightarrow> uuid \<Rightarrow> int \<Rightarrow> int \<Rightarrow> ustr \<Rightarrow> int \<Rightarrow> ustr list option \<Rightarrow>
   'z queue_db_scheme \<Rightarrow> (app_error + claimed_job option) \<times> 'z queue_db_scheme" where
  "claim_next locked lease_token attempt_id now now' owner lease_seconds kinds db =
     (case and_then (require_owner owner) (\<lambda>_.
           and_then (require_lease_seconds lease_seconds) (\<lambda>_. normalize_claim_kinds kinds)) of
        Inl e \<Rightarrow> (Inl e, db)
      | Inr claim_kinds \<Rightarrow>
          let (r, db') = transaction
                (claim_body locked lease_token attempt_id now now' owner lease_seconds claim_kinds) db
          in (and_then r (\<lambda>found. case found of
                None \<Rightarrow> Inr None
              | Some rg \<Rightarrow> and_then (claimed_from_row owner lease_token attempt_id rg) (\<lambda>c. Inr (Some c))),
              db'))"

text \<open>The compare-and-set predicate of heartbeat and completion: the exact lease, not yet expired.\<close>

definition holds_lease :: "claimed_job \<Rightarrow> int \<Rightarrow> job_row \<Rightarrow> bool" where
  "holds_lease c now j \<longleftrightarrow>
     j_id j = cl_id c \<and> j_state j = J_RUNNING \<and> j_generation j = cl_generation c \<and>
     j_token j = Some (cl_token c) \<and> (case j_until j of None \<Rightarrow> False | Some t \<Rightarrow> t > now)"

definition heartbeat_body ::
  "int \<Rightarrow> claimed_job \<Rightarrow> int \<Rightarrow> (app_error, unit, 'z queue_db_scheme) body" where
  "heartbeat_body now c lease_seconds db =
     require (hits (holds_lease c now) (jobs db) = 1)
       (StaleLeaseError (u ''job heartbeat lease is stale''))
       (Inr ((), db\<lparr>jobs := update_rows (holds_lease c now)
          (\<lambda>j. j\<lparr>j_heartbeat_at := Some now, j_until := Some (now + micros lease_seconds),
                 j_updated_at := now\<rparr>) (jobs db)\<rparr>))"

definition heartbeat ::
  "int \<Rightarrow> claimed_job \<Rightarrow> int \<Rightarrow> 'z queue_db_scheme \<Rightarrow> (app_error + unit) \<times> 'z queue_db_scheme" where
  "heartbeat now c lease_seconds db =
     (case require_lease_seconds lease_seconds of
        Inl e \<Rightarrow> (Inl e, db)
      | Inr _ \<Rightarrow> transaction (heartbeat_body now c lease_seconds) db)"

definition check_completion :: "job_state \<Rightarrow> ustr option \<Rightarrow> app_error + unit" where
  "check_completion target_state error_code =
     require (target_state \<in> completion_states)
       (QueueInvariantError (u ''target_state must be a terminal queue state''))
     (if target_state = J_SUCCEEDED
      then require (error_code = None)
             (QueueInvariantError (u ''successful completion must not include an error_code'')) (Inr ())
      else case error_code of
             None \<Rightarrow> Inl (QueueInvariantError (u ''failed completion requires a non-blank error_code''))
           | Some code \<Rightarrow>
               require (\<not> is_blank code)
                 (QueueInvariantError (u ''failed completion requires a non-blank error_code''))
               (require (\<not> length code > 128)
                  (QueueInvariantError (u ''error_code must be at most 128 characters'')) (Inr ())))"

definition complete_job :: "job_state \<Rightarrow> ustr option \<Rightarrow> int \<Rightarrow> job_row \<Rightarrow> job_row" where
  "complete_job target error_code now j =
     j\<lparr>j_state := target, j_token := None, j_owner := None, j_until := None,
       j_heartbeat_at := Some now, j_error := error_code, j_updated_at := now\<rparr>"

text \<open>\<open>hashlib.sha256(...).hexdigest()\<close> is a parameter \<open>sha256\<close>.\<close>

definition insert_result ::
  "(nat list \<Rightarrow> ustr) \<Rightarrow> uuid \<Rightarrow> uuid \<Rightarrow> json \<Rightarrow> 'z queue_db_scheme \<Rightarrow> app_error + 'z queue_db_scheme" where
  "insert_result sha256 rid jid result db =
     (case canonical_json_bytes result of
        None \<Rightarrow> Inl (QueueInvariantError (u ''queue payload must be finite JSON-compatible data''))
      | Some bytes \<Rightarrow>
          let row = \<lparr>re_id = rid, re_job_id = jid, re_json = result, re_hash = sha256 bytes\<rparr>
          in require (fresh re_id row (results db) \<and> fresh re_job_id row (results db))
               (PgError UniqueViolation) (Inr (db\<lparr>results := results db @ [row]\<rparr>)))"

definition close_attempt :: "job_state \<Rightarrow> ustr option \<Rightarrow> int \<Rightarrow> attempt_row \<Rightarrow> attempt_row" where
  "close_attempt target error_code now a =
     a\<lparr>at_ended_at := Some now,
       at_status := (if target = J_SUCCEEDED then AT_SUCCEEDED else AT_FAILED), at_error := error_code\<rparr>"

definition my_attempt :: "claimed_job \<Rightarrow> attempt_row \<Rightarrow> bool" where
  "my_attempt c a \<longleftrightarrow> open_attempt (cl_id c) (cl_generation c) a \<and> at_token a = cl_token c"

definition complete_body ::
  "(nat list \<Rightarrow> ustr) \<Rightarrow> uuid \<Rightarrow> int \<Rightarrow> claimed_job \<Rightarrow> job_state \<Rightarrow> (ustr \<times> json) list \<Rightarrow> ustr option \<Rightarrow>
   ('z queue_db_scheme \<Rightarrow> app_error + 'z queue_db_scheme) \<Rightarrow> (app_error, unit, 'z queue_db_scheme) body" where
  "complete_body sha256 rid now c target result error_code effect db =
     require (hits (holds_lease c now) (jobs db) = 1)
       (StaleLeaseError (u ''job completion lease is stale''))
     (let db1 = db\<lparr>jobs := update_rows (holds_lease c now) (complete_job target error_code now) (jobs db)\<rparr>
      in and_then (effect db1) (\<lambda>db2.
         and_then (if target = J_SUCCEEDED then insert_result sha256 rid (cl_id c) (JObj result) db2 else Inr db2)
           (\<lambda>db3.
         require (hits (my_attempt c) (attempts db3) = 1)
              (QueueInvariantError (u ''current job attempt was not append-only running''))
              (Inr ((), db3\<lparr>attempts := update_rows (my_attempt c) (close_attempt target error_code now) (attempts db3)\<rparr>)))))"

definition complete_with_effects ::
  "(nat list \<Rightarrow> ustr) \<Rightarrow> uuid \<Rightarrow> int \<Rightarrow> claimed_job \<Rightarrow> job_state \<Rightarrow> (ustr \<times> json) list \<Rightarrow> ustr option \<Rightarrow>
   ('z queue_db_scheme \<Rightarrow> app_error + 'z queue_db_scheme) \<Rightarrow>
   'z queue_db_scheme \<Rightarrow> (app_error + unit) \<times> 'z queue_db_scheme" where
  "complete_with_effects sha256 rid now c target result error_code effect db =
     (case check_completion target error_code of
        Inl e \<Rightarrow> (Inl e, db)
      | Inr _ \<Rightarrow> transaction (complete_body sha256 rid now c target result error_code effect) db)"

definition complete ::
  "(nat list \<Rightarrow> ustr) \<Rightarrow> uuid \<Rightarrow> int \<Rightarrow> claimed_job \<Rightarrow> job_state \<Rightarrow> (ustr \<times> json) list \<Rightarrow> ustr option \<Rightarrow>
   'z queue_db_scheme \<Rightarrow> (app_error + unit) \<times> 'z queue_db_scheme" where
  "complete sha256 rid now c target result error_code =
     complete_with_effects sha256 rid now c target result error_code (\<lambda>db. Inr db)"

definition requeue_body :: "int \<Rightarrow> uuid \<Rightarrow> int \<Rightarrow> (app_error, unit, 'z queue_db_scheme) body" where
  "requeue_body now job_id expected db =
     (let p = (\<lambda>j. j_id j = job_id \<and> j_state j = J_FAILED_RETRYABLE \<and> j_generation j = expected \<and>
                   j_token j = None)
      in require (hits p (jobs db) = 1) (StaleLeaseError (u ''retry target is stale or not retryable''))
           (Inr ((), db\<lparr>jobs := update_rows p
              (\<lambda>j. j\<lparr>j_state := J_PENDING, j_error := None, j_updated_at := now\<rparr>) (jobs db)\<rparr>)))"

definition requeue_retryable ::
  "int \<Rightarrow> uuid \<Rightarrow> int \<Rightarrow> 'z queue_db_scheme \<Rightarrow> (app_error + unit) \<times> 'z queue_db_scheme" where
  "requeue_retryable now job_id expected db =
     (if expected < 1 then (Inl (QueueInvariantError (u ''expected_lease_generation must be positive'')), db)
      else transaction (requeue_body now job_id expected) db)"

definition fetch_job :: "uuid \<Rightarrow> 'z queue_db_scheme \<Rightarrow> app_error + durable_job" where
  "fetch_job job_id db =
     (case find (\<lambda>j. j_id j = job_id) (jobs db) of
        None \<Rightarrow> Inl (QueueInvariantError (u ''job does not exist''))
      | Some row \<Rightarrow> durable_job_from_row row)"

definition result_count :: "uuid \<Rightarrow> 'z queue_db_scheme \<Rightarrow> nat" where
  "result_count job_id db = hits (\<lambda>r. re_job_id r = job_id) (results db)"

end
