(* ===== verification/Queue_Invariant.thy ===== *)
theory Queue_Invariant
  imports Job_Queue
begin

text \<open>
  The invariant of the three queue tables and its preservation by every queue operation.

  \<open>job_shape\<close> are the CHECK constraints \<open>jobs_running_lease_shape\<close> and \<open>jobs_failure_requires_error_code\<close>
  of the migration, together with what the code adds to them: \<open>attempts\<close> equals \<open>lease_generation\<close>.
  \<open>attempts_ok\<close> says that the attempts of a job are one per generation, in order, that the running one is
  the current generation of a running job and carries its token.  A job has one result if it succeeded
  and none otherwise.
\<close>

definition failed_states :: "job_state set" where
  "failed_states = {J_FAILED_RETRYABLE, J_FAILED_TERMINAL}"

definition job_shape :: "job_row \<Rightarrow> bool" where
  "job_shape j \<longleftrightarrow>
     0 \<le> j_generation j \<and> j_attempts j = j_generation j \<and>
     (j_token j \<noteq> None \<longleftrightarrow> j_state j = J_RUNNING) \<and> (j_owner j \<noteq> None \<longleftrightarrow> j_state j = J_RUNNING) \<and>
     (j_until j \<noteq> None \<longleftrightarrow> j_state j = J_RUNNING) \<and> (j_state j = J_RUNNING \<longrightarrow> 1 \<le> j_generation j) \<and>
     (case j_error j of None \<Rightarrow> j_state j \<notin> failed_states
      | Some code \<Rightarrow> j_state j \<in> failed_states \<and> 1 \<le> length code \<and> length code \<le> 128)"

definition attempt_ok :: "job_row \<Rightarrow> attempt_row \<Rightarrow> bool" where
  "attempt_ok j a \<longleftrightarrow>
     (at_ended_at a = None \<longleftrightarrow> at_status a = AT_RUNNING) \<and>
     (at_status a = AT_RUNNING \<longleftrightarrow> j_state j = J_RUNNING \<and> at_generation a = j_generation j) \<and>
     (at_status a = AT_RUNNING \<longrightarrow> j_token j = Some (at_token a) \<and> j_owner j = Some (at_owner a)) \<and>
     (at_status a = AT_SUCCEEDED \<longleftrightarrow> j_state j = J_SUCCEEDED \<and> at_generation a = j_generation j) \<and>
     (case at_error a of None \<Rightarrow> at_status a \<in> {AT_RUNNING, AT_SUCCEEDED}
      | Some code \<Rightarrow> at_status a \<in> {AT_FAILED, AT_EXPIRED, AT_STALE} \<and> 1 \<le> length code \<and> length code \<le> 128)"

definition attempts_of :: "uuid \<Rightarrow> attempt_row list \<Rightarrow> attempt_row list" where
  "attempts_of jid ats = filter (\<lambda>a. at_job_id a = jid) ats"

definition results_of :: "uuid \<Rightarrow> result_row list \<Rightarrow> result_row list" where
  "results_of jid res = filter (\<lambda>r. re_job_id r = jid) res"

definition attempts_ok :: "job_row \<Rightarrow> attempt_row list \<Rightarrow> bool" where
  "attempts_ok j ats \<longleftrightarrow> map at_generation ats = [1..j_generation j] \<and> list_all (attempt_ok j) ats"

definition job_ok :: "attempt_row list \<Rightarrow> result_row list \<Rightarrow> job_row \<Rightarrow> bool" where
  "job_ok ats res j \<longleftrightarrow>
     job_shape j \<and> attempts_ok j (attempts_of (j_id j) ats) \<and>
     length (results_of (j_id j) res) = (if j_state j = J_SUCCEEDED then 1 else 0)"

definition queue_inv :: "'z queue_db_scheme \<Rightarrow> bool" where
  "queue_inv db \<longleftrightarrow>
     distinct (map j_id (jobs db)) \<and> distinct (map j_logical_key (jobs db)) \<and>
     distinct (map at_id (attempts db)) \<and> distinct (map re_id (results db)) \<and>
     list_all (\<lambda>a. at_job_id a \<in> set (map j_id (jobs db))) (attempts db) \<and>
     list_all (\<lambda>r. re_job_id r \<in> set (map j_id (jobs db))) (results db) \<and>
     list_all (job_ok (attempts db) (results db)) (jobs db)"

section \<open>Changing one job\<close>

lemma queue_inv_job: "queue_inv db \<Longrightarrow> j \<in> set (jobs db) \<Longrightarrow> job_ok (attempts db) (results db) j"
  by (simp add: queue_inv_def list_all_iff)

lemma queue_inv_refs:
  assumes "queue_inv db"
  shows "at_job_id ` set (attempts db) \<subseteq> set (map j_id (jobs db))"
    "re_job_id ` set (results db) \<subseteq> set (map j_id (jobs db))"
  using assms by (auto simp: queue_inv_def list_all_iff simp del: set_map)

lemma job_ok_cong:
  "attempts_of (j_id j) ats' = attempts_of (j_id j) ats \<Longrightarrow>
   results_of (j_id j) res' = results_of (j_id j) res \<Longrightarrow> job_ok ats' res' j = job_ok ats res j"
  by (simp add: job_ok_def)

text \<open>
  An operation that rewrites the job \<open>j\<close> (found by a predicate that pins its id) and touches only the
  attempts and results of \<open>j\<close> keeps the invariant as soon as the rewritten row is sound.
\<close>

lemma queue_inv_one_job:
  assumes inv: "queue_inv db" and j: "j \<in> set (jobs db)" "P j" "\<And>x. P x \<Longrightarrow> j_id x = j_id j"
    and jobs': "jobs db' = update_rows P f (jobs db)"
    and f: "\<And>x. j_id (f x) = j_id x" "\<And>x. j_logical_key (f x) = j_logical_key x"
    and others: "\<And>k. k \<noteq> j_id j \<Longrightarrow> attempts_of k (attempts db') = attempts_of k (attempts db)"
      "\<And>k. k \<noteq> j_id j \<Longrightarrow> results_of k (results db') = results_of k (results db)"
    and keys: "distinct (map at_id (attempts db'))" "distinct (map re_id (results db'))"
    and refs: "at_job_id ` set (attempts db') \<subseteq> insert (j_id j) (at_job_id ` set (attempts db))"
      "re_job_id ` set (results db') \<subseteq> insert (j_id j) (re_job_id ` set (results db))"
    and ok: "job_ok (attempts db') (results db') (f j)"
  shows "queue_inv db'"
proof -
  have ids: "map j_id (jobs db') = map j_id (jobs db)"
    "map j_logical_key (jobs db') = map j_logical_key (jobs db)"
    unfolding jobs' by (simp_all add: map_update_rows_same f)
  have dist: "distinct (map j_id (jobs db))" using inv by (simp add: queue_inv_def)
  have "job_ok (attempts db') (results db') x" if "x \<in> set (jobs db')" for x
  proof -
    from that obtain y where y: "y \<in> set (jobs db)" "x = (if P y then f y else y)"
      unfolding jobs' by (rule in_update_rows)
    show ?thesis
    proof (cases "P y")
      case True
      then have "y = j" by (intro distinct_key_unique [OF dist y(1) j(1)] j(3))
      with True y ok show ?thesis by simp
    next
      case False
      then have "j_id y \<noteq> j_id j" using distinct_key_unique [OF dist y(1) j(1)] j(2) by blast
      then have "job_ok (attempts db') (results db') y = job_ok (attempts db) (results db) y"
        by (intro job_ok_cong others) auto
      with False y queue_inv_job [OF inv] show ?thesis by simp
    qed
  qed
  note rows = this
  have jin: "j_id j \<in> set (map j_id (jobs db))" using j(1) by simp
  from refs jin queue_inv_refs [OF inv] have R: "at_job_id ` set (attempts db') \<subseteq> set (map j_id (jobs db))"
    "re_job_id ` set (results db') \<subseteq> set (map j_id (jobs db))"
    by (meson insert_subsetI subset_trans)+
  show ?thesis
    unfolding queue_inv_def ids list_all_iff
  proof (intro conjI ballI)
    show "distinct (map j_id (jobs db))" "distinct (map j_logical_key (jobs db))"
      using inv by (simp_all add: queue_inv_def)
    show "at_job_id a \<in> set (map j_id (jobs db))" if "a \<in> set (attempts db')" for a
      using R(1) that by (rule subsetD [OF _ imageI])
    show "re_job_id r \<in> set (map j_id (jobs db))" if "r \<in> set (results db')" for r
      using R(2) that by (rule subsetD [OF _ imageI])
  qed (fact keys rows)+
qed

lemma attempts_of_update:
  assumes "\<And>a. P a \<Longrightarrow> at_job_id a = jid" "\<And>a. at_job_id (f a) = at_job_id a"
  shows "k \<noteq> jid \<Longrightarrow> attempts_of k (update_rows P f ats) = attempts_of k ats"
    "attempts_of jid (update_rows P f ats) = update_rows P f (attempts_of jid ats)"
proof -
  show "k \<noteq> jid \<Longrightarrow> attempts_of k (update_rows P f ats) = attempts_of k ats"
    by (induction ats) (auto simp: attempts_of_def assms(2) dest: assms(1))
  show "attempts_of jid (update_rows P f ats) = update_rows P f (attempts_of jid ats)"
    by (induction ats) (auto simp: attempts_of_def assms(2) dest: assms(1))
qed

lemma attempts_of_snoc:
  "attempts_of k (ats @ [a]) = attempts_of k ats @ (if at_job_id a = k then [a] else [])"
  by (simp add: attempts_of_def)

lemma results_of_snoc:
  "results_of k (res @ [r]) = results_of k res @ (if re_job_id r = k then [r] else [])"
  by (simp add: results_of_def)


lemma results_of_nil: "k \<notin> re_job_id ` set res \<Longrightarrow> results_of k res = []"
  by (auto simp: results_of_def filter_empty_conv)

lemma attempts_of_nil: "k \<notin> at_job_id ` set ats \<Longrightarrow> attempts_of k ats = []"
  by (auto simp: attempts_of_def filter_empty_conv)

section \<open>Adding jobs\<close>

text \<open>
  The only thing the rest of the application does to these tables: it adds fresh pending jobs
  (\<open>insert_job\<close>, \<open>insert_job_if_new\<close>) while it changes tables of its own.
\<close>

definition new_job :: "job_row \<Rightarrow> bool" where
  "new_job j \<longleftrightarrow> j_state j = J_PENDING \<and> j_attempts j = 0 \<and> j_generation j = 0 \<and> j_token j = None \<and>
     j_owner j = None \<and> j_until j = None \<and> j_error j = None"

lemma new_job_row [simp]: "new_job (new_job_row jid key kind snap payload now)"
  by (simp add: new_job_def new_job_row_def)

definition adds_jobs :: "'z queue_db_scheme \<Rightarrow> 'z queue_db_scheme \<Rightarrow> bool" where
  "adds_jobs db db' \<longleftrightarrow>
     attempts db' = attempts db \<and> results db' = results db \<and>
     (\<exists>new. jobs db' = jobs db @ new \<and> list_all new_job new \<and>
        (distinct (map j_id (jobs db)) \<longrightarrow> distinct (map j_id (jobs db'))) \<and>
        (distinct (map j_logical_key (jobs db)) \<longrightarrow> distinct (map j_logical_key (jobs db'))))"

lemma adds_jobs_same:
  "jobs db' = jobs db \<Longrightarrow> attempts db' = attempts db \<Longrightarrow> results db' = results db \<Longrightarrow> adds_jobs db db'"
  by (simp add: adds_jobs_def)

lemma adds_jobs_refl [simp]: "adds_jobs db db"
  by (simp add: adds_jobs_same)

lemma adds_jobs_trans: "adds_jobs a b \<Longrightarrow> adds_jobs b c \<Longrightarrow> adds_jobs a c"
  unfolding adds_jobs_def by auto

lemma insert_job_adds: "insert_job r db = Inr db' \<Longrightarrow> new_job r \<Longrightarrow> adds_jobs db db'"
  by (auto simp: insert_job_def adds_jobs_def fresh_def)

lemma insert_job_if_new_adds: "insert_job_if_new r db = Inr db' \<Longrightarrow> new_job r \<Longrightarrow> adds_jobs db db'"
  by (auto simp: insert_job_if_new_def adds_jobs_def fresh_def split: if_splits)

lemma adds_jobs_inv:
  assumes inv: "queue_inv db" and adds: "adds_jobs db db'"
  shows "queue_inv db'"
proof -
  obtain new where new: "jobs db' = jobs db @ new" "list_all new_job new"
    and same: "attempts db' = attempts db" "results db' = results db"
    using adds by (auto simp: adds_jobs_def)
  have keys: "distinct (map j_id (jobs db'))" "distinct (map j_logical_key (jobs db'))"
    using adds inv by (auto simp: adds_jobs_def queue_inv_def)
  have "job_ok (attempts db) (results db) j" if "j \<in> set new" for j
  proof -
    have "j_id j \<notin> set (map j_id (jobs db))" using keys(1) that new(1) by auto
    then have "j_id j \<notin> at_job_id ` set (attempts db)" "j_id j \<notin> re_job_id ` set (results db)"
      using queue_inv_refs [OF inv] by blast+
    then have "attempts_of (j_id j) (attempts db) = []" "results_of (j_id j) (results db) = []"
      by (simp_all add: attempts_of_nil results_of_nil)
    moreover have "new_job j" using new(2) that by (simp add: list_all_iff)
    ultimately show ?thesis
      by (simp add: job_ok_def new_job_def job_shape_def attempts_ok_def failed_states_def)
  qed
  then show ?thesis
    using inv keys by (auto simp: queue_inv_def same new(1) list_all_iff)
qed

lemma enqueue_body_adds: "enqueue_body jid now key kind payload snap db = Inr (r, db') \<Longrightarrow> adds_jobs db db'"
  by (auto simp: enqueue_body_def and_then_Inr split: option.splits intro: insert_job_if_new_adds)

lemma enqueue_adds: "adds_jobs db (snd (enqueue jid now key kind payload snap db))"
  by (auto simp: enqueue_def transaction_def Let_def split: sum.splits intro: enqueue_body_adds)

section \<open>Claiming\<close>

lemma sort_key_Nil_iff: "sort_key f xs = [] \<longleftrightarrow> xs = []"
  by (metis length_0_conv length_sort)

lemma select_claim_Some:
  assumes "select_claim now locked kinds js = Some j"
  shows "j \<in> set js \<and> claimable now j \<and> \<not> locked (j_id j) \<and>
    (case kinds of None \<Rightarrow> True | Some ks \<Rightarrow> j_kind j \<in> set ks) \<and>
    (\<forall>k \<in> set js. claimable now k \<and> \<not> locked (j_id k) \<and>
       (case kinds of None \<Rightarrow> True | Some ks \<Rightarrow> j_kind k \<in> set ks) \<longrightarrow> claim_key_of j \<le> claim_key_of k)"
proof -
  let ?c = "filter (\<lambda>j. claimable now j \<and> \<not> locked (j_id j) \<and>
                (case kinds of None \<Rightarrow> True | Some ks \<Rightarrow> j_kind j \<in> set ks)) js"
  obtain rest where sk: "sort_key claim_key_of ?c = j # rest"
    using assms unfolding select_claim_def by (cases "sort_key claim_key_of ?c") simp_all
  have "set (sort_key claim_key_of ?c) = set ?c" by (rule set_sort)
  then have mem: "set ?c = insert j (set rest)" unfolding sk by simp
  have "sorted (map claim_key_of (j # rest))" unfolding sk [symmetric] by (rule sorted_sort_key)
  then have min: "\<forall>k \<in> set ?c. claim_key_of j \<le> claim_key_of k" unfolding mem by auto
  have jin: "j \<in> set ?c" unfolding mem by simp
  show ?thesis using min jin by simp
qed

lemma select_claim_None:
  "select_claim now locked kinds js = None \<longleftrightarrow>
     (\<forall>k \<in> set js. \<not> (claimable now k \<and> \<not> locked (j_id k) \<and>
        (case kinds of None \<Rightarrow> True | Some ks \<Rightarrow> j_kind k \<in> set ks)))"
proof -
  let ?c = "filter (\<lambda>j. claimable now j \<and> \<not> locked (j_id j) \<and>
                (case kinds of None \<Rightarrow> True | Some ks \<Rightarrow> j_kind j \<in> set ks)) js"
  have "select_claim now locked kinds js = None \<longleftrightarrow> sort_key claim_key_of ?c = []"
    unfolding select_claim_def by (cases "sort_key claim_key_of ?c") (simp_all only: list.case list.distinct option.distinct simp_thms)
  also have "\<dots> \<longleftrightarrow> ?c = []" by (rule sort_key_Nil_iff)
  also have "\<dots> \<longleftrightarrow> (\<forall>k \<in> set js. \<not> (claimable now k \<and> \<not> locked (j_id k) \<and>
        (case kinds of None \<Rightarrow> True | Some ks \<Rightarrow> j_kind k \<in> set ks)))"
    by (rule filter_empty_conv)
  finally show ?thesis .
qed

text \<open>What a successful claim does, in one statement over the tables.\<close>

lemma claim_body_Some:
  assumes "claim_body locked tok aid now now' owner secs kinds db = Inr (Some (row, gen), db')"
  shows "select_claim now locked kinds (jobs db) = Some row \<and> gen = j_generation row + 1 \<and>
    jobs db' = update_rows (\<lambda>j. j_id j = j_id row) (claim_update gen owner tok secs now') (jobs db) \<and>
    results db' = results db \<and>
    (\<exists>ats. ats = (if j_state row = J_RUNNING
             then update_rows (open_attempt (j_id row) (j_generation row)) (expire_attempt now') (attempts db)
             else attempts db) \<and> aid \<notin> at_id ` set ats \<and>
       attempts db' = ats @ [\<lparr>at_id = aid, at_job_id = j_id row, at_generation = gen, at_token = tok,
                  at_owner = owner, at_ended_at = None, at_status = AT_RUNNING, at_error = None\<rparr>])"
  using assms
  by (auto simp: claim_body_def Let_def and_then_Inr insert_attempt_def fresh_def
      split: if_splits option.splits)

lemma claim_body_None:
  "claim_body locked tok aid now now' owner secs kinds db = Inr (None, db') \<Longrightarrow> db' = db"
  by (auto simp: claim_body_def Let_def and_then_Inr split: if_splits option.splits)


lemma attempts_ok_bounds:
  assumes "attempts_ok j ats" "a \<in> set ats"
  shows "1 \<le> at_generation a \<and> at_generation a \<le> j_generation j"
proof -
  have "at_generation a \<in> set (map at_generation ats)" using assms(2) by simp
  then show ?thesis using assms(1) unfolding attempts_ok_def by simp
qed

lemma attempts_of_expire:
  "attempts_of k (update_rows (open_attempt jid g) (expire_attempt now) ats) =
     (if k = jid then update_rows (open_attempt jid g) (expire_attempt now) (attempts_of jid ats)
      else attempts_of k ats)"
  using attempts_of_update [of "open_attempt jid g" jid "expire_attempt now"]
  by (simp add: open_attempt_def expire_attempt_def)

lemma attempt_closed_at_next:
  assumes "attempts_ok j ats" "job_shape j" "claimable now j" "a \<in> set ats"
    and "a' = (if j_state j = J_RUNNING \<and> open_attempt (j_id j) (j_generation j) a then expire_attempt now' a else a)"
    and "at_job_id a = j_id j"
  shows "attempt_ok (claim_update (j_generation j + 1) owner tok secs now' j) a'"
proof -
  have ok: "attempt_ok j a" using assms(1,4) by (auto simp: attempts_ok_def list_all_iff)
  have "at_generation a \<noteq> j_generation j + 1" using attempts_ok_bounds [OF assms(1,4)] by simp
  with ok assms(2,3,5,6) show ?thesis
    by (auto simp: attempt_ok_def claim_update_def open_attempt_def expire_attempt_def claimable_def
        split: option.splits)
qed

lemma map_generation_expire:
  "map at_generation (update_rows P (expire_attempt now) ats) = map at_generation ats"
  by (simp add: map_update_rows_same expire_attempt_def)

lemma claimed_job_ok:
  assumes ok: "job_ok ats res j" and c: "claimable now j"
    and ats': "ats' = (if j_state j = J_RUNNING
       then update_rows (open_attempt (j_id j) (j_generation j)) (expire_attempt now') ats else ats)"
    and a: "at_job_id a = j_id j" "at_generation a = j_generation j + 1" "at_token a = tok"
      "at_owner a = owner" "at_ended_at a = None" "at_status a = AT_RUNNING" "at_error a = None"
  shows "job_ok (ats' @ [a]) res (claim_update (j_generation j + 1) owner tok secs now' j)"
proof -
  let ?j = "claim_update (j_generation j + 1) owner tok secs now' j"
  let ?mine = "attempts_of (j_id j) ats"
  have shape: "job_shape j" and at: "attempts_ok j ?mine" using ok by (auto simp: job_ok_def)
  have mine': "attempts_of (j_id j) ats' = (if j_state j = J_RUNNING
       then update_rows (open_attempt (j_id j) (j_generation j)) (expire_attempt now') ?mine else ?mine)"
    unfolding ats' by (simp add: attempts_of_expire)
  have gens: "map at_generation (attempts_of (j_id j) ats') = [1..j_generation j]"
    using at unfolding mine' by (simp add: map_generation_expire attempts_ok_def)
  have old: "attempt_ok ?j a'" if in': "a' \<in> set (attempts_of (j_id j) ats')" for a'
  proof -
    obtain b where b: "b \<in> set ?mine"
      "a' = (if j_state j = J_RUNNING \<and> open_attempt (j_id j) (j_generation j) b then expire_attempt now' b else b)"
      using in' unfolding mine' by (cases "j_state j = J_RUNNING") (auto elim!: in_update_rows)
    then show ?thesis
      by (intro attempt_closed_at_next [OF at shape c b(1) b(2)]) (simp add: attempts_of_def)
  qed
  have g: "[1..j_generation j + 1] = [1..j_generation j] @ [j_generation j + 1]"
    using shape by (simp add: upto_rec2 job_shape_def)
  have "attempts_ok ?j (attempts_of (j_id j) (ats' @ [a]))"
    using old gens a by (simp add: attempts_ok_def attempts_of_snoc list_all_iff g)
      (auto simp: claim_update_def attempt_ok_def g)
  moreover have "job_shape ?j"
    using shape by (simp add: job_shape_def claim_update_def failed_states_def)
  moreover have "j_state j \<noteq> J_SUCCEEDED" using c by (auto simp: claimable_def)
  ultimately show ?thesis using ok by (simp add: job_ok_def claim_update_def)
qed

lemma claim_body_inv:
  assumes inv: "queue_inv db"
    and c: "claim_body locked tok aid now now' owner secs kinds db = Inr (r, db')"
  shows "queue_inv db'"
proof (cases r)
  case None
  with c inv show ?thesis by (auto dest: claim_body_None)
next
  case (Some rg)
  obtain j g where rg: "rg = (j, g)" by force
  note f = claim_body_Some [OF c [unfolded Some rg]]
  have sel: "j \<in> set (jobs db)" "claimable now j" using f select_claim_Some by blast+
  obtain ats where ats: "ats = (if j_state j = J_RUNNING
             then update_rows (open_attempt (j_id j) (j_generation j)) (expire_attempt now') (attempts db)
             else attempts db)" "aid \<notin> at_id ` set ats"
       "attempts db' = ats @ [\<lparr>at_id = aid, at_job_id = j_id j, at_generation = g, at_token = tok,
                  at_owner = owner, at_ended_at = None, at_status = AT_RUNNING, at_error = None\<rparr>]"
    using f by blast
  have gen: "g = j_generation j + 1" and res: "results db' = results db" using f by simp_all
  have ids: "map at_id ats = map at_id (attempts db)" "map at_job_id ats = map at_job_id (attempts db)"
    unfolding ats(1) by (simp_all add: map_update_rows_same expire_attempt_def)
  show ?thesis
  proof (rule queue_inv_one_job [OF inv sel(1), where P = "\<lambda>x. j_id x = j_id j"
        and f = "claim_update g owner tok secs now'"])
    show "jobs db' = update_rows (\<lambda>x. j_id x = j_id j) (claim_update g owner tok secs now') (jobs db)"
      using f by simp
    show "attempts_of k (attempts db') = attempts_of k (attempts db)" if "k \<noteq> j_id j" for k
      using that by (simp add: ats(1,3) attempts_of_snoc attempts_of_expire)
    show "distinct (map at_id (attempts db'))"
      using inv ats(2) by (simp add: ats(3) ids queue_inv_def flip: set_map)
    show "at_job_id ` set (attempts db') \<subseteq> insert (j_id j) (at_job_id ` set (attempts db))"
      by (simp add: ats(3) flip: set_map) (simp add: ids subset_insertI)
    show "job_ok (attempts db') (results db') (claim_update g owner tok secs now' j)"
      unfolding ats(3) res gen
      by (rule claimed_job_ok [OF queue_inv_job [OF inv sel(1)] sel(2) ats(1)]) simp_all
  qed (use inv res in \<open>auto simp: claim_update_def queue_inv_def\<close>)
qed


section \<open>Heartbeat and requeue\<close>

lemma holds_lease_unique:
  assumes "queue_inv db" "hits (holds_lease c now) (jobs db) = 1"
  obtains j where "j \<in> set (jobs db)" "holds_lease c now j" "j_id j = cl_id c"
proof -
  have "hits (holds_lease c now) (jobs db) \<noteq> 0" using assms(2) by simp
  then obtain j where "j \<in> set (jobs db)" "holds_lease c now j" unfolding hits_zero_iff by blast
  then show ?thesis using that by (auto simp: holds_lease_def)
qed

lemma hits_holds_lease:
  assumes "queue_inv db" "j \<in> set (jobs db)" "holds_lease c now j"
  shows "hits (holds_lease c now) (jobs db) = 1"
proof (rule hits_one_of_key [where key = j_id and r = j])
  show "distinct (map j_id (jobs db))" using assms(1) by (simp add: queue_inv_def)
  show "j_id r' = j_id j" if "holds_lease c now r'" for r'
    using that assms(3) by (simp add: holds_lease_def)
qed (fact assms)+

lemma heartbeat_body_inv:
  assumes inv: "queue_inv db" and h: "heartbeat_body now c secs db = Inr (r, db')"
  shows "queue_inv db'"
proof -
  let ?f = "\<lambda>j. j\<lparr>j_heartbeat_at := Some now, j_until := Some (now + micros secs), j_updated_at := now\<rparr>"
  have one: "hits (holds_lease c now) (jobs db) = 1"
    and db': "db' = db\<lparr>jobs := update_rows (holds_lease c now) ?f (jobs db)\<rparr>"
    using h by (auto simp: heartbeat_body_def)
  obtain j where j: "j \<in> set (jobs db)" "holds_lease c now j" "j_id j = cl_id c"
    using holds_lease_unique [OF inv one] .
  show ?thesis
  proof (rule queue_inv_one_job [OF inv j(1), where P = "holds_lease c now" and f = ?f])
    show "job_ok (attempts db') (results db') (?f j)"
      using queue_inv_job [OF inv j(1)] j(2)
      by (auto simp: db' job_ok_def job_shape_def attempts_ok_def attempt_ok_def holds_lease_def
          list_all_iff split: option.splits)
  qed (use inv j in \<open>auto simp: db' queue_inv_def holds_lease_def\<close>)
qed

text \<open>Putting a retryable failure back to pending, by \<open>requeue_retryable\<close> or by a domain service.\<close>

definition requeue_row :: "int \<Rightarrow> job_row \<Rightarrow> job_row" where
  "requeue_row now j = j\<lparr>j_state := J_PENDING, j_error := None, j_updated_at := now\<rparr>"

lemma requeue_row_ok:
  assumes "job_ok ats res j" "j_state j = J_FAILED_RETRYABLE"
  shows "job_ok ats res (requeue_row now j)"
  using assms
  by (auto simp: requeue_row_def job_ok_def job_shape_def attempts_ok_def attempt_ok_def failed_states_def
      list_all_iff split: option.splits)

lemma requeue_rows_inv:
  assumes inv: "queue_inv db" and P: "\<And>j. j \<in> set (jobs db) \<Longrightarrow> P j \<Longrightarrow> j_state j = J_FAILED_RETRYABLE"
    and db': "jobs db' = update_rows P (requeue_row now) (jobs db)" "attempts db' = attempts db"
      "results db' = results db"
  shows "queue_inv db'"
proof -
  have ids: "map j_id (jobs db') = map j_id (jobs db)"
    "map j_logical_key (jobs db') = map j_logical_key (jobs db)"
    unfolding db' by (simp_all add: map_update_rows_same requeue_row_def)
  have "job_ok (attempts db') (results db') x" if x: "x \<in> set (jobs db')" for x
  proof -
    obtain y where "y \<in> set (jobs db)" "x = (if P y then requeue_row now y else y)"
      using x unfolding db'(1) by (rule in_update_rows)
    then show ?thesis
      using queue_inv_job [OF inv, of y] P requeue_row_ok [of "attempts db" "results db" y]
      by (auto simp: db')
  qed
  then show ?thesis using inv unfolding queue_inv_def ids db'(2,3) list_all_iff by blast
qed

lemma requeue_body_inv:
  assumes "queue_inv db" "requeue_body now jid expected db = Inr (r, db')"
  shows "queue_inv db'"
  by (rule requeue_rows_inv [OF assms(1), where now = now and P = "\<lambda>j. j_id j = jid \<and>
        j_state j = J_FAILED_RETRYABLE \<and> j_generation j = expected \<and> j_token j = None"])
    (use assms(2) in \<open>auto simp: requeue_body_def Let_def requeue_row_def [abs_def]\<close>)


section \<open>Completion\<close>

lemma check_completion_Inr:
  "check_completion target code = Inr () \<longleftrightarrow>
     target = J_SUCCEEDED \<and> code = None \<or>
     (\<exists>c. target \<in> failed_states \<and> code = Some c \<and> \<not> is_blank c \<and> length c \<le> 128)"
  by (cases target; cases code)
    (auto simp: check_completion_def completion_states_def failed_states_def not_less)

lemma complete_body_Inr:
  assumes "complete_body sha rid now c target result code effect db = Inr (r, db')"
  obtains db2 new where "hits (holds_lease c now) (jobs db) = 1"
    "effect (db\<lparr>jobs := update_rows (holds_lease c now) (complete_job target code now) (jobs db)\<rparr>) = Inr db2"
    "jobs db' = jobs db2" "hits (my_attempt c) (attempts db2) = 1"
    "attempts db' = update_rows (my_attempt c) (close_attempt target code now) (attempts db2)"
    "results db' = results db2 @ new"
    "if target = J_SUCCEEDED
     then \<exists>h. new = [\<lparr>re_id = rid, re_job_id = cl_id c, re_json = JObj result, re_hash = h\<rparr>] \<and>
            rid \<notin> re_id ` set (results db2)
     else new = []"
proof (cases "target = J_SUCCEEDED")
  case True
  show ?thesis
    using assms unfolding complete_body_def Let_def
    by (auto simp: True and_then_Inr insert_result_def fresh_def Let_def split: option.splits intro!: that)
next
  case False
  show ?thesis
    using assms unfolding complete_body_def Let_def
    by (auto simp: False and_then_Inr intro!: that)
qed

lemma completed_attempt_ok:
  assumes "check_completion target code = Inr ()" "at_generation a = j_generation j"
  shows "attempt_ok (complete_job target code now j) (close_attempt target code now a)"
  using assms
  by (cases target; cases code)
    (auto simp: attempt_ok_def close_attempt_def complete_job_def check_completion_Inr failed_states_def
      Suc_le_eq)

lemma completed_job_ok:
  assumes ok: "job_ok ats res j" and lease: "holds_lease c now j"
    and code: "check_completion target code = Inr ()"
    and res': "results_of (j_id j) res' = (if target = J_SUCCEEDED then [r] else results_of (j_id j) res)"
  shows "job_ok (update_rows (my_attempt c) (close_attempt target code now) ats) res'
           (complete_job target code now j)"
proof -
  let ?j = "complete_job target code now j" and ?mine = "attempts_of (j_id j) ats"
  have shape: "job_shape j" and at: "attempts_ok j ?mine" and res: "results_of (j_id j) res = []"
    using ok lease by (auto simp: job_ok_def holds_lease_def)
  have mine': "attempts_of (j_id j) (update_rows (my_attempt c) (close_attempt target code now) ats) =
      update_rows (my_attempt c) (close_attempt target code now) ?mine"
    using lease by (intro attempts_of_update(2)) (auto simp: my_attempt_def open_attempt_def close_attempt_def holds_lease_def)
  have "attempt_ok ?j a'"
    if in': "a' \<in> set (update_rows (my_attempt c) (close_attempt target code now) ?mine)" for a'
  proof -
    from in' obtain a where a: "a \<in> set ?mine" "a' = (if my_attempt c a then close_attempt target code now a else a)"
      by (rule in_update_rows)
    have aok: "attempt_ok j a" using at a(1) by (simp add: attempts_ok_def list_all_iff)
    have aj: "at_job_id a = j_id j" using a(1) by (simp add: attempts_of_def)
    have l: "j_state j = J_RUNNING" "j_generation j = cl_generation c" "j_id j = cl_id c"
      "j_token j = Some (cl_token c)" using lease by (simp_all add: holds_lease_def)
    show ?thesis
    proof (cases "my_attempt c a")
      case True
      with a(2) have "a' = close_attempt target code now a" by simp
      moreover have "at_generation a = j_generation j" using True l by (simp add: my_attempt_def open_attempt_def)
      ultimately show ?thesis by (simp add: completed_attempt_ok [OF code])
    next
      case False
      with aok aj l have "at_status a \<noteq> AT_RUNNING"
        by (auto simp: my_attempt_def open_attempt_def attempt_ok_def)
      with aok l have "at_generation a \<noteq> j_generation j" "attempt_ok j a" by (auto simp: attempt_ok_def)
      with False a(2) l show ?thesis by (simp add: attempt_ok_def complete_job_def)
    qed
  qed
  moreover have "map at_generation (update_rows (my_attempt c) (close_attempt target code now) ?mine) = [1..j_generation ?j]"
    using at by (simp add: map_update_rows_same close_attempt_def attempts_ok_def complete_job_def)
  ultimately have "attempts_ok ?j (update_rows (my_attempt c) (close_attempt target code now) ?mine)"
    by (simp add: attempts_ok_def list_all_iff)
  moreover have "job_shape ?j"
    using shape code by (auto simp: job_shape_def complete_job_def check_completion_Inr failed_states_def Suc_le_eq
        split: option.splits)
  moreover have "length (results_of (j_id j) res') = (if target = J_SUCCEEDED then 1 else 0)"
    by (simp add: res' res)
  moreover have "j_id ?j = j_id j" "j_state ?j = target" by (simp_all add: complete_job_def)
  ultimately show ?thesis by (simp add: job_ok_def mine' split del: if_split)
qed


text \<open>
  The effect of a completion may change every other table and add jobs, in the same transaction; it
  never touches attempts, results or existing jobs.
\<close>

definition domain_effect :: "('z queue_db_scheme \<Rightarrow> app_error + 'z queue_db_scheme) \<Rightarrow> bool" where
  "domain_effect effect \<longleftrightarrow> (\<forall>d d'. effect d = Inr d' \<longrightarrow> adds_jobs d d')"

lemma complete_body_inv:
  assumes inv: "queue_inv db" and eff: "domain_effect effect"
    and code: "check_completion target code = Inr ()"
    and c: "complete_body sha rid now c target result code effect db = Inr (r, db')"
  shows "queue_inv db'"
proof -
  let ?f = "complete_job target code now"
  let ?db1 = "db\<lparr>jobs := update_rows (holds_lease c now) ?f (jobs db)\<rparr>"
  from c obtain db2 new where one: "hits (holds_lease c now) (jobs db) = 1" and e: "effect ?db1 = Inr db2"
    and r: "jobs db' = jobs db2" "hits (my_attempt c) (attempts db2) = 1"
      "attempts db' = update_rows (my_attempt c) (close_attempt target code now) (attempts db2)"
      "results db' = results db2 @ new"
      "if target = J_SUCCEEDED
       then \<exists>h. new = [\<lparr>re_id = rid, re_job_id = cl_id c, re_json = JObj result, re_hash = h\<rparr>] \<and>
              rid \<notin> re_id ` set (results db2)
       else new = []"
    by (rule complete_body_Inr)
  have add: "adds_jobs ?db1 db2" using eff e by (simp add: domain_effect_def)
  then have same: "attempts db2 = attempts db" "results db2 = results db" by (simp_all add: adds_jobs_def)
  obtain j where j: "j \<in> set (jobs db)" "holds_lease c now j" "j_id j = cl_id c"
    using holds_lease_unique [OF inv one] .
  let ?A = "?db1\<lparr>attempts := attempts db', results := results db'\<rparr>"
  have new: "new = [] \<and> target \<noteq> J_SUCCEEDED \<or>
      (\<exists>x. new = [x] \<and> re_job_id x = cl_id c \<and> re_id x \<notin> re_id ` set (results db) \<and> target = J_SUCCEEDED)"
    using r(5) same by (auto split: if_splits)
  have "queue_inv ?A"
  proof (rule queue_inv_one_job [OF inv j(1), where P = "holds_lease c now" and f = ?f])
    show "attempts_of k (attempts ?A) = attempts_of k (attempts db)" if "k \<noteq> j_id j" for k
      using that j(3) by (simp add: r(3) same)
        (rule attempts_of_update(1) [of _ "cl_id c"], auto simp: my_attempt_def open_attempt_def close_attempt_def)
    show "results_of k (results ?A) = results_of k (results db)" if "k \<noteq> j_id j" for k
      using that j(3) new by (auto simp: r(4) same results_of_def)
    show "distinct (map at_id (attempts ?A))"
      using inv by (simp add: r(3) same map_update_rows_same close_attempt_def queue_inv_def)
    show "distinct (map re_id (results ?A))"
      using new inv by (elim disjE exE conjE) (simp_all add: r(4) same queue_inv_def)
    show "at_job_id ` set (attempts ?A) \<subseteq> insert (j_id j) (at_job_id ` set (attempts db))"
      by (auto simp: r(3) same set_update_rows close_attempt_def)
    show "re_job_id ` set (results ?A) \<subseteq> insert (j_id j) (re_job_id ` set (results db))"
      using new j(3) by (auto simp: r(4) same)
    show "job_ok (attempts ?A) (results ?A) (?f j)"
    proof -
      have "results_of (j_id j) (results db') = (if target = J_SUCCEEDED then [hd new] else results_of (j_id j) (results db))"
        using queue_inv_job [OF inv j(1)] j new
        by (auto simp: r(4) same results_of_snoc job_ok_def holds_lease_def)
      then show ?thesis
        using completed_job_ok [OF queue_inv_job [OF inv j(1)] j(2) code] by (simp add: r(3) same)
    qed
  qed (use j in \<open>auto simp: holds_lease_def complete_job_def\<close>)
  moreover have "adds_jobs ?A db'"
    using add by (simp add: adds_jobs_def r(1))
  ultimately show ?thesis by (rule adds_jobs_inv)
qed

lemma complete_with_effects_inv:
  "queue_inv db \<Longrightarrow> domain_effect effect \<Longrightarrow>
   queue_inv (snd (complete_with_effects sha rid now c target result code effect db))"
  by (auto simp: complete_with_effects_def transaction_def split: sum.splits intro: complete_body_inv)

lemma claim_next_inv: "queue_inv db \<Longrightarrow> queue_inv (snd (claim_next locked tok aid now now' owner secs kinds db))"
  by (auto simp: claim_next_def transaction_def Let_def split: sum.splits intro: claim_body_inv)

lemma heartbeat_inv: "queue_inv db \<Longrightarrow> queue_inv (snd (heartbeat now c secs db))"
  by (auto simp: heartbeat_def transaction_def split: sum.splits intro: heartbeat_body_inv)

lemma requeue_retryable_inv: "queue_inv db \<Longrightarrow> queue_inv (snd (requeue_retryable now jid expected db))"
  by (auto simp: requeue_retryable_def transaction_def split: sum.splits intro: requeue_body_inv)

end
