(* ===== verification/Queue_Fencing.thy ===== *)
theory Queue_Fencing
  imports Queue_Invariant
begin

text \<open>
  Fencing.  \<open>queue_step\<close> is one committed operation of any client of the queue, in any order and with any
  clock reading, random identifier or lock set; \<open>queue_reachable\<close> are the states of all interleavings.
  The locale \<open>lease_fencing\<close> states what a worker relies on: a lease that was lost is never owned again,
  only the owner can finish, and a claim takes the job away from every earlier lease.  Its
  interpretation \<open>pgq\<close> discharges those laws for the model of \<open>PostgresJobQueue\<close>.
\<close>

section \<open>The interface of a fenced queue\<close>

locale lease_fencing =
  fixes step :: "'s \<Rightarrow> 's \<Rightarrow> bool"
    and inv :: "'s \<Rightarrow> bool"
    and job_of :: "'c \<Rightarrow> 'k"
    and issued :: "'s \<Rightarrow> 'c \<Rightarrow> bool"
    and owns :: "'s \<Rightarrow> 'c \<Rightarrow> bool"
    and take :: "'t \<Rightarrow> 's \<Rightarrow> ('e + 'c option) \<times> 's"
    and admissible :: "'w \<Rightarrow> bool"
    and finish :: "'w \<Rightarrow> 'c \<Rightarrow> 's \<Rightarrow> ('e + unit) \<times> 's"
  assumes inv_step: "inv s \<Longrightarrow> step s s' \<Longrightarrow> inv s'"
    and issued_step: "inv s \<Longrightarrow> step s s' \<Longrightarrow> issued s c \<Longrightarrow> issued s' c"
    and owns_issued: "owns s c \<Longrightarrow> issued s c"
    and lost_step: "inv s \<Longrightarrow> step s s' \<Longrightarrow> issued s c \<Longrightarrow> \<not> owns s c \<Longrightarrow> \<not> owns s' c"
    and take_step: "step s (snd (take t s))"
    and take_owns: "inv s \<Longrightarrow> take t s = (Inr (Some c), s') \<Longrightarrow> owns s' c"
    and take_supersedes: "inv s \<Longrightarrow> take t s = (Inr (Some c), s') \<Longrightarrow> issued s d \<Longrightarrow> job_of d = job_of c \<Longrightarrow>
      \<not> owns s' d"
    and finish_step: "admissible w \<Longrightarrow> step s (snd (finish w c s))"
    and finish_owned: "inv s \<Longrightarrow> finish w c s = (Inr x, s') \<Longrightarrow> owns s c"
    and finish_releases: "inv s \<Longrightarrow> admissible w \<Longrightarrow> finish w c s = (Inr x, s') \<Longrightarrow> \<not> owns s' c"
    and finish_failed: "finish w c s = (Inl e, s') \<Longrightarrow> s' = s"
begin

lemma inv_steps: "step\<^sup>*\<^sup>* s s' \<Longrightarrow> inv s \<Longrightarrow> inv s'"
  by (induction rule: rtranclp_induct) (auto intro: inv_step)

lemma lost_forever:
  "step\<^sup>*\<^sup>* s s' \<Longrightarrow> inv s \<Longrightarrow> issued s c \<Longrightarrow> \<not> owns s c \<Longrightarrow> issued s' c \<and> \<not> owns s' c"
proof (induction rule: rtranclp_induct)
  case (step y z)
  then have "inv y" by (blast intro: inv_steps)
  with step show ?case using issued_step [of y z c] lost_step [of y z c] by simp
qed simp

lemma not_owner_fails:
  assumes "inv s" "\<not> owns s c"
  shows "\<exists>e. finish w c s = (Inl e, s)"
proof -
  obtain r s' where f: "finish w c s = (r, s')" by force
  with finish_owned [OF assms(1)] assms(2) obtain e where "r = Inl e" by (cases r) auto
  with f finish_failed show ?thesis by auto
qed

lemma superseded_never_finishes:
  assumes "inv s" "issued s d" "take t s = (Inr (Some c), s1)" "job_of d = job_of c" "step\<^sup>*\<^sup>* s1 s2"
  shows "\<exists>e. finish w d s2 = (Inl e, s2)"
proof -
  have st: "step s s1" using take_step [of s t] assms(3) by simp
  then have "inv s1" "issued s1 d" using assms by (blast intro: inv_step issued_step)+
  moreover have "\<not> owns s1 d" by (rule take_supersedes [OF assms(1,3,2,4)])
  ultimately have "inv s2" "\<not> owns s2 d" using assms(5) lost_forever inv_steps by blast+
  then show ?thesis by (rule not_owner_fails)
qed

lemma finishes_once:
  assumes "inv s" "admissible w" "finish w c s = (Inr x, s1)" "step\<^sup>*\<^sup>* s1 s2"
  shows "\<exists>e. finish w' c s2 = (Inl e, s2)"
proof -
  have st: "step s s1" using finish_step [OF assms(2), of s c] assms(3) by simp
  have "issued s c" using assms owns_issued finish_owned by blast
  with st assms(1) have "inv s1" "issued s1 c" by (blast intro: inv_step issued_step)+
  moreover have "\<not> owns s1 c" by (rule finish_releases [OF assms(1-3)])
  ultimately have "inv s2" "\<not> owns s2 c" using assms(4) lost_forever inv_steps by blast+
  then show ?thesis by (rule not_owner_fails)
qed

end

section \<open>The queue operations as steps\<close>

inductive queue_step :: "'z queue_db_scheme \<Rightarrow> 'z queue_db_scheme \<Rightarrow> bool" where
  S_enqueue: "queue_step db (snd (enqueue jid now key kind payload snap db))"
| S_claim: "queue_step db (snd (claim_next locked tok aid now now' owner secs kinds db))"
| S_heartbeat: "queue_step db (snd (heartbeat now c secs db))"
| S_complete: "domain_effect effect \<Longrightarrow>
    queue_step db (snd (complete_with_effects sha rid now c target result code effect db))"
| S_requeue: "queue_step db (snd (requeue_retryable now jid expected db))"
| S_domain: "adds_jobs db db' \<Longrightarrow> queue_step db db'"
| S_retry: "(\<And>j. P j \<Longrightarrow> j_state j = J_FAILED_RETRYABLE) \<Longrightarrow>
    jobs db' = update_rows P (requeue_row now) (jobs db) \<Longrightarrow> attempts db' = attempts db \<Longrightarrow>
    results db' = results db \<Longrightarrow> queue_step db db'"

inductive_cases queue_stepE: "queue_step db db'"

definition empty_queue :: queue_db where
  "empty_queue = \<lparr>jobs = [], attempts = [], results = []\<rparr>"

inductive queue_reachable :: "queue_db \<Rightarrow> bool" where
  Q_init: "queue_reachable empty_queue"
| Q_step: "queue_reachable db \<Longrightarrow> queue_step db db' \<Longrightarrow> queue_reachable db'"

lemma queue_step_inv: "queue_step db db' \<Longrightarrow> queue_inv db \<Longrightarrow> queue_inv db'"
proof (induction rule: queue_step.induct)
  case (S_enqueue db jid now key kind payload snap)
  show ?case by (rule adds_jobs_inv [OF S_enqueue enqueue_adds])
next
  case (S_claim db)
  then show ?case by (rule claim_next_inv)
next
  case (S_heartbeat db)
  then show ?case by (rule heartbeat_inv)
next
  case (S_complete effect db)
  show ?case by (rule complete_with_effects_inv [OF S_complete(2,1)])
next
  case (S_requeue db)
  then show ?case by (rule requeue_retryable_inv)
next
  case (S_domain db db')
  show ?case by (rule adds_jobs_inv [OF S_domain(2,1)])
next
  case (S_retry P db' now db)
  show ?case by (rule requeue_rows_inv [OF S_retry(5) S_retry(1) S_retry(2-4)])
qed

lemma empty_queue_inv [simp]: "queue_inv empty_queue"
  by (simp add: queue_inv_def empty_queue_def)

lemma reachable_inv: "queue_reachable db \<Longrightarrow> queue_inv db"
  by (induction rule: queue_reachable.induct) (simp, rule queue_step_inv)


section \<open>How a job evolves\<close>

definition terminal_states :: "job_state set" where
  "terminal_states = {J_SUCCEEDED, J_FAILED_TERMINAL}"

text \<open>
  One step of one job: its identity columns and a terminal state never change, its generation never
  decreases, and a lease that is running afterwards under the old generation was running before with
  the same token.
\<close>

definition evolves :: "job_row \<Rightarrow> job_row \<Rightarrow> bool" where
  "evolves j j' \<longleftrightarrow>
     j_id j' = j_id j \<and> j_logical_key j' = j_logical_key j \<and> j_kind j' = j_kind j \<and>
     j_payload j' = j_payload j \<and> j_snapshot_id j' = j_snapshot_id j \<and> j_created_at j' = j_created_at j \<and>
     j_generation j \<le> j_generation j' \<and> (j_state j \<in> terminal_states \<longrightarrow> j' = j) \<and>
     (j_generation j' = j_generation j \<and> j_state j' = J_RUNNING \<longrightarrow> j_state j = J_RUNNING \<and> j_token j' = j_token j)"

lemma evolvesD:
  assumes "evolves j k"
  shows "j_id k = j_id j" "j_generation j \<le> j_generation k" "j_state j \<in> terminal_states \<Longrightarrow> k = j"
    "j_generation k = j_generation j \<Longrightarrow> j_state k = J_RUNNING \<Longrightarrow> j_state j = J_RUNNING \<and> j_token k = j_token j"
  using assms unfolding evolves_def by blast+

lemma evolves_refl [simp]: "evolves j j"
  by (simp add: evolves_def)

lemma evolves_trans:
  assumes "evolves a b" "evolves b c"
  shows "evolves a c"
proof (cases "j_state a \<in> terminal_states")
  case True
  with assms(1) have "b = a" by (simp add: evolves_def)
  with assms(2) show ?thesis by simp
next
  case False
  note e1 = assms(1) [unfolded evolves_def] and e2 = assms(2) [unfolded evolves_def]
  have g: "j_generation a \<le> j_generation b" "j_generation b \<le> j_generation c"
    using e1 e2 by blast+
  have ab: "j_generation b = j_generation a \<and> j_state b = J_RUNNING \<Longrightarrow> j_state a = J_RUNNING \<and> j_token b = j_token a"
    using assms(1) unfolding evolves_def by blast
  have bc: "j_generation c = j_generation b \<and> j_state c = J_RUNNING \<Longrightarrow> j_state b = J_RUNNING \<and> j_token c = j_token b"
    using assms(2) unfolding evolves_def by blast
  have same: "j_id c = j_id a" "j_logical_key c = j_logical_key a" "j_kind c = j_kind a"
    "j_payload c = j_payload a" "j_snapshot_id c = j_snapshot_id a" "j_created_at c = j_created_at a"
    using e1 e2 by argo+
  have "j_state a = J_RUNNING \<and> j_token c = j_token a" if r: "j_generation c = j_generation a \<and> j_state c = J_RUNNING"
  proof -
    from r g have e: "j_generation b = j_generation a" "j_generation c = j_generation b" by linarith+
    with bc r have "j_state b = J_RUNNING" "j_token c = j_token b" by blast+
    with ab e show ?thesis by simp
  qed
  moreover have "j_generation a \<le> j_generation c" using g by linarith
  ultimately show ?thesis using same False by (simp only: evolves_def simp_thms) blast
qed

definition jobs_evolve :: "job_row list \<Rightarrow> job_row list \<Rightarrow> bool" where
  "jobs_evolve js js' \<longleftrightarrow> (\<forall>j \<in> set js. \<exists>j' \<in> set js'. evolves j j')"

lemma jobs_evolve_refl [simp]: "jobs_evolve js js"
  unfolding jobs_evolve_def using evolves_refl by blast

lemma jobs_evolve_update:
  "(\<And>j. j \<in> set js \<Longrightarrow> P j \<Longrightarrow> evolves j (f j)) \<Longrightarrow> jobs_evolve js (update_rows P f js)"
  unfolding jobs_evolve_def set_update_rows
proof
  fix j assume j: "j \<in> set js" and f: "\<And>j. j \<in> set js \<Longrightarrow> P j \<Longrightarrow> evolves j (f j)"
  have "(if P j then f j else j) \<in> (\<lambda>r. if P r then f r else r) ` set js" using j by (rule imageI)
  moreover have "evolves j (if P j then f j else j)" using f [OF j] by simp
  ultimately show "\<exists>j' \<in> (\<lambda>r. if P r then f r else r) ` set js. evolves j j'" by (rule rev_bexI)
qed

lemma jobs_evolve_append: "jobs_evolve js js' \<Longrightarrow> jobs_evolve js (js' @ new)"
  by (simp add: jobs_evolve_def) blast

lemma adds_jobsD:
  assumes "adds_jobs db db'"
  obtains new where "jobs db' = jobs db @ new" "results db' = results db" "attempts db' = attempts db"
    "list_all new_job new"
  using assms unfolding adds_jobs_def by blast

lemma adds_jobs_evolve:
  assumes "adds_jobs db db'"
  shows "jobs_evolve (jobs db) (jobs db') \<and> results db' = results db"
  using assms by (elim adds_jobsD) (simp add: jobs_evolve_append)

lemma claim_body_evolve:
  assumes "queue_inv db" "claim_body locked tok aid now now' owner secs kinds db = Inr (r, db')"
  shows "jobs_evolve (jobs db) (jobs db') \<and> results db' = results db"
proof (cases r)
  case None
  with assms(2) show ?thesis by (auto dest: claim_body_None)
next
  case (Some rg)
  obtain j g where rg: "rg = (j, g)" by force
  note f = claim_body_Some [OF assms(2) [unfolded Some rg]]
  have sel: "j \<in> set (jobs db)" "claimable now j" using f select_claim_Some by blast+
  have "evolves x (claim_update g owner tok secs now' x)" if x: "x \<in> set (jobs db)" "j_id x = j_id j" for x
  proof -
    have "distinct (map j_id (jobs db))" using assms(1) by (simp add: queue_inv_def)
    then have "x = j" using x(1) sel(1) x(2) by (rule distinct_key_unique)
    then show ?thesis using f sel(2) by (auto simp: evolves_def claim_update_def terminal_states_def claimable_def)
  qed
  then have "jobs_evolve (jobs db) (update_rows (\<lambda>x. j_id x = j_id j) (claim_update g owner tok secs now') (jobs db))"
    by (rule jobs_evolve_update)
  with f show ?thesis by simp
qed

lemma complete_body_evolve:
  assumes "domain_effect effect" "check_completion target code = Inr ()"
    and "complete_body sha rid now c target result code effect db = Inr (r, db')"
  shows "jobs_evolve (jobs db) (jobs db') \<and> (\<exists>new. results db' = results db @ new)"
proof -
  let ?db1 = "db\<lparr>jobs := update_rows (holds_lease c now) (complete_job target code now) (jobs db)\<rparr>"
  from assms(3) obtain db2 new where e: "effect ?db1 = Inr db2" "jobs db' = jobs db2" "results db' = results db2 @ new"
    by (rule complete_body_Inr)
  have add: "adds_jobs ?db1 db2" using assms(1) e(1) by (simp add: domain_effect_def)
  have "jobs_evolve (jobs db) (jobs ?db1)"
    using assms(2) by (auto intro!: jobs_evolve_update
        simp: evolves_def complete_job_def holds_lease_def terminal_states_def check_completion_Inr failed_states_def)
  with add e show ?thesis by (elim adds_jobsD) (auto intro: jobs_evolve_append)
qed

lemma heartbeat_evolve:
  "jobs_evolve (jobs db) (jobs (snd (heartbeat now c secs db))) \<and> results (snd (heartbeat now c secs db)) = results db"
  by (auto simp: heartbeat_def transaction_def heartbeat_body_def require_def evolves_def holds_lease_def
      terminal_states_def split: sum.splits intro!: jobs_evolve_update)

lemma requeue_row_evolves: "j_state j = J_FAILED_RETRYABLE \<Longrightarrow> evolves j (requeue_row now j)"
  by (simp add: evolves_def requeue_row_def terminal_states_def)

lemma requeue_evolve:
  "jobs_evolve (jobs db) (jobs (snd (requeue_retryable now jid g db))) \<and>
   results (snd (requeue_retryable now jid g db)) = results db"
  by (auto simp: requeue_retryable_def transaction_def requeue_body_def require_def Let_def
      simp flip: requeue_row_def split: sum.splits intro!: jobs_evolve_update requeue_row_evolves)

text \<open>Every step: each job evolves, and the table of results only grows.\<close>

lemma queue_step_evolves:
  "queue_step db db' \<Longrightarrow> queue_inv db \<Longrightarrow>
     jobs_evolve (jobs db) (jobs db') \<and> (\<exists>new. results db' = results db @ new)"
proof (induction rule: queue_step.induct)
  case (S_enqueue db jid now key kind payload snap)
  show ?case by (simp add: adds_jobs_evolve [OF enqueue_adds])
next
  case (S_claim db)
  then show ?case
    by (auto simp: claim_next_def transaction_def Let_def split: sum.splits dest: claim_body_evolve)
next
  case (S_complete effect db)
  then show ?case
    by (auto simp: complete_with_effects_def transaction_def split: sum.splits dest: complete_body_evolve)
next
  case (S_domain db db')
  show ?case by (simp add: adds_jobs_evolve [OF S_domain(1)])
next
  case (S_retry P db' now db)
  then show ?case by (auto intro!: jobs_evolve_update requeue_row_evolves)
qed (simp_all add: heartbeat_evolve requeue_evolve)


section \<open>The queue model satisfies the interface\<close>

definition issued :: "'z queue_db_scheme \<Rightarrow> claimed_job \<Rightarrow> bool" where
  "issued db c \<longleftrightarrow> list_ex (\<lambda>j. j_id j = cl_id c \<and> cl_generation c \<le> j_generation j) (jobs db)"

definition owns :: "'z queue_db_scheme \<Rightarrow> claimed_job \<Rightarrow> bool" where
  "owns db c \<longleftrightarrow> list_ex (\<lambda>j. j_id j = cl_id c \<and> j_state j = J_RUNNING \<and>
     j_generation j = cl_generation c \<and> j_token j = Some (cl_token c)) (jobs db)"

text \<open>The parameters of a claim and of a completion, as one value each.\<close>

record claim_call =
  cc_locked :: "uuid \<Rightarrow> bool"
  cc_token :: uuid
  cc_attempt :: uuid
  cc_now :: int
  cc_now' :: int
  cc_owner :: ustr
  cc_seconds :: int
  cc_kinds :: "ustr list option"

record 's completion_call =
  fc_sha :: "nat list \<Rightarrow> ustr"
  fc_result_id :: uuid
  fc_now :: int
  fc_target :: job_state
  fc_result :: "(ustr \<times> json) list"
  fc_code :: "ustr option"
  fc_effect :: "'s \<Rightarrow> app_error + 's"

definition run_claim :: "claim_call \<Rightarrow> 'z queue_db_scheme \<Rightarrow> (app_error + claimed_job option) \<times> 'z queue_db_scheme" where
  "run_claim t = claim_next (cc_locked t) (cc_token t) (cc_attempt t) (cc_now t) (cc_now' t) (cc_owner t)
     (cc_seconds t) (cc_kinds t)"

definition run_completion ::
  "'z queue_db_scheme completion_call \<Rightarrow> claimed_job \<Rightarrow> 'z queue_db_scheme \<Rightarrow> (app_error + unit) \<times> 'z queue_db_scheme" where
  "run_completion w c = complete_with_effects (fc_sha w) (fc_result_id w) (fc_now w) c (fc_target w) (fc_result w)
     (fc_code w) (fc_effect w)"

lemma unique_job: "queue_inv db \<Longrightarrow> j \<in> set (jobs db) \<Longrightarrow> k \<in> set (jobs db) \<Longrightarrow> j_id j = j_id k \<Longrightarrow> j = k"
  by (rule distinct_key_unique [where key = j_id]) (simp_all add: queue_inv_def)

lemma evolved_job:
  assumes "queue_inv db" "queue_step db db'" "j \<in> set (jobs db)" "j' \<in> set (jobs db')" "j_id j' = j_id j"
  shows "evolves j j'"
proof -
  obtain k where k: "k \<in> set (jobs db')" "evolves j k"
    using queue_step_evolves [OF assms(2,1)] assms(3) by (auto simp: jobs_evolve_def)
  have "j_id k = j_id j'" using evolvesD(1) [OF k(2)] assms(5) by simp
  then have "k = j'" by (rule unique_job [OF queue_step_inv [OF assms(2,1)] k(1) assms(4)])
  with k show ?thesis by simp
qed

lemma issued_step:
  assumes "queue_inv db" "queue_step db db'" "issued db c"
  shows "issued db' c"
proof -
  obtain j where j: "j \<in> set (jobs db)" "j_id j = cl_id c" "cl_generation c \<le> j_generation j"
    using assms(3) by (auto simp: issued_def list_ex_iff)
  moreover obtain k where k: "k \<in> set (jobs db')" "evolves j k"
    using queue_step_evolves [OF assms(2,1)] j(1) by (auto simp: jobs_evolve_def)
  moreover from k(2) have "j_id k = j_id j" "j_generation j \<le> j_generation k" by (rule evolvesD)+
  ultimately show ?thesis by (auto simp: issued_def list_ex_iff intro!: bexI [of _ k])
qed

lemma lost_step:
  assumes "queue_inv db" "queue_step db db'" "issued db c" "\<not> owns db c"
  shows "\<not> owns db' c"
proof
  assume "owns db' c"
  then obtain j' where j': "j' \<in> set (jobs db')" "j_id j' = cl_id c" "j_state j' = J_RUNNING"
    "j_generation j' = cl_generation c" "j_token j' = Some (cl_token c)"
    by (auto simp: owns_def list_ex_iff)
  obtain j where j: "j \<in> set (jobs db)" "j_id j = cl_id c" "cl_generation c \<le> j_generation j"
    using assms(3) by (auto simp: issued_def list_ex_iff)
  have e: "evolves j j'" using evolved_job [OF assms(1,2) j(1) j'(1)] j'(2) j(2) by simp
  have "j_generation j = cl_generation c" using j(3) j'(4) evolvesD(2) [OF e] by simp
  moreover from this have "j_state j = J_RUNNING" "j_token j = Some (cl_token c)"
    using j' evolvesD(4) [OF e] by simp_all
  ultimately have "owns db c" using j by (auto simp: owns_def list_ex_iff)
  with assms(4) show False ..
qed

lemma claim_next_Some:
  assumes "claim_next locked tok aid now now' owner secs kinds db = (Inr (Some c), db')"
  obtains row ks where "normalize_claim_kinds kinds = Inr ks"
    "claim_body locked tok aid now now' owner secs ks db = Inr (Some (row, cl_generation c), db')"
    "cl_id c = j_id row" "cl_token c = tok" "cl_kind c = j_kind row" "j_payload row = JObj (cl_payload c)"
    "cl_logical_key c = j_logical_key row" "cl_owner c = owner" "cl_attempt_id c = aid"
  using assms
  by (auto simp: claim_next_def Let_def transaction_def and_then_Inr claimed_from_row_def as_nonempty_string_def
      split: sum.splits option.splits json.splits)

lemma claimed_row:
  assumes "claim_body locked tok aid now now' owner secs ks db = Inr (Some (row, g), db')"
  shows "claim_update g owner tok secs now' row \<in> set (jobs db') \<and> g = j_generation row + 1 \<and>
    row \<in> set (jobs db) \<and> claimable now row"
proof -
  note f = claim_body_Some [OF assms]
  then have "row \<in> set (jobs db)" "claimable now row" using select_claim_Some by blast+
  with f show ?thesis by (force simp: set_update_rows image_iff)
qed

lemma claim_next_owns:
  assumes "claim_next locked tok aid now now' owner secs kinds db = (Inr (Some c), db')"
  shows "owns db' c"
proof -
  from assms obtain row ks where
    "claim_body locked tok aid now now' owner secs ks db = Inr (Some (row, cl_generation c), db')"
    "cl_id c = j_id row" "cl_token c = tok" by (rule claim_next_Some)
  note r = claimed_row [OF this(1)] this(2,3)
  show ?thesis unfolding owns_def list_ex_iff
    by (rule bexI [OF _ conjunct1 [OF r(1)]]) (simp add: claim_update_def r)
qed

lemma claim_next_supersedes:
  assumes "queue_inv db" "claim_next locked tok aid now now' owner secs kinds db = (Inr (Some c), db')"
    "issued db d" "cl_id d = cl_id c"
  shows "\<not> owns db' d"
proof
  assume "owns db' d"
  then obtain k where k: "k \<in> set (jobs db')" "j_id k = cl_id d" "j_generation k = cl_generation d"
    by (auto simp: owns_def list_ex_iff)
  from assms(2) obtain row ks where
    b: "claim_body locked tok aid now now' owner secs ks db = Inr (Some (row, cl_generation c), db')"
    "cl_id c = j_id row" by (rule claim_next_Some)
  note r = claimed_row [OF b(1)]
  have "queue_inv db'" by (rule claim_body_inv [OF assms(1) b(1)])
  then have "k = claim_update (cl_generation c) owner tok secs now' row"
    by (rule unique_job [OF _ k(1) conjunct1 [OF r]]) (simp add: claim_update_def k(2) b(2) assms(4))
  with k r have g: "cl_generation d = j_generation row + 1" by (simp add: claim_update_def)
  obtain j where j: "j \<in> set (jobs db)" "j_id j = cl_id d" "cl_generation d \<le> j_generation j"
    using assms(3) by (auto simp: issued_def list_ex_iff)
  then have "j = row" using unique_job [OF assms(1) j(1), of row] r b(2) assms(4) by simp
  with j g show False by simp
qed


lemma completion_holds:
  assumes "queue_inv db" "complete_with_effects sha rid now c target result code effect db = (Inr x, db')"
  obtains j where "check_completion target code = Inr ()"
    "complete_body sha rid now c target result code effect db = Inr (x, db')"
    "j \<in> set (jobs db)" "holds_lease c now j" "j_id j = cl_id c"
proof -
  have b: "check_completion target code = Inr ()"
    "complete_body sha rid now c target result code effect db = Inr (x, db')"
    using assms(2) by (auto simp: complete_with_effects_def transaction_Inr_iff split: sum.splits)
  have "hits (holds_lease c now) (jobs db) = 1" using b(2) by (elim complete_body_Inr)
  then obtain j where "j \<in> set (jobs db)" "holds_lease c now j" "j_id j = cl_id c"
    by (rule holds_lease_unique [OF assms(1)])
  with b that show ?thesis by blast
qed

lemma completion_owned:
  assumes "queue_inv db" "complete_with_effects sha rid now c target result code effect db = (Inr x, db')"
  shows "owns db c"
  using assms by (elim completion_holds) (auto simp: owns_def list_ex_iff holds_lease_def)

lemma completed_row:
  assumes "queue_inv db" "domain_effect effect"
    and "complete_with_effects sha rid now c target result code effect db = (Inr x, db')"
  obtains j where "j \<in> set (jobs db)" "holds_lease c now j" "complete_job target code now j \<in> set (jobs db')"
proof -
  from assms(1,3) obtain j where b: "complete_body sha rid now c target result code effect db = Inr (x, db')"
    "j \<in> set (jobs db)" "holds_lease c now j" by (rule completion_holds)
  let ?db1 = "db\<lparr>jobs := update_rows (holds_lease c now) (complete_job target code now) (jobs db)\<rparr>"
  from b(1) obtain db2 where e: "effect ?db1 = Inr db2" "jobs db' = jobs db2" by (rule complete_body_Inr)
  then have "adds_jobs ?db1 db2" using assms(2) by (simp add: domain_effect_def)
  then have "set (jobs ?db1) \<subseteq> set (jobs db')" using e(2) by (elim adds_jobsD) simp
  moreover have "complete_job target code now j \<in> set (jobs ?db1)"
    using b(2,3) by (auto simp: set_update_rows image_iff intro!: bexI [of _ j])
  ultimately show ?thesis using that b by blast
qed

lemma completion_releases:
  assumes "queue_inv db" "domain_effect effect"
    and "complete_with_effects sha rid now c target result code effect db = (Inr x, db')"
  shows "\<not> owns db' c"
proof
  assume "owns db' c"
  then obtain k where k: "k \<in> set (jobs db')" "j_id k = cl_id c" "j_state k = J_RUNNING"
    by (auto simp: owns_def list_ex_iff)
  from assms obtain j where j: "holds_lease c now j" "complete_job target code now j \<in> set (jobs db')"
    by (rule completed_row)
  have "queue_inv db'" using complete_with_effects_inv [OF assms(1,2)] assms(3) by (metis snd_conv)
  then have "k = complete_job target code now j"
    by (rule unique_job [OF _ k(1) j(2)]) (use j k in \<open>simp add: complete_job_def holds_lease_def\<close>)
  moreover have "target \<noteq> J_RUNNING"
    using assms(1,3) by (elim completion_holds) (auto simp: check_completion_Inr failed_states_def)
  ultimately show False using k(3) by (simp add: complete_job_def)
qed

interpretation pgq: lease_fencing
  "queue_step :: 'z queue_db_scheme \<Rightarrow> _" queue_inv cl_id issued owns run_claim
  "\<lambda>w. domain_effect (fc_effect w)" run_completion
proof unfold_locales
  show "queue_step s (snd (run_claim t s))" for t and s :: "'z queue_db_scheme"
    unfolding run_claim_def by (rule S_claim)
  show "queue_step s (snd (run_completion w c s))" if "domain_effect (fc_effect w)" for w c and s :: "'z queue_db_scheme"
    unfolding run_completion_def by (rule S_complete [OF that])
  show "owns s c \<Longrightarrow> issued s c" for s :: "'z queue_db_scheme" and c
    by (auto simp: owns_def issued_def list_ex_iff)
  show "run_completion w c s = (Inl e, s') \<Longrightarrow> s' = s" for w c e and s s' :: "'z queue_db_scheme"
    by (auto simp: run_completion_def complete_with_effects_def transaction_Inl_iff split: sum.splits)
qed (auto simp: run_claim_def run_completion_def intro: queue_step_inv issued_step claim_next_owns completion_owned
    dest: lost_step claim_next_supersedes completion_releases)


section \<open>A run to evaluate\<close>

text \<open>
  One job is enqueued, claimed by worker A for a minute, and claimed again by worker B when that minute
  is over.
\<close>

definition demo0 :: queue_db where
  "demo0 = snd (enqueue 7 0 (u ''k'') (u ''summary'') [] None empty_queue)"

definition claim_A :: claimed_job where
  "claim_A = \<lparr>cl_id = 7, cl_logical_key = u ''k'', cl_kind = u ''summary'', cl_payload = [], cl_owner = u ''A'',
     cl_generation = 1, cl_token = 21, cl_attempt_id = 31\<rparr>"

definition claim_B :: claimed_job where
  "claim_B = \<lparr>cl_id = 7, cl_logical_key = u ''k'', cl_kind = u ''summary'', cl_payload = [], cl_owner = u ''B'',
     cl_generation = 2, cl_token = 22, cl_attempt_id = 32\<rparr>"

definition demo1 :: queue_db where
  "demo1 = snd (claim_next (\<lambda>_. False) 21 31 0 0 (u ''A'') 60 None demo0)"

definition demo2 :: queue_db where
  "demo2 = snd (claim_next (\<lambda>_. False) 22 32 60000000 60000000 (u ''B'') 60 None demo1)"

lemmas queue_eval =
  enqueue_def enqueue_body_def insert_job_if_new_def new_job_row_def require_logical_key_def require_kind_def
  allowed_kinds_def canonical_json_bytes_def dump_members_def comma_join_def utf8_char_def claim_next_def claim_body_def require_owner_def
  require_lease_seconds_def normalize_claim_kinds_def select_claim_def claimable_def claim_update_def
  insert_attempt_def open_attempt_def expire_attempt_def claimed_from_row_def as_nonempty_string_def micros_def
  transaction_def fresh_def durable_job_from_row_def

lemma demo0_eval:
  "demo0 = \<lparr>jobs = [new_job_row 7 (u ''k'') (u ''summary'') None (JObj []) 0], attempts = [], results = []\<rparr>"
  by (simp add: demo0_def queue_eval empty_queue_def text_simps)

lemma demo1_eval:
  "claim_next (\<lambda>_. False) 21 31 0 0 (u ''A'') 60 None demo0 = (Inr (Some claim_A), demo1) \<and>
   jobs demo1 = [claim_update 1 (u ''A'') 21 60 0 (new_job_row 7 (u ''k'') (u ''summary'') None (JObj []) 0)] \<and>
   attempts demo1 = [\<lparr>at_id = 31, at_job_id = 7, at_generation = 1, at_token = 21, at_owner = u ''A'',
      at_ended_at = None, at_status = AT_RUNNING, at_error = None\<rparr>] \<and> results demo1 = []"
  by (simp add: demo1_def demo0_eval claim_A_def queue_eval text_simps)

lemma demo2_eval:
  "claim_next (\<lambda>_. False) 22 32 60000000 60000000 (u ''B'') 60 None demo1 = (Inr (Some claim_B), demo2)"
  using demo1_eval by (simp add: demo2_def claim_B_def queue_eval text_simps)

lemma demo_reachable: "queue_reachable demo0" "queue_reachable demo1" "queue_reachable demo2"
proof -
  show 0: "queue_reachable demo0" unfolding demo0_def by (rule Q_step [OF Q_init S_enqueue])
  show 1: "queue_reachable demo1" unfolding demo1_def by (rule Q_step [OF 0 S_claim])
  show "queue_reachable demo2" unfolding demo2_def by (rule Q_step [OF 1 S_claim])
qed


section \<open>Properties\<close>

text \<open>
  C1: every interleaving of enqueue, claim, heartbeat, completion (with any domain effect), requeue and
  domain writes keeps the queue sound.  In every reachable state each job has exactly the attempts
  1, ..., lease_generation, one per generation and in order, it has exactly one result if it succeeded and
  none otherwise, and its columns satisfy the CHECK constraints of the migration.
\<close>

theorem queue_always_sound:
  assumes "queue_reachable db"
  shows "queue_inv db \<and>
    list_all (\<lambda>j. result_count (j_id j) db = (if j_state j = J_SUCCEEDED then 1 else 0) \<and>
       map at_generation (filter (\<lambda>a. at_job_id a = j_id j) (attempts db)) = [1..j_generation j] \<and>
       job_shape j) (jobs db)"
proof -
  have "queue_inv db" using assms by (rule reachable_inv)
  then show ?thesis
    by (simp add: queue_inv_def list_all_iff job_ok_def attempts_ok_def attempts_of_def results_of_def
        result_count_def hits_def)
qed

theorem queue_always_sound_witness:
  "map at_generation (filter (\<lambda>a. at_job_id a = 7) (attempts demo1)) = [1] \<and> result_count 7 demo1 = 0"
  using queue_always_sound [OF demo_reachable(2)] demo1_eval by (simp add: claim_update_def new_job_row_def)

text \<open>
  C2: a superseded worker never commits.  Once a claim has handed a job to a new lease, every completion
  and every heartbeat attempted with a lease issued earlier for that job raises, whatever happens in
  between and however late it comes, and it leaves the database exactly as it was: its effect is not run.
\<close>

theorem superseded_worker_never_commits:
  assumes "queue_inv db" and "issued db d"
    and "claim_next locked tok aid now now' owner secs kinds db = (Inr (Some c), db1)"
    and "cl_id d = cl_id c" and "queue_step\<^sup>*\<^sup>* db1 db2"
  shows "\<exists>e. complete_with_effects sha rid t d target result code effect db2 = (Inl e, db2)"
proof -
  have "\<exists>e. run_completion \<lparr>fc_sha = sha, fc_result_id = rid, fc_now = t, fc_target = target,
      fc_result = result, fc_code = code, fc_effect = effect\<rparr> d db2 = (Inl e, db2)"
    by (rule pgq.superseded_never_finishes [OF assms(1,2) _ assms(4,5), where t = "\<lparr>cc_locked = locked,
        cc_token = tok, cc_attempt = aid, cc_now = now, cc_now' = now', cc_owner = owner, cc_seconds = secs,
        cc_kinds = kinds\<rparr>"]) (simp add: run_claim_def assms(3))
  then show ?thesis by (simp add: run_completion_def)
qed

theorem superseded_worker_never_commits_witness:
  "\<exists>e. complete_with_effects (\<lambda>_. []) 41 60000001 claim_A J_SUCCEEDED [] None (\<lambda>d. Inr d) demo2 = (Inl e, demo2)"
  by (rule superseded_worker_never_commits [OF reachable_inv [OF demo_reachable(2)] _ demo2_eval])
    (use demo1_eval in \<open>simp_all add: issued_def claim_A_def claim_B_def claim_update_def new_job_row_def\<close>)

text \<open>
  A lease completes at most once.  After a completion has committed, any further completion under the
  same claim raises and changes nothing, at any later time; and the results table only grew, so the one
  canonical result of the job is never replaced.
\<close>

theorem lease_completes_once:
  assumes "queue_inv db" and "domain_effect effect"
    and "complete_with_effects sha rid now c target result code effect db = (Inr (), db1)"
    and "queue_step\<^sup>*\<^sup>* db1 db2"
  shows "(\<exists>e. complete_with_effects sha' rid' now' c target' result' code' effect' db2 = (Inl e, db2)) \<and>
    (\<exists>later. results db2 = results db1 @ later)"
proof -
  have inv1: "queue_inv db1" using complete_with_effects_inv [OF assms(1,2)] assms(3) by (metis snd_conv)
  have "\<exists>e. run_completion \<lparr>fc_sha = sha', fc_result_id = rid', fc_now = now', fc_target = target',
      fc_result = result', fc_code = code', fc_effect = effect'\<rparr> c db2 = (Inl e, db2)"
    by (rule pgq.finishes_once [OF assms(1) _ _ assms(4), where w = "\<lparr>fc_sha = sha, fc_result_id = rid,
        fc_now = now, fc_target = target, fc_result = result, fc_code = code, fc_effect = effect\<rparr>"])
      (simp_all add: run_completion_def assms(2,3))
  moreover from assms(4) inv1 have "queue_inv db2 \<and> (\<exists>later. results db2 = results db1 @ later)"
    by (induction rule: rtranclp_induct) (auto dest: queue_step_evolves queue_step_inv)
  ultimately show ?thesis by (simp add: run_completion_def)
qed

lemma demo_completion:
  "\<exists>db. complete_with_effects (\<lambda>_. []) 41 60000001 claim_B J_SUCCEEDED [] None (\<lambda>d. Inr d) demo2 = (Inr (), db)"
  using demo1_eval
  by (simp add: demo2_def claim_B_def queue_eval complete_with_effects_def check_completion_def completion_states_def
      complete_body_def holds_lease_def my_attempt_def insert_result_def complete_job_def text_simps)

theorem lease_completes_once_witness:
  "\<exists>db1. complete_with_effects (\<lambda>_. []) 41 60000001 claim_B J_SUCCEEDED [] None (\<lambda>d. Inr d) demo2 = (Inr (), db1) \<and>
     (\<exists>e. complete_with_effects (\<lambda>_. []) 42 60000002 claim_B J_SUCCEEDED [] None (\<lambda>d. Inr d) db1 = (Inl e, db1))"
proof -
  obtain db1 where "complete_with_effects (\<lambda>_. []) 41 60000001 claim_B J_SUCCEEDED [] None (\<lambda>d. Inr d) demo2 = (Inr (), db1)"
    using demo_completion by blast
  with lease_completes_once [OF reachable_inv [OF demo_reachable(3)] _ this rtranclp.rtrancl_refl] show ?thesis
    by (auto simp: domain_effect_def)
qed


text \<open>
  C3: a claim takes the oldest job a worker may have.  With valid arguments the claim returns nothing,
  and changes nothing, exactly when no unlocked job of the wanted kinds is pending or has an expired
  lease; when it returns a job, that job was claimable and unlocked, none of the claimable unlocked jobs
  of those kinds is older by (created_at, id), and the lease it returns is one generation above the
  row's.
\<close>

theorem claim_takes_oldest_claimable:
  assumes "require_owner owner = Inr ()" and "require_lease_seconds secs = Inr ()"
    and "normalize_claim_kinds kinds = Inr ks"
  shows "(claim_next locked tok aid now now' owner secs kinds db = (Inr None, db) \<longleftrightarrow>
      \<not> list_ex (\<lambda>j. claimable now j \<and> \<not> locked (j_id j) \<and>
          (case ks of None \<Rightarrow> True | Some l \<Rightarrow> j_kind j \<in> set l)) (jobs db)) \<and>
    (\<forall>c db'. claim_next locked tok aid now now' owner secs kinds db = (Inr (Some c), db') \<longrightarrow>
      (\<exists>row \<in> set (jobs db). cl_id c = j_id row \<and> cl_generation c = j_generation row + 1 \<and>
        claimable now row \<and> \<not> locked (j_id row) \<and> (case ks of None \<Rightarrow> True | Some l \<Rightarrow> j_kind row \<in> set l) \<and>
        (\<forall>k \<in> set (jobs db). claimable now k \<and> \<not> locked (j_id k) \<and>
          (case ks of None \<Rightarrow> True | Some l \<Rightarrow> j_kind k \<in> set l) \<longrightarrow> claim_key_of row \<le> claim_key_of k)))"
proof (rule conjI)
  let ?ok = "\<lambda>j. claimable now j \<and> \<not> locked (j_id j) \<and> (case ks of None \<Rightarrow> True | Some l \<Rightarrow> j_kind j \<in> set l)"
  have none: "select_claim now locked ks (jobs db) = None \<longleftrightarrow> \<not> list_ex ?ok (jobs db)"
    by (simp add: select_claim_None list_ex_iff)
  show "claim_next locked tok aid now now' owner secs kinds db = (Inr None, db) \<longleftrightarrow> \<not> list_ex ?ok (jobs db)"
  proof
    assume "\<not> list_ex ?ok (jobs db)"
    with none have "claim_body locked tok aid now now' owner secs ks db = Inr (None, db)"
      by (simp add: claim_body_def)
    then show "claim_next locked tok aid now now' owner secs kinds db = (Inr None, db)"
      using assms by (simp add: claim_next_def)
  next
    assume "claim_next locked tok aid now now' owner secs kinds db = (Inr None, db)"
    then have "claim_body locked tok aid now now' owner secs ks db = Inr (None, db)"
      using assms by (auto simp: claim_next_def Let_def transaction_def and_then_Inr split: sum.splits option.splits)
    then have "ks = Some [] \<or> select_claim now locked ks (jobs db) = None"
      by (auto simp: claim_body_def Let_def and_then_Inr split: if_splits option.splits)
    then show "\<not> list_ex ?ok (jobs db)" using none by (auto simp: list_ex_iff)
  qed
  have "\<exists>row \<in> set (jobs db). cl_id c = j_id row \<and> cl_generation c = j_generation row + 1 \<and> claimable now row \<and>
      \<not> locked (j_id row) \<and> (case ks of None \<Rightarrow> True | Some l \<Rightarrow> j_kind row \<in> set l) \<and>
      (\<forall>k \<in> set (jobs db). ?ok k \<longrightarrow> claim_key_of row \<le> claim_key_of k)"
    if claim: "claim_next locked tok aid now now' owner secs kinds db = (Inr (Some c), db')" for c db'
  proof -
    from claim obtain row ks' where r: "normalize_claim_kinds kinds = Inr ks'"
      "claim_body locked tok aid now now' owner secs ks' db = Inr (Some (row, cl_generation c), db')"
      "cl_id c = j_id row" by (rule claim_next_Some)
    with assms(3) have "ks' = ks" by simp
    with claim_body_Some [OF r(2)] select_claim_Some [of now locked ks "jobs db" row] r(3) show ?thesis by blast
  qed
  then show "\<forall>c db'. claim_next locked tok aid now now' owner secs kinds db = (Inr (Some c), db') \<longrightarrow>
      (\<exists>row \<in> set (jobs db). cl_id c = j_id row \<and> cl_generation c = j_generation row + 1 \<and> claimable now row \<and>
      \<not> locked (j_id row) \<and> (case ks of None \<Rightarrow> True | Some l \<Rightarrow> j_kind row \<in> set l) \<and>
      (\<forall>k \<in> set (jobs db). ?ok k \<longrightarrow> claim_key_of row \<le> claim_key_of k))" by blast
qed

theorem claim_takes_oldest_claimable_witness:
  "claim_next (\<lambda>_. False) 22 32 59999999 59999999 (u ''B'') 60 None demo1 = (Inr None, demo1)"
proof -
  have "\<not> list_ex (\<lambda>j. claimable 59999999 j \<and> \<not> (\<lambda>_. False) (j_id j) \<and>
      (case None of None \<Rightarrow> True | Some l \<Rightarrow> j_kind j \<in> set l)) (jobs demo1)"
    using demo1_eval by (simp add: claimable_def claim_update_def micros_def)
  then show ?thesis
    using claim_takes_oldest_claimable [of "u ''B''" 60 None None "\<lambda>_. False" 22 32 59999999 59999999 demo1]
    by (simp add: require_owner_def require_lease_seconds_def normalize_claim_kinds_def text_simps)
qed

text \<open>
  Enqueue is idempotent.  Whatever identifier, kind, payload, snapshot and clock reading the second
  call has, enqueueing a logical key that an earlier call enqueued successfully returns the same job
  (its kind, state and generation as they are now) and changes nothing.
\<close>

theorem enqueue_idempotent:
  assumes "queue_inv db" and "enqueue jid now key kind payload snap db = (Inr j, db1)"
    and "require_kind kind' = Inr ()" and "canonical_json_bytes (JObj payload') \<noteq> None"
  shows "enqueue jid' now' key kind' payload' snap' db1 = (Inr j, db1) \<and> dj_logical_key j = key \<and> queue_inv db1"
proof -
  have key: "require_logical_key key = Inr ()"
    using assms(2) by (auto simp: enqueue_def and_then_def split: sum.splits option.splits)
  obtain row where row: "enqueue_body jid now key kind payload snap db = Inr (row, db1)"
    "durable_job_from_row row = Inr j"
    using assms(2) by (auto simp: enqueue_def Let_def transaction_def and_then_Inr split: sum.splits)
  then have find: "find (\<lambda>r. j_logical_key r = key) (jobs db1) = Some row"
    by (auto simp: enqueue_body_def and_then_Inr split: option.splits)
  then have in1: "row \<in> set (jobs db1)" "j_logical_key row = key" by (auto dest: find_Some_set)
  then have "\<not> fresh j_logical_key (new_job_row jid' key kind' snap' (JObj payload') now') (jobs db1)"
    by (auto simp: fresh_def new_job_row_def)
  then have "enqueue_body jid' now' key kind' payload' snap' db1 = Inr (row, db1)"
    using find by (simp add: enqueue_body_def insert_job_if_new_def)
  moreover have "queue_inv db1" using adds_jobs_inv [OF assms(1) enqueue_body_adds [OF row(1)]] .
  moreover have "dj_logical_key j = key"
    using row(2) in1(2) by (auto simp: durable_job_from_row_def and_then_Inr as_nonempty_string_def)
  ultimately show ?thesis using key assms(3,4) row(2)
    by (auto simp: enqueue_def split: option.splits)
qed

theorem enqueue_idempotent_witness:
  "\<exists>j. enqueue 7 0 (u ''k'') (u ''summary'') [] None empty_queue = (Inr j, demo0) \<and>
     enqueue 8 5 (u ''k'') (u ''research'') [] None demo0 = (Inr j, demo0)"
proof -
  have "\<exists>j. enqueue 7 0 (u ''k'') (u ''summary'') [] None empty_queue = (Inr j, demo0)"
    unfolding demo0_def by (simp add: queue_eval empty_queue_def text_simps)
  then obtain j where j: "enqueue 7 0 (u ''k'') (u ''summary'') [] None empty_queue = (Inr j, demo0)" ..
  from enqueue_idempotent [OF empty_queue_inv j, of "u ''research''" "[]" 8 5 None] j show ?thesis
    by (auto simp: require_kind_def allowed_kinds_def canonical_json_bytes_def dump_members_def comma_join_def utf8_char_def)
qed


lemma current_attempt:
  assumes "queue_inv db" "j \<in> set (jobs db)" "holds_lease c now j"
  shows "hits (my_attempt c) (attempts db) = 1"
proof -
  have l: "j_id j = cl_id c" "j_state j = J_RUNNING" "j_generation j = cl_generation c" "j_token j = Some (cl_token c)"
    using assms(3) by (simp_all add: holds_lease_def)
  have ok: "job_shape j" "attempts_ok j (attempts_of (cl_id c) (attempts db))"
    using queue_inv_job [OF assms(1,2)] l(1) by (simp_all add: job_ok_def)
  then have "j_generation j \<in> set (map at_generation (attempts_of (cl_id c) (attempts db)))"
    using l(2) by (simp add: attempts_ok_def job_shape_def)
  then obtain a where a: "a \<in> set (attempts_of (cl_id c) (attempts db))" "at_generation a = j_generation j" by auto
  have "attempt_ok j a" using ok(2) a(1) by (simp add: attempts_ok_def list_all_iff)
  then have mine: "my_attempt c a"
    using a l by (auto simp: attempt_ok_def my_attempt_def open_attempt_def attempts_of_def)
  have "hits (my_attempt c) (attempts db) = hits (my_attempt c) (attempts_of (cl_id c) (attempts db))"
    unfolding hits_def attempts_of_def filter_filter
    by (intro arg_cong [where f = length] filter_cong) (auto simp: my_attempt_def open_attempt_def)
  also have "\<dots> = 1"
  proof (rule hits_one_of_key [where key = at_generation and r = a])
    show "distinct (map at_generation (attempts_of (cl_id c) (attempts db)))"
      using ok(2) by (simp add: attempts_ok_def)
    show "at_generation r' = at_generation a" if "my_attempt c r'" for r'
      using that a(2) l(3) by (simp add: my_attempt_def open_attempt_def)
  qed (fact a mine)+
  finally show ?thesis .
qed

lemma no_result_yet:
  assumes "queue_inv db" "j \<in> set (jobs db)" "holds_lease c now j"
  shows "cl_id c \<notin> re_job_id ` set (results db)"
proof -
  have "results_of (cl_id c) (results db) = []"
    using queue_inv_job [OF assms(1,2)] assms(3) by (auto simp: job_ok_def holds_lease_def)
  then show ?thesis by (auto simp: results_of_def filter_empty_conv)
qed

text \<open>
  The outcome of a completion, on every branch.  With valid arguments, in a sound queue, it is stale
  exactly when no job holds the claimed lease now; otherwise the effect decides, and on success the job is
  closed, its attempt is closed and the result and its hash are stored.  The internal checks of the code
  (one running attempt, one result per job) never fail; every failing branch keeps the database.
\<close>

theorem completion_outcome:
  assumes "queue_inv db" and "domain_effect effect" and "check_completion target code = Inr ()"
  shows "complete_with_effects sha rid now c target result code effect db =
    (if \<not> list_ex (holds_lease c now) (jobs db)
     then (Inl (StaleLeaseError (u ''job completion lease is stale'')), db)
     else case effect (db\<lparr>jobs := update_rows (holds_lease c now) (complete_job target code now) (jobs db)\<rparr>) of
       Inl e \<Rightarrow> (Inl e, db)
     | Inr db2 \<Rightarrow>
         let ats = update_rows (my_attempt c) (close_attempt target code now) (attempts db)
         in if target \<noteq> J_SUCCEEDED then (Inr (), db2\<lparr>attempts := ats\<rparr>)
            else case canonical_json_bytes (JObj result) of
              None \<Rightarrow> (Inl (QueueInvariantError (u ''queue payload must be finite JSON-compatible data'')), db)
            | Some bytes \<Rightarrow>
                if rid \<in> re_id ` set (results db) then (Inl (PgError UniqueViolation), db)
                else (Inr (), db2\<lparr>results := results db @ [\<lparr>re_id = rid, re_job_id = cl_id c,
                       re_json = JObj result, re_hash = sha bytes\<rparr>], attempts := ats\<rparr>))"
proof (cases "list_ex (holds_lease c now) (jobs db)")
  case False
  then have "hits (holds_lease c now) (jobs db) = 0" by (simp add: hits_zero_iff list_ex_iff)
  with False show ?thesis
    by (simp add: complete_with_effects_def assms(3) complete_body_def transaction_def)
next
  case True
  then obtain j where j: "j \<in> set (jobs db)" "holds_lease c now j" by (auto simp: list_ex_iff)
  note one = hits_holds_lease [OF assms(1) j] and att = current_attempt [OF assms(1) j]
    and nores = no_result_yet [OF assms(1) j]
  let ?db1 = "db\<lparr>jobs := update_rows (holds_lease c now) (complete_job target code now) (jobs db)\<rparr>"
  have run: "complete_with_effects sha rid now c target result code effect db =
      transaction (complete_body sha rid now c target result code effect) db"
    by (simp add: complete_with_effects_def assms(3))
  show ?thesis
  proof (cases "effect ?db1")
    case (Inl e)
    with True one show ?thesis unfolding run by (simp add: complete_body_def transaction_def)
  next
    case (Inr db2)
    then have "adds_jobs ?db1 db2" using assms(2) by (simp add: domain_effect_def)
    then have "attempts db2 = attempts db" "results db2 = results db" by (simp_all add: adds_jobs_def)
    with Inr True one att nores show ?thesis unfolding run
      by (cases "target = J_SUCCEEDED"; cases "canonical_json_bytes (JObj result)")
        (simp_all add: complete_body_def transaction_def insert_result_def
          fresh_def Let_def require_def)
  qed
qed

theorem completion_outcome_witness:
  "complete_with_effects (\<lambda>_. []) 41 60000001 claim_A J_SUCCEEDED [] None (\<lambda>d. Inr d) demo2 =
     (Inl (StaleLeaseError (u ''job completion lease is stale'')), demo2)"
proof -
  have "\<not> list_ex (holds_lease claim_A 60000001) (jobs demo2)"
    using demo1_eval demo2_eval
    by (simp add: demo2_def claim_A_def queue_eval holds_lease_def text_simps)
  with completion_outcome [OF reachable_inv [OF demo_reachable(3)], of "\<lambda>d. Inr d" J_SUCCEEDED None
      "\<lambda>_. []" 41 60000001 claim_A "[]"]
  show ?thesis by (simp add: domain_effect_def check_completion_def completion_states_def del: u_simps)
qed

end
