(* ===== verification/Activity_Policy.thy ===== *)
theory Activity_Policy
  imports Errors Json Domain_Policies
begin

text \<open>
  \<open>apps/api/app/activity_policy.py\<close>: which events the ledger takes, the check of their metadata and
  the keys that make them idempotent.

  \<^item> \<open>meta\<close> is a Python value offered as metadata: JSON values, UUIDs and anything else (\<open>MOther\<close>);
    a mapping key that is not a string is \<open>None\<close>.
  \<^item> \<open>lower_ascii\<close> is \<open>str.lower\<close> as far as a test for an ASCII substring can see it: besides the ASCII
    capitals only U+212A (to \<open>k\<close>) and U+0130 (to \<open>i\<close> and a combining dot) have lower-case forms with
    ASCII characters.
  \<^item> An event key template lists the segments between the colons; \<open>build_event_key\<close> fills them from
    the identity arguments, in order, and fails at the first one that is missing.
\<close>

section \<open>Substrings\<close>

definition ustr_startswith :: "ustr \<Rightarrow> ustr \<Rightarrow> bool" where
  "ustr_startswith p s \<longleftrightarrow> take (length p) s = p"

fun ustr_contains :: "ustr \<Rightarrow> ustr \<Rightarrow> bool" where
  "ustr_contains p [] = (p = [])"
| "ustr_contains p (c # s) = (ustr_startswith p (c # s) \<or> ustr_contains p s)"

lemma ustr_startswith_append: "ustr_startswith p (p @ t)"
  by (simp add: ustr_startswith_def)

lemma ustr_contains_iff: "ustr_contains p s \<longleftrightarrow> (\<exists>a b. s = a @ p @ b)"
proof (induction s)
  case (Cons c s)
  have "ustr_startswith p (c # s) \<longleftrightarrow> (\<exists>b. c # s = p @ b)"
    unfolding ustr_startswith_def by (metis append_take_drop_id append_eq_conv_conj)
  moreover have "(\<exists>a b. c # s = a @ p @ b) \<longleftrightarrow> (\<exists>b. c # s = p @ b) \<or> (\<exists>a b. s = a @ p @ b)"
    by (auto simp: Cons_eq_append_conv)
  ultimately show ?case using Cons.IH by simp
qed simp

definition lower_char :: "nat \<Rightarrow> ustr" where
  "lower_char c =
     (if 65 \<le> c \<and> c \<le> 90 then [c + 32] else if c = 8490 then [107]
      else if c = 304 then [105, 775] else [c])"

definition lower_ascii :: "ustr \<Rightarrow> ustr" where
  "lower_ascii s = concat (map lower_char s)"

section \<open>Metadata\<close>

datatype meta =
    MNull
  | MBool bool
  | MInt int
  | MFloat ustr
  | MStr ustr
  | MUuid uuid
  | MList "meta list"
  | MMap "(ustr option \<times> meta) list"
  | MOther

definition forbidden_parts :: "ustr list" where
  "forbidden_parts =
     [u ''password'', u ''token'', u ''cookie'', u ''email'', u ''comment_body'', u ''source_text'',
      u ''extracted_text'', u ''storage_key'', u ''provider_payload'', u ''secret'', u ''credential'']"

definition forbidden_key :: "ustr \<Rightarrow> bool" where
  "forbidden_key k \<longleftrightarrow> list_ex (\<lambda>part. ustr_contains part (lower_ascii k)) forbidden_parts"

text \<open>The inner function \<open>validate(item, path)\<close>; the path only appears in the message.\<close>

fun validate_meta :: "ustr \<Rightarrow> meta \<Rightarrow> app_error + json"
  and validate_members :: "ustr \<Rightarrow> (ustr option \<times> meta) list \<Rightarrow> app_error + (ustr \<times> json) list"
  and validate_list :: "ustr \<Rightarrow> meta list \<Rightarrow> app_error + json list"
where
  "validate_meta path (MMap kvs) = and_then (validate_members path kvs) (\<lambda>r. Inr (JObj r))"
| "validate_meta path (MList xs) = and_then (validate_list path xs) (\<lambda>r. Inr (JList r))"
| "validate_meta path MNull = Inr JNull"
| "validate_meta path (MBool b) = Inr (JBool b)"
| "validate_meta path (MInt i) = Inr (JInt i)"
| "validate_meta path (MFloat r) = Inr (JFloat r)"
| "validate_meta path (MStr s) = Inr (JStr s)"
| "validate_meta path (MUuid x) = Inr (JStr (uuid_text x))"
| "validate_meta path MOther = Inl (ValueError (u ''metadata contains an unsupported value''))"
| "validate_members path [] = Inr []"
| "validate_members path ((k, v) # rest) =
     (case k of
        None \<Rightarrow> Inl (ValueError (u ''metadata keys must be strings''))
      | Some key \<Rightarrow>
          require (\<not> forbidden_key key)
            (ValueError (u ''forbidden sensitive metadata key: '' @ path @ key))
            (and_then (validate_meta (path @ key @ u ''.'') v) (\<lambda>w.
             and_then (validate_members path rest) (\<lambda>r. Inr ((key, w) # r)))))"
| "validate_list path [] = Inr []"
| "validate_list path (x # rest) =
     and_then (validate_meta path x) (\<lambda>w. and_then (validate_list path rest) (\<lambda>r. Inr (w # r)))"

text \<open>\<open>json.dumps(value, ensure_ascii=False, separators=(",", ":"))\<close>: insertion order, NaN allowed.\<close>

definition float_text :: "ustr \<Rightarrow> ustr" where
  "float_text r = (if r = u ''nan'' then u ''NaN'' else if r = u ''inf'' then u ''Infinity''
     else if r = u ''-inf'' then u ''-Infinity'' else r)"

fun dump_plain :: "json \<Rightarrow> ustr" where
  "dump_plain JNull = u ''null''"
| "dump_plain (JBool b) = (if b then u ''true'' else u ''false'')"
| "dump_plain (JInt i) = int_text i"
| "dump_plain (JFloat r) = float_text r"
| "dump_plain (JStr s) = quote_text s"
| "dump_plain (JList xs) = [91] @ comma_join (map dump_plain xs) @ [93]"
| "dump_plain (JObj kvs) =
     [123] @ comma_join (map (\<lambda>(k, v). quote_text k @ [58] @ dump_plain v) kvs) @ [125]"

text \<open>\<open>len(json.dumps(...).encode())\<close>; \<open>None\<close> is \<open>UnicodeEncodeError\<close>, a \<open>ValueError\<close>.\<close>

definition plain_size :: "json \<Rightarrow> nat option" where
  "plain_size v = map_option length (utf8 (dump_plain v))"

definition require_size :: "nat \<Rightarrow> ustr \<Rightarrow> (ustr \<times> json) list \<Rightarrow> app_error + (ustr \<times> json) list" where
  "require_size bound message r =
     (case plain_size (JObj r) of
        None \<Rightarrow> Inl (ValueError (u ''surrogates not allowed''))
      | Some n \<Rightarrow> require (\<not> n > bound) (ValueError message) (Inr r))"

definition safe_audit_metadata :: "(ustr option \<times> meta) list \<Rightarrow> app_error + (ustr \<times> json) list" where
  "safe_audit_metadata value =
     and_then (validate_members [] value) (require_size 4096 (u ''metadata exceeds 4 KiB''))"

section \<open>Event types and keys\<close>

definition supported_event_types :: "ustr list" where
  "supported_event_types =
     [u ''account.registered'', u ''profile.updated'', u ''notification_preferences.updated'',
      u ''friendship.requested'', u ''friendship.accepted'', u ''friendship.rejected'', u ''room.created'',
      u ''room.member_added'', u ''room.member_left'', u ''session.created'', u ''session.closed'',
      u ''session.retry_requested'', u ''session.processing'', u ''session.ready'', u ''session.needs_attention'',
      u ''session.reopened'', u ''session.archived'', u ''submission.created'', u ''submission.revised'',
      u ''submission.deleted'', u ''source_revision.ready'', u ''source_revision.failed'',
      u ''source_revision.retry_requested'', u ''suggestion.created'', u ''suggestion.accepted'',
      u ''suggestion.rejected'', u ''comment.created'', u ''comment.updated'', u ''comment.deleted'',
      u ''merged_document.saved'', u ''merged_document.version_created'']"

datatype ident = IUuid uuid | IInt int | IStr ustr | IBool bool

fun ident_text :: "ident \<Rightarrow> ustr" where
  "ident_text (IUuid x) = uuid_text x"
| "ident_text (IInt i) = int_text i"
| "ident_text (IStr s) = s"
| "ident_text (IBool b) = (if b then u ''True'' else u ''False'')"

fun truthy :: "ident option \<Rightarrow> bool" where
  "truthy None = False"
| "truthy (Some (IUuid x)) = True"
| "truthy (Some (IInt i)) = (i \<noteq> 0)"
| "truthy (Some (IStr s)) = (s \<noteq> [])"
| "truthy (Some (IBool b)) = b"

datatype segment = Lit ustr | Field ustr ustr \<comment> \<open>literal prefix and argument name\<close>

definition segment_text :: "(ustr \<Rightarrow> ident option) \<Rightarrow> segment \<Rightarrow> app_error + ustr" where
  "segment_text identity seg =
     (case seg of
        Lit s \<Rightarrow> Inr s
      | Field pre name \<Rightarrow>
          (case identity name of
             None \<Rightarrow> Inl (ValueError (u ''missing event identity: '' @ name))
           | Some v \<Rightarrow> Inr (pre @ ident_text v)))"

text \<open>\<open>event_type.rsplit(".", 1)[1]\<close>\<close>

definition after_last_dot :: "ustr \<Rightarrow> ustr" where
  "after_last_dot s = rev (takeWhile (\<lambda>c. c \<noteq> 46) (rev s))"

definition field :: "string \<Rightarrow> segment" where
  "field name = Field [] (u name)"

definition event_template :: "ustr \<Rightarrow> bool \<Rightarrow> segment list" where
  "event_template t reconciled =
     (let state = Lit (after_last_dot t) in
      if t = u ''account.registered'' then [Lit (u ''account''), field ''user_id'', Lit (u ''registered'')]
      else if t = u ''profile.updated'' then
        [Lit (u ''profile''), field ''user_id'', Field (u ''v'') (u ''profile_version'')]
      else if t = u ''notification_preferences.updated'' then
        [Lit (u ''preferences''), field ''user_id'', Field (u ''v'') (u ''preferences_version'')]
      else if ustr_startswith (u ''friendship.'') t then
        [Lit (u ''friendship''), field ''friendship_id'', state, Lit (u ''aud''), field ''audience_user_id'']
      else if t = u ''room.created'' then [Lit (u ''room''), field ''room_id'', Lit (u ''created'')]
      else if t = u ''room.member_added'' then
        [Lit (u ''room''), field ''room_id'', Lit (u ''member''), field ''user_id'', Lit (u ''added'')]
      else if t = u ''room.member_left'' then
        [Lit (u ''room''), field ''room_id'', Lit (u ''member''), field ''user_id'', Lit (u ''left'')]
      else if t = u ''session.created'' then [Lit (u ''session''), field ''session_id'', Lit (u ''created'')]
      else if t = u ''session.archived'' then [Lit (u ''session''), field ''session_id'', Lit (u ''archived'')]
      else if t = u ''session.retry_requested'' then
        [Lit (u ''session''), field ''session_id'', Lit (u ''epoch''), field ''generation_epoch'',
         Lit (u ''retry''), field ''retry_ordinal'']
      else if ustr_startswith (u ''session.'') t then
        [Lit (u ''session''), field ''session_id'', Field (u ''state-v'') (u ''state_version''), state]
      else if t = u ''submission.deleted'' then
        [Lit (u ''submission''), field ''submission_id'', Lit (u ''deleted'')]
      else if ustr_startswith (u ''submission.'') t then
        [Lit (u ''submission''), field ''submission_id'', Lit (u ''revision''), field ''revision_no'', state]
      else if t = u ''source_revision.retry_requested'' then
        [Lit (u ''revision''), field ''revision_id'', Lit (u ''retry''), field ''retry_nonce'', Lit (u ''requested'')]
      else if ustr_startswith (u ''source_revision.'') t then
        (if reconciled
         then [Lit (u ''revision''), field ''revision_id'', Lit (u ''reconcile''), field ''job_id'', state]
         else [Lit (u ''revision''), field ''revision_id'', Lit (u ''attempt''), field ''job_attempt_id'', state])
      else if t = u ''suggestion.created'' then
        [Lit (u ''suggestion''), field ''suggestion_id'', Lit (u ''created'')]
      else if ustr_startswith (u ''suggestion.'') t then
        [Lit (u ''suggestion''), field ''suggestion_id'', Field (u ''v'') (u ''version''), state]
      else if t = u ''merged_document.saved'' then
        [Lit (u ''merged_document''), field ''session_id'', Lit (u ''snapshot''), field ''snapshot_id'',
         Field (u ''v'') (u ''version''), Lit (u ''saved'')]
      else if t = u ''merged_document.version_created'' then
        [Lit (u ''merged_document_version''), field ''version_id'', Lit (u ''created'')]
      else [Lit (u ''comment''), field ''comment_id'', Field (u ''v'') (u ''version''), state])"

definition build_event_key :: "ustr \<Rightarrow> (ustr \<Rightarrow> ident option) \<Rightarrow> app_error + ustr" where
  "build_event_key t identity =
     require (t \<in> set supported_event_types) (ValueError (u ''unsupported audit event type''))
       (and_then (map_result (segment_text identity) (event_template t (truthy (identity (u ''reconciled'')))))
          (\<lambda>segs. Inr (ustr_join [58] segs)))"

definition compound_session_event_keys ::
  "ustr \<Rightarrow> uuid \<Rightarrow> int \<Rightarrow> int \<Rightarrow> int \<Rightarrow> app_error + ustr \<times> ustr" where
  "compound_session_event_keys operation session_id generation_epoch state_version retry_ordinal =
     (let s = u ''session:'' @ uuid_text session_id in
      if operation = u ''close'' then
        Inr (s @ u '':state-v'' @ int_text (state_version + 1) @ u '':closed'',
             s @ u '':state-v'' @ int_text (state_version + 2) @ u '':processing'')
      else if operation = u ''retry'' then
        Inr (s @ u '':epoch:'' @ int_text generation_epoch @ u '':retry:'' @ int_text (retry_ordinal + 1),
             s @ u '':state-v'' @ int_text (state_version + 1) @ u '':processing'')
      else Inl (ValueError (u ''operation must be close or retry'')))"

text \<open>The keyword arguments the session services pass.\<close>

definition session_identity :: "uuid \<Rightarrow> int \<Rightarrow> ustr \<Rightarrow> ident option" where
  "session_identity sid v n =
     (if n = u ''session_id'' then Some (IUuid sid) else if n = u ''state_version'' then Some (IInt v) else None)"

definition retry_identity :: "uuid \<Rightarrow> int \<Rightarrow> int \<Rightarrow> ustr \<Rightarrow> ident option" where
  "retry_identity sid epoch ordinal n =
     (if n = u ''session_id'' then Some (IUuid sid)
      else if n = u ''generation_epoch'' then Some (IInt epoch)
      else if n = u ''retry_ordinal'' then Some (IInt ordinal) else None)"


section \<open>Recipients and guards\<close>

text \<open>\<open>tuple(dict.fromkeys(xs))\<close>: the first occurrence of each element, in order.\<close>

definition first_occurrences :: "'a list \<Rightarrow> 'a list" where
  "first_occurrences xs = rev (remdups (rev xs))"

definition plan_comment_recipients :: "uuid \<Rightarrow> uuid list \<Rightarrow> uuid list \<Rightarrow> uuid list \<times> uuid list" where
  "plan_comment_recipients actor_id member_ids mentioned_user_ids =
     (let mentions = first_occurrences (filter (\<lambda>x. x \<noteq> actor_id \<and> x \<in> set member_ids) mentioned_user_ids);
          comments = first_occurrences (filter (\<lambda>x. x \<noteq> actor_id \<and> x \<notin> set mentions) member_ids)
      in (mentions, comments))"

definition transitioned_to_ready :: "ustr \<Rightarrow> ustr \<Rightarrow> bool \<Rightarrow> bool" where
  "transitioned_to_ready previous_state projected_state lease_is_current \<longleftrightarrow>
     lease_is_current \<and> previous_state \<noteq> u ''ready'' \<and> projected_state = u ''ready''"


section \<open>What the metadata check accepts\<close>

text \<open>The specification: no private key at any depth, only supported values; UUIDs become text.\<close>

fun acceptable_meta :: "meta \<Rightarrow> bool" where
  "acceptable_meta (MMap kvs) \<longleftrightarrow>
     list_all (\<lambda>(k, v). (case k of None \<Rightarrow> False | Some key \<Rightarrow> \<not> forbidden_key key) \<and> acceptable_meta v) kvs"
| "acceptable_meta (MList xs) \<longleftrightarrow> list_all acceptable_meta xs"
| "acceptable_meta MOther \<longleftrightarrow> False"
| "acceptable_meta _ \<longleftrightarrow> True"

fun meta_json :: "meta \<Rightarrow> json" where
  "meta_json (MMap kvs) = JObj (map (\<lambda>(k, v). (case k of None \<Rightarrow> [] | Some key \<Rightarrow> key, meta_json v)) kvs)"
| "meta_json (MList xs) = JList (map meta_json xs)"
| "meta_json (MBool b) = JBool b"
| "meta_json (MInt i) = JInt i"
| "meta_json (MFloat r) = JFloat r"
| "meta_json (MStr s) = JStr s"
| "meta_json (MUuid x) = JStr (uuid_text x)"
| "meta_json _ = JNull"

fun clean_json :: "json \<Rightarrow> bool" where
  "clean_json (JObj kvs) \<longleftrightarrow> list_all (\<lambda>(k, v). \<not> forbidden_key k \<and> clean_json v) kvs"
| "clean_json (JList xs) \<longleftrightarrow> list_all clean_json xs"
| "clean_json _ \<longleftrightarrow> True"

lemma validate_accepts:
  "acceptable_meta m \<Longrightarrow> validate_meta path m = Inr (meta_json m)"
  "acceptable_meta (MMap kvs) \<Longrightarrow> validate_members path kvs =
     Inr (map (\<lambda>(k, v). (case k of None \<Rightarrow> [] | Some key \<Rightarrow> key, meta_json v)) kvs)"
  "acceptable_meta (MList xs) \<Longrightarrow> validate_list path xs = Inr (map meta_json xs)"
  by (induction path m and path kvs and path xs rule: validate_meta_validate_members_validate_list.induct)
    (auto split: option.splits)

lemma validate_rejects:
  "\<not> acceptable_meta m \<Longrightarrow> \<exists>msg. validate_meta path m = Inl (ValueError msg)"
  "\<not> acceptable_meta (MMap kvs) \<Longrightarrow> \<exists>msg. validate_members path kvs = Inl (ValueError msg)"
  "\<not> acceptable_meta (MList xs) \<Longrightarrow> \<exists>msg. validate_list path xs = Inl (ValueError msg)"
proof (induction path m and path kvs and path xs rule: validate_meta_validate_members_validate_list.induct)
  case (11 path k v rest)
  show ?case
  proof (cases k)
    case (Some key)
    show ?thesis
    proof (cases "forbidden_key key")
      case False
      show ?thesis
      proof (cases "acceptable_meta v")
        case True
        with 11 Some False show ?thesis by (auto simp: validate_accepts(1))
      next
        case v: False
        with 11(1) [OF Some] False Some show ?thesis by auto
      qed
    qed (simp add: Some)
  qed simp
next
  case (13 path x rest)
  then show ?case by (cases "acceptable_meta x") (auto simp: validate_accepts(1))
qed auto

lemma clean_meta_json: "acceptable_meta m \<Longrightarrow> clean_json (meta_json m)"
  by (induction m rule: meta_json.induct) (auto simp: list_all_iff split: option.splits)

lemma validate_members_Inr:
  "validate_members path kvs = Inr r \<longleftrightarrow> acceptable_meta (MMap kvs) \<and>
     r = map (\<lambda>(k, v). (case k of None \<Rightarrow> [] | Some key \<Rightarrow> key, meta_json v)) kvs"
  using validate_accepts(2) [of kvs path] validate_rejects(2) [of kvs path] by (cases "acceptable_meta (MMap kvs)") auto

lemma safe_audit_metadata_Inr:
  "safe_audit_metadata kvs = Inr r \<longleftrightarrow>
     acceptable_meta (MMap kvs) \<and> JObj r = meta_json (MMap kvs) \<and>
     (\<exists>n \<le> 4096. plain_size (JObj r) = Some n)"
  by (auto simp: safe_audit_metadata_def and_then_Inr validate_members_Inr require_size_def split: option.splits)

lemma safe_audit_metadata_Inl: "safe_audit_metadata kvs = Inl e \<Longrightarrow> \<exists>msg. e = ValueError msg"
  using validate_rejects(2) [of kvs "[]"] validate_accepts(2) [of kvs "[]"]
  by (cases "acceptable_meta (MMap kvs)")
    (auto simp: safe_audit_metadata_def and_then_Inl require_size_def split: option.splits)

section \<open>Colon-separated keys\<close>

fun split_on :: "nat \<Rightarrow> ustr \<Rightarrow> ustr list" where
  "split_on c [] = [[]]"
| "split_on c (x # xs) = (if x = c then [] # split_on c xs else (x # hd (split_on c xs)) # tl (split_on c xs))"

lemma split_on_ne [simp]: "split_on c s \<noteq> []"
  by (induction s) auto

lemma split_on_no: "c \<notin> set s \<Longrightarrow> split_on c s = [s]"
  by (induction s) auto

lemma split_on_append: "c \<notin> set s \<Longrightarrow> split_on c (s @ c # t) = s # split_on c t"
  by (induction s) auto

lemma split_on_join:
  "xs \<noteq> [] \<Longrightarrow> \<forall>x \<in> set xs. c \<notin> set x \<Longrightarrow> split_on c (ustr_join [c] xs) = xs"
proof (induction xs)
  case (Cons x xs)
  show ?case
  proof (cases xs)
    case Nil
    then show ?thesis using Cons.prems by (simp add: ustr_join_def split_on_no)
  next
    case (Cons y ys)
    then have "ustr_join [c] (x # xs) = x @ c # ustr_join [c] xs" by (simp add: ustr_join_def)
    then show ?thesis using Cons.IH Cons.prems Cons by (simp add: split_on_append)
  qed
qed simp


end
