(* ===== verification/Event_Keys.thy ===== *)
theory Event_Keys
  imports Activity_Policy
begin

text \<open>
  The properties of the activity policy: what metadata reaches the ledger, that two different events
  never share a key (the ledger drops an event whose key exists, so a collision would lose one), and
  that the keys the close and retry transactions build are the documented pair.
\<close>

section \<open>Keys of different events differ\<close>

definition all_templates :: "(ustr \<times> bool \<times> segment list) list" where
  "all_templates = map (\<lambda>t. (t, False, event_template t False)) supported_event_types @
     map (\<lambda>t. (t, True, event_template t True)) [u ''source_revision.ready'', u ''source_revision.failed'']"

text \<open>Two templates clash when they have different lengths or different literals in one place.\<close>

fun clash :: "segment list \<Rightarrow> segment list \<Rightarrow> bool" where
  "clash [] [] = False"
| "clash (s # ss) (t # ts) =
     ((case s of Lit a \<Rightarrow> (case t of Lit b \<Rightarrow> a \<noteq> b | _ \<Rightarrow> False) | _ \<Rightarrow> False) \<or> clash ss ts)"
| "clash _ _ = True"

fun pairwise_clash :: "(ustr \<times> bool \<times> segment list) list \<Rightarrow> bool" where
  "pairwise_clash [] = True"
| "pairwise_clash ((t, r, x) # rest) = (list_all (\<lambda>(t', r', y). clash x y) rest \<and> pairwise_clash rest)"

lemma templates_clash: "pairwise_clash all_templates"
  by (simp add: all_templates_def supported_event_types_def event_template_def ustr_startswith_def
      after_last_dot_def field_def Let_def)


lemma startswith_u: "ustr_startswith (u p) (u s) \<longleftrightarrow> take (length p) s = p"
  by (simp add: ustr_startswith_def) (metis take_map u_def u_inject)

lemma source_revision_types:
  assumes "t \<in> set supported_event_types" "ustr_startswith (u ''source_revision.'') t"
    "t \<noteq> u ''source_revision.retry_requested''"
  shows "t \<in> {u ''source_revision.ready'', u ''source_revision.failed''}"
  using assms unfolding supported_event_types_def by (auto simp: startswith_u simp del: u_simps)

lemma template_unreconciled:
  assumes "\<not> ustr_startswith (u ''source_revision.'') t \<or> t = u ''source_revision.retry_requested''"
  shows "event_template t r = event_template t False"
  using assms unfolding event_template_def Let_def by (simp del: u_simps cong: if_cong)

lemma all_templates_cover:
  assumes "t \<in> set supported_event_types"
  shows "\<exists>r'. (t, r', event_template t r) \<in> set all_templates"
proof (cases "r \<and> t \<in> {u ''source_revision.ready'', u ''source_revision.failed''}")
  case True
  then have "(t, True, event_template t r) \<in> set all_templates" by (auto simp: all_templates_def simp del: u_simps)
  then show ?thesis ..
next
  case False
  then have "event_template t r = event_template t False"
    using template_unreconciled [of t r] source_revision_types [OF assms] by (cases r) auto
  then have "(t, False, event_template t r) \<in> set all_templates" using assms by (simp add: all_templates_def)
  then show ?thesis ..
qed


lemma pairwise_clashD:
  "pairwise_clash xs \<Longrightarrow> (t, r, x) \<in> set xs \<Longrightarrow> (t', r', y) \<in> set xs \<Longrightarrow>
     (t, r, x) = (t', r', y) \<or> clash x y \<or> clash y x"
  by (induction xs rule: pairwise_clash.induct) (auto simp: list_all_iff)

lemma clash_differs:
  "clash x y \<Longrightarrow> map_result (segment_text f) x = Inr ss \<Longrightarrow> map_result (segment_text f') y \<noteq> Inr ss"
proof (induction x y arbitrary: ss rule: clash.induct)
  case (2 s ss' t ts)
  then show ?case
    by (auto simp: and_then_Inr segment_text_def split: segment.splits option.splits)
qed (auto simp: and_then_Inr)

section \<open>Identities\<close>

text \<open>What the callers pass: UUIDs for the entities and the nonce, integers for versions and ordinals.\<close>

definition uuid_fields :: "ustr list" where
  "uuid_fields = [u ''user_id'', u ''friendship_id'', u ''audience_user_id'', u ''room_id'', u ''session_id'',
     u ''submission_id'', u ''revision_id'', u ''retry_nonce'', u ''job_id'', u ''job_attempt_id'',
     u ''suggestion_id'', u ''snapshot_id'', u ''version_id'', u ''comment_id'']"

definition int_fields :: "ustr list" where
  "int_fields = [u ''profile_version'', u ''preferences_version'', u ''generation_epoch'', u ''retry_ordinal'',
     u ''state_version'', u ''revision_no'', u ''version'']"

definition typed_identity :: "(ustr \<Rightarrow> ident option) \<Rightarrow> bool" where
  "typed_identity f \<longleftrightarrow>
     list_all (\<lambda>n. case f n of Some (IUuid _) \<Rightarrow> True | None \<Rightarrow> True | _ \<Rightarrow> False) uuid_fields \<and>
     list_all (\<lambda>n. case f n of Some (IInt _) \<Rightarrow> True | None \<Rightarrow> True | _ \<Rightarrow> False) int_fields"

definition known_segment :: "segment \<Rightarrow> bool" where
  "known_segment s \<longleftrightarrow>
     (case s of Lit a \<Rightarrow> 58 \<notin> set a | Field pre n \<Rightarrow> 58 \<notin> set pre \<and> (n \<in> set uuid_fields \<or> n \<in> set int_fields))"

lemma templates_known: "list_all (\<lambda>(t, r, x). list_all known_segment x) all_templates"
  by (simp add: all_templates_def supported_event_types_def event_template_def ustr_startswith_def
      after_last_dot_def field_def Let_def known_segment_def uuid_fields_def int_fields_def)

lemma uuid_text_no_colon: "58 \<notin> set (uuid_text x)"
proof
  assume "58 \<in> set (uuid_text x)"
  then have "58 \<in> set (filter (\<lambda>c. c \<noteq> 45) (uuid_text x))" by simp
  then have "58 \<in> set (hex_pad 32 (unat x))" by (simp only: uuid_text_digits)
  then obtain d where "d < 16" "58 = hex_char d" using set_hex_pad by blast
  then show False by (simp add: hex_char_def split: if_splits)
qed

lemma int_text_no_colon: "58 \<notin> set (int_text i)"
  using set_dec_digits [of 58] by (auto simp: int_text_def)

lemma typed_value:
  assumes "typed_identity f" "n \<in> set uuid_fields \<or> n \<in> set int_fields" "f n = Some v"
  shows "(\<exists>x. v = IUuid x \<and> n \<in> set uuid_fields) \<or> (\<exists>i. v = IInt i \<and> n \<in> set int_fields)"
  using assms unfolding typed_identity_def list_all_iff
  by (cases v) (auto dest!: bspec [where x = n] simp del: u_simps)

lemma segment_no_colon:
  assumes "typed_identity f" "known_segment s" "segment_text f s = Inr x"
  shows "58 \<notin> set x"
proof (cases s)
  case (Field pre n)
  with assms obtain v where v: "f n = Some v" "x = pre @ ident_text v"
    "n \<in> set uuid_fields \<or> n \<in> set int_fields" "58 \<notin> set pre"
    by (auto simp: known_segment_def segment_text_def split: option.splits)
  with typed_value [OF assms(1) v(3,1)] show ?thesis
    using uuid_text_no_colon int_text_no_colon by auto
qed (use assms in \<open>auto simp: known_segment_def segment_text_def\<close>)

lemma fields_disjoint: "n \<in> set uuid_fields \<Longrightarrow> n \<notin> set int_fields"
  by (auto simp: uuid_fields_def int_fields_def simp del: u_simps)

lemma segment_determines:
  assumes "typed_identity f" "typed_identity f'" "known_segment (Field pre n)"
    "segment_text f (Field pre n) = Inr x" "segment_text f' (Field pre n) = Inr x"
  shows "f n = f' n"
proof -
  from assms obtain v v' where v: "f n = Some v" "f' n = Some v'" "ident_text v = ident_text v'"
    "n \<in> set uuid_fields \<or> n \<in> set int_fields"
    by (auto simp: known_segment_def segment_text_def split: option.splits)
  with typed_value [OF assms(1) v(4,1)] typed_value [OF assms(2) v(4,2)] show ?thesis
    using fields_disjoint by auto
qed

lemma build_event_key_Inr:
  assumes "build_event_key t f = Inr k" "typed_identity f"
  obtains r x ss where "r = truthy (f (u ''reconciled''))" "x = event_template t r"
    "map_result (segment_text f) x = Inr ss" "split_on 58 k = ss" "list_all known_segment x"
    "\<exists>r'. (t, r', x) \<in> set all_templates" "t \<in> set supported_event_types"
proof -
  let ?x = "event_template t (truthy (f (u ''reconciled'')))"
  from assms(1) obtain ss where t: "t \<in> set supported_event_types"
    and ss: "map_result (segment_text f) ?x = Inr ss" "k = ustr_join [58] ss"
    unfolding build_event_key_def by (auto simp: and_then_Inr simp del: u_simps)
  from all_templates_cover [OF t] have cov: "\<exists>r'. (t, r', ?x) \<in> set all_templates" .
  then have known: "list_all known_segment ?x" using templates_known by (auto simp: list_all_iff)
  have colon: "\<forall>s \<in> set ss. 58 \<notin> set s"
  proof
    fix s assume "s \<in> set ss"
    with ss(1) obtain y where "y \<in> set ?x" "segment_text f y = Inr s" by (rule map_result_all)
    with known segment_no_colon [OF assms(2)] show "58 \<notin> set s" by (auto simp: list_all_iff)
  qed
  have "ss \<noteq> []"
  proof -
    have "?x \<noteq> []" by (simp add: event_template_def Let_def del: u_simps)
    then show ?thesis using map_result_length [OF ss(1)] by auto
  qed
  with colon have "split_on 58 k = ss" unfolding ss(2) by (intro split_on_join)
  with that [OF refl refl ss(1)] known cov t show ?thesis by blast
qed

section \<open>Properties\<close>

text \<open>
  C4: event keys never collide.  Two calls of \<open>build_event_key\<close> with typed identities give the same key
  only for the same event type and the same values of every identity argument the key uses.
\<close>

theorem event_keys_never_collide:
  assumes "build_event_key t f = Inr k" and "build_event_key t' f' = Inr k"
    and "typed_identity f" and "typed_identity f'"
  shows "t = t' \<and>
    list_all (\<lambda>s. case s of Lit a \<Rightarrow> True | Field pre n \<Rightarrow> f n = f' n)
      (event_template t (truthy (f (u ''reconciled''))))"
proof -
  from assms(1,3) obtain r x ss where a: "r = truthy (f (u ''reconciled''))" "x = event_template t r"
    "map_result (segment_text f) x = Inr ss" "split_on 58 k = ss" "list_all known_segment x"
    "\<exists>q. (t, q, x) \<in> set all_templates" by (rule build_event_key_Inr)
  from assms(2,4) obtain r' x' ss' where b: "x' = event_template t' r'"
    "map_result (segment_text f') x' = Inr ss'" "split_on 58 k = ss'"
    "\<exists>q. (t', q, x') \<in> set all_templates" by (rule build_event_key_Inr)
  have ss: "ss' = ss" using a(4) b(3) by simp
  have "\<not> clash x x'" using clash_differs a(3) b(2) ss by blast
  moreover have "\<not> clash x' x" using clash_differs a(3) b(2) ss by blast
  ultimately have same: "t = t'" "x = x'" using pairwise_clashD [OF templates_clash] a(6) b(4) by blast+
  have "f n = f' n" if seg: "Field pre n \<in> set x" for pre n
  proof -
    from seg obtain i where i: "i < length x" "x ! i = Field pre n" by (auto simp: in_set_conv_nth)
    have "segment_text f (x ! i) = Inr (ss ! i)" "segment_text f' (x ! i) = Inr (ss ! i)"
      using a(3) b(2) i(1) unfolding same(2) ss map_result_Inr_iff by (simp_all add: list_all2_conv_all_nth)
    moreover have "known_segment (Field pre n)" using a(5) seg by (simp add: list_all_iff)
    ultimately show ?thesis using segment_determines [OF assms(3,4)] i(2) by simp
  qed
  then show ?thesis using same(1) unfolding a(1,2) [symmetric] list_all_iff by (auto split: segment.split)
qed


definition sample_identity :: "ustr \<Rightarrow> ident option" where
  "sample_identity n =
     (if n = u ''session_id'' then Some (IUuid 5) else if n = u ''state_version'' then Some (IInt 3) else None)"

lemma sample_identity_typed: "typed_identity sample_identity"
  unfolding typed_identity_def uuid_fields_def int_fields_def sample_identity_def by (simp del: u_simps)

lemma closed_template:
  "event_template (u ''session.closed'') r =
     [Lit (u ''session''), field ''session_id'', Field (u ''state-v'') (u ''state_version''), Lit (u ''closed'')]"
  by (simp add: event_template_def ustr_startswith_def after_last_dot_def Let_def)

lemma sample_key:
  "build_event_key (u ''session.closed'') sample_identity =
     Inr (u ''session:'' @ uuid_text 5 @ u '':state-v'' @ int_text 3 @ u '':closed'')"
proof -
  have "u ''session.closed'' \<in> set supported_event_types" by (simp add: supported_event_types_def del: u_simps)
  then show ?thesis
    unfolding build_event_key_def closed_template
    by (simp add: segment_text_def field_def sample_identity_def ustr_join_def del: u_simps)
      (simp add: u_def)
qed

theorem event_keys_never_collide_witness:
  "\<exists>k. build_event_key (u ''session.closed'') sample_identity = Inr k \<and>
     sample_identity (u ''state_version'') = Some (IInt 3) \<and>
     list_all (\<lambda>s. case s of Lit a \<Rightarrow> True | Field pre n \<Rightarrow> sample_identity n = sample_identity n)
      (event_template (u ''session.closed'') (truthy (sample_identity (u ''reconciled''))))"
  using sample_key event_keys_never_collide [OF sample_key sample_key sample_identity_typed sample_identity_typed]
  by (auto simp: sample_identity_def simp del: u_simps)

text \<open>
  C5: exactly the bounded, clean metadata reaches the ledger.  \<open>safe_audit_metadata\<close> returns a value iff
  no mapping at any depth has a key that is not a string or that contains a private word in any letter
  case, every value is supported, and the compact encoding takes at most 4096 bytes; the value is then
  the metadata itself (UUIDs as text), it has no private key at any depth, and otherwise the failure is a
  \<open>ValueError\<close>.
\<close>

theorem audit_metadata_is_clean_and_bounded:
  "((\<exists>r. safe_audit_metadata kvs = Inr r) \<longleftrightarrow>
      acceptable_meta (MMap kvs) \<and> (\<exists>n \<le> 4096. plain_size (meta_json (MMap kvs)) = Some n)) \<and>
   (case safe_audit_metadata kvs of
      Inl e \<Rightarrow> \<exists>msg. e = ValueError msg
    | Inr r \<Rightarrow> JObj r = meta_json (MMap kvs) \<and> clean_json (JObj r) \<and> (\<exists>n \<le> 4096. plain_size (JObj r) = Some n))"
proof (rule conjI)
  show "(\<exists>r. safe_audit_metadata kvs = Inr r) \<longleftrightarrow>
      acceptable_meta (MMap kvs) \<and> (\<exists>n \<le> 4096. plain_size (meta_json (MMap kvs)) = Some n)"
    by (auto simp: safe_audit_metadata_Inr simp del: meta_json.simps acceptable_meta.simps) (auto)
  show "case safe_audit_metadata kvs of Inl e \<Rightarrow> \<exists>msg. e = ValueError msg
    | Inr r \<Rightarrow> JObj r = meta_json (MMap kvs) \<and> clean_json (JObj r) \<and> (\<exists>n \<le> 4096. plain_size (JObj r) = Some n)"
  proof (cases "safe_audit_metadata kvs")
    case (Inl e)
    then show ?thesis using safe_audit_metadata_Inl by (simp only: sum.case)
  next
    case (Inr r)
    then have r: "acceptable_meta (MMap kvs)" "JObj r = meta_json (MMap kvs)" "\<exists>n \<le> 4096. plain_size (JObj r) = Some n"
      unfolding safe_audit_metadata_Inr by blast+
    then have "clean_json (JObj r)" using clean_meta_json by metis
    with r show ?thesis by (simp only: Inr sum.case simp_thms)
  qed
qed


end
