(* ===== verification/Tables.thy ===== *)
theory Tables
  imports Complex_Main Job_Queue
begin

text \<open>
  The tables of \<open>alembic/versions\<close> the services read and write, as one record that extends the queue's
  tables.  A row has the columns the modelled code uses; a foreign key is a \<open>uuid\<close>, a NULL column an
  \<open>option\<close>, a text column restricted to a few values by a CHECK a datatype, a DOUBLE
  PRECISION column the rational number it holds.  \<open>is_member\<close> is the join on
  \<open>room_memberships ... left_at IS NULL\<close> that guards every read.
\<close>

section \<open>Rows\<close>

record membership_row =
  mb_room :: uuid
  mb_user :: uuid
  mb_host :: bool \<comment> \<open>\<open>role = 'host'\<close>\<close>
  mb_left :: bool \<comment> \<open>\<open>left_at IS NOT NULL\<close>\<close>

record session_row =
  ts_id :: uuid
  ts_room :: uuid
  ts_host :: uuid
  ts_topic :: ustr
  ts_state :: talk_session_state
  ts_epoch :: int
  ts_version :: int
  ts_retry :: int
  ts_closed_at :: "int option"
  ts_description :: ustr
  ts_deadline :: "int option"
  ts_created_at :: int
  ts_archived :: bool \<comment> \<open>\<open>archived_at IS NOT NULL\<close>\<close>

record submission_row =
  sb_id :: uuid
  sb_session :: uuid
  sb_author :: uuid
  sb_title :: ustr
  sb_created_at :: int
  sb_deleted :: bool \<comment> \<open>\<open>deleted_at IS NOT NULL\<close>\<close>

record revision_row =
  sr_id :: uuid
  sr_submission :: uuid
  sr_number :: int
  sr_state :: revision_processing_state
  sr_approved :: "uuid option"
  sr_current :: bool

datatype extraction_status = E_QUEUED | E_RUNNING | E_SUCCEEDED | E_FAILED

record extraction_row =
  er_id :: uuid
  er_revision :: uuid
  er_anchor_version :: ustr
  er_status :: extraction_status
  er_error :: "ustr option"

record anchor_row =
  an_id :: uuid
  an_run :: uuid
  an_revision :: uuid
  an_ordinal :: int
  an_block :: ustr
  an_text :: ustr
  an_confidence :: "rat option"
  an_json :: json
  an_excluded :: "ustr option" \<comment> \<open>\<open>rag_exclusion_reason\<close>; \<open>rag_eligible\<close> is its being NULL\<close>

record exclusion_row =
  ex_id :: uuid
  ex_session :: uuid
  ex_revision :: uuid
  ex_reason :: ustr
  ex_actor :: uuid

record snapshot_row =
  sn_id :: uuid
  sn_session :: uuid
  sn_epoch :: int
  sn_created_by :: uuid
  sn_topic :: ustr
  sn_pipeline :: ustr
  sn_anchor_version :: ustr

record pinned_row = \<comment> \<open>\<open>snapshot_revisions\<close>\<close>
  pn_snapshot :: uuid
  pn_revision :: uuid
  pn_run :: uuid

record run_row = \<comment> \<open>\<open>generation_runs\<close>\<close>
  gr_id :: uuid
  gr_snapshot :: uuid
  gr_kind :: generation_kind
  gr_provider :: ustr
  gr_model :: ustr
  gr_prompt :: ustr
  gr_pipeline :: ustr
  gr_state :: generation_run_state
  gr_error :: "ustr option"
  gr_completed_at :: "int option"

record document_row =
  gd_id :: uuid
  gd_run :: uuid
  gd_kind :: generation_kind
  gd_content :: "(ustr \<times> json) list"
  gd_hash :: ustr

record segment_row =
  sg_id :: uuid
  sg_document :: uuid
  sg_ordinal :: int
  sg_text :: ustr

record evidence_row =
  ev_id :: uuid
  ev_url :: ustr
  ev_title :: ustr
  ev_domain :: ustr
  ev_accessed_at :: int
  ev_snippet_hash :: ustr

datatype citation_target = SourceAnchor uuid | WebEvidence uuid

record citation_row =
  ct_id :: uuid
  ct_segment :: uuid
  ct_target :: citation_target

datatype verdict = Supported | Refuted | Mixed | Unverifiable

record claim_row =
  rc_id :: uuid
  rc_run :: uuid
  rc_text :: ustr
  rc_anchor :: uuid
  rc_verdict :: verdict
  rc_explanation :: ustr

datatype activity_scope = SC_PERSONAL | SC_ROOM | SC_SESSION

record audit_row =
  au_id :: uuid
  au_key :: ustr
  au_sequence :: int
  au_type :: ustr
  au_actor :: "uuid option"
  au_scope :: activity_scope
  au_audience :: "uuid option"
  au_room :: "uuid option"
  au_session :: "uuid option"
  au_entity_type :: ustr
  au_entity_id :: uuid
  au_metadata :: "(ustr \<times> json) list"

datatype channel = InApp | EmailIntent

record preference_row =
  np_user :: uuid
  np_kind :: ustr
  np_channel :: channel
  np_enabled :: bool

record notification_row =
  nt_id :: uuid
  nt_recipient :: uuid
  nt_kind :: ustr
  nt_actor :: "uuid option"
  nt_resource_type :: ustr
  nt_resource_id :: uuid
  nt_action :: ustr
  nt_title :: ustr
  nt_body :: ustr
  nt_key :: ustr
  nt_created_at :: int
  nt_read_at :: "int option"

record outbox_row =
  ob_id :: uuid
  ob_recipient :: uuid
  ob_kind :: ustr
  ob_key :: ustr
  ob_template :: ustr
  ob_data :: "(ustr \<times> json) list"
  ob_created_at :: int

section \<open>The database\<close>

record app_db = queue_db +
  memberships :: "membership_row list"
  sessions :: "session_row list"
  submissions :: "submission_row list"
  revisions :: "revision_row list"
  extractions :: "extraction_row list"
  anchors :: "anchor_row list"
  exclusions :: "exclusion_row list"
  snapshots :: "snapshot_row list"
  pinned :: "pinned_row list"
  runs :: "run_row list"
  documents :: "document_row list"
  segments :: "segment_row list"
  evidence :: "evidence_row list"
  citations :: "citation_row list"
  claims :: "claim_row list"
  audit :: "audit_row list"
  preferences :: "preference_row list"
  notifications :: "notification_row list"
  outbox :: "outbox_row list"

definition empty_db :: app_db where
  "empty_db = \<lparr>jobs = [], attempts = [], results = [], memberships = [], sessions = [], submissions = [],
     revisions = [], extractions = [], anchors = [], exclusions = [], snapshots = [], pinned = [], runs = [],
     documents = [], segments = [], evidence = [], citations = [], claims = [], audit = [], preferences = [],
     notifications = [], outbox = []\<rparr>"

definition is_member :: "'z app_db_scheme \<Rightarrow> uuid \<Rightarrow> uuid \<Rightarrow> bool" where
  "is_member db room user \<longleftrightarrow>
     list_ex (\<lambda>m. mb_room m = room \<and> mb_user m = user \<and> \<not> mb_left m) (memberships db)"

definition find_session :: "'z app_db_scheme \<Rightarrow> uuid \<Rightarrow> session_row option" where
  "find_session db sid = find (\<lambda>s. ts_id s = sid) (sessions db)"

text \<open>
  \<open>SELECT ... FROM talk_sessions JOIN room_memberships ... WHERE id = session_id\<close>: the row, or nothing
  when the session does not exist or the actor is no current member of its room.
\<close>

definition member_session :: "'z app_db_scheme \<Rightarrow> uuid \<Rightarrow> uuid \<Rightarrow> session_row option" where
  "member_session db actor sid =
     (case find_session db sid of
        None \<Rightarrow> None
      | Some s \<Rightarrow> if is_member db (ts_room s) actor then Some s else None)"

lemma member_session_Some:
  "member_session db actor sid = Some s \<longleftrightarrow> find_session db sid = Some s \<and> is_member db (ts_room s) actor"
  by (auto simp: member_session_def split: option.splits)

lemma find_session_Some: "find_session db sid = Some s \<Longrightarrow> s \<in> set (sessions db) \<and> ts_id s = sid"
  unfolding find_session_def using find_Some_set by fastforce

lemma find_session_unique:
  "distinct (map ts_id (sessions db)) \<Longrightarrow> s \<in> set (sessions db) \<Longrightarrow> find_session db (ts_id s) = Some s"
  unfolding find_session_def by (rule find_key_unique)

text \<open>A change of tables other than the queue's is a domain write of the queue.\<close>

definition same_queue :: "'z queue_db_scheme \<Rightarrow> 'z queue_db_scheme \<Rightarrow> bool" where
  "same_queue db db' \<longleftrightarrow> jobs db' = jobs db \<and> attempts db' = attempts db \<and> results db' = results db"

lemma same_queue_refl [simp]: "same_queue db db"
  by (simp add: same_queue_def)

lemma same_queue_trans: "same_queue a b \<Longrightarrow> same_queue b c \<Longrightarrow> same_queue a c"
  by (simp add: same_queue_def)

end
