(* ===== verification/Activity.thy ===== *)
theory Activity
  imports Tables Activity_Policy
begin

text \<open>
  \<open>activity_repository.py\<close>, \<open>activity_service.py\<close> and \<open>notification_repository.py\<close>: the append-only audit
  ledger and the notifications that go with it, staged in the caller's transaction.

  \<^item> The CHECK constraints of migration 0012 (event types as extended to 0017) and the trigger
    \<open>audit_events_session_ancestry\<close> are checked at the insertion.  \<open>jsonb_text\<close> is PostgreSQL's text form
    of a jsonb value (its size is what the ledger's CHECK bounds); only the size matters, which member
    order does not change.  A float is taken by its Python text.
  \<^item> \<open>ledger_sequence\<close> is an IDENTITY column: numbers that aborted inserts consume are not modelled.
  \<^item> \<open>uuid4()\<close> results are parameters: one for the event, one per recipient and channel.
  \<^item> The process-local counters and log lines (\<open>_observe_activity\<close>) are left out.
\<close>

section \<open>The ledger\<close>

record new_activity =
  na_key :: ustr
  na_type :: ustr
  na_actor :: "uuid option"
  na_scope :: activity_scope
  na_audience :: "uuid option"
  na_room :: "uuid option"
  na_session :: "uuid option"
  na_entity_type :: ustr
  na_entity_id :: uuid
  na_metadata :: "(ustr option \<times> meta) list"

definition comma_space_join :: "ustr list \<Rightarrow> ustr" where
  "comma_space_join xs = ustr_join (u '', '') xs"

fun jsonb_text :: "json \<Rightarrow> ustr" where
  "jsonb_text JNull = u ''null''"
| "jsonb_text (JBool b) = (if b then u ''true'' else u ''false'')"
| "jsonb_text (JInt i) = int_text i"
| "jsonb_text (JFloat r) = r"
| "jsonb_text (JStr s) = quote_text s"
| "jsonb_text (JList xs) = [91] @ comma_space_join (map jsonb_text xs) @ [93]"
| "jsonb_text (JObj kvs) =
     [123] @ comma_space_join (map (\<lambda>(k, v). quote_text k @ u '': '' @ jsonb_text v) kvs) @ [125]"

definition jsonb_size_at_most :: "nat \<Rightarrow> (ustr \<times> json) list \<Rightarrow> bool" where
  "jsonb_size_at_most n r \<longleftrightarrow>
     (case utf8 (jsonb_text (JObj r)) of None \<Rightarrow> False | Some b \<Rightarrow> length b \<le> n)"

definition scope_shape :: "audit_row \<Rightarrow> bool" where
  "scope_shape r \<longleftrightarrow>
     (case au_scope r of
        SC_PERSONAL \<Rightarrow> au_audience r \<noteq> None \<and> au_room r = None \<and> au_session r = None
      | SC_ROOM \<Rightarrow> au_audience r = None \<and> au_room r \<noteq> None \<and> au_session r = None
      | SC_SESSION \<Rightarrow> au_audience r = None \<and> au_room r \<noteq> None \<and> au_session r \<noteq> None)"

definition audit_checks :: "'z app_db_scheme \<Rightarrow> audit_row \<Rightarrow> bool" where
  "audit_checks db r \<longleftrightarrow>
     1 \<le> length (au_key r) \<and> length (au_key r) \<le> 256 \<and> au_type r \<in> set supported_event_types \<and>
     1 \<le> length (au_entity_type r) \<and> length (au_entity_type r) \<le> 32 \<and>
     jsonb_size_at_most 4096 (au_metadata r) \<and> scope_shape r \<and>
     (au_scope r = SC_SESSION \<longrightarrow>
        list_ex (\<lambda>s. Some (ts_id s) = au_session r \<and> Some (ts_room s) = au_room r) (sessions db))"

definition next_sequence :: "'z app_db_scheme \<Rightarrow> int" where
  "next_sequence db = (if audit db = [] then 1 else au_sequence (last (audit db)) + 1)"

definition new_audit_row :: "uuid \<Rightarrow> new_activity \<Rightarrow> (ustr \<times> json) list \<Rightarrow> 'z app_db_scheme \<Rightarrow> audit_row" where
  "new_audit_row event_id a metadata db =
     \<lparr>au_id = event_id, au_key = na_key a, au_sequence = next_sequence db, au_type = na_type a,
      au_actor = na_actor a, au_scope = na_scope a, au_audience = na_audience a, au_room = na_room a,
      au_session = na_session a, au_entity_type = na_entity_type a, au_entity_id = na_entity_id a,
      au_metadata = metadata\<rparr>"

text \<open>\<open>ActivityRepository.append\<close>: whether the event was new, and the database.\<close>

definition append_activity ::
  "uuid \<Rightarrow> new_activity \<Rightarrow> (ustr \<times> json) list \<Rightarrow> 'z app_db_scheme \<Rightarrow> app_error + bool \<times> 'z app_db_scheme" where
  "append_activity event_id a metadata db =
     (let row = new_audit_row event_id a metadata db
      in require (audit_checks db row) (PgError CheckViolation)
           (if \<not> fresh au_key row (audit db) then Inr (False, db)
            else require (fresh au_id row (audit db)) (PgError UniqueViolation)
                   (Inr (True, db\<lparr>audit := audit db @ [row]\<rparr>))))"

text \<open>\<open>ActivityService._append\<close>\<close>

definition checked_append ::
  "uuid \<Rightarrow> new_activity \<Rightarrow> 'z app_db_scheme \<Rightarrow> app_error + bool \<times> 'z app_db_scheme" where
  "checked_append event_id a db =
     require (na_type a \<in> set supported_event_types) (ValueError (u ''unsupported audit event type''))
       (and_then (safe_audit_metadata (na_metadata a)) (\<lambda>m. append_activity event_id a m db))"

section \<open>Notifications\<close>

definition action_pairs :: "(ustr \<times> ustr) set" where
  "action_pairs =
     {(u ''respond_friend_request'', u ''friend_request''), (u ''open_room'', u ''room''),
      (u ''open_session'', u ''session''), (u ''open_comment'', u ''comment'')}"

definition validate_notification_catalog :: "ustr \<Rightarrow> ustr \<Rightarrow> app_error + unit" where
  "validate_notification_catalog action_kind resource_type =
     require (action_kind = u ''none'' \<or> (action_kind, resource_type) \<in> action_pairs)
       (ValueError (u ''unsupported notification action/resource pair'')) (Inr ())"

record notification_effect =
  ne_recipients :: "uuid list"
  ne_kind :: ustr
  ne_resource_type :: ustr
  ne_resource_id :: uuid
  ne_action :: ustr
  ne_title :: ustr
  ne_body :: ustr
  ne_template :: ustr
  ne_data :: "(ustr option \<times> meta) list"
  ne_dedupe :: "ustr option"

record recipient_preference =
  rp_user :: uuid
  rp_channels :: "channel set"

definition unconditional_kinds :: "ustr set" where
  "unconditional_kinds = {u ''friend_request'', u ''room_member_added''}"

definition snapshot_preferences ::
  "'z app_db_scheme \<Rightarrow> uuid list \<Rightarrow> ustr \<Rightarrow> recipient_preference list" where
  "snapshot_preferences db recipient_ids kind =
     (if recipient_ids = [] then []
      else if kind \<in> unconditional_kinds
      then map (\<lambda>x. \<lparr>rp_user = x, rp_channels = {InApp}\<rparr>) (first_occurrences recipient_ids)
      else let rows = filter (\<lambda>p. np_user p \<in> set recipient_ids \<and> np_kind p = kind \<and> np_enabled p) (preferences db)
           in map (\<lambda>x. \<lparr>rp_user = x, rp_channels = np_channel ` {p \<in> set rows. np_user p = x}\<rparr>)
                (sort (remdups (map np_user rows))))"

definition notification_kinds :: "ustr set" where
  "notification_kinds =
     {u ''friend_request'', u ''room_member_added'', u ''analysis_completed'', u ''mention'', u ''comment''}"

definition notification_checks :: "notification_row \<Rightarrow> bool" where
  "notification_checks n \<longleftrightarrow>
     nt_kind n \<in> notification_kinds \<and>
     nt_resource_type n \<in> {u ''friend_request'', u ''room'', u ''session'', u ''comment''} \<and>
     (nt_action n = u ''none'' \<or> (nt_action n, nt_resource_type n) \<in> action_pairs) \<and>
     1 \<le> length (nt_title n) \<and> length (nt_title n) \<le> 120 \<and>
     1 \<le> length (nt_body n) \<and> length (nt_body n) \<le> 240 \<and>
     1 \<le> length (nt_key n) \<and> length (nt_key n) \<le> 256"

definition outbox_checks :: "outbox_row \<Rightarrow> bool" where
  "outbox_checks ob \<longleftrightarrow>
     ob_kind ob \<in> {u ''analysis_completed'', u ''mention'', u ''comment''} \<and>
     1 \<le> length (ob_key ob) \<and> length (ob_key ob) \<le> 256 \<and>
     1 \<le> length (ob_template ob) \<and> length (ob_template ob) \<le> 128 \<and> jsonb_size_at_most 2048 (ob_data ob)"

definition insert_notification ::
  "notification_row \<Rightarrow> nat \<times> 'z app_db_scheme \<Rightarrow> app_error + nat \<times> 'z app_db_scheme" where
  "insert_notification row st =
     (let (n, db) = st
      in require (notification_checks row) (PgError CheckViolation)
           (if \<not> fresh (\<lambda>x. (nt_recipient x, nt_key x)) row (notifications db) then Inr (n, db)
            else require (fresh nt_id row (notifications db)) (PgError UniqueViolation)
                   (Inr (n + 1, db\<lparr>notifications := notifications db @ [row]\<rparr>))))"

definition insert_outbox ::
  "outbox_row \<Rightarrow> nat \<times> 'z app_db_scheme \<Rightarrow> app_error + nat \<times> 'z app_db_scheme" where
  "insert_outbox row st =
     (let (n, db) = st
      in require (outbox_checks row) (PgError CheckViolation)
           (if \<not> fresh (\<lambda>x. (ob_recipient x, ob_key x)) row (outbox db) then Inr (n, db)
            else require (fresh ob_id row (outbox db)) (PgError UniqueViolation)
                   (Inr (n + 1, db\<lparr>outbox := outbox db @ [row]\<rparr>))))"

text \<open>The identifiers and the clock of one recording.\<close>

record activity_draws =
  dr_event :: uuid
  dr_notification :: "uuid \<Rightarrow> uuid"
  dr_outbox :: "uuid \<Rightarrow> uuid"
  dr_now :: int

definition in_app_row ::
  "activity_draws \<Rightarrow> uuid option \<Rightarrow> notification_effect \<Rightarrow> ustr \<Rightarrow> uuid \<Rightarrow> notification_row" where
  "in_app_row d actor e base x =
     \<lparr>nt_id = dr_notification d x, nt_recipient = x, nt_kind = ne_kind e, nt_actor = actor,
      nt_resource_type = ne_resource_type e, nt_resource_id = ne_resource_id e, nt_action = ne_action e,
      nt_title = ne_title e, nt_body = ne_body e, nt_key = base @ u '':'' @ uuid_text x @ u '':in_app'',
      nt_created_at = dr_now d, nt_read_at = None\<rparr>"

definition email_row ::
  "activity_draws \<Rightarrow> notification_effect \<Rightarrow> (ustr \<times> json) list \<Rightarrow> ustr \<Rightarrow> uuid \<Rightarrow> outbox_row" where
  "email_row d e data base x =
     \<lparr>ob_id = dr_outbox d x, ob_recipient = x, ob_kind = ne_kind e,
      ob_key = base @ u '':'' @ uuid_text x @ u '':email_intent'', ob_template = ne_template e, ob_data = data,
      ob_created_at = dr_now d\<rparr>"

definition materialize ::
  "activity_draws \<Rightarrow> uuid option \<Rightarrow> notification_effect \<Rightarrow> (ustr \<times> json) list \<Rightarrow> ustr \<Rightarrow>
   recipient_preference list \<Rightarrow> 'z app_db_scheme \<Rightarrow> app_error + (nat \<times> nat) \<times> 'z app_db_scheme" where
  "materialize d actor e data base recipients db =
     (let tobapp = first_occurrences (map rp_user (filter (\<lambda>r. InApp \<in> rp_channels r) recipients));
          tobmail = first_occurrences (map rp_user (filter (\<lambda>r. EmailIntent \<in> rp_channels r) recipients))
      in and_then (fold_result (\<lambda>x. insert_notification (in_app_row d actor e base x)) tobapp (0, db)) (\<lambda>(n, db1).
         and_then (fold_result (\<lambda>x. insert_outbox (email_row d e data base x)) tobmail (0, db1)) (\<lambda>(m, db2).
         Inr ((n, m), db2))))"

text \<open>One notification effect of \<open>ActivityService.record\<close>.\<close>

definition apply_effect ::
  "activity_draws \<Rightarrow> uuid option \<Rightarrow> ustr \<Rightarrow> notification_effect \<Rightarrow>
   (nat \<times> nat) \<times> 'z app_db_scheme \<Rightarrow> app_error + (nat \<times> nat) \<times> 'z app_db_scheme" where
  "apply_effect d actor event_key e st =
     (let ((n, m), db) = st in
      and_then (validate_notification_catalog (ne_action e) (ne_resource_type e)) (\<lambda>_.
      require (\<not> (length (ne_title e) > 120 \<or> length (ne_body e) > 240))
        (ValueError (u ''notification text exceeds approved bounds''))
      (and_then (safe_audit_metadata (ne_data e)) (\<lambda>data.
       and_then (require_size 2048 (u ''outbox template data exceeds 2 KiB'') data) (\<lambda>_.
       let base = (case ne_dedupe e of Some k \<Rightarrow> if k = [] then event_key else k | None \<Rightarrow> event_key)
       in and_then (materialize d actor e data base (snapshot_preferences db (ne_recipients e) (ne_kind e)) db)
            (\<lambda>((n', m'), db'). Inr ((n + n', m + m'), db')))))))"

record recorded_activity =
  ra_recorded :: bool
  ra_notifications :: nat
  ra_outbox :: nat

definition record_activity ::
  "activity_draws \<Rightarrow> new_activity \<Rightarrow> notification_effect list \<Rightarrow> 'z app_db_scheme \<Rightarrow>
   app_error + recorded_activity \<times> 'z app_db_scheme" where
  "record_activity d a effects db =
     and_then (checked_append (dr_event d) a db) (\<lambda>(isnew, db1).
       if \<not> isnew then Inr (\<lparr>ra_recorded = False, ra_notifications = 0, ra_outbox = 0\<rparr>, db1)
       else and_then (fold_result (apply_effect d (na_actor a) (na_key a)) effects ((0, 0), db1))
              (\<lambda>((n, m), db2). Inr (\<lparr>ra_recorded = True, ra_notifications = n, ra_outbox = m\<rparr>, db2)))"


section \<open>What a recording changes\<close>

text \<open>
  A recording changes the ledger, the notifications and the outbox, each only by appending rows with new
  keys; every other table is as it was.
\<close>

definition appends :: "('r \<Rightarrow> 'k) \<Rightarrow> 'r list \<Rightarrow> 'r list \<Rightarrow> bool" where
  "appends key t t' \<longleftrightarrow> (\<exists>new. t' = t @ new \<and> (distinct (map key t) \<longrightarrow> distinct (map key t')))"

lemma appends_refl [simp]: "appends key t t"
  by (simp add: appends_def)

lemma appends_trans: "appends key a b \<Longrightarrow> appends key b c \<Longrightarrow> appends key a c"
  unfolding appends_def by auto

lemma appends_fresh: "fresh key r t \<Longrightarrow> appends key t (t @ [r])"
  unfolding appends_def by (intro exI [of _ "[r]"]) (simp add: fresh_def)

definition activity_frame :: "'z app_db_scheme \<Rightarrow> 'z app_db_scheme \<Rightarrow> bool" where
  "activity_frame db db' \<longleftrightarrow>
     (\<exists>a n x. db' = db\<lparr>audit := a, notifications := n, outbox := x\<rparr>) \<and>
     appends au_key (audit db) (audit db') \<and>
     appends (\<lambda>n. (nt_recipient n, nt_key n)) (notifications db) (notifications db') \<and>
     appends (\<lambda>x. (ob_recipient x, ob_key x)) (outbox db) (outbox db')"

lemma activity_frame_refl [simp]: "activity_frame db db"
proof -
  have "db = db\<lparr>audit := audit db, notifications := notifications db, outbox := outbox db\<rparr>" by simp
  then show ?thesis unfolding activity_frame_def by (intro conjI) (blast, simp_all)
qed

lemma activity_frame_trans:
  assumes "activity_frame a b" "activity_frame b c"
  shows "activity_frame a c"
proof -
  from assms obtain p q r p' q' r' where
    b: "b = a\<lparr>audit := p, notifications := q, outbox := r\<rparr>"
    and c: "c = b\<lparr>audit := p', notifications := q', outbox := r'\<rparr>"
    unfolding activity_frame_def by blast
  then have "c = a\<lparr>audit := p', notifications := q', outbox := r'\<rparr>" by simp
  then show ?thesis using assms unfolding activity_frame_def by (blast intro: appends_trans)
qed

lemma frame_audit: "fresh au_key r (audit db) \<Longrightarrow> activity_frame db (db\<lparr>audit := audit db @ [r]\<rparr>)"
  unfolding activity_frame_def
  by (intro conjI exI [of _ "audit db @ [r]"] exI [of _ "notifications db"] exI [of _ "outbox db"])
    (simp_all add: appends_fresh)

lemma frame_notification:
  "fresh (\<lambda>x. (nt_recipient x, nt_key x)) r (notifications db) \<Longrightarrow>
     activity_frame db (db\<lparr>notifications := notifications db @ [r]\<rparr>)"
  unfolding activity_frame_def
  by (intro conjI exI [of _ "audit db"] exI [of _ "notifications db @ [r]"] exI [of _ "outbox db"])
    (simp_all add: appends_fresh)

lemma frame_outbox:
  "fresh (\<lambda>x. (ob_recipient x, ob_key x)) r (outbox db) \<Longrightarrow>
     activity_frame db (db\<lparr>outbox := outbox db @ [r]\<rparr>)"
  unfolding activity_frame_def
  by (intro conjI exI [of _ "audit db"] exI [of _ "notifications db"] exI [of _ "outbox db @ [r]"])
    (simp_all add: appends_fresh)

lemma checked_append_frame: "checked_append i a db = Inr (b, db') \<Longrightarrow> activity_frame db db'"
  by (auto simp: checked_append_def append_activity_def and_then_Inr Let_def split: if_splits intro: frame_audit)

lemma insert_notification_frame:
  "insert_notification row (n, db) = Inr (m, db') \<Longrightarrow> activity_frame db db'"
  by (auto simp: insert_notification_def split: if_splits intro: frame_notification)

lemma insert_outbox_frame: "insert_outbox row (n, db) = Inr (m, db') \<Longrightarrow> activity_frame db db'"
  by (auto simp: insert_outbox_def split: if_splits intro: frame_outbox)

lemma fold_frame:
  assumes "fold_result f xs (n, db) = Inr (m, db')"
    and "\<And>x n db m db'. f x (n, db) = Inr (m, db') \<Longrightarrow> activity_frame db db'"
  shows "activity_frame db db'"
proof -
  have "activity_frame db (snd (m, db'))"
  proof (rule fold_result_invariant [OF assms(1), where I = "\<lambda>st. activity_frame db (snd st)"])
    fix x st st' assume "activity_frame db (snd st)" "f x st = Inr st'"
    then show "activity_frame db (snd st')"
      using assms(2) [of x "fst st" "snd st" "fst st'" "snd st'"] by (auto intro: activity_frame_trans)
  qed simp
  then show ?thesis by simp
qed

lemma notifications_frame:
  "fold_result (\<lambda>x. insert_notification (r x)) xs (n, db) = Inr (m, db') \<Longrightarrow> activity_frame db db'"
  by (erule fold_frame) (rule insert_notification_frame)

lemma outbox_frame:
  "fold_result (\<lambda>x. insert_outbox (r x)) xs (n, db) = Inr (m, db') \<Longrightarrow> activity_frame db db'"
  by (erule fold_frame) (rule insert_outbox_frame)

lemma materialize_frame: "materialize d actor e data base rs db = Inr (c, db') \<Longrightarrow> activity_frame db db'"
  by (auto simp: materialize_def Let_def and_then_Inr dest!: notifications_frame outbox_frame
      intro: activity_frame_trans)

lemma apply_effect_frame: "apply_effect d actor key e (c, db) = Inr (c', db') \<Longrightarrow> activity_frame db db'"
  by (cases c) (auto simp: apply_effect_def and_then_Inr Let_def dest!: materialize_frame)

lemma effects_frame:
  "fold_result (apply_effect d actor key) es (c, db) = Inr (c', db') \<Longrightarrow> activity_frame db db'"
  by (erule fold_frame) (rule apply_effect_frame)

lemma record_activity_frame: "record_activity d a effects db = Inr (r, db') \<Longrightarrow> activity_frame db db'"
  by (auto simp: record_activity_def and_then_Inr split: if_splits
      dest!: checked_append_frame effects_frame intro: activity_frame_trans)

lemma frame_same:
  assumes "activity_frame db db'"
  shows "same_queue db db'" "memberships db' = memberships db" "sessions db' = sessions db"
    "submissions db' = submissions db" "revisions db' = revisions db" "extractions db' = extractions db"
    "exclusions db' = exclusions db" "snapshots db' = snapshots db" "pinned db' = pinned db"
    "runs db' = runs db" "documents db' = documents db" "segments db' = segments db"
    "citations db' = citations db" "claims db' = claims db" "evidence db' = evidence db"
    "anchors db' = anchors db" "preferences db' = preferences db" "app_db.more db' = app_db.more db"
    "jobs db' = jobs db" "attempts db' = attempts db" "results db' = results db"
  using assms by (auto simp: activity_frame_def same_queue_def)

end
