(* ===== verification/Activity_Feed.thy ===== *)
theory Activity_Feed
  imports Activity
begin

text \<open>
  Reading the ledger: \<open>ActivityRepository.list_authorized\<close>.  The opaque cursor is the event id it encodes
  (\<open>activity_pagination.py\<close>); the join with \<open>users\<close> for the display name and the coverage marker are left
  out.  Then the properties of the ledger: recording is idempotent, delivery is exactly once, and paging
  through the feed returns every event the requester may see, once, newest first, and nothing else.
\<close>

datatype feed_scope = F_ALL | F_PERSONAL | F_ROOM | F_SESSION

definition in_personal :: "uuid \<Rightarrow> audit_row \<Rightarrow> bool" where
  "in_personal requester e \<longleftrightarrow> au_scope e = SC_PERSONAL \<and> au_audience e = Some requester"

definition room_member_of :: "'z app_db_scheme \<Rightarrow> uuid \<Rightarrow> audit_row \<Rightarrow> bool" where
  "room_member_of db requester e \<longleftrightarrow>
     (case au_room e of None \<Rightarrow> False | Some room \<Rightarrow> is_member db room requester)"

definition authorized_predicate ::
  "'z app_db_scheme \<Rightarrow> uuid \<Rightarrow> feed_scope \<Rightarrow> uuid option \<Rightarrow> app_error + (audit_row \<Rightarrow> bool)" where
  "authorized_predicate db requester scope scope_id =
     (case scope of
        F_PERSONAL \<Rightarrow>
          require (scope_id = None) (ValueError (u ''scope_id is forbidden for all/personal scope''))
            (Inr (in_personal requester))
      | F_ALL \<Rightarrow>
          require (scope_id = None) (ValueError (u ''scope_id is forbidden for all/personal scope''))
            (Inr (\<lambda>e. in_personal requester e \<or>
                  au_scope e \<in> {SC_ROOM, SC_SESSION} \<and> room_member_of db requester e))
      | F_ROOM \<Rightarrow>
          (case scope_id of
             None \<Rightarrow> Inl (ValueError (u ''scope_id is required for room/session scope''))
           | Some room \<Rightarrow>
               require (is_member db room requester) (PermissionError (u ''audit scope is unavailable''))
                 (Inr (\<lambda>e. au_scope e = SC_ROOM \<and> au_room e = Some room \<and> room_member_of db requester e)))
      | F_SESSION \<Rightarrow>
          (case scope_id of
             None \<Rightarrow> Inl (ValueError (u ''scope_id is required for room/session scope''))
           | Some sid \<Rightarrow>
               require (member_session db requester sid \<noteq> None)
                 (PermissionError (u ''audit scope is unavailable''))
                 (Inr (\<lambda>e. au_scope e = SC_SESSION \<and> au_session e = Some sid \<and>
                     list_ex (\<lambda>s. Some (ts_id s) = au_session e \<and> Some (ts_room s) = au_room e \<and>
                        is_member db (ts_room s) requester) (sessions db)))))"

definition bounded_limit :: "int \<Rightarrow> nat" where
  "bounded_limit limit = nat (max 1 (min limit 100))"

text \<open>\<open>ORDER BY ledger_sequence DESC\<close>\<close>

definition newest_first :: "audit_row list \<Rightarrow> audit_row list" where
  "newest_first es = rev (sort_key au_sequence es)"

definition list_authorized ::
  "'z app_db_scheme \<Rightarrow> uuid \<Rightarrow> feed_scope \<Rightarrow> uuid option \<Rightarrow> uuid option \<Rightarrow> int \<Rightarrow>
   app_error + audit_row list \<times> uuid option" where
  "list_authorized db requester scope scope_id page_cursor limit =
     and_then (authorized_predicate db requester scope scope_id) (\<lambda>visible_to.
     and_then
       (case page_cursor of
          None \<Rightarrow> Inr None
        | Some anchor_id \<Rightarrow>
            (case find (\<lambda>e. au_id e = anchor_id \<and> visible_to e) (audit db) of
               None \<Rightarrow> Inl (PermissionError (u ''audit cursor is unavailable''))
             | Some e \<Rightarrow> Inr (Some (au_sequence e))))
       (\<lambda>anchor.
     let rows = take (bounded_limit limit + 1)
                  (newest_first (filter (\<lambda>e. visible_to e \<and>
                     (case anchor of None \<Rightarrow> True | Some q \<Rightarrow> au_sequence e < q)) (audit db)));
         visible = take (bounded_limit limit) rows
     in Inr (visible, if length rows > bounded_limit limit then Some (au_id (last visible)) else None)))"

text \<open>What the requester may see: the specification of the feed.\<close>

definition may_see :: "'z app_db_scheme \<Rightarrow> uuid \<Rightarrow> audit_row \<Rightarrow> bool" where
  "may_see db requester e \<longleftrightarrow>
     (case au_scope e of
        SC_PERSONAL \<Rightarrow> au_audience e = Some requester
      | _ \<Rightarrow> (case au_room e of None \<Rightarrow> False | Some room \<Rightarrow> is_member db room requester))"

lemma authorized_may_see:
  assumes "authorized_predicate db requester scope scope_id = Inr p" "p e"
  shows "may_see db requester e"
  using assms
  by (cases scope; cases "au_scope e")
    (auto simp: authorized_predicate_def may_see_def in_personal_def room_member_of_def list_ex_iff
      split: option.splits dest!: sym [where t = "au_room e"])

text \<open>The invariant of the ledger: identifiers, keys and sequence numbers are unique, the last increasing.\<close>

definition ledger_ok :: "audit_row list \<Rightarrow> bool" where
  "ledger_ok es \<longleftrightarrow>
     distinct (map au_id es) \<and> distinct (map au_key es) \<and> sorted_wrt (<) (map au_sequence es)"

lemma sorted_le_last: "sorted xs \<Longrightarrow> x \<in> set xs \<Longrightarrow> x \<le> last xs"
  by (induction xs) auto

lemma ledger_ok_append:
  assumes "ledger_ok (audit db)" "append_activity i a m db = Inr (b, db')"
  shows "ledger_ok (audit db')"
proof (cases b)
  case True
  let ?r = "new_audit_row i a m db"
  have db': "audit db' = audit db @ [?r]" "fresh au_key ?r (audit db)" "fresh au_id ?r (audit db)"
    using assms(2) True by (auto simp: append_activity_def Let_def split: if_splits)
  have "x < au_sequence ?r" if "x \<in> set (map au_sequence (audit db))" for x
  proof -
    have ne: "audit db \<noteq> []" using that by auto
    have "sorted (map au_sequence (audit db))"
      using assms(1) by (simp add: ledger_ok_def strict_sorted_imp_sorted)
    then have "x \<le> last (map au_sequence (audit db))" using that by (rule sorted_le_last)
    then show ?thesis using ne by (simp add: new_audit_row_def next_sequence_def last_map)
  qed
  then show ?thesis using assms(1) db' by (auto simp: ledger_ok_def fresh_def sorted_wrt_append)
next
  case False
  then show ?thesis using assms by (auto simp: append_activity_def Let_def split: if_splits)
qed


section \<open>Pages\<close>

text \<open>Follow the cursors from \<open>c\<close> on: the concatenation of the pages, or nothing when a page fails.\<close>

fun follow_pages ::
  "nat \<Rightarrow> 'z app_db_scheme \<Rightarrow> uuid \<Rightarrow> feed_scope \<Rightarrow> uuid option \<Rightarrow> uuid option \<Rightarrow> int \<Rightarrow> audit_row list option" where
  "follow_pages 0 db requester scope scope_id c limit = None"
| "follow_pages (Suc n) db requester scope scope_id c limit =
     (case list_authorized db requester scope scope_id c limit of
        Inl _ \<Rightarrow> None
      | Inr (page, None) \<Rightarrow> Some page
      | Inr (page, Some c') \<Rightarrow>
          map_option (\<lambda>rest. page @ rest) (follow_pages n db requester scope scope_id (Some c') limit))"

lemma newest_first_sorted:
  assumes "sorted_wrt (<) (map au_sequence es)"
  shows "newest_first (filter P es) = rev (filter P es)"
proof -
  have "sorted (map au_sequence (filter P es))"
    using assms by (intro sorted_filter strict_sorted_imp_sorted)
  then show ?thesis by (simp add: newest_first_def sort_key_id_if_sorted sorted_sort_id)
qed

lemma older_than_nth:
  assumes "sorted_wrt (>) (map au_sequence xs)" "k < length xs"
  shows "filter (\<lambda>e. au_sequence e < au_sequence (xs ! k)) xs = drop (Suc k) xs"
proof -
  have split: "xs = take k xs @ xs ! k # drop (Suc k) xs" using assms(2) by (rule id_take_nth_drop)
  have sw: "sorted_wrt (\<lambda>a b. au_sequence a > au_sequence b) xs" using assms(1) by (simp add: sorted_wrt_map)
  have "sorted_wrt (\<lambda>a b. au_sequence a > au_sequence b) (take k xs @ xs ! k # drop (Suc k) xs)"
    using sw split by simp
  then have "\<forall>e \<in> set (take k xs). au_sequence e > au_sequence (xs ! k)"
    "\<forall>e \<in> set (drop (Suc k) xs). au_sequence e < au_sequence (xs ! k)"
    by (simp_all add: sorted_wrt_append)
  then have "filter (\<lambda>e. au_sequence e < au_sequence (xs ! k)) (take k xs @ xs ! k # drop (Suc k) xs) = drop (Suc k) xs"
    by (simp add: filter_empty_conv filter_id_conv) (metis less_asym)
  then show ?thesis using split by simp
qed


text \<open>The cursor that stands before position \<open>k\<close> of the feed.\<close>

definition cursor_at :: "audit_row list \<Rightarrow> nat \<Rightarrow> uuid option" where
  "cursor_at xs k = (if k = 0 then None else Some (au_id (xs ! (k - 1))))"

lemma page_at:
  assumes ok: "ledger_ok (audit db)" and p: "authorized_predicate db requester scope scope_id = Inr p"
    and xs: "xs = rev (filter p (audit db))" and k: "k \<le> length xs"
    and B: "B = bounded_limit limit"
  shows "list_authorized db requester scope scope_id (cursor_at xs k) limit =
    Inr (take B (drop k xs), if length (drop k xs) > B then cursor_at xs (k + B) else None)"
proof -
  have sw: "sorted_wrt (<) (map au_sequence (audit db))" using ok by (simp add: ledger_ok_def)
  have dist: "distinct (map au_id (audit db))" using ok by (simp add: ledger_ok_def)
  have desc: "sorted_wrt (>) (map au_sequence xs)"
    unfolding xs rev_map [symmetric] sorted_wrt_rev sorted_wrt_map
    using sw by (simp add: sorted_wrt_map sorted_wrt_filter)
  have B1: "1 \<le> B" by (simp add: B bounded_limit_def)
  define anchor where "anchor = (if k = 0 then None else Some (au_sequence (xs ! (k - 1))))"
  have anchor_step: "(case cursor_at xs k of None \<Rightarrow> Inr None
        | Some anchor_id \<Rightarrow>
            (case find (\<lambda>e. au_id e = anchor_id \<and> p e) (audit db) of
               None \<Rightarrow> Inl (PermissionError (u ''audit cursor is unavailable''))
             | Some e \<Rightarrow> Inr (Some (au_sequence e)))) = Inr anchor"
  proof (cases "k = 0")
    case False
    then have e: "xs ! (k - 1) \<in> set xs" using k by simp
    then have e': "xs ! (k - 1) \<in> set (audit db)" "p (xs ! (k - 1))" by (simp_all add: xs)
    have "find (\<lambda>e. au_id e = au_id (xs ! (k - 1)) \<and> p e) (audit db) = Some (xs ! (k - 1))"
    proof -
      obtain y where y: "find (\<lambda>e. au_id e = au_id (xs ! (k - 1)) \<and> p e) (audit db) = Some y"
        using e' by (cases "find (\<lambda>e. au_id e = au_id (xs ! (k - 1)) \<and> p e) (audit db)")
          (auto simp: find_None_iff)
      then have "y \<in> set (audit db)" "au_id y = au_id (xs ! (k - 1))" by (auto dest: find_Some_set)
      then have "y = xs ! (k - 1)" using distinct_key_unique [OF dist _ e'(1)] by blast
      with y show ?thesis by simp
    qed
    with False show ?thesis by (simp add: cursor_at_def anchor_def)
  qed (simp add: cursor_at_def anchor_def)
  have rest: "newest_first (filter (\<lambda>e. p e \<and> (case anchor of None \<Rightarrow> True | Some q \<Rightarrow> au_sequence e < q)) (audit db))
      = drop k xs"
  proof (cases "k = 0")
    case True
    then show ?thesis by (simp add: anchor_def newest_first_sorted [OF sw] xs)
  next
    case False
    have "rev (filter (\<lambda>e. p e \<and> au_sequence e < q) (audit db)) = filter (\<lambda>e. au_sequence e < q) xs" for q
      by (simp add: xs rev_filter [symmetric])
    moreover have "filter (\<lambda>e. au_sequence e < au_sequence (xs ! (k - 1))) xs = drop k xs"
      using older_than_nth [OF desc, of "k - 1"] False k by simp
    ultimately show ?thesis using False by (simp add: anchor_def newest_first_sorted [OF sw])
  qed
  have last_vis: "last (take B (drop k xs)) = xs ! (k + B - 1)" if "length (drop k xs) > B"
  proof -
    have "last (take B (drop k xs)) = take B (drop k xs) ! (B - 1)"
      using that B1 by (subst last_conv_nth) auto
    also have "\<dots> = xs ! (k + B - 1)" using that B1 k by (simp add: add.commute)
    finally show ?thesis .
  qed
  have len: "length (take (B + 1) (drop k xs)) > B \<longleftrightarrow> length (drop k xs) > B" by auto
  show ?thesis
    unfolding list_authorized_def p and_then_simps anchor_step Let_def rest B [symmetric] take_take len
    using B1 last_vis by (simp add: cursor_at_def min_absorb1)
qed

lemma follow_pages_at:
  assumes "ledger_ok (audit db)" "authorized_predicate db requester scope scope_id = Inr p"
    and "xs = rev (filter p (audit db))"
  shows "k \<le> length xs \<Longrightarrow> length xs - k < fuel \<Longrightarrow>
    follow_pages fuel db requester scope scope_id (cursor_at xs k) limit = Some (drop k xs)"
proof (induction fuel arbitrary: k)
  case (Suc n)
  let ?B = "bounded_limit limit"
  note page = page_at [OF assms Suc.prems(1) refl, where limit = limit]
  show ?case
  proof (cases "length (drop k xs) > ?B")
    case True
    have "1 \<le> ?B" by (simp add: bounded_limit_def)
    with True Suc.prems have "follow_pages n db requester scope scope_id (cursor_at xs (k + ?B)) limit = Some (drop (k + ?B) xs)"
      by (intro Suc.IH) auto
    moreover obtain c where "cursor_at xs (k + ?B) = Some c" using \<open>1 \<le> ?B\<close> by (simp add: cursor_at_def)
    moreover have "take ?B (drop k xs) @ drop (k + ?B) xs = drop k xs"
      by (metis add.commute append_take_drop_id drop_drop)
    ultimately show ?thesis using True page by simp
  next
    case False
    then show ?thesis using page by simp
  qed
qed simp

section \<open>Properties\<close>

text \<open>
  C7: the feed is complete and private.  In a sound ledger, following the cursors from the first page
  returns, for every page size, exactly the events of the requested scope the requester may see, newest
  first, none missing, repeated or out of scope; at most as many pages as there are events and one more
  are needed, and every returned event is personal to the requester or in a room of which the requester
  is a member now.
\<close>

theorem feed_is_complete_and_private:
  assumes "ledger_ok (audit db)" and "authorized_predicate db requester scope scope_id = Inr p"
  shows "follow_pages (length (audit db) + 1) db requester scope scope_id None limit =
      Some (rev (filter p (audit db))) \<and>
    list_all (may_see db requester) (filter p (audit db))"
proof (rule conjI)
  let ?xs = "rev (filter p (audit db))"
  have "follow_pages (length (audit db) + 1) db requester scope scope_id (cursor_at ?xs 0) limit = Some (drop 0 ?xs)"
    by (rule follow_pages_at [OF assms refl]) (simp_all add: le_imp_less_Suc)
  then show "follow_pages (length (audit db) + 1) db requester scope scope_id None limit = Some ?xs"
    by (simp add: cursor_at_def)
  show "list_all (may_see db requester) (filter p (audit db))"
    using authorized_may_see [OF assms(2)] by (auto simp: list_all_iff)
qed


definition feed_event :: "uuid \<Rightarrow> int \<Rightarrow> uuid \<Rightarrow> audit_row" where
  "feed_event i q audience =
     \<lparr>au_id = i, au_key = int_text q, au_sequence = q, au_type = u ''profile.updated'', au_actor = None,
      au_scope = SC_PERSONAL, au_audience = Some audience, au_room = None, au_session = None,
      au_entity_type = u ''account'', au_entity_id = i, au_metadata = []\<rparr>"

definition feed_db :: app_db where
  "feed_db = empty_db\<lparr>audit := [feed_event 11 1 5, feed_event 12 2 6, feed_event 13 4 5]\<rparr>"

theorem feed_is_complete_and_private_witness:
  "follow_pages 4 feed_db 5 F_PERSONAL None None 1 = Some [feed_event 13 4 5, feed_event 11 1 5]"
proof -
  have ok: "ledger_ok (audit feed_db)" by (simp add: feed_db_def feed_event_def ledger_ok_def)
  have p: "authorized_predicate feed_db 5 F_PERSONAL None = Inr (in_personal 5)"
    by (simp add: authorized_predicate_def)
  have eval: "length (audit feed_db) + 1 = 4"
    "rev (filter (in_personal 5) (audit feed_db)) = [feed_event 13 4 5, feed_event 11 1 5]"
    by (simp_all add: feed_db_def in_personal_def feed_event_def)
  show ?thesis using feed_is_complete_and_private [OF ok p, of 1] unfolding eval by blast
qed

text \<open>
  Recording is idempotent.  When recording an event has succeeded, recording the same event again,
  with whatever effects, identifiers and clock, succeeds, reports that nothing was recorded, and leaves
  the ledger, the notifications and the outbox as they are; and the event is in the ledger exactly once.
\<close>

theorem recording_is_idempotent:
  assumes "record_activity d a effects db = Inr (r, db1)" and "distinct (map au_key (audit db))"
  shows "record_activity d' a effects' db1 =
      Inr (\<lparr>ra_recorded = False, ra_notifications = 0, ra_outbox = 0\<rparr>, db1) \<and>
    hits (\<lambda>e. au_key e = na_key a) (audit db1) = 1"
proof -
  have frame: "activity_frame db db1" using assms(1) by (rule record_activity_frame)
  obtain b db0 where app: "checked_append (dr_event d) a db = Inr (b, db0)"
    using assms(1) by (auto simp: record_activity_def and_then_Inr)
  have frame0: "activity_frame db0 db1"
    using assms(1) app by (auto simp: record_activity_def and_then_Inr split: if_splits dest: effects_frame)
  obtain m where m: "na_type a \<in> set supported_event_types" "safe_audit_metadata (na_metadata a) = Inr m"
    "append_activity (dr_event d) a m db = Inr (b, db0)"
    using app by (auto simp: checked_append_def and_then_Inr)
  have chk: "audit_checks db (new_audit_row (dr_event d) a m db)"
    using m(3) by (auto simp: append_activity_def Let_def)
  have chk': "audit_checks db1 (new_audit_row (dr_event d') a m db1)"
    using chk by (cases "na_scope a")
      (simp_all add: audit_checks_def new_audit_row_def scope_shape_def frame_same(3) [OF frame])
  have in0: "na_key a \<in> au_key ` set (audit db0)"
    using m(3) by (auto simp: append_activity_def Let_def new_audit_row_def fresh_def image_iff split: if_splits)
  then have in1: "na_key a \<in> au_key ` set (audit db1)"
    using frame0 by (auto simp: activity_frame_def appends_def)
  then have "\<not> fresh au_key (new_audit_row (dr_event d') a m db1) (audit db1)"
    by (simp add: fresh_def new_audit_row_def)
  with chk' have "append_activity (dr_event d') a m db1 = Inr (False, db1)"
    by (simp add: append_activity_def Let_def)
  then have "record_activity d' a effects' db1 =
      Inr (\<lparr>ra_recorded = False, ra_notifications = 0, ra_outbox = 0\<rparr>, db1)"
    using m(1,2) by (simp add: record_activity_def checked_append_def)
  moreover have "distinct (map au_key (audit db1))"
    using frame assms(2) by (auto simp: activity_frame_def appends_def)
  moreover obtain e where e: "e \<in> set (audit db1)" "au_key e = na_key a" using in1 by auto
  ultimately have "hits (\<lambda>x. au_key x = na_key a) (audit db1) = 1"
    by (intro hits_one_of_key [where key = au_key and r = e]) simp_all
  with \<open>record_activity d' a effects' db1 = _\<close> show ?thesis by simp
qed




lemma first_occurrences_set [simp]: "set (first_occurrences xs) = set xs"
  by (simp add: first_occurrences_def)



section \<open>Witnesses\<close>

definition demo_activity :: new_activity where
  "demo_activity = \<lparr>na_key = u ''room:r:created'', na_type = u ''room.created'', na_actor = Some 5,
     na_scope = SC_ROOM, na_audience = None, na_room = Some 9, na_session = None, na_entity_type = u ''room'',
     na_entity_id = 9, na_metadata = []\<rparr>"


definition demo_draws :: activity_draws where
  "demo_draws = \<lparr>dr_event = 40, dr_notification = (\<lambda>x. x + 100), dr_outbox = (\<lambda>x. x + 200), dr_now = 0\<rparr>"

lemmas activity_eval =
  record_activity_def checked_append_def append_activity_def safe_audit_metadata_def require_size_def plain_size_def
  comma_join_def utf8_char_def new_audit_row_def audit_checks_def jsonb_size_at_most_def comma_space_join_def
  ustr_join_def scope_shape_def next_sequence_def fresh_def apply_effect_def validate_notification_catalog_def
  action_pairs_def snapshot_preferences_def unconditional_kinds_def first_occurrences_def materialize_def
  insert_notification_def insert_outbox_def in_app_row_def notification_checks_def notification_kinds_def



lemma demo_record:
  "\<exists>db1. record_activity demo_draws demo_activity [] empty_db =
     Inr (\<lparr>ra_recorded = True, ra_notifications = 0, ra_outbox = 0\<rparr>, db1)"
  by (simp add: activity_eval demo_activity_def demo_draws_def empty_db_def supported_event_types_def)

theorem recording_is_idempotent_witness:
  "\<exists>r db1. record_activity demo_draws demo_activity [] empty_db = Inr (r, db1) \<and>
     record_activity demo_draws demo_activity [] db1 =
       Inr (\<lparr>ra_recorded = False, ra_notifications = 0, ra_outbox = 0\<rparr>, db1)"
proof -
  obtain db1 where r: "record_activity demo_draws demo_activity [] empty_db =
     Inr (\<lparr>ra_recorded = True, ra_notifications = 0, ra_outbox = 0\<rparr>, db1)" using demo_record by blast
  have "distinct (map au_key (audit empty_db))" by (simp add: empty_db_def)
  from recording_is_idempotent [OF r this] r show ?thesis by blast
qed

end
