(* ===== verification/Membership_Gate.thy ===== *)
theory Membership_Gate
  imports Tables
begin

text \<open>
  The interface every operation on a session keeps: an actor who is no current member of the session's room
  gets one answer that depends on the request alone, so it cannot tell a session it may not see from one
  that does not exist, and it changes nothing.  Each service interprets the locale on its own operation
  (theory \<open>Session_Gates\<close>).
\<close>

locale session_gate =
  fixes operate :: "'p \<Rightarrow> uuid \<Rightarrow> uuid \<Rightarrow> 'z app_db_scheme \<Rightarrow> 'r \<times> 'z app_db_scheme"
    and denial :: "'p \<Rightarrow> 'r"
  assumes gate: "member_session db actor sid = None \<Longrightarrow> operate p actor sid db = (denial p, db)"
begin

lemma non_disclosure:
  assumes "member_session db actor sid = None" "member_session db' actor' sid' = None"
  shows "fst (operate p actor sid db) = fst (operate p actor' sid' db') \<and> snd (operate p actor sid db) = db"
  by (simp add: gate assms)

lemma absent_like_foreign:
  assumes "find_session db sid = None" "find_session db sid' = Some s" "\<not> is_member db (ts_room s) actor"
  shows "operate p actor sid db = operate p actor sid' db \<and> snd (operate p actor sid' db) = db"
  using assms by (simp add: gate member_session_def)

lemma effect_needs_membership:
  assumes "operate p actor sid db \<noteq> (denial p, db)"
  shows "\<exists>s. find_session db sid = Some s \<and> is_member db (ts_room s) actor"
  using assms gate [of db actor sid p] by (cases "member_session db actor sid") (auto simp: member_session_Some)

end

end
