(* ===== verification/Session_Close.thy ===== *)
theory Session_Close
  imports Activity Queue_Invariant
begin

text \<open>
  \<open>apps/api/app/session_service.py\<close> (\<open>SessionCloseService\<close>): the transaction that closes a talk session
  into a new generation snapshot, and the one that reopens it.

  A request names the session, the actor, the exclusions and the versions; \<open>close_draws\<close> are the
  \<open>uuid4()\<close> results and the clock readings, and the constraints of migration 0001 on the inserted rows are
  checked, so no freshness is assumed.  The row lock (\<open>FOR UPDATE\<close>) serialises closes of one session, so a
  transaction is one function on the committed state.
\<close>

section \<open>Reading\<close>

record closed_snapshot =
  cs_snapshot :: uuid
  cs_epoch :: int
  cs_state :: talk_session_state
  cs_idempotent :: bool

record close_draws =
  cd_exclusion :: "uuid \<Rightarrow> uuid"
  cd_snapshot :: uuid
  cd_run :: "generation_kind \<Rightarrow> uuid"
  cd_job :: "generation_kind \<Rightarrow> uuid"
  cd_closed :: activity_draws
  cd_processing :: activity_draws
  cd_now :: int

definition host_session ::
  "(ustr \<Rightarrow> app_error) \<Rightarrow> (ustr \<Rightarrow> app_error) \<Rightarrow> ustr \<Rightarrow> 'z app_db_scheme \<Rightarrow> uuid \<Rightarrow> uuid \<Rightarrow> app_error + session_row" where
  "host_session no_access no_host message db actor sid =
     (case member_session db actor sid of
        None \<Rightarrow> Inl (no_access (u ''session is unavailable''))
      | Some s \<Rightarrow> require (ts_host s = actor) (no_host message) (Inr s))"

text \<open>Current revisions of undeleted submissions, \<open>ORDER BY revision.id\<close>.\<close>

definition current_revisions :: "'z app_db_scheme \<Rightarrow> uuid \<Rightarrow> revision_row list" where
  "current_revisions db sid =
     sort_key sr_id (filter (\<lambda>r. sr_current r \<and>
       list_ex (\<lambda>b. sb_id b = sr_submission r \<and> sb_session b = sid \<and> \<not> sb_deleted b) (submissions db))
     (revisions db))"

text \<open>The LEFT JOIN on the approved extraction run of the same revision.\<close>

definition approved_run :: "'z app_db_scheme \<Rightarrow> revision_row \<Rightarrow> extraction_row option" where
  "approved_run db r =
     (case sr_approved r of
        None \<Rightarrow> None
      | Some i \<Rightarrow> find (\<lambda>x. er_id x = i \<and> er_revision x = sr_id r) (extractions db))"

definition latest_snapshot :: "'z app_db_scheme \<Rightarrow> uuid \<Rightarrow> snapshot_row option" where
  "latest_snapshot db sid =
     (case rev (sort_key sn_epoch (filter (\<lambda>n. sn_session n = sid) (snapshots db))) of
        [] \<Rightarrow> None
      | n # _ \<Rightarrow> Some n)"

definition existing_snapshot_or_raise ::
  "'z app_db_scheme \<Rightarrow> uuid \<Rightarrow> talk_session_state \<Rightarrow> app_error + closed_snapshot" where
  "existing_snapshot_or_raise db sid state =
     require (state \<in> {CLOSED, PROCESSING, READY, NEEDS_ATTENTION})
       (SessionStateError (u ''session must be open, got '' @ session_state_value state))
       (case latest_snapshot db sid of
          None \<Rightarrow> Inl (SessionStateError (u ''closed session has no canonical generation snapshot''))
        | Some n \<Rightarrow> Inr \<lparr>cs_snapshot = sn_id n, cs_epoch = sn_epoch n, cs_state = state, cs_idempotent = True\<rparr>)"

section \<open>Deciding what the snapshot pins\<close>

definition revision_statuses :: "revision_row list \<Rightarrow> revision_status list" where
  "revision_statuses rows = map (\<lambda>r. \<lparr>rs_revision_id = uuid_text (sr_id r), rs_state = sr_state r\<rparr>) rows"

definition domain_exclusions :: "(uuid \<times> ustr) list \<Rightarrow> app_error + close_exclusion list" where
  "domain_exclusions reqs =
     map_result (\<lambda>(i, reason). lift_domain (make_close_exclusion (uuid_text i) reason)) reqs"

definition revision_by_id :: "revision_row list \<Rightarrow> ustr \<Rightarrow> app_error + uuid" where
  "revision_by_id rows t =
     (case find (\<lambda>r. uuid_text (sr_id r) = t) rows of None \<Rightarrow> Inl (KeyError t) | Some r \<Rightarrow> Inr (sr_id r))"

definition insert_exclusion :: "exclusion_row \<Rightarrow> 'z app_db_scheme \<Rightarrow> app_error + 'z app_db_scheme" where
  "insert_exclusion x db =
     require (1 \<le> length (ex_reason x) \<and> length (ex_reason x) \<le> 1000) (PgError CheckViolation)
     (require (fresh ex_id x (exclusions db) \<and> fresh (\<lambda>y. (ex_session y, ex_revision y)) x (exclusions db))
       (PgError UniqueViolation) (Inr (db\<lparr>exclusions := exclusions db @ [x]\<rparr>)))"

definition insert_exclusions ::
  "close_draws \<Rightarrow> revision_row list \<Rightarrow> uuid \<Rightarrow> uuid \<Rightarrow> (uuid \<times> ustr) list \<Rightarrow> 'z app_db_scheme \<Rightarrow>
   app_error + 'z app_db_scheme" where
  "insert_exclusions d rows sid actor reqs db =
     fold_result (\<lambda>(i, reason) db.
        and_then (revision_by_id rows (uuid_text i)) (\<lambda>rid.
          insert_exclusion \<lparr>ex_id = cd_exclusion d i, ex_session = sid, ex_revision = rid, ex_reason = reason,
            ex_actor = actor\<rparr> db)) reqs db"

text \<open>The dictionary \<open>extraction_runs\<close>: revision id, approved run id and anchor schema version.\<close>

definition approved_runs :: "'z app_db_scheme \<Rightarrow> revision_row list \<Rightarrow> app_error + (uuid \<times> uuid \<times> ustr) list" where
  "approved_runs db rows =
     map_result (\<lambda>(i, run, version).
         require (\<not> is_blank version)
           (ExtractionAnchorSchemaMismatchError (u ''approved anchor schema version must be non-empty text''))
           (Inr (i, run, version)))
       (concat (map (\<lambda>r. case approved_run db r of
            Some x \<Rightarrow> if er_status x = E_SUCCEEDED then [(sr_id r, er_id x, er_anchor_version x)] else []
          | None \<Rightarrow> []) rows))"

definition pin_runs ::
  "(uuid \<times> uuid \<times> ustr) list \<Rightarrow> ustr option \<Rightarrow> uuid list \<Rightarrow> app_error + (uuid \<times> uuid) list \<times> ustr" where
  "pin_runs approved anchor_version included =
     (let missing = sort (filter (\<lambda>i. map_of approved i = None) included);
          found = List.map_filter (\<lambda>i. map_option (\<lambda>(run, v). (i, run, v)) (map_of approved i)) included
      in require (missing = []) (ExtractionRunMissingError missing)
         (case remdups (map (\<lambda>(i, run, v). v) found) of
            [v] \<Rightarrow>
              require (case anchor_version of None \<Rightarrow> True | Some a \<Rightarrow> a = v)
                (ExtractionAnchorSchemaMismatchError
                   (u ''requested anchor schema version does not match approved extraction runs''))
                (Inr (map (\<lambda>(i, run, v). (i, run)) found, v))
          | _ \<Rightarrow> Inl (ExtractionAnchorSchemaMismatchError
                   (u ''included approved extraction runs must use exactly one anchor schema version''))))"

text \<open>The part of the transaction that reads and decides: exclusions recorded, runs to pin, their schema.\<close>

definition close_decide ::
  "close_draws \<Rightarrow> uuid \<Rightarrow> uuid \<Rightarrow> (uuid \<times> ustr) list \<Rightarrow> close_exclusion list \<Rightarrow> ustr option \<Rightarrow>
   'z app_db_scheme \<Rightarrow> app_error + ((uuid \<times> uuid) list \<times> ustr) \<times> 'z app_db_scheme" where
  "close_decide d sid actor reqs excl anchor_version db =
     (let rows = current_revisions db sid in
      and_then (lift_domain (require_close_eligibility (revision_statuses rows) excl)) (\<lambda>decision.
      and_then (insert_exclusions d rows sid actor reqs db) (\<lambda>db1.
      and_then (map_result (revision_by_id rows) (included_revision_ids decision)) (\<lambda>included.
      and_then (approved_runs db1 rows) (\<lambda>approved.
      and_then (pin_runs approved anchor_version included) (\<lambda>plan. Inr (plan, db1)))))))"


section \<open>Writing the snapshot\<close>

definition update_session ::
  "(session_row \<Rightarrow> bool) \<Rightarrow> (session_row \<Rightarrow> session_row) \<Rightarrow> app_error \<Rightarrow> 'z app_db_scheme \<Rightarrow> app_error + 'z app_db_scheme" where
  "update_session P f e db =
     require (hits P (sessions db) = 1) e (Inr (db\<lparr>sessions := update_rows P f (sessions db)\<rparr>))"

definition to_closed :: "int \<Rightarrow> session_row \<Rightarrow> session_row" where
  "to_closed now s = s\<lparr>ts_state := CLOSED, ts_closed_at := Some now, ts_version := ts_version s + 1\<rparr>"

definition to_processing :: "int \<Rightarrow> session_row \<Rightarrow> session_row" where
  "to_processing epoch s =
     s\<lparr>ts_state := PROCESSING, ts_epoch := epoch, ts_version := ts_version s + 1, ts_retry := 0\<rparr>"

text \<open>\<open>self._activities.record(cursor, event_key=build_event_key(...), scope_type="session", ...)\<close>\<close>

definition record_session_event ::
  "activity_draws \<Rightarrow> ustr \<Rightarrow> (ustr \<Rightarrow> ident option) \<Rightarrow> uuid option \<Rightarrow> uuid \<Rightarrow> uuid \<Rightarrow>
   (ustr option \<times> meta) list \<Rightarrow> notification_effect list \<Rightarrow> 'z app_db_scheme \<Rightarrow> app_error + 'z app_db_scheme" where
  "record_session_event d event_type identity actor room sid metadata effects db =
     and_then (build_event_key event_type identity) (\<lambda>key.
     and_then (record_activity d
        \<lparr>na_key = key, na_type = event_type, na_actor = actor, na_scope = SC_SESSION, na_audience = None,
         na_room = Some room, na_session = Some sid, na_entity_type = u ''session'', na_entity_id = sid,
         na_metadata = metadata\<rparr> effects db) (\<lambda>(r, db'). Inr db'))"

definition insert_snapshot :: "snapshot_row \<Rightarrow> 'z app_db_scheme \<Rightarrow> app_error + 'z app_db_scheme" where
  "insert_snapshot n db =
     require (1 \<le> sn_epoch n) (PgError CheckViolation)
     (require (fresh sn_id n (snapshots db) \<and> fresh (\<lambda>x. (sn_session x, sn_epoch x)) n (snapshots db))
       (PgError UniqueViolation) (Inr (db\<lparr>snapshots := snapshots db @ [n]\<rparr>)))"

definition insert_pinned :: "pinned_row \<Rightarrow> 'z app_db_scheme \<Rightarrow> app_error + 'z app_db_scheme" where
  "insert_pinned p db =
     require (fresh (\<lambda>x. (pn_snapshot x, pn_revision x)) p (pinned db)) (PgError UniqueViolation)
       (Inr (db\<lparr>pinned := pinned db @ [p]\<rparr>))"

definition insert_run :: "run_row \<Rightarrow> 'z app_db_scheme \<Rightarrow> app_error + 'z app_db_scheme" where
  "insert_run r db =
     require (fresh gr_id r (runs db) \<and> fresh (\<lambda>x. (gr_snapshot x, gr_kind x, gr_pipeline x)) r (runs db))
       (PgError UniqueViolation) (Inr (db\<lparr>runs := runs db @ [r]\<rparr>))"

definition generation_logical_key :: "uuid \<Rightarrow> generation_kind \<Rightarrow> ustr \<Rightarrow> ustr" where
  "generation_logical_key sn kind pipeline =
     u ''generation:'' @ uuid_text sn @ u '':'' @ generation_kind_value kind @ u '':'' @ pipeline"

definition generation_payload :: "uuid \<Rightarrow> ustr \<Rightarrow> ustr \<Rightarrow> json" where
  "generation_payload sn kind pipeline =
     JObj [(u ''snapshot_id'', JStr (uuid_text sn)), (u ''kind'', JStr kind), (u ''pipeline_version'', JStr pipeline)]"

definition queued_run :: "uuid \<Rightarrow> uuid \<Rightarrow> generation_kind \<Rightarrow> ustr \<Rightarrow> run_row" where
  "queued_run i sn kind pipeline =
     \<lparr>gr_id = i, gr_snapshot = sn, gr_kind = kind, gr_provider = u ''mock'', gr_model = u ''fixture-v1'',
      gr_prompt = u ''phase2-contract-v1'', gr_pipeline = pipeline, gr_state = G_QUEUED, gr_error = None,
      gr_completed_at = None\<rparr>"

definition generation_job :: "close_draws \<Rightarrow> ustr \<Rightarrow> generation_kind \<Rightarrow> job_row" where
  "generation_job d pipeline kind =
     new_job_row (cd_job d kind) (generation_logical_key (cd_snapshot d) kind pipeline)
       (generation_kind_value kind) (Some (cd_snapshot d))
       (generation_payload (cd_snapshot d) (generation_kind_value kind) pipeline) (cd_now d)"

definition insert_generation ::
  "close_draws \<Rightarrow> ustr \<Rightarrow> generation_kind \<Rightarrow> 'z app_db_scheme \<Rightarrow> app_error + 'z app_db_scheme" where
  "insert_generation d pipeline kind db =
     and_then (insert_run (queued_run (cd_run d kind) (cd_snapshot d) kind pipeline) db)
       (insert_job (generation_job d pipeline kind))"

definition state_metadata :: "ustr \<Rightarrow> ustr \<Rightarrow> int \<Rightarrow> (ustr option \<times> meta) list" where
  "state_metadata previous state v =
     [(Some (u ''previous_state''), MStr previous), (Some (u ''state''), MStr state),
      (Some (u ''state_version''), MInt v)]"

definition close_write ::
  "close_draws \<Rightarrow> session_row \<Rightarrow> uuid \<Rightarrow> ustr \<Rightarrow> (uuid \<times> uuid) list \<Rightarrow> ustr \<Rightarrow> 'z app_db_scheme \<Rightarrow>
   app_error + 'z app_db_scheme" where
  "close_write d s actor pipeline pins version db =
     (let sid = ts_id s; room = ts_room s; epoch = ts_epoch s + 1; v = ts_version s + 1 in
      and_then (update_session (\<lambda>x. ts_id x = sid \<and> ts_state x = OPEN) (to_closed (cd_now d))
          (SessionStateError (u ''session changed while its parent lock was held'')) db) (\<lambda>db1.
      and_then (record_session_event (cd_closed d) (u ''session.closed'') (session_identity sid v) (Some actor)
          room sid (state_metadata (u ''open'') (u ''closed'') v) [] db1) (\<lambda>db2.
      and_then (insert_snapshot \<lparr>sn_id = cd_snapshot d, sn_session = sid, sn_epoch = epoch, sn_created_by = actor,
          sn_topic = ts_topic s, sn_pipeline = pipeline, sn_anchor_version = version\<rparr> db2) (\<lambda>db3.
      and_then (fold_result (\<lambda>(rev_id, run). insert_pinned
          \<lparr>pn_snapshot = cd_snapshot d, pn_revision = rev_id, pn_run = run\<rparr>) pins db3) (\<lambda>db4.
      and_then (fold_result (insert_generation d pipeline) canonical_generation_kinds db4) (\<lambda>db5.
      and_then (update_session (\<lambda>x. ts_id x = sid \<and> ts_state x = CLOSED) (to_processing epoch)
          (SessionStateError (u ''session could not enter processing'')) db5) (\<lambda>db6.
      record_session_event (cd_processing d) (u ''session.processing'') (session_identity sid (v + 1)) (Some actor)
          room sid (state_metadata (u ''closed'') (u ''processing'') (v + 1) @
            [(Some (u ''generation_epoch''), MInt epoch)]) [] db6)))))))"

definition close_body ::
  "close_draws \<Rightarrow> uuid \<Rightarrow> uuid \<Rightarrow> (uuid \<times> ustr) list \<Rightarrow> close_exclusion list \<Rightarrow> ustr \<Rightarrow> ustr option \<Rightarrow>
   (app_error, closed_snapshot, 'z app_db_scheme) body" where
  "close_body d sid actor reqs excl pipeline anchor_version db =
     and_then (host_session SessionAccessError SessionHostRequiredError
        (u ''only the session host may close'') db actor sid) (\<lambda>s.
     if ts_state s \<noteq> OPEN then and_then (existing_snapshot_or_raise db sid (ts_state s)) (\<lambda>c. Inr (c, db))
     else and_then (close_decide d sid actor reqs excl anchor_version db) (\<lambda>((pins, version), db1).
          and_then (close_write d s actor pipeline pins version db1) (\<lambda>db2.
          Inr (\<lparr>cs_snapshot = cd_snapshot d, cs_epoch = ts_epoch s + 1, cs_state = PROCESSING,
                cs_idempotent = False\<rparr>, db2))))"

definition close ::
  "close_draws \<Rightarrow> uuid \<Rightarrow> uuid \<Rightarrow> (uuid \<times> ustr) list \<Rightarrow> ustr \<Rightarrow> ustr option \<Rightarrow>
   'z app_db_scheme \<Rightarrow> (app_error + closed_snapshot) \<times> 'z app_db_scheme" where
  "close d sid actor reqs pipeline anchor_version db =
     (case require (\<not> is_blank pipeline) (ValueError (u ''pipeline_version must not be blank''))
          (require (case anchor_version of None \<Rightarrow> True | Some a \<Rightarrow> \<not> is_blank a)
             (ValueError (u ''anchor_schema_version must not be blank'')) (domain_exclusions reqs)) of
        Inl e \<Rightarrow> (Inl e, db)
      | Inr excl \<Rightarrow> transaction (close_body d sid actor reqs excl pipeline anchor_version) db)"

section \<open>Reopening\<close>

definition to_open :: "session_row \<Rightarrow> session_row" where
  "to_open s = s\<lparr>ts_state := OPEN, ts_closed_at := None, ts_version := ts_version s + 1\<rparr>"

definition reopen_body ::
  "activity_draws \<Rightarrow> uuid \<Rightarrow> uuid \<Rightarrow> (app_error, talk_session_state, 'z app_db_scheme) body" where
  "reopen_body d sid actor db =
     and_then (host_session SessionAccessError SessionHostRequiredError
        (u ''only the session host may reopen'') db actor sid) (\<lambda>s.
     if ts_state s = OPEN then Inr (OPEN, db)
     else require (ts_state s \<in> {READY, NEEDS_ATTENTION})
       (SessionStateError (u ''talk session must be ready or needs_attention, got '' @ session_state_value (ts_state s)))
       (and_then (update_session (\<lambda>x. ts_id x = sid \<and> ts_state x = ts_state s) to_open
          (SessionStateError (u ''session changed while its parent lock was held'')) db) (\<lambda>db1.
        and_then (record_session_event d (u ''session.reopened'') (session_identity sid (ts_version s + 1))
          (Some actor) (ts_room s) sid
          (state_metadata (session_state_value (ts_state s)) (u ''open'') (ts_version s + 1)) [] db1) (\<lambda>db2.
        Inr (OPEN, db2)))))"

definition reopen ::
  "activity_draws \<Rightarrow> uuid \<Rightarrow> uuid \<Rightarrow> 'z app_db_scheme \<Rightarrow> (app_error + talk_session_state) \<times> 'z app_db_scheme" where
  "reopen d sid actor = transaction (reopen_body d sid actor)"

end
