(* ===== verification/Session_Facts.thy ===== *)
theory Session_Facts
  imports Session_Close Membership_Gate
begin

text \<open>
  What a close and a reopen change, and the invariant they keep: a session has the snapshot of its epoch as
  soon as it was closed once, no snapshot is newer than its session, and every snapshot has the canonical
  pair of runs.
\<close>

lemma host_session_Inr:
  "host_session na nh msg db actor sid = Inr s \<longleftrightarrow> member_session db actor sid = Some s \<and> ts_host s = actor"
  by (auto simp: host_session_def split: option.splits)

lemma record_session_event_frame:
  "record_session_event d t f actor room sid m es db = Inr db' \<Longrightarrow> activity_frame db db'"
  by (auto simp: record_session_event_def and_then_Inr dest: record_activity_frame)

text \<open>A transaction that touches the tables of the snapshot leaves the others alone.\<close>

lemma insert_exclusions_Inr:
  assumes "insert_exclusions d rows sid actor reqs db = Inr db'"
  shows "\<exists>new. db' = db\<lparr>exclusions := exclusions db @ new\<rparr> \<and>
    list_all2 (\<lambda>(i, reason) x. ex_session x = sid \<and> ex_reason x = reason \<and> ex_actor x = actor \<and>
       revision_by_id rows (uuid_text i) = Inr (ex_revision x)) reqs new"
  using assms
proof (induction reqs arbitrary: db)
  case Nil
  then show ?case by (intro exI [of _ "[]"]) (simp add: insert_exclusions_def)
next
  case (Cons q reqs)
  obtain i reason where q: "q = (i, reason)" by force
  from Cons.prems obtain rid db1 where s: "revision_by_id rows (uuid_text i) = Inr rid"
    "insert_exclusion \<lparr>ex_id = cd_exclusion d i, ex_session = sid, ex_revision = rid, ex_reason = reason,
       ex_actor = actor\<rparr> db = Inr db1"
    "insert_exclusions d rows sid actor reqs db1 = Inr db'"
    by (auto simp: insert_exclusions_def q and_then_Inr)
  from Cons.IH [OF s(3)] obtain new where new: "db' = db1\<lparr>exclusions := exclusions db1 @ new\<rparr>"
    "list_all2 (\<lambda>(i, reason) x. ex_session x = sid \<and> ex_reason x = reason \<and> ex_actor x = actor \<and>
       revision_by_id rows (uuid_text i) = Inr (ex_revision x)) reqs new" by blast
  let ?x = "\<lparr>ex_id = cd_exclusion d i, ex_session = sid, ex_revision = rid, ex_reason = reason, ex_actor = actor\<rparr>"
  have "db1 = db\<lparr>exclusions := exclusions db @ [?x]\<rparr>" using s(2) by (simp add: insert_exclusion_def)
  with new s(1) show ?case by (intro exI [of _ "?x # new"]) (simp add: q)
qed

lemma insert_pinned_fold:
  assumes "fold_result (\<lambda>(r, run). insert_pinned \<lparr>pn_snapshot = sn, pn_revision = r, pn_run = run\<rparr>) pins db = Inr db'"
  shows "db' = db\<lparr>pinned := pinned db @ map (\<lambda>(r, run). \<lparr>pn_snapshot = sn, pn_revision = r, pn_run = run\<rparr>) pins\<rparr>"
  using assms
proof (induction pins arbitrary: db)
  case (Cons p pins)
  obtain r run where p: "p = (r, run)" by force
  let ?row = "\<lparr>pn_snapshot = sn, pn_revision = r, pn_run = run\<rparr>"
  from Cons.prems obtain db1 where q: "insert_pinned ?row db = Inr db1"
    "fold_result (\<lambda>(r, run). insert_pinned \<lparr>pn_snapshot = sn, pn_revision = r, pn_run = run\<rparr>) pins db1 = Inr db'"
    by (auto simp: p and_then_Inr)
  have "db1 = db\<lparr>pinned := pinned db @ [?row]\<rparr>" using q(1) by (auto simp: insert_pinned_def)
  with Cons.IH [OF q(2)] show ?case by (simp add: p)
qed simp

lemma insert_generation_Inr:
  "insert_generation d pipeline kind db = Inr db' \<longleftrightarrow>
     fresh gr_id (queued_run (cd_run d kind) (cd_snapshot d) kind pipeline) (runs db) \<and>
     fresh (\<lambda>x. (gr_snapshot x, gr_kind x, gr_pipeline x))
       (queued_run (cd_run d kind) (cd_snapshot d) kind pipeline) (runs db) \<and>
     fresh j_logical_key (generation_job d pipeline kind) (jobs db) \<and>
     fresh j_id (generation_job d pipeline kind) (jobs db) \<and>
     db' = db\<lparr>jobs := jobs db @ [generation_job d pipeline kind],
              runs := runs db @ [queued_run (cd_run d kind) (cd_snapshot d) kind pipeline]\<rparr>"
  by (auto simp: insert_generation_def and_then_Inr insert_run_def insert_job_def)

text \<open>Two successive updates of the one row with a key.\<close>

lemma update_twice:
  assumes "distinct (map key t)" "s \<in> set t" "P s" "\<And>x. P x \<Longrightarrow> key x = key s"
    "\<And>x. Q x \<Longrightarrow> key x = key s" "Q (f s)" "key (f s) = key s"
  shows "update_rows Q g (update_rows P f t) = update_rows (\<lambda>x. key x = key s) (\<lambda>x. g (f x)) t"
proof -
  have "(if Q (if P x then f x else x) then g (if P x then f x else x) else (if P x then f x else x)) =
      (if key x = key s then g (f x) else x)" if x: "x \<in> set t" for x
  proof (cases "key x = key s")
    case True
    then have "x = s" using distinct_key_unique [OF assms(1) x assms(2)] by simp
    then show ?thesis using assms(3,6,7) by simp
  next
    case False
    then have "\<not> P x" "\<not> Q x" using assms(4,5) by blast+
    then show ?thesis using False by simp
  qed
  then show ?thesis unfolding update_rows_def map_map comp_def by (intro map_cong refl)
qed

lemma find_update_key:
  assumes "distinct (map key t)" "s \<in> set t" "key s = k" "key (f s) = k"
  shows "find (\<lambda>x. key x = k) (update_rows (\<lambda>x. key x = k) f t) = Some (f s)"
  using assms
proof (induction t)
  case (Cons a t)
  show ?case
  proof (cases "key a = k")
    case True
    then have "a = s" using Cons.prems by (auto simp: image_iff)
    with True Cons.prems show ?thesis by simp
  next
    case False
    with Cons show ?thesis by auto
  qed
qed simp

section \<open>What the decision pins\<close>

lemma domain_exclusions_ids:
  "domain_exclusions reqs = Inr excl \<Longrightarrow> map ce_revision_id excl = map (\<lambda>q. uuid_text (fst q)) reqs"
proof (induction reqs arbitrary: excl)
  case (Cons q reqs)
  then show ?case
    by (cases q) (auto simp: domain_exclusions_def and_then_Inr make_close_exclusion_def)
qed (simp add: domain_exclusions_def)

lemma revision_by_id_Inr:
  "revision_by_id rows t = Inr i \<Longrightarrow> (\<exists>r \<in> set rows. sr_id r = i) \<and> uuid_text i = t"
  by (auto simp: revision_by_id_def split: option.splits dest!: find_Some_set)

lemma approved_runs_mem:
  assumes "approved_runs db rows = Inr approved" "(i, run, v) \<in> set approved"
  shows "\<exists>r \<in> set rows. \<exists>x. approved_run db r = Some x \<and> er_status x = E_SUCCEEDED \<and>
     sr_id r = i \<and> er_id x = run \<and> er_anchor_version x = v"
proof -
  obtain y where y: "y \<in> set (concat (map (\<lambda>r. case approved_run db r of
        Some x \<Rightarrow> if er_status x = E_SUCCEEDED then [(sr_id r, er_id x, er_anchor_version x)] else []
      | None \<Rightarrow> []) rows))"
    "(case y of (i, run, version) \<Rightarrow> require (\<not> is_blank version)
       (ExtractionAnchorSchemaMismatchError (u ''approved anchor schema version must be non-empty text''))
       (Inr (i, run, version))) = Inr (i, run, v)"
    using assms(1) [unfolded approved_runs_def] assms(2) by (rule map_result_all)
  have "y = (i, run, v)" using y(2) by (cases y) simp
  with y(1) obtain r where r: "r \<in> set rows" "(i, run, v) \<in> set (case approved_run db r of
        Some x \<Rightarrow> if er_status x = E_SUCCEEDED then [(sr_id r, er_id x, er_anchor_version x)] else []
      | None \<Rightarrow> [])" by auto
  then obtain x where "approved_run db r = Some x" by (cases "approved_run db r") auto
  with r show ?thesis by (intro bexI [OF _ r(1)]) (auto split: if_splits)
qed

lemma approved_run_Some:
  "approved_run db r = Some x \<Longrightarrow>
     x \<in> set (extractions db) \<and> sr_approved r = Some (er_id x) \<and> er_revision x = sr_id r"
  unfolding approved_run_def by (auto split: option.splits dest!: find_Some_set)

lemma map_filter_found:
  "\<forall>i \<in> set xs. m i \<noteq> None \<Longrightarrow>
     map (\<lambda>(i, run, v). i) (List.map_filter (\<lambda>i. map_option (\<lambda>(run, v). (i, run, v)) (m i)) xs) = xs"
  by (induction xs) (auto simp: List.map_filter_simps)

lemma set_map_filter: "y \<in> set (List.map_filter f xs) \<longleftrightarrow> (\<exists>x \<in> set xs. f x = Some y)"
  by (auto simp: map_filter_def image_iff)

lemma sort_Nil: "(sort [] = []) = True"
  by simp

lemma case_singleton_Inr:
  "(case xs of [v] \<Rightarrow> f v | _ \<Rightarrow> Inl e) = Inr y \<longleftrightarrow> (\<exists>v. xs = [v] \<and> f v = Inr y)"
  by (cases xs; cases "tl xs") simp_all

lemma pin_runs_Inr:
  assumes "pin_runs approved av included = Inr (pins, v)"
  shows "map fst pins = included \<and> pins \<noteq> [] \<and> (\<forall>(i, run) \<in> set pins. (i, run, v) \<in> set approved) \<and>
    (case av of None \<Rightarrow> True | Some a \<Rightarrow> a = v)"
proof -
  let ?found = "List.map_filter (\<lambda>i. map_option (\<lambda>(run, v). (i, run, v)) (map_of approved i)) included"
  have none: "filter (\<lambda>i. map_of approved i = None) included = []"
    using assms by (simp add: pin_runs_def Let_def sort_Nil_iff)
  have one: "remdups (map (\<lambda>(i, run, v). v) ?found) = [v]" and pins: "pins = map (\<lambda>(i, run, v). (i, run)) ?found"
    and av: "case av of None \<Rightarrow> True | Some a \<Rightarrow> a = v"
    using assms unfolding pin_runs_def Let_def none sort_Nil require_simps(1) case_singleton_Inr require_Inr
    by blast+
  have all: "\<forall>i \<in> set included. map_of approved i \<noteq> None" using none by (simp add: filter_empty_conv)
  then have fst: "map (\<lambda>(i, run, v). i) ?found = included" by (rule map_filter_found)
  have vs: "(\<lambda>(i, run, v). v) ` set ?found = {v}"
    using arg_cong [OF one, of set] by (simp only: set_remdups set_map list.set)
  have mem: "(i, run, w) \<in> set approved" if "(i, run, w) \<in> set ?found" for i run w
    using that by (auto simp: set_map_filter intro: map_of_SomeD)
  have "(i, run, v) \<in> set approved" if p: "(i, run) \<in> set pins" for i run
  proof -
    from p obtain w where w: "(i, run, w) \<in> set ?found" unfolding pins by auto
    then have "w \<in> (\<lambda>(i, run, v). v) ` set ?found" by force
    with vs have "w = v" by blast
    with mem [OF w] show ?thesis by simp
  qed
  moreover have "pins \<noteq> []" using vs unfolding pins by auto
  moreover have "map fst pins = map (\<lambda>(i, run, v). i) ?found" unfolding pins by (simp add: case_prod_unfold comp_def)
  ultimately show ?thesis using av fst by auto
qed

text \<open>The pinned revisions are the current ones that are not excluded, each with its approved run.\<close>

definition pins_ok ::
  "'z app_db_scheme \<Rightarrow> uuid \<Rightarrow> uuid set \<Rightarrow> (uuid \<times> uuid) list \<Rightarrow> ustr \<Rightarrow> bool" where
  "pins_ok db sid excluded pins version \<longleftrightarrow>
     pins \<noteq> [] \<and> distinct (map fst pins) \<and>
     fst ` set pins = {i \<in> sr_id ` set (current_revisions db sid). i \<notin> excluded} \<and>
     (\<forall>(i, run) \<in> set pins. \<exists>r \<in> set (current_revisions db sid). \<exists>x \<in> set (extractions db).
        sr_id r = i \<and> sr_state r = R_READY \<and> sr_approved r = Some run \<and> er_id x = run \<and>
        er_revision x = i \<and> er_status x = E_SUCCEEDED \<and> er_anchor_version x = version)"

lemma status_ids:
  "rs_revision_id ` {r \<in> set (revision_statuses rows). P (rs_state r) \<and> Q (rs_revision_id r)} =
     uuid_text ` sr_id ` {r \<in> set rows. P (sr_state r) \<and> Q (uuid_text (sr_id r))}"
proof -
  have "{r \<in> set (revision_statuses rows). P (rs_state r) \<and> Q (rs_revision_id r)} =
      (\<lambda>r. \<lparr>rs_revision_id = uuid_text (sr_id r), rs_state = sr_state r\<rparr>) `
        {r \<in> set rows. P (sr_state r) \<and> Q (uuid_text (sr_id r))}"
    by (auto simp: revision_statuses_def)
  then show ?thesis by (simp add: image_image)
qed

lemma close_decide_Inr:
  assumes "close_decide d sid actor reqs excl av db = Inr ((pins, version), db1)"
    and "domain_exclusions reqs = Inr excl"
  shows "pins_ok db sid (fst ` set reqs) pins version \<and>
    insert_exclusions d (current_revisions db sid) sid actor reqs db = Inr db1 \<and>
    (case av of None \<Rightarrow> True | Some a \<Rightarrow> a = version)"
proof -
  let ?rows = "current_revisions db sid"
  from assms(1) obtain decision included approved where
    dec: "require_close_eligibility (revision_statuses ?rows) excl = Inr decision" and
    ins: "insert_exclusions d ?rows sid actor reqs db = Inr db1" and
    inc: "map_result (revision_by_id ?rows) (included_revision_ids decision) = Inr included" and
    app: "approved_runs db1 ?rows = Inr approved" and
    pin: "pin_runs approved av included = Inr (pins, version)"
    by (auto simp: close_decide_def Let_def and_then_Inr simp del: split_paired_Ex)
  have ev: "evaluate_close_eligibility (revision_statuses ?rows) excl = Inr decision"
    using dec by (auto simp: require_close_eligibility_def and_then_Inr)
  note part = close_partition_facts [OF ev] close_partition_cover [OF ev]
  have ids: "map ce_revision_id excl = map (\<lambda>q. uuid_text (fst q)) reqs" by (rule domain_exclusions_ids [OF assms(2)])
  have exids: "ce_revision_id ` set excl = uuid_text ` fst ` set reqs"
    using arg_cong [OF ids, of set] by (simp add: image_image)
  have included_text: "map uuid_text included = included_revision_ids decision"
  proof -
    have "list_all2 (\<lambda>t i. revision_by_id ?rows t = Inr i) (included_revision_ids decision) included"
      using inc by (simp add: map_result_Inr_iff)
    then have "list_all2 (\<lambda>t i. t = uuid_text i) (included_revision_ids decision) included"
      by (rule list_all2_mono) (use revision_by_id_Inr in blast)
    then show ?thesis by (induction rule: list_all2_induct) simp_all
  qed
  have included: "set included = {i \<in> sr_id ` set ?rows. i \<notin> fst ` set reqs}"
    and ready: "\<And>r. r \<in> set ?rows \<Longrightarrow> sr_id r \<notin> fst ` set reqs \<Longrightarrow> sr_state r = R_READY"
  proof -
    let ?ex = "fst ` set reqs"
    have keep: "uuid_text i \<in> uuid_text ` ?ex \<longleftrightarrow> i \<in> ?ex" for i
      by (rule inj_image_mem_iff) (simp add: inj_def)
    have "uuid_text ` sr_id ` {r \<in> set ?rows. sr_state r \<noteq> R_READY \<and> uuid_text (sr_id r) \<notin> uuid_text ` ?ex} = {}"
      using dec part(3) status_ids [of ?rows "\<lambda>s. s \<noteq> R_READY" "\<lambda>t. t \<notin> uuid_text ` ?ex"]
      by (simp only: require_close_Inr_iff exids list.set)
    then show rdy: "sr_state r = R_READY" if "r \<in> set ?rows" "sr_id r \<notin> ?ex" for r
      using that by (auto simp: keep)
    have "uuid_text ` set included = set (included_revision_ids decision)"
      using arg_cong [OF included_text, of set] by simp
    also have "\<dots> = uuid_text ` sr_id ` {r \<in> set ?rows. sr_state r = R_READY \<and> sr_id r \<notin> ?ex}"
      using status_ids [of ?rows "\<lambda>s. s = R_READY" "\<lambda>t. t \<notin> uuid_text ` ?ex"]
      unfolding part(1) exids keep .
    also have "\<dots> = uuid_text ` {i \<in> sr_id ` set ?rows. i \<notin> ?ex}" using rdy by (intro arg_cong [of _ _ "image uuid_text"]) auto
    finally show "set included = {i \<in> sr_id ` set ?rows. i \<notin> ?ex}"
      by (simp add: inj_image_eq_iff inj_def)
  qed
  note p = pin_runs_Inr [OF pin]
  have exts: "extractions db1 = extractions db" using insert_exclusions_Inr [OF ins] by auto
  then have runs: "approved_run db1 = approved_run db" by (intro ext) (simp add: approved_run_def split: option.split)
  have "distinct (map uuid_text included)" unfolding included_text using part(5) by simp
  then have "distinct included" by (simp add: distinct_map)
  moreover have "\<exists>r \<in> set ?rows. \<exists>x \<in> set (extractions db). sr_id r = i \<and> sr_state r = R_READY \<and>
      sr_approved r = Some run \<and> er_id x = run \<and> er_revision x = i \<and> er_status x = E_SUCCEEDED \<and>
      er_anchor_version x = version" if q: "(i, run) \<in> set pins" for i run
  proof -
    have "(i, run, version) \<in> set approved" using p q by blast
    from approved_runs_mem [OF app this] obtain r x where rx: "r \<in> set ?rows" "approved_run db r = Some x"
      "er_status x = E_SUCCEEDED" "sr_id r = i" "er_id x = run" "er_anchor_version x = version"
      unfolding runs by blast
    have "i \<in> set included" using p q by force
    then have "sr_state r = R_READY" using included rx(1,4) ready by blast
    with rx approved_run_Some [OF rx(2)] show ?thesis by auto
  qed
  moreover have "fst ` set pins = set included" using p by (metis set_map)
  ultimately show ?thesis using p ins included unfolding pins_ok_def by auto
qed

section \<open>What a close writes\<close>

definition closed_row :: "int \<Rightarrow> session_row \<Rightarrow> session_row" where
  "closed_row now s =
     s\<lparr>ts_state := PROCESSING, ts_closed_at := Some now, ts_epoch := ts_epoch s + 1,
       ts_version := ts_version s + 2, ts_retry := 0\<rparr>"

text \<open>
  The new state of the tables after a close of the open session \<open>s\<close> that pinned \<open>pins\<close>: the specification
  of the whole transaction.  Nothing but the rows named here changes.
\<close>

definition closes ::
  "close_draws \<Rightarrow> session_row \<Rightarrow> uuid \<Rightarrow> (uuid \<times> ustr) list \<Rightarrow> ustr \<Rightarrow> (uuid \<times> uuid) list \<Rightarrow> ustr \<Rightarrow>
   'z app_db_scheme \<Rightarrow> 'z app_db_scheme \<Rightarrow> bool" where
  "closes d s actor reqs pipeline pins version db db' \<longleftrightarrow>
     (\<exists>a n x excl.
        db' = db\<lparr>sessions := update_rows (\<lambda>x. ts_id x = ts_id s) (closed_row (cd_now d)) (sessions db),
                snapshots := snapshots db @ [\<lparr>sn_id = cd_snapshot d, sn_session = ts_id s,
                   sn_epoch = ts_epoch s + 1, sn_created_by = actor, sn_topic = ts_topic s,
                   sn_pipeline = pipeline, sn_anchor_version = version\<rparr>],
                pinned := pinned db @ map (\<lambda>(i, run). \<lparr>pn_snapshot = cd_snapshot d, pn_revision = i, pn_run = run\<rparr>) pins,
                runs := runs db @ map (\<lambda>k. queued_run (cd_run d k) (cd_snapshot d) k pipeline) [SUMMARY, RESEARCH],
                jobs := jobs db @ map (generation_job d pipeline) [SUMMARY, RESEARCH],
                exclusions := exclusions db @ excl,
                audit := a, notifications := n, outbox := x\<rparr> \<and>
        list_all2 (\<lambda>(i, reason) x. ex_session x = ts_id s \<and> ex_reason x = reason \<and> ex_actor x = actor \<and>
          ex_revision x = i) reqs excl \<and>
        appends au_key (audit db) a)"

lemma update_session_Inr:
  "update_session P f e db = Inr db' \<longleftrightarrow> hits P (sessions db) = 1 \<and> db' = db\<lparr>sessions := update_rows P f (sessions db)\<rparr>"
  by (auto simp: update_session_def)

lemma canonical_kinds: "canonical_generation_kinds = [SUMMARY, RESEARCH]"
  by (simp add: canonical_generation_kinds_def)

lemma generation_fold:
  assumes "fold_result (insert_generation d pipeline) canonical_generation_kinds db = Inr db'"
  shows "db' = db\<lparr>runs := runs db @ map (\<lambda>k. queued_run (cd_run d k) (cd_snapshot d) k pipeline) [SUMMARY, RESEARCH],
                 jobs := jobs db @ map (generation_job d pipeline) [SUMMARY, RESEARCH]\<rparr> \<and>
    (distinct (map gr_id (runs db)) \<longrightarrow> distinct (map gr_id (runs db'))) \<and>
    adds_jobs db db'"
proof -
  from assms obtain db1 where s: "insert_generation d pipeline SUMMARY db = Inr db1"
    "insert_generation d pipeline RESEARCH db1 = Inr db'"
    by (auto simp: canonical_kinds and_then_Inr)
  have nj: "new_job (generation_job d pipeline k)" for k by (simp add: generation_job_def)
  show ?thesis using s unfolding insert_generation_Inr
    by (auto simp: adds_jobs_def nj distinct_snoc_fresh fresh_def)
qed

lemma close_write_Inr:
  assumes w: "close_write d s actor pipeline pins version db0 = Inr db'"
    and s: "distinct (map ts_id (sessions db0))" "s \<in> set (sessions db0)" "ts_state s = OPEN"
    and ins: "db0 = db\<lparr>exclusions := exclusions db @ excl\<rparr>"
    and excl: "list_all2 (\<lambda>(i, reason) x. ex_session x = ts_id s \<and> ex_reason x = reason \<and> ex_actor x = actor \<and>
          ex_revision x = i) reqs excl"
  shows "closes d s actor reqs pipeline pins version db db'"
    and "distinct (map gr_id (runs db)) \<Longrightarrow> distinct (map gr_id (runs db'))"
    and "adds_jobs db0 db' \<and> fresh sn_id \<lparr>sn_id = cd_snapshot d, sn_session = ts_id s, sn_epoch = ts_epoch s + 1,
      sn_created_by = actor, sn_topic = ts_topic s, sn_pipeline = pipeline, sn_anchor_version = version\<rparr> (snapshots db)"
proof -
  let ?sid = "ts_id s" and ?epoch = "ts_epoch s + 1" and ?v = "ts_version s + 1"
  let ?sn = "\<lparr>sn_id = cd_snapshot d, sn_session = ?sid, sn_epoch = ?epoch, sn_created_by = actor,
    sn_topic = ts_topic s, sn_pipeline = pipeline, sn_anchor_version = version\<rparr>"
  from w obtain db1 db2 db3 db4 db5 db6 where
    w1: "update_session (\<lambda>x. ts_id x = ?sid \<and> ts_state x = OPEN) (to_closed (cd_now d))
          (SessionStateError (u ''session changed while its parent lock was held'')) db0 = Inr db1" and
    w2: "record_session_event (cd_closed d) (u ''session.closed'') (session_identity ?sid ?v) (Some actor)
          (ts_room s) ?sid (state_metadata (u ''open'') (u ''closed'') ?v) [] db1 = Inr db2" and
    w3: "insert_snapshot ?sn db2 = Inr db3" and
    w4: "fold_result (\<lambda>(rev_id, run). insert_pinned
          \<lparr>pn_snapshot = cd_snapshot d, pn_revision = rev_id, pn_run = run\<rparr>) pins db3 = Inr db4" and
    w5: "fold_result (insert_generation d pipeline) canonical_generation_kinds db4 = Inr db5" and
    w6: "update_session (\<lambda>x. ts_id x = ?sid \<and> ts_state x = CLOSED) (to_processing ?epoch)
          (SessionStateError (u ''session could not enter processing'')) db5 = Inr db6" and
    w7: "record_session_event (cd_processing d) (u ''session.processing'') (session_identity ?sid (?v + 1))
          (Some actor) (ts_room s) ?sid (state_metadata (u ''closed'') (u ''processing'') (?v + 1) @
            [(Some (u ''generation_epoch''), MInt ?epoch)]) [] db6 = Inr db'"
    unfolding close_write_def Let_def and_then_Inr by blast
  note f2 = record_session_event_frame [OF w2] and f7 = record_session_event_frame [OF w7]
  from f2 obtain a2 n2 x2 where e2: "db2 = db1\<lparr>audit := a2, notifications := n2, outbox := x2\<rparr>"
    "appends au_key (audit db1) a2" by (auto simp: activity_frame_def)
  from f7 obtain a7 n7 x7 where e7: "db' = db6\<lparr>audit := a7, notifications := n7, outbox := x7\<rparr>"
    "appends au_key (audit db6) a7" by (auto simp: activity_frame_def)
  have e1: "db1 = db0\<lparr>sessions := update_rows (\<lambda>x. ts_id x = ?sid \<and> ts_state x = OPEN) (to_closed (cd_now d)) (sessions db0)\<rparr>"
    using w1 by (simp add: update_session_Inr)
  have e3: "db3 = db2\<lparr>snapshots := snapshots db2 @ [?sn]\<rparr>" "fresh sn_id ?sn (snapshots db2)"
    using w3 by (simp_all add: insert_snapshot_def)
  note e4 = insert_pinned_fold [OF w4] and e5 = generation_fold [OF w5]
  have e6: "db6 = db5\<lparr>sessions := update_rows (\<lambda>x. ts_id x = ?sid \<and> ts_state x = CLOSED) (to_processing ?epoch) (sessions db5)\<rparr>"
    using w6 by (simp add: update_session_Inr)
  have "update_rows (\<lambda>x. ts_id x = ?sid \<and> ts_state x = CLOSED) (to_processing ?epoch)
      (update_rows (\<lambda>x. ts_id x = ?sid \<and> ts_state x = OPEN) (to_closed (cd_now d)) (sessions db0)) =
      update_rows (\<lambda>x. ts_id x = ?sid) (\<lambda>x. to_processing ?epoch (to_closed (cd_now d) x)) (sessions db0)"
    by (rule update_twice [OF s(1,2)]) (simp_all add: s to_closed_def)
  also have "\<dots> = update_rows (\<lambda>x. ts_id x = ?sid) (closed_row (cd_now d)) (sessions db0)"
    unfolding update_rows_def
  proof (intro map_cong refl)
    fix x assume x: "x \<in> set (sessions db0)"
    have "x = s" if "ts_id x = ?sid" using distinct_key_unique [OF s(1) x s(2) that] .
    then show "(if ts_id x = ?sid then to_processing ?epoch (to_closed (cd_now d) x) else x) =
        (if ts_id x = ?sid then closed_row (cd_now d) x else x)"
      by (cases x; cases s) (auto simp: to_processing_def to_closed_def closed_row_def)
  qed
  finally have rows: "sessions db6 = update_rows (\<lambda>x. ts_id x = ?sid) (closed_row (cd_now d)) (sessions db0)"
    by (simp add: e1 e2 e3 e4 e5 e6)
  show "closes d s actor reqs pipeline pins version db db'"
    unfolding closes_def
    apply (intro exI [of _ a7] exI [of _ n7] exI [of _ x7] exI [of _ excl] conjI excl)
    subgoal using rows by (simp add: e1 e2 e3 e4 conjunct1 [OF e5] e6 e7 ins)
    subgoal using e2(2) e7(2) by (auto simp: e1 e2 e3 e4 conjunct1 [OF e5] e6 ins intro: appends_trans)
    done
  show "distinct (map gr_id (runs db'))" if "distinct (map gr_id (runs db))"
    using conjunct1 [OF conjunct2 [OF e5]] that by (simp add: e1 e2 e3 e4 e6 e7 ins)
  show "adds_jobs db0 db' \<and> fresh sn_id ?sn (snapshots db)"
  proof
    have "adds_jobs db0 db4" "adds_jobs db5 db'"
      by (intro adds_jobs_same; simp add: e1 e2 e3 e4 e6 e7)+
    then show "adds_jobs db0 db'" using e5 by (blast intro: adds_jobs_trans)
    show "fresh sn_id ?sn (snapshots db)" using e3(2) by (simp add: e1 e2 ins)
  qed
qed

lemma close_Inr:
  assumes "close d sid actor reqs pipeline av db = (Inr c, db')"
  obtains excl where "domain_exclusions reqs = Inr excl" "\<not> is_blank pipeline"
    "close_body d sid actor reqs excl pipeline av db = Inr (c, db')"
  using assms that by (auto simp: close_def transaction_Inr_iff split: sum.splits)

lemma close_open_Inr:
  assumes c: "close d sid actor reqs pipeline av db = (Inr c, db')"
    and dist: "distinct (map ts_id (sessions db))"
    and s: "find_session db sid = Some s" "ts_state s = OPEN"
  shows "is_member db (ts_room s) actor \<and> ts_host s = actor \<and>
    c = \<lparr>cs_snapshot = cd_snapshot d, cs_epoch = ts_epoch s + 1, cs_state = PROCESSING, cs_idempotent = False\<rparr> \<and>
    adds_jobs db db' \<and> cd_snapshot d \<notin> sn_id ` set (snapshots db) \<and>
    (distinct (map gr_id (runs db)) \<longrightarrow> distinct (map gr_id (runs db'))) \<and>
    (\<exists>pins version. pins_ok db sid (fst ` set reqs) pins version \<and>
       (case av of None \<Rightarrow> True | Some a \<Rightarrow> a = version) \<and>
       closes d s actor reqs pipeline pins version db db')"
proof -
  obtain excl where excl: "domain_exclusions reqs = Inr excl"
    and b: "close_body d sid actor reqs excl pipeline av db = Inr (c, db')"
    using c by (rule close_Inr)
  from b s obtain pins version db1 where
    h: "member_session db actor sid = Some s" "ts_host s = actor" and
    dec: "close_decide d sid actor reqs excl av db = Inr ((pins, version), db1)" and
    w: "close_write d s actor pipeline pins version db1 = Inr db'" and
    res: "c = \<lparr>cs_snapshot = cd_snapshot d, cs_epoch = ts_epoch s + 1, cs_state = PROCESSING, cs_idempotent = False\<rparr>"
    by (auto simp: close_body_def and_then_Inr host_session_Inr member_session_Some)
  note D = close_decide_Inr [OF dec excl]
  have sid: "s \<in> set (sessions db)" "ts_id s = sid" using find_session_Some [OF s(1)] by simp_all
  obtain new where new: "db1 = db\<lparr>exclusions := exclusions db @ new\<rparr>"
    "list_all2 (\<lambda>(i, reason) x. ex_session x = sid \<and> ex_reason x = reason \<and> ex_actor x = actor \<and>
       revision_by_id (current_revisions db sid) (uuid_text i) = Inr (ex_revision x)) reqs new"
    using D insert_exclusions_Inr by blast
  have "list_all2 (\<lambda>(i, reason) x. ex_session x = ts_id s \<and> ex_reason x = reason \<and> ex_actor x = actor \<and>
       ex_revision x = i) reqs new"
    using new(2) by (rule list_all2_mono) (auto simp: sid dest!: revision_by_id_Inr)
  note W = close_write_Inr [OF w _ _ s(2) new(1) this]
  have "closes d s actor reqs pipeline pins version db db'" "adds_jobs db1 db'"
    "cd_snapshot d \<notin> sn_id ` set (snapshots db)"
    "distinct (map gr_id (runs db)) \<longrightarrow> distinct (map gr_id (runs db'))"
    using W dist sid new(1) by (simp_all add: fresh_def)
  then show ?thesis using D h res new(1) by (auto simp: adds_jobs_def member_session_Some)
qed

lemma close_again_Inr:
  assumes "close d sid actor reqs pipeline av db = (Inr c, db')"
    and "find_session db sid = Some s" "ts_state s \<noteq> OPEN"
  shows "db' = db \<and> is_member db (ts_room s) actor \<and> ts_host s = actor \<and>
    (\<exists>n. latest_snapshot db sid = Some n \<and>
       c = \<lparr>cs_snapshot = sn_id n, cs_epoch = sn_epoch n, cs_state = ts_state s, cs_idempotent = True\<rparr>)"
proof -
  obtain excl where b: "close_body d sid actor reqs excl pipeline av db = Inr (c, db')"
    using assms(1) by (rule close_Inr)
  then show ?thesis using assms(2,3)
    by (auto simp: close_body_def and_then_Inr host_session_Inr member_session_Some existing_snapshot_or_raise_def
        split: option.splits)
qed

section \<open>The invariant of sessions, snapshots and runs\<close>

definition runs_for :: "'z app_db_scheme \<Rightarrow> uuid \<Rightarrow> generation_kind \<Rightarrow> run_row list" where
  "runs_for db sn k = filter (\<lambda>r. gr_snapshot r = sn \<and> gr_kind r = k) (runs db)"

definition session_ok :: "'z app_db_scheme \<Rightarrow> session_row \<Rightarrow> bool" where
  "session_ok db s \<longleftrightarrow>
     ts_state s \<noteq> CLOSED \<and> 0 \<le> ts_epoch s \<and>
     (ts_state s \<in> {PROCESSING, READY, NEEDS_ATTENTION} \<longrightarrow> ts_epoch s \<noteq> 0) \<and>
     (ts_epoch s \<noteq> 0 \<longrightarrow> (\<exists>n \<in> set (snapshots db). sn_session n = ts_id s \<and> sn_epoch n = ts_epoch s)) \<and>
     (\<forall>n \<in> set (snapshots db). sn_session n = ts_id s \<longrightarrow> 1 \<le> sn_epoch n \<and> sn_epoch n \<le> ts_epoch s)"

definition session_inv :: "'z app_db_scheme \<Rightarrow> bool" where
  "session_inv db \<longleftrightarrow>
     distinct (map ts_id (sessions db)) \<and> distinct (map sn_id (snapshots db)) \<and> distinct (map gr_id (runs db)) \<and>
     distinct (map (\<lambda>n. (sn_session n, sn_epoch n)) (snapshots db)) \<and>
     (\<forall>s \<in> set (sessions db). session_ok db s) \<and>
     (\<forall>n \<in> set (snapshots db). \<forall>k. length (runs_for db (sn_id n) k) = 1) \<and>
     (\<forall>r \<in> set (runs db). gr_snapshot r \<in> sn_id ` set (snapshots db))"

lemma latest_snapshot_eqI:
  assumes "distinct (map (\<lambda>n. (sn_session n, sn_epoch n)) (snapshots db))"
    and "n \<in> set (snapshots db)" "sn_session n = sid"
    and "\<forall>m \<in> set (snapshots db). sn_session m = sid \<longrightarrow> sn_epoch m \<le> sn_epoch n"
  shows "latest_snapshot db sid = Some n"
proof -
  let ?mine = "filter (\<lambda>n. sn_session n = sid) (snapshots db)"
  let ?ord = "sort_key sn_epoch ?mine"
  have set: "set ?ord = set ?mine" by (rule set_sort)
  have n: "n \<in> set ?ord" unfolding set using assms(2,3) by simp
  then have "rev ?ord \<noteq> []" by (metis empty_iff list.set(1) rev_is_Nil_conv)
  then obtain m rest where rev: "rev ?ord = m # rest" by (meson list.exhaust)
  then have ord: "?ord = rev rest @ [m]" by (metis rev.simps(2) rev_rev_ident)
  have m: "m \<in> set ?ord" unfolding ord by simp
  have "sorted (map sn_epoch (rev rest @ [m]))" unfolding ord [symmetric] by (rule sorted_sort_key)
  then have "\<forall>x \<in> set (rev rest @ [m]). sn_epoch x \<le> sn_epoch m" by (auto simp: sorted_wrt_append)
  then have "sn_epoch n \<le> sn_epoch m" using n unfolding ord by blast
  moreover have mm: "m \<in> set (snapshots db)" "sn_session m = sid" using m unfolding set by simp_all
  moreover have "sn_epoch m \<le> sn_epoch n" using assms(4) mm by blast
  ultimately have "(\<lambda>n. (sn_session n, sn_epoch n)) m = (\<lambda>n. (sn_session n, sn_epoch n)) n"
    using assms(3) by simp
  then have "m = n" by (rule distinct_key_unique [OF assms(1) mm(1) assms(2)])
  then show ?thesis unfolding latest_snapshot_def rev by simp
qed

text \<open>An operation that changes no session, snapshot or run identity keeps the invariant.\<close>

lemma runs_for_count:
  "length (runs_for db sn k) =
     length (filter (\<lambda>(i, q, k'). q = sn \<and> k' = k) (map (\<lambda>r. (gr_id r, gr_snapshot r, gr_kind r)) (runs db)))"
  by (simp add: runs_for_def filter_map comp_def)

lemma session_ok_cong: "snapshots db' = snapshots db \<Longrightarrow> session_ok db' s \<longleftrightarrow> session_ok db s"
  by (simp add: session_ok_def)

lemma session_inv_cong:
  assumes "session_inv db" "sessions db' = sessions db" "snapshots db' = snapshots db"
    "map (\<lambda>r. (gr_id r, gr_snapshot r, gr_kind r)) (runs db') = map (\<lambda>r. (gr_id r, gr_snapshot r, gr_kind r)) (runs db)"
  shows "session_inv db'"
proof -
  have ids: "map gr_id (runs db') = map gr_id (runs db)" "map gr_snapshot (runs db') = map gr_snapshot (runs db)"
    using arg_cong [OF assms(4), of "map fst"] arg_cong [OF assms(4), of "map (fst \<circ> snd)"]
    by (simp_all add: comp_def)
  have "length (runs_for db' sn k) = length (runs_for db sn k)" for sn k
    unfolding runs_for_count assms(4) ..
  moreover have "gr_snapshot ` set (runs db') = gr_snapshot ` set (runs db)" using ids(2) by (metis set_map)
  ultimately show ?thesis using assms(1) ids
    unfolding session_inv_def session_ok_def assms(2,3) by (metis (no_types, lifting) imageE image_eqI)
qed

text \<open>So does one that moves sessions to a state their epoch allows.\<close>

lemma session_inv_update:
  assumes inv: "session_inv db" and ss: "sessions db' = update_rows P f (sessions db)"
    and sn: "snapshots db' = snapshots db"
    and rs: "map (\<lambda>r. (gr_id r, gr_snapshot r, gr_kind r)) (runs db') = map (\<lambda>r. (gr_id r, gr_snapshot r, gr_kind r)) (runs db)"
    and f: "\<And>x. ts_id (f x) = ts_id x \<and> ts_epoch (f x) = ts_epoch x"
    and ok: "\<And>x. x \<in> set (sessions db) \<Longrightarrow> P x \<Longrightarrow>
      ts_state (f x) \<noteq> CLOSED \<and> (ts_state (f x) \<in> {PROCESSING, READY, NEEDS_ATTENTION} \<longrightarrow> ts_epoch x \<noteq> 0)"
  shows "session_inv db'"
proof -
  have inv1: "session_inv (db'\<lparr>sessions := sessions db\<rparr>)"
    by (rule session_inv_cong [OF inv]) (simp_all add: sn rs)
  have "session_ok db' x'" if x': "x' \<in> set (sessions db')" for x'
  proof -
    from x' obtain x where x: "x \<in> set (sessions db)" "x' = (if P x then f x else x)"
      unfolding ss by (rule in_update_rows)
    have "session_ok db x" using inv x(1) by (simp add: session_inv_def)
    then show ?thesis using ok [OF x(1)] f [of x] by (auto simp: session_ok_def x(2) sn)
  qed
  moreover have "map ts_id (sessions db') = map ts_id (sessions db)"
    unfolding ss by (rule map_update_rows_same) (simp add: f)
  ultimately show ?thesis using inv1 unfolding session_inv_def runs_for_def by simp
qed

lemma session_inv_epoch:
  assumes "session_inv db" "n \<in> set (snapshots db)" "s \<in> set (sessions db)" "ts_id s = sn_session n"
  shows "1 \<le> sn_epoch n \<and> sn_epoch n \<le> ts_epoch s"
  using assms by (auto simp: session_inv_def session_ok_def)

lemma closes_inv:
  assumes inv: "session_inv db" and s: "s \<in> set (sessions db)"
    and c: "closes d s actor reqs pipeline pins version db db'"
    and new: "cd_snapshot d \<notin> sn_id ` set (snapshots db)" "distinct (map gr_id (runs db'))"
  shows "session_inv db'"
proof -
  let ?sn = "\<lparr>sn_id = cd_snapshot d, sn_session = ts_id s, sn_epoch = ts_epoch s + 1, sn_created_by = actor,
    sn_topic = ts_topic s, sn_pipeline = pipeline, sn_anchor_version = version\<rparr>"
  have db': "sessions db' = update_rows (\<lambda>x. ts_id x = ts_id s) (closed_row (cd_now d)) (sessions db)"
    "snapshots db' = snapshots db @ [?sn]"
    "runs db' = runs db @ map (\<lambda>k. queued_run (cd_run d k) (cd_snapshot d) k pipeline) [SUMMARY, RESEARCH]"
    using c by (auto simp: closes_def)
  have dist: "distinct (map ts_id (sessions db))" and okS: "session_ok db s"
    using inv s by (auto simp: session_inv_def)
  have old: "1 \<le> sn_epoch n \<and> sn_epoch n \<le> ts_epoch s" if "n \<in> set (snapshots db)" "sn_session n = ts_id s" for n
    using okS that by (simp add: session_ok_def)
  have ok: "session_ok db' x'" if x': "x' \<in> set (sessions db')" for x'
  proof -
    from x' obtain x where x: "x \<in> set (sessions db)" "x' = (if ts_id x = ts_id s then closed_row (cd_now d) x else x)"
      unfolding db'(1) by (rule in_update_rows)
    show ?thesis
    proof (cases "ts_id x = ts_id s")
      case True
      then have "x = s" using inv s x(1) distinct_key_unique by (fastforce simp: session_inv_def)
      then have x': "x' = closed_row (cd_now d) s" using x(2) by simp
      show ?thesis using okS old unfolding session_ok_def x' db'(2) by (fastforce simp: closed_row_def)
    next
      case False
      then show ?thesis using inv x by (auto simp: session_inv_def session_ok_def db'(2))
    qed
  qed
  have snaps: "gr_snapshot r \<in> sn_id ` set (snapshots db)" if "r \<in> set (runs db)" for r
    using inv that by (simp add: session_inv_def)
  have "runs_for db (cd_snapshot d) k = []" for k
    unfolding runs_for_def filter_empty_conv using snaps new(1) by metis
  then have one: "length (runs_for db' (cd_snapshot d) k) = 1" for k
    by (cases k) (simp_all add: runs_for_def db'(3) queued_run_def)
  have "runs_for db' (sn_id n) k = runs_for db (sn_id n) k" if "n \<in> set (snapshots db)" for n k
    using that new(1) by (auto simp: runs_for_def db'(3) queued_run_def)
  with one inv have "\<forall>n \<in> set (snapshots db'). \<forall>k. length (runs_for db' (sn_id n) k) = 1"
    by (auto simp: session_inv_def db'(2))
  moreover have "\<forall>r \<in> set (runs db'). gr_snapshot r \<in> sn_id ` set (snapshots db')"
    using snaps by (auto simp: db' queued_run_def)
  moreover have "distinct (map ts_id (sessions db'))"
    using inv by (simp add: session_inv_def db'(1) map_update_rows_same closed_row_def)
  moreover have "distinct (map (\<lambda>n. (sn_session n, sn_epoch n)) (snapshots db'))"
    using inv old by (force simp: session_inv_def db'(2))
  ultimately show ?thesis using inv new ok unfolding session_inv_def by (simp add: db'(2))
qed

lemma close_keeps_inv:
  assumes inv: "session_inv db"
  shows "session_inv (snd (close d sid actor reqs pipeline av db))"
proof (cases "close d sid actor reqs pipeline av db")
  case (Pair r db')
  show ?thesis
  proof (cases r)
    case (Inl e)
    then have "db' = db" using Pair by (auto simp: close_def transaction_Inl_iff split: sum.splits)
    then show ?thesis using inv Pair by simp
  next
    case (Inr c)
    have call: "close d sid actor reqs pipeline av db = (Inr c, db')" using Pair Inr by simp
    show ?thesis
    proof (cases "find_session db sid")
      case None
      then have "member_session db actor sid = None" by (simp add: member_session_def)
      then have False using close_Inr [OF call]
        by (auto simp: close_body_def and_then_Inr host_session_Inr)
      then show ?thesis ..
    next
      case (Some s)
      have dist: "distinct (map ts_id (sessions db))" using inv by (simp add: session_inv_def)
      show ?thesis
      proof (cases "ts_state s = OPEN")
        case True
        from close_open_Inr [OF call dist Some True] inv show ?thesis
          using find_session_Some [OF Some] closes_inv [OF inv] Pair by (auto simp: session_inv_def)
      next
        case False
        then show ?thesis using close_again_Inr [OF call Some] inv Pair by simp
      qed
    qed
  qed
qed

lemma frame_run_columns: "activity_frame db db' \<Longrightarrow> map f (runs db') = map f (runs db)"
  by (simp add: frame_same)

lemma reopen_body_Inr:
  assumes "reopen_body d sid actor db = Inr (st, db')"
  shows "st = OPEN \<and> (\<exists>s. member_session db actor sid = Some s \<and> ts_host s = actor \<and>
    (ts_state s = OPEN \<and> db' = db \<or>
     ts_state s \<in> {READY, NEEDS_ATTENTION} \<and>
       activity_frame (db\<lparr>sessions := update_rows (\<lambda>x. ts_id x = sid \<and> ts_state x = ts_state s) to_open (sessions db)\<rparr>) db'))"
proof -
  from assms obtain s where h: "member_session db actor sid = Some s" "ts_host s = actor"
    unfolding reopen_body_def and_then_Inr host_session_Inr by blast
  have hs: "host_session na nh m db actor sid = Inr s" for na nh m by (simp add: host_session_Inr h)
  show ?thesis
  proof (cases "ts_state s = OPEN")
    case True
    then show ?thesis using assms h by (simp add: reopen_body_def hs)
  next
    case False
    then have st: "st = OPEN" "ts_state s \<in> {READY, NEEDS_ATTENTION}"
      and fr: "activity_frame (db\<lparr>sessions := update_rows (\<lambda>x. ts_id x = sid \<and> ts_state x = ts_state s) to_open (sessions db)\<rparr>) db'"
      using assms unfolding reopen_body_def hs
      by (auto simp: and_then_Inr update_session_Inr simp del: u_simps dest!: record_session_event_frame)
    then show ?thesis using h by blast
  qed
qed

lemma reopen_keeps_inv:
  assumes inv: "session_inv db"
  shows "session_inv (snd (reopen d sid actor db))"
proof (cases "reopen_body d sid actor db")
  case (Inl e)
  then show ?thesis using inv by (simp add: reopen_def)
next
  case (Inr p)
  then obtain st db' where p: "reopen_body d sid actor db = Inr (st, db')" by (cases p) simp
  obtain s :: session_row where "db' = db \<or> activity_frame (db\<lparr>sessions := update_rows (\<lambda>x. ts_id x = sid \<and> ts_state x = ts_state s) to_open
        (sessions db)\<rparr>) db'"
    using reopen_body_Inr [OF p] by blast
  then have "session_inv db'"
  proof
    assume fr: "activity_frame (db\<lparr>sessions := update_rows (\<lambda>x. ts_id x = sid \<and> ts_state x = ts_state s) to_open
        (sessions db)\<rparr>) db'"
    show ?thesis
      by (rule session_inv_update [OF inv, where P = "\<lambda>x. ts_id x = sid \<and> ts_state x = ts_state s" and f = to_open])
        (use fr in \<open>simp_all add: frame_same to_open_def\<close>)
  qed (use inv in simp)
  then show ?thesis using p by (simp add: reopen_def)
qed

end
