(* ===== verification/Session_Retry.thy ===== *)
theory Session_Retry
  imports Session_Facts
begin

text \<open>
  \<open>apps/api/app/session_retry_service.py\<close> (\<open>SessionRetryService\<close>): the host's retry of the failed canonical
  runs of the current snapshot.  It creates nothing; it moves the retryable runs back to \<open>queued\<close>, their
  jobs back to \<open>pending\<close> and the session back to \<open>processing\<close>, in one transaction under the session's lock.

  The query for the runs has no ORDER BY; the model takes the order of insertion, which decides only the
  order of \<open>requeued_kinds\<close>.  \<open>rt_now\<close> are the readings of \<open>clock_timestamp()\<close>, one per requeued kind.
\<close>

record retry_draws =
  rt_requested :: activity_draws
  rt_processing :: activity_draws
  rt_now :: "generation_kind \<Rightarrow> int"

record retry_view =
  rx_snapshot :: uuid
  rx_state :: talk_session_state
  rx_kinds :: "generation_kind list"

text \<open>\<open>_latest_snapshot_id\<close>\<close>

definition latest_snapshot_id :: "'z app_db_scheme \<Rightarrow> uuid \<Rightarrow> app_error + uuid" where
  "latest_snapshot_id db sid =
     (case latest_snapshot db sid of
        None \<Rightarrow> Inl (SessionRetryUnavailableError (u ''session has no generation snapshot''))
      | Some n \<Rightarrow> Inr (sn_id n))"

definition retryable_kinds :: "'z app_db_scheme \<Rightarrow> uuid \<Rightarrow> generation_kind list" where
  "retryable_kinds db sn =
     map gr_kind (filter (\<lambda>r. gr_state r = G_FAILED_RETRYABLE) (filter (\<lambda>r. gr_snapshot r = sn) (runs db)))"

definition retryable_job :: "uuid \<Rightarrow> generation_kind \<Rightarrow> job_row \<Rightarrow> bool" where
  "retryable_job sn k j \<longleftrightarrow>
     j_snapshot_id j = Some sn \<and> j_kind j = generation_kind_value k \<and> j_state j = J_FAILED_RETRYABLE \<and>
     j_token j = None \<and> j_owner j = None \<and> j_until j = None"

definition retryable_run :: "uuid \<Rightarrow> generation_kind \<Rightarrow> run_row \<Rightarrow> bool" where
  "retryable_run sn k r \<longleftrightarrow> gr_snapshot r = sn \<and> gr_kind r = k \<and> gr_state r = G_FAILED_RETRYABLE"

definition requeued_run :: "run_row \<Rightarrow> run_row" where
  "requeued_run r = r\<lparr>gr_state := G_QUEUED, gr_error := None, gr_completed_at := None\<rparr>"

definition requeue_kind ::
  "retry_draws \<Rightarrow> uuid \<Rightarrow> generation_kind \<Rightarrow> 'z app_db_scheme \<Rightarrow> app_error + 'z app_db_scheme" where
  "requeue_kind d sn k db =
     require (hits (retryable_job sn k) (jobs db) = 1)
       (SessionRetryUnavailableError (u ''retryable generation job is unavailable''))
     (let db1 = db\<lparr>jobs := update_rows (retryable_job sn k) (requeue_row (rt_now d k)) (jobs db)\<rparr>
      in require (hits (retryable_run sn k) (runs db1) = 1)
           (SessionRetryUnavailableError (u ''retryable generation run is unavailable''))
           (Inr (db1\<lparr>runs := update_rows (retryable_run sn k) requeued_run (runs db1)\<rparr>)))"

definition to_retrying :: "session_row \<Rightarrow> session_row" where
  "to_retrying s = s\<lparr>ts_state := PROCESSING, ts_version := ts_version s + 1, ts_retry := ts_retry s + 1\<rparr>"

definition retry_metadata :: "int \<Rightarrow> int \<Rightarrow> int \<Rightarrow> (ustr option \<times> meta) list" where
  "retry_metadata epoch ordinal requeued =
     [(Some (u ''generation_epoch''), MInt epoch), (Some (u ''retry_ordinal''), MInt ordinal),
      (Some (u ''requeued_count''), MInt requeued)]"

text \<open>The statements after the requeue: the session row and the two events.\<close>

definition retry_write ::
  "retry_draws \<Rightarrow> session_row \<Rightarrow> uuid \<Rightarrow> nat \<Rightarrow> 'z app_db_scheme \<Rightarrow> app_error + 'z app_db_scheme" where
  "retry_write d s actor requeued db =
     (let sid = ts_id s; room = ts_room s; epoch = ts_epoch s; v = ts_version s + 1; ordinal = ts_retry s + 1 in
      and_then (update_session (\<lambda>x. ts_id x = sid \<and> ts_state x = NEEDS_ATTENTION) to_retrying
          (SessionRetryUnavailableError (u ''session changed while retry was locked'')) db) (\<lambda>db1.
      and_then (record_session_event (rt_requested d) (u ''session.retry_requested'') (retry_identity sid epoch ordinal)
          (Some actor) room sid (retry_metadata epoch ordinal (int requeued)) [] db1) (\<lambda>db2.
      record_session_event (rt_processing d) (u ''session.processing'') (session_identity sid v) (Some actor)
          room sid (state_metadata (u ''needs_attention'') (u ''processing'') v @
            [(Some (u ''generation_epoch''), MInt epoch)]) [] db2)))"

definition retry_body ::
  "retry_draws \<Rightarrow> uuid \<Rightarrow> uuid \<Rightarrow> (app_error, retry_view, 'z app_db_scheme) body" where
  "retry_body d sid actor db =
     and_then (host_session SessionRetryAccessError SessionRetryHostRequiredError
        (u ''only the session host may retry'') db actor sid) (\<lambda>s.
     and_then (latest_snapshot_id db sid) (\<lambda>sn.
     if ts_state s = PROCESSING then Inr (\<lparr>rx_snapshot = sn, rx_state = PROCESSING, rx_kinds = []\<rparr>, db)
     else require (ts_state s = NEEDS_ATTENTION)
       (SessionRetryUnavailableError (u ''session has no retryable generation work''))
       (let kinds = retryable_kinds db sn
        in require (kinds \<noteq> []) (SessionRetryUnavailableError (u ''no retryable generation run exists''))
             (and_then (fold_result (requeue_kind d sn) kinds db) (\<lambda>db1.
              and_then (retry_write d s actor (length kinds) db1) (\<lambda>db2.
              Inr (\<lparr>rx_snapshot = sn, rx_state = PROCESSING, rx_kinds = kinds\<rparr>, db2)))))))"

definition retry ::
  "retry_draws \<Rightarrow> uuid \<Rightarrow> uuid \<Rightarrow> 'z app_db_scheme \<Rightarrow> (app_error + retry_view) \<times> 'z app_db_scheme" where
  "retry d sid actor = transaction (retry_body d sid actor)"

section \<open>What a retry changes\<close>

definition job_generation_kind :: "job_row \<Rightarrow> generation_kind" where
  "job_generation_kind j = (if j_kind j = u ''summary'' then SUMMARY else RESEARCH)"

lemma retryable_job_kind: "retryable_job sn k j \<Longrightarrow> job_generation_kind j = k"
  by (cases k) (simp_all add: retryable_job_def job_generation_kind_def)

definition requeue_retried :: "retry_draws \<Rightarrow> job_row \<Rightarrow> job_row" where
  "requeue_retried d j = requeue_row (rt_now d (job_generation_kind j)) j"

lemma requeue_not_retryable: "\<not> retryable_job sn k (requeue_row now j)" "\<not> retryable_run sn k (requeued_run r)"
  by (simp_all add: retryable_job_def retryable_run_def requeue_row_def requeued_run_def)

lemma update_rows_disj:
  assumes "\<And>x. P x \<Longrightarrow> f x = h x" "\<And>x. Q x \<Longrightarrow> g x = h x" "\<And>x. \<not> Q (h x)"
  shows "update_rows Q g (update_rows P f t) = update_rows (\<lambda>x. P x \<or> Q x) h t"
  using assms by (induction t) auto

lemma requeue_kind_Inr:
  "requeue_kind d sn k db = Inr db' \<longleftrightarrow>
     hits (retryable_job sn k) (jobs db) = 1 \<and> hits (retryable_run sn k) (runs db) = 1 \<and>
     db' = db\<lparr>jobs := update_rows (retryable_job sn k) (requeue_retried d) (jobs db),
              runs := update_rows (retryable_run sn k) requeued_run (runs db)\<rparr>"
proof -
  have "update_rows (retryable_job sn k) (requeue_row (rt_now d k)) t = update_rows (retryable_job sn k) (requeue_retried d) t" for t
    by (induction t) (auto simp: requeue_retried_def dest: retryable_job_kind)
  then show ?thesis by (auto simp: requeue_kind_def Let_def)
qed

lemma requeue_fold:
  assumes "fold_result (requeue_kind d sn) kinds db = Inr db'"
  shows "db' = db\<lparr>jobs := update_rows (\<lambda>j. \<exists>k \<in> set kinds. retryable_job sn k j) (requeue_retried d) (jobs db),
                  runs := update_rows (\<lambda>r. \<exists>k \<in> set kinds. retryable_run sn k r) requeued_run (runs db)\<rparr> \<and>
    (\<forall>k \<in> set kinds. hits (retryable_job sn k) (jobs db) = 1 \<and> hits (retryable_run sn k) (runs db) = 1) \<and>
    distinct kinds"
  using assms
proof (induction kinds arbitrary: db)
  case Nil
  then show ?case by (simp add: update_rows_none)
next
  case (Cons k kinds)
  from Cons.prems obtain db1 where s: "requeue_kind d sn k db = Inr db1" "fold_result (requeue_kind d sn) kinds db1 = Inr db'"
    by (auto simp: and_then_Inr)
  from s(1) have one: "hits (retryable_job sn k) (jobs db) = 1" "hits (retryable_run sn k) (runs db) = 1"
    and db1: "db1 = db\<lparr>jobs := update_rows (retryable_job sn k) (requeue_retried d) (jobs db),
              runs := update_rows (retryable_run sn k) requeued_run (runs db)\<rparr>"
    by (simp_all add: requeue_kind_Inr)
  note IH = Cons.IH [OF s(2)]
  have none: "hits (retryable_run sn k) (runs db1) = 0"
    unfolding hits_zero_iff db1 by (auto simp: set_update_rows requeue_not_retryable)
  with IH have k: "k \<notin> set kinds" by auto
  have other: "hits (retryable_job sn q) (jobs db1) = hits (retryable_job sn q) (jobs db)"
    "hits (retryable_run sn q) (runs db1) = hits (retryable_run sn q) (runs db)" if "q \<in> set kinds" for q
  proof -
    have "q \<noteq> k" using k that by blast
    show "hits (retryable_job sn q) (jobs db1) = hits (retryable_job sn q) (jobs db)"
      unfolding db1 using \<open>q \<noteq> k\<close>
      by (simp, intro hits_update_rows) (auto simp: requeue_retried_def requeue_not_retryable dest: retryable_job_kind)
    show "hits (retryable_run sn q) (runs db1) = hits (retryable_run sn q) (runs db)"
      unfolding db1 using \<open>q \<noteq> k\<close>
      by (simp, intro hits_update_rows) (auto simp: requeue_not_retryable, simp add: retryable_run_def)
  qed
  have "update_rows (\<lambda>j. \<exists>q \<in> set kinds. retryable_job sn q j) (requeue_retried d)
      (update_rows (retryable_job sn k) (requeue_retried d) (jobs db)) =
    update_rows (\<lambda>j. retryable_job sn k j \<or> (\<exists>q \<in> set kinds. retryable_job sn q j)) (requeue_retried d) (jobs db)"
    "update_rows (\<lambda>r. \<exists>q \<in> set kinds. retryable_run sn q r) requeued_run
      (update_rows (retryable_run sn k) requeued_run (runs db)) =
    update_rows (\<lambda>r. retryable_run sn k r \<or> (\<exists>q \<in> set kinds. retryable_run sn q r)) requeued_run (runs db)"
    by (rule update_rows_disj; simp add: requeue_retried_def requeue_not_retryable)+
  then show ?case using IH one k other by (simp add: db1)
qed

text \<open>The new state of the tables after the session \<open>s\<close> was retried: nothing but the rows named here changes.\<close>

definition retries ::
  "retry_draws \<Rightarrow> session_row \<Rightarrow> uuid \<Rightarrow> 'z app_db_scheme \<Rightarrow> 'z app_db_scheme \<Rightarrow> bool" where
  "retries d s sn db db' \<longleftrightarrow>
     (\<exists>a n x.
        db' = db\<lparr>sessions := update_rows (\<lambda>x. ts_id x = ts_id s \<and> ts_state x = NEEDS_ATTENTION) to_retrying (sessions db),
                runs := update_rows (\<lambda>r. gr_snapshot r = sn \<and> gr_state r = G_FAILED_RETRYABLE) requeued_run (runs db),
                jobs := update_rows (\<lambda>j. \<exists>k \<in> set (retryable_kinds db sn). retryable_job sn k j) (requeue_retried d) (jobs db),
                audit := a, notifications := n, outbox := x\<rparr> \<and>
        appends au_key (audit db) a)"

lemma retryable_run_ex:
  assumes "r \<in> set (runs db)"
  shows "(\<exists>k \<in> set (retryable_kinds db sn). retryable_run sn k r) \<longleftrightarrow> gr_snapshot r = sn \<and> gr_state r = G_FAILED_RETRYABLE"
  using assms by (force simp: retryable_kinds_def retryable_run_def)

lemma update_rows_cong: "(\<And>x. x \<in> set t \<Longrightarrow> P x = Q x) \<Longrightarrow> update_rows P f t = update_rows Q f t"
  by (induction t) auto

lemma retry_write_Inr:
  assumes "retry_write d s actor n db = Inr db'"
  shows "hits (\<lambda>x. ts_id x = ts_id s \<and> ts_state x = NEEDS_ATTENTION) (sessions db) = 1 \<and>
    activity_frame (db\<lparr>sessions := update_rows (\<lambda>x. ts_id x = ts_id s \<and> ts_state x = NEEDS_ATTENTION) to_retrying
      (sessions db)\<rparr>) db'"
  using assms by (auto simp: retry_write_def Let_def and_then_Inr update_session_Inr simp del: u_simps
      dest!: record_session_event_frame intro: activity_frame_trans)

lemma retry_body_Inr:
  assumes "retry_body d sid actor db = Inr (v, db')"
  shows "\<exists>s n. member_session db actor sid = Some s \<and> ts_host s = actor \<and> latest_snapshot db sid = Some n \<and>
    (ts_state s = PROCESSING \<and> v = \<lparr>rx_snapshot = sn_id n, rx_state = PROCESSING, rx_kinds = []\<rparr> \<and> db' = db \<or>
     ts_state s = NEEDS_ATTENTION \<and> retryable_kinds db (sn_id n) \<noteq> [] \<and> distinct (retryable_kinds db (sn_id n)) \<and>
     v = \<lparr>rx_snapshot = sn_id n, rx_state = PROCESSING, rx_kinds = retryable_kinds db (sn_id n)\<rparr> \<and>
     (\<forall>k \<in> set (retryable_kinds db (sn_id n)). hits (retryable_job (sn_id n) k) (jobs db) = 1) \<and>
     retries d s (sn_id n) db db')"
proof -
  from assms obtain s where h: "member_session db actor sid = Some s" "ts_host s = actor"
    unfolding retry_body_def and_then_Inr host_session_Inr by blast
  have hs: "host_session na nh m db actor sid = Inr s" for na nh m by (simp add: host_session_Inr h)
  from assms obtain n where n: "latest_snapshot db sid = Some n"
    by (auto simp: retry_body_def hs and_then_Inr latest_snapshot_id_def split: option.splits)
  have sn: "latest_snapshot_id db sid = Inr (sn_id n)" by (simp add: latest_snapshot_id_def n)
  have "(ts_state s = PROCESSING \<and> v = \<lparr>rx_snapshot = sn_id n, rx_state = PROCESSING, rx_kinds = []\<rparr> \<and> db' = db \<or>
     ts_state s = NEEDS_ATTENTION \<and> retryable_kinds db (sn_id n) \<noteq> [] \<and> distinct (retryable_kinds db (sn_id n)) \<and>
     v = \<lparr>rx_snapshot = sn_id n, rx_state = PROCESSING, rx_kinds = retryable_kinds db (sn_id n)\<rparr> \<and>
     (\<forall>k \<in> set (retryable_kinds db (sn_id n)). hits (retryable_job (sn_id n) k) (jobs db) = 1) \<and>
     retries d s (sn_id n) db db')"
  proof (cases "ts_state s = PROCESSING")
    case True
    then show ?thesis using assms by (simp add: retry_body_def hs sn)
  next
    case False
    let ?k = "retryable_kinds db (sn_id n)"
    from assms False obtain db1 where r: "ts_state s = NEEDS_ATTENTION" "?k \<noteq> []"
      "fold_result (requeue_kind d (sn_id n)) ?k db = Inr db1" "retry_write d s actor (length ?k) db1 = Inr db'"
      "v = \<lparr>rx_snapshot = sn_id n, rx_state = PROCESSING, rx_kinds = ?k\<rparr>"
      by (auto simp: retry_body_def hs sn Let_def and_then_Inr)
    note F = requeue_fold [OF r(3)] and W = retry_write_Inr [OF r(4)]
    have runs: "update_rows (\<lambda>r. \<exists>k \<in> set ?k. retryable_run (sn_id n) k r) requeued_run (runs db) =
        update_rows (\<lambda>r. gr_snapshot r = sn_id n \<and> gr_state r = G_FAILED_RETRYABLE) requeued_run (runs db)"
      by (rule update_rows_cong) (rule retryable_run_ex)
    from W obtain a nt x where w: "db' = db1\<lparr>sessions := update_rows (\<lambda>x. ts_id x = ts_id s \<and> ts_state x = NEEDS_ATTENTION) to_retrying
      (sessions db1), audit := a, notifications := nt, outbox := x\<rparr>" "appends au_key (audit db1) a"
      by (auto simp: activity_frame_def)
    have "retries d s (sn_id n) db db'"
      unfolding retries_def using w F by (intro exI [of _ a] exI [of _ nt] exI [of _ x]) (simp add: runs)
    then show ?thesis using r F by blast
  qed
  with h n show ?thesis by blast
qed

text \<open>A retry keeps the invariants of the queue and of the sessions, and moves no lease.\<close>

lemma retries_inv:
  assumes inv: "session_inv db" and r: "retries d s sn db db'" and s: "s \<in> set (sessions db)" "ts_state s = NEEDS_ATTENTION"
  shows "session_inv db'"
proof -
  let ?P = "\<lambda>x. ts_id x = ts_id s \<and> ts_state x = NEEDS_ATTENTION"
  have f: "sessions db' = update_rows ?P to_retrying (sessions db)" "snapshots db' = snapshots db"
    "runs db' = update_rows (\<lambda>r. gr_snapshot r = sn \<and> gr_state r = G_FAILED_RETRYABLE) requeued_run (runs db)"
    using r by (auto simp: retries_def)
  show ?thesis
  proof (rule session_inv_update [OF inv f(1,2)])
    show "map (\<lambda>r. (gr_id r, gr_snapshot r, gr_kind r)) (runs db') = map (\<lambda>r. (gr_id r, gr_snapshot r, gr_kind r)) (runs db)"
      unfolding f(3) by (rule map_update_rows_same) (simp add: requeued_run_def)
    fix x assume x: "x \<in> set (sessions db)" "?P x"
    then have "session_ok db x" using inv by (simp add: session_inv_def)
    then show "ts_state (to_retrying x) \<noteq> CLOSED \<and>
      (ts_state (to_retrying x) \<in> {PROCESSING, READY, NEEDS_ATTENTION} \<longrightarrow> ts_epoch x \<noteq> 0)"
      using x(2) by (simp add: session_ok_def to_retrying_def)
  qed (simp add: to_retrying_def)
qed

lemma retry_keeps_inv:
  assumes inv: "session_inv db"
  shows "session_inv (snd (retry d sid actor db))"
proof (cases "retry_body d sid actor db")
  case (Inl e)
  then show ?thesis using inv by (simp add: retry_def)
next
  case (Inr p)
  then obtain v db' where p: "retry_body d sid actor db = Inr (v, db')" by (cases p) simp
  then obtain s :: session_row and n :: snapshot_row where "member_session db actor sid = Some s"
    "db' = db \<or> ts_state s = NEEDS_ATTENTION \<and> retries d s (sn_id n) db db'"
    using retry_body_Inr [OF p] by blast
  then have "session_inv db'"
    using inv retries_inv [OF inv] by (auto simp: member_session_Some dest: find_session_Some)
  then show ?thesis using p by (simp add: retry_def)
qed

end
