(* ===== verification/Session_Properties.thy ===== *)
theory Session_Properties
  imports Session_Facts
begin

text \<open>
  The properties of closing and reopening a talk session, with a sample database on which they are evaluated.
\<close>

definition sample_session :: session_row where
  "sample_session = \<lparr>ts_id = 7, ts_room = 3, ts_host = 5, ts_topic = u ''t'', ts_state = OPEN, ts_epoch = 0,
     ts_version = 0, ts_retry = 2, ts_closed_at = None, ts_description = [], ts_deadline = None,
     ts_created_at = 0, ts_archived = False\<rparr>"

definition sample_close_db :: app_db where
  "sample_close_db = empty_db\<lparr>
     memberships := [\<lparr>mb_room = 3, mb_user = 5, mb_host = True, mb_left = False\<rparr>],
     sessions := [sample_session],
     submissions := [\<lparr>sb_id = 20, sb_session = 7, sb_author = 5, sb_title = u ''a'', sb_created_at = 1, sb_deleted = False\<rparr>],
     revisions := [\<lparr>sr_id = 30, sr_submission = 20, sr_number = 1, sr_state = R_READY, sr_approved = Some 40, sr_current = True\<rparr>],
     extractions := [\<lparr>er_id = 40, er_revision = 30, er_anchor_version = u ''v1'', er_status = E_SUCCEEDED, er_error = None\<rparr>]\<rparr>"

definition sample_draws :: close_draws where
  "sample_draws = \<lparr>cd_exclusion = (\<lambda>i. i + 100), cd_snapshot = 50, cd_run = (\<lambda>k. if k = SUMMARY then 60 else 61),
     cd_job = (\<lambda>k. if k = SUMMARY then 70 else 71),
     cd_closed = \<lparr>dr_event = 80, dr_notification = id, dr_outbox = id, dr_now = 9\<rparr>,
     cd_processing = \<lparr>dr_event = 81, dr_notification = id, dr_outbox = id, dr_now = 9\<rparr>, cd_now = 9\<rparr>"

lemma sample_decision:
  "close_decide sample_draws 7 5 [] [] None sample_close_db = Inr (([(30, 40)], u ''v1''), sample_close_db)"
  by (simp add: close_decide_def sample_draws_def sample_close_db_def empty_db_def current_revisions_def revision_statuses_def
    require_close_eligibility_def evaluate_close_eligibility_def close_decision_def insert_exclusions_def revision_by_id_def
    approved_runs_def approved_run_def pin_runs_def List.map_filter_simps text_simps)

text \<open>When an event of a session is recorded: its key is new and its metadata small.\<close>

lemma record_session_event_ok:
  assumes "t \<in> set supported_event_types" "build_event_key t f = Inr key" "1 \<le> length key" "length key \<le> 256"
    and "safe_audit_metadata m = Inr j" "jsonb_size_at_most 4096 j"
    and "list_ex (\<lambda>s. ts_id s = sid \<and> ts_room s = room) (sessions db)"
    and "key \<notin> au_key ` set (audit db)" "dr_event d \<notin> au_id ` set (audit db)"
  shows "record_session_event d t f actor room sid m [] db =
    Inr (db\<lparr>audit := audit db @ [\<lparr>au_id = dr_event d, au_key = key, au_sequence = next_sequence db, au_type = t,
      au_actor = actor, au_scope = SC_SESSION, au_audience = None, au_room = Some room, au_session = Some sid,
      au_entity_type = u ''session'', au_entity_id = sid, au_metadata = j\<rparr>]\<rparr>)"
  using assms by (simp add: record_session_event_def record_activity_def checked_append_def append_activity_def
      new_audit_row_def audit_checks_def scope_shape_def fresh_def)

lemma state_event_key:
  assumes "t = u ''session.closed'' \<or> t = u ''session.processing'' \<or> t = u ''session.reopened''"
  shows "build_event_key t (session_identity sid v) =
    Inr (u ''session:'' @ uuid_text sid @ u '':state-v'' @ int_text v @ [58] @ after_last_dot t)"
  using assms
  by (elim disjE; simp add: build_event_key_def supported_event_types_def event_template_def ustr_startswith_def
    after_last_dot_def session_identity_def segment_text_def field_def ustr_join_def)

lemmas metadata_eval =
  safe_audit_metadata_def require_size_def plain_size_def comma_join_def utf8_char_def comma_space_join_def
  ustr_join_def state_metadata_def jsonb_size_at_most_def int_text_def dec_digits.simps forbidden_key_def
  forbidden_parts_def lower_ascii_def lower_char_def ustr_startswith_def quote_text_def escape_char_def

definition storable :: "(ustr option \<times> meta) list \<Rightarrow> bool" where
  "storable m \<longleftrightarrow> (case safe_audit_metadata m of Inr j \<Rightarrow> jsonb_size_at_most 4096 j | Inl _ \<Rightarrow> False)"

lemma storable_obtain: "storable m \<Longrightarrow> \<exists>j. safe_audit_metadata m = Inr j \<and> jsonb_size_at_most 4096 j"
  by (auto simp: storable_def split: sum.splits)

lemma sample_metadata:
  "storable (state_metadata (u ''open'') (u ''closed'') 1)"
  "storable (state_metadata (u ''closed'') (u ''processing'') 2 @ [(Some (u ''generation_epoch''), MInt 1)])"
  "storable (state_metadata (u ''ready'') (u ''open'') 3)"
  by (simp_all add: storable_def metadata_eval)

lemma sample_writes:
  "\<exists>db'. close_write sample_draws sample_session 5 (u ''p1'') [(30, 40)] (u ''v1'') sample_close_db = Inr db'"
proof -
  obtain j1 j2 where j: "safe_audit_metadata (state_metadata (u ''open'') (u ''closed'') 1) = Inr j1" "jsonb_size_at_most 4096 j1"
    "safe_audit_metadata (state_metadata (u ''closed'') (u ''processing'') 2 @ [(Some (u ''generation_epoch''), MInt 1)]) = Inr j2"
    "jsonb_size_at_most 4096 j2"
    using sample_metadata [THEN storable_obtain] by blast
  have keys: "build_event_key (u ''session.closed'') (session_identity 7 1) = Inr (u ''session:'' @ uuid_text 7 @ u '':state-v1:closed'')"
    "build_event_key (u ''session.processing'') (session_identity 7 2) = Inr (u ''session:'' @ uuid_text 7 @ u '':state-v2:processing'')"
    by (simp_all add: state_event_key after_last_dot_def int_text_def dec_digits.simps)
  have types: "u ''session.closed'' \<in> set supported_event_types" "u ''session.processing'' \<in> set supported_event_types"
    by (simp_all add: supported_event_types_def)
  show ?thesis
    unfolding close_write_def Let_def sample_close_db_def empty_db_def
    using j keys types
    by (simp add: sample_session_def sample_draws_def update_session_def to_closed_def record_session_event_ok
       insert_snapshot_def insert_pinned_def fresh_def canonical_kinds to_processing_def insert_generation_def insert_run_def
        insert_job_def queued_run_def generation_job_def new_job_row_def generation_logical_key_def update_rows_def
        del: u_simps)
qed


definition sample_result :: closed_snapshot where
  "sample_result = \<lparr>cs_snapshot = 50, cs_epoch = 1, cs_state = PROCESSING, cs_idempotent = False\<rparr>"

lemma sample_fields:
  "ts_state sample_session = OPEN" "ts_epoch sample_session = 0" "cd_snapshot sample_draws = 50"
  by (simp_all add: sample_session_def sample_draws_def)

lemma sample_closes:
  "\<exists>db'. close sample_draws 7 5 [] (u ''p1'') None sample_close_db = (Inr sample_result, db')"
proof -
  obtain db' where w: "close_write sample_draws sample_session 5 (u ''p1'') [(30, 40)] (u ''v1'') sample_close_db = Inr db'"
    using sample_writes by blast
  have h: "host_session na nh m sample_close_db 5 7 = Inr sample_session" for na nh m
    by (simp add: host_session_def member_session_def find_session_def is_member_def sample_close_db_def
        sample_session_def empty_db_def)
  have "close_body sample_draws 7 5 [] [] (u ''p1'') None sample_close_db = Inr (sample_result, db')"
    unfolding close_body_def h
    by (simp add: sample_decision w sample_result_def sample_fields del: u_simps)
  then show ?thesis by (simp add: close_def domain_exclusions_def text_simps)
qed

section \<open>Properties\<close>

text \<open>
  C9: a successful close of an open session publishes exactly one new snapshot.  Only the host, a current
  member, can do it; the snapshot has the next epoch and pins exactly the current revisions that are not
  excluded, every one of them ready, each with its approved succeeded extraction run of one anchor schema;
  a queued run and a pending job of each canonical kind are added, the exclusions are recorded, the session
  goes to \<open>processing\<close> with the new epoch, two more versions and no retries, and nothing else changes but
  the appended ledger and deliveries.
\<close>

theorem close_publishes_snapshot:
  assumes "close d sid actor reqs pipeline av db = (Inr c, db')"
    and "distinct (map ts_id (sessions db))" and "find_session db sid = Some s" and "ts_state s = OPEN"
  shows "is_member db (ts_room s) actor \<and> ts_host s = actor \<and>
    c = \<lparr>cs_snapshot = cd_snapshot d, cs_epoch = ts_epoch s + 1, cs_state = PROCESSING, cs_idempotent = False\<rparr> \<and>
    (\<exists>pins version. pins_ok db sid (fst ` set reqs) pins version \<and> (av = None \<or> av = Some version) \<and>
       closes d s actor reqs pipeline pins version db db')"
proof -
  note C = close_open_Inr [OF assms]
  then obtain pins version where p: "pins_ok db sid (fst ` set reqs) pins version"
    "case av of None \<Rightarrow> True | Some a \<Rightarrow> a = version" "closes d s actor reqs pipeline pins version db db'" by blast
  from p(2) have "av = None \<or> av = Some version" by (cases av) simp_all
  with p C show ?thesis by blast
qed

theorem close_publishes_snapshot_witness:
  "\<exists>db' pins version. close sample_draws 7 5 [] (u ''p1'') None sample_close_db = (Inr sample_result, db') \<and>
     closes sample_draws sample_session 5 [] (u ''p1'') pins version sample_close_db db'"
proof -
  obtain db' where c: "close sample_draws 7 5 [] (u ''p1'') None sample_close_db = (Inr sample_result, db')"
    using sample_closes by blast
  have "distinct (map ts_id (sessions sample_close_db))" "find_session sample_close_db 7 = Some sample_session"
    "ts_state sample_session = OPEN"
    by (simp_all add: sample_close_db_def empty_db_def sample_session_def find_session_def)
  from close_publishes_snapshot [OF c this] c show ?thesis by blast
qed

text \<open>
  Closing is idempotent.  After a successful close of an open session in a sound database, every further
  well-formed close by the host, whatever exclusions, pipeline and identifiers it carries, answers with the
  same snapshot, says that it is a replay, and changes nothing: no second snapshot, run, job or event.
\<close>

theorem close_is_idempotent:
  assumes "session_inv db" "close d sid actor reqs pipeline av db = (Inr c, db1)"
    and "find_session db sid = Some s" "ts_state s = OPEN"
    and "domain_exclusions reqs' = Inr excl'" "\<not> is_blank pipeline'" "av' = None"
  shows "close d' sid actor reqs' pipeline' av' db1 =
    (Inr \<lparr>cs_snapshot = cs_snapshot c, cs_epoch = cs_epoch c, cs_state = PROCESSING, cs_idempotent = True\<rparr>, db1)"
proof -
  have dist: "distinct (map ts_id (sessions db))" using assms(1) by (simp add: session_inv_def)
  note C = close_open_Inr [OF assms(2) dist assms(3,4)]
  then obtain pins version where cl: "closes d s actor reqs pipeline pins version db db1" by blast
  have s: "s \<in> set (sessions db)" "ts_id s = sid" using find_session_Some [OF assms(3)] by simp_all
  have inv1: "session_inv db1" using C assms(1) closes_inv [OF assms(1) s(1) cl] by (simp add: session_inv_def)
  have db1: "sessions db1 = update_rows (\<lambda>x. ts_id x = sid) (closed_row (cd_now d)) (sessions db)"
    "memberships db1 = memberships db"
    using cl s(2) by (auto simp: closes_def)
  have row: "find_session db1 sid = Some (closed_row (cd_now d) s)"
    unfolding find_session_def db1
    by (rule find_update_key [OF dist s]) (simp add: closed_row_def s(2))
  then have ms: "member_session db1 actor sid = Some (closed_row (cd_now d) s)"
    using C db1(2) by (simp add: member_session_Some is_member_def closed_row_def)
  obtain n where n: "n \<in> set (snapshots db1)" "sn_session n = sid" "sn_epoch n = ts_epoch s + 1" "sn_id n = cd_snapshot d"
  proof -
    have "\<lparr>sn_id = cd_snapshot d, sn_session = ts_id s, sn_epoch = ts_epoch s + 1, sn_created_by = actor,
        sn_topic = ts_topic s, sn_pipeline = pipeline, sn_anchor_version = version\<rparr> \<in> set (snapshots db1)"
      using cl by (auto simp: closes_def)
    from that [OF this] show ?thesis using s(2) by simp
  qed
  have in1: "closed_row (cd_now d) s \<in> set (sessions db1)" using find_session_Some [OF row] by simp
  have "\<forall>m \<in> set (snapshots db1). sn_session m = sid \<longrightarrow> sn_epoch m \<le> sn_epoch n"
    using inv1 in1 n(3) s(2) by (auto simp: session_inv_def session_ok_def closed_row_def)
  then have "latest_snapshot db1 sid = Some n"
    using inv1 n(1,2) by (intro latest_snapshot_eqI) (simp_all add: session_inv_def)
  then have "close_body d' sid actor reqs' excl' pipeline' av' db1 =
      Inr (\<lparr>cs_snapshot = cs_snapshot c, cs_epoch = cs_epoch c, cs_state = PROCESSING, cs_idempotent = True\<rparr>, db1)"
    using C n(3,4) by (simp add: close_body_def host_session_def ms closed_row_def existing_snapshot_or_raise_def)
  then show ?thesis using assms(5-7) by (simp add: close_def)
qed

lemma sample_inv: "session_inv sample_close_db"
  by (simp add: session_inv_def session_ok_def sample_close_db_def empty_db_def sample_session_def)

theorem close_is_idempotent_witness:
  "\<exists>db1. close sample_draws 7 5 [] (u ''p1'') None sample_close_db = (Inr sample_result, db1) \<and>
     close sample_draws 7 5 [] (u ''p2'') None db1 =
       (Inr \<lparr>cs_snapshot = 50, cs_epoch = 1, cs_state = PROCESSING, cs_idempotent = True\<rparr>, db1)"
proof -
  obtain db1 where c: "close sample_draws 7 5 [] (u ''p1'') None sample_close_db = (Inr sample_result, db1)"
    using sample_closes by blast
  have f: "find_session sample_close_db 7 = Some sample_session" "ts_state sample_session = OPEN"
    "domain_exclusions [] = Inr []" "\<not> is_blank (u ''p2'')"
    by (simp_all add: sample_close_db_def empty_db_def sample_session_def find_session_def domain_exclusions_def text_simps)
  show ?thesis using close_is_idempotent [OF sample_inv c f refl, of sample_draws] c by (auto simp: sample_result_def)
qed


lemma insert_exclusions_new:
  assumes "insert_exclusions d rows sid actor reqs db = Inr db'" "x \<in> set (exclusions db)" "ex_session x = sid"
  shows "ex_revision x \<notin> fst ` set reqs"
  using assms
proof (induction reqs arbitrary: db)
  case (Cons q reqs)
  obtain i reason where q: "q = (i, reason)" by force
  from Cons.prems(1) obtain rid db1 where s: "revision_by_id rows (uuid_text i) = Inr rid"
    "insert_exclusion \<lparr>ex_id = cd_exclusion d i, ex_session = sid, ex_revision = rid, ex_reason = reason,
       ex_actor = actor\<rparr> db = Inr db1"
    "insert_exclusions d rows sid actor reqs db1 = Inr db'"
    by (auto simp: insert_exclusions_def q and_then_Inr)
  have "rid = i" using revision_by_id_Inr [OF s(1)] by simp
  moreover have "(sid, rid) \<notin> (\<lambda>y. (ex_session y, ex_revision y)) ` set (exclusions db)" "x \<in> set (exclusions db1)"
    using s(2) Cons.prems(2) by (auto simp: insert_exclusion_def fresh_def)
  ultimately show ?case using Cons.IH [OF s(3)] Cons.prems(2,3) by (force simp: q)
qed simp

lemma close_failure_keeps: "close d sid actor reqs pipeline av db = (Inl e, db') \<Longrightarrow> db' = db"
  by (auto simp: close_def transaction_Inl_iff split: sum.splits)

text \<open>
  An exclusion is for ever.  Once a revision has been excluded from a session (at an earlier close, before
  the session was reopened), every close of the open session that names the revision again fails and changes
  nothing: exclusions are unique per session and revision, and reopening keeps them.
\<close>

theorem excluded_twice_never_closes:
  assumes "find_session db sid = Some s" "ts_state s = OPEN" and "x \<in> set (exclusions db)" "ex_session x = sid"
    and "ex_revision x \<in> fst ` set reqs"
  shows "\<exists>e. close d sid actor reqs pipeline av db = (Inl e, db)"
proof (cases "close d sid actor reqs pipeline av db")
  case (Pair r db')
  show ?thesis
  proof (cases r)
    case (Inl e)
    then show ?thesis using Pair close_failure_keeps by blast
  next
    case (Inr c)
    then have call: "close d sid actor reqs pipeline av db = (Inr c, db')" using Pair by simp
    then obtain excl where "domain_exclusions reqs = Inr excl"
      and b: "close_body d sid actor reqs excl pipeline av db = Inr (c, db')" by (rule close_Inr)
    from b assms(1,2) obtain p db1 where "close_decide d sid actor reqs excl av db = Inr (p, db1)"
      by (auto simp: close_body_def and_then_Inr host_session_Inr member_session_Some)
    then have "insert_exclusions d (current_revisions db sid) sid actor reqs db = Inr db1"
      by (cases p) (auto simp: close_decide_def Let_def and_then_Inr)
    with insert_exclusions_new [OF this assms(3,4)] assms(5) show ?thesis by simp
  qed
qed

theorem excluded_twice_never_closes_witness:
  "\<exists>e. close sample_draws 7 5 [(30, u ''bad scan'')] (u ''p1'') None
      (sample_close_db\<lparr>exclusions := [\<lparr>ex_id = 1, ex_session = 7, ex_revision = 30, ex_reason = u ''r'', ex_actor = 5\<rparr>]\<rparr>) =
    (Inl e, sample_close_db\<lparr>exclusions := [\<lparr>ex_id = 1, ex_session = 7, ex_revision = 30, ex_reason = u ''r'', ex_actor = 5\<rparr>]\<rparr>)"
  by (rule excluded_twice_never_closes [where s = sample_session and
        x = "\<lparr>ex_id = 1, ex_session = 7, ex_revision = 30, ex_reason = u ''r'', ex_actor = 5\<rparr>"])
    (simp_all add: find_session_def sample_close_db_def empty_db_def sample_session_def)

text \<open>
  Reopening keeps the published documents.  A reopen succeeds only for the host, on a session that is open
  (then nothing changes) or ready or in need of attention; then the session is open again with one more version
  and the same epoch, and apart from the appended ledger no other row of any table changes: snapshots, runs,
  jobs, documents and exclusions stay.
\<close>

theorem reopen_keeps_documents:
  assumes "reopen d sid actor db = (Inr st, db')" and "find_session db sid = Some s"
  shows "st = OPEN \<and> is_member db (ts_room s) actor \<and> ts_host s = actor \<and>
    (ts_state s = OPEN \<and> db' = db \<or>
     ts_state s \<in> {READY, NEEDS_ATTENTION} \<and>
       activity_frame (db\<lparr>sessions := update_rows (\<lambda>x. ts_id x = sid \<and> ts_state x = ts_state s) to_open (sessions db)\<rparr>) db')"
proof -
  have "reopen_body d sid actor db = Inr (st, db')" using assms(1) by (simp add: reopen_def transaction_Inr_iff)
  from reopen_body_Inr [OF this] assms(2) show ?thesis by (auto simp: member_session_Some)
qed

definition sample_ready_db :: app_db where
  "sample_ready_db = sample_close_db\<lparr>sessions := [sample_session\<lparr>ts_state := READY, ts_epoch := 1, ts_version := 2\<rparr>]\<rparr>"

lemma sample_reopens: "\<exists>db'. reopen (cd_closed sample_draws) 7 5 sample_ready_db = (Inr OPEN, db')"
proof -
  obtain j where j: "safe_audit_metadata (state_metadata (u ''ready'') (u ''open'') 3) = Inr j" "jsonb_size_at_most 4096 j"
    using sample_metadata [THEN storable_obtain] by blast
  have k: "build_event_key (u ''session.reopened'') (session_identity 7 3) =
      Inr (u ''session:'' @ uuid_text 7 @ u '':state-v3:reopened'')"
    by (simp add: state_event_key after_last_dot_def int_text_def dec_digits.simps)
  have t: "u ''session.reopened'' \<in> set supported_event_types" by (simp add: supported_event_types_def)
  have "reopen_body (cd_closed sample_draws) 7 5 sample_ready_db = Inr (OPEN, the (Some (snd (OPEN,
     case reopen_body (cd_closed sample_draws) 7 5 sample_ready_db of Inr (_, x) \<Rightarrow> x | Inl _ \<Rightarrow> sample_ready_db))))"
    unfolding reopen_body_def
    using j k t by (simp add: sample_ready_db_def sample_close_db_def empty_db_def sample_session_def host_session_def
        member_session_def find_session_def is_member_def update_session_def to_open_def record_session_event_ok
        update_rows_def del: u_simps)
  then show ?thesis by (auto simp: reopen_def transaction_def split: sum.splits)
qed

theorem reopen_keeps_documents_witness:
  "\<exists>db'. reopen (cd_closed sample_draws) 7 5 sample_ready_db = (Inr OPEN, db') \<and>
     snapshots db' = snapshots sample_ready_db \<and> exclusions db' = exclusions sample_ready_db"
proof -
  obtain db' where r: "reopen (cd_closed sample_draws) 7 5 sample_ready_db = (Inr OPEN, db')" using sample_reopens by blast
  have f: "find_session sample_ready_db 7 = Some (sample_session\<lparr>ts_state := READY, ts_epoch := 1, ts_version := 2\<rparr>)"
    by (simp add: find_session_def sample_ready_db_def sample_session_def)
  have fr: "activity_frame (sample_ready_db\<lparr>sessions := update_rows (\<lambda>x. ts_id x = 7 \<and> ts_state x = READY) to_open
      (sessions sample_ready_db)\<rparr>) db'"
    using reopen_keeps_documents [OF r f] by (simp add: sample_session_def)
  show ?thesis using r frame_same(7,8) [OF fr] by auto
qed

end
