(* ===== verification/Session_Retry_Properties.thy ===== *)
theory Session_Retry_Properties
  imports Session_Retry Session_Properties
begin

text \<open>
  The properties of the retry, with a sample database: a session whose summary failed.
\<close>

lemma latest_is_current:
  assumes inv: "session_inv db" and s: "find_session db sid = Some s" and l: "latest_snapshot db sid = Some n"
  shows "n \<in> set (snapshots db) \<and> sn_session n = sid \<and> sn_epoch n = ts_epoch s"
proof -
  have n: "n \<in> set (snapshots db)" "sn_session n = sid"
  proof -
    let ?r = "rev (sort_key sn_epoch (filter (\<lambda>n. sn_session n = sid) (snapshots db)))"
    have "?r = n # tl ?r" using l unfolding latest_snapshot_def by (cases ?r) simp_all
    then have "n \<in> set ?r" by (metis list.set_intros(1))
    then show "n \<in> set (snapshots db)" "sn_session n = sid" by simp_all
  qed
  have sm: "s \<in> set (sessions db)" "ts_id s = sid" using find_session_Some [OF s] by simp_all
  then have ok: "session_ok db s" using inv by (simp add: session_inv_def)
  then have "ts_epoch s \<noteq> 0" using n sm by (fastforce simp: session_ok_def)
  then obtain m where m: "m \<in> set (snapshots db)" "sn_session m = sid" "sn_epoch m = ts_epoch s"
    using ok sm by (auto simp: session_ok_def)
  have "latest_snapshot db sid = Some m"
    using inv m ok sm by (intro latest_snapshot_eqI) (auto simp: session_inv_def session_ok_def)
  then show ?thesis using m l by simp
qed

section \<open>Sample database\<close>

definition sample_failed_db :: app_db where
  "sample_failed_db = sample_close_db\<lparr>
     sessions := [sample_session\<lparr>ts_state := NEEDS_ATTENTION, ts_epoch := 1, ts_version := 3\<rparr>],
     snapshots := [\<lparr>sn_id = 50, sn_session = 7, sn_epoch = 1, sn_created_by = 5, sn_topic = u ''t'', sn_pipeline = u ''p1'',
       sn_anchor_version = u ''v1''\<rparr>],
     runs := [(queued_run 60 50 SUMMARY (u ''p1''))\<lparr>gr_state := G_FAILED_RETRYABLE, gr_error := Some (u ''timeout'')\<rparr>,
       (queued_run 61 50 RESEARCH (u ''p1''))\<lparr>gr_state := G_SUCCEEDED\<rparr>],
     jobs := [(new_job_row 70 (u ''k'') (u ''summary'') (Some 50) JNull 1)
       \<lparr>j_state := J_FAILED_RETRYABLE, j_attempts := 1, j_generation := 1, j_error := Some (u ''timeout'')\<rparr>]\<rparr>"

definition sample_retry_draws :: retry_draws where
  "sample_retry_draws = \<lparr>rt_requested = cd_closed sample_draws, rt_processing = cd_processing sample_draws, rt_now = (\<lambda>k. 9)\<rparr>"

lemma failed_metadata:
  "storable (retry_metadata 1 3 1)"
  "storable (state_metadata (u ''needs_attention'') (u ''processing'') 4 @ [(Some (u ''generation_epoch''), MInt 1)])"
  by (simp_all add: storable_def metadata_eval retry_metadata_def)

lemma retry_event_key:
  "build_event_key (u ''session.retry_requested'') (retry_identity sid epoch n) =
     Inr (u ''session:'' @ uuid_text sid @ u '':epoch:'' @ int_text epoch @ u '':retry:'' @ int_text n)"
  by (simp add: build_event_key_def supported_event_types_def event_template_def ustr_startswith_def
    after_last_dot_def retry_identity_def segment_text_def field_def ustr_join_def)

lemma failed_fields:
  "latest_snapshot_id sample_failed_db 7 = Inr 50" "retryable_kinds sample_failed_db 50 = [SUMMARY]"
  "host_session na nh m sample_failed_db 5 7 = Inr (sample_session\<lparr>ts_state := NEEDS_ATTENTION, ts_epoch := 1, ts_version := 3\<rparr>)"
  by (simp_all add: latest_snapshot_id_def latest_snapshot_def retryable_kinds_def host_session_def member_session_def
    find_session_def is_member_def sample_failed_db_def sample_close_db_def sample_session_def empty_db_def queued_run_def
    del: u_simps)

lemma failed_inv: "session_inv sample_failed_db"
proof -
  have "length (runs_for sample_failed_db 50 k) = 1" for k
    by (cases k) (simp_all add: runs_for_def sample_failed_db_def sample_close_db_def empty_db_def queued_run_def del: u_simps)
  then show ?thesis
    by (simp add: session_inv_def session_ok_def)
      (simp add: sample_failed_db_def sample_close_db_def empty_db_def sample_session_def queued_run_def del: u_simps)
qed

lemma failed_retries:
  "\<exists>db'. retry sample_retry_draws 7 5 sample_failed_db =
     (Inr \<lparr>rx_snapshot = 50, rx_state = PROCESSING, rx_kinds = [SUMMARY]\<rparr>, db')"
proof -
  let ?s = "sample_session\<lparr>ts_state := NEEDS_ATTENTION, ts_epoch := 1, ts_version := 3\<rparr>"
  have q: "\<exists>js rs. requeue_kind sample_retry_draws 50 SUMMARY sample_failed_db = Inr (sample_failed_db\<lparr>jobs := js, runs := rs\<rparr>)"
    by (simp add: requeue_kind_Inr retryable_job_def retryable_run_def sample_failed_db_def sample_close_db_def empty_db_def
      queued_run_def new_job_row_def u_inject del: u_simps)
  then obtain js rs where q: "requeue_kind sample_retry_draws 50 SUMMARY sample_failed_db =
      Inr (sample_failed_db\<lparr>jobs := js, runs := rs\<rparr>)" by blast
  obtain j1 j2 where j: "safe_audit_metadata (retry_metadata 1 3 1) = Inr j1" "jsonb_size_at_most 4096 j1"
    "safe_audit_metadata (state_metadata (u ''needs_attention'') (u ''processing'') 4 @ [(Some (u ''generation_epoch''), MInt 1)]) = Inr j2"
    "jsonb_size_at_most 4096 j2"
    using failed_metadata [THEN storable_obtain] by blast
  have keys: "build_event_key (u ''session.processing'') (session_identity 7 4) = Inr (u ''session:'' @ uuid_text 7 @ u '':state-v4:processing'')"
    "build_event_key (u ''session.retry_requested'') (retry_identity 7 1 3) = Inr (u ''session:'' @ uuid_text 7 @ u '':epoch:1:retry:3'')"
    unfolding retry_event_key by (simp_all add: state_event_key after_last_dot_def int_text_def dec_digits.simps)
  have types: "u ''session.retry_requested'' \<in> set supported_event_types" "u ''session.processing'' \<in> set supported_event_types"
    by (simp_all add: supported_event_types_def)
  have ids: "ts_id ?s = 7" "ts_state ?s = NEEDS_ATTENTION" by (simp_all add: sample_session_def)
  have "\<exists>db'. retry_write sample_retry_draws ?s 5 1 (sample_failed_db\<lparr>jobs := js, runs := rs\<rparr>) = Inr db'"
    unfolding retry_write_def Let_def sample_failed_db_def sample_close_db_def empty_db_def
    using j keys types
    by (simp add: sample_session_def sample_retry_draws_def sample_draws_def update_session_def to_retrying_def
        record_session_event_ok update_rows_def next_sequence_def del: u_simps)
  then obtain db' where w: "retry_write sample_retry_draws ?s 5 1 (sample_failed_db\<lparr>jobs := js, runs := rs\<rparr>) = Inr db'" ..
  have "retry_body sample_retry_draws 7 5 sample_failed_db = Inr (\<lparr>rx_snapshot = 50, rx_state = PROCESSING, rx_kinds = [SUMMARY]\<rparr>, db')"
    unfolding retry_body_def by (simp add: failed_fields q w [unfolded One_nat_def])
  then show ?thesis by (simp add: retry_def)
qed

section \<open>Properties\<close>

text \<open>
  C10: a retry requeues exactly what failed.  It succeeds only for the host, a current member, and always speaks
  of the snapshot of the session's current epoch.  On a session in \<open>processing\<close> it changes nothing.  On a session
  in \<open>needs_attention\<close> it requeues every retryable run of that snapshot, at least one and each kind once: those runs
  are \<open>queued\<close>, their one job each is \<open>pending\<close>, the session is \<open>processing\<close> with one more version and retry, and
  apart from the appended ledger nothing else changes; no snapshot, run or job is created.
\<close>

theorem retry_requeues_exactly_failed:
  assumes "session_inv db" and "retry d sid actor db = (Inr v, db')" and "find_session db sid = Some s"
  shows "is_member db (ts_room s) actor \<and> ts_host s = actor \<and> rx_state v = PROCESSING \<and>
    (\<exists>n \<in> set (snapshots db). sn_session n = sid \<and> sn_epoch n = ts_epoch s \<and> rx_snapshot v = sn_id n \<and>
      (ts_state s = PROCESSING \<and> rx_kinds v = [] \<and> db' = db \<or>
       ts_state s = NEEDS_ATTENTION \<and> rx_kinds v \<noteq> [] \<and> distinct (rx_kinds v) \<and>
         set (rx_kinds v) = gr_kind ` {r \<in> set (runs db). gr_snapshot r = sn_id n \<and> gr_state r = G_FAILED_RETRYABLE} \<and>
         (\<forall>k \<in> set (rx_kinds v). hits (retryable_job (sn_id n) k) (jobs db) = 1) \<and>
         retries d s (sn_id n) db db'))"
proof -
  have "retry_body d sid actor db = Inr (v, db')" using assms(2) by (simp add: retry_def transaction_Inr_iff)
  from retry_body_Inr [OF this] assms(3) obtain n where n: "is_member db (ts_room s) actor" "ts_host s = actor"
    "latest_snapshot db sid = Some n" and
    c: "ts_state s = PROCESSING \<and> v = \<lparr>rx_snapshot = sn_id n, rx_state = PROCESSING, rx_kinds = []\<rparr> \<and> db' = db \<or>
     ts_state s = NEEDS_ATTENTION \<and> retryable_kinds db (sn_id n) \<noteq> [] \<and> distinct (retryable_kinds db (sn_id n)) \<and>
     v = \<lparr>rx_snapshot = sn_id n, rx_state = PROCESSING, rx_kinds = retryable_kinds db (sn_id n)\<rparr> \<and>
     (\<forall>k \<in> set (retryable_kinds db (sn_id n)). hits (retryable_job (sn_id n) k) (jobs db) = 1) \<and>
     retries d s (sn_id n) db db'"
    by (auto simp: member_session_Some)
  have kinds: "set (retryable_kinds db (sn_id n)) = gr_kind ` {r \<in> set (runs db). gr_snapshot r = sn_id n \<and> gr_state r = G_FAILED_RETRYABLE}"
    by (auto simp: retryable_kinds_def)
  from latest_is_current [OF assms(1,3) n(3)] show ?thesis
    using n(1,2) c kinds by (intro conjI bexI [of _ n]) auto
qed

theorem retry_requeues_exactly_failed_witness:
  "\<exists>db'. retry sample_retry_draws 7 5 sample_failed_db =
     (Inr \<lparr>rx_snapshot = 50, rx_state = PROCESSING, rx_kinds = [SUMMARY]\<rparr>, db') \<and>
     hits (retryable_job 50 SUMMARY) (jobs sample_failed_db) = 1"
proof -
  obtain db' where r: "retry sample_retry_draws 7 5 sample_failed_db =
     (Inr \<lparr>rx_snapshot = 50, rx_state = PROCESSING, rx_kinds = [SUMMARY]\<rparr>, db')" using failed_retries by blast
  have f: "find_session sample_failed_db 7 = Some (sample_session\<lparr>ts_state := NEEDS_ATTENTION, ts_epoch := 1, ts_version := 3\<rparr>)"
    by (simp add: find_session_def sample_failed_db_def sample_session_def)
  have st: "ts_state (sample_session\<lparr>ts_state := NEEDS_ATTENTION, ts_epoch := 1, ts_version := 3\<rparr>) = NEEDS_ATTENTION" by simp
  from retry_requeues_exactly_failed [OF failed_inv r f] show ?thesis using r by auto
qed

text \<open>
  A retry is all or nothing.  When one retryable run of the current snapshot has no single retryable job (the
  worker has already put it back to \<open>pending\<close>, say) the host's retry fails and changes nothing, whatever the other
  runs are.
\<close>

theorem retry_all_or_nothing:
  assumes "find_session db sid = Some s" and "ts_state s = NEEDS_ATTENTION" and "latest_snapshot db sid = Some n"
    and "k \<in> set (retryable_kinds db (sn_id n))" and "hits (retryable_job (sn_id n) k) (jobs db) \<noteq> 1"
  shows "\<exists>e. retry d sid actor db = (Inl e, db)"
proof (cases "retry_body d sid actor db")
  case (Inl e)
  then show ?thesis by (simp add: retry_def)
next
  case (Inr p)
  then obtain v db' where "retry_body d sid actor db = Inr (v, db')" by (cases p) simp
  from retry_body_Inr [OF this] assms show ?thesis by (auto simp: member_session_Some)
qed

theorem retry_all_or_nothing_witness:
  "\<exists>e. retry sample_retry_draws 7 5 (sample_failed_db\<lparr>jobs := map (requeue_row 8) (jobs sample_failed_db)\<rparr>) =
     (Inl e, sample_failed_db\<lparr>jobs := map (requeue_row 8) (jobs sample_failed_db)\<rparr>)"
  by (rule retry_all_or_nothing [where k = SUMMARY and
        s = "sample_session\<lparr>ts_state := NEEDS_ATTENTION, ts_epoch := 1, ts_version := 3\<rparr>" and
        n = "\<lparr>sn_id = 50, sn_session = 7, sn_epoch = 1, sn_created_by = 5, sn_topic = u ''t'', sn_pipeline = u ''p1'',
          sn_anchor_version = u ''v1''\<rparr>"])
    (simp_all add: find_session_def latest_snapshot_def retryable_kinds_def retryable_job_def requeue_row_def queued_run_def
      sample_failed_db_def sample_close_db_def empty_db_def sample_session_def new_job_row_def del: u_simps)

end
