(* ===== verification/Generation_Persist.thy ===== *)
theory Generation_Persist
  imports Session_Close
begin

text \<open>
  \<open>apps/api/app/generation_repository.py\<close>, writing: the checks of a completion, the statements that persist a
  successful or failed run inside the queue's completion transaction, and the projection of the two canonical
  runs onto the session.

  \<^item> The constraints and constraint triggers of migration 0001 on the generated tables are checked at each
    insertion: document kind, citation provenance, claim provenance, uniqueness.
  \<^item> \<open>sha256\<close> is \<open>hashlib.sha256(...).hexdigest()\<close>; the CHECK on the form of a hash is always met by one.
  \<^item> A JSON number in \<open>structured_content\<close> is an int or a float, a key a string.  Persisted columns have their
    declared types, so the \<open>_uuid_column\<close> checks are the typing of the rows.
\<close>

section \<open>Values to persist\<close>

record segment_write =
  sw_id :: uuid
  sw_ordinal :: int
  sw_text :: ustr

definition make_segment_write :: "uuid \<Rightarrow> int \<Rightarrow> ustr \<Rightarrow> app_error + segment_write" where
  "make_segment_write i ordinal text =
     require (\<not> ordinal < 0) (ValueError (u ''generated segment ordinal must not be negative''))
     (require (\<not> is_blank text) (ValueError (u ''generated segment text must not be blank''))
        (Inr \<lparr>sw_id = i, sw_ordinal = ordinal, sw_text = text\<rparr>))"

datatype citation_write =
    CitationWrite (cw_id: uuid) (cw_segment: uuid) (cw_target: uuid)
  | WebCitationWrite (cw_id: uuid) (cw_segment: uuid) (cw_target: uuid)

definition is_web_citation :: "citation_write \<Rightarrow> bool" where
  "is_web_citation c \<longleftrightarrow> (case c of WebCitationWrite _ _ _ \<Rightarrow> True | _ \<Rightarrow> False)"

text \<open>\<open>re.fullmatch(r"[0-9a-f]{64}", ...)\<close>\<close>

definition is_sha256_hex :: "ustr \<Rightarrow> bool" where
  "is_sha256_hex s \<longleftrightarrow> length s = 64 \<and> list_all (\<lambda>c. 48 \<le> c \<and> c \<le> 57 \<or> 97 \<le> c \<and> c \<le> 102) s"

record evidence_write =
  ew_id :: uuid
  ew_url :: ustr
  ew_title :: ustr
  ew_domain :: ustr
  ew_accessed_at :: py_datetime
  ew_snippet_hash :: ustr

definition make_evidence_write ::
  "uuid \<Rightarrow> ustr \<Rightarrow> ustr \<Rightarrow> ustr \<Rightarrow> py_datetime \<Rightarrow> ustr \<Rightarrow> app_error + evidence_write" where
  "make_evidence_write i url title domain accessed h =
     require (\<not> is_blank url \<and> \<not> is_blank title \<and> \<not> is_blank domain)
       (ValueError (u ''web evidence fields must not be blank''))
     (require (is_sha256_hex h) (ValueError (u ''web evidence snippet hash must be lowercase sha256''))
     (require (dt_aware accessed) (ValueError (u ''web evidence accessed_at must be timezone-aware''))
        (Inr \<lparr>ew_id = i, ew_url = url, ew_title = title, ew_domain = domain, ew_accessed_at = accessed,
              ew_snippet_hash = h\<rparr>)))"

record claim_write =
  rw_id :: uuid
  rw_text :: ustr
  rw_anchor :: uuid
  rw_verdict :: verdict
  rw_explanation :: ustr

definition make_claim_write :: "uuid \<Rightarrow> ustr \<Rightarrow> uuid \<Rightarrow> verdict \<Rightarrow> ustr \<Rightarrow> app_error + claim_write" where
  "make_claim_write i text anchor v explanation =
     require (\<not> (is_blank text \<or> is_blank explanation))
       (ValueError (u ''research claim text and explanation must not be blank''))
       (Inr \<lparr>rw_id = i, rw_text = text, rw_anchor = anchor, rw_verdict = v, rw_explanation = explanation\<rparr>)"

record completion =
  gc_snapshot :: uuid
  gc_kind :: ustr
  gc_pipeline :: ustr
  gc_document :: uuid
  gc_content :: "(ustr \<times> json) list"
  gc_segments :: "segment_write list"
  gc_citations :: "citation_write list"
  gc_evidence :: "evidence_write list"
  gc_claims :: "claim_write list"
  gc_provider :: ustr
  gc_model :: ustr
  gc_prompt :: ustr

section \<open>Isolation of the content\<close>

definition summary_forbidden_keys :: "ustr list" where
  "summary_forbidden_keys =
     [u ''alias'', u ''fixture_alias'', u ''fixture_id'', u ''web_evidence'', u ''web_evidence_ids'', u ''url'', u ''verdict'']"

definition fixture_forbidden_keys :: "ustr list" where
  "fixture_forbidden_keys = [u ''alias'', u ''fixture_alias'', u ''fixture_id'', u ''source_anchor_alias'']"

text \<open>
  The inner function \<open>walk\<close> of both isolation checks, for a list of forbidden keys: the first mapping with a
  forbidden key, in traversal order, decides the error.
\<close>

fun walk_isolated :: "ustr list \<Rightarrow> (ustr list \<Rightarrow> 'e) \<Rightarrow> json \<Rightarrow> 'e + unit"
  and walk_members :: "ustr list \<Rightarrow> (ustr list \<Rightarrow> 'e) \<Rightarrow> (ustr \<times> json) list \<Rightarrow> 'e + unit"
  and walk_list :: "ustr list \<Rightarrow> (ustr list \<Rightarrow> 'e) \<Rightarrow> json list \<Rightarrow> 'e + unit"
where
  "walk_isolated bad err (JObj kvs) =
     (let forbidden = sort (remdups (filter (\<lambda>k. k \<in> set bad) (map fst kvs)))
      in require (forbidden = []) (err forbidden) (walk_members bad err kvs))"
| "walk_isolated bad err (JList xs) = walk_list bad err xs"
| "walk_isolated bad err JNull = Inr ()"
| "walk_isolated bad err (JBool b) = Inr ()"
| "walk_isolated bad err (JInt i) = Inr ()"
| "walk_isolated bad err (JFloat r) = Inr ()"
| "walk_isolated bad err (JStr s) = Inr ()"
| "walk_members bad err [] = Inr ()"
| "walk_members bad err ((k, v) # rest) = and_then (walk_isolated bad err v) (\<lambda>_. walk_members bad err rest)"
| "walk_list bad err [] = Inr ()"
| "walk_list bad err (x # rest) = and_then (walk_isolated bad err x) (\<lambda>_. walk_list bad err rest)"

definition assert_summary_isolated :: "(ustr \<times> json) list \<Rightarrow> app_error + unit" where
  "assert_summary_isolated content =
     walk_isolated summary_forbidden_keys
       (\<lambda>ks. ValueError (u ''summary content contains forbidden isolation fields: '' @ ustr_join (u '', '') ks))
       (JObj content)"

definition assert_no_fixture_aliases :: "(ustr \<times> json) list \<Rightarrow> app_error + unit" where
  "assert_no_fixture_aliases content =
     walk_isolated fixture_forbidden_keys
       (\<lambda>ks. GenerationRepositoryError (u ''persisted content exposes fixture aliases'')) (JObj content)"

text \<open>The keys of every mapping at any depth: what the two checks speak of.\<close>

fun deep_keys :: "json \<Rightarrow> ustr set" where
  "deep_keys (JObj kvs) = fst ` set kvs \<union> (\<Union>(k, v) \<in> set kvs. deep_keys v)"
| "deep_keys (JList xs) = (\<Union>x \<in> set xs. deep_keys x)"
| "deep_keys _ = {}"

lemma walk_ok:
  "walk_isolated bad err v = Inr () \<longleftrightarrow> deep_keys v \<inter> set bad = {}"
  "walk_members bad err kvs = Inr () \<longleftrightarrow> (\<Union>(k, v) \<in> set kvs. deep_keys v) \<inter> set bad = {}"
  "walk_list bad err xs = Inr () \<longleftrightarrow> (\<Union>x \<in> set xs. deep_keys x) \<inter> set bad = {}"
  by (induction bad err v and bad err kvs and bad err xs rule: walk_isolated_walk_members_walk_list.induct)
    (auto simp: and_then_Inr sort_Nil_iff filter_empty_conv Let_def)

section \<open>Checks of a completion\<close>

definition content_bytes :: "(ustr \<times> json) list \<Rightarrow> app_error + nat list" where
  "content_bytes content =
     (case canonical_json_bytes (JObj content) of
        None \<Rightarrow> Inl (GenerationRepositoryError (u ''generation content must be finite JSON''))
      | Some b \<Rightarrow> Inr b)"

definition check_summary_completion :: "completion \<Rightarrow> app_error + unit" where
  "check_summary_completion c =
     (let segment_ids = sw_id ` set (gc_segments c);
          sources = filter (\<lambda>x. \<not> is_web_citation x) (gc_citations c)
      in require (gc_segments c \<noteq> [] \<and> gc_citations c \<noteq> [])
           (ValueError (u ''summary completion requires segments and source citations''))
         (require (gc_evidence c = [] \<and> gc_claims c = [] \<and> filter is_web_citation (gc_citations c) = [])
           (ValueError (u ''summary completion cannot contain research persistence''))
         (require (cw_segment ` set (gc_citations c) = segment_ids)
           (ValueError (u ''every summary segment requires a source citation''))
         (require (card ((\<lambda>x. (cw_segment x, cw_target x)) ` set sources) = length (gc_citations c))
           (ValueError (u ''summary citations must not duplicate a segment/anchor pair''))
           (assert_summary_isolated (gc_content c))))))"

definition check_completion_write :: "completion \<Rightarrow> app_error + unit" where
  "check_completion_write c =
     (let segment_ids = sw_id ` set (gc_segments c); evidence_ids = ew_id ` set (gc_evidence c)
      in require (gc_kind c \<in> {u ''summary'', u ''research''})
           (ValueError (u ''generation completion kind must be summary or research''))
         (require (\<not> is_blank (gc_pipeline c)) (ValueError (u ''pipeline_version must not be blank''))
         (require (\<not> is_blank (gc_provider c)) (ValueError (u ''provider must not be blank''))
         (require (\<not> is_blank (gc_model c)) (ValueError (u ''model must not be blank''))
         (require (\<not> is_blank (gc_prompt c)) (ValueError (u ''prompt_version must not be blank''))
         (and_then (content_bytes (gc_content c)) (\<lambda>_.
          require (distinct (map sw_id (gc_segments c))) (ValueError (u ''generated segment IDs must be unique''))
         (require (set (map sw_ordinal (gc_segments c)) = set (map int [0..<length (gc_segments c)]))
           (ValueError (u ''generated segment ordinals must be contiguous from zero''))
         (require (distinct (map cw_id (gc_citations c))) (ValueError (u ''citation IDs must be unique''))
         (require (list_all (\<lambda>x. cw_segment x \<in> segment_ids) (gc_citations c))
           (ValueError (u ''citation must target a generated segment''))
         (require (distinct (map ew_id (gc_evidence c))) (ValueError (u ''web evidence IDs must be unique''))
         (require (list_all (\<lambda>x. cw_target x \<in> evidence_ids) (filter is_web_citation (gc_citations c)))
           (ValueError (u ''web citation must target completion web evidence''))
         (require (distinct (map rw_id (gc_claims c))) (ValueError (u ''research claim IDs must be unique''))
         (if gc_kind c = u ''summary'' then check_summary_completion c
          else require (\<not> (gc_claims c \<noteq> [] \<and> gc_evidence c = []))
                 (ValueError (u ''research claims require web evidence'')) (Inr ())))))))))))))))"

definition content_hash :: "(nat list \<Rightarrow> ustr) \<Rightarrow> completion \<Rightarrow> app_error + ustr" where
  "content_hash sha256 c = and_then (content_bytes (gc_content c)) (\<lambda>b. Inr (sha256 b))"

definition job_result :: "(nat list \<Rightarrow> ustr) \<Rightarrow> completion \<Rightarrow> app_error + (ustr \<times> json) list" where
  "job_result sha256 c =
     and_then (content_hash sha256 c) (\<lambda>h. Inr
       [(u ''snapshot_id'', JStr (uuid_text (gc_snapshot c))), (u ''kind'', JStr (gc_kind c)),
        (u ''document_id'', JStr (uuid_text (gc_document c))), (u ''content_hash'', JStr h),
        (u ''status'', JStr (u ''succeeded''))])"

section \<open>Projecting the runs onto the session\<close>

definition run_view :: "run_row \<Rightarrow> app_error + generation_run_view" where
  "run_view r =
     require (case gr_error r of None \<Rightarrow> True | Some e \<Rightarrow> \<not> is_blank e)
       (GenerationRepositoryError (u ''generation error must be null or non-empty text''))
       (lift_domain (make_generation_run_view (gr_kind r) (gr_state r) (gr_error r)))"

definition snapshot_runs :: "'z app_db_scheme \<Rightarrow> uuid \<Rightarrow> run_row list" where
  "snapshot_runs db sn = sort_key (\<lambda>r. generation_kind_value (gr_kind r)) (filter (\<lambda>r. gr_snapshot r = sn) (runs db))"

record aggregate_result =
  ag_session :: uuid
  ag_state :: talk_session_state
  ag_reasons :: "ustr list"
  ag_to_ready :: bool

definition current_members :: "'z app_db_scheme \<Rightarrow> uuid \<Rightarrow> uuid list" where
  "current_members db room = sort (map mb_user (filter (\<lambda>m. mb_room m = room \<and> \<not> mb_left m) (memberships db)))"

text \<open>The Korean title and body: "the analysis is complete", "you can see the summary and the research".\<close>

definition analysis_title :: ustr where
  "analysis_title = [48516, 49437, 51060, 32, 50756, 47308, 46104, 50632, 49845, 45768, 45796]"

definition analysis_body :: ustr where
  "analysis_body =
     [54924, 51032, 32, 50836, 50557, 44284, 32, 47532, 49436, 52824, 32, 44208, 44284, 47484, 32, 54869, 51064,
      54624, 32, 49688, 32, 51080, 49845, 45768, 45796, 46]"

definition analysis_effect :: "uuid list \<Rightarrow> uuid \<Rightarrow> int \<Rightarrow> notification_effect" where
  "analysis_effect recipients sid epoch =
     \<lparr>ne_recipients = recipients, ne_kind = u ''analysis_completed'', ne_resource_type = u ''session'',
      ne_resource_id = sid, ne_action = u ''open_session'', ne_title = analysis_title, ne_body = analysis_body,
      ne_template = u ''analysis_completed'',
      ne_data = [(Some (u ''session_id''), MStr (uuid_text sid)), (Some (u ''generation_epoch''), MInt epoch)],
      ne_dedupe = Some (u ''analysis:'' @ uuid_text sid @ u '':'' @ int_text epoch)\<rparr>"

definition aggregate_metadata ::
  "talk_session_state \<Rightarrow> talk_session_state \<Rightarrow> int \<Rightarrow> ustr list \<Rightarrow> (ustr option \<times> meta) list" where
  "aggregate_metadata before after epoch reasons =
     [(Some (u ''previous_state''), MStr (session_state_value before)),
      (Some (u ''state''), MStr (session_state_value after)),
      (Some (u ''generation_epoch''), MInt epoch), (Some (u ''reason_codes''), MList (map MStr reasons))]"

definition suggestions_job :: "uuid \<Rightarrow> uuid \<Rightarrow> ustr \<Rightarrow> int \<Rightarrow> job_row" where
  "suggestions_job jid sn pipeline now =
     new_job_row jid (u ''report-suggestions:'' @ uuid_text sn @ u '':'' @ pipeline) (u ''report_suggestions'') (Some sn)
       (JObj [(u ''snapshot_id'', JStr (uuid_text sn)), (u ''kind'', JStr (u ''report_suggestions'')),
              (u ''pipeline_version'', JStr pipeline)]) now"

definition project_state :: "talk_session_state \<Rightarrow> int \<Rightarrow> session_row \<Rightarrow> session_row" where
  "project_state st v s = s\<lparr>ts_state := st, ts_version := v\<rparr>"

record persist_draws =
  pd_activity :: activity_draws
  pd_job :: uuid
  pd_now :: int

text \<open>The part of \<open>recompute_aggregate\<close> that applies a changed state.\<close>

definition apply_projection ::
  "persist_draws \<Rightarrow> session_row \<Rightarrow> talk_session_state \<Rightarrow> ustr list \<Rightarrow> 'z app_db_scheme \<Rightarrow> app_error + 'z app_db_scheme" where
  "apply_projection d s st reasons db =
     (let sid = ts_id s; v = ts_version s + 1 in
      and_then (update_session (\<lambda>x. ts_id x = sid) (project_state st v)
         (GenerationRepositoryError (u ''talk session aggregate update was lost'')) db) (\<lambda>db1.
      and_then (build_event_key (u ''session.'' @ session_state_value st) (session_identity sid v)) (\<lambda>key.
      and_then (record_activity (pd_activity d)
         \<lparr>na_key = key, na_type = u ''session.'' @ session_state_value st, na_actor = None, na_scope = SC_SESSION,
          na_audience = None, na_room = Some (ts_room s), na_session = Some sid, na_entity_type = u ''session'',
          na_entity_id = sid, na_metadata = aggregate_metadata (ts_state s) st (ts_epoch s) reasons\<rparr>
         (if st = READY then [analysis_effect (current_members db1 (ts_room s)) sid (ts_epoch s)] else []) db1)
       (\<lambda>(r, db2). Inr db2))))"

definition recompute_aggregate ::
  "persist_draws \<Rightarrow> uuid \<Rightarrow> 'z app_db_scheme \<Rightarrow> app_error + aggregate_result \<times> 'z app_db_scheme" where
  "recompute_aggregate d sn db =
     (case find (\<lambda>n. sn_id n = sn) (snapshots db) of
        None \<Rightarrow> Inl (GenerationRepositoryError (u ''generation snapshot does not exist''))
      | Some n \<Rightarrow>
     (case find_session db (sn_session n) of
        None \<Rightarrow> Inl (GenerationRepositoryError (u ''generation snapshot does not exist''))
      | Some s \<Rightarrow>
      require (\<not> is_blank (sn_pipeline n)) (GenerationRepositoryError (u ''pipeline version must be non-empty text''))
      (and_then (map_result run_view (snapshot_runs db sn)) (\<lambda>views.
      and_then (lift_domain (project_generation_aggregate views)) (\<lambda>projection.
      let st = ga_state projection; reasons = map ar_code (ga_reasons projection);
          changed = (ts_state s \<noteq> st)
      in and_then (if changed then apply_projection d s st reasons db else Inr db) (\<lambda>db1.
         and_then (if st = READY
                   then insert_job_if_new (suggestions_job (pd_job d) sn (sn_pipeline n) (pd_now d)) db1
                   else Inr db1) (\<lambda>db2.
         Inr (\<lparr>ag_session = ts_id s, ag_state = st, ag_reasons = reasons, ag_to_ready = changed \<and> st = READY\<rparr>, db2))))))))"

section \<open>Persisting a result\<close>

definition writable_run :: "uuid \<Rightarrow> ustr \<Rightarrow> ustr \<Rightarrow> run_row \<Rightarrow> bool" where
  "writable_run sn kind pipeline r \<longleftrightarrow>
     gr_snapshot r = sn \<and> generation_kind_value (gr_kind r) = kind \<and> gr_pipeline r = pipeline \<and>
     gr_state r \<in> {G_QUEUED, G_RUNNING, G_FAILED_RETRYABLE}"

definition succeeded_run :: "completion \<Rightarrow> int \<Rightarrow> run_row \<Rightarrow> run_row" where
  "succeeded_run c now r =
     r\<lparr>gr_state := G_SUCCEEDED, gr_provider := gc_provider c, gr_model := gc_model c, gr_prompt := gc_prompt c,
       gr_error := None, gr_completed_at := Some now\<rparr>"

text \<open>\<open>_mark_run_succeeded\<close>: the first row returned gives the run id.\<close>

definition mark_run_succeeded :: "completion \<Rightarrow> int \<Rightarrow> 'z app_db_scheme \<Rightarrow> app_error + uuid \<times> 'z app_db_scheme" where
  "mark_run_succeeded c now db =
     (let p = writable_run (gc_snapshot c) (gc_kind c) (gc_pipeline c) in
      case find p (runs db) of
        None \<Rightarrow> Inl (GenerationRepositoryError (u ''canonical generation run is not writable''))
      | Some r \<Rightarrow> Inr (gr_id r, db\<lparr>runs := update_rows p (succeeded_run c now) (runs db)\<rparr>))"

text \<open>Triggers \<open>axit_assert_generated_document_kind\<close>, \<open>axit_assert_citation_snapshot_provenance\<close> and
  \<open>axit_assert_research_claim_snapshot_provenance\<close>.\<close>

definition document_kind_ok :: "'z app_db_scheme \<Rightarrow> document_row \<Rightarrow> bool" where
  "document_kind_ok db x \<longleftrightarrow> list_ex (\<lambda>r. gr_id r = gd_run x \<and> gr_kind r = gd_kind x) (runs db)"

definition insert_document :: "document_row \<Rightarrow> 'z app_db_scheme \<Rightarrow> app_error + 'z app_db_scheme" where
  "insert_document x db =
     require (fresh gd_id x (documents db) \<and> fresh gd_run x (documents db)) (PgError UniqueViolation)
     (require (document_kind_ok db x) (PgError CheckViolation)
       (Inr (db\<lparr>documents := documents db @ [x]\<rparr>)))"

definition insert_segment :: "segment_row \<Rightarrow> 'z app_db_scheme \<Rightarrow> app_error + 'z app_db_scheme" where
  "insert_segment x db =
     require (0 \<le> sg_ordinal x) (PgError CheckViolation)
     (require (fresh sg_id x (segments db) \<and> fresh (\<lambda>y. (sg_document y, sg_ordinal y)) x (segments db))
       (PgError UniqueViolation) (Inr (db\<lparr>segments := segments db @ [x]\<rparr>)))"

definition anchor_pinned :: "'z app_db_scheme \<Rightarrow> uuid \<Rightarrow> uuid \<Rightarrow> bool" where
  "anchor_pinned db sn anchor \<longleftrightarrow>
     list_ex (\<lambda>a. an_id a = anchor \<and>
       list_ex (\<lambda>p. pn_snapshot p = sn \<and> pn_revision p = an_revision a \<and> pn_run p = an_run a) (pinned db)) (anchors db)"

definition segment_document :: "'z app_db_scheme \<Rightarrow> uuid \<Rightarrow> document_row option" where
  "segment_document db segment =
     (case find (\<lambda>g. sg_id g = segment) (segments db) of
        None \<Rightarrow> None
      | Some g \<Rightarrow> find (\<lambda>x. gd_id x = sg_document g) (documents db))"

definition citation_ok :: "'z app_db_scheme \<Rightarrow> citation_row \<Rightarrow> bool" where
  "citation_ok db c \<longleftrightarrow>
     (case segment_document db (ct_segment c) of
        None \<Rightarrow> False
      | Some x \<Rightarrow>
          (case ct_target c of
             WebEvidence i \<Rightarrow> gd_kind x \<noteq> SUMMARY
           | SourceAnchor i \<Rightarrow>
               list_ex (\<lambda>r. gr_id r = gd_run x \<and> anchor_pinned db (gr_snapshot r) i) (runs db)))"

definition insert_citation :: "citation_row \<Rightarrow> 'z app_db_scheme \<Rightarrow> app_error + 'z app_db_scheme" where
  "insert_citation c db =
     require (fresh ct_id c (citations db)) (PgError UniqueViolation)
     (require (citation_ok db c) (PgError CheckViolation)
       (Inr (db\<lparr>citations := citations db @ [c]\<rparr>)))"

definition claim_ok :: "'z app_db_scheme \<Rightarrow> claim_row \<Rightarrow> bool" where
  "claim_ok db c \<longleftrightarrow>
     list_ex (\<lambda>r. gr_id r = rc_run c \<and> gr_kind r = RESEARCH \<and> anchor_pinned db (gr_snapshot r) (rc_anchor c)) (runs db)"

definition insert_claim :: "claim_row \<Rightarrow> 'z app_db_scheme \<Rightarrow> app_error + 'z app_db_scheme" where
  "insert_claim c db =
     require (fresh rc_id c (claims db)) (PgError UniqueViolation)
     (require (claim_ok db c) (PgError CheckViolation) (Inr (db\<lparr>claims := claims db @ [c]\<rparr>)))"

text \<open>
  The URL constraints of \<open>web_evidence\<close>: \<open>^https?://[^/@[:space:]]+\<close>, no user information, no line break.
  White space is the ASCII one: what else the database's locale calls space is left out.
\<close>

definition after_scheme :: "ustr \<Rightarrow> ustr option" where
  "after_scheme url =
     (if ustr_startswith (u ''https://'') url then Some (drop 8 url)
      else if ustr_startswith (u ''http://'') url then Some (drop 7 url) else None)"

definition pg_isspace :: "nat \<Rightarrow> bool" where
  "pg_isspace c \<longleftrightarrow> 9 \<le> c \<and> c \<le> 13 \<or> c = 32"

definition evidence_url_ok :: "ustr \<Rightarrow> bool" where
  "evidence_url_ok url \<longleftrightarrow>
     (case after_scheme url of
        None \<Rightarrow> False
      | Some rest \<Rightarrow>
          (case rest of [] \<Rightarrow> False | c # _ \<Rightarrow> c \<noteq> 47 \<and> c \<noteq> 64 \<and> \<not> pg_isspace c) \<and>
          64 \<notin> set (takeWhile (\<lambda>c. c \<noteq> 47) rest)) \<and>
     10 \<notin> set url \<and> 13 \<notin> set url"

definition insert_evidence :: "evidence_row \<Rightarrow> 'z app_db_scheme \<Rightarrow> app_error + 'z app_db_scheme" where
  "insert_evidence e db =
     require (evidence_url_ok (ev_url e) \<and> is_sha256_hex (ev_snippet_hash e)) (PgError CheckViolation)
     (require (fresh ev_id e (evidence db)) (PgError UniqueViolation) (Inr (db\<lparr>evidence := evidence db @ [e]\<rparr>)))"

definition citation_row_of :: "citation_write \<Rightarrow> citation_row" where
  "citation_row_of c =
     (case c of
        CitationWrite i g a \<Rightarrow> \<lparr>ct_id = i, ct_segment = g, ct_target = SourceAnchor a\<rparr>
      | WebCitationWrite i g e \<Rightarrow> \<lparr>ct_id = i, ct_segment = g, ct_target = WebEvidence e\<rparr>)"

definition evidence_row_of :: "evidence_write \<Rightarrow> evidence_row" where
  "evidence_row_of e =
     \<lparr>ev_id = ew_id e, ev_url = ew_url e, ev_title = ew_title e, ev_domain = ew_domain e,
      ev_accessed_at = dt_instant (ew_accessed_at e), ev_snippet_hash = ew_snippet_hash e\<rparr>"

definition claim_row_of :: "uuid \<Rightarrow> claim_write \<Rightarrow> claim_row" where
  "claim_row_of run w =
     \<lparr>rc_id = rw_id w, rc_run = run, rc_text = rw_text w, rc_anchor = rw_anchor w, rc_verdict = rw_verdict w,
      rc_explanation = rw_explanation w\<rparr>"

definition completion_kind :: "completion \<Rightarrow> generation_kind" where
  "completion_kind c = (if gc_kind c = u ''summary'' then SUMMARY else RESEARCH)"

definition document_of :: "(nat list \<Rightarrow> ustr) \<Rightarrow> completion \<Rightarrow> uuid \<Rightarrow> app_error + document_row" where
  "document_of sha256 c run =
     and_then (content_hash sha256 c) (\<lambda>h. Inr
       \<lparr>gd_id = gc_document c, gd_run = run, gd_kind = completion_kind c, gd_content = gc_content c, gd_hash = h\<rparr>)"

definition persist_artifact ::
  "(nat list \<Rightarrow> ustr) \<Rightarrow> completion \<Rightarrow> int \<Rightarrow> 'z app_db_scheme \<Rightarrow> app_error + 'z app_db_scheme" where
  "persist_artifact sha256 c now db =
     and_then (mark_run_succeeded c now db) (\<lambda>(run, db1).
     and_then (document_of sha256 c run) (\<lambda>x.
     and_then (insert_document x db1) (\<lambda>db2.
     and_then (fold_result (\<lambda>g. insert_segment
        \<lparr>sg_id = sw_id g, sg_document = gc_document c, sg_ordinal = sw_ordinal g, sg_text = sw_text g\<rparr>)
        (gc_segments c) db2) (\<lambda>db3.
     and_then (fold_result (\<lambda>e. insert_evidence (evidence_row_of e)) (gc_evidence c) db3) (\<lambda>db4.
     and_then (fold_result (\<lambda>x. insert_citation (citation_row_of x)) (gc_citations c) db4) (\<lambda>db5.
     fold_result (\<lambda>w. insert_claim (claim_row_of run w)) (gc_claims c) db5))))))"

text \<open>\<open>GenerationRepository.persist_success\<close>, \<open>persist_failure\<close> and \<open>mark_running\<close>.\<close>

definition persist_success ::
  "(nat list \<Rightarrow> ustr) \<Rightarrow> persist_draws \<Rightarrow> completion \<Rightarrow> 'z app_db_scheme \<Rightarrow>
   app_error + aggregate_result \<times> 'z app_db_scheme" where
  "persist_success sha256 d c db =
     and_then (persist_artifact sha256 c (pd_now d) db) (recompute_aggregate d (gc_snapshot c))"

text \<open>\<open>^[a-z0-9][a-z0-9_]{0,127}$\<close> with \<open>fullmatch\<close>\<close>

definition error_code_char :: "nat \<Rightarrow> bool" where
  "error_code_char c \<longleftrightarrow> 97 \<le> c \<and> c \<le> 122 \<or> 48 \<le> c \<and> c \<le> 57"

definition is_error_code :: "ustr \<Rightarrow> bool" where
  "is_error_code s \<longleftrightarrow>
     (case s of
        [] \<Rightarrow> False
      | c # rest \<Rightarrow> error_code_char c \<and> length rest \<le> 127 \<and> list_all (\<lambda>d. error_code_char d \<or> d = 95) rest)"

definition failed_run :: "generation_run_state \<Rightarrow> ustr \<Rightarrow> int \<Rightarrow> run_row \<Rightarrow> run_row" where
  "failed_run st code now r = r\<lparr>gr_state := st, gr_error := Some code, gr_completed_at := Some now\<rparr>"

definition persist_failure ::
  "persist_draws \<Rightarrow> uuid \<Rightarrow> ustr \<Rightarrow> ustr \<Rightarrow> ustr \<Rightarrow> bool \<Rightarrow> 'z app_db_scheme \<Rightarrow>
   app_error + aggregate_result \<times> 'z app_db_scheme" where
  "persist_failure d sn kind pipeline error_code retryable db =
     require (kind \<in> {u ''summary'', u ''research''}) (GenerationRepositoryError (u ''unsupported generation kind''))
     (require (\<not> is_blank pipeline) (GenerationRepositoryError (u ''pipeline_version must not be blank''))
     (require (is_error_code error_code)
       (GenerationRepositoryError (u ''error_code must be a typed lowercase token''))
     (let p = writable_run sn kind pipeline;
          st = (if retryable then G_FAILED_RETRYABLE else G_FAILED_TERMINAL)
      in require (hits p (runs db) = 1) (GenerationRepositoryError (u ''canonical generation run is not writable''))
           (recompute_aggregate d sn (db\<lparr>runs := update_rows p (failed_run st error_code (pd_now d)) (runs db)\<rparr>)))))"

definition mark_running :: "uuid \<Rightarrow> ustr \<Rightarrow> ustr \<Rightarrow> 'z app_db_scheme \<Rightarrow> app_error + 'z app_db_scheme" where
  "mark_running sn kind pipeline db =
     (let p = (\<lambda>r. gr_snapshot r = sn \<and> generation_kind_value (gr_kind r) = kind \<and> gr_pipeline r = pipeline \<and>
                   gr_state r = G_QUEUED)
      in require (hits p (runs db) \<in> {0, 1}) (GenerationRepositoryError (u ''generation run mark-running was ambiguous''))
           (Inr (db\<lparr>runs := update_rows p (\<lambda>r. r\<lparr>gr_state := G_RUNNING, gr_error := None, gr_completed_at := None\<rparr>)
              (runs db)\<rparr>)))"

end
