(* ===== verification/Generation_Read.thy ===== *)
theory Generation_Read
  imports Generation_Persist
begin

text \<open>
  \<open>apps/api/app/generation_repository.py\<close>, reading: the generated documents, the use of the pinned sources and
  their quality, as a current member of the session's room sees them.

  A query that joins \<open>talk_sessions\<close> to the actor's membership is \<open>member_session\<close>; a session's current
  snapshot is the one of its epoch.  \<open>ORDER BY ... LIMIT 1\<close> over one epoch takes the first row in table order.
  A \<open>jsonb\<close> column holds a JSON object with distinct keys; its deep copy through \<open>json\<close> is the same value.
\<close>

section \<open>Documents\<close>

record member_document =
  md_session :: uuid
  md_snapshot :: uuid
  md_document :: uuid
  md_kind :: generation_kind
  md_content :: "(ustr \<times> json) list"

definition current_snapshots :: "'z app_db_scheme \<Rightarrow> session_row \<Rightarrow> snapshot_row list" where
  "current_snapshots db s = filter (\<lambda>n. sn_session n = ts_id s \<and> sn_epoch n = ts_epoch s) (snapshots db)"

definition published_documents ::
  "'z app_db_scheme \<Rightarrow> session_row \<Rightarrow> generation_kind \<Rightarrow> (snapshot_row \<times> document_row) list" where
  "published_documents db s k =
     concat (map (\<lambda>n. concat (map (\<lambda>r. map (\<lambda>x. (n, x)) (filter (\<lambda>x. gd_run x = gr_id r) (documents db)))
         (filter (\<lambda>r. gr_snapshot r = sn_id n \<and> gr_kind r = k \<and> gr_state r = G_SUCCEEDED) (runs db))))
       (current_snapshots db s))"

definition json_object_copy :: "(ustr \<times> json) list \<Rightarrow> app_error + (ustr \<times> json) list" where
  "json_object_copy content =
     require (finite_json (JObj content)) (GenerationRepositoryError (u ''persisted content is not JSON-safe''))
       (Inr content)"

definition member_document ::
  "'z app_db_scheme \<Rightarrow> uuid \<Rightarrow> uuid \<Rightarrow> generation_kind \<Rightarrow> app_error + member_document" where
  "member_document db sid actor k =
     (case Option.bind (member_session db actor sid) (\<lambda>s. map_option (Pair s) (find (\<lambda>_. True) (published_documents db s k))) of
        None \<Rightarrow> Inl (GenerationDocumentUnavailableError (u ''generated document is unavailable''))
      | Some (s, n, x) \<Rightarrow> and_then (json_object_copy (gd_content x)) (\<lambda>c. Inr
          \<lparr>md_session = ts_id s, md_snapshot = sn_id n, md_document = gd_id x, md_kind = gd_kind x, md_content = c\<rparr>))"

text \<open>\<open>{"snapshot_id": str(snapshot_id), **content}\<close>\<close>

definition with_snapshot_id :: "uuid \<Rightarrow> (ustr \<times> json) list \<Rightarrow> (ustr \<times> json) list" where
  "with_snapshot_id sn content =
     (u ''snapshot_id'', case map_of content (u ''snapshot_id'') of None \<Rightarrow> JStr (uuid_text sn) | Some v \<Rightarrow> v)
     # filter (\<lambda>kv. fst kv \<noteq> u ''snapshot_id'') content"

definition get_research :: "'z app_db_scheme \<Rightarrow> uuid \<Rightarrow> uuid \<Rightarrow> app_error + (ustr \<times> json) list" where
  "get_research db sid actor =
     and_then (member_document db sid actor RESEARCH) (\<lambda>d.
     and_then (assert_no_fixture_aliases (md_content d)) (\<lambda>_.
     Inr (with_snapshot_id (md_snapshot d) (md_content d))))"

section \<open>The summary with its citation ids\<close>

fun json_list :: "json \<Rightarrow> json list option" where
  "json_list (JList xs) = Some xs"
| "json_list _ = None"

fun json_object :: "json \<Rightarrow> (ustr \<times> json) list option" where
  "json_object (JObj kvs) = Some kvs"
| "json_object _ = None"

text \<open>\<open>d[k] = v\<close>\<close>

definition put_key :: "ustr \<Rightarrow> json \<Rightarrow> (ustr \<times> json) list \<Rightarrow> (ustr \<times> json) list" where
  "put_key k v kvs =
     (if k \<in> fst ` set kvs then map (\<lambda>(i, w). (i, if i = k then v else w)) kvs else kvs @ [(k, v)])"

definition nonempty_list :: "ustr \<Rightarrow> json option \<Rightarrow> app_error + json list" where
  "nonempty_list message v =
     (case Option.bind v json_list of
        Some (x # xs) \<Rightarrow> Inr (x # xs)
      | _ \<Rightarrow> Inl (GenerationRepositoryError message))"

definition section_items :: "json \<Rightarrow> app_error + (ustr \<times> json) list list" where
  "section_items sec =
     (case json_object sec of
        None \<Rightarrow> Inl (GenerationRepositoryError (u ''summary section is invalid''))
      | Some kvs \<Rightarrow>
          require (fst ` set kvs = {u ''heading'', u ''items''}) (GenerationRepositoryError (u ''summary section is invalid''))
          (and_then (nonempty_list (u ''summary section items are invalid'') (map_of kvs (u ''items''))) (\<lambda>items.
           map_result (\<lambda>item. case json_object item of
               None \<Rightarrow> Inl (GenerationRepositoryError (u ''summary item is invalid''))
             | Some i \<Rightarrow> Inr i) items)))"

text \<open>The loop that flattens the sections: the item objects in order, section by section.\<close>

definition summary_items :: "(ustr \<times> json) list \<Rightarrow> app_error + (ustr \<times> json) list list list" where
  "summary_items content =
     and_then (nonempty_list (u ''summary document sections are invalid'') (map_of content (u ''sections'')))
       (map_result section_items)"

text \<open>The rows of the citation query (segment ordinal, citation id, source anchor), in its order.\<close>

definition citation_rows :: "'z app_db_scheme \<Rightarrow> uuid \<Rightarrow> (int \<times> uuid \<times> uuid) list" where
  "citation_rows db document =
     sort_key (\<lambda>(ordinal, i, a). ordinal) (sort_key (\<lambda>(ordinal, i, a). i)
       (concat (map (\<lambda>g. List.map_filter (\<lambda>c. case ct_target c of
            SourceAnchor a \<Rightarrow> if ct_segment c = sg_id g then Some (sg_ordinal g, ct_id c, a) else None
          | WebEvidence _ \<Rightarrow> None) (citations db))
        (filter (\<lambda>g. sg_document g = document) (segments db)))))"

text \<open>The dictionary \<open>citations_by_support\<close>.\<close>

definition index_citations :: "(int \<times> uuid \<times> uuid) list \<Rightarrow> app_error + ((int \<times> ustr) \<times> ustr) list" where
  "index_citations rows =
     fold_result (\<lambda>(ordinal, i, a) m.
       require ((ordinal, uuid_text a) \<notin> fst ` set m)
         (GenerationRepositoryError (u ''summary has duplicate support citations''))
         (Inr (m @ [((ordinal, uuid_text a), uuid_text i)]))) rows []"

definition cite_support :: "((int \<times> ustr) \<times> ustr) list \<Rightarrow> int \<Rightarrow> json \<Rightarrow> app_error + json" where
  "cite_support m ordinal support =
     (case json_object support of
        None \<Rightarrow> Inl (GenerationRepositoryError (u ''summary support is invalid''))
      | Some kvs \<Rightarrow>
     (case get_str kvs (u ''source_anchor_id'') of
        None \<Rightarrow> Inl (GenerationRepositoryError (u ''summary support anchor is invalid''))
      | Some a \<Rightarrow>
     (case map_of m (ordinal, a) of
        None \<Rightarrow> Inl (GenerationRepositoryError (u ''summary support citation is missing''))
      | Some c \<Rightarrow> Inr (JObj (put_key (u ''citation_id'') (JStr c) kvs)))))"

definition cite_item ::
  "((int \<times> ustr) \<times> ustr) list \<Rightarrow> nat \<times> (ustr \<times> json) list \<Rightarrow> app_error + (ustr \<times> json) list" where
  "cite_item m oi =
     and_then (nonempty_list (u ''summary item supports are invalid'') (map_of (snd oi) (u ''supports''))) (\<lambda>supports.
     and_then (map_result (cite_support m (int (fst oi))) supports) (\<lambda>cited.
     Inr (put_key (u ''supports'') (JList cited) (snd oi))))"

text \<open>The document with the items replaced, the update in place of the nested lists.\<close>

fun regroup_items :: "nat list \<Rightarrow> 'a list \<Rightarrow> 'a list list" where
  "regroup_items [] xs = []"
| "regroup_items (n # ns) xs = take n xs # regroup_items ns (drop n xs)"

definition replace_items :: "json \<Rightarrow> (ustr \<times> json) list list \<Rightarrow> json" where
  "replace_items sec items =
     (case json_object sec of
        None \<Rightarrow> sec
      | Some kvs \<Rightarrow> JObj (put_key (u ''items'') (JList (map JObj items)) kvs))"

definition replace_sections :: "(ustr \<times> json) list \<Rightarrow> (ustr \<times> json) list list list \<Rightarrow> (ustr \<times> json) list" where
  "replace_sections content grouped =
     (case Option.bind (map_of content (u ''sections'')) json_list of
        None \<Rightarrow> content
      | Some secs \<Rightarrow> put_key (u ''sections'') (JList (map (\<lambda>(sec, items). replace_items sec items) (zip secs grouped))) content)"

definition summary_with_citation_ids :: "'z app_db_scheme \<Rightarrow> member_document \<Rightarrow> app_error + (ustr \<times> json) list" where
  "summary_with_citation_ids db d =
     and_then (assert_summary_isolated (md_content d)) (\<lambda>_.
     and_then (assert_no_fixture_aliases (md_content d)) (\<lambda>_.
     and_then (json_object_copy (md_content d)) (\<lambda>content.
     and_then (summary_items content) (\<lambda>grouped.
     and_then (index_citations (citation_rows db (md_document d))) (\<lambda>m.
     and_then (map_result (cite_item m) (enumerate 0 (concat grouped))) (\<lambda>cited.
     Inr (replace_sections content (regroup_items (map length grouped) cited))))))))"

definition get_summary :: "'z app_db_scheme \<Rightarrow> uuid \<Rightarrow> uuid \<Rightarrow> app_error + (ustr \<times> json) list" where
  "get_summary db sid actor =
     and_then (member_document db sid actor SUMMARY) (\<lambda>d.
     and_then (summary_with_citation_ids db d) (\<lambda>content.
     Inr (with_snapshot_id (md_snapshot d) content)))"

section \<open>Use and quality of the sources\<close>

record contribution =
  rg_document :: uuid
  rg_revision :: uuid
  rg_title :: ustr
  rg_units :: nat
  rg_used :: "uuid list"

text \<open>The common table expression \<open>used\<close>: the anchors the summaries of a snapshot cite.\<close>

definition cited_anchors :: "'z app_db_scheme \<Rightarrow> uuid \<Rightarrow> uuid list" where
  "cited_anchors db sn =
     [a. r \<leftarrow> runs db, gr_snapshot r = sn \<and> gr_kind r = SUMMARY \<and> gr_state r = G_SUCCEEDED,
         x \<leftarrow> documents db, gd_run x = gr_id r, g \<leftarrow> segments db, sg_document g = gd_id x,
         c \<leftarrow> citations db, ct_segment c = sg_id g,
         a \<leftarrow> (case ct_target c of SourceAnchor i \<Rightarrow> [i] | WebEvidence _ \<Rightarrow> [])]"

definition used_anchors :: "'z app_db_scheme \<Rightarrow> uuid \<Rightarrow> uuid \<Rightarrow> uuid list" where
  "used_anchors db sn revision =
     sort (remdups (filter (\<lambda>i. list_ex (\<lambda>a. an_id a = i \<and> an_revision a = revision) (anchors db)) (cited_anchors db sn)))"

definition pinned_anchors :: "'z app_db_scheme \<Rightarrow> pinned_row \<Rightarrow> anchor_row list" where
  "pinned_anchors db p = filter (\<lambda>a. an_revision a = pn_revision p \<and> an_run a = pn_run p) (anchors db)"

definition snapshot_pins :: "'z app_db_scheme \<Rightarrow> snapshot_row \<Rightarrow> pinned_row list" where
  "snapshot_pins db n = filter (\<lambda>p. pn_snapshot p = sn_id n) (pinned db)"

definition rag_contributions :: "'z app_db_scheme \<Rightarrow> uuid \<Rightarrow> uuid \<Rightarrow> contribution list" where
  "rag_contributions db sid actor =
     (case member_session db actor sid of
        None \<Rightarrow> []
      | Some s \<Rightarrow>
          map snd (sort_key (\<lambda>(b, c). sb_created_at b) (sort_key (\<lambda>(b, c). sb_id b)
            [(b, \<lparr>rg_document = sb_id b, rg_revision = sr_id r, rg_title = sb_title b,
                  rg_units = length (filter (\<lambda>a. an_excluded a = None) (pinned_anchors db p)),
                  rg_used = used_anchors db (sn_id n) (sr_id r)\<rparr>).
               n \<leftarrow> current_snapshots db s, p \<leftarrow> snapshot_pins db n,
               r \<leftarrow> revisions db, sr_id r = pn_revision p, b \<leftarrow> submissions db, sb_id b = sr_submission r,
               list_ex (\<lambda>a. an_excluded a = None) (pinned_anchors db p)])))"

record source_quality =
  sq_filtered :: bool \<comment> \<open>\<open>status\<close>: \<open>filtered\<close> or \<open>clean\<close>\<close>
  sq_total :: nat
  sq_accepted :: nat
  sq_excluded :: nat
  sq_reasons :: "(ustr \<times> nat) list"

definition exclusion_reason :: "anchor_row \<Rightarrow> ustr option" where
  "exclusion_reason a = map_option (\<lambda>r. if r = [] then u ''unknown'' else r) (an_excluded a)"

definition quality_of :: "anchor_row list \<Rightarrow> source_quality" where
  "quality_of rows =
     (let accepted = length (filter (\<lambda>a. an_excluded a = None) rows);
          counts = fold bump (List.map_filter exclusion_reason rows) [];
          excluded = length rows - accepted
      in \<lparr>sq_filtered = (excluded \<noteq> 0), sq_total = length rows, sq_accepted = accepted, sq_excluded = excluded,
          sq_reasons = sort_key fst counts\<rparr>)"

definition source_quality :: "'z app_db_scheme \<Rightarrow> uuid \<Rightarrow> uuid \<Rightarrow> source_quality" where
  "source_quality db sid actor =
     quality_of (case member_session db actor sid of
        None \<Rightarrow> []
      | Some s \<Rightarrow> [a. n \<leftarrow> current_snapshots db s, p \<leftarrow> snapshot_pins db n,
                     a \<leftarrow> sort_key an_ordinal (pinned_anchors db p)])"

end
