(* ===== verification/Generation_Provenance.thy ===== *)
theory Generation_Provenance
  imports Generation_Persist Session_Facts
begin

text \<open>
  The invariant of the generated tables: documents belong to runs of their kind, citations and claims cite
  anchors pinned by the snapshot, every summary segment is cited.  An operation that only adds rows to the
  tables it joins (\<open>extends_tables\<close>) keeps what was cited; the persisting operations also establish it for the
  rows they add.
\<close>

section \<open>Extension of the joined tables\<close>

definition run_identity :: "run_row \<Rightarrow> uuid \<times> uuid \<times> generation_kind" where
  "run_identity r = (gr_id r, gr_snapshot r, gr_kind r)"

definition extends_tables :: "'z app_db_scheme \<Rightarrow> 'z app_db_scheme \<Rightarrow> bool" where
  "extends_tables db db' \<longleftrightarrow>
     (\<exists>n. map run_identity (runs db') = map run_identity (runs db) @ n) \<and>
     (\<exists>n. documents db' = documents db @ n) \<and> (\<exists>n. segments db' = segments db @ n) \<and>
     set (pinned db) \<subseteq> set (pinned db') \<and> set (anchors db) \<subseteq> set (anchors db')"

lemma extends_refl [simp]: "extends_tables db db"
  by (simp add: extends_tables_def)

lemma extends_trans: "extends_tables a b \<Longrightarrow> extends_tables b c \<Longrightarrow> extends_tables a c"
  unfolding extends_tables_def by (elim conjE exE) (auto simp: subset_eq)

lemma extends_runs:
  assumes "extends_tables db db'" "r \<in> set (runs db)"
  shows "\<exists>r' \<in> set (runs db'). gr_id r' = gr_id r \<and> gr_snapshot r' = gr_snapshot r \<and> gr_kind r' = gr_kind r"
proof -
  obtain n where n: "map run_identity (runs db') = map run_identity (runs db) @ n"
    using assms(1) by (auto simp: extends_tables_def)
  have "run_identity r \<in> set (map run_identity (runs db'))"
    unfolding n using assms(2) by simp
  then show ?thesis by (auto simp: run_identity_def)
qed

lemma find_append_Some: "find P xs = Some x \<Longrightarrow> find P (xs @ ys) = Some x"
  by (induction xs) auto

lemma extends_pinned: "extends_tables db db' \<Longrightarrow> anchor_pinned db sn a \<Longrightarrow> anchor_pinned db' sn a"
  unfolding extends_tables_def anchor_pinned_def list_ex_iff by blast

lemma extends_document: "extends_tables db db' \<Longrightarrow> segment_document db g = Some x \<Longrightarrow> segment_document db' g = Some x"
  by (auto simp: extends_tables_def segment_document_def find_append_Some split: option.splits)

lemma extends_citation:
  assumes e: "extends_tables db db'" and c: "citation_ok db c"
  shows "citation_ok db' c"
proof -
  obtain x where x: "segment_document db (ct_segment c) = Some x"
    using c by (auto simp: citation_ok_def split: option.splits)
  note x' = extends_document [OF e x]
  show ?thesis
  proof (cases "ct_target c")
    case (WebEvidence i)
    then show ?thesis using c x x' by (simp add: citation_ok_def)
  next
    case (SourceAnchor i)
    then obtain r where "r \<in> set (runs db)" "gr_id r = gd_run x" "anchor_pinned db (gr_snapshot r) i"
      using c x by (auto simp: citation_ok_def list_ex_iff)
    then show ?thesis using extends_runs [OF e, of r] extends_pinned [OF e] SourceAnchor x'
      by (auto simp: citation_ok_def list_ex_iff)
  qed
qed

lemma extends_claim: "extends_tables db db' \<Longrightarrow> claim_ok db c \<Longrightarrow> claim_ok db' c"
  using extends_runs [of db db'] extends_pinned [of db db'] unfolding claim_ok_def list_ex_iff by metis

lemma extends_kind: "extends_tables db db' \<Longrightarrow> document_kind_ok db x \<Longrightarrow> document_kind_ok db' x"
  using extends_runs [of db db'] unfolding document_kind_ok_def list_ex_iff by metis

section \<open>The invariant\<close>

text \<open>Every segment of a summary among the documents \<open>P\<close> has a citation.\<close>

definition summaries_cited :: "(uuid \<Rightarrow> bool) \<Rightarrow> 'z app_db_scheme \<Rightarrow> bool" where
  "summaries_cited P db \<longleftrightarrow>
     (\<forall>x \<in> set (documents db). gd_kind x = SUMMARY \<and> P (gd_id x) \<longrightarrow>
        (\<forall>g \<in> set (segments db). sg_document g = gd_id x \<longrightarrow> sg_id g \<in> ct_segment ` set (citations db)))"

definition provenance_for :: "(uuid \<Rightarrow> bool) \<Rightarrow> 'z app_db_scheme \<Rightarrow> bool" where
  "provenance_for P db \<longleftrightarrow>
     distinct (map gd_id (documents db)) \<and> distinct (map gd_run (documents db)) \<and>
     distinct (map sg_id (segments db)) \<and> distinct (map ct_id (citations db)) \<and>
     (\<forall>g \<in> set (segments db). sg_document g \<in> gd_id ` set (documents db)) \<and>
     (\<forall>x \<in> set (documents db). document_kind_ok db x) \<and>
     (\<forall>c \<in> set (citations db). citation_ok db c) \<and> (\<forall>c \<in> set (claims db). claim_ok db c) \<and>
     summaries_cited P db"

definition provenance :: "'z app_db_scheme \<Rightarrow> bool" where
  "provenance db \<longleftrightarrow> provenance_for (\<lambda>_. True) db"

text \<open>What the invariant says of one source citation.\<close>

lemma provenance_citation:
  assumes "provenance db" "c \<in> set (citations db)" "ct_target c = SourceAnchor i"
  shows "\<exists>x r. segment_document db (ct_segment c) = Some x \<and> r \<in> set (runs db) \<and> gr_id r = gd_run x \<and>
    anchor_pinned db (gr_snapshot r) i"
  using assms by (fastforce simp: provenance_def provenance_for_def citation_ok_def list_ex_iff split: option.splits)

lemma provenance_for_cong:
  assumes "provenance_for P db" "extends_tables db db'" "documents db' = documents db" "segments db' = segments db"
    "citations db' = citations db" "claims db' = claims db"
  shows "provenance_for P db'"
  using assms extends_citation [OF assms(2)] extends_claim [OF assms(2)] extends_kind [OF assms(2)]
  by (auto simp: provenance_for_def summaries_cited_def)

lemmas provenance_cong = provenance_for_cong [where P = "\<lambda>_. True", folded provenance_def]

lemma frame_extends: "activity_frame db db' \<Longrightarrow> extends_tables db db'"
  by (simp add: extends_tables_def frame_same)

lemma frame_provenance: "activity_frame db db' \<Longrightarrow> provenance db \<Longrightarrow> provenance db'"
  by (rule provenance_cong [OF _ frame_extends]) (simp_all add: frame_same)

section \<open>Recomputing the aggregate\<close>

lemma apply_projection_Inr:
  assumes "apply_projection d s st reasons db = Inr db'"
  shows "hits (\<lambda>x. ts_id x = ts_id s) (sessions db) = 1 \<and>
    activity_frame (db\<lparr>sessions := update_rows (\<lambda>x. ts_id x = ts_id s) (project_state st (ts_version s + 1)) (sessions db)\<rparr>) db'"
  using assms by (auto simp: apply_projection_def Let_def and_then_Inr update_session_Inr dest!: record_activity_frame)

lemma recompute_Inr:
  assumes "recompute_aggregate d sn db = Inr (r, db')"
  shows "\<exists>n s views p db1. find (\<lambda>n. sn_id n = sn) (snapshots db) = Some n \<and>
    find_session db (sn_session n) = Some s \<and>
    map_result run_view (snapshot_runs db sn) = Inr views \<and> project_generation_aggregate views = Inr p \<and>
    (if ts_state s \<noteq> ga_state p
     then apply_projection d s (ga_state p) (map ar_code (ga_reasons p)) db = Inr db1 else db1 = db) \<and>
    (if ga_state p = READY
     then insert_job_if_new (suggestions_job (pd_job d) sn (sn_pipeline n) (pd_now d)) db1 = Inr db'
     else db' = db1) \<and>
    r = \<lparr>ag_session = ts_id s, ag_state = ga_state p, ag_reasons = map ar_code (ga_reasons p),
       ag_to_ready = (ts_state s \<noteq> ga_state p \<and> ga_state p = READY)\<rparr>"
proof -
  obtain n s where n: "find (\<lambda>n. sn_id n = sn) (snapshots db) = Some n" "find_session db (sn_session n) = Some s"
    using assms by (auto simp: recompute_aggregate_def split: option.splits)
  from assms obtain views p where v: "map_result run_view (snapshot_runs db sn) = Inr views"
    "project_generation_aggregate views = Inr p"
    by (auto simp: recompute_aggregate_def n and_then_Inr Let_def)
  show ?thesis
    using assms unfolding recompute_aggregate_def Let_def
    by (auto simp: n v and_then_Inr split: if_splits)
qed

lemma insert_job_if_new_same:
  "insert_job_if_new j db = Inr db' \<Longrightarrow> \<exists>js. db' = db\<lparr>jobs := js\<rparr>"
  by (auto simp: insert_job_if_new_def split: if_splits intro: exI [of _ "jobs db"])

text \<open>Only the session row, the ledger tables and the jobs change.\<close>

lemma recompute_tables:
  assumes "recompute_aggregate d sn db = Inr (r, db')"
  shows "\<exists>ss js a n x. db' = db\<lparr>sessions := ss, jobs := js, audit := a, notifications := n, outbox := x\<rparr>"
    and "adds_jobs db db'"
proof -
  obtain n s p views db1 where
    "find (\<lambda>n. sn_id n = sn) (snapshots db) = Some n" "project_generation_aggregate views = Inr p" and
    ap: "if ts_state s \<noteq> ga_state p then apply_projection d s (ga_state p) (map ar_code (ga_reasons p)) db = Inr db1 else db1 = db"
    and j: "if ga_state p = READY then insert_job_if_new (suggestions_job (pd_job d) sn (sn_pipeline n) (pd_now d)) db1 = Inr db'
     else db' = db1"
    using recompute_Inr [OF assms] by blast
  have 1: "\<exists>ss a n x. db1 = db\<lparr>sessions := ss, audit := a, notifications := n, outbox := x\<rparr>"
  proof (cases "ts_state s \<noteq> ga_state p")
    case True
    then have "activity_frame (db\<lparr>sessions := update_rows (\<lambda>x. ts_id x = ts_id s) (project_state (ga_state p) (ts_version s + 1)) (sessions db)\<rparr>) db1"
      using ap apply_projection_Inr [of d s "ga_state p" "map ar_code (ga_reasons p)" db db1] by simp
    then show ?thesis unfolding activity_frame_def by (elim conjE exE) (auto intro!: exI)
  next
    case False
    then have "db1 = db\<lparr>sessions := sessions db, audit := audit db, notifications := notifications db, outbox := outbox db\<rparr>"
      using ap by simp
    then show ?thesis by blast
  qed
  have 2: "\<exists>js. db' = db1\<lparr>jobs := js\<rparr>"
    using j by (auto split: if_splits dest: insert_job_if_new_same intro: exI [of _ "jobs db1"])
  from 1 2 obtain ss a n x js where "db' = db\<lparr>sessions := ss, audit := a, notifications := n, outbox := x, jobs := js\<rparr>" by auto
  then have "db' = db\<lparr>sessions := ss, jobs := js, audit := a, notifications := n, outbox := x\<rparr>" by simp
  then show "\<exists>ss js a n x. db' = db\<lparr>sessions := ss, jobs := js, audit := a, notifications := n, outbox := x\<rparr>" by blast
  have "adds_jobs db db1" using 1 by (auto intro!: adds_jobs_same)
  moreover have "adds_jobs db1 db'"
    using j by (auto split: if_splits intro!: insert_job_if_new_adds simp: suggestions_job_def)
  ultimately show "adds_jobs db db'" by (rule adds_jobs_trans)
qed

lemma recompute_provenance:
  assumes "recompute_aggregate d sn db = Inr (r, db')" "provenance db"
  shows "provenance db'"
  using recompute_tables(1) [OF assms(1)] by (auto intro!: provenance_cong [OF assms(2)] simp: extends_tables_def)

section \<open>Persisting\<close>

lemma fold_append:
  assumes "fold_result f xs d = Inr d'" "\<And>x d d'. f x d = Inr d' \<Longrightarrow> d' = U (\<lambda>t. t @ [row x]) d"
    and "\<And>g h d. U g (U h d) = U (\<lambda>t. g (h t)) d" "\<And>d. U (\<lambda>t. t) d = d"
  shows "d' = U (\<lambda>t. t @ map row xs) d"
  using assms(1)
proof (induction xs arbitrary: d)
  case Nil
  then show ?case using assms(4) by simp
next
  case (Cons x xs)
  then obtain d1 where d1: "f x d = Inr d1" "fold_result f xs d1 = Inr d'" by (auto simp: and_then_Inr)
  show ?case using Cons.IH [OF d1(2)] assms(2) [OF d1(1)] by (simp add: assms(3))
qed

lemma mark_run_Inr:
  assumes "mark_run_succeeded c now db = Inr (run, db')"
  shows "(\<exists>r \<in> set (runs db). gr_id r = run \<and> writable_run (gc_snapshot c) (gc_kind c) (gc_pipeline c) r) \<and>
    db' = db\<lparr>runs := update_rows (writable_run (gc_snapshot c) (gc_kind c) (gc_pipeline c)) (succeeded_run c now) (runs db)\<rparr>"
  using assms by (auto simp: mark_run_succeeded_def Let_def split: option.splits dest!: find_Some_set)

lemma update_identity:
  assumes "\<And>r. run_identity (f r) = run_identity r"
  shows "map run_identity (update_rows P f t) = map run_identity t"
  using assms by (simp add: update_rows_def)

lemma update_runs_extends:
  assumes "\<And>r. run_identity (f r) = run_identity r"
  shows "extends_tables db (db\<lparr>runs := update_rows P f (runs db)\<rparr>)"
  using update_identity [OF assms] by (simp add: extends_tables_def)

lemma update_runs_provenance:
  assumes "\<And>r. run_identity (f r) = run_identity r" "provenance_for Q db"
  shows "provenance_for Q (db\<lparr>runs := update_rows P f (runs db)\<rparr>)"
  by (rule provenance_for_cong [OF assms(2) update_runs_extends]) (simp_all add: assms(1))

lemma insert_document_provenance:
  assumes p: "provenance_for P db" and i: "insert_document x db = Inr db'"
  shows "provenance_for P db'"
proof -
  have db': "db' = db\<lparr>documents := documents db @ [x]\<rparr>" "document_kind_ok db x"
    "fresh gd_id x (documents db)" "fresh gd_run x (documents db)"
    using i by (simp_all add: insert_document_def)
  have e: "extends_tables db db'" by (simp add: extends_tables_def db'(1))
  have new: "sg_document g \<noteq> gd_id x" if "g \<in> set (segments db)" for g
  proof -
    have "sg_document g \<in> gd_id ` set (documents db)" using p that by (simp add: provenance_for_def)
    then show ?thesis using db'(3) by (auto simp: fresh_def)
  qed
  show ?thesis using p db' extends_citation [OF e] extends_claim [OF e] extends_kind [OF e] new
    unfolding provenance_for_def summaries_cited_def by (auto simp: distinct_snoc_fresh fresh_def)
qed

lemma insert_segment_provenance:
  assumes p: "provenance_for P db" and i: "insert_segment g db = Inr db'"
    and d: "sg_document g \<in> gd_id ` set (documents db)" "\<not> P (sg_document g)"
  shows "provenance_for P db'"
proof -
  have db': "db' = db\<lparr>segments := segments db @ [g]\<rparr>" "fresh sg_id g (segments db)"
    using i by (simp_all add: insert_segment_def)
  have e: "extends_tables db db'" by (simp add: extends_tables_def db'(1))
  show ?thesis using p db' d extends_citation [OF e] extends_claim [OF e] extends_kind [OF e]
    unfolding provenance_for_def summaries_cited_def by (auto simp: fresh_def)
qed

lemma insert_citation_provenance:
  assumes p: "provenance_for P db" and i: "insert_citation c db = Inr db'"
  shows "provenance_for P db'"
proof -
  have db': "db' = db\<lparr>citations := citations db @ [c]\<rparr>" "citation_ok db c" "fresh ct_id c (citations db)"
    using i by (simp_all add: insert_citation_def)
  have e: "extends_tables db db'" by (simp add: extends_tables_def db'(1))
  show ?thesis using p db' extends_citation [OF e] extends_claim [OF e] extends_kind [OF e]
    unfolding provenance_for_def summaries_cited_def by (auto simp: fresh_def)
qed

lemma insert_claim_provenance:
  assumes p: "provenance_for P db" and i: "insert_claim c db = Inr db'"
  shows "provenance_for P db'"
proof -
  have db': "db' = db\<lparr>claims := claims db @ [c]\<rparr>" "claim_ok db c" using i by (simp_all add: insert_claim_def)
  have e: "extends_tables db db'" by (simp add: extends_tables_def db'(1))
  show ?thesis using p db' extends_citation [OF e] extends_claim [OF e] extends_kind [OF e]
    unfolding provenance_for_def summaries_cited_def by auto
qed

lemma insert_evidence_provenance:
  assumes p: "provenance_for P db" and i: "insert_evidence e db = Inr db'"
  shows "provenance_for P db'"
  using i by (intro provenance_for_cong [OF p]) (auto simp: insert_evidence_def extends_tables_def)

text \<open>What a persisted artifact adds to the tables.\<close>

definition artifact_tables ::
  "completion \<Rightarrow> int \<Rightarrow> uuid \<Rightarrow> document_row \<Rightarrow> 'z app_db_scheme \<Rightarrow> 'z app_db_scheme" where
  "artifact_tables c now run x db =
     db\<lparr>runs := update_rows (writable_run (gc_snapshot c) (gc_kind c) (gc_pipeline c)) (succeeded_run c now) (runs db),
        documents := documents db @ [x],
        segments := segments db @ map (\<lambda>g. \<lparr>sg_id = sw_id g, sg_document = gc_document c,
          sg_ordinal = sw_ordinal g, sg_text = sw_text g\<rparr>) (gc_segments c),
        evidence := evidence db @ map evidence_row_of (gc_evidence c),
        citations := citations db @ map citation_row_of (gc_citations c),
        claims := claims db @ map (claim_row_of run) (gc_claims c)\<rparr>"

lemma persist_artifact_Inr:
  assumes "persist_artifact sha c now db = Inr db'"
  shows "\<exists>run x db1 db2 db3 db4 db5. mark_run_succeeded c now db = Inr (run, db1) \<and> document_of sha c run = Inr x \<and>
    insert_document x db1 = Inr db2 \<and>
    fold_result (\<lambda>g. insert_segment \<lparr>sg_id = sw_id g, sg_document = gc_document c, sg_ordinal = sw_ordinal g,
       sg_text = sw_text g\<rparr>) (gc_segments c) db2 = Inr db3 \<and>
    fold_result (\<lambda>e. insert_evidence (evidence_row_of e)) (gc_evidence c) db3 = Inr db4 \<and>
    fold_result (\<lambda>x. insert_citation (citation_row_of x)) (gc_citations c) db4 = Inr db5 \<and>
    fold_result (\<lambda>w. insert_claim (claim_row_of run w)) (gc_claims c) db5 = Inr db'"
  using assms unfolding persist_artifact_def and_then_Inr by (auto simp: and_then_Inr)

lemma persist_artifact_tables:
  assumes "persist_artifact sha c now db = Inr db'"
  shows "\<exists>run x. db' = artifact_tables c now run x db \<and> document_of sha c run = Inr x \<and>
    (\<exists>r \<in> set (runs db). gr_id r = run \<and> writable_run (gc_snapshot c) (gc_kind c) (gc_pipeline c) r)"
proof -
  obtain run x db1 db2 db3 db4 db5 where 1: "mark_run_succeeded c now db = Inr (run, db1)" and x: "document_of sha c run = Inr x"
    and 2: "insert_document x db1 = Inr db2" and
    3: "fold_result (\<lambda>g. insert_segment \<lparr>sg_id = sw_id g, sg_document = gc_document c, sg_ordinal = sw_ordinal g,
       sg_text = sw_text g\<rparr>) (gc_segments c) db2 = Inr db3" and
    4: "fold_result (\<lambda>e. insert_evidence (evidence_row_of e)) (gc_evidence c) db3 = Inr db4" and
    5: "fold_result (\<lambda>x. insert_citation (citation_row_of x)) (gc_citations c) db4 = Inr db5" and
    6: "fold_result (\<lambda>w. insert_claim (claim_row_of run w)) (gc_claims c) db5 = Inr db'"
    using persist_artifact_Inr [OF assms] by blast
  have "db3 = segments_update (\<lambda>t. t @ map (\<lambda>g. \<lparr>sg_id = sw_id g, sg_document = gc_document c,
      sg_ordinal = sw_ordinal g, sg_text = sw_text g\<rparr>) (gc_segments c)) db2"
    by (rule fold_append [OF 3]) (simp_all add: insert_segment_def comp_def)
  moreover have "db4 = evidence_update (\<lambda>t. t @ map evidence_row_of (gc_evidence c)) db3"
    by (rule fold_append [OF 4]) (simp_all add: insert_evidence_def comp_def)
  moreover have "db5 = citations_update (\<lambda>t. t @ map citation_row_of (gc_citations c)) db4"
    by (rule fold_append [OF 5]) (simp_all add: insert_citation_def comp_def)
  moreover have "db' = claims_update (\<lambda>t. t @ map (claim_row_of run) (gc_claims c)) db5"
    by (rule fold_append [OF 6]) (simp_all add: insert_claim_def comp_def)
  moreover have "db2 = db1\<lparr>documents := documents db1 @ [x]\<rparr>" using 2 by (simp add: insert_document_def)
  moreover note mark_run_Inr [OF 1]
  ultimately show ?thesis using x unfolding artifact_tables_def by (intro exI [of _ run] exI [of _ x]) simp
qed

lemma persist_artifact_adds: "persist_artifact sha c now db = Inr db' \<Longrightarrow> adds_jobs db db'"
  by (drule persist_artifact_tables) (auto simp: artifact_tables_def intro: adds_jobs_same)

lemma succeeded_run_identity: "run_identity (succeeded_run c now r) = run_identity r"
  by (simp add: run_identity_def succeeded_run_def)

lemma check_summary_cited:
  assumes "check_completion_write c = Inr ()" "completion_kind c = SUMMARY"
  shows "cw_segment ` set (gc_citations c) = sw_id ` set (gc_segments c)"
proof -
  have "gc_kind c = u ''summary''" using assms(2) by (simp add: completion_kind_def split: if_splits)
  then show ?thesis using assms(1)
    by (auto simp: check_completion_write_def check_summary_completion_def Let_def and_then_Inr simp del: u_simps)
qed

lemma persist_artifact_provenance:
  assumes p: "persist_artifact sha c now db = Inr db'" and inv: "provenance db"
    and ok: "check_completion_write c = Inr ()"
  shows "provenance db'"
proof -
  obtain run x db1 db2 db3 db4 db5 where 1: "mark_run_succeeded c now db = Inr (run, db1)" and x: "document_of sha c run = Inr x"
    and 2: "insert_document x db1 = Inr db2" and
    3: "fold_result (\<lambda>g. insert_segment \<lparr>sg_id = sw_id g, sg_document = gc_document c, sg_ordinal = sw_ordinal g,
       sg_text = sw_text g\<rparr>) (gc_segments c) db2 = Inr db3" and
    4: "fold_result (\<lambda>e. insert_evidence (evidence_row_of e)) (gc_evidence c) db3 = Inr db4" and
    5: "fold_result (\<lambda>x. insert_citation (citation_row_of x)) (gc_citations c) db4 = Inr db5" and
    6: "fold_result (\<lambda>w. insert_claim (claim_row_of run w)) (gc_claims c) db5 = Inr db'"
    using persist_artifact_Inr [OF p] by blast
  let ?P = "\<lambda>i. i \<noteq> gc_document c"
  have xid: "gd_id x = gc_document c" "gd_kind x = completion_kind c" using x by (auto simp: document_of_def and_then_Inr)
  have "provenance_for ?P db" using inv by (auto simp: provenance_def provenance_for_def summaries_cited_def)
  then have "provenance_for ?P db1"
    using mark_run_Inr [OF 1] update_runs_provenance [OF succeeded_run_identity] by simp
  then have "provenance_for ?P db2" using 2 by (rule insert_document_provenance)
  moreover have "gc_document c \<in> gd_id ` set (documents db2)" using 2 xid by (auto simp: insert_document_def)
  ultimately have "provenance_for ?P db3 \<and> gc_document c \<in> gd_id ` set (documents db3)"
  proof (intro fold_result_invariant [OF 3, where I = "\<lambda>d. provenance_for ?P d \<and> gc_document c \<in> gd_id ` set (documents d)"])
    fix g d d' assume I: "provenance_for ?P d \<and> gc_document c \<in> gd_id ` set (documents d)"
      and i: "insert_segment \<lparr>sg_id = sw_id g, sg_document = gc_document c, sg_ordinal = sw_ordinal g, sg_text = sw_text g\<rparr> d = Inr d'"
    have "documents d' = documents d" using i by (auto simp: insert_segment_def)
    with I insert_segment_provenance [OF conjunct1 [OF I] i]
    show "provenance_for ?P d' \<and> gc_document c \<in> gd_id ` set (documents d')" by simp
  qed simp
  then have "provenance_for ?P db4"
    by (intro fold_result_invariant [OF 4, where I = "provenance_for ?P"]) (blast intro: insert_evidence_provenance)+
  then have "provenance_for ?P db5"
    by (intro fold_result_invariant [OF 5, where I = "provenance_for ?P"]) (blast intro: insert_citation_provenance)+
  then have P: "provenance_for ?P db'"
    by (intro fold_result_invariant [OF 6, where I = "provenance_for ?P"]) (blast intro: insert_claim_provenance)+
  obtain run' x' where t: "db' = artifact_tables c now run' x' db" "document_of sha c run' = Inr x'"
    using persist_artifact_tables [OF p] by blast
  have xid': "gd_id x' = gc_document c" "gd_kind x' = completion_kind c" using t(2) by (auto simp: document_of_def and_then_Inr)
  have docs: "documents db' = documents db @ [x']" using t(1) by (simp add: artifact_tables_def)
  have "sg_id g \<in> ct_segment ` set (citations db')"
    if y: "y \<in> set (documents db')" "gd_kind y = SUMMARY" "gd_id y = gc_document c"
      and g: "g \<in> set (segments db')" "sg_document g = gd_id y" for y g
  proof -
    have dist: "distinct (map gd_id (documents db'))" using P by (simp add: provenance_for_def)
    have x': "x' \<in> set (documents db')" by (simp add: docs)
    have "y = x'" by (rule distinct_key_unique [OF dist y(1) x']) (simp add: y(3) xid')
    then have "completion_kind c = SUMMARY" using y(2) xid' by simp
    note cited = check_summary_cited [OF ok this]
    have fresh: "gc_document c \<notin> gd_id ` set (documents db)"
      using dist unfolding docs by (auto simp: xid')
    have "g \<notin> set (segments db)"
    proof
      assume "g \<in> set (segments db)"
      then have "sg_document g \<in> gd_id ` set (documents db)" using inv by (simp add: provenance_def provenance_for_def)
      with fresh g(2) y(3) show False by simp
    qed
    then have "sg_id g \<in> sw_id ` set (gc_segments c)" using g(1) by (auto simp: t(1) artifact_tables_def)
    then obtain w where w: "w \<in> set (gc_citations c)" "sg_id g = cw_segment w" using cited by (metis imageE)
    have "ct_segment (citation_row_of w) = cw_segment w" by (cases w) (simp_all add: citation_row_of_def)
    with w show ?thesis by (auto simp: t(1) artifact_tables_def image_iff intro!: bexI [of _ "citation_row_of w"])
  qed
  then have "summaries_cited (\<lambda>_. True) db'" using P unfolding provenance_for_def summaries_cited_def by metis
  then show ?thesis using P by (simp add: provenance_def provenance_for_def)
qed

lemma persist_success_Inr:
  "persist_success sha d c db = Inr (r, db') \<longleftrightarrow>
     (\<exists>db1. persist_artifact sha c (pd_now d) db = Inr db1 \<and> recompute_aggregate d (gc_snapshot c) db1 = Inr (r, db'))"
  by (auto simp: persist_success_def and_then_Inr)

lemma persist_success_provenance:
  "persist_success sha d c db = Inr (r, db') \<Longrightarrow> check_completion_write c = Inr () \<Longrightarrow> provenance db \<Longrightarrow> provenance db'"
  by (auto simp: persist_success_Inr intro: recompute_provenance persist_artifact_provenance)

lemma persist_success_adds: "persist_success sha d c db = Inr (r, db') \<Longrightarrow> adds_jobs db db'"
  by (auto simp: persist_success_Inr intro: adds_jobs_trans dest: persist_artifact_adds recompute_tables(2))

lemma persist_failure_Inr:
  assumes "persist_failure d sn kind pipeline code retryable db = Inr (r, db')"
  shows "is_error_code code \<and> hits (writable_run sn kind pipeline) (runs db) = 1 \<and>
    recompute_aggregate d sn (db\<lparr>runs := update_rows (writable_run sn kind pipeline)
      (failed_run (if retryable then G_FAILED_RETRYABLE else G_FAILED_TERMINAL) code (pd_now d)) (runs db)\<rparr>) = Inr (r, db')"
  using assms by (simp add: persist_failure_def Let_def)

lemma failed_run_identity: "run_identity (failed_run st code now r) = run_identity r"
  by (simp add: run_identity_def failed_run_def)

lemma persist_failure_provenance:
  assumes "persist_failure d sn kind pipeline code retryable db = Inr (r, db')" "provenance db"
  shows "provenance db'"
proof -
  let ?db = "db\<lparr>runs := update_rows (writable_run sn kind pipeline)
    (failed_run (if retryable then G_FAILED_RETRYABLE else G_FAILED_TERMINAL) code (pd_now d)) (runs db)\<rparr>"
  have "provenance ?db"
    using assms(2) unfolding provenance_def by (rule update_runs_provenance [OF failed_run_identity])
  then show ?thesis using persist_failure_Inr [OF assms(1)] recompute_provenance by blast
qed

lemma persist_failure_adds: "persist_failure d sn kind pipeline code retryable db = Inr (r, db') \<Longrightarrow> adds_jobs db db'"
  using persist_failure_Inr [of d sn kind pipeline code retryable db r db'] recompute_tables(2)
  by (fastforce simp: adds_jobs_def)

end
