(* ===== verification/Generation_Read_Properties.thy ===== *)
theory Generation_Read_Properties
  imports Generation_Read Generation_Provenance Session_Properties
begin

text \<open>
  What a reader of a generated document can rely on: every support of a returned summary names a stored
  citation of that document whose anchor the session's current snapshot pins, and the quality counts add up.
\<close>

section \<open>The shape of a summary\<close>

lemma nonempty_list_Inr: "nonempty_list m v = Inr xs \<longleftrightarrow> v = Some (JList xs) \<and> xs \<noteq> []"
proof (cases v)
  case None
  then show ?thesis by (simp add: nonempty_list_def)
next
  case (Some j)
  then show ?thesis by (cases j) (auto simp: nonempty_list_def split: list.splits)
qed

lemma json_object_Some: "json_object j = Some kvs \<longleftrightarrow> j = JObj kvs"
  by (cases j) auto

lemma map_of_put_key: "map_of (put_key k v kvs) i = (if i = k then Some v else map_of kvs i)"
proof -
  have "map_of (map (\<lambda>(i, w). (i, if i = k then v else w)) kvs) i = (if i = k then map_option (\<lambda>_. v) (map_of kvs k) else map_of kvs i)"
    by (induction kvs) auto
  moreover have "\<exists>w. map_of kvs k = Some w" if "k \<in> fst ` set kvs"
    using that by (metis map_of_eq_None_iff option.exhaust)
  moreover have "map_of (kvs @ [(k, v)]) i = (if i = k then Some v else map_of kvs i)" if "k \<notin> fst ` set kvs"
    using that map_of_eq_None_iff [of kvs k] by (auto simp: map_add_def split: option.split)
  ultimately show ?thesis by (cases "k \<in> fst ` set kvs") (auto simp: put_key_def)
qed

lemma keys_put_key: "fst ` set (put_key k v kvs) = insert k (fst ` set kvs)"
  by (force simp: put_key_def)

lemma get_str_put_key:
  "get_str (put_key k (JStr c) kvs) k = Some c"
  "i \<noteq> k \<Longrightarrow> get_str (put_key k v kvs) i = get_str kvs i"
  by (simp_all add: get_str_def get_key_def map_of_put_key)

lemma item_objects:
  "map_result (\<lambda>item. case json_object item of None \<Rightarrow> Inl e | Some i \<Rightarrow> Inr i) js = Inr items \<longleftrightarrow> js = map JObj items"
  by (induction js arbitrary: items) (auto simp: and_then_Inr json_object_Some split: option.splits)

lemma section_items_Inr:
  "section_items sec = Inr items \<longleftrightarrow>
     (\<exists>kvs. sec = JObj kvs \<and> fst ` set kvs = {u ''heading'', u ''items''} \<and>
        map_of kvs (u ''items'') = Some (JList (map JObj items)) \<and> items \<noteq> [])"
proof (cases "json_object sec")
  case None
  then show ?thesis by (auto simp: section_items_def)
next
  case (Some kvs)
  then show ?thesis
    by (auto simp: section_items_def json_object_Some and_then_Inr nonempty_list_Inr item_objects simp del: u_simps)
qed

lemma section_items_replace:
  assumes "section_items sec = Inr items" "length items' = length items"
  shows "section_items (replace_items sec items') = Inr items'"
proof -
  from assms(1) obtain kvs where k: "sec = JObj kvs" "fst ` set kvs = {u ''heading'', u ''items''}" "items \<noteq> []"
    by (auto simp: section_items_Inr simp del: u_simps)
  have "items' \<noteq> []" using assms(2) k(3) by auto
  then show ?thesis using k(1,2)
    by (auto simp: section_items_Inr replace_items_def map_of_put_key keys_put_key simp del: u_simps)
qed

lemma summary_items_Inr:
  "summary_items content = Inr grouped \<longleftrightarrow>
     (\<exists>secs. map_of content (u ''sections'') = Some (JList secs) \<and> secs \<noteq> [] \<and> map_result section_items secs = Inr grouped)"
  by (auto simp: summary_items_def and_then_Inr nonempty_list_Inr)

lemma summary_items_replace:
  assumes "summary_items content = Inr grouped" "map length grouped' = map length grouped"
  shows "summary_items (replace_sections content grouped') = Inr grouped'"
proof -
  from assms(1) obtain secs where s: "map_of content (u ''sections'') = Some (JList secs)" "secs \<noteq> []"
    "list_all2 (\<lambda>sec items. section_items sec = Inr items) secs grouped"
    by (auto simp: summary_items_Inr map_result_Inr_iff)
  have len: "length grouped' = length grouped" using assms(2) map_eq_imp_length_eq by blast
  then have l: "length secs = length grouped'" using s(3) by (simp add: list_all2_lengthD)
  have "list_all2 (\<lambda>sec items. section_items sec = Inr items)
      (map (\<lambda>(sec, items). replace_items sec items) (zip secs grouped')) grouped'"
    unfolding list_all2_conv_all_nth
  proof (intro conjI allI impI)
    fix i assume "i < length (map (\<lambda>(sec, items). replace_items sec items) (zip secs grouped'))"
    then have i: "i < length secs" "i < length grouped'" by simp_all
    have "length (grouped' ! i) = length (grouped ! i)" using assms(2) i len by (metis nth_map)
    moreover have "section_items (secs ! i) = Inr (grouped ! i)" using s(3) i by (simp add: list_all2_conv_all_nth)
    ultimately show "section_items (map (\<lambda>(sec, items). replace_items sec items) (zip secs grouped') ! i) = Inr (grouped' ! i)"
      using i by (simp add: section_items_replace)
  qed (use l in simp)
  moreover have "grouped' \<noteq> []" using l s(2) by auto
  ultimately show ?thesis using s(1,2) l
    by (auto simp: summary_items_Inr replace_sections_def map_of_put_key map_result_Inr_iff simp del: u_simps)
qed

lemma regroup_items_concat:
  "length cited = sum_list ns \<Longrightarrow> concat (regroup_items ns cited) = cited \<and> map length (regroup_items ns cited) = ns"
  by (induction ns cited rule: regroup_items.induct) auto

lemma summary_items_snapshot_id: "summary_items (with_snapshot_id sn content) = summary_items content"
proof -
  have "map_of (filter (\<lambda>kv. fst kv \<noteq> u ''snapshot_id'') content) (u ''sections'') = map_of content (u ''sections'')"
    by (induction content) auto
  then show ?thesis by (simp add: summary_items_def with_snapshot_id_def)
qed

section \<open>The citations of the supports\<close>

definition supports_of :: "(ustr \<times> json) list \<Rightarrow> (ustr \<times> json) list list" where
  "supports_of item =
     (case Option.bind (map_of item (u ''supports'')) json_list of None \<Rightarrow> [] | Some xs \<Rightarrow> List.map_filter json_object xs)"

lemma index_citations_Inr:
  assumes "index_citations rows = Inr m"
  shows "m = map (\<lambda>(ordinal, i, a). ((ordinal, uuid_text a), uuid_text i)) rows"
proof -
  let ?f = "\<lambda>(ordinal, i, a) m. require ((ordinal, uuid_text a) \<notin> fst ` set m)
         (GenerationRepositoryError (u ''summary has duplicate support citations''))
         (Inr (m @ [((ordinal, uuid_text a), uuid_text i)]))"
  have "fold_result ?f rows m0 = Inr m1 \<Longrightarrow>
      m1 = m0 @ map (\<lambda>(ordinal, i, a). ((ordinal, uuid_text a), uuid_text i)) rows" for m0 m1
  proof (induction rows arbitrary: m0)
    case (Cons r rows)
    obtain ordinal i a where r: "r = (ordinal, i, a)" by (cases r)
    from Cons.prems have "fold_result ?f rows (m0 @ [((ordinal, uuid_text a), uuid_text i)]) = Inr m1"
      by (simp add: r and_then_Inr del: u_simps)
    from Cons.IH [OF this] show ?case by (simp add: r)
  qed simp
  from this [of "[]" m] show ?thesis using assms by (simp add: index_citations_def)
qed

lemma citation_row_Some:
  "(case t of SourceAnchor a \<Rightarrow> if P then Some (q, i, a) else None | WebEvidence _ \<Rightarrow> None) = Some y \<longleftrightarrow>
     P \<and> (\<exists>a. t = SourceAnchor a \<and> y = (q, i, a))"
  by (cases t) auto

lemma citation_rows_set:
  "(ordinal, i, a) \<in> set (citation_rows db document) \<Longrightarrow>
     \<exists>g \<in> set (segments db). \<exists>c \<in> set (citations db). sg_document g = document \<and> sg_ordinal g = ordinal \<and>
       ct_segment c = sg_id g \<and> ct_id c = i \<and> ct_target c = SourceAnchor a"
  unfolding citation_rows_def by (auto simp: set_map_filter citation_row_Some)

text \<open>A cited support: its citation id is that of a citation row of the item's segment and the support's anchor.\<close>

definition support_cited :: "'z app_db_scheme \<Rightarrow> uuid \<Rightarrow> int \<Rightarrow> (ustr \<times> json) list \<Rightarrow> bool" where
  "support_cited db document ordinal support \<longleftrightarrow>
     (\<exists>g \<in> set (segments db). \<exists>c \<in> set (citations db). \<exists>a. sg_document g = document \<and> sg_ordinal g = ordinal \<and>
        ct_segment c = sg_id g \<and> ct_target c = SourceAnchor a \<and>
        get_str support (u ''citation_id'') = Some (uuid_text (ct_id c)) \<and>
        get_str support (u ''source_anchor_id'') = Some (uuid_text a))"

lemma cite_support_Inr:
  assumes "cite_support m ordinal j = Inr j'" and m: "index_citations (citation_rows db document) = Inr m"
  shows "\<exists>kvs. j' = JObj kvs \<and> support_cited db document ordinal kvs"
proof -
  from assms(1) obtain kvs a c where k: "j = JObj kvs" "get_str kvs (u ''source_anchor_id'') = Some a"
    "map_of m (ordinal, a) = Some c" "j' = JObj (put_key (u ''citation_id'') (JStr c) kvs)"
    by (auto simp: cite_support_def json_object_Some simp del: u_simps split: option.splits)
  have "((ordinal, a), c) \<in> set m" using k(3) by (rule map_of_SomeD)
  then obtain i b where "(ordinal, i, b) \<in> set (citation_rows db document)" "a = uuid_text b" "c = uuid_text i"
    unfolding index_citations_Inr [OF m] by auto
  with citation_rows_set k show ?thesis
    by (fastforce simp: support_cited_def get_str_put_key simp del: u_simps)
qed

lemma cite_item_Inr:
  assumes c: "cite_item m oi = Inr item" and m: "index_citations (citation_rows db document) = Inr m"
  shows "supports_of item \<noteq> [] \<and> (\<forall>s \<in> set (supports_of item). support_cited db document (int (fst oi)) s)"
proof -
  from c obtain supports cited where s: "supports \<noteq> []" "map_result (cite_support m (int (fst oi))) supports = Inr cited"
    "item = put_key (u ''supports'') (JList cited) (snd oi)"
    by (auto simp: cite_item_def and_then_Inr nonempty_list_Inr)
  have obj: "\<exists>kvs. j = JObj kvs \<and> support_cited db document (int (fst oi)) kvs" if "j \<in> set cited" for j
    using map_result_all [OF s(2) that] cite_support_Inr [OF _ m] by metis
  have "cited \<noteq> []" using map_result_length [OF s(2)] s(1) by auto
  then obtain j kvs where "j \<in> set cited" "j = JObj kvs" using obj by (metis list.set_intros(1) neq_Nil_conv)
  then have "kvs \<in> set (List.map_filter json_object cited)" by (force simp: set_map_filter)
  then have "List.map_filter json_object cited \<noteq> []" by auto
  moreover have "support_cited db document (int (fst oi)) kvs" if "kvs \<in> set (List.map_filter json_object cited)" for kvs
    using that obj by (fastforce simp: set_map_filter json_object_Some)
  ultimately show ?thesis by (simp add: supports_of_def s(3) map_of_put_key)
qed

lemma summary_with_citations:
  assumes "summary_with_citation_ids db d = Inr content"
  shows "\<exists>grouped. summary_items content = Inr grouped \<and>
    (\<forall>i < length (concat grouped). supports_of (concat grouped ! i) \<noteq> [] \<and>
       (\<forall>s \<in> set (supports_of (concat grouped ! i)). support_cited db (md_document d) (int i) s))"
proof -
  from assms obtain c0 grouped m cited where
    g: "summary_items c0 = Inr grouped" and m: "index_citations (citation_rows db (md_document d)) = Inr m" and
    c: "map_result (cite_item m) (enumerate 0 (concat grouped)) = Inr cited" and
    r: "content = replace_sections c0 (regroup_items (map length grouped) cited)"
    by (auto simp: summary_with_citation_ids_def and_then_Inr)
  have len: "length cited = length (concat grouped)" using map_result_length [OF c] by simp
  then have rg: "concat (regroup_items (map length grouped) cited) = cited"
    "map length (regroup_items (map length grouped) cited) = map length grouped"
    using regroup_items_concat [of cited "map length grouped"] by (simp_all add: length_concat)
  have "cite_item m (i, concat grouped ! i) = Inr (cited ! i)" if "i < length cited" for i
    using c that len by (simp add: map_result_Inr_iff list_all2_conv_all_nth nth_enumerate_eq)
  then have "\<forall>i < length cited. supports_of (cited ! i) \<noteq> [] \<and>
      (\<forall>s \<in> set (supports_of (cited ! i)). support_cited db (md_document d) (int i) s)"
    using cite_item_Inr [OF _ m] by fastforce
  then show ?thesis
    using summary_items_replace [OF g rg(2)] r rg(1) by (intro exI [of _ "regroup_items (map length grouped) cited"]) simp
qed

lemma find_any: "find (\<lambda>_. True) xs = Some x \<Longrightarrow> x \<in> set xs"
  by (cases xs) auto

lemma published_mem:
  "(n, x) \<in> set (published_documents db s k) \<longleftrightarrow>
     n \<in> set (current_snapshots db s) \<and> x \<in> set (documents db) \<and>
     (\<exists>r \<in> set (runs db). gr_snapshot r = sn_id n \<and> gr_kind r = k \<and> gr_state r = G_SUCCEEDED \<and> gd_run x = gr_id r)"
  by (auto simp: published_documents_def)

lemma member_document_Inr:
  assumes "member_document db sid actor k = Inr d"
  shows "\<exists>s n x. member_session db actor sid = Some s \<and> (n, x) \<in> set (published_documents db s k) \<and>
    md_snapshot d = sn_id n \<and> md_document d = gd_id x \<and> md_content d = gd_content x"
proof -
  let ?b = "Option.bind (member_session db actor sid)
    (\<lambda>s. map_option (Pair s) (find (\<lambda>_. True) (published_documents db s k)))"
  obtain t where t: "?b = Some t" using assms unfolding member_document_def by (cases ?b) simp_all
  obtain s n x where snx: "t = (s, n, x)" by (cases t)
  from t have m: "member_session db actor sid = Some s" "find (\<lambda>_. True) (published_documents db s k) = Some (n, x)"
    by (simp_all add: snx bind_eq_Some_conv map_option_eq_Some)
  have "md_snapshot d = sn_id n \<and> md_document d = gd_id x \<and> md_content d = gd_content x"
    using assms unfolding member_document_def t by (auto simp: snx and_then_Inr json_object_copy_def)
  then show ?thesis using m find_any [OF m(2)] by blast
qed

text \<open>Under the invariants a document's run, kind and snapshot are determined.\<close>

lemma published_kind:
  assumes "provenance db" "session_inv db" "(n, x) \<in> set (published_documents db s k)"
  shows "gd_kind x = k"
proof -
  from assms(3) obtain r where r: "x \<in> set (documents db)" "r \<in> set (runs db)" "gr_kind r = k" "gd_run x = gr_id r"
    by (auto simp: published_mem)
  then have "document_kind_ok db x" using assms(1) by (simp add: provenance_def provenance_for_def)
  then obtain q where q: "q \<in> set (runs db)" "gr_id q = gd_run x" "gr_kind q = gd_kind x"
    by (auto simp: document_kind_ok_def list_ex_iff)
  have dist: "distinct (map gr_id (runs db))" using assms(2) by (simp add: session_inv_def)
  have "q = r" by (rule distinct_key_unique [OF dist q(1) r(2)]) (simp add: q r)
  then show ?thesis using q r by simp
qed

lemma support_anchor_pinned:
  assumes p: "provenance db" and inv: "session_inv db" and x: "(n, x) \<in> set (published_documents db s k)"
    and c: "support_cited db (gd_id x) ordinal support"
  shows "\<exists>a. get_str support (u ''source_anchor_id'') = Some (uuid_text a) \<and> anchor_pinned db (sn_id n) a"
proof -
  from c obtain g c a where g: "g \<in> set (segments db)" "c \<in> set (citations db)" "sg_document g = gd_id x"
    "ct_segment c = sg_id g" "ct_target c = SourceAnchor a" "get_str support (u ''source_anchor_id'') = Some (uuid_text a)"
    by (auto simp: support_cited_def simp del: u_simps)
  have dist: "distinct (map sg_id (segments db))" "distinct (map gd_id (documents db))" "distinct (map gr_id (runs db))"
    using p inv by (simp_all add: provenance_def provenance_for_def session_inv_def)
  have xd: "x \<in> set (documents db)" using x by (simp add: published_mem)
  have doc: "segment_document db (ct_segment c) = Some x"
    using find_key_unique [OF dist(1) g(1)] find_key_unique [OF dist(2) xd] by (simp add: segment_document_def g)
  from provenance_citation [OF p g(2,5)] doc obtain r where r: "r \<in> set (runs db)" "gr_id r = gd_run x"
    "anchor_pinned db (gr_snapshot r) a" by auto
  from x obtain r' where r': "r' \<in> set (runs db)" "gr_snapshot r' = sn_id n" "gd_run x = gr_id r'"
    by (auto simp: published_mem)
  have "r = r'" by (rule distinct_key_unique [OF dist(3) r(1) r'(1)]) (simp add: r r')
  then show ?thesis using r r' g(6) by auto
qed

section \<open>Source quality\<close>

lemma length_reasons: "length (List.map_filter exclusion_reason rows) = length rows - length (filter (\<lambda>a. an_excluded a = None) rows)"
proof -
  have "length (List.map_filter exclusion_reason rows) + length (filter (\<lambda>a. an_excluded a = None) rows) = length rows"
    by (induction rows) (auto simp: List.map_filter_simps exclusion_reason_def split: option.split)
  then show ?thesis by simp
qed

lemma count_reasons: "count_list (List.map_filter exclusion_reason rows) k = length (filter (\<lambda>a. exclusion_reason a = Some k) rows)"
  by (induction rows) (auto simp: List.map_filter_simps split: option.split)

section \<open>Sample database\<close>

definition sample_summary :: "(ustr \<times> json) list" where
  "sample_summary =
     [(u ''sections'', JList [JObj [(u ''heading'', JStr (u ''h'')),
        (u ''items'', JList [JObj [(u ''text'', JStr (u ''t'')),
           (u ''supports'', JList [JObj [(u ''source_anchor_id'', JStr (uuid_text 90))]])]])]])]"

definition sample_published_db :: app_db where
  "sample_published_db = sample_close_db\<lparr>
     sessions := [sample_session\<lparr>ts_state := READY, ts_epoch := 1, ts_version := 3\<rparr>],
     anchors := [\<lparr>an_id = 90, an_run = 40, an_revision = 30, an_ordinal = 0, an_block = u ''p'', an_text = u ''x'', an_confidence = None, an_json = JNull, an_excluded = None\<rparr>],
     snapshots := [\<lparr>sn_id = 50, sn_session = 7, sn_epoch = 1, sn_created_by = 5, sn_topic = u ''t'', sn_pipeline = u ''p1'',
       sn_anchor_version = u ''v1''\<rparr>],
     pinned := [\<lparr>pn_snapshot = 50, pn_revision = 30, pn_run = 40\<rparr>],
     runs := [(queued_run 60 50 SUMMARY (u ''p1''))\<lparr>gr_state := G_SUCCEEDED\<rparr>,
       (queued_run 61 50 RESEARCH (u ''p1''))\<lparr>gr_state := G_SUCCEEDED\<rparr>],
     documents := [\<lparr>gd_id = 200, gd_run = 60, gd_kind = SUMMARY, gd_content = sample_summary, gd_hash = []\<rparr>],
     segments := [\<lparr>sg_id = 210, sg_document = 200, sg_ordinal = 0, sg_text = u ''t''\<rparr>],
     citations := [\<lparr>ct_id = 220, ct_segment = 210, ct_target = SourceAnchor 90\<rparr>]\<rparr>"

lemmas published_eval = sample_published_db_def sample_close_db_def empty_db_def sample_session_def queued_run_def

lemma published_inv: "session_inv sample_published_db"
proof -
  have "length (runs_for sample_published_db 50 k) = 1" for k
    by (cases k) (simp_all add: runs_for_def published_eval del: u_simps)
  then show ?thesis
    by (simp add: session_inv_def session_ok_def) (simp add: published_eval del: u_simps)
qed

lemma published_provenance: "provenance sample_published_db"
  by (simp add: provenance_def provenance_for_def summaries_cited_def document_kind_ok_def citation_ok_def
      segment_document_def anchor_pinned_def published_eval del: u_simps)

lemma published_member:
  "member_session sample_published_db 5 7 = Some (sample_session\<lparr>ts_state := READY, ts_epoch := 1, ts_version := 3\<rparr>)"
  by (simp add: member_session_def find_session_def is_member_def published_eval del: u_simps)

lemma sample_documents:
  "published_documents sample_published_db (sample_session\<lparr>ts_state := READY, ts_epoch := 1, ts_version := 3\<rparr>) SUMMARY =
     [(\<lparr>sn_id = 50, sn_session = 7, sn_epoch = 1, sn_created_by = 5, sn_topic = u ''t'', sn_pipeline = u ''p1'',
       sn_anchor_version = u ''v1''\<rparr>, \<lparr>gd_id = 200, gd_run = 60, gd_kind = SUMMARY, gd_content = sample_summary, gd_hash = []\<rparr>)]"
  by (simp add: published_documents_def current_snapshots_def published_eval del: u_simps)

lemma sample_keys:
  "fst ` set sample_summary = {u ''sections''}"
  "deep_keys (JObj sample_summary) \<inter> set summary_forbidden_keys = {}"
  "deep_keys (JObj sample_summary) \<inter> set fixture_forbidden_keys = {}" "finite_json (JObj sample_summary)"
  by (simp_all add: sample_summary_def summary_forbidden_keys_def fixture_forbidden_keys_def)

lemma sample_read: "\<exists>content. get_summary sample_published_db 7 5 = Inr content"
proof -
  let ?item = "[(u ''text'', JStr (u ''t'')), (u ''supports'', JList [JObj [(u ''source_anchor_id'', JStr (uuid_text 90))]])]"
  have d: "member_document sample_published_db 7 5 SUMMARY =
      Inr \<lparr>md_session = 7, md_snapshot = 50, md_document = 200, md_kind = SUMMARY, md_content = sample_summary\<rparr>"
    by (simp add: member_document_def published_member sample_documents json_object_copy_def sample_keys(4) del: finite_json.simps)
      (simp add: sample_session_def)
  have items: "summary_items sample_summary = Inr [[?item]]"
    by (simp add: summary_items_Inr section_items_Inr sample_summary_def and_then_Inr insert_commute)
  have idx: "index_citations (citation_rows sample_published_db 200) = Inr [((0, uuid_text 90), uuid_text 220)]"
    by (simp add: index_citations_def citation_rows_def published_eval List.map_filter_simps del: u_simps)
  have "\<exists>x. cite_item [((0, uuid_text 90), uuid_text 220)] (0, ?item) = Inr x"
    by (simp add: cite_item_def nonempty_list_def cite_support_def get_str_def get_key_def)
  then obtain x where x: "cite_item [((0, uuid_text 90), uuid_text 220)] (0, ?item) = Inr x" ..
  have "assert_summary_isolated sample_summary = Inr ()" "assert_no_fixture_aliases sample_summary = Inr ()"
    unfolding assert_summary_isolated_def assert_no_fixture_aliases_def walk_ok(1) by (fact sample_keys)+
  then show ?thesis
    by (simp add: get_summary_def d summary_with_citation_ids_def json_object_copy_def sample_keys(4) items idx
        x del: finite_json.simps u_simps)
qed

section \<open>Properties\<close>

text \<open>
  C11: a returned summary is grounded.  A current member gets the summary of the session's current snapshot only,
  and every support of every item names a stored citation of that document: the citation belongs to the segment
  with the item's number, its id is the \<open>citation_id\<close> of the support, its anchor the \<open>source_anchor_id\<close>, and
  that anchor comes from a revision and extraction run the snapshot pins.  No item is without support.
\<close>

theorem summary_supports_are_cited:
  assumes "provenance db" and "session_inv db" and "get_summary db sid actor = Inr content"
  shows "\<exists>s n x grouped. member_session db actor sid = Some s \<and> n \<in> set (current_snapshots db s) \<and>
    x \<in> set (documents db) \<and> gd_kind x = SUMMARY \<and> summary_items content = Inr grouped \<and>
    (\<forall>i < length (concat grouped). supports_of (concat grouped ! i) \<noteq> [] \<and>
       (\<forall>p \<in> set (supports_of (concat grouped ! i)). support_cited db (gd_id x) (int i) p \<and>
          (\<exists>a. get_str p (u ''source_anchor_id'') = Some (uuid_text a) \<and> anchor_pinned db (sn_id n) a)))"
proof -
  from assms(3) obtain d c where d: "member_document db sid actor SUMMARY = Inr d"
    "summary_with_citation_ids db d = Inr c" "content = with_snapshot_id (md_snapshot d) c"
    by (auto simp: get_summary_def and_then_Inr)
  from member_document_Inr [OF d(1)] obtain s n x where m: "member_session db actor sid = Some s"
    "(n, x) \<in> set (published_documents db s SUMMARY)" "md_document d = gd_id x" by blast
  from summary_with_citations [OF d(2)] obtain grouped where g: "summary_items c = Inr grouped"
    "\<forall>i < length (concat grouped). supports_of (concat grouped ! i) \<noteq> [] \<and>
       (\<forall>p \<in> set (supports_of (concat grouped ! i)). support_cited db (gd_id x) (int i) p)"
    unfolding m(3) by blast
  have "n \<in> set (current_snapshots db s)" "x \<in> set (documents db)" using m(2) by (simp_all add: published_mem)
  moreover have "gd_kind x = SUMMARY" by (rule published_kind [OF assms(1,2) m(2)])
  moreover have "summary_items content = Inr grouped" using g(1) by (simp add: d(3) summary_items_snapshot_id)
  ultimately show ?thesis using g(2) m(1) support_anchor_pinned [OF assms(1,2) m(2)] by blast
qed

theorem summary_supports_are_cited_witness:
  "\<exists>content n x. get_summary sample_published_db 7 5 = Inr content \<and> x \<in> set (documents sample_published_db) \<and>
     gd_kind x = SUMMARY \<and> n \<in> set (snapshots sample_published_db) \<and> sn_session n = 7"
proof -
  obtain content where c: "get_summary sample_published_db 7 5 = Inr content" using sample_read by blast
  from summary_supports_are_cited [OF published_provenance published_inv c] obtain s n x where
    "member_session sample_published_db 5 7 = Some s" "n \<in> set (current_snapshots sample_published_db s)"
    "x \<in> set (documents sample_published_db)" "gd_kind x = SUMMARY" by blast
  moreover from this published_member have "n \<in> set (snapshots sample_published_db)" "sn_session n = 7"
    by (auto simp: current_snapshots_def sample_session_def)
  ultimately show ?thesis using c by blast
qed

text \<open>
  The source quality adds up.  For the anchors of the pinned revisions, accepted and excluded anchors are the
  total; the reasons are listed once each, in order, and a reason's count is the number of anchors excluded for it;
  the counts sum to the number of excluded anchors; the status is \<open>filtered\<close> exactly when one is excluded.
\<close>

theorem source_quality_adds_up:
  "sq_accepted (quality_of rows) + sq_excluded (quality_of rows) = sq_total (quality_of rows) \<and>
   sq_total (quality_of rows) = length rows \<and> sq_accepted (quality_of rows) = length (filter (\<lambda>a. an_excluded a = None) rows) \<and>
   sum_list (map snd (sq_reasons (quality_of rows))) = sq_excluded (quality_of rows) \<and>
   sorted (map fst (sq_reasons (quality_of rows))) \<and> distinct (map fst (sq_reasons (quality_of rows))) \<and>
   map_of (sq_reasons (quality_of rows)) reason =
     (let n = length (filter (\<lambda>a. exclusion_reason a = Some reason) rows) in if n = 0 then None else Some n) \<and>
   (sq_filtered (quality_of rows) \<longleftrightarrow> sq_excluded (quality_of rows) \<noteq> 0)"
proof -
  let ?rs = "List.map_filter exclusion_reason rows" and ?c = "fold bump (List.map_filter exclusion_reason rows) []"
  note F = fold_bump [of ?rs reason]
  have "set (sort_key fst ?c) = set ?c" by simp
  moreover have dist: "distinct (map fst (sort_key fst ?c))"
  proof -
    have "mset (map fst (sort_key fst ?c)) = mset (map fst ?c)" by simp
    then show ?thesis using F by (metis mset_eq_imp_distinct_iff)
  qed
  ultimately have m: "map_of (sort_key fst ?c) = map_of ?c" using F by (simp add: map_of_inject_set)
  have s: "sum_list (map snd (sort_key fst ?c)) = sum_list (map snd ?c)"
  proof -
    have "mset (map snd (sort_key fst ?c)) = mset (map snd ?c)" by simp
    then show ?thesis by (metis sum_mset_sum_list)
  qed
  have k: "reason \<in> set ?rs \<longleftrightarrow> count_list ?rs reason \<noteq> 0" by (simp add: count_list_0_iff)
  have le: "length (filter (\<lambda>a. an_excluded a = None) rows) \<le> length rows" by simp
  show ?thesis
    using F le dist by (simp add: quality_of_def Let_def m s length_reasons k count_reasons not_le)
qed

end
