(* ===== verification/Session_Gates.thy ===== *)
theory Session_Gates
  imports Membership_Gate Session_Retry_Properties Generation_Read_Properties
begin

text \<open>
  The membership gate of the operations on a session: closing, reopening, retrying, and the four reads of
  generated results satisfy the interface \<open>session_gate\<close>.
\<close>

definition close_call ::
  "close_draws \<times> (uuid \<times> ustr) list \<times> ustr \<times> ustr option \<Rightarrow> uuid \<Rightarrow> uuid \<Rightarrow> 'z app_db_scheme \<Rightarrow>
   (app_error + closed_snapshot) \<times> 'z app_db_scheme" where
  "close_call c actor sid db = (case c of (d, reqs, pipeline, av) \<Rightarrow> close d sid actor reqs pipeline av db)"

text \<open>A malformed request is refused before any row is read.\<close>

definition close_denial :: "close_draws \<times> (uuid \<times> ustr) list \<times> ustr \<times> ustr option \<Rightarrow> app_error + closed_snapshot" where
  "close_denial c =
     (case c of (d, reqs, pipeline, av) \<Rightarrow>
      case require (\<not> is_blank pipeline) (ValueError (u ''pipeline_version must not be blank''))
          (require (case av of None \<Rightarrow> True | Some a \<Rightarrow> \<not> is_blank a)
             (ValueError (u ''anchor_schema_version must not be blank'')) (domain_exclusions reqs)) of
        Inl e \<Rightarrow> Inl e
      | Inr excl \<Rightarrow> Inl (SessionAccessError (u ''session is unavailable'')))"

lemma host_session_gate: "member_session db actor sid = None \<Longrightarrow> host_session na nh m db actor sid = Inl (na (u ''session is unavailable''))"
  by (simp add: host_session_def)

interpretation close_gate: session_gate close_call close_denial
  by unfold_locales
    (auto simp: close_call_def close_denial_def close_def close_body_def host_session_gate simp del: u_simps split: sum.split)

interpretation reopen_gate: session_gate "\<lambda>d actor sid. reopen d sid actor" "\<lambda>d. Inl (SessionAccessError (u ''session is unavailable''))"
  by unfold_locales (simp add: reopen_def reopen_body_def host_session_gate del: u_simps)

interpretation retry_gate: session_gate "\<lambda>d actor sid. retry d sid actor" "\<lambda>d. Inl (SessionRetryAccessError (u ''session is unavailable''))"
  by unfold_locales (simp add: retry_def retry_body_def host_session_gate del: u_simps)

lemma member_document_gate:
  "member_session db actor sid = None \<Longrightarrow> member_document db sid actor k =
     Inl (GenerationDocumentUnavailableError (u ''generated document is unavailable''))"
  by (simp add: member_document_def)

interpretation summary_gate: session_gate "\<lambda>(_ :: unit) actor sid db. (get_summary db sid actor, db)"
    "\<lambda>_. Inl (GenerationDocumentUnavailableError (u ''generated document is unavailable''))"
  by unfold_locales (simp add: get_summary_def member_document_gate del: u_simps)

interpretation research_gate: session_gate "\<lambda>(_ :: unit) actor sid db. (get_research db sid actor, db)"
    "\<lambda>_. Inl (GenerationDocumentUnavailableError (u ''generated document is unavailable''))"
  by unfold_locales (simp add: get_research_def member_document_gate del: u_simps)

interpretation contributions_gate: session_gate "\<lambda>(_ :: unit) actor sid db. (rag_contributions db sid actor, db)" "\<lambda>_. []"
  by unfold_locales (simp add: rag_contributions_def)

interpretation quality_gate: session_gate "\<lambda>(_ :: unit) actor sid db. (source_quality db sid actor, db)" "\<lambda>_. quality_of []"
  by unfold_locales (simp add: source_quality_def)

text \<open>
  C12: who is no current member of a session's room learns nothing about it.  Closing, reopening, retrying and the
  reads of summary, research, contributions and quality give such an actor exactly the answer they give for a
  session that does not exist, and leave the database as it is.
\<close>

theorem non_members_learn_nothing:
  assumes "find_session db absent = None" and "find_session db sid = Some s" and "\<not> is_member db (ts_room s) actor"
  shows "close d sid actor reqs pipeline av db = close d absent actor reqs pipeline av db \<and>
    snd (close d sid actor reqs pipeline av db) = db \<and>
    reopen d' sid actor db = reopen d' absent actor db \<and> snd (reopen d' sid actor db) = db \<and>
    retry d'' sid actor db = retry d'' absent actor db \<and> snd (retry d'' sid actor db) = db \<and>
    get_summary db sid actor = get_summary db absent actor \<and> get_research db sid actor = get_research db absent actor \<and>
    rag_contributions db sid actor = rag_contributions db absent actor \<and>
    source_quality db sid actor = source_quality db absent actor"
  using close_gate.absent_like_foreign [OF assms, of "(d, reqs, pipeline, av)", unfolded close_call_def]
    reopen_gate.absent_like_foreign [OF assms, of d'] retry_gate.absent_like_foreign [OF assms, of d'']
    summary_gate.absent_like_foreign [OF assms] research_gate.absent_like_foreign [OF assms]
    contributions_gate.absent_like_foreign [OF assms] quality_gate.absent_like_foreign [OF assms]
  by simp

theorem non_members_learn_nothing_witness:
  "get_summary sample_published_db 7 6 = get_summary sample_published_db 8 6 \<and>
   snd (retry sample_retry_draws 7 6 sample_published_db) = sample_published_db"
proof -
  have f: "find_session sample_published_db 8 = None"
    "find_session sample_published_db 7 = Some (sample_session\<lparr>ts_state := READY, ts_epoch := 1, ts_version := 3\<rparr>)"
    "\<not> is_member sample_published_db (ts_room (sample_session\<lparr>ts_state := READY, ts_epoch := 1, ts_version := 3\<rparr>)) 6"
    by (simp_all add: find_session_def is_member_def published_eval del: u_simps)
  show ?thesis using non_members_learn_nothing [OF f] by blast
qed

end
