(* ===== verification/Summary_Grounding.thy ===== *)
theory Summary_Grounding
  imports Complex_Main Errors Json
begin

text \<open>
  \<open>apps/api/app/summary_grounding.py\<close>: a candidate summary becomes a grounded one only when every item is
  supported by exact spans of anchors of the snapshot.

  \<^item> The three regular expressions are matched by hand.  \<open>re.IGNORECASE\<close> on \<open>str\<close> compares lower-case forms
    and adds the dotless i and the long s; \<open>\b\<close> is a change of \<open>\w\<close>.  \<open>str.isalnum()\<close> beyond ASCII is a table
    of the interpreter and the parameter \<open>alnum\<close>.
  \<^item> A float is the rational number it denotes.  An anchor's participant plays no part and is left out.
  \<^item> \<open>isolated_summary_excerpt\<close> and \<open>require_assertion_grounded\<close> need Unicode case folding and
    normalisation and are not modelled.
\<close>

section \<open>Patterns\<close>

text \<open>One pattern character (a lower-case ASCII letter or a literal) against one character of the text.\<close>

definition ci_match :: "nat \<Rightarrow> nat \<Rightarrow> bool" where
  "ci_match p c \<longleftrightarrow>
     c = p \<or> 97 \<le> p \<and> p \<le> 122 \<and>
       (c + 32 = p \<or> p = 105 \<and> c \<in> {304, 305} \<or> p = 115 \<and> c = 383 \<or> p = 107 \<and> c = 8490)"

fun ci_prefix :: "ustr \<Rightarrow> ustr \<Rightarrow> bool" where
  "ci_prefix [] t = True"
| "ci_prefix (p # ps) [] = False"
| "ci_prefix (p # ps) (c # cs) = (ci_match p c \<and> ci_prefix ps cs)"

definition word_char :: "(nat \<Rightarrow> bool) \<Rightarrow> nat \<Rightarrow> bool" where
  "word_char alnum c \<longleftrightarrow>
     (if c < 128 then 48 \<le> c \<and> c \<le> 57 \<or> 65 \<le> c \<and> c \<le> 90 \<or> 97 \<le> c \<and> c \<le> 122 \<or> c = 95 else alnum c)"

definition starts_word :: "(nat \<Rightarrow> bool) \<Rightarrow> ustr \<Rightarrow> bool" where
  "starts_word alnum t \<longleftrightarrow> (case t of [] \<Rightarrow> False | c # _ \<Rightarrow> word_char alnum c)"

text \<open>\<open>\b\<close> between the text read so far (reversed) and the rest.\<close>

definition word_boundary :: "(nat \<Rightarrow> bool) \<Rightarrow> ustr \<Rightarrow> ustr \<Rightarrow> bool" where
  "word_boundary alnum before rest \<longleftrightarrow> starts_word alnum before \<noteq> starts_word alnum rest"

text \<open>\<open>\bword\b\<close> for one of the words: the lengths of the matches at this position.\<close>

definition word_matches :: "(nat \<Rightarrow> bool) \<Rightarrow> ustr list \<Rightarrow> ustr \<Rightarrow> ustr \<Rightarrow> nat list" where
  "word_matches alnum ws before rest =
     (if word_boundary alnum before rest
      then map length (filter (\<lambda>w. ci_prefix w rest \<and>
             word_boundary alnum (rev (take (length w) rest) @ before) (drop (length w) rest)) ws)
      else [])"

text \<open>\<open>re.search\<close>: try every position from the left.\<close>

fun search_from :: "(ustr \<Rightarrow> ustr \<Rightarrow> bool) \<Rightarrow> ustr \<Rightarrow> ustr \<Rightarrow> bool" where
  "search_from f before [] = f before []"
| "search_from f before (c # cs) = (f before (c # cs) \<or> search_from f (c # before) cs)"

definition has_url :: "ustr \<Rightarrow> bool" where
  "has_url s =
     search_from (\<lambda>before t. ci_prefix (u ''http://'') t \<or> ci_prefix (u ''https://'') t \<or> ci_prefix (u ''www.'') t) [] s"

definition verdict_words :: "ustr list" where
  "verdict_words =
     [u ''factcheck'', u ''fact check'', u ''fact-check'', u ''webevidence'', u ''web evidence'', u ''web-evidence'',
      u ''verdict'', u ''supported'', u ''refuted'', u ''mixed'', u ''unverifiable'']"

definition has_verdict :: "(nat \<Rightarrow> bool) \<Rightarrow> ustr \<Rightarrow> bool" where
  "has_verdict alnum s = search_from (\<lambda>before t. word_matches alnum verdict_words before t \<noteq> []) [] s"

text \<open>\<open>is_instruction_like_content\<close>: a command word, at most 96 characters, a target word.\<close>

definition is_instruction_like :: "(nat \<Rightarrow> bool) \<Rightarrow> ustr \<Rightarrow> bool" where
  "is_instruction_like alnum s =
     search_from (\<lambda>before t.
       list_ex (\<lambda>n. list_ex (\<lambda>gap. n + gap \<le> length t \<and>
            word_matches alnum [u ''instruction'', u ''prompt'', u ''previous'']
              (rev (take (n + gap) t) @ before) (drop (n + gap) t) \<noteq> []) [0..<97])
         (word_matches alnum [u ''ignore'', u ''disregard'', u ''override'', u ''forget''] before t)) [] s"

definition is_text_isolated :: "(nat \<Rightarrow> bool) \<Rightarrow> ustr \<Rightarrow> bool" where
  "is_text_isolated alnum s \<longleftrightarrow> \<not> has_url s \<and> \<not> has_verdict alnum s"

text \<open>\<open>str.find\<close>\<close>

fun find_from :: "nat \<Rightarrow> ustr \<Rightarrow> ustr \<Rightarrow> nat option" where
  "find_from i sub [] = (if sub = [] then Some i else None)"
| "find_from i sub (c # cs) = (if take (length sub) (c # cs) = sub then Some i else find_from (Suc i) sub cs)"

definition py_find :: "ustr \<Rightarrow> ustr \<Rightarrow> nat option" where
  "py_find s sub = find_from 0 sub s"

lemma find_from_Some:
  "find_from i sub s = Some j \<Longrightarrow>
     i \<le> j \<and> j \<le> i + length s \<and> take (length sub) (drop (j - i) s) = sub \<and>
     (\<forall>k < j - i. take (length sub) (drop k s) \<noteq> sub)"
proof (induction i sub s rule: find_from.induct)
  case (2 i sub c cs)
  show ?case
  proof (cases "take (length sub) (c # cs) = sub")
    case False
    with 2 have h: "Suc i \<le> j" "j \<le> i + length (c # cs)" "take (length sub) (drop (j - Suc i) cs) = sub"
      "\<forall>k < j - Suc i. take (length sub) (drop k cs) \<noteq> sub" by auto
    have "j - i = Suc (j - Suc i)" using h(1) by simp
    with h False show ?thesis by (auto simp: less_Suc_eq_0_disj)
  qed (use 2 in simp)
qed (auto split: if_splits)

lemma py_find_Some:
  "py_find s sub = Some j \<Longrightarrow> j \<le> length s \<and> take (length sub) (drop j s) = sub \<and> (\<forall>k < j. take (length sub) (drop k s) \<noteq> sub)"
  using find_from_Some [of 0 sub s j] by (simp add: py_find_def)

section \<open>Candidates\<close>

record runtime_anchor =
  sa_id :: uuid
  sa_revision :: uuid
  sa_quote :: ustr
  sa_class :: ustr
  sa_block :: ustr
  sa_confidence :: "rat option"

definition make_runtime_anchor ::
  "uuid \<Rightarrow> uuid \<Rightarrow> ustr \<Rightarrow> ustr \<Rightarrow> ustr \<Rightarrow> rat option \<Rightarrow> app_error + runtime_anchor" where
  "make_runtime_anchor i r q c b f =
     require (\<not> is_blank q) (ValueError (u ''runtime source anchor exact_quote must not be blank''))
     (require (\<not> is_blank c) (ValueError (u ''runtime source anchor classification must not be blank''))
     (require (\<not> is_blank b) (ValueError (u ''runtime source anchor block_type must not be blank''))
     (require (case f of None \<Rightarrow> True | Some x \<Rightarrow> 0 \<le> x \<and> x \<le> 1)
       (ValueError (u ''runtime source anchor confidence must be in [0, 1]''))
        (Inr \<lparr>sa_id = i, sa_revision = r, sa_quote = q, sa_class = c, sa_block = b, sa_confidence = f\<rparr>))))"

record support_candidate =
  sc_anchor :: uuid
  sc_quote :: ustr

definition make_support_candidate :: "uuid \<Rightarrow> ustr \<Rightarrow> app_error + support_candidate" where
  "make_support_candidate a q =
     require (\<not> is_blank q) (ValueError (u ''summary support exact_quote must not be blank''))
       (Inr \<lparr>sc_anchor = a, sc_quote = q\<rparr>)"

record item_candidate =
  ic_text :: ustr
  ic_anchors :: "uuid list"
  ic_supports :: "support_candidate list"

definition make_item_candidate :: "ustr \<Rightarrow> uuid list \<Rightarrow> support_candidate list \<Rightarrow> app_error + item_candidate" where
  "make_item_candidate t ids supports =
     require (\<not> is_blank t) (ValueError (u ''summary item text must not be blank''))
     (require (ids \<noteq> []) (ValueError (u ''summary item must declare source anchors''))
     (require (supports \<noteq> []) (ValueError (u ''summary item must include exact support''))
        (Inr \<lparr>ic_text = t, ic_anchors = ids, ic_supports = supports\<rparr>)))"

record section_candidate =
  xc_heading :: ustr
  xc_items :: "item_candidate list"

definition make_section_candidate :: "ustr \<Rightarrow> item_candidate list \<Rightarrow> app_error + section_candidate" where
  "make_section_candidate h items =
     require (\<not> is_blank h) (ValueError (u ''summary section heading must not be blank''))
     (require (items \<noteq> []) (ValueError (u ''summary section must have at least one item''))
        (Inr \<lparr>xc_heading = h, xc_items = items\<rparr>))"

text \<open>A \<open>SummaryCandidate\<close> is its sections.\<close>

definition make_summary_candidate :: "section_candidate list \<Rightarrow> app_error + section_candidate list" where
  "make_summary_candidate sections =
     require (sections \<noteq> []) (ValueError (u ''summary must have at least one section'')) (Inr sections)"

record approved_assertion =
  aa_text :: ustr
  aa_supports :: "support_candidate list"

definition make_approved_assertion :: "ustr \<Rightarrow> support_candidate list \<Rightarrow> app_error + approved_assertion" where
  "make_approved_assertion t supports =
     require (\<not> is_blank t \<and> supports \<noteq> []) (ValueError (u ''approved assertion requires text and exact support''))
       (Inr \<lparr>aa_text = t, aa_supports = supports\<rparr>)"

section \<open>Grounded summaries\<close>

record grounded_support =
  gs_anchor :: uuid
  gs_quote :: ustr
  gs_start :: nat
  gs_end :: nat

record grounded_item =
  gi_text :: ustr
  gi_anchors :: "uuid list"
  gi_supports :: "grounded_support list"

record grounded_section =
  gx_heading :: ustr
  gx_items :: "grounded_item list"

type_synonym grounded_summary = "grounded_section list"

definition support_json :: "grounded_support \<Rightarrow> json" where
  "support_json s =
     JObj [(u ''source_anchor_id'', JStr (uuid_text (gs_anchor s))), (u ''exact_quote'', JStr (gs_quote s)),
           (u ''start'', JInt (int (gs_start s))), (u ''end'', JInt (int (gs_end s)))]"

definition item_object :: "grounded_item \<Rightarrow> (ustr \<times> json) list" where
  "item_object i =
     [(u ''text'', JStr (gi_text i)), (u ''source_anchor_ids'', JList (map (\<lambda>a. JStr (uuid_text a)) (gi_anchors i))),
      (u ''supports'', JList (map support_json (gi_supports i)))]"

definition section_json :: "grounded_section \<Rightarrow> json" where
  "section_json x =
     JObj [(u ''heading'', JStr (gx_heading x)), (u ''items'', JList (map (\<lambda>i. JObj (item_object i)) (gx_items x)))]"

definition structured_content :: "grounded_summary \<Rightarrow> (ustr \<times> json) list" where
  "structured_content s = [(u ''sections'', JList (map section_json s))]"

definition accepted_texts :: "grounded_summary \<Rightarrow> ustr list" where
  "accepted_texts s = concat (map (\<lambda>x. map gi_text (gx_items x)) s)"

section \<open>Grounding\<close>

definition assert_anchor_safe :: "(nat \<Rightarrow> bool) \<Rightarrow> runtime_anchor \<Rightarrow> app_error + unit" where
  "assert_anchor_safe alnum a =
     require (\<not> (sa_class a = u ''instruction_like_content'' \<or> is_instruction_like alnum (sa_quote a)))
       (SummaryGroundingError (u ''source_prompt_injection'') (u ''instruction-like source content cannot support a summary''))
     (require (sa_class a = u ''factual_claim'')
       (SummaryGroundingError (u ''unsupported_anchor'') (u ''only factual source anchors may support a summary''))
       (Inr ()))"

definition assert_text_isolated :: "(nat \<Rightarrow> bool) \<Rightarrow> ustr \<Rightarrow> app_error + unit" where
  "assert_text_isolated alnum s =
     require (is_text_isolated alnum s)
       (SummaryGroundingError (u ''summary_isolation_violation'')
          (u ''summary text must not contain URL, web-evidence, or verdict language'')) (Inr ())"

text \<open>The dictionary \<open>anchor_by_id\<close>, as the list of anchors in order.\<close>

definition index_anchors :: "runtime_anchor list \<Rightarrow> app_error + runtime_anchor list" where
  "index_anchors anchors =
     require (distinct (map sa_id anchors))
       (SummaryGroundingError (u ''duplicate_anchor'') (u ''snapshot contains duplicate anchors'')) (Inr anchors)"

definition ground_support ::
  "(nat \<Rightarrow> bool) \<Rightarrow> runtime_anchor list \<Rightarrow> support_candidate \<Rightarrow> grounded_support list \<Rightarrow> app_error + grounded_support list" where
  "ground_support alnum anchors c acc =
     (case find (\<lambda>a. sa_id a = sc_anchor c) anchors of
        None \<Rightarrow> Inl (SummaryGroundingError (u ''foreign_anchor'') (u ''summary support references a foreign anchor''))
      | Some a \<Rightarrow>
          and_then (assert_anchor_safe alnum a) (\<lambda>_.
          require ((sc_anchor c, sc_quote c) \<notin> (\<lambda>s. (gs_anchor s, gs_quote s)) ` set acc)
            (SummaryGroundingError (u ''duplicate_support'') (u ''summary item support spans must be unique''))
          (case py_find (sa_quote a) (sc_quote c) of
             None \<Rightarrow> Inl (SummaryGroundingError (u ''support_quote_mismatch'')
                       (u ''summary support quote is not an exact source substring''))
           | Some start \<Rightarrow> Inr (acc @ [\<lparr>gs_anchor = sc_anchor c, gs_quote = sc_quote c, gs_start = start,
                                       gs_end = start + length (sc_quote c)\<rparr>]))))"

text \<open>
  One item; \<open>accept\<close> is the check that follows the supports: nothing for a live summary, the catalogue of
  reviewed assertions for a fixture.
\<close>

definition ground_item ::
  "(nat \<Rightarrow> bool) \<Rightarrow> runtime_anchor list \<Rightarrow> (item_candidate \<Rightarrow> app_error + unit) \<Rightarrow> item_candidate \<Rightarrow> app_error + grounded_item" where
  "ground_item alnum anchors accept i =
     and_then (assert_text_isolated alnum (ic_text i)) (\<lambda>_.
     require (distinct (ic_anchors i))
       (SummaryGroundingError (u ''duplicate_anchor'') (u ''summary item source anchor IDs must be unique''))
     (and_then (fold_result (ground_support alnum anchors) (ic_supports i) []) (\<lambda>supports.
      require (set (ic_anchors i) = gs_anchor ` set supports)
        (SummaryGroundingError (u ''support_anchor_mismatch'') (u ''summary source anchors must exactly match support anchors''))
      (and_then (accept i) (\<lambda>_.
       Inr \<lparr>gi_text = ic_text i, gi_anchors = ic_anchors i, gi_supports = supports\<rparr>)))))"

definition ground_section ::
  "(nat \<Rightarrow> bool) \<Rightarrow> runtime_anchor list \<Rightarrow> (item_candidate \<Rightarrow> app_error + unit) \<Rightarrow> section_candidate \<Rightarrow> app_error + grounded_section" where
  "ground_section alnum anchors accept x =
     and_then (assert_text_isolated alnum (xc_heading x)) (\<lambda>_.
     and_then (map_result (ground_item alnum anchors accept) (xc_items x)) (\<lambda>items.
     Inr \<lparr>gx_heading = xc_heading x, gx_items = items\<rparr>))"

definition ground_live_summary ::
  "(nat \<Rightarrow> bool) \<Rightarrow> section_candidate list \<Rightarrow> runtime_anchor list \<Rightarrow> app_error + grounded_summary" where
  "ground_live_summary alnum candidate anchors =
     and_then (index_anchors anchors) (\<lambda>m.
     require (m \<noteq> []) (SummaryGroundingError (u ''missing_anchor'') (u ''summary grounding requires source anchors''))
       (map_result (ground_section alnum m (\<lambda>_. Inr ())) candidate))"

definition assertion_signature :: "ustr \<Rightarrow> support_candidate list \<Rightarrow> app_error + ustr \<times> (uuid \<times> ustr) set" where
  "assertion_signature t supports =
     require (supports \<noteq> []) (ValueError (u ''assertion signature requires at least one support''))
       (Inr (t, (\<lambda>s. (sc_anchor s, sc_quote s)) ` set supports))"

definition index_approved :: "approved_assertion list \<Rightarrow> app_error + (ustr \<times> (uuid \<times> ustr) set) list" where
  "index_approved approved =
     fold_result (\<lambda>a acc.
       and_then (assertion_signature (aa_text a) (aa_supports a)) (\<lambda>s.
       require (s \<notin> set acc)
         (SummaryGroundingError (u ''duplicate_approved_assertion'') (u ''approved fixture assertions must be unique''))
         (Inr (acc @ [s])))) approved []"

definition accept_approved :: "(ustr \<times> (uuid \<times> ustr) set) list \<Rightarrow> item_candidate \<Rightarrow> app_error + unit" where
  "accept_approved approved i =
     and_then (assertion_signature (ic_text i) (ic_supports i)) (\<lambda>s.
     require (s \<in> set approved)
       (SummaryGroundingError (u ''assertion_not_grounded'') (u ''assertion is not exactly grounded'')) (Inr ()))"

definition ground_summary ::
  "(nat \<Rightarrow> bool) \<Rightarrow> runtime_anchor list \<Rightarrow> section_candidate list \<Rightarrow> approved_assertion list \<Rightarrow> app_error + grounded_summary" where
  "ground_summary alnum anchors candidate approved =
     and_then (index_approved approved) (\<lambda>signatures.
     require (signatures \<noteq> [])
       (SummaryGroundingError (u ''missing_approved_assertion'') (u ''summary grounding requires reviewed fixture assertions''))
     (and_then (index_anchors anchors) (\<lambda>m.
      map_result (ground_section alnum m (accept_approved signatures)) candidate)))"

end
