(* ===== verification/Generation_Context.thy ===== *)
theory Generation_Context
  imports Summary_Grounding
begin

text \<open>
  Which source anchors a generation run sees: \<open>source_anchor_quality.py\<close> (the quality gate),
  \<open>generation_retrieval.py\<close> (ranking under a cap with document coverage) and \<open>generation_context.py\<close>
  (grouping by revision, removal of near duplicates, budgets).

  Parameters stand for Unicode data and floating point: \<open>nfc\<close> is \<open>unicodedata.normalize("NFC", \<dots>)\<close>,
  \<open>topic_words\<close> the normalised topic, \<open>score\<close> an anchor's score (\<open>_hybrid_score\<close>, rounded to eight decimals, so an
  integer of that unit), \<open>dup\<close> is \<open>is_conservative_duplicate\<close> at the threshold.  Nothing is assumed of them.
\<close>

section \<open>Quality gate\<close>

definition ocr_block_types :: "ustr list" where
  "ocr_block_types = [u ''image_ocr'', u ''pdf_ocr'']"

text \<open>The double nearest to 0.72.\<close>

definition min_ocr_confidence :: rat where
  "min_ocr_confidence = Fract 6485183463413514 9007199254740992"

definition is_control :: "nat \<Rightarrow> bool" where
  "is_control c \<longleftrightarrow> c < 32 \<or> 127 \<le> c \<and> c \<le> 159"

text \<open>\<open>str.split()\<close>: the number of words.\<close>

fun count_words :: "bool \<Rightarrow> ustr \<Rightarrow> nat" where
  "count_words inside [] = 0"
| "count_words inside (c # cs) =
     (if py_isspace c then count_words False cs else (if inside then 0 else 1) + count_words True cs)"

text \<open>The six unfinished verb endings, alone as the last word up to one punctuation mark.\<close>

definition incomplete_endings :: "nat list" where
  "incomplete_endings = [54644, 54616, 46104, 46108, 54624, 46112]"

definition has_incomplete_ending :: "ustr \<Rightarrow> bool" where
  "has_incomplete_ending s =
     (let r = dropWhile py_isspace (rev s);
          r' = (case r of c # cs \<Rightarrow> if c \<in> {46, 33, 63} then dropWhile py_isspace cs else r | [] \<Rightarrow> [])
      in case r' of [] \<Rightarrow> False
         | c # cs \<Rightarrow> c \<in> set incomplete_endings \<and> (case cs of [] \<Rightarrow> True | d # _ \<Rightarrow> py_isspace d))"

text \<open>The reason for rejecting an anchor, or \<open>None\<close> when it is accepted.\<close>

definition assess_source_anchor :: "(ustr \<Rightarrow> ustr) \<Rightarrow> ustr \<Rightarrow> rat option \<Rightarrow> ustr \<Rightarrow> ustr option" where
  "assess_source_anchor nfc text confidence block =
     (let normalized = py_strip (nfc text) in
      if normalized = [] then Some (u ''blank_text'')
      else if list_ex (\<lambda>c. c \<in> {65533, 65534, 65535}) normalized then Some (u ''corrupt_characters'')
      else if list_ex (\<lambda>c. is_control c \<and> c \<notin> {9, 10, 13}) normalized then Some (u ''control_characters'')
      else if block \<in> set ocr_block_types then
        (if (case confidence of None \<Rightarrow> True | Some x \<Rightarrow> x < min_ocr_confidence) then Some (u ''low_ocr_confidence'')
         else if length normalized < 3 then Some (u ''short_ocr_fragment'')
         else if count_words False normalized \<le> 6 \<and> has_incomplete_ending normalized then Some (u ''incomplete_ocr_fragment'')
         else None)
      else None)"

definition anchor_accepted :: "(ustr \<Rightarrow> ustr) \<Rightarrow> runtime_anchor \<Rightarrow> bool" where
  "anchor_accepted nfc a \<longleftrightarrow> assess_source_anchor nfc (sa_quote a) (sa_confidence a) (sa_block a) = None"

section \<open>Retrieval\<close>

record retrieval_plan =
  rp_query_hash :: ustr
  rp_candidates :: nat
  rp_eligible :: nat
  rp_anchors :: "runtime_anchor list"
  rp_ranked :: "uuid list"
  rp_excluded :: "uuid list"
  rp_reasons :: "(ustr \<times> nat) list"

text \<open>Ascending by \<open>(-score, str(revision_id), ordinal)\<close>: the ordinal is the position in the list, so a stable sort.\<close>

definition rank_anchors :: "(runtime_anchor \<Rightarrow> int) \<Rightarrow> runtime_anchor list \<Rightarrow> runtime_anchor list" where
  "rank_anchors score good =
     sort_key (\<lambda>a. - score a) (sort_key (\<lambda>a. uuid_text (sa_revision a)) good)"

text \<open>\<open>revision_best\<close>: the first ranked anchor of every revision, in rank order.\<close>

fun first_per_revision :: "uuid list \<Rightarrow> runtime_anchor list \<Rightarrow> runtime_anchor list" where
  "first_per_revision seen [] = []"
| "first_per_revision seen (a # rest) =
     (if sa_revision a \<in> set seen then first_per_revision seen rest
      else a # first_per_revision (sa_revision a # seen) rest)"

text \<open>The loop that fills the budget: ids are added while fewer than \<open>limit\<close> are selected.\<close>

fun fill_selection :: "nat \<Rightarrow> uuid set \<Rightarrow> uuid list \<Rightarrow> uuid set" where
  "fill_selection limit selected [] = selected"
| "fill_selection limit selected (i # rest) =
     (if limit \<le> card selected then selected else fill_selection limit (insert i selected) rest)"

definition select_ids :: "nat \<Rightarrow> runtime_anchor list \<Rightarrow> uuid set" where
  "select_ids limit scored =
     fill_selection limit (set (take limit (map sa_id (first_per_revision [] scored)))) (map sa_id scored)"

definition quality_counts :: "(ustr \<Rightarrow> ustr) \<Rightarrow> runtime_anchor list \<Rightarrow> (ustr \<times> nat) list" where
  "quality_counts nfc anchors =
     sort_key fst (fold bump
       (List.map_filter (\<lambda>a. assess_source_anchor nfc (sa_quote a) (sa_confidence a) (sa_block a)) anchors) [])"

definition retrieve_generation_anchors ::
  "(nat list \<Rightarrow> ustr) \<Rightarrow> (ustr \<Rightarrow> ustr) \<Rightarrow> (ustr \<Rightarrow> ustr) \<Rightarrow> (ustr \<Rightarrow> runtime_anchor \<Rightarrow> int) \<Rightarrow> ustr \<Rightarrow>
   runtime_anchor list \<Rightarrow> int \<Rightarrow> app_error + retrieval_plan" where
  "retrieve_generation_anchors sha256 nfc topic_words score topic anchors max_anchors =
     require (topic_words topic \<noteq> []) (ValueError (u ''generation retrieval topic must not be blank''))
     (require (1 \<le> max_anchors \<and> max_anchors \<le> 256) (ValueError (u ''generation retrieval limit must be between 1 and 256''))
     (require (anchors \<noteq> []) (ValueError (u ''generation retrieval requires source anchors''))
     (require (length anchors \<le> 10000) (ValueError (u ''generation retrieval candidate limit exceeded''))
     (let good = filter (anchor_accepted nfc) anchors in
      require (good \<noteq> []) (ValueError (u ''generation retrieval has no quality-approved source anchors''))
      (let scored = rank_anchors (score (topic_words topic)) good;
           selected = select_ids (min (nat max_anchors) (length good)) scored
       in case utf8 (topic_words topic) of
            None \<Rightarrow> Inl (ValueError (u ''surrogates not allowed''))
          | Some bytes \<Rightarrow> Inr
              \<lparr>rp_query_hash = sha256 bytes, rp_candidates = length anchors, rp_eligible = length good,
               rp_anchors = filter (\<lambda>a. sa_id a \<in> selected) good,
               rp_ranked = map sa_id (filter (\<lambda>a. sa_id a \<in> selected) scored),
               rp_excluded = map sa_id (filter (\<lambda>a. \<not> anchor_accepted nfc a) anchors),
               rp_reasons = quality_counts nfc anchors\<rparr>)))))"

text \<open>\<open>GenerationRetrievalPlan.metadata\<close>\<close>

definition retrieval_metadata :: "retrieval_plan \<Rightarrow> json" where
  "retrieval_metadata p =
     JObj [(u ''strategy'', JStr (u ''hybrid-local-v1'')), (u ''query_hash'', JStr (rp_query_hash p)),
       (u ''candidate_count'', JInt (int (rp_candidates p))), (u ''eligible_count'', JInt (int (rp_eligible p))),
       (u ''selected_count'', JInt (int (length (rp_anchors p)))),
       (u ''selected_anchor_ids'', JList (map (\<lambda>i. JStr (uuid_text i)) (rp_ranked p))),
       (u ''source_quality'', JObj
         [(u ''status'', JStr (if rp_excluded p \<noteq> [] then u ''filtered'' else u ''clean'')),
          (u ''total_anchor_count'', JInt (int (rp_candidates p))), (u ''accepted_anchor_count'', JInt (int (rp_eligible p))),
          (u ''excluded_anchor_count'', JInt (int (length (rp_excluded p)))),
          (u ''reason_counts'', JObj (map (\<lambda>(r, n). (r, JInt (int n))) (rp_reasons p)))])]"

section \<open>The context plan\<close>

record context_document =
  xd_revision :: uuid
  xd_anchors :: "runtime_anchor list"

record context_plan =
  xp_documents :: "context_document list"
  xp_duplicates :: "uuid list"
  xp_tokens :: nat

text \<open>
  The state of the two nested loops: the documents and duplicates so far, the characters and comparisons
  used, and for the current revision the anchors selected since the last split and all those kept.
\<close>

record plan_state =
  ps_documents :: "context_document list"
  ps_duplicates :: "uuid list"
  ps_total :: nat
  ps_comparisons :: nat
  ps_selected :: "runtime_anchor list"
  ps_characters :: nat
  ps_seen :: "runtime_anchor list"

definition context_failure :: "string \<Rightarrow> app_error" where
  "context_failure code = GenerationProviderFailure (u code) False"

text \<open>One anchor of the inner loop.\<close>

definition plan_anchor ::
  "(ustr \<Rightarrow> ustr \<Rightarrow> bool) \<Rightarrow> nat \<Rightarrow> uuid \<Rightarrow> runtime_anchor \<Rightarrow> plan_state \<Rightarrow> app_error + plan_state" where
  "plan_anchor dup budget revision a st =
     (let comparisons = ps_comparisons st + length (ps_seen st); required = length (sa_quote a)
      in require (comparisons \<le> 200000) (context_failure ''context_comparison_budget_exceeded'')
         (if list_ex (\<lambda>e. dup (sa_quote a) (sa_quote e)) (ps_seen st)
          then Inr (st\<lparr>ps_comparisons := comparisons, ps_duplicates := ps_duplicates st @ [sa_id a]\<rparr>)
          else
            require (required \<le> budget) (context_failure ''context_anchor_too_large'')
            (require (ps_total st + required \<le> budget) (context_failure ''context_budget_exceeded'')
            (let split = (ps_selected st \<noteq> [] \<and> ps_characters st + required > budget);
                 documents = (if split then ps_documents st @ [\<lparr>xd_revision = revision, xd_anchors = ps_selected st\<rparr>]
                              else ps_documents st);
                 selected = (if split then [] else ps_selected st);
                 characters = (if split then 0 else ps_characters st)
             in Inr (st\<lparr>ps_comparisons := comparisons, ps_documents := documents, ps_selected := selected @ [a],
                        ps_seen := ps_seen st @ [a], ps_characters := characters + required,
                        ps_total := ps_total st + required\<rparr>)))))"

text \<open>One revision of the outer loop.\<close>

definition plan_revision ::
  "(ustr \<Rightarrow> ustr \<Rightarrow> bool) \<Rightarrow> nat \<Rightarrow> runtime_anchor list \<Rightarrow> uuid \<Rightarrow> plan_state \<Rightarrow> app_error + plan_state" where
  "plan_revision dup budget anchors revision st =
     (let group = filter (\<lambda>a. sa_revision a = revision) anchors in
      require (length group \<le> 2000) (context_failure ''context_anchor_budget_exceeded'')
      (and_then (fold_result (plan_anchor dup budget revision) group
           (st\<lparr>ps_selected := [], ps_characters := 0, ps_seen := []\<rparr>)) (\<lambda>st'.
       Inr (if ps_selected st' \<noteq> []
            then st'\<lparr>ps_documents := ps_documents st' @ [\<lparr>xd_revision = revision, xd_anchors = ps_selected st'\<rparr>]\<rparr>
            else st'))))"

text \<open>\<open>math.ceil(total / 4)\<close> of a total within the budget is exact in floating point.\<close>

definition plan_generation_context ::
  "(ustr \<Rightarrow> ustr \<Rightarrow> bool) \<Rightarrow> int \<Rightarrow> runtime_anchor list \<Rightarrow> app_error + context_plan" where
  "plan_generation_context dup max_tokens anchors =
     require (anchors \<noteq> []) (ValueError (u ''generation context requires source anchors''))
     (require (\<not> max_tokens < 1000) (ValueError (u ''generation context token budget is too small''))
     (and_then (fold_result (plan_revision dup (nat max_tokens * 4) anchors)
          (sort_key uuid_text (remdups (map sa_revision anchors)))
          \<lparr>ps_documents = [], ps_duplicates = [], ps_total = 0, ps_comparisons = 0, ps_selected = [], ps_characters = 0,
           ps_seen = []\<rparr>) (\<lambda>st.
      require (length (ps_documents st) \<le> 32) (context_failure ''context_call_budget_exceeded'')
        (Inr \<lparr>xp_documents = ps_documents st, xp_duplicates = ps_duplicates st,
              xp_tokens = max 1 ((ps_total st + 3) div 4)\<rparr>))))"

definition plan_anchors :: "context_plan \<Rightarrow> runtime_anchor list" where
  "plan_anchors p = concat (map xd_anchors (xp_documents p))"

end
