(* ===== verification/Context_Properties.thy ===== *)
theory Context_Properties
  imports Generation_Context "HOL-Library.Multiset"
begin

text \<open>
  What a generation run sees of its sources: a capped selection that covers the documents, then one document per
  revision within the budget, every anchor kept once or dropped as a near duplicate of an earlier one.
\<close>

section \<open>Selection\<close>

lemma fill_selection_props:
  assumes "finite selected" "card selected \<le> limit"
  shows "selected \<subseteq> fill_selection limit selected ids \<and> fill_selection limit selected ids \<subseteq> selected \<union> set ids \<and>
    card (fill_selection limit selected ids) \<le> limit \<and>
    (limit \<le> card (selected \<union> set ids) \<longrightarrow> card (fill_selection limit selected ids) = limit)"
  using assms
proof (induction limit selected ids rule: fill_selection.induct)
  case (2 limit selected i rest)
  show ?case
  proof (cases "limit \<le> card selected")
    case False
    have "card (insert i selected) \<le> limit" using False 2(2) by (simp add: card_insert_if)
    with 2(1) [OF False] 2(2) False show ?thesis by auto
  qed (use 2(3) in auto)
qed simp

lemma first_per_revision_set: "set (first_per_revision seen xs) \<subseteq> set xs"
  by (induction seen xs rule: first_per_revision.induct) auto

lemma first_per_revision_revisions:
  "sa_revision ` set (first_per_revision seen xs) = sa_revision ` set xs - set seen \<and>
   distinct (map sa_revision (first_per_revision seen xs))"
  by (induction seen xs rule: first_per_revision.induct) auto

lemma set_rank_anchors: "set (rank_anchors score xs) = set xs" "mset (rank_anchors score xs) = mset xs"
  by (simp_all add: rank_anchors_def)

lemma select_ids_props:
  assumes "limit \<le> card (set (map sa_id scored))"
  shows "select_ids limit scored \<subseteq> set (map sa_id scored) \<and> card (select_ids limit scored) = limit \<and>
    set (take limit (map sa_id (first_per_revision [] scored))) \<subseteq> select_ids limit scored"
proof -
  let ?best = "take limit (map sa_id (first_per_revision [] scored))"
  have sub: "set ?best \<subseteq> set (map sa_id scored)"
  proof -
    have "set ?best \<subseteq> sa_id ` set (first_per_revision [] scored)" by (metis set_map set_take_subset)
    also have "\<dots> \<subseteq> sa_id ` set scored" using first_per_revision_set by (rule image_mono)
    finally show ?thesis by simp
  qed
  have "card (set ?best) \<le> limit" using card_length [of ?best] by simp
  note F = fill_selection_props [OF finite_set this, of "map sa_id scored"]
  have "set ?best \<union> set (map sa_id scored) = set (map sa_id scored)" using sub by auto
  then show ?thesis using F assms unfolding select_ids_def by auto
qed

lemma length_filter_ids:
  assumes "distinct (map sa_id xs)" "S \<subseteq> sa_id ` set xs"
  shows "length (filter (\<lambda>a. sa_id a \<in> S) xs) = card S"
proof -
  have "distinct (map sa_id (filter (\<lambda>a. sa_id a \<in> S) xs))" using assms(1) by (rule distinct_map_filter)
  then have "length (filter (\<lambda>a. sa_id a \<in> S) xs) = card (sa_id ` set (filter (\<lambda>a. sa_id a \<in> S) xs))"
    by (metis distinct_card length_map set_map)
  also have "sa_id ` set (filter (\<lambda>a. sa_id a \<in> S) xs) = S" using assms(2) by auto
  finally show ?thesis .
qed

lemma retrieve_Inr:
  assumes "retrieve_generation_anchors sha nfc words score topic anchors n = Inr p"
  shows "1 \<le> n \<and> (\<exists>selected. selected = select_ids (min (nat n) (length (filter (anchor_accepted nfc) anchors)))
        (rank_anchors (score (words topic)) (filter (anchor_accepted nfc) anchors)) \<and>
      rp_anchors p = filter (\<lambda>a. sa_id a \<in> selected) (filter (anchor_accepted nfc) anchors) \<and>
      rp_ranked p = map sa_id (filter (\<lambda>a. sa_id a \<in> selected) (rank_anchors (score (words topic)) (filter (anchor_accepted nfc) anchors))) \<and>
      rp_eligible p = length (filter (anchor_accepted nfc) anchors) \<and> rp_candidates p = length anchors \<and>
      rp_excluded p = map sa_id (filter (\<lambda>a. \<not> anchor_accepted nfc a) anchors))"
  using assms unfolding retrieve_generation_anchors_def Let_def by (auto split: option.splits)

section \<open>Planning\<close>

abbreviation fresh_quotes :: "(ustr \<Rightarrow> ustr \<Rightarrow> bool) \<Rightarrow> runtime_anchor list \<Rightarrow> bool" where
  "fresh_quotes dup xs \<equiv> sorted_wrt (\<lambda>e a. \<not> dup (sa_quote a) (sa_quote e)) xs"

abbreviation characters :: "runtime_anchor list \<Rightarrow> nat" where
  "characters xs \<equiv> sum_list (map (\<lambda>a. length (sa_quote a)) xs)"

text \<open>The inner loop never splits: what it selects for the revision is all it keeps of it.\<close>

lemma plan_anchor_Inr:
  assumes "plan_anchor dup budget revision a st = Inr st'"
    and "ps_selected st = ps_seen st" "ps_characters st \<le> ps_total st" "fresh_quotes dup (ps_seen st)"
  shows "ps_documents st' = ps_documents st \<and> ps_selected st' = ps_seen st' \<and> ps_characters st' \<le> ps_total st' \<and>
    fresh_quotes dup (ps_seen st') \<and>
    (ps_seen st \<noteq> [] \<and> ps_seen st' = ps_seen st \<and> ps_duplicates st' = ps_duplicates st @ [sa_id a] \<and> ps_total st' = ps_total st \<or>
     ps_seen st' = ps_seen st @ [a] \<and> ps_duplicates st' = ps_duplicates st \<and>
       ps_total st' = ps_total st + length (sa_quote a) \<and> ps_total st' \<le> budget)"
proof (cases "list_ex (\<lambda>e. dup (sa_quote a) (sa_quote e)) (ps_seen st)")
  case True
  then have "ps_seen st \<noteq> []" by auto
  then show ?thesis using assms True by (auto simp: plan_anchor_def Let_def)
next
  case False
  then have *: "ps_total st + length (sa_quote a) \<le> budget" "\<not> ps_characters st + length (sa_quote a) > budget"
    using assms by (auto simp: plan_anchor_def Let_def)
  then have "st' = st\<lparr>ps_comparisons := ps_comparisons st + length (ps_seen st), ps_documents := ps_documents st,
      ps_selected := ps_selected st @ [a], ps_seen := ps_seen st @ [a],
      ps_characters := ps_characters st + length (sa_quote a), ps_total := ps_total st + length (sa_quote a)\<rparr>"
    using assms(1) False by (simp add: plan_anchor_def Let_def)
  then show ?thesis using assms * False by (auto simp: sorted_wrt_append list_ex_iff)
qed

lemma plan_group:
  assumes "fold_result (plan_anchor dup budget revision) xs st = Inr st'"
    and "ps_selected st = ps_seen st" "ps_characters st \<le> ps_total st" "fresh_quotes dup (ps_seen st)" "ps_total st \<le> budget"
  shows "ps_documents st' = ps_documents st \<and> ps_selected st' = ps_seen st' \<and> ps_total st' \<le> budget \<and> fresh_quotes dup (ps_seen st') \<and>
    (\<exists>kept dups. ps_seen st' = ps_seen st @ kept \<and> ps_duplicates st' = ps_duplicates st @ dups \<and>
       mset (map sa_id kept) + mset dups = mset (map sa_id xs) \<and> set kept \<subseteq> set xs \<and>
       ps_total st' = ps_total st + characters kept \<and> (ps_seen st = [] \<and> xs \<noteq> [] \<longrightarrow> kept \<noteq> []))"
  using assms
proof (induction xs arbitrary: st)
  case (Cons a xs)
  from Cons.prems(1) obtain st1 where s: "plan_anchor dup budget revision a st = Inr st1"
    "fold_result (plan_anchor dup budget revision) xs st1 = Inr st'" by (auto simp: and_then_Inr)
  note A = plan_anchor_Inr [OF s(1) Cons.prems(2-4)]
  have b: "ps_total st1 \<le> budget" using A Cons.prems(5) by auto
  note IH = Cons.IH [OF s(2) _ _ _ b]
  have p: "ps_documents st1 = ps_documents st" "ps_selected st1 = ps_seen st1" "ps_characters st1 \<le> ps_total st1"
    "fresh_quotes dup (ps_seen st1)" using A by simp_all
  from IH [OF p(2-4)] obtain kept dups where k: "ps_documents st' = ps_documents st1" "ps_selected st' = ps_seen st'"
    "ps_total st' \<le> budget" "fresh_quotes dup (ps_seen st')" "ps_seen st' = ps_seen st1 @ kept"
    "ps_duplicates st' = ps_duplicates st1 @ dups" "mset (map sa_id kept) + mset dups = mset (map sa_id xs)"
    "set kept \<subseteq> set xs" "ps_total st' = ps_total st1 + characters kept" by blast
  from A consider
      "ps_seen st \<noteq> []" "ps_seen st1 = ps_seen st" "ps_duplicates st1 = ps_duplicates st @ [sa_id a]" "ps_total st1 = ps_total st"
    | "ps_seen st1 = ps_seen st @ [a]" "ps_duplicates st1 = ps_duplicates st" "ps_total st1 = ps_total st + length (sa_quote a)"
    by blast
  then show ?case
  proof cases
    case 1
    show ?thesis using k p(1) 1 by (intro conjI exI [of _ kept] exI [of _ "sa_id a # dups"]) auto
  next
    case 2
    show ?thesis using k p(1) 2 by (intro conjI exI [of _ "a # kept"] exI [of _ dups]) auto
  qed
qed simp

definition document_ok :: "(ustr \<Rightarrow> ustr \<Rightarrow> bool) \<Rightarrow> runtime_anchor list \<Rightarrow> context_document \<Rightarrow> bool" where
  "document_ok dup anchors d \<longleftrightarrow>
     xd_anchors d \<noteq> [] \<and> fresh_quotes dup (xd_anchors d) \<and>
     (\<forall>a \<in> set (xd_anchors d). a \<in> set anchors \<and> sa_revision a = xd_revision d)"

abbreviation document_anchors :: "context_document list \<Rightarrow> runtime_anchor list" where
  "document_anchors ds \<equiv> concat (map xd_anchors ds)"

lemma plan_revision_Inr:
  assumes "plan_revision dup budget anchors r st = Inr st'" "ps_total st \<le> budget" "r \<in> sa_revision ` set anchors"
  shows "\<exists>d dups. ps_documents st' = ps_documents st @ [d] \<and> xd_revision d = r \<and> document_ok dup anchors d \<and>
    ps_duplicates st' = ps_duplicates st @ dups \<and>
    mset (map sa_id (xd_anchors d)) + mset dups = mset (map sa_id (filter (\<lambda>a. sa_revision a = r) anchors)) \<and>
    ps_total st' = ps_total st + characters (xd_anchors d) \<and> ps_total st' \<le> budget"
proof -
  let ?g = "filter (\<lambda>a. sa_revision a = r) anchors"
  let ?st = "st\<lparr>ps_selected := [], ps_characters := 0, ps_seen := []\<rparr>"
  from assms(1) obtain st1 where s: "fold_result (plan_anchor dup budget r) ?g ?st = Inr st1"
    "st' = (if ps_selected st1 \<noteq> []
            then st1\<lparr>ps_documents := ps_documents st1 @ [\<lparr>xd_revision = r, xd_anchors = ps_selected st1\<rparr>]\<rparr> else st1)"
    by (auto simp: plan_revision_def Let_def and_then_Inr)
  have ne: "?g \<noteq> []" using assms(3) by (auto simp: filter_empty_conv)
  from plan_group [OF s(1)] assms(2) ne obtain kept dups where k: "ps_documents st1 = ps_documents st"
    "ps_selected st1 = kept" "ps_total st1 \<le> budget" "fresh_quotes dup kept" "ps_duplicates st1 = ps_duplicates st @ dups"
    "mset (map sa_id kept) + mset dups = mset (map sa_id ?g)" "set kept \<subseteq> set ?g"
    "ps_total st1 = ps_total st + characters kept" "kept \<noteq> []" by auto
  then show ?thesis using s(2)
    by (intro exI [of _ "\<lparr>xd_revision = r, xd_anchors = kept\<rparr>"] exI [of _ dups]) (auto simp: document_ok_def)
qed

lemma plan_revisions:
  assumes "fold_result (plan_revision dup budget anchors) rs st = Inr st'" "ps_total st \<le> budget"
    "set rs \<subseteq> sa_revision ` set anchors"
  shows "\<exists>ds dups. ps_documents st' = ps_documents st @ ds \<and> map xd_revision ds = rs \<and> list_all (document_ok dup anchors) ds \<and>
    ps_duplicates st' = ps_duplicates st @ dups \<and>
    mset (map sa_id (document_anchors ds)) + mset dups =
      mset (map sa_id (concat (map (\<lambda>r. filter (\<lambda>a. sa_revision a = r) anchors) rs))) \<and>
    ps_total st' = ps_total st + characters (document_anchors ds) \<and> ps_total st' \<le> budget"
  using assms
proof (induction rs arbitrary: st)
  case Nil
  then show ?case by (intro exI [of _ "[]"]) simp
next
  case (Cons r rs)
  from Cons.prems(1) obtain st1 where s: "plan_revision dup budget anchors r st = Inr st1"
    "fold_result (plan_revision dup budget anchors) rs st1 = Inr st'" by (auto simp: and_then_Inr)
  have r: "r \<in> sa_revision ` set anchors" "set rs \<subseteq> sa_revision ` set anchors" using Cons.prems(3) by auto
  from plan_revision_Inr [OF s(1) Cons.prems(2) r(1)] obtain d dups where d: "ps_documents st1 = ps_documents st @ [d]"
    "xd_revision d = r" "document_ok dup anchors d" "ps_duplicates st1 = ps_duplicates st @ dups"
    "mset (map sa_id (xd_anchors d)) + mset dups = mset (map sa_id (filter (\<lambda>a. sa_revision a = r) anchors))"
    "ps_total st1 = ps_total st + characters (xd_anchors d)" "ps_total st1 \<le> budget" by blast
  from Cons.IH [OF s(2) d(7) r(2)] obtain ds dups' where e: "ps_documents st' = ps_documents st1 @ ds" "map xd_revision ds = rs"
    "list_all (document_ok dup anchors) ds" "ps_duplicates st' = ps_duplicates st1 @ dups'"
    "mset (map sa_id (document_anchors ds)) + mset dups' =
      mset (map sa_id (concat (map (\<lambda>r. filter (\<lambda>a. sa_revision a = r) anchors) rs)))"
    "ps_total st' = ps_total st1 + characters (document_anchors ds)" "ps_total st' \<le> budget" by blast
  have "mset (map sa_id (document_anchors (d # ds))) + mset (dups @ dups') =
      (mset (map sa_id (xd_anchors d)) + mset dups) + (mset (map sa_id (document_anchors ds)) + mset dups')" by simp
  also have "\<dots> = mset (map sa_id (concat (map (\<lambda>r. filter (\<lambda>a. sa_revision a = r) anchors) (r # rs))))"
    unfolding d(5) e(5) by simp
  finally show ?case using d e by (intro exI [of _ "d # ds"] exI [of _ "dups @ dups'"]) simp
qed

lemma group_by_mset:
  assumes "distinct rs" "sa_revision ` set anchors \<subseteq> set rs"
  shows "mset (concat (map (\<lambda>r. filter (\<lambda>a. sa_revision a = r) anchors) rs)) = mset anchors"
  using assms
proof (induction anchors)
  case Nil
  then show ?case by (induction rs) auto
next
  case (Cons a anchors)
  have "mset (concat (map (\<lambda>r. filter (\<lambda>x. sa_revision x = r) (a # anchors)) rs)) =
      mset (concat (map (\<lambda>r. filter (\<lambda>x. sa_revision x = r) anchors) rs)) +
      (if sa_revision a \<in> set rs then {#a#} else {#})"
    using Cons.prems(1) by (induction rs) auto
  then show ?case using Cons by auto
qed

section \<open>Properties\<close>

text \<open>
  The retrieval is a capped selection that covers the documents.  It keeps, in their order, exactly
  \<open>min(limit, accepted)\<close> of the anchors that pass the quality gate; accepted and excluded anchors are all of them;
  the ranked ids are the ids of the selection; and when the limit is not below the number of revisions with an
  accepted anchor, every such revision keeps at least one.
\<close>

theorem retrieval_covers_documents:
  assumes "retrieve_generation_anchors sha256 nfc topic_words score topic anchors n = Inr p"
    and "distinct (map sa_id anchors)"
  shows "length (rp_anchors p) = min (nat n) (rp_eligible p) \<and> rp_eligible p + length (rp_excluded p) = length anchors \<and>
    (\<exists>selected. rp_anchors p = filter (\<lambda>a. anchor_accepted nfc a \<and> sa_id a \<in> selected) anchors) \<and>
    mset (rp_ranked p) = mset (map sa_id (rp_anchors p)) \<and>
    (card (sa_revision ` {a \<in> set anchors. anchor_accepted nfc a}) \<le> nat n \<longrightarrow>
       sa_revision ` set (rp_anchors p) = sa_revision ` {a \<in> set anchors. anchor_accepted nfc a})"
proof -
  let ?good = "filter (anchor_accepted nfc) anchors" and ?lim = "min (nat n) (length (filter (anchor_accepted nfc) anchors))"
  let ?scored = "rank_anchors (score (topic_words topic)) ?good" and ?best = "first_per_revision [] (rank_anchors (score (topic_words topic)) ?good)"
  from retrieve_Inr [OF assms(1)] obtain sel where r: "sel = select_ids ?lim ?scored"
    "rp_anchors p = filter (\<lambda>a. sa_id a \<in> sel) ?good" "rp_ranked p = map sa_id (filter (\<lambda>a. sa_id a \<in> sel) ?scored)"
    "rp_eligible p = length ?good" "rp_excluded p = map sa_id (filter (\<lambda>a. \<not> anchor_accepted nfc a) anchors)" by blast
  have dist: "distinct (map sa_id ?good)" using assms(2) by (rule distinct_map_filter)
  have ids: "set (map sa_id ?scored) = sa_id ` set ?good" by (simp add: set_rank_anchors)
  have "card (sa_id ` set ?good) = length ?good" using dist by (metis distinct_card length_map set_map)
  then have lim: "?lim \<le> card (set (map sa_id ?scored))" unfolding ids by simp
  note S = select_ids_props [OF lim, folded r(1)]
  have sub: "sel \<subseteq> sa_id ` set ?good" using S ids by blast
  have len: "length (rp_anchors p) = ?lim" unfolding r(2) using length_filter_ids [OF dist sub] S by simp
  have cover: "sa_revision ` set (rp_anchors p) = sa_revision ` set ?good"
    if c: "card (sa_revision ` set ?good) \<le> nat n"
  proof
    show "sa_revision ` set ?good \<subseteq> sa_revision ` set (rp_anchors p)"
    proof
      fix v assume "v \<in> sa_revision ` set ?good"
      then have "v \<in> sa_revision ` set ?best" using first_per_revision_revisions [of "[]" ?scored] by (simp add: set_rank_anchors)
      then obtain a where a: "a \<in> set ?best" "v = sa_revision a" by blast
      have "length ?best = card (sa_revision ` set ?good)"
        using first_per_revision_revisions [of "[]" ?scored] distinct_card [of "map sa_revision ?best"]
        by (simp add: set_rank_anchors)
      moreover have "card (sa_revision ` set ?good) \<le> length ?good" by (metis card_length image_set length_map)
      ultimately have "length ?best \<le> ?lim" using c by simp
      then have "sa_id a \<in> sel" using S a(1) by auto
      moreover have "a \<in> set ?good" using a(1) first_per_revision_set [of "[]" ?scored] by (auto simp: set_rank_anchors)
      ultimately show "v \<in> sa_revision ` set (rp_anchors p)" using a(2) unfolding r(2) by auto
    qed
  qed (auto simp: r(2))
  have "mset (rp_ranked p) = mset (map sa_id (rp_anchors p))"
    unfolding r(2,3) mset_map mset_filter set_rank_anchors(2) ..
  moreover have "rp_anchors p = filter (\<lambda>a. anchor_accepted nfc a \<and> sa_id a \<in> sel) anchors" unfolding r(2) by (simp add: conj_commute)
  moreover have "set ?good = {a \<in> set anchors. anchor_accepted nfc a}" by auto
  moreover have "length ?good + length (rp_excluded p) = length anchors" unfolding r(5) by (simp add: sum_length_filter_compl)
  ultimately show ?thesis using len cover r(4) by auto
qed

definition sample_anchors :: "runtime_anchor list" where
  "sample_anchors =
     [\<lparr>sa_id = 90, sa_revision = 30, sa_quote = u ''alpha'', sa_class = u ''factual_claim'', sa_block = u ''p'', sa_confidence = None\<rparr>,
      \<lparr>sa_id = 91, sa_revision = 30, sa_quote = u ''beta'', sa_class = u ''factual_claim'', sa_block = u ''p'', sa_confidence = None\<rparr>,
      \<lparr>sa_id = 92, sa_revision = 31, sa_quote = u ''gamma'', sa_class = u ''factual_claim'', sa_block = u ''p'', sa_confidence = None\<rparr>]"

lemma sample_accepted: "filter (anchor_accepted id) sample_anchors = sample_anchors"
  by (simp add: sample_anchors_def anchor_accepted_def assess_source_anchor_def Let_def py_strip_def py_lstrip_def
      py_rstrip_def text_simps is_control_def ocr_block_types_def)

theorem retrieval_covers_documents_witness:
  "\<exists>p. retrieve_generation_anchors (\<lambda>_. []) id id (\<lambda>_ _. 0) (u ''topic'') sample_anchors 2 = Inr p \<and>
     sa_revision ` set (rp_anchors p) = {30, 31}"
proof -
  have utf: "utf8 (u ''topic'') = Some (u ''topic'')" by (simp add: utf8_char_def)
  obtain p where p: "retrieve_generation_anchors (\<lambda>_. []) id id (\<lambda>_ _. 0) (u ''topic'') sample_anchors 2 = Inr p"
    by (simp add: retrieve_generation_anchors_def sample_accepted utf Let_def del: u_simps)
      (simp add: sample_anchors_def u_def)
  have dist: "distinct (map sa_id sample_anchors)" by (simp add: sample_anchors_def)
  have "{a \<in> set sample_anchors. anchor_accepted id a} = set sample_anchors"
    using arg_cong [OF sample_accepted, of set] by simp
  moreover have "sa_revision ` set sample_anchors = {30, 31}" by (simp add: sample_anchors_def)
  ultimately show ?thesis using p retrieval_covers_documents [OF p dist] by auto
qed

text \<open>
  C14: the context plan is a budgeted partition.  There is one document per revision, in the order of the
  revisions' text; a document holds anchors of its revision only, at least one, and none that duplicates an earlier
  one of it; the kept anchors and the reported duplicates are together exactly the given anchors; the kept text
  stays within four characters per token, the estimate within the budget; and there are at most 32 documents.
\<close>

theorem context_plan_partitions:
  assumes "plan_generation_context dup max_tokens anchors = Inr p"
  shows "map xd_revision (xp_documents p) = sort_key uuid_text (remdups (map sa_revision anchors)) \<and>
    list_all (document_ok dup anchors) (xp_documents p) \<and>
    mset (map sa_id (plan_anchors p)) + mset (xp_duplicates p) = mset (map sa_id anchors) \<and>
    int (characters (plan_anchors p)) \<le> 4 * max_tokens \<and> int (xp_tokens p) \<le> max_tokens \<and>
    1 \<le> length (xp_documents p) \<and> length (xp_documents p) \<le> 32"
proof -
  let ?rs = "sort_key uuid_text (remdups (map sa_revision anchors))"
  let ?st = "\<lparr>ps_documents = [], ps_duplicates = [], ps_total = 0, ps_comparisons = 0, ps_selected = [], ps_characters = 0,
           ps_seen = []\<rparr>"
  from assms obtain st where s: "anchors \<noteq> []" "1000 \<le> max_tokens"
    "fold_result (plan_revision dup (nat max_tokens * 4) anchors) ?rs ?st = Inr st" "length (ps_documents st) \<le> 32"
    "p = \<lparr>xp_documents = ps_documents st, xp_duplicates = ps_duplicates st, xp_tokens = max 1 ((ps_total st + 3) div 4)\<rparr>"
    by (auto simp: plan_generation_context_def and_then_Inr not_less)
  have rs: "set ?rs = sa_revision ` set anchors" "distinct ?rs" by simp_all
  from plan_revisions [OF s(3)] rs(1) obtain ds dups where d: "ps_documents st = ds" "map xd_revision ds = ?rs"
    "list_all (document_ok dup anchors) ds" "ps_duplicates st = dups"
    "mset (map sa_id (document_anchors ds)) + mset dups =
      mset (map sa_id (concat (map (\<lambda>r. filter (\<lambda>a. sa_revision a = r) anchors) ?rs)))"
    "ps_total st = characters (document_anchors ds)" "ps_total st \<le> nat max_tokens * 4" by auto
  have "mset (map sa_id (concat (map (\<lambda>r. filter (\<lambda>a. sa_revision a = r) anchors) ?rs))) = mset (map sa_id anchors)"
    using group_by_mset [OF rs(2), of anchors] rs(1) by (simp only: mset_map)
  moreover have "ps_total st \<le> nat (4 * max_tokens)" using d(7) by simp
  moreover have "max 1 ((ps_total st + 3) div 4) \<le> nat max_tokens" using d(7) s(2) by auto
  moreover have "1 \<le> length ds"
  proof -
    have "?rs \<noteq> []" using rs(1) s(1) by (metis empty_set image_is_empty set_empty)
    then show ?thesis using d(2) by (cases ds) auto
  qed
  ultimately show ?thesis using s d by (auto simp: plan_anchors_def)
qed

theorem context_plan_partitions_witness:
  "\<exists>p. plan_generation_context (\<lambda>a b. a = b) 24000 sample_anchors = Inr p \<and>
     mset (map sa_id (plan_anchors p)) + mset (xp_duplicates p) = {#90, 91, 92#}"
proof -
  have rs: "sort_key uuid_text (remdups (map sa_revision sample_anchors)) \<in> {[30, 31], [31, 30]}"
    by (auto simp: sample_anchors_def)
  obtain p where p: "plan_generation_context (\<lambda>a b. a = b) 24000 sample_anchors = Inr p"
    using rs by (auto simp: plan_generation_context_def plan_revision_def plan_anchor_def Let_def sample_anchors_def u_inject
        simp del: u_simps)
  show ?thesis using p context_plan_partitions [OF p] by (auto simp: sample_anchors_def)
qed

end
