(* ===== verification/Uuid_Text.thy ===== *)
theory Uuid_Text
  imports Prelude
begin

text \<open>
  \<open>UUID(text)\<close> of Python's \<open>uuid\<close> module, as \<open>parse_uuid\<close>: the prefixes \<open>urn:\<close> and \<open>uuid:\<close> are removed wherever
  they occur, braces stripped, dashes dropped; what is left must have thirty-two characters and be accepted by
  \<open>int(text, 16)\<close> with a value of 128 bits.  \<open>int\<close> accepts surrounding white space, a sign, the prefix \<open>0x\<close>,
  single underscores between digits, and the decimal digits of every script (Unicode 15, Python 3.12).
\<close>

section \<open>String operations\<close>

text \<open>\<open>s.replace(sub, "")\<close> for a non-empty \<open>sub\<close>; the number counts characters still to skip.\<close>

fun remove_all :: "ustr \<Rightarrow> nat \<Rightarrow> ustr \<Rightarrow> ustr" where
  "remove_all sub k [] = []"
| "remove_all sub (Suc k) (c # cs) = remove_all sub k cs"
| "remove_all sub 0 (c # cs) =
     (if take (length sub) (c # cs) = sub then remove_all sub (length sub - 1) cs else c # remove_all sub 0 cs)"

definition strip_braces :: "ustr \<Rightarrow> ustr" where
  "strip_braces s = rev (dropWhile (\<lambda>c. c \<in> {123, 125}) (rev (dropWhile (\<lambda>c. c \<in> {123, 125}) s)))"

text \<open>The zeros of the decimal digit blocks.\<close>

definition decimal_zeros :: "nat list" where
  "decimal_zeros =
     [48, 1632, 1776, 1984, 2406, 2534, 2662, 2790, 2918, 3046, 3174, 3302, 3430, 3558, 3664, 3792, 3872, 4160, 4240,
      6112, 6160, 6470, 6608, 6784, 6800, 6992, 7088, 7232, 7248, 42528, 43216, 43264, 43472, 43504, 43600, 44016, 65296,
      66720, 68912, 69734, 69872, 69942, 70096, 70384, 70736, 70864, 71248, 71360, 71472, 71904, 72016, 72784, 73040,
      73120, 73552, 92768, 92864, 93008, 120782, 120792, 120802, 120812, 120822, 123200, 123632, 124144, 125264, 130032]"

definition ascii_digit_char :: "nat \<Rightarrow> nat" where
  "ascii_digit_char c =
     (if c < 128 then c
      else if py_isspace c then 32
      else case find (\<lambda>z. z \<le> c \<and> c < z + 10) decimal_zeros of None \<Rightarrow> 63 | Some z \<Rightarrow> 48 + (c - z))"

definition to_ascii_digits :: "ustr \<Rightarrow> ustr" where
  "to_ascii_digits s =
     (if list_all (\<lambda>c. c < 128) s then s else map (\<lambda>c. if c < 128 \<and> py_isspace c then 32 else ascii_digit_char c) s)"

definition c_isspace :: "nat \<Rightarrow> bool" where
  "c_isspace c \<longleftrightarrow> 9 \<le> c \<and> c \<le> 13 \<or> c = 32"

definition hex_value :: "nat \<Rightarrow> nat option" where
  "hex_value c =
     (if 48 \<le> c \<and> c \<le> 57 then Some (c - 48)
      else if 97 \<le> c \<and> c \<le> 102 then Some (c - 87)
      else if 65 \<le> c \<and> c \<le> 70 then Some (c - 55) else None)"

fun hex_digits :: "bool \<Rightarrow> nat \<Rightarrow> ustr \<Rightarrow> nat option" where
  "hex_digits after_digit acc [] = (if after_digit then Some acc else None)"
| "hex_digits after_digit acc (c # cs) =
     (if c = 95 then (if after_digit then hex_digits False acc cs else None)
      else case hex_value c of None \<Rightarrow> None | Some d \<Rightarrow> hex_digits True (16 * acc + d) cs)"

text \<open>\<open>0x\<close> and one underscore after it.\<close>

definition drop_hex_prefix :: "ustr \<Rightarrow> ustr" where
  "drop_hex_prefix s =
     (case s of
        z # x # rest \<Rightarrow>
          if z = 48 \<and> x \<in> {88, 120} then (case rest of c # cs \<Rightarrow> if c = 95 then cs else rest | [] \<Rightarrow> rest) else s
      | _ \<Rightarrow> s)"

definition int_base16 :: "ustr \<Rightarrow> int option" where
  "int_base16 s =
     (let t = rev (dropWhile c_isspace (rev (dropWhile c_isspace (to_ascii_digits s))));
          negative = (case t of c # _ \<Rightarrow> c = 45 | [] \<Rightarrow> False);
          body = (case t of c # cs \<Rightarrow> if c \<in> {43, 45} then cs else t | [] \<Rightarrow> t)
      in map_option (\<lambda>n. if negative then - int n else int n) (hex_digits False 0 (drop_hex_prefix body)))"

definition parse_uuid :: "ustr \<Rightarrow> uuid option" where
  "parse_uuid s =
     (let h = filter (\<lambda>c. c \<noteq> 45) (strip_braces (remove_all (u ''uuid:'') 0 (remove_all (u ''urn:'') 0 s)))
      in if length h \<noteq> 32 then None
         else case int_base16 h of
                None \<Rightarrow> None
              | Some n \<Rightarrow> if 0 \<le> n \<and> n < 2 ^ 128 then Some (word_of_int n) else None)"

section \<open>Round trip\<close>

lemma remove_all_none: "sub \<noteq> [] \<Longrightarrow> hd sub \<notin> set s \<Longrightarrow> remove_all sub 0 s = s"
  by (induction s) (auto simp: neq_Nil_conv)

lemma dropWhile_none: "\<forall>x \<in> set xs. \<not> P x \<Longrightarrow> dropWhile P xs = xs"
  by (cases xs) auto

lemma hex_char_range: "d < 16 \<Longrightarrow> 48 \<le> hex_char d \<and> hex_char d \<le> 57 \<or> 97 \<le> hex_char d \<and> hex_char d \<le> 102"
  by (auto simp: hex_char_def)

lemma set_hex_pad_range: "c \<in> set (hex_pad k n) \<Longrightarrow> 48 \<le> c \<and> c \<le> 57 \<or> 97 \<le> c \<and> c \<le> 102"
  using set_hex_pad hex_char_range by blast

lemma set_uuid_text: "c \<in> set (uuid_text x) \<Longrightarrow> c = 45 \<or> 48 \<le> c \<and> c \<le> 57 \<or> 97 \<le> c \<and> c \<le> 102"
  unfolding uuid_text_def Let_def
  by (auto dest!: in_set_takeD in_set_dropD set_hex_pad_range)

lemma hex_value_char: "d < 16 \<Longrightarrow> hex_value (hex_char d) = Some d"
  by (auto simp: hex_value_def hex_char_def)

lemma hex_digits_pad:
  "hex_digits b acc (hex_pad k n @ rest) = hex_digits (b \<or> k \<noteq> 0) (16 ^ k * acc + n mod 16 ^ k) rest"
proof (induction k arbitrary: n rest)
  case (Suc k)
  have ne: "hex_char (n mod 16) \<noteq> 95" using hex_char_range [of "n mod 16"] by auto
  have hv: "hex_value (hex_char (n mod 16)) = Some (n mod 16)" by (rule hex_value_char) simp
  have v: "16 * (16 ^ k * acc + n div 16 mod 16 ^ k) + n mod 16 = 16 ^ Suc k * acc + n mod 16 ^ Suc k"
    using mod_mult2_eq [of n 16 "16 ^ k"] by (simp add: algebra_simps)
  have "hex_digits b acc (hex_pad (Suc k) n @ rest) =
      hex_digits (b \<or> k \<noteq> 0) (16 ^ k * acc + n div 16 mod 16 ^ k) (hex_char (n mod 16) # rest)"
    using Suc.IH [of "n div 16" "hex_char (n mod 16) # rest"] by simp
  also have "\<dots> = hex_digits True (16 ^ Suc k * acc + n mod 16 ^ Suc k) rest"
    by (simp only: hex_digits.simps ne if_False hv option.case v)
  finally show ?case by simp
qed simp

lemma strip_braces_uuid_text: "strip_braces (uuid_text x) = uuid_text x"
proof -
  have n: "\<forall>c \<in> set (uuid_text x). c \<notin> {123, 125}" using set_uuid_text [of _ x] by fastforce
  then have "dropWhile (\<lambda>c. c \<in> {123, 125}) (uuid_text x) = uuid_text x" by (rule dropWhile_none)
  moreover have "dropWhile (\<lambda>c. c \<in> {123, 125}) (rev (uuid_text x)) = rev (uuid_text x)"
    using n by (intro dropWhile_none) simp
  ultimately show ?thesis unfolding strip_braces_def by (simp only: rev_rev_ident)
qed

lemma int_base16_digits:
  assumes range: "\<And>c. c \<in> set h \<Longrightarrow> 48 \<le> c \<and> c \<le> 57 \<or> 97 \<le> c \<and> c \<le> 102" and long: "2 \<le> length h"
  shows "int_base16 h = map_option int (hex_digits False 0 h)"
proof -
  have "\<And>c. c \<in> set h \<Longrightarrow> c < 128" using range by fastforce
  then have a: "to_ascii_digits h = h" by (simp add: to_ascii_digits_def list_all_iff)
  have sp: "\<forall>c \<in> set h. \<not> c_isspace c" unfolding c_isspace_def using range by fastforce
  then have t: "rev (dropWhile c_isspace (rev (dropWhile c_isspace h))) = h"
    by (simp add: dropWhile_none)
  from long obtain c d rest where h: "h = c # d # rest" by (cases h; cases "tl h") auto
  have c: "c \<notin> {43, 45}" "c \<noteq> 45" "d \<notin> {88, 120}" using range [of c] range [of d] by (auto simp: h)
  have "drop_hex_prefix h = h" unfolding h drop_hex_prefix_def using c by simp
  moreover have "(case h of c # cs \<Rightarrow> if c \<in> {43, 45} then cs else h | [] \<Rightarrow> h) = h"
    "(case h of c # _ \<Rightarrow> c = 45 | [] \<Rightarrow> False) = False" unfolding h using c by simp_all
  ultimately show ?thesis unfolding int_base16_def Let_def a t by simp
qed

text \<open>\<open>UUID(str(x))\<close> is \<open>x\<close>, for every identifier \<open>x\<close>.\<close>

lemma parse_uuid_text: "parse_uuid (uuid_text x) = Some x"
proof -
  define h where "h = hex_pad 32 (unat x)"
  have r: "remove_all (u ''uuid:'') 0 (remove_all (u ''urn:'') 0 (uuid_text x)) = uuid_text x"
  proof -
    have "hd (u ''urn:'') \<notin> set (uuid_text x)" "hd (u ''uuid:'') \<notin> set (uuid_text x)" "u ''urn:'' \<noteq> []" "u ''uuid:'' \<noteq> []"
      using set_uuid_text [of 117 x] by auto
    note h = this
    show ?thesis unfolding remove_all_none [OF h(3,1)] remove_all_none [OF h(4,2)] ..
  qed
  have digits: "filter (\<lambda>c. c \<noteq> 45) (uuid_text x) = h" unfolding h_def by (rule uuid_text_digits)
  have range: "48 \<le> c \<and> c \<le> 57 \<or> 97 \<le> c \<and> c \<le> 102" if "c \<in> set h" for c
    using set_hex_pad_range that unfolding h_def by blast
  have len: "length h = 32" unfolding h_def by (rule length_hex_pad)
  have "hex_digits False 0 h = Some (unat x)"
    using hex_digits_pad [of False 0 32 "unat x" "[]"] unat_uuid_less [of x] unfolding h_def [symmetric] by simp
  then have i: "int_base16 h = Some (int (unat x))" using int_base16_digits [of h] range len by fastforce
  have "int (unat x) < 2 ^ 128"
  proof -
    have "int (unat x) < int (16 ^ 32)" using unat_uuid_less [of x] by (simp only: of_nat_less_iff)
    then show ?thesis by simp
  qed
  then show ?thesis unfolding parse_uuid_def r strip_braces_uuid_text digits Let_def len i
    by (simp add: word_of_int_uint unsigned_of_nat)
qed

end
