(* ===== verification/Generation_Runner.thy ===== *)
theory Generation_Runner
  imports Generation_Persist Generation_Context Uuid_Text
begin

text \<open>
  \<open>apps/api/app/generation_runner.py\<close>: one claimed job becomes an execution, which is a completion to persist or
  a typed failure, and nothing is written.

  \<^item> The provider is the structural interface of \<open>generation_provider.py\<close>, a record of functions: a
    \<open>GenerationProvider\<close> is any object with these members.  \<open>structured_content()\<close> of a research is its
    field \<open>rs_content\<close>.
  \<^item> The results of \<open>uuid4()\<close> are a sequence \<open>draw\<close>, used in the order of the calls.
  \<^item> The thread pool runs the document summaries concurrently; \<open>executor.map\<close> yields them in order and the
    first failing document in order raises, which is \<open>map_result\<close>.
  \<^item> The row factory returns each column in its declared type, so the type tests of \<open>_uuid_value\<close> and
    \<open>_nonempty_text\<close> on rows are the typing of the rows and the blank test remains.
\<close>

section \<open>Executions\<close>

definition generation_kinds :: "ustr set" where
  "generation_kinds = {u ''summary'', u ''research''}"

record execution =
  ge_snapshot :: uuid
  ge_kind :: ustr
  ge_pipeline :: ustr
  ge_target :: job_state
  ge_result :: "(ustr \<times> json) list"
  ge_error :: "ustr option"
  ge_retryable :: bool
  ge_completion :: "completion option"

text \<open>\<open>__post_init__\<close>; an error code must be present and equal to its \<open>strip()\<close>.\<close>

definition check_execution :: "execution \<Rightarrow> app_error + unit" where
  "check_execution e =
     require (ge_kind e \<in> generation_kinds) (ValueError (u ''generation execution kind must be summary or research''))
     (require (\<not> is_blank (ge_pipeline e)) (ValueError (u ''generation execution pipeline_version must not be blank''))
     (if ge_target e = J_SUCCEEDED
      then require (ge_error e = None \<and> ge_completion e \<noteq> None \<and> \<not> ge_retryable e)
             (ValueError (u ''successful execution requires exactly one completion'')) (Inr ())
      else if ge_target e \<in> {J_FAILED_RETRYABLE, J_FAILED_TERMINAL}
      then require (ge_completion e = None \<and>
               (case ge_error e of None \<Rightarrow> False | Some code \<Rightarrow> code \<noteq> [] \<and> code = py_strip code))
             (ValueError (u ''failed execution requires a typed error and no completion'')) (Inr ())
      else Inl (ValueError (u ''generation execution must be terminal''))))"

definition make_execution :: "execution \<Rightarrow> app_error + execution" where
  "make_execution e = and_then (check_execution e) (\<lambda>_. Inr e)"

text \<open>\<open>persist\<close> and the callback of \<open>fenced_effect\<close>.  The assertion on the error code is a \<open>RuntimeErr\<close> here.\<close>

definition persist_execution ::
  "(nat list \<Rightarrow> ustr) \<Rightarrow> persist_draws \<Rightarrow> execution \<Rightarrow> 'z app_db_scheme \<Rightarrow> app_error + aggregate_result \<times> 'z app_db_scheme" where
  "persist_execution sha256 d e db =
     (case ge_completion e of
        Some c \<Rightarrow> persist_success sha256 d c db
      | None \<Rightarrow>
          (case ge_error e of
             None \<Rightarrow> Inl (RuntimeErr (u ''AssertionError''))
           | Some code \<Rightarrow> persist_failure d (ge_snapshot e) (ge_kind e) (ge_pipeline e) code (ge_retryable e) db))"

definition fenced_effect ::
  "(nat list \<Rightarrow> ustr) \<Rightarrow> persist_draws \<Rightarrow> execution \<Rightarrow> 'z app_db_scheme \<Rightarrow> app_error + 'z app_db_scheme" where
  "fenced_effect sha256 d e db = and_then (persist_execution sha256 d e db) (\<lambda>(r, db'). Inr db')"

text \<open>\<open>_failed_execution\<close>\<close>

definition failed_execution :: "uuid \<Rightarrow> ustr \<Rightarrow> ustr \<Rightarrow> ustr \<Rightarrow> bool \<Rightarrow> app_error + execution" where
  "failed_execution sn kind pipeline code retryable =
     (let target = (if retryable then J_FAILED_RETRYABLE else J_FAILED_TERMINAL) in
      make_execution
        \<lparr>ge_snapshot = sn, ge_kind = kind, ge_pipeline = pipeline, ge_target = target,
         ge_result = [(u ''snapshot_id'', JStr (uuid_text sn)), (u ''kind'', JStr kind),
                      (u ''status'', JStr (job_state_value target)), (u ''error_code'', JStr code)],
         ge_error = Some code, ge_retryable = retryable, ge_completion = None\<rparr>)"

section \<open>The provider\<close>

record research_topic =
  rt_text :: ustr
  rt_evidence :: "uuid list"

record research_fact =
  rf_anchor :: uuid
  rf_quote :: ustr
  rf_verdict :: verdict
  rf_explanation :: ustr
  rf_evidence :: "uuid list"

record research_evidence =
  rv_id :: uuid
  rv_url :: ustr
  rv_title :: ustr
  rv_domain :: ustr
  rv_accessed_at :: py_datetime
  rv_snippet_hash :: ustr

record grounded_research =
  rs_topics :: "research_topic list"
  rs_facts :: "research_fact list"
  rs_evidence :: "research_evidence list"
  rs_content :: "(ustr \<times> json) list"

record generation_provider =
  pv_provider :: ustr
  pv_model :: ustr
  pv_prompt :: ustr
  pv_summary :: "runtime_anchor list \<Rightarrow> ustr \<Rightarrow> int \<Rightarrow> app_error + grounded_summary"
  pv_research :: "runtime_anchor list \<Rightarrow> uuid \<Rightarrow> app_error + grounded_research"

section \<open>Completions\<close>

definition make_completion :: "completion \<Rightarrow> app_error + completion" where
  "make_completion c = and_then (check_completion_write c) (\<lambda>_. Inr c)"

text \<open>The writes collected by the loops, with the next ordinal and the number of identifiers drawn.\<close>

record writes =
  wr_segments :: "segment_write list"
  wr_citations :: "citation_write list"
  wr_claims :: "claim_write list"
  wr_ordinal :: nat
  wr_drawn :: nat

definition no_writes :: writes where
  "no_writes = \<lparr>wr_segments = [], wr_citations = [], wr_claims = [], wr_ordinal = 0, wr_drawn = 0\<rparr>"

text \<open>Citations of one segment, one identifier each, drawn from \<open>k\<close> on.\<close>

definition cite_all :: "(uuid \<Rightarrow> uuid \<Rightarrow> 'a \<Rightarrow> citation_write) \<Rightarrow> (nat \<Rightarrow> uuid) \<Rightarrow> nat \<Rightarrow> uuid \<Rightarrow> 'a list \<Rightarrow> citation_write list" where
  "cite_all mk draw k segment targets = map (\<lambda>(j, t). mk (draw j) segment t) (enumerate k targets)"

definition add_item_writes :: "(nat \<Rightarrow> uuid) \<Rightarrow> grounded_item \<Rightarrow> writes \<Rightarrow> app_error + writes" where
  "add_item_writes draw i w =
     (let k = wr_drawn w; segment = draw k in
      and_then (make_segment_write segment (int (wr_ordinal w)) (gi_text i)) (\<lambda>s. Inr
        (w\<lparr>wr_segments := wr_segments w @ [s],
           wr_citations := wr_citations w @ cite_all CitationWrite draw (Suc k) segment (map gs_anchor (gi_supports i)),
           wr_ordinal := Suc (wr_ordinal w), wr_drawn := Suc k + length (gi_supports i)\<rparr>)))"

definition summary_grounded_items :: "grounded_summary \<Rightarrow> grounded_item list" where
  "summary_grounded_items s = concat (map gx_items s)"

text \<open>\<open>_summary_completion\<close>\<close>

definition summary_completion ::
  "(nat \<Rightarrow> uuid) \<Rightarrow> uuid \<Rightarrow> ustr \<Rightarrow> grounded_summary \<Rightarrow> generation_provider \<Rightarrow> app_error + completion" where
  "summary_completion draw sn pipeline summary p =
     and_then (fold_result (add_item_writes draw) (summary_grounded_items summary) no_writes) (\<lambda>w.
     make_completion
       \<lparr>gc_snapshot = sn, gc_kind = u ''summary'', gc_pipeline = pipeline, gc_document = draw (wr_drawn w),
        gc_content = structured_content summary, gc_segments = wr_segments w, gc_citations = wr_citations w,
        gc_evidence = [], gc_claims = [], gc_provider = pv_provider p, gc_model = pv_model p, gc_prompt = pv_prompt p\<rparr>)"

definition add_topic_writes :: "(nat \<Rightarrow> uuid) \<Rightarrow> research_topic \<Rightarrow> writes \<Rightarrow> app_error + writes" where
  "add_topic_writes draw t w =
     (let k = wr_drawn w; segment = draw k in
      and_then (make_segment_write segment (int (wr_ordinal w)) (rt_text t)) (\<lambda>s. Inr
        (w\<lparr>wr_segments := wr_segments w @ [s],
           wr_citations := wr_citations w @ cite_all WebCitationWrite draw (Suc k) segment (rt_evidence t),
           wr_ordinal := Suc (wr_ordinal w), wr_drawn := Suc k + length (rt_evidence t)\<rparr>)))"

definition add_fact_writes :: "(nat \<Rightarrow> uuid) \<Rightarrow> research_fact \<Rightarrow> writes \<Rightarrow> app_error + writes" where
  "add_fact_writes draw f w =
     (let k = wr_drawn w; segment = draw k; n = length (rf_evidence f) in
      and_then (make_segment_write segment (int (wr_ordinal w)) (rf_explanation f)) (\<lambda>s.
      and_then (make_claim_write (draw (Suc (Suc k) + n)) (rf_quote f) (rf_anchor f) (rf_verdict f) (rf_explanation f)) (\<lambda>c. Inr
        (w\<lparr>wr_segments := wr_segments w @ [s],
           wr_citations := wr_citations w @ CitationWrite (draw (Suc k)) segment (rf_anchor f) #
             cite_all WebCitationWrite draw (Suc (Suc k)) segment (rf_evidence f),
           wr_claims := wr_claims w @ [c],
           wr_ordinal := Suc (wr_ordinal w), wr_drawn := Suc (Suc (Suc k)) + n\<rparr>))))"

definition write_evidence :: "research_evidence \<Rightarrow> app_error + evidence_write" where
  "write_evidence e =
     make_evidence_write (rv_id e) (rv_url e) (rv_title e) (rv_domain e) (rv_accessed_at e) (rv_snippet_hash e)"

text \<open>\<open>_research_completion\<close>\<close>

definition research_completion ::
  "(nat \<Rightarrow> uuid) \<Rightarrow> uuid \<Rightarrow> ustr \<Rightarrow> grounded_research \<Rightarrow> generation_provider \<Rightarrow> app_error + completion" where
  "research_completion draw sn pipeline research p =
     and_then (fold_result (add_topic_writes draw) (rs_topics research) no_writes) (\<lambda>w1.
     and_then (fold_result (add_fact_writes draw) (rs_facts research) w1) (\<lambda>w.
     and_then (map_result write_evidence (rs_evidence research)) (\<lambda>web.
     make_completion
       \<lparr>gc_snapshot = sn, gc_kind = u ''research'', gc_pipeline = pipeline, gc_document = draw (wr_drawn w),
        gc_content = rs_content research, gc_segments = wr_segments w, gc_citations = wr_citations w,
        gc_evidence = web, gc_claims = wr_claims w, gc_provider = pv_provider p, gc_model = pv_model p,
        gc_prompt = pv_prompt p\<rparr>)))"

section \<open>Synthesis of the document summaries\<close>

definition headed_items :: "grounded_summary \<Rightarrow> (ustr \<times> grounded_item) list" where
  "headed_items s = concat (map (\<lambda>x. map (Pair (gx_heading x)) (gx_items x)) s)"

text \<open>One item of every document in turn.\<close>

definition round_robin :: "'a list list \<Rightarrow> 'a list" where
  "round_robin docs =
     concat (map (\<lambda>i. map (\<lambda>items. items ! i) (filter (\<lambda>items. i < length items) docs))
       [0..<fold max (map length docs) 0])"

definition item_signature :: "grounded_item \<Rightarrow> ustr \<times> uuid list" where
  "item_signature i = (gi_text i, gi_anchors i)"

text \<open>The first \<open>n\<close> items with a new signature.\<close>

fun take_new :: "nat \<Rightarrow> (ustr \<times> uuid list) set \<Rightarrow> (ustr \<times> grounded_item) list \<Rightarrow> (ustr \<times> grounded_item) list" where
  "take_new n seen [] = []"
| "take_new n seen (hi # rest) =
     (let sig = item_signature (snd hi) in
      if sig \<in> seen then take_new n seen rest
      else hi # (if n = 1 then [] else take_new (n - 1) (insert sig seen) rest))"

text \<open>\<open>items_by_heading.setdefault(heading, []).append(item)\<close>\<close>

fun put_item :: "ustr \<times> grounded_item \<Rightarrow> grounded_summary \<Rightarrow> grounded_summary" where
  "put_item hi [] = [\<lparr>gx_heading = fst hi, gx_items = [snd hi]\<rparr>]"
| "put_item hi (x # xs) =
     (if gx_heading x = fst hi then x\<lparr>gx_items := gx_items x @ [snd hi]\<rparr> # xs else x # put_item hi xs)"

definition synthesize :: "grounded_summary list \<Rightarrow> app_error + grounded_summary" where
  "synthesize summaries =
     (let sections = fold put_item (take_new 100 {} (round_robin (map headed_items summaries))) []
      in require (sections \<noteq> [])
           (SummaryGroundingError (u ''empty_hierarchical_summary'') (u ''no document summary survived'')) (Inr sections))"

section \<open>The claimed job and its snapshot\<close>

text \<open>\<open>_claimed_generation_identity\<close>\<close>

definition claimed_identity :: "claimed_job \<Rightarrow> app_error + uuid \<times> ustr \<times> ustr" where
  "claimed_identity c =
     require (cl_kind c \<in> generation_kinds) (GenerationRunnerError (u ''claimed job is not a generation kind''))
     (case get_str (cl_payload c) (u ''snapshot_id'') of
        None \<Rightarrow> Inl (GenerationRunnerError (u ''generation job lacks snapshot identity''))
      | Some raw \<Rightarrow>
     (case parse_uuid raw of
        None \<Rightarrow> Inl (GenerationRunnerError (u ''generation job snapshot identity is invalid''))
      | Some sn \<Rightarrow>
      require (get_str (cl_payload c) (u ''kind'') = Some (cl_kind c))
        (GenerationRunnerError (u ''generation job kind does not match its payload''))
      (case get_str (cl_payload c) (u ''pipeline_version'') of
         None \<Rightarrow> Inl (GenerationRunnerError (u ''generation job lacks pipeline version''))
       | Some pipeline \<Rightarrow>
           require (\<not> is_blank pipeline) (GenerationRunnerError (u ''generation job lacks pipeline version''))
             (Inr (sn, cl_kind c, pipeline)))))"

definition nonempty_text :: "ustr \<Rightarrow> ustr \<Rightarrow> app_error + ustr" where
  "nonempty_text value label = require (\<not> is_blank value) (GenerationRunnerError (label @ u '' is invalid'')) (Inr value)"

definition context_rows :: "'z app_db_scheme \<Rightarrow> uuid \<Rightarrow> anchor_row list" where
  "context_rows db sn =
     sort_key an_revision (sort_key an_ordinal (sort_key an_id
       (concat (map (\<lambda>p. filter (\<lambda>a. an_revision a = pn_revision p \<and> an_run a = pn_run p) (anchors db))
         (filter (\<lambda>p. pn_snapshot p = sn) (pinned db))))))"

definition runtime_anchor_of :: "anchor_row \<Rightarrow> app_error + runtime_anchor" where
  "runtime_anchor_of a =
     and_then (nonempty_text (an_text a) (u ''source anchor text'')) (\<lambda>t.
     and_then (nonempty_text (an_block a) (u ''source anchor block type'')) (\<lambda>b.
     make_runtime_anchor (an_id a) (an_revision a) t (u ''factual_claim'') b (an_confidence a)))"

text \<open>\<open>_snapshot_context\<close>\<close>

definition snapshot_context :: "'z app_db_scheme \<Rightarrow> uuid \<Rightarrow> app_error + ustr \<times> runtime_anchor list" where
  "snapshot_context db sn =
     (let rows = context_rows db sn in
      case find (\<lambda>n. sn_id n = sn) (snapshots db) of
        None \<Rightarrow> Inl (GenerationRunnerError (u ''generation snapshot has no source anchors''))
      | Some n \<Rightarrow>
          require (rows \<noteq> []) (GenerationRunnerError (u ''generation snapshot has no source anchors''))
          (and_then (nonempty_text (sn_topic n) (u ''generation snapshot topic'')) (\<lambda>topic.
           and_then (map_result runtime_anchor_of rows) (\<lambda>sources. Inr (topic, sources)))))"

text \<open>The Korean intents: "key decisions, dates, owners, agreements, issues" and "external survey, fact check, background, risks".\<close>

definition summary_intent :: ustr where
  "summary_intent = [54645, 49900, 32, 44208, 51221, 32, 51068, 51221, 32, 45812, 45817, 51088, 32, 54633, 51032, 32, 51137, 51216]"

definition research_intent :: ustr where
  "research_intent = [50808, 48512, 32, 51312, 49324, 32, 49324, 49892, 32, 44160, 51613, 32, 48176, 44221, 32, 50948, 54744]"

definition retrieval_query :: "ustr \<Rightarrow> ustr \<Rightarrow> ustr" where
  "retrieval_query topic kind = topic @ [32] @ (if kind = u ''summary'' then summary_intent else research_intent)"

section \<open>Execution\<close>

text \<open>What the runner is configured with, and the text functions that are parameters of retrieval and planning.\<close>

record runner =
  rn_provider :: generation_provider
  rn_fixture :: ustr
  rn_max_anchors :: int
  rn_sha256 :: "nat list \<Rightarrow> ustr"
  rn_nfc :: "ustr \<Rightarrow> ustr"
  rn_topic_words :: "ustr \<Rightarrow> ustr"
  rn_score :: "ustr \<Rightarrow> runtime_anchor \<Rightarrow> int"
  rn_duplicate :: "ustr \<Rightarrow> ustr \<Rightarrow> bool"

text \<open>The exceptions of the generation code that are \<open>ValueError\<close>s in Python.\<close>

definition is_value_error :: "app_error \<Rightarrow> bool" where
  "is_value_error e \<longleftrightarrow>
     (case e of ValueError _ \<Rightarrow> True | GenerationProviderFailure _ _ \<Rightarrow> True | SummaryGroundingError _ _ \<Rightarrow> True | _ \<Rightarrow> False)"

text \<open>The body of the second \<open>try\<close>.\<close>

definition generate_completion ::
  "runner \<Rightarrow> (nat \<Rightarrow> uuid) \<Rightarrow> int \<Rightarrow> uuid \<Rightarrow> ustr \<Rightarrow> ustr \<Rightarrow> runtime_anchor list \<Rightarrow> app_error + completion" where
  "generate_completion r draw attempt sn kind pipeline sources =
     (let p = rn_provider r in
      if kind = u ''summary'' then
        and_then (plan_generation_context (rn_duplicate r) 24000 sources) (\<lambda>plan.
        and_then (map_result (\<lambda>x. pv_summary p (xd_anchors x) (rn_fixture r) attempt) (xp_documents plan)) (\<lambda>docs.
        and_then (synthesize docs) (\<lambda>summary. summary_completion draw sn pipeline summary p)))
      else and_then (pv_research p sources sn) (\<lambda>research. research_completion draw sn pipeline research p))"

definition succeeded_execution ::
  "(nat list \<Rightarrow> ustr) \<Rightarrow> uuid \<Rightarrow> ustr \<Rightarrow> ustr \<Rightarrow> retrieval_plan \<Rightarrow> completion \<Rightarrow> app_error + execution" where
  "succeeded_execution sha256 sn kind pipeline retrieval c =
     and_then (job_result sha256 c) (\<lambda>result.
     make_execution
       \<lparr>ge_snapshot = sn, ge_kind = kind, ge_pipeline = pipeline, ge_target = J_SUCCEEDED,
        ge_result = result @ [(u ''retrieval'', retrieval_metadata retrieval)], ge_error = None, ge_retryable = False,
        ge_completion = Some c\<rparr>)"

definition execute :: "runner \<Rightarrow> (nat \<Rightarrow> uuid) \<Rightarrow> claimed_job \<Rightarrow> 'z app_db_scheme \<Rightarrow> app_error + execution" where
  "execute r draw c db =
     and_then (claimed_identity c) (\<lambda>(sn, kind, pipeline).
     and_then (snapshot_context db sn) (\<lambda>(topic, candidates).
     (case retrieve_generation_anchors (rn_sha256 r) (rn_nfc r) (rn_topic_words r) (rn_score r) (retrieval_query topic kind)
             candidates (rn_max_anchors r) of
        Inl e \<Rightarrow> if is_value_error e then failed_execution sn kind pipeline (u ''retrieval_context_invalid'') False else Inl e
      | Inr retrieval \<Rightarrow>
          (case generate_completion r draw (cl_generation c) sn kind pipeline (rp_anchors retrieval) of
             Inr completion \<Rightarrow> succeeded_execution (rn_sha256 r) sn kind pipeline retrieval completion
           | Inl (GenerationProviderFailure code retryable) \<Rightarrow> failed_execution sn kind pipeline code retryable
           | Inl (SummaryGroundingError code detail) \<Rightarrow> failed_execution sn kind pipeline code False
           | Inl e \<Rightarrow> Inl e))))"

end
