(* ===== verification/Generation_Worker.thy ===== *)
theory Generation_Worker
  imports Generation_Runner Generation_Read
begin

text \<open>
  \<open>apps/api/app/generation_worker.py\<close>: one poll of the fenced worker.

  \<^item> Each database access of a poll is its own transaction and the provider runs outside of them, so other
    transactions may run in between: \<open>env k\<close> is what they do before the execution (0), the completion (1)
    and the requeue (2).
  \<^item> The log lines have no effect on the state and are left out; \<open>raise\<close> returns the error.
\<close>

record worker_outcome =
  wo_job :: "uuid option"
  wo_claimed :: bool
  wo_completed :: bool
  wo_stale :: bool
  wo_target :: "job_state option"
  wo_error :: "ustr option"

text \<open>The clock readings and identifiers of one poll, in the order they are used.\<close>

record worker_draws =
  wd_locked :: "uuid \<Rightarrow> bool"
  wd_token :: uuid
  wd_attempt :: uuid
  wd_claim_now :: int
  wd_claim_now' :: int
  wd_ids :: "nat \<Rightarrow> uuid"
  wd_complete_now :: int
  wd_persist :: persist_draws
  wd_result :: uuid
  wd_requeue_now :: int

definition failure_code :: ustr where
  "failure_code = u ''generation_runner_failure''"

definition max_research_attempts :: int where
  "max_research_attempts = 3"

definition idle_outcome :: worker_outcome where
  "idle_outcome =
     \<lparr>wo_job = None, wo_claimed = False, wo_completed = False, wo_stale = False, wo_target = None, wo_error = None\<rparr>"

text \<open>\<open>_outcome\<close>\<close>

definition worker_outcome_of :: "claimed_job \<Rightarrow> execution option \<Rightarrow> bool \<Rightarrow> bool \<Rightarrow> worker_outcome" where
  "worker_outcome_of c x completed stale =
     \<lparr>wo_job = Some (cl_id c), wo_claimed = True, wo_completed = completed, wo_stale = stale,
      wo_target = map_option ge_target x, wo_error = (case x of None \<Rightarrow> Some failure_code | Some e \<Rightarrow> ge_error e)\<rparr>"

text \<open>\<open>_cap_research_retries\<close>; \<open>replace\<close> runs \<open>__post_init__\<close> again.\<close>

definition capped_execution :: "execution \<Rightarrow> execution" where
  "capped_execution e =
     e\<lparr>ge_target := J_FAILED_TERMINAL, ge_retryable := False,
       ge_result := put_key (u ''status'') (JStr (job_state_value J_FAILED_TERMINAL)) (ge_result e)\<rparr>"

definition cap_research_retries :: "execution option \<Rightarrow> claimed_job \<Rightarrow> app_error + execution option" where
  "cap_research_retries x c =
     (case x of
        None \<Rightarrow> Inr None
      | Some e \<Rightarrow>
          if ge_target e \<noteq> J_FAILED_RETRYABLE \<or> cl_kind c \<noteq> u ''research'' \<or> cl_generation c < max_research_attempts
          then Inr (Some e)
          else and_then (make_execution (capped_execution e)) (\<lambda>e'. Inr (Some e')))"

text \<open>\<open>_failure_for_claim\<close>\<close>

definition failure_for_claim :: "claimed_job \<Rightarrow> app_error + execution option" where
  "failure_for_claim c =
     (case (get_str (cl_payload c) (u ''snapshot_id''), get_str (cl_payload c) (u ''kind''),
            get_str (cl_payload c) (u ''pipeline_version'')) of
        (Some raw, Some kind, Some pipeline) \<Rightarrow>
          if kind \<notin> generation_kinds \<or> kind \<noteq> cl_kind c \<or> is_blank pipeline then Inr None
          else (case parse_uuid raw of
                  None \<Rightarrow> Inr None
                | Some sn \<Rightarrow> and_then (failed_execution sn kind pipeline failure_code False) (\<lambda>e. Inr (Some e)))
      | _ \<Rightarrow> Inr None)"

text \<open>\<open>_execute_safely\<close>\<close>

definition execute_safely ::
  "runner \<Rightarrow> (nat \<Rightarrow> uuid) \<Rightarrow> claimed_job \<Rightarrow> 'z app_db_scheme \<Rightarrow> app_error + execution option" where
  "execute_safely r draw c db =
     (case execute r draw c db of
        Inr e \<Rightarrow> Inr (Some e)
      | Inl (GenerationRunnerError _) \<Rightarrow> failure_for_claim c
      | Inl e \<Rightarrow> Inl e)"

text \<open>\<open>_complete\<close>\<close>

definition complete_claim ::
  "runner \<Rightarrow> worker_draws \<Rightarrow> claimed_job \<Rightarrow> execution option \<Rightarrow> 'z app_db_scheme \<Rightarrow> (app_error + unit) \<times> 'z app_db_scheme" where
  "complete_claim r d c x db =
     (case x of
        None \<Rightarrow>
          Job_Queue.complete (rn_sha256 r) (wd_result d) (wd_complete_now d) c J_FAILED_TERMINAL
            [(u ''outcome'', JStr (u ''failed'')), (u ''error_code'', JStr failure_code)] (Some failure_code) db
      | Some e \<Rightarrow>
          complete_with_effects (rn_sha256 r) (wd_result d) (wd_complete_now d) c (ge_target e) (ge_result e) (ge_error e)
            (fenced_effect (rn_sha256 r) (wd_persist d) e) db)"

text \<open>\<open>_retry_research\<close>\<close>

definition retry_research :: "worker_draws \<Rightarrow> claimed_job \<Rightarrow> 'z queue_db_scheme \<Rightarrow> (app_error + unit) \<times> 'z queue_db_scheme" where
  "retry_research d c db =
     (if cl_kind c \<noteq> u ''research'' then (Inr (), db)
      else let (res, db') = requeue_retryable (wd_requeue_now d) (cl_id c) (cl_generation c) db
           in (case res of Inl (StaleLeaseError _) \<Rightarrow> Inr () | _ \<Rightarrow> res, db'))"

definition is_retryable_execution :: "execution option \<Rightarrow> bool" where
  "is_retryable_execution x \<longleftrightarrow> (case x of None \<Rightarrow> False | Some e \<Rightarrow> ge_target e = J_FAILED_RETRYABLE)"

text \<open>The part of \<open>run_once\<close> after a claim.\<close>

definition finish_claim ::
  "runner \<Rightarrow> worker_draws \<Rightarrow> (nat \<Rightarrow> 'z app_db_scheme \<Rightarrow> 'z app_db_scheme) \<Rightarrow> claimed_job \<Rightarrow> execution option \<Rightarrow>
   'z app_db_scheme \<Rightarrow> (app_error + worker_outcome) \<times> 'z app_db_scheme" where
  "finish_claim r d env c x db =
     (let (res, db2) = complete_claim r d c x (env 1 db) in
      case res of
        Inl (StaleLeaseError _) \<Rightarrow> (Inr (worker_outcome_of c x False True), db2)
      | Inl e \<Rightarrow> (Inl e, db2)
      | Inr _ \<Rightarrow>
          if is_retryable_execution x then
            let (res', db3) = retry_research d c (env 2 db2)
            in (and_then res' (\<lambda>_. Inr (worker_outcome_of c x True False)), db3)
          else (Inr (worker_outcome_of c x True False), db2))"

definition run_claimed ::
  "runner \<Rightarrow> worker_draws \<Rightarrow> (nat \<Rightarrow> 'z app_db_scheme \<Rightarrow> 'z app_db_scheme) \<Rightarrow> claimed_job \<Rightarrow>
   'z app_db_scheme \<Rightarrow> (app_error + worker_outcome) \<times> 'z app_db_scheme" where
  "run_claimed r d env c db =
     (case and_then (execute_safely r (wd_ids d) c (env 0 db)) (\<lambda>x. cap_research_retries x c) of
        Inl e \<Rightarrow> (Inl e, env 0 db)
      | Inr x \<Rightarrow> finish_claim r d env c x (env 0 db))"

text \<open>\<open>FencedGenerationWorker.run_once\<close>\<close>

definition run_once ::
  "runner \<Rightarrow> worker_draws \<Rightarrow> (nat \<Rightarrow> 'z app_db_scheme \<Rightarrow> 'z app_db_scheme) \<Rightarrow> ustr \<Rightarrow> int \<Rightarrow> ustr list \<Rightarrow>
   'z app_db_scheme \<Rightarrow> (app_error + worker_outcome) \<times> 'z app_db_scheme" where
  "run_once r d env owner lease_seconds kinds db =
     (if kinds = [] \<or> \<not> set kinds \<subseteq> generation_kinds
      then (Inl (ValueError (u ''generation worker kinds must be summary and/or research'')), db)
      else let (claim, db1) = claim_next (wd_locked d) (wd_token d) (wd_attempt d) (wd_claim_now d) (wd_claim_now' d) owner
                 lease_seconds (Some kinds) db
           in case claim of
                Inl e \<Rightarrow> (Inl e, db1)
              | Inr None \<Rightarrow> (Inr idle_outcome, db1)
              | Inr (Some c) \<Rightarrow> run_claimed r d env c db1)"

end
