(* ===== verification/Grounding_Properties.thy ===== *)
theory Grounding_Properties
  imports Summary_Grounding Generation_Read_Properties
begin

text \<open>
  What a grounded summary guarantees, how grounding fails, and that the stored form of a summary can be read
  back as the sections and items it was made from.
\<close>

definition support_pair :: "grounded_support \<Rightarrow> uuid \<times> ustr" where
  "support_pair s = (gs_anchor s, gs_quote s)"

text \<open>The span is the first occurrence of the quote in a factual anchor of the snapshot.\<close>

definition exact_support :: "(nat \<Rightarrow> bool) \<Rightarrow> runtime_anchor list \<Rightarrow> grounded_support \<Rightarrow> bool" where
  "exact_support alnum sources s \<longleftrightarrow>
     (\<exists>a \<in> set sources. sa_id a = gs_anchor s \<and> sa_class a = u ''factual_claim'' \<and> \<not> is_instruction_like alnum (sa_quote a) \<and>
        gs_end s = gs_start s + length (gs_quote s) \<and> gs_end s \<le> length (sa_quote a) \<and>
        take (length (gs_quote s)) (drop (gs_start s) (sa_quote a)) = gs_quote s \<and>
        (\<forall>k < gs_start s. take (length (gs_quote s)) (drop k (sa_quote a)) \<noteq> gs_quote s))"

lemma ground_support_Inr:
  assumes "ground_support alnum sources c acc = Inr out"
  shows "\<exists>s. out = acc @ [s] \<and> support_pair s = (sc_anchor c, sc_quote c) \<and> support_pair s \<notin> support_pair ` set acc \<and>
    exact_support alnum sources s"
proof -
  from assms obtain a where a: "find (\<lambda>a. sa_id a = sc_anchor c) sources = Some a"
    by (auto simp: ground_support_def split: option.splits)
  from assms obtain start where s: "sa_class a = u ''factual_claim''" "\<not> is_instruction_like alnum (sa_quote a)"
    "(sc_anchor c, sc_quote c) \<notin> support_pair ` set acc" "py_find (sa_quote a) (sc_quote c) = Some start"
    "out = acc @ [\<lparr>gs_anchor = sc_anchor c, gs_quote = sc_quote c, gs_start = start, gs_end = start + length (sc_quote c)\<rparr>]"
    by (auto simp: ground_support_def a and_then_Inr assert_anchor_safe_def support_pair_def simp del: u_simps split: option.splits)
  have aa: "a \<in> set sources" "sa_id a = sc_anchor c" using find_Some_set [OF a] by simp_all
  note f = py_find_Some [OF s(4)]
  have "min (length (sa_quote a) - start) (length (sc_quote c)) = length (sc_quote c)"
    using f arg_cong [of _ _ length] by (metis length_drop length_take min.commute)
  then have "start + length (sc_quote c) \<le> length (sa_quote a)" using f by linarith
  then have "exact_support alnum sources \<lparr>gs_anchor = sc_anchor c, gs_quote = sc_quote c, gs_start = start,
      gs_end = start + length (sc_quote c)\<rparr>"
    using s aa f by (auto simp: exact_support_def simp del: u_simps intro!: bexI [OF _ aa(1)])
  then show ?thesis using s(3,5)
    by (intro exI [of _ "\<lparr>gs_anchor = sc_anchor c, gs_quote = sc_quote c, gs_start = start,
      gs_end = start + length (sc_quote c)\<rparr>"]) (simp add: support_pair_def)
qed

lemma ground_supports_Inr:
  assumes "fold_result (ground_support alnum sources) cs acc = Inr out" "distinct (map support_pair acc)"
    "list_all (exact_support alnum sources) acc"
  shows "\<exists>new. out = acc @ new \<and> map support_pair new = map (\<lambda>c. (sc_anchor c, sc_quote c)) cs \<and>
    distinct (map support_pair out) \<and> list_all (exact_support alnum sources) out"
  using assms
proof (induction cs arbitrary: acc)
  case (Cons c cs)
  from Cons.prems(1) obtain acc1 where s: "ground_support alnum sources c acc = Inr acc1"
    "fold_result (ground_support alnum sources) cs acc1 = Inr out" by (auto simp: and_then_Inr)
  from ground_support_Inr [OF s(1)] obtain x where x: "acc1 = acc @ [x]" "support_pair x = (sc_anchor c, sc_quote c)"
    "support_pair x \<notin> support_pair ` set acc" "exact_support alnum sources x" by blast
  have d: "distinct (map support_pair acc1)" "list_all (exact_support alnum sources) acc1"
    using Cons.prems(2,3) x by simp_all
  from Cons.IH [OF s(2) d] obtain new where "out = acc1 @ new" "map support_pair new = map (\<lambda>c. (sc_anchor c, sc_quote c)) cs"
    "distinct (map support_pair out)" "list_all (exact_support alnum sources) out" by blast
  then show ?case using x by (intro exI [of _ "x # new"]) simp
qed simp

definition grounded_from :: "(nat \<Rightarrow> bool) \<Rightarrow> runtime_anchor list \<Rightarrow> item_candidate \<Rightarrow> grounded_item \<Rightarrow> bool" where
  "grounded_from alnum sources i g \<longleftrightarrow>
     gi_text g = ic_text i \<and> is_text_isolated alnum (gi_text g) \<and> gi_anchors g = ic_anchors i \<and> distinct (gi_anchors g) \<and>
     set (gi_anchors g) = gs_anchor ` set (gi_supports g) \<and>
     map support_pair (gi_supports g) = map (\<lambda>c. (sc_anchor c, sc_quote c)) (ic_supports i) \<and>
     distinct (map support_pair (gi_supports g)) \<and> list_all (exact_support alnum sources) (gi_supports g)"

lemma ground_item_Inr:
  assumes "ground_item alnum sources accept i = Inr g"
  shows "grounded_from alnum sources i g \<and> accept i = Inr ()"
proof -
  from assms obtain supports where s: "is_text_isolated alnum (ic_text i)" "distinct (ic_anchors i)"
    "fold_result (ground_support alnum sources) (ic_supports i) [] = Inr supports"
    "set (ic_anchors i) = gs_anchor ` set supports" "accept i = Inr ()"
    "g = \<lparr>gi_text = ic_text i, gi_anchors = ic_anchors i, gi_supports = supports\<rparr>"
    by (auto simp: ground_item_def and_then_Inr assert_text_isolated_def simp del: u_simps)
  from ground_supports_Inr [OF s(3)] show ?thesis using s by (auto simp: grounded_from_def)
qed

lemma ground_section_Inr:
  assumes "ground_section alnum sources accept x = Inr g"
  shows "gx_heading g = xc_heading x \<and> is_text_isolated alnum (gx_heading g) \<and>
    list_all2 (grounded_from alnum sources) (xc_items x) (gx_items g)"
proof -
  from assms obtain items where s: "is_text_isolated alnum (xc_heading x)"
    "map_result (ground_item alnum sources accept) (xc_items x) = Inr items" "g = \<lparr>gx_heading = xc_heading x, gx_items = items\<rparr>"
    by (auto simp: ground_section_def and_then_Inr assert_text_isolated_def simp del: u_simps)
  have "list_all2 (grounded_from alnum sources) (xc_items x) items"
    using s(2) unfolding map_result_Inr_iff by (rule list_all2_mono) (use ground_item_Inr in blast)
  then show ?thesis using s by simp
qed

section \<open>Failures\<close>

definition grounding_failure :: "app_error \<Rightarrow> bool" where
  "grounding_failure e \<longleftrightarrow> (case e of SummaryGroundingError code detail \<Rightarrow> is_error_code code | _ \<Rightarrow> False)"

lemma grounding_codes [simp]:
  "is_error_code (u ''source_prompt_injection'')" "is_error_code (u ''unsupported_anchor'')"
  "is_error_code (u ''summary_isolation_violation'')" "is_error_code (u ''duplicate_anchor'')"
  "is_error_code (u ''foreign_anchor'')" "is_error_code (u ''duplicate_support'')"
  "is_error_code (u ''support_quote_mismatch'')" "is_error_code (u ''support_anchor_mismatch'')"
  "is_error_code (u ''missing_anchor'')"
  by (simp_all add: is_error_code_def error_code_char_def)

lemma fold_result_Inl:
  assumes "fold_result f xs a = Inl e" "\<And>x a. f x a = Inl e \<Longrightarrow> P e"
  shows "P e"
  using assms(1) by (induction xs arbitrary: a) (auto simp: and_then_Inl dest: assms(2))

lemma map_result_Inl:
  assumes "map_result f xs = Inl e" "\<And>x. f x = Inl e \<Longrightarrow> P e"
  shows "P e"
  using assms(1) by (induction xs) (auto simp: and_then_Inl dest: assms(2))

lemma ground_support_Inl: "ground_support alnum sources c acc = Inl e \<Longrightarrow> grounding_failure e"
  by (auto simp: ground_support_def and_then_Inl assert_anchor_safe_def grounding_failure_def simp del: u_simps
      split: option.splits)

lemma ground_item_Inl: "ground_item alnum sources (\<lambda>_. Inr ()) i = Inl e \<Longrightarrow> grounding_failure e"
  by (auto simp: ground_item_def and_then_Inl assert_text_isolated_def grounding_failure_def simp del: u_simps
      dest: fold_result_Inl [where P = grounding_failure, OF _ ground_support_Inl])

lemma ground_section_Inl: "ground_section alnum sources (\<lambda>_. Inr ()) x = Inl e \<Longrightarrow> grounding_failure e"
  by (auto simp: ground_section_def and_then_Inl assert_text_isolated_def grounding_failure_def simp del: u_simps
      dest: map_result_Inl [where P = grounding_failure, OF _ ground_item_Inl])

section \<open>Reading back\<close>

lemma section_items_json: "gx_items x \<noteq> [] \<Longrightarrow> section_items (section_json x) = Inr (map item_object (gx_items x))"
  by (auto simp: section_items_Inr section_json_def comp_def)

lemma summary_items_structured:
  assumes "s \<noteq> []" "list_all (\<lambda>x. gx_items x \<noteq> []) s"
  shows "summary_items (structured_content s) = Inr (map (\<lambda>x. map item_object (gx_items x)) s)"
proof -
  have "list_all2 (\<lambda>sec items. section_items sec = Inr items) (map section_json s) (map (\<lambda>x. map item_object (gx_items x)) s)"
    using assms(2) by (auto simp: list_all2_conv_all_nth list_all_length section_items_json)
  then show ?thesis using assms(1) by (simp add: summary_items_Inr structured_content_def map_result_Inr_iff)
qed

lemma supports_of_item: "supports_of (item_object i) = map (\<lambda>s. the (json_object (support_json s))) (gi_supports i)"
  by (simp add: supports_of_def item_object_def map_filter_def comp_def support_json_def)

section \<open>Properties\<close>

text \<open>
  C13: a grounded live summary says only what the sources say.  It has the candidate's sections, headings and items,
  in order and nothing else; every text is free of links and verdict language; every support of an item is a span of
  a factual, not instruction-like anchor of the snapshot, cut out exactly where the quote first occurs; supports are
  the candidate's, no two alike, and the anchors an item declares are exactly those its supports name.
\<close>

theorem live_summary_is_grounded:
  assumes "ground_live_summary alnum candidate sources = Inr summary"
  shows "list_all2 (\<lambda>x g. gx_heading g = xc_heading x \<and> is_text_isolated alnum (gx_heading g) \<and>
      list_all2 (grounded_from alnum sources) (xc_items x) (gx_items g)) candidate summary"
proof -
  from assms have "map_result (ground_section alnum sources (\<lambda>_. Inr ())) candidate = Inr summary"
    by (auto simp: ground_live_summary_def and_then_Inr index_anchors_def simp del: u_simps)
  then show ?thesis
    unfolding map_result_Inr_iff by (rule list_all2_mono) (use ground_section_Inr in blast)
qed

definition sample_candidate :: "section_candidate list" where
  "sample_candidate = [\<lparr>xc_heading = u ''plan'', xc_items = [\<lparr>ic_text = u ''go'', ic_anchors = [90],
     ic_supports = [\<lparr>sc_anchor = 90, sc_quote = u ''ship''\<rparr>, \<lparr>sc_anchor = 90, sc_quote = u ''it''\<rparr>]\<rparr>]\<rparr>]"

definition sample_anchor :: runtime_anchor where
  "sample_anchor = \<lparr>sa_id = 90, sa_revision = 30, sa_quote = u ''ship it'', sa_class = u ''factual_claim'', sa_block = u ''p'',
     sa_confidence = None\<rparr>"

definition sample_grounded :: grounded_summary where
  "sample_grounded = [\<lparr>gx_heading = u ''plan'', gx_items = [\<lparr>gi_text = u ''go'', gi_anchors = [90],
     gi_supports = [\<lparr>gs_anchor = 90, gs_quote = u ''ship'', gs_start = 0, gs_end = 4\<rparr>,
        \<lparr>gs_anchor = 90, gs_quote = u ''it'', gs_start = 5, gs_end = 7\<rparr>]\<rparr>]\<rparr>]"

lemmas pattern_eval = is_instruction_like_def has_url_def has_verdict_def is_text_isolated_def word_matches_def
  word_boundary_def starts_word_def word_char_def ci_match_def verdict_words_def

lemma sample_grounds: "ground_live_summary (\<lambda>_. False) sample_candidate [sample_anchor] = Inr sample_grounded"
proof -
  have i: "is_text_isolated (\<lambda>_. False) (u ''plan'')" "is_text_isolated (\<lambda>_. False) (u ''go'')"
    by (simp_all add: pattern_eval)
  have n: "\<not> is_instruction_like (\<lambda>_. False) (u ''ship it'')"
    by (simp add: pattern_eval)
  have f: "py_find (u ''ship it'') (u ''ship'') = Some 0" "py_find (u ''ship it'') (u ''it'') = Some 5"
    by (simp_all add: py_find_def)
  show ?thesis
    by (simp add: ground_live_summary_def index_anchors_def ground_section_def ground_item_def ground_support_def
        assert_text_isolated_def assert_anchor_safe_def sample_candidate_def sample_anchor_def sample_grounded_def i n f u_inject
        del: u_simps)
qed

theorem live_summary_is_grounded_witness:
  "list_all2 (\<lambda>x g. gx_heading g = xc_heading x \<and> is_text_isolated (\<lambda>_. False) (gx_heading g) \<and>
      list_all2 (grounded_from (\<lambda>_. False) [sample_anchor]) (xc_items x) (gx_items g)) sample_candidate sample_grounded"
  by (rule live_summary_is_grounded [OF sample_grounds])

text \<open>
  Grounding fails closed and typed.  Whatever the candidate and the anchors, a live summary that is not grounded
  is refused with a \<open>SummaryGroundingError\<close> whose code is a token the repository accepts for a failed run; no other
  exception leaves the function.
\<close>

theorem grounding_failures_are_typed:
  "case ground_live_summary alnum candidate sources of Inl e \<Rightarrow> grounding_failure e | Inr s \<Rightarrow> length s = length candidate"
proof (cases "ground_live_summary alnum candidate sources")
  case (Inl e)
  then have "grounding_failure e"
    by (auto simp: ground_live_summary_def and_then_Inl index_anchors_def grounding_failure_def simp del: u_simps
        dest: map_result_Inl [where P = grounding_failure, OF _ ground_section_Inl])
  then show ?thesis using Inl by simp
next
  case (Inr s)
  then have "map_result (ground_section alnum sources (\<lambda>_. Inr ())) candidate = Inr s"
    by (auto simp: ground_live_summary_def and_then_Inr index_anchors_def simp del: u_simps)
  then show ?thesis using Inr by (simp add: map_result_length)
qed

end
