(* ===== verification/Runner_Properties.thy ===== *)
theory Runner_Properties
  imports Generation_Runner Grounding_Properties Session_Properties
begin

text \<open>
  What an execution is: its type, when a grounded summary becomes a completion, the bounds and the fairness of the
  synthesis, and that the jobs a close creates identify their run.
\<close>

section \<open>Synthesis\<close>

lemma take_new_props:
  assumes "1 \<le> n"
  shows "set (take_new n seen xs) \<subseteq> set xs \<and> length (take_new n seen xs) \<le> n \<and>
    distinct (map (item_signature \<circ> snd) (take_new n seen xs)) \<and>
    (item_signature \<circ> snd) ` set (take_new n seen xs) \<inter> seen = {}"
  using assms
proof (induction n seen xs rule: take_new.induct)
  case (2 n seen hi rest)
  let ?sig = "item_signature (snd hi)"
  show ?case
  proof (cases "?sig \<in> seen")
    case True
    then show ?thesis using "2.IH"(1) [OF refl True] "2.prems" by (auto simp: Let_def)
  next
    case False
    show ?thesis
    proof (cases "n = 1")
      case True
      then show ?thesis using False by (simp add: Let_def)
    next
      case n: False
      have "1 \<le> n - 1" using "2.prems" n by simp
      note IH = "2.IH"(2) [OF refl False n this]
      show ?thesis using IH False n "2.prems" by (auto simp: Let_def image_iff)
    qed
  qed
qed simp

lemma take_new_complete:
  "length (take_new n seen xs) < n \<Longrightarrow> (item_signature \<circ> snd) ` set xs \<subseteq> seen \<union> (item_signature \<circ> snd) ` set (take_new n seen xs)"
proof (induction n seen xs rule: take_new.induct)
  case (2 n seen hi rest)
  let ?sig = "item_signature (snd hi)"
  show ?case
  proof (cases "?sig \<in> seen")
    case True
    then show ?thesis using "2.IH"(1) [OF refl True] "2.prems" by (simp add: Let_def)
  next
    case False
    then have n: "n \<noteq> 1" using "2.prems" by (auto simp: Let_def)
    have "length (take_new (n - 1) (insert ?sig seen) rest) < n - 1"
      using "2.prems" False n by (simp add: Let_def)
    from "2.IH"(2) [OF refl False n this] show ?thesis using False n by (auto simp: Let_def)
  qed
qed simp

lemma take_new_prefix:
  "length xs \<le> n \<Longrightarrow> (item_signature \<circ> snd) ` set xs \<subseteq> seen \<union> (item_signature \<circ> snd) ` set (take_new n seen (xs @ ys))"
proof (induction xs arbitrary: n seen)
  case (Cons hi rest)
  let ?sig = "item_signature (snd hi)"
  show ?case
  proof (cases "?sig \<in> seen")
    case True
    then show ?thesis using Cons.IH [of n seen] Cons.prems by (simp add: Let_def)
  next
    case False
    show ?thesis
    proof (cases "n = 1")
      case True
      then have "rest = []" using Cons.prems by simp
      then show ?thesis using True False by (simp add: Let_def)
    next
      case n: False
      then show ?thesis using Cons.IH [of "n - 1" "insert ?sig seen"] Cons.prems False by (auto simp: Let_def)
    qed
  qed
qed simp

lemma fold_max_ge: "(x :: nat) \<in> set xs \<Longrightarrow> x \<le> fold max xs m" "m \<le> fold max xs m"
proof -
  show m: "m \<le> fold max xs m" for m :: nat and xs 
  proof (induction xs arbitrary: m)
    case (Cons a xs)
    have "m \<le> max a m" by simp
    also have "\<dots> \<le> fold max xs (max a m)" by (rule Cons.IH)
    finally show ?case by simp
  qed simp
  show "x \<in> set xs \<Longrightarrow> x \<le> fold max xs m"
  proof (induction xs arbitrary: m)
    case (Cons y ys)
    then show ?case using m [of "max y m" ys] by auto
  qed simp
qed

lemma set_round_robin: "set (round_robin docs) = (\<Union>d \<in> set docs. set d)"
proof
  show "set (round_robin docs) \<subseteq> (\<Union>d \<in> set docs. set d)" by (auto simp: round_robin_def)
  show "(\<Union>d \<in> set docs. set d) \<subseteq> set (round_robin docs)"
  proof
    fix x assume "x \<in> (\<Union>d \<in> set docs. set d)"
    then obtain d i where d: "d \<in> set docs" "i < length d" "x = d ! i" by (auto simp: in_set_conv_nth)
    have "length d \<le> fold max (map length docs) 0" using d by (intro fold_max_ge) simp
    then show "x \<in> set (round_robin docs)" using d by (fastforce simp: round_robin_def)
  qed
qed

text \<open>The first round is the first item of every non-empty document.\<close>

lemma round_robin_first: "\<exists>ys. round_robin docs = map hd (filter (\<lambda>d. d \<noteq> []) docs) @ ys"
proof (cases "fold max (map length docs) 0")
  case 0
  then have "length d \<le> 0" if "d \<in> set docs" for d using fold_max_ge(1) [of "length d" "map length docs" 0] that by simp
  then have "filter (\<lambda>d. d \<noteq> []) docs = []" by (simp add: filter_empty_conv)
  then show ?thesis using 0 by (simp add: round_robin_def)
next
  case (Suc m)
  have "map (\<lambda>items. items ! 0) (filter (\<lambda>items. 0 < length items) docs) = map hd (filter (\<lambda>d. d \<noteq> []) docs)"
    by (rule map_cong) (auto simp: hd_conv_nth)
  then show ?thesis unfolding round_robin_def Suc by (simp add: upt_conv_Cons del: upt_Suc)
qed

lemma put_item_props:
  "mset (headed_items (put_item hi s)) = add_mset hi (mset (headed_items s))"
  "set (map gx_heading (put_item hi s)) = insert (fst hi) (set (map gx_heading s))"
  "distinct (map gx_heading s) \<Longrightarrow> distinct (map gx_heading (put_item hi s))"
  "list_all (\<lambda>x. gx_items x \<noteq> []) s \<Longrightarrow> list_all (\<lambda>x. gx_items x \<noteq> []) (put_item hi s)"
  by (induction hi s rule: put_item.induct) (auto simp: headed_items_def)

lemma fold_put_item:
  "mset (headed_items (fold put_item xs s)) = mset xs + mset (headed_items s) \<and>
   (distinct (map gx_heading s) \<longrightarrow> distinct (map gx_heading (fold put_item xs s))) \<and>
   (list_all (\<lambda>x. gx_items x \<noteq> []) s \<longrightarrow> list_all (\<lambda>x. gx_items x \<noteq> []) (fold put_item xs s))"
  by (induction xs arbitrary: s) (simp_all add: put_item_props)

lemma headed_items_snd: "map snd (headed_items s) = summary_grounded_items s"
  by (simp add: headed_items_def summary_grounded_items_def map_concat comp_def)

text \<open>
  The synthesis of the document summaries is a bounded, fair reduction.  The report has at most a hundred items,
  no two with the same text and anchors, one section for every heading and no empty one; every item stands in some
  document summary under that heading; below the cap no statement is lost; and with at most a hundred documents the
  first statement of every document is in the report.
\<close>

theorem synthesis_is_bounded_and_fair:
  assumes "synthesize summaries = Inr s"
  shows "length (summary_grounded_items s) \<le> 100 \<and> distinct (map item_signature (summary_grounded_items s)) \<and>
    distinct (map gx_heading s) \<and> list_all (\<lambda>x. gx_items x \<noteq> []) s \<and>
    set (headed_items s) \<subseteq> (\<Union>d \<in> set summaries. set (headed_items d)) \<and>
    (length (summary_grounded_items s) < 100 \<longrightarrow>
       item_signature ` (\<Union>d \<in> set summaries. set (summary_grounded_items d)) = item_signature ` set (summary_grounded_items s)) \<and>
    (length summaries \<le> 100 \<longrightarrow> (\<forall>d \<in> set summaries. \<forall>i rest. summary_grounded_items d = i # rest \<longrightarrow>
       item_signature i \<in> item_signature ` set (summary_grounded_items s)))"
proof -
  let ?docs = "map headed_items summaries" let ?all = "round_robin ?docs" let ?sel = "take_new 100 {} ?all"
  have s: "s = fold put_item ?sel []" using assms by (simp add: synthesize_def Let_def)
  note P = fold_put_item [of ?sel "[]", folded s]
  have m: "mset (headed_items s) = mset ?sel" using P by (simp add: headed_items_def)
  then have set: "set (headed_items s) = set ?sel" by (metis set_mset_mset)
  note T = take_new_props [of 100 "{}" ?all, simplified]
  have sig: "mset (map item_signature (summary_grounded_items s)) = mset (map (item_signature \<circ> snd) ?sel)"
    unfolding headed_items_snd [symmetric] map_map by (simp add: m)
  have d: "distinct (map item_signature (summary_grounded_items s))" using T mset_eq_imp_distinct_iff [OF sig] by blast
  have len: "length (summary_grounded_items s) = length ?sel" using mset_eq_length [OF m] headed_items_snd [of s]
    by (metis length_map)
  have img: "item_signature ` set (summary_grounded_items s) = (item_signature \<circ> snd) ` set ?sel"
    using arg_cong [OF sig, of set_mset] by simp
  have all: "(item_signature \<circ> snd) ` set ?all = item_signature ` (\<Union>d \<in> set summaries. set (summary_grounded_items d))"
    unfolding set_round_robin headed_items_snd [symmetric] by (simp add: image_UN image_comp)
  have full: "item_signature ` (\<Union>d \<in> set summaries. set (summary_grounded_items d)) = item_signature ` set (summary_grounded_items s)"
    if "length (summary_grounded_items s) < 100"
    using take_new_complete [of 100 "{}" ?all] that T unfolding len img all [symmetric] by auto
  have fair: "item_signature i \<in> item_signature ` set (summary_grounded_items s)"
    if l: "length summaries \<le> 100" and i: "x \<in> set summaries" "summary_grounded_items x = i # rest" for x i rest
  proof -
    obtain ys where ys: "?all = map hd (filter (\<lambda>d. d \<noteq> []) ?docs) @ ys" using round_robin_first by blast
    have "length (filter (\<lambda>d. d \<noteq> []) ?docs) \<le> 100" using l by (metis length_filter_le length_map order_trans)
    then have sub: "(item_signature \<circ> snd) ` set (map hd (filter (\<lambda>d. d \<noteq> []) ?docs)) \<subseteq> (item_signature \<circ> snd) ` set ?sel"
      using take_new_prefix [of "map hd (filter (\<lambda>d. d \<noteq> []) ?docs)" 100 "{}" ys] ys by simp
    from i(2) obtain h t where h: "headed_items x = (h, i) # t"
      using headed_items_snd [of x] by (cases "headed_items x") auto
    then have "hd (headed_items x) \<in> set (map hd (filter (\<lambda>d. d \<noteq> []) ?docs))" using i(1) by force
    then have "(item_signature \<circ> snd) (hd (headed_items x)) \<in> (item_signature \<circ> snd) ` set ?sel"
      by (rule subsetD [OF sub imageI])
    then show ?thesis unfolding img h list.sel comp_apply snd_conv .
  qed
  have "set (headed_items s) \<subseteq> (\<Union>d \<in> set summaries. set (headed_items d))"
    unfolding set using T set_round_robin [of ?docs] by auto
  moreover have "length (summary_grounded_items s) \<le> 100" unfolding len using T by blast
  moreover have "distinct (map gx_heading s)" "list_all (\<lambda>x. gx_items x \<noteq> []) s" using P by simp_all
  ultimately show ?thesis using d
    by (intro conjI impI ballI allI) (assumption | rule full, assumption | rule fair, assumption+)+
qed

theorem synthesis_is_bounded_and_fair_witness:
  "\<exists>s. synthesize [sample_grounded, sample_grounded] = Inr s \<and> length (summary_grounded_items s) \<le> 100 \<and>
     distinct (map item_signature (summary_grounded_items s))"
proof -
  have "synthesize [sample_grounded, sample_grounded] = Inr sample_grounded"
    by (simp add: synthesize_def round_robin_def headed_items_def sample_grounded_def item_signature_def Let_def upt_rec del: u_simps)
  then show ?thesis using synthesis_is_bounded_and_fair by blast
qed

section \<open>From a grounded summary to a completion\<close>

definition item_draws :: "grounded_item list \<Rightarrow> nat" where
  "item_draws items = sum_list (map (\<lambda>i. Suc (length (gi_supports i))) items)"

definition item_pairs :: "segment_write \<Rightarrow> grounded_item \<Rightarrow> (uuid \<times> uuid) list" where
  "item_pairs g i = map (\<lambda>s. (sw_id g, gs_anchor s)) (gi_supports i)"

definition citation_pair :: "citation_write \<Rightarrow> uuid \<times> uuid" where
  "citation_pair c = (cw_segment c, cw_target c)"

definition writes_of_items :: "(nat \<Rightarrow> uuid) \<Rightarrow> writes \<Rightarrow> grounded_item list \<Rightarrow> segment_write list \<Rightarrow> citation_write list \<Rightarrow> bool" where
  "writes_of_items draw w items segs cits \<longleftrightarrow>
     map sw_text segs = map gi_text items \<and> map sw_ordinal segs = map int [wr_ordinal w..<wr_ordinal w + length items] \<and>
     mset (map sw_id segs @ map cw_id cits) = mset (map draw [wr_drawn w..<wr_drawn w + item_draws items]) \<and>
     list_all (\<lambda>c. \<not> is_web_citation c) cits \<and> map citation_pair cits = concat (map2 item_pairs segs items)"

lemma cite_all_props:
  "map cw_id (cite_all CitationWrite draw k g ts) = map draw [k..<k + length ts]"
  "map citation_pair (cite_all CitationWrite draw k g ts) = map (Pair g) ts"
  "list_all (\<lambda>c. \<not> is_web_citation c) (cite_all CitationWrite draw k g ts)"
  by (induction ts arbitrary: k) (simp_all add: cite_all_def citation_pair_def is_web_citation_def upt_rec)

lemma upt_segment: "[k..<k + (Suc n + t)] = k # [Suc k..<Suc k + n] @ [Suc k + n..<Suc k + n + t]"
proof -
  have "[k..<k + (Suc n + t)] = k # [Suc k..<k + (Suc n + t)]" by (rule upt_conv_Cons) simp
  also have "[Suc k..<k + (Suc n + t)] = [Suc k..<Suc k + n] @ [Suc k + n..<Suc k + n + t]"
    using upt_add_eq_append [of "Suc k" "Suc k + n" t] by (simp del: upt_Suc add: add.assoc)
  finally show ?thesis .
qed

lemma item_draws_Cons: "item_draws (i # items) = Suc (length (gi_supports i)) + item_draws items"
  by (simp add: item_draws_def)

lemma add_items_Inr:
  assumes "list_all (\<lambda>i. \<not> is_blank (gi_text i)) items"
  shows "\<exists>segs cits. writes_of_items draw w items segs cits \<and>
    fold_result (add_item_writes draw) items w = Inr (w\<lparr>wr_segments := wr_segments w @ segs,
      wr_citations := wr_citations w @ cits, wr_ordinal := wr_ordinal w + length items, wr_drawn := wr_drawn w + item_draws items\<rparr>)"
  using assms
proof (induction items arbitrary: w)
  case Nil
  show ?case by (intro exI [of _ "[]"]) (simp add: writes_of_items_def item_draws_def)
next
  case (Cons i items)
  let ?k = "wr_drawn w" let ?n = "length (gi_supports i)"
  let ?s = "\<lparr>sw_id = draw ?k, sw_ordinal = int (wr_ordinal w), sw_text = gi_text i\<rparr>"
  let ?c = "cite_all CitationWrite draw (Suc ?k) (draw ?k) (map gs_anchor (gi_supports i))"
  let ?w = "w\<lparr>wr_segments := wr_segments w @ [?s], wr_citations := wr_citations w @ ?c, wr_ordinal := Suc (wr_ordinal w),
    wr_drawn := Suc ?k + ?n\<rparr>"
  have step: "add_item_writes draw i w = Inr ?w"
    using Cons.prems by (simp add: add_item_writes_def make_segment_write_def Let_def)
  obtain segs cits where IH: "writes_of_items draw ?w items segs cits" "fold_result (add_item_writes draw) items ?w =
      Inr (?w\<lparr>wr_segments := wr_segments ?w @ segs, wr_citations := wr_citations ?w @ cits,
        wr_ordinal := wr_ordinal ?w + length items, wr_drawn := wr_drawn ?w + item_draws items\<rparr>)"
    using Cons.IH [of ?w] Cons.prems by auto
  have pairs: "map citation_pair ?c = item_pairs ?s i" by (simp add: cite_all_props item_pairs_def)
  have upt: "[?k..<?k + item_draws (i # items)] = ?k # [Suc ?k..<Suc ?k + ?n] @ [Suc ?k + ?n..<Suc ?k + ?n + item_draws items]"
    unfolding item_draws_Cons by (rule upt_segment)
  have ids: "mset (map sw_id (?s # segs) @ map cw_id (?c @ cits)) = mset (map draw [?k..<?k + item_draws (i # items)])"
    unfolding upt using IH(1) by (simp add: writes_of_items_def cite_all_props)
  have ords: "map int [wr_ordinal w..<wr_ordinal w + length (i # items)] =
      int (wr_ordinal w) # map int [Suc (wr_ordinal w)..<Suc (wr_ordinal w) + length items]"
    by (simp add: upt_conv_Cons del: upt_Suc)
  have "writes_of_items draw w (i # items) (?s # segs) (?c @ cits)"
    using IH(1) ids ords pairs unfolding writes_of_items_def by (simp add: cite_all_props)
  moreover have "fold_result (add_item_writes draw) (i # items) w =
      Inr (w\<lparr>wr_segments := wr_segments w @ ?s # segs, wr_citations := wr_citations w @ ?c @ cits,
        wr_ordinal := wr_ordinal w + length (i # items), wr_drawn := ?k + item_draws (i # items)\<rparr>)"
    using step IH(2) by (simp add: item_draws_def add.assoc)
  ultimately show ?case by blast
qed

lemma item_pairs_props:
  assumes "length segs = length items"
  shows "list_all (\<lambda>i. gi_supports i \<noteq> []) items \<Longrightarrow> fst ` set (concat (map2 item_pairs segs items)) = sw_id ` set segs"
    and "fst ` set (concat (map2 item_pairs segs items)) \<subseteq> sw_id ` set segs"
    and "distinct (map sw_id segs) \<Longrightarrow> distinct (concat (map2 item_pairs segs items)) \<longleftrightarrow>
      list_all (\<lambda>i. distinct (map gs_anchor (gi_supports i))) items"
  using assms
proof (induction segs items rule: list_induct2)
  case (Cons g segs i items)
  case 1
  then have "fst ` set (item_pairs g i) = {sw_id g}" by (cases "gi_supports i") (auto simp: item_pairs_def)
  then show ?case using 1 Cons.IH(1) by (simp add: image_Un)
next
  case (Cons g segs i items)
  case 2
  have a: "fst ` set (item_pairs g i) \<subseteq> {sw_id g}" by (auto simp: item_pairs_def)
  have c: "fst ` set (concat (map2 item_pairs (g # segs) (i # items))) =
      fst ` set (item_pairs g i) \<union> fst ` set (concat (map2 item_pairs segs items))" by (simp add: image_Un)
  have "sw_id ` set (g # segs) = {sw_id g} \<union> sw_id ` set segs" by simp
  then show ?case unfolding c using Un_mono [OF a Cons.IH(2)] by (simp only:)
next
  case (Cons g segs i items)
  case 3
  have "distinct (item_pairs g i) \<longleftrightarrow> distinct (map gs_anchor (gi_supports i))"
    by (simp add: item_pairs_def distinct_map inj_on_def)
  moreover have "set (item_pairs g i) \<inter> set (concat (map2 item_pairs segs items)) = {}"
  proof -
    have "fst x = sw_id g" if "x \<in> set (item_pairs g i)" for x using that by (auto simp: item_pairs_def)
    moreover have "fst x \<in> sw_id ` set segs" if "x \<in> set (concat (map2 item_pairs segs items))" for x
      using Cons.IH(2) imageI [OF that, of fst] by blast
    ultimately show ?thesis using 3 by fastforce
  qed
  ultimately show ?case using 3 Cons.IH(3) by simp
qed simp_all

lemma grounded_content_isolated: "assert_summary_isolated (structured_content s) = Inr ()"
proof -
  have k: "deep_keys (JObj (structured_content s)) \<subseteq> {u ''sections'', u ''heading'', u ''items'', u ''text'',
      u ''source_anchor_ids'', u ''supports'', u ''source_anchor_id'', u ''exact_quote'', u ''start'', u ''end''}"
    by (auto simp: structured_content_def section_json_def item_object_def support_json_def simp del: u_simps)
  moreover have "{u ''sections'', u ''heading'', u ''items'', u ''text'', u ''source_anchor_ids'', u ''supports'',
      u ''source_anchor_id'', u ''exact_quote'', u ''start'', u ''end''} \<inter> set summary_forbidden_keys = {}"
    by (simp add: summary_forbidden_keys_def u_inject del: u_simps)
  ultimately have "deep_keys (JObj (structured_content s)) \<inter> set summary_forbidden_keys = {}" by blast
  then show ?thesis unfolding assert_summary_isolated_def walk_ok(1) .
qed

definition publishable :: "grounded_item \<Rightarrow> bool" where
  "publishable i \<longleftrightarrow> distinct (map gs_anchor (gi_supports i))"

definition names_given :: "ustr \<Rightarrow> generation_provider \<Rightarrow> bool" where
  "names_given pipeline p \<longleftrightarrow>
     \<not> is_blank pipeline \<and> \<not> is_blank (pv_provider p) \<and> \<not> is_blank (pv_model p) \<and> \<not> is_blank (pv_prompt p)"

lemma distinct_map_card: "card (f ` set xs) = length xs \<longleftrightarrow> distinct (map f xs)"
  using card_distinct [of "map f xs"] distinct_card [of "map f xs"] by auto

lemma writes_pass_checks:
  assumes w: "writes_of_items draw no_writes items segs cits" and inj: "inj_on draw {..<item_draws items}"
    and items: "items \<noteq> []" "list_all (\<lambda>i. gi_supports i \<noteq> []) items"
    and n: "names_given pipeline p" and b: "content_bytes (structured_content s) = Inr bytes"
  shows "check_completion_write \<lparr>gc_snapshot = sn, gc_kind = u ''summary'', gc_pipeline = pipeline, gc_document = doc,
      gc_content = structured_content s, gc_segments = segs, gc_citations = cits, gc_evidence = [], gc_claims = [],
      gc_provider = pv_provider p, gc_model = pv_model p, gc_prompt = pv_prompt p\<rparr> =
    (if list_all publishable items then Inr ()
     else Inl (ValueError (u ''summary citations must not duplicate a segment/anchor pair'')))"
proof -
  have texts: "map sw_text segs = map gi_text items" using w by (simp add: writes_of_items_def)
  have len: "length segs = length items" using arg_cong [OF texts, of length] by simp
  have pairs: "map citation_pair cits = concat (map2 item_pairs segs items)" using w by (simp add: writes_of_items_def)
  have "distinct (map draw [0..<item_draws items])" using inj by (simp add: distinct_map lessThan_atLeast0)
  moreover have "mset (map sw_id segs @ map cw_id cits) = mset (map draw [0..<item_draws items])"
    using w by (simp add: writes_of_items_def no_writes_def)
  ultimately have "distinct (map sw_id segs @ map cw_id cits)" using mset_eq_imp_distinct_iff by blast
  then have d: "distinct (map sw_id segs)" "distinct (map cw_id cits)" by simp_all
  note I = item_pairs_props [OF len]
  have seg: "cw_segment ` set cits = sw_id ` set segs"
  proof -
    have "cw_segment ` set cits = fst ` set (map citation_pair cits)" by (simp add: citation_pair_def image_image)
    also have "\<dots> = sw_id ` set segs" unfolding pairs using items(2) by (rule I(1))
    finally show ?thesis .
  qed
  have ord: "set (map sw_ordinal segs) = set (map int [0..<length segs])"
    using w by (simp add: writes_of_items_def no_writes_def len)
  have web: "filter is_web_citation cits = []" "filter (\<lambda>x. \<not> is_web_citation x) cits = cits"
    using w by (simp_all add: writes_of_items_def list_all_iff filter_empty_conv filter_id_conv)
  have ne: "segs \<noteq> []" "cits \<noteq> []"
  proof -
    show s: "segs \<noteq> []" using len items(1) by auto
    then show "cits \<noteq> []" using seg by auto
  qed
  have in_seg: "list_all (\<lambda>x. cw_segment x \<in> sw_id ` set segs) cits" using seg by (auto simp: list_all_iff)
  have card: "card ((\<lambda>x. (cw_segment x, cw_target x)) ` set cits) = length cits \<longleftrightarrow> list_all publishable items"
    using distinct_map_card [of citation_pair cits] I(3) [OF d(1)] pairs unfolding citation_pair_def publishable_def by simp
  show ?thesis
    using n b d ord web ne seg in_seg card
    by (simp add: check_completion_write_def check_summary_completion_def names_given_def grounded_content_isolated Let_def u_inject
        require_def del: u_simps set_map)
qed

text \<open>
  Exactly the grounded summaries that cite every anchor at most once per item become completions.  For a summary
  with texts and supports, serialisable content, named provider and fresh identifiers: if every item's supports
  name different anchors, the completion exists, carries the item texts in order as segments numbered from zero and
  one citation per support, and passes every check of the repository; otherwise its construction raises a plain
  \<open>ValueError\<close>, although grounding accepts several quotes of one anchor.
\<close>

theorem summary_completion_outcome:
  assumes "summary_grounded_items s \<noteq> []" "list_all (\<lambda>i. \<not> is_blank (gi_text i) \<and> gi_supports i \<noteq> []) (summary_grounded_items s)"
    and "names_given pipeline p" "encodable_json (JObj (structured_content s))"
    and "inj_on draw {..<item_draws (summary_grounded_items s)}"
  shows "if list_all publishable (summary_grounded_items s)
    then \<exists>c. summary_completion draw sn pipeline s p = Inr c \<and> check_completion_write c = Inr () \<and> gc_snapshot c = sn \<and>
      map sw_text (gc_segments c) = accepted_texts s \<and> map sw_ordinal (gc_segments c) = map int [0..<length (accepted_texts s)] \<and>
      map citation_pair (gc_citations c) = concat (map2 item_pairs (gc_segments c) (summary_grounded_items s))
    else summary_completion draw sn pipeline s p =
      Inl (ValueError (u ''summary citations must not duplicate a segment/anchor pair''))"
proof -
  let ?items = "summary_grounded_items s"
  obtain bytes where b: "content_bytes (structured_content s) = Inr bytes"
    using encodable_bytes [OF assms(4)] by (auto simp: content_bytes_def)
  have t: "list_all (\<lambda>i. \<not> is_blank (gi_text i)) ?items" "list_all (\<lambda>i. gi_supports i \<noteq> []) ?items"
    using assms(2) by (simp_all add: list_all_iff)
  from add_items_Inr [OF t(1), of draw no_writes] obtain segs cits where w: "writes_of_items draw no_writes ?items segs cits"
    and f: "fold_result (add_item_writes draw) ?items no_writes = Inr (no_writes\<lparr>wr_segments := wr_segments no_writes @ segs,
      wr_citations := wr_citations no_writes @ cits, wr_ordinal := wr_ordinal no_writes + length ?items,
      wr_drawn := wr_drawn no_writes + item_draws ?items\<rparr>)" by blast
  let ?c = "\<lparr>gc_snapshot = sn, gc_kind = u ''summary'', gc_pipeline = pipeline, gc_document = draw (item_draws ?items),
    gc_content = structured_content s, gc_segments = segs, gc_citations = cits, gc_evidence = [], gc_claims = [],
    gc_provider = pv_provider p, gc_model = pv_model p, gc_prompt = pv_prompt p\<rparr>"
  have c: "summary_completion draw sn pipeline s p = and_then (check_completion_write ?c) (\<lambda>_. Inr ?c)"
    unfolding summary_completion_def f make_completion_def by (simp add: no_writes_def del: u_simps)
  note chk = writes_pass_checks [OF w assms(5,1) t(2) assms(3) b, of sn "draw (item_draws ?items)"]
  have texts: "accepted_texts s = map gi_text ?items"
    by (simp add: accepted_texts_def summary_grounded_items_def map_concat comp_def)
  show ?thesis
  proof (cases "list_all publishable ?items")
    case True
    then have ok: "check_completion_write ?c = Inr ()" using chk by simp
    then have "summary_completion draw sn pipeline s p = Inr ?c" unfolding c by simp
    moreover have "map sw_text segs = accepted_texts s" "map sw_ordinal segs = map int [0..<length (accepted_texts s)]"
      "map citation_pair cits = concat (map2 item_pairs segs ?items)"
      using w unfolding texts by (simp_all add: writes_of_items_def no_writes_def)
    ultimately show ?thesis using ok unfolding if_P [OF True]
      by (intro exI [of _ ?c] conjI) (simp_all del: u_simps map_map)
  qed (use c chk in simp)
qed

definition sample_provider :: generation_provider where
  "sample_provider = \<lparr>pv_provider = u ''mock'', pv_model = u ''m'', pv_prompt = u ''v1'', pv_summary = \<lambda>_ _ _. Inr sample_grounded,
     pv_research = \<lambda>_ _. Inl (GenerationProviderFailure (u ''unavailable'') True)\<rparr>"

lemma sample_encodable: "encodable_json (JObj (structured_content sample_grounded))"
  by (simp add: structured_content_def section_json_def item_object_def support_json_def sample_grounded_def del: u_simps)

lemma sample_items: "summary_grounded_items sample_grounded =
  [\<lparr>gi_text = u ''go'', gi_anchors = [90], gi_supports = [\<lparr>gs_anchor = 90, gs_quote = u ''ship'', gs_start = 0, gs_end = 4\<rparr>,
     \<lparr>gs_anchor = 90, gs_quote = u ''it'', gs_start = 5, gs_end = 7\<rparr>]\<rparr>]"
  by (simp add: sample_grounded_def summary_grounded_items_def del: u_simps)

lemma sample_names: "names_given (u ''p1'') sample_provider"
  by (simp add: names_given_def sample_provider_def is_blank_iff py_isspace_def)

theorem summary_completion_outcome_witness:
  "summary_completion word_of_nat 50 (u ''p1'') sample_grounded sample_provider =
     Inl (ValueError (u ''summary citations must not duplicate a segment/anchor pair''))"
proof -
  have t: "summary_grounded_items sample_grounded \<noteq> []"
    "list_all (\<lambda>i. \<not> is_blank (gi_text i) \<and> gi_supports i \<noteq> []) (summary_grounded_items sample_grounded)"
    "\<not> list_all publishable (summary_grounded_items sample_grounded)"
    by (simp_all add: sample_items publishable_def is_blank_iff py_isspace_def)
  have "item_draws (summary_grounded_items sample_grounded) = 3" by (simp add: sample_items item_draws_def del: u_simps)
  then have "inj_on (word_of_nat :: nat \<Rightarrow> uuid) {..<item_draws (summary_grounded_items sample_grounded)}"
    by (auto simp: inj_on_def word_of_nat_eq_iff take_bit_nat_eq_self)
  from summary_completion_outcome [OF t(1,2) sample_names sample_encodable this, of 50] t(3) show ?thesis by simp
qed

section \<open>The type of an execution\<close>

lemma make_execution_Inr: "make_execution x = Inr e \<longleftrightarrow> e = x \<and> check_execution x = Inr ()"
  by (auto simp: make_execution_def and_then_Inr)

lemma make_completion_Inr: "make_completion x = Inr c \<longleftrightarrow> c = x \<and> check_completion_write x = Inr ()"
  by (auto simp: make_completion_def and_then_Inr)

lemma generate_completion_Inr:
  assumes "generate_completion r draw attempt sn kind pipeline sources = Inr c" "kind \<in> generation_kinds"
  shows "check_completion_write c = Inr () \<and> gc_snapshot c = sn \<and> gc_kind c = kind \<and> gc_pipeline c = pipeline"
  using assms
  by (auto simp: generate_completion_def summary_completion_def research_completion_def make_completion_Inr and_then_Inr
      generation_kinds_def Let_def u_inject simp del: u_simps split: if_splits)

lemma failed_execution_Inr:
  "failed_execution sn kind pipeline code retryable = Inr e \<Longrightarrow>
     check_execution e = Inr () \<and> ge_snapshot e = sn \<and> ge_kind e = kind \<and> ge_pipeline e = pipeline \<and>
     ge_target e = (if retryable then J_FAILED_RETRYABLE else J_FAILED_TERMINAL) \<and> ge_error e = Some code \<and>
     ge_retryable e = retryable \<and> ge_completion e = None"
  by (auto simp: failed_execution_def make_execution_Inr Let_def simp del: u_simps)

lemma succeeded_execution_Inr:
  "succeeded_execution sha256 sn kind pipeline retrieval c = Inr e \<Longrightarrow>
     check_execution e = Inr () \<and> ge_snapshot e = sn \<and> ge_kind e = kind \<and> ge_pipeline e = pipeline \<and>
     ge_target e = J_SUCCEEDED \<and> ge_error e = None \<and> \<not> ge_retryable e \<and> ge_completion e = Some c"
  by (auto simp: succeeded_execution_def make_execution_Inr and_then_Inr simp del: u_simps)

lemma claimed_identity_kind: "claimed_identity c = Inr (sn, kind, pipeline) \<Longrightarrow> kind \<in> generation_kinds \<and> kind = cl_kind c"
  by (auto simp: claimed_identity_def simp del: u_simps split: option.splits)

definition execution_outcome_ok :: "execution \<Rightarrow> bool" where
  "execution_outcome_ok e \<longleftrightarrow>
     (case ge_completion e of
        Some c \<Rightarrow> ge_target e = J_SUCCEEDED \<and> ge_error e = None \<and> \<not> ge_retryable e \<and> check_completion_write c = Inr () \<and>
          gc_snapshot c = ge_snapshot e \<and> gc_kind c = ge_kind e \<and> gc_pipeline c = ge_pipeline e
      | None \<Rightarrow> ge_error e \<noteq> None \<and> ge_target e = (if ge_retryable e then J_FAILED_RETRYABLE else J_FAILED_TERMINAL))"

text \<open>
  C15: the type of an execution.  Whatever the provider returns, an execution that leaves the runner carries the
  snapshot, kind and pipeline of the claimed job; it either succeeds with exactly one completion for that run that has
  passed the repository's checks, no error code and no retry, or it fails with an error code, no completion, and is
  retryable exactly when its target state says so.
\<close>

theorem executions_are_well_typed:
  assumes "execute r draw c db = Inr e"
  shows "claimed_identity c = Inr (ge_snapshot e, ge_kind e, ge_pipeline e) \<and> check_execution e = Inr () \<and> execution_outcome_ok e"
proof -
  from assms obtain sn kind pipeline topic sources where i: "claimed_identity c = Inr (sn, kind, pipeline)"
    "snapshot_context db sn = Inr (topic, sources)" by (auto simp: execute_def and_then_Inr)
  note k = claimed_identity_kind [OF i(1)]
  show ?thesis
  proof (cases "retrieve_generation_anchors (rn_sha256 r) (rn_nfc r) (rn_topic_words r) (rn_score r)
      (retrieval_query topic kind) sources (rn_max_anchors r)")
    case (Inl err)
    then have "failed_execution sn kind pipeline (u ''retrieval_context_invalid'') False = Inr e"
      using assms i by (simp add: execute_def del: u_simps split: if_splits)
    from failed_execution_Inr [OF this] show ?thesis using i(1) by (simp add: execution_outcome_ok_def)
  next
    case (Inr retrieval)
    show ?thesis
    proof (cases "generate_completion r draw (cl_generation c) sn kind pipeline (rp_anchors retrieval)")
      case (Inr x)
      then have "succeeded_execution (rn_sha256 r) sn kind pipeline retrieval x = Inr e"
        using assms i \<open>retrieve_generation_anchors _ _ _ _ _ _ _ = _\<close> by (simp add: execute_def del: u_simps)
      from succeeded_execution_Inr [OF this] generate_completion_Inr [OF Inr conjunct1 [OF k]] k show ?thesis
        using i(1) by (simp add: execution_outcome_ok_def)
    next
      case (Inl err)
      then obtain code retryable where "failed_execution sn kind pipeline code retryable = Inr e"
        using assms i \<open>retrieve_generation_anchors _ _ _ _ _ _ _ = _\<close>
        by (simp add: execute_def del: u_simps split: app_error.splits)
      from failed_execution_Inr [OF this] show ?thesis using i(1) by (simp add: execution_outcome_ok_def)
    qed
  qed
qed

definition sample_processing_db :: app_db where
  "sample_processing_db = sample_published_db\<lparr>
     sessions := [sample_session\<lparr>ts_state := PROCESSING, ts_epoch := 1, ts_version := 2\<rparr>],
     runs := [queued_run 60 50 SUMMARY (u ''p1''), queued_run 61 50 RESEARCH (u ''p1'')],
     jobs := [generation_job sample_draws (u ''p1'') RESEARCH], documents := [], segments := [], citations := []\<rparr>"

definition sample_claim :: claimed_job where
  "sample_claim =
     \<lparr>cl_id = 71, cl_logical_key = generation_logical_key 50 RESEARCH (u ''p1''), cl_kind = u ''research'',
      cl_payload = [(u ''snapshot_id'', JStr (uuid_text 50)), (u ''kind'', JStr (u ''research'')), (u ''pipeline_version'', JStr (u ''p1''))],
      cl_owner = u ''w'', cl_generation = 1, cl_token = 3, cl_attempt_id = 4\<rparr>"

definition sample_runner :: runner where
  "sample_runner = \<lparr>rn_provider = sample_provider, rn_fixture = u ''f'', rn_max_anchors = 64, rn_sha256 = \<lambda>_. replicate 64 48, rn_nfc = id,
     rn_topic_words = \<lambda>_. u ''t'', rn_score = \<lambda>_ _. 0, rn_duplicate = \<lambda>_ _. False\<rparr>"

definition sample_failure :: execution where
  "sample_failure = \<lparr>ge_snapshot = 50, ge_kind = u ''research'', ge_pipeline = u ''p1'', ge_target = J_FAILED_RETRYABLE,
     ge_result = [(u ''snapshot_id'', JStr (uuid_text 50)), (u ''kind'', JStr (u ''research'')),
       (u ''status'', JStr (u ''failed_retryable'')), (u ''error_code'', JStr (u ''unavailable''))],
     ge_error = Some (u ''unavailable''), ge_retryable = True, ge_completion = None\<rparr>"

lemma sample_identity: "claimed_identity sample_claim = Inr (50, u ''research'', u ''p1'')"
proof -
  have "get_str (cl_payload sample_claim) (u ''snapshot_id'') = Some (uuid_text 50)"
    "get_str (cl_payload sample_claim) (u ''kind'') = Some (u ''research'')"
    "get_str (cl_payload sample_claim) (u ''pipeline_version'') = Some (u ''p1'')" "cl_kind sample_claim = u ''research''"
    by (simp_all add: sample_claim_def get_str_def get_key_def u_inject del: u_simps)
  moreover have "\<not> is_blank (u ''p1'')" by (simp add: is_blank_iff py_isspace_def)
  ultimately show ?thesis by (simp add: claimed_identity_def parse_uuid_text generation_kinds_def del: u_simps)
qed

definition sample_source :: runtime_anchor where
  "sample_source = \<lparr>sa_id = 90, sa_revision = 30, sa_quote = u ''x'', sa_class = u ''factual_claim'', sa_block = u ''p'', sa_confidence = None\<rparr>"

lemma sample_context: "snapshot_context sample_processing_db 50 = Inr (u ''t'', [sample_source])"
proof -
  have b: "\<not> is_blank (u ''t'')" "\<not> is_blank (u ''x'')" "\<not> is_blank (u ''p'')" "\<not> is_blank (u ''factual_claim'')"
    by (simp_all add: is_blank_iff py_isspace_def)
  show ?thesis
    by (simp add: snapshot_context_def context_rows_def sample_processing_db_def published_eval runtime_anchor_of_def
        make_runtime_anchor_def nonempty_text_def sample_source_def b del: u_simps)
qed

lemma sample_retrieval:
  "\<exists>p. retrieve_generation_anchors (\<lambda>_. replicate 64 48) id (\<lambda>_. u ''t'') (\<lambda>_ _. 0) q [sample_source] 64 = Inr p"
proof -
  have ok: "anchor_accepted id sample_source"
    by (simp add: sample_source_def anchor_accepted_def assess_source_anchor_def Let_def py_strip_def py_lstrip_def
      py_rstrip_def text_simps is_control_def ocr_block_types_def)
  have utf: "utf8 (u ''t'') = Some (u ''t'')" by (simp add: utf8_char_def)
  have "u ''t'' \<noteq> []" by simp
  with ok utf show ?thesis by (simp add: retrieve_generation_anchors_def Let_def del: u_simps)
qed

lemma sample_execute: "execute sample_runner draw sample_claim sample_processing_db = Inr sample_failure"
proof -
  obtain p where p: "retrieve_generation_anchors (\<lambda>_. replicate 64 48) id (\<lambda>_. u ''t'') (\<lambda>_ _. 0)
      (retrieval_query (u ''t'') (u ''research'')) [sample_source] 64 = Inr p" using sample_retrieval by blast
  have g: "generate_completion sample_runner draw a 50 (u ''research'') (u ''p1'') sources =
      Inl (GenerationProviderFailure (u ''unavailable'') True)" for a sources
    by (simp add: generate_completion_def sample_runner_def sample_provider_def u_inject del: u_simps)
  have b: "\<not> is_blank (u ''p1'')" "py_strip (u ''unavailable'') = u ''unavailable''"
    by (simp_all add: is_blank_iff py_isspace_def py_strip_def py_lstrip_def py_rstrip_def)
  have "failed_execution 50 (u ''research'') (u ''p1'') (u ''unavailable'') True = Inr sample_failure"
    using b by (simp add: failed_execution_def make_execution_def check_execution_def sample_failure_def generation_kinds_def
        u_inject del: u_simps) (simp add: u_def)
  then show ?thesis using p g
    by (simp add: execute_def sample_identity sample_context del: u_simps) (simp add: sample_runner_def del: u_simps)
qed

theorem executions_are_well_typed_witness:
  "claimed_identity sample_claim = Inr (50, u ''research'', u ''p1'') \<and> execution_outcome_ok sample_failure"
  using executions_are_well_typed [OF sample_execute] sample_identity by blast

section \<open>The jobs of a close\<close>

text \<open>
  C16: the job a close creates identifies its run.  Whenever a worker claims the job row that a close inserted for a
  kind, in whatever lease, reading the identity from the payload gives back the snapshot, the kind and the pipeline
  version, so the execution is for exactly that run.
\<close>

theorem close_jobs_identify_their_run:
  assumes "j_logical_key j = j_logical_key (generation_job d pipeline k)" "j_kind j = j_kind (generation_job d pipeline k)"
    and "j_payload j = j_payload (generation_job d pipeline k)" "\<not> is_blank pipeline"
  shows "\<exists>c. claimed_from_row owner token attempt (j, generation) = Inr c \<and> cl_generation c = generation \<and>
    claimed_identity c = Inr (cd_snapshot d, generation_kind_value k, pipeline)"
proof -
  have k: "generation_kind_value k \<in> generation_kinds" "\<not> is_blank (generation_kind_value k)"
    by (cases k; simp add: generation_kinds_def is_blank_iff py_isspace_def)+
  have key: "\<not> is_blank (generation_logical_key (cd_snapshot d) k pipeline)"
    by (simp add: generation_logical_key_def is_blank_iff py_isspace_def)
  let ?p = "[(u ''snapshot_id'', JStr (uuid_text (cd_snapshot d))), (u ''kind'', JStr (generation_kind_value k)),
    (u ''pipeline_version'', JStr pipeline)]"
  have get: "get_str ?p (u ''snapshot_id'') = Some (uuid_text (cd_snapshot d))" "get_str ?p (u ''kind'') = Some (generation_kind_value k)"
    "get_str ?p (u ''pipeline_version'') = Some pipeline"
    by (simp_all add: get_str_def get_key_def u_inject del: u_simps)
  have "claimed_from_row owner token attempt (j, generation) = Inr
      \<lparr>cl_id = j_id j, cl_logical_key = j_logical_key j, cl_kind = generation_kind_value k, cl_payload = ?p, cl_owner = owner,
       cl_generation = generation, cl_token = token, cl_attempt_id = attempt\<rparr>"
    using assms k key by (simp add: claimed_from_row_def as_nonempty_string_def generation_job_def new_job_row_def
        generation_payload_def del: u_simps)
  then show ?thesis using get k assms(4) by (simp add: claimed_identity_def parse_uuid_text del: u_simps)
qed

theorem close_jobs_identify_their_run_witness:
  "\<exists>c. claimed_from_row (u ''w'') 3 4 (generation_job sample_draws (u ''p1'') SUMMARY, 1) = Inr c \<and> cl_generation c = 1 \<and>
     claimed_identity c = Inr (cd_snapshot sample_draws, generation_kind_value SUMMARY, u ''p1'')"
  by (rule close_jobs_identify_their_run) (simp_all add: is_blank_iff py_isspace_def)

end
