(* ===== verification/Worker_Properties.thy ===== *)
theory Worker_Properties
  imports Generation_Worker Runner_Properties Queue_Fencing
begin

text \<open>
  The worker as a client of the fenced queue: a superseded poll changes nothing, the automatic attempts of a
  research job are bounded, and one accepted summary that the queue can never finish.
\<close>

section \<open>The effect of an execution\<close>

lemma fenced_effect_domain: "domain_effect (fenced_effect sha256 d e)"
  unfolding domain_effect_def
proof (intro allI impI)
  fix db db' assume "fenced_effect sha256 d e db = Inr db'"
  then obtain res where p: "persist_execution sha256 d e db = Inr (res, db')" by (auto simp: fenced_effect_def and_then_Inr)
  show "adds_jobs db db'"
  proof (cases "ge_completion e")
    case None
    then obtain code where "persist_failure d (ge_snapshot e) (ge_kind e) (ge_pipeline e) code (ge_retryable e) db = Inr (res, db')"
      using p by (auto simp: persist_execution_def split: option.splits)
    then show ?thesis by (rule persist_failure_adds)
  next
    case (Some c)
    then have "persist_success sha256 d c db = Inr (res, db')" using p by (simp add: persist_execution_def)
    then show ?thesis by (rule persist_success_adds)
  qed
qed

text \<open>A completion of the worker, as a call of the queue's interface.\<close>

definition completion_call :: "runner \<Rightarrow> worker_draws \<Rightarrow> execution option \<Rightarrow> 'z app_db_scheme completion_call" where
  "completion_call r d x =
     \<lparr>fc_sha = rn_sha256 r, fc_result_id = wd_result d, fc_now = wd_complete_now d,
      fc_target = (case x of None \<Rightarrow> J_FAILED_TERMINAL | Some e \<Rightarrow> ge_target e),
      fc_result = (case x of None \<Rightarrow> [(u ''outcome'', JStr (u ''failed'')), (u ''error_code'', JStr failure_code)] | Some e \<Rightarrow> ge_result e),
      fc_code = (case x of None \<Rightarrow> Some failure_code | Some e \<Rightarrow> ge_error e),
      fc_effect = (case x of None \<Rightarrow> Inr | Some e \<Rightarrow> fenced_effect (rn_sha256 r) (wd_persist d) e)\<rparr>"

lemma complete_claim_call: "complete_claim r d c x db = run_completion (completion_call r d x) c db"
  by (simp add: complete_claim_def run_completion_def completion_call_def Job_Queue.complete_def split: option.split)

lemma completion_call_admissible: "domain_effect (fc_effect (completion_call r d x))"
  by (simp add: completion_call_def fenced_effect_domain domain_effect_def split: option.split)
    (metis domain_effect_def fenced_effect_domain)

section \<open>Fencing a poll\<close>

definition changed_nothing :: "(app_error + worker_outcome) \<times> 's \<Rightarrow> 's \<Rightarrow> 's \<Rightarrow> bool" where
  "changed_nothing res early late \<longleftrightarrow>
     (case fst res of Inl _ \<Rightarrow> snd res \<in> {early, late} | Inr out \<Rightarrow> wo_stale out \<and> \<not> wo_completed out \<and> snd res = late)"

lemma failed_completion_changes_nothing:
  assumes "complete_claim r d c x (env 1 db) = (Inl e, env 1 db)"
  shows "changed_nothing (finish_claim r d env c x db) db (env 1 db)"
  using assms by (simp add: finish_claim_def changed_nothing_def worker_outcome_of_def split: app_error.split)

text \<open>
  A poll that lost its lease leaves no trace.  If, at any time between the claim and the completion, another
  worker claimed the same job, then whatever the provider returned and whatever else happened in between, the poll
  writes nothing: the state is the one the other transactions left, and the poll reports a stale completion (or raises
  before it gets that far).
\<close>

theorem superseded_poll_changes_nothing:
  fixes db :: "'z app_db_scheme"
  assumes "queue_inv db" "issued db c" "queue_step\<^sup>*\<^sup>* db x" "run_claim t x = (Inr (Some c'), y)" "cl_id c' = cl_id c"
    and "queue_step\<^sup>*\<^sup>* y (env 1 (env 0 db))"
  shows "changed_nothing (run_claimed r d env c db) (env 0 db) (env 1 (env 0 db))"
proof (cases "and_then (execute_safely r (wd_ids d) c (env 0 db)) (\<lambda>x. cap_research_retries x c)")
  case (Inl e)
  then show ?thesis by (simp add: run_claimed_def changed_nothing_def)
next
  case (Inr ex)
  have "queue_inv x" "issued x c"
  proof -
    show "queue_inv x" by (rule pgq.inv_steps [OF assms(3,1)])
    show "issued x c" using assms(3,1,2)
    proof (induction rule: rtranclp_induct)
      case (step y z)
      then show ?case using pgq.inv_steps issued_step by blast
    qed simp
  qed
  from pgq.superseded_never_finishes [OF this assms(4) assms(5) [symmetric] assms(6)] obtain e where
    "complete_claim r d c ex (env 1 (env 0 db)) = (Inl e, env 1 (env 0 db))" unfolding complete_claim_call by blast
  from failed_completion_changes_nothing [of r d c ex env "env 0 db" e, OF this] show ?thesis using Inr by (simp add: run_claimed_def)
qed

definition sample_call :: "uuid \<Rightarrow> uuid \<Rightarrow> int \<Rightarrow> claim_call" where
  "sample_call token attempt now = \<lparr>cc_locked = \<lambda>_. False, cc_token = token, cc_attempt = attempt, cc_now = now, cc_now' = now,
     cc_owner = u ''w'', cc_seconds = 60, cc_kinds = Some [u ''research'']\<rparr>"

definition sample_worker_draws :: worker_draws where
  "sample_worker_draws = \<lparr>wd_locked = \<lambda>_. False, wd_token = 3, wd_attempt = 4, wd_claim_now = 0, wd_claim_now' = 0,
     wd_ids = word_of_nat, wd_complete_now = 1,
     wd_persist = \<lparr>pd_activity = \<lparr>dr_event = 85, dr_notification = id, dr_outbox = id, dr_now = 1\<rparr>, pd_job = 86, pd_now = 1\<rparr>,
     wd_result = 87, wd_requeue_now = 2\<rparr>"

definition sample_claimed_db :: app_db where
  "sample_claimed_db = sample_processing_db\<lparr>
     jobs := [claim_update 1 (u ''w'') 3 60 0 (generation_job sample_draws (u ''p1'') RESEARCH)],
     attempts := [\<lparr>at_id = 4, at_job_id = 71, at_generation = 1, at_token = 3, at_owner = u ''w'', at_ended_at = None,
       at_status = AT_RUNNING, at_error = None\<rparr>]\<rparr>"

lemma sample_processing_inv: "queue_inv sample_processing_db"
  by (simp add: queue_inv_def sample_processing_db_def published_eval job_ok_def generation_job_def new_job_row_def job_shape_def
      attempts_ok_def sample_draws_def attempts_of_def results_of_def failed_states_def del: u_simps)

lemmas claim_eval =
  run_claim_def sample_call_def claim_next_def require_owner_def require_lease_seconds_def claim_body_def
  select_claim_def claimable_def insert_attempt_def fresh_def claimed_from_row_def as_nonempty_string_def transaction_def
  expire_attempt_def open_attempt_def micros_def

lemma sample_texts:
  "normalize_claim_kinds (Some [u ''research'']) = Inr (Some [u ''research''])" "\<not> is_blank (u ''w'')" "\<not> is_blank (u ''research'')"
  "\<not> is_blank (generation_logical_key 50 RESEARCH (u ''p1''))"
  by (simp_all add: normalize_claim_kinds_def require_kind_def allowed_kinds_def is_blank_iff py_isspace_def generation_logical_key_def)

lemma sample_job:
  "generation_job sample_draws (u ''p1'') RESEARCH =
     new_job_row 71 (generation_logical_key 50 RESEARCH (u ''p1'')) (u ''research'') (Some 50)
       (JObj [(u ''snapshot_id'', JStr (uuid_text 50)), (u ''kind'', JStr (u ''research'')), (u ''pipeline_version'', JStr (u ''p1''))]) 9"
  by (simp add: generation_job_def generation_payload_def sample_draws_def del: u_simps)

lemma sample_claim_one: "run_claim (sample_call 3 4 0) sample_processing_db = (Inr (Some sample_claim), sample_claimed_db)"
  by (simp add: claim_eval sample_texts sample_processing_db_def published_eval sample_job new_job_row_def sample_claim_def
      claim_update_def sample_claimed_db_def Let_def del: u_simps)

lemma sample_claim_two: "\<exists>c y. run_claim (sample_call 5 6 60000000) sample_claimed_db = (Inr (Some c), y) \<and> cl_id c = 71"
  by (simp add: claim_eval sample_texts sample_processing_db_def published_eval sample_job new_job_row_def
      claim_update_def sample_claimed_db_def Let_def del: u_simps)

theorem superseded_poll_changes_nothing_witness:
  "\<exists>c y. run_claim (sample_call 5 6 60000000) sample_claimed_db = (Inr (Some c), y) \<and>
     changed_nothing (run_claimed sample_runner sample_worker_draws (\<lambda>_ _. y) sample_claim sample_claimed_db) y y"
proof -
  from sample_claim_two obtain c y where c: "run_claim (sample_call 5 6 60000000) sample_claimed_db = (Inr (Some c), y)" "cl_id c = 71"
    by blast
  have i: "queue_inv sample_claimed_db" "issued sample_claimed_db sample_claim"
    using sample_claim_one sample_processing_inv pgq.inv_step pgq.take_step pgq.take_owns pgq.owns_issued by (metis snd_conv)+
  have "cl_id c = cl_id sample_claim" using c(2) by (simp add: sample_claim_def)
  from superseded_poll_changes_nothing [OF i rtranclp.rtrancl_refl c(1) this, of "\<lambda>_ _. y" sample_runner sample_worker_draws]
  show ?thesis using c(1) by auto
qed

section \<open>Automatic attempts\<close>

text \<open>Other transactions that leave one job alone.\<close>

definition quiet :: "uuid \<Rightarrow> 'z queue_db_scheme \<Rightarrow> 'z queue_db_scheme \<Rightarrow> bool" where
  "quiet jid db db' \<longleftrightarrow> queue_step\<^sup>*\<^sup>* db db' \<and> (\<forall>j. j_id j = jid \<longrightarrow> j \<in> set (jobs db') \<longleftrightarrow> j \<in> set (jobs db))"

definition settled :: "job_row \<Rightarrow> bool" where
  "settled j \<longleftrightarrow> j_state j \<in> {J_SUCCEEDED, J_FAILED_TERMINAL}"

text \<open>\<open>n\<close> completed polls of a job, with other transactions around and between the steps of each.\<close>

inductive completed_polls :: "runner \<Rightarrow> uuid \<Rightarrow> nat \<Rightarrow> 'z app_db_scheme \<Rightarrow> 'z app_db_scheme \<Rightarrow> bool" for r jid where
  no_poll: "quiet jid db db' \<Longrightarrow> completed_polls r jid 0 db db'"
| poll: "completed_polls r jid n db db1 \<Longrightarrow> run_once r d env owner secs kinds db1 = (Inr out, db2) \<Longrightarrow> wo_job out = Some jid \<Longrightarrow>
    wo_completed out \<Longrightarrow> (\<And>k s. quiet jid s (env k s)) \<Longrightarrow> quiet jid db2 db3 \<Longrightarrow> completed_polls r jid (Suc n) db db3"

text \<open>Between two polls the job is settled, or waits for the next attempt.\<close>

definition awaits :: "uuid \<Rightarrow> nat \<Rightarrow> 'z queue_db_scheme \<Rightarrow> bool" where
  "awaits jid n db \<longleftrightarrow> (\<exists>j \<in> set (jobs db). j_id j = jid \<and> j_kind j = u ''research'' \<and>
     (settled j \<or> j_state j = J_PENDING \<and> j_generation j = int n \<and> n < 3))"

lemma quiet_inv: "quiet jid db db' \<Longrightarrow> queue_inv db \<Longrightarrow> queue_inv db'"
  unfolding quiet_def using pgq.inv_steps by blast

lemma quiet_job: "quiet jid db db' \<Longrightarrow> j_id j = jid \<Longrightarrow> j \<in> set (jobs db) \<Longrightarrow> j \<in> set (jobs db')"
  by (simp add: quiet_def)

lemma quiet_awaits: "quiet jid db db' \<Longrightarrow> awaits jid n db \<Longrightarrow> awaits jid n db'"
  unfolding awaits_def using quiet_job by blast

lemma claimed_once:
  assumes inv: "queue_inv db" and c: "claim_next locked tok aid now now' owner secs kinds db = (Inr (Some c), db1)"
    and w: "awaits (cl_id c) n db"
  shows "\<exists>j \<in> set (jobs db1). j_id j = cl_id c \<and> j_generation j = cl_generation c \<and> j_kind j = u ''research'' \<and>
    cl_kind c = u ''research'' \<and> cl_generation c = int n + 1 \<and> n < 3"
proof -
  from c obtain row ks where b: "claim_body locked tok aid now now' owner secs ks db = Inr (Some (row, cl_generation c), db1)"
    "cl_id c = j_id row" "cl_kind c = j_kind row" by (rule claim_next_Some)
  note r = claimed_row [OF b(1)]
  from w obtain j where j: "j \<in> set (jobs db)" "j_id j = cl_id c" "j_kind j = u ''research''"
    "settled j \<or> j_state j = J_PENDING \<and> j_generation j = int n \<and> n < 3" unfolding awaits_def by blast
  have "j = row" using unique_job [OF inv j(1), of row] r b(2) j(2) by simp
  then have "j_generation row = int n" "n < 3" "j_kind row = u ''research''"
    using j r by (auto simp: settled_def claimable_def)
  then show ?thesis using r b(2,3) by (intro bexI [OF _ conjunct1 [OF r]]) (simp add: claim_update_def del: u_simps)
qed

lemma finished_job:
  fixes db :: "'z app_db_scheme"
  assumes inv: "queue_inv db" and c: "complete_claim r d c x db = (Inr (), db2)"
  shows "\<exists>j k. j \<in> set (jobs db) \<and> j_id j = cl_id c \<and> j_generation j = cl_generation c \<and> k \<in> set (jobs db2) \<and> j_id k = j_id j \<and>
    j_kind k = j_kind j \<and> j_generation k = j_generation j \<and> j_token k = None \<and>
    j_state k = (case x of None \<Rightarrow> J_FAILED_TERMINAL | Some e \<Rightarrow> ge_target e) \<and>
    j_state k \<in> insert J_SUCCEEDED failed_states \<and> queue_inv db2"
proof -
  let ?w = "completion_call r d x :: 'z app_db_scheme completion_call"
  have f: "complete_with_effects (fc_sha ?w) (fc_result_id ?w) (fc_now ?w) c (fc_target ?w) (fc_result ?w) (fc_code ?w) (fc_effect ?w) db =
      (Inr (), db2)" using c unfolding complete_claim_call run_completion_def .
  have "check_completion (fc_target ?w) (fc_code ?w) = Inr ()" using completion_holds [OF inv f] by blast
  then have t: "fc_target ?w \<in> insert J_SUCCEEDED failed_states" by (auto simp: check_completion_Inr)
  from completed_row [OF inv completion_call_admissible f] obtain j where j: "j \<in> set (jobs db)" "holds_lease c (fc_now ?w) j"
    "complete_job (fc_target ?w) (fc_code ?w) (fc_now ?w) j \<in> set (jobs db2)" .
  have "queue_inv db2" using complete_with_effects_inv [OF inv completion_call_admissible] f by (metis snd_conv)
  then show ?thesis
    by (intro exI [of _ j] exI [of _ "complete_job (fc_target ?w) (fc_code ?w) (fc_now ?w) j"])
      (use j t in \<open>simp add: holds_lease_def complete_job_def completion_call_def\<close>)
qed

lemma requeued_job:
  assumes inv: "queue_inv db" and k: "k \<in> set (jobs db)" "j_id k = cl_id c" "j_generation k = cl_generation c" "j_token k = None"
      "j_state k = J_FAILED_RETRYABLE" and c: "cl_kind c = u ''research''" "1 \<le> cl_generation c"
  shows "\<exists>db'. retry_research d c db = (Inr (), db') \<and> requeue_row (wd_requeue_now d) k \<in> set (jobs db')"
proof -
  let ?P = "\<lambda>j. j_id j = cl_id c \<and> j_state j = J_FAILED_RETRYABLE \<and> j_generation j = cl_generation c \<and> j_token j = None"
  have "hits ?P (jobs db) = 1"
    using inv k by (intro hits_one_of_key [where key = j_id and r = k]) (simp_all add: queue_inv_def)
  moreover have "requeue_row (wd_requeue_now d) k \<in> set (update_rows ?P (requeue_row (wd_requeue_now d)) (jobs db))"
    using k by (auto simp: set_update_rows image_iff intro!: bexI [of _ k])
  ultimately show ?thesis using c
    by (simp add: retry_research_def requeue_retryable_def requeue_body_def Let_def transaction_def requeue_row_def [abs_def] del: u_simps)
qed

lemma capped_target:
  assumes "cap_research_retries x c = Inr y" "cl_kind c = u ''research''" "is_retryable_execution y"
  shows "cl_generation c < 3"
  using assms
  by (auto simp: cap_research_retries_def is_retryable_execution_def and_then_Inr make_execution_Inr capped_execution_def
      max_research_attempts_def simp del: u_simps split: option.splits if_splits)

lemma finish_claim_completed:
  assumes "finish_claim r d env c x db = (Inr out, db')" "wo_completed out"
  shows "wo_job out = Some (cl_id c) \<and> (\<exists>s2. complete_claim r d c x (env 1 db) = (Inr (), s2) \<and>
    (if is_retryable_execution x then \<exists>w. retry_research d c (env 2 s2) = (Inr w, db') else db' = s2))"
proof -
  obtain res s2 where c: "complete_claim r d c x (env 1 db) = (res, s2)" by force
  with assms have "res = Inr ()"
    by (auto simp: finish_claim_def worker_outcome_of_def split: sum.splits app_error.splits)
  moreover obtain res' s3 where "retry_research d c (env 2 s2) = (res', s3)" by force
  ultimately show ?thesis using assms c
    by (auto simp: finish_claim_def worker_outcome_of_def and_then_Inr split: if_splits)
qed

lemma run_once_completed:
  assumes run: "run_once r d env owner secs kinds db = (Inr out, db')" and out: "wo_completed out"
  obtains c s x s2 where "claim_next (wd_locked d) (wd_token d) (wd_attempt d) (wd_claim_now d) (wd_claim_now' d) owner secs (Some kinds) db =
      (Inr (Some c), s)" "wo_job out = Some (cl_id c)" "complete_claim r d c x (env 1 (env 0 s)) = (Inr (), s2)"
    "\<exists>y. cap_research_retries y c = Inr x"
    "if is_retryable_execution x then \<exists>w. retry_research d c (env 2 s2) = (Inr w, db') else db' = s2"
proof -
  obtain claim s where c: "claim_next (wd_locked d) (wd_token d) (wd_attempt d) (wd_claim_now d) (wd_claim_now' d) owner secs (Some kinds) db =
    (claim, s)" by force
  from run out obtain c where claim: "claim = Inr (Some c)" "run_claimed r d env c s = (Inr out, db')"
    by (auto simp: run_once_def c idle_outcome_def split: if_splits sum.splits option.splits)
  from claim(2) obtain y x where x: "cap_research_retries y c = Inr x" "finish_claim r d env c x (env 0 s) = (Inr out, db')"
    by (auto simp: run_claimed_def and_then_Inr split: sum.splits)
  from finish_claim_completed [OF x(2) out] that c claim(1) x(1) show ?thesis by blast
qed

lemma poll_awaits:
  assumes inv: "queue_inv db" and w: "awaits jid n db" and run: "run_once r d env owner secs kinds db = (Inr out, db')"
    and out: "wo_completed out" "wo_job out = Some jid" and q: "\<And>k s. quiet jid s (env k s)"
  shows "queue_inv db' \<and> awaits jid (Suc n) db' \<and> Suc n \<le> 3"
proof -
  from run out(1) obtain c s x s2 where c: "claim_next (wd_locked d) (wd_token d) (wd_attempt d) (wd_claim_now d) (wd_claim_now' d)
      owner secs (Some kinds) db = (Inr (Some c), s)" "wo_job out = Some (cl_id c)"
    "complete_claim r d c x (env 1 (env 0 s)) = (Inr (), s2)" "\<exists>y. cap_research_retries y c = Inr x"
    "if is_retryable_execution x then \<exists>w. retry_research d c (env 2 s2) = (Inr w, db') else db' = s2" by (rule run_once_completed)
  have jid: "jid = cl_id c" using c(2) out(2) by simp
  from claimed_once [OF inv c(1)] w obtain j where j: "j \<in> set (jobs s)" "j_id j = jid" "j_kind j = u ''research''"
    "cl_kind c = u ''research''" "cl_generation c = int n + 1" "n < 3" unfolding jid by blast
  have si: "queue_inv s" using claim_next_inv [OF inv] c(1) by (metis snd_conv)
  then have i1: "queue_inv (env 1 (env 0 s))" using q quiet_inv by blast
  have j1: "j \<in> set (jobs (env 1 (env 0 s)))" using q quiet_job j(1,2) by blast
  from finished_job [OF i1 c(3)] obtain j' k where k: "j' \<in> set (jobs (env 1 (env 0 s)))" "j_id j' = cl_id c"
    "j_generation j' = cl_generation c" "k \<in> set (jobs s2)" "j_id k = j_id j'" "j_kind k = j_kind j'"
    "j_generation k = j_generation j'" "j_token k = None"
    "j_state k = (case x of None \<Rightarrow> J_FAILED_TERMINAL | Some e \<Rightarrow> ge_target e)"
    "j_state k \<in> insert J_SUCCEEDED failed_states" "queue_inv s2" by blast
  have "j' = j" using unique_job [OF i1 k(1) j1] k(2) j(2) jid by simp
  then have kind: "j_kind k = u ''research''" "j_id k = jid" using k j jid by simp_all
  show ?thesis
  proof (cases "is_retryable_execution x")
    case True
    then have st: "j_state k = J_FAILED_RETRYABLE" using k(9) by (simp add: is_retryable_execution_def split: option.splits)
    have n: "Suc n < 3" using capped_target [OF _ j(4) True] c(4) j(5) by auto
    have k2: "k \<in> set (jobs (env 2 s2))" "queue_inv (env 2 s2)" using q quiet_job kind(2) k(4) quiet_inv k(11) by blast+
    have g: "j_generation k = cl_generation c" "1 \<le> cl_generation c" "j_id k = cl_id c" using k(3,7) j(5) kind(2) jid by simp_all
    from requeued_job [OF k2(2,1) g(3,1) k(8) st j(4) g(2), of d] c(5) True
    have r: "requeue_row (wd_requeue_now d) k \<in> set (jobs db')" "retry_research d c (env 2 s2) = (Inr (), db')" by auto
    have "queue_inv db'" using r(2) requeue_retryable_inv [OF k2(2)] j(4)
      by (auto simp: retry_research_def Let_def split: prod.splits) (metis snd_conv)
    moreover have "awaits jid (Suc n) db'" unfolding awaits_def
      using kind g(1) j(5) n by (intro bexI [OF _ r(1)]) (simp add: requeue_row_def del: u_simps)
    ultimately show ?thesis using n by simp
  next
    case False
    then have "j_state k \<noteq> J_FAILED_RETRYABLE" using k(9) by (auto simp: is_retryable_execution_def split: option.splits)
    then have "settled k" using k(10) by (auto simp: settled_def failed_states_def)
    then have "awaits jid (Suc n) s2" unfolding awaits_def using kind k(4) by blast
    then show ?thesis using False c(5) k(11) j(6) by simp
  qed
qed

text \<open>
  C17: automatic research attempts end.  From a research job that was never leased, at most three polls can complete
  it, whatever the provider returns and whatever other transactions do to other jobs: after each completed poll the
  job has succeeded, failed for good, or is pending for its next attempt with fewer than three behind it; after the
  third it is settled.
\<close>

theorem research_attempts_end:
  assumes "completed_polls r jid n db db'" "queue_inv db" "awaits jid 0 db"
  shows "queue_inv db' \<and> n \<le> 3 \<and> (\<exists>j \<in> set (jobs db'). j_id j = jid \<and>
    (settled j \<or> n < 3 \<and> j_state j = J_PENDING \<and> j_generation j = int n))"
proof -
  have "queue_inv db' \<and> awaits jid n db' \<and> n \<le> 3"
    using assms
  proof (induction rule: completed_polls.induct)
    case (no_poll db db')
    from no_poll show ?case using quiet_inv [OF no_poll(1)] quiet_awaits [OF no_poll(1)] by simp
  next
    case (poll n db db1 d env owner secs kinds out db2 db3)
    then have "queue_inv db2 \<and> awaits jid (Suc n) db2 \<and> Suc n \<le> 3" by (intro poll_awaits) simp_all
    then show ?case using quiet_inv [OF poll.hyps(6)] quiet_awaits [OF poll.hyps(6)] by simp
  qed
  then show ?thesis unfolding awaits_def by blast
qed

text \<open>A poll of the sample job: claimed, failed by the provider, recorded, requeued.\<close>

lemma sample_execute_claimed: "execute sample_runner draw sample_claim sample_claimed_db = Inr sample_failure"
proof -
  have "snapshot_context sample_claimed_db 50 = snapshot_context sample_processing_db 50"
    by (simp add: snapshot_context_def context_rows_def sample_claimed_db_def)
  then show ?thesis using sample_execute [of draw] by (simp add: execute_def sample_identity del: u_simps)
qed

definition sample_failed_runs :: "int \<Rightarrow> run_row list" where
  "sample_failed_runs now = [queued_run 60 50 SUMMARY (u ''p1''),
     failed_run G_FAILED_RETRYABLE (u ''unavailable'') now (queued_run 61 50 RESEARCH (u ''p1''))]"

lemma sample_recompute:
  "\<exists>a. recompute_aggregate d 50 (sample_processing_db\<lparr>attempts := ats, jobs := js, runs := sample_failed_runs now\<rparr>) =
     Inr (a, sample_processing_db\<lparr>attempts := ats, jobs := js, runs := sample_failed_runs now\<rparr>)"
proof -
  let ?db = "sample_processing_db\<lparr>attempts := ats, jobs := js, runs := sample_failed_runs now\<rparr>"
  have b: "\<not> is_blank (u ''p1'')" "\<not> is_blank (u ''unavailable'')" by (simp_all add: is_blank_iff py_isspace_def)
  have o: "u ''research'' \<le> u ''summary''" by (simp add: u_def)
  have s: "find (\<lambda>n. sn_id n = 50) (snapshots sample_processing_db) =
      Some \<lparr>sn_id = 50, sn_session = 7, sn_epoch = 1, sn_created_by = 5, sn_topic = u ''t'', sn_pipeline = u ''p1'', sn_anchor_version = u ''v1''\<rparr>"
    "find_session ?db 7 = Some (sample_session\<lparr>ts_state := PROCESSING, ts_epoch := 1, ts_version := 2\<rparr>)"
    by (simp_all add: find_session_def sample_processing_db_def published_eval del: u_simps)
  have v: "map_result run_view (snapshot_runs ?db 50) =
      Inr [\<lparr>rv_kind = RESEARCH, rv_state = G_FAILED_RETRYABLE, rv_error_code = Some (u ''unavailable'')\<rparr>,
           \<lparr>rv_kind = SUMMARY, rv_state = G_QUEUED, rv_error_code = None\<rparr>]"
    using o b by (simp add: snapshot_runs_def sample_failed_runs_def failed_run_def queued_run_def run_view_def
        make_generation_run_view_def del: u_simps)
  have "project_generation_aggregate [\<lparr>rv_kind = RESEARCH, rv_state = G_FAILED_RETRYABLE, rv_error_code = Some (u ''unavailable'')\<rparr>,
           \<lparr>rv_kind = SUMMARY, rv_state = G_QUEUED, rv_error_code = None\<rparr>] =
      Inr \<lparr>ga_state = PROCESSING, ga_reasons = [], ga_retry_available = False, ga_action = A_NONE\<rparr>"
    by (simp add: project_generation_aggregate_def canonical_run_invariant_reasons_def canonical_generation_kinds_def
        run_count_reason_def runs_of_kind_def is_active_def del: u_simps)
  then show ?thesis using b(1) by (simp add: recompute_aggregate_def s v sample_session_def del: u_simps)
qed

lemma sample_effect:
  "\<exists>a. fenced_effect sha256 d sample_failure (sample_claimed_db\<lparr>jobs := js\<rparr>) =
     Inr (sample_claimed_db\<lparr>jobs := js, runs := sample_failed_runs (pd_now d)\<rparr>)"
proof -
  have b: "\<not> is_blank (u ''p1'')" "is_error_code (u ''unavailable'')"
    by (simp_all add: is_blank_iff py_isspace_def is_error_code_def error_code_char_def)
  have r: "runs (sample_claimed_db\<lparr>jobs := js\<rparr>) = [queued_run 60 50 SUMMARY (u ''p1''), queued_run 61 50 RESEARCH (u ''p1'')]"
    by (simp add: sample_claimed_db_def sample_processing_db_def del: u_simps)
  obtain a where a: "recompute_aggregate d 50 (sample_claimed_db\<lparr>jobs := js, runs := sample_failed_runs (pd_now d)\<rparr>) =
      Inr (a, sample_claimed_db\<lparr>jobs := js, runs := sample_failed_runs (pd_now d)\<rparr>)"
    using sample_recompute [where d = d and js = js and ats = "attempts sample_claimed_db" and now = "pd_now d"] by (auto simp: sample_claimed_db_def simp del: u_simps)
  have w: "writable_run 50 (u ''research'') (u ''p1'') (queued_run 61 50 RESEARCH (u ''p1''))"
    "\<not> writable_run 50 (u ''research'') (u ''p1'') (queued_run 60 50 SUMMARY (u ''p1''))"
    by (simp_all add: writable_run_def queued_run_def u_inject del: u_simps)
  show ?thesis using b a w
    by (simp add: fenced_effect_def persist_execution_def sample_failure_def persist_failure_def Let_def r sample_failed_runs_def del: u_simps)
qed

definition sample_polled_db :: app_db where
  "sample_polled_db = sample_claimed_db\<lparr>
     jobs := [requeue_row 2 (complete_job J_FAILED_RETRYABLE (Some (u ''unavailable'')) 1
       (claim_update 1 (u ''w'') 3 60 0 (generation_job sample_draws (u ''p1'') RESEARCH)))],
     attempts := map (close_attempt J_FAILED_RETRYABLE (Some (u ''unavailable'')) 1) (attempts sample_claimed_db),
     runs := sample_failed_runs 1\<rparr>"

definition sample_poll_outcome :: worker_outcome where
  "sample_poll_outcome = \<lparr>wo_job = Some 71, wo_claimed = True, wo_completed = True, wo_stale = False,
     wo_target = Some J_FAILED_RETRYABLE, wo_error = Some (u ''unavailable'')\<rparr>"

lemma sample_poll:
  "run_once sample_runner sample_worker_draws (\<lambda>_ s. s) (u ''w'') 60 [u ''research''] sample_processing_db =
     (Inr sample_poll_outcome, sample_polled_db)"
proof -
  let ?j = "claim_update 1 (u ''w'') 3 60 0 (generation_job sample_draws (u ''p1'') RESEARCH)"
  let ?k = "complete_job J_FAILED_RETRYABLE (Some (u ''unavailable'')) 1 ?j"
  let ?mid = "sample_claimed_db\<lparr>jobs := [?k], attempts := map (close_attempt J_FAILED_RETRYABLE (Some (u ''unavailable'')) 1)
    (attempts sample_claimed_db), runs := sample_failed_runs 1\<rparr>"
  have cl: "claim_next (\<lambda>_. False) 3 4 0 0 (u ''w'') 60 (Some [u ''research'']) sample_processing_db =
      (Inr (Some sample_claim), sample_claimed_db)"
    using sample_claim_one by (simp add: run_claim_def sample_call_def del: u_simps)
  have cap: "cap_research_retries (Some sample_failure) sample_claim = Inr (Some sample_failure)"
    by (simp add: cap_research_retries_def sample_claim_def max_research_attempts_def del: u_simps)
  have j: "holds_lease sample_claim 1 ?j"
    by (simp add: holds_lease_def sample_claim_def claim_update_def sample_job new_job_row_def micros_def del: u_simps)
  have chk: "check_completion J_FAILED_RETRYABLE (Some (u ''unavailable'')) = Inr ()"
    by (simp add: check_completion_Inr failed_states_def is_blank_iff py_isspace_def)
  have e: "fenced_effect (rn_sha256 sample_runner) (wd_persist sample_worker_draws) sample_failure (sample_claimed_db\<lparr>jobs := [?k]\<rparr>) =
      Inr (sample_claimed_db\<lparr>jobs := [?k], runs := sample_failed_runs 1\<rparr>)"
    using sample_effect [where d = "wd_persist sample_worker_draws" and js = "[?k]"] by (auto simp: sample_worker_draws_def simp del: u_simps)
  have f: "ge_target sample_failure = J_FAILED_RETRYABLE" "ge_error sample_failure = Some (u ''unavailable'')"
    "wd_complete_now sample_worker_draws = 1" "wd_requeue_now sample_worker_draws = 2"
    by (simp_all add: sample_failure_def sample_worker_draws_def del: u_simps)
  have t: "jobs sample_claimed_db = [?j]" "hits (my_attempt sample_claim) (attempts sample_claimed_db) = 1"
    "update_rows (my_attempt sample_claim) g (attempts sample_claimed_db) = map g (attempts sample_claimed_db)" for g
    by (simp_all add: sample_claimed_db_def my_attempt_def open_attempt_def sample_claim_def del: u_simps)
  have "complete_body sha rid 1 sample_claim J_FAILED_RETRYABLE res (Some (u ''unavailable''))
      (fenced_effect (rn_sha256 sample_runner) (wd_persist sample_worker_draws) sample_failure) sample_claimed_db = Inr ((), ?mid)" for sha rid res
    using j e t by (simp add: complete_body_def Let_def del: u_simps)
  then have comp: "complete_claim sample_runner sample_worker_draws sample_claim (Some sample_failure) sample_claimed_db = (Inr (), ?mid)"
    using chk f by (simp add: complete_claim_def complete_with_effects_def transaction_def del: u_simps)
  have kj: "j_id ?k = 71" "j_state ?k = J_FAILED_RETRYABLE" "j_generation ?k = 1" "j_token ?k = None"
    by (simp_all add: complete_job_def claim_update_def sample_job new_job_row_def del: u_simps)
  have "retry_research sample_worker_draws sample_claim ?mid = (Inr (), ?mid\<lparr>jobs := [requeue_row 2 ?k]\<rparr>)"
    using kj f(4) by (simp add: retry_research_def requeue_retryable_def requeue_body_def Let_def transaction_def requeue_row_def
        sample_claim_def del: u_simps)
  then have retry: "retry_research sample_worker_draws sample_claim ?mid = (Inr (), sample_polled_db)"
    by (simp add: sample_polled_db_def del: u_simps)
  have fin: "finish_claim sample_runner sample_worker_draws (\<lambda>_ s. s) sample_claim (Some sample_failure) sample_claimed_db =
      (Inr sample_poll_outcome, sample_polled_db)"
    unfolding finish_claim_def comp retry Let_def
    using f retry by (simp add: is_retryable_execution_def worker_outcome_of_def sample_poll_outcome_def sample_claim_def del: u_simps)
  have "execute_safely sample_runner (wd_ids sample_worker_draws) sample_claim sample_claimed_db = Inr (Some sample_failure)"
    by (simp add: execute_safely_def sample_execute_claimed del: u_simps)
  then have "run_claimed sample_runner sample_worker_draws (\<lambda>_ s. s) sample_claim sample_claimed_db = (Inr sample_poll_outcome, sample_polled_db)"
    using cap fin by (simp add: run_claimed_def del: u_simps)
  moreover have "claim_next (wd_locked sample_worker_draws) (wd_token sample_worker_draws) (wd_attempt sample_worker_draws)
      (wd_claim_now sample_worker_draws) (wd_claim_now' sample_worker_draws) (u ''w'') 60 (Some [u ''research'']) sample_processing_db =
      (Inr (Some sample_claim), sample_claimed_db)" using cl by (simp add: sample_worker_draws_def del: u_simps)
  ultimately show ?thesis by (simp add: run_once_def generation_kinds_def del: u_simps)
qed

lemma quiet_refl [simp]: "quiet jid s s"
  by (simp add: quiet_def)

theorem research_attempts_end_witness:
  "queue_inv sample_polled_db \<and> (\<exists>j \<in> set (jobs sample_polled_db). j_id j = 71 \<and> (settled j \<or> j_state j = J_PENDING \<and> j_generation j = 1))"
proof -
  have "awaits 71 0 sample_processing_db"
    by (simp add: awaits_def sample_processing_db_def sample_job new_job_row_def del: u_simps)
  moreover have "completed_polls sample_runner 71 (Suc 0) sample_processing_db sample_polled_db"
    by (rule poll [OF no_poll [OF quiet_refl] sample_poll _ _ quiet_refl quiet_refl]) (simp_all add: sample_poll_outcome_def del: u_simps)
  ultimately show ?thesis using research_attempts_end [of sample_runner 71 "Suc 0" sample_processing_db sample_polled_db]
      sample_processing_inv by auto
qed

section \<open>A grounded summary that blocks its job\<close>

text \<open>
  The provider grounds its candidate with \<open>ground_live_summary\<close>, which accepts two quotes of one anchor in an
  item.  The completion is then refused with a \<open>ValueError\<close> that no handler of the runner catches, so the poll
  raises, the job stays leased and the run queued; after the lease the next poll does the same.
\<close>

definition quoting_runner :: runner where
  "quoting_runner = sample_runner\<lparr>rn_provider := sample_provider\<lparr>pv_summary :=
     \<lambda>sources _ _. ground_live_summary (\<lambda>_. False) sample_candidate sources\<rparr>\<rparr>"

definition quoting_claim :: claimed_job where
  "quoting_claim = sample_claim\<lparr>cl_id := 70, cl_kind := u ''summary'',
     cl_payload := [(u ''snapshot_id'', JStr (uuid_text 50)), (u ''kind'', JStr (u ''summary'')), (u ''pipeline_version'', JStr (u ''p1''))]\<rparr>"

definition quoting_db :: app_db where
  "quoting_db = sample_processing_db\<lparr>anchors := [\<lparr>an_id = 90, an_run = 40, an_revision = 30, an_ordinal = 0, an_block = u ''p'',
     an_text = u ''ship it'', an_confidence = None, an_json = JNull, an_excluded = None\<rparr>]\<rparr>"

lemma quoting_identity: "claimed_identity quoting_claim = Inr (50, u ''summary'', u ''p1'')"
proof -
  have "get_str (cl_payload quoting_claim) (u ''snapshot_id'') = Some (uuid_text 50)"
    "get_str (cl_payload quoting_claim) (u ''kind'') = Some (u ''summary'')"
    "get_str (cl_payload quoting_claim) (u ''pipeline_version'') = Some (u ''p1'')" "cl_kind quoting_claim = u ''summary''"
    by (simp_all add: quoting_claim_def get_str_def get_key_def u_inject del: u_simps)
  moreover have "\<not> is_blank (u ''p1'')" by (simp add: is_blank_iff py_isspace_def)
  ultimately show ?thesis by (simp add: claimed_identity_def parse_uuid_text generation_kinds_def del: u_simps)
qed

lemma quoting_context: "snapshot_context quoting_db 50 = Inr (u ''t'', [sample_anchor])"
proof -
  have b: "\<not> is_blank (u ''t'')" "\<not> is_blank (u ''ship it'')" "\<not> is_blank (u ''p'')" "\<not> is_blank (u ''factual_claim'')"
    by (simp_all add: is_blank_iff py_isspace_def)
  show ?thesis
    by (simp add: snapshot_context_def context_rows_def quoting_db_def sample_processing_db_def published_eval runtime_anchor_of_def
        make_runtime_anchor_def nonempty_text_def sample_anchor_def b del: u_simps)
qed

lemma quoting_retrieval:
  "\<exists>p. retrieve_generation_anchors sha id (\<lambda>_. u ''t'') (\<lambda>_ _. 0) q [sample_anchor] 64 = Inr p \<and> rp_anchors p = [sample_anchor]"
proof -
  have ok: "anchor_accepted id sample_anchor"
    by (simp add: sample_anchor_def anchor_accepted_def assess_source_anchor_def Let_def py_strip_def py_lstrip_def
      py_rstrip_def text_simps is_control_def ocr_block_types_def)
  have utf: "utf8 (u ''t'') = Some (u ''t'')" by (simp add: utf8_char_def)
  have "u ''t'' \<noteq> []" by simp
  with ok utf show ?thesis
    by (simp add: retrieve_generation_anchors_def Let_def rank_anchors_def select_ids_def del: u_simps)
qed

lemma quoting_plan:
  "\<exists>p. plan_generation_context (\<lambda>_ _. False) 24000 [sample_anchor] = Inr p \<and> map xd_anchors (xp_documents p) = [[sample_anchor]]"
  by (simp add: plan_generation_context_def plan_revision_def plan_anchor_def Let_def context_failure_def sample_anchor_def)

lemma several_quotes_block_the_job:
  "run_claimed quoting_runner sample_worker_draws (\<lambda>_ s. s) quoting_claim quoting_db =
     (Inl (ValueError (u ''summary citations must not duplicate a segment/anchor pair'')), quoting_db)"
proof -
  have r: "rn_sha256 quoting_runner = (\<lambda>_. replicate 64 48)" "rn_nfc quoting_runner = id" "rn_topic_words quoting_runner = (\<lambda>_. u ''t'')"
    "rn_score quoting_runner = (\<lambda>_ _. 0)" "rn_max_anchors quoting_runner = 64" "rn_duplicate quoting_runner = (\<lambda>_ _. False)"
    "pv_summary (rn_provider quoting_runner) = (\<lambda>sources _ _. ground_live_summary (\<lambda>_. False) sample_candidate sources)"
    by (simp_all add: quoting_runner_def sample_runner_def)
  obtain p where p: "retrieve_generation_anchors (\<lambda>_. replicate 64 48) id (\<lambda>_. u ''t'') (\<lambda>_ _. 0) (retrieval_query (u ''t'') (u ''summary''))
      [sample_anchor] 64 = Inr p" "rp_anchors p = [sample_anchor]" 
    using quoting_retrieval [where sha = "\<lambda>_. replicate 64 48" and q = "retrieval_query (u ''t'') (u ''summary'')"] by (elim exE conjE that)
  obtain plan where plan: "plan_generation_context (\<lambda>_ _. False) 24000 [sample_anchor] = Inr plan"
    "map xd_anchors (xp_documents plan) = [[sample_anchor]]" using quoting_plan by (elim exE conjE that)
  from plan(2) obtain x where x: "xp_documents plan = [x]" "xd_anchors x = [sample_anchor]" by auto
  have syn: "synthesize [sample_grounded] = Inr sample_grounded"
    by (simp add: synthesize_def round_robin_def headed_items_def sample_grounded_def item_signature_def Let_def upt_rec del: u_simps)
  have n: "names_given (u ''p1'') (rn_provider quoting_runner)" using sample_names by (simp add: names_given_def quoting_runner_def)
  have inj: "inj_on (wd_ids sample_worker_draws) {..<item_draws (summary_grounded_items sample_grounded)}"
    by (auto simp: sample_worker_draws_def sample_items item_draws_def inj_on_def word_of_nat_eq_iff take_bit_nat_eq_self simp del: u_simps)
  obtain segs cits where w: "writes_of_items (wd_ids sample_worker_draws) no_writes (summary_grounded_items sample_grounded) segs cits"
    and f: "fold_result (add_item_writes (wd_ids sample_worker_draws)) (summary_grounded_items sample_grounded) no_writes =
      Inr (no_writes\<lparr>wr_segments := segs, wr_citations := cits, wr_ordinal := length (summary_grounded_items sample_grounded),
        wr_drawn := item_draws (summary_grounded_items sample_grounded)\<rparr>)"
    using add_items_Inr [of "summary_grounded_items sample_grounded" "wd_ids sample_worker_draws" no_writes]
    by (auto simp: sample_items is_blank_iff py_isspace_def no_writes_def)
  obtain b where b: "content_bytes (structured_content sample_grounded) = Inr b"
    using encodable_bytes [OF sample_encodable] by (auto simp: content_bytes_def)
  have i: "summary_grounded_items sample_grounded \<noteq> []" "list_all (\<lambda>i. gi_supports i \<noteq> []) (summary_grounded_items sample_grounded)"
    "\<not> list_all publishable (summary_grounded_items sample_grounded)"
    by (simp_all add: sample_items publishable_def del: u_simps)
  have c: "summary_completion (wd_ids sample_worker_draws) 50 (u ''p1'') sample_grounded (rn_provider quoting_runner) =
      Inl (ValueError (u ''summary citations must not duplicate a segment/anchor pair''))"
    using writes_pass_checks [OF w inj i(1,2) n b] i(3)
    by (simp add: summary_completion_def f make_completion_def del: u_simps)
  have "generate_completion quoting_runner (wd_ids sample_worker_draws) a 50 (u ''summary'') (u ''p1'') [sample_anchor] =
      Inl (ValueError (u ''summary citations must not duplicate a segment/anchor pair''))" for a
    by (simp add: generate_completion_def r plan(1) x sample_grounds syn c Let_def del: u_simps)
  then show ?thesis using p
    by (simp add: run_claimed_def execute_safely_def execute_def quoting_identity quoting_context r del: u_simps)
qed

end
