(* ===== verification/System.thy ===== *)
theory System
  imports Worker_Properties Session_Retry_Properties
begin

text \<open>
  The services together.  \<open>app_step\<close> is one committed transaction of any of them in any order: closing,
  reopening and retrying a session, the queue's operations, the worker's completion with its domain effect, and
  every transaction that leaves the tables of sessions, runs and generated documents alone.  The invariant joins the
  soundness of the queue, of sessions and snapshots, and the provenance of generated documents.
\<close>

section \<open>Transactions that leave tables alone\<close>

text \<open>Only the queue's tables change.\<close>

definition queue_only :: "'z app_db_scheme \<Rightarrow> 'z app_db_scheme \<Rightarrow> bool" where
  "queue_only db db' \<longleftrightarrow> (\<exists>js ats rs. db' = db\<lparr>jobs := js, attempts := ats, results := rs\<rparr>)"

lemma queue_onlyI: "db' = db\<lparr>jobs := jobs db', attempts := attempts db', results := results db'\<rparr> \<Longrightarrow> queue_only db db'"
  unfolding queue_only_def by blast

lemma queue_only_session:
  assumes "queue_only db db'" "session_inv db"
  shows "session_inv db'"
  by (rule session_inv_cong [OF assms(2)]) (use assms(1) in \<open>auto simp: queue_only_def\<close>)

lemma queue_only_provenance:
  assumes "queue_only db db'" "provenance db"
  shows "provenance db'"
  by (rule provenance_cong [OF assms(2)]) (use assms(1) in \<open>auto simp: queue_only_def extends_tables_def\<close>)

lemma queue_only_refl [simp]: "queue_only db db"
  by (rule queue_onlyI) simp

lemma claim_queue_only: "queue_only db (snd (claim_next locked tok aid now now' owner secs kinds db))"
proof -
  have "queue_only db db'" if "claim_body locked tok aid now now' owner secs ks db = Inr (r, db')" for ks r db'
    using that by (auto simp: claim_body_def Let_def and_then_Inr insert_attempt_def split: option.splits if_splits intro!: queue_onlyI)
  then show ?thesis
    by (auto simp: claim_next_def transaction_def Let_def split: sum.splits)
qed

lemma heartbeat_queue_only: "queue_only db (snd (heartbeat now c secs db))"
  by (auto simp: heartbeat_def transaction_def heartbeat_body_def split: sum.splits intro!: queue_onlyI)

lemma requeue_queue_only: "queue_only db (snd (requeue_retryable now jid g db))"
  by (auto simp: requeue_retryable_def transaction_def requeue_body_def Let_def split: sum.splits intro!: queue_onlyI)

lemma enqueue_queue_only: "queue_only db (snd (enqueue jid now key kind payload snap db))"
proof -
  have "queue_only db db'" if "insert_job_if_new r db = Inr db'" for r db'
    using that by (auto simp: insert_job_if_new_def split: if_splits intro!: queue_onlyI)
  then show ?thesis
    by (auto simp: enqueue_def transaction_def enqueue_body_def Let_def and_then_Inr split: sum.splits option.splits)
qed

text \<open>A completion is its effect between two changes of the queue's tables.\<close>

lemma complete_body_effect:
  assumes "complete_body sha rid now c target res code effect db = Inr (r, db')"
  shows "\<exists>db1 db2. queue_only db db1 \<and> effect db1 = Inr db2 \<and> queue_only db2 db'"
proof -
  let ?db1 = "db\<lparr>jobs := update_rows (holds_lease c now) (complete_job target code now) (jobs db)\<rparr>"
  from assms obtain db2 db3 where d: "effect ?db1 = Inr db2"
    "(if target = J_SUCCEEDED then insert_result sha rid (cl_id c) (JObj res) db2 else Inr db2) = Inr db3"
    "db' = db3\<lparr>attempts := update_rows (my_attempt c) (close_attempt target code now) (attempts db3)\<rparr>"
    by (auto simp: complete_body_def Let_def and_then_Inr)
  have "queue_only db ?db1" by (rule queue_onlyI) simp
  moreover have "queue_only db2 db'"
    using d(2,3) by (auto simp: insert_result_def Let_def split: if_splits option.splits intro!: queue_onlyI)
  ultimately show ?thesis using d(1) by blast
qed

section \<open>Recomputing keeps the session invariant\<close>

lemma projected_states:
  "project_generation_aggregate views = Inr p \<Longrightarrow> ga_state p \<in> {PROCESSING, READY, NEEDS_ATTENTION}"
  by (auto simp: project_generation_aggregate_def Let_def and_then_Inr split: if_splits)

text \<open>The session of the snapshot takes the state of the snapshot's runs, whatever its state and epoch are.\<close>

lemma recompute_sessions:
  assumes inv: "session_inv db" and r: "recompute_aggregate d sn db = Inr (res, db')"
  shows "\<exists>s v. s \<in> set (sessions db) \<and> 1 \<le> ts_epoch s \<and> ag_session res = ts_id s \<and>
    ag_state res \<in> {PROCESSING, READY, NEEDS_ATTENTION} \<and> snapshots db' = snapshots db \<and> runs db' = runs db \<and>
    sessions db' = update_rows (\<lambda>x. ts_id x = ts_id s \<and> ts_state x \<noteq> ag_state res) (project_state (ag_state res) v) (sessions db)"
proof -
  obtain n s views p db1 where n: "find (\<lambda>n. sn_id n = sn) (snapshots db) = Some n" "find_session db (sn_session n) = Some s"
    and p: "project_generation_aggregate views = Inr p" and
    ap: "if ts_state s \<noteq> ga_state p then apply_projection d s (ga_state p) (map ar_code (ga_reasons p)) db = Inr db1 else db1 = db"
    and j: "if ga_state p = READY then insert_job_if_new (suggestions_job (pd_job d) sn (sn_pipeline n) (pd_now d)) db1 = Inr db'
     else db' = db1" and res: "res = \<lparr>ag_session = ts_id s, ag_state = ga_state p, ag_reasons = map ar_code (ga_reasons p),
       ag_to_ready = (ts_state s \<noteq> ga_state p \<and> ga_state p = READY)\<rparr>"
    using recompute_Inr [OF r] by blast
  have mem: "n \<in> set (snapshots db)" "s \<in> set (sessions db)" "ts_id s = sn_session n"
    using find_Some_set [OF n(1)] find_session_Some [OF n(2)] by simp_all
  have e: "1 \<le> ts_epoch s" using session_inv_epoch [OF inv mem] by simp
  let ?v = "ts_version s + 1"
  have only: "x = s" if "x \<in> set (sessions db)" "ts_id x = ts_id s" for x
    using inv that mem(2) by (intro distinct_key_unique [where key = ts_id]) (simp_all add: session_inv_def)
  have 1: "snapshots db1 = snapshots db \<and> runs db1 = runs db \<and>
      sessions db1 = update_rows (\<lambda>x. ts_id x = ts_id s \<and> ts_state x \<noteq> ga_state p) (project_state (ga_state p) ?v) (sessions db)"
  proof (cases "ts_state s \<noteq> ga_state p")
    case True
    have fr: "activity_frame (db\<lparr>sessions := update_rows (\<lambda>x. ts_id x = ts_id s) (project_state (ga_state p) ?v) (sessions db)\<rparr>) db1"
      using apply_projection_Inr [of d s "ga_state p" "map ar_code (ga_reasons p)" db db1] ap True by simp
    have "update_rows (\<lambda>x. ts_id x = ts_id s) (project_state (ga_state p) ?v) (sessions db) =
        update_rows (\<lambda>x. ts_id x = ts_id s \<and> ts_state x \<noteq> ga_state p) (project_state (ga_state p) ?v) (sessions db)"
      by (rule update_rows_cong) (use only True in blast)
    then show ?thesis using fr by (simp add: frame_same)
  next
    case False
    then have "update_rows (\<lambda>x. ts_id x = ts_id s \<and> ts_state x \<noteq> ga_state p) (project_state (ga_state p) ?v) (sessions db) = sessions db"
      by (intro update_rows_none) (use only in blast)
    then show ?thesis using ap False by simp
  qed
  have "sessions db' = sessions db1" "snapshots db' = snapshots db1" "runs db' = runs db1"
    using j by (auto split: if_splits dest!: insert_job_if_new_same)
  then show ?thesis using 1 e mem projected_states [OF p]
    by (intro exI [of _ s] exI [of _ ?v]) (simp add: res)
qed

lemma recompute_session_inv:
  assumes inv: "session_inv db" and r: "recompute_aggregate d sn db = Inr (res, db')"
  shows "session_inv db'"
proof -
  obtain s v where s: "s \<in> set (sessions db)" "1 \<le> ts_epoch s" "ag_state res \<in> {PROCESSING, READY, NEEDS_ATTENTION}"
    "snapshots db' = snapshots db" "runs db' = runs db"
    "sessions db' = update_rows (\<lambda>x. ts_id x = ts_id s \<and> ts_state x \<noteq> ag_state res) (project_state (ag_state res) v) (sessions db)"
    using recompute_sessions [OF inv r] by blast
  show ?thesis
  proof (rule session_inv_update [OF inv s(6,4)])
    fix x assume x: "x \<in> set (sessions db)" "ts_id x = ts_id s \<and> ts_state x \<noteq> ag_state res"
    then have "x = s" using inv s(1) by (intro distinct_key_unique [where key = ts_id]) (simp_all add: session_inv_def)
    then show "ts_state (project_state (ag_state res) v x) \<noteq> CLOSED \<and>
        (ts_state (project_state (ag_state res) v x) \<in> {PROCESSING, READY, NEEDS_ATTENTION} \<longrightarrow> ts_epoch x \<noteq> 0)"
      using s(2,3) by (auto simp: project_state_def)
  qed (simp_all add: s(5) project_state_def)
qed

lemma same_identity_inv:
  assumes "session_inv db" "sessions db' = sessions db" "snapshots db' = snapshots db" "map run_identity (runs db') = map run_identity (runs db)"
  shows "session_inv db'"
  using assms(4) by (intro session_inv_cong [OF assms(1-3)]) (simp add: run_identity_def [abs_def])

lemma persist_execution_keeps:
  assumes p: "persist_execution sha d e db = Inr (r, db')" and ok: "execution_outcome_ok e"
    and inv: "session_inv db" "provenance db"
  shows "session_inv db' \<and> provenance db'"
proof (cases "ge_completion e")
  case None
  then obtain code where f: "persist_failure d (ge_snapshot e) (ge_kind e) (ge_pipeline e) code (ge_retryable e) db = Inr (r, db')"
    using p by (auto simp: persist_execution_def split: option.splits)
  let ?db = "db\<lparr>runs := update_rows (writable_run (ge_snapshot e) (ge_kind e) (ge_pipeline e))
      (failed_run (if ge_retryable e then G_FAILED_RETRYABLE else G_FAILED_TERMINAL) code (pd_now d)) (runs db)\<rparr>"
  have "session_inv ?db"
    by (rule same_identity_inv [OF inv(1)]) (simp_all add: update_identity failed_run_identity)
  then show ?thesis
    using persist_failure_Inr [OF f] recompute_session_inv persist_failure_provenance [OF f inv(2)] by blast
next
  case (Some c)
  then have s: "persist_success sha d c db = Inr (r, db')" and chk: "check_completion_write c = Inr ()"
    using p ok by (simp_all add: persist_execution_def execution_outcome_ok_def)
  obtain db1 where 1: "persist_artifact sha c (pd_now d) db = Inr db1" "recompute_aggregate d (gc_snapshot c) db1 = Inr (r, db')"
    using s unfolding persist_success_Inr by blast
  obtain run x where t: "db1 = artifact_tables c (pd_now d) run x db" using persist_artifact_tables [OF 1(1)] by blast
  have "session_inv db1"
    by (rule same_identity_inv [OF inv(1)]) (simp_all add: t artifact_tables_def update_identity succeeded_run_identity)
  then show ?thesis using recompute_session_inv [OF _ 1(2)] persist_success_provenance [OF s chk inv(2)] by blast
qed

lemma complete_claim_keeps:
  assumes ok: "\<And>e. x = Some e \<Longrightarrow> execution_outcome_ok e" and inv: "session_inv db" "provenance db"
  shows "session_inv (snd (complete_claim r d c x db)) \<and> provenance (snd (complete_claim r d c x db))"
proof (cases "complete_claim r d c x db")
  case (Pair res db')
  show ?thesis
  proof (cases res)
    case (Inl e)
    then have "db' = db" using Pair pgq.finish_failed unfolding complete_claim_call by blast
    then show ?thesis using inv Pair by simp
  next
    case (Inr u)
    let ?w = "completion_call r d x :: 'a app_db_scheme completion_call"
    have "complete_body (fc_sha ?w) (fc_result_id ?w) (fc_now ?w) c (fc_target ?w) (fc_result ?w) (fc_code ?w) (fc_effect ?w) db = Inr (u, db')"
      using Pair Inr unfolding complete_claim_call run_completion_def
      by (auto simp: complete_with_effects_def transaction_Inr_iff split: sum.splits)
    from complete_body_effect [OF this] obtain db1 db2 where d: "queue_only db db1" "fc_effect ?w db1 = Inr db2" "queue_only db2 db'"
      by blast
    have i1: "session_inv db1" "provenance db1" using d(1) inv queue_only_session queue_only_provenance by blast+
    have "session_inv db2 \<and> provenance db2"
    proof (cases x)
      case None
      then show ?thesis using d(2) i1 by (simp add: completion_call_def)
    next
      case (Some e)
      then obtain a where "persist_execution (rn_sha256 r) (wd_persist d) e db1 = Inr (a, db2)"
        using d(2) by (auto simp: completion_call_def fenced_effect_def and_then_Inr)
      then show ?thesis using persist_execution_keeps ok [OF Some] i1 by blast
    qed
    then show ?thesis using d(3) queue_only_session queue_only_provenance Pair by (metis snd_conv)
  qed
qed

section \<open>Close, reopen and retry\<close>

lemma closes_provenance:
  assumes p: "provenance db" and c: "closes d s actor reqs pipeline pins version db db'"
  shows "provenance db'"
  by (rule provenance_cong [OF p]) (use c in \<open>auto simp: closes_def extends_tables_def\<close>)

lemma close_keeps:
  assumes q: "queue_inv db" and s: "session_inv db" and p: "provenance db"
  shows "queue_inv (snd (close d sid actor reqs pipeline av db)) \<and> session_inv (snd (close d sid actor reqs pipeline av db)) \<and>
    provenance (snd (close d sid actor reqs pipeline av db))"
proof (cases "close d sid actor reqs pipeline av db")
  case (Pair r db')
  have "queue_inv db' \<and> provenance db'"
  proof (cases r)
    case (Inl e)
    then have "db' = db" using Pair by (auto simp: close_def transaction_Inl_iff split: sum.splits)
    then show ?thesis using q p by simp
  next
    case (Inr c)
    then have call: "close d sid actor reqs pipeline av db = (Inr c, db')" using Pair by simp
    then obtain x where x: "find_session db sid = Some x"
      by (elim close_Inr) (auto simp: close_body_def and_then_Inr host_session_Inr member_session_Some)
    have dist: "distinct (map ts_id (sessions db))" using s by (simp add: session_inv_def)
    show ?thesis
    proof (cases "ts_state x = OPEN")
      case True
      from close_open_Inr [OF call dist x True] obtain pins version where
        "adds_jobs db db'" "closes d x actor reqs pipeline pins version db db'" by blast
      then show ?thesis using adds_jobs_inv [OF q] closes_provenance [OF p] by blast
    next
      case False
      then show ?thesis using close_again_Inr [OF call x] q p by simp
    qed
  qed
  then show ?thesis using close_keeps_inv [OF s] Pair by (metis snd_conv)
qed

lemma frame_queue: "activity_frame db db' \<Longrightarrow> adds_jobs db db'"
  using frame_same(1) by (intro adds_jobs_same) (auto simp: same_queue_def)

lemma reopen_keeps:
  assumes "queue_inv db" "session_inv db" "provenance db"
  shows "queue_inv (snd (reopen d sid actor db)) \<and> session_inv (snd (reopen d sid actor db)) \<and> provenance (snd (reopen d sid actor db))"
proof (cases "reopen_body d sid actor db")
  case (Inl e)
  then show ?thesis using assms by (simp add: reopen_def)
next
  case (Inr p)
  then obtain st db' where b: "reopen_body d sid actor db = Inr (st, db')" by (cases p) simp
  obtain s :: session_row where or: "db' = db \<or> activity_frame (db\<lparr>sessions := update_rows (\<lambda>x. ts_id x = sid \<and> ts_state x = ts_state s) to_open
        (sessions db)\<rparr>) db'" using reopen_body_Inr [OF b] by blast
  then have "queue_inv db' \<and> provenance db'"
  proof
    assume fr: "activity_frame (db\<lparr>sessions := update_rows (\<lambda>x. ts_id x = sid \<and> ts_state x = ts_state s) to_open (sessions db)\<rparr>) db'"
    let ?m = "db\<lparr>sessions := update_rows (\<lambda>x. ts_id x = sid \<and> ts_state x = ts_state s) to_open (sessions db)\<rparr>"
    have "queue_inv ?m" using adds_jobs_inv [OF assms(1), of ?m] by (simp add: adds_jobs_same)
    moreover have "provenance ?m" by (rule provenance_cong [OF assms(3)]) (simp_all add: extends_tables_def)
    ultimately show ?thesis using adds_jobs_inv [OF _ frame_queue [OF fr]] frame_provenance [OF fr] by blast
  qed (use assms in simp)
  moreover have "session_inv db'" using reopen_keeps_inv [OF assms(2), of d sid actor] b by (simp add: reopen_def)
  ultimately show ?thesis using b by (simp add: reopen_def)
qed

lemma requeue_kind_queue:
  assumes "requeue_kind d sn k db = Inr db'" "queue_inv db"
  shows "queue_inv db'"
  by (rule requeue_rows_inv [OF assms(2), where P = "retryable_job sn k" and now = "rt_now d k"])
    (use assms(1) in \<open>auto simp: requeue_kind_def Let_def retryable_job_def\<close>)

lemma retry_keeps:
  assumes "queue_inv db" "session_inv db" "provenance db"
  shows "queue_inv (snd (retry d sid actor db)) \<and> session_inv (snd (retry d sid actor db)) \<and> provenance (snd (retry d sid actor db))"
proof (cases "retry_body d sid actor db")
  case (Inl e)
  then show ?thesis using assms by (simp add: retry_def)
next
  case (Inr p)
  then obtain v db' where b: "retry_body d sid actor db = Inr (v, db')" by (cases p) simp
  have "queue_inv db'"
  proof -
    from b consider "db' = db" | s kinds sn db1 n where "fold_result (requeue_kind d sn) kinds db = Inr db1" "retry_write d s actor n db1 = Inr db'"
      by (auto simp: retry_body_def and_then_Inr Let_def split: if_splits)
    then show ?thesis
    proof cases
      case (2 s kinds sn db1 n)
      have "queue_inv db1"
        by (rule fold_result_invariant [OF 2(1), where I = queue_inv]) (use assms(1) requeue_kind_queue in blast)+
      then have "queue_inv (db1\<lparr>sessions := update_rows (\<lambda>x. ts_id x = ts_id s \<and> ts_state x = NEEDS_ATTENTION) to_retrying (sessions db1)\<rparr>)"
        by (rule adds_jobs_inv) (simp add: adds_jobs_same)
      then show ?thesis using retry_write_Inr [OF 2(2)] adds_jobs_inv frame_queue by blast
    qed (use assms in simp)
  qed
  moreover have "provenance db'"
  proof -
    have "db' = db \<or> (\<exists>s sn. retries d s sn db db')" using retry_body_Inr [OF b] by blast
    then show ?thesis
    proof
      assume "\<exists>s sn. retries d s sn db db'"
      then obtain s :: session_row and sn where r: "retries d s sn db db'" by blast
      have i: "run_identity (requeued_run r) = run_identity r" for r by (simp add: run_identity_def requeued_run_def)
      show ?thesis
        by (rule provenance_cong [OF assms(3)]) (use r in \<open>auto simp: retries_def extends_tables_def update_identity i\<close>)
    qed (use assms in simp)
  qed
  moreover have "session_inv db'" using retry_keeps_inv [OF assms(2), of d sid actor] b by (simp add: retry_def)
  ultimately show ?thesis using b by (simp add: retry_def)
qed

section \<open>Every interleaving\<close>

definition app_inv :: "'z app_db_scheme \<Rightarrow> bool" where
  "app_inv db \<longleftrightarrow> queue_inv db \<and> session_inv db \<and> provenance db"

text \<open>A transaction of another service: it may enqueue jobs and add anchors or pins, and leaves these tables alone.\<close>

definition elsewhere :: "'z app_db_scheme \<Rightarrow> 'z app_db_scheme \<Rightarrow> bool" where
  "elsewhere db db' \<longleftrightarrow>
     adds_jobs db db' \<and> sessions db' = sessions db \<and> snapshots db' = snapshots db \<and> runs db' = runs db \<and>
     documents db' = documents db \<and> segments db' = segments db \<and> citations db' = citations db \<and> claims db' = claims db \<and>
     set (pinned db) \<subseteq> set (pinned db') \<and> set (anchors db) \<subseteq> set (anchors db')"

text \<open>\<open>INSERT INTO talk_sessions\<close> of a new session: open, in generation epoch zero, without snapshots.\<close>

definition opens_session :: "session_row \<Rightarrow> 'z app_db_scheme \<Rightarrow> bool" where
  "opens_session s db \<longleftrightarrow> fresh ts_id s (sessions db) \<and> ts_id s \<notin> sn_session ` set (snapshots db) \<and> ts_state s = OPEN \<and> ts_epoch s = 0"

inductive app_step :: "'z app_db_scheme \<Rightarrow> 'z app_db_scheme \<Rightarrow> bool" where
  T_close: "app_step db (snd (close d sid actor reqs pipeline av db))"
| T_reopen: "app_step db (snd (reopen d sid actor db))"
| T_retry: "app_step db (snd (retry d sid actor db))"
| T_enqueue: "app_step db (snd (enqueue jid now key kind payload snap db))"
| T_claim: "app_step db (snd (claim_next locked tok aid now now' owner secs kinds db))"
| T_heartbeat: "app_step db (snd (heartbeat now c secs db))"
| T_complete: "(\<And>e. x = Some e \<Longrightarrow> execution_outcome_ok e) \<Longrightarrow> app_step db (snd (complete_claim r d c x db))"
| T_requeue: "app_step db (snd (requeue_retryable now jid g db))"
| T_session: "opens_session s db \<Longrightarrow> app_step db (db\<lparr>sessions := sessions db @ [s]\<rparr>)"
| T_elsewhere: "elsewhere db db' \<Longrightarrow> app_step db db'"

inductive app_reachable :: "app_db \<Rightarrow> bool" where
  R_init: "app_reachable empty_db"
| R_step: "app_reachable db \<Longrightarrow> app_step db db' \<Longrightarrow> app_reachable db'"

lemma queue_only_step:
  assumes "app_inv db" "queue_only db db'" "queue_inv db'"
  shows "app_inv db'"
  using assms queue_only_session queue_only_provenance by (auto simp: app_inv_def)

lemma new_session_inv:
  assumes inv: "session_inv db" and s: "opens_session s db"
  shows "session_inv (db\<lparr>sessions := sessions db @ [s]\<rparr>)"
proof -
  have "\<forall>n \<in> set (snapshots db). sn_session n \<noteq> ts_id s"
    using s unfolding opens_session_def by (metis imageI)
  then have "session_ok db s" using s by (auto simp: session_ok_def opens_session_def)
  then show ?thesis using inv s
    by (auto simp: session_inv_def session_ok_def runs_for_def opens_session_def fresh_def)
qed

lemma app_step_inv: "app_step db db' \<Longrightarrow> app_inv db \<Longrightarrow> app_inv db'"
proof (induction rule: app_step.induct)
  case (T_close db d sid actor reqs pipeline av)
  then show ?case using close_keeps unfolding app_inv_def by blast
next
  case (T_reopen db d sid actor)
  then show ?case using reopen_keeps unfolding app_inv_def by blast
next
  case (T_retry db d sid actor)
  then show ?case using retry_keeps unfolding app_inv_def by blast
next
  case (T_enqueue db jid now key kind payload snap)
  show ?case by (rule queue_only_step [OF T_enqueue enqueue_queue_only adds_jobs_inv [OF _ enqueue_adds]]) (use T_enqueue in \<open>simp add: app_inv_def\<close>)
next
  case (T_claim db locked tok aid now now' owner secs kinds)
  show ?case by (rule queue_only_step [OF T_claim claim_queue_only claim_next_inv]) (use T_claim in \<open>simp add: app_inv_def\<close>)
next
  case (T_heartbeat db now c secs)
  show ?case by (rule queue_only_step [OF T_heartbeat heartbeat_queue_only heartbeat_inv]) (use T_heartbeat in \<open>simp add: app_inv_def\<close>)
next
  case (T_complete x db r d c)
  have "queue_inv (snd (complete_claim r d c x db))"
    unfolding complete_claim_call run_completion_def
    by (rule complete_with_effects_inv [OF _ completion_call_admissible]) (use T_complete in \<open>simp add: app_inv_def\<close>)
  moreover have "session_inv (snd (complete_claim r d c x db)) \<and> provenance (snd (complete_claim r d c x db))"
    by (rule complete_claim_keeps) (use T_complete in \<open>auto simp: app_inv_def\<close>)
  ultimately show ?case by (simp add: app_inv_def)
next
  case (T_requeue db now jid g)
  show ?case by (rule queue_only_step [OF T_requeue requeue_queue_only requeue_retryable_inv]) (use T_requeue in \<open>simp add: app_inv_def\<close>)
next
  case (T_session s db)
  have "provenance (db\<lparr>sessions := sessions db @ [s]\<rparr>)"
    by (rule provenance_cong [of db]) (use T_session in \<open>simp_all add: app_inv_def extends_tables_def\<close>)
  moreover have "queue_inv (db\<lparr>sessions := sessions db @ [s]\<rparr>)"
    by (rule adds_jobs_inv [of db]) (use T_session in \<open>simp_all add: app_inv_def adds_jobs_same\<close>)
  ultimately show ?case using new_session_inv [of db s] T_session by (simp add: app_inv_def)
next
  case (T_elsewhere db db')
  have "session_inv db'"
    by (rule session_inv_cong [of db]) (use T_elsewhere in \<open>auto simp: app_inv_def elsewhere_def\<close>)
  moreover have "provenance db'"
    by (rule provenance_cong [of db]) (use T_elsewhere in \<open>auto simp: app_inv_def elsewhere_def extends_tables_def\<close>)
  ultimately show ?case using adds_jobs_inv [of db db'] T_elsewhere by (simp add: app_inv_def elsewhere_def)
qed

lemma empty_app_inv: "app_inv empty_db"
  by (simp add: app_inv_def queue_inv_def session_inv_def provenance_def provenance_for_def summaries_cited_def empty_db_def)

lemma app_reachable_inv: "app_reachable db \<Longrightarrow> app_inv db"
  by (induction rule: app_reachable.induct) (simp add: empty_app_inv, rule app_step_inv)

section \<open>The session machine\<close>

text \<open>
  The abstract machine of one session, its state and generation epoch, and the abstraction of the tables to it.
\<close>

inductive session_move :: "talk_session_state \<times> int \<Rightarrow> talk_session_state \<times> int \<Rightarrow> bool" where
  M_close: "session_move (OPEN, e) (PROCESSING, e + 1)"
| M_reopen: "st \<in> {READY, NEEDS_ATTENTION} \<Longrightarrow> session_move (st, e) (OPEN, e)"
| M_retry: "session_move (NEEDS_ATTENTION, e) (PROCESSING, e)"
| M_project: "1 \<le> e \<Longrightarrow> st' \<in> {PROCESSING, READY, NEEDS_ATTENTION} \<Longrightarrow> session_move (st, e) (st', e)"

definition life :: "session_row \<Rightarrow> talk_session_state \<times> int" where
  "life s = (ts_state s, ts_epoch s)"

definition lifecycle :: "'z app_db_scheme \<Rightarrow> uuid \<Rightarrow> (talk_session_state \<times> int) option" where
  "lifecycle db sid = map_option life (find_session db sid)"

definition session_moves :: "'z app_db_scheme \<Rightarrow> 'z app_db_scheme \<Rightarrow> bool" where
  "session_moves db db' \<longleftrightarrow>
     (\<forall>sid a. lifecycle db sid = Some a \<longrightarrow> (\<exists>b. lifecycle db' sid = Some b \<and> (b = a \<or> session_move a b)))"

lemma find_session_update:
  assumes "\<And>x. ts_id (f x) = ts_id x" "sessions db' = update_rows P f (sessions db)"
  shows "find_session db' sid = map_option (\<lambda>x. if P x then f x else x) (find_session db sid)"
proof -
  have "find (\<lambda>x. ts_id x = sid) (update_rows P f t) = map_option (\<lambda>x. if P x then f x else x) (find (\<lambda>x. ts_id x = sid) t)" for t
    by (induction t) (auto simp: assms(1))
  then show ?thesis by (simp add: find_session_def assms(2))
qed

lemma session_moves_same: "sessions db' = sessions db \<Longrightarrow> session_moves db db'"
  unfolding session_moves_def lifecycle_def find_session_def by metis

lemma session_moves_update:
  assumes "\<And>x. ts_id (f x) = ts_id x" "sessions db' = update_rows P f (sessions db)"
    and "\<And>x. x \<in> set (sessions db) \<Longrightarrow> P x \<Longrightarrow> session_move (life x) (life (f x))"
  shows "session_moves db db'"
  unfolding session_moves_def
proof (intro allI impI)
  fix sid a assume "lifecycle db sid = Some a"
  then obtain x where x: "find_session db sid = Some x" "a = life x" by (auto simp: lifecycle_def)
  have "lifecycle db' sid = Some (life (if P x then f x else x))"
    using find_session_update [OF assms(1,2), of sid] x by (simp add: lifecycle_def)
  then show "\<exists>b. lifecycle db' sid = Some b \<and> (b = a \<or> session_move a b)"
    using assms(3) [of x] find_session_Some [OF x(1)] x(2) by (cases "P x") auto
qed

lemma session_moves_cong:
  "sessions a = sessions b \<Longrightarrow> sessions c = sessions d \<Longrightarrow> session_moves a c \<longleftrightarrow> session_moves b d"
  by (simp add: session_moves_def lifecycle_def find_session_def)

lemma queue_only_sessions: "queue_only db db' \<Longrightarrow> sessions db' = sessions db"
  by (auto simp: queue_only_def)

lemma recompute_moves:
  assumes inv: "session_inv db" and r: "recompute_aggregate d sn db = Inr (res, db')"
  shows "session_moves db db'"
proof -
  obtain s v where s: "s \<in> set (sessions db)" "1 \<le> ts_epoch s" "ag_state res \<in> {PROCESSING, READY, NEEDS_ATTENTION}"
    "sessions db' = update_rows (\<lambda>x. ts_id x = ts_id s \<and> ts_state x \<noteq> ag_state res) (project_state (ag_state res) v) (sessions db)"
    using recompute_sessions [OF inv r] by blast
  show ?thesis
  proof (rule session_moves_update [OF _ s(4)])
    fix x assume x: "x \<in> set (sessions db)" "ts_id x = ts_id s \<and> ts_state x \<noteq> ag_state res"
    then have "x = s" using inv s(1) by (intro distinct_key_unique [where key = ts_id]) (simp_all add: session_inv_def)
    then show "session_move (life x) (life (project_state (ag_state res) v x))"
      using s(2,3) by (simp add: life_def project_state_def M_project)
  qed (simp add: project_state_def)
qed

lemma persist_execution_moves:
  assumes p: "persist_execution sha d e db = Inr (r, db')" and inv: "session_inv db"
  shows "session_moves db db'"
proof (cases "ge_completion e")
  case None
  then obtain code where f: "persist_failure d (ge_snapshot e) (ge_kind e) (ge_pipeline e) code (ge_retryable e) db = Inr (r, db')"
    using p by (auto simp: persist_execution_def split: option.splits)
  let ?db = "db\<lparr>runs := update_rows (writable_run (ge_snapshot e) (ge_kind e) (ge_pipeline e))
      (failed_run (if ge_retryable e then G_FAILED_RETRYABLE else G_FAILED_TERMINAL) code (pd_now d)) (runs db)\<rparr>"
  have "session_inv ?db"
    by (rule same_identity_inv [OF inv]) (simp_all add: update_identity failed_run_identity)
  then have "session_moves ?db db'" using persist_failure_Inr [OF f] recompute_moves by blast
  then show ?thesis by (simp add: session_moves_cong [of ?db db db' db'])
next
  case (Some c)
  then have s: "persist_success sha d c db = Inr (r, db')" using p by (simp add: persist_execution_def)
  obtain db1 where 1: "persist_artifact sha c (pd_now d) db = Inr db1" "recompute_aggregate d (gc_snapshot c) db1 = Inr (r, db')"
    using s unfolding persist_success_Inr by blast
  obtain run x where t: "db1 = artifact_tables c (pd_now d) run x db" using persist_artifact_tables [OF 1(1)] by blast
  have "session_inv db1"
    by (rule same_identity_inv [OF inv]) (simp_all add: t artifact_tables_def update_identity succeeded_run_identity)
  then have "session_moves db1 db'" using 1(2) by (rule recompute_moves)
  moreover have "sessions db1 = sessions db" by (simp add: t artifact_tables_def)
  ultimately show ?thesis by (simp add: session_moves_cong [of db1 db db' db'])
qed

lemma complete_claim_moves:
  assumes inv: "session_inv db"
  shows "session_moves db (snd (complete_claim r d c x db))"
proof (cases "complete_claim r d c x db")
  case (Pair res db')
  show ?thesis
  proof (cases res)
    case (Inl e)
    then have "db' = db" using Pair pgq.finish_failed unfolding complete_claim_call by blast
    then show ?thesis using Pair by (simp add: session_moves_same)
  next
    case (Inr u)
    let ?w = "completion_call r d x :: 'a app_db_scheme completion_call"
    have "complete_body (fc_sha ?w) (fc_result_id ?w) (fc_now ?w) c (fc_target ?w) (fc_result ?w) (fc_code ?w) (fc_effect ?w) db = Inr (u, db')"
      using Pair Inr unfolding complete_claim_call run_completion_def
      by (auto simp: complete_with_effects_def transaction_Inr_iff split: sum.splits)
    from complete_body_effect [OF this] obtain db1 db2 where d: "queue_only db db1" "fc_effect ?w db1 = Inr db2" "queue_only db2 db'"
      by blast
    have i1: "session_inv db1" using d(1) inv by (rule queue_only_session)
    have "session_moves db1 db2"
    proof (cases x)
      case None
      then show ?thesis using d(2) by (simp add: completion_call_def session_moves_same)
    next
      case (Some e)
      then obtain a where "persist_execution (rn_sha256 r) (wd_persist d) e db1 = Inr (a, db2)"
        using d(2) by (auto simp: completion_call_def fenced_effect_def and_then_Inr)
      then show ?thesis using persist_execution_moves i1 by blast
    qed
    then show ?thesis
      using session_moves_cong [OF queue_only_sessions [OF d(1)] queue_only_sessions [OF d(3), symmetric]] Pair by simp
  qed
qed

lemma close_moves:
  assumes inv: "session_inv db"
  shows "session_moves db (snd (close d sid actor reqs pipeline av db))"
proof (cases "close d sid actor reqs pipeline av db")
  case (Pair r db')
  show ?thesis
  proof (cases r)
    case (Inl e)
    then have "db' = db" using Pair by (auto simp: close_def transaction_Inl_iff split: sum.splits)
    then show ?thesis using Pair by (simp add: session_moves_same)
  next
    case (Inr c)
    then have call: "close d sid actor reqs pipeline av db = (Inr c, db')" using Pair by simp
    then obtain s where s: "find_session db sid = Some s"
      by (elim close_Inr) (auto simp: close_body_def and_then_Inr host_session_Inr member_session_Some)
    have dist: "distinct (map ts_id (sessions db))" using inv by (simp add: session_inv_def)
    show ?thesis
    proof (cases "ts_state s = OPEN")
      case True
      from close_open_Inr [OF call dist s True] have "sessions db' = update_rows (\<lambda>x. ts_id x = ts_id s) (closed_row (cd_now d)) (sessions db)"
        by (auto simp: closes_def)
      then have "session_moves db db'"
      proof (rule session_moves_update [rotated])
        fix x assume x: "x \<in> set (sessions db)" "ts_id x = ts_id s"
        then have "x = s" using find_session_Some [OF s] by (intro distinct_key_unique [OF dist]) simp_all
        then show "session_move (life x) (life (closed_row (cd_now d) x))"
          using True by (simp add: life_def closed_row_def M_close)
      qed (simp add: closed_row_def)
      then show ?thesis using Pair by simp
    next
      case False
      then show ?thesis using close_again_Inr [OF call s] Pair by (simp add: session_moves_same)
    qed
  qed
qed

lemma reopen_moves: "session_moves db (snd (reopen d sid actor db))"
proof (cases "reopen_body d sid actor db")
  case (Inl e)
  then show ?thesis by (simp add: reopen_def session_moves_same)
next
  case (Inr p)
  then obtain st db' where b: "reopen_body d sid actor db = Inr (st, db')" by (cases p) simp
  from reopen_body_Inr [OF b] obtain s :: session_row where "db' = db \<or> ts_state s \<in> {READY, NEEDS_ATTENTION} \<and>
      activity_frame (db\<lparr>sessions := update_rows (\<lambda>x. ts_id x = sid \<and> ts_state x = ts_state s) to_open (sessions db)\<rparr>) db'" by blast
  then have "session_moves db db'"
  proof
    assume a: "ts_state s \<in> {READY, NEEDS_ATTENTION} \<and>
      activity_frame (db\<lparr>sessions := update_rows (\<lambda>x. ts_id x = sid \<and> ts_state x = ts_state s) to_open (sessions db)\<rparr>) db'"
    then have "sessions db' = update_rows (\<lambda>x. ts_id x = sid \<and> ts_state x = ts_state s) to_open (sessions db)"
      by (auto dest: frame_same)
    then show ?thesis
      by (rule session_moves_update [rotated]) (use a in \<open>auto simp: life_def to_open_def intro: M_reopen\<close>)
  qed (simp add: session_moves_same)
  then show ?thesis using b by (simp add: reopen_def)
qed

lemma retry_moves: "session_moves db (snd (retry d sid actor db))"
proof (cases "retry_body d sid actor db")
  case (Inl e)
  then show ?thesis by (simp add: retry_def session_moves_same)
next
  case (Inr p)
  then obtain v db' where b: "retry_body d sid actor db = Inr (v, db')" by (cases p) simp
  from retry_body_Inr [OF b] have "db' = db \<or> (\<exists>s sn. retries d s sn db db')" by blast
  then have "session_moves db db'"
  proof
    assume "\<exists>s sn. retries d s sn db db'"
    then obtain s :: session_row and sn where "retries d s sn db db'" by blast
    then have "sessions db' = update_rows (\<lambda>x. ts_id x = ts_id s \<and> ts_state x = NEEDS_ATTENTION) to_retrying (sessions db)"
      by (auto simp: retries_def)
    then show ?thesis
      by (rule session_moves_update [rotated]) (auto simp: life_def to_retrying_def intro: M_retry)
  qed (simp add: session_moves_same)
  then show ?thesis using b by (simp add: retry_def)
qed

lemma new_session_moves: "session_moves db (db\<lparr>sessions := sessions db @ [s]\<rparr>)"
  by (auto simp: session_moves_def lifecycle_def find_session_def find_append_Some)

lemma app_step_moves: "app_step db db' \<Longrightarrow> app_inv db \<Longrightarrow> session_moves db db'"
proof (induction rule: app_step.induct)
  case (T_close db d sid actor reqs pipeline av)
  then show ?case by (simp add: app_inv_def close_moves)
next
  case (T_complete x db r d c)
  then show ?case by (simp add: app_inv_def complete_claim_moves)
next
  case (T_elsewhere db db')
  then show ?case by (simp add: elsewhere_def session_moves_same)
qed (simp_all add: reopen_moves retry_moves new_session_moves session_moves_same queue_only_sessions
  enqueue_queue_only claim_queue_only heartbeat_queue_only requeue_queue_only)

end
