(* ===== verification/System_Properties.thy ===== *)
theory System_Properties
  imports System
begin

text \<open>
  The properties of the services together: the invariant of every reachable state, the refinement of the session
  machine, what recomputing does to a session that has moved on, and progress of the queue.
\<close>

section \<open>Invariant\<close>

lemma sample_close_reachable: "app_reachable sample_close_db"
proof -
  let ?one = "empty_db\<lparr>sessions := [sample_session]\<rparr>"
  have "opens_session sample_session empty_db"
    by (simp add: opens_session_def fresh_def empty_db_def sample_session_def)
  from R_step [OF R_init T_session [OF this]] have "app_reachable ?one" by (simp add: empty_db_def)
  moreover have "elsewhere ?one sample_close_db"
    by (simp add: elsewhere_def sample_close_db_def empty_db_def adds_jobs_same)
  ultimately show ?thesis by (metis R_step T_elsewhere)
qed



section \<open>Refinement of the session machine\<close>





section \<open>Late results\<close>

text \<open>
  Recomputing gives the session of a snapshot the state of that snapshot's runs, whatever the session's state is
  and whether or not the snapshot is the one of its current epoch: nothing protects a session the host has reopened.
\<close>

theorem late_result_decides_state:
  assumes "session_inv db" and "find (\<lambda>n. sn_id n = sn) (snapshots db) = Some n"
    and "find_session db (sn_session n) = Some s" and "recompute_aggregate d sn db = Inr (res, db')"
  shows "lifecycle db' (ts_id s) = Some (ag_state res, ts_epoch s) \<and> ag_state res \<in> {PROCESSING, READY, NEEDS_ATTENTION} \<and>
    (\<exists>views p. map_result run_view (snapshot_runs db sn) = Inr views \<and>
       project_generation_aggregate views = Inr p \<and> ag_state res = ga_state p)"
proof -
  obtain views p where v: "map_result run_view (snapshot_runs db sn) = Inr views" "project_generation_aggregate views = Inr p"
    "ag_state res = ga_state p" "ag_session res = ts_id s"
    using recompute_Inr [OF assms(4)] assms(2,3) by auto
  obtain x :: session_row and w where x: "ag_session res = ts_id x"
    "sessions db' = update_rows (\<lambda>y. ts_id y = ts_id x \<and> ts_state y \<noteq> ag_state res) (project_state (ag_state res) w) (sessions db)"
    using recompute_sessions [OF assms(1,4)] by blast
  have f: "find_session db (ts_id s) = Some s" using assms(3) find_session_Some by metis
  have "find_session db' (ts_id s) = map_option (\<lambda>y. if ts_id y = ts_id x \<and> ts_state y \<noteq> ag_state res
      then project_state (ag_state res) w y else y) (find_session db (ts_id s))"
    by (rule find_session_update [OF _ x(2)]) (simp add: project_state_def)
  then have "lifecycle db' (ts_id s) = Some (ag_state res, ts_epoch s)"
    using f v(4) x(1) by (auto simp: lifecycle_def life_def project_state_def)
  then show ?thesis using v projected_states by metis
qed

text \<open>The session was reopened while its research run was waiting for an automatic attempt, which now succeeds.\<close>

definition sample_reopened_db :: app_db where
  "sample_reopened_db = sample_processing_db\<lparr>memberships := [], jobs := [],
     sessions := [sample_session\<lparr>ts_state := OPEN, ts_epoch := 1, ts_version := 4\<rparr>],
     runs := [(queued_run 60 50 SUMMARY (u ''p1''))\<lparr>gr_state := G_SUCCEEDED\<rparr>,
       (queued_run 61 50 RESEARCH (u ''p1''))\<lparr>gr_state := G_SUCCEEDED\<rparr>]\<rparr>"

lemma reopened_views:
  "map_result run_view (snapshot_runs sample_reopened_db 50) =
     Inr [\<lparr>rv_kind = RESEARCH, rv_state = G_SUCCEEDED, rv_error_code = None\<rparr>,
          \<lparr>rv_kind = SUMMARY, rv_state = G_SUCCEEDED, rv_error_code = None\<rparr>]"
proof -
  have o: "u ''research'' \<le> u ''summary''" by (simp add: u_def)
  show ?thesis
    using o by (simp add: snapshot_runs_def sample_reopened_db_def queued_run_def run_view_def make_generation_run_view_def del: u_simps)
qed

lemma reopened_projection:
  "project_generation_aggregate [\<lparr>rv_kind = RESEARCH, rv_state = G_SUCCEEDED, rv_error_code = None\<rparr>,
     \<lparr>rv_kind = SUMMARY, rv_state = G_SUCCEEDED, rv_error_code = None\<rparr>] =
     Inr \<lparr>ga_state = READY, ga_reasons = [], ga_retry_available = False, ga_action = A_NONE\<rparr>"
  by (simp add: project_generation_aggregate_def canonical_run_invariant_reasons_def canonical_generation_kinds_def
      run_count_reason_def runs_of_kind_def is_active_def del: u_simps)

lemma reopened_metadata: "storable (aggregate_metadata OPEN READY 1 [])"
  by (simp add: storable_def metadata_eval aggregate_metadata_def)

lemma uuid_seven: "uuid_text 7 = u ''00000000-0000-0000-0000-000000000007''"
  by code_simp

lemma reopened_effect:
  "apply_effect d a k (analysis_effect [] 7 1) st = Inr st"
proof -
  obtain j where "safe_audit_metadata [(Some (u ''session_id''), MStr (uuid_text 7)), (Some (u ''generation_epoch''), MInt 1)] = Inr j"
    "require_size 2048 (u ''outbox template data exceeds 2 KiB'') j = Inr j"
    by (simp add: uuid_seven metadata_eval)
  then show ?thesis
    by (cases st) (auto simp: apply_effect_def Let_def analysis_effect_def validate_notification_catalog_def action_pairs_def
      snapshot_preferences_def materialize_def analysis_title_def analysis_body_def first_occurrences_def simp del: u_simps)
qed

lemma reopened_projects: "\<exists>db'. apply_projection (wd_persist sample_worker_draws)
   (sample_session\<lparr>ts_state := OPEN, ts_epoch := 1, ts_version := 4\<rparr>) READY [] sample_reopened_db = Inr db'"
proof -
  let ?s = "sample_session\<lparr>ts_state := OPEN, ts_epoch := 1, ts_version := 4\<rparr>"
  let ?db = "sample_reopened_db\<lparr>sessions := [project_state READY 5 ?s]\<rparr>"
  have up: "update_session (\<lambda>x. ts_id x = 7) (project_state READY 5) e sample_reopened_db = Inr ?db" for e
    by (simp add: update_session_def sample_reopened_db_def sample_session_def)
  have k: "build_event_key (u ''session.ready'') (session_identity 7 5) = Inr (u ''session:'' @ uuid_text 7 @ u '':state-v5:ready'')"
    by (simp add: build_event_key_def supported_event_types_def event_template_def ustr_startswith_def
      after_last_dot_def session_identity_def segment_text_def field_def ustr_join_def int_text_def dec_digits.simps)
  obtain j where j: "safe_audit_metadata (aggregate_metadata OPEN READY 1 []) = Inr j" "jsonb_size_at_most 4096 j"
    using reopened_metadata [THEN storable_obtain] by blast
  have t: "u ''session.ready'' \<in> set supported_event_types" by (simp add: supported_event_types_def)
  have m: "current_members ?db 3 = []" by (simp add: current_members_def sample_reopened_db_def)
  have v: "u ''session.'' @ u ''ready'' = u ''session.ready''" by simp
  have "\<exists>db'. checked_append 85 \<lparr>na_key = u ''session:'' @ uuid_text 7 @ u '':state-v5:ready'', na_type = u ''session.ready'',
      na_actor = None, na_scope = SC_SESSION, na_audience = None, na_room = Some 3, na_session = Some 7,
      na_entity_type = u ''session'', na_entity_id = 7, na_metadata = aggregate_metadata OPEN READY 1 []\<rparr> ?db = Inr (True, db')"
    using j t by (simp add: checked_append_def append_activity_def new_audit_row_def audit_checks_def scope_shape_def fresh_def
      project_state_def sample_reopened_db_def sample_processing_db_def published_eval sample_session_def del: u_simps)
  then obtain db' where a: "checked_append 85 \<lparr>na_key = u ''session:'' @ uuid_text 7 @ u '':state-v5:ready'', na_type = u ''session.ready'',
      na_actor = None, na_scope = SC_SESSION, na_audience = None, na_room = Some 3, na_session = Some 7,
      na_entity_type = u ''session'', na_entity_id = 7, na_metadata = aggregate_metadata OPEN READY 1 []\<rparr> ?db = Inr (True, db')"
    by blast
  have ids: "ts_id ?s = 7" "ts_version ?s = 4" "ts_room ?s = 3" "ts_epoch ?s = 1" "ts_state ?s = OPEN"
    by (simp_all add: sample_session_def)
  show ?thesis
    using a k m by (simp add: apply_projection_def ids up v record_activity_def reopened_effect sample_worker_draws_def
      del: u_simps)
qed

lemma reopened_inv: "session_inv sample_reopened_db"
proof -
  have "length (runs_for sample_reopened_db 50 k) = 1" for k
    by (cases k) (simp_all add: runs_for_def sample_reopened_db_def queued_run_def del: u_simps)
  then show ?thesis
    by (simp add: session_inv_def session_ok_def)
      (simp add: sample_reopened_db_def sample_processing_db_def published_eval sample_session_def queued_run_def del: u_simps)
qed

theorem late_result_decides_state_witness:
  "\<exists>res db'. recompute_aggregate (wd_persist sample_worker_draws) 50 sample_reopened_db = Inr (res, db') \<and>
     lifecycle sample_reopened_db 7 = Some (OPEN, 1) \<and> lifecycle db' 7 = Some (READY, 1) \<and> READY \<notin> allowed_session_targets OPEN"
proof -
  let ?d = "wd_persist sample_worker_draws" and ?s = "sample_session\<lparr>ts_state := OPEN, ts_epoch := 1, ts_version := 4\<rparr>"
  let ?n = "\<lparr>sn_id = 50, sn_session = 7, sn_epoch = 1, sn_created_by = 5, sn_topic = u ''t'', sn_pipeline = u ''p1'', sn_anchor_version = u ''v1''\<rparr>"
  obtain db1 where a: "apply_projection ?d ?s READY [] sample_reopened_db = Inr db1" using reopened_projects by blast
  have n: "find (\<lambda>n. sn_id n = 50) (snapshots sample_reopened_db) = Some ?n"
    by (simp add: sample_reopened_db_def sample_processing_db_def published_eval)
  have s: "find_session sample_reopened_db 7 = Some ?s"
    by (simp add: find_session_def sample_reopened_db_def sample_session_def)
  have b: "\<not> is_blank (u ''p1'')" by (simp add: is_blank_iff py_isspace_def)
  have "jobs db1 = []"
    using apply_projection_Inr [OF a] by (auto dest!: frame_same(1) simp: sample_reopened_db_def same_queue_def)
  then have "insert_job_if_new r db1 = Inr (db1\<lparr>jobs := [r]\<rparr>)" for r by (simp add: insert_job_if_new_def fresh_def)
  then have "\<exists>res db'. recompute_aggregate ?d 50 sample_reopened_db = Inr (res, db') \<and> ag_state res = READY"
    using a by (simp add: recompute_aggregate_def n s reopened_views reopened_projection b sample_session_def del: u_simps)
  then obtain res db' where r: "recompute_aggregate ?d 50 sample_reopened_db = Inr (res, db')" "ag_state res = READY" by blast
  have sn: "sn_session ?n = 7" "ts_id ?s = 7" "ts_epoch ?s = 1" by (simp_all add: sample_session_def)
  have "lifecycle sample_reopened_db 7 = Some (OPEN, 1)" by (simp add: lifecycle_def s life_def)
  moreover have "READY \<notin> allowed_session_targets OPEN" by simp
  ultimately show ?thesis
    using late_result_decides_state [OF reopened_inv n, unfolded sn, OF s r(1), unfolded sn] r by simp
qed

section \<open>Progress of the queue\<close>

text \<open>A row whose columns \<open>claim_next\<close> can read back.\<close>

definition readable_job :: "job_row \<Rightarrow> bool" where
  "readable_job j \<longleftrightarrow> (\<exists>kvs. j_payload j = JObj kvs) \<and> \<not> is_blank (j_logical_key j) \<and> \<not> is_blank (j_kind j)"

lemma next_generation_fresh:
  assumes "queue_inv db" "j \<in> set (jobs db)" "a \<in> set (attempts db)" "at_job_id a = j_id j"
  shows "at_generation a \<noteq> j_generation j + 1"
proof -
  have "attempts_ok j (attempts_of (j_id j) (attempts db))" using queue_inv_job [OF assms(1,2)] by (simp add: job_ok_def)
  moreover have "a \<in> set (attempts_of (j_id j) (attempts db))" using assms(3,4) by (simp add: attempts_of_def)
  ultimately have "at_generation a \<in> set [1..j_generation j]" unfolding attempts_ok_def by (metis imageI set_map)
  then show ?thesis by simp
qed

lemma claim_returns_a_job:
  assumes inv: "queue_inv db" and rd: "list_all readable_job (jobs db)"
    and ok: "require_owner owner = Inr ()" "require_lease_seconds secs = Inr ()" "normalize_claim_kinds kinds = Inr ks"
    and aid: "aid \<notin> at_id ` set (attempts db)"
    and work: "j \<in> set (jobs db)" "claimable now j" "\<not> locked (j_id j)" "case ks of None \<Rightarrow> True | Some l \<Rightarrow> j_kind j \<in> set l"
  shows "\<exists>c db'. claim_next locked tok aid now now' owner secs kinds db = (Inr (Some c), db')"
proof -
  have ks: "ks \<noteq> Some []" using work(4) by auto
  obtain row where r: "select_claim now locked ks (jobs db) = Some row"
    using work select_claim_None [of now locked ks "jobs db"] by (cases "select_claim now locked ks (jobs db)") auto
  have mem: "row \<in> set (jobs db)" using select_claim_Some [OF r] by blast
  let ?ats = "if j_state row = J_RUNNING then update_rows (open_attempt (j_id row) (j_generation row)) (expire_attempt now') (attempts db) else attempts db"
  have ids: "at_id ` set ?ats = at_id ` set (attempts db)"
    "(\<lambda>x. (at_job_id x, at_generation x)) ` set ?ats = (\<lambda>x. (at_job_id x, at_generation x)) ` set (attempts db)"
    by (simp_all add: map_update_rows_same expire_attempt_def flip: set_map)
  have "(j_id row, j_generation row + 1) \<notin> (\<lambda>x. (at_job_id x, at_generation x)) ` set (attempts db)"
    using next_generation_fresh [OF inv mem] by (metis (no_types, lifting) imageE prod.inject)
  then have "\<exists>db'. claim_body locked tok aid now now' owner secs ks db = Inr (Some (row, j_generation row + 1), db')"
    using ks r ids aid by (cases "j_state row = J_RUNNING") (simp_all add: claim_body_def Let_def insert_attempt_def fresh_def)
  moreover have "readable_job row" using rd mem by (simp add: list_all_iff)
  ultimately show ?thesis using ok
    by (auto simp: claim_next_def claimed_from_row_def readable_job_def as_nonempty_string_def)
qed

lemma generation_job_readable: "readable_job (generation_job d pipeline k)"
  by (cases k) (simp_all add: readable_job_def generation_job_def new_job_row_def generation_payload_def generation_logical_key_def
    is_blank_iff py_isspace_def)

text \<open>
  C20: closing a session makes its generation work claimable.  After a close of an open session commits there are pending
  jobs of both kinds for the new snapshot, and as long as no other worker holds their row lock a claim by any worker that
  accepts summary jobs returns a job: it never idles, and never fails.
\<close>

theorem closed_session_work_is_claimed:
  assumes "queue_inv db" and "distinct (map ts_id (sessions db))" and "list_all readable_job (jobs db)"
    and "find_session db sid = Some s" and "ts_state s = OPEN"
    and "close d sid actor reqs pipeline av db = (Inr c, db')"
    and "require_owner owner = Inr ()" and "require_lease_seconds secs = Inr ()"
    and "normalize_claim_kinds kinds = Inr ks" and "case ks of None \<Rightarrow> True | Some l \<Rightarrow> u ''summary'' \<in> set l"
    and "aid \<notin> at_id ` set (attempts db)" and "\<not> locked (cd_job d SUMMARY)"
  shows "(\<forall>k. \<exists>j \<in> set (jobs db'). j_snapshot_id j = Some (cs_snapshot c) \<and> j_kind j = generation_kind_value k \<and> claimable now j) \<and>
    (\<exists>w db''. claim_next locked tok aid now now' owner secs kinds db' = (Inr (Some w), db''))"
proof -
  from close_open_Inr [OF assms(6,2,4,5)] obtain pins version where
    c: "cs_snapshot c = cd_snapshot d" "adds_jobs db db'" "closes d s actor reqs pipeline pins version db db'" by auto
  then have t: "jobs db' = jobs db @ map (generation_job d pipeline) [SUMMARY, RESEARCH]" "attempts db' = attempts db"
    by (auto simp: closes_def)
  have g: "j_snapshot_id (generation_job d pipeline k) = Some (cd_snapshot d)" "j_kind (generation_job d pipeline k) = generation_kind_value k"
    "claimable now (generation_job d pipeline k)" "j_id (generation_job d pipeline k) = cd_job d k"
    "generation_job d pipeline k \<in> set (jobs db')" for k
    by (simp_all add: generation_job_def new_job_row_def claimable_def t del: u_simps) (cases k; simp)
  have "queue_inv db'" "list_all readable_job (jobs db')"
    using adds_jobs_inv [OF assms(1) c(2)] assms(3) by (simp_all add: t generation_job_readable)
  then have "\<exists>w db''. claim_next locked tok aid now now' owner secs kinds db' = (Inr (Some w), db'')"
    by (rule claim_returns_a_job [OF _ _ assms(7-9) _ g(5) [of SUMMARY] g(3)])
      (use assms(10-12) in \<open>simp_all add: g t(2) del: u_simps split: option.splits\<close>)
  then show ?thesis using g c(1) by metis
qed

theorem closed_session_work_is_claimed_witness:
  "\<exists>db w db'. close sample_draws 7 5 [] (u ''p1'') None sample_close_db = (Inr sample_result, db) \<and>
     claim_next (\<lambda>_. False) 3 4 10 10 (u ''w'') 60 None db = (Inr (Some w), db')"
proof -
  obtain db where c: "close sample_draws 7 5 [] (u ''p1'') None sample_close_db = (Inr sample_result, db)"
    using sample_closes by blast
  have h: "distinct (map ts_id (sessions sample_close_db))" "list_all readable_job (jobs sample_close_db)"
    "find_session sample_close_db 7 = Some sample_session" "ts_state sample_session = OPEN" "4 \<notin> at_id ` set (attempts sample_close_db)"
    by (simp_all add: sample_close_db_def empty_db_def sample_session_def find_session_def)
  have q: "queue_inv sample_close_db" using app_reachable_inv [OF sample_close_reachable] by (simp add: app_inv_def)
  have o: "require_owner (u ''w'') = Inr ()" "require_lease_seconds 60 = Inr ()" "normalize_claim_kinds None = Inr None"
    by (simp_all add: require_owner_def require_lease_seconds_def normalize_claim_kinds_def is_blank_iff py_isspace_def)
  from closed_session_work_is_claimed [OF q h(1-4) c o _ h(5), of "\<lambda>_. False"] c show ?thesis by auto
qed

end
