(* ===== verification/Platform_Tables.thy ===== *)
theory Platform_Tables
  imports Activity
begin

text \<open>
  The tables of users, friendships, rooms, invitations, profiles, comments and merged documents, which extend the
  database of the session services.  A status restricted by a CHECK to three values is \<open>answer\<close>, the language of a profile
  a datatype; \<open>rooms\<close> has no archived or deleted rows.
\<close>

section \<open>Rows\<close>

record user_row =
  us_id :: uuid
  us_email :: ustr
  us_name :: ustr \<comment> \<open>\<open>display_name\<close>\<close>

datatype answer = A_PENDING | A_ACCEPTED | A_REJECTED

fun answer_value :: "answer \<Rightarrow> ustr" where
  "answer_value A_PENDING = u ''pending''"
| "answer_value A_ACCEPTED = u ''accepted''"
| "answer_value A_REJECTED = u ''rejected''"

record friendship_row =
  fr_id :: uuid
  fr_requester :: uuid
  fr_addressee :: uuid
  fr_status :: answer
  fr_created_at :: int
  fr_responded_at :: "int option"

record room_row =
  rm_id :: uuid
  rm_owner :: uuid
  rm_name :: ustr
  rm_created_at :: int

record invitation_row =
  iv_id :: uuid
  iv_room :: uuid
  iv_invitee :: uuid
  iv_inviter :: uuid
  iv_status :: answer
  iv_responded_at :: "int option"

datatype language = L_KO | L_EN | L_JA

record profile_row =
  up_user :: uuid
  up_job_title :: "ustr option"
  up_language :: language
  up_version :: int
  up_preferences_version :: int
  up_updated_at :: int
  up_preferences_updated_at :: int

datatype comment_anchor_kind = CA_REPORT | CA_SEGMENT

record comment_row =
  cm_id :: uuid
  cm_session :: uuid
  cm_author :: uuid
  cm_request :: uuid
  cm_fingerprint :: ustr
  cm_version :: int
  cm_body :: ustr
  cm_anchor :: "(comment_anchor_kind \<times> uuid) option"
  cm_created_at :: int
  cm_updated_at :: int
  cm_deleted_at :: "int option"

record mention_row =
  mn_comment :: uuid
  mn_user :: uuid

record merged_state_row =
  ms_id :: uuid
  ms_session :: uuid
  ms_snapshot :: uuid
  ms_version :: int
  ms_blocks :: json
  ms_updated_by :: uuid
  ms_updated_at :: int

record merged_version_row =
  mv_id :: uuid
  mv_session :: uuid
  mv_snapshot :: uuid
  mv_label :: ustr
  mv_blocks :: json
  mv_version :: int
  mv_created_by :: uuid
  mv_created_at :: int

section \<open>The database\<close>

record platform_db = app_db +
  users :: "user_row list"
  friendships :: "friendship_row list"
  rooms :: "room_row list"
  invitations :: "invitation_row list"
  profiles :: "profile_row list"
  comments :: "comment_row list"
  mentions :: "mention_row list"
  merged_states :: "merged_state_row list"
  merged_versions :: "merged_version_row list"

section \<open>What recording an event keeps\<close>

lemma frame_platform:
  fixes db db' :: "'z platform_db_scheme"
  assumes "activity_frame db db'"
  shows "users db' = users db" "friendships db' = friendships db" "rooms db' = rooms db"
    "invitations db' = invitations db" "profiles db' = profiles db" "comments db' = comments db"
    "mentions db' = mentions db" "merged_states db' = merged_states db" "merged_versions db' = merged_versions db"
    "platform_db.more db' = platform_db.more db"
  using assms by (auto simp: activity_frame_def)

section \<open>Rows read by key\<close>

lemma find_update_rows:
  assumes "\<And>r. key (f r) = key r"
  shows "find (\<lambda>r. key r = k) (update_rows (\<lambda>r. key r = k') f t) =
    map_option (\<lambda>r. if k = k' then f r else r) (find (\<lambda>r. key r = k) t)"
  by (induction t) (auto simp: assms)

section \<open>Columns read back\<close>

text \<open>\<open>_text\<close> of the collaboration service: a persisted text column must not be empty.\<close>

definition text_column :: "ustr \<Rightarrow> ustr \<Rightarrow> app_error + ustr" where
  "text_column value label =
     require (value \<noteq> []) (RuntimeErr (u ''persisted '' @ label @ u '' must be non-empty text'')) (Inr value)"

lemma text_column_Inr [simp]: "text_column v l = Inr w \<longleftrightarrow> v \<noteq> [] \<and> w = v"
  by (auto simp: text_column_def)

section \<open>Recording an event\<close>

text \<open>The keyword arguments of \<open>build_event_key\<close>.\<close>

definition kwargs :: "(string \<times> ident) list \<Rightarrow> ustr \<Rightarrow> ident option" where
  "kwargs args name = map_of (map (\<lambda>(k, v). (u k, v)) args) name"

text \<open>\<open>activities.record(event_key=build_event_key(...), ...)\<close> of the platform services.\<close>

definition record_event ::
  "activity_draws \<Rightarrow> ustr \<Rightarrow> (string \<times> ident) list \<Rightarrow> uuid \<Rightarrow> activity_scope \<Rightarrow> uuid option \<Rightarrow> uuid option \<Rightarrow> uuid option \<Rightarrow>
   ustr \<Rightarrow> uuid \<Rightarrow> (ustr option \<times> meta) list \<Rightarrow> notification_effect list \<Rightarrow> 'z app_db_scheme \<Rightarrow> app_error + 'z app_db_scheme" where
  "record_event d event_type args actor scope audience room session entity_type entity metadata effects db =
     and_then (build_event_key event_type (kwargs args)) (\<lambda>key.
     and_then (record_activity d
        \<lparr>na_key = key, na_type = event_type, na_actor = Some actor, na_scope = scope, na_audience = audience,
         na_room = room, na_session = session, na_entity_type = entity_type, na_entity_id = entity,
         na_metadata = metadata\<rparr> effects db) (\<lambda>(r, db'). Inr db'))"

lemma record_event_frame:
  "record_event d t args actor scope aud room sid et eid m effects db = Inr db' \<Longrightarrow> activity_frame db db'"
  by (auto simp: record_event_def and_then_Inr dest: record_activity_frame)

text \<open>An event is recorded, and its effects follow, when its row satisfies the ledger's constraints and its key is new.\<close>

lemma record_event_effects:
  fixes db :: "'z app_db_scheme"
  assumes "build_event_key t (kwargs args) = Inr key" "safe_audit_metadata m = Inr j" "t \<in> set supported_event_types"
    and a: "a = \<lparr>na_key = key, na_type = t, na_actor = Some actor, na_scope = scope, na_audience = aud, na_room = room,
        na_session = sid, na_entity_type = et, na_entity_id = eid, na_metadata = m\<rparr>"
    and "audit_checks db (new_audit_row (dr_event d) a j db)" "key \<notin> au_key ` set (audit db)" "dr_event d \<notin> au_id ` set (audit db)"
  shows "record_event d t args actor scope aud room sid et eid m es db =
    and_then (fold_result (apply_effect d (Some actor) key) es ((0, 0), db\<lparr>audit := audit db @ [new_audit_row (dr_event d) a j db]\<rparr>))
      (\<lambda>((n, m), db'). Inr db')"
  using assms by (auto simp: record_event_def record_activity_def checked_append_def append_activity_def new_audit_row_def fresh_def
      and_then_def split: sum.splits)

lemma record_event_quiet:
  fixes db :: "'z app_db_scheme"
  assumes "build_event_key t (kwargs args) = Inr key" "safe_audit_metadata m = Inr j" "t \<in> set supported_event_types"
    and a: "a = \<lparr>na_key = key, na_type = t, na_actor = Some actor, na_scope = scope, na_audience = aud, na_room = room,
        na_session = sid, na_entity_type = et, na_entity_id = eid, na_metadata = m\<rparr>"
    and "audit_checks db (new_audit_row (dr_event d) a j db)" "key \<notin> au_key ` set (audit db)" "dr_event d \<notin> au_id ` set (audit db)"
  shows "record_event d t args actor scope aud room sid et eid m [] db = Inr (db\<lparr>audit := audit db @ [new_audit_row (dr_event d) a j db]\<rparr>)"
  using record_event_effects [OF assms] by simp

end
