(* ===== verification/Collaboration.thy ===== *)
theory Collaboration
  imports Platform_Tables Session_Close
begin

text \<open>
  \<open>apps/api/app/collaboration_service.py\<close>: friendships, private rooms, invitations and the opening, listing, archiving
  of talk sessions.

  \<^item> \<open>collab_draws\<close> holds the \<open>uuid4()\<close> result, the clock and the draws of the two events an operation records at most.
  \<^item> Typed columns need no \<open>_uuid\<close>, \<open>_status\<close>, \<open>_role\<close> or \<open>_datetime\<close> check; \<open>text_column\<close> is \<open>_text\<close>.
  \<^item> Row locks make every operation one function on the committed state.
  \<^item> \<open>collate\<close> is the database's collation key, which orders display names.
\<close>

record collab_draws =
  cb_id :: uuid
  cb_now :: int
  cb_first :: activity_draws
  cb_second :: activity_draws

section \<open>Views\<close>

record friendship_view =
  fv_id :: uuid
  fv_requester :: user_row
  fv_addressee :: user_row
  fv_status :: answer
  fv_created_at :: int

record friend_view =
  fd_user :: user_row
  fd_friendship :: uuid

record room_member_view =
  rv_user :: user_row
  rv_host :: bool

record room_view =
  ro_id :: uuid
  ro_name :: ustr
  ro_owner :: uuid
  ro_host :: bool

record invitation_view =
  in_id :: uuid
  in_room :: uuid
  in_invitee :: uuid
  in_status :: answer

record session_view =
  sv_id :: uuid
  sv_room :: uuid
  sv_host :: uuid
  sv_topic :: ustr
  sv_description :: ustr
  sv_deadline :: "int option"
  sv_state :: talk_session_state
  sv_epoch :: int
  sv_created_at :: int
  sv_closed_at :: "int option"

section \<open>Reading rows\<close>

text \<open>The columns of a \<open>UserRecord\<close> read back by \<open>_text\<close>.\<close>

definition user_record :: "ustr \<Rightarrow> user_row \<Rightarrow> app_error + user_row" where
  "user_record who x =
     and_then (text_column (us_email x) (who @ u '' email'')) (\<lambda>_.
     and_then (text_column (us_name x) (who @ u '' display name'')) (\<lambda>_. Inr x))"

definition find_user :: "'z platform_db_scheme \<Rightarrow> uuid \<Rightarrow> user_row option" where
  "find_user db i = find (\<lambda>x. us_id x = i) (users db)"

definition same_pair :: "uuid \<Rightarrow> uuid \<Rightarrow> friendship_row \<Rightarrow> bool" where
  "same_pair a b f \<longleftrightarrow>
     min (fr_requester f) (fr_addressee f) = min a b \<and> max (fr_requester f) (fr_addressee f) = max a b"

text \<open>\<open>_friendship_pair_for_update\<close>\<close>

definition friendship_pair :: "'z platform_db_scheme \<Rightarrow> uuid \<Rightarrow> uuid \<Rightarrow> friendship_row option" where
  "friendship_pair db a b = find (same_pair a b) (friendships db)"

text \<open>\<open>_fetch_friendship_view\<close>\<close>

definition fetch_friendship :: "'z platform_db_scheme \<Rightarrow> uuid \<Rightarrow> app_error + friendship_view" where
  "fetch_friendship db fid =
     (case find (\<lambda>f. fr_id f = fid) (friendships db) of
        None \<Rightarrow> Inl (RuntimeErr (u ''friendship was not returned''))
      | Some f \<Rightarrow>
     (case (find_user db (fr_requester f), find_user db (fr_addressee f)) of
        (Some a, Some b) \<Rightarrow>
          and_then (user_record (u ''requester'') a) (\<lambda>ra. and_then (user_record (u ''addressee'') b) (\<lambda>rb.
          Inr \<lparr>fv_id = fr_id f, fv_requester = ra, fv_addressee = rb, fv_status = fr_status f, fv_created_at = fr_created_at f\<rparr>))
      | _ \<Rightarrow> Inl (RuntimeErr (u ''friendship was not returned''))))"

text \<open>\<open>_locked_room_membership\<close>: whether a current member is host.\<close>

definition find_membership :: "'z app_db_scheme \<Rightarrow> uuid \<Rightarrow> uuid \<Rightarrow> membership_row option" where
  "find_membership db room user = find (\<lambda>m. mb_room m = room \<and> mb_user m = user) (memberships db)"

definition room_role :: "'z platform_db_scheme \<Rightarrow> uuid \<Rightarrow> uuid \<Rightarrow> bool option" where
  "room_role db room actor =
     (if list_ex (\<lambda>r. rm_id r = room) (rooms db)
      then map_option mb_host (find (\<lambda>m. mb_room m = room \<and> mb_user m = actor \<and> \<not> mb_left m) (memberships db))
      else None)"

text \<open>The role check of the host's operations.\<close>

definition require_room_host :: "'z platform_db_scheme \<Rightarrow> uuid \<Rightarrow> uuid \<Rightarrow> app_error + unit" where
  "require_room_host db room actor =
     (case room_role db room actor of
        None \<Rightarrow> Inl (CollaborationAccessError (u ''room is unavailable''))
      | Some h \<Rightarrow> require h (CollaborationHostRequiredError (u ''room host role is required'')) (Inr ()))"

text \<open>\<open>_session_from_row\<close>\<close>

definition session_view_of :: "session_row \<Rightarrow> app_error + session_view" where
  "session_view_of s =
     and_then (text_column (ts_topic s) (u ''session topic'')) (\<lambda>topic.
     Inr \<lparr>sv_id = ts_id s, sv_room = ts_room s, sv_host = ts_host s, sv_topic = topic, sv_description = ts_description s,
          sv_deadline = ts_deadline s, sv_state = ts_state s, sv_epoch = ts_epoch s, sv_created_at = ts_created_at s,
          sv_closed_at = ts_closed_at s\<rparr>)"

section \<open>Texts\<close>

definition room_name :: "ustr \<Rightarrow> app_error + ustr" where
  "room_name value =
     (let n = py_strip value in
      require (1 \<le> length n \<and> length n \<le> 240 \<and> 0 \<notin> set n) (CollaborationError (u ''room name is invalid'')) (Inr n))"

definition session_topic :: "ustr \<Rightarrow> app_error + ustr" where
  "session_topic value =
     (let n = py_strip value in
      require (1 \<le> length n \<and> length n \<le> 500 \<and> 0 \<notin> set n) (CollaborationError (u ''session topic is invalid'')) (Inr n))"

definition session_description :: "ustr \<Rightarrow> app_error + ustr" where
  "session_description value =
     require (length value \<le> 10000 \<and> 0 \<notin> set value) (CollaborationError (u ''session description is invalid''))
       (Inr (py_strip value))"

section \<open>Friendships\<close>

text \<open>\<open>INSERT INTO friendships ... ON CONFLICT DO NOTHING\<close>: whether a row was inserted.\<close>

definition insert_friendship :: "friendship_row \<Rightarrow> 'z platform_db_scheme \<Rightarrow> app_error + bool \<times> 'z platform_db_scheme" where
  "insert_friendship f db =
     require (fr_requester f \<noteq> fr_addressee f) (PgError CheckViolation)
       (if \<not> fresh fr_id f (friendships db) \<or> friendship_pair db (fr_requester f) (fr_addressee f) \<noteq> None
        then Inr (False, db)
        else require (find_user db (fr_requester f) \<noteq> None \<and> find_user db (fr_addressee f) \<noteq> None)
               (PgError ForeignKeyViolation) (Inr (True, db\<lparr>friendships := friendships db @ [f]\<rparr>)))"

definition friend_request_effect :: "uuid \<Rightarrow> uuid \<Rightarrow> notification_effect" where
  "friend_request_effect addressee fid =
     \<lparr>ne_recipients = [addressee], ne_kind = u ''friend_request'', ne_resource_type = u ''friend_request'',
      ne_resource_id = fid, ne_action = u ''respond_friend_request'',
      ne_title = [52828, 44396, 32, 50836, 52397],
      ne_body = [49352, 32, 52828, 44396, 32, 50836, 52397, 51060, 32, 46020, 52265, 54664, 49845, 45768, 45796, 46],
      ne_template = u ''friend_request'', ne_data = [], ne_dedupe = None\<rparr>"

text \<open>One personal event about a friendship.\<close>

definition record_friendship ::
  "activity_draws \<Rightarrow> answer \<Rightarrow> uuid \<Rightarrow> uuid \<Rightarrow> uuid \<Rightarrow> notification_effect list \<Rightarrow> 'z app_db_scheme \<Rightarrow> app_error + 'z app_db_scheme" where
  "record_friendship d st actor fid audience effects db =
     record_event d (u ''friendship.'' @ (if st = A_PENDING then u ''requested'' else answer_value st))
       [(''friendship_id'', IUuid fid), (''audience_user_id'', IUuid audience)] actor SC_PERSONAL (Some audience) None None
       (u ''friendship'') fid [(Some (u ''status''), MStr (answer_value st))] effects db"

definition create_friend_request_body ::
  "collab_draws \<Rightarrow> uuid \<Rightarrow> uuid \<Rightarrow> (app_error, friendship_view, 'z platform_db_scheme) body" where
  "create_friend_request_body d actor addressee db =
     require (find_user db addressee \<noteq> None) (UserUnavailableError (u ''user is unavailable''))
     (and_then (insert_friendship \<lparr>fr_id = cb_id d, fr_requester = actor, fr_addressee = addressee, fr_status = A_PENDING,
          fr_created_at = cb_now d, fr_responded_at = None\<rparr> db) (\<lambda>(inserted, db1).
      if \<not> inserted then
        (case friendship_pair db1 actor addressee of
           None \<Rightarrow> Inl (CollaborationError (u ''friendship pair was not persisted''))
         | Some f \<Rightarrow>
             require (fr_requester f = actor \<and> fr_addressee f = addressee)
               (FriendshipConflictError (u ''friendship already exists''))
               (and_then (fetch_friendship db1 (fr_id f)) (\<lambda>v. Inr (v, db1))))
      else
        and_then (record_friendship (cb_first d) A_PENDING actor (cb_id d) actor [] db1) (\<lambda>db2.
        and_then (record_friendship (cb_second d) A_PENDING actor (cb_id d) addressee
            [friend_request_effect addressee (cb_id d)] db2) (\<lambda>db3.
        and_then (fetch_friendship db3 (cb_id d)) (\<lambda>v. Inr (v, db3))))))"

definition create_friend_request ::
  "collab_draws \<Rightarrow> uuid \<Rightarrow> uuid \<Rightarrow> 'z platform_db_scheme \<Rightarrow> (app_error + friendship_view) \<times> 'z platform_db_scheme" where
  "create_friend_request d actor addressee db =
     (if actor = addressee then (Inl (FriendshipConflictError (u ''cannot create a friendship with self'')), db)
      else transaction (create_friend_request_body d actor addressee) db)"

definition respond_body ::
  "collab_draws \<Rightarrow> uuid \<Rightarrow> uuid \<Rightarrow> bool \<Rightarrow> (app_error, friendship_view, 'z platform_db_scheme) body" where
  "respond_body d actor fid accept db =
     (let target = (if accept then A_ACCEPTED else A_REJECTED) in
      case find (\<lambda>f. fr_id f = fid \<and> fr_addressee f = actor) (friendships db) of
        None \<Rightarrow> Inl (CollaborationAccessError (u ''friend request is unavailable''))
      | Some f \<Rightarrow>
          and_then
            (if fr_status f = A_PENDING then
               let P = (\<lambda>x. fr_id x = fid \<and> fr_status x = A_PENDING);
                   db1 = db\<lparr>friendships := update_rows P (\<lambda>x. x\<lparr>fr_status := target, fr_responded_at := Some (cb_now d)\<rparr>)
                              (friendships db)\<rparr>
               in require (hits P (friendships db) = 1) (FriendshipStateError (u ''friend request changed while locked''))
                    (and_then (record_friendship (cb_first d) target actor fid (fr_requester f) [] db1)
                       (record_friendship (cb_second d) target actor fid (fr_addressee f) []))
             else require (fr_status f = target) (FriendshipStateError (u ''friend request has already been answered'')) (Inr db))
            (\<lambda>db2. and_then (fetch_friendship db2 fid) (\<lambda>v. Inr (v, db2))))"

definition respond_to_friend_request ::
  "collab_draws \<Rightarrow> uuid \<Rightarrow> uuid \<Rightarrow> bool \<Rightarrow> 'z platform_db_scheme \<Rightarrow> (app_error + friendship_view) \<times> 'z platform_db_scheme" where
  "respond_to_friend_request d actor fid accept db = transaction (respond_body d actor fid accept) db"

definition list_friend_requests :: "uuid \<Rightarrow> 'z platform_db_scheme \<Rightarrow> app_error + friendship_view list" where
  "list_friend_requests actor db =
     map_result (\<lambda>f. fetch_friendship db (fr_id f))
       (sort_key fr_created_at (sort_key fr_id (filter (\<lambda>f. fr_requester f = actor \<or> fr_addressee f = actor) (friendships db))))"

definition counterpart :: "uuid \<Rightarrow> friendship_row \<Rightarrow> uuid" where
  "counterpart actor f = (if fr_requester f = actor then fr_addressee f else fr_requester f)"

definition list_friends :: "(ustr \<Rightarrow> ustr) \<Rightarrow> uuid \<Rightarrow> 'z platform_db_scheme \<Rightarrow> app_error + friend_view list" where
  "list_friends collate actor db =
     map_result (\<lambda>(f, x). and_then (user_record (u ''friend'') x) (\<lambda>r. Inr \<lparr>fd_user = r, fd_friendship = fr_id f\<rparr>))
       (sort_key (\<lambda>(f, x). collate (us_name x)) (sort_key (\<lambda>(f, x). us_id x)
         (concat (map (\<lambda>f. map (Pair f) (filter (\<lambda>x. us_id x = counterpart actor f) (users db)))
           (filter (\<lambda>f. fr_status f = A_ACCEPTED \<and> (fr_requester f = actor \<or> fr_addressee f = actor)) (friendships db))))))"

section \<open>Rooms\<close>

definition insert_room :: "room_row \<Rightarrow> 'z platform_db_scheme \<Rightarrow> app_error + 'z platform_db_scheme" where
  "insert_room r db =
     require (1 \<le> length (rm_name r) \<and> length (rm_name r) \<le> 240) (PgError CheckViolation)
     (require (fresh rm_id r (rooms db)) (PgError UniqueViolation)
     (require (find_user db (rm_owner r) \<noteq> None) (PgError ForeignKeyViolation)
       (Inr (db\<lparr>rooms := rooms db @ [r]\<rparr>))))"

definition insert_membership :: "membership_row \<Rightarrow> 'z app_db_scheme \<Rightarrow> app_error + 'z app_db_scheme" where
  "insert_membership m db =
     require (fresh (\<lambda>x. (mb_room x, mb_user x)) m (memberships db)) (PgError UniqueViolation)
       (Inr (db\<lparr>memberships := memberships db @ [m]\<rparr>))"

definition create_room_body :: "collab_draws \<Rightarrow> uuid \<Rightarrow> ustr \<Rightarrow> (app_error, room_view, 'z platform_db_scheme) body" where
  "create_room_body d actor name db =
     and_then (insert_room \<lparr>rm_id = cb_id d, rm_owner = actor, rm_name = name, rm_created_at = cb_now d\<rparr> db) (\<lambda>db1.
     and_then (insert_membership \<lparr>mb_room = cb_id d, mb_user = actor, mb_host = True, mb_left = False\<rparr> db1) (\<lambda>db2.
     and_then (record_event (cb_first d) (u ''room.created'') [(''room_id'', IUuid (cb_id d))] actor SC_ROOM None
         (Some (cb_id d)) None (u ''room'') (cb_id d) [(Some (u ''member_count''), MInt 1)] [] db2) (\<lambda>db3.
     Inr (\<lparr>ro_id = cb_id d, ro_name = name, ro_owner = actor, ro_host = True\<rparr>, db3))))"

definition create_room ::
  "collab_draws \<Rightarrow> uuid \<Rightarrow> ustr \<Rightarrow> 'z platform_db_scheme \<Rightarrow> (app_error + room_view) \<times> 'z platform_db_scheme" where
  "create_room d actor name db =
     (case room_name name of Inl e \<Rightarrow> (Inl e, db) | Inr n \<Rightarrow> transaction (create_room_body d actor n) db)"

definition list_rooms :: "uuid \<Rightarrow> 'z platform_db_scheme \<Rightarrow> app_error + room_view list" where
  "list_rooms actor db =
     map_result (\<lambda>(m, r). and_then (text_column (rm_name r) (u ''room name'')) (\<lambda>n.
         Inr \<lparr>ro_id = rm_id r, ro_name = n, ro_owner = rm_owner r, ro_host = mb_host m\<rparr>))
       (sort_key (\<lambda>(m, r). rm_created_at r) (sort_key (\<lambda>(m, r). rm_id r)
         (concat (map (\<lambda>m. map (Pair m) (filter (\<lambda>r. rm_id r = mb_room m) (rooms db)))
           (filter (\<lambda>m. mb_user m = actor \<and> \<not> mb_left m) (memberships db))))))"

text \<open>Current members of a room joined to their users, \<open>ORDER BY membership.user_id\<close>.\<close>

definition member_rows :: "'z platform_db_scheme \<Rightarrow> uuid \<Rightarrow> (membership_row \<times> user_row) list" where
  "member_rows db room =
     sort_key (\<lambda>(m, x). mb_user m)
       (concat (map (\<lambda>m. map (Pair m) (filter (\<lambda>x. us_id x = mb_user m) (users db)))
         (filter (\<lambda>m. mb_room m = room \<and> \<not> mb_left m) (memberships db))))"

definition list_room_members :: "uuid \<Rightarrow> uuid \<Rightarrow> 'z platform_db_scheme \<Rightarrow> app_error + room_member_view list" where
  "list_room_members actor room db =
     (let rows = (if is_member db room actor then member_rows db room else []) in
      require (rows \<noteq> []) (CollaborationAccessError (u ''room is unavailable''))
        (map_result (\<lambda>(m, x). and_then (user_record (u ''room member'') x) (\<lambda>r. Inr \<lparr>rv_user = r, rv_host = mb_host m\<rparr>)) rows))"

section \<open>Invitations\<close>

definition insert_invitation :: "invitation_row \<Rightarrow> 'z platform_db_scheme \<Rightarrow> app_error + 'z platform_db_scheme" where
  "insert_invitation i db =
     require (fresh iv_id i (invitations db) \<and> fresh (\<lambda>x. (iv_room x, iv_invitee x)) i (invitations db))
       (PgError UniqueViolation) (Inr (db\<lparr>invitations := invitations db @ [i]\<rparr>))"

definition find_invitation :: "'z platform_db_scheme \<Rightarrow> uuid \<Rightarrow> uuid \<Rightarrow> invitation_row option" where
  "find_invitation db room invitee = find (\<lambda>i. iv_room i = room \<and> iv_invitee i = invitee) (invitations db)"

definition invitation_view_of :: "invitation_row \<Rightarrow> invitation_view" where
  "invitation_view_of i = \<lparr>in_id = iv_id i, in_room = iv_room i, in_invitee = iv_invitee i, in_status = iv_status i\<rparr>"

definition accept_invitation :: "uuid \<Rightarrow> int \<Rightarrow> invitation_row \<Rightarrow> invitation_row" where
  "accept_invitation actor now i = i\<lparr>iv_inviter := actor, iv_status := A_ACCEPTED, iv_responded_at := Some now\<rparr>"

text \<open>The invitation is inserted, accepted again or read: the row returned.\<close>

definition admit_invitation ::
  "collab_draws \<Rightarrow> uuid \<Rightarrow> uuid \<Rightarrow> uuid \<Rightarrow> invitation_row option \<Rightarrow> 'z platform_db_scheme \<Rightarrow>
   app_error + invitation_row \<times> 'z platform_db_scheme" where
  "admit_invitation d actor room invitee prior db =
     (case prior of
        None \<Rightarrow>
          let i = \<lparr>iv_id = cb_id d, iv_room = room, iv_invitee = invitee, iv_inviter = actor, iv_status = A_ACCEPTED,
                   iv_responded_at = Some (cb_now d)\<rparr>
          in and_then (insert_invitation i db) (\<lambda>db1. Inr (i, db1))
      | Some i \<Rightarrow>
          if iv_status i \<noteq> A_ACCEPTED
          then Inr (accept_invitation actor (cb_now d) i,
                 db\<lparr>invitations := update_rows (\<lambda>x. iv_id x = iv_id i) (accept_invitation actor (cb_now d)) (invitations db)\<rparr>)
          else Inr (i, db))"

definition admit_member ::
  "uuid \<Rightarrow> uuid \<Rightarrow> membership_row option \<Rightarrow> 'z app_db_scheme \<Rightarrow> app_error + 'z app_db_scheme" where
  "admit_member room invitee prior db =
     (case prior of
        None \<Rightarrow> insert_membership \<lparr>mb_room = room, mb_user = invitee, mb_host = False, mb_left = False\<rparr> db
      | Some m \<Rightarrow>
          if mb_left m
          then Inr (db\<lparr>memberships := update_rows (\<lambda>x. mb_room x = room \<and> mb_user x = invitee) (\<lambda>x. x\<lparr>mb_left := False\<rparr>)
                         (memberships db)\<rparr>)
          else Inr db)"

definition member_added_effect :: "uuid \<Rightarrow> uuid \<Rightarrow> notification_effect" where
  "member_added_effect room invitee =
     \<lparr>ne_recipients = [invitee], ne_kind = u ''room_member_added'', ne_resource_type = u ''room'', ne_resource_id = room,
      ne_action = u ''open_room'', ne_title = [54532, 47196, 51229, 53944, 32, 52488, 45824],
      ne_body = [54532, 47196, 51229, 53944, 50640, 32, 52280, 50668, 54664, 49845, 45768, 45796, 46],
      ne_template = u ''room_member_added'', ne_data = [(Some (u ''room_id''), MUuid room)], ne_dedupe = None\<rparr>"

definition departed :: "membership_row option \<Rightarrow> bool" where
  "departed prior \<longleftrightarrow> (case prior of None \<Rightarrow> True | Some m \<Rightarrow> mb_left m)"

definition accepted :: "invitation_row option \<Rightarrow> bool" where
  "accepted prior \<longleftrightarrow> (case prior of None \<Rightarrow> False | Some i \<Rightarrow> iv_status i = A_ACCEPTED)"

definition invite_body ::
  "collab_draws \<Rightarrow> uuid \<Rightarrow> uuid \<Rightarrow> uuid \<Rightarrow> (app_error, invitation_view, 'z platform_db_scheme) body" where
  "invite_body d actor room invitee db =
     and_then (require_room_host db room actor) (\<lambda>_.
     require (find_user db invitee \<noteq> None) (UserUnavailableError (u ''user is unavailable''))
     (require (case friendship_pair db actor invitee of None \<Rightarrow> False | Some f \<Rightarrow> fr_status f = A_ACCEPTED)
       (FriendshipRequiredError (u ''only accepted friends may be invited''))
     (let inv = find_invitation db room invitee; mem = find_membership db room invitee in
      require (\<not> (accepted inv \<and> departed mem))
        (FriendshipConflictError (u ''departed room members cannot be readmitted by replaying an invitation''))
      (and_then (admit_invitation d actor room invitee inv db) (\<lambda>(i, db1).
       and_then (admit_member room invitee mem db1) (\<lambda>db2.
       and_then
         (if \<not> accepted inv \<or> departed mem
          then record_event (cb_first d) (u ''room.member_added'') [(''room_id'', IUuid room), (''user_id'', IUuid invitee)] actor
                 SC_ROOM None (Some room) None (u ''room_member'') invitee [(Some (u ''role''), MStr (u ''member''))]
                 [member_added_effect room invitee] db2
          else Inr db2) (\<lambda>db3. Inr (invitation_view_of i, db3))))))))"

definition create_room_invitation ::
  "collab_draws \<Rightarrow> uuid \<Rightarrow> uuid \<Rightarrow> uuid \<Rightarrow> 'z platform_db_scheme \<Rightarrow> (app_error + invitation_view) \<times> 'z platform_db_scheme" where
  "create_room_invitation d actor room invitee db =
     (if actor = invitee then (Inl (FriendshipConflictError (u ''cannot invite self'')), db)
      else transaction (invite_body d actor room invitee) db)"

text \<open>\<open>leave_room\<close>\<close>

definition leave_body :: "collab_draws \<Rightarrow> uuid \<Rightarrow> uuid \<Rightarrow> (app_error, unit, 'z platform_db_scheme) body" where
  "leave_body d actor room db =
     (case room_role db room actor of
        None \<Rightarrow> Inl (CollaborationAccessError (u ''room is unavailable''))
      | Some host \<Rightarrow>
          require (\<not> host) (CollaborationHostRequiredError (u ''room host cannot leave''))
          (let db1 = db\<lparr>memberships := update_rows (\<lambda>m. mb_room m = room \<and> mb_user m = actor \<and> \<not> mb_left m)
                          (\<lambda>m. m\<lparr>mb_left := True\<rparr>) (memberships db)\<rparr>
           in and_then (record_event (cb_first d) (u ''room.member_left'') [(''room_id'', IUuid room), (''user_id'', IUuid actor)]
                 actor SC_ROOM None (Some room) None (u ''room_member'') actor [(Some (u ''role''), MStr (u ''member''))] [] db1)
                (\<lambda>db2. Inr ((), db2))))"

definition leave_room :: "collab_draws \<Rightarrow> uuid \<Rightarrow> uuid \<Rightarrow> 'z platform_db_scheme \<Rightarrow> (app_error + unit) \<times> 'z platform_db_scheme" where
  "leave_room d actor room db = transaction (leave_body d actor room) db"

section \<open>Talk sessions\<close>

definition insert_session :: "session_row \<Rightarrow> 'z app_db_scheme \<Rightarrow> app_error + 'z app_db_scheme" where
  "insert_session s db =
     require (1 \<le> length (ts_topic s) \<and> length (ts_topic s) \<le> 500) (PgError CheckViolation)
     (require (fresh ts_id s (sessions db)) (PgError UniqueViolation) (Inr (db\<lparr>sessions := sessions db @ [s]\<rparr>)))"

definition new_session :: "collab_draws \<Rightarrow> uuid \<Rightarrow> uuid \<Rightarrow> ustr \<Rightarrow> ustr \<Rightarrow> int option \<Rightarrow> session_row" where
  "new_session d actor room topic description deadline =
     \<lparr>ts_id = cb_id d, ts_room = room, ts_host = actor, ts_topic = topic, ts_state = OPEN, ts_epoch = 0, ts_version = 0,
      ts_retry = 0, ts_closed_at = None, ts_description = description, ts_deadline = deadline, ts_created_at = cb_now d,
      ts_archived = False\<rparr>"

definition create_session_body ::
  "collab_draws \<Rightarrow> uuid \<Rightarrow> uuid \<Rightarrow> ustr \<Rightarrow> ustr \<Rightarrow> int option \<Rightarrow> (app_error, session_view, 'z platform_db_scheme) body" where
  "create_session_body d actor room topic description deadline db =
     and_then (require_room_host db room actor) (\<lambda>_.
     and_then (insert_session (new_session d actor room topic description deadline) db) (\<lambda>db1.
     and_then (record_event (cb_first d) (u ''session.created'') [(''session_id'', IUuid (cb_id d))] actor SC_SESSION None
         (Some room) (Some (cb_id d)) (u ''session'') (cb_id d) [(Some (u ''state''), MStr (u ''open''))] [] db1) (\<lambda>db2.
     and_then (session_view_of (new_session d actor room topic description deadline)) (\<lambda>v. Inr (v, db2)))))"

definition create_talk_session ::
  "collab_draws \<Rightarrow> uuid \<Rightarrow> uuid \<Rightarrow> ustr \<Rightarrow> ustr \<Rightarrow> int option \<Rightarrow> 'z platform_db_scheme \<Rightarrow>
   (app_error + session_view) \<times> 'z platform_db_scheme" where
  "create_talk_session d actor room topic description deadline db =
     (case and_then (session_topic topic) (\<lambda>t. and_then (session_description description) (\<lambda>n. Inr (t, n))) of
        Inl e \<Rightarrow> (Inl e, db)
      | Inr (t, n) \<Rightarrow> transaction (create_session_body d actor room t n deadline) db)"

definition list_talk_sessions :: "uuid \<Rightarrow> uuid \<Rightarrow> 'z app_db_scheme \<Rightarrow> app_error + session_view list" where
  "list_talk_sessions actor room db =
     require (is_member db room actor) (CollaborationAccessError (u ''room is unavailable''))
       (map_result session_view_of
         (sort_key ts_created_at (sort_key ts_id (filter (\<lambda>s. ts_room s = room \<and> \<not> ts_archived s) (sessions db)))))"

definition get_talk_session :: "uuid \<Rightarrow> uuid \<Rightarrow> 'z app_db_scheme \<Rightarrow> app_error + session_view" where
  "get_talk_session actor sid db =
     (case member_session db actor sid of
        None \<Rightarrow> Inl (SessionUnavailableError (u ''session is unavailable''))
      | Some s \<Rightarrow>
          require (\<not> ts_archived s) (SessionUnavailableError (u ''session is unavailable'')) (session_view_of s))"

definition archive_body :: "collab_draws \<Rightarrow> uuid \<Rightarrow> uuid \<Rightarrow> (app_error, unit, 'z app_db_scheme) body" where
  "archive_body d actor sid db =
     (case member_session db actor sid of
        None \<Rightarrow> Inl (SessionUnavailableError (u ''session is unavailable''))
      | Some s \<Rightarrow>
          require (list_ex (\<lambda>m. mb_room m = ts_room s \<and> mb_user m = actor \<and> \<not> mb_left m \<and> mb_host m) (memberships db))
            (CollaborationHostRequiredError (u ''room host role is required''))
          (if ts_archived s then Inr ((), db)
           else
             and_then (record_event (cb_first d) (u ''session.archived'') [(''session_id'', IUuid sid)] actor SC_SESSION None
                 (Some (ts_room s)) (Some sid) (u ''session'') sid [(Some (u ''visibility''), MStr (u ''archived''))] []
                 (db\<lparr>sessions := update_rows (\<lambda>x. ts_id x = sid) (\<lambda>x. x\<lparr>ts_archived := True\<rparr>) (sessions db)\<rparr>))
               (\<lambda>db1. Inr ((), db1))))"

definition archive_talk_session ::
  "collab_draws \<Rightarrow> uuid \<Rightarrow> uuid \<Rightarrow> 'z app_db_scheme \<Rightarrow> (app_error + unit) \<times> 'z app_db_scheme" where
  "archive_talk_session d actor sid db = transaction (archive_body d actor sid) db"

end
