(* ===== verification/Collaboration_Inv.thy ===== *)
theory Collaboration_Inv
  imports Collaboration
begin

text \<open>
  What the collaboration operations change, and the invariant they keep: friendship pairs are unique, every room has
  exactly one host, its owner, who is a current member, every other member was admitted by an accepted invitation of an
  accepted friend, and every session is hosted by the owner of its room.
\<close>

section \<open>The invariant\<close>

definition pair_key :: "friendship_row \<Rightarrow> uuid \<times> uuid" where
  "pair_key f = (min (fr_requester f) (fr_addressee f), max (fr_requester f) (fr_addressee f))"

definition session_core :: "session_row \<Rightarrow> uuid \<times> uuid \<times> uuid" where
  "session_core s = (ts_id s, ts_room s, ts_host s)"

definition friendships_ok :: "friendship_row list \<Rightarrow> bool" where
  "friendships_ok fs \<longleftrightarrow> distinct (map fr_id fs) \<and> distinct (map pair_key fs) \<and> list_all (\<lambda>f. fr_requester f \<noteq> fr_addressee f) fs"

definition owner_of :: "room_row list \<Rightarrow> uuid \<Rightarrow> uuid \<Rightarrow> bool" where
  "owner_of rs room user \<longleftrightarrow> (\<exists>r \<in> set rs. rm_id r = room \<and> rm_owner r = user)"

definition befriended :: "friendship_row list \<Rightarrow> uuid \<Rightarrow> uuid \<Rightarrow> bool" where
  "befriended fs a b \<longleftrightarrow> (\<exists>f \<in> set fs. same_pair a b f \<and> fr_status f = A_ACCEPTED)"

definition admitted :: "invitation_row list \<Rightarrow> uuid \<Rightarrow> uuid \<Rightarrow> bool" where
  "admitted iv room user \<longleftrightarrow> (\<exists>i \<in> set iv. iv_room i = room \<and> iv_invitee i = user)"

definition members_ok :: "room_row list \<Rightarrow> membership_row list \<Rightarrow> invitation_row list \<Rightarrow> bool" where
  "members_ok rs ms iv \<longleftrightarrow>
     distinct (map (\<lambda>m. (mb_room m, mb_user m)) ms) \<and>
     (\<forall>m \<in> set ms. mb_room m \<in> rm_id ` set rs \<and> (mb_host m \<longleftrightarrow> owner_of rs (mb_room m) (mb_user m)) \<and>
        (mb_host m \<longrightarrow> \<not> mb_left m) \<and> (\<not> mb_host m \<longrightarrow> admitted iv (mb_room m) (mb_user m))) \<and>
     (\<forall>r \<in> set rs. \<exists>m \<in> set ms. mb_room m = rm_id r \<and> mb_user m = rm_owner r)"

definition invitations_ok :: "friendship_row list \<Rightarrow> room_row list \<Rightarrow> membership_row list \<Rightarrow> invitation_row list \<Rightarrow> bool" where
  "invitations_ok fs rs ms iv \<longleftrightarrow>
     distinct (map iv_id iv) \<and> distinct (map (\<lambda>i. (iv_room i, iv_invitee i)) iv) \<and>
     (\<forall>i \<in> set iv. iv_status i = A_ACCEPTED \<and> owner_of rs (iv_room i) (iv_inviter i) \<and>
        befriended fs (iv_inviter i) (iv_invitee i) \<and> (\<exists>m \<in> set ms. mb_room m = iv_room i \<and> mb_user m = iv_invitee i))"

definition collab_inv :: "'z platform_db_scheme \<Rightarrow> bool" where
  "collab_inv db \<longleftrightarrow>
     friendships_ok (friendships db) \<and> distinct (map rm_id (rooms db)) \<and>
     members_ok (rooms db) (memberships db) (invitations db) \<and>
     invitations_ok (friendships db) (rooms db) (memberships db) (invitations db) \<and>
     (\<forall>(sid, room, host) \<in> set (map session_core (sessions db)). owner_of (rooms db) room host)"

text \<open>A transaction of another service: it leaves these tables, and the identity, room and host of sessions, alone.\<close>

definition outside :: "'z platform_db_scheme \<Rightarrow> 'z platform_db_scheme \<Rightarrow> bool" where
  "outside db db' \<longleftrightarrow>
     friendships db' = friendships db \<and> rooms db' = rooms db \<and> memberships db' = memberships db \<and>
     invitations db' = invitations db \<and> map session_core (sessions db') = map session_core (sessions db)"

lemma outside_inv: "outside db db' \<Longrightarrow> collab_inv db \<Longrightarrow> collab_inv db'"
  unfolding outside_def collab_inv_def by simp

lemma outside_refl [simp]: "outside db db"
  by (simp add: outside_def)

lemma outside_trans: "outside a b \<Longrightarrow> outside b c \<Longrightarrow> outside a c"
  by (simp add: outside_def)

lemma frame_outside: "activity_frame db db' \<Longrightarrow> outside db db'"
  by (simp add: outside_def frame_platform frame_same)

lemma record_event_outside:
  "record_event d t args actor scope aud room sid et eid m effects db = Inr db' \<Longrightarrow> outside db db'"
  by (rule frame_outside [OF record_event_frame])

lemmas recorded = record_event_outside frame_outside

section \<open>What each operation changes\<close>

lemma record_friendship_outside: "record_friendship d st actor fid aud effects db = Inr db' \<Longrightarrow> outside db db'"
  by (auto simp: record_friendship_def dest: record_event_outside)

lemma create_friend_request_Inr:
  assumes "create_friend_request d actor addressee db = (Inr v, db')"
  shows "outside db db' \<or> (\<exists>f. fr_requester f \<noteq> fr_addressee f \<and> fresh fr_id f (friendships db) \<and>
    fresh pair_key f (friendships db) \<and> fr_status f = A_PENDING \<and>
    outside (db\<lparr>friendships := friendships db @ [f]\<rparr>) db')"
proof -
  from assms have b: "actor \<noteq> addressee" "create_friend_request_body d actor addressee db = Inr (v, db')"
    by (auto simp: create_friend_request_def transaction_Inr_iff split: if_splits)
  let ?f = "\<lparr>fr_id = cb_id d, fr_requester = actor, fr_addressee = addressee, fr_status = A_PENDING,
          fr_created_at = cb_now d, fr_responded_at = None\<rparr>"
  from b(2) obtain ins db1 where i: "insert_friendship ?f db = Inr (ins, db1)"
    by (auto simp: create_friend_request_body_def and_then_Inr)
  show ?thesis
  proof (cases ins)
    case False
    then have "db' = db" using b(2) i by (auto simp: create_friend_request_body_def and_then_Inr insert_friendship_def
          split: if_splits option.splits)
    then show ?thesis by simp
  next
    case True
    then have n: "db1 = db\<lparr>friendships := friendships db @ [?f]\<rparr>" "fresh fr_id ?f (friendships db)"
      "friendship_pair db actor addressee = None"
      using i by (auto simp: insert_friendship_def split: if_splits)
    have "fresh pair_key ?f (friendships db)"
      using n(3) by (auto simp: friendship_pair_def fresh_def find_None_iff same_pair_def pair_key_def)
    moreover have "outside db1 db'"
      using b(2) i True by (auto simp: create_friend_request_body_def and_then_Inr dest!: record_friendship_outside intro: outside_trans)
    ultimately show ?thesis using b(1) n by (intro disjI2 exI [of _ ?f]) simp
  qed
qed

lemma respond_Inr:
  assumes "respond_to_friend_request d actor fid accept db = (Inr v, db')"
  shows "outside db db' \<or> (\<exists>st now. st \<noteq> A_PENDING \<and>
    outside (db\<lparr>friendships := update_rows (\<lambda>x. fr_id x = fid \<and> fr_status x = A_PENDING)
      (\<lambda>x. x\<lparr>fr_status := st, fr_responded_at := now\<rparr>) (friendships db)\<rparr>) db')"
proof -
  from assms have b: "respond_body d actor fid accept db = Inr (v, db')"
    by (simp add: respond_to_friend_request_def transaction_Inr_iff)
  then obtain f where f: "find (\<lambda>f. fr_id f = fid \<and> fr_addressee f = actor) (friendships db) = Some f"
    by (auto simp: respond_body_def Let_def split: option.splits)
  let ?st = "if accept then A_ACCEPTED else A_REJECTED"
  let ?db = "db\<lparr>friendships := update_rows (\<lambda>x. fr_id x = fid \<and> fr_status x = A_PENDING)
      (\<lambda>x. x\<lparr>fr_status := ?st, fr_responded_at := Some (cb_now d)\<rparr>) (friendships db)\<rparr>"
  have o: "outside ?db db' \<or> db' = db"
    using b f by (auto simp: respond_body_def and_then_Inr Let_def dest!: record_friendship_outside intro: outside_trans split: if_splits)
  have n: "?st \<noteq> A_PENDING" by simp
  from o show ?thesis
  proof
    assume "outside ?db db'"
    with n show ?thesis by (intro disjI2 exI conjI)
  qed simp
qed

lemma create_room_Inr:
  assumes "create_room d actor name db = (Inr v, db')"
  shows "\<exists>r m. fresh rm_id r (rooms db) \<and> fresh (\<lambda>x. (mb_room x, mb_user x)) m (memberships db) \<and>
    m = \<lparr>mb_room = rm_id r, mb_user = rm_owner r, mb_host = True, mb_left = False\<rparr> \<and>
    outside (db\<lparr>rooms := rooms db @ [r], memberships := memberships db @ [m]\<rparr>) db'"
proof -
  from assms obtain n where b: "create_room_body d actor n db = Inr (v, db')"
    by (auto simp: create_room_def transaction_Inr_iff split: sum.splits)
  let ?r = "\<lparr>rm_id = cb_id d, rm_owner = actor, rm_name = n, rm_created_at = cb_now d\<rparr>"
  let ?m = "\<lparr>mb_room = cb_id d, mb_user = actor, mb_host = True, mb_left = False\<rparr>"
  from b show ?thesis
    by (intro exI [of _ ?r] exI [of _ ?m])
      (auto simp: create_room_body_def and_then_Inr insert_room_def insert_membership_def dest: record_event_outside)
qed

lemma find_by_key: "distinct (map key xs) \<Longrightarrow> x \<in> set xs \<Longrightarrow> key x = k \<Longrightarrow> find (\<lambda>y. key y = k) xs = Some x"
  by (cases "find (\<lambda>y. key y = k) xs") (auto simp: find_None_iff dest!: find_Some_set dest: distinct_key_unique)

lemma room_role_Some:
  assumes "room_role db room actor = Some h"
  shows "\<exists>m \<in> set (memberships db). mb_room m = room \<and> mb_user m = actor \<and> \<not> mb_left m \<and> mb_host m = h"
  using assms by (auto simp: room_role_def split: if_splits dest!: find_Some_set)

lemma room_host_owner:
  assumes "members_ok (rooms db) (memberships db) (invitations db)" "require_room_host db room actor = Inr ()"
  shows "owner_of (rooms db) room actor"
proof -
  from assms(2) have "room_role db room actor = Some True"
    by (auto simp: require_room_host_def split: option.splits)
  then obtain m where "m \<in> set (memberships db)" "mb_room m = room" "mb_user m = actor" "mb_host m"
    using room_role_Some by fastforce
  then show ?thesis using assms(1) unfolding members_ok_def by metis
qed

lemma owner_unique: "distinct (map rm_id rs) \<Longrightarrow> owner_of rs room a \<Longrightarrow> owner_of rs room b \<Longrightarrow> a = b"
  unfolding owner_of_def using distinct_key_unique by metis

lemma friendship_pair_accepted:
  "(case friendship_pair db a b of None \<Rightarrow> False | Some f \<Rightarrow> fr_status f = A_ACCEPTED) \<Longrightarrow> befriended (friendships db) a b"
  unfolding friendship_pair_def befriended_def by (auto split: option.splits dest!: find_Some_set)

lemma invite_parts:
  assumes "create_room_invitation d actor room invitee db = (Inr v, db')"
  obtains i db1 db2 where "actor \<noteq> invitee" "require_room_host db room actor = Inr ()" "find_user db invitee \<noteq> None"
    "befriended (friendships db) actor invitee"
    "\<not> (accepted (find_invitation db room invitee) \<and> departed (find_membership db room invitee))"
    "admit_invitation d actor room invitee (find_invitation db room invitee) db = Inr (i, db1)"
    "admit_member room invitee (find_membership db room invitee) db1 = Inr db2" "v = invitation_view_of i"
    "if \<not> accepted (find_invitation db room invitee) \<or> departed (find_membership db room invitee) then activity_frame db2 db' else db' = db2"
proof -
  from assms have b: "actor \<noteq> invitee" "invite_body d actor room invitee db = Inr (v, db')"
    by (auto simp: create_room_invitation_def transaction_Inr_iff split: if_splits)
  from b(2) have fr: "case friendship_pair db actor invitee of None \<Rightarrow> False | Some f \<Rightarrow> fr_status f = A_ACCEPTED"
    by (simp add: invite_body_def and_then_Inr Let_def)
  from b(2) obtain i db1 db2 where "require_room_host db room actor = Inr ()" "find_user db invitee \<noteq> None"
    "\<not> (accepted (find_invitation db room invitee) \<and> departed (find_membership db room invitee))"
    "admit_invitation d actor room invitee (find_invitation db room invitee) db = Inr (i, db1)"
    "admit_member room invitee (find_membership db room invitee) db1 = Inr db2" "v = invitation_view_of i"
    "if \<not> accepted (find_invitation db room invitee) \<or> departed (find_membership db room invitee) then activity_frame db2 db' else db' = db2"
    by (auto simp: invite_body_def and_then_Inr Let_def split: if_splits dest: record_event_frame)
  then show ?thesis using that b(1) friendship_pair_accepted [OF fr] by blast
qed

lemma invite_Inr:
  assumes c: "create_room_invitation d actor room invitee db = (Inr v, db')" and inv: "collab_inv db"
  shows "outside db db' \<or> (\<exists>i m. iv_status i = A_ACCEPTED \<and> owner_of (rooms db) (iv_room i) (iv_inviter i) \<and>
    befriended (friendships db) (iv_inviter i) (iv_invitee i) \<and> fresh iv_id i (invitations db) \<and> iv_inviter i \<noteq> iv_invitee i \<and>
    m = \<lparr>mb_room = iv_room i, mb_user = iv_invitee i, mb_host = False, mb_left = False\<rparr> \<and>
    fresh (\<lambda>i. (iv_room i, iv_invitee i)) i (invitations db) \<and> fresh (\<lambda>x. (mb_room x, mb_user x)) m (memberships db) \<and>
    outside (db\<lparr>invitations := invitations db @ [i], memberships := memberships db @ [m]\<rparr>) db')"
proof -
  let ?inv = "find_invitation db room invitee" and ?mem = "find_membership db room invitee"
  from c obtain i db1 db2 where ne: "actor \<noteq> invitee" and h: "require_room_host db room actor = Inr ()" and
    fr: "befriended (friendships db) actor invitee" and g: "\<not> (accepted ?inv \<and> departed ?mem)" and
    s: "admit_invitation d actor room invitee ?inv db = Inr (i, db1)" "admit_member room invitee ?mem db1 = Inr db2"
    "if \<not> accepted ?inv \<or> departed ?mem then activity_frame db2 db' else db' = db2"
    by (rule invite_parts)
  have ok: "members_ok (rooms db) (memberships db) (invitations db)" "distinct (map rm_id (rooms db))"
    "invitations_ok (friendships db) (rooms db) (memberships db) (invitations db)" using inv by (simp_all add: collab_inv_def)
  have own: "owner_of (rooms db) room actor" using room_host_owner [OF ok(1) h] .
  show ?thesis
  proof (cases ?inv)
    case (Some x)
    then have x: "x \<in> set (invitations db)" "iv_room x = room" "iv_invitee x = invitee"
      by (auto simp: find_invitation_def dest!: find_Some_set)
    then have a: "iv_status x = A_ACCEPTED" using ok(3) by (auto simp: invitations_ok_def)
    then have "\<not> departed ?mem" using g Some by (simp add: accepted_def)
    then obtain m where "?mem = Some m" "\<not> mb_left m" by (auto simp: departed_def split: option.splits)
    then have "db' = db" using s a Some by (auto simp: admit_invitation_def admit_member_def departed_def accepted_def)
    then show ?thesis by simp
  next
    case None
    then have no: "\<not> admitted (invitations db) room invitee"
      by (auto simp: find_invitation_def find_None_iff admitted_def)
    have nm: "?mem = None"
    proof (rule ccontr)
      assume "?mem \<noteq> None"
      then obtain m where m: "m \<in> set (memberships db)" "mb_room m = room" "mb_user m = invitee"
        by (auto simp: find_membership_def dest!: find_Some_set)
      then have "mb_host m" using ok(1) no unfolding members_ok_def by metis
      then have "owner_of (rooms db) room invitee" using ok(1) m unfolding members_ok_def by metis
      then show False using owner_unique [OF ok(2) own] ne by blast
    qed
    let ?i = "\<lparr>iv_id = cb_id d, iv_room = room, iv_invitee = invitee, iv_inviter = actor, iv_status = A_ACCEPTED,
                   iv_responded_at = Some (cb_now d)\<rparr>"
    let ?m = "\<lparr>mb_room = room, mb_user = invitee, mb_host = False, mb_left = False\<rparr>"
    have t: "fresh iv_id ?i (invitations db)" "fresh (\<lambda>i. (iv_room i, iv_invitee i)) ?i (invitations db)"
      "fresh (\<lambda>x. (mb_room x, mb_user x)) ?m (memberships db)"
      "db2 = db\<lparr>invitations := invitations db @ [?i], memberships := memberships db @ [?m]\<rparr>"
      using s(1,2) None nm by (auto simp: admit_invitation_def admit_member_def and_then_Inr insert_invitation_def insert_membership_def Let_def)
    have "outside db2 db'" using s(3) None by (simp add: accepted_def frame_outside)
    then show ?thesis using t own ne fr
      by (intro disjI2 exI [of _ ?i] exI [of _ ?m]) simp
  qed
qed

lemma leave_Inr:
  assumes "leave_room d actor room db = (Inr (), db')"
  shows "room_role db room actor = Some False \<and>
    outside (db\<lparr>memberships := update_rows (\<lambda>m. mb_room m = room \<and> mb_user m = actor \<and> \<not> mb_left m) (\<lambda>m. m\<lparr>mb_left := True\<rparr>)
      (memberships db)\<rparr>) db'"
  using assms by (auto simp: leave_room_def transaction_Inr_iff leave_body_def and_then_Inr Let_def split: option.splits
      dest: record_event_outside)

lemma create_session_Inr:
  assumes "create_talk_session d actor room topic description deadline db = (Inr v, db')"
  shows "require_room_host db room actor = Inr () \<and> (\<exists>s. ts_host s = actor \<and> ts_room s = room \<and> ts_state s = OPEN \<and> ts_epoch s = 0 \<and>
    fresh ts_id s (sessions db) \<and> sv_id v = ts_id s \<and> activity_frame (db\<lparr>sessions := sessions db @ [s]\<rparr>) db')"
proof -
  from assms obtain t n where b: "create_session_body d actor room t n deadline db = Inr (v, db')"
    by (auto simp: create_talk_session_def transaction_Inr_iff split: sum.splits)
  then show ?thesis
    by (auto simp: create_session_body_def and_then_Inr insert_session_def session_view_of_def new_session_def
        intro!: exI [of _ "new_session d actor room t n deadline"] dest: record_event_frame)
qed

lemma archive_Inr:
  assumes "archive_talk_session d actor sid db = (Inr (), db')"
  shows "db' = db \<or> activity_frame (db\<lparr>sessions := update_rows (\<lambda>x. ts_id x = sid) (\<lambda>x. x\<lparr>ts_archived := True\<rparr>) (sessions db)\<rparr>) db'"
  using assms by (auto simp: archive_talk_session_def transaction_Inr_iff archive_body_def and_then_Inr split: option.splits if_splits
      dest: record_event_frame)

section \<open>Preservation\<close>

lemma befriended_mono:
  "(\<And>f. f \<in> set fs \<Longrightarrow> fr_status f = A_ACCEPTED \<Longrightarrow> f \<in> set fs') \<Longrightarrow> befriended fs a b \<Longrightarrow> befriended fs' a b"
  unfolding befriended_def by blast

lemma request_inv:
  assumes "collab_inv db" "fr_requester f \<noteq> fr_addressee f" "fresh fr_id f (friendships db)" "fresh pair_key f (friendships db)"
  shows "collab_inv (db\<lparr>friendships := friendships db @ [f]\<rparr>)"
  using assms befriended_mono [of "friendships db" "friendships db @ [f]"]
  by (auto simp: collab_inv_def friendships_ok_def invitations_ok_def fresh_def)

lemma answer_inv:
  assumes inv: "collab_inv db"
  shows "collab_inv (db\<lparr>friendships := update_rows (\<lambda>x. fr_id x = fid \<and> fr_status x = A_PENDING)
      (\<lambda>x. x\<lparr>fr_status := st, fr_responded_at := now\<rparr>) (friendships db)\<rparr>)"
proof -
  let ?fs = "update_rows (\<lambda>x. fr_id x = fid \<and> fr_status x = A_PENDING) (\<lambda>x. x\<lparr>fr_status := st, fr_responded_at := now\<rparr>) (friendships db)"
  have k: "map fr_id ?fs = map fr_id (friendships db)" "map pair_key ?fs = map pair_key (friendships db)"
    by (simp_all add: map_update_rows_same pair_key_def)
  have "f \<in> set ?fs" if "f \<in> set (friendships db)" "fr_status f = A_ACCEPTED" for f
    using that by (auto simp: set_update_rows image_iff intro!: bexI [of _ f])
  then have b: "befriended (friendships db) a c \<Longrightarrow> befriended ?fs a c" for a c by (rule befriended_mono)
  have "friendships_ok ?fs"
    using inv k unfolding collab_inv_def friendships_ok_def by (auto simp: list_all_iff set_update_rows)
  moreover have "invitations_ok ?fs (rooms db) (memberships db) (invitations db)"
    using inv b unfolding collab_inv_def invitations_ok_def by blast
  ultimately show ?thesis using inv by (simp add: collab_inv_def)
qed

lemma owner_of_append [simp]:
  "owner_of (rs @ [r]) room user \<longleftrightarrow> owner_of rs room user \<or> (rm_id r = room \<and> rm_owner r = user)"
  by (auto simp: owner_of_def)

lemma owner_of_room: "owner_of rs room user \<Longrightarrow> room \<in> rm_id ` set rs"
  by (auto simp: owner_of_def)

lemma new_room_inv:
  assumes inv: "collab_inv db" and r: "fresh rm_id r (rooms db)"
    and m: "m = \<lparr>mb_room = rm_id r, mb_user = rm_owner r, mb_host = True, mb_left = False\<rparr>"
  shows "collab_inv (db\<lparr>rooms := rooms db @ [r], memberships := memberships db @ [m]\<rparr>)"
proof -
  have no: "rm_id r \<notin> rm_id ` set (rooms db)" using r by (simp add: fresh_def)
  have ms: "members_ok (rooms db) (memberships db) (invitations db)"
    and iv: "invitations_ok (friendships db) (rooms db) (memberships db) (invitations db)" using inv by (simp_all add: collab_inv_def)
  have old: "mb_room x \<noteq> rm_id r" if "x \<in> set (memberships db)" for x
    using ms that no unfolding members_ok_def by metis
  have "members_ok (rooms db @ [r]) (memberships db @ [m]) (invitations db)"
    unfolding members_ok_def
  proof (intro conjI)
    show "distinct (map (\<lambda>m. (mb_room m, mb_user m)) (memberships db @ [m]))"
      using ms old by (auto simp: members_ok_def m)
    show "\<forall>x \<in> set (memberships db @ [m]). mb_room x \<in> rm_id ` set (rooms db @ [r]) \<and>
        (mb_host x \<longleftrightarrow> owner_of (rooms db @ [r]) (mb_room x) (mb_user x)) \<and> (mb_host x \<longrightarrow> \<not> mb_left x) \<and>
        (\<not> mb_host x \<longrightarrow> admitted (invitations db) (mb_room x) (mb_user x))"
      using ms old by (auto simp: members_ok_def m)
    show "\<forall>y \<in> set (rooms db @ [r]). \<exists>x \<in> set (memberships db @ [m]). mb_room x = rm_id y \<and> mb_user x = rm_owner y"
      using ms by (auto simp: members_ok_def m)
  qed
  moreover have "invitations_ok (friendships db) (rooms db @ [r]) (memberships db @ [m]) (invitations db)"
    using iv by (auto simp: invitations_ok_def)
  ultimately show ?thesis using inv r by (auto simp: collab_inv_def fresh_def)
qed

lemma admission_inv:
  assumes inv: "collab_inv db" and i: "iv_status i = A_ACCEPTED" "owner_of (rooms db) (iv_room i) (iv_inviter i)"
    "befriended (friendships db) (iv_inviter i) (iv_invitee i)" "fresh iv_id i (invitations db)" "iv_inviter i \<noteq> iv_invitee i"
    "fresh (\<lambda>i. (iv_room i, iv_invitee i)) i (invitations db)"
    and m: "m = \<lparr>mb_room = iv_room i, mb_user = iv_invitee i, mb_host = False, mb_left = False\<rparr>"
    "fresh (\<lambda>x. (mb_room x, mb_user x)) m (memberships db)"
  shows "collab_inv (db\<lparr>invitations := invitations db @ [i], memberships := memberships db @ [m]\<rparr>)"
proof -
  have ms: "members_ok (rooms db) (memberships db) (invitations db)" and d: "distinct (map rm_id (rooms db))"
    and iv: "invitations_ok (friendships db) (rooms db) (memberships db) (invitations db)" using inv by (simp_all add: collab_inv_def)
  have no: "\<not> owner_of (rooms db) (iv_room i) (iv_invitee i)" using owner_unique [OF d i(2)] i(5) by blast
  have mono: "admitted (invitations db) a b \<Longrightarrow> admitted (invitations db @ [i]) a b" for a b by (auto simp: admitted_def)
  have new: "admitted (invitations db @ [i]) (iv_room i) (iv_invitee i)" by (auto simp: admitted_def)
  have "members_ok (rooms db) (memberships db @ [m]) (invitations db @ [i])"
    unfolding members_ok_def
  proof (intro conjI)
    show "distinct (map (\<lambda>m. (mb_room m, mb_user m)) (memberships db @ [m]))"
      using ms m(2) by (auto simp: members_ok_def fresh_def)
    show "\<forall>x \<in> set (memberships db @ [m]). mb_room x \<in> rm_id ` set (rooms db) \<and>
        (mb_host x \<longleftrightarrow> owner_of (rooms db) (mb_room x) (mb_user x)) \<and> (mb_host x \<longrightarrow> \<not> mb_left x) \<and>
        (\<not> mb_host x \<longrightarrow> admitted (invitations db @ [i]) (mb_room x) (mb_user x))"
      using ms no new mono owner_of_room [OF i(2)] by (auto simp: members_ok_def m(1))
    show "\<forall>y \<in> set (rooms db). \<exists>x \<in> set (memberships db @ [m]). mb_room x = rm_id y \<and> mb_user x = rm_owner y"
      using ms by (auto simp: members_ok_def)
  qed
  moreover have "invitations_ok (friendships db) (rooms db) (memberships db @ [m]) (invitations db @ [i])"
    using iv i m by (auto simp: invitations_ok_def fresh_def)
  ultimately show ?thesis using inv by (simp add: collab_inv_def)
qed

lemma departure_inv:
  assumes inv: "collab_inv db" and r: "room_role db room actor = Some False"
  shows "collab_inv (db\<lparr>memberships := update_rows (\<lambda>m. mb_room m = room \<and> mb_user m = actor \<and> \<not> mb_left m)
      (\<lambda>m. m\<lparr>mb_left := True\<rparr>) (memberships db)\<rparr>)"
proof -
  let ?P = "\<lambda>m. mb_room m = room \<and> mb_user m = actor \<and> \<not> mb_left m"
  let ?ms = "update_rows ?P (\<lambda>m. m\<lparr>mb_left := True\<rparr>) (memberships db)"
  have ms: "members_ok (rooms db) (memberships db) (invitations db)" using inv by (simp add: collab_inv_def)
  have k: "map (\<lambda>m. (mb_room m, mb_user m)) ?ms = map (\<lambda>m. (mb_room m, mb_user m)) (memberships db)"
    by (simp add: map_update_rows_same)
  obtain m where m: "m \<in> set (memberships db)" "mb_room m = room" "mb_user m = actor" "\<not> mb_host m"
    using room_role_Some [OF r] by auto
  have dist: "distinct (map (\<lambda>m. (mb_room m, mb_user m)) (memberships db))" using ms by (simp add: members_ok_def)
  have guest: "\<not> mb_host x" if "x \<in> set (memberships db)" "?P x" for x
    using distinct_key_unique [OF dist m(1) that(1)] m that(2) by auto
  have keys: "(\<exists>x \<in> set t. mb_room x = a \<and> mb_user x = b) \<longleftrightarrow> (a, b) \<in> set (map (\<lambda>m. (mb_room m, mb_user m)) t)" for t a b
    by force
  have ex: "(\<exists>x \<in> set ?ms. mb_room x = a \<and> mb_user x = b) \<longleftrightarrow> (\<exists>x \<in> set (memberships db). mb_room x = a \<and> mb_user x = b)" for a b
    unfolding keys k ..
  have "members_ok (rooms db) ?ms (invitations db)"
    using ms guest unfolding members_ok_def k ex by (auto simp: set_update_rows)
  moreover have "invitations_ok (friendships db) (rooms db) ?ms (invitations db)"
    using inv unfolding collab_inv_def invitations_ok_def ex by blast
  ultimately show ?thesis using inv by (simp add: collab_inv_def)
qed

lemma new_session_collab_inv:
  assumes "collab_inv db" "owner_of (rooms db) (ts_room s) (ts_host s)"
  shows "collab_inv (db\<lparr>sessions := sessions db @ [s]\<rparr>)"
  using assms by (simp add: collab_inv_def session_core_def)

end
