(* ===== verification/Collaboration_Properties.thy ===== *)
theory Collaboration_Properties
  imports Collaboration_Inv Session_Properties
begin

text \<open>
  The properties of friendships, rooms and membership over every interleaving of the collaboration operations with
  transactions of the other services.
\<close>

section \<open>Steps\<close>

inductive collab_step :: "'z platform_db_scheme \<Rightarrow> 'z platform_db_scheme \<Rightarrow> bool" where
  K_request: "collab_step db (snd (create_friend_request d actor addressee db))"
| K_respond: "collab_step db (snd (respond_to_friend_request d actor fid accept db))"
| K_room: "collab_step db (snd (create_room d actor name db))"
| K_invite: "collab_step db (snd (create_room_invitation d actor room invitee db))"
| K_leave: "collab_step db (snd (leave_room d actor room db))"
| K_session: "collab_step db (snd (create_talk_session d actor room topic description deadline db))"
| K_archive: "collab_step db (snd (archive_talk_session d actor sid db))"
| K_outside: "outside db db' \<Longrightarrow> collab_step db db'"

definition empty_platform :: platform_db where
  "empty_platform = app_db.extend empty_db \<lparr>users = [], friendships = [], rooms = [], invitations = [], profiles = [],
     comments = [], mentions = [], merged_states = [], merged_versions = []\<rparr>"

inductive collab_reachable :: "platform_db \<Rightarrow> bool" where
  KR_init: "collab_reachable empty_platform"
| KR_step: "collab_reachable db \<Longrightarrow> collab_step db db' \<Longrightarrow> collab_reachable db'"

text \<open>An operation that fails changes nothing.\<close>

lemma failure_keeps:
  "create_friend_request d a b db = (Inl e, db') \<Longrightarrow> db' = db"
  "respond_to_friend_request d a f acc db = (Inl e, db') \<Longrightarrow> db' = db"
  "create_room d a n db = (Inl e, db') \<Longrightarrow> db' = db"
  "create_room_invitation d a r b db = (Inl e, db') \<Longrightarrow> db' = db"
  "leave_room d a r db = (Inl e, db') \<Longrightarrow> db' = db"
  "create_talk_session d a r t n dl db = (Inl e, db') \<Longrightarrow> db' = db"
  "archive_talk_session d a s db = (Inl e, db') \<Longrightarrow> db' = db"
  by (auto simp: create_friend_request_def respond_to_friend_request_def create_room_def create_room_invitation_def
      leave_room_def create_talk_session_def archive_talk_session_def transaction_Inl_iff split: if_splits sum.splits)

text \<open>The tables an operation leaves, by the change it makes.\<close>

inductive collab_change :: "'z platform_db_scheme \<Rightarrow> 'z platform_db_scheme \<Rightarrow> bool" where
  C_none: "collab_change db db"
| C_request: "fr_requester f \<noteq> fr_addressee f \<Longrightarrow> fresh fr_id f (friendships db) \<Longrightarrow> fresh pair_key f (friendships db) \<Longrightarrow>
    fr_status f = A_PENDING \<Longrightarrow> collab_change db (db\<lparr>friendships := friendships db @ [f]\<rparr>)"
| C_answer: "st \<noteq> A_PENDING \<Longrightarrow> collab_change db (db\<lparr>friendships := update_rows (\<lambda>x. fr_id x = fid \<and> fr_status x = A_PENDING)
      (\<lambda>x. x\<lparr>fr_status := st, fr_responded_at := now\<rparr>) (friendships db)\<rparr>)"
| C_room: "fresh rm_id r (rooms db) \<Longrightarrow> m = \<lparr>mb_room = rm_id r, mb_user = rm_owner r, mb_host = True, mb_left = False\<rparr> \<Longrightarrow>
    collab_change db (db\<lparr>rooms := rooms db @ [r], memberships := memberships db @ [m]\<rparr>)"
| C_admit: "iv_status i = A_ACCEPTED \<Longrightarrow> owner_of (rooms db) (iv_room i) (iv_inviter i) \<Longrightarrow>
    befriended (friendships db) (iv_inviter i) (iv_invitee i) \<Longrightarrow> fresh iv_id i (invitations db) \<Longrightarrow> iv_inviter i \<noteq> iv_invitee i \<Longrightarrow>
    fresh (\<lambda>i. (iv_room i, iv_invitee i)) i (invitations db) \<Longrightarrow>
    m = \<lparr>mb_room = iv_room i, mb_user = iv_invitee i, mb_host = False, mb_left = False\<rparr> \<Longrightarrow>
    fresh (\<lambda>x. (mb_room x, mb_user x)) m (memberships db) \<Longrightarrow>
    collab_change db (db\<lparr>invitations := invitations db @ [i], memberships := memberships db @ [m]\<rparr>)"
| C_leave: "room_role db room actor = Some False \<Longrightarrow>
    collab_change db (db\<lparr>memberships := update_rows (\<lambda>m. mb_room m = room \<and> mb_user m = actor \<and> \<not> mb_left m)
      (\<lambda>m. m\<lparr>mb_left := True\<rparr>) (memberships db)\<rparr>)"
| C_session: "owner_of (rooms db) (ts_room s) (ts_host s) \<Longrightarrow> collab_change db (db\<lparr>sessions := sessions db @ [s]\<rparr>)"

lemma archived_outside: "outside db (db\<lparr>sessions := update_rows P (\<lambda>x. x\<lparr>ts_archived := True\<rparr>) (sessions db)\<rparr>)"
  by (simp add: outside_def map_update_rows_same session_core_def)

lemma archive_stays: "archive_talk_session d actor sid db = (Inr (), db') \<Longrightarrow> outside db db'"
  using archive_Inr outside_trans [OF archived_outside frame_outside] outside_refl by blast

lemma unchanged: "db' = db \<Longrightarrow> \<exists>mid. collab_change db mid \<and> outside mid db'"
  using C_none outside_refl by blast

lemmas failure_unchanged = failure_keeps [THEN unchanged]

text \<open>Every step is one change of these tables and nothing else in them.\<close>

lemma step_change:
  assumes "collab_step db db'" "collab_inv db"
  shows "\<exists>mid. collab_change db mid \<and> outside mid db'"
  using assms
proof (induction rule: collab_step.induct)
  case (K_request db d actor addressee)
  then show ?case
    by (cases "create_friend_request d actor addressee db"; cases "fst (create_friend_request d actor addressee db)")
      (auto dest!: create_friend_request_Inr dest: failure_unchanged intro: C_none C_request)
next
  case (K_respond db d actor fid accept)
  then show ?case
    by (cases "respond_to_friend_request d actor fid accept db"; cases "fst (respond_to_friend_request d actor fid accept db)")
      (auto dest!: respond_Inr dest: failure_unchanged intro: C_none C_answer)
next
  case (K_room db d actor name)
  then show ?case
    by (cases "create_room d actor name db"; cases "fst (create_room d actor name db)")
      (auto dest!: create_room_Inr dest: failure_unchanged intro: C_none C_room)
next
  case (K_invite db d actor room invitee)
  show ?case
  proof (cases "create_room_invitation d actor room invitee db")
    case (Pair r db')
    show ?thesis
    proof (cases r)
      case (Inl e)
      then show ?thesis using Pair failure_unchanged(4) [of d actor room invitee db e db'] by simp
    next
      case (Inr v)
      have c: "create_room_invitation d actor room invitee db = (Inr v, db')" using Pair Inr by simp
      have "\<exists>mid. collab_change db mid \<and> outside mid db'"
        using invite_Inr [OF c K_invite]
      proof (elim disjE exE conjE)
        assume "outside db db'"
        with C_none show ?thesis by blast
      next
        fix i m
        assume "outside (db\<lparr>invitations := invitations db @ [i], memberships := memberships db @ [m]\<rparr>) db'"
          and a: "iv_status i = A_ACCEPTED" "owner_of (rooms db) (iv_room i) (iv_inviter i)"
          "befriended (friendships db) (iv_inviter i) (iv_invitee i)" "fresh iv_id i (invitations db)" "iv_inviter i \<noteq> iv_invitee i"
          "fresh (\<lambda>i. (iv_room i, iv_invitee i)) i (invitations db)"
          "m = \<lparr>mb_room = iv_room i, mb_user = iv_invitee i, mb_host = False, mb_left = False\<rparr>"
          "fresh (\<lambda>x. (mb_room x, mb_user x)) m (memberships db)"
        with C_admit [OF a] show ?thesis by blast
      qed
      then show ?thesis by (simp add: Pair)
    qed
  qed
next
  case (K_leave db d actor room)
  show ?case
  proof (cases "leave_room d actor room db")
    case (Pair r db')
    then show ?thesis
      by (cases r) (auto dest!: leave_Inr dest: failure_unchanged(5) intro: C_leave)
  qed
next
  case (K_session db d actor room topic description deadline)
  have "owner_of (rooms db) room actor" if "require_room_host db room actor = Inr ()"
    using K_session that room_host_owner unfolding collab_inv_def by blast
  then show ?case
    by (cases "create_talk_session d actor room topic description deadline db";
        cases "fst (create_talk_session d actor room topic description deadline db)")
      (auto dest!: create_session_Inr dest: failure_unchanged frame_outside intro: C_none C_session)
next
  case (K_archive db d actor sid)
  then show ?case
    by (cases "archive_talk_session d actor sid db"; cases "fst (archive_talk_session d actor sid db)")
      (auto dest: archive_stays failure_unchanged intro: C_none)
next
  case (K_outside db db')
  then show ?case using C_none by blast
qed

lemma change_inv: "collab_change db db' \<Longrightarrow> collab_inv db \<Longrightarrow> collab_inv db'"
  by (induction rule: collab_change.induct)
    (simp_all add: request_inv answer_inv new_room_inv admission_inv departure_inv new_session_collab_inv)

lemma step_inv: "collab_step db db' \<Longrightarrow> collab_inv db \<Longrightarrow> collab_inv db'"
  using step_change change_inv outside_inv by blast

lemma steps_inv: "collab_step\<^sup>*\<^sup>* db db' \<Longrightarrow> collab_inv db \<Longrightarrow> collab_inv db'"
  by (induction rule: rtranclp_induct) (simp_all add: step_inv)

lemma empty_collab_inv: "collab_inv empty_platform"
  by (simp add: collab_inv_def empty_platform_def empty_db_def app_db.defs friendships_ok_def members_ok_def invitations_ok_def)

lemma collab_reachable_inv: "collab_reachable db \<Longrightarrow> collab_inv db"
  by (induction rule: collab_reachable.induct) (simp add: empty_collab_inv, rule step_inv)

section \<open>Properties\<close>

lemma change_departed:
  "collab_change db db' \<Longrightarrow> collab_inv db \<Longrightarrow> m \<in> set (memberships db) \<Longrightarrow> mb_left m \<Longrightarrow> m \<in> set (memberships db')"
  by (induction rule: collab_change.induct) (auto simp: set_update_rows)

lemma departed_persists:
  assumes "collab_step\<^sup>*\<^sup>* db db'" "collab_inv db" "m \<in> set (memberships db)" "mb_left m"
  shows "m \<in> set (memberships db')"
  using assms
proof (induction rule: rtranclp_induct)
  case (step y z)
  then have y: "m \<in> set (memberships y)" "collab_inv y" using steps_inv by blast+
  then obtain mid where "collab_change y mid" "outside mid z" using step_change [OF step.hyps(2)] by blast
  then show ?case using change_departed [OF _ y(2,1)] step.prems by (simp add: outside_def)
qed

lemma same_member:
  assumes "members_ok rs ms iv" "x \<in> set ms" "y \<in> set ms" "mb_room x = mb_room y" "mb_user x = mb_user y"
  shows "x = y"
  by (rule distinct_key_unique [where key = "\<lambda>m. (mb_room m, mb_user m)", OF _ assms(2,3)]) (use assms in \<open>simp_all add: members_ok_def\<close>)

lemma current_member: "members_ok rs (memberships db) iv \<Longrightarrow> m \<in> set (memberships db) \<Longrightarrow>
    is_member db (mb_room m) (mb_user m) \<longleftrightarrow> \<not> mb_left m"
  unfolding is_member_def list_ex_iff using same_member by blast

lemma owner_hosts:
  assumes inv: "collab_inv db" and o: "owner_of (rooms db) room user"
  shows "room_role db room user = Some True \<and> is_member db room user"
proof -
  have ms: "members_ok (rooms db) (memberships db) (invitations db)" using inv by (simp add: collab_inv_def)
  from o obtain r where r: "r \<in> set (rooms db)" "rm_id r = room" "rm_owner r = user" by (auto simp: owner_of_def)
  then obtain m where m: "m \<in> set (memberships db)" "mb_room m = room" "mb_user m = user" using ms unfolding members_ok_def by metis
  then have h: "mb_host m" "\<not> mb_left m" using ms o unfolding members_ok_def by metis+
  have "find (\<lambda>m. mb_room m = room \<and> mb_user m = user \<and> \<not> mb_left m) (memberships db) = Some m"
  proof (cases "find (\<lambda>m. mb_room m = room \<and> mb_user m = user \<and> \<not> mb_left m) (memberships db)")
    case None
    then show ?thesis using m h by (auto simp: find_None_iff)
  next
    case (Some x)
    then have "x \<in> set (memberships db)" "mb_room x = room" "mb_user x = user" by (auto dest!: find_Some_set)
    then have "x = m" using same_member [OF ms] m by blast
    then show ?thesis using Some by simp
  qed
  then show ?thesis using r m h by (auto simp: room_role_def list_ex_iff is_member_def)
qed

text \<open>
  C21: rooms are never orphaned and friendships never doubled.  In every reachable state two users have at most one
  friendship, every room has exactly one host, its owner, who is a current member, everyone else was admitted by an
  accepted invitation from the owner to an accepted friend, and every session is hosted by a current member, the owner
  of its room: someone can always close it.
\<close>

theorem rooms_stay_hosted:
  assumes "collab_reachable db"
  shows "distinct (map pair_key (friendships db)) \<and>
    (\<forall>r \<in> set (rooms db). room_role db (rm_id r) (rm_owner r) = Some True) \<and>
    (\<forall>m \<in> set (memberships db). mb_host m \<longleftrightarrow> owner_of (rooms db) (mb_room m) (mb_user m)) \<and>
    (\<forall>m \<in> set (memberships db). \<not> mb_host m \<longrightarrow> (\<exists>i \<in> set (invitations db). iv_room i = mb_room m \<and> iv_invitee i = mb_user m \<and>
       iv_status i = A_ACCEPTED \<and> owner_of (rooms db) (mb_room m) (iv_inviter i) \<and> befriended (friendships db) (iv_inviter i) (mb_user m))) \<and>
    (\<forall>s \<in> set (sessions db). is_member db (ts_room s) (ts_host s) \<and> room_role db (ts_room s) (ts_host s) = Some True)"
proof -
  have inv: "collab_inv db" using collab_reachable_inv [OF assms] .
  then have ok: "friendships_ok (friendships db)" "members_ok (rooms db) (memberships db) (invitations db)"
    "invitations_ok (friendships db) (rooms db) (memberships db) (invitations db)"
    "\<And>s. s \<in> set (sessions db) \<Longrightarrow> owner_of (rooms db) (ts_room s) (ts_host s)"
    by (auto simp: collab_inv_def session_core_def)
  have rooms: "room_role db (rm_id r) (rm_owner r) = Some True" if "r \<in> set (rooms db)" for r
    using owner_hosts [OF inv] that by (auto simp: owner_of_def)
  have guests: "\<exists>i \<in> set (invitations db). iv_room i = mb_room m \<and> iv_invitee i = mb_user m \<and> iv_status i = A_ACCEPTED \<and>
      owner_of (rooms db) (mb_room m) (iv_inviter i) \<and> befriended (friendships db) (iv_inviter i) (mb_user m)"
    if m: "m \<in> set (memberships db)" "\<not> mb_host m" for m
  proof -
    have "admitted (invitations db) (mb_room m) (mb_user m)" using ok(2) m unfolding members_ok_def by blast
    then obtain i where "i \<in> set (invitations db)" "iv_room i = mb_room m" "iv_invitee i = mb_user m" by (auto simp: admitted_def)
    then show ?thesis using ok(3) unfolding invitations_ok_def by metis
  qed
  have hosted: "room_role db (ts_room s) (ts_host s) = Some True \<and> is_member db (ts_room s) (ts_host s)" if "s \<in> set (sessions db)" for s
    using owner_hosts [OF inv ok(4) [OF that]] .
  have "mb_host m \<longleftrightarrow> owner_of (rooms db) (mb_room m) (mb_user m)" if "m \<in> set (memberships db)" for m
    using ok(2) that unfolding members_ok_def by blast
  then show ?thesis
    using ok(1) rooms guests hosted unfolding friendships_ok_def by blast
qed

lemmas platform_eval = empty_platform_def empty_db_def app_db.defs

definition sample_users :: platform_db where
  "sample_users = empty_platform\<lparr>users := [\<lparr>us_id = 5, us_email = u ''a@b'', us_name = u ''A''\<rparr>, \<lparr>us_id = 6, us_email = u ''c@d'', us_name = u ''C''\<rparr>]\<rparr>"

definition sample_collab_draws :: "uuid \<Rightarrow> collab_draws" where
  "sample_collab_draws i = \<lparr>cb_id = i, cb_now = 9, cb_first = cd_closed sample_draws, cb_second = cd_processing sample_draws\<rparr>"

lemma sample_room_name: "room_name (u '' room'') = Inr (u ''room'')"
  by (simp add: room_name_def py_strip_def py_lstrip_def py_rstrip_def py_isspace_def)

lemma sample_room_created:
  "\<exists>db. create_room (sample_collab_draws 3) 5 (u '' room'') sample_users = (Inr \<lparr>ro_id = 3, ro_name = u ''room'', ro_owner = 5, ro_host = True\<rparr>, db)"
proof -
  have k: "build_event_key (u ''room.created'') (kwargs [(''room_id'', IUuid 3)]) = Inr (u ''room:'' @ uuid_text 3 @ u '':created'')"
    by (simp add: build_event_key_def supported_event_types_def event_template_def ustr_startswith_def kwargs_def segment_text_def
      field_def ustr_join_def)
  obtain j where j: "safe_audit_metadata [(Some (u ''member_count''), MInt 1)] = Inr j" "jsonb_size_at_most 4096 j"
    by (simp add: metadata_eval)
  have t: "u ''room.created'' \<in> set supported_event_types" by (simp add: supported_event_types_def)
  show ?thesis
    using j t by (simp add: create_room_def sample_room_name create_room_body_def insert_room_def insert_membership_def fresh_def
      sample_users_def find_user_def platform_eval record_event_def sample_collab_draws_def k record_activity_def checked_append_def
      append_activity_def new_audit_row_def audit_checks_def scope_shape_def next_sequence_def del: u_simps)
qed

theorem rooms_stay_hosted_witness:
  "\<exists>db. create_room (sample_collab_draws 3) 5 (u '' room'') sample_users =
       (Inr \<lparr>ro_id = 3, ro_name = u ''room'', ro_owner = 5, ro_host = True\<rparr>, db) \<and>
     (\<forall>r \<in> set (rooms db). room_role db (rm_id r) (rm_owner r) = Some True)"
proof -
  obtain db where c: "create_room (sample_collab_draws 3) 5 (u '' room'') sample_users =
       (Inr \<lparr>ro_id = 3, ro_name = u ''room'', ro_owner = 5, ro_host = True\<rparr>, db)" using sample_room_created by blast
  have "collab_step empty_platform sample_users" by (rule K_outside) (simp add: outside_def sample_users_def)
  moreover have "collab_step sample_users db" using K_room c by (metis snd_conv)
  ultimately have "collab_reachable db" using KR_init KR_step by blast
  from rooms_stay_hosted [OF this] c show ?thesis by blast
qed

text \<open>
  Who leaves a room stays out.  Whatever operations follow, invitations by the host included, a member that has left
  never becomes a current member of that room again, and so never reads or changes anything of its sessions.
\<close>

theorem departed_members_stay_out:
  assumes "collab_inv db" and "collab_step\<^sup>*\<^sup>* db db'" and "m \<in> set (memberships db)" and "mb_left m"
  shows "\<not> is_member db' (mb_room m) (mb_user m)"
proof -
  have "m \<in> set (memberships db')" using departed_persists [OF assms(2,1,3,4)] .
  moreover have "members_ok (rooms db') (memberships db') (invitations db')"
    using steps_inv [OF assms(2,1)] by (simp add: collab_inv_def)
  ultimately show ?thesis using current_member assms(4) by blast
qed

definition sample_room_db :: "bool \<Rightarrow> platform_db" where
  "sample_room_db left = sample_users\<lparr>
     memberships := [\<lparr>mb_room = 3, mb_user = 5, mb_host = True, mb_left = False\<rparr>, \<lparr>mb_room = 3, mb_user = 6, mb_host = False, mb_left = left\<rparr>],
     sessions := [sample_session],
     friendships := [\<lparr>fr_id = 8, fr_requester = 6, fr_addressee = 5, fr_status = A_ACCEPTED, fr_created_at = 1, fr_responded_at = Some 2\<rparr>],
     rooms := [\<lparr>rm_id = 3, rm_owner = 5, rm_name = u ''room'', rm_created_at = 1\<rparr>],
     invitations := [\<lparr>iv_id = 9, iv_room = 3, iv_invitee = 6, iv_inviter = 5, iv_status = A_ACCEPTED, iv_responded_at = Some 3\<rparr>]\<rparr>"

lemma sample_room_inv: "collab_inv (sample_room_db left)"
  by (simp add: collab_inv_def sample_room_db_def friendships_ok_def members_ok_def invitations_ok_def owner_of_def befriended_def
      admitted_def same_pair_def session_core_def sample_session_def min_def max_def)

theorem departed_members_stay_out_witness:
  "create_room_invitation (sample_collab_draws 10) 5 3 6 (sample_room_db True) =
     (Inl (FriendshipConflictError (u ''departed room members cannot be readmitted by replaying an invitation'')), sample_room_db True) \<and>
   \<not> is_member (snd (create_room_invitation (sample_collab_draws 10) 5 3 6 (sample_room_db True))) 3 6"
proof
  let ?m = "\<lparr>mb_room = 3, mb_user = 6, mb_host = False, mb_left = True\<rparr>"
  show "create_room_invitation (sample_collab_draws 10) 5 3 6 (sample_room_db True) =
     (Inl (FriendshipConflictError (u ''departed room members cannot be readmitted by replaying an invitation'')), sample_room_db True)"
    by (simp add: create_room_invitation_def invite_body_def require_room_host_def room_role_def sample_room_db_def sample_users_def
      find_user_def friendship_pair_def same_pair_def find_invitation_def find_membership_def accepted_def departed_def transaction_def
      min_def max_def del: u_simps)
  have "?m \<in> set (memberships (sample_room_db True))" by (simp add: sample_room_db_def)
  from departed_members_stay_out [OF sample_room_inv r_into_rtranclp this]
  show "\<not> is_member (snd (create_room_invitation (sample_collab_draws 10) 5 3 6 (sample_room_db True))) 3 6" by (simp add: K_invite)
qed

lemma change_friendship:
  "collab_change db db' \<Longrightarrow> f \<in> set (friendships db) \<Longrightarrow>
   \<exists>g \<in> set (friendships db'). fr_id g = fr_id f \<and> fr_requester g = fr_requester f \<and> fr_addressee g = fr_addressee f \<and>
     (fr_status f \<noteq> A_PENDING \<longrightarrow> fr_status g = fr_status f)"
proof (induction rule: collab_change.induct)
  case (C_answer st db fid now)
  let ?u = "\<lambda>x. if fr_id x = fid \<and> fr_status x = A_PENDING then x\<lparr>fr_status := st, fr_responded_at := now\<rparr> else x"
  show ?case by (rule bexI [of _ "?u f"]) (use C_answer in \<open>auto simp: set_update_rows\<close>)
qed auto

text \<open>
  A friendship is decided once.  Along every run a friendship keeps its row, its requester and its addressee; once it
  is accepted or rejected its status never changes again, and no second friendship of the two users appears, in either
  direction: after a rejection the two can never become friends.
\<close>

theorem friendships_are_decided_once:
  assumes "collab_inv db" and "collab_step\<^sup>*\<^sup>* db db'" and "f \<in> set (friendships db)"
  shows "\<exists>g \<in> set (friendships db'). fr_id g = fr_id f \<and> fr_requester g = fr_requester f \<and> fr_addressee g = fr_addressee f \<and>
    (fr_status f \<noteq> A_PENDING \<longrightarrow> fr_status g = fr_status f) \<and>
    (\<forall>h \<in> set (friendships db'). same_pair (fr_requester f) (fr_addressee f) h \<longrightarrow> h = g)"
proof -
  have "\<exists>g \<in> set (friendships db'). fr_id g = fr_id f \<and> fr_requester g = fr_requester f \<and> fr_addressee g = fr_addressee f \<and>
    (fr_status f \<noteq> A_PENDING \<longrightarrow> fr_status g = fr_status f)"
    using assms(2,1,3)
  proof (induction rule: rtranclp_induct)
    case (step y z)
    then obtain g where g: "g \<in> set (friendships y)" "fr_id g = fr_id f" "fr_requester g = fr_requester f"
      "fr_addressee g = fr_addressee f" "fr_status f \<noteq> A_PENDING \<longrightarrow> fr_status g = fr_status f" by blast
    obtain mid where m: "collab_change y mid" "outside mid z"
      using step_change [OF step.hyps(2)] steps_inv step.hyps(1) step.prems(1) by blast
    then obtain k where "k \<in> set (friendships z)" "fr_id k = fr_id g" "fr_requester k = fr_requester g" "fr_addressee k = fr_addressee g"
      "fr_status g \<noteq> A_PENDING \<longrightarrow> fr_status k = fr_status g" using change_friendship [OF m(1) g(1)] by (auto simp: outside_def)
    then show ?case using g(2-5) by (intro bexI [of _ k]) auto
  qed blast
  then obtain g where g: "g \<in> set (friendships db')" "fr_id g = fr_id f" "fr_requester g = fr_requester f"
    "fr_addressee g = fr_addressee f" "fr_status f \<noteq> A_PENDING \<longrightarrow> fr_status g = fr_status f" by blast
  have "h = g" if "h \<in> set (friendships db')" "same_pair (fr_requester f) (fr_addressee f) h" for h
  proof (rule distinct_key_unique [where key = pair_key, OF _ that(1) g(1)])
    show "distinct (map pair_key (friendships db'))"
      using steps_inv [OF assms(2,1)] by (simp add: collab_inv_def friendships_ok_def)
    show "pair_key h = pair_key g" using that(2) g(3,4) by (simp add: same_pair_def pair_key_def)
  qed
  then show ?thesis using g by blast
qed

theorem friendships_are_decided_once_witness:
  "\<exists>g \<in> set (friendships (snd (respond_to_friend_request (sample_collab_draws 11) 5 8 False (sample_room_db False)))).
     fr_id g = 8 \<and> fr_status g = A_ACCEPTED"
proof -
  let ?f = "\<lparr>fr_id = 8, fr_requester = 6, fr_addressee = 5, fr_status = A_ACCEPTED, fr_created_at = 1, fr_responded_at = Some 2\<rparr>"
  have "?f \<in> set (friendships (sample_room_db False))" by (simp add: sample_room_db_def)
  from friendships_are_decided_once [OF sample_room_inv r_into_rtranclp this]
  show ?thesis using K_respond by fastforce
qed

lemma friendship_pair_key: "friendship_pair db a b = find (\<lambda>f. pair_key f = (min a b, max a b)) (friendships db)"
  unfolding friendship_pair_def by (rule arg_cong [where f = "\<lambda>P. find P (friendships db)"]) (auto simp: same_pair_def pair_key_def)

lemma befriended_pair:
  assumes "friendships_ok (friendships db)" "befriended (friendships db) a b"
  shows "\<exists>f. friendship_pair db a b = Some f \<and> fr_status f = A_ACCEPTED"
proof -
  from assms(2) obtain f where f: "f \<in> set (friendships db)" "pair_key f = (min a b, max a b)" "fr_status f = A_ACCEPTED"
    by (auto simp: befriended_def same_pair_def pair_key_def)
  then show ?thesis using assms(1) unfolding friendship_pair_key
    by (intro exI [of _ f]) (simp add: find_by_key friendships_ok_def)
qed

text \<open>The invitation of a current member answers with the stored row.\<close>

lemma invite_again:
  assumes inv: "collab_inv db" and o: "owner_of (rooms db) room actor" and x: "find_user db invitee \<noteq> None"
    and b: "befriended (friendships db) actor invitee" and i: "i \<in> set (invitations db)" "iv_room i = room" "iv_invitee i = invitee"
    and m: "is_member db room invitee" and ne: "actor \<noteq> invitee"
  shows "create_room_invitation d actor room invitee db = (Inr (invitation_view_of i), db)"
proof -
  have ok: "friendships_ok (friendships db)" "members_ok (rooms db) (memberships db) (invitations db)"
    "invitations_ok (friendships db) (rooms db) (memberships db) (invitations db)" using inv by (simp_all add: collab_inv_def)
  have h: "require_room_host db room actor = Inr ()" using owner_hosts [OF inv o] by (simp add: require_room_host_def)
  obtain f where f: "friendship_pair db actor invitee = Some f" "fr_status f = A_ACCEPTED"
    using befriended_pair [OF ok(1) b] by blast
  have fi: "find_invitation db room invitee = Some i"
    using find_by_key [where key = "\<lambda>i. (iv_room i, iv_invitee i)", of "invitations db" i "(room, invitee)"] ok(3) i
    by (simp add: find_invitation_def invitations_ok_def)
  from m obtain y where y: "y \<in> set (memberships db)" "mb_room y = room" "mb_user y = invitee" "\<not> mb_left y"
    by (auto simp: is_member_def list_ex_iff)
  have fm: "find_membership db room invitee = Some y"
    using find_by_key [where key = "\<lambda>m. (mb_room m, mb_user m)", of "memberships db" y "(room, invitee)"] ok(2) y
    by (simp add: find_membership_def members_ok_def)
  have "iv_status i = A_ACCEPTED" using ok(3) i(1) by (simp add: invitations_ok_def)
  then show ?thesis using ne h x f fi fm y(4)
    by (auto simp: create_room_invitation_def invite_body_def accepted_def departed_def admit_invitation_def admit_member_def transaction_def)
qed

lemma admit_member_row:
  assumes "admit_member room invitee (find_membership db room invitee) db1 = Inr db2" "memberships db1 = memberships db"
  shows "is_member db2 room invitee \<and> invitations db2 = invitations db1 \<and> users db2 = users db1"
proof (cases "find_membership db room invitee")
  case None
  then show ?thesis using assms by (auto simp: admit_member_def insert_membership_def is_member_def)
next
  case (Some m)
  then have m: "m \<in> set (memberships db)" "mb_room m = room" "mb_user m = invitee"
    by (auto simp: find_membership_def dest!: find_Some_set)
  show ?thesis
  proof (cases "mb_left m")
    case True
    have "m\<lparr>mb_left := False\<rparr> \<in> set (memberships db2)"
      using assms Some True m by (auto simp: admit_member_def set_update_rows image_iff intro!: bexI [of _ m])
    then show ?thesis using assms Some True m by (auto simp: admit_member_def is_member_def list_ex_iff intro!: bexI [of _ "m\<lparr>mb_left := False\<rparr>"])
  next
    case False
    then show ?thesis using assms Some m by (auto simp: admit_member_def is_member_def list_ex_iff)
  qed
qed

lemma admitted_row:
  assumes c: "create_room_invitation d actor room invitee db = (Inr v, db')"
  shows "(\<exists>i \<in> set (invitations db'). iv_room i = room \<and> iv_invitee i = invitee \<and> v = invitation_view_of i) \<and>
    is_member db' room invitee \<and> users db' = users db"
proof -
  let ?inv = "find_invitation db room invitee" and ?mem = "find_membership db room invitee"
  from c obtain i db1 db2 where s: "admit_invitation d actor room invitee ?inv db = Inr (i, db1)"
    "admit_member room invitee ?mem db1 = Inr db2" "v = invitation_view_of i"
    "if \<not> accepted ?inv \<or> departed ?mem then activity_frame db2 db' else db' = db2"
    by (rule invite_parts)
  have i: "i \<in> set (invitations db1) \<and> iv_room i = room \<and> iv_invitee i = invitee" "memberships db1 = memberships db" "users db1 = users db"
    using s(1) by (auto simp: admit_invitation_def and_then_Inr insert_invitation_def Let_def find_invitation_def set_update_rows
        accept_invitation_def image_iff split: option.splits if_splits dest!: find_Some_set)
  note m = admit_member_row [OF s(2) i(2)]
  have f: "activity_frame db2 db'" using s(4) by (auto split: if_splits)
  then show ?thesis using i m s(3) by (auto simp: frame_platform frame_same is_member_def)
qed

text \<open>
  An invitation admits a friend, once.  It succeeds only for the room's owner and an accepted friend of theirs, and then
  the invitee is a current member with an accepted invitation; repeating it returns the same invitation and changes nothing.
\<close>

theorem invitation_admits_a_friend:
  assumes inv: "collab_inv db" and c: "create_room_invitation d actor room invitee db = (Inr v, db')"
  shows "owner_of (rooms db) room actor \<and> befriended (friendships db) actor invitee \<and> is_member db' room invitee \<and>
    in_room v = room \<and> in_invitee v = invitee \<and> in_status v = A_ACCEPTED \<and>
    create_room_invitation d' actor room invitee db' = (Inr v, db')"
proof -
  from c have u: "find_user db invitee \<noteq> None \<and> require_room_host db room actor = Inr () \<and> actor \<noteq> invitee \<and>
      befriended (friendships db) actor invitee" by (rule invite_parts) blast
  have own: "owner_of (rooms db) room actor" using u inv room_host_owner unfolding collab_inv_def by blast
  have inv': "collab_inv db'" using step_inv [OF K_invite inv] c by (metis snd_conv)
  have o': "outside db db' \<or> (\<exists>ii mm. outside (db\<lparr>invitations := ii, memberships := mm\<rparr>) db')"
    using invite_Inr [OF c inv] by blast
  then have t: "rooms db' = rooms db" "friendships db' = friendships db" by (auto simp: outside_def)
  obtain i where i: "i \<in> set (invitations db')" "iv_room i = room" "iv_invitee i = invitee" "v = invitation_view_of i"
    "is_member db' room invitee" "users db' = users db" using admitted_row [OF c] by blast
  have "create_room_invitation d' actor room invitee db' = (Inr v, db')"
    unfolding i(4) by (rule invite_again [OF inv']) (use own u i t in \<open>simp_all add: find_user_def\<close>)
  moreover have "iv_status i = A_ACCEPTED" using inv' i(1) by (simp add: collab_inv_def invitations_ok_def)
  ultimately show ?thesis using own u i by (simp add: invitation_view_of_def)
qed

definition sample_friends :: platform_db where
  "sample_friends = (sample_room_db False)\<lparr>memberships := [\<lparr>mb_room = 3, mb_user = 5, mb_host = True, mb_left = False\<rparr>], invitations := []\<rparr>"

lemma sample_friends_inv: "collab_inv sample_friends"
  by (simp add: collab_inv_def sample_friends_def sample_room_db_def friendships_ok_def members_ok_def invitations_ok_def owner_of_def
      befriended_def admitted_def same_pair_def session_core_def sample_session_def min_def max_def)

lemma uuid_three: "uuid_text 3 = u ''00000000-0000-0000-0000-000000000003''"
  by code_simp

lemma sample_admission_effect:
  "\<exists>n. apply_effect (cd_closed sample_draws) (Some 5) (u ''room:'' @ uuid_text 3 @ u '':member:'' @ uuid_text 6 @ u '':added'')
     (member_added_effect 3 6) ((0, 0), sample_friends\<lparr>invitations := iv, memberships := ms, audit := au\<rparr>) =
     Inr ((1, 0), sample_friends\<lparr>invitations := iv, memberships := ms, audit := au, notifications := n\<rparr>)"
proof -
  obtain j where "safe_audit_metadata [(Some (u ''room_id''), MUuid 3)] = Inr j"
    "require_size 2048 (u ''outbox template data exceeds 2 KiB'') j = Inr j"
    by (simp add: uuid_three metadata_eval)
  then show ?thesis
    by (simp add: apply_effect_def Let_def member_added_effect_def validate_notification_catalog_def action_pairs_def
      snapshot_preferences_def unconditional_kinds_def first_occurrences_def materialize_def insert_notification_def
      notification_checks_def notification_kinds_def in_app_row_def fresh_def sample_friends_def sample_room_db_def sample_users_def
      platform_eval sample_draws_def u_inject del: u_simps)
qed

lemma sample_invites:
  "\<exists>v db. create_room_invitation (sample_collab_draws 9) 5 3 6 sample_friends = (Inr v, db)"
proof -
  let ?i = "\<lparr>iv_id = 9, iv_room = 3, iv_invitee = 6, iv_inviter = 5, iv_status = A_ACCEPTED, iv_responded_at = Some 9\<rparr>"
  let ?db = "sample_friends\<lparr>invitations := [?i],
    memberships := [\<lparr>mb_room = 3, mb_user = 5, mb_host = True, mb_left = False\<rparr>, \<lparr>mb_room = 3, mb_user = 6, mb_host = False, mb_left = False\<rparr>]\<rparr>"
  have k: "build_event_key (u ''room.member_added'') (kwargs [(''room_id'', IUuid 3), (''user_id'', IUuid 6)]) =
      Inr (u ''room:'' @ uuid_text 3 @ u '':member:'' @ uuid_text 6 @ u '':added'')"
    by (simp add: build_event_key_def supported_event_types_def event_template_def ustr_startswith_def kwargs_def segment_text_def
      field_def ustr_join_def)
  obtain j where j: "safe_audit_metadata [(Some (u ''role''), MStr (u ''member''))] = Inr j" "jsonb_size_at_most 4096 j"
    by (simp add: metadata_eval)
  have t: "u ''room.member_added'' \<in> set supported_event_types" by (simp add: supported_event_types_def)
  let ?a = "\<lparr>na_key = u ''room:'' @ uuid_text 3 @ u '':member:'' @ uuid_text 6 @ u '':added'', na_type = u ''room.member_added'',
      na_actor = Some 5, na_scope = SC_ROOM, na_audience = None, na_room = Some 3, na_session = None,
      na_entity_type = u ''room_member'', na_entity_id = 6, na_metadata = [(Some (u ''role''), MStr (u ''member''))]\<rparr>"
  have "\<exists>x. checked_append 80 ?a ?db = Inr (True, ?db\<lparr>audit := x\<rparr>)"
    using j t by (simp add: checked_append_def append_activity_def new_audit_row_def audit_checks_def scope_shape_def fresh_def
      sample_friends_def sample_room_db_def sample_users_def platform_eval del: u_simps)
  then obtain x where x: "checked_append 80 ?a ?db = Inr (True, ?db\<lparr>audit := x\<rparr>)" ..
  have "\<exists>r db. record_activity (cd_closed sample_draws) ?a [member_added_effect 3 6] ?db = Inr (r, db)"
    using x sample_admission_effect [where ms = "memberships ?db" and iv = "invitations ?db" and au = x]
    by (auto simp: record_activity_def sample_draws_def simp del: u_simps)
  then obtain r db where r: "record_activity (cd_closed sample_draws) ?a [member_added_effect 3 6] ?db = Inr (r, db)" by blast
  then have "record_event (cd_closed sample_draws) (u ''room.member_added'') [(''room_id'', IUuid 3), (''user_id'', IUuid 6)] 5 SC_ROOM None
      (Some 3) None (u ''room_member'') 6 [(Some (u ''role''), MStr (u ''member''))] [member_added_effect 3 6] ?db = Inr db"
    by (simp add: record_event_def k del: u_simps)
  moreover have a: "admit_invitation (sample_collab_draws 9) 5 3 6 (find_invitation sample_friends 3 6) sample_friends =
      Inr (?i, sample_friends\<lparr>invitations := [?i]\<rparr>)"
    "admit_member 3 6 (find_membership sample_friends 3 6) (sample_friends\<lparr>invitations := [?i]\<rparr>) = Inr ?db"
    by (simp_all add: find_invitation_def find_membership_def admit_invitation_def admit_member_def insert_invitation_def
      insert_membership_def fresh_def sample_collab_draws_def sample_friends_def Let_def del: u_simps)
  moreover have "\<not> accepted (find_invitation sample_friends 3 6)" by (simp add: accepted_def find_invitation_def sample_friends_def)
  moreover have "cb_first (sample_collab_draws 9) = cd_closed sample_draws" by (simp add: sample_collab_draws_def)
  moreover have "require_room_host sample_friends 3 5 = Inr ()" "find_user sample_friends 6 \<noteq> None"
    "case friendship_pair sample_friends 5 6 of None \<Rightarrow> False | Some f \<Rightarrow> fr_status f = A_ACCEPTED"
    by (simp_all add: require_room_host_def room_role_def find_user_def friendship_pair_def same_pair_def sample_friends_def
      sample_room_db_def sample_users_def min_def max_def del: u_simps)
  ultimately have "invite_body (sample_collab_draws 9) 5 3 6 sample_friends = Inr (invitation_view_of ?i, db)"
    by (simp add: invite_body_def Let_def del: u_simps)
  then show ?thesis by (auto simp: create_room_invitation_def)
qed

theorem invitation_admits_a_friend_witness:
  "\<exists>v db. create_room_invitation (sample_collab_draws 9) 5 3 6 sample_friends = (Inr v, db) \<and>
     \<not> is_member sample_friends 3 6 \<and> is_member db 3 6 \<and>
     create_room_invitation (sample_collab_draws 12) 5 3 6 db = (Inr v, db)"
proof -
  obtain v db where c: "create_room_invitation (sample_collab_draws 9) 5 3 6 sample_friends = (Inr v, db)" using sample_invites by blast
  have "\<not> is_member sample_friends 3 6" by (simp add: is_member_def sample_friends_def)
  with invitation_admits_a_friend [OF sample_friends_inv c, of "sample_collab_draws 12"] c show ?thesis by blast
qed

end
