(* ===== verification/Keyset_Page.thy ===== *)
theory Keyset_Page
  imports Platform_Tables
begin

text \<open>
  Keyset pagination by (created_at, id), newest first, as the comments, notifications and outbox repositories do it: a page
  has at most \<open>limit\<close> rows (clamped to 1..100), and its cursor, the key of its last row, is present when a row is left.
  The base64 text of a cursor (\<open>activity_pagination.py\<close>) is not modelled: a cursor is the pair it carries.
\<close>

definition bounded_page_limit :: "int \<Rightarrow> nat" where
  "bounded_page_limit limit = nat (max 1 (min limit 100))"

text \<open>\<open>ORDER BY created_at DESC, id DESC\<close>\<close>

definition newest_first :: "('r \<Rightarrow> int \<times> uuid) \<Rightarrow> 'r list \<Rightarrow> 'r list" where
  "newest_first key rows = rev (sort_key (fst \<circ> key) (sort_key (snd \<circ> key) rows))"

definition key_less :: "int \<times> uuid \<Rightarrow> int \<times> uuid \<Rightarrow> bool" where
  "key_less a b \<longleftrightarrow> fst a < fst b \<or> fst a = fst b \<and> snd a < snd b"

definition time_page ::
  "('r \<Rightarrow> int \<times> uuid) \<Rightarrow> 'r list \<Rightarrow> (int \<times> uuid) option \<Rightarrow> int \<Rightarrow> 'r list \<times> (int \<times> uuid) option" where
  "time_page key rows cur limit =
     (let n = bounded_page_limit limit;
          found = take (n + 1) (newest_first key
            (filter (\<lambda>r. case cur of None \<Rightarrow> True | Some k \<Rightarrow> key_less (key r) k) rows));
          visible = take n found
      in (visible, if n < length found then Some (key (last visible)) else None))"

text \<open>The cursor must name a row the reader owns, with its time.\<close>

definition owned_cursor :: "('r \<Rightarrow> int \<times> uuid) \<Rightarrow> ustr \<Rightarrow> 'r list \<Rightarrow> (int \<times> uuid) option \<Rightarrow> app_error + unit" where
  "owned_cursor key message rows cur =
     (case cur of
        None \<Rightarrow> Inr ()
      | Some (t, i) \<Rightarrow>
          require (case find (\<lambda>r. snd (key r) = i) rows of None \<Rightarrow> False | Some r \<Rightarrow> fst (key r) = t)
            (PermissionError message) (Inr ()))"

section \<open>The order\<close>

lemma key_less_trans: "key_less a b \<Longrightarrow> key_less b c \<Longrightarrow> key_less a c"
  by (auto simp: key_less_def)

lemma key_less_irrefl: "\<not> key_less a a"
  by (simp add: key_less_def)

lemma key_less_total: "a = b \<or> key_less a b \<or> key_less b a"
  by (auto simp: key_less_def prod_eq_iff)

lemma set_newest_first [simp]: "set (newest_first key rows) = set rows"
  by (simp add: newest_first_def)

lemma length_newest_first [simp]: "length (newest_first key rows) = length rows"
  by (simp add: newest_first_def)

lemma sort_key_lex:
  assumes "sorted (map g xs)"
  shows "sorted_wrt (\<lambda>a b. f a < f b \<or> f a = f b \<and> g a \<le> g b) (sort_key f xs)"
  using assms
proof (induction xs)
  case (Cons x xs)
  then have IH: "sorted_wrt (\<lambda>a b. f a < f b \<or> f a = f b \<and> g a \<le> g b) (sort_key f xs)"
    and le: "\<forall>y \<in> set (sort_key f xs). g x \<le> g y" by simp_all
  have "sorted_wrt (\<lambda>a b. f a < f b \<or> f a = f b \<and> g a \<le> g b) (insort_key f x ys)"
    if "sorted_wrt (\<lambda>a b. f a < f b \<or> f a = f b \<and> g a \<le> g b) ys" "\<forall>y \<in> set ys. g x \<le> g y" for ys
    using that by (induction ys) (auto simp: set_insort_key)
  then show ?case using IH le by simp
qed simp

lemma keyset_order_sorted:
  assumes "distinct (map key rows)"
  shows "sorted_wrt (\<lambda>a b. key_less (key b) (key a)) (newest_first key rows)"
proof -
  let ?ys = "sort_key (fst \<circ> key) (sort_key (snd \<circ> key) rows)"
  have "sorted_wrt (\<lambda>a b. (fst \<circ> key) a < (fst \<circ> key) b \<or> (fst \<circ> key) a = (fst \<circ> key) b \<and> (snd \<circ> key) a \<le> (snd \<circ> key) b) ?ys"
    by (rule sort_key_lex) (rule sorted_sort_key)
  moreover have "distinct (map key ?ys)"
    using assms by (metis distinct_map distinct_sort set_sort)
  then have "sorted_wrt (\<lambda>a b. key a \<noteq> key b) ?ys" by (simp add: distinct_conv_nth sorted_wrt_iff_nth_less)
  ultimately have "sorted_wrt (\<lambda>a b. key_less (key a) (key b)) ?ys"
    by (auto simp: sorted_wrt_iff_nth_less key_less_def prod_eq_iff order.strict_iff_order)
  then show ?thesis by (simp add: newest_first_def sorted_wrt_rev)
qed

lemma newest_first_filter: "newest_first key (filter P rows) = filter P (newest_first key rows)"
  by (simp add: newest_first_def filter_sort flip: rev_filter)

section \<open>Reading all pages\<close>

text \<open>The rows a reader gets from \<open>n\<close> requests, each with the cursor of the page before.\<close>

fun read_pages :: "('r \<Rightarrow> int \<times> uuid) \<Rightarrow> 'r list \<Rightarrow> int \<Rightarrow> nat \<Rightarrow> (int \<times> uuid) option \<Rightarrow> 'r list" where
  "read_pages key rows limit 0 cur = []"
| "read_pages key rows limit (Suc n) cur =
     (case time_page key rows cur limit of
        (visible, next) \<Rightarrow> visible @ (case next of None \<Rightarrow> [] | Some k \<Rightarrow> read_pages key rows limit n (Some k)))"

lemma filter_below:
  assumes "sorted_wrt (\<lambda>a b. key_less (key b) (key a)) ys" "i < length ys"
  shows "filter (\<lambda>r. key_less (key r) (key (ys ! i))) ys = drop (Suc i) ys"
proof -
  have "filter (\<lambda>r. key_less (key r) (key (ys ! i))) (take (Suc i) ys) = []"
  proof -
    have "\<not> key_less (key r) (key (ys ! i))" if r: "r \<in> set (take (Suc i) ys)" for r
    proof -
      from r obtain j where j: "j \<le> i" "r = ys ! j" using assms(2) by (auto simp: in_set_conv_nth less_Suc_eq_le)
      show ?thesis
      proof (cases "j = i")
        case True
        then show ?thesis using j key_less_irrefl by simp
      next
        case False
        then have "key_less (key (ys ! i)) (key r)" using assms j by (simp add: sorted_wrt_iff_nth_less)
        then show ?thesis using key_less_trans key_less_irrefl by blast
      qed
    qed
    then show ?thesis by (simp add: filter_empty_conv)
  qed
  moreover have "filter (\<lambda>r. key_less (key r) (key (ys ! i))) (drop (Suc i) ys) = drop (Suc i) ys"
  proof -
    have "key_less (key r) (key (ys ! i))" if "r \<in> set (drop (Suc i) ys)" for r
      using that assms by (auto simp: in_set_conv_nth sorted_wrt_iff_nth_less)
    then show ?thesis by simp
  qed
  ultimately show ?thesis using append_take_drop_id [of "Suc i" ys] filter_append by (metis append_Nil)
qed

text \<open>The rows below a cursor, newest first.\<close>

definition rows_below :: "('r \<Rightarrow> int \<times> uuid) \<Rightarrow> 'r list \<Rightarrow> (int \<times> uuid) option \<Rightarrow> 'r list" where
  "rows_below key rows cur =
     newest_first key (filter (\<lambda>r. case cur of None \<Rightarrow> True | Some k \<Rightarrow> key_less (key r) k) rows)"

lemma page_rest:
  assumes d: "distinct (map key rows)" and n: "0 < n" "n < length (rows_below key rows cur)"
  shows "rows_below key rows (Some (key (last (take n (rows_below key rows cur))))) = drop n (rows_below key rows cur)"
proof -
  let ?zs = "rows_below key rows cur" and ?ys = "newest_first key rows"
  let ?P = "\<lambda>r. case cur of None \<Rightarrow> True | Some k \<Rightarrow> key_less (key r) k"
  have zs: "?zs = filter ?P ?ys" by (simp add: rows_below_def newest_first_filter)
  have s: "sorted_wrt (\<lambda>a b. key_less (key b) (key a)) ?zs" unfolding zs
    using keyset_order_sorted [OF d] by (rule sorted_wrt_filter)
  have "take n ?zs \<noteq> []" using n by auto
  then have l: "last (take n ?zs) = ?zs ! (n - 1)" using n by (simp add: last_conv_nth min_def)
  have mem: "?zs ! (n - 1) \<in> set ?zs" using n by (intro nth_mem) linarith
  then have p: "?P (?zs ! (n - 1))" unfolding zs by (simp only: set_filter mem_Collect_eq)
  have "rows_below key rows (Some (key (?zs ! (n - 1)))) = filter (\<lambda>r. key_less (key r) (key (?zs ! (n - 1)))) ?ys"
    by (simp add: rows_below_def newest_first_filter)
  also have "\<dots> = filter (\<lambda>r. key_less (key r) (key (?zs ! (n - 1)))) ?zs"
    unfolding zs filter_filter
  proof (rule filter_cong)
    fix r
    show "key_less (key r) (key (filter ?P ?ys ! (n - 1))) \<longleftrightarrow> ?P r \<and> key_less (key r) (key (filter ?P ?ys ! (n - 1)))"
      using p unfolding zs by (auto split: option.splits intro: key_less_trans)
  qed simp
  also have "\<dots> = drop n ?zs" using filter_below [OF s, of "n - 1"] n by simp
  finally show ?thesis unfolding l .
qed

lemma time_page_rows:
  "time_page key rows cur limit =
     (take (bounded_page_limit limit) (rows_below key rows cur),
      if bounded_page_limit limit < length (rows_below key rows cur)
      then Some (key (last (take (bounded_page_limit limit) (rows_below key rows cur)))) else None)"
  by (simp add: time_page_def rows_below_def Let_def min_def)

lemma bounded_page_limit_pos: "1 \<le> bounded_page_limit limit \<and> bounded_page_limit limit \<le> 100"
  by (auto simp: bounded_page_limit_def)

lemma pages_cover_rows:
  assumes "distinct (map key rows)" and "length (rows_below key rows cur) \<le> n * bounded_page_limit limit"
  shows "read_pages key rows limit n cur = rows_below key rows cur"
  using assms(2)
proof (induction n arbitrary: cur)
  case (Suc n)
  let ?k = "bounded_page_limit limit" and ?zs = "rows_below key rows cur"
  show ?case
  proof (cases "?k < length ?zs")
    case True
    have r: "rows_below key rows (Some (key (last (take ?k ?zs)))) = drop ?k ?zs"
      by (rule page_rest [OF assms(1) _ True]) (use bounded_page_limit_pos [of limit] in linarith)
    have "read_pages key rows limit n (Some (key (last (take ?k ?zs)))) = drop ?k ?zs"
      using Suc.IH [of "Some (key (last (take ?k ?zs)))"] Suc.prems r by simp
    then show ?thesis using True by (simp add: time_page_rows)
  next
    case False
    then show ?thesis by (simp add: time_page_rows)
  qed
qed simp

section \<open>Requests for pages\<close>

text \<open>A reader that asks for page after page, at most \<open>n\<close>, until there is no cursor or a request fails.\<close>

fun read_through ::
  "((int \<times> uuid) option \<Rightarrow> app_error + 'v list \<times> (int \<times> uuid) option) \<Rightarrow> nat \<Rightarrow> (int \<times> uuid) option \<Rightarrow> app_error + 'v list" where
  "read_through fetch 0 cur = Inr []"
| "read_through fetch (Suc n) cur =
     and_then (fetch cur) (\<lambda>(visible, next).
       case next of
         None \<Rightarrow> Inr visible
       | Some k \<Rightarrow> and_then (read_through fetch n (Some k)) (\<lambda>rest. Inr (visible @ rest)))"

text \<open>
  What a listing promises: in the states \<open>ok\<close> admits, a request with no cursor or with the key of a row of the reader
  answers one page of \<open>rows\<close>, each row shown by \<open>view\<close>.
\<close>

locale keyset_listing =
  fixes fetch :: "'c \<Rightarrow> int \<Rightarrow> (int \<times> uuid) option \<Rightarrow> app_error + 'v list \<times> (int \<times> uuid) option"
    and rows :: "'c \<Rightarrow> 'r list"
    and key :: "'r \<Rightarrow> int \<times> uuid"
    and view :: "'c \<Rightarrow> 'r \<Rightarrow> 'v"
    and ok :: "'c \<Rightarrow> bool"
  assumes keys: "ok c \<Longrightarrow> distinct (map key (rows c))"
    and page: "ok c \<Longrightarrow> (\<And>k. cur = Some k \<Longrightarrow> k \<in> key ` set (rows c)) \<Longrightarrow>
      fetch c limit cur = (case time_page key (rows c) cur limit of (visible, next) \<Rightarrow> Inr (map (view c) visible, next))"
begin

lemma next_cursor_owned:
  assumes "ok c" "time_page key (rows c) cur limit = (visible, Some k)"
  shows "k \<in> key ` set (rows c)"
proof -
  have k: "k = key (last visible)" "visible = take (bounded_page_limit limit) (rows_below key (rows c) cur)"
    "bounded_page_limit limit < length (rows_below key (rows c) cur)"
    using assms(2) by (auto simp: time_page_rows split: if_splits)
  then have "visible \<noteq> []" using bounded_page_limit_pos [of limit] by auto
  then have "last visible \<in> set (rows_below key (rows c) cur)" using k(2) by (metis in_set_takeD last_in_set)
  then show ?thesis using k(1) by (auto simp: rows_below_def)
qed

lemma read_through_pages:
  assumes "ok c" "\<And>k. cur = Some k \<Longrightarrow> k \<in> key ` set (rows c)"
  shows "read_through (fetch c limit) n cur = Inr (map (view c) (read_pages key (rows c) limit n cur))"
  using assms(2)
proof (induction n arbitrary: cur)
  case (Suc n)
  obtain visible "next" where p: "time_page key (rows c) cur limit = (visible, next)" by fastforce
  have f: "fetch c limit cur = Inr (map (view c) visible, next)" using page [OF assms(1) Suc.prems] p by simp
  show ?case
  proof (cases "next")
    case None
    then show ?thesis using f p by simp
  next
    case (Some k)
    have "read_through (fetch c limit) n (Some k) = Inr (map (view c) (read_pages key (rows c) limit n (Some k)))"
      by (rule Suc.IH) (use next_cursor_owned [OF assms(1)] p Some in simp)
    then show ?thesis using f p Some by simp
  qed
qed simp

lemma complete:
  assumes "ok c" "length (rows c) \<le> n * bounded_page_limit limit"
  shows "read_through (fetch c limit) n None = Inr (map (view c) (newest_first key (rows c)))"
proof -
  have "rows_below key (rows c) None = newest_first key (rows c)" by (simp add: rows_below_def)
  then have "read_pages key (rows c) limit n None = newest_first key (rows c)"
    using pages_cover_rows [OF keys [OF assms(1)], of None n limit] assms(2) by simp
  then show ?thesis using read_through_pages [OF assms(1), of None] by simp
qed

end

end
