(* ===== verification/Comments.thy ===== *)
theory Comments
  imports Platform_Tables Generation_Persist Keyset_Page
begin

text \<open>
  \<open>comments_service.py\<close>, \<open>comments_repository.py\<close> and \<open>notification_activity_routes.py\<close>: comments on a session with
  explicit mentions, optimistic versions and idempotent creation.

  \<^item> A request handler runs one operation in one transaction, which the locks make a function on the committed state;
    the deferred triggers \<open>comments_anchor_ancestry\<close> and \<open>comment_mentions_require_membership\<close> of migration 0012 are the
    checks at its end.
  \<^item> \<open>sha\<close> is \<open>hashlib.sha256(...).hexdigest()\<close>, a parameter; the text it is applied to is \<open>fingerprint_text\<close>.
  \<^item> The references from a comment to its session and author and from a mention to a user follow from the membership rows
    read before; versions are unbounded (a PostgreSQL INTEGER overflows after \<open>2 ^ 31\<close> edits of one comment).
\<close>

section \<open>Checks of a request\<close>

definition comment_body :: "ustr \<Rightarrow> app_error + ustr" where
  "comment_body value =
     (let n = py_strip value in
      require (1 \<le> length n \<and> length n \<le> 5000 \<and> 0 \<notin> set n) (ValueError (u ''comment body is invalid'')) (Inr n))"

fun anchor_value :: "comment_anchor_kind \<Rightarrow> ustr" where
  "anchor_value CA_REPORT = u ''report''"
| "anchor_value CA_SEGMENT = u ''generated_segment''"

text \<open>The checked anchor, with its kind typed.\<close>

definition comment_anchor :: "ustr option \<Rightarrow> uuid option \<Rightarrow> app_error + (comment_anchor_kind \<times> uuid) option" where
  "comment_anchor kind aid =
     (case (kind, aid) of
        (None, None) \<Rightarrow> Inr None
      | (Some k, Some i) \<Rightarrow>
          if k = anchor_value CA_REPORT then Inr (Some (CA_REPORT, i))
          else if k = anchor_value CA_SEGMENT then Inr (Some (CA_SEGMENT, i))
          else Inl (ValueError (u ''comment anchor is invalid''))
      | _ \<Rightarrow> Inl (ValueError (u ''comment anchor is invalid'')))"

record session_access =
  sa_room :: uuid
  sa_owner :: uuid
  sa_members :: "uuid list"

definition require_membership :: "'z platform_db_scheme \<Rightarrow> uuid \<Rightarrow> uuid \<Rightarrow> app_error + session_access" where
  "require_membership db sid user =
     (case member_session db user sid of
        None \<Rightarrow> Inl (PermissionError (u ''session is unavailable''))
      | Some s \<Rightarrow>
          case find (\<lambda>r. rm_id r = ts_room s) (rooms db) of
            None \<Rightarrow> Inl (PermissionError (u ''session is unavailable''))
          | Some r \<Rightarrow>
              Inr \<lparr>sa_room = ts_room s, sa_owner = rm_owner r,
                   sa_members = sort (map mb_user (filter (\<lambda>m. mb_room m = ts_room s \<and> \<not> mb_left m) (memberships db)))\<rparr>)"

definition checked_mentions :: "uuid list \<Rightarrow> uuid \<Rightarrow> session_access \<Rightarrow> app_error + uuid list" where
  "checked_mentions values actor access =
     (let m = first_occurrences (filter (\<lambda>v. v \<noteq> actor) values) in
      require (\<not> length m > 20) (ValueError (u ''at most 20 explicit mentions are allowed''))
      (require (list_all (\<lambda>v. v \<in> set (sa_members access)) m)
        (PermissionError (u ''mentioned user is not a current member'')) (Inr m)))"

section \<open>The fingerprint of a request\<close>

text \<open>One character of a JSON string with \<open>ensure_ascii=True\<close>.\<close>

definition ascii_escape_char :: "nat \<Rightarrow> ustr" where
  "ascii_escape_char c =
     (if c = 34 then [92, 34] else if c = 92 then [92, 92]
      else if c = 10 then [92, 110] else if c = 13 then [92, 114] else if c = 9 then [92, 116]
      else if c = 8 then [92, 98] else if c = 12 then [92, 102]
      else if 32 \<le> c \<and> c \<le> 126 then [c]
      else if c < 65536 then [92, 117] @ hex_pad 4 c
      else [92, 117] @ hex_pad 4 (55296 + (c - 65536) div 1024) @ [92, 117] @ hex_pad 4 (56320 + (c - 65536) mod 1024))"

definition ascii_quote :: "ustr \<Rightarrow> ustr" where
  "ascii_quote s = [34] @ concat (map ascii_escape_char s) @ [34]"

text \<open>\<open>json.dumps(payload, sort_keys=True, separators=(",", ":"))\<close>\<close>

definition fingerprint_text :: "ustr \<Rightarrow> (comment_anchor_kind \<times> uuid) option \<Rightarrow> uuid list \<Rightarrow> ustr" where
  "fingerprint_text body anchor mentioned =
     u ''{\"anchor_id\":'' @ (case anchor of None \<Rightarrow> u ''null'' | Some (k, i) \<Rightarrow> ascii_quote (uuid_text i)) @
     u '',\"anchor_kind\":'' @ (case anchor of None \<Rightarrow> u ''null'' | Some (k, i) \<Rightarrow> ascii_quote (anchor_value k)) @
     u '',\"body\":'' @ ascii_quote body @
     u '',\"mentions\":['' @ comma_join (map ascii_quote (sort (map uuid_text mentioned))) @ u '']}''"

section \<open>Statements\<close>

definition comment_checks :: "comment_row \<Rightarrow> bool" where
  "comment_checks c \<longleftrightarrow>
     cm_version c \<ge> 1 \<and>
     (case cm_deleted_at c of None \<Rightarrow> 1 \<le> length (cm_body c) \<and> length (cm_body c) \<le> 5000 | Some t \<Rightarrow> cm_body c = []) \<and>
     is_sha256_hex (cm_fingerprint c)"

text \<open>\<open>INSERT INTO comments ... ON CONFLICT(author_id,client_request_id) DO NOTHING\<close>: whether a row was inserted.\<close>

definition insert_comment :: "comment_row \<Rightarrow> 'z platform_db_scheme \<Rightarrow> app_error + bool \<times> 'z platform_db_scheme" where
  "insert_comment c db =
     require (comment_checks c) (PgError CheckViolation)
       (if \<not> fresh (\<lambda>x. (cm_author x, cm_request x)) c (comments db) then Inr (False, db)
        else require (fresh cm_id c (comments db)) (PgError UniqueViolation)
               (Inr (True, db\<lparr>comments := comments db @ [c]\<rparr>)))"

text \<open>The rows \<open>insert_mentions\<close> adds, and the statement.\<close>

definition new_mentions :: "uuid \<Rightarrow> uuid list \<Rightarrow> 'z platform_db_scheme \<Rightarrow> mention_row list" where
  "new_mentions cid xs db =
     filter (\<lambda>m. m \<notin> set (mentions db)) (map (\<lambda>x. \<lparr>mn_comment = cid, mn_user = x\<rparr>) (first_occurrences xs))"

definition insert_mentions :: "uuid \<Rightarrow> uuid list \<Rightarrow> 'z platform_db_scheme \<Rightarrow> 'z platform_db_scheme" where
  "insert_mentions cid xs db = db\<lparr>mentions := mentions db @ new_mentions cid xs db\<rparr>"

definition mentioned_users :: "'z platform_db_scheme \<Rightarrow> uuid \<Rightarrow> uuid list" where
  "mentioned_users db cid = sort (map mn_user (filter (\<lambda>m. mn_comment m = cid) (mentions db)))"

text \<open>\<open>axit_assert_comment_anchor\<close>\<close>

definition anchor_in_session :: "'z app_db_scheme \<Rightarrow> uuid \<Rightarrow> (comment_anchor_kind \<times> uuid) option \<Rightarrow> bool" where
  "anchor_in_session db sid anchor \<longleftrightarrow>
     (case anchor of
        None \<Rightarrow> True
      | Some (CA_REPORT, i) \<Rightarrow> list_ex (\<lambda>n. sn_id n = i \<and> sn_session n = sid) (snapshots db)
      | Some (CA_SEGMENT, i) \<Rightarrow>
          list_ex (\<lambda>g. sg_id g = i \<and>
            list_ex (\<lambda>d. gd_id d = sg_document g \<and>
              list_ex (\<lambda>r. gr_id r = gd_run d \<and>
                list_ex (\<lambda>n. sn_id n = gr_snapshot r \<and> sn_session n = sid) (snapshots db)) (runs db)) (documents db))
            (segments db))"

text \<open>\<open>axit_assert_comment_mention_membership\<close>\<close>

definition mention_ok :: "'z platform_db_scheme \<Rightarrow> mention_row \<Rightarrow> bool" where
  "mention_ok db m \<longleftrightarrow>
     \<not> list_ex (\<lambda>c. cm_id c = mn_comment m \<and> cm_author c = mn_user m) (comments db) \<and>
     hits (\<lambda>x. mn_comment x = mn_comment m) (mentions db) \<le> 20 \<and>
     list_ex (\<lambda>c. cm_id c = mn_comment m \<and> member_session db (mn_user m) (cm_session c) \<noteq> None) (comments db)"

section \<open>Effects\<close>

definition mention_effect :: "uuid \<Rightarrow> uuid list \<Rightarrow> notification_effect" where
  "mention_effect cid recipients =
     \<lparr>ne_recipients = recipients, ne_kind = u ''mention'', ne_resource_type = u ''comment'', ne_resource_id = cid,
      ne_action = u ''open_comment'',
      ne_title = [45843, 44544, 50640, 49436, 32, 54924, 50896, 45784, 51012, 32, 50616, 44553, 54664, 49845, 45768, 45796],
      ne_body = [49352, 32, 45843, 44544, 32, 47704, 49496, 51060, 32, 51080, 49845, 45768, 45796, 46],
      ne_template = u ''comment_mention'', ne_data = [(Some (u ''comment_id''), MStr (uuid_text cid))], ne_dedupe = None\<rparr>"

definition comment_effect :: "uuid \<Rightarrow> uuid list \<Rightarrow> notification_effect" where
  "comment_effect cid recipients =
     \<lparr>ne_recipients = recipients, ne_kind = u ''comment'', ne_resource_type = u ''comment'', ne_resource_id = cid,
      ne_action = u ''open_comment'',
      ne_title = [49352, 32, 45843, 44544, 51060, 32, 51089, 49457, 46104, 50632, 49845, 45768, 45796],
      ne_body = [49352, 32, 45843, 44544, 51060, 32, 51080, 49845, 45768, 45796, 46],
      ne_template = u ''comment_created'', ne_data = [(Some (u ''comment_id''), MStr (uuid_text cid))], ne_dedupe = None\<rparr>"

definition create_effects :: "uuid \<Rightarrow> uuid \<Rightarrow> session_access \<Rightarrow> uuid list \<Rightarrow> notification_effect list" where
  "create_effects actor cid access mentioned =
     (let (m, c) = plan_comment_recipients actor (sa_members access) mentioned in
      (if m = [] then [] else [mention_effect cid m]) @ (if c = [] then [] else [comment_effect cid c]))"

definition record_comment ::
  "activity_draws \<Rightarrow> ustr \<Rightarrow> uuid \<Rightarrow> int \<Rightarrow> uuid \<Rightarrow> uuid \<Rightarrow> session_access \<Rightarrow> notification_effect list \<Rightarrow>
   'z app_db_scheme \<Rightarrow> app_error + 'z app_db_scheme" where
  "record_comment d event_type cid version actor sid access effects db =
     record_event d event_type [(''comment_id'', IUuid cid), (''version'', IInt version)] actor SC_SESSION None
       (Some (sa_room access)) (Some sid) (u ''comment'') cid [(Some (u ''version''), MInt version)] effects db"

section \<open>Creating\<close>

record comment_draws =
  cd_id :: uuid
  cd_now :: int
  cd_event :: activity_draws

record comment_request =
  cr_body :: ustr
  cr_kind :: "ustr option"
  cr_anchor :: "uuid option"
  cr_mentions :: "uuid list"

record comment_mutation =
  mu_id :: uuid
  mu_version :: int
  mu_idempotent :: bool

text \<open>The commit of a transaction that inserted or updated comment \<open>cid\<close> and inserted the mentions \<open>new\<close>.\<close>

definition commit_comment ::
  "uuid \<Rightarrow> (comment_anchor_kind \<times> uuid) option \<Rightarrow> mention_row list \<Rightarrow> 'z platform_db_scheme \<Rightarrow> app_error + 'z platform_db_scheme" where
  "commit_comment sid anchor new db =
     require (anchor_in_session db sid anchor \<and> list_all (mention_ok db) new) (PgError CheckViolation) (Inr db)"

definition checked_request ::
  "comment_request \<Rightarrow> uuid \<Rightarrow> uuid \<Rightarrow> 'z platform_db_scheme \<Rightarrow>
   app_error + ustr \<times> (comment_anchor_kind \<times> uuid) option \<times> session_access \<times> uuid list" where
  "checked_request rq actor sid db =
     and_then (comment_body (cr_body rq)) (\<lambda>body.
     and_then (comment_anchor (cr_kind rq) (cr_anchor rq)) (\<lambda>anchor.
     and_then (require_membership db sid actor) (\<lambda>access.
     and_then (checked_mentions (cr_mentions rq) actor access) (\<lambda>mentioned. Inr (body, anchor, access, mentioned)))))"

definition new_comment ::
  "comment_draws \<Rightarrow> uuid \<Rightarrow> uuid \<Rightarrow> uuid \<Rightarrow> ustr \<Rightarrow> ustr \<Rightarrow> (comment_anchor_kind \<times> uuid) option \<Rightarrow> comment_row" where
  "new_comment d sid author request fp body anchor =
     \<lparr>cm_id = cd_id d, cm_session = sid, cm_author = author, cm_request = request, cm_fingerprint = fp, cm_version = 1,
      cm_body = body, cm_anchor = anchor, cm_created_at = cd_now d, cm_updated_at = cd_now d, cm_deleted_at = None\<rparr>"

definition replay_comment ::
  "uuid \<Rightarrow> uuid \<Rightarrow> uuid \<Rightarrow> ustr \<Rightarrow> 'z platform_db_scheme \<Rightarrow> app_error + comment_mutation" where
  "replay_comment sid author request fp db =
     (case find (\<lambda>c. cm_author c = author \<and> cm_request c = request) (comments db) of
        None \<Rightarrow> Inl (RuntimeErr (u ''concurrent comment replay did not converge''))
      | Some c \<Rightarrow>
          require (\<not> (cm_session c \<noteq> sid \<or> cm_fingerprint c \<noteq> fp))
            (CommentReplayConflictError (u ''client request id was reused with different content''))
            (Inr \<lparr>mu_id = cm_id c, mu_version = cm_version c, mu_idempotent = True\<rparr>))"

definition create_comment_body ::
  "(nat list \<Rightarrow> ustr) \<Rightarrow> comment_draws \<Rightarrow> uuid \<Rightarrow> uuid \<Rightarrow> uuid \<Rightarrow> comment_request \<Rightarrow>
   (app_error, comment_mutation, 'z platform_db_scheme) body" where
  "create_comment_body sha d sid author request rq db =
     and_then (checked_request rq author sid db) (\<lambda>(body, anchor, access, mentioned).
     let fp = sha (fingerprint_text body anchor mentioned) in
     and_then (insert_comment (new_comment d sid author request fp body anchor) db) (\<lambda>(inserted, db1).
       if \<not> inserted then and_then (replay_comment sid author request fp db1) (\<lambda>r. Inr (r, db1))
       else
         and_then (record_comment (cd_event d) (u ''comment.created'') (cd_id d) 1 author sid access
             (create_effects author (cd_id d) access mentioned) (insert_mentions (cd_id d) mentioned db1)) (\<lambda>db2.
         and_then (commit_comment sid anchor (new_mentions (cd_id d) mentioned db1) db2) (\<lambda>db3.
         Inr (\<lparr>mu_id = cd_id d, mu_version = 1, mu_idempotent = False\<rparr>, db3)))))"

definition create_comment ::
  "(nat list \<Rightarrow> ustr) \<Rightarrow> comment_draws \<Rightarrow> uuid \<Rightarrow> uuid \<Rightarrow> uuid \<Rightarrow> comment_request \<Rightarrow> 'z platform_db_scheme \<Rightarrow>
   (app_error + comment_mutation) \<times> 'z platform_db_scheme" where
  "create_comment sha d sid author request rq db = transaction (create_comment_body sha d sid author request rq) db"

section \<open>Updating and deleting\<close>

text \<open>\<open>resolve_visible_comment_session\<close>: the session of a comment, through the requester's memberships.\<close>

definition visible_comment_session :: "'z platform_db_scheme \<Rightarrow> uuid \<Rightarrow> uuid \<Rightarrow> app_error + uuid" where
  "visible_comment_session db cid requester =
     (case find (\<lambda>c. cm_id c = cid \<and> member_session db requester (cm_session c) \<noteq> None) (comments db) of
        None \<Rightarrow> Inl (PermissionError (u ''comment is unavailable''))
      | Some c \<Rightarrow> Inr (cm_session c))"

definition edit_comment :: "ustr \<Rightarrow> (comment_anchor_kind \<times> uuid) option \<Rightarrow> int \<Rightarrow> comment_row \<Rightarrow> comment_row" where
  "edit_comment body anchor now c =
     c\<lparr>cm_body := body, cm_anchor := anchor, cm_version := cm_version c + 1, cm_updated_at := now\<rparr>"

definition erase_comment :: "int \<Rightarrow> comment_row \<Rightarrow> comment_row" where
  "erase_comment now c =
     c\<lparr>cm_body := [], cm_version := cm_version c + 1, cm_updated_at := now, cm_deleted_at := Some now\<rparr>"

text \<open>\<open>UPDATE comments SET ... WHERE id=... RETURNING version\<close>, for the row \<open>c\<close> read before under its lock.\<close>

definition rewrite_comment ::
  "(comment_row \<Rightarrow> comment_row) \<Rightarrow> comment_row \<Rightarrow> 'z platform_db_scheme \<Rightarrow> app_error + int \<times> 'z platform_db_scheme" where
  "rewrite_comment f c db =
     require (comment_checks (f c)) (PgError CheckViolation)
       (Inr (cm_version (f c), db\<lparr>comments := update_rows (\<lambda>x. cm_id x = cm_id c) f (comments db)\<rparr>))"

definition find_comment :: "'z platform_db_scheme \<Rightarrow> uuid \<Rightarrow> uuid \<Rightarrow> comment_row option" where
  "find_comment db cid sid = find (\<lambda>c. cm_id c = cid \<and> cm_session c = sid) (comments db)"

text \<open>\<open>removed = old_mentions - set(mentions)\<close>, its DELETE and the insertion of \<open>added\<close>\<close>

definition drop_mentions :: "uuid \<Rightarrow> uuid list \<Rightarrow> 'z platform_db_scheme \<Rightarrow> 'z platform_db_scheme" where
  "drop_mentions cid removed db =
     db\<lparr>mentions := filter (\<lambda>m. \<not> (mn_comment m = cid \<and> mn_user m \<in> set removed)) (mentions db)\<rparr>"

definition update_effects :: "uuid \<Rightarrow> uuid list \<Rightarrow> notification_effect list" where
  "update_effects cid added = (if added = [] then [] else [mention_effect cid added])"

definition update_write ::
  "comment_draws \<Rightarrow> uuid \<Rightarrow> uuid \<Rightarrow> comment_row \<Rightarrow> ustr \<Rightarrow> (comment_anchor_kind \<times> uuid) option \<Rightarrow> session_access \<Rightarrow> uuid list \<Rightarrow>
   (app_error, comment_mutation, 'z platform_db_scheme) body" where
  "update_write d sid actor c body anchor access mentioned db =
     (let cid = cm_id c; old = mentioned_users db cid;
          removed = filter (\<lambda>x. x \<notin> set mentioned) old; added = filter (\<lambda>x. x \<notin> set old) mentioned in
      and_then (rewrite_comment (edit_comment body anchor (cd_now d)) c db) (\<lambda>(version, db1).
      let db2 = drop_mentions cid removed db1 in
      and_then (record_comment (cd_event d) (u ''comment.updated'') cid version actor sid access (update_effects cid added)
          (insert_mentions cid added db2)) (\<lambda>db3.
      and_then (commit_comment sid anchor (new_mentions cid added db2) db3) (\<lambda>db4.
      Inr (\<lparr>mu_id = cid, mu_version = version, mu_idempotent = False\<rparr>, db4)))))"

definition update_comment_body ::
  "comment_draws \<Rightarrow> uuid \<Rightarrow> uuid \<Rightarrow> uuid \<Rightarrow> int \<Rightarrow> comment_request \<Rightarrow> (app_error, comment_mutation, 'z platform_db_scheme) body" where
  "update_comment_body d sid actor cid expected rq db =
     and_then (checked_request rq actor sid db) (\<lambda>(body, anchor, access, mentioned).
     case find_comment db cid sid of
       None \<Rightarrow> Inl (PermissionError (u ''comment is unavailable''))
     | Some c \<Rightarrow>
         require (\<not> (cm_author c \<noteq> actor \<or> cm_deleted_at c \<noteq> None)) (PermissionError (u ''comment is unavailable''))
         (require (cm_version c = expected) (CommentReplayConflictError (u ''stale comment version''))
         (if cm_body c = body \<and> cm_anchor c = anchor \<and> set (mentioned_users db cid) = set mentioned
          then Inr (\<lparr>mu_id = cid, mu_version = expected, mu_idempotent = True\<rparr>, db)
          else update_write d sid actor c body anchor access mentioned db)))"

text \<open>The PUT handler: the session of the comment is resolved and the update runs in the same transaction.\<close>

definition update_comment ::
  "comment_draws \<Rightarrow> uuid \<Rightarrow> uuid \<Rightarrow> int \<Rightarrow> comment_request \<Rightarrow> 'z platform_db_scheme \<Rightarrow>
   (app_error + comment_mutation) \<times> 'z platform_db_scheme" where
  "update_comment d actor cid expected rq db =
     transaction (\<lambda>db. and_then (visible_comment_session db cid actor) (\<lambda>sid. update_comment_body d sid actor cid expected rq db)) db"

definition delete_comment_body ::
  "comment_draws \<Rightarrow> uuid \<Rightarrow> uuid \<Rightarrow> uuid \<Rightarrow> int \<Rightarrow> (app_error, comment_mutation, 'z platform_db_scheme) body" where
  "delete_comment_body d sid actor cid expected db =
     and_then (require_membership db sid actor) (\<lambda>access.
     case find_comment db cid sid of
       None \<Rightarrow> Inl (PermissionError (u ''comment is unavailable''))
     | Some c \<Rightarrow>
         require (actor = cm_author c \<or> actor = sa_owner access) (PermissionError (u ''comment is unavailable''))
         (require (cm_version c = expected) (CommentReplayConflictError (u ''stale comment version''))
         (if cm_deleted_at c \<noteq> None then Inr (\<lparr>mu_id = cid, mu_version = expected, mu_idempotent = True\<rparr>, db)
          else
            and_then (rewrite_comment (erase_comment (cd_now d)) c db) (\<lambda>(version, db1).
            and_then (record_comment (cd_event d) (u ''comment.deleted'') cid version actor sid access [] db1) (\<lambda>db2.
            Inr (\<lparr>mu_id = cid, mu_version = version, mu_idempotent = False\<rparr>, db2))))))"

definition delete_comment ::
  "comment_draws \<Rightarrow> uuid \<Rightarrow> uuid \<Rightarrow> int \<Rightarrow> 'z platform_db_scheme \<Rightarrow> (app_error + comment_mutation) \<times> 'z platform_db_scheme" where
  "delete_comment d actor cid expected db =
     transaction (\<lambda>db. and_then (visible_comment_session db cid actor) (\<lambda>sid. delete_comment_body d sid actor cid expected db)) db"

section \<open>Listing\<close>

definition comment_key :: "comment_row \<Rightarrow> int \<times> uuid" where
  "comment_key c = (cm_created_at c, cm_id c)"

text \<open>A page of comments, each with the users it mentions, in their order.\<close>

definition list_comments ::
  "uuid \<Rightarrow> uuid \<Rightarrow> (int \<times> uuid) option \<Rightarrow> int \<Rightarrow> 'z platform_db_scheme \<Rightarrow>
   app_error + (comment_row \<times> uuid list) list \<times> (int \<times> uuid) option" where
  "list_comments sid requester cur limit db =
     and_then (require_membership db sid requester) (\<lambda>_.
     let rows = filter (\<lambda>c. cm_session c = sid) (comments db) in
     and_then (owned_cursor comment_key (u ''comment cursor is unavailable'') rows cur) (\<lambda>_.
     case time_page comment_key rows cur limit of
       (visible, next) \<Rightarrow> Inr (map (\<lambda>c. (c, mentioned_users db (cm_id c))) visible, next)))"

end
