(* ===== verification/Comments_Inv.thy ===== *)
theory Comments_Inv
  imports Comments
begin

text \<open>
  What each operation on comments does to its tables, the invariant of comments and mentions, and that every operation keeps
  it.  Transactions of the other services leave comments and mentions alone and never erase a membership row (a member who
  leaves keeps it).
\<close>

section \<open>What an operation does\<close>



lemma record_comment_frame: "record_comment d t cid v actor sid access es db = Inr db' \<Longrightarrow> activity_frame db db'"
  unfolding record_comment_def by (rule record_event_frame)

lemma commit_Inr: "commit_comment sid anchor new db = Inr db' \<longleftrightarrow>
    db' = db \<and> anchor_in_session db sid anchor \<and> list_all (mention_ok db) new"
  by (auto simp: commit_comment_def)

lemma find_comment_Some: "find_comment db cid sid = Some c \<Longrightarrow> c \<in> set (comments db) \<and> cm_id c = cid \<and> cm_session c = sid"
  unfolding find_comment_def by (drule find_Some_set) simp

lemma visible_Inr: "visible_comment_session db cid requester = Inr sid \<Longrightarrow> member_session db requester sid \<noteq> None"
  unfolding visible_comment_session_def by (auto split: option.splits dest: find_Some_set)

text \<open>The tables after a new comment, an edit and an erasure.\<close>

definition with_comment :: "comment_row \<Rightarrow> uuid list \<Rightarrow> 'z platform_db_scheme \<Rightarrow> 'z platform_db_scheme" where
  "with_comment c mentioned db = insert_mentions (cm_id c) mentioned (db\<lparr>comments := comments db @ [c]\<rparr>)"

definition with_rewrite :: "(comment_row \<Rightarrow> comment_row) \<Rightarrow> uuid \<Rightarrow> 'z platform_db_scheme \<Rightarrow> 'z platform_db_scheme" where
  "with_rewrite f cid db = db\<lparr>comments := update_rows (\<lambda>x. cm_id x = cid) f (comments db)\<rparr>"

definition with_mentions :: "uuid \<Rightarrow> uuid list \<Rightarrow> 'z platform_db_scheme \<Rightarrow> 'z platform_db_scheme" where
  "with_mentions cid mentioned db =
     (let old = mentioned_users db cid in
      insert_mentions cid (filter (\<lambda>x. x \<notin> set old) mentioned) (drop_mentions cid (filter (\<lambda>x. x \<notin> set mentioned) old) db))"

lemma insert_comment_Inr:
  "insert_comment c db = Inr (b, db') \<Longrightarrow> comment_checks c \<and>
     (b \<and> fresh (\<lambda>x. (cm_author x, cm_request x)) c (comments db) \<and> fresh cm_id c (comments db) \<and> db' = db\<lparr>comments := comments db @ [c]\<rparr> \<or>
      \<not> b \<and> \<not> fresh (\<lambda>x. (cm_author x, cm_request x)) c (comments db) \<and> db' = db)"
  by (auto simp: insert_comment_def split: if_splits)

lemma replay_Inr:
  "replay_comment sid author request fp db = Inr m \<Longrightarrow>
     \<exists>c \<in> set (comments db). cm_author c = author \<and> cm_request c = request \<and> cm_session c = sid \<and> cm_fingerprint c = fp \<and>
       m = \<lparr>mu_id = cm_id c, mu_version = cm_version c, mu_idempotent = True\<rparr>"
  unfolding replay_comment_def by (auto split: option.splits dest!: find_Some_set)

lemma create_Inr:
  assumes "create_comment sha d sid author request rq db = (Inr m, db')"
  obtains (replay) c where "db' = db" "mu_idempotent m" "c \<in> set (comments db)" "cm_author c = author" "cm_request c = request"
      "mu_id m = cm_id c" "mu_version m = cm_version c"
  | (new) c body anchor access mentioned where "checked_request rq author sid db = Inr (body, anchor, access, mentioned)"
      "c = new_comment d sid author request (sha (fingerprint_text body anchor mentioned)) body anchor" "\<not> mu_idempotent m"
      "mu_id m = cm_id c" "mu_version m = 1" "comment_checks c" "fresh (\<lambda>x. (cm_author x, cm_request x)) c (comments db)"
      "fresh cm_id c (comments db)" "activity_frame (with_comment c mentioned db) db'"
      "anchor_in_session db' sid anchor"
      "list_all (mention_ok db') (new_mentions (cm_id c) mentioned (db\<lparr>comments := comments db @ [c]\<rparr>))"
proof -
  from assms obtain body anchor access mentioned b db1 where
    rq: "checked_request rq author sid db = Inr (body, anchor, access, mentioned)" and
    ins: "insert_comment (new_comment d sid author request (sha (fingerprint_text body anchor mentioned)) body anchor) db = Inr (b, db1)" and
    rest: "(if \<not> b then and_then (replay_comment sid author request (sha (fingerprint_text body anchor mentioned)) db1) (\<lambda>r. Inr (r, db1))
       else
         and_then (record_comment (cd_event d) (u ''comment.created'') (cd_id d) 1 author sid access
             (create_effects author (cd_id d) access mentioned) (insert_mentions (cd_id d) mentioned db1)) (\<lambda>db2.
         and_then (commit_comment sid anchor (new_mentions (cd_id d) mentioned db1) db2) (\<lambda>db3.
         Inr (\<lparr>mu_id = cd_id d, mu_version = 1, mu_idempotent = False\<rparr>, db3)))) = Inr (m, db')"
    unfolding create_comment_def transaction_Inr_iff create_comment_body_def Let_def
    by (auto simp: and_then_Inr simp del: u_simps)
  let ?c = "new_comment d sid author request (sha (fingerprint_text body anchor mentioned)) body anchor"
  show ?thesis
  proof (cases b)
    case False
    with insert_comment_Inr [OF ins] have "db1 = db" by blast
    with rest False show ?thesis by (auto simp: and_then_Inr dest!: replay_Inr intro: replay)
  next
    case True
    with insert_comment_Inr [OF ins] have i: "comment_checks ?c" "fresh (\<lambda>x. (cm_author x, cm_request x)) ?c (comments db)"
      "fresh cm_id ?c (comments db)" "db1 = db\<lparr>comments := comments db @ [?c]\<rparr>" by blast+
    from rest True obtain db2 where r: "record_comment (cd_event d) (u ''comment.created'') (cd_id d) 1 author sid access
             (create_effects author (cd_id d) access mentioned) (insert_mentions (cd_id d) mentioned db1) = Inr db2"
      and c: "commit_comment sid anchor (new_mentions (cd_id d) mentioned db1) db2 = Inr db'"
      and m: "m = \<lparr>mu_id = cd_id d, mu_version = 1, mu_idempotent = False\<rparr>"
      by (auto simp: and_then_Inr simp del: u_simps)
    have id: "cm_id ?c = cd_id d" by (simp add: new_comment_def)
    have f: "activity_frame (with_comment ?c mentioned db) db2"
      using record_comment_frame [OF r] i(4) id by (simp add: with_comment_def)
    show ?thesis
      by (rule new [OF rq refl]) (use m i f c id in \<open>simp_all add: commit_Inr\<close>)
  qed
qed

lemma rewrite_Inr: "rewrite_comment f c db = Inr (v, db') \<longleftrightarrow>
    comment_checks (f c) \<and> v = cm_version (f c) \<and> db' = with_rewrite f (cm_id c) db"
  by (auto simp: rewrite_comment_def with_rewrite_def)

lemma mentioned_users_rewrite [simp]: "mentioned_users (with_rewrite f cid db) = mentioned_users db"
  by (rule ext) (simp add: mentioned_users_def with_rewrite_def)

lemma update_Inr:
  assumes "update_comment d actor cid expected rq db = (Inr m, db')"
  obtains (same) c sid body anchor access mentioned where "find_comment db cid sid = Some c" "db' = db" "mu_idempotent m"
      "checked_request rq actor sid db = Inr (body, anchor, access, mentioned)"
      "cm_author c = actor" "cm_deleted_at c = None" "cm_version c = expected" "m = \<lparr>mu_id = cid, mu_version = expected, mu_idempotent = True\<rparr>"
      "cm_body c = body" "cm_anchor c = anchor" "set (mentioned_users db cid) = set mentioned"
  | (edit) c sid body anchor access mentioned where "find_comment db cid sid = Some c" "\<not> mu_idempotent m"
      "m = \<lparr>mu_id = cid, mu_version = expected + 1, mu_idempotent = False\<rparr>"
      "checked_request rq actor sid db = Inr (body, anchor, access, mentioned)"
      "cm_author c = actor" "cm_deleted_at c = None" "cm_version c = expected"
      "comment_checks (edit_comment body anchor (cd_now d) c)"
      "activity_frame (with_mentions cid mentioned (with_rewrite (edit_comment body anchor (cd_now d)) cid db)) db'"
      "anchor_in_session db' sid anchor"
      "list_all (mention_ok db') (new_mentions cid (filter (\<lambda>x. x \<notin> set (mentioned_users db cid)) mentioned)
         (drop_mentions cid (filter (\<lambda>x. x \<notin> set mentioned) (mentioned_users db cid)) (with_rewrite (edit_comment body anchor (cd_now d)) cid db)))"
proof -
  from assms obtain sid body anchor access mentioned where
    rq: "checked_request rq actor sid db = Inr (body, anchor, access, mentioned)" and
    rest: "(case find_comment db cid sid of
       None \<Rightarrow> Inl (PermissionError (u ''comment is unavailable''))
     | Some c \<Rightarrow>
         require (\<not> (cm_author c \<noteq> actor \<or> cm_deleted_at c \<noteq> None)) (PermissionError (u ''comment is unavailable''))
         (require (cm_version c = expected) (CommentReplayConflictError (u ''stale comment version''))
         (if cm_body c = body \<and> cm_anchor c = anchor \<and> set (mentioned_users db cid) = set mentioned
          then Inr (\<lparr>mu_id = cid, mu_version = expected, mu_idempotent = True\<rparr>, db)
          else update_write d sid actor c body anchor access mentioned db))) = Inr (m, db')"
    unfolding update_comment_def transaction_Inr_iff update_comment_body_def Let_def
    by (auto simp: and_then_Inr simp del: u_simps)
  from rest obtain c where c: "find_comment db cid sid = Some c" by (auto split: option.splits)
  with rest have ok: "cm_author c = actor" "cm_deleted_at c = None" "cm_version c = expected" and
    w: "(if cm_body c = body \<and> cm_anchor c = anchor \<and> set (mentioned_users db cid) = set mentioned
          then Inr (\<lparr>mu_id = cid, mu_version = expected, mu_idempotent = True\<rparr>, db)
          else update_write d sid actor c body anchor access mentioned db) = Inr (m, db')" by auto
  have id: "cm_id c = cid" using find_comment_Some [OF c] by blast
  show ?thesis
  proof (cases "cm_body c = body \<and> cm_anchor c = anchor \<and> set (mentioned_users db cid) = set mentioned")
    case True
    then show ?thesis using w c rq ok by (intro same [OF c _ _ rq]) auto
  next
    case False
    let ?f = "edit_comment body anchor (cd_now d)"
    have "update_write d sid actor c body anchor access mentioned db = Inr (m, db')" using w False by simp
    then obtain db1 version db3 where
      rw: "rewrite_comment ?f c db = Inr (version, db1)" and
      rc: "record_comment (cd_event d) (u ''comment.updated'') cid version actor sid access
         (update_effects cid (filter (\<lambda>x. x \<notin> set (mentioned_users db cid)) mentioned))
         (insert_mentions cid (filter (\<lambda>x. x \<notin> set (mentioned_users db cid)) mentioned)
           (drop_mentions cid (filter (\<lambda>x. x \<notin> set mentioned) (mentioned_users db cid)) db1)) = Inr db3" and
      cm: "commit_comment sid anchor (new_mentions cid (filter (\<lambda>x. x \<notin> set (mentioned_users db cid)) mentioned)
           (drop_mentions cid (filter (\<lambda>x. x \<notin> set mentioned) (mentioned_users db cid)) db1)) db3 = Inr db'" and
      m: "m = \<lparr>mu_id = cid, mu_version = version, mu_idempotent = False\<rparr>"
      unfolding update_write_def Let_def id by (auto simp: and_then_Inr simp del: u_simps)
    from rw have r: "comment_checks (?f c)" "version = expected + 1" "db1 = with_rewrite ?f cid db"
      using ok(3) id by (auto simp: rewrite_Inr edit_comment_def)
    have f: "activity_frame (with_mentions cid mentioned (with_rewrite ?f cid db)) db3"
      using record_comment_frame [OF rc] r(3) by (simp add: with_mentions_def Let_def)
    show ?thesis
      by (rule edit [OF c _ _ rq ok]) (use m r f cm in \<open>simp_all add: commit_Inr\<close>)
  qed
qed

lemma delete_Inr:
  assumes "delete_comment d actor cid expected db = (Inr m, db')"
  obtains (same) c sid access where "find_comment db cid sid = Some c" "db' = db" "mu_idempotent m" "cm_deleted_at c \<noteq> None"
      "cm_version c = expected" "require_membership db sid actor = Inr access" "actor = cm_author c \<or> actor = sa_owner access"
  | (erase) c sid access where "find_comment db cid sid = Some c" "\<not> mu_idempotent m"
      "m = \<lparr>mu_id = cid, mu_version = expected + 1, mu_idempotent = False\<rparr>"
      "require_membership db sid actor = Inr access" "actor = cm_author c \<or> actor = sa_owner access"
      "cm_deleted_at c = None" "cm_version c = expected" "comment_checks (erase_comment (cd_now d) c)"
      "activity_frame (with_rewrite (erase_comment (cd_now d)) cid db) db'"
proof -
  from assms obtain sid access where a: "require_membership db sid actor = Inr access" and
    rest: "(case find_comment db cid sid of
       None \<Rightarrow> Inl (PermissionError (u ''comment is unavailable''))
     | Some c \<Rightarrow>
         require (actor = cm_author c \<or> actor = sa_owner access) (PermissionError (u ''comment is unavailable''))
         (require (cm_version c = expected) (CommentReplayConflictError (u ''stale comment version''))
         (if cm_deleted_at c \<noteq> None then Inr (\<lparr>mu_id = cid, mu_version = expected, mu_idempotent = True\<rparr>, db)
          else
            and_then (rewrite_comment (erase_comment (cd_now d)) c db) (\<lambda>(version, db1).
            and_then (record_comment (cd_event d) (u ''comment.deleted'') cid version actor sid access [] db1) (\<lambda>db2.
            Inr (\<lparr>mu_id = cid, mu_version = version, mu_idempotent = False\<rparr>, db2)))))) = Inr (m, db')"
    unfolding delete_comment_def transaction_Inr_iff delete_comment_body_def
    by (auto simp: and_then_Inr simp del: u_simps)
  from rest obtain c where c: "find_comment db cid sid = Some c" by (auto split: option.splits)
  have id: "cm_id c = cid" using find_comment_Some [OF c] by blast
  show ?thesis
  proof (cases "cm_deleted_at c = None")
    case False
    then show ?thesis using rest c a by (intro same [OF c]) auto
  next
    case True
    let ?f = "erase_comment (cd_now d)"
    from rest c True obtain version db1 where ok: "actor = cm_author c \<or> actor = sa_owner access" "cm_version c = expected"
      and rw: "rewrite_comment ?f c db = Inr (version, db1)"
      and rc: "record_comment (cd_event d) (u ''comment.deleted'') cid version actor sid access [] db1 = Inr db'"
      and m: "m = \<lparr>mu_id = cid, mu_version = version, mu_idempotent = False\<rparr>"
      by (auto simp: and_then_Inr simp del: u_simps)
    from rw have r: "comment_checks (?f c)" "version = expected + 1" "db1 = with_rewrite ?f cid db"
      using ok(2) id by (auto simp: rewrite_Inr erase_comment_def)
    show ?thesis
      by (rule erase [OF c _ _ a ok(1) True ok(2)]) (use m r record_comment_frame [OF rc] in simp_all)
  qed
qed

lemma update_parts:
  assumes "update_comment d actor cid expected rq db = (Inr m, db')"
  obtains sid body anchor access mentioned c where "find_comment db cid sid = Some c"
    "db' = db \<or> update_write d sid actor c body anchor access mentioned db = Inr (m, db')"
proof -
  from assms obtain sid where "update_comment_body d sid actor cid expected rq db = Inr (m, db')"
    by (auto simp: update_comment_def transaction_Inr_iff and_then_Inr)
  then obtain body anchor access mentioned where b:
    "(case find_comment db cid sid of
       None \<Rightarrow> Inl (PermissionError (u ''comment is unavailable''))
     | Some c \<Rightarrow>
         require (\<not> (cm_author c \<noteq> actor \<or> cm_deleted_at c \<noteq> None)) (PermissionError (u ''comment is unavailable''))
         (require (cm_version c = expected) (CommentReplayConflictError (u ''stale comment version''))
         (if cm_body c = body \<and> cm_anchor c = anchor \<and> set (mentioned_users db cid) = set mentioned
          then Inr (\<lparr>mu_id = cid, mu_version = expected, mu_idempotent = True\<rparr>, db)
          else update_write d sid actor c body anchor access mentioned db))) = Inr (m, db')"
    by (auto simp: update_comment_body_def and_then_Inr simp del: u_simps)
  then obtain c where c: "find_comment db cid sid = Some c" by (auto split: option.splits)
  with b have "db' = db \<or> update_write d sid actor c body anchor access mentioned db = Inr (m, db')" by (simp split: if_splits)
  with c show ?thesis by (rule that)
qed

lemma delete_parts:
  assumes "delete_comment d actor cid expected db = (Inr m, db')"
  obtains sid access c where "find_comment db cid sid = Some c"
    "db' = db \<or> (\<exists>v db1. rewrite_comment (erase_comment (cd_now d)) c db = Inr (v, db1) \<and>
      record_comment (cd_event d) (u ''comment.deleted'') cid v actor sid access [] db1 = Inr db')"
proof -
  from assms obtain sid where "delete_comment_body d sid actor cid expected db = Inr (m, db')"
    by (auto simp: delete_comment_def transaction_Inr_iff and_then_Inr)
  then obtain access where b: "(case find_comment db cid sid of
       None \<Rightarrow> Inl (PermissionError (u ''comment is unavailable''))
     | Some c \<Rightarrow>
         require (actor = cm_author c \<or> actor = sa_owner access) (PermissionError (u ''comment is unavailable''))
         (require (cm_version c = expected) (CommentReplayConflictError (u ''stale comment version''))
         (if cm_deleted_at c \<noteq> None then Inr (\<lparr>mu_id = cid, mu_version = expected, mu_idempotent = True\<rparr>, db)
          else
            and_then (rewrite_comment (erase_comment (cd_now d)) c db) (\<lambda>(version, db1).
            and_then (record_comment (cd_event d) (u ''comment.deleted'') cid version actor sid access [] db1) (\<lambda>db2.
            Inr (\<lparr>mu_id = cid, mu_version = version, mu_idempotent = False\<rparr>, db2)))))) = Inr (m, db')"
    by (auto simp: delete_comment_body_def and_then_Inr simp del: u_simps)
  then obtain c where c: "find_comment db cid sid = Some c" by (auto split: option.splits)
  have "db' = db \<or> (\<exists>v db1. rewrite_comment (erase_comment (cd_now d)) c db = Inr (v, db1) \<and>
      record_comment (cd_event d) (u ''comment.deleted'') cid v actor sid access [] db1 = Inr db')"
    using b c by (cases "cm_deleted_at c = None") (auto simp: and_then_Inr simp del: u_simps)
  with c show ?thesis by (rule that)
qed

section \<open>The invariant\<close>

text \<open>Who is, or was, a member of the room of a session.\<close>

definition once_member :: "'z app_db_scheme \<Rightarrow> uuid \<Rightarrow> uuid \<Rightarrow> bool" where
  "once_member db sid user \<longleftrightarrow>
     (\<exists>s \<in> set (sessions db). \<exists>m \<in> set (memberships db). ts_id s = sid \<and> mb_room m = ts_room s \<and> mb_user m = user)"

definition mention_sound :: "'z platform_db_scheme \<Rightarrow> mention_row \<Rightarrow> bool" where
  "mention_sound db m \<longleftrightarrow>
     (\<exists>c \<in> set (comments db). cm_id c = mn_comment m \<and> cm_author c \<noteq> mn_user m \<and> once_member db (cm_session c) (mn_user m))"

definition comments_sound :: "'z platform_db_scheme \<Rightarrow> bool" where
  "comments_sound db \<longleftrightarrow>
     distinct (map cm_id (comments db)) \<and> distinct (map (\<lambda>c. (cm_author c, cm_request c)) (comments db)) \<and>
     (\<forall>c \<in> set (comments db). comment_checks c \<and> once_member db (cm_session c) (cm_author c)) \<and>
     distinct (mentions db) \<and> (\<forall>m \<in> set (mentions db). mention_sound db m) \<and>
     (\<forall>cid. length (mentioned_users db cid) \<le> 20)"

text \<open>A transaction that leaves comments and mentions alone and keeps every membership row of a session's room.\<close>

definition elsewhere :: "'z platform_db_scheme \<Rightarrow> 'z platform_db_scheme \<Rightarrow> bool" where
  "elsewhere db db' \<longleftrightarrow>
     comments db' = comments db \<and> mentions db' = mentions db \<and> (\<forall>sid user. once_member db sid user \<longrightarrow> once_member db' sid user)"

inductive comment_step :: "'z platform_db_scheme \<Rightarrow> 'z platform_db_scheme \<Rightarrow> bool" where
  M_create: "comment_step db (snd (create_comment sha d sid author request rq db))"
| M_update: "comment_step db (snd (update_comment d actor cid expected rq db))"
| M_delete: "comment_step db (snd (delete_comment d actor cid expected db))"
| M_elsewhere: "elsewhere db db' \<Longrightarrow> comment_step db db'"

section \<open>What a request that passed its checks says\<close>

lemma set_first_occurrences [simp]: "set (first_occurrences xs) = set xs"
  by (simp add: first_occurrences_def)

lemma distinct_first_occurrences [simp]: "distinct (first_occurrences xs)"
  by (simp add: first_occurrences_def)

lemma first_occurrences_distinct: "distinct xs \<Longrightarrow> first_occurrences xs = xs"
  by (simp add: first_occurrences_def distinct_remdups_id)

lemma checked_mentions_Inr:
  assumes "checked_mentions vs actor access = Inr m"
  shows "distinct m" "length m \<le> 20" "set m = set vs - {actor}" "set m \<subseteq> set (sa_members access)"
  using assms by (auto simp: checked_mentions_def Let_def list_all_iff)

lemma require_membership_Inr:
  assumes "require_membership db sid user = Inr access"
  obtains s where "member_session db user sid = Some s" "sa_room access = ts_room s"
    "set (sa_members access) = {x. is_member db (ts_room s) x}"
proof -
  from assms obtain s where s: "member_session db user sid = Some s" "sa_room access = ts_room s"
    and a: "sa_members access = sort (map mb_user (filter (\<lambda>m. mb_room m = ts_room s \<and> \<not> mb_left m) (memberships db)))"
    unfolding require_membership_def by (auto split: option.splits)
  have "{x. is_member db (ts_room s) x} = mb_user ` {m \<in> set (memberships db). mb_room m = ts_room s \<and> \<not> mb_left m}"
    by (auto simp: is_member_def list_ex_iff)
  then show ?thesis using that [OF s] a by simp
qed

lemma member_once: "find_session db sid = Some s \<Longrightarrow> is_member db (ts_room s) x \<Longrightarrow> once_member db sid x"
  unfolding once_member_def is_member_def list_ex_iff by (blast dest: find_session_Some)

lemma membership_once:
  assumes "require_membership db sid user = Inr access"
  shows "once_member db sid user" "x \<in> set (sa_members access) \<Longrightarrow> once_member db sid x"
  using require_membership_Inr [OF assms] by (metis member_once member_session_Some mem_Collect_eq)+

lemma checked_request_Inr:
  assumes "checked_request rq actor sid db = Inr (body, anchor, access, mentioned)"
  shows "body = py_strip (cr_body rq)" "comment_anchor (cr_kind rq) (cr_anchor rq) = Inr anchor"
    "require_membership db sid actor = Inr access" "distinct mentioned" "length mentioned \<le> 20"
    "set mentioned = set (cr_mentions rq) - {actor}" "\<And>x. x \<in> set mentioned \<Longrightarrow> once_member db sid x" "once_member db sid actor"
proof -
  from assms have m: "checked_mentions (cr_mentions rq) actor access = Inr mentioned"
    and a: "require_membership db sid actor = Inr access" by (auto simp: checked_request_def and_then_Inr)
  show "distinct mentioned" "length mentioned \<le> 20" "set mentioned = set (cr_mentions rq) - {actor}"
    by (rule checked_mentions_Inr [OF m])+
  show "require_membership db sid actor = Inr access" by (rule a)
  show "once_member db sid x" if "x \<in> set mentioned" for x
    using checked_mentions_Inr(4) [OF m] membership_once(2) [OF a] that by blast
  show "once_member db sid actor" by (rule membership_once(1) [OF a])
  show "body = py_strip (cr_body rq)" "comment_anchor (cr_kind rq) (cr_anchor rq) = Inr anchor"
    using assms by (auto simp: checked_request_def and_then_Inr comment_body_def Let_def)
qed

section \<open>The tables of mentions\<close>

lemma mention_eq: "m = m' \<longleftrightarrow> mn_comment m = mn_comment m' \<and> mn_user m = mn_user (m' :: mention_row)"
  by auto

lemma set_mentioned_users: "x \<in> set (mentioned_users db cid) \<longleftrightarrow> \<lparr>mn_comment = cid, mn_user = x\<rparr> \<in> set (mentions db)"
  by (auto simp: mentioned_users_def image_iff) (metis mention_row.cases mention_row.select_convs)+

lemma distinct_mentioned_users: "distinct (mentions db) \<Longrightarrow> distinct (mentioned_users db cid)"
  by (auto simp: mentioned_users_def distinct_map inj_on_def mention_eq)

lemma set_new_mentions:
  "set (new_mentions cid xs db) = {\<lparr>mn_comment = cid, mn_user = x\<rparr> |x. x \<in> set xs} - set (mentions db)"
  by (auto simp: new_mentions_def)

lemma distinct_new_mentions: "distinct (new_mentions cid xs db)"
  by (auto simp: new_mentions_def distinct_map inj_on_def)

lemma mentions_insert:
  "set (mentions (insert_mentions cid xs db)) = set (mentions db) \<union> {\<lparr>mn_comment = cid, mn_user = x\<rparr> |x. x \<in> set xs}"
  by (auto simp: insert_mentions_def set_new_mentions)

lemma distinct_insert: "distinct (mentions db) \<Longrightarrow> distinct (mentions (insert_mentions cid xs db))"
  by (auto simp: insert_mentions_def set_new_mentions distinct_new_mentions)

lemma mentions_with_mentions:
  "set (mentions (with_mentions cid xs db)) =
     {m \<in> set (mentions db). mn_comment m \<noteq> cid} \<union> {\<lparr>mn_comment = cid, mn_user = x\<rparr> |x. x \<in> set xs}"
  unfolding with_mentions_def Let_def mentions_insert
  by (auto simp: drop_mentions_def set_mentioned_users) (metis mention_row.cases mention_row.select_convs)+

lemma distinct_with_mentions: "distinct (mentions db) \<Longrightarrow> distinct (mentions (with_mentions cid xs db))"
  unfolding with_mentions_def Let_def by (rule distinct_insert) (simp add: drop_mentions_def)

lemma comments_with [simp]:
  "comments (insert_mentions cid xs db) = comments db" "comments (with_mentions cid xs db) = comments db"
  "comments (with_comment c xs db) = comments db @ [c]" "mentions (with_rewrite f cid db) = mentions db"
  "comments (with_rewrite f cid db) = update_rows (\<lambda>x. cm_id x = cid) f (comments db)"
  by (simp_all add: insert_mentions_def with_mentions_def drop_mentions_def Let_def with_comment_def with_rewrite_def)

lemma once_member_with [simp]:
  "once_member (insert_mentions cid xs db) = once_member db" "once_member (with_mentions cid xs db) = once_member db"
  "once_member (with_comment c xs db) = once_member db" "once_member (with_rewrite f cid db) = once_member db"
  by (simp_all add: fun_eq_iff once_member_def insert_mentions_def with_mentions_def drop_mentions_def Let_def with_comment_def
      with_rewrite_def)

lemma mentioned_bound:
  assumes "distinct (mentions db)" "set (mentioned_users db cid) \<subseteq> set xs" "length xs \<le> 20"
  shows "length (mentioned_users db cid) \<le> 20"
proof -
  have "length (mentioned_users db cid) = card (set (mentioned_users db cid))"
    using distinct_card [OF distinct_mentioned_users [OF assms(1)]] by metis
  also have "\<dots> \<le> card (set xs)" by (rule card_mono) (use assms(2) in auto)
  also have "\<dots> \<le> length xs" by (rule card_length)
  finally show ?thesis using assms(3) by simp
qed

lemma mentioned_same:
  assumes "\<And>x. \<lparr>mn_comment = cid, mn_user = x\<rparr> \<in> set (mentions db') \<longleftrightarrow> \<lparr>mn_comment = cid, mn_user = x\<rparr> \<in> set (mentions db)"
    "distinct (mentions db)" "distinct (mentions db')"
  shows "mentioned_users db' cid = mentioned_users db cid"
  by (rule sorted_distinct_set_unique)
    (use assms in \<open>auto simp: set_mentioned_users distinct_mentioned_users\<close>, simp_all add: mentioned_users_def)

section \<open>Every step keeps the invariant\<close>

lemma elsewhere_sound: "elsewhere db db' \<Longrightarrow> comments_sound db \<Longrightarrow> comments_sound db'"
  unfolding elsewhere_def comments_sound_def mention_sound_def mentioned_users_def by (elim conjE) (simp, blast)

lemma elsewhere_refl [simp]: "elsewhere db db"
  by (simp add: elsewhere_def)

lemma frame_elsewhere: "activity_frame db db' \<Longrightarrow> elsewhere db db'"
  by (simp add: elsewhere_def once_member_def frame_platform frame_same)

lemma mention_of_new:
  assumes "comments_sound db" "fresh cm_id c (comments db)"
  shows "mn_comment m = cm_id c \<Longrightarrow> m \<notin> set (mentions db)"
proof (rule notI)
  assume "mn_comment m = cm_id c" "m \<in> set (mentions db)"
  with assms(1) obtain x where "x \<in> set (comments db)" "cm_id x = cm_id c" by (auto simp: comments_sound_def mention_sound_def)
  with assms(2) show False by (simp add: fresh_def) (metis image_eqI)
qed

lemma with_comment_mentions:
  "set (mentions (with_comment c xs db)) = set (mentions db) \<union> {\<lparr>mn_comment = cm_id c, mn_user = x\<rparr> |x. x \<in> set xs}"
  by (simp add: with_comment_def mentions_insert)

lemma with_comment_sound:
  assumes sound: "comments_sound db" and c: "comment_checks c" "fresh cm_id c (comments db)"
    "fresh (\<lambda>x. (cm_author x, cm_request x)) c (comments db)" "once_member db (cm_session c) (cm_author c)"
    and xs: "length xs \<le> 20" "cm_author c \<notin> set xs" "\<And>x. x \<in> set xs \<Longrightarrow> once_member db (cm_session c) x"
  shows "comments_sound (with_comment c xs db)"
proof -
  have d: "distinct (mentions (with_comment c xs db))"
    using sound by (simp add: with_comment_def comments_sound_def distinct_insert)
  have ms: "mention_sound (with_comment c xs db) m" if "m \<in> set (mentions (with_comment c xs db))" for m
    using that sound xs by (auto simp: with_comment_mentions comments_sound_def mention_sound_def)
  have "length (mentioned_users (with_comment c xs db) cid) \<le> 20" for cid
  proof (cases "cid = cm_id c")
    case True
    show ?thesis
      by (rule mentioned_bound [OF d _ xs(1)])
        (use True mention_of_new [OF sound c(2)] in \<open>auto simp: set_mentioned_users with_comment_mentions\<close>)
  next
    case False
    have "mentioned_users (with_comment c xs db) cid = mentioned_users db cid"
      by (rule mentioned_same) (use False d sound in \<open>auto simp: with_comment_mentions comments_sound_def\<close>)
    then show ?thesis using sound by (simp add: comments_sound_def)
  qed
  then show ?thesis using sound c d ms unfolding comments_sound_def
    by (simp add: distinct_snoc_fresh ball_Un del: map_append)
qed

text \<open>A statement that rewrites one comment and keeps who wrote it, where and by which request.\<close>

definition keeps_origin :: "(comment_row \<Rightarrow> comment_row) \<Rightarrow> bool" where
  "keeps_origin f \<longleftrightarrow> (\<forall>c. cm_id (f c) = cm_id c \<and> cm_session (f c) = cm_session c \<and> cm_author (f c) = cm_author c \<and>
     cm_request (f c) = cm_request c \<and> cm_fingerprint (f c) = cm_fingerprint c \<and> cm_created_at (f c) = cm_created_at c)"

lemma edit_keeps: "keeps_origin (edit_comment body anchor now)" "keeps_origin (erase_comment now)"
  by (simp_all add: keeps_origin_def edit_comment_def erase_comment_def)

lemma with_rewrite_sound:
  assumes sound: "comments_sound db" and k: "keeps_origin f" and c: "c \<in> set (comments db)" "comment_checks (f c)"
  shows "comments_sound (with_rewrite f (cm_id c) db)"
proof -
  have u: "x = c" if "x \<in> set (comments db)" "cm_id x = cm_id c" for x
    using distinct_key_unique [of cm_id "comments db" x c] sound that c(1) by (simp add: comments_sound_def)
  have maps: "map cm_id (update_rows (\<lambda>x. cm_id x = cm_id c) f (comments db)) = map cm_id (comments db)"
    "map (\<lambda>c. (cm_author c, cm_request c)) (update_rows (\<lambda>x. cm_id x = cm_id c) f (comments db)) =
       map (\<lambda>c. (cm_author c, cm_request c)) (comments db)"
    using k by (auto simp: keeps_origin_def intro!: map_update_rows_same)
  have rows: "comment_checks x \<and> once_member db (cm_session x) (cm_author x)"
    if x: "x \<in> set (update_rows (\<lambda>x. cm_id x = cm_id c) f (comments db))" for x
  proof -
    from x obtain r where r: "r \<in> set (comments db)" "x = (if cm_id r = cm_id c then f r else r)" by (rule in_update_rows)
    then show ?thesis using u [OF r(1)] sound c k by (cases "r = c") (auto simp: comments_sound_def keeps_origin_def)
  qed
  have ms: "mention_sound (with_rewrite f (cm_id c) db) m" if "m \<in> set (mentions db)" for m
  proof -
    from that sound obtain x where "x \<in> set (comments db)" "cm_id x = mn_comment m" "cm_author x \<noteq> mn_user m"
      "once_member db (cm_session x) (mn_user m)" by (auto simp: comments_sound_def mention_sound_def)
    then show ?thesis using k unfolding mention_sound_def
      by (intro bexI [of _ "if cm_id x = cm_id c then f x else x"]) (auto simp: keeps_origin_def set_update_rows)
  qed
  show ?thesis using sound maps rows ms unfolding comments_sound_def by simp
qed

lemma with_mentions_sound:
  assumes sound: "comments_sound db" and c: "c \<in> set (comments db)" "cm_id c = cid"
    and xs: "length xs \<le> 20" "cm_author c \<notin> set xs" "\<And>x. x \<in> set xs \<Longrightarrow> once_member db (cm_session c) x"
  shows "comments_sound (with_mentions cid xs db)"
proof -
  have d: "distinct (mentions (with_mentions cid xs db))"
    using sound by (simp add: comments_sound_def distinct_with_mentions)
  have ms: "mention_sound (with_mentions cid xs db) m" if "m \<in> set (mentions (with_mentions cid xs db))" for m
    using that sound xs c by (auto simp: mentions_with_mentions comments_sound_def mention_sound_def)
  have "length (mentioned_users (with_mentions cid xs db) i) \<le> 20" for i
  proof (cases "i = cid")
    case True
    show ?thesis
      by (rule mentioned_bound [OF d _ xs(1)]) (use True in \<open>auto simp: set_mentioned_users mentions_with_mentions\<close>)
  next
    case False
    have "mentioned_users (with_mentions cid xs db) i = mentioned_users db i"
      by (rule mentioned_same) (use False d sound in \<open>auto simp: mentions_with_mentions comments_sound_def\<close>)
    then show ?thesis using sound by (simp add: comments_sound_def)
  qed
  then show ?thesis using sound d ms unfolding comments_sound_def by simp
qed

lemma create_sound:
  assumes "create_comment sha d sid author request rq db = (Inr m, db')" "comments_sound db"
  shows "comments_sound db'"
  using assms(1)
proof (cases rule: create_Inr)
  case replay
  then show ?thesis using assms(2) by simp
next
  case (new c body anchor access mentioned)
  note ck = checked_request_Inr [OF new(1)]
  have "cm_session c = sid" "cm_author c = author" using new(2) by (simp_all add: new_comment_def)
  then have "comments_sound (with_comment c mentioned db)"
    using ck new(6,7,8) by (intro with_comment_sound [OF assms(2)]) auto
  then show ?thesis by (rule elsewhere_sound [OF frame_elsewhere [OF new(9)]])
qed

lemma update_sound:
  assumes "update_comment d actor cid expected rq db = (Inr m, db')" "comments_sound db"
  shows "comments_sound db'"
  using assms(1)
proof (cases rule: update_Inr)
  case same
  then show ?thesis using assms(2) by simp
next
  case (edit c sid body anchor access mentioned)
  note ck = checked_request_Inr [OF edit(4)] and c = find_comment_Some [OF edit(1)]
  let ?f = "edit_comment body anchor (cd_now d)"
  have "comments_sound (with_rewrite ?f cid db)"
    using with_rewrite_sound [OF assms(2) edit_keeps(1), of c body anchor "cd_now d"] c edit(8) by simp
  moreover have "?f c \<in> set (comments (with_rewrite ?f cid db))" using c by (auto simp: set_update_rows)
  ultimately have "comments_sound (with_mentions cid mentioned (with_rewrite ?f cid db))"
    using ck c edit(5) by (intro with_mentions_sound [where c = "?f c"]) (auto simp: edit_comment_def)
  then show ?thesis by (rule elsewhere_sound [OF frame_elsewhere [OF edit(9)]])
qed

lemma delete_sound:
  assumes "delete_comment d actor cid expected db = (Inr m, db')" "comments_sound db"
  shows "comments_sound db'"
  using assms(1)
proof (cases rule: delete_Inr)
  case same
  then show ?thesis using assms(2) by simp
next
  case (erase c sid access)
  note c = find_comment_Some [OF erase(1)]
  have "comments_sound (with_rewrite (erase_comment (cd_now d)) cid db)"
    using with_rewrite_sound [OF assms(2) edit_keeps(2), of c "cd_now d"] c erase(8) by simp
  then show ?thesis by (rule elsewhere_sound [OF frame_elsewhere [OF erase(9)]])
qed

lemma comment_failure_keeps:
  "create_comment sha d sid author request rq db = (Inl e, db') \<Longrightarrow> db' = db"
  "update_comment d actor cid expected rq db = (Inl e, db') \<Longrightarrow> db' = db"
  "delete_comment d actor cid expected db = (Inl e, db') \<Longrightarrow> db' = db"
  by (simp_all add: create_comment_def update_comment_def delete_comment_def transaction_Inl_iff)

lemma step_sound: "comment_step db db' \<Longrightarrow> comments_sound db \<Longrightarrow> comments_sound db'"
proof (induction rule: comment_step.induct)
  case (M_create db sha d sid author request rq)
  then show ?case
    by (cases "create_comment sha d sid author request rq db"; cases "fst (create_comment sha d sid author request rq db)")
      (auto dest: create_sound comment_failure_keeps)
next
  case (M_update db d actor cid expected rq)
  then show ?case
    by (cases "update_comment d actor cid expected rq db"; cases "fst (update_comment d actor cid expected rq db)")
      (auto dest: update_sound comment_failure_keeps)
next
  case (M_delete db d actor cid expected)
  then show ?case
    by (cases "delete_comment d actor cid expected db"; cases "fst (delete_comment d actor cid expected db)")
      (auto dest: delete_sound comment_failure_keeps)
next
  case (M_elsewhere db db')
  then show ?case by (rule elsewhere_sound)
qed

end
