(* ===== verification/Notification_Feed.thy ===== *)
theory Notification_Feed
  imports Comments_Inv
begin

text \<open>
  The reader's side of \<open>notification_service.py\<close> and \<open>notification_repository.py\<close>: the paths notifications lead to, their
  read state, and the private listings of notifications and queued e-mails.  The listings answer one request on the committed
  state; \<open>status\<close> of an outbox row is the constant \<open>queued_local\<close> (a CHECK).
\<close>

section \<open>Paths\<close>

definition notification_href :: "ustr \<Rightarrow> ustr \<Rightarrow> uuid \<Rightarrow> uuid option \<Rightarrow> app_error + ustr" where
  "notification_href action_kind resource_type rid sid =
     and_then (validate_notification_catalog action_kind resource_type) (\<lambda>_.
     and_then
       (if action_kind = u ''none'' then Inr (u ''/'')
        else if action_kind = u ''respond_friend_request'' then Inr (u ''/friends'')
        else if action_kind = u ''open_room'' then Inr (u ''/projects/'' @ uuid_text rid)
        else if action_kind = u ''open_session'' then Inr (u ''/projects/'' @ uuid_text rid)
        else (case sid of
            None \<Rightarrow> Inl (ValueError (u ''open_comment requires its owning session''))
          | Some s \<Rightarrow> Inr (u ''/projects/'' @ uuid_text s @ u ''/editor?comment='' @ uuid_text rid))) (\<lambda>href.
     require (\<not> (length href > 256 \<or> \<not> ustr_startswith (u ''/'') href \<or> ustr_startswith (u ''//'') href))
       (ValueError (u ''unsafe internal notification path'')) (Inr href)))"

section \<open>Read state\<close>

definition own_notification :: "uuid \<Rightarrow> uuid \<Rightarrow> notification_row \<Rightarrow> bool" where
  "own_notification nid recipient n \<longleftrightarrow> nt_id n = nid \<and> nt_recipient n = recipient"

definition read_row :: "int \<Rightarrow> notification_row \<Rightarrow> notification_row" where
  "read_row now n = n\<lparr>nt_read_at := Some (case nt_read_at n of Some t \<Rightarrow> t | None \<Rightarrow> now)\<rparr>"

definition mark_read :: "int \<Rightarrow> uuid \<Rightarrow> uuid \<Rightarrow> 'z app_db_scheme \<Rightarrow> bool \<times> 'z app_db_scheme" where
  "mark_read now recipient nid db =
     (list_ex (own_notification nid recipient) (notifications db),
      db\<lparr>notifications := update_rows (own_notification nid recipient) (read_row now) (notifications db)\<rparr>)"

definition unread :: "uuid \<Rightarrow> notification_row \<Rightarrow> bool" where
  "unread recipient n \<longleftrightarrow> nt_recipient n = recipient \<and> nt_read_at n = None"

definition mark_all_read :: "int \<Rightarrow> uuid \<Rightarrow> 'z app_db_scheme \<Rightarrow> nat \<times> 'z app_db_scheme" where
  "mark_all_read now recipient db =
     (hits (unread recipient) (notifications db),
      db\<lparr>notifications := update_rows (unread recipient) (\<lambda>n. n\<lparr>nt_read_at := Some now\<rparr>) (notifications db)\<rparr>)"

section \<open>Listings\<close>

definition notification_key :: "notification_row \<Rightarrow> int \<times> uuid" where
  "notification_key n = (nt_created_at n, nt_id n)"

text \<open>\<open>LEFT JOIN comments\<close>: the session of the comment a notification is about.\<close>

definition notification_session :: "'z platform_db_scheme \<Rightarrow> notification_row \<Rightarrow> uuid option" where
  "notification_session db n =
     (if nt_resource_type n = u ''comment''
      then map_option cm_session (find (\<lambda>c. cm_id c = nt_resource_id n) (comments db)) else None)"

definition repository_notifications ::
  "uuid \<Rightarrow> (int \<times> uuid) option \<Rightarrow> int \<Rightarrow> 'z platform_db_scheme \<Rightarrow>
   app_error + ((notification_row \<times> uuid option) list \<times> (int \<times> uuid) option) \<times> nat" where
  "repository_notifications recipient cur limit db =
     (let rows = filter (\<lambda>n. nt_recipient n = recipient) (notifications db) in
      and_then (owned_cursor notification_key (u ''notification cursor is unavailable'') rows cur) (\<lambda>_.
      case time_page notification_key rows cur limit of
        (visible, next) \<Rightarrow>
          Inr ((map (\<lambda>n. (n, notification_session db n)) visible, next), hits (unread recipient) (notifications db))))"

text \<open>What the service answers: the row without \<open>recipient_id\<close> and \<open>dedupe_key\<close>, with its path.\<close>

record notification_view =
  nv_id :: uuid
  nv_kind :: ustr
  nv_actor :: "uuid option"
  nv_resource_type :: ustr
  nv_resource_id :: uuid
  nv_action :: ustr
  nv_title :: ustr
  nv_body :: ustr
  nv_created_at :: int
  nv_read_at :: "int option"
  nv_href :: ustr

definition render_notification :: "notification_row \<times> uuid option \<Rightarrow> app_error + notification_view" where
  "render_notification item =
     (case item of (n, sid) \<Rightarrow>
      and_then (notification_href (nt_action n) (nt_resource_type n) (nt_resource_id n) sid) (\<lambda>href.
      Inr \<lparr>nv_id = nt_id n, nv_kind = nt_kind n, nv_actor = nt_actor n, nv_resource_type = nt_resource_type n,
           nv_resource_id = nt_resource_id n, nv_action = nt_action n, nv_title = nt_title n, nv_body = nt_body n,
           nv_created_at = nt_created_at n, nv_read_at = nt_read_at n, nv_href = href\<rparr>))"

definition list_notifications ::
  "uuid \<Rightarrow> (int \<times> uuid) option \<Rightarrow> int \<Rightarrow> 'z platform_db_scheme \<Rightarrow>
   app_error + (notification_view list \<times> (int \<times> uuid) option) \<times> nat" where
  "list_notifications recipient cur limit db =
     and_then (repository_notifications recipient cur limit db) (\<lambda>((items, next), count).
     and_then (map_result render_notification items) (\<lambda>views. Inr ((views, next), count)))"

definition outbox_key :: "outbox_row \<Rightarrow> int \<times> uuid" where
  "outbox_key x = (ob_created_at x, ob_id x)"

definition list_outbox ::
  "uuid \<Rightarrow> (int \<times> uuid) option \<Rightarrow> int \<Rightarrow> 'z app_db_scheme \<Rightarrow> app_error + outbox_row list \<times> (int \<times> uuid) option" where
  "list_outbox recipient cur limit db =
     (let rows = filter (\<lambda>x. ob_recipient x = recipient) (outbox db) in
      and_then (owned_cursor outbox_key (u ''outbox cursor is unavailable'') rows cur) (\<lambda>_.
      Inr (time_page outbox_key rows cur limit)))"

end
