(* ===== verification/Comment_Fingerprint.thy ===== *)
theory Comment_Fingerprint
  imports Comments
begin

text \<open>
  The text that is hashed into a comment's request fingerprint determines the request: JSON escaping with surrogate pairs is
  a prefix code.
\<close>

section \<open>The fingerprint\<close>

definition scalar_text :: "ustr \<Rightarrow> bool" where
  "scalar_text s \<longleftrightarrow> list_all (\<lambda>c. c < 55296 \<or> 57343 < c \<and> c < 1114112) s"

lemma hex4_inject: "m < 65536 \<Longrightarrow> n < 65536 \<Longrightarrow> hex_pad 4 m = hex_pad 4 n \<longleftrightarrow> m = n"
  by (rule hex_pad_inject) simp_all

definition short_escape :: "nat \<Rightarrow> nat option" where
  "short_escape c = map_of [(34, 34), (92, 92), (10, 110), (13, 114), (9, 116), (8, 98), (12, 102)] c"

lemma escape_cases:
  assumes "scalar_text [c]"
  obtains (short) e where "ascii_escape_char c = [92, e]" "short_escape c = Some e"
  | (plain) "ascii_escape_char c = [c]" "c \<noteq> 92" "c \<noteq> 34"
  | (bmp) "ascii_escape_char c = [92, 117] @ hex_pad 4 c" "c < 65536" "c < 55296 \<or> 57343 < c"
  | (pair) a b where "ascii_escape_char c = [92, 117] @ hex_pad 4 (55296 + a) @ [92, 117] @ hex_pad 4 (56320 + b)"
      "a < 1024" "b < 1024" "c = 65536 + a * 1024 + b"
proof -
  consider "c \<in> {34, 92, 10, 13, 9, 8, 12}" | "c \<notin> {34, 92, 10, 13, 9, 8, 12}" "32 \<le> c \<and> c \<le> 126"
    | "c \<notin> {34, 92, 10, 13, 9, 8, 12}" "\<not> (32 \<le> c \<and> c \<le> 126)" "c < 65536" | "65536 \<le> c" by fastforce
  then show ?thesis
  proof cases
    case 1
    then show ?thesis by (elim insertE) (auto simp: ascii_escape_char_def short_escape_def intro: short)
  next
    case 2
    then show ?thesis by (intro plain) (simp_all add: ascii_escape_char_def)
  next
    case 3
    then show ?thesis using assms by (intro bmp) (auto simp: ascii_escape_char_def scalar_text_def)
  next
    case 4
    have "(c - 65536) div 1024 < 1024" using assms 4 by (simp add: scalar_text_def less_mult_imp_div_less)
    moreover have "c = 65536 + (c - 65536) div 1024 * 1024 + (c - 65536) mod 1024" using 4 by (simp add: div_mult_mod_eq)
    ultimately show ?thesis using 4
      by (intro pair [of "(c - 65536) div 1024" "(c - 65536) mod 1024"]) (simp_all add: ascii_escape_char_def)
  qed
qed

lemma short_escape_facts:
  "short_escape c = Some e \<Longrightarrow> e \<noteq> 117"
  "short_escape c = Some e \<Longrightarrow> short_escape d = Some e \<Longrightarrow> c = d"
  by (auto simp: short_escape_def split: if_splits)

lemma escape_inject:
  assumes "scalar_text [c]" "scalar_text [d]" "ascii_escape_char c @ r = ascii_escape_char d @ r'"
  shows "c = d \<and> r = r'"
  using assms(1)
proof (cases rule: escape_cases)
  case c: (short e)
  from assms(2) show ?thesis by (cases rule: escape_cases) (use assms(3) c short_escape_facts in auto)
next
  case c: plain
  from assms(2) show ?thesis by (cases rule: escape_cases) (use assms(3) c in auto)
next
  case c: bmp
  from assms(2) show ?thesis by (cases rule: escape_cases) (use assms(3) c short_escape_facts in \<open>auto simp: hex4_inject\<close>)
next
  case c: (pair a b)
  from assms(2) show ?thesis by (cases rule: escape_cases) (use assms(3) c short_escape_facts in \<open>auto simp: hex4_inject\<close>)
qed

lemma escape_not_quote: "scalar_text [c] \<Longrightarrow> ascii_escape_char c @ r \<noteq> 34 # r'"
  by (erule escape_cases) auto

lemma scalar_Cons: "scalar_text (c # s) \<longleftrightarrow> scalar_text [c] \<and> scalar_text s"
  by (simp add: scalar_text_def)

lemma escape_not_quote_list: "scalar_text (c # s) \<Longrightarrow> 34 # r' \<noteq> ascii_escape_char c @ r"
  using escape_not_quote [of c r r'] scalar_Cons [of c s] by metis

lemma quoted_prefix:
  "concat (map ascii_escape_char s) @ 34 # r = concat (map ascii_escape_char t) @ 34 # r' \<Longrightarrow>
     scalar_text s \<Longrightarrow> scalar_text t \<Longrightarrow> s = t \<and> r = r'"
proof (induction s arbitrary: t)
  case Nil
  then show ?case using escape_not_quote_list by (cases t) auto
next
  case (Cons c s)
  show ?case
  proof (cases t)
    case Nil
    then have "ascii_escape_char c @ (concat (map ascii_escape_char s) @ 34 # r) = 34 # r'" using Cons.prems(1) by simp
    moreover have "scalar_text [c]" using Cons.prems(2) by (metis scalar_Cons)
    ultimately show ?thesis using escape_not_quote by blast
  next
    case (Cons d t')
    have sc: "scalar_text [c]" "scalar_text [d]" "scalar_text s" "scalar_text t'" using Cons Cons.prems(2,3) scalar_Cons by blast+
    have "ascii_escape_char c @ (concat (map ascii_escape_char s) @ 34 # r) = ascii_escape_char d @ (concat (map ascii_escape_char t') @ 34 # r')"
      using Cons.prems(1) Cons by simp
    from escape_inject [OF sc(1,2) this] show ?thesis using Cons.IH [OF _ sc(3,4)] Cons by simp
  qed
qed

lemma quote_inject:
  assumes "ascii_quote s @ r = ascii_quote t @ r'" "scalar_text s" "scalar_text t"
  shows "s = t" "r = r'"
  using quoted_prefix [OF _ assms(2,3), of r r'] assms(1) by (simp_all add: ascii_quote_def)

lemma quote_list_inject:
  assumes "\<forall>s \<in> set xs. scalar_text s" "\<forall>s \<in> set ys. scalar_text s"
    "concat (map (\<lambda>y. 44 # ascii_quote y) xs) @ 93 # r = concat (map (\<lambda>y. 44 # ascii_quote y) ys) @ 93 # r'"
  shows "xs = ys"
  using assms
proof (induction xs arbitrary: ys)
  case Nil
  then show ?case by (cases ys) auto
next
  case (Cons x xs)
  then obtain y ys' where ys: "ys = y # ys'" by (cases ys) auto
  have "ascii_quote x @ (concat (map (\<lambda>y. 44 # ascii_quote y) xs) @ 93 # r) =
      ascii_quote y @ (concat (map (\<lambda>y. 44 # ascii_quote y) ys') @ 93 # r')"
    using Cons.prems(3) ys by simp
  moreover have "scalar_text x" "scalar_text y" using Cons.prems(1,2) ys by simp_all
  ultimately have "x = y" "concat (map (\<lambda>y. 44 # ascii_quote y) xs) @ 93 # r = concat (map (\<lambda>y. 44 # ascii_quote y) ys') @ 93 # r'"
    by (rule quote_inject)+
  moreover have "xs = ys'" by (rule Cons.IH [OF _ _ calculation(2)]) (use Cons.prems(1,2) ys in simp_all)
  ultimately show ?case using ys by simp
qed

lemma comma_join_concat: "xs \<noteq> [] \<Longrightarrow> 44 # comma_join (map f xs) = concat (map (\<lambda>y. 44 # f y) xs)"
  by (cases xs) (simp_all add: comma_join_def comp_def)

lemma ascii_quote_ne [simp]: "ascii_quote s \<noteq> []" "hd (ascii_quote s) = 34"
  by (simp_all add: ascii_quote_def)

lemma comma_join_inject:
  assumes "\<forall>s \<in> set xs. scalar_text s" "\<forall>s \<in> set ys. scalar_text s"
    "comma_join (map ascii_quote xs) @ 93 # r = comma_join (map ascii_quote ys) @ 93 # r'"
  shows "xs = ys"
proof (cases "xs = [] \<or> ys = []")
  case True
  then show ?thesis using assms(3) by (cases xs; cases ys) (auto simp: comma_join_def ascii_quote_def)
next
  case False
  then show ?thesis using assms quote_list_inject [OF assms(1,2), of r r']
    by (simp flip: comma_join_concat)
qed

lemma scalar_uuid_text: "scalar_text (uuid_text x)"
proof -
  have "encodable (uuid_text x)" by simp
  moreover have "c < 1114112" if "c \<in> set (uuid_text x)" for c
    using that hex_pad_no_dash unfolding uuid_text_def Let_def
    by (auto dest!: in_set_takeD in_set_dropD set_hex_pad simp: hex_char_def)
  ultimately show ?thesis by (auto simp: scalar_text_def encodable_def list_all_iff)
qed

lemma scalar_anchor_value: "scalar_text (anchor_value k)"
  by (cases k) (simp_all add: scalar_text_def)

text \<open>
  The hashed text of a request identifies its content.  Two requests whose texts have Unicode scalar values only have
  the same text exactly when they have the same body, the same anchor and the same mentions in whatever order: a request
  id reused for other content is detected unless SHA-256 collides, and the order of mentions does not matter.
\<close>

theorem fingerprint_identifies_content:
  assumes "scalar_text body" and "scalar_text body'"
  shows "fingerprint_text body anchor ms = fingerprint_text body' anchor' ms' \<longleftrightarrow>
    body = body' \<and> anchor = anchor' \<and> mset ms = mset ms'"
proof
  assume eq: "fingerprint_text body anchor ms = fingerprint_text body' anchor' ms'"
  have tail: "body = body' \<and> mset ms = mset ms'"
    if "ascii_quote body @ u '',\"mentions\":['' @ comma_join (map ascii_quote (sort (map uuid_text ms))) @ u '']}'' =
      ascii_quote body' @ u '',\"mentions\":['' @ comma_join (map ascii_quote (sort (map uuid_text ms'))) @ u '']}''"
  proof -
    have "body = body'" "u '',\"mentions\":['' @ comma_join (map ascii_quote (sort (map uuid_text ms))) @ u '']}'' =
        u '',\"mentions\":['' @ comma_join (map ascii_quote (sort (map uuid_text ms'))) @ u '']}''"
      using quote_inject [OF that assms] by blast+
    then have "body = body'" "comma_join (map ascii_quote (sort (map uuid_text ms))) @ 93 # [125] =
        comma_join (map ascii_quote (sort (map uuid_text ms'))) @ 93 # [125]" by simp_all
    moreover from this(2) have "sort (map uuid_text ms) = sort (map uuid_text ms')"
      by (rule comma_join_inject [rotated 2]) (auto simp: scalar_uuid_text)
    then have "mset (map uuid_text ms) = mset (map uuid_text ms')" by (metis mset_sort)
    then have "mset ms = mset ms'" using multiset.inj_map_strong [of "mset ms" "mset ms'" uuid_text uuid_text] by simp
    ultimately show ?thesis by blast
  qed
  show "body = body' \<and> anchor = anchor' \<and> mset ms = mset ms'"
  proof (cases anchor)
    case None
    then show ?thesis using eq tail unfolding fingerprint_text_def
      by (cases anchor') (auto simp: ascii_quote_def split: prod.splits)
  next
    case (Some a)
    obtain k i where a: "a = (k, i)" by fastforce
    show ?thesis
    proof (cases anchor')
      case None
      then show ?thesis using eq Some a unfolding fingerprint_text_def by (auto simp: ascii_quote_def)
    next
      case (Some a')
      obtain k' i' where a': "a' = (k', i')" by fastforce
      let ?r = "\<lambda>k body ms. u '',\"anchor_kind\":'' @ ascii_quote (anchor_value k) @ u '',\"body\":'' @ ascii_quote body @
        u '',\"mentions\":['' @ comma_join (map ascii_quote (sort (map uuid_text ms))) @ u '']}''"
      have "ascii_quote (uuid_text i) @ ?r k body ms = ascii_quote (uuid_text i') @ ?r k' body' ms'"
        using eq Some \<open>anchor = Some a\<close> a a' by (simp add: fingerprint_text_def)
      note q = quote_inject [OF this scalar_uuid_text scalar_uuid_text]
      have i: "i = i'" "?r k body ms = ?r k' body' ms'" using q by simp_all
      let ?q = "\<lambda>body ms. u '',\"body\":'' @ ascii_quote body @ u '',\"mentions\":['' @ comma_join (map ascii_quote (sort (map uuid_text ms))) @ u '']}''"
      have "ascii_quote (anchor_value k) @ ?q body ms = ascii_quote (anchor_value k') @ ?q body' ms'"
        using i(2) by simp
      then have "anchor_value k = anchor_value k'" "?q body ms = ?q body' ms'"
        using scalar_anchor_value scalar_anchor_value by (rule quote_inject)+
      moreover from this(1) have "k = k'" by (cases k; cases k') simp_all
      moreover have "body = body' \<and> mset ms = mset ms'" by (rule tail) (use calculation(2) in simp)
      ultimately show ?thesis using i(1) Some \<open>anchor = Some a\<close> a a' by simp
    qed
  qed
next
  assume "body = body' \<and> anchor = anchor' \<and> mset ms = mset ms'"
  moreover then have "sort (map uuid_text ms) = sort (map uuid_text ms')" by (metis mset_map properties_for_sort mset_sort sorted_sort)
  ultimately show "fingerprint_text body anchor ms = fingerprint_text body' anchor' ms'" by (simp add: fingerprint_text_def)
qed

theorem fingerprint_identifies_content_witness:
  "fingerprint_text (u ''a'') None [1, 2] = fingerprint_text (u ''a'') None [2, 1] \<and>
   fingerprint_text (u ''a'') None [] \<noteq> fingerprint_text (u ''b'') None []"
proof -
  have s: "scalar_text (u ''a'')" "scalar_text (u ''b'')" by (simp_all add: scalar_text_def)
  show ?thesis using fingerprint_identifies_content [OF s(1,1)] fingerprint_identifies_content [OF s] by simp
qed

end
