(* ===== verification/Comments_Properties.thy ===== *)
theory Comments_Properties
  imports Comments_Inv Comment_Fingerprint Membership_Gate Session_Properties Event_Keys
begin

text \<open>
  The properties of comments over every interleaving of their operations with transactions of the other services.
\<close>

section \<open>The invariant in every reachable state\<close>

text \<open>
  C22: comments keep their constraints whatever is interleaved.  From a database without comments, every sequence of
  creations, edits, deletions and transactions of the other services leads to a state in which identifiers and client
  requests are unique, a live comment has 1 to 5000 characters and a deleted one none, every author and every mentioned
  user is or was a member of the room, nobody mentions himself and no comment mentions more than twenty users.
\<close>

theorem comments_stay_sound:
  assumes "comment_step\<^sup>*\<^sup>* db0 db" and "comments db0 = []" and "mentions db0 = []"
  shows "comments_sound db"
proof -
  have "comments_sound db0" using assms(2,3) by (simp add: comments_sound_def mentioned_users_def)
  with assms(1) show ?thesis by (induction rule: rtranclp_induct) (auto intro: step_sound)
qed

section \<open>How a comment evolves\<close>

definition later :: "comment_row \<Rightarrow> comment_row \<Rightarrow> bool" where
  "later c c' \<longleftrightarrow>
     cm_id c' = cm_id c \<and> cm_session c' = cm_session c \<and> cm_author c' = cm_author c \<and> cm_request c' = cm_request c \<and>
     cm_fingerprint c' = cm_fingerprint c \<and> cm_created_at c' = cm_created_at c \<and> cm_version c \<le> cm_version c' \<and>
     (cm_version c' = cm_version c \<longrightarrow> c' = c) \<and> (cm_deleted_at c \<noteq> None \<longrightarrow> c' = c)"

lemma later_refl [simp]: "later c c"
  by (simp add: later_def)

lemma later_trans: "later a b \<Longrightarrow> later b c \<Longrightarrow> later a c"
  unfolding later_def by (auto dest: order_antisym)

lemma later_rewrite:
  assumes "keeps_origin f" "cm_version (f c) = cm_version c + 1" "cm_deleted_at c = None"
  shows "later c (f c)"
  using assms by (simp add: later_def keeps_origin_def)

definition evolves :: "'z platform_db_scheme \<Rightarrow> 'z platform_db_scheme \<Rightarrow> bool" where
  "evolves db db' \<longleftrightarrow> (\<forall>c \<in> set (comments db). \<exists>c' \<in> set (comments db'). later c c')"

lemma evolves_same: "comments db' = comments db \<Longrightarrow> evolves db db'"
  unfolding evolves_def by (metis later_refl)

lemma evolves_rewrite:
  assumes sound: "comments_sound db" and c: "c \<in> set (comments db)" "cm_id c = cid" "later c (f c)"
  shows "evolves db (with_rewrite f cid db)"
  unfolding evolves_def
proof
  fix x assume x: "x \<in> set (comments db)"
  show "\<exists>c' \<in> set (comments (with_rewrite f cid db)). later x c'"
  proof (cases "cm_id x = cid")
    case True
    then have "x = c" using distinct_key_unique [of cm_id "comments db" x c] sound x c by (simp add: comments_sound_def)
    then show ?thesis using c x by (intro bexI [of _ "f x"]) (auto simp: set_update_rows)
  next
    case False
    then show ?thesis using x by (intro bexI [of _ x]) (auto simp: set_update_rows image_iff)
  qed
qed

lemma evolves_frame: "evolves db mid \<Longrightarrow> activity_frame mid db' \<Longrightarrow> evolves db db'"
  by (simp add: evolves_def frame_platform)

lemma create_evolves: "create_comment sha d sid author request rq db = (Inr m, db') \<Longrightarrow> evolves db db'"
proof (erule create_Inr)
  fix c mentioned assume "activity_frame (with_comment c mentioned db) db'"
  moreover have "evolves db (with_comment c mentioned db)" by (auto simp: evolves_def intro!: bexI [where P = "later _"] later_refl)
  ultimately show "evolves db db'" by (blast intro: evolves_frame)
qed (simp add: evolves_same)

lemma update_evolves:
  assumes "update_comment d actor cid expected rq db = (Inr m, db')" "comments_sound db"
  shows "evolves db db'"
  using assms(1)
proof (cases rule: update_Inr)
  case same
  then show ?thesis by (simp add: evolves_same)
next
  case (edit c sid body anchor access mentioned)
  note c = find_comment_Some [OF edit(1)]
  have "evolves db (with_rewrite (edit_comment body anchor (cd_now d)) cid db)"
    by (rule evolves_rewrite [OF assms(2), where c = c])
      (use c edit(6) later_rewrite [OF edit_keeps(1), of body anchor "cd_now d" c] in \<open>auto simp: edit_comment_def\<close>)
  then have "evolves db (with_mentions cid mentioned (with_rewrite (edit_comment body anchor (cd_now d)) cid db))"
    by (simp add: evolves_def)
  then show ?thesis by (rule evolves_frame [OF _ edit(9)])
qed

lemma delete_evolves:
  assumes "delete_comment d actor cid expected db = (Inr m, db')" "comments_sound db"
  shows "evolves db db'"
  using assms(1)
proof (cases rule: delete_Inr)
  case same
  then show ?thesis by (simp add: evolves_same)
next
  case (erase c sid access)
  note c = find_comment_Some [OF erase(1)]
  have "evolves db (with_rewrite (erase_comment (cd_now d)) cid db)"
    by (rule evolves_rewrite [OF assms(2), where c = c])
      (use c erase(6) later_rewrite [OF edit_keeps(2), of "cd_now d" c] in \<open>auto simp: erase_comment_def\<close>)
  then show ?thesis by (rule evolves_frame [OF _ erase(9)])
qed

lemma step_evolves: "comment_step db db' \<Longrightarrow> comments_sound db \<Longrightarrow> evolves db db'"
proof (induction rule: comment_step.induct)
  case (M_create db sha d sid author request rq)
  then show ?case
    by (cases "create_comment sha d sid author request rq db"; cases "fst (create_comment sha d sid author request rq db)")
      (auto dest: create_evolves comment_failure_keeps intro: evolves_same)
next
  case (M_update db d actor cid expected rq)
  then show ?case
    by (cases "update_comment d actor cid expected rq db"; cases "fst (update_comment d actor cid expected rq db)")
      (auto dest: update_evolves comment_failure_keeps intro: evolves_same)
next
  case (M_delete db d actor cid expected)
  then show ?case
    by (cases "delete_comment d actor cid expected db"; cases "fst (delete_comment d actor cid expected db)")
      (auto dest: delete_evolves comment_failure_keeps intro: evolves_same)
next
  case (M_elsewhere db db')
  then show ?case by (simp add: elsewhere_def evolves_same)
qed

lemma steps_sound: "comment_step\<^sup>*\<^sup>* db db' \<Longrightarrow> comments_sound db \<Longrightarrow> comments_sound db'"
  by (induction rule: rtranclp_induct) (auto intro: step_sound)

lemma steps_evolve: "comment_step\<^sup>*\<^sup>* db db' \<Longrightarrow> comments_sound db \<Longrightarrow> evolves db db'"
proof (induction rule: rtranclp_induct)
  case base
  then show ?case by (simp add: evolves_same)
next
  case (step db1 db2)
  then have "evolves db db1" "evolves db1 db2" using steps_sound step_evolves by blast+
  then show ?case unfolding evolves_def by (meson later_trans)
qed

lemma find_comment_row:
  assumes "comments_sound db" "c \<in> set (comments db)" "find_comment db (cm_id c) sid = Some x"
  shows "x = c"
  using distinct_key_unique [of cm_id "comments db" x c] find_comment_Some [OF assms(3)] assms(1,2)
  by (simp add: comments_sound_def)

text \<open>A writer that knows an older version is refused.\<close>

lemma old_version_fails:
  assumes "comments_sound db" "c \<in> set (comments db)" "cm_id c = cid" "expected < cm_version c"
  shows "\<exists>e. update_comment d actor cid expected rq db = (Inl e, db)" "\<exists>e. delete_comment d actor cid expected db = (Inl e, db)"
proof -
  have no: "cm_version x \<noteq> expected" if "find_comment db cid sid = Some x" for x sid
    using find_comment_row [OF assms(1,2)] that assms(3,4) by auto
  show "\<exists>e. update_comment d actor cid expected rq db = (Inl e, db)"
  proof (cases "update_comment d actor cid expected rq db")
    case (Pair r db')
    then show ?thesis using no by (cases r) (auto dest: comment_failure_keeps elim!: update_Inr)
  qed
  show "\<exists>e. delete_comment d actor cid expected db = (Inl e, db)"
  proof (cases "delete_comment d actor cid expected db")
    case (Pair r db')
    then show ?thesis using no by (cases r) (auto dest: comment_failure_keeps elim!: delete_Inr)
  qed
qed

section \<open>Concurrent writers\<close>

lemma update_row:
  assumes "update_comment d actor cid expected rq db = (Inr m, db1)" "\<not> mu_idempotent m"
  shows "\<exists>c \<in> set (comments db1). cm_id c = cid \<and> cm_version c = expected + 1"
  using assms(1)
proof (cases rule: update_Inr)
  case (edit c sid body anchor access mentioned)
  have "edit_comment body anchor (cd_now d) c \<in> set (comments db1)"
    using find_comment_Some [OF edit(1)] frame_elsewhere [OF edit(9)] by (auto simp: elsewhere_def set_update_rows)
  then show ?thesis using find_comment_Some [OF edit(1)] edit(7)
    by (intro bexI [of _ "edit_comment body anchor (cd_now d) c"]) (simp_all add: edit_comment_def)
qed (use assms(2) in simp)

text \<open>
  No edit is lost.  After an edit made at version \<open>expected\<close> has changed a comment, an edit or a deletion by anybody
  that was prepared at that version or an earlier one fails and changes nothing, whatever ran in between: of two members
  who edit the same version at most one succeeds, and the other is told.
\<close>

theorem stale_comment_edits_fail:
  assumes "comments_sound db" and "update_comment d actor cid expected rq db = (Inr m, db1)" and "\<not> mu_idempotent m"
    and "comment_step\<^sup>*\<^sup>* db1 db2" and "v \<le> expected"
  shows "(\<exists>e. update_comment d' actor' cid v rq' db2 = (Inl e, db2)) \<and> (\<exists>e. delete_comment d' actor' cid v db2 = (Inl e, db2))"
proof -
  obtain c where c: "c \<in> set (comments db1)" "cm_id c = cid" "cm_version c = expected + 1"
    using update_row [OF assms(2,3)] by blast
  have sound: "comments_sound db1" using update_sound [OF assms(2,1)] .
  obtain c' where c': "c' \<in> set (comments db2)" "later c c'" using steps_evolve [OF assms(4) sound] c(1) by (auto simp: evolves_def)
  have "cm_id c' = cid" "v < cm_version c'" using c c'(2) assms(5) by (auto simp: later_def)
  then show ?thesis using old_version_fails [OF steps_sound [OF assms(4) sound] c'(1)] by blast
qed

text \<open>The text whose hash identifies what a request asks for.\<close>

definition request_text :: "comment_request \<Rightarrow> uuid \<Rightarrow> ustr" where
  "request_text rq author =
     fingerprint_text (py_strip (cr_body rq))
       (case comment_anchor (cr_kind rq) (cr_anchor rq) of Inl e \<Rightarrow> None | Inr a \<Rightarrow> a)
       (first_occurrences (filter (\<lambda>v. v \<noteq> author) (cr_mentions rq)))"

lemma checked_request_text:
  assumes "checked_request rq author sid db = Inr (body, anchor, access, mentioned)"
  shows "fingerprint_text body anchor mentioned = request_text rq author"
  using assms by (auto simp: checked_request_def and_then_Inr request_text_def comment_body_def checked_mentions_def Let_def)

lemma create_row:
  assumes "create_comment sha d sid author request rq db = (Inr m, db1)"
  shows "\<exists>c \<in> set (comments db1). cm_author c = author \<and> cm_request c = request \<and> cm_session c = sid \<and> cm_id c = mu_id m \<and>
    cm_fingerprint c = sha (request_text rq author) \<and> (mu_idempotent m \<longrightarrow> db1 = db)"
proof -
  from assms obtain body anchor access mentioned where
    rq: "checked_request rq author sid db = Inr (body, anchor, access, mentioned)"
    unfolding create_comment_def transaction_Inr_iff create_comment_body_def by (auto simp: and_then_Inr simp del: u_simps)
  show ?thesis using assms
  proof (cases rule: create_Inr)
    case (replay c)
    then show ?thesis using assms rq
      unfolding create_comment_def transaction_Inr_iff create_comment_body_def
      by (auto simp: and_then_Inr Let_def checked_request_text [OF rq, symmetric] simp del: u_simps split: if_splits dest!: replay_Inr insert_comment_Inr)
  next
    case (new c body' anchor' access' mentioned')
    have "c \<in> set (comments db1)" using frame_elsewhere [OF new(9)] by (simp add: elsewhere_def)
    then show ?thesis using new checked_request_text [OF new(1)] by (intro bexI [of _ c]) (simp_all add: new_comment_def)
  qed
qed

text \<open>
  A client request creates one comment.  Once a creation with a request id has been answered, every later creation by
  the same author with the same id changes nothing, and when it is answered it names the same comment, and the request had
  the same session and the same fingerprint; other content under the id is refused.
\<close>

theorem comment_request_creates_once:
  assumes "comments_sound db" and "create_comment sha d sid author request rq db = (Inr m, db1)"
    and "comment_step\<^sup>*\<^sup>* db1 db2" and "create_comment sha d' sid' author request rq' db2 = (r, db3)"
  shows "db3 = db2 \<and> (\<forall>m'. r = Inr m' \<longrightarrow>
    mu_id m' = mu_id m \<and> mu_idempotent m' \<and> sid' = sid \<and> sha (request_text rq' author) = sha (request_text rq author))"
proof -
  obtain c where c: "c \<in> set (comments db1)" "cm_author c = author" "cm_request c = request" "cm_session c = sid" "cm_id c = mu_id m"
    "cm_fingerprint c = sha (request_text rq author)" using create_row [OF assms(2)] by blast
  have sound: "comments_sound db1" using create_sound [OF assms(2,1)] .
  obtain c' where c': "c' \<in> set (comments db2)" "later c c'" using steps_evolve [OF assms(3) sound] c(1) by (auto simp: evolves_def)
  have o: "cm_author c' = author" "cm_request c' = request" "cm_session c' = sid" "cm_id c' = mu_id m"
    "cm_fingerprint c' = sha (request_text rq author)" using c c'(2) by (simp_all add: later_def)
  have u: "x = c'" if "x \<in> set (comments db2)" "cm_author x = author" "cm_request x = request" for x
    using distinct_key_unique [of "\<lambda>c. (cm_author c, cm_request c)" "comments db2" x c'] steps_sound [OF assms(3) sound] that c'(1) o
    by (simp add: comments_sound_def)
  show ?thesis
  proof (cases r)
    case (Inl e)
    then show ?thesis using assms(4) comment_failure_keeps(1) by blast
  next
    case (Inr m')
    have a: "create_comment sha d' sid' author request rq' db2 = (Inr m', db3)" using assms(4) Inr by simp
    from a have "mu_idempotent m'"
    proof (cases rule: create_Inr)
      case (new x body anchor access mentioned)
      then have "(cm_author c', cm_request c') \<notin> (\<lambda>x. (cm_author x, cm_request x)) ` set (comments db2)"
        using o by (simp add: fresh_def new_comment_def)
      then show ?thesis using c'(1) by blast
    qed
    moreover obtain x where "x \<in> set (comments db3)" "cm_author x = author" "cm_request x = request" "cm_session x = sid'"
      "cm_id x = mu_id m'" "cm_fingerprint x = sha (request_text rq' author)" "mu_idempotent m' \<longrightarrow> db3 = db2"
      using create_row [OF a] by blast
    ultimately show ?thesis using u [of x] o Inr by auto
  qed
qed

lemma require_membership_owner:
  assumes "require_membership db sid user = Inr access"
  shows "\<exists>s r. find_session db sid = Some s \<and> is_member db (ts_room s) user \<and> r \<in> set (rooms db) \<and> rm_id r = ts_room s \<and> sa_owner access = rm_owner r"
  using assms unfolding require_membership_def
  by (auto simp: member_session_Some split: option.splits dest!: find_Some_set)

text \<open>
  A deletion is final and needs authority.  A comment is deleted only by its author or the owner of the room, as a
  current member; from then on, whatever runs, its row stays as a tombstone without text and no edit of it succeeds.
\<close>

theorem deleted_comments_stay_erased:
  assumes "comments_sound db" and "delete_comment d actor cid expected db = (Inr m, db1)" and "comment_step\<^sup>*\<^sup>* db1 db2"
  shows "(\<exists>c s r. c \<in> set (comments db) \<and> cm_id c = cid \<and> find_session db (cm_session c) = Some s \<and> is_member db (ts_room s) actor \<and>
      r \<in> set (rooms db) \<and> rm_id r = ts_room s \<and> (actor = cm_author c \<or> actor = rm_owner r)) \<and>
    (\<exists>c \<in> set (comments db2). cm_id c = cid \<and> cm_deleted_at c \<noteq> None \<and> cm_body c = []) \<and>
    (\<forall>d' actor' v rq. \<exists>e. update_comment d' actor' cid v rq db2 = (Inl e, db2))"
proof -
  have sound: "comments_sound db1" using delete_sound [OF assms(2,1)] .
  obtain c sid access where f: "find_comment db cid sid = Some c" "require_membership db sid actor = Inr access"
      "actor = cm_author c \<or> actor = sa_owner access"
    using assms(2) by (cases rule: delete_Inr) blast+
  obtain s r where "find_session db sid = Some s" "is_member db (ts_room s) actor" "r \<in> set (rooms db)" "rm_id r = ts_room s"
      "sa_owner access = rm_owner r" using require_membership_owner [OF f(2)] by blast
  then have 1: "\<exists>c s r. c \<in> set (comments db) \<and> cm_id c = cid \<and> find_session db (cm_session c) = Some s \<and> is_member db (ts_room s) actor \<and>
      r \<in> set (rooms db) \<and> rm_id r = ts_room s \<and> (actor = cm_author c \<or> actor = rm_owner r)"
    using find_comment_Some [OF f(1)] f(3) by (intro exI [of _ c] exI [of _ s] exI [of _ r]) simp
  have "\<exists>c \<in> set (comments db1). cm_id c = cid \<and> cm_deleted_at c \<noteq> None"
    using assms(2)
  proof (cases rule: delete_Inr)
    case (same c sid access)
    then show ?thesis using find_comment_Some by blast
  next
    case (erase c sid access)
    have "erase_comment (cd_now d) c \<in> set (comments db1)"
      using find_comment_Some [OF erase(1)] frame_elsewhere [OF erase(9)] by (auto simp: elsewhere_def set_update_rows)
    then show ?thesis using find_comment_Some [OF erase(1)] by (intro bexI [of _ "erase_comment (cd_now d) c"]) (auto simp: erase_comment_def)
  qed
  then obtain c where c: "c \<in> set (comments db2)" "cm_id c = cid" "cm_deleted_at c \<noteq> None"
    using steps_evolve [OF assms(3) sound] unfolding evolves_def later_def by metis
  have sound2: "comments_sound db2" by (rule steps_sound [OF assms(3) sound])
  then have "cm_body c = []" using c by (auto simp: comments_sound_def comment_checks_def)
  moreover have "\<exists>e. update_comment d' actor' cid v rq db2 = (Inl e, db2)" for d' actor' v rq
  proof (cases "update_comment d' actor' cid v rq db2")
    case (Pair r db3)
    have "find_comment db2 cid sid = Some x \<Longrightarrow> x = c" for sid x using find_comment_row [OF sound2 c(1)] c(2) by blast
    then show ?thesis using Pair c(3) by (cases r) (auto dest: comment_failure_keeps elim!: update_Inr)
  qed
  ultimately show ?thesis using 1 c by blast
qed

text \<open>
  An accepted edit stores what was asked.  The comment then has the stripped text, the anchor and exactly the
  mentions of the request but the author himself, at a version one higher, or everything was so already and nothing
  changes; no other comment and no mention of another comment is touched.
\<close>

theorem comment_edit_stores_request:
  assumes "comments_sound db" and "update_comment d actor cid expected rq db = (Inr m, db')"
  shows "(\<exists>c \<in> set (comments db'). cm_id c = cid \<and> cm_author c = actor \<and> cm_body c = py_strip (cr_body rq) \<and>
      comment_anchor (cr_kind rq) (cr_anchor rq) = Inr (cm_anchor c) \<and> cm_version c = mu_version m) \<and>
    set (mentioned_users db' cid) = set (cr_mentions rq) - {actor} \<and>
    mu_version m = (if mu_idempotent m then expected else expected + 1) \<and> (mu_idempotent m \<longrightarrow> db' = db) \<and>
    (\<forall>x \<in> set (comments db). cm_id x \<noteq> cid \<longrightarrow> x \<in> set (comments db') \<and> mentioned_users db' (cm_id x) = mentioned_users db (cm_id x))"
  using assms(2)
proof (cases rule: update_Inr)
  case (same c sid body anchor access mentioned)
  then show ?thesis using find_comment_Some [OF same(1)] checked_request_Inr [OF same(4)]
    by (intro conjI bexI [of _ c]) auto
next
  case (edit c sid body anchor access mentioned)
  note c = find_comment_Some [OF edit(1)] and ck = checked_request_Inr [OF edit(4)]
  let ?f = "edit_comment body anchor (cd_now d)" and ?mid = "with_mentions cid mentioned (with_rewrite (edit_comment body anchor (cd_now d)) cid db)"
  have e: "comments db' = update_rows (\<lambda>x. cm_id x = cid) ?f (comments db)" "mentions db' = mentions ?mid"
    using frame_elsewhere [OF edit(9)] by (simp_all add: elsewhere_def)
  have mu: "mentioned_users db' = mentioned_users ?mid" using e(2) by (simp add: fun_eq_iff mentioned_users_def)
  have "mentioned_users ?mid i = mentioned_users db i" if "i \<noteq> cid" for i
    by (rule mentioned_same)
      (use that assms(1) distinct_with_mentions [of "with_rewrite ?f cid db"] in \<open>auto simp: mentions_with_mentions comments_sound_def\<close>)
  then have others: "\<forall>x \<in> set (comments db). cm_id x \<noteq> cid \<longrightarrow> x \<in> set (comments db') \<and> mentioned_users db' (cm_id x) = mentioned_users db (cm_id x)"
    unfolding mu by (auto simp: e(1) set_update_rows)
  have "set (mentioned_users db' cid) = set mentioned"
    unfolding mu by (auto simp: set_mentioned_users mentions_with_mentions)
  moreover have "?f c \<in> set (comments db')" using c by (auto simp: e(1) set_update_rows)
  ultimately show ?thesis using others edit c ck by (intro conjI bexI [of _ "?f c"]) (auto simp: edit_comment_def)
qed

section \<open>Reading all comments\<close>

lemma owned_cursor_key:
  assumes "distinct (map (snd \<circ> key) rows)" "\<And>k. cur = Some k \<Longrightarrow> k \<in> key ` set rows"
  shows "owned_cursor key message rows cur = Inr ()"
proof (cases cur)
  case (Some k)
  then obtain r where r: "r \<in> set rows" "key r = k" using assms(2) by blast
  have "find (\<lambda>x. snd (key x) = snd (key r)) rows = Some r"
    using find_key_unique [of "snd \<circ> key" rows r] assms(1) r(1) by (simp add: comp_def)
  then show ?thesis using Some r by (cases k) (auto simp: owned_cursor_def)
qed (simp add: owned_cursor_def)

definition session_comments :: "'z platform_db_scheme \<Rightarrow> uuid \<Rightarrow> comment_row list" where
  "session_comments db sid = filter (\<lambda>c. cm_session c = sid) (comments db)"

lemma session_comments_distinct: "comments_sound db \<Longrightarrow> distinct (map (snd \<circ> comment_key) (session_comments db sid))"
  unfolding session_comments_def by (auto simp: comments_sound_def comment_key_def comp_def intro: distinct_map_filter)

interpretation comment_feed: keyset_listing
    "\<lambda>(db, sid, requester) limit cur. list_comments sid requester cur limit db"
    "\<lambda>(db, sid, requester). session_comments db sid" comment_key
    "\<lambda>(db, sid, requester) c. (c, mentioned_users db (cm_id c))"
    "\<lambda>(db, sid, requester). comments_sound db \<and> (\<exists>access. require_membership db sid requester = Inr access)"
proof (unfold_locales, goal_cases)
  case (1 c)
  then show ?case using session_comments_distinct by (auto split: prod.splits simp: distinct_map inj_on_def)
next
  case (2 c cur limit)
  obtain db sid requester where c: "c = (db, sid, requester)" by (cases c)
  have "owned_cursor comment_key (u ''comment cursor is unavailable'') (session_comments db sid) cur = Inr ()"
    by (rule owned_cursor_key) (use 2 c session_comments_distinct in auto)
  then show ?case using 2(1) c by (auto simp: list_comments_def session_comments_def Let_def split: prod.splits simp del: u_simps)
qed

lemma newest_first_spec:
  assumes "distinct (map key rows)"
  shows "mset (newest_first key rows) = mset rows \<and> sorted_wrt (\<lambda>a b. key_less (key b) (key a)) (newest_first key rows)"
  using keyset_order_sorted [OF assms] by (simp add: newest_first_def)

text \<open>
  A member who pages through the comments of a session sees every one of them once, tombstones included, newest
  first and each with the users it mentions, for every page size and as many requests as the pages need; who is no
  member gets one and the same refusal for every request.
\<close>

theorem comment_pages_complete:
  assumes "comments_sound db"
  shows "(case require_membership db sid requester of
      Inl e \<Rightarrow> e = PermissionError (u ''session is unavailable'') \<and> (\<forall>cur limit. list_comments sid requester cur limit db = Inl e)
    | Inr access \<Rightarrow> length (filter (\<lambda>c. cm_session c = sid) (comments db)) \<le> n * bounded_page_limit limit \<longrightarrow>
        (\<exists>cs. read_through (\<lambda>cur. list_comments sid requester cur limit db) n None = Inr (map (\<lambda>c. (c, mentioned_users db (cm_id c))) cs) \<and>
          mset cs = mset (filter (\<lambda>c. cm_session c = sid) (comments db)) \<and>
          sorted_wrt (\<lambda>a b. key_less (comment_key b) (comment_key a)) cs))"
proof (cases "require_membership db sid requester")
  case (Inl e)
  then show ?thesis by (auto simp: list_comments_def require_membership_def split: option.splits)
next
  case (Inr access)
  have d: "distinct (map comment_key (session_comments db sid))"
    using session_comments_distinct [OF assms] by (auto simp: distinct_map inj_on_def)
  have "read_through (\<lambda>cur. list_comments sid requester cur limit db) n None =
      Inr (map (\<lambda>c. (c, mentioned_users db (cm_id c))) (newest_first comment_key (session_comments db sid)))"
    if "length (session_comments db sid) \<le> n * bounded_page_limit limit"
    using comment_feed.complete [of "(db, sid, requester)" n limit] assms Inr that by simp
  then show ?thesis using newest_first_spec [OF d] Inr unfolding session_comments_def
    by (auto intro!: exI [of _ "newest_first comment_key (filter (\<lambda>c. cm_session c = sid) (comments db))"])
qed

section \<open>Who may not see a session\<close>

interpretation create_comment_gate: session_gate
    "\<lambda>(sha, d, request, rq) actor sid. create_comment sha d sid actor request rq"
    "\<lambda>(sha, d, request, rq). case and_then (comment_body (cr_body rq)) (\<lambda>_. comment_anchor (cr_kind rq) (cr_anchor rq)) of
       Inl e \<Rightarrow> Inl e | Inr a \<Rightarrow> Inl (PermissionError (u ''session is unavailable''))"
  by unfold_locales
    (auto simp: create_comment_def transaction_def create_comment_body_def checked_request_def require_membership_def and_then_def
      simp del: u_simps split: sum.splits)

interpretation list_comments_gate: session_gate "\<lambda>(cur, limit) actor sid db. (list_comments sid actor cur limit db, db)"
    "\<lambda>_. Inl (PermissionError (u ''session is unavailable''))"
  by unfold_locales (auto simp: list_comments_def require_membership_def simp del: u_simps)

section \<open>Examples\<close>

definition sample_sha :: "nat list \<Rightarrow> ustr" where
  "sample_sha t = replicate 64 48"

definition sample_talk :: "comment_row list \<Rightarrow> platform_db" where
  "sample_talk cs = app_db.extend
     (empty_db\<lparr>memberships := [\<lparr>mb_room = 3, mb_user = 5, mb_host = True, mb_left = False\<rparr>],
        sessions := [\<lparr>ts_id = 4, ts_room = 3, ts_host = 5, ts_topic = u ''t'', ts_state = OPEN, ts_epoch = 0, ts_version = 0,
          ts_retry = 0, ts_closed_at = None, ts_description = [], ts_deadline = None, ts_created_at = 1, ts_archived = False\<rparr>]\<rparr>)
     \<lparr>users = [], friendships = [], rooms = [\<lparr>rm_id = 3, rm_owner = 5, rm_name = u ''r'', rm_created_at = 1\<rparr>], invitations = [],
      profiles = [], comments = cs, mentions = [], merged_states = [], merged_versions = []\<rparr>"

definition sample_request :: "string \<Rightarrow> comment_request" where
  "sample_request body = \<lparr>cr_body = u body, cr_kind = None, cr_anchor = None, cr_mentions = []\<rparr>"

definition sample_comment :: "string \<Rightarrow> int \<Rightarrow> comment_row" where
  "sample_comment body v = \<lparr>cm_id = 9, cm_session = 4, cm_author = 5, cm_request = 77, cm_fingerprint = replicate 64 48, cm_version = v,
     cm_body = u body, cm_anchor = None, cm_created_at = 2, cm_updated_at = 2, cm_deleted_at = None\<rparr>"

definition sample_cd :: comment_draws where
  "sample_cd = \<lparr>cd_id = 9, cd_now = 2, cd_event = \<lparr>dr_event = 80, dr_notification = \<lambda>x. x, dr_outbox = \<lambda>x. x, dr_now = 2\<rparr>\<rparr>"

lemmas talk_eval = sample_talk_def empty_db_def app_db.defs

lemma sample_access: "require_membership (sample_talk cs) 4 5 = Inr \<lparr>sa_room = 3, sa_owner = 5, sa_members = [5]\<rparr>"
  by (simp add: require_membership_def member_session_def find_session_def is_member_def talk_eval del: u_simps)

lemma sample_body: "comment_body (u ''hi'') = Inr (u ''hi'')"
  by (simp add: comment_body_def py_strip_def py_lstrip_def py_rstrip_def py_isspace_def)

lemma sample_checked: "checked_request (sample_request ''hi'') 5 4 (sample_talk cs) =
    Inr (u ''hi'', None, \<lparr>sa_room = 3, sa_owner = 5, sa_members = [5]\<rparr>, [])"
  by (simp add: checked_request_def sample_request_def sample_access sample_body comment_anchor_def checked_mentions_def
    first_occurrences_def del: u_simps)

lemma comment_templates:
  "event_template (u ''comment.created'') r = [Lit (u ''comment''), field ''comment_id'', Field (u ''v'') (u ''version''), Lit (u ''created'')]"
  "event_template (u ''comment.updated'') r = [Lit (u ''comment''), field ''comment_id'', Field (u ''v'') (u ''version''), Lit (u ''updated'')]"
  "event_template (u ''comment.deleted'') r = [Lit (u ''comment''), field ''comment_id'', Field (u ''v'') (u ''version''), Lit (u ''deleted'')]"
proof -
  have "after_last_dot (u ''comment.created'') = u ''created''" "after_last_dot (u ''comment.updated'') = u ''updated''"
    "after_last_dot (u ''comment.deleted'') = u ''deleted''" by (simp_all add: after_last_dot_def)
  then show "event_template (u ''comment.created'') r = [Lit (u ''comment''), field ''comment_id'', Field (u ''v'') (u ''version''), Lit (u ''created'')]"
    "event_template (u ''comment.updated'') r = [Lit (u ''comment''), field ''comment_id'', Field (u ''v'') (u ''version''), Lit (u ''updated'')]"
    "event_template (u ''comment.deleted'') r = [Lit (u ''comment''), field ''comment_id'', Field (u ''v'') (u ''version''), Lit (u ''deleted'')]"
    by (simp_all add: event_template_def startswith_u del: u_simps)
qed

lemma comment_types: "u ''comment.created'' \<in> set supported_event_types" "u ''comment.updated'' \<in> set supported_event_types"
  "u ''comment.deleted'' \<in> set supported_event_types"
  by (simp_all add: supported_event_types_def del: u_simps)

lemma comment_keys:
  "build_event_key (u ''comment.created'') (kwargs [(''comment_id'', IUuid cid), (''version'', IInt v)]) =
     Inr (u ''comment:'' @ uuid_text cid @ u '':v'' @ int_text v @ u '':created'')"
  "build_event_key (u ''comment.updated'') (kwargs [(''comment_id'', IUuid cid), (''version'', IInt v)]) =
     Inr (u ''comment:'' @ uuid_text cid @ u '':v'' @ int_text v @ u '':updated'')"
  "build_event_key (u ''comment.deleted'') (kwargs [(''comment_id'', IUuid cid), (''version'', IInt v)]) =
     Inr (u ''comment:'' @ uuid_text cid @ u '':v'' @ int_text v @ u '':deleted'')"
proof -
  have k: "kwargs [(''comment_id'', IUuid cid), (''version'', IInt v)] (u ''comment_id'') = Some (IUuid cid)"
    "kwargs [(''comment_id'', IUuid cid), (''version'', IInt v)] (u ''version'') = Some (IInt v)"
    by (simp_all add: kwargs_def del: u_simps)
  show "build_event_key (u ''comment.created'') (kwargs [(''comment_id'', IUuid cid), (''version'', IInt v)]) =
     Inr (u ''comment:'' @ uuid_text cid @ u '':v'' @ int_text v @ u '':created'')"
    "build_event_key (u ''comment.updated'') (kwargs [(''comment_id'', IUuid cid), (''version'', IInt v)]) =
     Inr (u ''comment:'' @ uuid_text cid @ u '':v'' @ int_text v @ u '':updated'')"
    "build_event_key (u ''comment.deleted'') (kwargs [(''comment_id'', IUuid cid), (''version'', IInt v)]) =
     Inr (u ''comment:'' @ uuid_text cid @ u '':v'' @ int_text v @ u '':deleted'')"
    using k by (simp_all add: build_event_key_def comment_types comment_templates segment_text_def field_def del: u_simps)
     (simp_all add: ustr_join_def)
qed

lemma sample_version: "v \<in> {1, 2} \<Longrightarrow> storable [(Some (u ''version''), MInt v)]"
proof (elim insertE emptyE)
  show "v = 1 \<Longrightarrow> storable [(Some (u ''version''), MInt v)]" by (simp add: storable_def metadata_eval)
  show "v = 2 \<Longrightarrow> storable [(Some (u ''version''), MInt v)]" by (simp add: storable_def metadata_eval)
qed

lemma sample_record:
  assumes t: "t \<in> {u ''comment.created'', u ''comment.updated'', u ''comment.deleted''}" and v: "v \<in> {1, 2}"
  shows "\<exists>a. record_comment (cd_event sample_cd) t 9 v 5 4 \<lparr>sa_room = 3, sa_owner = 5, sa_members = [5]\<rparr> [] (sample_talk cs) =
    Inr ((sample_talk cs)\<lparr>audit := a\<rparr>)"
proof -
  have len: "length (int_text v) = 1" using v by (auto simp: int_text_def dec_digits.simps)
  obtain key where k: "build_event_key t (kwargs [(''comment_id'', IUuid 9), (''version'', IInt v)]) = Inr key"
      "1 \<le> length key" "length key \<le> 256"
    using t len by (elim insertE) (auto simp: comment_keys simp del: u_simps)
  obtain j where j: "safe_audit_metadata [(Some (u ''version''), MInt v)] = Inr j" "jsonb_size_at_most 4096 j"
    using sample_version [OF v, THEN storable_obtain] by blast
  have t': "t \<in> set supported_event_types" using t comment_types by auto
  have s: "audit (sample_talk cs) = []" "sessions (sample_talk cs) = sessions (sample_talk [])"
    "list_ex (\<lambda>s. Some (ts_id s) = Some 4 \<and> Some (ts_room s) = Some 3) (sessions (sample_talk cs))" by (simp_all add: talk_eval)
  show ?thesis
    unfolding record_comment_def
    using record_event_quiet [OF k(1) j(1) t' refl, where db = "sample_talk cs" and d = "cd_event sample_cd" and actor = 5 and
        scope = SC_SESSION and aud = None and room = "Some 3" and sid = "Some 4" and et = "u ''comment''" and eid = 9] j(2) t' k(2,3) s
    by (auto simp: audit_checks_def new_audit_row_def scope_shape_def simp del: u_simps)
qed

lemma sample_sound:
  "comments_sound (sample_talk [])"
  "1 \<le> v \<Longrightarrow> b \<in> {''hi'', ''ho''} \<Longrightarrow> comments_sound (sample_talk [sample_comment b v])"
  by (auto simp: comments_sound_def talk_eval mentioned_users_def sample_comment_def comment_checks_def is_sha256_hex_def
    once_member_def list_all_iff)

lemma sample_hash [simp]: "sample_sha t = replicate 64 48"
  by (simp add: sample_sha_def)

lemma sample_row_checks: "1 \<le> v \<Longrightarrow> comment_checks (sample_comment ''hi'' v)"
  by (simp add: comment_checks_def sample_comment_def is_sha256_hex_def list_all_iff)

lemma sample_new: "new_comment sample_cd 4 5 77 (replicate 64 48) (u ''hi'') None = sample_comment ''hi'' 1"
  by (simp add: new_comment_def sample_comment_def sample_cd_def)

lemma sample_effects: "create_effects 5 9 \<lparr>sa_room = 3, sa_owner = 5, sa_members = [5]\<rparr> [] = []"
  by (simp add: create_effects_def plan_comment_recipients_def first_occurrences_def)

lemma sample_creates:
  "\<exists>db. create_comment sample_sha sample_cd 4 5 77 (sample_request ''hi'') (sample_talk []) =
     (Inr \<lparr>mu_id = 9, mu_version = 1, mu_idempotent = False\<rparr>, db)"
proof -
  have i: "insert_comment (sample_comment ''hi'' 1) (sample_talk []) = Inr (True, sample_talk [sample_comment ''hi'' 1])"
    by (simp add: insert_comment_def sample_row_checks fresh_def talk_eval)
  have m: "insert_mentions 9 [] (sample_talk [sample_comment ''hi'' 1]) = sample_talk [sample_comment ''hi'' 1]"
    "new_mentions 9 [] (sample_talk [sample_comment ''hi'' 1]) = []"
    by (simp_all add: insert_mentions_def new_mentions_def first_occurrences_def talk_eval)
  obtain a where r: "record_comment (cd_event sample_cd) (u ''comment.created'') 9 1 5 4 \<lparr>sa_room = 3, sa_owner = 5, sa_members = [5]\<rparr> []
      (sample_talk [sample_comment ''hi'' 1]) = Inr ((sample_talk [sample_comment ''hi'' 1])\<lparr>audit := a\<rparr>)"
    using sample_record [of "u ''comment.created''" 1 "[sample_comment ''hi'' 1]"] by blast
  have id: "cd_id sample_cd = 9" by (simp add: sample_cd_def)
  show ?thesis
    by (simp add: create_comment_def transaction_def create_comment_body_def sample_checked sample_new id i m r sample_effects
        commit_comment_def anchor_in_session_def del: u_simps)
qed

lemma sample_find: "find_comment (sample_talk [sample_comment b v]) 9 4 = Some (sample_comment b v)"
  "visible_comment_session (sample_talk [sample_comment b v]) 9 5 = Inr 4"
  "mentioned_users (sample_talk cs) 9 = []"
  by (simp_all add: find_comment_def visible_comment_session_def mentioned_users_def sample_comment_def member_session_def
      find_session_def is_member_def talk_eval del: u_simps)

lemma sample_updates:
  "\<exists>db. update_comment sample_cd 5 9 1 (sample_request ''hi'') (sample_talk [sample_comment ''ho'' 1]) =
     (Inr \<lparr>mu_id = 9, mu_version = 2, mu_idempotent = False\<rparr>, db)"
proof -
  let ?f = "edit_comment (u ''hi'') None (cd_now sample_cd)"
  have f: "?f (sample_comment ''ho'' 1) = sample_comment ''hi'' 2" by (simp add: edit_comment_def sample_comment_def sample_cd_def)
  have rw: "rewrite_comment ?f (sample_comment ''ho'' 1) (sample_talk [sample_comment ''ho'' 1]) = Inr (2, sample_talk [sample_comment ''hi'' 2])"
    unfolding rewrite_comment_def f by (simp add: sample_row_checks f talk_eval del: u_simps) (simp add: sample_comment_def)
  obtain a where r: "record_comment (cd_event sample_cd) (u ''comment.updated'') 9 2 5 4 \<lparr>sa_room = 3, sa_owner = 5, sa_members = [5]\<rparr> []
      (sample_talk [sample_comment ''hi'' 2]) = Inr ((sample_talk [sample_comment ''hi'' 2])\<lparr>audit := a\<rparr>)"
    using sample_record [of "u ''comment.updated''" 2 "[sample_comment ''hi'' 2]"] by blast
  have m: "drop_mentions 9 [] (sample_talk cs) = sample_talk cs" "insert_mentions 9 [] (sample_talk cs) = sample_talk cs"
    "new_mentions 9 [] (sample_talk cs) = []" for cs
    by (simp_all add: drop_mentions_def insert_mentions_def new_mentions_def first_occurrences_def talk_eval)
  have c: "cm_author (sample_comment b v) = 5" "cm_deleted_at (sample_comment b v) = None" "cm_version (sample_comment b v) = v"
    "cm_id (sample_comment b v) = 9" "cm_body (sample_comment b v) = u b" for b v by (simp_all add: sample_comment_def)
  have "u ''ho'' \<noteq> u ''hi''" by simp
  then show ?thesis
    by (simp add: update_comment_def transaction_def sample_find update_comment_body_def sample_checked c update_write_def rw m r
        update_effects_def commit_comment_def anchor_in_session_def del: u_simps u_inject)
qed

lemma sample_deletes:
  "\<exists>db. delete_comment sample_cd 5 9 1 (sample_talk [sample_comment ''hi'' 1]) =
     (Inr \<lparr>mu_id = 9, mu_version = 2, mu_idempotent = False\<rparr>, db)"
proof -
  let ?f = "erase_comment (cd_now sample_cd)" and ?c = "sample_comment ''hi'' 1"
  have rw: "rewrite_comment ?f ?c (sample_talk [?c]) = Inr (2, sample_talk [?f ?c])"
    by (simp add: rewrite_comment_def comment_checks_def erase_comment_def sample_comment_def is_sha256_hex_def talk_eval list_all_iff)
  obtain a where r: "record_comment (cd_event sample_cd) (u ''comment.deleted'') 9 2 5 4 \<lparr>sa_room = 3, sa_owner = 5, sa_members = [5]\<rparr> []
      (sample_talk [?f ?c]) = Inr ((sample_talk [?f ?c])\<lparr>audit := a\<rparr>)"
    using sample_record [of "u ''comment.deleted''" 2 "[?f ?c]"] by blast
  have c: "cm_author ?c = 5" "cm_deleted_at ?c = None" "cm_version ?c = 1" by (simp_all add: sample_comment_def)
  show ?thesis
    by (simp add: delete_comment_def transaction_def sample_find delete_comment_body_def sample_access c rw r del: u_simps)
qed

theorem comments_stay_sound_witness:
  "\<exists>db. create_comment sample_sha sample_cd 4 5 77 (sample_request ''hi'') (sample_talk []) =
     (Inr \<lparr>mu_id = 9, mu_version = 1, mu_idempotent = False\<rparr>, db) \<and> comments_sound db"
proof -
  obtain db where c: "create_comment sample_sha sample_cd 4 5 77 (sample_request ''hi'') (sample_talk []) =
     (Inr \<lparr>mu_id = 9, mu_version = 1, mu_idempotent = False\<rparr>, db)" using sample_creates by blast
  have "comment_step\<^sup>*\<^sup>* (sample_talk []) db" using M_create c by (metis r_into_rtranclp snd_conv)
  from comments_stay_sound [OF this] c show ?thesis by (auto simp: talk_eval)
qed

theorem stale_comment_edits_fail_witness:
  "\<exists>db e. update_comment sample_cd 5 9 1 (sample_request ''hi'') (sample_talk [sample_comment ''ho'' 1]) =
     (Inr \<lparr>mu_id = 9, mu_version = 2, mu_idempotent = False\<rparr>, db) \<and>
   update_comment sample_cd 5 9 1 (sample_request ''ha'') db = (Inl e, db)"
proof -
  obtain db where c: "update_comment sample_cd 5 9 1 (sample_request ''hi'') (sample_talk [sample_comment ''ho'' 1]) =
     (Inr \<lparr>mu_id = 9, mu_version = 2, mu_idempotent = False\<rparr>, db)" using sample_updates by blast
  have "comments_sound (sample_talk [sample_comment ''ho'' 1])" by (rule sample_sound) simp_all
  from stale_comment_edits_fail [OF this c, of db 1 sample_cd 5 "sample_request ''ha''"] c show ?thesis by auto
qed

theorem comment_request_creates_once_witness:
  "\<exists>m db. create_comment sample_sha sample_cd 4 5 77 (sample_request ''hi'') (sample_talk []) = (Inr m, db) \<and> \<not> mu_idempotent m \<and>
     snd (create_comment sample_sha sample_cd 4 5 77 (sample_request ''ho'') db) = db"
proof -
  obtain m db where c: "create_comment sample_sha sample_cd 4 5 77 (sample_request ''hi'') (sample_talk []) = (Inr m, db)"
    "\<not> mu_idempotent m" using sample_creates by fastforce
  from comment_request_creates_once [OF sample_sound(1) c(1) rtranclp.rtrancl_refl prod.collapse [symmetric], of sample_cd 4 "sample_request ''ho''"] c
  show ?thesis by blast
qed

theorem deleted_comments_stay_erased_witness:
  "\<exists>db. delete_comment sample_cd 5 9 1 (sample_talk [sample_comment ''hi'' 1]) =
     (Inr \<lparr>mu_id = 9, mu_version = 2, mu_idempotent = False\<rparr>, db) \<and>
   (\<exists>e. update_comment sample_cd 5 9 2 (sample_request ''ha'') db = (Inl e, db))"
proof -
  obtain db where c: "delete_comment sample_cd 5 9 1 (sample_talk [sample_comment ''hi'' 1]) =
     (Inr \<lparr>mu_id = 9, mu_version = 2, mu_idempotent = False\<rparr>, db)" using sample_deletes by blast
  have "comments_sound (sample_talk [sample_comment ''hi'' 1])" by (rule sample_sound) simp_all
  from deleted_comments_stay_erased [OF this c, of db] c show ?thesis by blast
qed

theorem comment_edit_stores_request_witness:
  "\<exists>db. update_comment sample_cd 5 9 1 (sample_request ''hi'') (sample_talk [sample_comment ''ho'' 1]) =
     (Inr \<lparr>mu_id = 9, mu_version = 2, mu_idempotent = False\<rparr>, db) \<and>
   (\<exists>c \<in> set (comments db). cm_id c = 9 \<and> cm_body c = u ''hi'' \<and> cm_version c = 2)"
proof -
  obtain db where c: "update_comment sample_cd 5 9 1 (sample_request ''hi'') (sample_talk [sample_comment ''ho'' 1]) =
     (Inr \<lparr>mu_id = 9, mu_version = 2, mu_idempotent = False\<rparr>, db)" using sample_updates by blast
  have "comments_sound (sample_talk [sample_comment ''ho'' 1])" by (rule sample_sound) simp_all
  moreover have "py_strip (cr_body (sample_request ''hi'')) = u ''hi''"
    by (simp add: sample_request_def py_strip_def py_lstrip_def py_rstrip_def py_isspace_def)
  ultimately show ?thesis using comment_edit_stores_request [OF _ c] c by auto
qed

theorem comment_pages_complete_witness:
  "read_through (\<lambda>cur. list_comments 4 5 cur 50 (sample_talk [sample_comment ''hi'' 1])) 1 None = Inr [(sample_comment ''hi'' 1, [])]"
proof -
  have "comments_sound (sample_talk [sample_comment ''hi'' 1])" by (rule sample_sound) simp_all
  moreover have "comments (sample_talk cs) = cs" for cs by (simp add: talk_eval)
  moreover have "cm_session (sample_comment ''hi'' 1) = 4" "cm_id (sample_comment ''hi'' 1) = 9" by (simp_all add: sample_comment_def)
  ultimately show ?thesis
    using comment_pages_complete [of "sample_talk [sample_comment ''hi'' 1]" 4 5 1 50] by (auto simp: sample_access sample_find bounded_page_limit_def)
qed

end
