(* ===== verification/Notification_Properties.thy ===== *)
theory Notification_Properties
  imports Notification_Feed Comments_Properties
begin

text \<open>
  Notifications stay deliverable: every one can be listed with a same-origin path, whatever events are recorded and
  whatever comments are edited or deleted, and read receipts are final and private.
\<close>

section \<open>The notifications an event adds\<close>

definition from_effects :: "notification_effect list \<Rightarrow> notification_row \<Rightarrow> bool" where
  "from_effects es n \<longleftrightarrow>
     notification_checks n \<and> (\<exists>e \<in> set es. nt_resource_type n = ne_resource_type e \<and> nt_resource_id n = ne_resource_id e)"

definition adds :: "notification_effect list \<Rightarrow> 'z app_db_scheme \<Rightarrow> 'z app_db_scheme \<Rightarrow> bool" where
  "adds es db db' \<longleftrightarrow>
     set (notifications db) \<subseteq> set (notifications db') \<and>
     (\<forall>n \<in> set (notifications db'). n \<in> set (notifications db) \<or> from_effects es n) \<and>
     (distinct (map nt_id (notifications db)) \<longrightarrow> distinct (map nt_id (notifications db')))"

lemma adds_refl [simp]: "adds es db db"
  by (simp add: adds_def)

lemma adds_trans: "adds es a b \<Longrightarrow> adds es b c \<Longrightarrow> adds es a c"
  by (auto simp: adds_def)

lemma adds_mono: "adds es a b \<Longrightarrow> set es \<subseteq> set es' \<Longrightarrow> adds es' a b"
  unfolding adds_def from_effects_def by blast

lemma adds_same: "notifications b = notifications a \<Longrightarrow> adds es a b"
  by (simp add: adds_def)

lemma fold_adds:
  assumes "fold_result f xs (n, db) = Inr (m, db')"
    and "\<And>x n db m db'. x \<in> set xs \<Longrightarrow> f x (n, db) = Inr (m, db') \<Longrightarrow> adds es db db'"
  shows "adds es db db'"
proof -
  have "adds es db (snd (m, db'))"
  proof (rule fold_result_invariant [OF assms(1), where I = "\<lambda>st. adds es db (snd st)"])
    fix x st st' assume "x \<in> set xs" "adds es db (snd st)" "f x st = Inr st'"
    then show "adds es db (snd st')"
      using assms(2) [of x "fst st" "snd st" "fst st'" "snd st'"] by (auto intro: adds_trans)
  qed simp
  then show ?thesis by simp
qed

lemma insert_notification_adds:
  "insert_notification (in_app_row d actor e base x) (n, db) = Inr (m, db') \<Longrightarrow> adds [e] db db'"
  by (auto simp: insert_notification_def adds_def from_effects_def in_app_row_def fresh_def split: if_splits)

lemma insert_outbox_adds: "insert_outbox row (n, db) = Inr (m, db') \<Longrightarrow> adds es db db'"
  by (auto simp: insert_outbox_def adds_def split: if_splits)

lemma notifications_adds:
  "fold_result (\<lambda>x. insert_notification (in_app_row d actor e base x)) xs (n, db) = Inr (m, db') \<Longrightarrow> adds [e] db db'"
  by (erule fold_adds) (rule insert_notification_adds)

lemma outbox_adds: "fold_result (\<lambda>x. insert_outbox (r x)) xs (n, db) = Inr (m, db') \<Longrightarrow> adds es db db'"
  by (erule fold_adds) (rule insert_outbox_adds)

lemma materialize_adds: "materialize d actor e data base rs db = Inr (c, db') \<Longrightarrow> adds [e] db db'"
  by (auto simp: materialize_def Let_def and_then_Inr dest!: notifications_adds outbox_adds intro: adds_trans)

lemma apply_effect_adds: "apply_effect d actor key e (c, db) = Inr (c', db') \<Longrightarrow> adds [e] db db'"
  by (cases c) (auto simp: apply_effect_def and_then_Inr Let_def dest!: materialize_adds)

lemma checked_append_adds: "checked_append i a db = Inr (b, db') \<Longrightarrow> adds es db db'"
  by (auto simp: checked_append_def append_activity_def and_then_Inr Let_def adds_same split: if_splits)

lemma record_activity_adds:
  assumes "record_activity d a es db = Inr (r, db')"
  shows "adds es db db'"
proof -
  from assms obtain b db1 where c: "checked_append (dr_event d) a db = Inr (b, db1)"
    and rest: "\<not> b \<and> db' = db1 \<or> (\<exists>c. fold_result (apply_effect d (na_actor a) (na_key a)) es ((0, 0), db1) = Inr (c, db'))"
    by (auto simp: record_activity_def and_then_Inr split: if_splits)
  have "adds es db1 db'" using rest
  proof (elim disjE exE conjE)
    fix c assume f: "fold_result (apply_effect d (na_actor a) (na_key a)) es ((0, 0), db1) = Inr (c, db')"
    show ?thesis
      by (rule fold_adds [OF f]) (rule adds_mono [OF apply_effect_adds], auto)
  qed simp
  then show ?thesis using checked_append_adds [OF c] adds_trans by blast
qed

lemma record_event_adds: "record_event d t args actor scope aud room sid et eid m es db = Inr db' \<Longrightarrow> adds es db db'"
  unfolding record_event_def and_then_Inr by (auto dest!: record_activity_adds)

section \<open>Notifications stay deliverable\<close>

definition notifications_sound :: "'z platform_db_scheme \<Rightarrow> bool" where
  "notifications_sound db \<longleftrightarrow>
     distinct (map nt_id (notifications db)) \<and>
     (\<forall>n \<in> set (notifications db). notification_checks n \<and>
        (nt_resource_type n = u ''comment'' \<longrightarrow> nt_resource_id n \<in> cm_id ` set (comments db)))"

text \<open>A transaction that may add comments and records effects about existing comments.\<close>

definition commenting :: "'z platform_db_scheme \<Rightarrow> 'z platform_db_scheme \<Rightarrow> bool" where
  "commenting db db' \<longleftrightarrow>
     (\<exists>mid es. notifications mid = notifications db \<and> cm_id ` set (comments db) \<subseteq> cm_id ` set (comments mid) \<and>
        adds es mid db' \<and> comments db' = comments mid \<and> (\<forall>e \<in> set es. ne_resource_id e \<in> cm_id ` set (comments mid)))"

lemma commenting_sound: "commenting db db' \<Longrightarrow> notifications_sound db \<Longrightarrow> notifications_sound db'"
proof (unfold commenting_def, elim exE conjE)
  fix mid es
  assume m: "notifications mid = notifications db" "cm_id ` set (comments db) \<subseteq> cm_id ` set (comments mid)" "adds es mid db'"
    "comments db' = comments mid" "\<forall>e \<in> set es. ne_resource_id e \<in> cm_id ` set (comments mid)" and s: "notifications_sound db"
  have "notification_checks n \<and> (nt_resource_type n = u ''comment'' \<longrightarrow> nt_resource_id n \<in> cm_id ` set (comments db'))"
    if n: "n \<in> set (notifications db')" for n
  proof (cases "n \<in> set (notifications db)")
    case True
    then show ?thesis using s m(2,4) unfolding notifications_sound_def by auto
  next
    case False
    then have "from_effects es n" using m(1,3) n by (auto simp: adds_def)
    then show ?thesis using m(4,5) by (auto simp: from_effects_def)
  qed
  moreover have "distinct (map nt_id (notifications db'))" using s m(1,3) by (simp add: notifications_sound_def adds_def)
  ultimately show "notifications_sound db'" by (simp add: notifications_sound_def)
qed

lemma commenting_record:
  assumes "record_comment d t cid v actor sid access es mid = Inr db'" "notifications mid = notifications db"
    "cm_id ` set (comments db) \<subseteq> cm_id ` set (comments mid)" "\<forall>e \<in> set es. ne_resource_id e = cid" "cid \<in> cm_id ` set (comments mid)"
  shows "commenting db db'"
  unfolding commenting_def
proof (intro exI conjI)
  show "notifications mid = notifications db" "cm_id ` set (comments db) \<subseteq> cm_id ` set (comments mid)" by (rule assms)+
  show "adds es mid db'" using assms(1) unfolding record_comment_def by (rule record_event_adds)
  show "comments db' = comments mid" using record_comment_frame [OF assms(1)] by (rule frame_platform)
  show "\<forall>e \<in> set es. ne_resource_id e \<in> cm_id ` set (comments mid)" using assms(4,5) by simp
qed

lemma commenting_refl [simp]: "commenting db db"
  unfolding commenting_def by (intro exI [of _ db] exI [of _ "[]"]) simp

lemma notifications_insert [simp]: "notifications (insert_mentions cid xs db) = notifications db" "notifications (drop_mentions cid xs db) = notifications db"
  by (simp_all add: insert_mentions_def drop_mentions_def)

lemma comments_drop [simp]: "comments (drop_mentions cid xs db) = comments db"
  by (simp add: drop_mentions_def)

lemma rewrite_ids:
  assumes "rewrite_comment f c db = Inr (v, db')" "keeps_origin f"
  shows "notifications db' = notifications db \<and> cm_id ` set (comments db') = cm_id ` set (comments db)"
proof -
  have "map cm_id (update_rows (\<lambda>x. cm_id x = cm_id c) f (comments db)) = map cm_id (comments db)"
    by (rule map_update_rows_same) (use assms(2) in \<open>simp add: keeps_origin_def\<close>)
  then have "cm_id ` set (update_rows (\<lambda>x. cm_id x = cm_id c) f (comments db)) = cm_id ` set (comments db)" by (metis set_map)
  then show ?thesis using assms(1) by (auto simp: rewrite_comment_def)
qed

lemma create_commenting:
  assumes "create_comment sha d sid author request rq db = (Inr m, db')"
  shows "commenting db db'"
proof -
  from assms obtain body anchor access mentioned b db1 where
    ins: "insert_comment (new_comment d sid author request (sha (fingerprint_text body anchor mentioned)) body anchor) db = Inr (b, db1)" and
    rest: "(if \<not> b then and_then (replay_comment sid author request (sha (fingerprint_text body anchor mentioned)) db1) (\<lambda>r. Inr (r, db1))
       else
         and_then (record_comment (cd_event d) (u ''comment.created'') (cd_id d) 1 author sid access
             (create_effects author (cd_id d) access mentioned) (insert_mentions (cd_id d) mentioned db1)) (\<lambda>db2.
         and_then (commit_comment sid anchor (new_mentions (cd_id d) mentioned db1) db2) (\<lambda>db3.
         Inr (\<lparr>mu_id = cd_id d, mu_version = 1, mu_idempotent = False\<rparr>, db3)))) = Inr (m, db')"
    unfolding create_comment_def transaction_Inr_iff create_comment_body_def Let_def
    by (auto simp: and_then_Inr simp del: u_simps)
  show ?thesis
  proof (cases b)
    case False
    then have "db' = db" using insert_comment_Inr [OF ins] rest by (auto simp: and_then_Inr)
    then show ?thesis by simp
  next
    case True
    then have db1: "db1 = db\<lparr>comments := comments db @ [new_comment d sid author request (sha (fingerprint_text body anchor mentioned)) body anchor]\<rparr>"
      using insert_comment_Inr [OF ins] by blast
    from rest True have "record_comment (cd_event d) (u ''comment.created'') (cd_id d) 1 author sid access
        (create_effects author (cd_id d) access mentioned) (insert_mentions (cd_id d) mentioned db1) = Inr db'"
      by (auto simp: and_then_Inr commit_comment_def simp del: u_simps)
    then show ?thesis
      by (rule commenting_record) (auto simp: db1 create_effects_def mention_effect_def comment_effect_def new_comment_def split: prod.splits)
  qed
qed

lemma update_commenting:
  assumes "update_comment d actor cid expected rq db = (Inr m, db')"
  shows "commenting db db'"
proof -
  obtain sid body anchor access mentioned c where c: "find_comment db cid sid = Some c" and
    w: "db' = db \<or> update_write d sid actor c body anchor access mentioned db = Inr (m, db')"
    by (rule update_parts [OF assms])
  show ?thesis using w
  proof
    assume "update_write d sid actor c body anchor access mentioned db = Inr (m, db')"
    then obtain v db1 removed added where rw: "rewrite_comment (edit_comment body anchor (cd_now d)) c db = Inr (v, db1)" and
      rc: "record_comment (cd_event d) (u ''comment.updated'') (cm_id c) v actor sid access (update_effects (cm_id c) added)
        (insert_mentions (cm_id c) added (drop_mentions (cm_id c) removed db1)) = Inr db'"
      by (auto simp: update_write_def Let_def and_then_Inr commit_comment_def simp del: u_simps)
    show ?thesis
      by (rule commenting_record [OF rc])
        (use rewrite_ids [OF rw edit_keeps(1)] find_comment_Some [OF c] in \<open>auto simp: update_effects_def mention_effect_def\<close>)
  qed simp
qed

lemma delete_commenting:
  assumes "delete_comment d actor cid expected db = (Inr m, db')"
  shows "commenting db db'"
proof -
  obtain sid access c where c: "find_comment db cid sid = Some c" and
    w: "db' = db \<or> (\<exists>v db1. rewrite_comment (erase_comment (cd_now d)) c db = Inr (v, db1) \<and>
      record_comment (cd_event d) (u ''comment.deleted'') cid v actor sid access [] db1 = Inr db')"
    by (rule delete_parts [OF assms])
  show ?thesis using w
  proof (elim disjE exE conjE)
    fix v db1 assume rw: "rewrite_comment (erase_comment (cd_now d)) c db = Inr (v, db1)"
      and rc: "record_comment (cd_event d) (u ''comment.deleted'') cid v actor sid access [] db1 = Inr db'"
    show ?thesis
      by (rule commenting_record [OF rc]) (use rewrite_ids [OF rw edit_keeps(2)] find_comment_Some [OF c] in auto)
  qed simp
qed

text \<open>Every transaction that touches notifications, or the comments they may be about.\<close>

inductive notification_step :: "'z platform_db_scheme \<Rightarrow> 'z platform_db_scheme \<Rightarrow> bool" where
  N_create: "notification_step db (snd (create_comment sha d sid author request rq db))"
| N_update: "notification_step db (snd (update_comment d actor cid expected rq db))"
| N_delete: "notification_step db (snd (delete_comment d actor cid expected db))"
| N_read: "notification_step db (snd (mark_read now recipient nid db))"
| N_read_all: "notification_step db (snd (mark_all_read now recipient db))"
| N_record: "record_event d t args actor scope aud room sid et eid m es db = Inr db' \<Longrightarrow>
    (\<And>e. e \<in> set es \<Longrightarrow> ne_resource_type e \<noteq> u ''comment'') \<Longrightarrow> notification_step db db'"
| N_other: "notifications db' = notifications db \<Longrightarrow> comments db' = comments db \<Longrightarrow> notification_step db db'"

lemma read_sound:
  assumes "notifications_sound db" "\<And>n. nt_id (f n) = nt_id n \<and> (notification_checks n \<longrightarrow> notification_checks (f n)) \<and>
    nt_resource_type (f n) = nt_resource_type n \<and> nt_resource_id (f n) = nt_resource_id n"
  shows "notifications_sound (db\<lparr>notifications := update_rows P f (notifications db)\<rparr>)"
proof -
  have "map nt_id (update_rows P f (notifications db)) = map nt_id (notifications db)"
    by (rule map_update_rows_same) (simp add: assms(2))
  then show ?thesis using assms(1) assms(2) by (auto simp: notifications_sound_def elim!: in_update_rows split: if_splits)
qed

lemma notification_step_sound: "notification_step db db' \<Longrightarrow> notifications_sound db \<Longrightarrow> notifications_sound db'"
proof (induction rule: notification_step.induct)
  case (N_create db sha d sid author request rq)
  then show ?case
    by (cases "create_comment sha d sid author request rq db"; cases "fst (create_comment sha d sid author request rq db)")
      (auto dest: create_commenting comment_failure_keeps intro: commenting_sound)
next
  case (N_update db d actor cid expected rq)
  then show ?case
    by (cases "update_comment d actor cid expected rq db"; cases "fst (update_comment d actor cid expected rq db)")
      (auto dest: update_commenting comment_failure_keeps intro: commenting_sound)
next
  case (N_delete db d actor cid expected)
  then show ?case
    by (cases "delete_comment d actor cid expected db"; cases "fst (delete_comment d actor cid expected db)")
      (auto dest: delete_commenting comment_failure_keeps intro: commenting_sound)
next
  case (N_read db now recipient nid)
  then show ?case unfolding mark_read_def snd_conv by (rule read_sound) (simp add: read_row_def notification_checks_def)
next
  case (N_read_all db now recipient)
  then show ?case unfolding mark_all_read_def snd_conv by (rule read_sound) (simp add: notification_checks_def)
next
  case (N_record d t args actor scope aud room sid et eid m es db db')
  have "adds es db db'" by (rule record_event_adds [OF N_record(1)])
  moreover have "comments db' = comments db" using record_event_frame [OF N_record(1)] by (rule frame_platform)
  ultimately show ?case using N_record(2,3) unfolding notifications_sound_def adds_def from_effects_def
    by simp metis
qed (simp add: notifications_sound_def)

section \<open>Listing\<close>

lemma href_defined:
  assumes "notification_checks n" "nt_resource_type n = u ''comment'' \<Longrightarrow> sid \<noteq> None"
  shows "\<exists>h. notification_href (nt_action n) (nt_resource_type n) (nt_resource_id n) sid = Inr h"
proof -
  have "nt_action n = u ''none'' \<or> (nt_action n, nt_resource_type n) \<in> action_pairs" using assms(1) by (simp add: notification_checks_def)
  then show ?thesis using assms(2)
    by (auto simp: notification_href_def validate_notification_catalog_def action_pairs_def ustr_startswith_def)
qed

lemma href_internal:
  "notification_href a t rid sid = Inr h \<Longrightarrow> length h \<le> 256 \<and> ustr_startswith (u ''/'') h \<and> \<not> ustr_startswith (u ''//'') h"
  by (auto simp: notification_href_def and_then_Inr simp del: u_simps)

lemma render_defined:
  assumes "notifications_sound db" "n \<in> set (notifications db)"
  shows "\<exists>v. render_notification (n, notification_session db n) = Inr v"
proof -
  have c: "notification_checks n" "nt_resource_type n = u ''comment'' \<Longrightarrow> nt_resource_id n \<in> cm_id ` set (comments db)"
    using assms by (auto simp: notifications_sound_def simp del: u_simps)
  have "nt_resource_type n = u ''comment'' \<Longrightarrow> notification_session db n \<noteq> None"
    using c(2) by (auto simp: notification_session_def find_None_iff simp del: u_simps)
  then obtain h where "notification_href (nt_action n) (nt_resource_type n) (nt_resource_id n) (notification_session db n) = Inr h"
    using href_defined [OF c(1)] by blast
  then show ?thesis by (simp add: render_notification_def)
qed

lemma rendered_href: "render_notification (n, sid) = Inr v \<Longrightarrow>
    notification_href (nt_action n) (nt_resource_type n) (nt_resource_id n) sid = Inr (nv_href v) \<and> nv_id v = nt_id n"
  by (auto simp: render_notification_def and_then_Inr)

text \<open>
  A notification can always be opened.  Whatever comments are written, edited and deleted and whatever other events
  are recorded, every stored notification can be shown, and the path it shows is a same-origin path of at most 256
  characters: it starts with one slash.
\<close>

theorem notifications_always_open:
  assumes "notification_step\<^sup>*\<^sup>* db0 db" and "notifications db0 = []" and "n \<in> set (notifications db)"
  shows "\<exists>v. render_notification (n, notification_session db n) = Inr v \<and> nv_id v = nt_id n \<and> length (nv_href v) \<le> 256 \<and>
    ustr_startswith (u ''/'') (nv_href v) \<and> \<not> ustr_startswith (u ''//'') (nv_href v)"
proof -
  have "notifications_sound db0" using assms(2) by (simp add: notifications_sound_def)
  with assms(1) have "notifications_sound db" by (induction rule: rtranclp_induct) (auto intro: notification_step_sound)
  then obtain v where v: "render_notification (n, notification_session db n) = Inr v" using render_defined assms(3) by blast
  from rendered_href [OF v] href_internal v show ?thesis by blast
qed

definition shown :: "'z platform_db_scheme \<Rightarrow> notification_row \<Rightarrow> notification_view" where
  "shown db n = (case render_notification (n, notification_session db n) of Inr v \<Rightarrow> v | Inl e \<Rightarrow> undefined)"

lemma shown_row: "notifications_sound db \<Longrightarrow> n \<in> set (notifications db) \<Longrightarrow> render_notification (n, notification_session db n) = Inr (shown db n)"
  using render_defined [of db n] by (auto simp: shown_def)

definition own_notifications :: "'z platform_db_scheme \<Rightarrow> uuid \<Rightarrow> notification_row list" where
  "own_notifications db recipient = filter (\<lambda>n. nt_recipient n = recipient) (notifications db)"

lemma own_distinct: "notifications_sound db \<Longrightarrow> distinct (map (snd \<circ> notification_key) (own_notifications db r))"
  unfolding own_notifications_def by (auto simp: notifications_sound_def notification_key_def comp_def intro: distinct_map_filter)

lemma time_page_visible: "set (fst (time_page key rows cur limit)) \<subseteq> set rows"
  by (auto simp: time_page_rows rows_below_def dest: in_set_takeD)

lemma list_notifications_page:
  assumes "notifications_sound db" "\<And>k. cur = Some k \<Longrightarrow> k \<in> notification_key ` set (own_notifications db r)"
  shows "list_notifications r cur limit db =
    (case time_page notification_key (own_notifications db r) cur limit of
       (visible, next) \<Rightarrow> Inr ((map (shown db) visible, next), hits (unread r) (notifications db)))"
proof -
  obtain visible "next" where p: "time_page notification_key (own_notifications db r) cur limit = (visible, next)" by fastforce
  have "owned_cursor notification_key (u ''notification cursor is unavailable'') (own_notifications db r) cur = Inr ()"
    by (rule owned_cursor_key) (use own_distinct assms in auto)
  then have rp: "repository_notifications r cur limit db =
      Inr ((map (\<lambda>n. (n, notification_session db n)) visible, next), hits (unread r) (notifications db))"
    using p by (simp add: repository_notifications_def own_notifications_def Let_def del: u_simps)
  have "set visible \<subseteq> set (notifications db)"
    using time_page_visible [of notification_key "own_notifications db r" cur limit] p by (auto simp: own_notifications_def)
  then have "map_result render_notification (map (\<lambda>n. (n, notification_session db n)) visible) = Inr (map (shown db) visible)"
    using shown_row [OF assms(1)] by (induction visible) auto
  then show ?thesis using rp p by (simp add: list_notifications_def)
qed

interpretation notification_feed: keyset_listing
    "\<lambda>(db, r) limit cur. and_then (list_notifications r cur limit db) (\<lambda>(page, count). Inr page)"
    "\<lambda>(db, r). own_notifications db r" notification_key "\<lambda>(db, r). shown db" "\<lambda>(db, r). notifications_sound db"
proof (unfold_locales, goal_cases)
  case (1 c)
  then show ?case using own_distinct by (auto split: prod.splits simp: distinct_map inj_on_def)
next
  case (2 c cur limit)
  obtain db r where c: "c = (db, r)" by (cases c)
  show ?case using list_notifications_page [of db cur r limit] 2 c by (auto split: prod.splits)
qed

interpretation outbox_feed: keyset_listing
    "\<lambda>(db, r) limit cur. list_outbox r cur limit db"
    "\<lambda>(db, r). filter (\<lambda>x. ob_recipient x = r) (outbox db)" outbox_key "\<lambda>c x. x" "\<lambda>(db, r). distinct (map ob_id (outbox db))"
proof (unfold_locales, goal_cases)
  case (1 c)
  then show ?case by (auto simp: distinct_map inj_on_def outbox_key_def split: prod.splits)
next
  case (2 c cur limit)
  obtain db r where c: "c = (db, r)" by (cases c)
  have "owned_cursor outbox_key (u ''outbox cursor is unavailable'') (filter (\<lambda>x. ob_recipient x = r) (outbox db)) cur = Inr ()"
    by (rule owned_cursor_key) (use 2 c in \<open>auto simp: distinct_map_filter comp_def outbox_key_def\<close>)
  then show ?case using c by (auto simp: list_outbox_def Let_def split: prod.splits simp del: u_simps)
qed

text \<open>
  Paging through the private listings is complete.  With enough requests, whatever the page size, a reader gets each
  of his notifications exactly once, newest first and rendered, and nobody else's, every answer with the number of his
  unread ones; the queued e-mails are listed in the same way.
\<close>

theorem notification_pages_complete:
  assumes "notifications_sound db" and "distinct (map ob_id (outbox db))"
    and "length (notifications db) \<le> n * bounded_page_limit limit" and "length (outbox db) \<le> n * bounded_page_limit limit"
  shows "(\<exists>ns vs. read_through (\<lambda>cur. and_then (list_notifications r cur limit db) (\<lambda>(page, count). Inr page)) n None = Inr vs \<and>
      list_all2 (\<lambda>n v. render_notification (n, notification_session db n) = Inr v) ns vs \<and>
      mset ns = mset (filter (\<lambda>n. nt_recipient n = r) (notifications db)) \<and>
      sorted_wrt (\<lambda>a b. key_less (notification_key b) (notification_key a)) ns) \<and>
    (\<exists>page. list_notifications r None limit db = Inr (page, hits (unread r) (notifications db))) \<and>
    (\<exists>xs. read_through (\<lambda>cur. list_outbox r cur limit db) n None = Inr xs \<and>
      mset xs = mset (filter (\<lambda>x. ob_recipient x = r) (outbox db)) \<and> sorted_wrt (\<lambda>a b. key_less (outbox_key b) (outbox_key a)) xs)"
proof (intro conjI)
  let ?ns = "newest_first notification_key (own_notifications db r)"
  have "length (own_notifications db r) \<le> length (notifications db)" by (simp add: own_notifications_def)
  then have rd: "read_through (\<lambda>cur. and_then (list_notifications r cur limit db) (\<lambda>(page, count). Inr page)) n None = Inr (map (shown db) ?ns)"
    using notification_feed.complete [of "(db, r)" n limit] assms(1,3) by simp
  have "list_all2 (\<lambda>n v. render_notification (n, notification_session db n) = Inr v) ?ns (map (shown db) ?ns)"
    using shown_row [OF assms(1)] by (auto simp: list.rel_map own_notifications_def intro: list.rel_refl_strong)
  moreover have "distinct (map notification_key (own_notifications db r))"
    using own_distinct [OF assms(1)] by (auto simp: distinct_map inj_on_def)
  ultimately show "\<exists>ns vs. read_through (\<lambda>cur. and_then (list_notifications r cur limit db) (\<lambda>(page, count). Inr page)) n None = Inr vs \<and>
      list_all2 (\<lambda>n v. render_notification (n, notification_session db n) = Inr v) ns vs \<and>
      mset ns = mset (filter (\<lambda>n. nt_recipient n = r) (notifications db)) \<and>
      sorted_wrt (\<lambda>a b. key_less (notification_key b) (notification_key a)) ns"
    using rd newest_first_spec [of notification_key "own_notifications db r"] unfolding own_notifications_def by blast
  show "\<exists>page. list_notifications r None limit db = Inr (page, hits (unread r) (notifications db))"
    using list_notifications_page [OF assms(1), of None r limit] by (simp split: prod.splits)
  let ?xs = "newest_first outbox_key (filter (\<lambda>x. ob_recipient x = r) (outbox db))"
  have "length (filter (\<lambda>x. ob_recipient x = r) (outbox db)) \<le> n * bounded_page_limit limit"
    by (rule order_trans [OF length_filter_le assms(4)])
  then have "read_through (\<lambda>cur. list_outbox r cur limit db) n None = Inr ?xs"
    using outbox_feed.complete [of "(db, r)" n limit] assms(2) by simp
  moreover have "distinct (map outbox_key (filter (\<lambda>x. ob_recipient x = r) (outbox db)))"
    using assms(2) by (auto simp: distinct_map inj_on_def outbox_key_def)
  ultimately show "\<exists>xs. read_through (\<lambda>cur. list_outbox r cur limit db) n None = Inr xs \<and>
      mset xs = mset (filter (\<lambda>x. ob_recipient x = r) (outbox db)) \<and> sorted_wrt (\<lambda>a b. key_less (outbox_key b) (outbox_key a)) xs"
    using newest_first_spec by blast
qed

section \<open>Read receipts\<close>

text \<open>What may happen to a stored notification: nothing, or its first receipt.\<close>

definition receipt :: "notification_row \<Rightarrow> notification_row \<Rightarrow> bool" where
  "receipt n n' \<longleftrightarrow> n' = n \<or> nt_read_at n = None \<and> (\<exists>t. n' = n\<lparr>nt_read_at := Some t\<rparr>)"

lemma receipt_trans: "receipt a b \<Longrightarrow> receipt b c \<Longrightarrow> receipt a c"
  by (auto simp: receipt_def)

definition receipts :: "'z app_db_scheme \<Rightarrow> 'z app_db_scheme \<Rightarrow> bool" where
  "receipts db db' \<longleftrightarrow> (\<forall>n \<in> set (notifications db). \<exists>n' \<in> set (notifications db'). receipt n n')"

lemma receipts_mono: "set (notifications db) \<subseteq> set (notifications db') \<Longrightarrow> receipts db db'"
  unfolding receipts_def receipt_def by blast

lemma receipts_update:
  "(\<And>n. P n \<Longrightarrow> receipt n (f n)) \<Longrightarrow> receipts db (db\<lparr>notifications := update_rows P f (notifications db)\<rparr>)"
  unfolding receipts_def
proof
  fix n assume P: "\<And>n. P n \<Longrightarrow> receipt n (f n)" and n: "n \<in> set (notifications db)"
  show "\<exists>n' \<in> set (notifications (db\<lparr>notifications := update_rows P f (notifications db)\<rparr>)). receipt n n'"
    by (rule bexI [of _ "if P n then f n else n"]) (use P n in \<open>auto simp: set_update_rows receipt_def\<close>)
qed

lemma commenting_receipts: "commenting db db' \<Longrightarrow> receipts db db'"
  unfolding commenting_def adds_def by (intro receipts_mono) auto

lemma step_receipts: "notification_step db db' \<Longrightarrow> receipts db db'"
proof (induction rule: notification_step.induct)
  case (N_create db sha d sid author request rq)
  then show ?case
    by (cases "create_comment sha d sid author request rq db"; cases "fst (create_comment sha d sid author request rq db)")
      (auto dest: create_commenting comment_failure_keeps intro: commenting_receipts receipts_mono)
next
  case (N_update db d actor cid expected rq)
  then show ?case
    by (cases "update_comment d actor cid expected rq db"; cases "fst (update_comment d actor cid expected rq db)")
      (auto dest: update_commenting comment_failure_keeps intro: commenting_receipts receipts_mono)
next
  case (N_delete db d actor cid expected)
  then show ?case
    by (cases "delete_comment d actor cid expected db"; cases "fst (delete_comment d actor cid expected db)")
      (auto dest: delete_commenting comment_failure_keeps intro: commenting_receipts receipts_mono)
next
  case (N_read db now recipient nid)
  show ?case unfolding mark_read_def snd_conv
    by (rule receipts_update) (auto simp: receipt_def read_row_def split: option.splits)
next
  case (N_read_all db now recipient)
  show ?case unfolding mark_all_read_def snd_conv by (rule receipts_update) (auto simp: receipt_def unread_def)
next
  case (N_record d t args actor scope aud room sid et eid m es db db')
  show ?case using record_event_adds [OF N_record(1)] by (intro receipts_mono) (simp add: adds_def)
qed (simp add: receipts_mono)

lemma steps_receipts: "notification_step\<^sup>*\<^sup>* db db' \<Longrightarrow> receipts db db'"
proof (induction rule: rtranclp_induct)
  case base
  then show ?case by (simp add: receipts_mono)
next
  case (step db1 db2)
  then show ?case using step_receipts [OF step(2)] unfolding receipts_def by (meson receipt_trans)
qed

text \<open>
  Read receipts are private and final.  Marking touches the reader's own notifications only and reports how many it
  changed or whether the notification is his; after \<open>mark_all_read\<close> nothing of his is unread; and a receipt, once given,
  keeps its time and its notification whatever happens afterwards.
\<close>

theorem read_receipts_are_private_and_final:
  assumes "notification_step\<^sup>*\<^sup>* db db'"
  shows "(\<forall>n \<in> set (notifications db). \<exists>n' \<in> set (notifications db').
      (nt_read_at n \<noteq> None \<longrightarrow> n' = n) \<and> n'\<lparr>nt_read_at := None\<rparr> = n\<lparr>nt_read_at := None\<rparr>) \<and>
    (fst (mark_read now r nid db') \<longleftrightarrow> (\<exists>n \<in> set (notifications db'). nt_id n = nid \<and> nt_recipient n = r)) \<and>
    (\<forall>n \<in> set (notifications (snd (mark_read now r nid db'))). nt_id n = nid \<and> nt_recipient n = r \<longrightarrow> nt_read_at n \<noteq> None) \<and>
    (\<forall>n \<in> set (notifications db'). nt_recipient n \<noteq> r \<longrightarrow>
      n \<in> set (notifications (snd (mark_read now r nid db'))) \<and> n \<in> set (notifications (snd (mark_all_read now r db')))) \<and>
    fst (mark_all_read now r db') = hits (unread r) (notifications db') \<and>
    hits (unread r) (notifications (snd (mark_all_read now r db'))) = 0"
proof (intro conjI)
  show "\<forall>n \<in> set (notifications db). \<exists>n' \<in> set (notifications db').
      (nt_read_at n \<noteq> None \<longrightarrow> n' = n) \<and> n'\<lparr>nt_read_at := None\<rparr> = n\<lparr>nt_read_at := None\<rparr>"
  proof
    fix n assume "n \<in> set (notifications db)"
    then obtain n' where n': "n' \<in> set (notifications db')" "receipt n n'" using steps_receipts [OF assms] by (auto simp: receipts_def)
    then show "\<exists>n' \<in> set (notifications db'). (nt_read_at n \<noteq> None \<longrightarrow> n' = n) \<and> n'\<lparr>nt_read_at := None\<rparr> = n\<lparr>nt_read_at := None\<rparr>"
      by (intro bexI [of _ n']) (auto simp: receipt_def)
  qed
  show "\<forall>n \<in> set (notifications (snd (mark_read now r nid db'))). nt_id n = nid \<and> nt_recipient n = r \<longrightarrow> nt_read_at n \<noteq> None"
    by (auto simp: mark_read_def own_notification_def read_row_def elim!: in_update_rows split: if_splits)
  show "hits (unread r) (notifications (snd (mark_all_read now r db'))) = 0"
    by (auto simp: mark_all_read_def hits_zero_iff unread_def elim!: in_update_rows split: if_splits)
qed (auto simp: mark_read_def mark_all_read_def own_notification_def unread_def list_ex_iff set_update_rows image_iff)

section \<open>Examples\<close>

definition sample_notice :: notification_row where
  "sample_notice = \<lparr>nt_id = 21, nt_recipient = 5, nt_kind = u ''comment'', nt_actor = Some 6, nt_resource_type = u ''comment'',
     nt_resource_id = 9, nt_action = u ''open_comment'', nt_title = u ''t'', nt_body = u ''b'', nt_key = u ''k'',
     nt_created_at = 4, nt_read_at = None\<rparr>"

definition sample_inbox :: platform_db where
  "sample_inbox = (sample_talk [sample_comment ''hi'' 1])\<lparr>notifications := [sample_notice]\<rparr>"

lemma sample_inbox_sound: "notifications_sound sample_inbox" "distinct (map ob_id (outbox sample_inbox))"
  by (simp_all add: notifications_sound_def sample_inbox_def sample_notice_def notification_checks_def notification_kinds_def
    action_pairs_def talk_eval sample_comment_def)

theorem notification_pages_complete_witness:
  "\<exists>v. read_through (\<lambda>cur. and_then (list_notifications 5 cur 1 sample_inbox) (\<lambda>(page, count). Inr page)) 1 None = Inr [v] \<and>
     render_notification (sample_notice, notification_session sample_inbox sample_notice) = Inr v"
proof -
  have n: "notifications sample_inbox = [sample_notice]" "outbox sample_inbox = []" "nt_recipient sample_notice = 5"
    by (simp_all add: sample_inbox_def talk_eval sample_notice_def)
  obtain ns vs where "read_through (\<lambda>cur. and_then (list_notifications 5 cur 1 sample_inbox) (\<lambda>(page, count). Inr page)) 1 None = Inr vs"
      "list_all2 (\<lambda>n v. render_notification (n, notification_session sample_inbox n) = Inr v) ns vs" "mset ns = mset [sample_notice]"
    using notification_pages_complete [OF sample_inbox_sound, of 1 1 5] n by (auto simp: bounded_page_limit_def)
  then show ?thesis by (auto simp: list_all2_Cons1)
qed

theorem read_receipts_are_private_and_final_witness:
  "fst (mark_all_read 7 5 sample_inbox) = 1 \<and> hits (unread 5) (notifications (snd (mark_all_read 7 5 sample_inbox))) = 0 \<and>
   (\<exists>n \<in> set (notifications (snd (mark_read 8 6 21 sample_inbox))). n = sample_notice)"
proof -
  have n: "notifications sample_inbox = [sample_notice]" "nt_recipient sample_notice = 5" "hits (unread 5) [sample_notice] = 1"
    by (simp_all add: sample_inbox_def sample_notice_def unread_def)
  from read_receipts_are_private_and_final [OF rtranclp.rtrancl_refl, of sample_inbox 7 5 21]
    read_receipts_are_private_and_final [OF rtranclp.rtrancl_refl, of sample_inbox 8 6 21] n
  show ?thesis by auto
qed

definition sample_effect :: notification_effect where
  "sample_effect = \<lparr>ne_recipients = [6], ne_kind = u ''friend_request'', ne_resource_type = u ''friend_request'', ne_resource_id = 8,
     ne_action = u ''respond_friend_request'', ne_title = u ''t'', ne_body = u ''b'', ne_template = u ''friend_request'', ne_data = [],
     ne_dedupe = None\<rparr>"

lemma sample_applies:
  assumes "length key \<le> 100" "notifications db = []"
  shows "\<exists>n. apply_effect (cd_event sample_cd) (Some 5) key sample_effect ((0, 0), db) = Inr ((1, 0), db\<lparr>notifications := [n]\<rparr>)"
  using assms by (simp add: apply_effect_def sample_effect_def validate_notification_catalog_def action_pairs_def safe_audit_metadata_def
      require_size_def plain_size_def comma_join_def utf8_char_def snapshot_preferences_def unconditional_kinds_def first_occurrences_def
      materialize_def insert_notification_def in_app_row_def notification_checks_def notification_kinds_def fresh_def sample_cd_def)
    (rule exI, rule refl)

lemma sample_event:
  "\<exists>a n. record_event (cd_event sample_cd) (u ''comment.created'') [(''comment_id'', IUuid 9), (''version'', IInt 1)] 5 SC_SESSION None
     (Some 3) (Some 4) (u ''comment'') 9 [(Some (u ''version''), MInt 1)] [sample_effect] (sample_talk cs) =
     Inr ((sample_talk cs)\<lparr>audit := a, notifications := [n]\<rparr>)"
proof -
  let ?key = "u ''comment:'' @ uuid_text 9 @ u '':v'' @ int_text 1 @ u '':created''"
  have len: "length ?key \<le> 100" "1 \<le> length ?key" by (simp_all add: int_text_def dec_digits.simps)
  obtain j where j: "safe_audit_metadata [(Some (u ''version''), MInt 1)] = Inr j" "jsonb_size_at_most 4096 j"
    using sample_version [of 1, THEN storable_obtain] by auto
  let ?a = "\<lparr>na_key = ?key, na_type = u ''comment.created'', na_actor = Some 5, na_scope = SC_SESSION, na_audience = None,
      na_room = Some 3, na_session = Some 4, na_entity_type = u ''comment'', na_entity_id = 9, na_metadata = [(Some (u ''version''), MInt 1)]\<rparr>"
  have s: "audit (sample_talk cs) = []" "notifications (sample_talk cs) = []"
    "list_ex (\<lambda>s. Some (ts_id s) = Some 4 \<and> Some (ts_room s) = Some 3) (sessions (sample_talk cs))" by (simp_all add: talk_eval)
  let ?row = "new_audit_row (dr_event (cd_event sample_cd)) ?a j (sample_talk cs)"
  have "audit_checks (sample_talk cs) ?row"
    using len j(2) s comment_types(1) by (simp add: audit_checks_def new_audit_row_def scope_shape_def del: u_simps)
  note e = record_event_effects [OF comment_keys(1) j(1) comment_types(1) refl this, of "[sample_effect]"]
  obtain n where n: "apply_effect (cd_event sample_cd) (Some 5) ?key sample_effect ((0, 0), (sample_talk cs)\<lparr>audit := [?row]\<rparr>) =
      Inr ((1, 0), (sample_talk cs)\<lparr>audit := [?row]\<rparr>\<lparr>notifications := [n]\<rparr>)"
    using sample_applies [OF len(1), of "(sample_talk cs)\<lparr>audit := [?row]\<rparr>"] s by auto
  show ?thesis
    by (intro exI [of _ "[?row]"] exI [of _ n]) (use e n s in \<open>simp del: u_simps u_append\<close>)
qed

theorem notifications_always_open_witness:
  "\<exists>db n v. notification_step (sample_talk []) db \<and> notifications db = [n] \<and>
     render_notification (n, notification_session db n) = Inr v \<and> ustr_startswith (u ''/'') (nv_href v)"
proof -
  obtain a n where e: "record_event (cd_event sample_cd) (u ''comment.created'') [(''comment_id'', IUuid 9), (''version'', IInt 1)] 5 SC_SESSION None
     (Some 3) (Some 4) (u ''comment'') 9 [(Some (u ''version''), MInt 1)] [sample_effect] (sample_talk []) =
     Inr ((sample_talk [])\<lparr>audit := a, notifications := [n]\<rparr>)" using sample_event by blast
  have s: "notification_step (sample_talk []) ((sample_talk [])\<lparr>audit := a, notifications := [n]\<rparr>)"
    by (rule N_record [OF e]) (simp add: sample_effect_def)
  have "notifications (sample_talk []) = []" by (simp add: talk_eval)
  from notifications_always_open [OF r_into_rtranclp [of notification_step, OF s] this, of n]
  obtain v where "render_notification (n, notification_session ((sample_talk [])\<lparr>audit := a, notifications := [n]\<rparr>) n) = Inr v"
    "ustr_startswith (u ''/'') (nv_href v)" by auto
  with s show ?thesis by fastforce
qed

end
