(* ===== verification/Profiles.thy ===== *)
theory Profiles
  imports Platform_Tables
begin

text \<open>
  \<open>profile_service.py\<close> and \<open>profile_repository.py\<close>: the profile and the notification preferences of a user, two aggregates
  with a version each in one row of \<open>user_profiles\<close>.

  \<^item> \<open>FOR UPDATE OF u,p\<close> makes every operation one function on the committed state; a handler runs one in a transaction.
  \<^item> A dictionary keyed by (kind, channel) is an association list in insertion order with distinct keys.
  \<^item> The clock is a parameter; the versions are unbounded.  Text with a NUL character, which the driver refuses, is left out.
\<close>

section \<open>Reading\<close>

definition default_preferences :: "((ustr \<times> channel) \<times> bool) list" where
  "default_preferences =
     concat (map (\<lambda>kind. map (\<lambda>channel. ((kind, channel), channel = InApp)) [InApp, EmailIntent])
       [u ''analysis_completed'', u ''mention'', u ''comment''])"

definition lock_profile :: "'z platform_db_scheme \<Rightarrow> uuid \<Rightarrow> app_error + user_row \<times> profile_row" where
  "lock_profile db user =
     (case (find (\<lambda>x. us_id x = user) (users db), find (\<lambda>p. up_user p = user) (profiles db)) of
        (Some x, Some p) \<Rightarrow> Inr (x, p)
      | _ \<Rightarrow> Inl (ProfileInvariantError (u ''profile aggregate is incomplete'')))"

definition user_preferences :: "'z app_db_scheme \<Rightarrow> uuid \<Rightarrow> app_error + ((ustr \<times> channel) \<times> bool) list" where
  "user_preferences db user =
     (let values = map (\<lambda>p. ((np_kind p, np_channel p), np_enabled p)) (filter (\<lambda>p. np_user p = user) (preferences db)) in
      require (set (map fst values) = set (map fst default_preferences))
        (ProfileInvariantError (u ''profile aggregate is incomplete'')) (Inr values))"

record profile_view =
  pv_user :: uuid
  pv_email :: ustr
  pv_name :: ustr
  pv_job_title :: "ustr option"
  pv_language :: language
  pv_version :: int
  pv_updated_at :: int

definition get_profile :: "uuid \<Rightarrow> 'z platform_db_scheme \<Rightarrow> app_error + profile_view" where
  "get_profile user db =
     and_then (lock_profile db user) (\<lambda>(x, p).
     Inr \<lparr>pv_user = us_id x, pv_email = us_email x, pv_name = us_name x, pv_job_title = up_job_title p,
          pv_language = up_language p, pv_version = up_version p, pv_updated_at = up_updated_at p\<rparr>)"

record preferences_view =
  pw_values :: "((ustr \<times> channel) \<times> bool) list"
  pw_version :: int
  pw_updated_at :: int

definition get_preferences :: "uuid \<Rightarrow> 'z platform_db_scheme \<Rightarrow> app_error + preferences_view" where
  "get_preferences user db =
     and_then (lock_profile db user) (\<lambda>(x, p).
     and_then (user_preferences db user) (\<lambda>values.
     Inr \<lparr>pw_values = values, pw_version = up_preferences_version p, pw_updated_at = up_preferences_updated_at p\<rparr>))"

section \<open>Writing\<close>

record profile_draws =
  pd_now :: int
  pd_event :: activity_draws

record update_result =
  ur_version :: int
  ur_updated :: bool

definition checked_profile :: "ustr \<Rightarrow> ustr option \<Rightarrow> app_error + ustr \<times> ustr option" where
  "checked_profile display_name job_title =
     (let name = py_strip display_name; title = map_option py_strip job_title in
      require (\<not> (\<not> (1 \<le> length name \<and> length name \<le> 200) \<or>
          (case title of None \<Rightarrow> False | Some t \<Rightarrow> \<not> (1 \<le> length t \<and> length t \<le> 200))))
        (ValueError (u ''profile fields exceed approved bounds'')) (Inr (name, title)))"

definition changed_fields :: "user_row \<Rightarrow> profile_row \<Rightarrow> ustr \<Rightarrow> ustr option \<Rightarrow> language \<Rightarrow> ustr list" where
  "changed_fields x p name title lang =
     (if us_name x \<noteq> name then [u ''display_name''] else []) @
     (if up_job_title p \<noteq> title then [u ''job_title''] else []) @
     (if up_language p \<noteq> lang then [u ''language''] else [])"

definition write_profile :: "int \<Rightarrow> ustr option \<Rightarrow> language \<Rightarrow> profile_row \<Rightarrow> profile_row" where
  "write_profile now title lang p =
     p\<lparr>up_job_title := title, up_language := lang, up_version := up_version p + 1, up_updated_at := now\<rparr>"

definition update_profile_body ::
  "profile_draws \<Rightarrow> uuid \<Rightarrow> int \<Rightarrow> ustr \<Rightarrow> ustr option \<Rightarrow> language \<Rightarrow> (app_error, update_result, 'z platform_db_scheme) body" where
  "update_profile_body d user expected display_name job_title lang db =
     and_then (checked_profile display_name job_title) (\<lambda>(name, title).
     and_then (lock_profile db user) (\<lambda>(x, p).
     require (up_version p = expected) (StaleProfileVersionError (u ''stale profile version''))
     (if us_name x = name \<and> up_job_title p = title \<and> up_language p = lang
      then Inr (\<lparr>ur_version = expected, ur_updated = False\<rparr>, db)
      else
        let db1 = db\<lparr>users := update_rows (\<lambda>x. us_id x = user) (\<lambda>x. x\<lparr>us_name := name\<rparr>) (users db),
                    profiles := update_rows (\<lambda>p. up_user p = user) (write_profile (pd_now d) title lang) (profiles db)\<rparr>;
            version = up_version p + 1 in
        and_then (record_event (pd_event d) (u ''profile.updated'') [(''user_id'', IUuid user), (''profile_version'', IInt version)]
            user SC_PERSONAL (Some user) None None (u ''user_profile'') user
            [(Some (u ''changed_fields''), MList (map MStr (changed_fields x p name title lang)))] [] db1) (\<lambda>db2.
        Inr (\<lparr>ur_version = version, ur_updated = True\<rparr>, db2)))))"

definition update_profile ::
  "profile_draws \<Rightarrow> uuid \<Rightarrow> int \<Rightarrow> ustr \<Rightarrow> ustr option \<Rightarrow> language \<Rightarrow> 'z platform_db_scheme \<Rightarrow>
   (app_error + update_result) \<times> 'z platform_db_scheme" where
  "update_profile d user expected display_name job_title lang db =
     transaction (update_profile_body d user expected display_name job_title lang) db"

text \<open>The settings whose stored value differs, in the order of the request.\<close>

definition changed_settings ::
  "((ustr \<times> channel) \<times> bool) list \<Rightarrow> ((ustr \<times> channel) \<times> bool) list \<Rightarrow> ((ustr \<times> channel) \<times> bool) list" where
  "changed_settings current values = filter (\<lambda>(k, enabled). map_of current k \<noteq> Some enabled) values"

definition set_preference :: "uuid \<Rightarrow> (ustr \<times> channel) \<times> bool \<Rightarrow> preference_row list \<Rightarrow> preference_row list" where
  "set_preference user setting rows =
     (case setting of ((kind, channel), enabled) \<Rightarrow>
      update_rows (\<lambda>p. np_user p = user \<and> np_kind p = kind \<and> np_channel p = channel) (\<lambda>p. p\<lparr>np_enabled := enabled\<rparr>) rows)"

definition bump_preferences :: "int \<Rightarrow> profile_row \<Rightarrow> profile_row" where
  "bump_preferences now p =
     p\<lparr>up_preferences_version := up_preferences_version p + 1, up_preferences_updated_at := now\<rparr>"

definition update_preferences_body ::
  "profile_draws \<Rightarrow> uuid \<Rightarrow> int \<Rightarrow> ((ustr \<times> channel) \<times> bool) list \<Rightarrow> (app_error, update_result, 'z platform_db_scheme) body" where
  "update_preferences_body d user expected values db =
     require (set (map fst values) = set (map fst default_preferences))
       (ValueError (u ''preferences must provide the complete approved matrix''))
     (and_then (lock_profile db user) (\<lambda>(x, p).
      require (up_preferences_version p = expected) (StaleProfileVersionError (u ''stale preferences version''))
      (and_then (user_preferences db user) (\<lambda>current.
       let changed = changed_settings current values in
       if changed = [] then Inr (\<lparr>ur_version = expected, ur_updated = False\<rparr>, db)
       else
         let db1 = db\<lparr>preferences := fold (set_preference user) changed (preferences db),
                     profiles := update_rows (\<lambda>p. up_user p = user) (bump_preferences (pd_now d)) (profiles db)\<rparr>;
             version = up_preferences_version p + 1 in
         and_then (record_event (pd_event d) (u ''notification_preferences.updated'')
             [(''user_id'', IUuid user), (''preferences_version'', IInt version)] user SC_PERSONAL (Some user) None None
             (u ''notification_preferences'') user [(Some (u ''changed_count''), MInt (int (length changed)))] [] db1) (\<lambda>db2.
         Inr (\<lparr>ur_version = version, ur_updated = True\<rparr>, db2))))))"

definition update_preferences ::
  "profile_draws \<Rightarrow> uuid \<Rightarrow> int \<Rightarrow> ((ustr \<times> channel) \<times> bool) list \<Rightarrow> 'z platform_db_scheme \<Rightarrow>
   (app_error + update_result) \<times> 'z platform_db_scheme" where
  "update_preferences d user expected values db = transaction (update_preferences_body d user expected values) db"

end
