(* ===== verification/Optimistic.thy ===== *)
theory Optimistic
  imports Prelude
begin

text \<open>
  The interface of versioned aggregates: a writer names the version it has read, the write succeeds only when that is the
  current one, and a write that changes something raises the version.  Profiles, notification preferences and merged documents
  keep it; each interprets the locale on its own operations.
\<close>

locale optimistic =
  fixes inv :: "'s \<Rightarrow> bool"
    and step :: "'s \<Rightarrow> 's \<Rightarrow> bool"
    and version :: "'s \<Rightarrow> 'k \<Rightarrow> int"
    and attempt :: "'p \<Rightarrow> 'k \<Rightarrow> int \<Rightarrow> 's \<Rightarrow> ('e + 'a) \<times> 's"
    and changed :: "'a \<Rightarrow> bool"
  assumes inv_step: "inv s \<Longrightarrow> step s s' \<Longrightarrow> inv s'"
    and grows: "inv s \<Longrightarrow> step s s' \<Longrightarrow> version s k \<le> version s' k"
    and write_step: "inv s \<Longrightarrow> step s (snd (attempt p k e s))"
    and failure: "attempt p k e s = (Inl x, s') \<Longrightarrow> s' = s"
    and current: "inv s \<Longrightarrow> attempt p k e s = (Inr a, s') \<Longrightarrow> version s k = e"
    and bump: "inv s \<Longrightarrow> attempt p k e s = (Inr a, s') \<Longrightarrow> changed a \<Longrightarrow> e < version s' k"
begin

lemma inv_steps: "step\<^sup>*\<^sup>* s s' \<Longrightarrow> inv s \<Longrightarrow> inv s'"
  by (induction rule: rtranclp_induct) (auto intro: inv_step)

lemma steps_grow: "step\<^sup>*\<^sup>* s s' \<Longrightarrow> inv s \<Longrightarrow> version s k \<le> version s' k"
proof (induction rule: rtranclp_induct)
  case (step b c)
  have "version b k \<le> version c k" by (rule grows [OF inv_steps [OF step(1,4)] step(2)])
  then show ?case using step by simp
qed simp

lemma write_inv: "inv s \<Longrightarrow> attempt p k e s = (r, s') \<Longrightarrow> inv s'"
  using inv_step [OF _ write_step, of s p k e] by simp

lemma old_fails:
  assumes "inv s" "e < version s k"
  shows "\<exists>x. attempt p k e s = (Inl x, s)"
proof (cases "attempt p k e s")
  case (Pair r s')
  then show ?thesis
  proof (cases r)
    case (Inl x)
    then show ?thesis using Pair failure by blast
  next
    case (Inr a)
    then show ?thesis using Pair current [OF assms(1)] assms(2) by simp
  qed
qed

lemma stale_fails:
  assumes "inv s" "attempt p k e s = (Inr a, s1)" "changed a" "step\<^sup>*\<^sup>* s1 s2" "e' \<le> e"
  shows "\<exists>x. attempt p' k e' s2 = (Inl x, s2)"
proof (rule old_fails)
  have i: "inv s1" using write_inv [OF assms(1,2)] .
  show "inv s2" by (rule inv_steps [OF assms(4) i])
  show "e' < version s2 k" using bump [OF assms(1-3)] steps_grow [OF assms(4) i, of k] assms(5) by simp
qed

end

end
