(* ===== verification/Profiles_Properties.thy ===== *)
theory Profiles_Properties
  imports Profiles Optimistic Session_Properties
begin

text \<open>
  Properties of profiles and notification preferences: a write made on an old version fails, a write changes its own
  aggregate and nothing else, and both aggregates keep the interface of theory \<open>Optimistic\<close>.
\<close>

section \<open>What a write does\<close>

definition with_profile :: "profile_draws \<Rightarrow> uuid \<Rightarrow> ustr \<Rightarrow> ustr option \<Rightarrow> language \<Rightarrow> 'z platform_db_scheme \<Rightarrow> 'z platform_db_scheme" where
  "with_profile d user name title lang db =
     db\<lparr>users := update_rows (\<lambda>x. us_id x = user) (\<lambda>x. x\<lparr>us_name := name\<rparr>) (users db),
        profiles := update_rows (\<lambda>p. up_user p = user) (write_profile (pd_now d) title lang) (profiles db)\<rparr>"

definition with_preferences :: "profile_draws \<Rightarrow> uuid \<Rightarrow> ((ustr \<times> channel) \<times> bool) list \<Rightarrow> 'z platform_db_scheme \<Rightarrow> 'z platform_db_scheme" where
  "with_preferences d user changed db =
     db\<lparr>preferences := fold (set_preference user) changed (preferences db),
        profiles := update_rows (\<lambda>p. up_user p = user) (bump_preferences (pd_now d)) (profiles db)\<rparr>"

lemma lock_Inr: "lock_profile db user = Inr (x, p) \<longleftrightarrow>
    find (\<lambda>x. us_id x = user) (users db) = Some x \<and> find (\<lambda>p. up_user p = user) (profiles db) = Some p"
  by (auto simp: lock_profile_def split: option.splits)

lemma update_profile_Inr:
  assumes "update_profile d user expected display_name job_title lang db = (Inr r, db')"
  obtains (same) x p name title where "db' = db" "r = \<lparr>ur_version = expected, ur_updated = False\<rparr>" "lock_profile db user = Inr (x, p)"
      "checked_profile display_name job_title = Inr (name, title)" "up_version p = expected" "us_name x = name" "up_job_title p = title"
      "up_language p = lang"
  | (edit) x p name title where "lock_profile db user = Inr (x, p)" "r = \<lparr>ur_version = expected + 1, ur_updated = True\<rparr>"
      "checked_profile display_name job_title = Inr (name, title)" "up_version p = expected"
      "\<not> (us_name x = name \<and> up_job_title p = title \<and> up_language p = lang)" "activity_frame (with_profile d user name title lang db) db'"
proof -
  from assms obtain x p name title where
    c: "checked_profile display_name job_title = Inr (name, title)" "lock_profile db user = Inr (x, p)" "up_version p = expected"
    and k: "(if us_name x = name \<and> up_job_title p = title \<and> up_language p = lang
      then r = \<lparr>ur_version = expected, ur_updated = False\<rparr> \<and> db' = db
      else r = \<lparr>ur_version = expected + 1, ur_updated = True\<rparr> \<and> activity_frame (with_profile d user name title lang db) db')"
    unfolding update_profile_def transaction_Inr_iff update_profile_body_def
    by (auto simp: and_then_Inr Let_def with_profile_def simp del: u_simps split: if_splits dest!: record_event_frame)
  show ?thesis
  proof (cases "us_name x = name \<and> up_job_title p = title \<and> up_language p = lang")
    case True
    then show ?thesis using same [OF _ _ c(2,1,3)] k by simp
  next
    case False
    then show ?thesis using edit [OF c(2) _ c(1,3) False] k by (simp only: if_False)
  qed
qed

lemma update_preferences_Inr:
  assumes "update_preferences d user expected values db = (Inr r, db')"
  obtains (same) x p stored where "db' = db" "r = \<lparr>ur_version = expected, ur_updated = False\<rparr>" "lock_profile db user = Inr (x, p)"
      "set (map fst values) = set (map fst default_preferences)" "up_preferences_version p = expected"
      "user_preferences db user = Inr stored" "changed_settings stored values = []"
  | (edit) x p stored where "lock_profile db user = Inr (x, p)" "r = \<lparr>ur_version = expected + 1, ur_updated = True\<rparr>"
      "set (map fst values) = set (map fst default_preferences)" "up_preferences_version p = expected"
      "user_preferences db user = Inr stored" "changed_settings stored values \<noteq> []"
      "activity_frame (with_preferences d user (changed_settings stored values) db) db'"
proof -
  from assms obtain x p stored where
    c: "set (map fst values) = set (map fst default_preferences)" "lock_profile db user = Inr (x, p)"
      "up_preferences_version p = expected" "user_preferences db user = Inr stored"
    and k: "(if changed_settings stored values = []
      then r = \<lparr>ur_version = expected, ur_updated = False\<rparr> \<and> db' = db
      else r = \<lparr>ur_version = expected + 1, ur_updated = True\<rparr> \<and>
        activity_frame (with_preferences d user (changed_settings stored values) db) db')"
    unfolding update_preferences_def transaction_Inr_iff update_preferences_body_def
    by (auto simp: and_then_Inr Let_def with_preferences_def simp del: u_simps set_map split: if_splits dest!: record_event_frame)
  show ?thesis
  proof (cases "changed_settings stored values = []")
    case True
    then show ?thesis using same [OF _ _ c(2,1,3,4)] k by simp
  next
    case False
    then show ?thesis using edit [OF c(2) _ c(1,3,4) False] k by (simp only: if_False)
  qed
qed

lemma profile_failure_keeps:
  "update_profile d user expected name title lang db = (Inl e, db') \<Longrightarrow> db' = db"
  "update_preferences d user expected values db = (Inl e, db') \<Longrightarrow> db' = db"
  by (simp_all add: update_profile_def update_preferences_def transaction_Inl_iff)

section \<open>The invariant and the steps\<close>

definition profiles_sound :: "'z platform_db_scheme \<Rightarrow> bool" where
  "profiles_sound db \<longleftrightarrow>
     distinct (map up_user (profiles db)) \<and> distinct (map (\<lambda>p. (np_user p, np_kind p, np_channel p)) (preferences db)) \<and>
     (\<forall>p \<in> set (profiles db). 0 \<le> up_version p \<and> 0 \<le> up_preferences_version p)"

text \<open>Every other transaction leaves the profiles alone or adds the rows of a new user.\<close>

definition profiles_elsewhere :: "'z platform_db_scheme \<Rightarrow> 'z platform_db_scheme \<Rightarrow> bool" where
  "profiles_elsewhere db db' \<longleftrightarrow> profiles_sound db' \<and> (\<exists>ps. profiles db' = profiles db @ ps)"

inductive profile_step :: "'z platform_db_scheme \<Rightarrow> 'z platform_db_scheme \<Rightarrow> bool" where
  P_profile: "profile_step db (snd (update_profile d user expected name title lang db))"
| P_preferences: "profile_step db (snd (update_preferences d user expected values db))"
| P_elsewhere: "profiles_elsewhere db db' \<Longrightarrow> profile_step db db'"

definition profile_version :: "'z platform_db_scheme \<Rightarrow> uuid \<Rightarrow> int" where
  "profile_version db user = (case find (\<lambda>p. up_user p = user) (profiles db) of None \<Rightarrow> - 1 | Some p \<Rightarrow> up_version p)"

definition preferences_version :: "'z platform_db_scheme \<Rightarrow> uuid \<Rightarrow> int" where
  "preferences_version db user =
     (case find (\<lambda>p. up_user p = user) (profiles db) of None \<Rightarrow> - 1 | Some p \<Rightarrow> up_preferences_version p)"

lemma find_profile_written:
  "find (\<lambda>p. up_user p = k) (update_rows (\<lambda>p. up_user p = user) (write_profile now title lang) ps) =
     map_option (\<lambda>p. if k = user then write_profile now title lang p else p) (find (\<lambda>p. up_user p = k) ps)"
  "find (\<lambda>p. up_user p = k) (update_rows (\<lambda>p. up_user p = user) (bump_preferences now) ps) =
     map_option (\<lambda>p. if k = user then bump_preferences now p else p) (find (\<lambda>p. up_user p = k) ps)"
  "find (\<lambda>x. us_id x = k) (update_rows (\<lambda>x. us_id x = user) (\<lambda>x. x\<lparr>us_name := name\<rparr>) xs) =
     map_option (\<lambda>x. if k = user then x\<lparr>us_name := name\<rparr> else x) (find (\<lambda>x. us_id x = k) xs)"
  by (rule find_update_rows, simp add: write_profile_def bump_preferences_def)+

lemma keys_set_preference:
  "map (\<lambda>p. (np_user p, np_kind p, np_channel p)) (set_preference user s rows) = map (\<lambda>p. (np_user p, np_kind p, np_channel p)) rows"
  by (cases s) (auto simp: set_preference_def update_rows_def)

lemma keys_set_preferences:
  "map (\<lambda>p. (np_user p, np_kind p, np_channel p)) (fold (set_preference user) ss rows) = map (\<lambda>p. (np_user p, np_kind p, np_channel p)) rows"
  by (induction ss arbitrary: rows) (simp_all add: keys_set_preference)

lemma with_sound:
  "profiles_sound db \<Longrightarrow> profiles_sound (with_profile d user name title lang db)"
  "profiles_sound db \<Longrightarrow> profiles_sound (with_preferences d user changed db)"
  by (auto simp: profiles_sound_def with_profile_def with_preferences_def set_update_rows map_update_rows_same write_profile_def
      bump_preferences_def keys_set_preferences)

lemma frame_profiles_sound:
  fixes db :: "'z platform_db_scheme"
  shows "activity_frame db db' \<Longrightarrow> profiles_sound db' \<longleftrightarrow> profiles_sound db"
  by (simp add: profiles_sound_def frame_platform frame_same)

lemma update_profile_sound: "update_profile d user expected name title lang db = (Inr r, db') \<Longrightarrow> profiles_sound db \<Longrightarrow> profiles_sound db'"
  by (erule update_profile_Inr) (simp_all add: frame_profiles_sound with_sound)

lemma update_preferences_sound: "update_preferences d user expected values db = (Inr r, db') \<Longrightarrow> profiles_sound db \<Longrightarrow> profiles_sound db'"
  by (erule update_preferences_Inr) (simp_all add: frame_profiles_sound with_sound)

lemma step_profiles_sound: "profile_step db db' \<Longrightarrow> profiles_sound db \<Longrightarrow> profiles_sound db'"
proof (induction rule: profile_step.induct)
  case (P_profile db d user expected name title lang)
  then show ?case
    by (cases "update_profile d user expected name title lang db"; cases "fst (update_profile d user expected name title lang db)")
      (auto dest: update_profile_sound profile_failure_keeps)
next
  case (P_preferences db d user expected settings)
  then show ?case
    by (cases "update_preferences d user expected settings db"; cases "fst (update_preferences d user expected settings db)")
      (auto dest: update_preferences_sound profile_failure_keeps)
qed (simp add: profiles_elsewhere_def)

text \<open>What the versions are after a write.\<close>

lemma versions_after:
  "update_profile d user expected name title lang db = (Inr r, db') \<Longrightarrow>
     profile_version db user = expected \<and> preferences_version db' k = preferences_version db k \<and>
     profile_version db' k = profile_version db k + (if k = user \<and> ur_updated r then 1 else 0)"
  "update_preferences d user expected values db = (Inr r, db') \<Longrightarrow>
     preferences_version db user = expected \<and> profile_version db' k = profile_version db k \<and>
     preferences_version db' k = preferences_version db k + (if k = user \<and> ur_updated r then 1 else 0)"
  by (erule update_profile_Inr update_preferences_Inr;
      auto simp: profile_version_def preferences_version_def frame_platform with_profile_def with_preferences_def
        find_profile_written lock_Inr write_profile_def bump_preferences_def split: option.splits)+

lemma elsewhere_versions:
  assumes "profiles_elsewhere db db'"
  shows "profile_version db k \<le> profile_version db' k" "preferences_version db k \<le> preferences_version db' k"
proof -
  from assms obtain ps where ps: "profiles db' = profiles db @ ps" "profiles_sound db'" by (auto simp: profiles_elsewhere_def)
  have f: "find (\<lambda>p. up_user p = k) (profiles db') =
      (case find (\<lambda>p. up_user p = k) (profiles db) of None \<Rightarrow> find (\<lambda>p. up_user p = k) ps | Some p \<Rightarrow> Some p)"
    unfolding ps(1) by (rule find_append)
  have "0 \<le> up_version p \<and> 0 \<le> up_preferences_version p" if "find (\<lambda>p. up_user p = k) ps = Some p" for p
    using find_Some_set [OF that] ps by (auto simp: profiles_sound_def)
  then show "profile_version db k \<le> profile_version db' k" "preferences_version db k \<le> preferences_version db' k"
    unfolding profile_version_def preferences_version_def f by (force split: option.splits)+
qed

lemma step_versions:
  "profile_step db db' \<Longrightarrow> profile_version db k \<le> profile_version db' k \<and> preferences_version db k \<le> preferences_version db' k"
proof (induction rule: profile_step.induct)
  case (P_profile db d user expected name title lang)
  then show ?case
    by (cases "update_profile d user expected name title lang db"; cases "fst (update_profile d user expected name title lang db)")
      (auto dest: versions_after(1) [where k = k] profile_failure_keeps)
next
  case (P_preferences db d user expected settings)
  then show ?case
    by (cases "update_preferences d user expected settings db"; cases "fst (update_preferences d user expected settings db)")
      (auto dest: versions_after(2) [where k = k] profile_failure_keeps)
qed (simp add: elsewhere_versions)

section \<open>Versioned aggregates\<close>

text \<open>A write of the profile and of the preferences, with what each takes besides the user and the version.\<close>

definition attempt_profile ::
  "profile_draws \<times> ustr \<times> ustr option \<times> language \<Rightarrow> uuid \<Rightarrow> int \<Rightarrow> 'z platform_db_scheme \<Rightarrow> (app_error + update_result) \<times> 'z platform_db_scheme" where
  "attempt_profile p user expected db = (case p of (d, name, title, lang) \<Rightarrow> update_profile d user expected name title lang db)"

definition attempt_preferences ::
  "profile_draws \<times> ((ustr \<times> channel) \<times> bool) list \<Rightarrow> uuid \<Rightarrow> int \<Rightarrow> 'z platform_db_scheme \<Rightarrow> (app_error + update_result) \<times> 'z platform_db_scheme" where
  "attempt_preferences p user expected db = (case p of (d, values) \<Rightarrow> update_preferences d user expected values db)"

interpretation profile_writes: optimistic profiles_sound profile_step profile_version attempt_profile ur_updated
proof unfold_locales
  fix s :: "'z platform_db_scheme" and p k e r s'
  show "profile_step s (snd (attempt_profile p k e s))" by (cases p) (simp add: attempt_profile_def P_profile)
  assume "profiles_sound s" "attempt_profile p k e s = (Inr r, s')"
  then show "profile_version s k = e" "ur_updated r \<Longrightarrow> e < profile_version s' k"
    by (cases p; auto simp: attempt_profile_def dest!: versions_after(1) [where k = k])+
qed (auto simp: attempt_profile_def step_profiles_sound step_versions profile_failure_keeps split: prod.splits)

interpretation preference_writes: optimistic profiles_sound profile_step preferences_version attempt_preferences ur_updated
proof unfold_locales
  fix s :: "'z platform_db_scheme" and p k e r s'
  show "profile_step s (snd (attempt_preferences p k e s))" by (cases p) (simp add: attempt_preferences_def P_preferences)
  assume "profiles_sound s" "attempt_preferences p k e s = (Inr r, s')"
  then show "preferences_version s k = e" "ur_updated r \<Longrightarrow> e < preferences_version s' k"
    by (cases p; auto simp: attempt_preferences_def dest!: versions_after(2) [where k = k])+
qed (auto simp: attempt_preferences_def step_profiles_sound step_versions profile_failure_keeps split: prod.splits)

section \<open>Properties\<close>

text \<open>
  No profile change is lost.  After a change made at version \<open>expected\<close> was stored, a change prepared at that version or
  an earlier one fails and stores nothing, whatever other transactions ran in between.
\<close>

theorem stale_profile_writes_fail:
  assumes "profiles_sound db" and "update_profile d user expected name title lang db = (Inr r, db1)" and "ur_updated r"
    and "profile_step\<^sup>*\<^sup>* db1 db2" and "v \<le> expected"
  shows "\<exists>e. update_profile d' user v name' title' lang' db2 = (Inl e, db2)"
  using profile_writes.stale_fails [of db "(d, name, title, lang)" user expected r db1 db2 v "(d', name', title', lang')"] assms
  by (simp add: attempt_profile_def)

lemma stale_preferences_writes_fail:
  assumes "profiles_sound db" "update_preferences d user expected settings db = (Inr r, db1)" "ur_updated r"
    "profile_step\<^sup>*\<^sup>* db1 db2" "v \<le> expected"
  shows "\<exists>e. update_preferences d' user v settings' db2 = (Inl e, db2)"
  using preference_writes.stale_fails [of db "(d, settings)" user expected r db1 db2 v "(d', settings')"] assms
  by (simp add: attempt_preferences_def)

text \<open>What a user's settings are after some were set.\<close>

definition settings_of :: "uuid \<Rightarrow> preference_row list \<Rightarrow> ((ustr \<times> channel) \<times> bool) list" where
  "settings_of user rows = map (\<lambda>p. ((np_kind p, np_channel p), np_enabled p)) (filter (\<lambda>p. np_user p = user) rows)"

lemma user_preferences_Inr:
  "user_preferences db user = Inr stored \<longleftrightarrow> stored = settings_of user (preferences db) \<and> set (map fst stored) = set (map fst default_preferences)"
  unfolding user_preferences_def settings_of_def [symmetric] Let_def require_Inr by blast

lemma settings_set_preference:
  "settings_of k (set_preference user (sk, e) rows) = map (\<lambda>(x, v). (x, if k = user \<and> x = sk then e else v)) (settings_of k rows)"
  by (induction rows; cases sk) (auto simp: settings_of_def set_preference_def)

lemma settings_set_preferences:
  "settings_of k (fold (set_preference user) ss rows) =
     map (\<lambda>(x, v). (x, case (if k = user then map_of (rev ss) x else None) of None \<Rightarrow> v | Some e \<Rightarrow> e)) (settings_of k rows)"
proof (induction ss rule: rev_induct)
  case (snoc s ss)
  obtain sk e where "s = (sk, e)" by (cases s)
  then show ?case using snoc
    by (cases "k = user") (simp_all add: settings_set_preference, auto split: option.split)
qed (simp add: case_prod_unfold cong: if_cong)

lemma map_of_map_keyed: "map_of (map (\<lambda>(x, v). (x, f x v)) xs) k = map_option (f k) (map_of xs k)"
  by (induction xs) auto

lemma map_of_filter_value:
  "distinct (map fst vs) \<Longrightarrow> map_of (filter (\<lambda>(k, v). P k v) vs) k = (case map_of vs k of None \<Rightarrow> None | Some v \<Rightarrow> if P k v then Some v else None)"
proof (induction vs)
  case (Cons x vs)
  obtain ka va where x: "x = (ka, va)" by (cases x)
  have "map_of vs ka = None" using Cons.prems x by (simp add: map_of_eq_None_iff)
  then show ?case using Cons x by auto
qed simp

lemma map_of_changed:
  assumes "distinct (map fst vs)"
  shows "map_of (rev (changed_settings cur vs)) k =
     (case map_of vs k of None \<Rightarrow> None | Some e \<Rightarrow> if map_of cur k = Some e then None else Some e)"
proof -
  let ?c = "changed_settings cur vs"
  have d: "distinct (map fst ?c)" unfolding changed_settings_def using assms by (simp add: distinct_map_filter)
  then have "distinct (map fst (rev ?c))" by (simp add: rev_map [symmetric])
  then have "map_of (rev ?c) = map_of ?c" using d by (subst map_of_inject_set) simp_all
  then show ?thesis
    by (simp add: changed_settings_def map_of_filter_value [OF assms] split: option.split)
qed

text \<open>Both reads after a write, from the rows before it.\<close>

lemma lock_after_profile:
  assumes "activity_frame (with_profile d user name title lang db) db'"
  shows "lock_profile db' k = map_sum id (\<lambda>(x, p). if k = user then (x\<lparr>us_name := name\<rparr>, write_profile (pd_now d) title lang p) else (x, p))
    (lock_profile db k)"
  using assms by (auto simp: lock_profile_def frame_platform with_profile_def find_profile_written split: option.splits)

lemma lock_after_preferences:
  assumes "activity_frame (with_preferences d user changed db) db'"
  shows "lock_profile db' k = map_sum id (\<lambda>(x, p). if k = user then (x, bump_preferences (pd_now d) p) else (x, p)) (lock_profile db k)"
  using assms by (auto simp: lock_profile_def frame_platform with_preferences_def find_profile_written split: option.splits)

lemma checked_profile_Inr:
  "checked_profile display_name job_title = Inr (name, title) \<longleftrightarrow> name = py_strip display_name \<and> title = map_option py_strip job_title \<and>
     1 \<le> length name \<and> length name \<le> 200 \<and> (\<forall>t. title = Some t \<longrightarrow> 1 \<le> length t \<and> length t \<le> 200)"
  unfolding checked_profile_def Let_def require_Inr by (auto split: option.splits)

lemma preferences_after_profile:
  assumes "activity_frame (with_profile d user name title lang db) db'"
  shows "get_preferences k db' = get_preferences k db"
proof -
  have "preferences db' = preferences db" using assms by (simp add: frame_same with_profile_def)
  then have "user_preferences db' k = user_preferences db k" by (simp add: user_preferences_def)
  then show ?thesis unfolding get_preferences_def lock_after_profile [OF assms]
    by (cases "lock_profile db k") (auto simp: write_profile_def)
qed

text \<open>
  A profile write stores exactly what was asked.  A successful update was made at the version it names; afterwards the
  profile shows the stripped name and title and the language that were sent, one version up, or, when nothing differs, is
  unchanged and so is the database.  The user's notification preferences and every other user's profile and preferences are
  what they were.
\<close>

theorem profile_write_is_exact_and_isolated:
  assumes "update_profile d user expected display_name job_title lang db = (Inr r, db')"
  shows "\<exists>view. get_profile user db = Inr view \<and> pv_version view = expected \<and>
      (ur_updated r \<longleftrightarrow> pv_name view \<noteq> py_strip display_name \<or> pv_job_title view \<noteq> map_option py_strip job_title \<or> pv_language view \<noteq> lang) \<and>
      (if ur_updated r
       then ur_version r = expected + 1 \<and> get_profile user db' =
         Inr (view\<lparr>pv_name := py_strip display_name, pv_job_title := map_option py_strip job_title, pv_language := lang,
               pv_version := expected + 1, pv_updated_at := pd_now d\<rparr>)
       else ur_version r = expected \<and> db' = db) \<and>
      (\<forall>k. get_preferences k db' = get_preferences k db \<and> (k \<noteq> user \<longrightarrow> get_profile k db' = get_profile k db))"
  using assms
proof (cases rule: update_profile_Inr)
  case (same x p name title)
  then show ?thesis by (simp add: get_profile_def checked_profile_Inr)
next
  case (edit x p name title)
  have other: "get_profile k db' = get_profile k db" if "k \<noteq> user" for k
    unfolding get_profile_def lock_after_profile [OF edit(6)] using that by (cases "lock_profile db k") auto
  have "get_profile user db' = and_then (Inr (x\<lparr>us_name := name\<rparr>, write_profile (pd_now d) title lang p)) (\<lambda>(x, p).
     Inr \<lparr>pv_user = us_id x, pv_email = us_email x, pv_name = us_name x, pv_job_title = up_job_title p,
          pv_language = up_language p, pv_version = up_version p, pv_updated_at = up_updated_at p\<rparr>)"
    unfolding get_profile_def lock_after_profile [OF edit(6)] edit(1) by simp
  then show ?thesis using edit(1-5) other preferences_after_profile [OF edit(6)]
    by (auto simp: get_profile_def checked_profile_Inr write_profile_def)
qed

lemma settings_applied:
  assumes "set (map fst stored) = set (map fst vs)" "distinct (map fst vs)"
  shows "map_of (map (\<lambda>(x, v). (x, case map_of (rev (changed_settings stored vs)) x of None \<Rightarrow> v | Some e \<Rightarrow> e)) stored) = map_of vs"
    and "changed_settings stored vs = [] \<longleftrightarrow> map_of stored = map_of vs"
proof -
  have none: "map_of stored k = None \<longleftrightarrow> map_of vs k = None" for k using assms(1) by (simp only: map_of_eq_None_iff set_map)
  show applied: "map_of (map (\<lambda>(x, v). (x, case map_of (rev (changed_settings stored vs)) x of None \<Rightarrow> v | Some e \<Rightarrow> e)) stored) = map_of vs"
  proof
    fix k
    show "map_of (map (\<lambda>(x, v). (x, case map_of (rev (changed_settings stored vs)) x of None \<Rightarrow> v | Some e \<Rightarrow> e)) stored) k = map_of vs k"
      using none [of k] unfolding map_of_map_keyed map_of_changed [OF assms(2)] by (auto split: option.split)
  qed
  show "changed_settings stored vs = [] \<longleftrightarrow> map_of stored = map_of vs"
  proof
    assume "changed_settings stored vs = []"
    then show "map_of stored = map_of vs" using applied by (simp add: case_prod_unfold)
  next
    assume same: "map_of stored = map_of vs"
    have "map_of vs k = Some v" if "(k, v) \<in> set vs" for k v using that assms(2) by simp
    then show "changed_settings stored vs = []" unfolding changed_settings_def same by (auto simp: filter_empty_conv)
  qed
qed

text \<open>
  A write of the notification preferences stores exactly the requested matrix.  A successful update was made at the
  version it names and named the six approved settings; afterwards each setting has the requested value, the version is one
  up when some value differed, and otherwise the database is unchanged.  Profiles and every other user's preferences are
  what they were.
\<close>

theorem preferences_write_is_exact_and_isolated:
  assumes "update_preferences d user expected settings db = (Inr r, db')" and "distinct (map fst settings)"
  shows "(\<exists>view view'. get_preferences user db = Inr view \<and> pw_version view = expected \<and> get_preferences user db' = Inr view' \<and>
      map_of (pw_values view') = map_of settings \<and> dom (map_of settings) = dom (map_of default_preferences) \<and>
      (ur_updated r \<longleftrightarrow> map_of (pw_values view) \<noteq> map_of settings) \<and>
      (if ur_updated r then ur_version r = expected + 1 \<and> pw_version view' = expected + 1 \<and> pw_updated_at view' = pd_now d
       else ur_version r = expected \<and> db' = db)) \<and>
      (\<forall>k. get_profile k db' = get_profile k db \<and> (k \<noteq> user \<longrightarrow> get_preferences k db' = get_preferences k db))"
  using assms(1)
proof (cases rule: update_preferences_Inr)
  case (same x p stored)
  have "set (map fst stored) = set (map fst settings)" using same(4,6) unfolding user_preferences_Inr by blast
  then have "map_of stored = map_of settings" using settings_applied(2) [OF _ assms(2)] same(7) by simp
  then show ?thesis using same(1-6) by (auto simp: get_preferences_def dom_map_of_conv_image_fst)
next
  case (edit x p stored)
  let ?c = "changed_settings stored settings"
  let ?new = "settings_of user (preferences db')"
  have pref: "preferences db' = fold (set_preference user) ?c (preferences db)" using edit(7) by (simp add: frame_same with_preferences_def)
  have stored: "stored = settings_of user (preferences db)" and keys: "set (map fst stored) = set (map fst settings)"
    using edit(3,5) unfolding user_preferences_Inr by blast+
  have new: "?new = map (\<lambda>(x, v). (x, case map_of (rev ?c) x of None \<Rightarrow> v | Some e \<Rightarrow> e)) stored"
    unfolding pref settings_set_preferences stored by simp
  have applied: "map_of ?new = map_of settings" "map_of stored \<noteq> map_of settings"
    using settings_applied [OF keys assms(2)] edit(6) unfolding new by simp_all
  have "map fst ?new = map fst stored" unfolding new by (simp add: comp_def case_prod_unfold)
  then have "user_preferences db' user = Inr ?new" using keys edit(3) unfolding user_preferences_Inr by (simp del: set_map)
  then have mine: "get_preferences user db' = Inr \<lparr>pw_values = ?new, pw_version = expected + 1, pw_updated_at = pd_now d\<rparr>"
    unfolding get_preferences_def lock_after_preferences [OF edit(7)] edit(1) using edit(4) by (simp add: bump_preferences_def)
  have "user_preferences db' k = user_preferences db k" if "k \<noteq> user" for k
    unfolding user_preferences_def settings_of_def [symmetric] pref settings_set_preferences using that by (simp cong: if_cong)
  then have other: "get_preferences k db' = get_preferences k db" if "k \<noteq> user" for k
    unfolding get_preferences_def lock_after_preferences [OF edit(7)] using that by (cases "lock_profile db k") auto
  have profile: "get_profile k db' = get_profile k db" for k
    unfolding get_profile_def lock_after_preferences [OF edit(7)] by (cases "lock_profile db k") (auto simp: bump_preferences_def)
  show ?thesis
    using edit(1-5) mine applied other profile by (simp add: get_preferences_def dom_map_of_conv_image_fst)
qed

section \<open>The properties at a concrete profile\<close>

text \<open>One user with a profile and the default preferences.\<close>

definition sample_profiles :: platform_db where
  "sample_profiles = app_db.extend
     (empty_db\<lparr>preferences := map (\<lambda>((kind, channel), on). \<lparr>np_user = 5, np_kind = kind, np_channel = channel, np_enabled = on\<rparr>)
        default_preferences\<rparr>)
     \<lparr>users = [\<lparr>us_id = 5, us_email = u ''a@b.c'', us_name = u ''hi''\<rparr>], friendships = [], rooms = [], invitations = [],
      profiles = [\<lparr>up_user = 5, up_job_title = None, up_language = L_KO, up_version = 0, up_preferences_version = 0,
        up_updated_at = 1, up_preferences_updated_at = 1\<rparr>],
      comments = [], mentions = [], merged_states = [], merged_versions = []\<rparr>"

definition sample_pd :: profile_draws where
  "sample_pd = \<lparr>pd_now = 2, pd_event = \<lparr>dr_event = 80, dr_notification = \<lambda>x. x, dr_outbox = \<lambda>x. x, dr_now = 2\<rparr>\<rparr>"

lemmas profile_eval = sample_profiles_def empty_db_def app_db.defs

text \<open>The request turns the mail about comments on and repeats the other settings.\<close>

definition sample_settings :: "((ustr \<times> channel) \<times> bool) list" where
  "sample_settings = map (\<lambda>(k, on). (k, on \<or> k = (u ''comment'', EmailIntent))) default_preferences"

lemma sample_profiles_sound: "profiles_sound sample_profiles"
  by (simp add: profiles_sound_def profile_eval default_preferences_def del: u_simps)

lemma personal_event:
  assumes t: "t \<in> set supported_event_types" and k: "build_event_key t (kwargs args) = Inr key" "1 \<le> length key" "length key \<le> 256"
    and m: "storable meta" and e: "1 \<le> length et" "length et \<le> 32" and db: "audit db = []"
  shows "\<exists>a. record_event d t args user SC_PERSONAL (Some user) None None et eid meta [] (db :: 'z platform_db_scheme) = Inr (db\<lparr>audit := a\<rparr>)"
proof -
  obtain j where j: "safe_audit_metadata meta = Inr j" "jsonb_size_at_most 4096 j" using m storable_obtain by blast
  show ?thesis
    using record_event_quiet [OF k(1) j(1) t refl, where db = db and d = d and actor = user and scope = SC_PERSONAL and aud = "Some user"
        and room = None and sid = None and et = et and eid = eid] j(2) t k(2,3) e db
    by (auto simp: audit_checks_def new_audit_row_def scope_shape_def simp del: u_simps)
qed

lemma profile_types: "u ''profile.updated'' \<in> set supported_event_types" "u ''notification_preferences.updated'' \<in> set supported_event_types"
  by (simp_all add: supported_event_types_def del: u_simps)

lemma profile_keys:
  "build_event_key (u ''profile.updated'') (kwargs [(''user_id'', IUuid x), (''profile_version'', IInt v)]) =
     Inr (u ''profile:'' @ uuid_text x @ u '':v'' @ int_text v)"
  "build_event_key (u ''notification_preferences.updated'') (kwargs [(''user_id'', IUuid x), (''preferences_version'', IInt v)]) =
     Inr (u ''preferences:'' @ uuid_text x @ u '':v'' @ int_text v)"
  by (simp_all add: build_event_key_def profile_types event_template_def segment_text_def field_def kwargs_def del: u_simps)
    (simp_all add: ustr_join_def)

lemma sample_strip: "py_strip (u '' ho '') = u ''ho''"
  by (simp add: py_strip_def py_lstrip_def py_rstrip_def py_isspace_def)

lemma sample_profile_update:
  "\<exists>db. update_profile sample_pd 5 0 (u '' ho '') None L_KO sample_profiles = (Inr \<lparr>ur_version = 1, ur_updated = True\<rparr>, db)"
proof -
  let ?db = "with_profile sample_pd 5 (u ''ho'') None L_KO sample_profiles"
  have m: "storable [(Some (u ''changed_fields''), MList (map MStr [u ''display_name'']))]" by (simp add: storable_def metadata_eval)
  have "\<exists>a. record_event (pd_event sample_pd) (u ''profile.updated'') [(''user_id'', IUuid 5), (''profile_version'', IInt 1)] 5 SC_PERSONAL
      (Some 5) None None (u ''user_profile'') 5 [(Some (u ''changed_fields''), MList (map MStr [u ''display_name'']))] [] ?db = Inr (?db\<lparr>audit := a\<rparr>)"
    by (rule personal_event [OF profile_types(1) profile_keys(1) _ _ m])
      (simp_all add: int_text_def dec_digits.simps with_profile_def profile_eval)
  then obtain a where a: "record_event (pd_event sample_pd) (u ''profile.updated'') [(''user_id'', IUuid 5), (''profile_version'', IInt 1)] 5
      SC_PERSONAL (Some 5) None None (u ''user_profile'') 5 [(Some (u ''changed_fields''), MList (map MStr [u ''display_name'']))] [] ?db =
      Inr (?db\<lparr>audit := a\<rparr>)" ..
  have l: "lock_profile sample_profiles 5 = Inr (\<lparr>us_id = 5, us_email = u ''a@b.c'', us_name = u ''hi''\<rparr>,
      \<lparr>up_user = 5, up_job_title = None, up_language = L_KO, up_version = 0, up_preferences_version = 0, up_updated_at = 1,
       up_preferences_updated_at = 1\<rparr>)" by (simp add: lock_profile_def profile_eval)
  show ?thesis using a
    by (simp add: update_profile_def transaction_Inr_iff update_profile_body_def checked_profile_def sample_strip l changed_fields_def
        with_profile_def Let_def del: u_simps)
qed


theorem stale_profile_writes_fail_witness:
  "\<exists>db. fst (update_profile sample_pd 5 0 (u '' ho '') None L_KO sample_profiles) = Inr \<lparr>ur_version = 1, ur_updated = True\<rparr> \<and>
     db = snd (update_profile sample_pd 5 0 (u '' ho '') None L_KO sample_profiles) \<and>
     (\<exists>e. update_profile sample_pd 5 0 (u ''hey'') None L_KO db = (Inl e, db))"
proof -
  obtain db where s: "update_profile sample_pd 5 0 (u '' ho '') None L_KO sample_profiles = (Inr \<lparr>ur_version = 1, ur_updated = True\<rparr>, db)"
    using sample_profile_update ..
  show ?thesis using stale_profile_writes_fail [OF sample_profiles_sound s _ rtranclp.rtrancl_refl order_refl] by (simp add: s del: u_simps)
qed

theorem profile_write_is_exact_and_isolated_witness:
  "\<exists>view db. update_profile sample_pd 5 0 (u '' ho '') None L_KO sample_profiles = (Inr \<lparr>ur_version = 1, ur_updated = True\<rparr>, db) \<and>
     get_profile 5 sample_profiles = Inr view \<and>
     get_profile 5 db = Inr (view\<lparr>pv_name := u ''ho'', pv_job_title := None, pv_language := L_KO, pv_version := 1, pv_updated_at := 2\<rparr>)"
proof -
  obtain db where s: "update_profile sample_pd 5 0 (u '' ho '') None L_KO sample_profiles = (Inr \<lparr>ur_version = 1, ur_updated = True\<rparr>, db)"
    using sample_profile_update ..
  show ?thesis using profile_write_is_exact_and_isolated [OF s] s by (auto simp: sample_strip sample_pd_def simp del: u_simps)
qed

lemma sample_preferences: "user_preferences sample_profiles 5 = Inr default_preferences" "distinct (map fst sample_settings)"
  "set (map fst sample_settings) = set (map fst default_preferences)"
  "changed_settings default_preferences sample_settings = [((u ''comment'', EmailIntent), True)]"
  by (simp_all add: user_preferences_def profile_eval default_preferences_def sample_settings_def changed_settings_def del: u_simps)

lemma sample_preferences_update:
  "\<exists>db. update_preferences sample_pd 5 0 sample_settings sample_profiles = (Inr \<lparr>ur_version = 1, ur_updated = True\<rparr>, db)"
proof -
  let ?db = "with_preferences sample_pd 5 [((u ''comment'', EmailIntent), True)] sample_profiles"
  let ?event = "record_event (pd_event sample_pd) (u ''notification_preferences.updated'')
      [(''user_id'', IUuid 5), (''preferences_version'', IInt 1)] 5 SC_PERSONAL (Some 5) None None (u ''notification_preferences'') 5
      [(Some (u ''changed_count''), MInt 1)] [] ?db"
  have m: "storable [(Some (u ''changed_count''), MInt 1)]" by (simp add: storable_def metadata_eval)
  have "\<exists>a. ?event = Inr (?db\<lparr>audit := a\<rparr>)"
    by (rule personal_event [OF profile_types(2) profile_keys(2) _ _ m])
      (simp_all add: int_text_def dec_digits.simps with_preferences_def profile_eval)
  then obtain a where a: "?event = Inr (?db\<lparr>audit := a\<rparr>)" ..
  have l: "lock_profile sample_profiles 5 = Inr (\<lparr>us_id = 5, us_email = u ''a@b.c'', us_name = u ''hi''\<rparr>,
      \<lparr>up_user = 5, up_job_title = None, up_language = L_KO, up_version = 0, up_preferences_version = 0, up_updated_at = 1,
       up_preferences_updated_at = 1\<rparr>)" by (simp add: lock_profile_def profile_eval)
  show ?thesis using a sample_preferences(3)
    by (simp add: update_preferences_def transaction_Inr_iff update_preferences_body_def l sample_preferences(1,4)
        with_preferences_def Let_def del: u_simps)
qed

theorem preferences_write_is_exact_and_isolated_witness:
  "\<exists>view db. update_preferences sample_pd 5 0 sample_settings sample_profiles = (Inr \<lparr>ur_version = 1, ur_updated = True\<rparr>, db) \<and>
     get_preferences 5 db = Inr view \<and> map_of (pw_values view) = map_of sample_settings \<and> pw_version view = 1"
proof -
  obtain db where s: "update_preferences sample_pd 5 0 sample_settings sample_profiles = (Inr \<lparr>ur_version = 1, ur_updated = True\<rparr>, db)"
    using sample_preferences_update ..
  show ?thesis using preferences_write_is_exact_and_isolated [OF s sample_preferences(2)] s by (auto simp del: u_simps)
qed

end
