(* ===== verification/Source_Tables.thy ===== *)
theory Source_Tables
  imports Platform_Tables Generation_Context Generation_Persist
begin

text \<open>
  The columns of \<open>submissions\<close>, \<open>source_revisions\<close>, \<open>extraction_runs\<close> and \<open>source_anchors\<close> that only the submission
  services and the extraction worker use, as tables beside those of theory \<open>Tables\<close>: a row here has the id of its row
  there, and every INSERT writes both.  The inserts check the constraints of migrations 0001, 0002, 0004 and 0010 and run
  the trigger of migration 0019.  References to rows the caller has just read or written are not checked again.

  The driver refuses a text value with a NUL character (\<open>DataError\<close>).
\<close>

section \<open>Rows\<close>

datatype submission_kind = K_TEXT | K_FILE

fun kind_value :: "submission_kind \<Rightarrow> ustr" where
  "kind_value K_TEXT = u ''text''"
| "kind_value K_FILE = u ''file''"

record kind_row =
  sk_submission :: uuid
  sk_kind :: submission_kind

record source_row =
  so_revision :: uuid
  so_filename :: ustr
  so_mime :: ustr
  so_size :: int
  so_sha :: ustr
  so_text :: "ustr option"
  so_key :: "ustr option" \<comment> \<open>\<open>storage_key\<close>\<close>

text \<open>The columns of the UNIQUE key of an extraction run, and its job attempt.\<close>

record profile_key =
  xk_revision :: uuid
  xk_parser :: "ustr \<times> ustr"
  xk_newline :: ustr
  xk_unicode :: ustr
  xk_config :: ustr
  xk_schema :: ustr
  xk_attempt :: int

record extraction_key_row =
  xr_run :: uuid
  xr_key :: profile_key
  xr_job_attempt :: "uuid option"

record anchor_hash_row =
  ah_anchor :: uuid
  ah_run :: uuid
  ah_hash :: ustr

record source_db = platform_db +
  kinds :: "kind_row list"
  source_files :: "source_row list"
  extraction_keys :: "extraction_key_row list"
  anchor_hashes :: "anchor_hash_row list"

section \<open>Inserts\<close>

definition storable_text :: "ustr \<Rightarrow> bool" where
  "storable_text s \<longleftrightarrow> 0 \<notin> set s"

definition insert_submission :: "submission_row \<Rightarrow> submission_kind \<Rightarrow> 'z source_db_scheme \<Rightarrow> app_error + 'z source_db_scheme" where
  "insert_submission b kind db =
     require (storable_text (sb_title b)) (DataError (u ''PostgreSQL text fields cannot contain NUL''))
     (require (1 \<le> length (sb_title b) \<and> length (sb_title b) \<le> 500) (PgError CheckViolation)
     (require (fresh sb_id b (submissions db)) (PgError UniqueViolation)
       (Inr (db\<lparr>submissions := submissions db @ [b], kinds := kinds db @ [\<lparr>sk_submission = sb_id b, sk_kind = kind\<rparr>]\<rparr>))))"

definition max_revision_bytes :: int where
  "max_revision_bytes = 209715200"

definition revision_checks :: "revision_row \<Rightarrow> source_row \<Rightarrow> bool" where
  "revision_checks r so \<longleftrightarrow>
     1 \<le> sr_number r \<and> 0 \<le> so_size so \<and> so_size so \<le> max_revision_bytes \<and> is_sha256_hex (so_sha so) \<and>
     (sr_state r = R_READY \<longrightarrow> sr_approved r \<noteq> None)"

text \<open>The partial unique index on the current revision of a submission.\<close>

definition one_current :: "revision_row \<Rightarrow> revision_row list \<Rightarrow> bool" where
  "one_current r rs \<longleftrightarrow> (sr_current r \<longrightarrow> fresh sr_submission r (filter sr_current rs))"

definition insert_revision :: "revision_row \<Rightarrow> source_row \<Rightarrow> 'z source_db_scheme \<Rightarrow> app_error + 'z source_db_scheme" where
  "insert_revision r so db =
     require (storable_text (so_filename so) \<and> (case so_text so of None \<Rightarrow> True | Some t \<Rightarrow> storable_text t))
       (DataError (u ''PostgreSQL text fields cannot contain NUL''))
     (require (revision_checks r so) (PgError CheckViolation)
     (require (fresh sr_id r (revisions db) \<and> fresh (\<lambda>x. (sr_submission x, sr_number x)) r (revisions db) \<and>
         one_current r (revisions db) \<and> (so_key so \<noteq> None \<longrightarrow> fresh so_key so (source_files db))) (PgError UniqueViolation)
       (Inr (db\<lparr>revisions := revisions db @ [r], source_files := source_files db @ [so]\<rparr>))))"

definition insert_extraction ::
  "extraction_row \<Rightarrow> profile_key \<Rightarrow> uuid option \<Rightarrow> 'z source_db_scheme \<Rightarrow> app_error + 'z source_db_scheme" where
  "insert_extraction x key attempt db =
     (let row = \<lparr>xr_run = er_id x, xr_key = key, xr_job_attempt = attempt\<rparr> in
      require (1 \<le> xk_attempt key \<and> is_sha256_hex (xk_config key)) (PgError CheckViolation)
     (require (fresh er_id x (extractions db) \<and> fresh xr_key row (extraction_keys db) \<and>
         (attempt \<noteq> None \<longrightarrow> fresh xr_job_attempt row (extraction_keys db))) (PgError UniqueViolation)
       (Inr (db\<lparr>extractions := extractions db @ [x], extraction_keys := extraction_keys db @ [row]\<rparr>))))"

text \<open>
  \<open>source_anchor_rag_exclusion_reason\<close>: the same rules as \<open>assess_source_anchor\<close> in SQL, on the text as it is: \<open>btrim\<close> strips
  spaces only and one corrupt character counts.
\<close>

definition btrim :: "ustr \<Rightarrow> ustr" where
  "btrim s = rev (dropWhile (\<lambda>c. c = 32) (rev (dropWhile (\<lambda>c. c = 32) s)))"

definition rag_exclusion_reason :: "ustr \<Rightarrow> ustr \<Rightarrow> rat option \<Rightarrow> ustr option" where
  "rag_exclusion_reason text block confidence =
     (if btrim text = [] then Some (u ''blank_text'')
      else if 65533 \<in> set text then Some (u ''corrupt_characters'')
      else if list_ex is_control (filter (\<lambda>c. c \<notin> {9, 10, 13}) text) then Some (u ''control_characters'')
      else if block \<in> set ocr_block_types \<and> (case confidence of None \<Rightarrow> True | Some x \<Rightarrow> x < min_ocr_confidence)
      then Some (u ''low_ocr_confidence'')
      else if block \<in> set ocr_block_types \<and> length (btrim text) < 3 then Some (u ''short_ocr_fragment'')
      else if block \<in> set ocr_block_types \<and> count_words False (btrim text) \<le> 6 \<and> has_incomplete_ending (btrim text)
      then Some (u ''incomplete_ocr_fragment'')
      else None)"

text \<open>\<open>an_excluded\<close> is what the trigger computes, whatever the caller gave.\<close>

definition insert_anchor :: "anchor_row \<Rightarrow> ustr \<Rightarrow> 'z source_db_scheme \<Rightarrow> app_error + 'z source_db_scheme" where
  "insert_anchor a hash db =
     (let row = \<lparr>ah_anchor = an_id a, ah_run = an_run a, ah_hash = hash\<rparr> in
      require (storable_text (an_text a) \<and> storable_text (an_block a)) (DataError (u ''PostgreSQL text fields cannot contain NUL''))
     (require (0 \<le> an_ordinal a \<and> 1 \<le> length (an_block a) \<and> length (an_block a) \<le> 64 \<and> is_sha256_hex hash \<and>
         (case an_confidence a of None \<Rightarrow> True | Some x \<Rightarrow> 0 \<le> x \<and> x \<le> 1)) (PgError CheckViolation)
     (require (fresh an_id a (anchors db) \<and> fresh (\<lambda>x. (an_run x, an_ordinal x)) a (anchors db) \<and>
         fresh (\<lambda>x. (ah_run x, ah_hash x)) row (anchor_hashes db)) (PgError UniqueViolation)
       (Inr (db\<lparr>anchors := anchors db @ [a\<lparr>an_excluded := rag_exclusion_reason (an_text a) (an_block a) (an_confidence a)\<rparr>],
                anchor_hashes := anchor_hashes db @ [row]\<rparr>)))))"

section \<open>Reads\<close>

definition kind_of :: "'z source_db_scheme \<Rightarrow> uuid \<Rightarrow> submission_kind option" where
  "kind_of db sub = map_option sk_kind (find (\<lambda>k. sk_submission k = sub) (kinds db))"

definition file_of :: "'z source_db_scheme \<Rightarrow> uuid \<Rightarrow> source_row option" where
  "file_of db rid = find (\<lambda>s. so_revision s = rid) (source_files db)"

text \<open>A revision joined with its submission, its session and the actor's current membership of the session's room.\<close>

definition member_revision ::
  "'z source_db_scheme \<Rightarrow> uuid \<Rightarrow> uuid \<Rightarrow> (revision_row \<times> submission_row \<times> session_row) option" where
  "member_revision db actor rid =
     (case find (\<lambda>r. sr_id r = rid) (revisions db) of
        None \<Rightarrow> None
      | Some r \<Rightarrow> (case find (\<lambda>b. sb_id b = sr_submission r) (submissions db) of
           None \<Rightarrow> None
         | Some b \<Rightarrow> map_option (\<lambda>s. (r, b, s)) (member_session db actor (sb_session b))))"

lemma member_revision_Some:
  "member_revision db actor rid = Some (r, b, s) \<longleftrightarrow> find (\<lambda>r. sr_id r = rid) (revisions db) = Some r \<and>
     find (\<lambda>b. sb_id b = sr_submission r) (submissions db) = Some b \<and> member_session db actor (sb_session b) = Some s"
  by (auto simp: member_revision_def split: option.splits)

section \<open>Sessions that take submissions\<close>

text \<open>
  \<open>_require_open_member_session\<close> and \<open>_current_revision_count\<close> of both services; the exceptions are parameters.  Revisions of
  deleted submissions count.
\<close>

definition open_member_session ::
  "(ustr \<Rightarrow> app_error) \<Rightarrow> (ustr \<Rightarrow> app_error) \<Rightarrow> 'z source_db_scheme \<Rightarrow> uuid \<Rightarrow> uuid \<Rightarrow> app_error + uuid" where
  "open_member_session no_access bad_state db sid actor =
     (case member_session db actor sid of
        None \<Rightarrow> Inl (no_access (u ''talk session is unavailable''))
      | Some s \<Rightarrow> require (ts_state s = OPEN) (bad_state (u ''talk session must be open'')) (Inr (ts_room s)))"

definition current_revision_count :: "'z source_db_scheme \<Rightarrow> uuid \<Rightarrow> nat" where
  "current_revision_count db sid =
     hits (\<lambda>r. sr_current r \<and> list_ex (\<lambda>b. sb_id b = sr_submission r \<and> sb_session b = sid) (submissions db)) (revisions db)"

end
