(* ===== verification/Text_Submissions.thy ===== *)
theory Text_Submissions
  imports Source_Tables
begin

text \<open>
  \<open>text_submission_service.py\<close>: text submissions, their immutable revisions and the anchors extracted from them inline.

  \<^item> \<open>nfc\<close> is \<open>unicodedata.normalize("NFC", \<dots>)\<close>, \<open>sha256\<close> the hexadecimal digest of SHA-256, \<open>round6\<close> the JSON value of a
    finite float rounded to six places (an integer when it is one).
  \<^item> Parameters annotated with a type have it: the \<open>isinstance\<close> tests on them are left out.
  \<^item> The session row is locked (\<open>FOR UPDATE\<close>), so an operation is one function on the committed state.
\<close>

section \<open>Text\<close>

text \<open>\<open>value.replace("\r\n", "\n").replace("\r", "\n")\<close>\<close>

fun lf_newlines :: "ustr \<Rightarrow> ustr" where
  "lf_newlines (c # d # s) =
     (if c = 13 \<and> d = 10 then 10 # lf_newlines s else (if c = 13 then 10 else c) # lf_newlines (d # s))"
| "lf_newlines [c] = [if c = 13 then 10 else c]"
| "lf_newlines [] = []"

definition normalize_text :: "(ustr \<Rightarrow> ustr) \<Rightarrow> ustr \<Rightarrow> ustr" where
  "normalize_text nfc s = nfc (lf_newlines s)"

definition max_text_characters :: nat where
  "max_text_characters = 100000"

definition validated_normalized_text :: "(ustr \<Rightarrow> ustr) \<Rightarrow> ustr \<Rightarrow> app_error + ustr" where
  "validated_normalized_text nfc s =
     require (1 \<le> length s \<and> length s \<le> max_text_characters) (TextSubmissionError (u ''text submission length is invalid''))
     (require (0 \<notin> set s) (TextSubmissionError (u ''text submission must not contain NUL''))
     (let normalized = normalize_text nfc s in
      require (py_strip normalized \<noteq> []) (TextSubmissionError (u ''text submission must contain visible text''))
     (case utf8 normalized of
        None \<Rightarrow> Inl (TextSubmissionError (u ''text submission must be valid UTF-8 text''))
      | Some b \<Rightarrow> require (length b \<le> 20 * 1024 * 1024) (TextSubmissionError (u ''text submission is too large'')) (Inr normalized))))"

definition validated_title :: "(ustr \<Rightarrow> ustr) \<Rightarrow> ustr \<Rightarrow> app_error + ustr" where
  "validated_title nfc s =
     (let normalized = py_strip (nfc s) in
      require (normalized \<noteq> [] \<and> length normalized \<le> 500)
        (TextSubmissionError (u ''submission title must contain 1 to 500 characters'')) (Inr normalized))"

section \<open>Canonical JSON\<close>

lemma fold_result_cong [fundef_cong]:
  "xs = ys \<Longrightarrow> a = b \<Longrightarrow> (\<And>x c. x \<in> set ys \<Longrightarrow> f x c = g x c) \<Longrightarrow> fold_result f xs a = fold_result g ys b"
proof (induction ys arbitrary: xs a b)
  case (Cons y ys)
  have "fold_result f ys c = fold_result g ys c" for c using Cons by simp
  then show ?case using Cons.prems by (simp add: and_then_def split: sum.split)
qed simp

lemma map_result_cong [fundef_cong]:
  "xs = ys \<Longrightarrow> (\<And>x. x \<in> set ys \<Longrightarrow> f x = g x) \<Longrightarrow> map_result f xs = map_result g ys"
  by (induction ys arbitrary: xs) simp_all

fun canonicalize_json :: "(ustr \<Rightarrow> ustr) \<Rightarrow> (ustr \<Rightarrow> json) \<Rightarrow> json \<Rightarrow> app_error + json" where
  "canonicalize_json nfc round6 (JFloat r) =
     require (r \<notin> nonfinite_reprs) (ValueError (u ''canonical JSON numbers must be finite'')) (Inr (round6 r))"
| "canonicalize_json nfc round6 (JStr s) = Inr (JStr (normalize_text nfc s))"
| "canonicalize_json nfc round6 (JList xs) =
     and_then (map_result (canonicalize_json nfc round6) xs) (\<lambda>ys. Inr (JList ys))"
| "canonicalize_json nfc round6 (JObj kvs) =
     and_then (fold_result (\<lambda>kv done.
         let key = normalize_text nfc (fst kv) in
         require (key \<notin> fst ` set done) (ValueError (u ''canonical JSON contains colliding normalized keys''))
           (and_then (canonicalize_json nfc round6 (snd kv)) (\<lambda>v. Inr (done @ [(key, v)])))) kvs [])
       (\<lambda>m. Inr (JObj m))"
| "canonicalize_json nfc round6 v = Inr v"

definition canonical_sha256 ::
  "(nat list \<Rightarrow> ustr) \<Rightarrow> (ustr \<Rightarrow> ustr) \<Rightarrow> (ustr \<Rightarrow> json) \<Rightarrow> json \<Rightarrow> app_error + ustr" where
  "canonical_sha256 sha256 nfc round6 v =
     and_then (canonicalize_json nfc round6 v) (\<lambda>c. case utf8 (dump c) of
        None \<Rightarrow> Inl (ValueError (u ''surrogates not allowed''))
      | Some b \<Rightarrow> Inr (sha256 b))"

text \<open>\<open>hashlib.sha256(text.encode("utf-8"))\<close>\<close>

definition text_sha256 :: "(nat list \<Rightarrow> ustr) \<Rightarrow> ustr \<Rightarrow> app_error + ustr" where
  "text_sha256 sha256 s =
     (case utf8 s of None \<Rightarrow> Inl (ValueError (u ''surrogates not allowed'')) | Some b \<Rightarrow> Inr (sha256 b))"

section \<open>Anchors\<close>

definition inline_profile :: json where
  "inline_profile = JObj [(u ''anchor_schema_version'', JInt 1), (u ''newline_policy'', JStr (u ''lf'')),
     (u ''parser'', JStr (u ''inline-text'')), (u ''parser_version'', JStr (u ''1'')), (u ''unicode_normalization'', JStr (u ''nfc''))]"

text \<open>A \<open>text_line\<close> anchor, from the hash of its profile.\<close>

definition line_anchor :: "ustr \<Rightarrow> ustr \<Rightarrow> int \<Rightarrow> nat \<Rightarrow> ustr \<Rightarrow> json" where
  "line_anchor source_sha profile line len fingerprint =
     JObj [(u ''schema_version'', JInt 1), (u ''kind'', JStr (u ''text_line'')), (u ''source_sha256'', JStr source_sha),
       (u ''extraction_profile_hash'', JStr profile),
       (u ''locator'', JObj [(u ''line'', JInt line), (u ''start'', JInt 0), (u ''end'', JInt (int len))]),
       (u ''text_fingerprint'', JStr fingerprint)]"

definition text_line_anchor_payload ::
  "(nat list \<Rightarrow> ustr) \<Rightarrow> ustr \<Rightarrow> ustr \<Rightarrow> int \<Rightarrow> ustr \<Rightarrow> app_error + json" where
  "text_line_anchor_payload sha256 profile source_sha line quote =
     require (quote \<noteq> []) (TextSubmissionError (u ''text line anchor quote must not be empty''))
     (and_then (text_sha256 sha256 quote) (\<lambda>fp. Inr (line_anchor source_sha profile line (length quote) fp)))"

section \<open>A revision with its anchors\<close>

record submission_draws =
  sd_submission :: uuid
  sd_revision :: uuid
  sd_run :: uuid
  sd_anchor :: "nat \<Rightarrow> uuid" \<comment> \<open>by ordinal\<close>
  sd_now :: int
  sd_event :: activity_draws

text \<open>One turn of the loop over the numbered lines; the state is the ordinal and the database.\<close>

definition insert_line ::
  "(nat list \<Rightarrow> ustr) \<Rightarrow> (ustr \<Rightarrow> ustr) \<Rightarrow> (ustr \<Rightarrow> json) \<Rightarrow> submission_draws \<Rightarrow> ustr \<Rightarrow> ustr \<Rightarrow> nat \<times> ustr \<Rightarrow> nat \<times> 'z source_db_scheme \<Rightarrow>
   app_error + nat \<times> 'z source_db_scheme" where
  "insert_line sha256 nfc round6 d profile source_sha numbered st =
     (case (numbered, st) of ((n, line), (ordinal, db)) \<Rightarrow>
        if line = [] then Inr st
        else and_then (text_line_anchor_payload sha256 profile source_sha (int n) line) (\<lambda>payload.
             and_then (canonical_sha256 sha256 nfc round6 payload) (\<lambda>hash.
             and_then (insert_anchor
               \<lparr>an_id = sd_anchor d ordinal, an_run = sd_run d, an_revision = sd_revision d, an_ordinal = int ordinal,
                an_block = u ''text_line'', an_text = line, an_confidence = None, an_json = payload, an_excluded = None\<rparr> hash db)
               (\<lambda>db'. Inr (ordinal + 1, db')))))"

definition numbered_lines :: "ustr \<Rightarrow> (nat \<times> ustr) list" where
  "numbered_lines s = enumerate 1 (split_on 10 s)"

definition mark_ready :: "uuid \<Rightarrow> revision_row \<Rightarrow> revision_row" where
  "mark_ready run r = r\<lparr>sr_approved := Some run, sr_state := R_READY\<rparr>"

definition text_revision :: "submission_draws \<Rightarrow> uuid \<Rightarrow> int \<Rightarrow> revision_row" where
  "text_revision d sub n =
     \<lparr>sr_id = sd_revision d, sr_submission = sub, sr_number = n, sr_state = R_QUEUED, sr_approved = None, sr_current = True\<rparr>"

definition text_source :: "submission_draws \<Rightarrow> uuid \<Rightarrow> nat list \<Rightarrow> ustr \<Rightarrow> ustr \<Rightarrow> source_row" where
  "text_source d sub bytes sha s =
     \<lparr>so_revision = sd_revision d, so_filename = u ''text-submission-'' @ uuid_text sub @ u ''.txt'', so_mime = u ''text/plain'',
      so_size = int (length bytes), so_sha = sha, so_text = Some s, so_key = None\<rparr>"

definition inline_key :: "submission_draws \<Rightarrow> ustr \<Rightarrow> profile_key" where
  "inline_key d profile =
     \<lparr>xk_revision = sd_revision d, xk_parser = (u ''inline-text'', u ''1''), xk_newline = u ''lf'', xk_unicode = u ''nfc'',
      xk_config = profile, xk_schema = u ''1'', xk_attempt = 1\<rparr>"

definition insert_ready_text_revision ::
  "(nat list \<Rightarrow> ustr) \<Rightarrow> (ustr \<Rightarrow> ustr) \<Rightarrow> (ustr \<Rightarrow> json) \<Rightarrow> submission_draws \<Rightarrow> uuid \<Rightarrow> int \<Rightarrow> ustr \<Rightarrow> 'z source_db_scheme \<Rightarrow>
   app_error + 'z source_db_scheme" where
  "insert_ready_text_revision sha256 nfc round6 d sub n s db =
     (case utf8 s of
        None \<Rightarrow> Inl (ValueError (u ''surrogates not allowed''))
      | Some bytes \<Rightarrow>
          and_then (insert_revision (text_revision d sub n) (text_source d sub bytes (sha256 bytes) s) db) (\<lambda>db1.
          and_then (canonical_sha256 sha256 nfc round6 inline_profile) (\<lambda>profile.
          and_then (insert_extraction
            \<lparr>er_id = sd_run d, er_revision = sd_revision d, er_anchor_version = u ''1'', er_status = E_SUCCEEDED, er_error = None\<rparr>
            (inline_key d profile) None db1) (\<lambda>db2.
          and_then (fold_result (insert_line sha256 nfc round6 d profile (sha256 bytes)) (numbered_lines s) (0, db2)) (\<lambda>(ordinal, db3).
          require (ordinal \<noteq> 0) (TextSubmissionError (u ''text submission needs at least one non-empty line''))
          (let queued = (\<lambda>r. sr_id r = sd_revision d \<and> sr_state r = R_QUEUED) in
           require (hits queued (revisions db3) = 1) (RuntimeErr (u ''inline text revision could not become ready''))
             (Inr (db3\<lparr>revisions := update_rows queued (mark_ready (sd_run d)) (revisions db3)\<rparr>))))))))"

section \<open>Operations\<close>

record submission_view =
  sv_id :: uuid
  sv_session :: uuid
  sv_author :: uuid
  sv_kind :: submission_kind
  sv_title :: ustr
  sv_current :: uuid
  sv_state :: revision_processing_state

text \<open>\<open>TextSubmissionService(max_current_revisions=limit)\<close>\<close>

definition submit_text_body ::
  "(nat list \<Rightarrow> ustr) \<Rightarrow> (ustr \<Rightarrow> ustr) \<Rightarrow> (ustr \<Rightarrow> json) \<Rightarrow> nat \<Rightarrow> submission_draws \<Rightarrow> uuid \<Rightarrow> uuid \<Rightarrow> ustr \<Rightarrow> ustr \<Rightarrow>
   (app_error, submission_view, 'z source_db_scheme) body" where
  "submit_text_body sha256 nfc round6 limit d sid actor normalized title db =
     and_then (open_member_session TextSubmissionAccessError TextSubmissionStateError db sid actor) (\<lambda>room.
     require (\<not> current_revision_count db sid \<ge> limit) (TextSubmissionLimitError (u ''session current-revision limit reached''))
     (and_then (insert_submission \<lparr>sb_id = sd_submission d, sb_session = sid, sb_author = actor, sb_title = title,
         sb_created_at = sd_now d, sb_deleted = False\<rparr> K_TEXT db) (\<lambda>db1.
      and_then (insert_ready_text_revision sha256 nfc round6 d (sd_submission d) 1 normalized db1) (\<lambda>db2.
      and_then (record_event (sd_event d) (u ''submission.created'')
         [(''submission_id'', IUuid (sd_submission d)), (''revision_no'', IInt 1)] actor SC_SESSION None (Some room) (Some sid)
         (u ''submission'') (sd_submission d) [(Some (u ''kind''), MStr (u ''text'')), (Some (u ''revision_no''), MInt 1)] [] db2) (\<lambda>db3.
      Inr (\<lparr>sv_id = sd_submission d, sv_session = sid, sv_author = actor, sv_kind = K_TEXT, sv_title = title,
            sv_current = sd_revision d, sv_state = R_READY\<rparr>, db3))))))"

definition submit_text ::
  "(nat list \<Rightarrow> ustr) \<Rightarrow> (ustr \<Rightarrow> ustr) \<Rightarrow> (ustr \<Rightarrow> json) \<Rightarrow> nat \<Rightarrow> submission_draws \<Rightarrow> uuid \<Rightarrow> uuid \<Rightarrow> ustr \<Rightarrow> ustr \<Rightarrow>
   'z source_db_scheme \<Rightarrow> (app_error + submission_view) \<times> 'z source_db_scheme" where
  "submit_text sha256 nfc round6 limit d sid actor text title db =
     (case and_then (validated_normalized_text nfc text) (\<lambda>t. and_then (validated_title nfc title) (\<lambda>n. Inr (t, n))) of
        Inl e \<Rightarrow> (Inl e, db)
      | Inr (t, n) \<Rightarrow> transaction (submit_text_body sha256 nfc round6 limit d sid actor t n) db)"

text \<open>\<open>_locked_member_submission\<close>: deleted submissions are found too.\<close>

definition locked_member_submission ::
  "'z source_db_scheme \<Rightarrow> uuid \<Rightarrow> uuid \<Rightarrow> (submission_row \<times> session_row) option" where
  "locked_member_submission db sub actor =
     (case find (\<lambda>b. sb_id b = sub) (submissions db) of
        None \<Rightarrow> None
      | Some b \<Rightarrow> map_option (\<lambda>s. (b, s)) (member_session db actor (sb_session b)))"

definition latest_revision_number :: "'z source_db_scheme \<Rightarrow> uuid \<Rightarrow> int" where
  "latest_revision_number db sub = fold max (map sr_number (filter (\<lambda>r. sr_submission r = sub) (revisions db))) 0"

definition retire_revision :: "revision_row \<Rightarrow> revision_row" where
  "retire_revision r = r\<lparr>sr_current := False\<rparr>"

definition replace_text_body ::
  "(nat list \<Rightarrow> ustr) \<Rightarrow> (ustr \<Rightarrow> ustr) \<Rightarrow> (ustr \<Rightarrow> json) \<Rightarrow> submission_draws \<Rightarrow> uuid \<Rightarrow> uuid \<Rightarrow> ustr \<Rightarrow>
   (app_error, submission_view, 'z source_db_scheme) body" where
  "replace_text_body sha256 nfc round6 d sub actor normalized db =
     (case locked_member_submission db sub actor of
        None \<Rightarrow> Inl (TextSubmissionAccessError (u ''submission is unavailable''))
      | Some (b, s) \<Rightarrow>
          require (sb_author b = actor) (TextSubmissionOwnerError (u ''only the submission author may replace it''))
          (require (kind_of db sub = Some K_TEXT) (TextSubmissionError (u ''only text submissions can be replaced in phase 3''))
          (require (ts_state s = OPEN) (TextSubmissionStateError (u ''talk session must be open''))
          (let n = latest_revision_number db sub + 1;
               db1 = db\<lparr>revisions := update_rows (\<lambda>r. sr_submission r = sub \<and> sr_current r) retire_revision (revisions db)\<rparr> in
           and_then (insert_ready_text_revision sha256 nfc round6 d sub n normalized db1) (\<lambda>db2.
           and_then (text_column (sb_title b) (u ''submission title'')) (\<lambda>title.
           and_then (record_event (sd_event d) (u ''submission.revised'') [(''submission_id'', IUuid sub), (''revision_no'', IInt n)]
             actor SC_SESSION None (Some (ts_room s)) (Some (sb_session b)) (u ''submission'') sub
             [(Some (u ''kind''), MStr (u ''text'')), (Some (u ''revision_no''), MInt n)] [] db2) (\<lambda>db3.
           Inr (\<lparr>sv_id = sub, sv_session = sb_session b, sv_author = sb_author b, sv_kind = K_TEXT, sv_title = title,
                 sv_current = sd_revision d, sv_state = R_READY\<rparr>, db3))))))))"

definition replace_text ::
  "(nat list \<Rightarrow> ustr) \<Rightarrow> (ustr \<Rightarrow> ustr) \<Rightarrow> (ustr \<Rightarrow> json) \<Rightarrow> submission_draws \<Rightarrow> uuid \<Rightarrow> uuid \<Rightarrow> ustr \<Rightarrow>
   'z source_db_scheme \<Rightarrow> (app_error + submission_view) \<times> 'z source_db_scheme" where
  "replace_text sha256 nfc round6 d sub actor text db =
     (case validated_normalized_text nfc text of
        Inl e \<Rightarrow> (Inl e, db)
      | Inr t \<Rightarrow> transaction (replace_text_body sha256 nfc round6 d sub actor t) db)"

definition delete_submission_body :: "activity_draws \<Rightarrow> uuid \<Rightarrow> uuid \<Rightarrow> (app_error, unit, 'z source_db_scheme) body" where
  "delete_submission_body d sub actor db =
     (case locked_member_submission db sub actor of
        None \<Rightarrow> Inl (TextSubmissionAccessError (u ''submission is unavailable''))
      | Some (b, s) \<Rightarrow>
          require (sb_author b = actor) (TextSubmissionOwnerError (u ''only the submission author may delete it''))
          (if sb_deleted b then Inr ((), db)
           else require (ts_state s = OPEN) (TextSubmissionStateError (u ''talk session must be open''))
             (let db1 = db\<lparr>submissions := update_rows (\<lambda>x. sb_id x = sub) (\<lambda>x. x\<lparr>sb_deleted := True\<rparr>) (submissions db)\<rparr> in
              and_then (record_event d (u ''submission.deleted'') [(''submission_id'', IUuid sub)] actor SC_SESSION None
                (Some (ts_room s)) (Some (sb_session b)) (u ''submission'') sub
                [(Some (u ''kind''), MStr (case kind_of db sub of None \<Rightarrow> u ''None'' | Some k \<Rightarrow> kind_value k))] [] db1) (\<lambda>db2.
              Inr ((), db2)))))"

definition delete_submission :: "activity_draws \<Rightarrow> uuid \<Rightarrow> uuid \<Rightarrow> 'z source_db_scheme \<Rightarrow> (app_error + unit) \<times> 'z source_db_scheme" where
  "delete_submission d sub actor db = transaction (delete_submission_body d sub actor) db"

section \<open>Reads\<close>

record metadata_view =
  md_id :: uuid
  md_session :: uuid
  md_author :: uuid
  md_kind :: submission_kind
  md_title :: ustr
  md_current :: uuid
  md_state :: revision_processing_state
  md_filename :: ustr
  md_mime :: ustr
  md_size :: int
  md_email :: ustr
  md_name :: ustr
  md_created_at :: int

text \<open>\<open>_submission_metadata_from_row\<close> on the row of the LEFT JOINs; an unmatched join leaves NULL columns.\<close>

definition submission_metadata :: "'z source_db_scheme \<Rightarrow> submission_row \<Rightarrow> app_error + metadata_view" where
  "submission_metadata db b =
     (case find (\<lambda>r. sr_submission r = sb_id b \<and> sr_current r) (revisions db) of
        None \<Rightarrow> Inl (RuntimeErr (u ''persisted source byte size must be integer''))
      | Some r \<Rightarrow> (case (file_of db (sr_id r), kind_of db (sb_id b)) of
          (Some f, Some k) \<Rightarrow>
            and_then (text_column (sb_title b) (u ''submission title'')) (\<lambda>title.
            and_then (text_column (so_filename f) (u ''source filename'')) (\<lambda>name.
            and_then (text_column (so_mime f) (u ''source MIME type'')) (\<lambda>mime.
            case find (\<lambda>x. us_id x = sb_author b) (users db) of
              None \<Rightarrow> Inl (RuntimeErr (u ''persisted submission author email must be non-empty text''))
            | Some x \<Rightarrow>
                and_then (text_column (us_email x) (u ''submission author email'')) (\<lambda>email.
                and_then (text_column (us_name x) (u ''submission author display name'')) (\<lambda>display.
                Inr \<lparr>md_id = sb_id b, md_session = sb_session b, md_author = sb_author b, md_kind = k, md_title = title,
                     md_current = sr_id r, md_state = sr_state r, md_filename = name, md_mime = mime, md_size = so_size f,
                     md_email = email, md_name = display, md_created_at = sb_created_at b\<rparr>)))))
        | _ \<Rightarrow> Inl (RuntimeErr (u ''persisted submission kind is invalid''))))"

text \<open>\<open>ORDER BY submission.created_at, submission.id\<close>\<close>

definition listed_submissions :: "'z source_db_scheme \<Rightarrow> uuid \<Rightarrow> submission_row list" where
  "listed_submissions db sid =
     sort_key (\<lambda>b. ClaimKey (sb_created_at b) (sb_id b)) (filter (\<lambda>b. sb_session b = sid \<and> \<not> sb_deleted b) (submissions db))"

definition list_current :: "uuid \<Rightarrow> uuid \<Rightarrow> 'z source_db_scheme \<Rightarrow> app_error + metadata_view list" where
  "list_current sid actor db =
     (case member_session db actor sid of
        None \<Rightarrow> Inl (TextSubmissionAccessError (u ''talk session is unavailable''))
      | Some s \<Rightarrow> map_result (submission_metadata db) (listed_submissions db sid))"

record text_anchor_view =
  ta_id :: uuid
  ta_revision :: uuid
  ta_payload :: "(ustr \<times> json) list"
  ta_quote :: ustr

definition anchor_from_row :: "anchor_row \<Rightarrow> app_error + text_anchor_view" where
  "anchor_from_row a =
     (case an_json a of
        JObj payload \<Rightarrow> and_then (text_column (an_text a) (u ''source anchor quote'')) (\<lambda>quote.
          Inr \<lparr>ta_id = an_id a, ta_revision = an_revision a, ta_payload = payload, ta_quote = quote\<rparr>)
      | _ \<Rightarrow> Inl (RuntimeErr (u ''persisted text anchor payload must be an object'')))"

record text_viewer =
  tv_revision :: uuid
  tv_submission :: uuid
  tv_filename :: ustr
  tv_mime :: ustr
  tv_size :: int
  tv_state :: revision_processing_state
  tv_text :: ustr
  tv_anchor :: "text_anchor_view option"

text \<open>The query joins the submission without looking at \<open>deleted_at\<close>.\<close>

definition get_viewer :: "uuid \<Rightarrow> uuid \<Rightarrow> uuid option \<Rightarrow> 'z source_db_scheme \<Rightarrow> app_error + text_viewer" where
  "get_viewer actor rid anchor db =
     (case member_revision db actor rid of
        None \<Rightarrow> Inl (TextSubmissionAccessError (u ''source revision is unavailable''))
      | Some (r, b, s) \<Rightarrow> (case file_of db rid of
          None \<Rightarrow> Inl (TextSubmissionAccessError (u ''source revision is unavailable''))
        | Some f \<Rightarrow> (case so_text f of
            None \<Rightarrow> Inl (TextViewerUnavailableError (u ''text source is unavailable''))
          | Some t \<Rightarrow>
              and_then (text_column (so_filename f) (u ''source filename'')) (\<lambda>name.
              and_then (text_column (so_mime f) (u ''source MIME type'')) (\<lambda>mime.
              require (mime = u ''text/plain'') (TextViewerUnavailableError (u ''text viewer only supports text/plain''))
              (and_then
                (case anchor of
                   None \<Rightarrow> Inr None
                 | Some i \<Rightarrow> (case find (\<lambda>a. an_id a = i \<and> an_revision a = rid) (anchors db) of
                      None \<Rightarrow> Inl (TextViewerUnavailableError (u ''source anchor is unavailable''))
                    | Some a \<Rightarrow> and_then (anchor_from_row a) (\<lambda>v. Inr (Some v))))
                (\<lambda>highlighted.
              Inr \<lparr>tv_revision = sr_id r, tv_submission = sr_submission r, tv_filename = name, tv_mime = mime, tv_size = so_size f,
                   tv_state = sr_state r, tv_text = t, tv_anchor = highlighted\<rparr>)))))))"

end
