(* ===== verification/File_Submissions.thy ===== *)
theory File_Submissions
  imports Text_Submissions Queue_Invariant
begin

text \<open>
  \<open>file_submission_service.py\<close>: uploads to the local blob store, downloads, previews and the retry of an extraction.

  \<^item> A byte is a \<open>nat\<close>, a stream the list of the chunks its \<open>read\<close> returns.  The blob store is a directory: its entries in the
    order \<open>iterdir\<close> gives them.  \<open>fsync\<close> and the Windows fallback have no effect on the modelled state.
  \<^item> Paths are POSIX paths.  \<open>lower\<close> is \<open>str.lower\<close>, \<open>nfc\<close> and \<open>sha256\<close> as in theory \<open>Text_Submissions\<close>.
  \<^item> An \<open>OSError\<close> other than a missing or an existing file does not happen.
\<close>

section \<open>Media types\<close>

record file_type =
  ft_extension :: ustr
  ft_media :: ustr
  ft_parser :: "ustr \<times> ustr"

definition make_type :: "string \<Rightarrow> string \<Rightarrow> string \<Rightarrow> string \<Rightarrow> file_type" where
  "make_type ext media name version = \<lparr>ft_extension = u ext, ft_media = u media, ft_parser = (u name, u version)\<rparr>"

definition docx_media :: string where
  "docx_media = ''application/vnd.openxmlformats-officedocument.wordprocessingml.document''"

definition pptx_media :: string where
  "pptx_media = ''application/vnd.openxmlformats-officedocument.presentationml.presentation''"

definition xlsx_media :: string where
  "xlsx_media = ''application/vnd.openxmlformats-officedocument.spreadsheetml.sheet''"

definition file_types :: "file_type list" where
  "file_types =
     [make_type ''.pdf'' ''application/pdf'' ''pypdfium2'' ''5.12.1'',
      make_type ''.png'' ''image/png'' ''pillow+tesseract-cli'' ''12.3.0+5.3.0'',
      make_type ''.jpg'' ''image/jpeg'' ''pillow+tesseract-cli'' ''12.3.0+5.3.0'',
      make_type ''.jpeg'' ''image/jpeg'' ''pillow+tesseract-cli'' ''12.3.0+5.3.0'',
      make_type ''.hwp'' ''application/x-hwp'' ''pyhwp'' ''0.1b15'',
      make_type ''.hwpx'' ''application/x-hwpx'' ''hwpxlib'' ''1.0.9'',
      make_type ''.txt'' ''text/plain'' ''builtin-utf8-text'' ''1.0.0'',
      make_type ''.docx'' docx_media ''stdlib-docx'' ''1.0.0'',
      make_type ''.pptx'' pptx_media ''libreoffice+pypdfium2+tesseract-cli'' ''1.0.0'',
      make_type ''.xlsx'' xlsx_media ''stdlib-xlsx'' ''1.0.0'']"

definition declared_media_types :: "(ustr \<times> ustr list) list" where
  "declared_media_types =
     map (\<lambda>(ext, media). (u ext, map u media))
     [(''.pdf'', [''application/pdf'', ''application/octet-stream'']),
      (''.png'', [''image/png'', ''application/octet-stream'']),
      (''.jpg'', [''image/jpeg'', ''application/octet-stream'']),
      (''.jpeg'', [''image/jpeg'', ''application/octet-stream'']),
      (''.hwp'', [''application/x-hwp'', ''application/haansofthwp'', ''application/vnd.hancom.hwp'', ''application/octet-stream'']),
      (''.hwpx'', [''application/x-hwpx'', ''application/haansofthwpx'', ''application/vnd.hancom.hwpx'', ''application/octet-stream'']),
      (''.txt'', [''text/plain'', ''text/markdown'', ''application/octet-stream'']),
      (''.docx'', [docx_media, ''application/haansoftdocx'', ''application/zip'', ''application/octet-stream'']),
      (''.pptx'', [pptx_media, ''application/haansoftpptx'', ''application/vnd.ms-powerpoint'', ''application/zip'', ''application/octet-stream'']),
      (''.xlsx'', [xlsx_media, ''application/haansoftxlsx'', ''application/vnd.ms-excel'', ''application/zip'', ''application/octet-stream''])]"

definition png_magic :: "nat list" where
  "png_magic = [137, 80, 78, 71, 13, 10, 26, 10]"

definition zip_magic :: "nat list \<Rightarrow> bool" where
  "zip_magic prefix \<longleftrightarrow> take 4 prefix = [80, 75, 3, 4] \<or> take 4 prefix = [80, 75, 5, 6]"

text \<open>The table of \<open>_require_magic\<close>; the media types of \<open>file_types\<close> are its keys.\<close>

definition magic_ok :: "ustr \<Rightarrow> nat list \<Rightarrow> bool" where
  "magic_ok media prefix \<longleftrightarrow>
     (if media = u ''application/pdf'' then take 5 prefix = [37, 80, 68, 70, 45]
      else if media = u ''image/png'' then take 8 prefix = png_magic
      else if media = u ''image/jpeg'' then take 3 prefix = [255, 216, 255]
      else if media = u ''application/x-hwp'' then take 8 prefix = [208, 207, 17, 224, 161, 177, 26, 225]
      else if media = u ''text/plain'' then 0 \<notin> set prefix
      else zip_magic prefix)"

definition require_magic :: "file_type \<Rightarrow> nat list \<Rightarrow> app_error + unit" where
  "require_magic t prefix =
     require (magic_ok (ft_media t) prefix)
       (FileSubmissionValidationError (u ''file content does not match its declared type'')) (Inr ())"

text \<open>\<open>_effective_file_type\<close>: PNG bytes under a JPEG name go to the PNG parser.\<close>

definition png_type :: file_type where
  "png_type = make_type ''.png'' ''image/png'' ''pillow+tesseract-cli'' ''12.3.0+5.3.0''"

definition effective_file_type :: "file_type \<Rightarrow> nat list \<Rightarrow> app_error + file_type" where
  "effective_file_type t prefix =
     (let t' = (if ft_media t = u ''image/jpeg'' \<and> take 8 prefix = png_magic then png_type else t)
      in and_then (require_magic t' prefix) (\<lambda>_. Inr t'))"

section \<open>Names\<close>

text \<open>\<open>Path(s).name\<close>: the last component that is not empty or a dot.\<close>

definition path_name :: "ustr \<Rightarrow> ustr" where
  "path_name s = (case rev (filter (\<lambda>c. c \<noteq> [] \<and> c \<noteq> [46]) (split_on 47 s)) of [] \<Rightarrow> [] | c # _ \<Rightarrow> c)"

text \<open>\<open>Path(s).suffix\<close>: from the last dot of the name on, unless that is its first or its last character.\<close>

definition path_suffix :: "ustr \<Rightarrow> ustr" where
  "path_suffix s =
     (let name = path_name s; tail = takeWhile (\<lambda>c. c \<noteq> 46) (rev name)
      in if tail = [] \<or> length name \<le> length tail + 1 then [] else 46 # rev tail)"

definition safe_filename :: "(ustr \<Rightarrow> ustr) \<Rightarrow> ustr \<Rightarrow> app_error + ustr" where
  "safe_filename nfc filename =
     (let name = nfc filename; bad = FileSubmissionValidationError (u ''filename must be a safe basename'') in
      require (name \<noteq> []) bad
      (case utf8 name of
         None \<Rightarrow> Inl (ValueError (u ''surrogates not allowed''))
       | Some b \<Rightarrow>
           require (length b \<le> 255 \<and> path_name name = name \<and> list_all (\<lambda>c. c \<notin> {47, 92, 0, 13, 10}) name \<and>
               name \<noteq> [46] \<and> name \<noteq> [46, 46]) bad (Inr name)))"

definition declared_file_type :: "(ustr \<Rightarrow> ustr) \<Rightarrow> ustr \<Rightarrow> ustr \<Rightarrow> app_error + file_type" where
  "declared_file_type lower filename mime =
     (let ext = lower (path_suffix filename);
          stripped = lower (py_strip mime);
          declared = (if stripped = [] then u ''application/octet-stream'' else stripped);
          unsupported = FileSubmissionValidationError (u ''file extension and media type are unsupported'') in
      case find (\<lambda>t. ft_extension t = ext) file_types of
        None \<Rightarrow> Inl unsupported
      | Some t \<Rightarrow> require (case map_of declared_media_types ext of None \<Rightarrow> False | Some ms \<Rightarrow> declared \<in> set ms) unsupported (Inr t))"

section \<open>The blob store\<close>

record blob_file =
  bf_bytes :: "nat list"
  bf_mtime :: int \<comment> \<open>seconds\<close>
  bf_regular :: bool \<comment> \<open>a regular file, and no symbolic link\<close>

type_synonym blob_store = "(ustr \<times> blob_file) list"

definition blob_get :: "blob_store \<Rightarrow> ustr \<Rightarrow> blob_file option" where
  "blob_get store name = map_of store name"

definition blob_remove :: "ustr \<Rightarrow> blob_store \<Rightarrow> blob_store" where
  "blob_remove name store = filter (\<lambda>kv. fst kv \<noteq> name) store"

text \<open>\<open>path_for\<close>, for a key that is no link to a directory outside the root.\<close>

definition path_for :: "ustr \<Rightarrow> app_error + ustr" where
  "path_for key =
     require (key \<noteq> [] \<and> path_name key = key \<and> list_all (\<lambda>c. c \<notin> {47, 92, 0}) key \<and> key \<noteq> [46, 46])
       (FileSubmissionError (u ''invalid blob key'')) (Inr key)"

definition temporary_name :: "uuid \<Rightarrow> ustr" where
  "temporary_name x = u ''.upload-'' @ hex_pad 32 (unat x) @ u ''.tmp''"

definition blob_key :: "uuid \<Rightarrow> ustr" where
  "blob_key rid = hex_pad 32 (unat rid) @ u ''.blob''"

text \<open>\<open>os.replace\<close>\<close>

definition commit_blob :: "ustr \<Rightarrow> uuid \<Rightarrow> blob_store \<Rightarrow> ustr \<times> blob_store" where
  "commit_blob temporary rid store =
     (let key = blob_key rid in
      case blob_get store temporary of
        None \<Rightarrow> (key, store)
      | Some f \<Rightarrow> (key, (key, f) # blob_remove key (blob_remove temporary store)))"

text \<open>\<open>open_regular\<close> with the whole content read.\<close>

definition open_regular :: "(nat list \<Rightarrow> ustr) \<Rightarrow> blob_store \<Rightarrow> ustr \<Rightarrow> int \<Rightarrow> ustr \<Rightarrow> app_error + nat list" where
  "open_regular sha256 store key sz sha =
     and_then (path_for key) (\<lambda>name. case blob_get store name of
        None \<Rightarrow> Inl (OSErr (u ''No such file or directory''))
      | Some f \<Rightarrow>
          require (bf_regular f) (FileSubmissionError (u ''stored source is not a regular file''))
          (require (int (length (bf_bytes f)) = sz) (FileSubmissionError (u ''stored source integrity check failed''))
          (require (sha256 (bf_bytes f) = sha) (FileSubmissionError (u ''stored source integrity check failed''))
            (Inr (bf_bytes f)))))"

definition orphan_minimum_age :: int where
  "orphan_minimum_age = 24 * 60 * 60"

text \<open>The file is swept: it looks like a blob or an upload, is old, regular and not referenced.\<close>

definition ustr_endswith :: "ustr \<Rightarrow> ustr \<Rightarrow> bool" where
  "ustr_endswith p s \<longleftrightarrow> ustr_startswith (rev p) (rev s)"

definition is_orphan :: "int \<Rightarrow> ustr list \<Rightarrow> ustr \<times> blob_file \<Rightarrow> bool" where
  "is_orphan cutoff referenced entry =
     (case entry of (name, f) \<Rightarrow>
        (ustr_startswith (u ''.upload-'') name \<and> ustr_endswith (u ''.tmp'') name \<or> ustr_endswith (u ''.blob'') name) \<and>
        \<not> (\<not> bf_regular f \<or> bf_mtime f > cutoff \<or> name \<in> set referenced))"

definition sweep_orphans :: "int \<Rightarrow> int \<Rightarrow> 'z source_db_scheme \<Rightarrow> blob_store \<Rightarrow> app_error + nat \<times> blob_store" where
  "sweep_orphans minimum_age now db store =
     require (minimum_age \<ge> orphan_minimum_age) (ValueError (u ''orphan minimum age must be at least 24 hours''))
     (let referenced = concat (map (\<lambda>s. case so_key s of None \<Rightarrow> [] | Some k \<Rightarrow> [k]) (source_files db));
          swept = is_orphan (now - minimum_age) referenced
      in Inr (length (filter swept store), filter (\<lambda>e. \<not> swept e) store))"

section \<open>Upload\<close>

definition max_file_bytes :: int where
  "max_file_bytes = 200 * 1024 * 1024"

definition check_content_length :: "int option \<Rightarrow> app_error + unit" where
  "check_content_length len =
     (case len of
        None \<Rightarrow> Inr ()
      | Some n \<Rightarrow>
          if n < 1 \<or> n > max_file_bytes
          then (if n > max_file_bytes then Inl (FileSubmissionLimitError (u ''file exceeds the upload limit''))
                else Inl (FileSubmissionValidationError (u ''file size is invalid'')))
          else Inr ())"

text \<open>The reading loop: an empty chunk ends the stream; what was written before a failure stays in the file.\<close>

fun read_chunks :: "nat list list \<Rightarrow> nat list \<Rightarrow> (app_error + unit) \<times> nat list" where
  "read_chunks [] written = (Inr (), written)"
| "read_chunks (chunk # rest) written =
     (if chunk = [] then (Inr (), written)
      else if int (length written + length chunk) > max_file_bytes
      then (Inl (FileSubmissionLimitError (u ''file exceeds the upload limit'')), written)
      else read_chunks rest (written @ chunk))"

text \<open>\<open>_stream_to_file\<close>: what happened, and the bytes of the temporary file when one was created.\<close>

definition stream_to_file :: "nat list list \<Rightarrow> int option \<Rightarrow> (app_error + nat list) \<times> nat list option" where
  "stream_to_file chunks content_length =
     (case check_content_length content_length of
        Inl e \<Rightarrow> (Inl e, None)
      | Inr _ \<Rightarrow>
          let (r, written) = read_chunks chunks [] in
          (and_then r (\<lambda>_. require (written \<noteq> [] \<and> (case content_length of None \<Rightarrow> True | Some n \<Rightarrow> int (length written) = n))
              (FileSubmissionValidationError (u ''file size does not match the upload'')) (Inr written)), Some written))"

record file_draws =
  fd_temporary :: uuid
  fd_submission :: uuid
  fd_revision :: uuid
  fd_job :: uuid
  fd_now :: int \<comment> \<open>\<open>created_at\<close> of the rows\<close>
  fd_mtime :: int \<comment> \<open>of the written file, in seconds\<close>
  fd_event :: activity_draws

definition extraction_key :: "uuid \<Rightarrow> ustr" where
  "extraction_key rid = u ''extraction:'' @ uuid_text rid"

definition extraction_payload :: "uuid \<Rightarrow> file_type \<Rightarrow> (ustr \<times> json) list" where
  "extraction_payload rid t =
     [(u ''revision_id'', JStr (uuid_text rid)), (u ''media_type'', JStr (ft_media t)),
      (u ''parser'', JObj [(u ''name'', JStr (fst (ft_parser t))), (u ''version'', JStr (snd (ft_parser t)))])]"

definition file_revision :: "file_draws \<Rightarrow> revision_row" where
  "file_revision d =
     \<lparr>sr_id = fd_revision d, sr_submission = fd_submission d, sr_number = 1, sr_state = R_QUEUED, sr_approved = None, sr_current = True\<rparr>"

definition file_source :: "file_draws \<Rightarrow> ustr \<Rightarrow> ustr \<Rightarrow> nat \<Rightarrow> ustr \<Rightarrow> source_row" where
  "file_source d name media sz sha =
     \<lparr>so_revision = fd_revision d, so_filename = name, so_mime = media, so_size = int sz, so_sha = sha, so_text = None,
      so_key = Some (blob_key (fd_revision d))\<rparr>"

text \<open>
  The transaction, without the blob: \<open>commit\<close> runs in it once the session has been checked.  \<open>enqueue\<close> opens a savepoint in
  the transaction; its exception ends both.
\<close>

definition submit_file_body ::
  "file_draws \<Rightarrow> uuid \<Rightarrow> uuid \<Rightarrow> ustr \<Rightarrow> ustr \<Rightarrow> file_type \<Rightarrow> nat \<Rightarrow> ustr \<Rightarrow> 'z source_db_scheme \<Rightarrow> app_error + submission_view \<times> 'z source_db_scheme" where
  "submit_file_body d sid actor name title t sz sha db =
     and_then (open_member_session FileSubmissionAccessError FileSubmissionStateError db sid actor) (\<lambda>room.
     and_then (insert_submission \<lparr>sb_id = fd_submission d, sb_session = sid, sb_author = actor, sb_title = title,
         sb_created_at = fd_now d, sb_deleted = False\<rparr> K_FILE db) (\<lambda>db1.
     and_then (insert_revision (file_revision d) (file_source d name (ft_media t) sz sha) db1) (\<lambda>db2.
     let queued = enqueue (fd_job d) (fd_now d) (extraction_key (fd_revision d)) (u ''extraction'')
           (extraction_payload (fd_revision d) t) None db2 in
     and_then (fst queued) (\<lambda>_.
         and_then (record_event (fd_event d) (u ''submission.created'')
           [(''submission_id'', IUuid (fd_submission d)), (''revision_no'', IInt 1)] actor SC_SESSION None (Some room) (Some sid)
           (u ''submission'') (fd_submission d)
           [(Some (u ''kind''), MStr (u ''file'')), (Some (u ''revision_no''), MInt 1), (Some (u ''media_type''), MStr (ft_media t)),
            (Some (u ''byte_size''), MInt (int sz))] [] (snd queued)) (\<lambda>db4.
         Inr (\<lparr>sv_id = fd_submission d, sv_session = sid, sv_author = actor, sv_kind = K_FILE, sv_title = title,
               sv_current = fd_revision d, sv_state = R_QUEUED\<rparr>, db4))))))"

text \<open>The checks before the blob is committed.\<close>

definition file_slot :: "'z source_db_scheme \<Rightarrow> uuid \<Rightarrow> uuid \<Rightarrow> app_error + unit" where
  "file_slot db sid actor =
     and_then (open_member_session FileSubmissionAccessError FileSubmissionStateError db sid actor) (\<lambda>_.
     require (\<not> current_revision_count db sid \<ge> 20) (FileSubmissionLimitError (u ''current revision limit reached'')) (Inr ()))"

definition submit_file ::
  "(nat list \<Rightarrow> ustr) \<Rightarrow> (ustr \<Rightarrow> ustr) \<Rightarrow> (ustr \<Rightarrow> ustr) \<Rightarrow> file_draws \<Rightarrow> uuid \<Rightarrow> uuid \<Rightarrow> ustr \<Rightarrow> ustr \<Rightarrow> nat list list \<Rightarrow> int option \<Rightarrow> ustr \<Rightarrow>
   'z source_db_scheme \<Rightarrow> blob_store \<Rightarrow> (app_error + submission_view) \<times> 'z source_db_scheme \<times> blob_store" where
  "submit_file sha256 nfc lower d sid actor filename declared chunks content_length title db store =
     (case and_then (safe_filename nfc filename) (\<lambda>name. and_then (validated_title nfc title) (\<lambda>ti.
           and_then (declared_file_type lower name declared) (\<lambda>t. Inr (name, ti, t)))) of
        Inl e \<Rightarrow> (Inl e, db, store)
      | Inr (name, ti, t) \<Rightarrow>
          let tmp = temporary_name (fd_temporary d);
              (r, file) = stream_to_file chunks content_length;
              store1 = (case file of None \<Rightarrow> store
                 | Some bytes \<Rightarrow> (tmp, \<lparr>bf_bytes = bytes, bf_mtime = fd_mtime d, bf_regular = True\<rparr>) # store) in
          case and_then r (\<lambda>bytes. and_then (effective_file_type t (take 16 bytes)) (\<lambda>t'.
               and_then (file_slot db sid actor) (\<lambda>_. Inr (bytes, t')))) of
            Inl e \<Rightarrow> (Inl e, db, blob_remove tmp store1)
          | Inr (bytes, t') \<Rightarrow>
              let (key, store2) = commit_blob tmp (fd_revision d) store1 in
              case submit_file_body d sid actor name ti t' (length bytes) (sha256 bytes) db of
                Inl e \<Rightarrow> (Inl e, db, blob_remove key store2)
              | Inr (v, db') \<Rightarrow> (Inr v, db', store2))"

section \<open>Downloads\<close>

text \<open>The query of every access to a file: the member's file revisions of submissions that are not deleted.\<close>

definition member_file :: "'z source_db_scheme \<Rightarrow> uuid \<Rightarrow> uuid \<Rightarrow> (revision_row \<times> submission_row \<times> session_row) option" where
  "member_file db actor rid =
     (case member_revision db actor rid of
        None \<Rightarrow> None
      | Some (r, b, s) \<Rightarrow> if kind_of db (sb_id b) = Some K_FILE \<and> \<not> sb_deleted b then Some (r, b, s) else None)"

definition unavailable_source :: app_error where
  "unavailable_source = FileSubmissionAccessError (u ''source revision is unavailable'')"

record original_download =
  od_filename :: ustr
  od_mime :: ustr
  od_size :: int
  od_key :: ustr
  od_sha :: ustr

definition download_original :: "uuid \<Rightarrow> uuid \<Rightarrow> 'z source_db_scheme \<Rightarrow> app_error + original_download" where
  "download_original rid actor db =
     (case (member_file db actor rid, file_of db rid) of
        (Some _, Some f) \<Rightarrow> (case so_key f of
           None \<Rightarrow> Inl unavailable_source
         | Some key \<Rightarrow> Inr \<lparr>od_filename = so_filename f, od_mime = so_mime f, od_size = so_size f, od_key = key, od_sha = so_sha f\<rparr>)
      | _ \<Rightarrow> Inl unavailable_source)"

definition read_chunk_bytes :: nat where
  "read_chunk_bytes = 64 * 1024"

text \<open>
  The generator of \<open>stream_original\<close>: every chunk is read after the access was checked on the committed state of that moment
  (\<open>moments\<close>, one per turn; the client stops asking where they end).  The result is what was yielded and the exception, if one
  ended the stream.
\<close>

fun yield_chunks :: "uuid \<Rightarrow> uuid \<Rightarrow> 'z source_db_scheme list \<Rightarrow> nat list \<Rightarrow> nat list list \<times> app_error option" where
  "yield_chunks rid actor [] bytes = ([], None)"
| "yield_chunks rid actor (db # moments) bytes =
     (if member_file db actor rid = None then ([], Some unavailable_source)
      else let chunk = take read_chunk_bytes bytes in
           if chunk = [] then ([], None)
           else let (chunks, e) = yield_chunks rid actor moments (drop read_chunk_bytes bytes) in (chunk # chunks, e))"

definition stream_original ::
  "(nat list \<Rightarrow> ustr) \<Rightarrow> blob_store \<Rightarrow> original_download \<Rightarrow> uuid \<Rightarrow> uuid \<Rightarrow> 'z source_db_scheme list \<Rightarrow> nat list list \<times> app_error option" where
  "stream_original sha256 store download rid actor moments =
     (case open_regular sha256 store (od_key download) (od_size download) (od_sha download) of
        Inl e \<Rightarrow> ([], Some e)
      | Inr bytes \<Rightarrow> yield_chunks rid actor moments bytes)"

section \<open>Previews\<close>

definition preview_max_blocks :: nat where
  "preview_max_blocks = 20"

definition preview_max_chars :: nat where
  "preview_max_chars = 4000"

definition preview_blocks :: "'z source_db_scheme \<Rightarrow> uuid \<Rightarrow> ustr list" where
  "preview_blocks db run = take preview_max_blocks (map an_text (sort_key an_ordinal (filter (\<lambda>a. an_run a = run) (anchors db))))"

text \<open>The text and whether it was cut.\<close>

definition preview_extracted_text :: "uuid \<Rightarrow> uuid \<Rightarrow> 'z source_db_scheme \<Rightarrow> app_error + ustr \<times> bool" where
  "preview_extracted_text rid actor db =
     (case member_file db actor rid of
        None \<Rightarrow> Inl unavailable_source
      | Some (r, b, s) \<Rightarrow> (case (sr_state r, sr_approved r) of
          (R_READY, Some run) \<Rightarrow>
            let text = ustr_join [10, 10] (preview_blocks db run)
            in Inr (take preview_max_chars text, length text > preview_max_chars)
        | _ \<Rightarrow> Inl (FileSubmissionStateError (u ''preview is not available yet''))))"

section \<open>Retrying an extraction\<close>

definition retry_job :: "int \<Rightarrow> job_row \<Rightarrow> job_row" where
  "retry_job now j = j\<lparr>j_state := J_PENDING, j_error := None, j_updated_at := now\<rparr>"

definition retry_extraction_body ::
  "activity_draws \<Rightarrow> uuid \<Rightarrow> int \<Rightarrow> uuid \<Rightarrow> uuid \<Rightarrow> (app_error, unit, 'z source_db_scheme) body" where
  "retry_extraction_body d nonce now rid actor db =
     (case member_file db actor rid of
        None \<Rightarrow> Inl unavailable_source
      | Some (r, b, s) \<Rightarrow>
          require (sr_state r = R_FAILED) (FileSubmissionStateError (u ''only a failed revision can be retried''))
          (let failed = (\<lambda>j. j_logical_key j = extraction_key rid \<and> j_state j = J_FAILED_TERMINAL) in
           require (hits failed (jobs db) \<noteq> 0) (FileSubmissionStateError (u ''extraction job is not retryable''))
           (let db1 = db\<lparr>jobs := update_rows failed (retry_job now) (jobs db),
                        revisions := update_rows (\<lambda>x. sr_id x = rid) (\<lambda>x. x\<lparr>sr_state := R_QUEUED\<rparr>) (revisions db)\<rparr> in
            and_then (record_event d (u ''source_revision.retry_requested'')
              [(''revision_id'', IUuid rid), (''retry_nonce'', IUuid nonce)] actor SC_SESSION None (Some (ts_room s))
              (Some (sb_session b)) (u ''source_revision'') rid [] [] db1) (\<lambda>db2. Inr ((), db2)))))"

definition retry_extraction ::
  "activity_draws \<Rightarrow> uuid \<Rightarrow> int \<Rightarrow> uuid \<Rightarrow> uuid \<Rightarrow> 'z source_db_scheme \<Rightarrow> (app_error + unit) \<times> 'z source_db_scheme" where
  "retry_extraction d nonce now rid actor db = transaction (retry_extraction_body d nonce now rid actor) db"

end
