(* ===== verification/File_Properties.thy ===== *)
theory File_Properties
  imports File_Submissions System Comments_Properties
begin

text \<open>
  Properties of file submissions: an upload is all or nothing, what was uploaded is what members download, a member whose
  access ends gets no further chunk, and the sweep of the blob store never touches a file a revision refers to.
\<close>

section \<open>Lookups in the split tables\<close>

text \<open>The columns in the tables beside \<open>submissions\<close> and \<open>source_revisions\<close> belong to their rows, and a revision to a submission.\<close>

definition columns_aligned :: "'z source_db_scheme \<Rightarrow> bool" where
  "columns_aligned db \<longleftrightarrow>
     map sk_submission (kinds db) = map sb_id (submissions db) \<and> map so_revision (source_files db) = map sr_id (revisions db) \<and>
     sr_submission ` set (revisions db) \<subseteq> sb_id ` set (submissions db)"

lemma frame_source:
  fixes db :: "'z source_db_scheme"
  assumes "activity_frame db db'"
  shows "kinds db' = kinds db" "source_files db' = source_files db" "extraction_keys db' = extraction_keys db"
    "anchor_hashes db' = anchor_hashes db"
  using assms by (auto simp: activity_frame_def)

lemma queue_only_source:
  fixes db :: "'z source_db_scheme"
  assumes "queue_only db db'"
  shows "kinds db' = kinds db" "source_files db' = source_files db" "submissions db' = submissions db" "revisions db' = revisions db"
    "sessions db' = sessions db" "memberships db' = memberships db" "anchors db' = anchors db" "extractions db' = extractions db"
  using assms by (auto simp: queue_only_def)

lemma same_members:
  "sessions db' = sessions db \<Longrightarrow> memberships db' = memberships db \<Longrightarrow> member_session db' actor sid = member_session db actor sid"
  by (simp add: member_session_def find_session_def is_member_def split: option.split)

section \<open>Keys and files\<close>

lemma path_name_no_slash: "47 \<notin> set s \<Longrightarrow> s \<noteq> [] \<Longrightarrow> s \<noteq> [46] \<Longrightarrow> path_name s = s"
  by (simp add: path_name_def split_on_no)

lemma blob_key_ok: "path_for (blob_key rid) = Inr (blob_key rid)"
proof -
  have hex: "c \<noteq> 47 \<and> c \<noteq> 92 \<and> c \<noteq> 0" if "c \<in> set (hex_pad 32 (unat rid))" for c
    using set_hex_pad [OF that] by (auto simp: hex_char_def split: if_splits)
  then have "47 \<notin> set (blob_key rid)" "list_all (\<lambda>c. c \<notin> {47, 92, 0}) (blob_key rid)" by (auto simp: blob_key_def list_all_iff)
  moreover have "length (blob_key rid) = 37" by (simp add: blob_key_def)
  then have "blob_key rid \<noteq> []" "blob_key rid \<noteq> [46]" "blob_key rid \<noteq> [46, 46]" by auto
  ultimately show ?thesis by (simp add: path_for_def path_name_no_slash)
qed

lemma blob_get_other: "k \<noteq> name \<Longrightarrow> blob_get (blob_remove name store) k = blob_get store k"
  by (induction store) (auto simp: blob_get_def blob_remove_def)

lemma blob_get_removed: "blob_get (blob_remove name store) name = None"
  by (induction store) (auto simp: blob_get_def blob_remove_def)

lemma blob_get_Cons: "blob_get ((k, f) # store) name = (if name = k then Some f else blob_get store name)"
  by (simp add: blob_get_def)

lemma blob_get_commit:
  assumes "name \<noteq> blob_key rid"
  shows "blob_get (snd (commit_blob tmp rid store)) name = (if name = tmp then None else blob_get store name)"
  using assms unfolding commit_blob_def Let_def
  by (cases "blob_get store tmp") (auto simp: blob_get_Cons blob_get_other blob_get_removed)

lemma read_chunks_written: "read_chunks chunks w = (Inr x, written) \<Longrightarrow> written = w @ concat (takeWhile (\<lambda>c. c \<noteq> []) chunks)"
  by (induction chunks w rule: read_chunks.induct) (auto split: if_splits)

lemma stream_to_file_Inr:
  "stream_to_file chunks len = (Inr bytes, file) \<Longrightarrow>
     file = Some bytes \<and> bytes = concat (takeWhile (\<lambda>c. c \<noteq> []) chunks) \<and> bytes \<noteq> [] \<and>
     (case len of None \<Rightarrow> True | Some n \<Rightarrow> int (length bytes) = n)"
  by (auto simp: stream_to_file_def and_then_Inr dest: read_chunks_written split: sum.splits prod.splits)

section \<open>Uploads\<close>

text \<open>The rows a successful upload adds.\<close>

lemma submit_file_body_Inr:
  assumes "submit_file_body d sid actor name title t sz sha db = Inr (v, db')"
  obtains s b where "member_session db actor sid = Some s" "ts_state s = OPEN" "fresh sr_id (file_revision d) (revisions db)"
    "fresh sb_id b (submissions db)" "b = \<lparr>sb_id = fd_submission d, sb_session = sid, sb_author = actor, sb_title = title,
       sb_created_at = fd_now d, sb_deleted = False\<rparr>"
    "revisions db' = revisions db @ [file_revision d]" "submissions db' = submissions db @ [b]"
    "kinds db' = kinds db @ [\<lparr>sk_submission = fd_submission d, sk_kind = K_FILE\<rparr>]"
    "source_files db' = source_files db @ [file_source d name (ft_media t) sz sha]"
    "sessions db' = sessions db" "memberships db' = memberships db"
    "v = \<lparr>sv_id = fd_submission d, sv_session = sid, sv_author = actor, sv_kind = K_FILE, sv_title = title,
          sv_current = fd_revision d, sv_state = R_QUEUED\<rparr>"
proof -
  from assms obtain room db1 db2 db3 where
    o: "open_member_session FileSubmissionAccessError FileSubmissionStateError db sid actor = Inr room"
    and s: "insert_submission \<lparr>sb_id = fd_submission d, sb_session = sid, sb_author = actor, sb_title = title,
         sb_created_at = fd_now d, sb_deleted = False\<rparr> K_FILE db = Inr db1"
    and r: "insert_revision (file_revision d) (file_source d name (ft_media t) sz sha) db1 = Inr db2"
    and q: "db3 = snd (enqueue (fd_job d) (fd_now d) (extraction_key (fd_revision d)) (u ''extraction'') (extraction_payload (fd_revision d) t) None db2)"
    and e: "activity_frame db3 db'"
    and v: "v = \<lparr>sv_id = fd_submission d, sv_session = sid, sv_author = actor, sv_kind = K_FILE, sv_title = title,
          sv_current = fd_revision d, sv_state = R_QUEUED\<rparr>"
    unfolding submit_file_body_def by (auto simp: and_then_Inr Let_def simp del: u_simps dest!: record_event_frame)
  obtain sess where sess: "member_session db actor sid = Some sess" "ts_state sess = OPEN"
    using o by (auto simp: open_member_session_def split: option.splits)
  have "queue_only db2 db3" using enqueue_queue_only q by simp
  note frame = queue_only_source [OF this] frame_source [OF e] frame_same [OF e]
  show ?thesis
    by (rule that [OF sess _ _ refl]) (use s r v in \<open>auto simp: frame insert_submission_def insert_revision_def\<close>)
qed

lemma submit_file_Inr:
  assumes "submit_file sha256 nfc lower d sid actor filename declared chunks len title db store = (Inr v, db', store')"
  obtains name ti t bytes where "submit_file_body d sid actor name ti t (length bytes) (sha256 bytes) db = Inr (v, db')"
    "bytes = concat (takeWhile (\<lambda>c. c \<noteq> []) chunks)" "safe_filename nfc filename = Inr name"
    "bytes \<noteq> []" "magic_ok (ft_media t) (take 16 bytes)" "current_revision_count db sid < 20"
    "blob_get store' (blob_key (fd_revision d)) = Some \<lparr>bf_bytes = bytes, bf_mtime = fd_mtime d, bf_regular = True\<rparr>"
proof -
  obtain name ti t0 where pre: "safe_filename nfc filename = Inr name" "validated_title nfc title = Inr ti" "declared_file_type lower name declared = Inr t0"
    using assms unfolding submit_file_def by (auto simp: and_then_Inr split: sum.split_asm)
  let ?tmp = "temporary_name (fd_temporary d)"
  obtain r fl where st: "stream_to_file chunks len = (r, fl)" by (cases "stream_to_file chunks len")
  obtain bytes where r: "r = Inr bytes" using assms pre st unfolding submit_file_def by (cases r) (auto simp: Let_def)
  have f: "fl = Some bytes" "bytes = concat (takeWhile (\<lambda>c. c \<noteq> []) chunks)" "bytes \<noteq> []" using stream_to_file_Inr st r by blast+
  let ?store1 = "(?tmp, \<lparr>bf_bytes = bytes, bf_mtime = fd_mtime d, bf_regular = True\<rparr>) # store"
  obtain t where t: "effective_file_type t0 (take 16 bytes) = Inr t" "file_slot db sid actor = Inr ()"
      "submit_file_body d sid actor name ti t (length bytes) (sha256 bytes) db = Inr (v, db')" "store' = snd (commit_blob ?tmp (fd_revision d) ?store1)"
    using assms pre st r f(1) unfolding submit_file_def
    by (auto simp: Let_def and_then_Inr split: sum.split_asm prod.split_asm)
  have "blob_get store' (blob_key (fd_revision d)) = Some \<lparr>bf_bytes = bytes, bf_mtime = fd_mtime d, bf_regular = True\<rparr>"
    unfolding t(4) commit_blob_def Let_def by (simp add: blob_get_def)
  then show ?thesis
    using that [OF t(3) f(2) pre(1) f(3)] t(1,2) by (auto simp: effective_file_type_def require_magic_def file_slot_def and_then_Inr Let_def)
qed

text \<open>
  C25: what was uploaded is what is downloaded.  After an upload has succeeded, every current member of the session's room is
  handed a download of the new revision whose file passes the size and hash check and has exactly the bytes of the stream up
  to its first empty chunk, and the revision was within the session's limit of twenty.
\<close>

theorem upload_is_downloaded:
  assumes "submit_file sha256 nfc lower d sid actor filename declared chunks len title db store = (Inr v, db', store')"
    and "columns_aligned db" and "member_session db reader sid \<noteq> None"
  shows "\<exists>dl. download_original (sv_current v) reader db' = Inr dl \<and>
    open_regular sha256 store' (od_key dl) (od_size dl) (od_sha dl) = Inr (concat (takeWhile (\<lambda>c. c \<noteq> []) chunks)) \<and>
    current_revision_count db' sid = current_revision_count db sid + 1 \<and> current_revision_count db' sid \<le> 20"
proof -
  obtain name ti t bytes where f: "submit_file_body d sid actor name ti t (length bytes) (sha256 bytes) db = Inr (v, db')"
    "bytes = concat (takeWhile (\<lambda>c. c \<noteq> []) chunks)" "current_revision_count db sid < 20"
    "blob_get store' (blob_key (fd_revision d)) = Some \<lparr>bf_bytes = bytes, bf_mtime = fd_mtime d, bf_regular = True\<rparr>"
    using submit_file_Inr [OF assms(1)] by metis
  show ?thesis using f(1)
  proof (rule submit_file_body_Inr)
    fix s b
    let ?b = "\<lparr>sb_id = fd_submission d, sb_session = sid, sb_author = actor, sb_title = ti, sb_created_at = fd_now d, sb_deleted = False\<rparr>"
    assume a: "fresh sr_id (file_revision d) (revisions db)" "fresh sb_id b (submissions db)" "b = ?b"
      "revisions db' = revisions db @ [file_revision d]" "submissions db' = submissions db @ [b]"
      "kinds db' = kinds db @ [\<lparr>sk_submission = fd_submission d, sk_kind = K_FILE\<rparr>]"
      "source_files db' = source_files db @ [file_source d name (ft_media t) (length bytes) (sha256 bytes)]"
      "sessions db' = sessions db" "memberships db' = memberships db"
      "v = \<lparr>sv_id = fd_submission d, sv_session = sid, sv_author = actor, sv_kind = K_FILE, sv_title = ti,
          sv_current = fd_revision d, sv_state = R_QUEUED\<rparr>"
    have new: "fd_revision d \<notin> sr_id ` set (revisions db)" "fd_submission d \<notin> sb_id ` set (submissions db)"
      using a(1-3) by (auto simp: fresh_def file_revision_def)
    have "find (\<lambda>r. sr_id r = fd_revision d) (revisions db') = Some (file_revision d)"
      unfolding a(4) by (rule find_snoc_fresh [where key = sr_id, OF a(1)]) (simp add: file_revision_def)
    moreover have "find (\<lambda>x. sb_id x = fd_submission d) (submissions db') = Some ?b"
      unfolding a(5,3) by (rule find_snoc_fresh [where key = sb_id]) (use a(2,3) in simp_all)
    moreover obtain s' where "member_session db' reader sid = Some s'" using assms(3) same_members [OF a(8,9)] by auto
    ultimately have m: "member_revision db' reader (fd_revision d) = Some (file_revision d, ?b, s')"
      by (simp add: member_revision_def file_revision_def)
    have "set (map sk_submission (kinds db)) = sb_id ` set (submissions db)" "set (map so_revision (source_files db)) = sr_id ` set (revisions db)"
      using assms(2) unfolding columns_aligned_def by (metis set_map)+
    then have al: "fresh sk_submission \<lparr>sk_submission = fd_submission d, sk_kind = K_FILE\<rparr> (kinds db)"
        "fresh so_revision (file_source d name (ft_media t) (length bytes) (sha256 bytes)) (source_files db)"
      using new by (simp_all add: fresh_def file_source_def)
    have k: "kind_of db' (fd_submission d) = Some K_FILE"
      unfolding kind_of_def a(6) by (subst find_snoc_fresh [where key = sk_submission, OF al(1)]) simp_all
    have o: "file_of db' (fd_revision d) = Some (file_source d name (ft_media t) (length bytes) (sha256 bytes))"
      unfolding file_of_def a(7) by (rule find_snoc_fresh [where key = so_revision, OF al(2)]) (simp add: file_source_def)
    have "member_file db' reader (fd_revision d) = Some (file_revision d, ?b, s')" using m k by (simp add: member_file_def)
    then have dl: "download_original (fd_revision d) reader db' = Inr \<lparr>od_filename = name, od_mime = ft_media t, od_size = int (length bytes),
        od_key = blob_key (fd_revision d), od_sha = sha256 bytes\<rparr>"
      using o by (simp add: download_original_def file_source_def)
    have "hits (\<lambda>r. sr_current r \<and> list_ex (\<lambda>b. sb_id b = sr_submission r \<and> sb_session b = sid) (submissions db')) (revisions db) =
        current_revision_count db sid"
      unfolding current_revision_count_def hits_def using new(2) assms(2) a(3)
      by (intro arg_cong [where f = length] filter_cong refl) (auto simp: a(5) columns_aligned_def)
    then have "current_revision_count db' sid = current_revision_count db sid + 1"
      unfolding current_revision_count_def a(4) by (simp add: a(3,5) file_revision_def)
    then show ?thesis using dl f(3) blob_key_ok [of "fd_revision d"]
      by (simp add: a(10) open_regular_def f(4) f(2) [symmetric])
  qed
qed

text \<open>
  C26: an upload that fails leaves no trace.  Whatever makes it fail - its name, its type, its size or content, the session's
  state or limit, a constraint of the database - the database is what it was, and so is every file of the blob store but
  the upload's own two, of which none was written.
\<close>

theorem failed_upload_leaves_no_trace:
  assumes "submit_file sha256 nfc lower d sid actor filename declared chunks len title db store = (Inl e, db', store')"
  shows "db' = db \<and> (\<forall>name. blob_get store' name = blob_get store name \<or>
    name \<in> {temporary_name (fd_temporary d), blob_key (fd_revision d)} \<and> blob_get store' name = None)"
proof -
  let ?tmp = "temporary_name (fd_temporary d)" and ?key = "blob_key (fd_revision d)"
  obtain r fl where st: "stream_to_file chunks len = (r, fl)" by (cases "stream_to_file chunks len")
  let ?store1 = "case fl of None \<Rightarrow> store | Some bytes \<Rightarrow> (?tmp, \<lparr>bf_bytes = bytes, bf_mtime = fd_mtime d, bf_regular = True\<rparr>) # store"
  have one: "blob_get ?store1 name = blob_get store name \<or> name = ?tmp" for name by (auto simp: blob_get_def split: option.splits)
  have "db' = db \<and> (store' = store \<or> store' = blob_remove ?tmp ?store1 \<or> store' = blob_remove ?key (snd (commit_blob ?tmp (fd_revision d) ?store1)))"
    using assms st unfolding submit_file_def by (auto simp: Let_def commit_blob_def split: sum.split_asm prod.split_asm option.split_asm)
  then show ?thesis
  proof (elim conjE disjE)
    assume "db' = db" "store' = blob_remove ?tmp ?store1"
    then show ?thesis using one blob_get_other blob_get_removed by (metis insert_iff)
  next
    assume d: "db' = db" and s: "store' = blob_remove ?key (snd (commit_blob ?tmp (fd_revision d) ?store1))"
    have "blob_get store' name = (if name = ?key \<or> name = ?tmp then None else blob_get ?store1 name)" for name
      using blob_get_commit [of name "fd_revision d" ?tmp ?store1] blob_get_removed [of ?key] blob_get_other [of name ?key]
      unfolding s by (cases "name = ?key") auto
    then show ?thesis using d one by (metis insert_iff)
  qed simp
qed

section \<open>Downloads\<close>

lemma yield_chunks_prefix:
  "yield_chunks rid actor moments bytes = (chunks, e) \<Longrightarrow>
     (\<exists>rest. bytes = concat chunks @ rest) \<and>
     length chunks \<le> length (takeWhile (\<lambda>db. member_file db actor rid \<noteq> None) moments)"
proof (induction rid actor moments bytes arbitrary: chunks e rule: yield_chunks.induct)
  case (2 rid actor db moments bytes)
  show ?case
  proof (cases "member_file db actor rid = None \<or> take read_chunk_bytes bytes = []")
    case False
    obtain cs x where y: "yield_chunks rid actor moments (drop read_chunk_bytes bytes) = (cs, x)" by fastforce
    then have c: "chunks = take read_chunk_bytes bytes # cs" using "2.prems" False unfolding yield_chunks.simps Let_def y by (auto simp del: take_eq_Nil)
    obtain rest where rest: "drop read_chunk_bytes bytes = concat cs @ rest"
        "length cs \<le> length (takeWhile (\<lambda>db. member_file db actor rid \<noteq> None) moments)"
      using "2.IH" [OF _ refl _ y] False by (metis (no_types, lifting))
    have "bytes = concat chunks @ rest" using append_take_drop_id [of read_chunk_bytes bytes] rest(1) by (simp add: c)
    then show ?thesis using c rest(2) False by auto
  qed (use "2.prems" in \<open>auto simp: Let_def split: if_splits prod.split_asm\<close>)
qed simp

lemma yield_chunks_complete:
  assumes "\<forall>db \<in> set moments. member_file db actor rid \<noteq> None" "length bytes \<le> length moments * read_chunk_bytes"
  shows "\<exists>chunks. yield_chunks rid actor moments bytes = (chunks, None) \<and> concat chunks = bytes"
  using assms
proof (induction rid actor moments bytes rule: yield_chunks.induct)
  case (2 rid actor db moments bytes)
  show ?case
  proof (cases "take read_chunk_bytes bytes = []")
    case True
    then show ?thesis using "2.prems" by (auto simp: read_chunk_bytes_def)
  next
    case False
    have "length (drop read_chunk_bytes bytes) \<le> length moments * read_chunk_bytes" using "2.prems"(2) by simp
    then obtain cs where "yield_chunks rid actor moments (drop read_chunk_bytes bytes) = (cs, None)" "concat cs = drop read_chunk_bytes bytes"
      using "2.IH" "2.prems"(1) False by auto
    then show ?thesis using "2.prems"(1) False by (auto simp: Let_def)
  qed
qed simp

text \<open>
  A download ends where the access ends.  What is yielded is a prefix of the stored file, in order; each chunk was read
  while the reader was a member allowed to read it, so once the membership ended or the submission was deleted no further
  chunk is yielded; and when the access lasts, the whole file is.
\<close>

theorem download_ends_with_access:
  assumes "stream_original sha256 store dl rid actor moments = (chunks, e)"
    and "open_regular sha256 store (od_key dl) (od_size dl) (od_sha dl) = Inr bytes"
  shows "(\<exists>rest. bytes = concat chunks @ rest) \<and>
    length chunks \<le> length (takeWhile (\<lambda>db. member_file db actor rid \<noteq> None) moments) \<and>
    ((\<forall>db \<in> set moments. member_file db actor rid \<noteq> None) \<and> length bytes \<le> length moments * read_chunk_bytes \<longrightarrow>
       concat chunks = bytes \<and> e = None)"
proof -
  have y: "yield_chunks rid actor moments bytes = (chunks, e)" using assms by (simp add: stream_original_def)
  show ?thesis using yield_chunks_prefix [OF y] yield_chunks_complete [of moments actor rid bytes] y by auto
qed

section \<open>The sweep\<close>

text \<open>
  The sweep never takes a source.  It removes only old regular files no revision refers to: every revision's file opens
  after it exactly as before, and it counts what it removed.
\<close>

theorem sweep_keeps_sources:
  assumes "sweep_orphans age now db store = Inr (n, store')" and "s \<in> set (source_files db)" and "so_key s = Some key"
  shows "open_regular sha256 store' key sz sha = open_regular sha256 store key sz sha \<and> n + length store' = length store \<and>
    24 * 60 * 60 \<le> age \<and> (\<forall>entry \<in> set store - set store'. bf_mtime (snd entry) \<le> now - age \<and> bf_regular (snd entry))"
proof -
  let ?refs = "concat (map (\<lambda>s. case so_key s of None \<Rightarrow> [] | Some k \<Rightarrow> [k]) (source_files db))"
  let ?swept = "is_orphan (now - age) ?refs"
  have st: "n = length (filter ?swept store)" "store' = filter (\<lambda>e. \<not> ?swept e) store" "orphan_minimum_age \<le> age"
    using assms(1) by (auto simp: sweep_orphans_def Let_def)
  have ref: "key \<in> set ?refs" using assms(2,3) by force
  then have "map_of (filter (\<lambda>e. \<not> ?swept e) st) key = map_of st key" for st
    by (induction st) (auto simp: is_orphan_def split: prod.splits)
  then have "open_regular sha256 store' key sz sha = open_regular sha256 store key sz sha"
    unfolding open_regular_def blob_get_def st(2) path_for_def by (auto simp: and_then_def require_def)
  moreover have "n + length store' = length store" unfolding st(1,2) by (rule sum_length_filter_compl)
  ultimately show ?thesis using st by (auto simp: is_orphan_def orphan_minimum_age_def split: prod.splits)
qed

section \<open>The properties at a concrete upload\<close>

definition sample_sources :: source_db where
  "sample_sources = platform_db.extend (sample_talk []) \<lparr>kinds = [], source_files = [], extraction_keys = [], anchor_hashes = []\<rparr>"

lemmas sources_eval = sample_sources_def sample_talk_def empty_db_def app_db.defs platform_db.defs

definition sample_fd :: file_draws where
  "sample_fd = \<lparr>fd_temporary = 20, fd_submission = 21, fd_revision = 22, fd_job = 23, fd_now = 7, fd_mtime = 7,
     fd_event = \<lparr>dr_event = 80, dr_notification = \<lambda>x. x, dr_outbox = \<lambda>x. x, dr_now = 7\<rparr>\<rparr>"

definition sample_digest :: "nat list \<Rightarrow> ustr" where
  "sample_digest bytes = replicate 64 48"

text \<open>\<open>a.txt\<close> with the two bytes of \<open>hi\<close>, in two chunks.\<close>

definition sample_upload :: "(app_error + submission_view) \<times> source_db \<times> blob_store" where
  "sample_upload = submit_file sample_digest (\<lambda>s. s) (\<lambda>s. s) sample_fd 4 5 (u ''a.txt'') (u ''text/plain'') [[104], [105], []] (Some 2)
     (u ''t'') sample_sources []"

lemma session_event:
  assumes t: "t \<in> set supported_event_types" and k: "build_event_key t (kwargs args) = Inr key" "1 \<le> length key" "length key \<le> 256"
    and m: "storable meta" and e: "1 \<le> length et" "length et \<le> 32" and db: "audit db = []"
    and s: "list_ex (\<lambda>s. ts_id s = sid \<and> ts_room s = room) (sessions db)"
  shows "\<exists>a. record_event d t args actor SC_SESSION None (Some room) (Some sid) et eid meta [] (db :: 'z platform_db_scheme) = Inr (db\<lparr>audit := a\<rparr>)"
proof -
  obtain j where j: "safe_audit_metadata meta = Inr j" "jsonb_size_at_most 4096 j" using m storable_obtain by blast
  show ?thesis
    using record_event_quiet [OF k(1) j(1) t refl, where db = db and d = d and actor = actor and scope = SC_SESSION and aud = None
        and room = "Some room" and sid = "Some sid" and et = et and eid = eid] j(2) t k(2,3) e db s
    by (auto simp: audit_checks_def new_audit_row_def scope_shape_def simp del: u_simps)
qed

lemma submission_types: "u ''submission.created'' \<in> set supported_event_types" "u ''submission.revised'' \<in> set supported_event_types"
  "u ''submission.deleted'' \<in> set supported_event_types"
  by (simp_all add: supported_event_types_def del: u_simps)

lemma created_key:
  "build_event_key (u ''submission.created'') (kwargs [(''submission_id'', IUuid x), (''revision_no'', IInt 1)]) =
     Inr (u ''submission:'' @ uuid_text x @ u '':revision:1:created'')"
proof -
  have "after_last_dot (u ''submission.created'') = u ''created''" by (simp add: after_last_dot_def)
  then have t: "event_template (u ''submission.created'') r =
      [Lit (u ''submission''), field ''submission_id'', Lit (u ''revision''), field ''revision_no'', Lit (u ''created'')]" for r
    by (simp add: event_template_def startswith_u del: u_simps)
  show ?thesis
    by (simp add: build_event_key_def submission_types t segment_text_def field_def kwargs_def del: u_simps)
      (simp add: ustr_join_def int_text_def dec_digits.simps)
qed

text \<open>The upload step by step.\<close>

lemma sample_upload_checks:
  "safe_filename (\<lambda>s. s) (u ''a.txt'') = Inr (u ''a.txt'')" "validated_title (\<lambda>s. s) (u ''t'') = Inr (u ''t'')"
  "declared_file_type (\<lambda>s. s) (u ''a.txt'') (u ''text/plain'') = Inr (make_type ''.txt'' ''text/plain'' ''builtin-utf8-text'' ''1.0.0'')"
  "stream_to_file [[104], [105], []] (Some 2) = (Inr [104, 105], Some [104, 105])"
  "effective_file_type (make_type ''.txt'' ''text/plain'' ''builtin-utf8-text'' ''1.0.0'') [104, 105] =
     Inr (make_type ''.txt'' ''text/plain'' ''builtin-utf8-text'' ''1.0.0'')"
  "file_slot sample_sources 4 5 = Inr ()"
proof -
  have ext: "path_suffix (u ''a.txt'') = u ''.txt''" by (simp add: path_suffix_def path_name_def)
  have strip: "py_strip (u ''text/plain'') = u ''text/plain''" by (simp add: py_strip_def py_lstrip_def py_rstrip_def py_isspace_def)
  have "find (\<lambda>t. ft_extension t = u ''.txt'') file_types = Some (make_type ''.txt'' ''text/plain'' ''builtin-utf8-text'' ''1.0.0'')"
    by (simp add: file_types_def make_type_def del: u_simps)
  moreover have "map_of declared_media_types (u ''.txt'') = Some (map u [''text/plain'', ''text/markdown'', ''application/octet-stream''])"
    by (simp add: declared_media_types_def del: u_simps)
  ultimately show "declared_file_type (\<lambda>s. s) (u ''a.txt'') (u ''text/plain'') = Inr (make_type ''.txt'' ''text/plain'' ''builtin-utf8-text'' ''1.0.0'')"
    by (simp add: declared_file_type_def ext strip del: u_simps) (simp add: u_def)
  show "safe_filename (\<lambda>s. s) (u ''a.txt'') = Inr (u ''a.txt'')"
    by (simp add: safe_filename_def utf8_char_def path_name_def)
  show "validated_title (\<lambda>s. s) (u ''t'') = Inr (u ''t'')"
    by (simp add: validated_title_def py_strip_def py_lstrip_def py_rstrip_def py_isspace_def)
  show "stream_to_file [[104], [105], []] (Some 2) = (Inr [104, 105], Some [104, 105])"
    by (simp add: stream_to_file_def check_content_length_def max_file_bytes_def)
  show "effective_file_type (make_type ''.txt'' ''text/plain'' ''builtin-utf8-text'' ''1.0.0'') [104, 105] =
     Inr (make_type ''.txt'' ''text/plain'' ''builtin-utf8-text'' ''1.0.0'')"
    by (simp add: effective_file_type_def require_magic_def magic_ok_def make_type_def del: u_simps)
  show "file_slot sample_sources 4 5 = Inr ()"
    by (simp add: file_slot_def open_member_session_def member_session_def find_session_def is_member_def current_revision_count_def
        sources_eval del: u_simps)
qed

lemma sample_upload_body:
  "\<exists>v db. submit_file_body sample_fd 4 5 (u ''a.txt'') (u ''t'') (make_type ''.txt'' ''text/plain'' ''builtin-utf8-text'' ''1.0.0'') 2
     (replicate 64 48) sample_sources = Inr (v, db) \<and> sv_current v = 22"
proof -
  let ?t = "make_type ''.txt'' ''text/plain'' ''builtin-utf8-text'' ''1.0.0''"
  let ?db2 = "sample_sources\<lparr>submissions := [\<lparr>sb_id = 21, sb_session = 4, sb_author = 5, sb_title = u ''t'', sb_created_at = 7, sb_deleted = False\<rparr>],
     kinds := [\<lparr>sk_submission = 21, sk_kind = K_FILE\<rparr>], revisions := [file_revision sample_fd],
     source_files := [file_source sample_fd (u ''a.txt'') (u ''text/plain'') 2 (replicate 64 48)]\<rparr>"
  let ?q = "enqueue 23 7 (extraction_key 22) (u ''extraction'') (extraction_payload 22 ?t) None ?db2"
  have enc: "\<exists>b. canonical_json_bytes (JObj (extraction_payload 22 ?t)) = Some b"
    by (rule encodable_bytes) (simp add: extraction_payload_def make_type_def del: u_simps)
  have key: "\<not> is_blank (extraction_key 22)" "length (extraction_key 22) = 47" "\<not> is_blank (u ''extraction'')"
    by (simp_all add: extraction_key_def text_simps)
  have q: "\<exists>j db. ?q = (Inr j, db) \<and> audit db = [] \<and> sessions db = sessions (sample_talk [])"
    using enc key by (auto simp: enqueue_def require_logical_key_def require_kind_def allowed_kinds_def transaction_def enqueue_body_def
        insert_job_if_new_def new_job_row_def durable_job_from_row_def as_nonempty_string_def sources_eval fresh_def simp del: u_simps)
  then obtain j db3 where q: "?q = (Inr j, db3)" "audit db3 = []" "sessions db3 = sessions (sample_talk [])" by blast
  have m: "storable [(Some (u ''kind''), MStr (u ''file'')), (Some (u ''revision_no''), MInt 1), (Some (u ''media_type''), MStr (u ''text/plain'')),
      (Some (u ''byte_size''), MInt 2)]" by (simp add: storable_def metadata_eval)
  have "\<exists>a. record_event (fd_event sample_fd) (u ''submission.created'') [(''submission_id'', IUuid 21), (''revision_no'', IInt 1)] 5 SC_SESSION
      None (Some 3) (Some 4) (u ''submission'') 21 [(Some (u ''kind''), MStr (u ''file'')), (Some (u ''revision_no''), MInt 1),
        (Some (u ''media_type''), MStr (u ''text/plain'')), (Some (u ''byte_size''), MInt 2)] [] db3 = Inr (db3\<lparr>audit := a\<rparr>)"
    by (rule session_event [OF submission_types(1) created_key _ _ m]) (simp_all add: q(2,3) talk_eval)
  then obtain a where e: "record_event (fd_event sample_fd) (u ''submission.created'') [(''submission_id'', IUuid 21), (''revision_no'', IInt 1)] 5
      SC_SESSION None (Some 3) (Some 4) (u ''submission'') 21 [(Some (u ''kind''), MStr (u ''file'')), (Some (u ''revision_no''), MInt 1),
        (Some (u ''media_type''), MStr (u ''text/plain'')), (Some (u ''byte_size''), MInt 2)] [] db3 = Inr (db3\<lparr>audit := a\<rparr>)" ..
  have o: "open_member_session FileSubmissionAccessError FileSubmissionStateError sample_sources 4 5 = Inr 3"
    by (simp add: open_member_session_def member_session_def find_session_def is_member_def sources_eval del: u_simps)
  have s: "insert_submission \<lparr>sb_id = 21, sb_session = 4, sb_author = 5, sb_title = u ''t'', sb_created_at = 7, sb_deleted = False\<rparr> K_FILE
      sample_sources = Inr (sample_sources\<lparr>submissions := [\<lparr>sb_id = 21, sb_session = 4, sb_author = 5, sb_title = u ''t'', sb_created_at = 7, sb_deleted = False\<rparr>],
     kinds := [\<lparr>sk_submission = 21, sk_kind = K_FILE\<rparr>]\<rparr>)"
    by (simp add: insert_submission_def storable_text_def fresh_def sources_eval)
  have r: "insert_revision (file_revision sample_fd) (file_source sample_fd (u ''a.txt'') (u ''text/plain'') 2 (replicate 64 48))
      (sample_sources\<lparr>submissions := [\<lparr>sb_id = 21, sb_session = 4, sb_author = 5, sb_title = u ''t'', sb_created_at = 7, sb_deleted = False\<rparr>],
     kinds := [\<lparr>sk_submission = 21, sk_kind = K_FILE\<rparr>]\<rparr>) = Inr ?db2"
    by (simp add: insert_revision_def storable_text_def file_source_def file_revision_def revision_checks_def max_revision_bytes_def
        is_sha256_hex_def one_current_def fresh_def sources_eval list_all_iff)
  show ?thesis using q(1) e o s r
    by (simp add: submit_file_body_def sample_fd_def make_type_def Let_def del: u_simps)
qed


theorem upload_is_downloaded_witness:
  "\<exists>v db store dl. sample_upload = (Inr v, db, store) \<and> download_original (sv_current v) 5 db = Inr dl \<and>
     open_regular sample_digest store (od_key dl) (od_size dl) (od_sha dl) = Inr [104, 105]"
proof -
  let ?t = "make_type ''.txt'' ''text/plain'' ''builtin-utf8-text'' ''1.0.0''"
  obtain v db where b: "submit_file_body sample_fd 4 5 (u ''a.txt'') (u ''t'') ?t 2 (replicate 64 48) sample_sources = Inr (v, db)"
    using sample_upload_body by blast
  have "\<exists>store. sample_upload = (Inr v, db, store)" unfolding sample_upload_def submit_file_def
    by (simp add: sample_upload_checks b [unfolded numeral_2_eq_2] sample_digest_def Let_def case_prod_unfold del: u_simps)
  then obtain store where s: "sample_upload = (Inr v, db, store)" ..
  have "columns_aligned sample_sources" "member_session sample_sources 5 4 \<noteq> None"
    by (simp_all add: columns_aligned_def member_session_def find_session_def is_member_def sources_eval del: u_simps)
  from upload_is_downloaded [OF s [unfolded sample_upload_def] this] obtain dl
    where "download_original (sv_current v) 5 db = Inr dl"
      "open_regular sample_digest store (od_key dl) (od_size dl) (od_sha dl) = Inr (concat (takeWhile (\<lambda>c. c \<noteq> []) [[104], [105], []]))"
    by blast
  then show ?thesis using s by auto
qed

text \<open>The same upload under a wrong length.\<close>

theorem failed_upload_leaves_no_trace_witness:
  "\<exists>e db store. submit_file sample_digest (\<lambda>s. s) (\<lambda>s. s) sample_fd 4 5 (u ''a.txt'') (u ''text/plain'') [[104], []] (Some 2)
     (u ''t'') sample_sources [] = (Inl e, db, store) \<and> db = sample_sources \<and> (\<forall>name. blob_get store name = None)"
proof -
  have f: "stream_to_file [[104], []] (Some 2) =
      (Inl (FileSubmissionValidationError (u ''file size does not match the upload'')), Some [104])"
    by (simp add: stream_to_file_def check_content_length_def max_file_bytes_def del: u_simps)
  have "\<exists>e db store. submit_file sample_digest (\<lambda>s. s) (\<lambda>s. s) sample_fd 4 5 (u ''a.txt'') (u ''text/plain'') [[104], []] (Some 2)
     (u ''t'') sample_sources [] = (Inl e, db, store)"
    unfolding submit_file_def by (simp add: sample_upload_checks f Let_def del: u_simps)
  then obtain e db store where s: "submit_file sample_digest (\<lambda>s. s) (\<lambda>s. s) sample_fd 4 5 (u ''a.txt'') (u ''text/plain'') [[104], []] (Some 2)
     (u ''t'') sample_sources [] = (Inl e, db, store)" by blast
  have "blob_get [] name = None" for name by (simp add: blob_get_def)
  then show ?thesis using failed_upload_leaves_no_trace [OF s] s by metis
qed

text \<open>The stored file of that revision, and an upload left behind by a crash.\<close>

definition sample_blobs :: blob_store where
  "sample_blobs = [(blob_key 22, \<lparr>bf_bytes = [104, 105], bf_mtime = 7, bf_regular = True\<rparr>),
     (temporary_name 20, \<lparr>bf_bytes = [104], bf_mtime = 7, bf_regular = True\<rparr>)]"

lemma sample_blobs_open: "open_regular sample_digest sample_blobs (blob_key 22) 2 (replicate 64 48) = Inr [104, 105]"
  by (simp add: open_regular_def blob_key_ok sample_blobs_def sample_digest_def blob_get_def)

theorem download_ends_with_access_witness:
  "\<exists>chunks e. stream_original sample_digest sample_blobs
       \<lparr>od_filename = [], od_mime = [], od_size = 2, od_key = blob_key 22, od_sha = replicate 64 48\<rparr> 22 5 [sample_sources] = (chunks, e) \<and>
     (\<exists>rest. [104, 105] = concat chunks @ rest) \<and> chunks = []"
proof -
  let ?dl = "\<lparr>od_filename = [], od_mime = [], od_size = 2, od_key = blob_key 22, od_sha = replicate 64 48\<rparr>"
  obtain chunks e where s: "stream_original sample_digest sample_blobs ?dl 22 5 [sample_sources] = (chunks, e)" by fastforce
  have "member_file sample_sources 5 22 = None" by (simp add: member_file_def member_revision_def sources_eval)
  then show ?thesis using download_ends_with_access [OF s, of "[104, 105]"] s by (simp add: sample_blobs_open)
qed

theorem sweep_keeps_sources_witness:
  "\<exists>n store. sweep_orphans 86400 100000 (sample_sources\<lparr>source_files := [file_source sample_fd [] [] 2 (replicate 64 48)]\<rparr>) sample_blobs =
       Inr (n, store) \<and>
     open_regular sample_digest store (blob_key 22) 2 (replicate 64 48) = Inr [104, 105]"
proof -
  let ?f = "file_source sample_fd [] [] 2 (replicate 64 48)"
  obtain n store where s: "sweep_orphans 86400 100000 (sample_sources\<lparr>source_files := [?f]\<rparr>) sample_blobs = Inr (n, store)"
    by (fastforce simp: sweep_orphans_def orphan_minimum_age_def Let_def)
  show ?thesis
    using sweep_keeps_sources [OF s, of ?f "blob_key 22" sample_digest 2 "replicate 64 48"] s
    by (simp add: sample_blobs_open) (simp add: file_source_def sample_fd_def)
qed

end
