(* ===== verification/Auth.thy ===== *)
theory Auth
  imports Profiles
begin

text \<open>
  \<open>auth_service.py\<close> and \<open>security.py\<close>: local accounts, browser sessions behind opaque tokens, and the same-origin policy of
  unsafe requests.

  \<^item> Argon2, SHA-256, HMAC and \<open>str.lower\<close> are parameters; the salted \<open>hash\<close> is a function of the call.  An exception of
    \<open>verify\<close> is its answer \<open>False\<close>, as in \<open>_verify_password\<close>.
  \<^item> The row lock on the user makes \<open>login\<close> one function on the committed state.  Times are integers, \<open>revoked_at\<close> whether it
    is set.  The password hash is a table beside \<open>users\<close>: a row here has the id of its row there.
  \<^item> \<open>issue_opaque_token\<close> and the ids are drawn by the caller.
\<close>

section \<open>Secrets\<close>

record digests =
  dg_sha256 :: "nat list \<Rightarrow> ustr"
  dg_hmac :: "nat list \<Rightarrow> nat list \<Rightarrow> ustr" \<comment> \<open>key and message\<close>

definition encode :: "ustr \<Rightarrow> app_error + nat list" where
  "encode s = (case utf8 s of None \<Rightarrow> Inl (ValueError (u ''surrogates not allowed'')) | Some b \<Rightarrow> Inr b)"

definition secret_hash :: "digests \<Rightarrow> ustr \<Rightarrow> app_error + ustr" where
  "secret_hash dg value =
     require (value \<noteq> []) (ValueError (u ''secret must not be empty'')) (and_then (encode value) (\<lambda>b. Inr (dg_sha256 dg b)))"

definition csrf_label :: "nat list" where
  "csrf_label = u ''axit-csrf-v1''"

definition derive_csrf_token :: "digests \<Rightarrow> ustr \<Rightarrow> app_error + ustr" where
  "derive_csrf_token dg token =
     require (token \<noteq> []) (ValueError (u ''session token must not be empty''))
       (and_then (encode token) (\<lambda>b. Inr (dg_hmac dg b csrf_label)))"

definition verify_secret :: "digests \<Rightarrow> ustr \<Rightarrow> ustr \<Rightarrow> app_error + bool" where
  "verify_secret dg value expected =
     (if value = [] \<or> length expected \<noteq> 64 then Inr False
      else and_then (secret_hash dg value) (\<lambda>h. Inr (h = expected)))"

section \<open>The policy of unsafe requests\<close>

record security_policy =
  sp_origin :: ustr
  sp_host :: ustr
  sp_secure :: bool
  sp_cookie :: ustr
  sp_ttl :: int \<comment> \<open>seconds\<close>

text \<open>\<open>BrowserSecurityPolicy.__post_init__\<close>\<close>

definition make_policy :: "security_policy \<Rightarrow> app_error + security_policy" where
  "make_policy p =
     require (\<not> is_blank (sp_origin p)) (ValueError (u ''public_origin must not be blank''))
     (require (\<not> is_blank (sp_host p)) (ValueError (u ''public_host must not be blank''))
     (require (\<not> is_blank (sp_cookie p)) (ValueError (u ''cookie_name must not be blank''))
     (require (\<not> sp_ttl p \<le> 0) (ValueError (u ''session_ttl must be positive'')) (Inr p))))"

definition require_trusted_original_host :: "security_policy \<Rightarrow> ustr option \<Rightarrow> app_error + unit" where
  "require_trusted_original_host p host =
     require (host = Some (sp_host p)) (UntrustedOriginalHostError (u ''untrusted original host'')) (Inr ())"

definition require_pre_auth_request :: "security_policy \<Rightarrow> ustr option \<Rightarrow> ustr option \<Rightarrow> app_error + unit" where
  "require_pre_auth_request p origin host =
     and_then (require_trusted_original_host p host) (\<lambda>_.
     require (origin = Some (sp_origin p)) (UntrustedOriginError (u ''untrusted origin'')) (Inr ()))"

definition require_unsafe_authenticated_request ::
  "digests \<Rightarrow> security_policy \<Rightarrow> ustr option \<Rightarrow> ustr option \<Rightarrow> ustr option \<Rightarrow> ustr \<Rightarrow> app_error + unit" where
  "require_unsafe_authenticated_request dg p origin host csrf verifier =
     and_then (require_pre_auth_request p origin host) (\<lambda>_.
     case csrf of
       None \<Rightarrow> Inl (MissingCsrfTokenError (u ''missing CSRF token''))
     | Some token \<Rightarrow>
         require (token \<noteq> []) (MissingCsrfTokenError (u ''missing CSRF token''))
         (and_then (verify_secret dg token verifier) (\<lambda>ok.
          require ok (InvalidCsrfTokenError (u ''invalid CSRF token'')) (Inr ()))))"

record cookie =
  ck_name :: ustr
  ck_value :: ustr
  ck_max_age :: int
  ck_secure :: bool
  ck_httponly :: bool
  ck_samesite :: ustr
  ck_path :: ustr

definition session_cookie :: "security_policy \<Rightarrow> ustr \<Rightarrow> app_error + cookie" where
  "session_cookie p token =
     require (token \<noteq> []) (ValueError (u ''session token must not be empty''))
     (Inr \<lparr>ck_name = sp_cookie p, ck_value = token, ck_max_age = sp_ttl p, ck_secure = sp_secure p, ck_httponly = True,
           ck_samesite = u ''lax'', ck_path = u ''/''\<rparr>)"

section \<open>Tables\<close>

record credential_row = \<comment> \<open>\<open>users.password_hash\<close>\<close>
  cr_user :: uuid
  cr_hash :: ustr

record auth_row = \<comment> \<open>\<open>auth_sessions\<close>\<close>
  ax_id :: uuid
  ax_token :: ustr \<comment> \<open>\<open>token_hash\<close>\<close>
  ax_csrf :: ustr
  ax_user :: uuid
  ax_expires :: int
  ax_revoked :: bool

record auth_db = platform_db +
  credentials :: "credential_row list"
  auth_sessions :: "auth_row list"

record hasher =
  ha_hash :: "ustr \<Rightarrow> ustr"
  ha_verify :: "ustr \<Rightarrow> ustr \<Rightarrow> bool" \<comment> \<open>hash and password\<close>
  ha_stale :: "ustr \<Rightarrow> bool" \<comment> \<open>\<open>check_needs_rehash\<close>\<close>
  ha_dummy :: ustr

section \<open>Checks of the fields\<close>

definition normalize_email_for_login :: "(ustr \<Rightarrow> ustr) \<Rightarrow> ustr \<Rightarrow> app_error + ustr" where
  "normalize_email_for_login lower email =
     (let n = lower (py_strip email) in
      require (\<not> (n = [] \<or> length n > 320 \<or> list_ex (\<lambda>c. c < 32) n)) (InvalidCredentialsError (u ''invalid credentials'')) (Inr n))"

definition normalize_email :: "(ustr \<Rightarrow> ustr) \<Rightarrow> ustr \<Rightarrow> app_error + ustr" where
  "normalize_email lower email =
     and_then (normalize_email_for_login lower email) (\<lambda>n.
     require (\<not> (length n < 3 \<or> length n > 320 \<or> 64 \<notin> set n)) (RegistrationValidationError (u ''email must be a valid address'')) (Inr n))"

definition normalize_display_name :: "ustr \<Rightarrow> app_error + ustr" where
  "normalize_display_name name =
     (let n = py_strip name in
      require (\<not> (n = [] \<or> length n > 200 \<or> 0 \<in> set n)) (RegistrationValidationError (u ''display name is invalid'')) (Inr n))"

definition validate_password :: "ustr \<Rightarrow> app_error + unit" where
  "validate_password password =
     require (8 \<le> length password \<and> length password \<le> 1024)
       (RegistrationValidationError (u ''password must be between 8 and 1024 characters'')) (Inr ())"

definition validate_login_password :: "ustr \<Rightarrow> app_error + unit" where
  "validate_login_password password =
     require (1 \<le> length password \<and> length password \<le> 1024) (InvalidCredentialsError (u ''invalid credentials'')) (Inr ())"

section \<open>Registration\<close>

record public_user =
  pu_id :: uuid
  pu_email :: ustr
  pu_name :: ustr

definition user_from_row :: "user_row \<Rightarrow> app_error + public_user" where
  "user_from_row x =
     and_then (text_column (us_email x) (u ''email'')) (\<lambda>email.
     and_then (text_column (us_name x) (u ''display name'')) (\<lambda>name.
     Inr \<lparr>pu_id = us_id x, pu_email = email, pu_name = name\<rparr>))"

record register_draws =
  rd_user :: uuid
  rd_now :: int
  rd_event :: activity_draws

definition insert_user :: "user_row \<Rightarrow> ustr \<Rightarrow> 'z auth_db_scheme \<Rightarrow> app_error + 'z auth_db_scheme" where
  "insert_user x hash db =
     require (3 \<le> length (us_email x) \<and> length (us_email x) \<le> 320 \<and> 1 \<le> length (us_name x) \<and> length (us_name x) \<le> 200)
       (PgError CheckViolation)
     (require (fresh us_id x (users db) \<and> fresh us_email x (users db)) (PgError UniqueViolation)
       (Inr (db\<lparr>users := users db @ [x], credentials := credentials db @ [\<lparr>cr_user = us_id x, cr_hash = hash\<rparr>]\<rparr>)))"

text \<open>\<open>INSERT INTO user_profiles (user_id) VALUES ...\<close> with the defaults of migration 0012, and the six preferences.\<close>

definition default_profile :: "uuid \<Rightarrow> int \<Rightarrow> profile_row" where
  "default_profile user now =
     \<lparr>up_user = user, up_job_title = None, up_language = L_KO, up_version = 0, up_preferences_version = 0,
      up_updated_at = now, up_preferences_updated_at = now\<rparr>"

definition preference_rows :: "uuid \<Rightarrow> preference_row list" where
  "preference_rows user =
     map (\<lambda>((kind, channel), on). \<lparr>np_user = user, np_kind = kind, np_channel = channel, np_enabled = on\<rparr>) default_preferences"

definition insert_settings :: "uuid \<Rightarrow> int \<Rightarrow> 'z platform_db_scheme \<Rightarrow> app_error + 'z platform_db_scheme" where
  "insert_settings user now db =
     require (fresh up_user (default_profile user now) (profiles db) \<and> user \<notin> np_user ` set (preferences db)) (PgError UniqueViolation)
       (Inr (db\<lparr>profiles := profiles db @ [default_profile user now], preferences := preferences db @ preference_rows user\<rparr>))"

definition register_body ::
  "register_draws \<Rightarrow> user_row \<Rightarrow> ustr \<Rightarrow> (app_error, user_row, 'z auth_db_scheme) body" where
  "register_body d x hash db =
     and_then (insert_user x hash db) (\<lambda>db1.
     and_then (insert_settings (us_id x) (rd_now d) db1) (\<lambda>db2.
     and_then (record_event (rd_event d) (u ''account.registered'') [(''user_id'', IUuid (us_id x))] (us_id x) SC_PERSONAL
       (Some (us_id x)) None None (u ''account'') (us_id x) [] [] db2) (\<lambda>db3.
     Inr (x, db3))))"

text \<open>Every unique violation of the transaction is taken for the one of the address.\<close>

definition already_registered :: "app_error + 'a \<Rightarrow> app_error + 'a" where
  "already_registered r =
     (case r of Inl (PgError UniqueViolation) \<Rightarrow> Inl (EmailAlreadyRegisteredError (u ''email is already registered'')) | _ \<Rightarrow> r)"

definition register ::
  "(ustr \<Rightarrow> ustr) \<Rightarrow> hasher \<Rightarrow> register_draws \<Rightarrow> ustr \<Rightarrow> ustr \<Rightarrow> ustr \<Rightarrow> 'z auth_db_scheme \<Rightarrow> (app_error + public_user) \<times> 'z auth_db_scheme" where
  "register lower h d email password display_name db =
     (case and_then (normalize_email lower email) (\<lambda>e. and_then (normalize_display_name display_name) (\<lambda>n.
           and_then (validate_password password) (\<lambda>_. Inr (e, n)))) of
        Inl x \<Rightarrow> (Inl x, db)
      | Inr (e, n) \<Rightarrow>
          let (r, db') = transaction (register_body d \<lparr>us_id = rd_user d, us_email = e, us_name = n\<rparr> (ha_hash h password)) db in
          (and_then (already_registered r) user_from_row, db'))"

section \<open>Login\<close>

record login_draws =
  ld_token :: ustr
  ld_session :: uuid
  ld_now :: int \<comment> \<open>\<open>clock_timestamp()\<close> of the INSERT\<close>

record login_result =
  lo_user :: public_user
  lo_session :: uuid
  lo_token :: ustr
  lo_csrf :: ustr
  lo_expires :: int

text \<open>The row of the user with an address, with its password hash.\<close>

definition account :: "'z auth_db_scheme \<Rightarrow> ustr \<Rightarrow> (user_row \<times> ustr) option" where
  "account db email =
     (case find (\<lambda>x. us_email x = email) (users db) of
        None \<Rightarrow> None
      | Some x \<Rightarrow> map_option (\<lambda>c. (x, cr_hash c)) (find (\<lambda>c. cr_user c = us_id x) (credentials db)))"

definition revoke_all :: "uuid \<Rightarrow> auth_row list \<Rightarrow> auth_row list" where
  "revoke_all user = update_rows (\<lambda>s. ax_user s = user \<and> \<not> ax_revoked s) (\<lambda>s. s\<lparr>ax_revoked := True\<rparr>)"

definition insert_auth_session :: "auth_row \<Rightarrow> 'z auth_db_scheme \<Rightarrow> app_error + 'z auth_db_scheme" where
  "insert_auth_session s db =
     require (fresh ax_id s (auth_sessions db) \<and> fresh ax_token s (auth_sessions db)) (PgError UniqueViolation)
       (Inr (db\<lparr>auth_sessions := auth_sessions db @ [s]\<rparr>))"

definition rehash :: "hasher \<Rightarrow> uuid \<Rightarrow> ustr \<Rightarrow> ustr \<Rightarrow> 'z auth_db_scheme \<Rightarrow> 'z auth_db_scheme" where
  "rehash h user hash password db =
     (if ha_stale h hash
      then db\<lparr>credentials := update_rows (\<lambda>c. cr_user c = user) (\<lambda>c. c\<lparr>cr_hash := ha_hash h password\<rparr>) (credentials db)\<rparr>
      else db)"

definition login_body ::
  "digests \<Rightarrow> hasher \<Rightarrow> int \<Rightarrow> login_draws \<Rightarrow> ustr \<Rightarrow> ustr \<Rightarrow> ustr \<Rightarrow> (app_error, login_result, 'z auth_db_scheme) body" where
  "login_body dg h ttl d csrf email password db =
     (let row = account db email;
          hash = (case row of None \<Rightarrow> ha_dummy h | Some (x, stored) \<Rightarrow> stored);
          invalid = InvalidCredentialsError (u ''invalid credentials'') in
      require (ha_verify h hash password) invalid
      (case row of
         None \<Rightarrow> Inl invalid
       | Some (x, stored) \<Rightarrow>
           and_then (user_from_row x) (\<lambda>user.
           let db1 = rehash h (us_id x) hash password db;
               db2 = db1\<lparr>auth_sessions := revoke_all (us_id x) (auth_sessions db1)\<rparr> in
           and_then (secret_hash dg (ld_token d)) (\<lambda>token.
           and_then (secret_hash dg csrf) (\<lambda>verifier.
           and_then (insert_auth_session \<lparr>ax_id = ld_session d, ax_token = token, ax_csrf = verifier, ax_user = us_id x,
               ax_expires = ld_now d + ttl, ax_revoked = False\<rparr> db2) (\<lambda>db3.
           Inr (\<lparr>lo_user = user, lo_session = ld_session d, lo_token = ld_token d, lo_csrf = csrf, lo_expires = ld_now d + ttl\<rparr>, db3)))))))"

definition login ::
  "(ustr \<Rightarrow> ustr) \<Rightarrow> digests \<Rightarrow> hasher \<Rightarrow> int \<Rightarrow> login_draws \<Rightarrow> ustr \<Rightarrow> ustr \<Rightarrow> 'z auth_db_scheme \<Rightarrow>
   (app_error + login_result) \<times> 'z auth_db_scheme" where
  "login lower dg h ttl d email password db =
     (case and_then (normalize_email_for_login lower email) (\<lambda>e. and_then (validate_login_password password) (\<lambda>_.
           and_then (derive_csrf_token dg (ld_token d)) (\<lambda>csrf. Inr (e, csrf)))) of
        Inl x \<Rightarrow> (Inl x, db)
      | Inr (e, csrf) \<Rightarrow> transaction (login_body dg h ttl d csrf e password) db)"

section \<open>Sessions\<close>

record authenticated =
  av_id :: uuid
  av_user :: public_user
  av_token :: ustr
  av_csrf :: ustr
  av_expires :: int

definition session_required :: app_error where
  "session_required = SessionAuthenticationError (u ''authentication required'')"

definition require_hash :: "ustr \<Rightarrow> ustr \<Rightarrow> app_error + ustr" where
  "require_hash value label =
     and_then (text_column value label) (\<lambda>text.
     require (length text = 64) (RuntimeErr (u ''persisted '' @ label @ u '' must be a SHA-256 hex digest'')) (Inr text))"

definition authenticate :: "digests \<Rightarrow> int \<Rightarrow> ustr option \<Rightarrow> 'z auth_db_scheme \<Rightarrow> app_error + authenticated" where
  "authenticate dg now token db =
     (case token of
        None \<Rightarrow> Inl session_required
      | Some t \<Rightarrow>
          require (t \<noteq> []) session_required
          (and_then (secret_hash dg t) (\<lambda>hash.
           case find (\<lambda>s. ax_token s = hash \<and> \<not> ax_revoked s \<and> ax_expires s > now) (auth_sessions db) of
             None \<Rightarrow> Inl session_required
           | Some s \<Rightarrow> (case find (\<lambda>x. us_id x = ax_user s) (users db) of
               None \<Rightarrow> Inl session_required
             | Some x \<Rightarrow>
                 and_then (user_from_row x) (\<lambda>user.
                 and_then (require_hash (ax_csrf s) (u ''CSRF verifier'')) (\<lambda>verifier.
                 Inr \<lparr>av_id = ax_id s, av_user = user, av_token = t, av_csrf = verifier, av_expires = ax_expires s\<rparr>))))))"

definition csrf_token_for :: "digests \<Rightarrow> authenticated \<Rightarrow> app_error + ustr" where
  "csrf_token_for dg a =
     and_then (derive_csrf_token dg (av_token a)) (\<lambda>csrf.
     and_then (verify_secret dg csrf (av_csrf a)) (\<lambda>ok. require ok session_required (Inr csrf)))"

definition require_unsafe_request ::
  "digests \<Rightarrow> security_policy \<Rightarrow> authenticated \<Rightarrow> ustr option \<Rightarrow> ustr option \<Rightarrow> ustr option \<Rightarrow> app_error + unit" where
  "require_unsafe_request dg p a origin host csrf =
     require_unsafe_authenticated_request dg p origin host csrf (av_csrf a)"

definition logout_body :: "authenticated \<Rightarrow> (app_error, unit, 'z auth_db_scheme) body" where
  "logout_body a db =
     (let mine = (\<lambda>s. ax_id s = av_id a \<and> \<not> ax_revoked s) in
      require (hits mine (auth_sessions db) = 1) session_required
        (Inr ((), db\<lparr>auth_sessions := update_rows mine (\<lambda>s. s\<lparr>ax_revoked := True\<rparr>) (auth_sessions db)\<rparr>)))"

definition logout :: "authenticated \<Rightarrow> 'z auth_db_scheme \<Rightarrow> (app_error + unit) \<times> 'z auth_db_scheme" where
  "logout a db = transaction (logout_body a) db"

end
