(* ===== verification/Auth_Properties.thy ===== *)
theory Auth_Properties
  imports Auth Profiles_Properties
begin

text \<open>
  Properties of local authentication: a login leaves one usable session, a session that ended stays ended, registered
  credentials log in, and an unsafe request passes exactly with the right origin, host and CSRF token.
\<close>

section \<open>Reading the operations\<close>

lemma encode_Inr: "encode s = Inr b \<longleftrightarrow> utf8 s = Some b"
  by (auto simp: encode_def split: option.splits)

lemma secret_hash_Inr: "secret_hash dg v = Inr hash \<longleftrightarrow> v \<noteq> [] \<and> (\<exists>b. utf8 v = Some b \<and> hash = dg_sha256 dg b)"
  by (auto simp: secret_hash_def and_then_Inr encode_Inr)

lemma derive_csrf_Inr: "derive_csrf_token dg t = Inr c \<longleftrightarrow> t \<noteq> [] \<and> (\<exists>b. utf8 t = Some b \<and> c = dg_hmac dg b csrf_label)"
  by (auto simp: derive_csrf_token_def and_then_Inr encode_Inr)

lemma verify_secret_True: "verify_secret dg v expected = Inr True \<longleftrightarrow> length expected = 64 \<and> secret_hash dg v = Inr expected"
  by (auto simp: verify_secret_def and_then_Inr secret_hash_Inr)

lemma user_from_row_Inr:
  "user_from_row x = Inr p \<longleftrightarrow> us_email x \<noteq> [] \<and> us_name x \<noteq> [] \<and> p = \<lparr>pu_id = us_id x, pu_email = us_email x, pu_name = us_name x\<rparr>"
  by (auto simp: user_from_row_def and_then_Inr)

lemma and_then_check: "and_then r (\<lambda>ok. require ok e (Inr ())) = Inr () \<longleftrightarrow> r = Inr True"
  by (auto simp: and_then_Inr)

lemma require_hash_Inr: "require_hash v label = Inr w \<longleftrightarrow> length v = 64 \<and> w = v"
  by (auto simp: require_hash_def and_then_Inr)

definition login_session :: "login_result \<Rightarrow> ustr \<Rightarrow> ustr \<Rightarrow> auth_row" where
  "login_session r token verifier =
     \<lparr>ax_id = lo_session r, ax_token = token, ax_csrf = verifier, ax_user = pu_id (lo_user r), ax_expires = lo_expires r, ax_revoked = False\<rparr>"

lemma revoked_keys:
  "map ax_id (revoke_all i ss) = map ax_id ss" "map ax_token (revoke_all i ss) = map ax_token ss"
  by (simp_all add: revoke_all_def map_update_rows_same)

lemma login_Inr:
  assumes "login lower dg h ttl d email password db = (Inr r, db')"
  obtains e x stored token verifier where "account db e = Some (x, stored)" "ha_verify h stored password"
    "user_from_row x = Inr (lo_user r)" "secret_hash dg (lo_token r) = Inr token" "derive_csrf_token dg (lo_token r) = Inr (lo_csrf r)"
    "secret_hash dg (lo_csrf r) = Inr verifier"
    "fresh ax_id (login_session r token verifier) (auth_sessions db)" "fresh ax_token (login_session r token verifier) (auth_sessions db)"
    "auth_sessions db' = revoke_all (pu_id (lo_user r)) (auth_sessions db) @ [login_session r token verifier]"
    "users db' = users db" "map cr_user (credentials db') = map cr_user (credentials db)"
proof -
  obtain e csrf where n: "derive_csrf_token dg (ld_token d) = Inr csrf"
    and b: "login_body dg h ttl d csrf e password db = Inr (r, db')"
    using assms by (auto simp: login_def and_then_Inr transaction_Inr_iff split: sum.split_asm)
  then obtain x stored where a: "account db e = Some (x, stored)" "ha_verify h stored password"
    by (auto simp: login_body_def Let_def split: option.split_asm)
  obtain user token verifier where s: "user_from_row x = Inr user" "secret_hash dg (ld_token d) = Inr token"
      "secret_hash dg csrf = Inr verifier"
      "r = \<lparr>lo_user = user, lo_session = ld_session d, lo_token = ld_token d, lo_csrf = csrf, lo_expires = ld_now d + ttl\<rparr>"
    using b a by (auto simp: login_body_def Let_def and_then_Inr)
  have u: "pu_id user = us_id x" using s(1) by (simp add: user_from_row_Inr)
  have "insert_auth_session (login_session r token verifier)
      (rehash h (us_id x) stored password db\<lparr>auth_sessions := revoke_all (us_id x) (auth_sessions (rehash h (us_id x) stored password db))\<rparr>) =
      Inr db'"
    using b a s u by (auto simp: login_body_def Let_def and_then_Inr login_session_def)
  then have i: "fresh ax_id (login_session r token verifier) (auth_sessions db)" "fresh ax_token (login_session r token verifier) (auth_sessions db)"
      "auth_sessions db' = revoke_all (us_id x) (auth_sessions db) @ [login_session r token verifier]"
      "users db' = users db" "map cr_user (credentials db') = map cr_user (credentials db)"
    by (auto simp: insert_auth_session_def rehash_def fresh_def revoked_keys map_update_rows_same)
  show ?thesis by (rule that [OF a]) (use s n u i in auto)
qed

lemma authenticate_Inr:
  assumes "authenticate dg now token db = Inr a"
  obtains t hash s x where "token = Some t" "secret_hash dg t = Inr hash" "s \<in> set (auth_sessions db)" "ax_token s = hash" "\<not> ax_revoked s"
    "now < ax_expires s" "find (\<lambda>x. us_id x = ax_user s) (users db) = Some x" "av_id a = ax_id s" "pu_id (av_user a) = ax_user s"
proof -
  obtain t where t: "token = Some t" using assms by (cases token) (auto simp: authenticate_def)
  obtain hash where h: "secret_hash dg t = Inr hash" using assms by (cases "secret_hash dg t") (auto simp: authenticate_def t)
  obtain s where s: "find (\<lambda>s. ax_token s = hash \<and> \<not> ax_revoked s \<and> ax_expires s > now) (auth_sessions db) = Some s"
    using assms by (auto simp: authenticate_def t h split: option.split_asm)
  then obtain x where x: "find (\<lambda>x. us_id x = ax_user s) (users db) = Some x"
    using assms by (auto simp: authenticate_def t h split: option.split_asm)
  have *: "av_id a = ax_id s" "user_from_row x = Inr (av_user a)" using assms by (auto simp: authenticate_def t h s x and_then_Inr)
  show ?thesis by (rule that [OF t h _ _ _ _ x *(1)])
    (use find_Some_set [OF s] find_Some_set [OF x] *(2) in \<open>auto simp: user_from_row_Inr\<close>)
qed

section \<open>The invariant and the steps\<close>

definition active_sessions :: "'z auth_db_scheme \<Rightarrow> auth_row list" where
  "active_sessions db = filter (\<lambda>s. \<not> ax_revoked s) (auth_sessions db)"

text \<open>Keys are unique, passwords belong to users, and a user has at most one session that is not revoked.\<close>

definition auth_sound :: "'z auth_db_scheme \<Rightarrow> bool" where
  "auth_sound db \<longleftrightarrow>
     distinct (map us_id (users db)) \<and> distinct (map us_email (users db)) \<and> distinct (map ax_id (auth_sessions db)) \<and>
     distinct (map ax_token (auth_sessions db)) \<and> cr_user ` set (credentials db) \<subseteq> us_id ` set (users db) \<and>
     distinct (map ax_user (active_sessions db))"

text \<open>Other transactions change display names only.\<close>

definition auth_elsewhere :: "'z auth_db_scheme \<Rightarrow> 'z auth_db_scheme \<Rightarrow> bool" where
  "auth_elsewhere db db' \<longleftrightarrow> auth_sessions db' = auth_sessions db \<and> credentials db' = credentials db \<and>
     map us_id (users db') = map us_id (users db) \<and> map us_email (users db') = map us_email (users db)"

inductive auth_step :: "'z auth_db_scheme \<Rightarrow> 'z auth_db_scheme \<Rightarrow> bool" where
  A_register: "auth_step db (snd (register lower h d email password name db))"
| A_login: "auth_step db (snd (login lower dg h ttl d email password db))"
| A_logout: "auth_step db (snd (logout a db))"
| A_elsewhere: "auth_elsewhere db db' \<Longrightarrow> auth_step db db'"

lemma frame_auth:
  fixes db :: "'z auth_db_scheme"
  assumes "activity_frame db db'"
  shows "credentials db' = credentials db" "auth_sessions db' = auth_sessions db"
  using assms by (auto simp: activity_frame_def)

lemma register_Inr:
  assumes "register lower h d email password name db = (Inr p, db')"
  obtains e n where "normalize_email lower email = Inr e" "validate_password password = Inr ()"
    "fresh us_id \<lparr>us_id = rd_user d, us_email = e, us_name = n\<rparr> (users db)"
    "fresh us_email \<lparr>us_id = rd_user d, us_email = e, us_name = n\<rparr> (users db)"
    "users db' = users db @ [\<lparr>us_id = rd_user d, us_email = e, us_name = n\<rparr>]"
    "credentials db' = credentials db @ [\<lparr>cr_user = rd_user d, cr_hash = ha_hash h password\<rparr>]"
    "auth_sessions db' = auth_sessions db" "user_from_row \<lparr>us_id = rd_user d, us_email = e, us_name = n\<rparr> = Inr p"
proof -
  obtain e n r where n: "normalize_email lower email = Inr e" "validate_password password = Inr ()"
    and b: "transaction (register_body d \<lparr>us_id = rd_user d, us_email = e, us_name = n\<rparr> (ha_hash h password)) db = (r, db')"
      "and_then (already_registered r) user_from_row = Inr p"
    using assms by (auto simp: register_def and_then_Inr Let_def case_prod_unfold prod_eq_iff split: sum.split_asm)
  obtain x where r: "r = Inr x" using b(2) by (cases r) (auto simp: already_registered_def split: app_error.splits pg_error.splits)
  note b' = b(1) [unfolded r transaction_Inr_iff]
  show ?thesis by (rule that [OF n])
    (use b' b(2) r in \<open>auto simp: already_registered_def register_body_def insert_user_def insert_settings_def and_then_Inr frame_platform
      frame_auth dest!: record_event_frame\<close>)
qed

lemma register_body_named: "register_body d x hash db = Inr (y, db') \<Longrightarrow> y = x \<and> us_email x \<noteq> [] \<and> us_name x \<noteq> []"
  by (auto simp: register_body_def insert_user_def and_then_Inr)

lemma named_user: "us_email x \<noteq> [] \<and> us_name x \<noteq> [] \<Longrightarrow> user_from_row x \<noteq> Inl e"
  by (auto simp: user_from_row_def text_column_def)

lemma register_keeps: "register lower h d email password name db = (Inl e, db') \<Longrightarrow> db' = db"
  by (auto simp: register_def Let_def case_prod_unfold transaction_def already_registered_def and_then_def [of _ user_from_row] named_user
      split: sum.split_asm dest!: register_body_named)

lemma auth_failure_keeps:
  "login lower dg h ttl d email password db = (Inl e, db') \<Longrightarrow> db' = db"
  "logout a db = (Inl e, db') \<Longrightarrow> db' = db"
  by (auto simp: login_def logout_def transaction_Inl_iff split: sum.split_asm)

text \<open>A revoked row stays in the table and stays revoked.\<close>

definition revoked :: "'z auth_db_scheme \<Rightarrow> uuid \<Rightarrow> bool" where
  "revoked db i \<longleftrightarrow> i \<in> ax_id ` set (filter ax_revoked (auth_sessions db))"

lemma active_revoke_all: "filter (\<lambda>s. \<not> ax_revoked s) (revoke_all i ss) = filter (\<lambda>s. \<not> ax_revoked s \<and> ax_user s \<noteq> i) ss"
  by (induction ss) (auto simp: revoke_all_def)

lemma revoked_by:
  "set (filter ax_revoked ss) \<subseteq> set (filter ax_revoked (update_rows P (\<lambda>s. s\<lparr>ax_revoked := True\<rparr>) ss))"
  if "\<And>s. P s \<Longrightarrow> \<not> ax_revoked s"
  using that by (auto simp: set_update_rows image_iff)

lemma logout_Inr:
  "logout a db = (Inr (), db') \<longleftrightarrow> hits (\<lambda>s. ax_id s = av_id a \<and> \<not> ax_revoked s) (auth_sessions db) = 1 \<and>
     db' = db\<lparr>auth_sessions := update_rows (\<lambda>s. ax_id s = av_id a \<and> \<not> ax_revoked s) (\<lambda>s. s\<lparr>ax_revoked := True\<rparr>) (auth_sessions db)\<rparr>"
  by (auto simp: logout_def transaction_Inr_iff logout_body_def Let_def)

lemma distinct_filter_more: "distinct (map f (filter P xs)) \<Longrightarrow> distinct (map f (filter (\<lambda>x. P x \<and> Q x) xs))"
  using distinct_map_filter [of f "filter P xs" Q] by simp

lemma login_sound:
  assumes "login lower dg h ttl d email password db = (Inr r, db')" and "auth_sound db"
  shows "auth_sound db'"
  using assms(1)
proof (rule login_Inr)
  fix e x stored token verifier
  assume *: "fresh ax_id (login_session r token verifier) (auth_sessions db)" "fresh ax_token (login_session r token verifier) (auth_sessions db)"
    "auth_sessions db' = revoke_all (pu_id (lo_user r)) (auth_sessions db) @ [login_session r token verifier]"
    "users db' = users db" "map cr_user (credentials db') = map cr_user (credentials db)"
  have "cr_user ` set (credentials db') = cr_user ` set (credentials db)" using *(5) by (metis set_map)
  then show ?thesis using assms(2) *(1-4)
    by (auto simp: auth_sound_def active_sessions_def active_revoke_all revoked_keys fresh_def login_session_def intro: distinct_filter_more)
qed

lemma register_sound:
  assumes "register lower h d email password name db = (Inr p, db')" and "auth_sound db"
  shows "auth_sound db'"
  using assms(1)
proof (rule register_Inr)
  fix e n
  let ?x = "\<lparr>us_id = rd_user d, us_email = e, us_name = n\<rparr>"
  assume "fresh us_id ?x (users db)" "fresh us_email ?x (users db)" "users db' = users db @ [?x]"
    "credentials db' = credentials db @ [\<lparr>cr_user = rd_user d, cr_hash = ha_hash h password\<rparr>]" "auth_sessions db' = auth_sessions db"
  then show ?thesis using assms(2) by (auto simp: auth_sound_def active_sessions_def fresh_def)
qed

lemma active_logged_out:
  "filter (\<lambda>s. \<not> ax_revoked s) (update_rows (\<lambda>s. ax_id s = i \<and> \<not> ax_revoked s) (\<lambda>s. s\<lparr>ax_revoked := True\<rparr>) ss) =
     filter (\<lambda>s. \<not> ax_revoked s \<and> ax_id s \<noteq> i) ss"
  by (induction ss) auto

lemma logout_sound: "logout a db = (Inr (), db') \<Longrightarrow> auth_sound db \<Longrightarrow> auth_sound db'"
  by (auto simp: logout_Inr auth_sound_def active_sessions_def map_update_rows_same active_logged_out distinct_filter_more)

lemma auth_step_cases:
  assumes "auth_step db db'"
  obtains "db' = db" | p lower h d email password name where "register lower h d email password name db = (Inr p, db')"
  | r lower dg h ttl d email password where "login lower dg h ttl d email password db = (Inr r, db')"
  | a where "logout a db = (Inr (), db')" | "auth_elsewhere db db'"
  using assms
proof cases
  case (A_register lower h d email password name)
  then show ?thesis using that(1,2)
    by (cases "register lower h d email password name db"; cases "fst (register lower h d email password name db)") (auto dest: register_keeps)
next
  case (A_login lower dg h ttl d email password)
  then show ?thesis using that(1,3)
    by (cases "login lower dg h ttl d email password db"; cases "fst (login lower dg h ttl d email password db)")
      (auto dest: auth_failure_keeps)
next
  case (A_logout a)
  then show ?thesis using that(1,4) by (cases "logout a db"; cases "fst (logout a db)") (auto dest: auth_failure_keeps)
qed (use that in blast)

lemma auth_elsewhere_sound: "auth_elsewhere db db' \<Longrightarrow> auth_sound db \<Longrightarrow> auth_sound db'"
  by (simp add: auth_elsewhere_def auth_sound_def active_sessions_def flip: set_map)

lemma auth_step_sound: "auth_step db db' \<Longrightarrow> auth_sound db \<Longrightarrow> auth_sound db'"
  by (erule auth_step_cases) (auto dest: register_sound login_sound logout_sound auth_elsewhere_sound)

lemma auth_steps_sound: "auth_step\<^sup>*\<^sup>* db db' \<Longrightarrow> auth_sound db \<Longrightarrow> auth_sound db'"
  by (induction rule: rtranclp_induct) (auto intro: auth_step_sound)

lemma login_revokes:
  assumes "login lower dg h ttl d email password db = (Inr r, db')"
  shows "revoked db i \<Longrightarrow> revoked db' i"
    and "s \<in> set (auth_sessions db) \<Longrightarrow> ax_user s = pu_id (lo_user r) \<Longrightarrow> revoked db' (ax_id s)"
proof -
  obtain new where a: "auth_sessions db' = revoke_all (pu_id (lo_user r)) (auth_sessions db) @ [new]" by (rule login_Inr [OF assms])
  show "revoked db i \<Longrightarrow> revoked db' i"
    using revoked_by [of "\<lambda>s. ax_user s = pu_id (lo_user r) \<and> \<not> ax_revoked s" "auth_sessions db"]
    by (auto simp: revoked_def a revoke_all_def)
  assume "s \<in> set (auth_sessions db)" "ax_user s = pu_id (lo_user r)"
  then show "revoked db' (ax_id s)"
    by (cases "ax_revoked s") (auto simp: revoked_def a revoke_all_def set_update_rows image_iff)
qed

lemma logout_revokes:
  assumes "logout a db = (Inr (), db')"
  shows "revoked db' (av_id a)" and "revoked db i \<Longrightarrow> revoked db' i"
proof -
  let ?mine = "\<lambda>s. ax_id s = av_id a \<and> \<not> ax_revoked s"
  have h: "hits ?mine (auth_sessions db) = 1" and a: "auth_sessions db' = update_rows ?mine (\<lambda>s. s\<lparr>ax_revoked := True\<rparr>) (auth_sessions db)"
    using assms by (auto simp: logout_Inr)
  have "filter ?mine (auth_sessions db) \<noteq> []" using h by (auto simp: hits_def)
  then obtain s where "s \<in> set (auth_sessions db)" "?mine s" by (auto simp: filter_empty_conv)
  then show "revoked db' (av_id a)" by (auto simp: revoked_def a set_update_rows image_iff)
  show "revoked db i \<Longrightarrow> revoked db' i" using revoked_by [of ?mine "auth_sessions db"] by (auto simp: revoked_def a)
qed

lemma auth_step_revoked:
  assumes "auth_step db db'" "revoked db i"
  shows "revoked db' i"
  using assms(1)
proof (cases rule: auth_step_cases)
  case (2 p lower h d email password name)
  have "auth_sessions db' = auth_sessions db" by (rule register_Inr [OF 2])
  then show ?thesis using assms(2) by (simp add: revoked_def)
qed (use assms(2) in \<open>auto dest: login_revokes(1) logout_revokes(2) simp: auth_elsewhere_def, simp add: revoked_def\<close>)

lemma auth_steps_revoked: "auth_step\<^sup>*\<^sup>* db db' \<Longrightarrow> revoked db i \<Longrightarrow> revoked db' i"
  by (induction rule: rtranclp_induct) (auto intro: auth_step_revoked)

lemma revoked_refused:
  assumes "auth_sound db" "revoked db i" "authenticate dg now token db = Inr a"
  shows "av_id a \<noteq> i"
proof
  assume i: "av_id a = i"
  obtain s where "s \<in> set (auth_sessions db)" "\<not> ax_revoked s" "ax_id s = i" using authenticate_Inr [OF assms(3)] i by metis
  moreover obtain s' where "s' \<in> set (auth_sessions db)" "ax_revoked s'" "ax_id s' = i" using assms(2) by (auto simp: revoked_def)
  ultimately show False using assms(1) by (metis auth_sound_def distinct_map inj_onD)
qed

section \<open>Properties\<close>

text \<open>
  C23: the last login wins.  After a login the issued token authenticates as the user until it expires, and the CSRF token
  issued with it is the one handed out for that session and passes an unsafe request from the configured origin and host; no
  other token authenticates as this user, whatever sessions were open before.
\<close>

theorem login_is_the_only_session:
  assumes "login lower dg h ttl d email password db = (Inr r, db')" and "auth_sound db" and "\<forall>b. length (dg_sha256 dg b) = 64"
  shows "(\<forall>now. now < lo_expires r \<longrightarrow> (\<exists>a. authenticate dg now (Some (lo_token r)) db' = Inr a \<and> av_id a = lo_session r \<and>
        av_user a = lo_user r \<and> csrf_token_for dg a = Inr (lo_csrf r) \<and>
        require_unsafe_request dg p a (Some (sp_origin p)) (Some (sp_host p)) (Some (lo_csrf r)) = Inr ())) \<and>
    (\<forall>now token a. authenticate dg now token db' = Inr a \<and> pu_id (av_user a) = pu_id (lo_user r) \<longrightarrow>
        av_id a = lo_session r \<and> (\<exists>t. token = Some t \<and> secret_hash dg t = secret_hash dg (lo_token r)))"
  using assms(1)
proof (rule login_Inr)
  fix e x stored token verifier
  let ?new = "login_session r token verifier"
  assume *: "account db e = Some (x, stored)" "user_from_row x = Inr (lo_user r)" "secret_hash dg (lo_token r) = Inr token"
    "derive_csrf_token dg (lo_token r) = Inr (lo_csrf r)" "secret_hash dg (lo_csrf r) = Inr verifier"
    "fresh ax_id ?new (auth_sessions db)" "fresh ax_token ?new (auth_sessions db)"
    "auth_sessions db' = revoke_all (pu_id (lo_user r)) (auth_sessions db) @ [?new]" "users db' = users db"
  have x: "x \<in> set (users db)" "pu_id (lo_user r) = us_id x"
    using *(1,2) find_Some_set by (fastforce simp: account_def user_from_row_Inr split: option.split_asm)+
  have fx: "find (\<lambda>y. us_id y = us_id x) (users db') = Some x"
    using find_key_unique x(1) assms(2) by (auto simp: auth_sound_def *(9))
  have len: "length verifier = 64" "verifier \<noteq> []" using *(5) assms(3) by (auto simp: secret_hash_Inr)
      (metis list.size(3) numeral_eq_iff zero_neq_numeral)
  have tok: "lo_token r \<noteq> []" using *(3) by (simp add: secret_hash_Inr)
  have old: "ax_token s \<noteq> token" if "s \<in> set (revoke_all (pu_id (lo_user r)) (auth_sessions db))" for s
  proof -
    have "ax_token s \<in> set (map ax_token (auth_sessions db))" using that revoked_keys(2) by (metis image_eqI set_map)
    then show ?thesis using *(7) by (auto simp: fresh_def login_session_def)
  qed
  have "find (\<lambda>s. ax_token s = token \<and> \<not> ax_revoked s \<and> ax_expires s > now) (auth_sessions db') = Some ?new" if "now < lo_expires r" for now
    using old that unfolding *(8) by (subst find_append_new) (auto simp: login_session_def)
  then have au: "authenticate dg now (Some (lo_token r)) db' = Inr \<lparr>av_id = lo_session r, av_user = lo_user r, av_token = lo_token r,
      av_csrf = verifier, av_expires = lo_expires r\<rparr>" (is "_ = Inr ?a") if "now < lo_expires r" for now
    using that *(2,3) fx x tok len(1) require_hash_Inr [of verifier _ verifier] by (simp add: authenticate_def login_session_def)
  have "verify_secret dg (lo_csrf r) verifier = Inr True" "lo_csrf r \<noteq> []" using len *(5) by (simp_all add: verify_secret_True secret_hash_Inr)
  then have "csrf_token_for dg ?a = Inr (lo_csrf r)"
      "require_unsafe_request dg p ?a (Some (sp_origin p)) (Some (sp_host p)) (Some (lo_csrf r)) = Inr ()"
    using *(4) by (simp_all add: csrf_token_for_def require_unsafe_request_def require_unsafe_authenticated_request_def
      require_pre_auth_request_def require_trusted_original_host_def)
  then have one: "\<exists>a. authenticate dg now (Some (lo_token r)) db' = Inr a \<and> av_id a = lo_session r \<and> av_user a = lo_user r \<and>
      csrf_token_for dg a = Inr (lo_csrf r) \<and>
      require_unsafe_request dg p a (Some (sp_origin p)) (Some (sp_host p)) (Some (lo_csrf r)) = Inr ()" if "now < lo_expires r" for now
    using au [OF that] by simp
  have "av_id a = lo_session r \<and> (\<exists>t. tk = Some t \<and> secret_hash dg t = secret_hash dg (lo_token r))"
    if "authenticate dg now tk db' = Inr a" "pu_id (av_user a) = pu_id (lo_user r)" for now tk a
  proof (rule authenticate_Inr [OF that(1)])
    fix t hash s x'
    assume s: "tk = Some t" "secret_hash dg t = Inr hash" "s \<in> set (auth_sessions db')" "ax_token s = hash" "\<not> ax_revoked s"
      "av_id a = ax_id s" "pu_id (av_user a) = ax_user s"
    have "s \<in> set (filter (\<lambda>s. \<not> ax_revoked s) (revoke_all (pu_id (lo_user r)) (auth_sessions db))) \<or> s = ?new"
      using s(3,5) by (auto simp: *(8))
    then have "s = ?new" using s(7) that(2) by (auto simp: active_revoke_all)
    then show ?thesis using s *(3) by (auto simp: login_session_def)
  qed
  then show ?thesis using one by blast
qed

text \<open>
  C24: a session that has ended stays ended.  Once a session was logged out, or its user has logged in again, no token
  authenticates as that session any more, whatever registrations, logins, logouts and other transactions follow.
\<close>

theorem ended_sessions_stay_ended:
  assumes "auth_sound db" and "authenticate dg now token db = Inr a"
    and "logout a db = (Inr (), db1) \<or>
      login lower dg h ttl d email password db = (Inr r, db1) \<and> pu_id (lo_user r) = pu_id (av_user a)"
    and "auth_step\<^sup>*\<^sup>* db1 db2" and "authenticate dg' now' token' db2 = Inr a'"
  shows "av_id a' \<noteq> av_id a"
proof -
  obtain s where s: "s \<in> set (auth_sessions db)" "av_id a = ax_id s" "pu_id (av_user a) = ax_user s"
    using authenticate_Inr [OF assms(2)] by metis
  have "revoked db1 (av_id a) \<and> auth_sound db1" using assms(3)
  proof
    assume "logout a db = (Inr (), db1)"
    then show ?thesis using logout_revokes(1) logout_sound assms(1) by blast
  next
    assume l: "login lower dg h ttl d email password db = (Inr r, db1) \<and> pu_id (lo_user r) = pu_id (av_user a)"
    show ?thesis using login_revokes(2) [OF conjunct1 [OF l] s(1)] login_sound [OF conjunct1 [OF l] assms(1)] l s by simp
  qed
  then show ?thesis using revoked_refused [OF _ _ assms(5)] auth_steps_sound [OF assms(4)] auth_steps_revoked [OF assms(4)] by blast
qed

text \<open>
  An account that was registered can log in, under any spelling of its address that normalizes alike: when the stored
  hash verifies the password, the session id and the hash of the issued token are new and the secrets have encodings, the
  login succeeds as the registered user, whose address is the normalized one.
\<close>

theorem registered_accounts_log_in:
  assumes "register lower h d email password name db = (Inr p, db1)" and "auth_sound db"
    and "ha_verify h' (ha_hash h password) password"
    and "normalize_email_for_login lower email' = normalize_email_for_login lower email"
    and "derive_csrf_token dg (ld_token ld) = Inr csrf" and "secret_hash dg csrf = Inr verifier" and "secret_hash dg (ld_token ld) = Inr token"
    and "token \<notin> ax_token ` set (auth_sessions db)" and "ld_session ld \<notin> ax_id ` set (auth_sessions db)"
  shows "\<exists>r db2. login lower dg h' ttl ld email' password db1 = (Inr r, db2) \<and> lo_user r = p \<and>
    normalize_email_for_login lower email = Inr (pu_email p) \<and> (\<forall>x \<in> set (users db). us_email x \<noteq> pu_email p \<and> us_id x \<noteq> pu_id p)"
  using assms(1)
proof (rule register_Inr)
  fix e n
  let ?x = "\<lparr>us_id = rd_user d, us_email = e, us_name = n\<rparr>"
  assume *: "normalize_email lower email = Inr e" "validate_password password = Inr ()"
    "fresh us_id ?x (users db)" "fresh us_email ?x (users db)" "users db1 = users db @ [?x]"
    "credentials db1 = credentials db @ [\<lparr>cr_user = rd_user d, cr_hash = ha_hash h password\<rparr>]"
    "auth_sessions db1 = auth_sessions db" "user_from_row ?x = Inr p"
  have e: "normalize_email_for_login lower email' = Inr e" using *(1) assms(4) by (auto simp: normalize_email_def and_then_Inr)
  have "\<forall>x \<in> set (users db). us_email x \<noteq> e" using *(4) by (auto simp: fresh_def)
  then have "find (\<lambda>x. us_email x = e) (users db1) = Some ?x" unfolding *(5) by (simp add: find_append_new)
  moreover have "cr_user ` set (credentials db) \<subseteq> us_id ` set (users db)" using assms(2) by (simp only: auth_sound_def)
  then have "cr_user c \<in> us_id ` set (users db)" if "c \<in> set (credentials db)" for c by (rule subsetD [OF _ imageI [OF that]])
  then have c: "\<forall>c \<in> set (credentials db). cr_user c \<noteq> rd_user d" using *(3) by (metis fresh_def set_map user_row.select_convs(1))
  have "find (\<lambda>c. cr_user c = rd_user d) (credentials db1) = Some \<lparr>cr_user = rd_user d, cr_hash = ha_hash h password\<rparr>" unfolding *(6)
    using c by (simp add: find_append_new)
  ultimately have a: "account db1 e = Some (?x, ha_hash h password)" by (simp add: account_def)
  have v: "validate_login_password password = Inr ()" using *(2) by (simp add: validate_password_def validate_login_password_def)
  have s: "auth_sessions (rehash h' i stored pw db1) = auth_sessions db" for i stored pw by (simp add: rehash_def *(7))
  let ?new = "\<lparr>ax_id = ld_session ld, ax_token = token, ax_csrf = verifier, ax_user = rd_user d, ax_expires = ld_now ld + ttl, ax_revoked = False\<rparr>"
  have "fresh ax_id ?new (revoke_all (rd_user d) (auth_sessions db))" "fresh ax_token ?new (revoke_all (rd_user d) (auth_sessions db))"
    using assms(8,9) by (simp_all add: fresh_def revoked_keys del: set_map) simp_all
  then have "\<exists>r db2. login_body dg h' ttl ld csrf e password db1 = Inr (r, db2) \<and> lo_user r = p"
    using assms(3,6,7) *(8) by (simp add: login_body_def Let_def a insert_auth_session_def s)
  then show ?thesis using fresh_ne [OF *(3)] fresh_ne [OF *(4)] *(8) e v assms(4,5)
    by (auto simp: login_def transaction_Inr_iff user_from_row_Inr)
qed

text \<open>
  An unsafe request passes exactly when it comes from the configured origin and host and carries a non-empty token whose
  hash is the verifier stored with the session.
\<close>

theorem unsafe_requests_checked:
  "require_unsafe_request dg p a origin host csrf = Inr () \<longleftrightarrow>
     origin = Some (sp_origin p) \<and> host = Some (sp_host p) \<and>
     (\<exists>t. csrf = Some t \<and> secret_hash dg t = Inr (av_csrf a) \<and> length (av_csrf a) = 64)"
  by (cases csrf)
    (auto simp: require_unsafe_request_def require_unsafe_authenticated_request_def require_pre_auth_request_def
      require_trusted_original_host_def and_then_Inr [of "and_then _ _"] and_then_Inr [of "require _ _ _"] and_then_check
      verify_secret_True secret_hash_Inr)

text \<open>
  A refused login tells nothing and changes nothing: an unknown address and a wrong password give the same exception and
  leave the database as it was.
\<close>

theorem refused_logins_look_alike:
  assumes "normalize_email_for_login lower email = Inr e" and "derive_csrf_token dg (ld_token d) = Inr csrf"
    and "case account db e of None \<Rightarrow> True | Some (x, stored) \<Rightarrow> \<not> ha_verify h stored password"
  shows "login lower dg h ttl d email password db = (Inl (InvalidCredentialsError (u ''invalid credentials'')), db)"
proof (cases "1 \<le> length password \<and> length password \<le> 1024")
  case True
  then show ?thesis using assms
    by (auto simp: login_def validate_login_password_def login_body_def Let_def require_def transaction_def split: option.split_asm)
qed (use assms in \<open>auto simp: login_def validate_login_password_def require_def\<close>)

section \<open>The properties at concrete accounts\<close>

text \<open>Two users with an open session each; a digest is its text cut or filled up to 64 characters.\<close>

definition sample_digests :: digests where
  "sample_digests = \<lparr>dg_sha256 = \<lambda>b. take 64 (b @ replicate 64 48), dg_hmac = \<lambda>k m. replicate 64 49\<rparr>"

definition sample_hasher :: hasher where
  "sample_hasher = \<lparr>ha_hash = \<lambda>p. p, ha_verify = \<lambda>h p. h = p, ha_stale = \<lambda>h. False, ha_dummy = []\<rparr>"

definition sample_auth_row :: "uuid \<Rightarrow> uuid \<Rightarrow> nat \<Rightarrow> auth_row" where
  "sample_auth_row i user c =
     \<lparr>ax_id = i, ax_token = replicate 64 c, ax_csrf = replicate 64 49, ax_user = user, ax_expires = 100, ax_revoked = False\<rparr>"

definition sample_auth :: auth_db where
  "sample_auth = platform_db.extend (app_db.extend empty_db
     \<lparr>users = [\<lparr>us_id = 5, us_email = u ''a@b.c'', us_name = u ''hi''\<rparr>, \<lparr>us_id = 6, us_email = u ''d@e.f'', us_name = u ''ho''\<rparr>],
      friendships = [], rooms = [], invitations = [], profiles = [], comments = [], mentions = [], merged_states = [], merged_versions = []\<rparr>)
     \<lparr>credentials = [\<lparr>cr_user = 5, cr_hash = u ''secret''\<rparr>, \<lparr>cr_user = 6, cr_hash = u ''other''\<rparr>],
      auth_sessions = [sample_auth_row 7 5 50, sample_auth_row 8 6 51]\<rparr>"

lemmas auth_eval = sample_auth_def sample_auth_row_def empty_db_def app_db.defs platform_db.defs

lemma sample_digest_length: "\<forall>b. length (dg_sha256 sample_digests b) = 64"
  by (auto simp: sample_digests_def min_def)

lemma sample_auth_sound: "auth_sound sample_auth"
  by (simp add: auth_sound_def active_sessions_def auth_eval)

definition sample_login :: login_draws where
  "sample_login = \<lparr>ld_token = u ''tok'', ld_session = 9, ld_now = 10\<rparr>"

lemma replicate_head: "c # xs = replicate n y \<Longrightarrow> c = y"
  by (cases n) auto

lemma sample_strip_ids: "py_strip (u ''a@b.c'') = u ''a@b.c''" "py_strip (u ''n@e.w'') = u ''n@e.w''" "py_strip (u ''he'') = u ''he''"
  by (simp_all add: py_strip_def py_lstrip_def py_rstrip_def py_isspace_def)

lemma sample_secrets:
  "derive_csrf_token sample_digests (u ''tok'') = Inr (replicate 64 49)"
  "secret_hash sample_digests (replicate 64 49) = Inr (replicate 64 49)"
  "secret_hash sample_digests (u ''tok'') = Inr (u ''tok'' @ replicate 61 48)"
  "secret_hash sample_digests (replicate 64 50) = Inr (replicate 64 50)"
  "secret_hash sample_digests (replicate 64 51) = Inr (replicate 64 51)"
proof -
  have r: "utf8 (replicate n c) = Some (replicate n c)" if "c < 128" for n c using that by (induction n) (simp_all add: utf8_char_def)
  have t: "utf8 (u ''tok'') = Some (u ''tok'')" by (simp add: utf8_char_def)
  show "derive_csrf_token sample_digests (u ''tok'') = Inr (replicate 64 49)"
    by (simp add: derive_csrf_token_def encode_def t sample_digests_def del: u_simps) simp
  show "secret_hash sample_digests (replicate 64 49) = Inr (replicate 64 49)"
    "secret_hash sample_digests (replicate 64 50) = Inr (replicate 64 50)"
    "secret_hash sample_digests (replicate 64 51) = Inr (replicate 64 51)"
    by (simp_all add: secret_hash_def encode_def r sample_digests_def)
  show "secret_hash sample_digests (u ''tok'') = Inr (u ''tok'' @ replicate 61 48)"
    unfolding secret_hash_def encode_def t by (simp add: sample_digests_def)
qed

theorem login_is_the_only_session_witness:
  "\<exists>r db a. login (\<lambda>s. s) sample_digests sample_hasher 100 sample_login (u ''a@b.c'') (u ''secret'') sample_auth = (Inr r, db) \<and>
     authenticate sample_digests 50 (Some (lo_token r)) db = Inr a \<and> av_id a = 9 \<and> pu_id (av_user a) = 5"
proof -
  have "\<exists>r db. login (\<lambda>s. s) sample_digests sample_hasher 100 sample_login (u ''a@b.c'') (u ''secret'') sample_auth = (Inr r, db) \<and>
      lo_expires r = 110 \<and> lo_session r = 9 \<and> pu_id (lo_user r) = 5"
  proof -
    have a: "account sample_auth (u ''a@b.c'') = Some (\<lparr>us_id = 5, us_email = u ''a@b.c'', us_name = u ''hi''\<rparr>, u ''secret'')"
      by (simp add: account_def auth_eval del: u_simps)
    have n: "normalize_email_for_login (\<lambda>s. s) (u ''a@b.c'') = Inr (u ''a@b.c'')"
      by (simp add: normalize_email_for_login_def sample_strip_ids del: u_simps) simp
    have f: "fresh ax_token \<lparr>ax_id = 9, ax_token = u ''tok'' @ replicate 61 48, ax_csrf = replicate 64 49, ax_user = 5, ax_expires = 110, ax_revoked = False\<rparr>
        (revoke_all 5 (auth_sessions sample_auth))"
      by (auto simp: fresh_def revoked_keys auth_eval dest: replicate_head simp del: set_map)
    have g: "fresh ax_id \<lparr>ax_id = 9, ax_token = u ''tok'' @ replicate 61 48, ax_csrf = replicate 64 49, ax_user = 5, ax_expires = 110, ax_revoked = False\<rparr>
        (revoke_all 5 (auth_sessions sample_auth))"
      by (simp add: fresh_def revoked_keys auth_eval del: set_map)
    have e: "u ''a@b.c'' \<noteq> []" "u ''hi'' \<noteq> []" by simp_all
    show ?thesis
      using sample_secrets f g e
      by (simp add: login_def transaction_Inr_iff n validate_login_password_def sample_login_def login_body_def a Let_def sample_hasher_def
        user_from_row_def rehash_def insert_auth_session_def text_column_def del: u_simps)
  qed
  then obtain r db where l: "login (\<lambda>s. s) sample_digests sample_hasher 100 sample_login (u ''a@b.c'') (u ''secret'') sample_auth = (Inr r, db)"
      "lo_expires r = 110" "lo_session r = 9" "pu_id (lo_user r) = 5" by blast
  have "(50 :: int) < lo_expires r" using l(2) by simp
  with login_is_the_only_session [OF l(1) sample_auth_sound sample_digest_length] obtain a
    where "authenticate sample_digests 50 (Some (lo_token r)) db = Inr a" "av_id a = lo_session r" "av_user a = lo_user r" by blast
  then show ?thesis using l(1,3,4) by metis
qed


theorem ended_sessions_stay_ended_witness:
  "\<exists>a db a'. authenticate sample_digests 5 (Some (replicate 64 50)) sample_auth = Inr a \<and> logout a sample_auth = (Inr (), db) \<and>
     authenticate sample_digests 5 (Some (replicate 64 51)) db = Inr a' \<and> av_id a' \<noteq> av_id a"
proof -
  have m: "length (replicate 64 (49 :: nat)) = 64" "u ''a@b.c'' \<noteq> []" "u ''hi'' \<noteq> []" "u ''d@e.f'' \<noteq> []" "u ''ho'' \<noteq> []" by simp_all
  have u: "user_from_row \<lparr>us_id = 5, us_email = u ''a@b.c'', us_name = u ''hi''\<rparr> = Inr \<lparr>pu_id = 5, pu_email = u ''a@b.c'', pu_name = u ''hi''\<rparr>"
    "user_from_row \<lparr>us_id = 6, us_email = u ''d@e.f'', us_name = u ''ho''\<rparr> = Inr \<lparr>pu_id = 6, pu_email = u ''d@e.f'', pu_name = u ''ho''\<rparr>"
    by (simp_all add: user_from_row_Inr)
  have h: "require_hash (replicate 64 49) l = Inr (replicate 64 49)" for l by (simp add: require_hash_Inr)
  have a: "\<exists>a. authenticate sample_digests 5 (Some (replicate 64 50)) sample_auth = Inr a \<and> av_id a = 7"
    by (simp add: authenticate_def sample_secrets auth_eval u h del: u_simps)
  then obtain a where a: "authenticate sample_digests 5 (Some (replicate 64 50)) sample_auth = Inr a" "av_id a = 7" by blast
  define db where "db = sample_auth\<lparr>auth_sessions := [(sample_auth_row 7 5 50)\<lparr>ax_revoked := True\<rparr>, sample_auth_row 8 6 51]\<rparr>"
  have l: "logout a sample_auth = (Inr (), db)" unfolding logout_Inr by (simp add: a(2) db_def auth_eval)
  have "\<exists>a'. authenticate sample_digests 5 (Some (replicate 64 51)) db = Inr a'"
    by (simp add: authenticate_def sample_secrets db_def auth_eval u h del: u_simps)
  then obtain a' where b: "authenticate sample_digests 5 (Some (replicate 64 51)) db = Inr a'" ..
  show ?thesis using ended_sessions_stay_ended [OF sample_auth_sound a(1) disjI1 [OF l] rtranclp.rtrancl_refl b] a(1) l b by blast
qed

text \<open>A third account, with every spelling kept.\<close>

definition sample_register :: register_draws where
  "sample_register = \<lparr>rd_user = 4, rd_now = 1, rd_event = \<lparr>dr_event = 80, dr_notification = \<lambda>x. x, dr_outbox = \<lambda>x. x, dr_now = 1\<rparr>\<rparr>"

lemma sample_registration:
  "\<exists>db. register (\<lambda>s. s) sample_hasher sample_register (u ''n@e.w'') (u ''password'') (u ''he'') sample_auth =
     (Inr \<lparr>pu_id = 4, pu_email = u ''n@e.w'', pu_name = u ''he''\<rparr>, db)"
proof -
  let ?x = "\<lparr>us_id = 4, us_email = u ''n@e.w'', us_name = u ''he''\<rparr>"
  let ?db = "sample_auth\<lparr>users := users sample_auth @ [?x], credentials := credentials sample_auth @ [\<lparr>cr_user = 4, cr_hash = u ''password''\<rparr>],
      profiles := [default_profile 4 1], preferences := preference_rows 4\<rparr>"
  let ?event = "record_event (rd_event sample_register) (u ''account.registered'') [(''user_id'', IUuid 4)] 4 SC_PERSONAL (Some 4) None None
      (u ''account'') 4 [] [] ?db"
  have t: "u ''account.registered'' \<in> set supported_event_types" by (simp add: supported_event_types_def del: u_simps)
  have k: "build_event_key (u ''account.registered'') (kwargs [(''user_id'', IUuid 4)]) = Inr (u ''account:'' @ uuid_text 4 @ u '':registered'')"
    by (simp add: build_event_key_def t event_template_def segment_text_def field_def kwargs_def del: u_simps) (simp add: ustr_join_def)
  have m: "storable []" by (simp add: storable_def metadata_eval)
  have "\<exists>a. ?event = Inr (?db\<lparr>audit := a\<rparr>)"
    by (rule personal_event [OF t k _ _ m]) (simp_all add: auth_eval)
  then obtain a where a: "?event = Inr (?db\<lparr>audit := a\<rparr>)" ..
  have i: "insert_user ?x (u ''password'') sample_auth =
      Inr (sample_auth\<lparr>users := users sample_auth @ [?x], credentials := credentials sample_auth @ [\<lparr>cr_user = 4, cr_hash = u ''password''\<rparr>]\<rparr>)"
    by (simp add: insert_user_def fresh_def auth_eval)
  have n: "normalize_email (\<lambda>s. s) (u ''n@e.w'') = Inr (u ''n@e.w'')" "normalize_display_name (u ''he'') = Inr (u ''he'')"
    "validate_password (u ''password'') = Inr ()"
    by (simp_all add: normalize_email_def normalize_email_for_login_def normalize_display_name_def validate_password_def sample_strip_ids del: u_simps)
      simp_all
  have "user_from_row ?x = Inr \<lparr>pu_id = 4, pu_email = u ''n@e.w'', pu_name = u ''he''\<rparr>" by (simp add: user_from_row_Inr)
  then show ?thesis using a i n
    by (simp add: register_def register_body_def transaction_def insert_settings_def fresh_def sample_register_def sample_hasher_def
        already_registered_def auth_eval Let_def del: u_simps)
qed

theorem registered_accounts_log_in_witness:
  "\<exists>p db r db'. register (\<lambda>s. s) sample_hasher sample_register (u ''n@e.w'') (u ''password'') (u ''he'') sample_auth = (Inr p, db) \<and>
     login (\<lambda>s. s) sample_digests sample_hasher 100 sample_login (u ''n@e.w'') (u ''password'') db = (Inr r, db') \<and> lo_user r = p"
proof -
  obtain p db where r: "register (\<lambda>s. s) sample_hasher sample_register (u ''n@e.w'') (u ''password'') (u ''he'') sample_auth = (Inr p, db)"
    using sample_registration by blast
  have v: "ha_verify sample_hasher (ha_hash sample_hasher (u ''password'')) (u ''password'')" by (simp add: sample_hasher_def)
  have s: "derive_csrf_token sample_digests (ld_token sample_login) = Inr (replicate 64 49)"
    "secret_hash sample_digests (ld_token sample_login) = Inr (u ''tok'' @ replicate 61 48)"
    using sample_secrets by (simp_all add: sample_login_def del: u_simps)
  have f: "u ''tok'' @ replicate 61 48 \<notin> ax_token ` set (auth_sessions sample_auth)" "ld_session sample_login \<notin> ax_id ` set (auth_sessions sample_auth)"
    by (auto simp: auth_eval sample_login_def dest: replicate_head)
  show ?thesis using registered_accounts_log_in [OF r sample_auth_sound v refl s(1) sample_secrets(2) s(2) f, of 100] r by blast
qed

theorem refused_logins_look_alike_witness:
  "login (\<lambda>s. s) sample_digests sample_hasher 100 sample_login (u ''n@e.w'') (u ''x'') sample_auth =
     (Inl (InvalidCredentialsError (u ''invalid credentials'')), sample_auth) \<and>
   login (\<lambda>s. s) sample_digests sample_hasher 100 sample_login (u ''a@b.c'') (u ''x'') sample_auth =
     (Inl (InvalidCredentialsError (u ''invalid credentials'')), sample_auth)"
proof -
  have n: "normalize_email_for_login (\<lambda>s. s) (u ''n@e.w'') = Inr (u ''n@e.w'')" "normalize_email_for_login (\<lambda>s. s) (u ''a@b.c'') = Inr (u ''a@b.c'')"
    by (simp_all add: normalize_email_for_login_def sample_strip_ids del: u_simps) simp_all
  have s: "derive_csrf_token sample_digests (ld_token sample_login) = Inr (replicate 64 49)"
    using sample_secrets by (simp add: sample_login_def del: u_simps)
  show ?thesis
    by (intro conjI refused_logins_look_alike [OF n(1) s] refused_logins_look_alike [OF n(2) s])
      (simp_all add: account_def auth_eval sample_hasher_def)
qed

end
