(* ===== verification/Merged_Documents.thy ===== *)
theory Merged_Documents
  imports Source_Tables Generation_Read Uuid_Text
begin

text \<open>
  \<open>merged_document_service.py\<close> and \<open>integrated_report.py\<close>, with the parts of \<open>automatic_report_suggestions.py\<close> the merged
  document uses: the editable document of a report, its optimistic saves and its named versions.

  \<^item> \<open>sha256\<close> is the hexadecimal digest of SHA-256, \<open>repr_str\<close> the \<open>repr\<close> of a Python string.  Stored hashes are ASCII text.
  \<^item> The row lock (\<open>FOR UPDATE\<close>) makes a save of a stored document one function on the committed state; two concurrent first
    saves, which find no row to lock, are not modelled.  Text with NUL characters, which \<open>jsonb\<close> refuses, is left out.
\<close>

section \<open>The report of a session\<close>

record report_identity =
  ri_snapshot :: uuid
  ri_hash :: ustr

definition report_content_hash :: "(nat list \<Rightarrow> ustr) \<Rightarrow> ustr \<Rightarrow> ustr \<Rightarrow> ustr" where
  "report_content_hash sha256 summary research = sha256 (summary @ research)"

text \<open>The documents of the snapshot's succeeded runs of its own pipeline.\<close>

definition report_documents :: "'z app_db_scheme \<Rightarrow> snapshot_row \<Rightarrow> document_row list" where
  "report_documents db n =
     [x. r \<leftarrow> runs db, gr_snapshot r = sn_id n \<and> gr_state r = G_SUCCEEDED \<and> gr_pipeline r = sn_pipeline n,
         x \<leftarrow> documents db, gd_run x = gr_id r]"

text \<open>\<open>HAVING count(*) = 2 AND count(DISTINCT document.kind) = 2\<close>\<close>

definition complete_report :: "'z app_db_scheme \<Rightarrow> snapshot_row \<Rightarrow> bool" where
  "complete_report db n \<longleftrightarrow> length (report_documents db n) = 2 \<and> length (remdups (map gd_kind (report_documents db n))) = 2"

definition hash_of_kind :: "'z app_db_scheme \<Rightarrow> snapshot_row \<Rightarrow> generation_kind \<Rightarrow> ustr" where
  "hash_of_kind db n k = (case find (\<lambda>x. gd_kind x = k) (report_documents db n) of None \<Rightarrow> [] | Some x \<Rightarrow> gd_hash x)"

definition latest_report :: "'z app_db_scheme \<Rightarrow> uuid \<Rightarrow> snapshot_row option" where
  "latest_report db sid =
     find (\<lambda>_. True) (sort_key (\<lambda>n. - sn_epoch n) (filter (\<lambda>n. sn_session n = sid \<and> complete_report db n) (snapshots db)))"

definition load_report_identity :: "(nat list \<Rightarrow> ustr) \<Rightarrow> 'z app_db_scheme \<Rightarrow> uuid \<Rightarrow> report_identity option" where
  "load_report_identity sha256 db sid =
     map_option (\<lambda>n. \<lparr>ri_snapshot = sn_id n, ri_hash = report_content_hash sha256 (hash_of_kind db n SUMMARY) (hash_of_kind db n RESEARCH)\<rparr>)
       (latest_report db sid)"

section \<open>Blocks and their JSON\<close>

datatype block =
    HeadingBlock (block_id: ustr) (block_level: int) (block_text: ustr) (block_tag: "ustr option")
  | ParagraphBlock (block_id: ustr) (block_text: ustr) (block_tag: "ustr option")

text \<open>\<open>str(value or "")\<close> of a JSON value.\<close>

fun py_str :: "(ustr \<Rightarrow> ustr) \<Rightarrow> json \<Rightarrow> ustr" and py_repr :: "(ustr \<Rightarrow> ustr) \<Rightarrow> json \<Rightarrow> ustr" where
  "py_str repr_str (JStr s) = s"
| "py_str repr_str v = py_repr repr_str v"
| "py_repr repr_str JNull = u ''None''"
| "py_repr repr_str (JBool b) = (if b then u ''True'' else u ''False'')"
| "py_repr repr_str (JInt i) = int_text i"
| "py_repr repr_str (JFloat r) = r"
| "py_repr repr_str (JStr s) = repr_str s"
| "py_repr repr_str (JList xs) = [91] @ ustr_join (u '', '') (map (py_repr repr_str) xs) @ [93]"
| "py_repr repr_str (JObj kvs) =
     [123] @ ustr_join (u '', '') (map (\<lambda>kv. repr_str (fst kv) @ u '': '' @ py_repr repr_str (snd kv)) kvs) @ [125]"

fun json_falsy :: "json \<Rightarrow> bool" where
  "json_falsy JNull = True"
| "json_falsy (JBool b) = (\<not> b)"
| "json_falsy (JInt i) = (i = 0)"
| "json_falsy (JFloat r) = (r \<in> {u ''0.0'', u ''-0.0''})"
| "json_falsy (JStr s) = (s = [])"
| "json_falsy (JList xs) = (xs = [])"
| "json_falsy (JObj kvs) = (kvs = [])"

definition str_or_empty :: "(ustr \<Rightarrow> ustr) \<Rightarrow> json option \<Rightarrow> ustr" where
  "str_or_empty repr_str v = (case v of None \<Rightarrow> [] | Some j \<Rightarrow> if json_falsy j then [] else py_str repr_str j)"

text \<open>\<open>level in (1, 2, 3)\<close>: equality of Python numbers.\<close>

fun heading_level :: "json option \<Rightarrow> int option" where
  "heading_level (Some (JInt i)) = (if i \<in> {1, 2, 3} then Some i else None)"
| "heading_level (Some (JBool True)) = Some 1"
| "heading_level (Some (JFloat r)) =
     (if r = u ''1.0'' then Some 1 else if r = u ''2.0'' then Some 2 else if r = u ''3.0'' then Some 3 else None)"
| "heading_level _ = None"

fun block_type :: "block \<Rightarrow> ustr" where
  "block_type (HeadingBlock i l t g) = u ''heading''"
| "block_type (ParagraphBlock i t g) = u ''paragraph''"

definition block_to_json :: "block \<Rightarrow> json" where
  "block_to_json b =
     JObj ([(u ''id'', JStr (block_id b)), (u ''type'', JStr (block_type b)), (u ''text'', JStr (block_text b))] @
       (case block_tag b of None \<Rightarrow> [] | Some g \<Rightarrow> [(u ''tag'', JStr g)]) @
       (case b of HeadingBlock i l t g \<Rightarrow> [(u ''level'', JInt l)] | _ \<Rightarrow> []))"

definition blocks_to_json :: "block list \<Rightarrow> json" where
  "blocks_to_json bs = JList (map block_to_json bs)"

definition block_from_json :: "(ustr \<Rightarrow> ustr) \<Rightarrow> json \<Rightarrow> app_error + block" where
  "block_from_json repr_str raw =
     (case json_object raw of
        None \<Rightarrow> Inl (ValueError (u ''persisted merged document block must be an object''))
      | Some kvs \<Rightarrow>
          let i = str_or_empty repr_str (get_key kvs (u ''id'')); t = str_or_empty repr_str (get_key kvs (u ''text''));
              g = get_str kvs (u ''tag'') in
          if get_key kvs (u ''type'') = Some (JStr (u ''heading'')) then
            (case heading_level (get_key kvs (u ''level'')) of
               None \<Rightarrow> Inl (ValueError (u ''persisted heading block has an invalid level''))
             | Some l \<Rightarrow> Inr (HeadingBlock i l t g))
          else if get_key kvs (u ''type'') = Some (JStr (u ''paragraph'')) then Inr (ParagraphBlock i t g)
          else Inl (ValueError (u ''persisted merged document block has an unknown type'')))"

definition blocks_from_json :: "(ustr \<Rightarrow> ustr) \<Rightarrow> json \<Rightarrow> app_error + block list" where
  "blocks_from_json repr_str value =
     (case json_list value of
        None \<Rightarrow> Inl (ValueError (u ''persisted merged document blocks must be an array''))
      | Some xs \<Rightarrow> map_result (block_from_json repr_str) xs)"

section \<open>The documents of a snapshot and their coverage blocks\<close>

record snapshot_document =
  sx_revision :: uuid
  sx_title :: ustr
  sx_anchors :: "(uuid \<times> ustr) list" \<comment> \<open>id and text\<close>

definition document_title :: "'z source_db_scheme \<Rightarrow> revision_row \<Rightarrow> submission_row \<Rightarrow> ustr" where
  "document_title db r b =
     (if sb_title b \<noteq> [] then sb_title b
      else case file_of db (sr_id r) of None \<Rightarrow> [47928, 49436] | Some f \<Rightarrow> so_filename f)"

text \<open>The rows of the query in the order of the query: the revision's id, its title and the anchor.\<close>

definition snapshot_rows :: "'z source_db_scheme \<Rightarrow> uuid \<Rightarrow> (uuid \<times> ustr \<times> anchor_row) list" where
  "snapshot_rows db sn =
     sort_key (\<lambda>(i, t, a). i) (sort_key (\<lambda>(i, t, a). an_ordinal a) (sort_key (\<lambda>(i, t, a). an_id a)
       [(sr_id r, document_title db r b, a). p \<leftarrow> pinned db, pn_snapshot p = sn,
          r \<leftarrow> revisions db, sr_id r = pn_revision p, b \<leftarrow> submissions db, sb_id b = sr_submission r,
          a \<leftarrow> anchors db, an_revision a = pn_revision p \<and> an_run a = pn_run p \<and> an_excluded a = None]))"

text \<open>One turn of the grouping loop: \<open>setdefault\<close>, then the anchor at the end of its group.\<close>

fun add_row :: "uuid \<times> ustr \<times> anchor_row \<Rightarrow> snapshot_document list \<Rightarrow> snapshot_document list" where
  "add_row (i, t, a) [] = [\<lparr>sx_revision = i, sx_title = t, sx_anchors = [(an_id a, an_text a)]\<rparr>]"
| "add_row (i, t, a) (x # xs) =
     (if sx_revision x = i then x\<lparr>sx_anchors := sx_anchors x @ [(an_id a, an_text a)]\<rparr> # xs else x # add_row (i, t, a) xs)"

definition load_snapshot_documents :: "'z source_db_scheme \<Rightarrow> uuid \<Rightarrow> snapshot_document list" where
  "load_snapshot_documents db sn = sort_key (\<lambda>x. uuid_text (sx_revision x)) (fold add_row (snapshot_rows db sn) [])"

definition max_coverage_anchors :: nat where
  "max_coverage_anchors = 10"

definition max_paragraph_length :: nat where
  "max_paragraph_length = 20000"

text \<open>The chunks of one document; the second argument is the open one.\<close>

fun coverage_chunks :: "(uuid \<times> ustr) list \<Rightarrow> (uuid \<times> ustr) list \<Rightarrow> (uuid \<times> ustr) list list" where
  "coverage_chunks [] chunk = (if chunk = [] then [] else [chunk])"
| "coverage_chunks (a # rest) chunk =
     (let next = sum_list (map (\<lambda>c. length (snd c)) chunk) + length (snd a) + (if chunk \<noteq> [] then 2 * length chunk else 0) in
      if length chunk \<ge> max_coverage_anchors \<or> next > max_paragraph_length
      then (if chunk = [] then [] else [chunk]) @ coverage_chunks rest [a]
      else coverage_chunks rest (chunk @ [a]))"

definition coverage_heading :: json where
  "coverage_heading = JObj [(u ''id'', JStr (u ''source-coverage-heading'')), (u ''type'', JStr (u ''heading'')), (u ''level'', JInt 1),
     (u ''text'', JStr [50629, 47196, 46300, 32, 47928, 49436, 32, 51204, 52404, 32, 45236, 50857]),
     (u ''tag'', JStr [50896, 47928, 32, 51204, 52404])]"

definition coverage_paragraph :: "nat \<Rightarrow> ustr \<Rightarrow> nat \<times> (uuid \<times> ustr) list \<Rightarrow> json" where
  "coverage_paragraph document title chunk =
     JObj [(u ''id'', JStr (u ''source-'' @ int_text (int document) @ u ''-'' @ int_text (int (fst chunk)))),
       (u ''type'', JStr (u ''paragraph'')),
       (u ''text'', JStr (ustr_join [10, 10] (map snd (snd chunk)))),
       (u ''tag'', JStr (title @ [32, 183, 32] @ ustr_join [32] (map (\<lambda>c. u ''RAG:'' @ uuid_text (fst c)) (snd chunk))))]"

definition coverage_title :: "ustr \<Rightarrow> ustr" where
  "coverage_title t = (if py_strip t = [] then [51228, 47785, 32, 50630, 45716, 32, 47928, 49436] else py_strip t)"

definition build_source_coverage_blocks :: "snapshot_document list \<Rightarrow> json list" where
  "build_source_coverage_blocks docs =
     coverage_heading # concat (map (\<lambda>(i, x).
       map (coverage_paragraph i (coverage_title (sx_title x))) (enumerate 0 (coverage_chunks (sx_anchors x) []))) (enumerate 0 docs))"

section \<open>The baseline document\<close>

text \<open>\<open>d.get(k) or []\<close> where persisted summaries hold a list of objects, or of strings.\<close>

definition object_list :: "json option \<Rightarrow> (ustr \<times> json) list list" where
  "object_list v = (case Option.bind v json_list of None \<Rightarrow> [] | Some xs \<Rightarrow> List.map_filter json_object xs)"

definition string_list :: "json option \<Rightarrow> ustr list" where
  "string_list v = (case Option.bind v json_list of None \<Rightarrow> [] | Some xs \<Rightarrow> List.map_filter json_string xs)"

definition summary_sections :: "(ustr \<times> json) list \<Rightarrow> (ustr \<times> json) list list" where
  "summary_sections content = object_list (get_key content (u ''sections''))"

definition section_entries :: "(ustr \<times> json) list \<Rightarrow> (ustr \<times> json) list list" where
  "section_entries sec = object_list (get_key sec (u ''items''))"

definition item_anchor_ids :: "(ustr \<times> json) list \<Rightarrow> ustr list" where
  "item_anchor_ids item = string_list (get_key item (u ''source_anchor_ids''))"

definition anchor_ids_in :: "(ustr \<times> json) list \<Rightarrow> ustr list" where
  "anchor_ids_in content = concat (map (\<lambda>sec. concat (map item_anchor_ids (section_entries sec))) (summary_sections content))"

definition resolve_anchor_titles :: "'z app_db_scheme \<Rightarrow> ustr list \<Rightarrow> (ustr \<times> ustr) list" where
  "resolve_anchor_titles db ids =
     [(uuid_text (an_id a), sb_title b). a \<leftarrow> anchors db, an_id a \<in> set (List.map_filter parse_uuid ids),
        r \<leftarrow> revisions db, sr_id r = an_revision a, b \<leftarrow> submissions db, sb_id b = sr_submission r]"

definition item_tag :: "(ustr \<times> ustr) list \<Rightarrow> (ustr \<times> json) list \<Rightarrow> ustr option" where
  "item_tag titles item =
     (let ts = sort (remdups (List.map_filter (map_of titles) (item_anchor_ids item)))
      in if ts = [] then None else Some (ustr_join (u '', '') ts))"

definition item_block :: "(ustr \<Rightarrow> ustr) \<Rightarrow> (ustr \<times> ustr) list \<Rightarrow> nat \<Rightarrow> nat \<times> (ustr \<times> json) list \<Rightarrow> block list" where
  "item_block repr_str titles i item =
     (let t = py_strip (str_or_empty repr_str (get_key (snd item) (u ''text''))) in
      if t = [] then []
      else [ParagraphBlock (u ''b-p-'' @ int_text (int i) @ u ''-'' @ int_text (int (fst item))) t (item_tag titles (snd item))])"

definition section_blocks :: "(ustr \<Rightarrow> ustr) \<Rightarrow> (ustr \<times> ustr) list \<Rightarrow> nat \<times> (ustr \<times> json) list \<Rightarrow> block list" where
  "section_blocks repr_str titles sec =
     (let heading = py_strip (str_or_empty repr_str (get_key (snd sec) (u ''heading''))) in
      (if heading = [] then [] else [HeadingBlock (u ''b-h-'' @ int_text (int (fst sec))) 1 heading None]) @
      concat (map (item_block repr_str titles (fst sec)) (enumerate 0 (section_entries (snd sec)))))"

definition baseline_blocks :: "(ustr \<Rightarrow> ustr) \<Rightarrow> (ustr \<times> json) list \<Rightarrow> (ustr \<times> ustr) list \<Rightarrow> app_error + block list" where
  "baseline_blocks repr_str content titles =
     (let bs = concat (map (section_blocks repr_str titles) (enumerate 0 (summary_sections content))) in
      require (bs \<noteq> []) (ValueError (u ''summary has no content to seed a merged document'')) (Inr bs))"

section \<open>Reading\<close>

record document_state =
  mo_session :: uuid
  mo_snapshot :: uuid
  mo_version :: int
  mo_blocks :: "block list"
  mo_updated_at :: "int option"

definition require_member :: "'z app_db_scheme \<Rightarrow> uuid \<Rightarrow> uuid \<Rightarrow> app_error + uuid" where
  "require_member db sid actor =
     (case member_session db actor sid of
        None \<Rightarrow> Inl (MergedDocumentAccessError (u ''talk session is unavailable''))
      | Some s \<Rightarrow> Inr (ts_room s))"

definition report_of_session :: "'z app_db_scheme \<Rightarrow> uuid \<Rightarrow> app_error + uuid" where
  "report_of_session db sid =
     (case latest_report db sid of
        None \<Rightarrow> Inl (MergedDocumentAccessError (u ''integrated report is unavailable''))
      | Some n \<Rightarrow> Inr (sn_id n))"

definition stored_document :: "'z platform_db_scheme \<Rightarrow> uuid \<Rightarrow> uuid \<Rightarrow> merged_state_row option" where
  "stored_document db sid sn = find (\<lambda>m. ms_session m = sid \<and> ms_snapshot m = sn) (merged_states db)"

definition max_document_blocks :: nat where
  "max_document_blocks = 500"

text \<open>The blocks of a stored document; one written by the report agent gets its source coverage when it has none.\<close>

definition covered_blocks :: "(ustr \<Rightarrow> ustr) \<Rightarrow> 'z source_db_scheme \<Rightarrow> uuid \<Rightarrow> block list \<Rightarrow> app_error + block list" where
  "covered_blocks repr_str db sn bs =
     (if list_ex (\<lambda>b. ustr_startswith (u ''ai-'') (block_id b)) bs \<and> \<not> list_ex (\<lambda>b. block_id b = u ''source-coverage-heading'') bs
      then and_then (blocks_from_json repr_str (JList (build_source_coverage_blocks (load_snapshot_documents db sn)))) (\<lambda>coverage.
           require (\<not> length bs + length coverage > max_document_blocks)
             (ValueError (u ''complete merged document exceeds editor block limit'')) (Inr (bs @ coverage)))
      else Inr bs)"

definition get_document :: "(ustr \<Rightarrow> ustr) \<Rightarrow> uuid \<Rightarrow> uuid \<Rightarrow> 'z source_db_scheme \<Rightarrow> app_error + document_state" where
  "get_document repr_str sid actor db =
     and_then (require_member db sid actor) (\<lambda>_.
     and_then (report_of_session db sid) (\<lambda>sn.
     case stored_document db sid sn of
       Some m \<Rightarrow>
         and_then (blocks_from_json repr_str (ms_blocks m)) (\<lambda>stored.
         and_then (covered_blocks repr_str db sn stored) (\<lambda>bs.
         Inr \<lparr>mo_session = sid, mo_snapshot = sn, mo_version = ms_version m, mo_blocks = bs, mo_updated_at = Some (ms_updated_at m)\<rparr>))
     | None \<Rightarrow>
         and_then (get_summary db sid actor) (\<lambda>content.
         and_then (baseline_blocks repr_str content (resolve_anchor_titles db (anchor_ids_in content))) (\<lambda>bs.
         Inr \<lparr>mo_session = sid, mo_snapshot = sn, mo_version = 0, mo_blocks = bs, mo_updated_at = None\<rparr>))))"

section \<open>Saving\<close>

record document_draws =
  dw_id :: uuid
  dw_now :: int
  dw_event :: activity_draws

definition insert_state :: "merged_state_row \<Rightarrow> 'z platform_db_scheme \<Rightarrow> app_error + 'z platform_db_scheme" where
  "insert_state m db =
     require (ms_version m \<ge> 1) (PgError CheckViolation)
     (require (fresh ms_id m (merged_states db) \<and> fresh (\<lambda>m. (ms_session m, ms_snapshot m)) m (merged_states db)) (PgError UniqueViolation)
       (Inr (db\<lparr>merged_states := merged_states db @ [m]\<rparr>)))"

definition rewrite_state :: "document_draws \<Rightarrow> uuid \<Rightarrow> json \<Rightarrow> merged_state_row \<Rightarrow> merged_state_row" where
  "rewrite_state d actor payload m =
     m\<lparr>ms_version := ms_version m + 1, ms_blocks := payload, ms_updated_by := actor, ms_updated_at := dw_now d\<rparr>"

definition write_document ::
  "document_draws \<Rightarrow> uuid \<Rightarrow> uuid \<Rightarrow> uuid \<Rightarrow> int \<Rightarrow> json \<Rightarrow> 'z platform_db_scheme \<Rightarrow> app_error + int \<times> 'z platform_db_scheme" where
  "write_document d sid sn actor expected payload db =
     (let stale = MergedDocumentStaleVersionError (u ''stale merged document version'') in
      case stored_document db sid sn of
        None \<Rightarrow>
          require (expected = 0) stale
          (and_then (insert_state \<lparr>ms_id = dw_id d, ms_session = sid, ms_snapshot = sn, ms_version = 1, ms_blocks = payload,
              ms_updated_by = actor, ms_updated_at = dw_now d\<rparr> db) (\<lambda>db'. Inr (1, db')))
      | Some m \<Rightarrow>
          require (ms_version m = expected) stale
          (Inr (ms_version m + 1, db\<lparr>merged_states :=
             update_rows (\<lambda>m. ms_session m = sid \<and> ms_snapshot m = sn) (rewrite_state d actor payload) (merged_states db)\<rparr>)))"

definition save_document_body ::
  "document_draws \<Rightarrow> uuid \<Rightarrow> uuid \<Rightarrow> int \<Rightarrow> block list \<Rightarrow> (app_error, document_state, 'z platform_db_scheme) body" where
  "save_document_body d sid actor expected bs db =
     and_then (require_member db sid actor) (\<lambda>room.
     and_then (report_of_session db sid) (\<lambda>sn.
     and_then (write_document d sid sn actor expected (blocks_to_json bs) db) (\<lambda>(version, db1).
     and_then (record_event (dw_event d) (u ''merged_document.saved'')
       [(''session_id'', IUuid sid), (''snapshot_id'', IUuid sn), (''version'', IInt version)] actor SC_SESSION None (Some room) (Some sid)
       (u ''merged_document'') sn [(Some (u ''version''), MInt version)] [] db1) (\<lambda>db2.
     Inr (\<lparr>mo_session = sid, mo_snapshot = sn, mo_version = version, mo_blocks = bs, mo_updated_at = Some (dw_now d)\<rparr>, db2)))))"

definition save_document ::
  "document_draws \<Rightarrow> uuid \<Rightarrow> uuid \<Rightarrow> int \<Rightarrow> block list \<Rightarrow> 'z platform_db_scheme \<Rightarrow> (app_error + document_state) \<times> 'z platform_db_scheme" where
  "save_document d sid actor expected bs db =
     (if bs = [] then (Inl (ValueError (u ''merged document requires at least one block'')), db)
      else if expected < 0 then (Inl (ValueError (u ''expected_version must not be negative'')), db)
      else transaction (save_document_body d sid actor expected bs) db)"

text \<open>The report agent's blocks: \<open>INSERT ... ON CONFLICT (session_id, snapshot_id) DO NOTHING\<close> in the worker's completion.\<close>

definition install_final_blocks :: "document_draws \<Rightarrow> uuid \<Rightarrow> uuid \<Rightarrow> uuid \<Rightarrow> json list \<Rightarrow> 'z platform_db_scheme \<Rightarrow> app_error + 'z platform_db_scheme" where
  "install_final_blocks d sid sn author bs db =
     (if bs = [] \<or> stored_document db sid sn \<noteq> None then Inr db
      else insert_state \<lparr>ms_id = dw_id d, ms_session = sid, ms_snapshot = sn, ms_version = 1, ms_blocks = JList bs,
             ms_updated_by = author, ms_updated_at = dw_now d\<rparr> db)"

section \<open>Versions\<close>

record document_version =
  vn_id :: uuid
  vn_session :: uuid
  vn_snapshot :: uuid
  vn_label :: ustr
  vn_blocks :: "block list"
  vn_version :: int
  vn_created_by :: uuid
  vn_created_at :: int

definition insert_version :: "merged_version_row \<Rightarrow> 'z platform_db_scheme \<Rightarrow> app_error + 'z platform_db_scheme" where
  "insert_version v db =
     require (1 \<le> length (mv_label v) \<and> length (mv_label v) \<le> 200 \<and> mv_version v \<ge> 0) (PgError CheckViolation)
     (require (fresh mv_id v (merged_versions db)) (PgError UniqueViolation) (Inr (db\<lparr>merged_versions := merged_versions db @ [v]\<rparr>)))"

definition create_version_body ::
  "document_draws \<Rightarrow> uuid \<Rightarrow> uuid \<Rightarrow> ustr \<Rightarrow> document_state \<Rightarrow> (app_error, document_version, 'z platform_db_scheme) body" where
  "create_version_body d sid actor label current db =
     and_then (require_member db sid actor) (\<lambda>room.
     and_then (insert_version \<lparr>mv_id = dw_id d, mv_session = sid, mv_snapshot = mo_snapshot current, mv_label = label,
         mv_blocks = blocks_to_json (mo_blocks current), mv_version = mo_version current, mv_created_by = actor, mv_created_at = dw_now d\<rparr> db) (\<lambda>db1.
     and_then (record_event (dw_event d) (u ''merged_document.version_created'') [(''version_id'', IUuid (dw_id d))] actor SC_SESSION None
       (Some room) (Some sid) (u ''merged_document_version'') (dw_id d)
       [(Some (u ''document_version''), MInt (mo_version current))] [] db1) (\<lambda>db2.
     Inr (\<lparr>vn_id = dw_id d, vn_session = sid, vn_snapshot = mo_snapshot current, vn_label = label, vn_blocks = mo_blocks current,
           vn_version = mo_version current, vn_created_by = actor, vn_created_at = dw_now d\<rparr>, db2))))"

text \<open>The document is read before the transaction; \<open>env\<close> is what others commit in between.\<close>

definition create_version ::
  "(ustr \<Rightarrow> ustr) \<Rightarrow> document_draws \<Rightarrow> ('z source_db_scheme \<Rightarrow> 'z source_db_scheme) \<Rightarrow> uuid \<Rightarrow> uuid \<Rightarrow> ustr \<Rightarrow> 'z source_db_scheme \<Rightarrow>
   (app_error + document_version) \<times> 'z source_db_scheme" where
  "create_version repr_str d env sid actor label db =
     (let normalized = py_strip label in
      if \<not> (1 \<le> length normalized \<and> length normalized \<le> 200) then (Inl (ValueError (u ''version label is invalid'')), db)
      else case get_document repr_str sid actor db of
        Inl e \<Rightarrow> (Inl e, db)
      | Inr current \<Rightarrow> transaction (create_version_body d sid actor normalized current) (env db))"

definition version_from_row :: "(ustr \<Rightarrow> ustr) \<Rightarrow> merged_version_row \<Rightarrow> app_error + document_version" where
  "version_from_row repr_str v =
     and_then (blocks_from_json repr_str (mv_blocks v)) (\<lambda>bs.
     Inr \<lparr>vn_id = mv_id v, vn_session = mv_session v, vn_snapshot = mv_snapshot v, vn_label = mv_label v, vn_blocks = bs,
          vn_version = mv_version v, vn_created_by = mv_created_by v, vn_created_at = mv_created_at v\<rparr>)"

definition list_versions :: "(ustr \<Rightarrow> ustr) \<Rightarrow> uuid \<Rightarrow> uuid \<Rightarrow> 'z platform_db_scheme \<Rightarrow> app_error + document_version list" where
  "list_versions repr_str sid actor db =
     and_then (require_member db sid actor) (\<lambda>_.
     case latest_report db sid of
       None \<Rightarrow> Inr []
     | Some n \<Rightarrow> map_result (version_from_row repr_str) (sort_key (\<lambda>v. - mv_created_at v)
         (filter (\<lambda>v. mv_session v = sid \<and> mv_snapshot v = sn_id n) (merged_versions db))))"

definition get_version :: "(ustr \<Rightarrow> ustr) \<Rightarrow> uuid \<Rightarrow> uuid \<Rightarrow> uuid \<Rightarrow> 'z platform_db_scheme \<Rightarrow> app_error + document_version" where
  "get_version repr_str sid actor vid db =
     and_then (require_member db sid actor) (\<lambda>_.
     and_then (report_of_session db sid) (\<lambda>sn.
     case find (\<lambda>v. mv_id v = vid \<and> mv_session v = sid \<and> mv_snapshot v = sn) (merged_versions db) of
       None \<Rightarrow> Inl (MergedDocumentAccessError (u ''merged document version is unavailable''))
     | Some v \<Rightarrow> version_from_row repr_str v))"

end
