(* ===== verification/Merged_Properties.thy ===== *)
theory Merged_Properties
  imports Merged_Documents Optimistic File_Properties
begin

text \<open>
  Properties of merged documents: blocks survive their JSON, a saved document is what members read, a save made on an old
  version fails, named versions are never changed, and the source coverage of a document has every eligible anchor.
\<close>

section \<open>Blocks\<close>

definition valid_block :: "block \<Rightarrow> bool" where
  "valid_block b \<longleftrightarrow> (case b of HeadingBlock i l t g \<Rightarrow> l \<in> {1, 2, 3} | ParagraphBlock i t g \<Rightarrow> True)"

lemma str_or_empty_JStr [simp]: "str_or_empty r (Some (JStr s)) = s"
  by (simp add: str_or_empty_def)

lemma block_from_to_json: "block_from_json r (block_to_json b) =
    (if valid_block b then Inr b else Inl (ValueError (u ''persisted heading block has an invalid level'')))"
  by (cases b; cases "block_tag b")
    (simp_all add: block_to_json_def block_from_json_def valid_block_def Let_def get_key_def get_str_def del: u_simps)

lemma heading_level_range: "heading_level v = Some l \<Longrightarrow> l \<in> {1, 2, 3}"
  by (cases v rule: heading_level.cases) (auto split: if_splits)

lemma block_from_json_valid: "block_from_json r v = Inr b \<Longrightarrow> valid_block b"
  using heading_level_range by (fastforce simp: block_from_json_def valid_block_def Let_def split: option.split_asm if_split_asm simp del: u_simps)

lemma blocks_from_json_valid: "blocks_from_json r v = Inr bs \<Longrightarrow> list_all valid_block bs"
proof -
  have "map_result (block_from_json r) xs = Inr bs \<Longrightarrow> list_all valid_block bs" for xs
    by (induction xs arbitrary: bs) (auto simp: and_then_Inr dest: block_from_json_valid)
  then show "blocks_from_json r v = Inr bs \<Longrightarrow> list_all valid_block bs" by (auto simp: blocks_from_json_def split: option.split_asm)
qed

lemma blocks_to_from: "list_all valid_block bs \<Longrightarrow> blocks_from_json r (blocks_to_json bs) = Inr bs"
  unfolding blocks_from_json_def blocks_to_json_def by (induction bs) (simp_all add: block_from_to_json)

text \<open>
  Blocks survive their stored JSON.  Writing a document's blocks and reading them back gives the same blocks exactly when
  every heading has a level of 1, 2 or 3, and reading any stored value gives only such blocks, so rereading and resaving a
  document never changes or loses it.
\<close>

theorem blocks_survive_storage:
  "(blocks_from_json r (blocks_to_json bs) = Inr bs \<longleftrightarrow> list_all valid_block bs) \<and>
   (\<forall>v cs. blocks_from_json r v = Inr cs \<longrightarrow> blocks_from_json r' (blocks_to_json cs) = Inr cs)"
  using blocks_from_json_valid blocks_to_from by blast

theorem blocks_survive_storage_witness:
  "let bs = [HeadingBlock (u ''h'') 1 (u ''t'') None, ParagraphBlock (u ''p'') (u ''x'') None] in
     \<exists>cs. blocks_from_json (\<lambda>s. s) (blocks_to_json bs) = Inr cs \<and> blocks_from_json (\<lambda>s. s) (blocks_to_json cs) = Inr cs \<and> cs = bs"
proof -
  let ?bs = "[HeadingBlock (u ''h'') 1 (u ''t'') None, ParagraphBlock (u ''p'') (u ''x'') None]"
  have "list_all valid_block ?bs" by (simp add: valid_block_def)
  then show ?thesis
    using blocks_survive_storage [of "\<lambda>s. s" ?bs "\<lambda>s. s"] unfolding Let_def by (metis (no_types))
qed

section \<open>Coverage\<close>

lemma join_append: "xs \<noteq> [] \<Longrightarrow> ys \<noteq> [] \<Longrightarrow> ustr_join s (xs @ ys) = ustr_join s xs @ s @ ustr_join s ys"
  by (cases xs; cases ys) (simp_all add: ustr_join_def)

lemma join_join: "\<forall>xs \<in> set xss. xs \<noteq> [] \<Longrightarrow> ustr_join s (map (ustr_join s) xss) = ustr_join s (concat xss)"
proof (induction xss)
  case (Cons xs xss)
  show ?case
  proof (cases xss)
    case Nil
    then show ?thesis by (simp add: ustr_join_def)
  next
    case (Cons ys yss)
    then have "concat xss \<noteq> []" "xs \<noteq> []" using Cons.prems by auto
    then show ?thesis using Cons.IH Cons.prems join_append [of xs "concat xss" s] join_append [of "[ustr_join s xs]" "map (ustr_join s) xss" s]
      by (simp add: Cons ustr_join_def [of _ "[_]"])
  qed
qed (simp add: ustr_join_def)

lemma length_join: "length (ustr_join [10, 10] xs) = sum_list (map length xs) + 2 * (length xs - 1)"
proof (cases xs)
  case (Cons x rest)
  have "length (concat (map (\<lambda>y. s @ y) rest)) = sum_list (map length rest) + length s * length rest" for s :: ustr
    by (induction rest) auto
  note this [of "[10, 10]"]
  then show ?thesis by (simp only: Cons ustr_join_def list.case length_append) simp
qed (simp add: ustr_join_def)

definition chunk_ok :: "(uuid \<times> ustr) list \<Rightarrow> bool" where
  "chunk_ok c \<longleftrightarrow> c \<noteq> [] \<and> length c \<le> max_coverage_anchors \<and>
     (length c = 1 \<or> length (ustr_join [10, 10] (map snd c)) \<le> max_paragraph_length)"

lemma concat_chunks: "concat (coverage_chunks xs chunk) = chunk @ xs"
  by (induction xs chunk rule: coverage_chunks.induct) (simp_all add: Let_def)

lemma chunks_ok: "chunk = [] \<or> chunk_ok chunk \<Longrightarrow> list_all chunk_ok (coverage_chunks xs chunk)"
proof (induction xs chunk rule: coverage_chunks.induct)
  case (2 a rest chunk)
  have one: "chunk_ok [a]" by (simp add: chunk_ok_def max_coverage_anchors_def)
  let ?next = "sum_list (map (\<lambda>c. length (snd c)) chunk) + length (snd a) + (if chunk \<noteq> [] then 2 * length chunk else 0)"
  show ?case
  proof (cases "length chunk \<ge> max_coverage_anchors \<or> ?next > max_paragraph_length")
    case True
    then show ?thesis using "2.IH"(1) [OF refl True] one "2.prems" by (auto simp: Let_def)
  next
    case False
    have "length (ustr_join [10, 10] (map snd (chunk @ [a]))) = ?next" by (simp only: length_join) (simp add: comp_def)
    then have "chunk_ok (chunk @ [a])" using False by (auto simp: chunk_ok_def)
    from "2.IH"(2) [OF refl False disjI2 [OF this]] show ?thesis using False by (simp only: coverage_chunks.simps Let_def if_False)
  qed
qed auto

text \<open>The paragraphs of a document and of all documents, as blocks.\<close>

definition paragraph_block :: "nat \<Rightarrow> ustr \<Rightarrow> nat \<times> (uuid \<times> ustr) list \<Rightarrow> block" where
  "paragraph_block document title chunk =
     ParagraphBlock (u ''source-'' @ int_text (int document) @ u ''-'' @ int_text (int (fst chunk)))
       (ustr_join [10, 10] (map snd (snd chunk)))
       (Some (title @ [32, 183, 32] @ ustr_join [32] (map (\<lambda>c. u ''RAG:'' @ uuid_text (fst c)) (snd chunk))))"

definition coverage_paragraphs :: "snapshot_document list \<Rightarrow> block list" where
  "coverage_paragraphs docs =
     concat (map (\<lambda>(i, x). map (paragraph_block i (coverage_title (sx_title x))) (enumerate 0 (coverage_chunks (sx_anchors x) [])))
       (enumerate 0 docs))"

lemma coverage_paragraph_block: "block_from_json r (coverage_paragraph i t c) = Inr (paragraph_block i t c)"
  by (simp add: coverage_paragraph_def block_from_json_def paragraph_block_def Let_def get_key_def get_str_def del: u_simps)

lemma map_result_append:
  "map_result f xs = Inr ys \<Longrightarrow> map_result f xs' = Inr ys' \<Longrightarrow> map_result f (xs @ xs') = Inr (ys @ ys')"
  by (induction xs arbitrary: ys) (auto simp: and_then_Inr)

lemma coverage_as_blocks:
  "\<exists>h. block_id h = u ''source-coverage-heading'' \<and>
     blocks_from_json r (JList (build_source_coverage_blocks docs)) = Inr (h # coverage_paragraphs docs)"
proof -
  obtain h where h: "block_from_json r coverage_heading = Inr h" "block_id h = u ''source-coverage-heading''"
    by (simp add: coverage_heading_def block_from_json_def Let_def get_key_def get_str_def del: u_simps)
  have one: "map_result (block_from_json r) (map (coverage_paragraph i t) cs) = Inr (map (paragraph_block i t) cs)" for i t cs
    by (rule map_result_map) (rule coverage_paragraph_block)
  have "map_result (block_from_json r) (concat (map (\<lambda>(i, x). map (coverage_paragraph i (f x)) (g x)) ds)) =
      Inr (concat (map (\<lambda>(i, x). map (paragraph_block i (f x)) (g x)) ds))" for ds :: "(nat \<times> snapshot_document) list" and f g
    by (induction ds) (auto intro!: map_result_append one)
  then show ?thesis using h by (simp add: blocks_from_json_def build_source_coverage_blocks_def coverage_paragraphs_def)
qed

lemma paragraph_texts: "map block_text (coverage_paragraphs docs) =
    map (\<lambda>c. ustr_join [10, 10] (map snd c)) (concat (map (\<lambda>x. coverage_chunks (sx_anchors x) []) docs))"
proof -
  have one: "map block_text (map (paragraph_block i t) (enumerate n cs)) = map (\<lambda>c. ustr_join [10, 10] (map snd c)) cs" for i t n cs
    by (induction cs arbitrary: n) (simp_all add: paragraph_block_def)
  have "map block_text (concat (map (\<lambda>(i, x). map (paragraph_block i (f x)) (enumerate 0 (g x))) (enumerate n ds))) =
      map (\<lambda>c. ustr_join [10, 10] (map snd c)) (concat (map g ds))" for n f g and ds :: "snapshot_document list"
    by (induction ds arbitrary: n) (simp_all add: one del: map_map)
  then show ?thesis by (simp add: coverage_paragraphs_def)
qed

lemma all_chunks:
  "concat (concat (map (\<lambda>x. coverage_chunks (sx_anchors x) []) docs)) = concat (map sx_anchors docs)"
  "list_all chunk_ok (concat (map (\<lambda>x. coverage_chunks (sx_anchors x) []) docs))"
  by (induction docs) (simp_all add: concat_chunks chunks_ok)

text \<open>The anchors a snapshot's documents have.\<close>

definition eligible_anchors :: "'z app_db_scheme \<Rightarrow> uuid \<Rightarrow> anchor_row set" where
  "eligible_anchors db sn = {a \<in> set (anchors db). an_excluded a = None \<and>
     (\<exists>p \<in> set (pinned db). pn_snapshot p = sn \<and> an_revision a = pn_revision p \<and> an_run a = pn_run p \<and>
       (\<exists>r \<in> set (revisions db). sr_id r = pn_revision p \<and> (\<exists>b \<in> set (submissions db). sb_id b = sr_submission r)))}"

lemma add_row_anchors:
  "set (concat (map sx_anchors (add_row (i, t, a) xs))) = insert (an_id a, an_text a) (set (concat (map sx_anchors xs)))"
  by (induction xs) auto

lemma add_rows_anchors:
  "set (concat (map sx_anchors (fold add_row rows xs))) = (\<lambda>(i, t, a). (an_id a, an_text a)) ` set rows \<union> set (concat (map sx_anchors xs))"
proof (induction rows arbitrary: xs)
  case (Cons x rows)
  obtain i t a where "x = (i, t, a)" by (cases x)
  then show ?case by (simp only: fold.simps comp_def Cons add_row_anchors) auto
qed simp

lemma snapshot_rows_anchors: "(\<lambda>(i, t, a). a) ` set (snapshot_rows db sn) = eligible_anchors db sn"
  by (auto simp: snapshot_rows_def eligible_anchors_def image_iff) blast+

lemma loaded_anchors:
  "set (concat (map sx_anchors (load_snapshot_documents db sn))) = (\<lambda>a. (an_id a, an_text a)) ` eligible_anchors db sn"
proof -
  have "set (concat (map sx_anchors (load_snapshot_documents db sn))) = (\<lambda>(i, t, a). (an_id a, an_text a)) ` set (snapshot_rows db sn)"
    using add_rows_anchors [of "snapshot_rows db sn" "[]"] by (simp add: load_snapshot_documents_def)
  also have "\<dots> = (\<lambda>a. (an_id a, an_text a)) ` (\<lambda>(i, t, a). a) ` set (snapshot_rows db sn)" by (auto simp: image_iff split: prod.splits) force+
  finally show ?thesis by (simp add: snapshot_rows_anchors)
qed

text \<open>
  C31: the source coverage is exhaustive.  When a stored document of the report agent has no coverage yet, its readers get, after
  its own blocks, a heading and paragraphs whose texts, joined by blank lines, are the texts of all anchors of the snapshot's
  documents joined by blank lines; these are exactly the eligible anchors of the pinned extractions; a paragraph has at most
  20000 characters unless it is one anchor, and the document at most 500 blocks.
\<close>

theorem coverage_is_exhaustive:
  assumes "covered_blocks r db sn bs = Inr cs" and "\<exists>b \<in> set bs. ustr_startswith (u ''ai-'') (block_id b)"
    and "\<forall>b \<in> set bs. block_id b \<noteq> u ''source-coverage-heading''"
  shows "\<exists>h ps anchors. cs = bs @ h # ps \<and> block_id h = u ''source-coverage-heading'' \<and>
    ustr_join [10, 10] (map block_text ps) = ustr_join [10, 10] (map snd anchors) \<and>
    set anchors = (\<lambda>a. (an_id a, an_text a)) ` eligible_anchors db sn \<and>
    (\<forall>p \<in> set ps. length (block_text p) \<le> max_paragraph_length \<or> block_text p \<in> an_text ` eligible_anchors db sn) \<and>
    length cs \<le> max_document_blocks"
proof -
  let ?docs = "load_snapshot_documents db sn" and ?cs = "concat (map (\<lambda>x. coverage_chunks (sx_anchors x) []) (load_snapshot_documents db sn))"
  have need: "list_ex (\<lambda>b. ustr_startswith (u ''ai-'') (block_id b)) bs \<and> \<not> list_ex (\<lambda>b. block_id b = u ''source-coverage-heading'') bs"
    using assms(2,3) by (auto simp: list_ex_iff simp del: u_simps)
  obtain h where h: "block_id h = u ''source-coverage-heading''"
      "blocks_from_json r (JList (build_source_coverage_blocks ?docs)) = Inr (h # coverage_paragraphs ?docs)"
    using coverage_as_blocks by blast
  have c: "cs = bs @ h # coverage_paragraphs ?docs" "length cs \<le> max_document_blocks"
    using assms(1) need unfolding covered_blocks_def h(2) by (auto simp del: u_simps)
  have ok: "\<forall>c \<in> set ?cs. chunk_ok c" using all_chunks(2) by (simp add: list_all_iff)
  have join: "ustr_join [10, 10] (map block_text (coverage_paragraphs ?docs)) = ustr_join [10, 10] (map snd (concat (map sx_anchors ?docs)))"
    using join_join [of "map (map snd) ?cs" "[10, 10]"] ok
    by (simp add: paragraph_texts comp_def chunk_ok_def map_concat [symmetric] all_chunks(1))
  have "length (block_text p) \<le> max_paragraph_length \<or> block_text p \<in> an_text ` eligible_anchors db sn"
    if p: "p \<in> set (coverage_paragraphs ?docs)" for p
  proof -
    have "block_text p \<in> set (map block_text (coverage_paragraphs ?docs))" using p by simp
    then obtain c where q: "c \<in> set ?cs" "block_text p = ustr_join [10, 10] (map snd c)" unfolding paragraph_texts by auto
    have "length c = 1 \<Longrightarrow> block_text p \<in> an_text ` eligible_anchors db sn"
    proof -
      assume "length c = 1"
      then obtain a where a: "c = [a]" by (cases c) auto
      have "a \<in> set (concat ?cs)" using q(1) a by force
      then have "a \<in> (\<lambda>a. (an_id a, an_text a)) ` eligible_anchors db sn" by (simp only: all_chunks(1) loaded_anchors)
      then show "block_text p \<in> an_text ` eligible_anchors db sn" using q(2) a by (auto simp: ustr_join_def)
    qed
    then show ?thesis using ok q by (auto simp: chunk_ok_def)
  qed
  then show ?thesis using c h(1) join loaded_anchors by blast
qed

section \<open>Saving\<close>

text \<open>A session has one stored document per snapshot, its version is positive, and versions have unique ids.\<close>

definition documents_sound :: "'z platform_db_scheme \<Rightarrow> bool" where
  "documents_sound db \<longleftrightarrow>
     distinct (map (\<lambda>m. (ms_session m, ms_snapshot m)) (merged_states db)) \<and> (\<forall>m \<in> set (merged_states db). 1 \<le> ms_version m) \<and>
     distinct (map mv_id (merged_versions db))"

definition documents_elsewhere :: "'z platform_db_scheme \<Rightarrow> 'z platform_db_scheme \<Rightarrow> bool" where
  "documents_elsewhere db db' \<longleftrightarrow> merged_states db' = merged_states db \<and> merged_versions db' = merged_versions db"

inductive document_step :: "'z platform_db_scheme \<Rightarrow> 'z platform_db_scheme \<Rightarrow> bool" where
  D_save: "document_step db (snd (save_document d sid actor expected bs db))"
| D_install: "install_final_blocks d sid sn author raw db = Inr db' \<Longrightarrow> document_step db db'"
| D_version: "document_step db (snd (transaction (create_version_body d sid actor label current) db))"
| D_elsewhere: "documents_elsewhere db db' \<Longrightarrow> document_step db db'"

definition stored_version :: "'z platform_db_scheme \<Rightarrow> uuid \<times> uuid \<Rightarrow> int" where
  "stored_version db k = (case stored_document db (fst k) (snd k) of None \<Rightarrow> 0 | Some m \<Rightarrow> ms_version m)"

lemma stored_by_key: "stored_document db sid sn = find (\<lambda>m. (ms_session m, ms_snapshot m) = (sid, sn)) (merged_states db)"
  by (simp add: stored_document_def)

definition new_state :: "document_draws \<Rightarrow> uuid \<Rightarrow> uuid \<Rightarrow> uuid \<Rightarrow> json \<Rightarrow> merged_state_row" where
  "new_state d sid sn actor payload = \<lparr>ms_id = dw_id d, ms_session = sid, ms_snapshot = sn, ms_version = 1, ms_blocks = payload,
     ms_updated_by = actor, ms_updated_at = dw_now d\<rparr>"

lemma write_document_Inr:
  assumes "write_document d sid sn actor expected payload db = Inr (version, db')"
  obtains (first) "stored_document db sid sn = None" "expected = 0" "version = 1"
      "fresh (\<lambda>m. (ms_session m, ms_snapshot m)) (new_state d sid sn actor payload) (merged_states db)"
      "db' = db\<lparr>merged_states := merged_states db @ [new_state d sid sn actor payload]\<rparr>"
  | (again) m where "stored_document db sid sn = Some m" "ms_version m = expected" "version = expected + 1"
      "db' = db\<lparr>merged_states := update_rows (\<lambda>m. (ms_session m, ms_snapshot m) = (sid, sn)) (rewrite_state d actor payload) (merged_states db)\<rparr>"
  using assms by (auto simp: write_document_def Let_def and_then_Inr insert_state_def new_state_def split: option.splits)

lemma save_document_Inr:
  assumes "save_document d sid actor expected bs db = (Inr st, db')"
  obtains room sn version db1 where "require_member db sid actor = Inr room" "report_of_session db sid = Inr sn"
    "write_document d sid sn actor expected (blocks_to_json bs) db = Inr (version, db1)" "activity_frame db1 db'"
    "st = \<lparr>mo_session = sid, mo_snapshot = sn, mo_version = version, mo_blocks = bs, mo_updated_at = Some (dw_now d)\<rparr>"
  using assms by (auto simp: save_document_def transaction_Inr_iff save_document_body_def and_then_Inr simp del: u_simps split: if_splits
      dest!: record_event_frame)

lemma save_failure_keeps: "save_document d sid actor expected bs db = (Inl e, db') \<Longrightarrow> db' = db"
  by (auto simp: save_document_def transaction_Inl_iff split: if_splits)

lemma frame_documents:
  fixes db :: "'z platform_db_scheme"
  assumes "activity_frame db db'"
  shows "stored_document db' sid sn = stored_document db sid sn" "documents_sound db' = documents_sound db"
  by (simp_all add: stored_document_def documents_sound_def frame_platform [OF assms])

lemma keys_rewritten:
  "map (\<lambda>m. (ms_session m, ms_snapshot m)) (update_rows P (rewrite_state d actor payload) ms) = map (\<lambda>m. (ms_session m, ms_snapshot m)) ms"
  by (rule map_update_rows_same) (simp add: rewrite_state_def)

text \<open>What is stored under any key after a write.\<close>

lemma stored_after_write:
  assumes "write_document d sid sn actor expected payload db = Inr (version, db')"
  shows "\<exists>m. stored_document db' sid sn = Some m \<and> ms_version m = version \<and> ms_blocks m = payload \<and> ms_updated_at m = dw_now d"
    and "(s, n) \<noteq> (sid, sn) \<Longrightarrow> stored_document db' s n = stored_document db s n"
    and "stored_version db (sid, sn) = expected" "version = expected + 1"
    and "documents_sound db \<Longrightarrow> documents_sound db'"
    and "merged_versions db' = merged_versions db"
proof -
  have f: "find (\<lambda>m. (ms_session m, ms_snapshot m) = k)
        (update_rows (\<lambda>m. (ms_session m, ms_snapshot m) = (sid, sn)) (rewrite_state d actor payload) ms) =
      map_option (\<lambda>m. if k = (sid, sn) then rewrite_state d actor payload m else m) (find (\<lambda>m. (ms_session m, ms_snapshot m) = k) ms)" for k ms
    by (rule find_update_rows) (simp add: rewrite_state_def)
  have "(\<exists>m. stored_document db' sid sn = Some m \<and> ms_version m = version \<and> ms_blocks m = payload \<and> ms_updated_at m = dw_now d) \<and>
    ((s, n) \<noteq> (sid, sn) \<longrightarrow> stored_document db' s n = stored_document db s n) \<and> stored_version db (sid, sn) = expected \<and>
    version = expected + 1 \<and> (documents_sound db \<longrightarrow> documents_sound db') \<and> merged_versions db' = merged_versions db" for s n
    using assms
  proof (cases rule: write_document_Inr)
    case first
    have "find (\<lambda>m. (ms_session m, ms_snapshot m) = (sid, sn)) (merged_states db @ [new_state d sid sn actor payload]) =
        Some (new_state d sid sn actor payload)"
      by (rule find_snoc_fresh [OF first(4)]) (simp add: new_state_def)
    then have "stored_document db' sid sn = Some (new_state d sid sn actor payload)" by (simp add: stored_document_def first(5))
    moreover have "(s, n) \<noteq> (sid, sn) \<Longrightarrow> stored_document db' s n = stored_document db s n"
      by (auto simp: stored_document_def first(5) find_append new_state_def split: option.split)
    moreover have "merged_versions db' = merged_versions db" by (simp add: first(5))
    moreover have "documents_sound db \<Longrightarrow> documents_sound db'"
      using first(4) unfolding first(5) by (auto simp: documents_sound_def fresh_def new_state_def)
    ultimately show ?thesis using first(1-3) by (simp add: stored_version_def new_state_def)
  next
    case (again m)
    have "stored_document db' s n = map_option (\<lambda>m. if (s, n) = (sid, sn) then rewrite_state d actor payload m else m) (stored_document db s n)" for s n
      using f [of "(s, n)" "merged_states db"] by (simp add: stored_document_def again(4))
    moreover have "documents_sound db \<Longrightarrow> documents_sound db'"
      unfolding again(4) by (auto simp: documents_sound_def keys_rewritten set_update_rows rewrite_state_def)
    moreover have "merged_versions db' = merged_versions db" by (simp add: again(4))
    ultimately show ?thesis using again(1-3) by (auto simp: stored_version_def rewrite_state_def option.map_ident)
  qed
  then show "\<exists>m. stored_document db' sid sn = Some m \<and> ms_version m = version \<and> ms_blocks m = payload \<and> ms_updated_at m = dw_now d"
    "(s, n) \<noteq> (sid, sn) \<Longrightarrow> stored_document db' s n = stored_document db s n"
    "stored_version db (sid, sn) = expected" "version = expected + 1" "documents_sound db \<Longrightarrow> documents_sound db'"
    "merged_versions db' = merged_versions db" by blast+
qed

lemma version_body_Inr:
  assumes "create_version_body d sid actor label current db = Inr (v, db')"
  obtains row where "row = \<lparr>mv_id = dw_id d, mv_session = sid, mv_snapshot = mo_snapshot current, mv_label = label,
      mv_blocks = blocks_to_json (mo_blocks current), mv_version = mo_version current, mv_created_by = actor, mv_created_at = dw_now d\<rparr>"
    "fresh mv_id row (merged_versions db)" "merged_versions db' = merged_versions db @ [row]" "merged_states db' = merged_states db"
    "v = \<lparr>vn_id = dw_id d, vn_session = sid, vn_snapshot = mo_snapshot current, vn_label = label, vn_blocks = mo_blocks current,
      vn_version = mo_version current, vn_created_by = actor, vn_created_at = dw_now d\<rparr>"
  using assms by (auto simp: create_version_body_def insert_version_def and_then_Inr frame_platform simp del: u_simps
      dest!: record_event_frame)

lemma install_Inr:
  assumes "install_final_blocks d sid sn author raw db = Inr db'"
  shows "db' = db \<or> write_document d sid sn author 0 (JList raw) db = Inr (1, db')"
  using assms by (auto simp: install_final_blocks_def write_document_def Let_def split: if_splits)

lemma save_writes:
  assumes "save_document d sid actor expected bs db = (Inr st, db')"
  shows "\<exists>m. stored_document db' sid (mo_snapshot st) = Some m \<and> ms_version m = mo_version st \<and> ms_blocks m = blocks_to_json bs \<and>
      mo_updated_at st = Some (ms_updated_at m)"
    and "stored_version db (sid, mo_snapshot st) = expected" "mo_version st = expected + 1" "mo_session st = sid" "mo_blocks st = bs"
    and "report_of_session db sid = Inr (mo_snapshot st)" "report_of_session db' sid = Inr (mo_snapshot st)"
    and "(s, n) \<noteq> (sid, mo_snapshot st) \<Longrightarrow> stored_document db' s n = stored_document db s n"
    and "documents_sound db \<Longrightarrow> documents_sound db'" "merged_versions db' = merged_versions db"
proof -
  obtain room sn version db1 where w: "report_of_session db sid = Inr sn"
    "write_document d sid sn actor expected (blocks_to_json bs) db = Inr (version, db1)" "activity_frame db1 db'"
    "st = \<lparr>mo_session = sid, mo_snapshot = sn, mo_version = version, mo_blocks = bs, mo_updated_at = Some (dw_now d)\<rparr>"
    by (rule save_document_Inr [OF assms])
  note x = stored_after_write [OF w(2)]
  have same: "snapshots db1 = snapshots db" "runs db1 = runs db" "documents db1 = documents db"
    using w(2) by (auto elim!: write_document_Inr)
  have l: "latest_report db1 sid = latest_report db sid"
    unfolding latest_report_def complete_report_def report_documents_def same ..
  have "latest_report db' sid = latest_report db1 sid"
    unfolding latest_report_def complete_report_def report_documents_def frame_same [OF w(3)] ..
  then have "report_of_session db' sid = report_of_session db sid" using l by (simp add: report_of_session_def)
  then show "report_of_session db sid = Inr (mo_snapshot st)" "report_of_session db' sid = Inr (mo_snapshot st)" using w(1,4) by simp_all
  show "\<exists>m. stored_document db' sid (mo_snapshot st) = Some m \<and> ms_version m = mo_version st \<and> ms_blocks m = blocks_to_json bs \<and>
      mo_updated_at st = Some (ms_updated_at m)" "stored_version db (sid, mo_snapshot st) = expected" "mo_version st = expected + 1"
    "mo_session st = sid" "mo_blocks st = bs"
    using x(1,3,4) w(4) by (auto simp: frame_documents [OF w(3)])
  show "(s, n) \<noteq> (sid, mo_snapshot st) \<Longrightarrow> stored_document db' s n = stored_document db s n"
    using x(2) w(4) by (simp add: frame_documents [OF w(3)])
  show "documents_sound db \<Longrightarrow> documents_sound db'" "merged_versions db' = merged_versions db"
    using x(5,6) frame_documents [OF w(3)] frame_platform [OF w(3)] by simp_all
qed

lemma saved_version: "save_document d sid actor expected bs db = (Inr st, db') \<Longrightarrow>
    stored_version db' k = (if k = (sid, mo_snapshot st) then expected + 1 else stored_version db k)"
  using save_writes(1-3) [of d sid actor expected bs db st db'] save_writes(8) [of d sid actor expected bs db st db' "fst k" "snd k"]
  by (cases k) (auto simp: stored_version_def)

lemma document_step_sound: "document_step db db' \<Longrightarrow> documents_sound db \<Longrightarrow> documents_sound db'"
proof (induction rule: document_step.induct)
  case (D_save db d sid actor expected bs)
  then show ?case
    by (cases "save_document d sid actor expected bs db"; cases "fst (save_document d sid actor expected bs db)")
      (auto dest: save_writes(9) save_failure_keeps)
next
  case (D_install d sid sn author raw db db')
  then show ?case using install_Inr stored_after_write(5) by blast
next
  case (D_version db d sid actor label current)
  show ?case
  proof (cases rule: transaction_cases [of "create_version_body d sid actor label current" db])
    case (2 v db')
    show ?thesis unfolding 2(2) snd_conv
      by (rule version_body_Inr [OF 2(1)]) (use D_version in \<open>auto simp: documents_sound_def fresh_def\<close>)
  qed (use D_version in simp)
qed (simp add: documents_elsewhere_def documents_sound_def)

lemma document_step_version:
  assumes "document_step db db'" "documents_sound db"
  shows "stored_version db k \<le> stored_version db' k"
  using assms
proof (induction rule: document_step.induct)
  case (D_save db d sid actor expected bs)
  show ?case
  proof (cases "save_document d sid actor expected bs db")
    case (Pair r db')
    then show ?thesis
    proof (cases r)
      case (Inr st)
      then show ?thesis using Pair saved_version [of d sid actor expected bs db st db' k] save_writes(2) [of d sid actor expected bs db st db']
        by (auto split: if_splits)
    qed (use Pair in \<open>auto dest: save_failure_keeps\<close>)
  qed
next
  case (D_install d sid sn author raw db db')
  have "stored_version db k \<le> stored_version db' k" if w: "write_document d sid sn author 0 (JList raw) db = Inr (1, db')"
    using stored_after_write(1,3) [OF w] stored_after_write(2) [OF w, of "fst k" "snd k"]
    by (cases "k = (sid, sn)") (auto simp: stored_version_def prod_eq_iff)
  then show ?case using install_Inr [OF D_install(1)] by auto
next
  case (D_version db d sid actor label current)
  show ?case
  proof (cases rule: transaction_cases [of "create_version_body d sid actor label current" db])
    case (2 v db')
    have "merged_states db' = merged_states db" by (rule version_body_Inr [OF 2(1)])
    then show ?thesis by (simp add: 2(2) stored_version_def stored_document_def)
  qed simp
qed (simp add: documents_elsewhere_def stored_version_def stored_document_def)

text \<open>A save made while the report of the session is a given snapshot.\<close>

definition attempt_save ::
  "document_draws \<times> uuid \<times> block list \<Rightarrow> uuid \<times> uuid \<Rightarrow> int \<Rightarrow> 'z platform_db_scheme \<Rightarrow> (app_error + document_state) \<times> 'z platform_db_scheme" where
  "attempt_save p k expected db =
     (case p of (d, actor, bs) \<Rightarrow>
        if report_of_session db (fst k) = Inr (snd k) then save_document d (fst k) actor expected bs db
        else (Inl (MergedDocumentAccessError (u ''integrated report is unavailable'')), db))"

interpretation document_saves: optimistic documents_sound document_step stored_version attempt_save "\<lambda>_. True"
proof unfold_locales
  fix s :: "'z platform_db_scheme" and p k e r s' x
  show "document_step s (snd (attempt_save p k e s))"
    by (cases p) (auto simp: attempt_save_def D_save documents_elsewhere_def intro!: D_elsewhere)
  show "attempt_save p k e s = (Inl x, s') \<Longrightarrow> s' = s"
    by (cases p) (auto simp: attempt_save_def dest: save_failure_keeps split: if_splits)
  assume "documents_sound s" "attempt_save p k e s = (Inr r, s')"
  then obtain d actor bs where "save_document d (fst k) actor e bs s = (Inr r, s')" "report_of_session s (fst k) = Inr (snd k)"
    by (cases p) (auto simp: attempt_save_def split: if_splits)
  then show "stored_version s k = e" "e < stored_version s' k"
    using save_writes(2,6) [of d "fst k" actor e bs s r s'] saved_version [of d "fst k" actor e bs s r s' k] by (auto simp: prod_eq_iff)
qed (auto intro: document_step_sound document_step_version)

text \<open>
  C32: no save is lost.  After a save made at version \<open>expected\<close> was stored, a save prepared at that version or an earlier one
  fails and changes nothing, whatever other saves, report agents and transactions ran in between, as long as the session still
  shows the same report.
\<close>

theorem stale_document_saves_fail:
  assumes "documents_sound db" and "save_document d sid actor expected bs db = (Inr st, db1)" and "document_step\<^sup>*\<^sup>* db1 db2"
    and "report_of_session db2 sid = Inr (mo_snapshot st)" and "v \<le> expected"
  shows "\<exists>e. save_document d' sid actor' v bs' db2 = (Inl e, db2)"
  using document_saves.stale_fails [of db "(d, actor, bs)" "(sid, mo_snapshot st)" expected st db1 db2 v "(d', actor', bs')"]
    assms save_writes(6) [OF assms(2)]
  by (simp add: attempt_save_def)

text \<open>
  C33: what is saved is what is read.  A successful save was made at the stored version (0 when nothing was stored); afterwards
  every current member reads the next version with exactly the saved blocks, followed by the source coverage when the report
  agent's document has none; documents of other sessions and reports are as they were.
\<close>

theorem saved_document_is_read:
  fixes db :: "'z source_db_scheme"
  assumes "save_document d sid actor expected bs db = (Inr st, db')" and "list_all valid_block bs" and "member_session db' reader sid \<noteq> None"
  shows "stored_version db (sid, mo_snapshot st) = expected \<and>
    get_document r sid reader db' = and_then (covered_blocks r db' (mo_snapshot st) bs) (\<lambda>cs.
      Inr \<lparr>mo_session = sid, mo_snapshot = mo_snapshot st, mo_version = expected + 1, mo_blocks = cs, mo_updated_at = Some (dw_now d)\<rparr>) \<and>
    (\<forall>k. k \<noteq> (sid, mo_snapshot st) \<longrightarrow> stored_document db' (fst k) (snd k) = stored_document db (fst k) (snd k))"
proof -
  note x = save_writes [OF assms(1)]
  obtain m where m: "stored_document db' sid (mo_snapshot st) = Some m" "ms_version m = mo_version st" "ms_blocks m = blocks_to_json bs"
      "mo_updated_at st = Some (ms_updated_at m)" using x(1) by blast
  have "mo_updated_at st = Some (dw_now d)" by (rule save_document_Inr [OF assms(1)]) simp
  moreover obtain room where "require_member db' sid reader = Inr room" using assms(3) by (auto simp: require_member_def)
  ultimately show ?thesis using m x(2,3,7) x(8) assms(2)
    by (auto simp: get_document_def blocks_to_from prod_eq_iff)
qed

section \<open>Versions\<close>

lemma baseline_valid: "baseline_blocks r content titles = Inr bs \<Longrightarrow> list_all valid_block bs"
proof -
  have "list_all valid_block (item_block r titles i x)" for i x by (simp add: item_block_def Let_def valid_block_def)
  then have "list_all valid_block (concat (map (item_block r titles i) xs))" for i xs by (induction xs) simp_all
  then have "list_all valid_block (section_blocks r titles x)" for x by (simp add: section_blocks_def Let_def valid_block_def)
  then have "list_all valid_block (concat (map (section_blocks r titles) xs))" for xs by (induction xs) simp_all
  then show "baseline_blocks r content titles = Inr bs \<Longrightarrow> list_all valid_block bs" by (auto simp: baseline_blocks_def Let_def)
qed

lemma covered_valid: "covered_blocks r db sn bs = Inr cs \<Longrightarrow> list_all valid_block bs \<Longrightarrow> list_all valid_block cs"
  by (auto simp: covered_blocks_def and_then_Inr dest: blocks_from_json_valid simp del: u_simps split: if_splits)

lemma get_document_valid:
  assumes "get_document r sid actor db = Inr cur"
  shows "list_all valid_block (mo_blocks cur)"
proof -
  obtain sn where "report_of_session db sid = Inr sn" using assms by (auto simp: get_document_def and_then_Inr)
  then show ?thesis using assms
    by (cases "stored_document db sid sn") (auto simp: get_document_def and_then_Inr dest: baseline_valid blocks_from_json_valid covered_valid)
qed

lemma versions_grow: "document_step db db' \<Longrightarrow> \<exists>vs. merged_versions db' = merged_versions db @ vs"
proof (induction rule: document_step.induct)
  case (D_save db d sid actor expected bs)
  show ?case
    by (cases "save_document d sid actor expected bs db"; cases "fst (save_document d sid actor expected bs db)")
      (auto dest: save_writes(10) save_failure_keeps)
next
  case (D_install d sid sn author raw db db')
  then show ?case using install_Inr stored_after_write(6) by fastforce
next
  case (D_version db d sid actor label current)
  show ?case
  proof (cases rule: transaction_cases [of "create_version_body d sid actor label current" db])
    case (2 v db')
    show ?thesis unfolding 2(2) snd_conv by (rule version_body_Inr [OF 2(1)]) blast
  qed simp
qed (simp add: documents_elsewhere_def)

lemma document_steps:
  "document_step\<^sup>*\<^sup>* db db' \<Longrightarrow> documents_sound db \<Longrightarrow> documents_sound db' \<and> (\<exists>vs. merged_versions db' = merged_versions db @ vs)"
proof (induction rule: rtranclp_induct)
  case (step b c)
  then obtain vs ws where "merged_versions b = merged_versions db @ vs" "merged_versions c = merged_versions b @ ws"
    using versions_grow by blast
  then show ?case using step document_step_sound by simp
qed simp

text \<open>
  Named versions are kept for good.  A version holds exactly the document its author was shown, under the stripped label;
  whatever other transactions follow, every member who sees the same report reads it unchanged.
\<close>

theorem named_versions_are_kept:
  assumes "create_version r d env sid actor label db = (Inr v, db1)" and "documents_sound (env db)"
    and "document_step\<^sup>*\<^sup>* db1 db2" and "member_session db2 reader sid \<noteq> None" and "report_of_session db2 sid = Inr (vn_snapshot v)"
  shows "get_version r' sid reader (vn_id v) db2 = Inr v \<and>
    (\<exists>cur. get_document r sid actor db = Inr cur \<and> vn_snapshot v = mo_snapshot cur \<and> vn_version v = mo_version cur \<and>
       vn_blocks v = mo_blocks cur) \<and> vn_label v = py_strip label \<and> vn_created_by v = actor"
proof -
  obtain cur where cur: "get_document r sid actor db = Inr cur"
    and b: "create_version_body d sid actor (py_strip label) cur (env db) = Inr (v, db1)"
    using assms(1) by (auto simp: create_version_def Let_def transaction_Inr_iff split: if_splits sum.split_asm)
  show ?thesis using b
  proof (rule version_body_Inr)
    fix row
    assume row: "row = \<lparr>mv_id = dw_id d, mv_session = sid, mv_snapshot = mo_snapshot cur, mv_label = py_strip label,
        mv_blocks = blocks_to_json (mo_blocks cur), mv_version = mo_version cur, mv_created_by = actor, mv_created_at = dw_now d\<rparr>"
      and f: "fresh mv_id row (merged_versions (env db))"
      and db1: "merged_versions db1 = merged_versions (env db) @ [row]" "merged_states db1 = merged_states (env db)"
      and v: "v = \<lparr>vn_id = dw_id d, vn_session = sid, vn_snapshot = mo_snapshot cur, vn_label = py_strip label, vn_blocks = mo_blocks cur,
        vn_version = mo_version cur, vn_created_by = actor, vn_created_at = dw_now d\<rparr>"
    have "documents_sound db1" using assms(2) f by (auto simp: documents_sound_def db1 fresh_def)
    then have db2: "distinct (map mv_id (merged_versions db2))" "row \<in> set (merged_versions db2)"
      using document_steps [OF assms(3)] by (auto simp: documents_sound_def db1)
    have "find (\<lambda>v. mv_id v = dw_id d \<and> mv_session v = sid \<and> mv_snapshot v = mo_snapshot cur) (merged_versions db2) = Some row"
      by (rule find_by_predicate [OF db2]) (simp_all add: row)
    moreover obtain room where "require_member db2 sid reader = Inr room" using assms(4) by (auto simp: require_member_def)
    moreover have "version_from_row r' row = Inr v"
      by (simp add: version_from_row_def row v blocks_to_from get_document_valid [OF cur])
    ultimately show ?thesis using assms(5) cur by (simp add: get_version_def v)
  qed
qed

section \<open>The properties at a concrete report\<close>

text \<open>The session of \<open>sample_sources\<close> with a report, and one pinned anchor.\<close>

definition sample_report :: source_db where
  "sample_report = sample_sources\<lparr>
     snapshots := [\<lparr>sn_id = 30, sn_session = 4, sn_epoch = 1, sn_created_by = 5, sn_topic = u ''t'', sn_pipeline = u ''p'', sn_anchor_version = u ''1''\<rparr>],
     runs := map (\<lambda>(i, k). \<lparr>gr_id = i, gr_snapshot = 30, gr_kind = k, gr_provider = [], gr_model = [], gr_prompt = [], gr_pipeline = u ''p'',
       gr_state = G_SUCCEEDED, gr_error = None, gr_completed_at = None\<rparr>) [(31, SUMMARY), (32, RESEARCH)],
     documents := map (\<lambda>(i, r, k). \<lparr>gd_id = i, gd_run = r, gd_kind = k, gd_content = [], gd_hash = []\<rparr>) [(33, 31, SUMMARY), (34, 32, RESEARCH)],
     submissions := [\<lparr>sb_id = 21, sb_session = 4, sb_author = 5, sb_title = u ''t'', sb_created_at = 7, sb_deleted = False\<rparr>],
     revisions := [\<lparr>sr_id = 22, sr_submission = 21, sr_number = 1, sr_state = R_READY, sr_approved = Some 35, sr_current = True\<rparr>],
     anchors := [\<lparr>an_id = 36, an_run = 35, an_revision = 22, an_ordinal = 0, an_block = u ''text_line'', an_text = u ''hi'', an_confidence = None,
       an_json = JNull, an_excluded = None\<rparr>],
     pinned := [\<lparr>pn_snapshot = 30, pn_revision = 22, pn_run = 35\<rparr>]\<rparr>"

lemmas report_eval = sample_report_def sources_eval

definition sample_dw :: document_draws where
  "sample_dw = \<lparr>dw_id = 40, dw_now = 9, dw_event = \<lparr>dr_event = 80, dr_notification = \<lambda>x. x, dr_outbox = \<lambda>x. x, dr_now = 9\<rparr>\<rparr>"

lemma sample_latest: "report_of_session sample_report 4 = Inr 30"
proof -
  have d: "report_documents sample_report n = documents sample_report" if "n \<in> set (snapshots sample_report)" for n
    using that by (auto simp: report_documents_def report_eval)
  have "complete_report sample_report n" if "n \<in> set (snapshots sample_report)" for n
    unfolding complete_report_def d [OF that] by (simp add: report_eval)
  then show ?thesis by (simp add: report_of_session_def latest_report_def) (simp add: report_eval)
qed

lemma sample_member: "require_member sample_report 4 5 = Inr 3" "member_session sample_report 5 4 \<noteq> None"
  by (simp_all add: require_member_def member_session_def find_session_def is_member_def report_eval del: u_simps)

lemma document_types: "u ''merged_document.saved'' \<in> set supported_event_types" "u ''merged_document.version_created'' \<in> set supported_event_types"
  by (simp_all add: supported_event_types_def del: u_simps)

lemma document_keys:
  "build_event_key (u ''merged_document.saved'') (kwargs [(''session_id'', IUuid x), (''snapshot_id'', IUuid y), (''version'', IInt v)]) =
     Inr (u ''merged_document:'' @ uuid_text x @ u '':snapshot:'' @ uuid_text y @ u '':v'' @ int_text v @ u '':saved'')"
  "build_event_key (u ''merged_document.version_created'') (kwargs [(''version_id'', IUuid x)]) =
     Inr (u ''merged_document_version:'' @ uuid_text x @ u '':created'')"
proof -
  have t: "event_template (u ''merged_document.saved'') b =
      [Lit (u ''merged_document''), field ''session_id'', Lit (u ''snapshot''), field ''snapshot_id'', Field (u ''v'') (u ''version''), Lit (u ''saved'')]"
    "event_template (u ''merged_document.version_created'') b = [Lit (u ''merged_document_version''), field ''version_id'', Lit (u ''created'')]" for b
    by (simp_all add: event_template_def startswith_u Let_def del: u_simps)
  show "build_event_key (u ''merged_document.saved'') (kwargs [(''session_id'', IUuid x), (''snapshot_id'', IUuid y), (''version'', IInt v)]) =
     Inr (u ''merged_document:'' @ uuid_text x @ u '':snapshot:'' @ uuid_text y @ u '':v'' @ int_text v @ u '':saved'')"
    "build_event_key (u ''merged_document.version_created'') (kwargs [(''version_id'', IUuid x)]) =
     Inr (u ''merged_document_version:'' @ uuid_text x @ u '':created'')"
    by (simp_all add: build_event_key_def document_types t segment_text_def field_def kwargs_def del: u_simps)
      (simp_all add: ustr_join_def)
qed

lemma sample_save:
  "\<exists>db. save_document sample_dw 4 5 0 [ParagraphBlock (u ''ai-1'') (u ''x'') None] sample_report =
     (Inr \<lparr>mo_session = 4, mo_snapshot = 30, mo_version = 1, mo_blocks = [ParagraphBlock (u ''ai-1'') (u ''x'') None], mo_updated_at = Some 9\<rparr>, db)"
proof -
  let ?p = "blocks_to_json [ParagraphBlock (u ''ai-1'') (u ''x'') None]"
  let ?db = "sample_report\<lparr>merged_states := [new_state sample_dw 4 30 5 ?p]\<rparr>"
  let ?event = "record_event (dw_event sample_dw) (u ''merged_document.saved'') [(''session_id'', IUuid 4), (''snapshot_id'', IUuid 30), (''version'', IInt 1)]
      5 SC_SESSION None (Some 3) (Some 4) (u ''merged_document'') 30 [(Some (u ''version''), MInt 1)] [] ?db"
  have m: "storable [(Some (u ''version''), MInt 1)]" by (simp add: storable_def metadata_eval)
  have "\<exists>a. ?event = Inr (?db\<lparr>audit := a\<rparr>)"
    by (rule session_event [OF document_types(1) document_keys(1) _ _ m])
      (simp_all add: report_eval int_text_def dec_digits.simps)
  then obtain a where a: "?event = Inr (?db\<lparr>audit := a\<rparr>)" ..
  have "write_document sample_dw 4 30 5 0 ?p sample_report = Inr (1, ?db)"
    by (simp add: write_document_def stored_document_def insert_state_def new_state_def fresh_def report_eval)
  then show ?thesis using a sample_latest sample_member(1)
    by (simp add: save_document_def transaction_Inr_iff save_document_body_def del: u_simps) (simp add: sample_dw_def)
qed

lemma sample_documents_sound: "documents_sound sample_report"
  by (simp add: documents_sound_def report_eval)

theorem stale_document_saves_fail_witness:
  "\<exists>st db e. save_document sample_dw 4 5 0 [ParagraphBlock (u ''ai-1'') (u ''x'') None] sample_report = (Inr st, db) \<and>
     save_document sample_dw 4 5 0 [ParagraphBlock (u ''p'') (u ''y'') None] db = (Inl e, db)"
proof -
  obtain st db where s: "save_document sample_dw 4 5 0 [ParagraphBlock (u ''ai-1'') (u ''x'') None] sample_report = (Inr st, db)"
    using sample_save by blast
  show ?thesis using stale_document_saves_fail [OF sample_documents_sound s rtranclp.rtrancl_refl save_writes(7) [OF s] order_refl] s by blast
qed

theorem saved_document_is_read_witness:
  "\<exists>st db. save_document sample_dw 4 5 0 [ParagraphBlock (u ''ai-1'') (u ''x'') None] sample_report = (Inr st, db) \<and>
     get_document (\<lambda>s. s) 4 5 db = and_then (covered_blocks (\<lambda>s. s) db 30 [ParagraphBlock (u ''ai-1'') (u ''x'') None]) (\<lambda>cs.
       Inr \<lparr>mo_session = 4, mo_snapshot = 30, mo_version = 1, mo_blocks = cs, mo_updated_at = Some 9\<rparr>)"
proof -
  let ?bs = "[ParagraphBlock (u ''ai-1'') (u ''x'') None]"
  obtain st db where s: "save_document sample_dw 4 5 0 ?bs sample_report = (Inr st, db)" "mo_snapshot st = 30" using sample_save by fastforce
  have "sessions db = sessions sample_report" "memberships db = memberships sample_report"
    by (rule save_document_Inr [OF s(1)], auto simp: frame_same elim!: write_document_Inr)+
  then have "member_session db 5 4 \<noteq> None" using sample_member(2) same_members by metis
  moreover have "list_all valid_block ?bs" by (simp add: valid_block_def)
  ultimately show ?thesis using saved_document_is_read [OF s(1)] s by (auto simp: sample_dw_def simp del: u_simps)
qed

theorem coverage_is_exhaustive_witness:
  "\<exists>cs h ps. covered_blocks (\<lambda>s. s) sample_report 30 [ParagraphBlock (u ''ai-1'') (u ''x'') None] = Inr cs \<and>
     cs = [ParagraphBlock (u ''ai-1'') (u ''x'') None] @ h # ps \<and> length cs \<le> max_document_blocks"
proof -
  let ?bs = "[ParagraphBlock (u ''ai-1'') (u ''x'') None]"
  have n: "ustr_startswith (u ''ai-'') (block_id (hd ?bs))" "block_id (hd ?bs) \<noteq> u ''source-coverage-heading''"
    by (simp_all add: startswith_u del: u_simps)
  have "load_snapshot_documents sample_report 30 = [\<lparr>sx_revision = 22, sx_title = u ''t'', sx_anchors = [(36, u ''hi'')]\<rparr>]"
    by (simp add: load_snapshot_documents_def snapshot_rows_def document_title_def report_eval)
  moreover obtain h where "blocks_from_json (\<lambda>s. s) (JList (build_source_coverage_blocks (load_snapshot_documents sample_report 30))) =
      Inr (h # coverage_paragraphs (load_snapshot_documents sample_report 30))" using coverage_as_blocks by blast
  ultimately have "\<exists>cs. covered_blocks (\<lambda>s. s) sample_report 30 ?bs = Inr cs"
    using n by (simp add: covered_blocks_def coverage_paragraphs_def max_document_blocks_def max_coverage_anchors_def max_paragraph_length_def del: u_simps)
  then obtain cs where c: "covered_blocks (\<lambda>s. s) sample_report 30 ?bs = Inr cs" ..
  show ?thesis using coverage_is_exhaustive [OF c] n c by (auto simp del: u_simps)
qed

text \<open>The report with a stored document.\<close>

definition sample_stored :: source_db where
  "sample_stored = sample_report\<lparr>merged_states := [\<lparr>ms_id = 41, ms_session = 4, ms_snapshot = 30, ms_version = 1,
     ms_blocks = blocks_to_json [ParagraphBlock (u ''p'') (u ''y'') None], ms_updated_by = 5, ms_updated_at = 8\<rparr>]\<rparr>"

lemma sample_stored_reads:
  "report_of_session sample_stored 4 = Inr 30" "require_member sample_stored 4 5 = Inr 3" "member_session sample_stored 5 4 \<noteq> None"
  "get_document (\<lambda>s. s) 4 5 sample_stored = Inr \<lparr>mo_session = 4, mo_snapshot = 30, mo_version = 1,
     mo_blocks = [ParagraphBlock (u ''p'') (u ''y'') None], mo_updated_at = Some 8\<rparr>"
proof -
  have same: "snapshots sample_stored = snapshots sample_report" "runs sample_stored = runs sample_report" "documents sample_stored = documents sample_report"
    "sessions sample_stored = sessions sample_report" "memberships sample_stored = memberships sample_report"
    by (simp_all add: sample_stored_def)
  have "latest_report sample_stored 4 = latest_report sample_report 4"
    unfolding latest_report_def complete_report_def report_documents_def same ..
  then show r: "report_of_session sample_stored 4 = Inr 30" using sample_latest by (simp add: report_of_session_def)
  show m: "require_member sample_stored 4 5 = Inr 3" "member_session sample_stored 5 4 \<noteq> None"
    using sample_member same_members [OF same(4,5)] by (simp_all add: require_member_def)
  let ?bs = "[ParagraphBlock (u ''p'') (u ''y'') None]"
  have v: "blocks_from_json (\<lambda>s. s) (blocks_to_json ?bs) = Inr ?bs" by (rule blocks_to_from) (simp add: valid_block_def)
  have "covered_blocks (\<lambda>s. s) sample_stored 30 ?bs = Inr ?bs" by (simp add: covered_blocks_def startswith_u del: u_simps)
  then show "get_document (\<lambda>s. s) 4 5 sample_stored = Inr \<lparr>mo_session = 4, mo_snapshot = 30, mo_version = 1, mo_blocks = ?bs, mo_updated_at = Some 8\<rparr>"
    using v by (simp add: get_document_def r m(1) stored_document_def del: u_simps) (simp add: sample_stored_def del: u_simps)
qed

lemma sample_version_created: "\<exists>v vs a. create_version (\<lambda>s. s) sample_dw (\<lambda>db. db) 4 5 (u '' v '') sample_stored =
    (Inr v, sample_stored\<lparr>merged_versions := vs, audit := a\<rparr>) \<and> vn_snapshot v = 30"
proof -
  let ?bs = "[ParagraphBlock (u ''p'') (u ''y'') None]"
  let ?row = "\<lparr>mv_id = 40, mv_session = 4, mv_snapshot = 30, mv_label = u ''v'', mv_blocks = blocks_to_json ?bs, mv_version = 1,
      mv_created_by = 5, mv_created_at = 9\<rparr>"
  let ?db = "sample_stored\<lparr>merged_versions := [?row]\<rparr>"
  let ?event = "record_event (dw_event sample_dw) (u ''merged_document.version_created'') [(''version_id'', IUuid 40)]
      5 SC_SESSION None (Some 3) (Some 4) (u ''merged_document_version'') 40 [(Some (u ''document_version''), MInt 1)] [] ?db"
  have m: "storable [(Some (u ''document_version''), MInt 1)]" by (simp add: storable_def metadata_eval)
  have "\<exists>a. ?event = Inr (?db\<lparr>audit := a\<rparr>)"
    by (rule session_event [OF document_types(2) document_keys(2) _ _ m]) (simp_all add: sample_stored_def report_eval)
  then obtain a where a: "?event = Inr (?db\<lparr>audit := a\<rparr>)" ..
  have i: "insert_version ?row sample_stored = Inr ?db" by (simp add: insert_version_def fresh_def sample_stored_def report_eval)
  have s: "py_strip (u '' v '') = u ''v''" by (simp add: py_strip_def py_lstrip_def py_rstrip_def py_isspace_def)
  have d: "dw_id sample_dw = 40" "dw_now sample_dw = 9" by (simp_all add: sample_dw_def)
  let ?cur = "\<lparr>mo_session = 4, mo_snapshot = 30, mo_version = 1, mo_blocks = ?bs, mo_updated_at = Some 8\<rparr>"
  have "\<exists>v. create_version_body sample_dw 4 5 (u ''v'') ?cur sample_stored = Inr (v, ?db\<lparr>audit := a\<rparr>) \<and> vn_snapshot v = 30"
    using a i by (simp add: create_version_body_def sample_stored_reads(2) d del: u_simps)
  then obtain v where v: "create_version_body sample_dw 4 5 (u ''v'') ?cur sample_stored = Inr (v, ?db\<lparr>audit := a\<rparr>)" "vn_snapshot v = 30" by blast
  have "create_version (\<lambda>s. s) sample_dw (\<lambda>db. db) 4 5 (u '' v '') sample_stored = (Inr v, ?db\<lparr>audit := a\<rparr>)"
    using v(1) sample_stored_reads(4) by (simp add: create_version_def s transaction_Inr_iff del: u_simps)
  then show ?thesis using v(2) by blast
qed

theorem named_versions_are_kept_witness:
  "\<exists>v db. create_version (\<lambda>s. s) sample_dw (\<lambda>db. db) 4 5 (u '' v '') sample_stored = (Inr v, db) \<and>
     get_version (\<lambda>s. s) 4 5 (vn_id v) db = Inr v \<and> vn_blocks v = [ParagraphBlock (u ''p'') (u ''y'') None]"
proof -
  obtain v db vs a where s: "create_version (\<lambda>s. s) sample_dw (\<lambda>db. db) 4 5 (u '' v '') sample_stored = (Inr v, db)" "vn_snapshot v = 30"
      and db: "db = sample_stored\<lparr>merged_versions := vs, audit := a\<rparr>" using sample_version_created by blast
  have o: "documents_sound sample_stored" by (simp add: documents_sound_def sample_stored_def report_eval)
  have same: "snapshots db = snapshots sample_stored" "runs db = runs sample_stored" "documents db = documents sample_stored"
    "sessions db = sessions sample_stored" "memberships db = memberships sample_stored" by (simp_all add: db)
  have "latest_report db 4 = latest_report sample_stored 4"
    unfolding latest_report_def complete_report_def report_documents_def same ..
  then have r: "report_of_session db 4 = Inr (vn_snapshot v)" using sample_stored_reads(1) s(2) by (simp add: report_of_session_def)
  have m: "member_session db 5 4 \<noteq> None" using sample_stored_reads(3) same_members [OF same(4,5)] by simp
  note kept = named_versions_are_kept [OF s(1) o rtranclp.rtrancl_refl m r, of "\<lambda>s. s"]
  then obtain cur where "get_document (\<lambda>s. s) 4 5 sample_stored = Inr cur" "vn_blocks v = mo_blocks cur" by blast
  then have "vn_blocks v = [ParagraphBlock (u ''p'') (u ''y'') None]" using sample_stored_reads(4) by (metis Inr_inject document_state.select_convs(4))
  then show ?thesis using kept s(1) by blast
qed

end
