(* ===== verification/Citation_Resolver.thy ===== *)
theory Citation_Resolver
  imports Source_Tables Generation_Read
begin

text \<open>
  \<open>citation_resolver.py\<close>: citations, anchors and web evidence as a current member of the session's room may follow them.
  An inner join on a primary key is a lookup; a row whose reference leads nowhere drops out of the result.
\<close>

section \<open>Results\<close>

datatype resolved_citation =
    ResolvedAnchor (rz_citation: uuid) (rz_anchor: uuid) (rz_revision: uuid)
  | ResolvedEvidence (rz_citation: uuid) (rz_evidence: uuid)

record resolved_anchor =
  ra_id :: uuid
  ra_revision :: uuid
  ra_quote :: ustr
  ra_json :: "(ustr \<times> json) list"

definition citation_unavailable :: "ustr \<Rightarrow> app_error" where
  "citation_unavailable what = CitationUnavailableError (what @ u '' is unavailable'')"

text \<open>\<open>_text\<close>\<close>

definition visible_text :: "ustr \<Rightarrow> ustr \<Rightarrow> app_error + ustr" where
  "visible_text value label = require (\<not> is_blank value) (CitationResolverInvariantError (label @ u '' is invalid'')) (Inr value)"

section \<open>The ancestry of a segment\<close>

text \<open>Segment, document, run, snapshot and session, for a current member of the session's room.\<close>

definition segment_ancestry :: "'z app_db_scheme \<Rightarrow> uuid \<Rightarrow> uuid \<Rightarrow> (document_row \<times> snapshot_row) option" where
  "segment_ancestry db actor segment =
     (case find (\<lambda>g. sg_id g = segment) (segments db) of None \<Rightarrow> None | Some g \<Rightarrow>
      case find (\<lambda>x. gd_id x = sg_document g) (documents db) of None \<Rightarrow> None | Some x \<Rightarrow>
      case find (\<lambda>r. gr_id r = gd_run x) (runs db) of None \<Rightarrow> None | Some r \<Rightarrow>
      case find (\<lambda>n. sn_id n = gr_snapshot r) (snapshots db) of None \<Rightarrow> None | Some n \<Rightarrow>
      case member_session db actor (sn_session n) of None \<Rightarrow> None | Some s \<Rightarrow> Some (x, n))"

text \<open>The anchor of a citation with its row in \<open>snapshot_revisions\<close>.\<close>

definition pinned_anchor :: "'z app_db_scheme \<Rightarrow> uuid \<Rightarrow> uuid \<Rightarrow> anchor_row option" where
  "pinned_anchor db sn i =
     (case find (\<lambda>a. an_id a = i) (anchors db) of
        None \<Rightarrow> None
      | Some a \<Rightarrow>
          if list_ex (\<lambda>p. pn_snapshot p = sn \<and> pn_revision p = an_revision a \<and> pn_run p = an_run a) (pinned db) then Some a else None)"

definition resolve_citation :: "uuid \<Rightarrow> uuid \<Rightarrow> 'z app_db_scheme \<Rightarrow> app_error + resolved_citation" where
  "resolve_citation cid actor db =
     (case find (\<lambda>c. ct_id c = cid) (citations db) of
        None \<Rightarrow> Inl (citation_unavailable (u ''citation''))
      | Some c \<Rightarrow> (case segment_ancestry db actor (ct_segment c) of
          None \<Rightarrow> Inl (citation_unavailable (u ''citation''))
        | Some (x, n) \<Rightarrow> (case ct_target c of
            SourceAnchor i \<Rightarrow> (case pinned_anchor db (sn_id n) i of
              None \<Rightarrow> Inl (citation_unavailable (u ''citation''))
            | Some a \<Rightarrow> Inr (ResolvedAnchor (ct_id c) i (an_revision a)))
          | WebEvidence e \<Rightarrow>
              if list_ex (\<lambda>v. ev_id v = e) (evidence db) then Inr (ResolvedEvidence (ct_id c) e)
              else Inl (citation_unavailable (u ''citation'')))))"

section \<open>Anchors\<close>

definition resolve_source_anchor_for_viewer ::
  "uuid \<Rightarrow> uuid \<Rightarrow> uuid option \<Rightarrow> 'z source_db_scheme \<Rightarrow> app_error + resolved_anchor option" where
  "resolve_source_anchor_for_viewer rid actor anchor db =
     (if member_revision db actor rid = None then Inl (citation_unavailable (u ''source revision''))
      else case anchor of
        None \<Rightarrow> Inr None
      | Some i \<Rightarrow> (case find (\<lambda>a. an_id a = i \<and> an_revision a = rid) (anchors db) of
          None \<Rightarrow> Inl (citation_unavailable (u ''source anchor''))
        | Some a \<Rightarrow> (case json_object (an_json a) of
            None \<Rightarrow> Inl (CitationResolverInvariantError (u ''source anchor JSON is invalid''))
          | Some payload \<Rightarrow>
              require (an_text a \<noteq> []) (CitationResolverInvariantError (u ''source anchor text is invalid''))
              (Inr (Some \<lparr>ra_id = an_id a, ra_revision = an_revision a, ra_quote = an_text a, ra_json = payload\<rparr>)))))"

definition resolve_source_anchor_for_member :: "uuid \<Rightarrow> uuid \<Rightarrow> 'z source_db_scheme \<Rightarrow> app_error + resolved_anchor" where
  "resolve_source_anchor_for_member i actor db =
     (case find (\<lambda>a. an_id a = i) (anchors db) of
        None \<Rightarrow> Inl (citation_unavailable (u ''source anchor''))
      | Some a \<Rightarrow>
          if member_revision db actor (an_revision a) = None then Inl (citation_unavailable (u ''source anchor''))
          else case json_object (an_json a) of
            None \<Rightarrow> Inl (CitationResolverInvariantError (u ''source anchor JSON is invalid''))
          | Some payload \<Rightarrow>
              and_then (visible_text (an_text a) (u ''source anchor text'')) (\<lambda>quote.
              Inr \<lparr>ra_id = an_id a, ra_revision = an_revision a, ra_quote = quote, ra_json = payload\<rparr>))"

section \<open>Web evidence\<close>

text \<open>The evidence of a citation in a research document the actor may read.\<close>

definition cited_for_member :: "'z app_db_scheme \<Rightarrow> uuid \<Rightarrow> uuid \<Rightarrow> bool" where
  "cited_for_member db actor e \<longleftrightarrow>
     list_ex (\<lambda>c. ct_target c = WebEvidence e \<and>
       (case segment_ancestry db actor (ct_segment c) of None \<Rightarrow> False | Some (x, n) \<Rightarrow> gd_kind x = RESEARCH)) (citations db)"

definition resolve_web_evidence_for_member :: "uuid \<Rightarrow> uuid \<Rightarrow> 'z app_db_scheme \<Rightarrow> app_error + evidence_row" where
  "resolve_web_evidence_for_member e actor db =
     (case find (\<lambda>v. ev_id v = e) (evidence db) of
        None \<Rightarrow> Inl (citation_unavailable (u ''web evidence''))
      | Some v \<Rightarrow>
          require (cited_for_member db actor e) (citation_unavailable (u ''web evidence''))
          (and_then (visible_text (ev_url v) (u ''web evidence URL'')) (\<lambda>url.
           and_then (visible_text (ev_title v) (u ''web evidence title'')) (\<lambda>title.
           and_then (visible_text (ev_domain v) (u ''web evidence domain'')) (\<lambda>domain.
           and_then (visible_text (ev_snippet_hash v) (u ''web evidence snippet hash'')) (\<lambda>hash.
           Inr \<lparr>ev_id = ev_id v, ev_url = url, ev_title = title, ev_domain = domain, ev_accessed_at = ev_accessed_at v,
                ev_snippet_hash = hash\<rparr>))))))"

end
