(* ===== verification/Citation_Properties.thy ===== *)
theory Citation_Properties
  imports Citation_Resolver Generation_Provenance Merged_Properties
begin

text \<open>
  Properties of the citation resolver: whoever follows a citation is a member and sees an anchor the report was pinned to, a
  stranger learns nothing, and every citation of a summary a member reads can be followed.
\<close>

section \<open>Ancestry\<close>

lemma segment_ancestry_Some:
  assumes "segment_ancestry db actor segment = Some (x, n)"
  shows "segment_document db segment = Some x \<and> n \<in> set (snapshots db) \<and> (\<exists>s. member_session db actor (sn_session n) = Some s) \<and>
    (\<exists>r \<in> set (runs db). gr_id r = gd_run x \<and> gr_snapshot r = sn_id n)"
  using assms by (auto simp: segment_ancestry_def segment_document_def split: option.split_asm dest!: find_Some_set)

lemma pinned_anchor_Some:
  "pinned_anchor db sn i = Some a \<Longrightarrow> a \<in> set (anchors db) \<and> an_id a = i \<and> anchor_pinned db sn i"
  by (auto simp: pinned_anchor_def anchor_pinned_def list_ex_iff split: option.split_asm if_splits dest!: find_Some_set)

text \<open>
  Citations disclose nothing to strangers.  What is resolved belongs to a report of a session whose room the actor is a
  current member of, and a source anchor is pinned by that report's snapshot; for an actor who is in no room at all a citation
  that exists is answered exactly like one that does not, and so are anchors, revisions and web evidence.
\<close>

theorem citations_need_membership:
  fixes db :: "'z source_db_scheme"
  shows "(\<forall>cid out. resolve_citation cid actor db = Inr out \<longrightarrow>
      (\<exists>n s. n \<in> set (snapshots db) \<and> member_session db actor (sn_session n) = Some s \<and> rz_citation out = cid \<and>
        (\<forall>i rid. out = ResolvedAnchor cid i rid \<longrightarrow> anchor_pinned db (sn_id n) i))) \<and>
    ((\<forall>m \<in> set (memberships db). mb_user m = actor \<longrightarrow> mb_left m) \<longrightarrow>
      resolve_citation cid actor db = Inl (CitationUnavailableError (u ''citation is unavailable'')) \<and>
      resolve_source_anchor_for_member i actor db = Inl (CitationUnavailableError (u ''source anchor is unavailable'')) \<and>
      resolve_source_anchor_for_viewer rid actor a db = Inl (CitationUnavailableError (u ''source revision is unavailable'')) \<and>
      resolve_web_evidence_for_member e actor db = Inl (CitationUnavailableError (u ''web evidence is unavailable'')))"
proof (intro conjI allI impI)
  fix cid out
  assume r: "resolve_citation cid actor db = Inr out"
  then obtain c x n where c: "find (\<lambda>c. ct_id c = cid) (citations db) = Some c" "segment_ancestry db actor (ct_segment c) = Some (x, n)"
    by (auto simp: resolve_citation_def split: option.split_asm)
  then have "ct_id c = cid" using find_Some_set by fastforce
  then show "\<exists>n s. n \<in> set (snapshots db) \<and> member_session db actor (sn_session n) = Some s \<and> rz_citation out = cid \<and>
      (\<forall>i rid. out = ResolvedAnchor cid i rid \<longrightarrow> anchor_pinned db (sn_id n) i)"
    using r c segment_ancestry_Some [OF c(2)]
    by (auto simp: resolve_citation_def split: option.split_asm citation_target.split_asm if_splits dest!: pinned_anchor_Some)
next
  assume gone: "\<forall>m \<in> set (memberships db). mb_user m = actor \<longrightarrow> mb_left m"
  have m: "member_session db actor sid = None" for sid
    using gone by (auto simp: member_session_def is_member_def list_ex_iff split: option.split)
  have a: "segment_ancestry db actor g = None" for g by (auto simp: segment_ancestry_def m split: option.split)
  have v: "member_revision db actor x = None" for x by (auto simp: member_revision_def m split: option.split)
  show "resolve_citation cid actor db = Inl (CitationUnavailableError (u ''citation is unavailable''))"
    by (auto simp: resolve_citation_def a citation_unavailable_def split: option.split)
  show "resolve_source_anchor_for_member i actor db = Inl (CitationUnavailableError (u ''source anchor is unavailable''))"
    by (auto simp: resolve_source_anchor_for_member_def v citation_unavailable_def split: option.split)
  show "resolve_source_anchor_for_viewer rid actor a db = Inl (CitationUnavailableError (u ''source revision is unavailable''))"
    by (simp add: resolve_source_anchor_for_viewer_def v citation_unavailable_def)
  show "resolve_web_evidence_for_member e actor db = Inl (CitationUnavailableError (u ''web evidence is unavailable''))"
    by (auto simp: resolve_web_evidence_for_member_def cited_for_member_def a citation_unavailable_def list_ex_iff split: option.split)
qed

section \<open>Citations of a summary\<close>

lemma find_id: "distinct (map key xs) \<Longrightarrow> x \<in> set xs \<Longrightarrow> find (\<lambda>y. key y = key x) xs = Some x"
  by (rule find_key_unique)

lemma citation_rows_in:
  assumes "(ordinal, i, a) \<in> set (citation_rows db document)"
  shows "\<exists>g \<in> set (segments db). sg_document g = document \<and> (\<exists>c \<in> set (citations db). ct_segment c = sg_id g \<and> ct_id c = i \<and> ct_target c = SourceAnchor a)"
  using assms by (auto simp: citation_rows_def List.map_filter_def split: citation_target.split_asm if_splits) blast

text \<open>
  C34: every citation of a summary can be followed.  In tables that keep the provenance invariant, each citation that
  \<open>get_summary\<close> attaches to the summary a member reads resolves, for this member, to the anchor it was attached for and the
  revision of that anchor.
\<close>

theorem summary_citations_resolve:
  assumes "provenance db" and "distinct (map gr_id (runs db))" and "distinct (map sn_id (snapshots db))" and "distinct (map an_id (anchors db))"
    and "distinct (map ts_id (sessions db))"
    and "member_document db sid actor SUMMARY = Inr d" and "(ordinal, i, a) \<in> set (citation_rows db (md_document d))"
  shows "\<exists>an \<in> set (anchors db). an_id an = a \<and> resolve_citation i actor db = Inr (ResolvedAnchor i a (an_revision an))"
proof -
  obtain s n x where s: "member_session db actor sid = Some s" and nx: "(n, x) \<in> set (published_documents db s SUMMARY)"
      and d: "md_document d = gd_id x"
    using assms(6) by (auto simp: member_document_def and_then_Inr Option.bind_eq_Some_conv split: option.split_asm dest!: find_Some_set)
  then obtain r where r: "n \<in> set (snapshots db)" "sn_session n = ts_id s" "r \<in> set (runs db)" "gr_snapshot r = sn_id n" "x \<in> set (documents db)"
      "gd_run x = gr_id r"
    by (auto simp: published_documents_def current_snapshots_def)
  obtain g c where g: "g \<in> set (segments db)" "sg_document g = gd_id x" "c \<in> set (citations db)" "ct_segment c = sg_id g" "ct_id c = i"
      "ct_target c = SourceAnchor a"
    using citation_rows_in [OF assms(7)] d by auto
  have dist: "distinct (map gd_id (documents db))" "distinct (map sg_id (segments db))" "distinct (map ct_id (citations db))"
    using assms(1) by (simp_all add: provenance_def provenance_for_def)
  have fc: "find (\<lambda>c. ct_id c = i) (citations db) = Some c" using find_id [OF dist(3) g(3)] g(5) by simp
  have fg: "find (\<lambda>g. sg_id g = ct_segment c) (segments db) = Some g" using find_id [OF dist(2) g(1)] g(4) by simp
  have fx: "find (\<lambda>x. gd_id x = sg_document g) (documents db) = Some x" using find_id [OF dist(1) r(5)] g(2) by simp
  have fr: "find (\<lambda>r. gr_id r = gd_run x) (runs db) = Some r" using find_id [OF assms(2) r(3)] r(6) by simp
  have fn: "find (\<lambda>n. sn_id n = gr_snapshot r) (snapshots db) = Some n" using find_id [OF assms(3) r(1)] r(4) by simp
  have fs: "member_session db actor (sn_session n) = Some s"
    using s r(2) find_session_Some by (fastforce simp: member_session_Some)
  have anc: "segment_ancestry db actor (ct_segment c) = Some (x, n)" by (simp add: segment_ancestry_def fg fx fr fn fs)
  obtain y q where y: "segment_document db (ct_segment c) = Some y" "q \<in> set (runs db)" "gr_id q = gd_run y" "anchor_pinned db (gr_snapshot q) a"
    using provenance_citation [OF assms(1) g(3,6)] by blast
  have "y = x" using y(1) by (simp add: segment_document_def fg fx)
  then have "q = r" using y(2,3) fr find_id [OF assms(2) y(2)] by simp
  then obtain an where an: "an \<in> set (anchors db)" "an_id an = a"
      "list_ex (\<lambda>p. pn_snapshot p = sn_id n \<and> pn_revision p = an_revision an \<and> pn_run p = an_run an) (pinned db)"
    using y(4) r(4) by (auto simp: anchor_pinned_def list_ex_iff)
  have "pinned_anchor db (sn_id n) a = Some an" using find_id [OF assms(4) an(1)] an(2,3) by (simp add: pinned_anchor_def)
  then show ?thesis using an(1,2) by (auto simp: resolve_citation_def fc anc g(5,6))
qed

section \<open>The properties at a concrete report\<close>

text \<open>The summary of \<open>sample_report\<close>, current, with a segment that cites the pinned anchor.\<close>

definition sample_cited :: source_db where
  "sample_cited = sample_report\<lparr>
     snapshots := [\<lparr>sn_id = 30, sn_session = 4, sn_epoch = 0, sn_created_by = 5, sn_topic = u ''t'', sn_pipeline = u ''p'', sn_anchor_version = u ''1''\<rparr>],
     segments := [\<lparr>sg_id = 50, sg_document = 33, sg_ordinal = 0, sg_text = u ''s''\<rparr>],
     citations := [\<lparr>ct_id = 51, ct_segment = 50, ct_target = SourceAnchor 36\<rparr>]\<rparr>"

lemma sample_cited_provenance: "provenance sample_cited"
  by (simp add: provenance_def provenance_for_def document_kind_ok_def citation_ok_def segment_document_def anchor_pinned_def
      summaries_cited_def sample_cited_def report_eval)

lemma sample_cited_document: "\<exists>d. member_document sample_cited 4 5 SUMMARY = Inr d \<and> md_document d = 33"
proof -
  obtain s where s: "member_session sample_cited 5 4 = Some s" "ts_id s = 4" "ts_epoch s = 0"
    by (simp add: member_session_def find_session_def is_member_def sample_cited_def report_eval del: u_simps)
  have "\<exists>n rest. published_documents sample_cited s SUMMARY = (n, \<lparr>gd_id = 33, gd_run = 31, gd_kind = SUMMARY, gd_content = [], gd_hash = []\<rparr>) # rest"
    by (simp add: published_documents_def current_snapshots_def s sample_cited_def report_eval)
  then show ?thesis by (auto simp: member_document_def s json_object_copy_def)
qed

theorem citations_need_membership_witness:
  "resolve_citation 51 6 sample_cited = Inl (CitationUnavailableError (u ''citation is unavailable'')) \<and>
   (\<exists>out. resolve_citation 51 5 sample_cited = Inr out \<and> rz_citation out = 51)"
proof -
  have "\<forall>m \<in> set (memberships sample_cited). mb_user m = 6 \<longrightarrow> mb_left m" by (simp add: sample_cited_def report_eval)
  then have no: "resolve_citation 51 6 sample_cited = Inl (CitationUnavailableError (u ''citation is unavailable''))"
    using citations_need_membership [of 6 sample_cited 51] by blast
  have "\<exists>out. resolve_citation 51 5 sample_cited = Inr out"
    by (simp add: resolve_citation_def segment_ancestry_def member_session_def find_session_def is_member_def pinned_anchor_def
      sample_cited_def report_eval del: u_simps)
  then show ?thesis using no citations_need_membership [of 5 sample_cited] by blast
qed

theorem summary_citations_resolve_witness:
  "resolve_citation 51 5 sample_cited = Inr (ResolvedAnchor 51 36 22)"
proof -
  obtain d where d: "member_document sample_cited 4 5 SUMMARY = Inr d" "md_document d = 33" using sample_cited_document by blast
  have c: "(0, 51, 36) \<in> set (citation_rows sample_cited (md_document d))"
    by (simp add: d(2) citation_rows_def List.map_filter_def sample_cited_def report_eval)
  have "distinct (map gr_id (runs sample_cited))" "distinct (map sn_id (snapshots sample_cited))" "distinct (map an_id (anchors sample_cited))"
    "distinct (map ts_id (sessions sample_cited))" by (simp_all add: sample_cited_def report_eval)
  from summary_citations_resolve [OF sample_cited_provenance this d(1) c] show ?thesis by (auto simp: sample_cited_def report_eval)
qed

end
