(* ===== verification/Utf8.thy ===== *)
theory Utf8
  imports Json
begin

text \<open>
  \<open>bytes.decode("utf-8")\<close> with strict errors, and \<open>"utf-8-sig"\<close>, which drops one byte order mark: a decoder that refuses
  overlong forms, surrogates and numbers above 0x10FFFF.  It is the inverse of \<open>utf8\<close>.
\<close>

definition continuation :: "nat \<Rightarrow> bool" where
  "continuation b \<longleftrightarrow> 128 \<le> b \<and> b \<le> 191"

fun utf8_decode :: "nat list \<Rightarrow> ustr option" where
  "utf8_decode [] = Some []"
| "utf8_decode (b # bs) =
     (if b < 128 then map_option (Cons b) (utf8_decode bs)
      else if 192 \<le> b \<and> b \<le> 223 then
        (case bs of c # rest \<Rightarrow>
             let v = (b - 192) * 64 + (c - 128) in
             if continuation c \<and> 128 \<le> v then map_option (Cons v) (utf8_decode rest) else None
         | _ \<Rightarrow> None)
      else if 224 \<le> b \<and> b \<le> 239 then
        (case bs of c # d # rest \<Rightarrow>
             let v = (b - 224) * 4096 + (c - 128) * 64 + (d - 128) in
             if continuation c \<and> continuation d \<and> 2048 \<le> v \<and> \<not> (55296 \<le> v \<and> v \<le> 57343)
             then map_option (Cons v) (utf8_decode rest) else None
         | _ \<Rightarrow> None)
      else if 240 \<le> b \<and> b \<le> 247 then
        (case bs of c # d # e # rest \<Rightarrow>
             let v = (b - 240) * 262144 + (c - 128) * 4096 + (d - 128) * 64 + (e - 128) in
             if continuation c \<and> continuation d \<and> continuation e \<and> 65536 \<le> v \<and> v \<le> 1114111
             then map_option (Cons v) (utf8_decode rest) else None
         | _ \<Rightarrow> None)
      else None)"

definition byte_order_mark :: "nat list" where
  "byte_order_mark = [239, 187, 191]"

definition utf8_sig_decode :: "nat list \<Rightarrow> ustr option" where
  "utf8_sig_decode bs = utf8_decode (if take 3 bs = byte_order_mark then drop 3 bs else bs)"

text \<open>Text as Python has it: code points below 0x110000.\<close>

definition is_text :: "ustr \<Rightarrow> bool" where
  "is_text s \<longleftrightarrow> list_all (\<lambda>c. c < 1114112) s"

lemma split64: "(x :: nat) div 64 * 64 + x mod 64 = x"
  by simp

lemma join64: "t < 64 \<Longrightarrow> ((x :: nat) * 64 + t) div 64 = x \<and> (x * 64 + t) mod 64 = t"
  by simp

lemma mod64 [simp]: "(x :: nat) mod 64 \<le> 63"
  using mod_less_divisor [of 64 x] by linarith

lemma utf8_decode_char:
  assumes "utf8_char c = Some b" "c < 1114112"
  shows "utf8_decode (b @ bs) = map_option (Cons c) (utf8_decode bs)"
proof -
  consider "c < 128" | "128 \<le> c" "c < 2048" | "2048 \<le> c" "c < 65536" "\<not> (55296 \<le> c \<and> c \<le> 57343)" | "65536 \<le> c"
    using assms(1) by (fastforce simp: utf8_char_def split: if_splits)
  then show ?thesis
  proof cases
    case 1
    then show ?thesis using assms(1) by (auto simp: utf8_char_def)
  next
    case 2
    then have b: "b = [192 + c div 64, 128 + c mod 64]" "2 \<le> c div 64" "c div 64 \<le> 31" using assms(1) by (auto simp: utf8_char_def)
    then show ?thesis using 2 by (simp add: continuation_def split64)
  next
    case 3
    then have b: "b = [224 + c div 4096, 128 + c div 64 mod 64, 128 + c mod 64]" "c div 4096 \<le> 15" using assms(1) by (auto simp: utf8_char_def)
    have "c div 4096 * 64 + c div 64 mod 64 = c div 64" using split64 [of "c div 64"] by (simp add: div_mult2_eq [symmetric])
    then have "(c div 4096 * 64 + c div 64 mod 64) * 64 + c mod 64 = c" by (simp only: split64)
    then have "c div 4096 * 4096 + c div 64 mod 64 * 64 + c mod 64 = c" by (simp add: algebra_simps)
    then show ?thesis using 3 b by (simp add: continuation_def Let_def)
  next
    case 4
    then have b: "b = [240 + c div 262144, 128 + c div 4096 mod 64, 128 + c div 64 mod 64, 128 + c mod 64]" "c div 262144 \<le> 4"
      using assms by (auto simp: utf8_char_def)
    have "c div 4096 * 64 + c div 64 mod 64 = c div 64" "c div 262144 * 64 + c div 4096 mod 64 = c div 4096"
      using split64 [of "c div 64"] split64 [of "c div 4096"] by (simp_all add: div_mult2_eq [symmetric])
    then have "((c div 262144 * 64 + c div 4096 mod 64) * 64 + c div 64 mod 64) * 64 + c mod 64 = c" by (simp only: split64)
    then have "c div 262144 * 262144 + c div 4096 mod 64 * 4096 + c div 64 mod 64 * 64 + c mod 64 = c" by (simp add: algebra_simps)
    then show ?thesis using 4 b assms(2) by (simp add: continuation_def Let_def)
  qed
qed

text \<open>Decoding what was encoded gives the text back.\<close>

lemma utf8_decode_encode: "utf8 s = Some b \<Longrightarrow> is_text s \<Longrightarrow> utf8_decode b = Some s"
proof (induction s arbitrary: b)
  case (Cons c s)
  then obtain x y where "utf8_char c = Some x" "utf8 s = Some y" "b = x @ y" by (auto split: option.splits)
  with Cons show ?case by (simp add: utf8_decode_char is_text_def)
qed simp

text \<open>What was decoded has an encoding, the bytes themselves.\<close>

lemma utf8_char_two:
  assumes "192 \<le> b" "b \<le> 223" "continuation c" "128 \<le> (b - 192) * 64 + (c - 128)"
  shows "utf8_char ((b - 192) * 64 + (c - 128)) = Some [b, c] \<and> (b - 192) * 64 + (c - 128) < 1114112"
proof -
  obtain p q where "b = 192 + p" "c = 128 + q" "p \<le> 31" "q < 64" using assms(1-3) nat_le_iff_add [of 192 b] nat_le_iff_add [of 128 c]
    by (auto simp: continuation_def)
  then show ?thesis using assms(4) by (auto simp: utf8_char_def)
qed

lemma utf8_char_three:
  assumes "224 \<le> b" "b \<le> 239" "continuation c" "continuation d" "2048 \<le> v" "\<not> (55296 \<le> v \<and> v \<le> 57343)"
    "v = (b - 224) * 4096 + (c - 128) * 64 + (d - 128)"
  shows "utf8_char v = Some [b, c, d] \<and> v < 1114112"
proof -
  obtain p q r where o: "b = 224 + p" "c = 128 + q" "d = 128 + r" "p \<le> 15" "q < 64" "r < 64"
    using assms(1-4) nat_le_iff_add [of 224 b] nat_le_iff_add [of 128 c] nat_le_iff_add [of 128 d] by (auto simp: continuation_def)
  then have v: "v = (p * 64 + q) * 64 + r" using assms(7) by simp
  then have d: "v div 64 = p * 64 + q" "v mod 64 = r" using join64 [OF o(6), of "p * 64 + q"] by simp_all
  moreover have "v div 4096 = p" using d(1) join64 [OF o(5), of p] div_mult2_eq [of v 64 64] by simp
  moreover have "v < 65536" using v o by simp
  moreover have "v div 64 mod 64 = q" by (simp only: d join64 [OF o(5)])
  ultimately show ?thesis using assms(5,6) o by (simp add: utf8_char_def)
qed

lemma utf8_char_four:
  assumes "240 \<le> b" "b \<le> 247" "continuation c" "continuation d" "continuation e" "65536 \<le> v" "v \<le> 1114111"
    "v = (b - 240) * 262144 + (c - 128) * 4096 + (d - 128) * 64 + (e - 128)"
  shows "utf8_char v = Some [b, c, d, e] \<and> v < 1114112"
proof -
  obtain p q r t where o: "b = 240 + p" "c = 128 + q" "d = 128 + r" "e = 128 + t" "q < 64" "r < 64" "t < 64"
    using assms(1-5) nat_le_iff_add [of 240 b] nat_le_iff_add [of 128 c] nat_le_iff_add [of 128 d] nat_le_iff_add [of 128 e]
    by (auto simp: continuation_def)
  then have v: "v = ((p * 64 + q) * 64 + r) * 64 + t" using assms(8) by simp
  then have d: "v div 64 = (p * 64 + q) * 64 + r" "v mod 64 = t" using join64 [OF o(7), of "(p * 64 + q) * 64 + r"] by simp_all
  have f: "v div 4096 = p * 64 + q" using join64 [OF o(6), of "p * 64 + q"] div_mult2_eq [of v 64 64] d by simp
  have "v div 262144 = p" using join64 [OF o(5), of p] div_mult2_eq [of v 4096 64] f by simp
  moreover have "v div 64 mod 64 = r" by (simp only: d join64 [OF o(6)])
  ultimately show ?thesis using assms(6,7) o d(2) f by (simp add: utf8_char_def)
qed

lemma utf8_decode_Some: "utf8_decode bytes = Some s \<Longrightarrow> utf8 s = Some bytes \<and> is_text s"
proof (induction bytes arbitrary: s rule: length_induct)
  case (1 bytes)
  have IH: "utf8 t = Some ys \<and> is_text t" if "length ys < length bytes" "utf8_decode ys = Some t" for ys t
    using "1.IH" that by blast
  show ?case
  proof (cases bytes)
    case Nil
    then show ?thesis using "1.prems" by (simp add: is_text_def)
  next
    case (Cons b bs)
    note d = "1.prems" [unfolded Cons]
    have "b < 128 \<or> 192 \<le> b \<and> b \<le> 223 \<or> 224 \<le> b \<and> b \<le> 239 \<or> 240 \<le> b \<and> b \<le> 247"
      by (rule ccontr) (use d in \<open>simp split: if_splits\<close>)
    then consider "b < 128" | "192 \<le> b" "b \<le> 223" | "224 \<le> b" "b \<le> 239" | "240 \<le> b" "b \<le> 247" by blast
    then show ?thesis
    proof cases
      case 1
      then obtain t where t: "utf8_decode bs = Some t" "s = b # t" using d by auto
      show ?thesis using IH [OF _ t(1)] 1 by (simp add: Cons t(2) utf8_char_def is_text_def)
    next
      case 2
      then obtain c r t where o: "bs = c # r" "continuation c" "128 \<le> (b - 192) * 64 + (c - 128)" "utf8_decode r = Some t"
          "s = ((b - 192) * 64 + (c - 128)) # t"
        using d by (auto simp: Let_def split: list.splits if_splits)
      show ?thesis using utf8_char_two [OF 2 o(2,3)] IH [OF _ o(4)] by (simp add: Cons o(1,5) is_text_def)
    next
      case 3
      then obtain c e r t v where o: "bs = c # e # r" "v = (b - 224) * 4096 + (c - 128) * 64 + (e - 128)" "continuation c"
          "continuation e" "2048 \<le> v" "\<not> (55296 \<le> v \<and> v \<le> 57343)" "utf8_decode r = Some t" "s = v # t"
        using d by (auto simp: Let_def split: list.splits if_splits)
      show ?thesis using utf8_char_three [OF 3 o(3-6,2)] IH [OF _ o(7)] by (simp add: Cons o(1,8) is_text_def)
    next
      case 4
      then obtain c e f r t v where o: "bs = c # e # f # r"
          "v = (b - 240) * 262144 + (c - 128) * 4096 + (e - 128) * 64 + (f - 128)" "continuation c" "continuation e" "continuation f"
          "65536 \<le> v" "v \<le> 1114111" "utf8_decode r = Some t" "s = v # t"
        using d by (auto simp: Let_def split: list.splits if_splits)
      show ?thesis using utf8_char_four [OF 4 o(3-7,2)] IH [OF _ o(8)] by (simp add: Cons o(1,9) is_text_def)
    qed
  qed
qed

text \<open>The decoder accepts exactly the encodings of texts.\<close>

lemma utf8_decode_iff: "utf8_decode bytes = Some s \<longleftrightarrow> is_text s \<and> utf8 s = Some bytes"
  using utf8_decode_Some utf8_decode_encode by blast

end
