(* ===== verification/Extraction_Worker.thy ===== *)
theory Extraction_Worker
  imports File_Submissions Utf8 Uuid_Text
begin

text \<open>
  \<open>file_extraction_worker.py\<close>: the fenced worker that turns an uploaded file into anchors.

  \<^item> The parser process is a parameter \<open>sandbox\<close>: bytes, file name, media type and parser to what
    \<open>runner.execute_sandbox\<close> answers.  Its successful payload is a record (the runner checked its JSON).
  \<^item> Each database access of a poll is its own transaction: \<open>env k\<close> is what others do before the claim (0), the
    read of the revision (1), the completion (2), the requeue (3) and the check of the winner (4).
  \<^item> Log lines, durations and byte counts are left out.
\<close>

section \<open>The sandbox adapter\<close>

record extracted_block =
  eb_ordinal :: int
  eb_text :: ustr
  eb_type :: ustr
  eb_confidence :: "rat option"
  eb_anchor :: json
  eb_hash :: ustr

record extraction_output =
  xo_parser :: "ustr \<times> ustr"
  xo_profile :: ustr
  xo_anchor_set :: ustr
  xo_blocks :: "extracted_block list"

datatype sandbox_code = SX_INPUT_TOO_LARGE | SX_LAUNCH_FAILED | SX_TIMEOUT | SX_LOG_LIMIT | SX_LOG_OUTPUT | SX_CRASH
  | SX_EXIT_MISMATCH | SX_OUTPUT_TOO_LARGE | SX_INVALID_OUTPUT | SX_TAMPERED | SX_REPORTED

fun sandbox_code_value :: "sandbox_code \<Rightarrow> ustr" where
  "sandbox_code_value SX_INPUT_TOO_LARGE = u ''INPUT_TOO_LARGE''"
| "sandbox_code_value SX_LAUNCH_FAILED = u ''SANDBOX_LAUNCH_FAILED''"
| "sandbox_code_value SX_TIMEOUT = u ''PARSER_TIMEOUT''"
| "sandbox_code_value SX_LOG_LIMIT = u ''PARSER_LOG_LIMIT''"
| "sandbox_code_value SX_LOG_OUTPUT = u ''PARSER_LOG_OUTPUT''"
| "sandbox_code_value SX_CRASH = u ''PARSER_CRASH''"
| "sandbox_code_value SX_EXIT_MISMATCH = u ''PARSER_EXIT_MISMATCH''"
| "sandbox_code_value SX_OUTPUT_TOO_LARGE = u ''PARSER_OUTPUT_TOO_LARGE''"
| "sandbox_code_value SX_INVALID_OUTPUT = u ''INVALID_PARSER_OUTPUT''"
| "sandbox_code_value SX_TAMPERED = u ''STAGED_INPUT_TAMPERED''"
| "sandbox_code_value SX_REPORTED = u ''PARSER_REPORTED_FAILURE''"

record sandbox_failure =
  sf_code :: sandbox_code
  sf_parser :: "ustr option"
  sf_retryable :: "bool option"

record sandbox_execution =
  sx_ok :: bool
  sx_payload :: "extraction_output option"
  sx_failure :: "sandbox_failure option"

definition failed_with :: "sandbox_code \<Rightarrow> ustr option \<Rightarrow> bool option \<Rightarrow> sandbox_execution" where
  "failed_with code parser retryable =
     \<lparr>sx_ok = False, sx_payload = None, sx_failure = Some \<lparr>sf_code = code, sf_parser = parser, sf_retryable = retryable\<rparr>\<rparr>"

text \<open>What the approved runner answers.\<close>

record runner_execution =
  rx_ok :: bool
  rx_payload :: "extraction_output option"
  rx_error :: "ustr option"

definition boundary_codes :: "(ustr \<times> sandbox_code) list" where
  "boundary_codes =
     [(u ''INPUT_TOO_LARGE'', SX_INPUT_TOO_LARGE), (u ''PARSER_TIMEOUT'', SX_TIMEOUT), (u ''PARSER_LOG_LIMIT'', SX_LOG_LIMIT),
      (u ''PARSER_LOG_OUTPUT'', SX_LOG_OUTPUT), (u ''PARSER_CRASH'', SX_CRASH), (u ''PARSER_OUTPUT_LIMIT'', SX_OUTPUT_TOO_LARGE),
      (u ''INVALID_PARSER_OUTPUT'', SX_INVALID_OUTPUT)]"

text \<open>An absent or empty error code is \<open>SANDBOX_LAUNCH_FAILED\<close>, which is no boundary code.\<close>

definition convert_approved_execution :: "runner_execution \<Rightarrow> sandbox_execution" where
  "convert_approved_execution x =
     (if rx_ok x then \<lparr>sx_ok = True, sx_payload = rx_payload x, sx_failure = None\<rparr>
      else let code = (case rx_error x of None \<Rightarrow> u ''SANDBOX_LAUNCH_FAILED'' | Some c \<Rightarrow> if c = [] then u ''SANDBOX_LAUNCH_FAILED'' else c) in
           case map_of boundary_codes code of
             Some b \<Rightarrow> failed_with b None None
           | None \<Rightarrow> failed_with SX_REPORTED (Some code) (Some (code \<in> {u ''OCR_TIMEOUT'', u ''DEPENDENCY_UNAVAILABLE''})))"

definition profile_by_media :: "(ustr \<times> ustr) list" where
  "profile_by_media =
     map (\<lambda>(m, h). (u m, u h))
     [(''application/pdf'', ''66c3e4fb17d97a94b56511982ba9624ce168d35aa391087b2c414b3eb65f4cc2''),
      (''image/png'', ''31b063d1175f667d67385fc9d4657e541cf450e7524b257aee2d5da3f87f2a6c''),
      (''image/jpeg'', ''31b063d1175f667d67385fc9d4657e541cf450e7524b257aee2d5da3f87f2a6c''),
      (''application/x-hwp'', ''e320c367c7c5952bcb83a067f44edd8729d65c6c5d20fceccaf69c7a641271df''),
      (''application/x-hwpx'', ''ae4e3c7f49383c4d2768445f81fba32ce343701bcf053969bc959b50c4dea8af''),
      (''text/plain'', ''f9459187e413f808732f93f126f8140886cc575130e3884b86c12c65d29bc8b7''),
      (docx_media, ''e320c367c7c5952bcb83a067f44edd8729d65c6c5d20fceccaf69c7a641271df''),
      (pptx_media, ''588fbb9988828934408a492500541c64714acaaa5db3cad312b8b2f616ec9c86''),
      (xlsx_media, ''00e03add157065ac766b05c63a914d36974288c7dd698a163ba960bfa830b8d2'')]"

text \<open>\<open>ParserIdentity.__post_init__\<close> and \<open>SandboxRequest.__post_init__\<close>\<close>

definition normalized_text_ok :: "(ustr \<Rightarrow> ustr) \<Rightarrow> nat \<Rightarrow> ustr \<Rightarrow> bool" where
  "normalized_text_ok nfc maximum s \<longleftrightarrow> s \<noteq> [] \<and> length s \<le> maximum \<and> utf8 s \<noteq> None \<and> normalize_text nfc s = s"

definition make_parser :: "(ustr \<Rightarrow> ustr) \<Rightarrow> ustr \<Rightarrow> ustr \<Rightarrow> app_error + ustr \<times> ustr" where
  "make_parser nfc name version =
     require (normalized_text_ok nfc 128 name) (ValueError (u ''parser name''))
     (require (normalized_text_ok nfc 128 version) (ValueError (u ''parser version'')) (Inr (name, version)))"

definition sandbox_request_ok :: "ustr \<Rightarrow> ustr \<Rightarrow> app_error + unit" where
  "sandbox_request_ok filename media =
     require (filename \<noteq> [] \<and> length filename \<le> 255 \<and> list_all (\<lambda>c. c \<notin> {47, 92, 0, 13, 10}) filename)
       (ValueError (u ''original_filename must be a safe basename''))
     (require (media \<in> fst ` set profile_by_media) (ValueError (u ''expected_media_type is not approved'')) (Inr ()))"

text \<open>\<open>DockerSandboxAdapter.execute\<close>\<close>

type_synonym runner_process = "nat list \<Rightarrow> ustr \<Rightarrow> runner_execution"

definition sandbox_execute :: "runner_process \<Rightarrow> nat list \<Rightarrow> ustr \<Rightarrow> ustr \<Rightarrow> sandbox_execution" where
  "sandbox_execute run bytes filename media =
     (let x = convert_approved_execution (run bytes filename) in
      case sx_payload x of
        None \<Rightarrow> x
      | Some out \<Rightarrow>
          if sx_ok x \<and> Some (xo_profile out) \<noteq> map_of profile_by_media media
          then failed_with SX_INVALID_OUTPUT None None else x)"

section \<open>Plain text\<close>

text \<open>\<open>enumerate(io.StringIO(text), start=1)\<close>, each line without its newline.\<close>

definition text_lines :: "ustr \<Rightarrow> (nat \<times> ustr) list" where
  "text_lines s = (let ls = split_on 10 s in enumerate 1 (if last ls = [] then butlast ls else ls))"

definition line_block ::
  "(nat list \<Rightarrow> ustr) \<Rightarrow> (ustr \<Rightarrow> ustr) \<Rightarrow> (ustr \<Rightarrow> json) \<Rightarrow> ustr \<Rightarrow> ustr \<Rightarrow> nat \<Rightarrow> nat \<Rightarrow> ustr \<Rightarrow> app_error + extracted_block" where
  "line_block sha256 nfc round6 profile source_sha ordinal n line =
     and_then (text_sha256 sha256 line) (\<lambda>fp.
     let anchor = line_anchor source_sha profile (int n) (length line) fp in
     and_then (canonical_sha256 sha256 nfc round6 anchor) (\<lambda>hash.
     Inr \<lparr>eb_ordinal = int ordinal, eb_text = line, eb_type = u ''text_line'', eb_confidence = Some 1, eb_anchor = anchor, eb_hash = hash\<rparr>))"

text \<open>The loop over the lines: which are kept, cut to the limits, and whether something was left out.\<close>

definition max_text_blocks :: nat where
  "max_text_blocks = 10000"

definition max_block_chars :: nat where
  "max_block_chars = 100000"

definition max_total_chars :: nat where
  "max_total_chars = 1000000"

fun bounded_lines :: "(nat \<times> ustr) list \<Rightarrow> nat \<Rightarrow> nat \<Rightarrow> (nat \<times> ustr) list \<times> bool" where
  "bounded_lines [] blocks chars = ([], False)"
| "bounded_lines ((n, line) # rest) blocks chars =
     (if py_strip line = [] then bounded_lines rest blocks chars
      else if blocks \<ge> max_text_blocks \<or> chars \<ge> max_total_chars then ([], True)
      else let remaining = min max_block_chars (max_total_chars - chars) in
           if length line > remaining then ([(n, take remaining line)], True)
           else let (kept, truncated) = bounded_lines rest (blocks + 1) (chars + length line) in ((n, line) # kept, truncated))"

definition anchor_set_hash ::
  "(nat list \<Rightarrow> ustr) \<Rightarrow> (ustr \<Rightarrow> ustr) \<Rightarrow> (ustr \<Rightarrow> json) \<Rightarrow> extracted_block list \<Rightarrow> app_error + ustr" where
  "anchor_set_hash sha256 nfc round6 blocks =
     canonical_sha256 sha256 nfc round6
       (JObj [(u ''schema_version'', JInt 1), (u ''anchor_hashes'', JList (map (\<lambda>b. JStr (eb_hash b)) blocks))])"

definition text_profile :: ustr where
  "text_profile = u ''f9459187e413f808732f93f126f8140886cc575130e3884b86c12c65d29bc8b7''"

definition extract_utf8_text ::
  "(nat list \<Rightarrow> ustr) \<Rightarrow> (ustr \<Rightarrow> ustr) \<Rightarrow> (ustr \<Rightarrow> json) \<Rightarrow> nat list \<Rightarrow> app_error + sandbox_execution" where
  "extract_utf8_text sha256 nfc round6 bytes =
     (case utf8_sig_decode bytes of
        None \<Rightarrow> Inr (failed_with SX_REPORTED (Some (u ''INVALID_TEXT_ENCODING'')) (Some False))
      | Some text \<Rightarrow>
          let (kept, truncated) = bounded_lines (text_lines (lf_newlines text)) 0 0 in
          if kept = [] then Inr (failed_with SX_REPORTED (Some (u ''EMPTY_TEXT'')) (Some False))
          else and_then (map_result (\<lambda>(ordinal, n, line). line_block sha256 nfc round6 text_profile (sha256 bytes) ordinal n line)
                 (enumerate 0 kept)) (\<lambda>blocks.
               and_then (anchor_set_hash sha256 nfc round6 blocks) (\<lambda>hash.
               Inr \<lparr>sx_ok = True, sx_payload = Some \<lparr>xo_parser = (u ''builtin-utf8-text'', u ''1.0.0''), xo_profile = text_profile,
                      xo_anchor_set = hash, xo_blocks = blocks\<rparr>, sx_failure = None\<rparr>)))"

section \<open>The job and its revision\<close>

text \<open>\<open>_parse_identity\<close>; the values of \<open>submit\<close> are strings.\<close>

definition parse_identity :: "(ustr \<Rightarrow> ustr) \<Rightarrow> claimed_job \<Rightarrow> app_error + uuid \<times> ustr \<times> ustr \<times> ustr" where
  "parse_identity nfc c =
     (let bad = ValueError (u ''invalid extraction job''); p = cl_payload c in
      require (fst ` set p = {u ''revision_id'', u ''media_type'', u ''parser''}) bad
      (case get_key p (u ''parser'') of
         Some (JObj q) \<Rightarrow>
           require (fst ` set q = {u ''name'', u ''version''}) bad
           (case (get_str p (u ''revision_id''), get_str p (u ''media_type''), get_str q (u ''name''), get_str q (u ''version'')) of
              (Some raw, Some media, Some name, Some version) \<Rightarrow> (case parse_uuid raw of
                  None \<Rightarrow> Inl (ValueError (u ''badly formed hexadecimal UUID string''))
                | Some rid \<Rightarrow> and_then (make_parser nfc name version) (\<lambda>parser. Inr (rid, media, parser)))
            | _ \<Rightarrow> Inl bad)
       | _ \<Rightarrow> Inl bad))"

record loaded_revision =
  lr_id :: uuid
  lr_filename :: ustr
  lr_mime :: ustr
  lr_size :: int
  lr_sha :: ustr
  lr_key :: ustr
  lr_session :: uuid
  lr_room :: uuid
  lr_parser :: "(ustr \<times> ustr) option"

definition parser_by_media :: "(ustr \<times> ustr \<times> ustr) list" where
  "parser_by_media =
     map (\<lambda>(m, n, v). (u m, u n, u v))
     [(''application/pdf'', ''pypdfium2'', ''5.12.1''), (''image/png'', ''pillow+tesseract-cli'', ''12.3.0+5.3.0''),
      (''image/jpeg'', ''pillow+tesseract-cli'', ''12.3.0+5.3.0''), (''application/x-hwp'', ''pyhwp'', ''0.1b15''),
      (''application/x-hwpx'', ''hwpxlib'', ''1.0.9''), (''text/plain'', ''builtin-utf8-text'', ''1.0.0''),
      (docx_media, ''stdlib-docx'', ''1.0.0''), (pptx_media, ''libreoffice+pypdfium2+tesseract-cli'', ''1.0.0''),
      (xlsx_media, ''stdlib-xlsx'', ''1.0.0'')]"

text \<open>The session of a revision, through its submission.\<close>

definition revision_session :: "'z source_db_scheme \<Rightarrow> uuid \<Rightarrow> (revision_row \<times> session_row) option" where
  "revision_session db rid =
     (case find (\<lambda>r. sr_id r = rid) (revisions db) of
        None \<Rightarrow> None
      | Some r \<Rightarrow> (case find (\<lambda>b. sb_id b = sr_submission r) (submissions db) of
           None \<Rightarrow> None
         | Some b \<Rightarrow> map_option (Pair r) (find_session db (sb_session b))))"

definition load_revision :: "'z source_db_scheme \<Rightarrow> uuid \<Rightarrow> app_error + loaded_revision" where
  "load_revision db rid =
     (let unavailable = FileSubmissionError (u ''queued source revision is unavailable'') in
      case (revision_session db rid, file_of db rid) of
        (Some (r, s), Some f) \<Rightarrow>
          require (sr_current r \<and> sr_state r = R_QUEUED) unavailable
          (case so_key f of
             None \<Rightarrow> Inl unavailable
           | Some key \<Rightarrow> Inr \<lparr>lr_id = rid, lr_filename = so_filename f, lr_mime = so_mime f, lr_size = so_size f, lr_sha = so_sha f,
               lr_key = key, lr_session = ts_id s, lr_room = ts_room s, lr_parser = map_of parser_by_media (so_mime f)\<rparr>)
      | _ \<Rightarrow> Inl unavailable)"

section \<open>Effects\<close>

record extraction_draws =
  xd_locked :: "uuid \<Rightarrow> bool"
  xd_token :: uuid
  xd_attempt :: uuid
  xd_claim_now :: int
  xd_claim_now' :: int
  xd_reconcile_now :: int
  xd_repair_event :: "nat \<Rightarrow> uuid"
  xd_run :: uuid
  xd_anchor :: "nat \<Rightarrow> uuid"
  xd_event :: uuid
  xd_result :: uuid
  xd_complete_now :: int
  xd_requeue_now :: int

text \<open>\<open>_append_extraction_activity\<close> with its session given or looked up; the identity is the remaining keyword arguments.\<close>

definition append_extraction_activity ::
  "uuid \<Rightarrow> uuid \<Rightarrow> ustr \<Rightarrow> (string \<times> ident) list \<Rightarrow> (uuid \<times> uuid) option \<Rightarrow> (ustr option \<times> meta) list \<Rightarrow>
   'z source_db_scheme \<Rightarrow> app_error + 'z source_db_scheme" where
  "append_extraction_activity event rid event_type identity scope metadata db =
     (case (case scope of Some x \<Rightarrow> Some x | None \<Rightarrow> map_option (\<lambda>(r, s). (ts_room s, ts_id s)) (revision_session db rid)) of
        None \<Rightarrow> Inl (RuntimeErr (u ''source revision activity scope is unavailable''))
      | Some (room, sid) \<Rightarrow>
          and_then (build_event_key event_type (kwargs ((''revision_id'', IUuid rid) # identity))) (\<lambda>key.
          and_then (checked_append event \<lparr>na_key = key, na_type = event_type, na_actor = None, na_scope = SC_SESSION, na_audience = None,
              na_room = Some room, na_session = Some sid, na_entity_type = u ''source_revision'', na_entity_id = rid, na_metadata = metadata\<rparr> db)
            (\<lambda>(_, db'). Inr db')))"

definition extraction_run_key :: "claimed_job \<Rightarrow> uuid \<Rightarrow> ustr \<times> ustr \<Rightarrow> ustr \<Rightarrow> profile_key" where
  "extraction_run_key c rid parser config =
     \<lparr>xk_revision = rid, xk_parser = parser, xk_newline = u ''lf'', xk_unicode = u ''nfc'', xk_config = config, xk_schema = u ''1'',
      xk_attempt = cl_generation c\<rparr>"

definition block_anchor :: "extraction_draws \<Rightarrow> uuid \<Rightarrow> nat \<Rightarrow> extracted_block \<Rightarrow> anchor_row" where
  "block_anchor d rid i b =
     \<lparr>an_id = xd_anchor d i, an_run = xd_run d, an_revision = rid, an_ordinal = eb_ordinal b, an_block = eb_type b,
      an_text = eb_text b, an_confidence = eb_confidence b, an_json = eb_anchor b, an_excluded = None\<rparr>"

definition queued_current :: "uuid \<Rightarrow> revision_row \<Rightarrow> bool" where
  "queued_current rid r \<longleftrightarrow> sr_id r = rid \<and> sr_current r \<and> sr_state r = R_QUEUED"

definition persist_extraction ::
  "extraction_draws \<Rightarrow> claimed_job \<Rightarrow> loaded_revision \<Rightarrow> extraction_output \<Rightarrow> 'z source_db_scheme \<Rightarrow> app_error + 'z source_db_scheme" where
  "persist_extraction d c l out db =
     and_then (insert_extraction
       \<lparr>er_id = xd_run d, er_revision = lr_id l, er_anchor_version = u ''1'', er_status = E_SUCCEEDED, er_error = None\<rparr>
       (extraction_run_key c (lr_id l) (xo_parser out) (xo_profile out)) (Some (cl_attempt_id c)) db) (\<lambda>db1.
     and_then (fold_result (\<lambda>(i, b). insert_anchor (block_anchor d (lr_id l) i b) (eb_hash b)) (enumerate 0 (xo_blocks out)) db1) (\<lambda>db2.
     require (hits (queued_current (lr_id l)) (revisions db2) = 1)
       (StaleLeaseError (u ''source revision is no longer current and queued''))
     (append_extraction_activity (xd_event d) (lr_id l) (u ''source_revision.ready'') [(''job_attempt_id'', IUuid (cl_attempt_id c))]
        (Some (lr_room l, lr_session l))
        [(Some (u ''state''), MStr (u ''ready'')), (Some (u ''block_count''), MInt (int (length (xo_blocks out))))]
        (db2\<lparr>revisions := update_rows (queued_current (lr_id l)) (mark_ready (xd_run d)) (revisions db2)\<rparr>))))"

definition mark_failed :: "revision_row \<Rightarrow> revision_row" where
  "mark_failed r = r\<lparr>sr_state := R_FAILED\<rparr>"

definition persist_extraction_failure ::
  "extraction_draws \<Rightarrow> claimed_job \<Rightarrow> loaded_revision \<Rightarrow> ustr \<Rightarrow> bool \<Rightarrow> 'z source_db_scheme \<Rightarrow> app_error + 'z source_db_scheme" where
  "persist_extraction_failure d c l code terminal db =
     (case (lr_parser l, map_of profile_by_media (lr_mime l)) of
        (Some parser, Some config) \<Rightarrow>
          and_then (insert_extraction
            \<lparr>er_id = xd_run d, er_revision = lr_id l, er_anchor_version = u ''1'', er_status = E_FAILED, er_error = Some code\<rparr>
            (extraction_run_key c (lr_id l) parser config) (Some (cl_attempt_id c)) db) (\<lambda>db1.
          if \<not> terminal then Inr db1
          else require (hits (queued_current (lr_id l)) (revisions db1) \<noteq> 0)
                 (StaleLeaseError (u ''source revision is no longer current and queued''))
               (append_extraction_activity (xd_event d) (lr_id l) (u ''source_revision.failed'')
                  [(''job_attempt_id'', IUuid (cl_attempt_id c))] (Some (lr_room l, lr_session l))
                  [(Some (u ''state''), MStr (u ''failed'')), (Some (u ''error_code''), MStr code)]
                  (db1\<lparr>revisions := update_rows (queued_current (lr_id l)) mark_failed (revisions db1)\<rparr>)))
      | (None, _) \<Rightarrow> Inl (RuntimeErr (u ''NoneType object has no attribute name''))
      | (_, None) \<Rightarrow> Inl (KeyError (lr_mime l)))"

section \<open>Reconciliation\<close>

definition max_extraction_attempts :: int where
  "max_extraction_attempts = 3"

definition stranded :: "job_row \<Rightarrow> bool" where
  "stranded j \<longleftrightarrow> j_kind j = u ''extraction'' \<and> j_state j = J_FAILED_RETRYABLE \<and> j_token j = None"

definition job_revision :: "job_row \<Rightarrow> ustr option" where
  "job_revision j = (case j_payload j of JObj kvs \<Rightarrow> get_str kvs (u ''revision_id'') | _ \<Rightarrow> None)"

text \<open>The revisions the second statement repairs, each with the job it belongs to.\<close>

definition repairs_of :: "'z source_db_scheme \<Rightarrow> (uuid \<times> uuid) list" where
  "repairs_of db =
     concat (map (\<lambda>r. case find (\<lambda>j. stranded j \<and> j_generation j \<ge> max_extraction_attempts \<and> job_revision j = Some (uuid_text (sr_id r))) (jobs db) of
         None \<Rightarrow> [] | Some j \<Rightarrow> [(sr_id r, j_id j)])
       (filter (\<lambda>r. sr_current r \<and> sr_state r = R_QUEUED) (revisions db)))"

definition reconcile_body :: "int \<Rightarrow> (nat \<Rightarrow> uuid) \<Rightarrow> (app_error, unit, 'z source_db_scheme) body" where
  "reconcile_body now event db =
     (let db1 = db\<lparr>jobs := update_rows (\<lambda>j. stranded j \<and> j_generation j < max_extraction_attempts) (retry_job now) (jobs db)\<rparr>;
          repairs = repairs_of db1;
          db2 = db1\<lparr>revisions := update_rows (\<lambda>r. sr_id r \<in> fst ` set repairs) mark_failed (revisions db1),
                    jobs := update_rows (\<lambda>j. j_id j \<in> snd ` set repairs) (\<lambda>j. j\<lparr>j_state := J_FAILED_TERMINAL, j_updated_at := now\<rparr>) (jobs db1)\<rparr>
      in and_then (fold_result (\<lambda>(i, rid, job) db'.
             append_extraction_activity (event i) rid (u ''source_revision.failed'') [(''reconciled'', IBool True), (''job_id'', IUuid job)] None
               [(Some (u ''state''), MStr (u ''failed'')), (Some (u ''reconciled''), MBool True)] db')
           (enumerate 0 repairs) db2) (\<lambda>db3. Inr ((), db3)))"

definition reconcile_retryable_extractions ::
  "int \<Rightarrow> (nat \<Rightarrow> uuid) \<Rightarrow> 'z source_db_scheme \<Rightarrow> (app_error + unit) \<times> 'z source_db_scheme" where
  "reconcile_retryable_extractions now event db = transaction (reconcile_body now event) db"

text \<open>\<open>_retry_requeue_has_benign_winner\<close>\<close>

definition benign_winner :: "'z source_db_scheme \<Rightarrow> uuid \<Rightarrow> int \<Rightarrow> bool" where
  "benign_winner db job_id expected =
     (case find (\<lambda>j. j_id j = job_id) (jobs db) of
        None \<Rightarrow> False
      | Some j \<Rightarrow> j_kind j = u ''extraction'' \<and>
          (case j_state j of
             J_PENDING \<Rightarrow> j_generation j \<ge> expected
           | J_RUNNING \<Rightarrow> j_generation j > expected
           | J_FAILED_RETRYABLE \<Rightarrow> j_generation j > expected
           | J_SUCCEEDED \<Rightarrow> j_generation j \<ge> expected
           | J_FAILED_TERMINAL \<Rightarrow> j_generation j \<ge> expected))"

section \<open>One poll\<close>

text \<open>What a claimed job comes to: the target state, the error code and, on success, the output.\<close>

record extraction_result =
  xt_target :: job_state
  xt_error :: "ustr option"
  xt_output :: "extraction_output option"
  xt_revision :: "loaded_revision option"

definition runner_failure :: ustr where
  "runner_failure = u ''EXTRACTION_RUNNER_FAILURE''"

definition source_unavailable :: ustr where
  "source_unavailable = u ''SOURCE_BLOB_UNAVAILABLE''"

definition validated_result :: "extraction_output \<Rightarrow> ustr \<Rightarrow> app_error + extraction_output" where
  "validated_result out media =
     (case map_of profile_by_media media of
        None \<Rightarrow> Inl (KeyError media)
      | Some config \<Rightarrow>
          require (xo_profile out = config) (ValueError (u ''unapproved extraction profile''))
          (require (xo_blocks out \<noteq> []) (ValueError (u ''empty extraction'')) (Inr out)))"

definition classify_execution :: "loaded_revision \<Rightarrow> ustr \<Rightarrow> sandbox_execution \<Rightarrow> app_error + extraction_result" where
  "classify_execution l media x =
     (case (sx_ok x, sx_payload x, sx_failure x) of
        (True, Some out, _) \<Rightarrow>
          and_then (validated_result out media) (\<lambda>out.
          Inr \<lparr>xt_target = J_SUCCEEDED, xt_error = None, xt_output = Some out, xt_revision = Some l\<rparr>)
      | (_, _, Some f) \<Rightarrow>
          Inr \<lparr>xt_target = (if sf_retryable f = Some True \<or> sf_code f \<in> {SX_LAUNCH_FAILED, SX_TIMEOUT}
                 then J_FAILED_RETRYABLE else J_FAILED_TERMINAL),
               xt_error = Some (case sf_parser f of None \<Rightarrow> sandbox_code_value (sf_code f)
                 | Some p \<Rightarrow> if p = [] then sandbox_code_value (sf_code f) else p), xt_output = None, xt_revision = Some l\<rparr>
      | _ \<Rightarrow> Inr \<lparr>xt_target = J_FAILED_TERMINAL, xt_error = Some runner_failure, xt_output = None, xt_revision = Some l\<rparr>)"

text \<open>A \<open>FileSubmissionError\<close> is the expected failure of a source; every other exception leaves \<open>run_once\<close>.\<close>

definition on_source_error :: "loaded_revision option \<Rightarrow> app_error + extraction_result \<Rightarrow> app_error + extraction_result" where
  "on_source_error l r =
     (case r of
        Inl (FileSubmissionError _) \<Rightarrow>
          Inr \<lparr>xt_target = J_FAILED_TERMINAL, xt_error = Some source_unavailable, xt_output = None, xt_revision = l\<rparr>
      | _ \<Rightarrow> r)"

record extractor =
  ex_sha256 :: "nat list \<Rightarrow> ustr"
  ex_nfc :: "ustr \<Rightarrow> ustr"
  ex_round6 :: "ustr \<Rightarrow> json"
  ex_runner :: runner_process

definition extract_source :: "extractor \<Rightarrow> blob_store \<Rightarrow> claimed_job \<Rightarrow> 'z source_db_scheme \<Rightarrow> app_error + extraction_result" where
  "extract_source x store c db =
     on_source_error None (and_then (parse_identity (ex_nfc x) c) (\<lambda>(rid, media, parser).
     and_then (load_revision db rid) (\<lambda>l.
     on_source_error (Some l)
       (require (lr_mime l = media \<and> lr_parser l = Some parser) (FileSubmissionError (u ''source expectation mismatch''))
       (and_then (open_regular (ex_sha256 x) store (lr_key l) (lr_size l) (lr_sha l)) (\<lambda>bytes.
        if media = u ''text/plain''
        then and_then (extract_utf8_text (ex_sha256 x) (ex_nfc x) (ex_round6 x) bytes) (classify_execution l media)
        else and_then (sandbox_request_ok (lr_filename l) media) (\<lambda>_.
             classify_execution l media (sandbox_execute (ex_runner x) bytes (lr_filename l) media))))))))"

text \<open>A third retryable failure is terminal.\<close>

definition cap_attempts :: "claimed_job \<Rightarrow> extraction_result \<Rightarrow> extraction_result" where
  "cap_attempts c r =
     (if xt_target r = J_FAILED_RETRYABLE \<and> cl_generation c \<ge> max_extraction_attempts then r\<lparr>xt_target := J_FAILED_TERMINAL\<rparr> else r)"

definition safe_result :: "extraction_result \<Rightarrow> (ustr \<times> json) list" where
  "safe_result r =
     (case (xt_target r, xt_revision r, xt_output r) of
        (J_SUCCEEDED, Some l, Some out) \<Rightarrow>
          [(u ''revision_id'', JStr (uuid_text (lr_id l))), (u ''anchor_set_hash'', JStr (xo_anchor_set out)),
           (u ''block_count'', JInt (int (length (xo_blocks out))))]
      | _ \<Rightarrow> [(u ''outcome'', JStr (u ''failed''))])"

definition extraction_effect :: "extraction_draws \<Rightarrow> claimed_job \<Rightarrow> extraction_result \<Rightarrow> 'z source_db_scheme \<Rightarrow> app_error + 'z source_db_scheme" where
  "extraction_effect d c r db =
     (case xt_revision r of
        None \<Rightarrow> Inr db
      | Some l \<Rightarrow> (case (xt_target r, xt_output r) of
          (J_SUCCEEDED, Some out) \<Rightarrow> persist_extraction d c l out db
        | _ \<Rightarrow> persist_extraction_failure d c l (case xt_error r of None \<Rightarrow> runner_failure | Some e \<Rightarrow> if e = [] then runner_failure else e)
                 (xt_target r = J_FAILED_TERMINAL) db))"

definition complete_extraction ::
  "extractor \<Rightarrow> extraction_draws \<Rightarrow> claimed_job \<Rightarrow> extraction_result \<Rightarrow> 'z source_db_scheme \<Rightarrow> (app_error + unit) \<times> 'z source_db_scheme" where
  "complete_extraction x d c r db =
     complete_with_effects (ex_sha256 x) (xd_result d) (xd_complete_now d) c (xt_target r) (safe_result r) (xt_error r)
       (extraction_effect d c r) db"

text \<open>After the completion: a retryable job is made pending again.\<close>

definition requeue_extraction ::
  "extraction_draws \<Rightarrow> (nat \<Rightarrow> 'z source_db_scheme \<Rightarrow> 'z source_db_scheme) \<Rightarrow> claimed_job \<Rightarrow> 'z source_db_scheme \<Rightarrow>
   (app_error + unit) \<times> 'z source_db_scheme" where
  "requeue_extraction d env c db =
     (let (res, db1) = requeue_retryable (xd_requeue_now d) (cl_id c) (cl_generation c) db in
      case res of
        Inl (StaleLeaseError m) \<Rightarrow>
          let db2 = env 4 db1 in (if benign_winner db2 (cl_id c) (cl_generation c) then Inr () else Inl (StaleLeaseError m), db2)
      | _ \<Rightarrow> (res, db1))"

definition run_claimed_extraction ::
  "extractor \<Rightarrow> extraction_draws \<Rightarrow> (nat \<Rightarrow> 'z source_db_scheme \<Rightarrow> 'z source_db_scheme) \<Rightarrow> blob_store \<Rightarrow> claimed_job \<Rightarrow>
   'z source_db_scheme \<Rightarrow> (app_error + (ustr \<times> json) list option) \<times> 'z source_db_scheme" where
  "run_claimed_extraction x d env store c db =
     (let db1 = env 1 db in
      case extract_source x store c db1 of
        Inl e \<Rightarrow> (Inl e, db1)
      | Inr r0 \<Rightarrow>
          let r = cap_attempts c r0; (res, db2) = complete_extraction x d c r (env 2 db1) in
          case res of
            Inl (StaleLeaseError _) \<Rightarrow> (Inr None, db2)
          | Inl e \<Rightarrow> (Inl e, db2)
          | Inr _ \<Rightarrow>
              if xt_target r = J_FAILED_RETRYABLE then
                let (res', db3) = requeue_extraction d env c (env 3 db2) in (and_then res' (\<lambda>_. Inr (Some (safe_result r))), db3)
              else (Inr (Some (safe_result r)), db2))"

text \<open>\<open>FileExtractionWorker.run_once\<close>\<close>

definition run_extraction ::
  "extractor \<Rightarrow> extraction_draws \<Rightarrow> (nat \<Rightarrow> 'z source_db_scheme \<Rightarrow> 'z source_db_scheme) \<Rightarrow> blob_store \<Rightarrow> ustr \<Rightarrow>
   'z source_db_scheme \<Rightarrow> (app_error + (ustr \<times> json) list option) \<times> 'z source_db_scheme" where
  "run_extraction x d env store owner db =
     (let (res, db0) = reconcile_retryable_extractions (xd_reconcile_now d) (xd_repair_event d) db in
      case res of
        Inl e \<Rightarrow> (Inl e, db0)
      | Inr _ \<Rightarrow>
          let (claim, db1) = claim_next (xd_locked d) (xd_token d) (xd_attempt d) (xd_claim_now d) (xd_claim_now' d) owner 60
                (Some [u ''extraction'']) (env 0 db0) in
          case claim of
            Inl e \<Rightarrow> (Inl e, db1)
          | Inr None \<Rightarrow> (Inr None, db1)
          | Inr (Some c) \<Rightarrow> run_claimed_extraction x d env store c db1)"

end
