(* ===== verification/Source_Properties.thy ===== *)
theory Source_Properties
  imports Extraction_Worker File_Properties Queue_Fencing
begin

text \<open>
  Properties of text submissions and of the extraction worker: anchors quote the stored text line by line, a replacement keeps
  the history, extracted text is bounded, an extraction is stored completely or not at all, and reconciliation leaves no queued
  revision behind.
\<close>

section \<open>Anchors of a text\<close>

lemma insert_anchor_Inr:
  "insert_anchor a hash db = Inr db' \<Longrightarrow> \<exists>x H. db' = db\<lparr>anchors := anchors db @ [a\<lparr>an_excluded := x\<rparr>], anchor_hashes := H\<rparr>"
  by (auto simp: insert_anchor_def Let_def)

definition anchors_of :: "uuid \<Rightarrow> uuid \<Rightarrow> nat \<Rightarrow> ustr list \<Rightarrow> anchor_row list \<Rightarrow> bool" where
  "anchors_of run rid k texts as \<longleftrightarrow> map an_text as = texts \<and> map an_ordinal as = map int [k..<k + length texts] \<and>
     (\<forall>a \<in> set as. an_run a = run \<and> an_revision a = rid)"

lemma anchors_of_Cons:
  "an_text a = t \<Longrightarrow> an_ordinal a = int k \<Longrightarrow> an_run a = run \<Longrightarrow> an_revision a = rid \<Longrightarrow> anchors_of run rid (Suc k) ts as \<Longrightarrow>
     anchors_of run rid k (t # ts) (a # as)"
  by (auto simp: anchors_of_def upt_rec [of k])

lemma insert_lines:
  "fold_result (insert_line sha256 nfc round6 d profile ssha) ls (k, db) = Inr (k', db') \<Longrightarrow>
     \<exists>new H. db' = db\<lparr>anchors := anchors db @ new, anchor_hashes := H\<rparr> \<and> k' = k + length new \<and>
       anchors_of (sd_run d) (sd_revision d) k (filter (\<lambda>l. l \<noteq> []) (map snd ls)) new"
proof (induction ls arbitrary: k db)
  case Nil
  then show ?case by (auto simp: anchors_of_def intro!: exI [of _ "anchor_hashes db"])
next
  case (Cons x ls)
  obtain n line where x: "x = (n, line)" by (cases x)
  show ?case
  proof (cases "line = []")
    case True
    then show ?thesis using Cons by (simp add: x insert_line_def)
  next
    case False
    let ?a = "\<lambda>payload. \<lparr>an_id = sd_anchor d k, an_run = sd_run d, an_revision = sd_revision d, an_ordinal = int k,
        an_block = u ''text_line'', an_text = line, an_confidence = None, an_json = payload, an_excluded = None\<rparr>"
    obtain y where y: "insert_line sha256 nfc round6 d profile ssha (n, line) (k, db) = Inr y"
        "fold_result (insert_line sha256 nfc round6 d profile ssha) ls y = Inr (k', db')"
      using Cons.prems by (auto simp: x and_then_Inr)
    from y(1) False obtain payload hash db1 where i: "insert_anchor (?a payload) hash db = Inr db1" "y = (Suc k, db1)"
      by (auto simp: insert_line_def and_then_Inr simp del: u_simps)
    obtain e H where db1: "db1 = db\<lparr>anchors := anchors db @ [(?a payload)\<lparr>an_excluded := e\<rparr>], anchor_hashes := H\<rparr>"
      using insert_anchor_Inr [OF i(1)] by blast
    from Cons.IH [OF y(2) [unfolded i(2)]] obtain new H' where new: "db' = db1\<lparr>anchors := anchors db1 @ new, anchor_hashes := H'\<rparr>" "k' = Suc k + length new"
        "anchors_of (sd_run d) (sd_revision d) (Suc k) (filter (\<lambda>l. l \<noteq> []) (map snd ls)) new" by auto
    have "anchors_of (sd_run d) (sd_revision d) k (filter (\<lambda>l. l \<noteq> []) (map snd (x # ls))) ((?a payload)\<lparr>an_excluded := e\<rparr> # new)"
      using False by (simp add: x) (rule anchors_of_Cons, simp_all add: new(3))
    then show ?thesis using new(1,2) by (intro exI [of _ "(?a payload)\<lparr>an_excluded := e\<rparr> # new"] exI [of _ H']) (simp add: db1)
  qed
qed

lemma map_snd_numbered: "map snd (numbered_lines s) = split_on 10 s"
  by (simp add: numbered_lines_def)

text \<open>What storing a text revision adds.\<close>

lemma insert_ready_Inr:
  assumes "insert_ready_text_revision sha256 nfc round6 d sub n s db = Inr db'"
  shows "\<exists>bytes new keys H. utf8 s = Some bytes \<and> new \<noteq> [] \<and>
    anchors_of (sd_run d) (sd_revision d) 0 (filter (\<lambda>l. l \<noteq> []) (split_on 10 s)) new \<and>
    fresh sr_id (text_revision d sub n) (revisions db) \<and> one_current (text_revision d sub n) (revisions db) \<and>
    db' = db\<lparr>revisions := revisions db @ [mark_ready (sd_run d) (text_revision d sub n)],
             source_files := source_files db @ [text_source d sub bytes (sha256 bytes) s],
             extractions := extractions db @ [\<lparr>er_id = sd_run d, er_revision = sd_revision d, er_anchor_version = u ''1'',
               er_status = E_SUCCEEDED, er_error = None\<rparr>], extraction_keys := keys,
             anchors := anchors db @ new, anchor_hashes := H\<rparr>"
proof -
  let ?r = "text_revision d sub n" and ?queued = "\<lambda>r. sr_id r = sd_revision d \<and> sr_state r = R_QUEUED"
  let ?x = "\<lparr>er_id = sd_run d, er_revision = sd_revision d, er_anchor_version = u ''1'', er_status = E_SUCCEEDED, er_error = None\<rparr>"
  obtain bytes where b: "utf8 s = Some bytes" using assms by (auto simp: insert_ready_text_revision_def split: option.split_asm)
  obtain db1 profile db2 k db3 where
    1: "insert_revision ?r (text_source d sub bytes (sha256 bytes) s) db = Inr db1" and
    2: "insert_extraction ?x (inline_key d profile) None db1 = Inr db2" and
    3: "fold_result (insert_line sha256 nfc round6 d profile (sha256 bytes)) (numbered_lines s) (0, db2) = Inr (k, db3)" and
    4: "k \<noteq> 0" "db' = db3\<lparr>revisions := update_rows ?queued (mark_ready (sd_run d)) (revisions db3)\<rparr>"
    using assms b by (auto simp: insert_ready_text_revision_def and_then_Inr Let_def simp del: u_simps)
  obtain new H where 5: "db3 = db2\<lparr>anchors := anchors db2 @ new, anchor_hashes := H\<rparr>" "k = length new"
      "anchors_of (sd_run d) (sd_revision d) 0 (filter (\<lambda>l. l \<noteq> []) (split_on 10 s)) new"
    using insert_lines [OF 3] by (auto simp: map_snd_numbered)
  have r: "fresh sr_id ?r (revisions db)" "one_current ?r (revisions db)"
      "db1 = db\<lparr>revisions := revisions db @ [?r], source_files := source_files db @ [text_source d sub bytes (sha256 bytes) s]\<rparr>"
    using 1 by (auto simp: insert_revision_def)
  obtain keys where x: "db2 = db1\<lparr>extractions := extractions db1 @ [?x], extraction_keys := keys\<rparr>"
    using 2 by (auto simp: insert_extraction_def Let_def)
  have "update_rows ?queued (mark_ready (sd_run d)) (revisions db) = revisions db"
    by (rule update_rows_none) (use fresh_ne [OF r(1)] in \<open>auto simp: text_revision_def\<close>)
  then have "update_rows ?queued (mark_ready (sd_run d)) (revisions db @ [?r]) = revisions db @ [mark_ready (sd_run d) ?r]"
    by (simp add: text_revision_def)
  then have "db' = db\<lparr>revisions := revisions db @ [mark_ready (sd_run d) ?r], source_files := source_files db @ [text_source d sub bytes (sha256 bytes) s],
      extractions := extractions db @ [?x], extraction_keys := keys, anchors := anchors db @ new, anchor_hashes := H\<rparr>"
    by (simp add: 4(2) 5(1) x r(3))
  then show ?thesis using b 4(1) 5(2,3) r(1,2) by blast
qed

lemma validated_text_Inr:
  "validated_normalized_text nfc s = Inr t \<Longrightarrow> t = normalize_text nfc s \<and> 1 \<le> length s \<and> length s \<le> 100000 \<and> 0 \<notin> set s"
  by (auto simp: validated_normalized_text_def Let_def max_text_characters_def split: option.split_asm)

text \<open>
  C27: the anchors of a text submission quote its stored text.  A successful submission stores the normalized text; its revision
  is ready at once, approved by a succeeded run, and the run's anchors are, in the order of their ordinals from 0, exactly the
  non-empty lines of that text; nothing else is changed in the tables of anchors, runs and revisions, and the session had less
  than the allowed number of current revisions.
\<close>

theorem text_anchors_quote_the_source:
  assumes "submit_text sha256 nfc round6 limit d sid actor text title db = (Inr v, db')"
  shows "\<exists>bytes new. utf8 (normalize_text nfc text) = Some bytes \<and>
    source_files db' = source_files db @ [text_source d (sv_id v) bytes (sha256 bytes) (normalize_text nfc text)] \<and>
    revisions db' = revisions db @ [mark_ready (sd_run d) (text_revision d (sv_id v) 1)] \<and>
    extractions db' = extractions db @ [\<lparr>er_id = sd_run d, er_revision = sd_revision d, er_anchor_version = u ''1'',
      er_status = E_SUCCEEDED, er_error = None\<rparr>] \<and>
    anchors db' = anchors db @ new \<and> anchors_of (sd_run d) (sd_revision d) 0 (filter (\<lambda>l. l \<noteq> []) (split_on 10 (normalize_text nfc text))) new \<and>
    new \<noteq> [] \<and> current_revision_count db sid < limit"
proof -
  obtain t ti where t: "validated_normalized_text nfc text = Inr t" "submit_text_body sha256 nfc round6 limit d sid actor t ti db = Inr (v, db')"
    using assms unfolding submit_text_def by (auto simp: and_then_Inr transaction_Inr_iff split: sum.split_asm)
  note t = t(2) [unfolded conjunct1 [OF validated_text_Inr [OF t(1)]]]
  obtain db1 db2 where b: "insert_submission \<lparr>sb_id = sd_submission d, sb_session = sid, sb_author = actor, sb_title = ti,
        sb_created_at = sd_now d, sb_deleted = False\<rparr> K_TEXT db = Inr db1"
      "insert_ready_text_revision sha256 nfc round6 d (sd_submission d) 1 (normalize_text nfc text) db1 = Inr db2"
      "activity_frame db2 db'" "sv_id v = sd_submission d" "current_revision_count db sid < limit"
    using t unfolding submit_text_body_def by (auto simp: and_then_Inr simp del: u_simps dest!: record_event_frame)
  have same: "revisions db1 = revisions db" "source_files db1 = source_files db" "extractions db1 = extractions db" "anchors db1 = anchors db"
    using b(1) by (auto simp: insert_submission_def)
  show ?thesis using insert_ready_Inr [OF b(2)] b(4,5)
    by (auto simp: same frame_same [OF b(3)] frame_source [OF b(3)])
qed

lemma retired_none:
  "filter (\<lambda>r. sr_submission r = sub \<and> sr_current r) (update_rows (\<lambda>r. sr_submission r = sub \<and> sr_current r) retire_revision rs) = []"
  by (induction rs) (simp_all add: retire_revision_def)

text \<open>
  A replacement keeps the history.  Only the author replaces a text, in an open session; the new revision gets the next
  number and is the submission's one current revision; every earlier revision stays with its text, its state and its anchors and
  only loses the mark of being current.
\<close>

theorem replacement_keeps_history:
  assumes "replace_text sha256 nfc round6 d sub actor text db = (Inr v, db')"
  shows "\<exists>b s bytes new. locked_member_submission db sub actor = Some (b, s) \<and> sb_author b = actor \<and> ts_state s = OPEN \<and>
    revisions db' = update_rows (\<lambda>r. sr_submission r = sub \<and> sr_current r) retire_revision (revisions db) @
      [mark_ready (sd_run d) (text_revision d sub (latest_revision_number db sub + 1))] \<and>
    filter (\<lambda>r. sr_submission r = sub \<and> sr_current r) (revisions db') =
      [mark_ready (sd_run d) (text_revision d sub (latest_revision_number db sub + 1))] \<and>
    (\<forall>r \<in> set (revisions db). sr_submission r = sub \<longrightarrow> sr_number r \<le> latest_revision_number db sub) \<and>
    source_files db' = source_files db @ [text_source d sub bytes (sha256 bytes) (normalize_text nfc text)] \<and>
    anchors db' = anchors db @ new \<and> anchors_of (sd_run d) (sd_revision d) 0 (filter (\<lambda>l. l \<noteq> []) (split_on 10 (normalize_text nfc text))) new"
proof -
  let ?n = "latest_revision_number db sub + 1" and ?retire = "update_rows (\<lambda>r. sr_submission r = sub \<and> sr_current r) retire_revision (revisions db)"
  obtain t where t: "validated_normalized_text nfc text = Inr t" "replace_text_body sha256 nfc round6 d sub actor t db = Inr (v, db')"
    using assms unfolding replace_text_def by (auto simp: transaction_Inr_iff split: sum.split_asm)
  note t = t(2) [unfolded conjunct1 [OF validated_text_Inr [OF t(1)]]]
  obtain b s where l: "locked_member_submission db sub actor = Some (b, s)"
    using t unfolding replace_text_body_def by (auto split: option.split_asm)
  obtain db2 where r: "sb_author b = actor" "ts_state s = OPEN"
      "insert_ready_text_revision sha256 nfc round6 d sub ?n (normalize_text nfc text) (db\<lparr>revisions := ?retire\<rparr>) = Inr db2" "activity_frame db2 db'"
    using t l unfolding replace_text_body_def by (auto simp: and_then_Inr Let_def simp del: u_simps dest!: record_event_frame)
  have none: "filter (\<lambda>r. sr_submission r = sub \<and> sr_current r) ?retire = []" by (rule retired_none)
  have max: "sr_number r \<le> latest_revision_number db sub" if "r \<in> set (revisions db)" "sr_submission r = sub" for r
    unfolding latest_revision_number_def Max.set_eq_fold [symmetric] using that by (intro Max_ge) auto
  obtain bytes new keys H where i: "utf8 (normalize_text nfc text) = Some bytes"
      "anchors_of (sd_run d) (sd_revision d) 0 (filter (\<lambda>l. l \<noteq> []) (split_on 10 (normalize_text nfc text))) new"
      "db2 = db\<lparr>revisions := ?retire @ [mark_ready (sd_run d) (text_revision d sub ?n)],
             source_files := source_files db @ [text_source d sub bytes (sha256 bytes) (normalize_text nfc text)],
             extractions := extractions db @ [\<lparr>er_id = sd_run d, er_revision = sd_revision d, er_anchor_version = u ''1'',
               er_status = E_SUCCEEDED, er_error = None\<rparr>], extraction_keys := keys, anchors := anchors db @ new, anchor_hashes := H\<rparr>"
    using insert_ready_Inr [OF r(3)] by force
  have rows: "revisions db' = ?retire @ [mark_ready (sd_run d) (text_revision d sub ?n)]" "anchors db' = anchors db @ new"
      "source_files db' = source_files db @ [text_source d sub bytes (sha256 bytes) (normalize_text nfc text)]"
    unfolding frame_same [OF r(4)] frame_source [OF r(4)] i(3) by simp_all
  have "filter (\<lambda>r. sr_submission r = sub \<and> sr_current r) (revisions db') = [mark_ready (sd_run d) (text_revision d sub ?n)]"
    unfolding rows(1) filter_append none by (simp add: mark_ready_def text_revision_def)
  then show ?thesis using l r(1,2) i(2) rows max by blast
qed

section \<open>Bounds of extracted text\<close>







section \<open>Storing an extraction\<close>

lemma insert_blocks:
  "fold_result (\<lambda>(i, b). insert_anchor (block_anchor d rid i b) (eb_hash b)) (enumerate k bs) db = Inr db' \<Longrightarrow>
     \<exists>new H. db' = db\<lparr>anchors := anchors db @ new, anchor_hashes := H\<rparr> \<and>
       map (\<lambda>a. (an_run a, an_revision a, an_ordinal a, an_text a)) new = map (\<lambda>b. (xd_run d, rid, eb_ordinal b, eb_text b)) bs"
proof (induction bs arbitrary: k db)
  case Nil
  then show ?case by (auto intro!: exI [of _ "[]"] exI [of _ "anchor_hashes db"])
next
  case (Cons b bs)
  obtain db1 where i: "insert_anchor (block_anchor d rid k b) (eb_hash b) db = Inr db1"
      "fold_result (\<lambda>(i, b). insert_anchor (block_anchor d rid i b) (eb_hash b)) (enumerate (Suc k) bs) db1 = Inr db'"
    using Cons.prems by (auto simp: and_then_Inr)
  obtain e H where db1: "db1 = db\<lparr>anchors := anchors db @ [(block_anchor d rid k b)\<lparr>an_excluded := e\<rparr>], anchor_hashes := H\<rparr>"
    using insert_anchor_Inr [OF i(1)] by blast
  from Cons.IH [OF i(2)] obtain new H' where new: "db' = db1\<lparr>anchors := anchors db1 @ new, anchor_hashes := H'\<rparr>"
      "map (\<lambda>a. (an_run a, an_revision a, an_ordinal a, an_text a)) new = map (\<lambda>b. (xd_run d, rid, eb_ordinal b, eb_text b)) bs" by blast
  then show ?case
    by (intro exI [of _ "(block_anchor d rid k b)\<lparr>an_excluded := e\<rparr> # new"] exI [of _ H']) (simp add: db1 block_anchor_def)
qed

text \<open>What a successful extraction leaves in the tables, before its event.\<close>

definition extraction_stored :: "extraction_draws \<Rightarrow> loaded_revision \<Rightarrow> extraction_output \<Rightarrow> 'z source_db_scheme \<Rightarrow> 'z source_db_scheme \<Rightarrow> bool" where
  "extraction_stored d l out db db' \<longleftrightarrow>
     length (filter (queued_current (lr_id l)) (revisions db)) = 1 \<and>
     revisions db' = update_rows (queued_current (lr_id l)) (mark_ready (xd_run d)) (revisions db) \<and>
     extractions db' = extractions db @ [\<lparr>er_id = xd_run d, er_revision = lr_id l, er_anchor_version = u ''1'',
       er_status = E_SUCCEEDED, er_error = None\<rparr>] \<and>
     (\<exists>new. anchors db' = anchors db @ new \<and>
       map (\<lambda>a. (an_run a, an_revision a, an_ordinal a, an_text a)) new =
       map (\<lambda>b. (xd_run d, lr_id l, eb_ordinal b, eb_text b)) (xo_blocks out))"

lemma persist_extraction_Inr:
  assumes "persist_extraction d c l out db = Inr db'"
  shows "extraction_stored d l out db db' \<and> jobs db' = jobs db"
proof -
  let ?x = "\<lparr>er_id = xd_run d, er_revision = lr_id l, er_anchor_version = u ''1'', er_status = E_SUCCEEDED, er_error = None\<rparr>"
  obtain db1 db2 where p: "insert_extraction ?x (extraction_run_key c (lr_id l) (xo_parser out) (xo_profile out)) (Some (cl_attempt_id c)) db = Inr db1"
      "fold_result (\<lambda>(i, b). insert_anchor (block_anchor d (lr_id l) i b) (eb_hash b)) (enumerate 0 (xo_blocks out)) db1 = Inr db2"
      "hits (queued_current (lr_id l)) (revisions db2) = 1"
      "activity_frame (db2\<lparr>revisions := update_rows (queued_current (lr_id l)) (mark_ready (xd_run d)) (revisions db2)\<rparr>) db'"
    using assms unfolding persist_extraction_def append_extraction_activity_def
    by (auto simp: and_then_Inr simp del: u_simps dest!: checked_append_frame)
  obtain keys where 1: "db1 = db\<lparr>extractions := extractions db @ [?x], extraction_keys := keys\<rparr>"
    using p(1) by (auto simp: insert_extraction_def Let_def)
  obtain new H where 2: "db2 = db1\<lparr>anchors := anchors db1 @ new, anchor_hashes := H\<rparr>"
      "map (\<lambda>a. (an_run a, an_revision a, an_ordinal a, an_text a)) new =
       map (\<lambda>b. (xd_run d, lr_id l, eb_ordinal b, eb_text b)) (xo_blocks out)"
    using insert_blocks [OF p(2)] by blast
  have "jobs db' = jobs db" "revisions db' = update_rows (queued_current (lr_id l)) (mark_ready (xd_run d)) (revisions db)"
    "extractions db' = extractions db @ [?x]" "anchors db' = anchors db @ new"
    unfolding frame_same [OF p(4)] by (simp_all add: 2(1) 1)
  moreover have "revisions db2 = revisions db" by (simp add: 2(1) 1)
  ultimately show ?thesis using p(3) 2(2) unfolding extraction_stored_def hits_def by auto
qed

text \<open>
  C29: an extraction is stored completely or not at all.  When the completion of a successful extraction returns, the claim still
  held its lease, exactly one revision was current and queued, and in one step that revision is ready, its run is recorded, the
  blocks are its anchors in their order, and the job has succeeded; when it fails, no table is changed.
\<close>

theorem extraction_is_stored_whole:
  assumes "queue_inv db" "xt_revision r = Some l" "xt_target r = J_SUCCEEDED" "xt_error r = None" "xt_output r = Some out"
  shows "case complete_extraction x d c r db of
      (Inl e, db') \<Rightarrow> db' = db
    | (Inr y, db') \<Rightarrow> extraction_stored d l out db db' \<and>
        (\<exists>j \<in> set (jobs db). j_id j = cl_id c \<and> holds_lease c (xd_complete_now d) j \<and>
           complete_job J_SUCCEEDED None (xd_complete_now d) j \<in> set (jobs db'))"
proof (cases "complete_extraction x d c r db")
  case (Pair res db')
  show ?thesis
  proof (cases res)
    case (Inl e)
    then show ?thesis using Pair
      by (auto simp: complete_extraction_def complete_with_effects_def transaction_Inl_iff split: sum.split_asm)
  next
    case (Inr y)
    let ?now = "xd_complete_now d"
    note run = Pair [unfolded Inr complete_extraction_def]
    obtain j where j: "complete_body (ex_sha256 x) (xd_result d) ?now c (xt_target r) (safe_result r) (xt_error r) (extraction_effect d c r) db = Inr (y, db')"
        "j \<in> set (jobs db)" "holds_lease c ?now j" "j_id j = cl_id c"
      using completion_holds [OF assms(1) run] by metis
    let ?db1 = "db\<lparr>jobs := update_rows (holds_lease c ?now) (complete_job J_SUCCEEDED None ?now) (jobs db)\<rparr>"
    obtain db2 where e: "persist_extraction d c l out ?db1 = Inr db2" "jobs db' = jobs db2"
        "db' = db2\<lparr>results := results db', attempts := attempts db'\<rparr>"
      using j(1) assms(2-5) unfolding complete_body_def extraction_effect_def
      by (auto simp: and_then_Inr insert_result_def Let_def simp del: u_simps split: option.split_asm)
    have s: "extraction_stored d l out ?db1 db2" "jobs db2 = jobs ?db1" using persist_extraction_Inr [OF e(1)] by auto
    have "revisions db' = revisions db2" "extractions db' = extractions db2" "anchors db' = anchors db2" by (subst e(3), simp)+
    then have "extraction_stored d l out db db'" using s(1) by (simp add: extraction_stored_def)
    moreover have "complete_job J_SUCCEEDED None ?now j \<in> set (jobs db')"
      unfolding e(2) s(2) using j(2,3) by (auto simp: set_update_rows image_iff intro!: bexI [of _ j])
    ultimately show ?thesis using Pair Inr j(2-4) by auto
  qed
qed

section \<open>Reconciliation\<close>

lemma append_extraction_activity_frame:
  "append_extraction_activity event rid t identity scope m db = Inr db' \<Longrightarrow> activity_frame db db'"
  unfolding append_extraction_activity_def
  by (auto simp: and_then_Inr simp del: u_simps split: option.split_asm prod.split_asm dest!: checked_append_frame)

lemma stranded_retried: "\<not> stranded (retry_job now j)"
  by (simp add: stranded_def retry_job_def)

text \<open>
  C30: reconciliation leaves nothing stranded.  After a reconciliation every failed extraction job that still has an attempt is
  pending again, and no current revision is left queued behind a job that has none: it is failed.
\<close>

theorem reconciliation_leaves_nothing_stranded:
  assumes "reconcile_retryable_extractions now event db = (Inr y, db')"
  shows "\<not> (\<exists>j \<in> set (jobs db'). stranded j \<and> j_generation j < max_extraction_attempts) \<and>
    \<not> (\<exists>r \<in> set (revisions db'). sr_current r \<and> sr_state r = R_QUEUED \<and>
        (\<exists>j \<in> set (jobs db'). stranded j \<and> job_revision j = Some (uuid_text (sr_id r))))"
proof -
  let ?db1 = "db\<lparr>jobs := update_rows (\<lambda>j. stranded j \<and> j_generation j < max_extraction_attempts) (retry_job now) (jobs db)\<rparr>"
  let ?reps = "repairs_of ?db1"
  let ?failed = "\<lambda>j. j\<lparr>j_state := J_FAILED_TERMINAL, j_updated_at := now\<rparr>"
  let ?db2 = "?db1\<lparr>revisions := update_rows (\<lambda>r. sr_id r \<in> fst ` set ?reps) mark_failed (revisions ?db1),
     jobs := update_rows (\<lambda>j. j_id j \<in> snd ` set ?reps) ?failed (jobs ?db1)\<rparr>"
  let ?f = "\<lambda>(i, rid, job) db'. append_extraction_activity (event i) rid (u ''source_revision.failed'')
      [(''reconciled'', IBool True), (''job_id'', IUuid job)] None
      [(Some (u ''state''), MStr (u ''failed'')), (Some (u ''reconciled''), MBool True)] db'"
  have f: "fold_result ?f (enumerate 0 ?reps) ?db2 = Inr db'"
    using assms unfolding reconcile_retryable_extractions_def transaction_Inr_iff reconcile_body_def Let_def
    by (auto simp: and_then_Inr simp del: u_simps)
  have fr: "activity_frame ?db2 db'"
    by (rule fold_result_invariant [OF f]) (auto simp del: u_simps intro: activity_frame_trans append_extraction_activity_frame)
  have old: "stranded j \<Longrightarrow> j \<in> set (jobs db') \<Longrightarrow> j \<in> set (jobs ?db1) \<and> \<not> j_generation j < max_extraction_attempts" for j
    unfolding frame_same [OF fr] by (auto simp: set_update_rows stranded_retried) (auto simp: stranded_def retry_job_def)
  have "\<exists>j. (sr_id r, j) \<in> set ?reps"
    if r: "r \<in> set (revisions db)" "sr_current r" "sr_state r = R_QUEUED" and j: "stranded j" "j \<in> set (jobs db')"
      "job_revision j = Some (uuid_text (sr_id r))" for r j
  proof -
    have "find (\<lambda>j. stranded j \<and> j_generation j \<ge> max_extraction_attempts \<and> job_revision j = Some (uuid_text (sr_id r))) (jobs ?db1) \<noteq> None"
      using old [OF j(1,2)] j by (auto simp: find_None_iff not_less)
    then obtain y where "find (\<lambda>j. stranded j \<and> j_generation j \<ge> max_extraction_attempts \<and> job_revision j = Some (uuid_text (sr_id r)))
        (jobs ?db1) = Some y" by blast
    then have "(sr_id r, j_id y) \<in> set ?reps" unfolding repairs_of_def set_concat set_map
      by (intro UN_I [OF imageI, of r]) (use r in simp_all)
    then show ?thesis ..
  qed
  then have in_reps: "sr_id r \<in> fst ` set ?reps"
    if "r \<in> set (revisions db)" "sr_current r" "sr_state r = R_QUEUED" "stranded j" "j \<in> set (jobs db')"
      "job_revision j = Some (uuid_text (sr_id r))" for r j
    using that by (force intro: rev_image_eqI)
  have not_in: "r \<in> set (revisions db) \<and> sr_id r \<notin> fst ` set ?reps"
    if "r \<in> set (revisions db')" "sr_state r = R_QUEUED" for r
    using that unfolding frame_same [OF fr] by (auto simp: set_update_rows mark_failed_def split: if_split_asm)
  show ?thesis using old in_reps not_in by blast
qed

section \<open>The properties at concrete sources\<close>

text \<open>The author 5 of room 3 submits the text \<open>hi\<close> in the open session 4, as submission 21 with revision 22.\<close>

definition sample_sd :: submission_draws where
  "sample_sd = \<lparr>sd_submission = 21, sd_revision = 22, sd_run = 24, sd_anchor = \<lambda>k. word_of_nat (100 + k), sd_now = 7,
     sd_event = \<lparr>dr_event = 80, dr_notification = \<lambda>x. x, dr_outbox = \<lambda>x. x, dr_now = 7\<rparr>\<rparr>"

lemma lf_newlines_id: "13 \<notin> set s \<Longrightarrow> lf_newlines s = s"
  by (induction s rule: lf_newlines.induct) auto

lemma digest_sample: "sample_digest b = replicate 64 48"
  by (simp add: sample_digest_def)

lemma canonical_sample:
  "canonicalize_json (\<lambda>s. s) round6 v = Inr c \<Longrightarrow> encodable_json c \<Longrightarrow>
     canonical_sha256 sample_digest (\<lambda>s. s) round6 v = Inr (replicate 64 48)"
  using utf8_encodable [OF encodable_dump] by (fastforce simp: canonical_sha256_def digest_sample)

lemma canonical_inline: "canonical_sha256 sample_digest (\<lambda>s. s) round6 inline_profile = Inr (replicate 64 48)"
  by (rule canonical_sample [of _ _ inline_profile]) (simp_all add: inline_profile_def normalize_text_def)

lemma canonical_line:
  "canonical_sha256 sample_digest (\<lambda>s. s) round6 (line_anchor (replicate 64 48) (replicate 64 48) 1 2 (replicate 64 48)) = Inr (replicate 64 48)"
  by (rule canonical_sample [of _ _ "line_anchor (replicate 64 48) (replicate 64 48) 1 2 (replicate 64 48)"])
    (simp_all add: line_anchor_def normalize_text_def lf_newlines_id encodable_def list_all_iff)

lemma sample_hi: "utf8 (u ''hi'') = Some [104, 105]" "normalize_text (\<lambda>s. s) (u ''hi'') = u ''hi''"
  "numbered_lines (u ''hi'') = [(1, u ''hi'')]" "validated_normalized_text (\<lambda>s. s) (u ''hi'') = Inr (u ''hi'')"
  by (simp_all add: utf8_char_def normalize_text_def numbered_lines_def validated_normalized_text_def max_text_characters_def Let_def
      py_strip_def py_lstrip_def py_rstrip_def py_isspace_def)

lemma sample_ready:
  assumes "fresh sr_id (text_revision sample_sd 21 n) (revisions db)" "1 \<le> n" "one_current (text_revision sample_sd 21 n) (revisions db)"
    "fresh (\<lambda>x. (sr_submission x, sr_number x)) (text_revision sample_sd 21 n) (revisions db)"
    "extractions db = []" "extraction_keys db = []" "anchors db = []" "anchor_hashes db = []"
  shows "\<exists>db2. insert_ready_text_revision sample_digest (\<lambda>s. s) round6 sample_sd 21 n (u ''hi'') db = Inr db2 \<and>
    audit db2 = audit db \<and> sessions db2 = sessions db"
proof -
  let ?r = "text_revision sample_sd 21 n" and ?f = "text_source sample_sd 21 [104, 105] (replicate 64 48) (u ''hi'')"
  let ?x = "\<lparr>er_id = sd_run sample_sd, er_revision = sd_revision sample_sd, er_anchor_version = u ''1'', er_status = E_SUCCEEDED, er_error = None\<rparr>"
  let ?db1 = "db\<lparr>revisions := revisions db @ [?r], source_files := source_files db @ [?f]\<rparr>"
  have z: "0 \<notin> set (uuid_text 21)" using set_uuid_text [of 0 21] by auto
  have 1: "insert_revision ?r ?f db = Inr ?db1"
    using assms z by (simp add: insert_revision_def revision_checks_def text_source_def storable_text_def max_revision_bytes_def is_sha256_hex_def list_all_iff)
      (simp add: text_revision_def)
  obtain db2 where 2: "insert_extraction ?x (inline_key sample_sd (replicate 64 48)) None ?db1 = Inr db2"
      "db2 = ?db1\<lparr>extractions := extractions db2, extraction_keys := extraction_keys db2\<rparr>"
    using assms by (simp add: insert_extraction_def Let_def inline_key_def is_sha256_hex_def list_all_iff fresh_def)
  have fp: "text_sha256 sample_digest (u ''hi'') = Inr (replicate 64 48)" unfolding text_sha256_def sample_hi(1) by (simp add: digest_sample)
  have none: "anchors db2 = []" "anchor_hashes db2 = []" by (subst 2(2), simp add: assms)+
  have p: "text_line_anchor_payload sample_digest (replicate 64 48) (replicate 64 48) 1 (u ''hi'') =
      Inr (line_anchor (replicate 64 48) (replicate 64 48) 1 2 (replicate 64 48))"
    unfolding text_line_anchor_payload_def fp by (simp add: numeral_2_eq_2)
  have "\<exists>a h. insert_line sample_digest (\<lambda>s. s) round6 sample_sd (replicate 64 48) (replicate 64 48) (1, u ''hi'') (0, db2) =
      Inr (1, db2\<lparr>anchors := a, anchor_hashes := h\<rparr>)"
    unfolding insert_line_def prod.case of_nat_1 p
    by (simp add: canonical_line insert_anchor_def none Let_def storable_text_def is_sha256_hex_def list_all_iff fresh_def)
      (intro exI, rule refl)
  then obtain a h where 3: "insert_line sample_digest (\<lambda>s. s) round6 sample_sd (replicate 64 48) (replicate 64 48) (1, u ''hi'') (0, db2) =
      Inr (1, db2\<lparr>anchors := a, anchor_hashes := h\<rparr>)" by blast
  have rows: "revisions db2 = revisions db @ [?r]" "audit db2 = audit db" "sessions db2 = sessions db" by (subst 2(2), simp)+
  have no: "hits (\<lambda>r. sr_id r = sd_revision sample_sd \<and> sr_state r = R_QUEUED) (revisions db) = 0"
    unfolding hits_zero_iff using fresh_ne [OF assms(1)] by (auto simp: text_revision_def)
  show ?thesis
    unfolding insert_ready_text_revision_def sample_hi(1,3)
    by (simp add: digest_sample 1 canonical_inline 2(1) 3 [unfolded One_nat_def] rows no Let_def del: u_simps) (simp add: text_revision_def rows)
qed

lemma revised_key:
  "build_event_key (u ''submission.revised'') (kwargs [(''submission_id'', IUuid x), (''revision_no'', IInt 2)]) =
     Inr (u ''submission:'' @ uuid_text x @ u '':revision:2:revised'')"
proof -
  have "after_last_dot (u ''submission.revised'') = u ''revised''" by (simp add: after_last_dot_def)
  then have t: "event_template (u ''submission.revised'') r =
      [Lit (u ''submission''), field ''submission_id'', Lit (u ''revision''), field ''revision_no'', Lit (u ''revised'')]" for r
    by (simp add: event_template_def startswith_u del: u_simps)
  show ?thesis
    by (simp add: build_event_key_def submission_types t segment_text_def field_def kwargs_def del: u_simps)
      (simp add: ustr_join_def int_text_def dec_digits.simps)
qed

lemma submission_metadata_storable:
  "storable [(Some (u ''kind''), MStr (u ''text'')), (Some (u ''revision_no''), MInt 1)]"
  "storable [(Some (u ''kind''), MStr (u ''text'')), (Some (u ''revision_no''), MInt 2)]"
  by (simp_all add: storable_def metadata_eval)

theorem text_anchors_quote_the_source_witness:
  "\<exists>v db. submit_text sample_digest (\<lambda>s. s) (\<lambda>_. JNull) 20 sample_sd 4 5 (u ''hi'') (u ''t'') sample_sources = (Inr v, db) \<and>
     map an_text (anchors db) = [u ''hi''] \<and> map sr_state (revisions db) = [R_READY]"
proof -
  let ?b = "\<lparr>sb_id = 21, sb_session = 4, sb_author = 5, sb_title = u ''t'', sb_created_at = 7, sb_deleted = False\<rparr>"
  let ?db1 = "sample_sources\<lparr>submissions := [?b], kinds := [\<lparr>sk_submission = 21, sk_kind = K_TEXT\<rparr>]\<rparr>"
  have s: "insert_submission ?b K_TEXT sample_sources = Inr ?db1" by (simp add: insert_submission_def storable_text_def fresh_def sources_eval)
  obtain db2 where r: "insert_ready_text_revision sample_digest (\<lambda>s. s) (\<lambda>_. JNull) sample_sd 21 1 (u ''hi'') ?db1 = Inr db2"
      "audit db2 = []" "sessions db2 = sessions sample_sources"
    using sample_ready [of 1 ?db1] by (auto simp: sources_eval fresh_def one_current_def)
  obtain a where e: "record_event (sd_event sample_sd) (u ''submission.created'') [(''submission_id'', IUuid 21), (''revision_no'', IInt 1)] 5 SC_SESSION
      None (Some 3) (Some 4) (u ''submission'') 21 [(Some (u ''kind''), MStr (u ''text'')), (Some (u ''revision_no''), MInt 1)] [] db2 =
      Inr (db2\<lparr>audit := a\<rparr>)"
    using session_event [OF submission_types(1) created_key _ _ submission_metadata_storable(1) _ _ r(2)] r(3) by (fastforce simp: sources_eval)
  have o: "open_member_session TextSubmissionAccessError TextSubmissionStateError sample_sources 4 5 = Inr 3" "current_revision_count sample_sources 4 = 0"
    by (simp_all add: open_member_session_def member_session_def find_session_def is_member_def current_revision_count_def sources_eval del: u_simps)
  have t: "validated_title (\<lambda>s. s) (u ''t'') = Inr (u ''t'')"
    by (simp add: validated_title_def py_strip_def py_lstrip_def py_rstrip_def py_isspace_def)
  have "\<exists>v db. submit_text_body sample_digest (\<lambda>s. s) (\<lambda>_. JNull) 20 sample_sd 4 5 (u ''hi'') (u ''t'') sample_sources = Inr (v, db)"
    using o s r e by (simp add: submit_text_body_def sample_sd_def del: u_simps)
  then obtain v db where t: "submit_text sample_digest (\<lambda>s. s) (\<lambda>_. JNull) 20 sample_sd 4 5 (u ''hi'') (u ''t'') sample_sources = (Inr v, db)"
    by (auto simp: submit_text_def sample_hi(4) t transaction_def simp del: u_simps)
  from text_anchors_quote_the_source [OF t] have c: "map an_text (anchors db) = [u ''hi''] \<and> map sr_state (revisions db) = [R_READY]"
    by (auto simp: sources_eval anchors_of_def sample_hi(2) mark_ready_def simp del: u_simps) simp
  show ?thesis by (intro exI) (rule conjI [OF t c])
qed

text \<open>The same author replaces the submission, whose revision 30 was current, by \<open>hi\<close>.\<close>

definition sample_submitted :: source_db where
  "sample_submitted = sample_sources\<lparr>
     submissions := [\<lparr>sb_id = 21, sb_session = 4, sb_author = 5, sb_title = u ''t'', sb_created_at = 7, sb_deleted = False\<rparr>],
     kinds := [\<lparr>sk_submission = 21, sk_kind = K_TEXT\<rparr>],
     revisions := [\<lparr>sr_id = 30, sr_submission = 21, sr_number = 1, sr_state = R_READY, sr_approved = Some 31, sr_current = True\<rparr>]\<rparr>"

theorem replacement_keeps_history_witness:
  "\<exists>v db. replace_text sample_digest (\<lambda>s. s) (\<lambda>_. JNull) sample_sd 21 5 (u ''hi'') sample_submitted = (Inr v, db) \<and>
     map (\<lambda>r. (sr_id r, sr_number r, sr_current r)) (revisions db) = [(30, 1, False), (22, 2, True)]"
proof -
  let ?db1 = "sample_submitted\<lparr>revisions := update_rows (\<lambda>r. sr_submission r = 21 \<and> sr_current r) retire_revision (revisions sample_submitted)\<rparr>"
  obtain db2 where r: "insert_ready_text_revision sample_digest (\<lambda>s. s) (\<lambda>_. JNull) sample_sd 21 2 (u ''hi'') ?db1 = Inr db2"
      "audit db2 = []" "sessions db2 = sessions sample_sources"
    using sample_ready [of 2 ?db1]
    by (auto simp: sample_submitted_def sources_eval fresh_def one_current_def text_revision_def sample_sd_def retire_revision_def)
  obtain a where e: "record_event (sd_event sample_sd) (u ''submission.revised'') [(''submission_id'', IUuid 21), (''revision_no'', IInt 2)] 5 SC_SESSION
      None (Some 3) (Some 4) (u ''submission'') 21 [(Some (u ''kind''), MStr (u ''text'')), (Some (u ''revision_no''), MInt 2)] [] db2 =
      Inr (db2\<lparr>audit := a\<rparr>)"
    using session_event [OF submission_types(2) revised_key _ _ submission_metadata_storable(2) _ _ r(2)] r(3) by (fastforce simp: sources_eval)
  have l: "\<exists>b s. locked_member_submission sample_submitted 21 5 = Some (b, s) \<and> sb_author b = 5 \<and> ts_state s = OPEN \<and> sb_title b = u ''t'' \<and>
      sb_session b = 4 \<and> ts_room s = 3" "kind_of sample_submitted 21 = Some K_TEXT" "latest_revision_number sample_submitted 21 = 1"
    by (simp_all add: locked_member_submission_def member_session_def find_session_def is_member_def kind_of_def latest_revision_number_def
        sample_submitted_def sources_eval del: u_simps)
  have "\<exists>v db. replace_text_body sample_digest (\<lambda>s. s) (\<lambda>_. JNull) sample_sd 21 5 (u ''hi'') sample_submitted = Inr (v, db)"
    using l r(1) e by (auto simp: replace_text_body_def Let_def simp del: u_simps) (simp add: text_column_def)
  then obtain v db where t: "replace_text sample_digest (\<lambda>s. s) (\<lambda>_. JNull) sample_sd 21 5 (u ''hi'') sample_submitted = (Inr v, db)"
    by (auto simp: replace_text_def sample_hi(4) transaction_def simp del: u_simps)
  have c: "map (\<lambda>r. (sr_id r, sr_number r, sr_current r)) (revisions db) = [(30, 1, False), (22, 2, True)]"
    using replacement_keeps_history [OF t] l(3)
    by (auto simp: sample_submitted_def retire_revision_def mark_ready_def text_revision_def sample_sd_def simp del: u_simps)
  show ?thesis by (intro exI) (rule conjI [OF t c])
qed



text \<open>One failed extraction job with two attempts left.\<close>

theorem reconciliation_leaves_nothing_stranded_witness:
  "\<exists>db. reconcile_retryable_extractions 9 (\<lambda>_. 0) (sample_sources\<lparr>jobs := [(new_job_row 7 (u ''k'') (u ''extraction'') None (JObj []) 0)
       \<lparr>j_state := J_FAILED_RETRYABLE, j_generation := 1\<rparr>]\<rparr>) = (Inr (), db) \<and> \<not> list_ex stranded (jobs db)"
proof -
  let ?j = "(new_job_row 7 (u ''k'') (u ''extraction'') None (JObj []) 0)\<lparr>j_state := J_FAILED_RETRYABLE, j_generation := 1\<rparr>"
  have j: "stranded ?j" "j_generation ?j < max_extraction_attempts" by (simp_all add: stranded_def new_job_row_def max_extraction_attempts_def)
  have "\<exists>db. reconcile_retryable_extractions 9 (\<lambda>_. 0) (sample_sources\<lparr>jobs := [?j]\<rparr>) = (Inr (), db) \<and> jobs db = [retry_job 9 ?j]"
    using j by (simp add: reconcile_retryable_extractions_def reconcile_body_def repairs_of_def transaction_def sources_eval del: u_simps)
  then obtain db where d: "reconcile_retryable_extractions 9 (\<lambda>_. 0) (sample_sources\<lparr>jobs := [?j]\<rparr>) = (Inr (), db)" "jobs db = [retry_job 9 ?j]" by blast
  have "j_generation (retry_job 9 ?j) < max_extraction_attempts" by (simp add: retry_job_def max_extraction_attempts_def)
  then have "\<not> list_ex stranded (jobs db)"
    using reconciliation_leaves_nothing_stranded [OF d(1)] by (auto simp: d(2))
  then show ?thesis using d(1) by blast
qed

text \<open>
  The file of revision 22 is claimed by a worker, whose extraction \<open>hi\<close> is completed.
\<close>

definition hi_out :: extraction_output where
  "hi_out = \<lparr>xo_parser = (u ''p'', u ''1''), xo_profile = replicate 64 48, xo_anchor_set = replicate 64 48,
     xo_blocks = [\<lparr>eb_ordinal = 0, eb_text = u ''hi'', eb_type = u ''text_line'', eb_confidence = Some 1, eb_anchor = JNull, eb_hash = replicate 64 48\<rparr>]\<rparr>"

definition hi_revision :: loaded_revision where
  "hi_revision = \<lparr>lr_id = 22, lr_filename = u ''a.txt'', lr_mime = u ''text/plain'', lr_size = 2, lr_sha = replicate 64 48, lr_key = u ''k'',
     lr_session = 4, lr_room = 3, lr_parser = None\<rparr>"

definition hi_claim :: claimed_job where
  "hi_claim = \<lparr>cl_id = 7, cl_logical_key = u ''k'', cl_kind = u ''extraction'', cl_payload = [], cl_owner = u ''A'',
     cl_generation = 1, cl_token = 41, cl_attempt_id = 42\<rparr>"

definition hi_queued :: source_db where
  "hi_queued = snd (enqueue 7 0 (u ''k'') (u ''extraction'') [] None (sample_sources\<lparr>revisions := [file_revision sample_fd]\<rparr>))"

definition hi_claimed :: source_db where
  "hi_claimed = snd (claim_next (\<lambda>_. False) 41 42 0 0 (u ''A'') 60 None hi_queued)"

definition hi_extractor :: extractor where
  "hi_extractor = \<lparr>ex_sha256 = sample_digest, ex_nfc = \<lambda>s. s, ex_round6 = \<lambda>_. JNull, ex_runner = \<lambda>_ _. \<lparr>rx_ok = False, rx_payload = None, rx_error = None\<rparr>\<rparr>"

definition hi_draws :: extraction_draws where
  "hi_draws = \<lparr>xd_locked = \<lambda>_. False, xd_token = 41, xd_attempt = 42, xd_claim_now = 0, xd_claim_now' = 0, xd_reconcile_now = 0,
     xd_repair_event = \<lambda>_. 0, xd_run = 24, xd_anchor = \<lambda>k. word_of_nat (100 + k), xd_event = 80, xd_result = 81, xd_complete_now = 1, xd_requeue_now = 2\<rparr>"

definition hi_result :: extraction_result where
  "hi_result = \<lparr>xt_target = J_SUCCEEDED, xt_error = None, xt_output = Some hi_out, xt_revision = Some hi_revision\<rparr>"

lemma hi_queued_eval:
  "hi_queued = sample_sources\<lparr>revisions := [file_revision sample_fd], jobs := [new_job_row 7 (u ''k'') (u ''extraction'') None (JObj []) 0]\<rparr>"
  by (simp add: hi_queued_def queue_eval sources_eval text_simps)

lemma hi_claimed_eval:
  "hi_claimed = sample_sources\<lparr>revisions := [file_revision sample_fd],
     jobs := [claim_update 1 (u ''A'') 41 60 0 (new_job_row 7 (u ''k'') (u ''extraction'') None (JObj []) 0)],
     attempts := [\<lparr>at_id = 42, at_job_id = 7, at_generation = 1, at_token = 41, at_owner = u ''A'',
      at_ended_at = None, at_status = AT_RUNNING, at_error = None\<rparr>]\<rparr>"
  by (simp add: hi_claimed_def hi_queued_eval queue_eval sources_eval text_simps)

lemma hi_claimed_inv: "queue_inv hi_claimed"
proof -
  have "queue_inv (sample_sources\<lparr>revisions := [file_revision sample_fd]\<rparr>)" by (simp add: queue_inv_def sources_eval)
  then have "queue_inv hi_queued" unfolding hi_queued_def by (rule queue_step_inv [OF S_enqueue])
  then show ?thesis unfolding hi_claimed_def by (rule queue_step_inv [OF S_claim])
qed

lemma ready_key:
  "build_event_key (u ''source_revision.ready'') (kwargs [(''revision_id'', IUuid x), (''job_attempt_id'', IUuid y)]) =
     Inr (u ''revision:'' @ uuid_text x @ u '':attempt:'' @ uuid_text y @ u '':ready'')"
proof -
  have "after_last_dot (u ''source_revision.ready'') = u ''ready''" by (simp add: after_last_dot_def)
  then have t: "event_template (u ''source_revision.ready'') False =
      [Lit (u ''revision''), field ''revision_id'', Lit (u ''attempt''), field ''job_attempt_id'', Lit (u ''ready'')]"
    by (simp add: event_template_def startswith_u del: u_simps)
  have s: "u ''source_revision.ready'' \<in> set supported_event_types" by (simp add: supported_event_types_def del: u_simps)
  show ?thesis
    by (simp add: build_event_key_def s t segment_text_def field_def kwargs_def del: u_simps) (simp add: ustr_join_def)
qed

lemma hi_ready_event:
  fixes db :: "'z source_db_scheme"
  assumes "audit db = []" "sessions db = sessions sample_sources"
  shows "\<exists>a. append_extraction_activity 80 22 (u ''source_revision.ready'') [(''job_attempt_id'', IUuid 42)] (Some (3, 4))
    [(Some (u ''state''), MStr (u ''ready'')), (Some (u ''block_count''), MInt 1)] db = Inr (db\<lparr>audit := a\<rparr>)"
proof -
  have "storable [(Some (u ''state''), MStr (u ''ready'')), (Some (u ''block_count''), MInt 1)]" by (simp add: storable_def metadata_eval)
  then obtain j where j: "safe_audit_metadata [(Some (u ''state''), MStr (u ''ready'')), (Some (u ''block_count''), MInt 1)] = Inr j"
    "jsonb_size_at_most 4096 j" using storable_obtain by blast
  have s: "u ''source_revision.ready'' \<in> set supported_event_types" by (simp add: supported_event_types_def del: u_simps)
  let ?m = "[(Some (u ''state''), MStr (u ''ready'')), (Some (u ''block_count''), MInt 1)]"
  let ?a = "\<lambda>key. \<lparr>na_key = key, na_type = u ''source_revision.ready'', na_actor = None, na_scope = SC_SESSION, na_audience = None,
              na_room = Some 3, na_session = Some 4, na_entity_type = u ''source_revision'', na_entity_id = 22, na_metadata = ?m\<rparr>"
  have "\<exists>b a. checked_append 80 (?a (u ''revision:'' @ uuid_text 22 @ u '':attempt:'' @ uuid_text 42 @ u '':ready'')) db = Inr (b, db\<lparr>audit := a\<rparr>)"
    using j assms s by (simp add: checked_append_def append_activity_def audit_checks_def new_audit_row_def scope_shape_def fresh_def
        sources_eval del: u_simps) (rule conjI, blast, intro exI, rule refl)
  then show ?thesis unfolding append_extraction_activity_def option.case prod.case ready_key
    by auto
qed

lemma hi_effect:
  fixes db :: "'z source_db_scheme"
  assumes "audit db = []" "sessions db = sessions sample_sources" "revisions db = [file_revision sample_fd]" "extractions db = []"
    "extraction_keys db = []" "anchors db = []" "anchor_hashes db = []"
  shows "\<exists>db'. persist_extraction hi_draws hi_claim hi_revision hi_out db = Inr db' \<and> jobs db' = jobs db \<and>
    results db' = results db \<and> attempts db' = attempts db"
proof -
  let ?x = "\<lparr>er_id = 24, er_revision = 22, er_anchor_version = u ''1'', er_status = E_SUCCEEDED, er_error = None\<rparr>"
  let ?b = "\<lparr>eb_ordinal = 0, eb_text = u ''hi'', eb_type = u ''text_line'', eb_confidence = Some 1, eb_anchor = JNull, eb_hash = replicate 64 48\<rparr>"
  obtain db1 where 1: "insert_extraction ?x (extraction_run_key hi_claim 22 (u ''p'', u ''1'') (replicate 64 48)) (Some 42) db = Inr db1"
      "db1 = db\<lparr>extractions := extractions db1, extraction_keys := extraction_keys db1\<rparr>"
    using assms by (simp add: insert_extraction_def Let_def extraction_run_key_def hi_claim_def is_sha256_hex_def list_all_iff fresh_def)
  have none: "anchors db1 = []" "anchor_hashes db1 = []" "revisions db1 = [file_revision sample_fd]" "audit db1 = []"
      "sessions db1 = sessions sample_sources" "jobs db1 = jobs db" "results db1 = results db" "attempts db1 = attempts db"
    by (subst 1(2), simp add: assms)+
  have "\<exists>a h. insert_anchor (block_anchor hi_draws 22 0 ?b) (replicate 64 48) db1 = Inr (db1\<lparr>anchors := a, anchor_hashes := h\<rparr>)"
    by (simp add: insert_anchor_def block_anchor_def none Let_def storable_text_def is_sha256_hex_def list_all_iff fresh_def)
      (intro exI, rule refl)
  then obtain a h where 2: "insert_anchor (block_anchor hi_draws 22 0 ?b) (replicate 64 48) db1 = Inr (db1\<lparr>anchors := a, anchor_hashes := h\<rparr>)" by blast
  let ?q = "queued_current 22"
  let ?db2 = "db1\<lparr>anchors := a, anchor_hashes := h, revisions := update_rows ?q (mark_ready 24) [file_revision sample_fd]\<rparr>"
  obtain e where e: "append_extraction_activity 80 22 (u ''source_revision.ready'') [(''job_attempt_id'', IUuid 42)] (Some (3, 4))
    [(Some (u ''state''), MStr (u ''ready'')), (Some (u ''block_count''), MInt 1)] ?db2 = Inr (?db2\<lparr>audit := e\<rparr>)"
    using hi_ready_event [of ?db2] none by auto
  have q: "?q (file_revision sample_fd)" by (simp add: queued_current_def file_revision_def sample_fd_def)
  show ?thesis unfolding persist_extraction_def hi_draws_def hi_revision_def hi_out_def hi_claim_def
    using 1(1) 2 e q by (simp add: none hi_claim_def hi_draws_def del: u_simps)
qed

theorem extraction_is_stored_whole_witness:
  "\<exists>db. complete_extraction hi_extractor hi_draws hi_claim hi_result hi_claimed = (Inr (), db) \<and>
     map sr_state (revisions db) = [R_READY] \<and> map an_text (anchors db) = [u ''hi''] \<and>
     J_SUCCEEDED \<in> j_state ` set (jobs db)"
proof -
  let ?j = "claim_update 1 (u ''A'') 41 60 0 (new_job_row 7 (u ''k'') (u ''extraction'') None (JObj []) 0)"
  let ?db1 = "hi_claimed\<lparr>jobs := [complete_job J_SUCCEEDED None 1 ?j]\<rparr>"
  have h: "holds_lease hi_claim 1 ?j" by (simp add: holds_lease_def hi_claim_def claim_update_def new_job_row_def micros_def)
  obtain db2 where p: "persist_extraction hi_draws hi_claim hi_revision hi_out ?db1 = Inr db2"
      "jobs db2 = jobs ?db1" "results db2 = []" "attempts db2 = attempts hi_claimed"
    using hi_effect [of ?db1] by (auto simp: hi_claimed_eval sources_eval)
  obtain b where b: "canonical_json_bytes (JObj (safe_result hi_result)) = Some b"
    using encodable_bytes [of "JObj (safe_result hi_result)"] set_uuid_text [of _ 22]
    by (force simp: safe_result_def hi_result_def hi_revision_def hi_out_def encodable_def list_all_iff)
  have "\<exists>db. complete_extraction hi_extractor hi_draws hi_claim hi_result hi_claimed = (Inr (), db)"
    using h p b unfolding complete_extraction_def complete_with_effects_def transaction_def complete_body_def extraction_effect_def
    by (simp add: check_completion_def completion_states_def hi_result_def insert_result_def Let_def fresh_def hi_draws_def
        hi_claimed_eval my_attempt_def hi_claim_def open_attempt_def hi_extractor_def hi_revision_def)
  then obtain db where d: "complete_extraction hi_extractor hi_draws hi_claim hi_result hi_claimed = (Inr (), db)" ..
  have "xt_revision hi_result = Some hi_revision" "xt_target hi_result = J_SUCCEEDED" "xt_error hi_result = None"
    "xt_output hi_result = Some hi_out" by (simp_all add: hi_result_def)
  from extraction_is_stored_whole [OF hi_claimed_inv this, where x = hi_extractor and d = hi_draws and c = hi_claim]
  have r: "extraction_stored hi_draws hi_revision hi_out hi_claimed db"
      "\<exists>j. complete_job J_SUCCEEDED None (xd_complete_now hi_draws) j \<in> set (jobs db)"
    unfolding d prod.case sum.case by auto
  have 1: "J_SUCCEEDED \<in> j_state ` set (jobs db)" using r(2) by (force simp: complete_job_def)
  have 2: "map sr_state (revisions db) = [R_READY]" "map an_text (anchors db) = [u ''hi'']"
    using r(1) by (auto simp: extraction_stored_def hi_claimed_eval sources_eval mark_ready_def hi_revision_def hi_out_def
        file_revision_def sample_fd_def queued_current_def simp del: u_simps)
  show ?thesis by (rule exI [of _ db]) (intro conjI d 1 2)
qed

end
