(* ===== verification/Document_Comparison.thy ===== *)
theory Document_Comparison
  imports Source_Tables Uuid_Text
begin

text \<open>
  \<open>document_comparison.py\<close>: the comparison of two revisions by their anchors, and the reading of the anchors.

  The floating point of \<open>local_embeddings.py\<close> is a parameter: \<open>em_vector\<close> is \<open>embed_text\<close>, \<open>em_similarity\<close> is
  \<open>semantic_similarity\<close> and \<open>em_round\<close> rounds to six decimals.  A finite double is the rational number it denotes.
\<close>

section \<open>Anchors and matches\<close>

record comparison_anchor =
  ca_id :: uuid
  ca_revision :: uuid
  ca_text :: ustr

text \<open>The two columns that are only carried along.\<close>

record served_anchor = comparison_anchor +
  ca_block :: ustr
  ca_confidence :: "rat option"

datatype relation = DUPLICATE | SIMILAR

record 'a comparison_match =
  cm_left :: 'a
  cm_right :: 'a
  cm_similarity :: rat
  cm_relation :: relation

record 'a document_comparison =
  dc_left_revision :: uuid
  dc_right_revision :: uuid
  dc_matches :: "'a comparison_match list"
  dc_left_only :: "'a list"
  dc_right_only :: "'a list"

record embedding =
  em_vector :: "ustr \<Rightarrow> rat list"
  em_similarity :: "ustr \<Rightarrow> ustr \<Rightarrow> rat"
  em_round :: "rat \<Rightarrow> rat"

section \<open>Comparing two sets of anchors\<close>

definition max_comparison_anchors :: nat where
  "max_comparison_anchors = 2000"

definition max_candidate_pairs :: nat where
  "max_candidate_pairs = 200000"

text \<open>The doubles nearest to 0.72 and 0.92.\<close>

definition default_threshold :: rat where
  "default_threshold = Fract 6485183463413514 9007199254740992"

definition duplicate_threshold :: rat where
  "duplicate_threshold = Fract 8286623314361713 9007199254740992"

definition validate_comparison :: "uuid \<Rightarrow> uuid \<Rightarrow> rat \<Rightarrow> app_error + unit" where
  "validate_comparison lid rid threshold =
     require (lid \<noteq> rid) (ValueError (u ''comparison revisions must be different''))
     (require (1 / 2 \<le> threshold \<and> threshold \<le> 1) (ValueError (u ''similarity threshold must be between 0.5 and 1'')) (Inr ()))"

definition dominant_buckets :: "rat list \<Rightarrow> nat list" where
  "dominant_buckets v = map fst (filter (\<lambda>(i, x). x \<noteq> 0) (take 12 (sort_key (\<lambda>(i, x). - \<bar>x\<bar>) (enumerate 0 v))))"

definition text_buckets :: "embedding \<Rightarrow> ustr \<Rightarrow> nat list" where
  "text_buckets e t = dominant_buckets (em_vector e t)"

text \<open>The index of the right side: which anchors are in a bucket.\<close>

definition bucket_postings :: "embedding \<Rightarrow> 'a comparison_anchor_scheme list \<Rightarrow> (nat \<times> nat) list" where
  "bucket_postings e right = concat (map (\<lambda>(j, a). map (\<lambda>b. (b, j)) (text_buckets e (ca_text a))) (enumerate 0 right))"

text \<open>\<open>sorted(possible)\<close>\<close>

definition possible_matches :: "embedding \<Rightarrow> (nat \<times> nat) list \<Rightarrow> 'a comparison_anchor_scheme \<Rightarrow> nat list" where
  "possible_matches e postings a =
     sort (remdups (map snd (filter (\<lambda>(b, j). b \<in> set (text_buckets e (ca_text a))) postings)))"

text \<open>The pairs the two nested loops visit, in their order.\<close>

definition candidate_pairs ::
  "embedding \<Rightarrow> 'a comparison_anchor_scheme list \<Rightarrow> 'a comparison_anchor_scheme list \<Rightarrow> (nat \<times> nat) list" where
  "candidate_pairs e left right =
     concat (map (\<lambda>(i, a). map (Pair i) (possible_matches e (bucket_postings e right) a)) (enumerate 0 left))"

fun scan_pairs :: "(nat \<times> nat \<Rightarrow> rat) \<Rightarrow> rat \<Rightarrow> (nat \<times> nat) list \<Rightarrow> nat \<Rightarrow> (rat \<times> nat \<times> nat) list \<Rightarrow>
    app_error + (rat \<times> nat \<times> nat) list" where
  "scan_pairs score threshold [] compared candidates = Inr candidates"
| "scan_pairs score threshold (p # ps) compared candidates =
     require (\<not> compared + 1 > max_candidate_pairs) (ValueError (u ''comparison work budget exceeded''))
       (scan_pairs score threshold ps (compared + 1)
          (if score p \<ge> threshold then candidates @ [(score p, p)] else candidates))"

text \<open>\<open>candidates.sort(key=lambda item: (-item[0], item[1], item[2]))\<close>\<close>

definition sort_candidates :: "(rat \<times> nat \<times> nat) list \<Rightarrow> (rat \<times> nat \<times> nat) list" where
  "sort_candidates cs = sort_key (\<lambda>(s, i, j). - s) (sort_key (\<lambda>(s, i, j). i) (sort_key (\<lambda>(s, i, j). j) cs))"

fun pick_matches :: "nat set \<Rightarrow> nat set \<Rightarrow> (rat \<times> nat \<times> nat) list \<Rightarrow> (rat \<times> nat \<times> nat) list" where
  "pick_matches used_left used_right [] = []"
| "pick_matches used_left used_right ((s, i, j) # cs) =
     (if i \<in> used_left \<or> j \<in> used_right then pick_matches used_left used_right cs
      else (s, i, j) # pick_matches (insert i used_left) (insert j used_right) cs)"

definition match_of ::
  "embedding \<Rightarrow> 'a list \<Rightarrow> 'a list \<Rightarrow> rat \<times> nat \<times> nat \<Rightarrow> 'a comparison_match" where
  "match_of e left right = (\<lambda>(s, i, j).
     \<lparr>cm_left = left ! i, cm_right = right ! j, cm_similarity = em_round e s,
      cm_relation = (if s \<ge> duplicate_threshold then DUPLICATE else SIMILAR)\<rparr>)"

definition unused :: "nat list \<Rightarrow> 'a list \<Rightarrow> 'a list" where
  "unused used xs = map snd (filter (\<lambda>(i, a). i \<notin> set used) (enumerate 0 xs))"

definition pair_score :: "embedding \<Rightarrow> 'a comparison_anchor_scheme list \<Rightarrow> 'a comparison_anchor_scheme list \<Rightarrow> nat \<times> nat \<Rightarrow> rat" where
  "pair_score e left right = (\<lambda>(i, j). em_similarity e (ca_text (left ! i)) (ca_text (right ! j)))"

definition compare_anchor_sets ::
  "embedding \<Rightarrow> uuid \<Rightarrow> uuid \<Rightarrow> 'a comparison_anchor_scheme list \<Rightarrow> 'a comparison_anchor_scheme list \<Rightarrow> rat \<Rightarrow>
   app_error + 'a comparison_anchor_scheme document_comparison" where
  "compare_anchor_sets e lid rid left right threshold =
     and_then (validate_comparison lid rid threshold) (\<lambda>_.
     require (\<not> list_ex (\<lambda>a. ca_revision a \<noteq> lid) left) (ValueError (u ''left comparison anchors do not match their revision''))
     (require (\<not> list_ex (\<lambda>a. ca_revision a \<noteq> rid) right) (ValueError (u ''right comparison anchors do not match their revision''))
     (require (\<not> (length left > max_comparison_anchors \<or> length right > max_comparison_anchors))
        (ValueError (u ''comparison anchor limit exceeded''))
     (and_then (scan_pairs (pair_score e left right) threshold (candidate_pairs e left right) 0 []) (\<lambda>candidates.
      let picked = pick_matches {} {} (sort_candidates candidates) in
      Inr \<lparr>dc_left_revision = lid, dc_right_revision = rid,
        dc_matches = sort_key (\<lambda>m. uuid_text (ca_id (cm_left m))) (sort_key (\<lambda>m. uuid_text (ca_id (cm_right m)))
          (map (match_of e left right) picked)),
        dc_left_only = unused (map (\<lambda>(s, i, j). i) picked) left,
        dc_right_only = unused (map (\<lambda>(s, i, j). j) picked) right\<rparr>)))))"

section \<open>The service\<close>

definition served_anchor_of :: "anchor_row \<Rightarrow> served_anchor" where
  "served_anchor_of a = \<lparr>ca_id = an_id a, ca_revision = an_revision a, ca_text = an_text a, ca_block = an_block a,
     ca_confidence = an_confidence a\<rparr>"

text \<open>
  The anchors of one of the two revisions, in the order of the query: \<open>(ordinal, id)\<close>.  A revision without such rows
  is missing from the dictionary.
\<close>

definition revision_anchors :: "'z source_db_scheme \<Rightarrow> uuid \<Rightarrow> uuid \<Rightarrow> uuid \<Rightarrow> served_anchor list option" where
  "revision_anchors db sid actor rid =
     (let rows = [a. s \<leftarrow> (case member_session db actor sid of None \<Rightarrow> [] | Some s \<Rightarrow> [s]),
          b \<leftarrow> submissions db, sb_session b = ts_id s,
          r \<leftarrow> revisions db, sr_submission r = sb_id b \<and> sr_current r \<and> sr_state r = R_READY \<and> sr_id r = rid,
          a \<leftarrow> anchors db, an_revision a = sr_id r \<and> Some (an_run a) = sr_approved r \<and> an_excluded a = None]
      in if rows = [] then None else Some (map served_anchor_of (sort_key an_ordinal (sort_key an_id rows))))"

definition compare_documents ::
  "embedding \<Rightarrow> 'z source_db_scheme \<Rightarrow> uuid \<Rightarrow> uuid \<Rightarrow> uuid \<Rightarrow> uuid \<Rightarrow> rat \<Rightarrow> app_error + served_anchor document_comparison" where
  "compare_documents e db sid actor lid rid threshold =
     and_then (validate_comparison lid rid threshold) (\<lambda>_.
     case (revision_anchors db sid actor lid, revision_anchors db sid actor rid) of
       (Some left, Some right) \<Rightarrow> compare_anchor_sets e lid rid left right threshold
     | _ \<Rightarrow> Inl (DocumentComparisonAccessError (u ''source revision is unavailable'')))"

section \<open>The scan\<close>

lemma scan_pairs_Inr:
  "scan_pairs score t ps n cs = Inr out \<longleftrightarrow>
     (ps \<noteq> [] \<longrightarrow> n + length ps \<le> max_candidate_pairs) \<and> out = cs @ map (\<lambda>p. (score p, p)) (filter (\<lambda>p. score p \<ge> t) ps)"
proof (induction ps arbitrary: n cs)
  case (Cons p ps)
  show ?case by (auto simp: Cons.IH)
qed auto

lemma set_enumerate_conv: "(j, x) \<in> set (enumerate 0 xs) \<longleftrightarrow> j < length xs \<and> x = xs ! j"
  by (auto simp: in_set_enumerate_eq)

lemma set_possible_matches:
  "set (possible_matches e (bucket_postings e right) a) =
     {j. j < length right \<and> set (text_buckets e (ca_text a)) \<inter> set (text_buckets e (ca_text (right ! j))) \<noteq> {}}"
  unfolding possible_matches_def bucket_postings_def by (force simp: set_enumerate_conv)

lemma set_candidate_pairs:
  "set (candidate_pairs e left right) =
     {(i, j). i < length left \<and> j < length right \<and>
        set (text_buckets e (ca_text (left ! i))) \<inter> set (text_buckets e (ca_text (right ! j))) \<noteq> {}}"
  unfolding candidate_pairs_def by (force simp: set_enumerate_conv set_possible_matches)

section \<open>The greedy choice\<close>

lemma set_sort_candidates [simp]: "set (sort_candidates cs) = set cs"
  by (simp add: sort_candidates_def)

lemma sorted_candidates: "sorted_wrt (\<lambda>x y. fst x \<ge> fst y) (sort_candidates cs)"
proof -
  have "sorted (map (\<lambda>(s, i, j). - s) (sort_candidates cs))" unfolding sort_candidates_def by (rule sorted_sort_key)
  then show ?thesis by (simp add: sorted_map case_prod_beta)
qed

lemma pick_matches_subset: "set (pick_matches ul ur cs) \<subseteq> set cs"
  by (induction ul ur cs rule: pick_matches.induct) auto

lemma pick_matches_one_to_one:
  "distinct (map (\<lambda>(s, i, j). i) (pick_matches ul ur cs)) \<and> distinct (map (\<lambda>(s, i, j). j) (pick_matches ul ur cs)) \<and>
   (\<forall>(s, i, j) \<in> set (pick_matches ul ur cs). i \<notin> ul \<and> j \<notin> ur)"
  by (induction ul ur cs rule: pick_matches.induct) (auto split: if_splits)

lemma pick_matches_blocks:
  assumes "sorted_wrt (\<lambda>x y. fst x \<ge> fst y) cs" "(s, i, j) \<in> set cs" "i \<notin> ul" "j \<notin> ur"
  shows "\<exists>(s', i', j') \<in> set (pick_matches ul ur cs). s \<le> s' \<and> (i' = i \<or> j' = j)"
  using assms
proof (induction ul ur cs rule: pick_matches.induct)
  case (2 ul ur s0 i0 j0 cs)
  show ?case
  proof (cases "i0 \<in> ul \<or> j0 \<in> ur")
    case True
    with "2.prems" have "(s, i, j) \<in> set cs" by auto
    with True "2.IH"(1) "2.prems" show ?thesis by simp
  next
    case False
    note used = this
    show ?thesis
    proof (cases "i = i0 \<or> j = j0")
      case True
      have "s \<le> s0" using "2.prems"(1,2) by auto
      with used True show ?thesis by auto
    next
      case False
      with "2.prems" have "(s, i, j) \<in> set cs" "i \<notin> insert i0 ul" "j \<notin> insert j0 ur" by auto
      with used "2.IH"(2) "2.prems"(1) have "\<exists>(s', i', j') \<in> set (pick_matches (insert i0 ul) (insert j0 ur) cs). s \<le> s' \<and> (i' = i \<or> j' = j)"
        by simp
      with used show ?thesis by auto
    qed
  qed
qed simp

lemma mset_unused:
  assumes "distinct used" "set used \<subseteq> {..<length xs}"
  shows "mset xs = mset (map ((!) xs) used) + mset (unused used xs)"
proof -
  let ?ps = "enumerate 0 xs"
  have "mset (filter (\<lambda>(i, a). i \<in> set used) ?ps) = mset (map (\<lambda>i. (i, xs ! i)) used)"
  proof (rule set_eq_iff_mset_eq_distinct [THEN iffD1])
    show "distinct (filter (\<lambda>(i, a). i \<in> set used) ?ps)" by (simp add: distinct_enumerate)
    show "distinct (map (\<lambda>i. (i, xs ! i)) used)" using assms(1) by (auto simp: distinct_map inj_on_def)
    show "set (filter (\<lambda>(i, a). i \<in> set used) ?ps) = set (map (\<lambda>i. (i, xs ! i)) used)"
      using assms(2) by (auto simp: set_enumerate_conv image_iff subset_iff)
  qed
  then have "mset (map snd (filter (\<lambda>(i, a). i \<in> set used) ?ps)) = mset (map snd (map (\<lambda>i. (i, xs ! i)) used))"
    by (simp only: mset_map [of snd])
  then have "mset (map snd (filter (\<lambda>(i, a). i \<in> set used) ?ps)) = mset (map ((!) xs) used)" by (simp add: comp_def)
  moreover have "mset xs = mset (map snd (filter (\<lambda>(i, a). i \<in> set used) ?ps)) + mset (unused used xs)"
  proof -
    let ?P = "\<lambda>p. fst p \<in> set used"
    have "mset xs = image_mset snd (mset ?ps)" by (metis map_snd_enumerate mset_map)
    also have "\<dots> = image_mset snd (filter_mset ?P (mset ?ps) + filter_mset (\<lambda>p. \<not> ?P p) (mset ?ps))"
      by (metis multiset_partition)
    also have "\<dots> = mset (map snd (filter (\<lambda>(i, a). i \<in> set used) ?ps)) + mset (unused used xs)"
      by (simp only: unused_def mset_map mset_filter case_prod_beta image_mset_union)
    finally show ?thesis .
  qed
  ultimately show ?thesis by simp
qed

end
