(* ===== verification/Report_Provider.thy ===== *)
theory Report_Provider
  imports Document_Comparison Merged_Documents
begin

text \<open>
  \<open>grok_report_provider.py\<close>: the draft, the final document and the editor's suggestions, with the checks every response
  of the model passes.

  \<^item> The transport is a parameter from a request to its response or failure.  A request is its name and its payload; the
    prompt and the response schema are fixed by the name and do not constrain what comes back.
  \<^item> \<open>rx_loads\<close> is \<open>json.loads\<close> (\<open>None\<close> is \<open>JSONDecodeError\<close>), \<open>rx_repr\<close> the \<open>repr\<close> of a string, \<open>rx_nfc\<close> the NFC form and
    \<open>rx_alnum\<close> the characters of \<open>str.isalnum()\<close> beyond ASCII.
\<close>

section \<open>Values\<close>

record report_anchor =
  ry_id :: uuid
  ry_text :: ustr

datatype draft_kind = DK_HEADING | DK_PARAGRAPH

fun draft_kind_value :: "draft_kind \<Rightarrow> ustr" where
  "draft_kind_value DK_HEADING = u ''heading''"
| "draft_kind_value DK_PARAGRAPH = u ''paragraph''"

record grounded_block =
  gb_id :: ustr
  gb_kind :: draft_kind
  gb_text :: ustr
  gb_anchors :: "uuid list"
  gb_level :: "json option" \<comment> \<open>a JSON value equal to 1, 2 or 3\<close>

datatype suggestion_kind = SK_ADD | SK_EDIT | SK_REMOVE

fun suggestion_kind_value :: "suggestion_kind \<Rightarrow> ustr" where
  "suggestion_kind_value SK_ADD = u ''add''"
| "suggestion_kind_value SK_EDIT = u ''edit''"
| "suggestion_kind_value SK_REMOVE = u ''remove''"

record edit_suggestion =
  es_kind :: suggestion_kind
  es_anchor :: uuid
  es_target :: ustr
  es_text :: ustr
  es_rationale :: ustr

record pipeline_result =
  pr_draft :: "grounded_block list"
  pr_final :: "grounded_block list"
  pr_suggestions :: "edit_suggestion list"

record claim_context =
  cc_block :: grounded_block
  cc_anchors :: "report_anchor list"

record report_request =
  rq_name :: ustr
  rq_payload :: json

record report_provider =
  rx_transport :: "report_request \<Rightarrow> app_error + (ustr \<times> json) list"
  rx_loads :: "ustr \<Rightarrow> json option"
  rx_repr :: "ustr \<Rightarrow> ustr"
  rx_nfc :: "ustr \<Rightarrow> ustr"
  rx_alnum :: "nat \<Rightarrow> bool"
  rx_similarity :: "ustr \<Rightarrow> ustr \<Rightarrow> rat"

definition provider_failure :: "string \<Rightarrow> bool \<Rightarrow> app_error" where
  "provider_failure code retryable = GenerationProviderFailure (u code) retryable"

definition malformed_output :: app_error where
  "malformed_output = provider_failure ''grok_report_malformed_output'' False"

section \<open>The JSON of blocks and suggestions\<close>

definition editor_json :: "grounded_block \<Rightarrow> json" where
  "editor_json b =
     JObj ([(u ''id'', JStr (gb_id b)), (u ''type'', JStr (draft_kind_value (gb_kind b))),
        (u ''text'', JStr (py_strip (gb_text b @ [32] @ ustr_join [32] (map (\<lambda>i. u ''[RAG:'' @ uuid_text i @ u '']'') (gb_anchors b))))),
        (u ''tag'', JStr (u ''RAG''))] @
       (if gb_kind b = DK_HEADING then [(u ''level'', case gb_level b of None \<Rightarrow> JInt 1 | Some l \<Rightarrow> if json_falsy l then JInt 1 else l)] else []))"

definition block_payload :: "grounded_block \<Rightarrow> (ustr \<times> json) list" where
  "block_payload b =
     [(u ''type'', JStr (draft_kind_value (gb_kind b))), (u ''level'', case gb_level b of None \<Rightarrow> JNull | Some l \<Rightarrow> l),
      (u ''text'', JStr (gb_text b)), (u ''source_anchor_ids'', JList (map (\<lambda>i. JStr (uuid_text i)) (gb_anchors b)))]"

text \<open>\<open>GrokEditSuggestion.comparison_key\<close>: \<open>None\<close> is the \<open>UnicodeEncodeError\<close> of a surrogate.\<close>

definition suggestion_material :: "edit_suggestion \<Rightarrow> json" where
  "suggestion_material s =
     JObj [(u ''kind'', JStr (suggestion_kind_value (es_kind s))), (u ''source_anchor_id'', JStr (uuid_text (es_anchor s))),
       (u ''target_block_id'', JStr (es_target s)), (u ''suggested_text'', JStr (es_text s)), (u ''rationale'', JStr (es_rationale s))]"

definition suggestion_key :: "(nat list \<Rightarrow> ustr) \<Rightarrow> edit_suggestion \<Rightarrow> ustr option" where
  "suggestion_key sha256 s = map_option sha256 (utf8 (dump (suggestion_material s)))"

section \<open>Checks\<close>

definition validate_anchors :: "report_provider \<Rightarrow> report_anchor list \<Rightarrow> app_error + report_anchor list" where
  "validate_anchors x as =
     require (as \<noteq> []) (provider_failure ''grok_report_no_anchors'' False)
     (require (distinct (map ry_id as)) (provider_failure ''grok_report_duplicate_anchor'' False)
     (require (list_all (\<lambda>a. assess_source_anchor (rx_nfc x) (ry_text a) None (u ''text_line'') = None) as)
        (provider_failure ''grok_report_unsafe_anchor'' False)
     (require (\<not> list_ex (\<lambda>a. is_instruction_like (rx_alnum x) (ry_text a)) as)
        (provider_failure ''grok_report_source_prompt_injection'' False) (Inr as))))"

text \<open>The texts of the output messages.\<close>

definition part_text :: "json \<Rightarrow> ustr option" where
  "part_text p = Option.bind (json_object p) (\<lambda>kvs. if get_key kvs (u ''type'') = Some (JStr (u ''output_text'')) then get_str kvs (u ''text'') else None)"

definition item_texts :: "json \<Rightarrow> ustr list" where
  "item_texts item =
     (case json_object item of
        None \<Rightarrow> []
      | Some kvs \<Rightarrow>
          if get_key kvs (u ''type'') \<noteq> Some (JStr (u ''message'')) then []
          else (case Option.bind (get_key kvs (u ''content'')) json_list of None \<Rightarrow> [] | Some parts \<Rightarrow> List.map_filter part_text parts))"

definition response_json :: "report_provider \<Rightarrow> (ustr \<times> json) list \<Rightarrow> app_error + (ustr \<times> json) list" where
  "response_json x response =
     require (get_key response (u ''status'') = Some (JStr (u ''completed''))) (provider_failure ''grok_report_incomplete_response'' True)
     (case Option.bind (get_key response (u ''output'')) json_list of
        None \<Rightarrow> Inl (provider_failure ''grok_report_malformed_response'' False)
      | Some output \<Rightarrow> (case concat (map item_texts output) of
          [t] \<Rightarrow> (case Option.bind (rx_loads x t) json_object of None \<Rightarrow> Inl malformed_output | Some obj \<Rightarrow> Inr obj)
        | _ \<Rightarrow> Inl (provider_failure ''grok_report_malformed_response'' False)))"

text \<open>\<open>value in {...}\<close>: a list or an object is not hashable.\<close>

definition hashable :: "json option \<Rightarrow> bool" where
  "hashable v \<longleftrightarrow> (case v of Some (JList _) \<Rightarrow> False | Some (JObj _) \<Rightarrow> False | _ \<Rightarrow> True)"

definition unhashable :: app_error where
  "unhashable = DomainError (PyTypeError (u ''unhashable type''))"

definition parse_kind :: "json option \<Rightarrow> draft_kind option" where
  "parse_kind v = (if v = Some (JStr (u ''heading'')) then Some DK_HEADING else if v = Some (JStr (u ''paragraph'')) then Some DK_PARAGRAPH else None)"

text \<open>\<open>isinstance(value, str) and value.strip()\<close>, stripped.\<close>

definition filled_text :: "json option \<Rightarrow> ustr option" where
  "filled_text v = (case Option.bind v json_string of None \<Rightarrow> None | Some t \<Rightarrow> if py_strip t = [] then None else Some (py_strip t))"

definition kept_level :: "json option \<Rightarrow> json option" where
  "kept_level v = (if heading_level v = None then None else v)"

definition lookup_anchor :: "report_provider \<Rightarrow> (ustr \<times> report_anchor) list \<Rightarrow> json \<Rightarrow> app_error + uuid" where
  "lookup_anchor x known v =
     (case map_of known (py_str (rx_repr x) v) of None \<Rightarrow> Inl (provider_failure ''grok_report_foreign_anchor'' False) | Some a \<Rightarrow> Inr (ry_id a))"

definition parse_block :: "report_provider \<Rightarrow> (ustr \<times> report_anchor) list \<Rightarrow> nat \<times> json \<Rightarrow> app_error + grounded_block" where
  "parse_block x known raw =
     (case json_object (snd raw) of
        None \<Rightarrow> Inl malformed_output
      | Some kvs \<Rightarrow>
          let kind = get_key kvs (u ''type''); level = get_key kvs (u ''level'') in
          require (hashable kind) unhashable
          (case (parse_kind kind, filled_text (get_key kvs (u ''text''))) of
             (Some k, Some t) \<Rightarrow>
               (case Option.bind (get_key kvs (u ''source_anchor_ids'')) json_list of
                  Some (v # vs) \<Rightarrow>
                    and_then (map_result (lookup_anchor x known) (v # vs)) (\<lambda>as.
                    require (hashable level) unhashable
                    (require (\<not> (k = DK_HEADING \<and> heading_level level = None)) malformed_output
                      (Inr \<lparr>gb_id = u ''ai-'' @ int_text (int (fst raw)), gb_kind = k, gb_text = t, gb_anchors = as, gb_level = kept_level level\<rparr>)))
                | _ \<Rightarrow> Inl (provider_failure ''grok_report_ungrounded_block'' False))
           | _ \<Rightarrow> Inl malformed_output))"

definition parse_blocks :: "report_provider \<Rightarrow> (ustr \<times> json) list \<Rightarrow> (ustr \<times> report_anchor) list \<Rightarrow> app_error + grounded_block list" where
  "parse_blocks x response known =
     and_then (response_json x response) (\<lambda>obj.
     case Option.bind (get_key obj (u ''blocks'')) json_list of
       Some (b # bs) \<Rightarrow>
         require (fst ` set obj = {u ''blocks''}) malformed_output (map_result (parse_block x known) (enumerate 0 (b # bs)))
     | _ \<Rightarrow> Inl malformed_output)"

definition parse_draft_block :: "nat \<times> json \<Rightarrow> app_error + grounded_block" where
  "parse_draft_block raw =
     (case json_object (snd raw) of
        None \<Rightarrow> Inl malformed_output
      | Some kvs \<Rightarrow>
          let kind = get_key kvs (u ''type''); level = get_key kvs (u ''level'') in
          require (fst ` set kvs = {u ''type'', u ''level'', u ''text''}) malformed_output
          (require (hashable kind) unhashable
          (case (parse_kind kind, filled_text (get_key kvs (u ''text''))) of
             (Some k, Some t) \<Rightarrow>
               require (\<not> (k = DK_HEADING \<and> \<not> hashable level)) unhashable
               (require (\<not> (k = DK_HEADING \<and> heading_level level = None)) malformed_output
               (require (\<not> (k = DK_PARAGRAPH \<and> level \<noteq> Some JNull)) malformed_output
                 (Inr \<lparr>gb_id = u ''draft-'' @ int_text (int (fst raw)), gb_kind = k, gb_text = t, gb_anchors = [], gb_level = kept_level level\<rparr>)))
           | _ \<Rightarrow> Inl malformed_output)))"

definition parse_draft_blocks :: "report_provider \<Rightarrow> (ustr \<times> json) list \<Rightarrow> app_error + grounded_block list" where
  "parse_draft_blocks x response =
     and_then (response_json x response) (\<lambda>obj.
     case Option.bind (get_key obj (u ''blocks'')) json_list of
       Some (b # bs) \<Rightarrow>
         require (fst ` set obj = {u ''blocks''}) malformed_output (map_result parse_draft_block (enumerate 0 (b # bs)))
     | _ \<Rightarrow> Inl malformed_output)"

definition parse_suggestion_kind :: "json option \<Rightarrow> suggestion_kind option" where
  "parse_suggestion_kind v =
     (if v = Some (JStr (u ''add'')) then Some SK_ADD else if v = Some (JStr (u ''edit'')) then Some SK_EDIT
      else if v = Some (JStr (u ''remove'')) then Some SK_REMOVE else None)"

definition parse_suggestion ::
  "report_provider \<Rightarrow> (ustr \<times> report_anchor) list \<Rightarrow> ustr set \<Rightarrow> json \<Rightarrow> app_error + edit_suggestion" where
  "parse_suggestion x known targets raw =
     (case json_object raw of
        None \<Rightarrow> Inl malformed_output
      | Some kvs \<Rightarrow>
          require (fst ` set kvs = {u ''kind'', u ''source_anchor_id'', u ''target_block_id'', u ''suggested_text'', u ''rationale''})
            malformed_output
          (require (hashable (get_key kvs (u ''kind''))) unhashable
          (case (parse_suggestion_kind (get_key kvs (u ''kind'')),
                 Option.bind (get_key kvs (u ''source_anchor_id'')) (\<lambda>v. map_of known (py_str (rx_repr x) v))) of
             (Some k, Some a) \<Rightarrow>
               (case get_str kvs (u ''target_block_id'') of
                  None \<Rightarrow> Inl (provider_failure ''grok_report_foreign_target_block'' False)
                | Some target \<Rightarrow>
                    require (target \<in> targets) (provider_failure ''grok_report_foreign_target_block'' False)
                    (case (filled_text (get_key kvs (u ''suggested_text'')), filled_text (get_key kvs (u ''rationale''))) of
                       (Some t, Some r) \<Rightarrow> Inr \<lparr>es_kind = k, es_anchor = ry_id a, es_target = target, es_text = t, es_rationale = r\<rparr>
                     | _ \<Rightarrow> Inl malformed_output))
           | _ \<Rightarrow> Inl (provider_failure ''grok_report_foreign_anchor'' False))))"

definition parse_suggestions ::
  "report_provider \<Rightarrow> (ustr \<times> json) list \<Rightarrow> (ustr \<times> report_anchor) list \<Rightarrow> ustr set \<Rightarrow> app_error + edit_suggestion list" where
  "parse_suggestions x response known targets =
     and_then (response_json x response) (\<lambda>obj.
     case Option.bind (get_key obj (u ''suggestions'')) json_list of
       Some (b # bs) \<Rightarrow>
         require (fst ` set obj = {u ''suggestions''}) (provider_failure ''grok_report_no_suggestions'' False)
           (map_result (parse_suggestion x known targets) (b # bs))
     | _ \<Rightarrow> Inl (provider_failure ''grok_report_no_suggestions'' False))"

section \<open>Retrieval for every claim\<close>

definition anchors_per_claim :: nat where
  "anchors_per_claim = 8"

definition rank_for_claim :: "report_provider \<Rightarrow> report_anchor list \<Rightarrow> grounded_block \<Rightarrow> report_anchor list" where
  "rank_for_claim x as b =
     sort_key (\<lambda>a. - rx_similarity x (gb_text b) (ry_text a)) (sort_key (\<lambda>a. uuid_text (ry_id a)) as)"

definition claim_context_of :: "report_provider \<Rightarrow> report_anchor list \<Rightarrow> grounded_block \<Rightarrow> app_error + claim_context" where
  "claim_context_of x as b =
     (let selected = take anchors_per_claim (rank_for_claim x as b) in
      require (selected \<noteq> []) (provider_failure ''grok_report_rag_empty'' False) (Inr \<lparr>cc_block = b, cc_anchors = selected\<rparr>))"

text \<open>\<open>{anchor.id: anchor for context in contexts for anchor in context.anchors}\<close>, in insertion order.\<close>

fun add_anchor :: "report_anchor \<Rightarrow> report_anchor list \<Rightarrow> report_anchor list" where
  "add_anchor a [] = [a]"
| "add_anchor a (b # bs) = (if ry_id b = ry_id a then a # bs else b # add_anchor a bs)"

definition retrieved_anchors :: "claim_context list \<Rightarrow> report_anchor list" where
  "retrieved_anchors contexts = fold add_anchor (concat (map cc_anchors contexts)) []"

definition known_anchors :: "report_anchor list \<Rightarrow> (ustr \<times> report_anchor) list" where
  "known_anchors as = map (\<lambda>a. (uuid_text (ry_id a), a)) as"

section \<open>The pipeline\<close>

definition quote_payload :: "report_anchor list \<Rightarrow> json" where
  "quote_payload as = JList (map (\<lambda>a. JObj [(u ''source_anchor_id'', JStr (uuid_text (ry_id a))), (u ''exact_quote'', JStr (ry_text a))]) as)"

definition draft_request :: "(ustr \<times> json) list \<Rightarrow> (ustr \<times> json) list \<Rightarrow> report_request" where
  "draft_request summary research =
     \<lparr>rq_name = u ''axit_report_draft'', rq_payload = JObj [(u ''summary'', JObj summary), (u ''research'', JObj research)]\<rparr>"

definition final_request :: "grounded_block list \<Rightarrow> claim_context list \<Rightarrow> report_request" where
  "final_request draft contexts =
     \<lparr>rq_name = u ''axit_grounded_final'', rq_payload = JObj
        [(u ''draft'', JList (map (\<lambda>b. JObj (block_payload b)) draft)),
         (u ''claim_rag_contexts'', JList (map (\<lambda>c. JObj [(u ''draft_block_id'', JStr (gb_id (cc_block c))),
            (u ''draft_text'', JStr (gb_text (cc_block c))), (u ''retrieved_source_anchors'', quote_payload (cc_anchors c))]) contexts))]\<rparr>"

definition suggestions_request :: "grounded_block list \<Rightarrow> report_anchor list \<Rightarrow> report_request" where
  "suggestions_request final retrieved =
     \<lparr>rq_name = u ''axit_editor_suggestions'', rq_payload = JObj
        [(u ''final'', JList (map (\<lambda>b. JObj ((u ''target_block_id'', JStr (gb_id b)) # block_payload b)) final)),
         (u ''source_anchors'', quote_payload retrieved)]\<rparr>"

definition paragraph_ids :: "grounded_block list \<Rightarrow> ustr set" where
  "paragraph_ids bs = set (map gb_id (filter (\<lambda>b. gb_kind b = DK_PARAGRAPH) bs))"

text \<open>\<open>GrokReportProvider.generate\<close>\<close>

definition generate_report ::
  "report_provider \<Rightarrow> (ustr \<times> json) list \<Rightarrow> (ustr \<times> json) list \<Rightarrow> report_anchor list \<Rightarrow> app_error + pipeline_result" where
  "generate_report x summary research as =
     and_then (validate_anchors x as) (\<lambda>normalized.
     and_then (rx_transport x (draft_request summary research)) (\<lambda>r1.
     and_then (parse_draft_blocks x r1) (\<lambda>draft.
     and_then (map_result (claim_context_of x normalized) draft) (\<lambda>contexts.
     let retrieved = retrieved_anchors contexts in
     and_then (rx_transport x (final_request draft contexts)) (\<lambda>r2.
     and_then (parse_blocks x r2 (known_anchors retrieved)) (\<lambda>final.
     and_then (rx_transport x (suggestions_request final retrieved)) (\<lambda>r3.
     and_then (parse_suggestions x r3 (known_anchors retrieved) (paragraph_ids final)) (\<lambda>suggestions.
     Inr \<lparr>pr_draft = draft, pr_final = final, pr_suggestions = suggestions\<rparr>))))))))"

section \<open>Edits on request\<close>

text \<open>The ids of the paragraphs of the current document that are not blank.\<close>

definition known_paragraphs :: "report_provider \<Rightarrow> (ustr \<times> json) list list \<Rightarrow> ustr set" where
  "known_paragraphs x blocks =
     set (map (\<lambda>b. py_str (rx_repr x) (case get_key b (u ''id'') of None \<Rightarrow> JNull | Some v \<Rightarrow> v))
       (filter (\<lambda>b. get_key b (u ''type'') = Some (JStr (u ''paragraph'')) \<and>
          py_strip (case get_key b (u ''id'') of None \<Rightarrow> [] | Some v \<Rightarrow> py_str (rx_repr x) v) \<noteq> []) blocks))"

definition edit_request :: "ustr \<Rightarrow> (ustr \<times> json) list list \<Rightarrow> report_anchor list \<Rightarrow> report_request" where
  "edit_request instruction blocks as =
     \<lparr>rq_name = u ''axit_grounded_edit_agent'', rq_payload = JObj
        [(u ''user_instruction'', JStr instruction), (u ''current_document'', JList (map JObj blocks)), (u ''source_anchors'', quote_payload as)]\<rparr>"

definition generate_edit_suggestions ::
  "report_provider \<Rightarrow> ustr \<Rightarrow> (ustr \<times> json) list list \<Rightarrow> report_anchor list \<Rightarrow> app_error + edit_suggestion list" where
  "generate_edit_suggestions x instruction blocks as =
     (let normalized = py_strip instruction in
      require (1 \<le> length normalized \<and> length normalized \<le> 4000) (provider_failure ''grok_edit_instruction_invalid'' False)
      (and_then (validate_anchors x as) (\<lambda>normalized_anchors.
       require (known_paragraphs x blocks \<noteq> {}) (provider_failure ''grok_edit_document_invalid'' False)
       (and_then (rx_transport x (edit_request normalized blocks normalized_anchors)) (\<lambda>response.
        parse_suggestions x response (known_anchors normalized_anchors) (known_paragraphs x blocks))))))"

end
