(* ===== verification/Report_Suggestions.thy ===== *)
theory Report_Suggestions
  imports Report_Provider Citation_Resolver
begin

text \<open>
  \<open>report_suggestions.py\<close>, the table of migrations 0006, 0007, 0009, 0011 and 0018 with its trigger, and
  \<open>grok_edit_agent.py\<close>: proposals to change the report, made by members or by the edit agent, decided by the host.

  \<^item> Arguments the code restricts to a set of words (\<open>kind\<close>, \<open>decision\<close>) have a datatype, so the refusal of other words is
    not in the model.  The row lock of \<open>resolve\<close> makes it one function on the committed state.
  \<^item> References to rows the statement has just read are not checked again.
\<close>

section \<open>The table\<close>

datatype suggestion_origin = O_MEMBER | O_AUTOMATIC

fun suggestion_origin_value :: "suggestion_origin \<Rightarrow> ustr" where
  "suggestion_origin_value O_MEMBER = u ''member''"
| "suggestion_origin_value O_AUTOMATIC = u ''automatic_comparison''"

datatype suggestion_status = SG_OPEN | SG_ACCEPTED | SG_REJECTED

fun suggestion_status_value :: "suggestion_status \<Rightarrow> ustr" where
  "suggestion_status_value SG_OPEN = u ''open''"
| "suggestion_status_value SG_ACCEPTED = u ''accepted''"
| "suggestion_status_value SG_REJECTED = u ''rejected''"

record suggestion_row =
  rs_id :: uuid
  rs_session :: uuid
  rs_author :: uuid
  rs_anchor :: "uuid option"
  rs_target :: "ustr option"
  rs_text :: ustr
  rs_rationale :: ustr
  rs_snapshot :: uuid
  rs_hash :: ustr
  rs_kind :: suggestion_kind
  rs_origin :: suggestion_origin
  rs_key :: "ustr option" \<comment> \<open>\<open>comparison_key\<close>\<close>
  rs_status :: suggestion_status
  rs_resolved_by :: "uuid option"
  rs_created_at :: int
  rs_resolved_at :: "int option"

record suggestion_db = source_db +
  suggestions :: "suggestion_row list"

definition suggestion_checks :: "suggestion_row \<Rightarrow> bool" where
  "suggestion_checks s \<longleftrightarrow>
     1 \<le> length (rs_text s) \<and> length (rs_text s) \<le> 10000 \<and> length (rs_rationale s) \<le> 2000 \<and> is_sha256_hex (rs_hash s) \<and>
     (case rs_target s of None \<Rightarrow> True | Some t \<Rightarrow> 1 \<le> length t \<and> length t \<le> 200) \<and>
     (rs_status s = SG_OPEN \<longleftrightarrow> rs_resolved_by s = None \<and> rs_resolved_at s = None) \<and>
     (case rs_key s of None \<Rightarrow> rs_origin s = O_MEMBER | Some k \<Rightarrow> rs_origin s = O_AUTOMATIC \<and> is_sha256_hex k)"

definition anchor_in_snapshot :: "'z app_db_scheme \<Rightarrow> uuid \<Rightarrow> uuid \<Rightarrow> bool" where
  "anchor_in_snapshot db sn i \<longleftrightarrow>
     list_ex (\<lambda>p. pn_snapshot p = sn \<and> list_ex (\<lambda>a. an_id a = i \<and> an_revision a = pn_revision p \<and> an_run a = pn_run p) (anchors db)) (pinned db)"

text \<open>The trigger \<open>enforce_report_suggestion_provenance\<close>.\<close>

definition suggestion_provenance :: "(nat list \<Rightarrow> ustr) \<Rightarrow> 'z app_db_scheme \<Rightarrow> suggestion_row \<Rightarrow> bool" where
  "suggestion_provenance sha256 db s \<longleftrightarrow>
     (case find (\<lambda>n. sn_id n = rs_snapshot s) (snapshots db) of
        None \<Rightarrow> False
      | Some n \<Rightarrow> sn_session n = rs_session s \<and> complete_report db n \<and>
          rs_hash s = report_content_hash sha256 (hash_of_kind db n SUMMARY) (hash_of_kind db n RESEARCH) \<and>
          (case rs_anchor s of None \<Rightarrow> True | Some i \<Rightarrow> anchor_in_snapshot db (rs_snapshot s) i))"

definition suggestion_storable :: "suggestion_row \<Rightarrow> bool" where
  "suggestion_storable s \<longleftrightarrow> storable_text (rs_text s) \<and> storable_text (rs_rationale s) \<and>
     (case rs_target s of None \<Rightarrow> True | Some t \<Rightarrow> storable_text t)"

text \<open>The key of the partial unique index and of the \<open>ON CONFLICT\<close> clause.\<close>

definition same_comparison :: "suggestion_row \<Rightarrow> suggestion_row \<Rightarrow> bool" where
  "same_comparison s t \<longleftrightarrow> rs_key s \<noteq> None \<and> rs_key t = rs_key s \<and> rs_snapshot t = rs_snapshot s"

text \<open>\<open>INSERT ... ON CONFLICT DO NOTHING\<close> on that key; the flag says whether a row was inserted.\<close>

definition insert_suggestion ::
  "(nat list \<Rightarrow> ustr) \<Rightarrow> suggestion_row \<Rightarrow> 'z suggestion_db_scheme \<Rightarrow> app_error + bool \<times> 'z suggestion_db_scheme" where
  "insert_suggestion sha256 s db =
     require (suggestion_storable s) (DataError (u ''PostgreSQL text fields cannot contain NUL''))
     (require (suggestion_provenance sha256 db s) (PgError RaiseException)
     (require (suggestion_checks s) (PgError CheckViolation)
     (if list_ex (same_comparison s) (suggestions db) then Inr (False, db)
      else require (fresh rs_id s (suggestions db)) (PgError UniqueViolation)
        (Inr (True, db\<lparr>suggestions := suggestions db @ [s]\<rparr>)))))"

section \<open>The service\<close>

record suggestion_draws =
  sgd_id :: uuid
  sgd_now :: int
  sgd_event :: activity_draws

record suggestion_content =
  sgc_kind :: suggestion_kind
  sgc_text :: ustr
  sgc_rationale :: ustr
  sgc_anchor :: "uuid option"
  sgc_target :: "ustr option"

definition suggestion_member :: "'z app_db_scheme \<Rightarrow> uuid \<Rightarrow> uuid \<Rightarrow> app_error + uuid" where
  "suggestion_member db sid actor =
     (case member_session db actor sid of
        None \<Rightarrow> Inl (ReportSuggestionAccessError (u ''talk session is unavailable''))
      | Some s \<Rightarrow> Inr (ts_room s))"

definition normalized_content :: "suggestion_content \<Rightarrow> suggestion_content" where
  "normalized_content c =
     c\<lparr>sgc_text := py_strip (sgc_text c), sgc_rationale := py_strip (sgc_rationale c),
       sgc_target := (case sgc_target c of None \<Rightarrow> None | Some t \<Rightarrow> if t = [] then None else Some (py_strip t))\<rparr>"

definition content_valid :: "suggestion_content \<Rightarrow> bool" where
  "content_valid c \<longleftrightarrow>
     \<not> (\<not> (1 \<le> length (sgc_text c) \<and> length (sgc_text c) \<le> 10000) \<or> length (sgc_rationale c) > 2000 \<or>
        (case sgc_target c of None \<Rightarrow> False | Some t \<Rightarrow> t \<noteq> [] \<and> length t > 200))"

definition member_suggestion :: "suggestion_draws \<Rightarrow> uuid \<Rightarrow> uuid \<Rightarrow> report_identity \<Rightarrow> suggestion_content \<Rightarrow> suggestion_row" where
  "member_suggestion d sid actor report c =
     \<lparr>rs_id = sgd_id d, rs_session = sid, rs_author = actor, rs_anchor = sgc_anchor c, rs_target = sgc_target c, rs_text = sgc_text c,
      rs_rationale = sgc_rationale c, rs_snapshot = ri_snapshot report, rs_hash = ri_hash report, rs_kind = sgc_kind c,
      rs_origin = O_MEMBER, rs_key = None, rs_status = SG_OPEN, rs_resolved_by = None, rs_created_at = sgd_now d, rs_resolved_at = None\<rparr>"

definition create_suggestion_body ::
  "(nat list \<Rightarrow> ustr) \<Rightarrow> suggestion_draws \<Rightarrow> uuid \<Rightarrow> uuid \<Rightarrow> suggestion_content \<Rightarrow> (app_error, suggestion_row, 'z suggestion_db_scheme) body" where
  "create_suggestion_body sha256 d sid actor c db =
     and_then (suggestion_member db sid actor) (\<lambda>room.
     case load_report_identity sha256 db sid of
       None \<Rightarrow> Inl (ReportSuggestionStateError (u ''integrated report is unavailable''))
     | Some report \<Rightarrow>
         require (case sgc_anchor c of None \<Rightarrow> True | Some i \<Rightarrow> anchor_in_snapshot db (ri_snapshot report) i)
           (ReportSuggestionAccessError (u ''source anchor is unavailable''))
         (let row = member_suggestion d sid actor report c in
          and_then (insert_suggestion sha256 row db) (\<lambda>(_, db1).
          and_then (record_event (sgd_event d) (u ''suggestion.created'') [(''suggestion_id'', IUuid (sgd_id d))] actor SC_SESSION None
            (Some room) (Some sid) (u ''suggestion'') (sgd_id d)
            [(Some (u ''kind''), MStr (suggestion_kind_value (sgc_kind c))), (Some (u ''origin''), MStr (u ''member'')),
             (Some (u ''status''), MStr (u ''open''))] [] db1) (\<lambda>db2.
          Inr (row, db2)))))"

definition create_suggestion ::
  "(nat list \<Rightarrow> ustr) \<Rightarrow> suggestion_draws \<Rightarrow> uuid \<Rightarrow> uuid \<Rightarrow> suggestion_content \<Rightarrow> 'z suggestion_db_scheme \<Rightarrow>
   (app_error + suggestion_row) \<times> 'z suggestion_db_scheme" where
  "create_suggestion sha256 d sid actor c db =
     (let c' = normalized_content c in
      if \<not> content_valid c' then (Inl (ValueError (u ''suggestion content is invalid'')), db)
      else transaction (create_suggestion_body sha256 d sid actor c') db)"

definition list_suggestions :: "'z suggestion_db_scheme \<Rightarrow> uuid \<Rightarrow> uuid \<Rightarrow> app_error + suggestion_row list" where
  "list_suggestions db sid actor =
     and_then (suggestion_member db sid actor) (\<lambda>_.
     Inr (sort_key rs_created_at (sort_key rs_id (filter (\<lambda>s. rs_session s = sid) (suggestions db)))))"

datatype decision = ACCEPT | REJECT

fun decided_status :: "decision \<Rightarrow> suggestion_status" where
  "decided_status ACCEPT = SG_ACCEPTED"
| "decided_status REJECT = SG_REJECTED"

definition decide :: "decision \<Rightarrow> uuid \<Rightarrow> int \<Rightarrow> suggestion_row \<Rightarrow> suggestion_row" where
  "decide x actor now s = s\<lparr>rs_status := decided_status x, rs_resolved_by := Some actor, rs_resolved_at := Some now\<rparr>"

definition resolve_suggestion_body ::
  "suggestion_draws \<Rightarrow> uuid \<Rightarrow> uuid \<Rightarrow> decision \<Rightarrow> (app_error, suggestion_row, 'z suggestion_db_scheme) body" where
  "resolve_suggestion_body d i actor x db =
     (let denied = Inl (ReportSuggestionAccessError (u ''host permission is required'')) in
      case find (\<lambda>s. rs_id s = i) (suggestions db) of
        None \<Rightarrow> denied
      | Some s \<Rightarrow> (case find_session db (rs_session s) of
          None \<Rightarrow> denied
        | Some t \<Rightarrow>
            if ts_host t \<noteq> actor \<or> \<not> is_member db (ts_room t) actor then denied
            else require (rs_status s = SG_OPEN) (ReportSuggestionStateError (u ''suggestion is already resolved''))
              (let db1 = db\<lparr>suggestions := update_rows (\<lambda>s. rs_id s = i) (decide x actor (sgd_now d)) (suggestions db)\<rparr> in
               and_then (record_event (sgd_event d) (u ''suggestion.'' @ suggestion_status_value (decided_status x))
                 [(''suggestion_id'', IUuid i), (''version'', IInt 1)] actor SC_SESSION None (Some (ts_room t)) (Some (rs_session s))
                 (u ''suggestion'') i
                 [(Some (u ''status''), MStr (suggestion_status_value (decided_status x))), (Some (u ''version''), MInt 1)] [] db1)
               (\<lambda>db2. Inr (decide x actor (sgd_now d) s, db2)))))"

definition resolve_suggestion ::
  "suggestion_draws \<Rightarrow> uuid \<Rightarrow> uuid \<Rightarrow> decision \<Rightarrow> 'z suggestion_db_scheme \<Rightarrow> (app_error + suggestion_row) \<times> 'z suggestion_db_scheme" where
  "resolve_suggestion d i actor x db = transaction (resolve_suggestion_body d i actor x) db"

section \<open>Selected anchors\<close>

text \<open>\<open>_select_report_anchors\<close>: one anchor of every document in turn.\<close>

definition per_document_limit :: "nat option \<Rightarrow> snapshot_document list \<Rightarrow> nat" where
  "per_document_limit limit docs = (case limit of Some n \<Rightarrow> n | None \<Rightarrow> fold max (map (\<lambda>x. length (sx_anchors x)) docs) 0)"

definition select_report_anchors :: "snapshot_document list \<Rightarrow> nat \<Rightarrow> nat option \<Rightarrow> app_error + report_anchor list" where
  "select_report_anchors docs max_anchors per_document =
     require (\<not> (max_anchors < 1 \<or> (case per_document of None \<Rightarrow> False | Some n \<Rightarrow> n < 1)))
       (ValueError (u ''report anchor limits must be positive''))
     (let nonempty = filter (\<lambda>x. sx_anchors x \<noteq> []) docs in
      Inr (take max_anchors (concat (map (\<lambda>k. List.map_filter (\<lambda>x.
        if k < length (sx_anchors x) then Some \<lparr>ry_id = fst (sx_anchors x ! k), ry_text = snd (sx_anchors x ! k)\<rparr> else None) nonempty)
        [0..<per_document_limit per_document nonempty]))))"

section \<open>The edit agent\<close>

definition document_payload :: "block \<Rightarrow> (ustr \<times> json) list" where
  "document_payload b =
     [(u ''id'', JStr (block_id b)), (u ''type'', JStr (block_type b)), (u ''text'', JStr (block_text b))] @
     (case block_tag b of None \<Rightarrow> [] | Some g \<Rightarrow> [(u ''tag'', JStr g)]) @
     (case b of HeadingBlock i l t g \<Rightarrow> [(u ''level'', JInt l)] | _ \<Rightarrow> [])"

definition bounded_anchors :: "'z source_db_scheme \<Rightarrow> uuid \<Rightarrow> app_error + report_anchor list" where
  "bounded_anchors db sn =
     and_then (select_report_anchors (load_snapshot_documents db sn) 200 (Some 40)) (\<lambda>selected.
     require (selected \<noteq> []) (ReportSuggestionStateError (u ''source anchors are unavailable'')) (Inr selected))"

definition merged_document_for_edit :: "report_provider \<Rightarrow> uuid \<Rightarrow> uuid \<Rightarrow> 'z source_db_scheme \<Rightarrow> app_error + document_state" where
  "merged_document_for_edit x sid actor db =
     (case get_document (rx_repr x) sid actor db of
        Inl (MergedDocumentAccessError _) \<Rightarrow> Inl (ReportSuggestionStateError (u ''merged document is unavailable''))
      | r \<Rightarrow> r)"

definition edit_proposals ::
  "report_provider \<Rightarrow> uuid \<Rightarrow> uuid \<Rightarrow> ustr \<Rightarrow> 'z source_db_scheme \<Rightarrow> app_error + edit_suggestion list" where
  "edit_proposals x sid actor instruction db =
     (let normalized = py_strip instruction in
      require (1 \<le> length normalized \<and> length normalized \<le> 4000) (ValueError (u ''edit instruction is invalid''))
      (and_then (suggestion_member db sid actor) (\<lambda>_.
       and_then (merged_document_for_edit x sid actor db) (\<lambda>document.
       and_then (bounded_anchors db (mo_snapshot document)) (\<lambda>as.
       generate_edit_suggestions x normalized (map document_payload (mo_blocks document)) as)))))"

definition content_of_edit :: "edit_suggestion \<Rightarrow> suggestion_content" where
  "content_of_edit s = \<lparr>sgc_kind = es_kind s, sgc_text = es_text s, sgc_rationale = es_rationale s, sgc_anchor = Some (es_anchor s),
     sgc_target = Some (es_target s)\<rparr>"

text \<open>
  Every suggestion is created in a transaction of its own: those before a failure stay.  \<open>env\<close> is what others commit before
  each of them.
\<close>

fun create_all ::
  "(nat list \<Rightarrow> ustr) \<Rightarrow> (nat \<Rightarrow> suggestion_draws) \<Rightarrow> (nat \<Rightarrow> 'z suggestion_db_scheme \<Rightarrow> 'z suggestion_db_scheme) \<Rightarrow> uuid \<Rightarrow> uuid \<Rightarrow> nat \<Rightarrow>
   edit_suggestion list \<Rightarrow> 'z suggestion_db_scheme \<Rightarrow> (app_error + suggestion_row list) \<times> 'z suggestion_db_scheme" where
  "create_all sha256 d env sid actor k [] db = (Inr [], db)"
| "create_all sha256 d env sid actor k (s # ss) db =
     (case create_suggestion sha256 (d k) sid actor (content_of_edit s) (env k db) of
        (Inl e, db1) \<Rightarrow> (Inl e, db1)
      | (Inr row, db1) \<Rightarrow>
          (case create_all sha256 d env sid actor (Suc k) ss db1 of
             (Inl e, db2) \<Rightarrow> (Inl e, db2)
           | (Inr rows, db2) \<Rightarrow> (Inr (row # rows), db2)))"

text \<open>\<open>GrokEditAgentService.run\<close>\<close>

definition run_edit_agent ::
  "(nat list \<Rightarrow> ustr) \<Rightarrow> report_provider \<Rightarrow> (nat \<Rightarrow> suggestion_draws) \<Rightarrow> (nat \<Rightarrow> 'z suggestion_db_scheme \<Rightarrow> 'z suggestion_db_scheme) \<Rightarrow>
   uuid \<Rightarrow> uuid \<Rightarrow> ustr \<Rightarrow> 'z suggestion_db_scheme \<Rightarrow> (app_error + suggestion_row list) \<times> 'z suggestion_db_scheme" where
  "run_edit_agent sha256 x d env sid actor instruction db =
     (case edit_proposals x sid actor instruction db of
        Inl e \<Rightarrow> (Inl e, db)
      | Inr ss \<Rightarrow> create_all sha256 d env sid actor 0 ss db)"

end
