(* ===== verification/Report_Grounding.thy ===== *)
theory Report_Grounding
  imports Report_Suggestions Merged_Properties
begin

text \<open>
  What a comparison matches, and what the report provider and the edit agent may cite.  Both sources of suggestions keep one
  interface, \<open>anchored_proposals\<close>: a suggestion names one of the anchors it was given.
\<close>

section \<open>Comparisons\<close>

definition comparable :: "embedding \<Rightarrow> 'a comparison_anchor_scheme \<Rightarrow> 'a comparison_anchor_scheme \<Rightarrow> bool" where
  "comparable e l r \<longleftrightarrow> set (text_buckets e (ca_text l)) \<inter> set (text_buckets e (ca_text r)) \<noteq> {}"

definition anchor_score :: "embedding \<Rightarrow> 'a comparison_anchor_scheme \<Rightarrow> 'a comparison_anchor_scheme \<Rightarrow> rat" where
  "anchor_score e l r = em_similarity e (ca_text l) (ca_text r)"

lemma compare_anchor_sets_Inr:
  assumes "compare_anchor_sets e lid rid left right t = Inr c"
  obtains picked where
    "picked = pick_matches {} {} (sort_candidates (map (\<lambda>p. (pair_score e left right p, p))
       (filter (\<lambda>p. pair_score e left right p \<ge> t) (candidate_pairs e left right))))"
    "mset (dc_matches c) = mset (map (match_of e left right) picked)"
    "dc_left_only c = unused (map (\<lambda>(s, i, j). i) picked) left" "dc_right_only c = unused (map (\<lambda>(s, i, j). j) picked) right"
  using assms by (auto simp: compare_anchor_sets_def and_then_Inr scan_pairs_Inr Let_def)

lemma picked_match:
  assumes "picked = pick_matches {} {} (sort_candidates (map (\<lambda>p. (pair_score e left right p, p))
       (filter (\<lambda>p. pair_score e left right p \<ge> t) (candidate_pairs e left right))))" "(s, i, j) \<in> set picked"
  shows "i < length left" "j < length right" "comparable e (left ! i) (right ! j)" "s = anchor_score e (left ! i) (right ! j)" "t \<le> s"
proof -
  from assms have "(s, i, j) \<in> (\<lambda>p. (pair_score e left right p, p)) ` {p \<in> set (candidate_pairs e left right). pair_score e left right p \<ge> t}"
    using pick_matches_subset by fastforce
  then show "i < length left" "j < length right" "comparable e (left ! i) (right ! j)" "s = anchor_score e (left ! i) (right ! j)" "t \<le> s"
    by (auto simp: set_candidate_pairs comparable_def pair_score_def anchor_score_def)
qed

text \<open>
  C35: A comparison is a greedy matching.  The anchors of each side are those of the matches and the unmatched ones, each
  anchor once; a match pairs two anchors that share a dominant bucket and reach the threshold, with the rounded score and the
  relation of the score; and two anchors that share a bucket and reach the threshold are never both free of a match at least as
  similar: one of them is in a match with an equal or higher score.
\<close>

theorem comparison_is_greedy_matching:
  assumes "compare_anchor_sets e lid rid left right t = Inr c"
  shows "mset left = mset (map cm_left (dc_matches c)) + mset (dc_left_only c) \<and>
    mset right = mset (map cm_right (dc_matches c)) + mset (dc_right_only c) \<and>
    (\<forall>m \<in> set (dc_matches c). comparable e (cm_left m) (cm_right m) \<and> t \<le> anchor_score e (cm_left m) (cm_right m) \<and>
       cm_similarity m = em_round e (anchor_score e (cm_left m) (cm_right m)) \<and>
       (cm_relation m = DUPLICATE \<longleftrightarrow> anchor_score e (cm_left m) (cm_right m) \<ge> duplicate_threshold)) \<and>
    (\<forall>l \<in> set left. \<forall>r \<in> set right. comparable e l r \<and> t \<le> anchor_score e l r \<longrightarrow>
       (\<exists>m \<in> set (dc_matches c). (cm_left m = l \<or> cm_right m = r) \<and> anchor_score e l r \<le> anchor_score e (cm_left m) (cm_right m)))"
proof -
  from assms obtain picked where p: "picked = pick_matches {} {} (sort_candidates (map (\<lambda>p. (pair_score e left right p, p))
       (filter (\<lambda>p. pair_score e left right p \<ge> t) (candidate_pairs e left right))))"
    and m: "mset (dc_matches c) = mset (map (match_of e left right) picked)"
    and only: "dc_left_only c = unused (map (\<lambda>(s, i, j). i) picked) left" "dc_right_only c = unused (map (\<lambda>(s, i, j). j) picked) right"
    by (rule compare_anchor_sets_Inr)
  note pm = picked_match [OF p]
  have one: "distinct (map (\<lambda>(s, i, j). i) picked)" "distinct (map (\<lambda>(s, i, j). j) picked)"
    using pick_matches_one_to_one unfolding p by blast+
  have sm: "set (dc_matches c) = match_of e left right ` set picked" using m by (metis mset_eq_setD set_map)
  have "mset (map cm_left (dc_matches c)) = mset (map ((!) left) (map (\<lambda>(s, i, j). i) picked))"
    "mset (map cm_right (dc_matches c)) = mset (map ((!) right) (map (\<lambda>(s, i, j). j) picked))"
    unfolding mset_map m by (auto simp: image_mset.compositionality match_of_def comp_def case_prod_beta)
  then have sides: "mset left = mset (map cm_left (dc_matches c)) + mset (dc_left_only c)"
    "mset right = mset (map cm_right (dc_matches c)) + mset (dc_right_only c)"
    unfolding only using mset_unused [OF one(1), of left] mset_unused [OF one(2), of right] pm(1,2) by fastforce+
  have each: "\<forall>m \<in> set (dc_matches c). comparable e (cm_left m) (cm_right m) \<and> t \<le> anchor_score e (cm_left m) (cm_right m) \<and>
       cm_similarity m = em_round e (anchor_score e (cm_left m) (cm_right m)) \<and>
       (cm_relation m = DUPLICATE \<longleftrightarrow> anchor_score e (cm_left m) (cm_right m) \<ge> duplicate_threshold)"
    unfolding sm using pm(3-5) by (auto simp: match_of_def split: if_splits)
  have blocked: "\<exists>m \<in> set (dc_matches c). (cm_left m = l \<or> cm_right m = r) \<and> anchor_score e l r \<le> anchor_score e (cm_left m) (cm_right m)"
    if lr: "l \<in> set left" "r \<in> set right" "comparable e l r" "t \<le> anchor_score e l r" for l r
  proof -
    obtain i j where ij: "i < length left" "left ! i = l" "j < length right" "right ! j = r" using lr(1,2) by (auto simp: in_set_conv_nth)
    then have "(i, j) \<in> set (candidate_pairs e left right)" "pair_score e left right (i, j) = anchor_score e l r"
      using lr(3) by (simp_all add: set_candidate_pairs comparable_def pair_score_def anchor_score_def)
    then have "(anchor_score e l r, i, j) \<in> set (sort_candidates (map (\<lambda>p. (pair_score e left right p, p))
       (filter (\<lambda>p. pair_score e left right p \<ge> t) (candidate_pairs e left right))))" using lr(4) by force
    from pick_matches_blocks [OF sorted_candidates this, of "{}" "{}"] obtain s' i' j' where
      q: "(s', i', j') \<in> set picked" "anchor_score e l r \<le> s'" "i' = i \<or> j' = j" unfolding p by auto
    have "match_of e left right (s', i', j') \<in> set (dc_matches c)" using q(1) sm by blast
    then show ?thesis using q pm(4) [OF q(1)] ij by (intro bexI [of _ "match_of e left right (s', i', j')"]) (auto simp: match_of_def)
  qed
  show ?thesis by (intro conjI sides each) (intro ballI impI, elim conjE, rule blocked)
qed

section \<open>What a suggestion may cite\<close>

locale anchored_proposals =
  fixes propose :: "'q \<Rightarrow> report_anchor list \<Rightarrow> app_error + edit_suggestion list"
  assumes anchored: "propose q as = Inr ss \<Longrightarrow> s \<in> set ss \<Longrightarrow> es_anchor s \<in> ry_id ` set as"
begin

lemma anchored_in:
  "propose q as = Inr ss \<Longrightarrow> s \<in> set ss \<Longrightarrow> ry_id ` set as \<subseteq> X \<Longrightarrow> es_anchor s \<in> X"
  by (rule subsetD, assumption, rule anchored)

end



section \<open>The provider\<close>

lemma validate_anchors_Inr: "validate_anchors x as = Inr bs \<longleftrightarrow> as \<noteq> [] \<and> distinct (map ry_id as) \<and>
    list_all (\<lambda>a. assess_source_anchor (rx_nfc x) (ry_text a) None (u ''text_line'') = None) as \<and>
    \<not> list_ex (\<lambda>a. is_instruction_like (rx_alnum x) (ry_text a)) as \<and> bs = as"
  by (auto simp: validate_anchors_def)

lemma known_anchor_ids: "(ry_id \<circ> snd) ` set (known_anchors as) = ry_id ` set as"
  by (force simp: known_anchors_def)

lemma filled_text_Some: "filled_text v = Some t \<Longrightarrow> t \<noteq> []"
  by (auto simp: filled_text_def split: option.splits if_splits)

lemma parse_block_Inr:
  assumes "parse_block x known (k, raw) = Inr b"
  shows "gb_id b = u ''ai-'' @ int_text (int k) \<and> gb_text b \<noteq> [] \<and> gb_anchors b \<noteq> [] \<and>
    set (gb_anchors b) \<subseteq> (ry_id \<circ> snd) ` set known"
proof -
  from assms obtain kvs kd t v vs as where p: "json_object raw = Some kvs" "filled_text (get_key kvs (u ''text'')) = Some t"
    "map_result (lookup_anchor x known) (v # vs) = Inr as" "gb_id b = u ''ai-'' @ int_text (int k)" "gb_text b = t" "gb_anchors b = as"
    unfolding parse_block_def Let_def by (auto simp: and_then_Inr split: option.splits list.splits simp del: map_result.simps u_simps)
  have "i \<in> (ry_id \<circ> snd) ` set known" if i: "i \<in> set as" for i
  proof -
    obtain w where "lookup_anchor x known w = Inr i" using map_result_all [OF p(3) i] by blast
    then show ?thesis by (force simp: lookup_anchor_def dest: map_of_SomeD split: option.splits)
  qed
  moreover have "as \<noteq> []" using map_result_length [OF p(3)] by auto
  ultimately show ?thesis using p filled_text_Some [OF p(2)] by (simp add: subset_iff)
qed

lemma some_list_Inr:
  "(case v of Some (b # bs) \<Rightarrow> f b bs | _ \<Rightarrow> Inl e) = Inr w \<longleftrightarrow> (\<exists>b bs. v = Some (b # bs) \<and> f b bs = Inr w)"
  by (cases v; cases "the v") auto

lemma parse_blocks_Inr:
  assumes "parse_blocks x response known = Inr bs"
  shows "bs \<noteq> []" and "map gb_id bs = map (\<lambda>k. u ''ai-'' @ int_text (int k)) [0..<length bs]"
    and "b \<in> set bs \<Longrightarrow> gb_text b \<noteq> [] \<and> gb_anchors b \<noteq> [] \<and> set (gb_anchors b) \<subseteq> (ry_id \<circ> snd) ` set known"
proof -
  from assms obtain r rs where m: "map_result (parse_block x known) (enumerate 0 (r # rs)) = Inr bs"
    by (auto simp: parse_blocks_def and_then_Inr some_list_Inr simp del: map_result.simps enumerate_simps u_simps)
  then have l: "list_all2 (\<lambda>y b. parse_block x known y = Inr b) (enumerate 0 (r # rs)) bs" by (simp only: map_result_Inr_iff)
  then have len: "length bs = length (r # rs)" by (metis list_all2_lengthD length_enumerate)
  then show "bs \<noteq> []" by auto
  have nth: "parse_block x known (k, (r # rs) ! k) = Inr (bs ! k)" if "k < length bs" for k
    using l that len by (auto simp: list_all2_conv_all_nth nth_enumerate_eq simp del: nth_Cons enumerate_simps)
  show "map gb_id bs = map (\<lambda>k. u ''ai-'' @ int_text (int k)) [0..<length bs]"
    by (rule nth_equalityI) (use parse_block_Inr [OF nth] in \<open>simp_all del: u_simps\<close>)
  show "gb_text b \<noteq> [] \<and> gb_anchors b \<noteq> [] \<and> set (gb_anchors b) \<subseteq> (ry_id \<circ> snd) ` set known" if b: "b \<in> set bs"
  proof -
    obtain k where "k < length bs" "b = bs ! k" using b by (auto simp: in_set_conv_nth)
    then show ?thesis using parse_block_Inr [OF nth] by simp
  qed
qed

lemma parse_suggestions_Inr:
  assumes "parse_suggestions x response known targets = Inr ss"
  shows "ss \<noteq> []" and "s \<in> set ss \<Longrightarrow> es_anchor s \<in> (ry_id \<circ> snd) ` set known \<and> es_target s \<in> targets \<and> es_text s \<noteq> [] \<and> es_rationale s \<noteq> []"
proof -
  from assms obtain r rs where m: "map_result (parse_suggestion x known targets) (r # rs) = Inr ss"
    by (auto simp: parse_suggestions_def and_then_Inr some_list_Inr simp del: map_result.simps enumerate_simps u_simps)
  show "ss \<noteq> []" using map_result_length [OF m] by auto
  show "es_anchor s \<in> (ry_id \<circ> snd) ` set known \<and> es_target s \<in> targets \<and> es_text s \<noteq> [] \<and> es_rationale s \<noteq> []" if s: "s \<in> set ss"
  proof -
    obtain y where "parse_suggestion x known targets y = Inr s" using map_result_all [OF m s] by blast
    then show ?thesis
      by (auto simp: parse_suggestion_def bind_eq_Some_conv dest!: filled_text_Some map_of_SomeD split: option.splits simp del: u_simps)
        (force intro: rev_image_eqI)
  qed
qed

lemma set_add_anchor: "set (add_anchor a bs) \<subseteq> insert a (set bs)"
  by (induction a bs rule: add_anchor.induct) auto

lemma retrieved_anchors_subset: "set (retrieved_anchors cs) \<subseteq> (\<Union>c \<in> set cs. set (cc_anchors c))"
proof -
  have "set (fold add_anchor as bs) \<subseteq> set as \<union> set bs" for as bs
    by (induction as arbitrary: bs) (use set_add_anchor in fastforce)+
  from this [of "concat (map cc_anchors cs)" "[]"] show ?thesis by (simp add: retrieved_anchors_def)
qed

lemma contexts_given:
  assumes "map_result (claim_context_of x as) draft = Inr cs"
  shows "set (retrieved_anchors cs) \<subseteq> set as"
proof -
  have "set (cc_anchors c) \<subseteq> set as" if c: "c \<in> set cs" for c
  proof -
    obtain b where "claim_context_of x as b = Inr c" using map_result_all [OF assms c] by blast
    then show ?thesis by (auto simp: claim_context_of_def Let_def rank_for_claim_def dest!: in_set_takeD)
  qed
  then show ?thesis using retrieved_anchors_subset [of cs] by blast
qed

text \<open>
  C36: A generated report is grounded.  When the provider returns, the anchors it was given are distinct, accepted by the
  quality gate and free of instructions; every block of the final document has text and cites at least one anchor, only anchors
  that were given; the blocks are numbered; and every suggestion has text and a reason, cites an anchor that was given and
  aims at a paragraph of the final document, of whatever the model answered.
\<close>

theorem generated_report_is_grounded:
  assumes "generate_report x summary research as = Inr p"
  shows "distinct (map ry_id as) \<and> (\<forall>a \<in> set as. assess_source_anchor (rx_nfc x) (ry_text a) None (u ''text_line'') = None \<and>
      \<not> is_instruction_like (rx_alnum x) (ry_text a)) \<and>
    map gb_id (pr_final p) = map (\<lambda>k. u ''ai-'' @ int_text (int k)) [0..<length (pr_final p)] \<and> pr_final p \<noteq> [] \<and>
    (\<forall>b \<in> set (pr_final p). gb_text b \<noteq> [] \<and> gb_anchors b \<noteq> [] \<and> set (gb_anchors b) \<subseteq> ry_id ` set as) \<and>
    pr_suggestions p \<noteq> [] \<and>
    (\<forall>s \<in> set (pr_suggestions p). es_text s \<noteq> [] \<and> es_rationale s \<noteq> [] \<and> es_anchor s \<in> ry_id ` set as \<and>
       (\<exists>b \<in> set (pr_final p). gb_kind b = DK_PARAGRAPH \<and> gb_id b = es_target s))"
proof -
  from assms obtain draft cs r2 r3 where g: "validate_anchors x as = Inr as" "map_result (claim_context_of x as) draft = Inr cs"
    "parse_blocks x r2 (known_anchors (retrieved_anchors cs)) = Inr (pr_final p)"
    "parse_suggestions x r3 (known_anchors (retrieved_anchors cs)) (paragraph_ids (pr_final p)) = Inr (pr_suggestions p)"
    by (auto simp: generate_report_def and_then_Inr Let_def validate_anchors_Inr simp del: u_simps)
  have given: "(ry_id \<circ> snd) ` set (known_anchors (retrieved_anchors cs)) \<subseteq> ry_id ` set as"
    using contexts_given [OF g(2)] by (simp only: known_anchor_ids image_mono)
  have blocks: "gb_text b \<noteq> [] \<and> gb_anchors b \<noteq> [] \<and> set (gb_anchors b) \<subseteq> ry_id ` set as" if "b \<in> set (pr_final p)" for b
    using parse_blocks_Inr(3) [OF g(3) that] subset_trans [OF _ given] by simp
  have edits: "es_text s \<noteq> [] \<and> es_rationale s \<noteq> [] \<and> es_anchor s \<in> ry_id ` set as \<and>
      (\<exists>b \<in> set (pr_final p). gb_kind b = DK_PARAGRAPH \<and> gb_id b = es_target s)" if "s \<in> set (pr_suggestions p)" for s
    using parse_suggestions_Inr(2) [OF g(4) that] given by (auto simp: paragraph_ids_def)
  show ?thesis
    using g(1) parse_blocks_Inr(1,2) [OF g(3)] parse_suggestions_Inr(1) [OF g(4)] blocks edits
    by (auto simp: validate_anchors_Inr list_all_iff list_ex_iff simp del: u_simps)
qed

definition report_edits ::
  "report_provider \<times> (ustr \<times> json) list \<times> (ustr \<times> json) list \<Rightarrow> report_anchor list \<Rightarrow> app_error + edit_suggestion list" where
  "report_edits = (\<lambda>(x, summary, research) as. and_then (generate_report x summary research as) (\<lambda>p. Inr (pr_suggestions p)))"


lemma report_edits_anchored:
  assumes "generate_report x summary research as = Inr p" "s \<in> set (pr_suggestions p)"
  shows "es_anchor s \<in> ry_id ` set as"
proof -
  from assms(1) obtain draft cs r3 where g: "map_result (claim_context_of x as) draft = Inr cs"
    "parse_suggestions x r3 (known_anchors (retrieved_anchors cs)) (paragraph_ids (pr_final p)) = Inr (pr_suggestions p)"
    by (auto simp: generate_report_def and_then_Inr Let_def validate_anchors_Inr simp del: u_simps)
  from parse_suggestions_Inr(2) [OF g(2) assms(2)] contexts_given [OF g(1)] show ?thesis by (auto simp only: known_anchor_ids)
qed


interpretation report_source: anchored_proposals report_edits
  by unfold_locales (auto simp: report_edits_def and_then_Inr report_edits_anchored split: prod.splits)




section \<open>The properties at concrete reports\<close>

definition flat_embedding :: embedding where
  "flat_embedding = \<lparr>em_vector = \<lambda>_. [1], em_similarity = \<lambda>l r. 1, em_round = \<lambda>x. x\<rparr>"

text \<open>Two documents with one anchor each, that a constant embedding takes to be equal.\<close>

definition left_hi :: comparison_anchor where
  "left_hi = \<lparr>ca_id = 10, ca_revision = 1, ca_text = u ''hi''\<rparr>"

definition right_hi :: comparison_anchor where
  "right_hi = \<lparr>ca_id = 11, ca_revision = 2, ca_text = u ''hi''\<rparr>"

theorem comparison_is_greedy_matching_witness:
  "\<exists>c. compare_anchor_sets flat_embedding 1 2 [left_hi] [right_hi] 1 = Inr c \<and>
     (\<exists>m \<in> set (dc_matches c). (cm_left m = left_hi \<or> cm_right m = right_hi) \<and> cm_similarity m = 1)"
proof -
  let ?e = flat_embedding
  have v: "validate_comparison 1 2 1 = Inr ()" by (simp add: validate_comparison_def)
  have b: "text_buckets ?e t = [0]" for t by (simp add: text_buckets_def dominant_buckets_def flat_embedding_def)
  have "candidate_pairs ?e [left_hi] [right_hi] = [(0, 0)]"
    by (simp add: candidate_pairs_def possible_matches_def bucket_postings_def b)
  then have "\<exists>c. compare_anchor_sets ?e 1 2 [left_hi] [right_hi] 1 = Inr c"
    by (simp add: compare_anchor_sets_def v left_hi_def right_hi_def max_comparison_anchors_def max_candidate_pairs_def Let_def del: u_simps)
  then obtain c where c: "compare_anchor_sets ?e 1 2 [left_hi] [right_hi] 1 = Inr c" ..
  have "comparable ?e left_hi right_hi" by (simp add: comparable_def b)
  moreover have "anchor_score ?e l r = 1" for l r :: comparison_anchor by (simp add: anchor_score_def flat_embedding_def)
  ultimately show ?thesis using comparison_is_greedy_matching [OF c] c by (fastforce simp: flat_embedding_def)
qed

text \<open>A provider that answers every request with a paragraph or an edit that cites the one anchor it was given.\<close>

definition echo_block :: json where
  "echo_block = JObj [(u ''type'', JStr (u ''paragraph'')), (u ''level'', JNull), (u ''text'', JStr (u ''hi''))]"

definition echo_final :: json where
  "echo_final = JObj [(u ''type'', JStr (u ''paragraph'')), (u ''level'', JNull), (u ''text'', JStr (u ''hi'')),
     (u ''source_anchor_ids'', JList [JStr (uuid_text 36)])]"

definition echo_edit :: "ustr \<Rightarrow> json" where
  "echo_edit target = JObj [(u ''kind'', JStr (u ''add'')), (u ''source_anchor_id'', JStr (uuid_text 36)), (u ''target_block_id'', JStr target),
     (u ''suggested_text'', JStr (u ''hi'')), (u ''rationale'', JStr (u ''hi''))]"

definition echo_loads :: "ustr \<Rightarrow> json option" where
  "echo_loads t =
     (if t = u ''axit_report_draft'' then Some (JObj [(u ''blocks'', JList [echo_block])])
      else if t = u ''axit_grounded_final'' then Some (JObj [(u ''blocks'', JList [echo_final])])
      else if t = u ''axit_editor_suggestions'' then Some (JObj [(u ''suggestions'', JList [echo_edit (u ''ai-0'')])])
      else Some (JObj [(u ''suggestions'', JList [echo_edit (u ''p'')])]))"

definition echo_response :: "ustr \<Rightarrow> (ustr \<times> json) list" where
  "echo_response t = [(u ''status'', JStr (u ''completed'')), (u ''output'', JList [JObj [(u ''type'', JStr (u ''message'')),
     (u ''content'', JList [JObj [(u ''type'', JStr (u ''output_text'')), (u ''text'', JStr t)]])]])]"

definition echo_provider :: report_provider where
  "echo_provider = \<lparr>rx_transport = \<lambda>q. Inr (echo_response (rq_name q)), rx_loads = echo_loads, rx_repr = \<lambda>s. s, rx_nfc = \<lambda>s. s,
     rx_alnum = \<lambda>_. False, rx_similarity = \<lambda>s t. 1\<rparr>"

definition hi_anchor :: report_anchor where
  "hi_anchor = \<lparr>ry_id = 36, ry_text = u ''hi''\<rparr>"

lemma echo_validates: "validate_anchors echo_provider [hi_anchor] = Inr [hi_anchor]"
  by (simp add: validate_anchors_def echo_provider_def hi_anchor_def assess_source_anchor_def Let_def pattern_eval
      py_strip_def py_lstrip_def py_rstrip_def py_isspace_def is_control_def ocr_block_types_def)

lemma echo_answers:
  "response_json echo_provider (echo_response (u ''axit_report_draft'')) = Inr [(u ''blocks'', JList [echo_block])]"
  "response_json echo_provider (echo_response (u ''axit_grounded_final'')) = Inr [(u ''blocks'', JList [echo_final])]"
  "response_json echo_provider (echo_response (u ''axit_editor_suggestions'')) = Inr [(u ''suggestions'', JList [echo_edit (u ''ai-0'')])]"
  "response_json echo_provider (echo_response (u ''axit_grounded_edit_agent'')) = Inr [(u ''suggestions'', JList [echo_edit (u ''p'')])]"
  by (simp_all add: response_json_def echo_response_def get_key_def item_texts_def part_text_def get_str_def List.map_filter_def
      echo_provider_def echo_loads_def)

lemma hi_filled: "filled_text (Some (JStr (u ''hi''))) = Some (u ''hi'')"
  by (simp add: filled_text_def py_strip_def py_lstrip_def py_rstrip_def py_isspace_def)

lemma echo_edit_parsed: "parse_suggestion echo_provider (known_anchors [hi_anchor]) {t} (echo_edit t) =
    Inr \<lparr>es_kind = SK_ADD, es_anchor = 36, es_target = t, es_text = u ''hi'', es_rationale = u ''hi''\<rparr>"
proof -
  obtain kvs where o: "json_object (echo_edit t) = Some kvs"
    "fst ` set kvs = {u ''kind'', u ''source_anchor_id'', u ''target_block_id'', u ''suggested_text'', u ''rationale''}"
    and k: "get_key kvs (u ''kind'') = Some (JStr (u ''add''))" "get_key kvs (u ''source_anchor_id'') = Some (JStr (uuid_text 36))"
      "get_str kvs (u ''target_block_id'') = Some t" "get_key kvs (u ''suggested_text'') = Some (JStr (u ''hi''))"
      "get_key kvs (u ''rationale'') = Some (JStr (u ''hi''))"
    by (simp add: echo_edit_def get_key_def get_str_def)
  have "parse_suggestion_kind (Some (JStr (u ''add''))) = Some SK_ADD" by (simp add: parse_suggestion_kind_def)
  moreover have "map_of (known_anchors [hi_anchor]) (py_str (rx_repr echo_provider) (JStr (uuid_text 36))) = Some hi_anchor"
    by (simp add: known_anchors_def hi_anchor_def)
  moreover have "ry_id hi_anchor = 36" by (simp add: hi_anchor_def)
  ultimately show ?thesis unfolding parse_suggestion_def o(1) option.case o(2) k hashable_def json.case
    by (simp add: hi_filled del: u_simps)
qed

lemma echo_generates:
  "\<exists>p. generate_report echo_provider [] [] [hi_anchor] = Inr p \<and> map gb_anchors (pr_final p) = [[36]]"
proof -
  let ?d = "\<lparr>gb_id = u ''draft-0'', gb_kind = DK_PARAGRAPH, gb_text = u ''hi'', gb_anchors = [], gb_level = None\<rparr>"
  let ?f = "\<lparr>gb_id = u ''ai-0'', gb_kind = DK_PARAGRAPH, gb_text = u ''hi'', gb_anchors = [36], gb_level = None\<rparr>"
  have level: "kept_level (Some JNull) = None" by (simp add: kept_level_def)
  have draft: "parse_draft_blocks echo_provider (echo_response (u ''axit_report_draft'')) = Inr [?d]"
  proof -
    have "parse_draft_block (0, echo_block) = Inr ?d"
      using hi_filled level
      by (simp add: parse_draft_block_def echo_block_def get_key_def parse_kind_def hashable_def int_text_def dec_digits.simps)
    then show ?thesis by (simp add: parse_draft_blocks_def echo_answers get_key_def del: u_simps)
  qed
  have ctxs: "map_result (claim_context_of echo_provider [hi_anchor]) [?d] = Inr [\<lparr>cc_block = ?d, cc_anchors = [hi_anchor]\<rparr>]"
    by (simp add: claim_context_of_def anchors_per_claim_def rank_for_claim_def)
  have retrieved: "retrieved_anchors [\<lparr>cc_block = ?d, cc_anchors = [hi_anchor]\<rparr>] = [hi_anchor]" by (simp add: retrieved_anchors_def)
  have final: "parse_blocks echo_provider (echo_response (u ''axit_grounded_final'')) (known_anchors [hi_anchor]) = Inr [?f]"
  proof -
    have "lookup_anchor echo_provider (known_anchors [hi_anchor]) (JStr (uuid_text 36)) = Inr 36"
      by (simp add: lookup_anchor_def known_anchors_def hi_anchor_def)
    then have "parse_block echo_provider (known_anchors [hi_anchor]) (0, echo_final) = Inr ?f"
      using hi_filled level
      by (simp add: parse_block_def echo_final_def get_key_def parse_kind_def hashable_def int_text_def dec_digits.simps)
    then show ?thesis by (simp add: parse_blocks_def echo_answers get_key_def del: u_simps)
  qed
  have edits: "parse_suggestions echo_provider (echo_response (u ''axit_editor_suggestions'')) (known_anchors [hi_anchor]) (paragraph_ids [?f]) =
      Inr [\<lparr>es_kind = SK_ADD, es_anchor = 36, es_target = u ''ai-0'', es_text = u ''hi'', es_rationale = u ''hi''\<rparr>]"
    using echo_edit_parsed [of "u ''ai-0''"]
    by (simp add: parse_suggestions_def echo_answers get_key_def paragraph_ids_def del: u_simps)
  have t: "rx_transport echo_provider q = Inr (echo_response (rq_name q))" for q by (simp add: echo_provider_def)
  show ?thesis
    by (simp add: generate_report_def echo_validates t draft_request_def final_request_def suggestions_request_def draft ctxs retrieved final edits
        Let_def del: u_simps map_result.simps)
qed

theorem generated_report_is_grounded_witness:
  "\<exists>p. generate_report echo_provider [] [] [hi_anchor] = Inr p \<and> map gb_anchors (pr_final p) = [[36]] \<and>
     map gb_id (pr_final p) = map (\<lambda>k. u ''ai-'' @ int_text (int k)) [0..<1]"
proof -
  obtain p where p: "generate_report echo_provider [] [] [hi_anchor] = Inr p" "map gb_anchors (pr_final p) = [[36]]"
    using echo_generates by (elim exE conjE) (rule that)
  then have "length (pr_final p) = 1" by (metis length_map length_Cons list.size(3) One_nat_def)
  then show ?thesis using generated_report_is_grounded [OF p(1)] p by metis
qed



end
