(* ===== verification/Automatic_Suggestions.thy ===== *)
theory Automatic_Suggestions
  imports Report_Suggestions Generation_Worker
begin

text \<open>
  \<open>automatic_report_suggestions.py\<close>: the job that finishes a report.  With a provider it installs the final document, followed
  by the source coverage, and the provider's suggestions; without one it proposes what a comparison of the documents shows.

  \<^item> \<open>uuid5\<close> over the URL namespace and the two-decimal form of a similarity are parameters (\<open>ar_uuid5\<close>, \<open>ar_percent\<close>).
  \<^item> \<open>env k\<close> is what others commit before the execution (0), the completion (1) and the requeue (2).  The log lines are left out.
\<close>

section \<open>Proposals\<close>

record proposal =
  ap_key :: ustr
  ap_kind :: suggestion_kind
  ap_anchor :: uuid
  ap_text :: ustr
  ap_rationale :: ustr
  ap_target :: "ustr option"

record suggestion_runner =
  ar_provider :: "report_provider option"
  ar_sha256 :: "nat list \<Rightarrow> ustr"
  ar_embedding :: embedding
  ar_uuid5 :: "ustr \<Rightarrow> uuid"
  ar_percent :: "rat \<Rightarrow> ustr"

definition max_proposals :: nat where
  "max_proposals = 100"

definition proposal_material :: "suggestion_kind \<Rightarrow> uuid \<Rightarrow> uuid option \<Rightarrow> ustr" where
  "proposal_material k i paired =
     ustr_join (u '':'') [suggestion_kind_value k, uuid_text i, case paired of None \<Rightarrow> u ''none'' | Some j \<Rightarrow> uuid_text j]"

record proposal_request =
  pq_kind :: suggestion_kind
  pq_anchor :: comparison_anchor
  pq_rationale :: ustr
  pq_paired :: "uuid option"

text \<open>The inner function \<open>append\<close>: the proposals so far and what has been seen.\<close>

definition append_proposal ::
  "(nat list \<Rightarrow> ustr) \<Rightarrow> proposal_request \<Rightarrow> proposal list \<times> (suggestion_kind \<times> uuid) list \<Rightarrow> proposal list \<times> (suggestion_kind \<times> uuid) list" where
  "append_proposal sha256 q st =
     (let (ps, seen) = st; key = (pq_kind q, ca_id (pq_anchor q)) in
      if key \<in> set seen \<or> length ps \<ge> max_proposals then (ps, seen)
      else (ps @ [\<lparr>ap_key = sha256 (proposal_material (pq_kind q) (ca_id (pq_anchor q)) (pq_paired q)), ap_kind = pq_kind q,
             ap_anchor = ca_id (pq_anchor q), ap_text = take 10000 (py_strip (ca_text (pq_anchor q))), ap_rationale = take 2000 (pq_rationale q),
             ap_target = None\<rparr>], key # seen))"

definition duplicate_rationale :: "ustr \<Rightarrow> ustr \<Rightarrow> ustr \<Rightarrow> ustr" where
  "duplicate_rationale left right percent =
     [39] @ right @ [39, 51032, 32, 45236, 50857, 51060, 32, 39] @ left @
     [39, 50752, 32, 51473, 48373, 46121, 45768, 45796, 32, 40, 50976, 49324, 46020, 32] @ percent @
     [41, 46, 32, 53685, 54633, 32, 48372, 44256, 49436, 51032, 32, 51473, 48373, 32, 54364, 54788, 32, 51228, 44144, 47484, 32, 44160, 53664, 54616,
      49464, 50836, 46]"

definition similar_rationale :: "ustr \<Rightarrow> ustr \<Rightarrow> ustr \<Rightarrow> ustr" where
  "similar_rationale left right percent =
     [39] @ right @ [39, 50752, 32, 39] @ left @
     [39, 51032, 32, 50976, 49324, 54620, 32, 51652, 49696, 51060, 32, 49436, 47196, 32, 45796, 47493, 45768, 45796, 32, 40, 50976, 49324, 46020, 32] @
     percent @ [41, 46, 32, 54364, 54788, 44284, 32, 49324, 49892, 32, 44288, 44228, 47484, 32, 54616, 45208, 47196, 32, 51221, 47532, 54616, 49464, 50836, 46]"

definition only_rationale :: "ustr \<Rightarrow> ustr \<Rightarrow> ustr" where
  "only_rationale here there =
     [39] @ here @ [39, 50640, 47564, 32, 51080, 45716, 32, 45236, 50857, 51077, 45768, 45796, 46, 32, 39] @ there @
     [39, 50752, 32, 48708, 44368, 54644, 32, 53685, 54633, 32, 48372, 44256, 49436, 50640, 49436, 32, 45572, 46973, 46104, 51648, 32, 50506, 50520, 45716,
      51648, 32, 44160, 53664, 54616, 49464, 50836, 46]"

definition match_request :: "suggestion_runner \<Rightarrow> ustr \<Rightarrow> ustr \<Rightarrow> comparison_anchor comparison_match \<Rightarrow> proposal_request" where
  "match_request r left right m =
     (case cm_relation m of
        DUPLICATE \<Rightarrow> \<lparr>pq_kind = SK_REMOVE, pq_anchor = cm_right m,
          pq_rationale = duplicate_rationale left right (ar_percent r (cm_similarity m)), pq_paired = Some (ca_id (cm_left m))\<rparr>
      | SIMILAR \<Rightarrow> \<lparr>pq_kind = SK_EDIT, pq_anchor = cm_right m,
          pq_rationale = similar_rationale left right (ar_percent r (cm_similarity m)), pq_paired = Some (ca_id (cm_left m))\<rparr>)"

definition only_request :: "ustr \<Rightarrow> ustr \<Rightarrow> comparison_anchor \<Rightarrow> proposal_request" where
  "only_request here there a = \<lparr>pq_kind = SK_ADD, pq_anchor = a, pq_rationale = only_rationale here there, pq_paired = None\<rparr>"

type_synonym titled_comparison = "ustr \<times> ustr \<times> comparison_anchor document_comparison"

definition matched_ids :: "titled_comparison list \<Rightarrow> uuid set" where
  "matched_ids cs = (\<Union>(l, r, c) \<in> set cs. \<Union>m \<in> set (dc_matches c). {ca_id (cm_left m), ca_id (cm_right m)})"

definition comparison_requests :: "suggestion_runner \<Rightarrow> uuid set \<Rightarrow> titled_comparison \<Rightarrow> proposal_request list" where
  "comparison_requests r matched = (\<lambda>(left, right, c).
     map (match_request r left right) (dc_matches c) @
     map (only_request left right) (filter (\<lambda>a. ca_id a \<notin> matched) (dc_left_only c)) @
     map (only_request right left) (filter (\<lambda>a. ca_id a \<notin> matched) (dc_right_only c)))"

definition build_automatic_proposals :: "suggestion_runner \<Rightarrow> titled_comparison list \<Rightarrow> proposal list" where
  "build_automatic_proposals r cs =
     fst (fold (append_proposal (ar_sha256 r)) (concat (map (comparison_requests r (matched_ids cs)) cs)) ([], []))"

section \<open>What the job reads\<close>

definition suggestion_job_kind :: ustr where
  "suggestion_job_kind = u ''report_suggestions''"

definition suggestion_identity :: "claimed_job \<Rightarrow> app_error + uuid \<times> ustr" where
  "suggestion_identity c =
     (let invalid = Inl (AutomaticSuggestionRunnerError (u ''automatic suggestion job identity is invalid'')) in
      case (get_str (cl_payload c) (u ''snapshot_id''), get_str (cl_payload c) (u ''pipeline_version'')) of
        (Some raw, Some pipeline) \<Rightarrow>
          if cl_kind c \<noteq> suggestion_job_kind \<or> get_str (cl_payload c) (u ''kind'') \<noteq> Some suggestion_job_kind \<or> is_blank pipeline then invalid
          else (case parse_uuid raw of
              None \<Rightarrow> Inl (AutomaticSuggestionRunnerError (u ''automatic suggestion snapshot id is invalid''))
            | Some sn \<Rightarrow> Inr (sn, pipeline))
      | _ \<Rightarrow> invalid)"

record job_report =
  jr_session :: uuid
  jr_room :: uuid
  jr_author :: uuid
  jr_hash :: ustr

definition load_job_report :: "(nat list \<Rightarrow> ustr) \<Rightarrow> 'z app_db_scheme \<Rightarrow> uuid \<Rightarrow> ustr \<Rightarrow> app_error + job_report" where
  "load_job_report sha256 db sn pipeline =
     (let missing = Inl (AutomaticSuggestionRunnerError (u ''generated report is unavailable'')) in
      case find (\<lambda>n. sn_id n = sn \<and> sn_pipeline n = pipeline) (snapshots db) of
        None \<Rightarrow> missing
      | Some n \<Rightarrow> (case find_session db (sn_session n) of
          None \<Rightarrow> missing
        | Some s \<Rightarrow>
            if complete_report db n
            then Inr \<lparr>jr_session = sn_session n, jr_room = ts_room s, jr_author = sn_created_by n,
              jr_hash = report_content_hash sha256 (hash_of_kind db n SUMMARY) (hash_of_kind db n RESEARCH)\<rparr>
            else missing))"

text \<open>A dictionary comprehension keeps the last value of a key.\<close>

definition load_generated_inputs :: "'z app_db_scheme \<Rightarrow> uuid \<Rightarrow> ustr \<Rightarrow> app_error + (ustr \<times> json) list \<times> (ustr \<times> json) list" where
  "load_generated_inputs db sn pipeline =
     (let contents = rev [(gd_kind x, gd_content x). r \<leftarrow> runs db, gr_snapshot r = sn \<and> gr_pipeline r = pipeline \<and> gr_state r = G_SUCCEEDED,
            x \<leftarrow> documents db, gd_run x = gr_id r] in
      case (map_of contents SUMMARY, map_of contents RESEARCH) of
        (Some summary, Some research) \<Rightarrow> Inr (summary, research)
      | _ \<Rightarrow> Inl (AutomaticSuggestionRunnerError (u ''generated report inputs are unavailable'')))"

section \<open>The execution\<close>

record suggestion_execution =
  se_snapshot :: uuid
  se_session :: uuid
  se_room :: uuid
  se_author :: uuid
  se_hash :: ustr
  se_proposals :: "proposal list"
  se_final :: "json list"

definition execution_of :: "uuid \<Rightarrow> job_report \<Rightarrow> proposal list \<Rightarrow> json list \<Rightarrow> suggestion_execution" where
  "execution_of sn j ps final =
     \<lparr>se_snapshot = sn, se_session = jr_session j, se_room = jr_room j, se_author = jr_author j, se_hash = jr_hash j, se_proposals = ps, se_final = final\<rparr>"

definition proposal_of_edit :: "(nat list \<Rightarrow> ustr) \<Rightarrow> edit_suggestion \<Rightarrow> app_error + proposal" where
  "proposal_of_edit sha256 s =
     (case suggestion_key sha256 s of
        None \<Rightarrow> Inl (ValueError (u ''surrogates not allowed''))
      | Some k \<Rightarrow> Inr \<lparr>ap_key = k, ap_kind = es_kind s, ap_anchor = es_anchor s, ap_text = es_text s, ap_rationale = es_rationale s,
          ap_target = Some (es_target s)\<rparr>)"

definition provided_execution ::
  "suggestion_runner \<Rightarrow> report_provider \<Rightarrow> uuid \<Rightarrow> ustr \<Rightarrow> job_report \<Rightarrow> 'z source_db_scheme \<Rightarrow> app_error + suggestion_execution" where
  "provided_execution r x sn pipeline j db =
     (let docs = load_snapshot_documents db sn in
      and_then (load_generated_inputs db sn pipeline) (\<lambda>(summary, research).
      and_then (select_report_anchors docs 400 None) (\<lambda>as.
      and_then (generate_report x summary research as) (\<lambda>generated.
      and_then (map_result (proposal_of_edit (ar_sha256 r)) (pr_suggestions generated)) (\<lambda>ps.
      let final = map editor_json (pr_final generated); coverage = build_source_coverage_blocks docs in
      require (\<not> length final + length coverage > max_document_blocks)
        (AutomaticSuggestionRunnerError (u ''complete merged document exceeds editor block limit''))
        (Inr (execution_of sn j ps (final @ coverage))))))))"

fun document_pairs :: "'a list \<Rightarrow> ('a \<times> 'a) list" where
  "document_pairs [] = []"
| "document_pairs (x # xs) = map (Pair x) xs @ document_pairs xs"

definition comparison_anchors :: "snapshot_document \<Rightarrow> comparison_anchor list" where
  "comparison_anchors x = map (\<lambda>(i, t). \<lparr>ca_id = i, ca_revision = sx_revision x, ca_text = t\<rparr>) (sx_anchors x)"

definition compare_pair :: "embedding \<Rightarrow> snapshot_document \<times> snapshot_document \<Rightarrow> app_error + titled_comparison" where
  "compare_pair e = (\<lambda>(left, right).
     case compare_anchor_sets e (sx_revision left) (sx_revision right) (comparison_anchors left) (comparison_anchors right) default_threshold of
       Inl (ValueError _) \<Rightarrow> Inl (AutomaticSuggestionRunnerError (u ''snapshot comparison could not be completed''))
     | Inl e \<Rightarrow> Inl e
     | Inr c \<Rightarrow> Inr (sx_title left, sx_title right, c))"

definition max_document_pairs :: nat where
  "max_document_pairs = 100"

definition compared_execution :: "suggestion_runner \<Rightarrow> uuid \<Rightarrow> job_report \<Rightarrow> 'z source_db_scheme \<Rightarrow> app_error + suggestion_execution" where
  "compared_execution r sn j db =
     (let pairs = document_pairs (load_snapshot_documents db sn) in
      require (\<not> length pairs > max_document_pairs) (AutomaticSuggestionRunnerError (u ''snapshot document comparison limit exceeded''))
      (and_then (map_result (compare_pair (ar_embedding r)) pairs) (\<lambda>cs. Inr (execution_of sn j (build_automatic_proposals r cs) []))))"

text \<open>\<open>AutomaticSuggestionRunner.execute\<close>\<close>

definition execute_suggestions :: "suggestion_runner \<Rightarrow> claimed_job \<Rightarrow> 'z source_db_scheme \<Rightarrow> app_error + suggestion_execution" where
  "execute_suggestions r c db =
     and_then (suggestion_identity c) (\<lambda>(sn, pipeline).
     and_then (load_job_report (ar_sha256 r) db sn pipeline) (\<lambda>j.
     case ar_provider r of
       Some x \<Rightarrow> provided_execution r x sn pipeline j db
     | None \<Rightarrow> compared_execution r sn j db))"

section \<open>The effect of a success\<close>

record suggestion_job_draws =
  jw_locked :: "uuid \<Rightarrow> bool"
  jw_token :: uuid
  jw_attempt :: uuid
  jw_claim_now :: int
  jw_claim_now' :: int
  jw_document :: document_draws
  jw_event :: "nat \<Rightarrow> uuid"
  jw_complete_now :: int
  jw_result :: uuid
  jw_requeue_now :: int

definition automatic_row :: "suggestion_runner \<Rightarrow> int \<Rightarrow> suggestion_execution \<Rightarrow> proposal \<Rightarrow> suggestion_row" where
  "automatic_row r now x p =
     \<lparr>rs_id = ar_uuid5 r (u ''axit:'' @ uuid_text (se_snapshot x) @ u '':automatic-comparison:'' @ ap_key p), rs_session = se_session x,
      rs_author = se_author x, rs_anchor = Some (ap_anchor p), rs_target = ap_target p, rs_text = ap_text p, rs_rationale = ap_rationale p,
      rs_snapshot = se_snapshot x, rs_hash = se_hash x, rs_kind = ap_kind p, rs_origin = O_AUTOMATIC, rs_key = Some (ap_key p),
      rs_status = SG_OPEN, rs_resolved_by = None, rs_created_at = now, rs_resolved_at = None\<rparr>"

definition automatic_event :: "suggestion_execution \<Rightarrow> suggestion_row \<Rightarrow> ustr \<Rightarrow> new_activity" where
  "automatic_event x s key =
     \<lparr>na_key = key, na_type = u ''suggestion.created'', na_actor = None, na_scope = SC_SESSION, na_audience = None,
      na_room = Some (se_room x), na_session = Some (se_session x), na_entity_type = u ''suggestion'', na_entity_id = rs_id s,
      na_metadata = [(Some (u ''origin''), MStr (u ''automatic_comparison'')), (Some (u ''kind''), MStr (suggestion_kind_value (rs_kind s)))]\<rparr>"

text \<open>One turn of the loop; the number of rows inserted so far is part of its state.\<close>

definition store_proposal ::
  "suggestion_runner \<Rightarrow> suggestion_job_draws \<Rightarrow> suggestion_execution \<Rightarrow> nat \<times> proposal \<Rightarrow> nat \<times> 'z suggestion_db_scheme \<Rightarrow>
   app_error + nat \<times> 'z suggestion_db_scheme" where
  "store_proposal r d x numbered st =
     (let (k, p) = numbered; (inserted, db) = st; row = automatic_row r (jw_complete_now d) x p in
      and_then (insert_suggestion (ar_sha256 r) row db) (\<lambda>(isnew, db1).
      if \<not> isnew then Inr (inserted, db1)
      else and_then (build_event_key (u ''suggestion.created'') (kwargs [(''suggestion_id'', IUuid (rs_id row))])) (\<lambda>key.
           and_then (checked_append (jw_event d k) (automatic_event x row key) db1) (\<lambda>(_, db2). Inr (inserted + 1, db2)))))"

definition store_execution ::
  "suggestion_runner \<Rightarrow> suggestion_job_draws \<Rightarrow> suggestion_execution \<Rightarrow> 'z suggestion_db_scheme \<Rightarrow> app_error + nat \<times> 'z suggestion_db_scheme" where
  "store_execution r d x db =
     and_then (install_final_blocks (jw_document d) (se_session x) (se_snapshot x) (se_author x) (se_final x) db) (\<lambda>db1.
     fold_result (store_proposal r d x) (enumerate 0 (se_proposals x)) (0, db1))"

definition execution_effect ::
  "suggestion_runner \<Rightarrow> suggestion_job_draws \<Rightarrow> suggestion_execution \<Rightarrow> 'z suggestion_db_scheme \<Rightarrow> app_error + 'z suggestion_db_scheme" where
  "execution_effect r d x db = and_then (store_execution r d x db) (\<lambda>(n, db'). Inr db')"

text \<open>
  The effect writes \<open>suggestion_count\<close> into the result before the queue encodes it: the count of the run of the effect on the
  database it is given, in which the job is already completed.
\<close>

definition execution_result ::
  "suggestion_runner \<Rightarrow> suggestion_job_draws \<Rightarrow> claimed_job \<Rightarrow> suggestion_execution \<Rightarrow> 'z suggestion_db_scheme \<Rightarrow> (ustr \<times> json) list" where
  "execution_result r d c x db =
     [(u ''snapshot_id'', JStr (uuid_text (se_snapshot x))), (u ''status'', JStr (job_state_value J_SUCCEEDED)),
      (u ''suggestion_count'', JInt (case store_execution r d x
          (db\<lparr>jobs := update_rows (holds_lease c (jw_complete_now d)) (complete_job J_SUCCEEDED None (jw_complete_now d)) (jobs db)\<rparr>) of
         Inl e \<Rightarrow> 0 | Inr (n, db') \<Rightarrow> int n))]"

definition complete_execution ::
  "suggestion_runner \<Rightarrow> suggestion_job_draws \<Rightarrow> claimed_job \<Rightarrow> suggestion_execution \<Rightarrow> 'z suggestion_db_scheme \<Rightarrow>
   (app_error + unit) \<times> 'z suggestion_db_scheme" where
  "complete_execution r d c x db =
     complete_with_effects (ar_sha256 r) (jw_result d) (jw_complete_now d) c J_SUCCEEDED (execution_result r d c x db) None (execution_effect r d x) db"

section \<open>Failures\<close>

definition suggestion_failure_code :: ustr where
  "suggestion_failure_code = u ''automatic_suggestion_failure''"

definition max_provider_attempts :: int where
  "max_provider_attempts = 3"

definition mark_attention :: "uuid \<Rightarrow> 'z app_db_scheme \<Rightarrow> 'z app_db_scheme" where
  "mark_attention sn db =
     (case find (\<lambda>n. sn_id n = sn) (snapshots db) of
        None \<Rightarrow> db
      | Some n \<Rightarrow> db\<lparr>sessions := update_rows (\<lambda>s. ts_id s = sn_session n \<and> ts_state s = READY)
          (\<lambda>s. s\<lparr>ts_state := NEEDS_ATTENTION, ts_version := ts_version s + 1\<rparr>) (sessions db)\<rparr>)"

text \<open>\<open>_attention_effect\<close> reads the identity of the claim before it returns the effect.\<close>

definition attention_effect :: "claimed_job \<Rightarrow> app_error + ('z app_db_scheme \<Rightarrow> app_error + 'z app_db_scheme)" where
  "attention_effect c = and_then (suggestion_identity c) (\<lambda>(sn, pipeline). Inr (\<lambda>db. Inr (mark_attention sn db)))"

definition suggestion_outcome :: "claimed_job \<Rightarrow> bool \<Rightarrow> bool \<Rightarrow> job_state \<Rightarrow> ustr option \<Rightarrow> worker_outcome" where
  "suggestion_outcome c completed stale target code =
     \<lparr>wo_job = Some (cl_id c), wo_claimed = True, wo_completed = completed, wo_stale = stale, wo_target = Some target, wo_error = code\<rparr>"

definition requeue_suggestions :: "suggestion_job_draws \<Rightarrow> claimed_job \<Rightarrow> 'z queue_db_scheme \<Rightarrow> (app_error + unit) \<times> 'z queue_db_scheme" where
  "requeue_suggestions d c db =
     (let (res, db') = requeue_retryable (jw_requeue_now d) (cl_id c) (cl_generation c) db
      in (case res of Inl (StaleLeaseError _) \<Rightarrow> Inr () | _ \<Rightarrow> res, db'))"

definition fail_suggestions ::
  "suggestion_runner \<Rightarrow> suggestion_job_draws \<Rightarrow> (nat \<Rightarrow> 'z suggestion_db_scheme \<Rightarrow> 'z suggestion_db_scheme) \<Rightarrow> claimed_job \<Rightarrow> ustr \<Rightarrow> bool \<Rightarrow>
   'z suggestion_db_scheme \<Rightarrow> (app_error + worker_outcome) \<times> 'z suggestion_db_scheme" where
  "fail_suggestions r d env c code retryable db =
     (let target = (if retryable then J_FAILED_RETRYABLE else J_FAILED_TERMINAL) in
      case (if retryable then Inr (\<lambda>db. Inr db) else attention_effect c) of
        Inl e \<Rightarrow> (Inl e, db)
      | Inr effect \<Rightarrow>
          let (res, db1) = complete_with_effects (ar_sha256 r) (jw_result d) (jw_complete_now d) c target
                [(u ''outcome'', JStr (u ''failed'')), (u ''error_code'', JStr code)] (Some code) effect (env 1 db) in
          case res of
            Inl e \<Rightarrow> (Inl e, db1)
          | Inr _ \<Rightarrow>
              if retryable then
                let (res', db2) = requeue_suggestions d c (env 2 db1)
                in (and_then res' (\<lambda>_. Inr (suggestion_outcome c True False target (Some code))), db2)
              else (Inr (suggestion_outcome c True False target (Some code)), db1))"

section \<open>One poll\<close>

definition finish_suggestions ::
  "suggestion_runner \<Rightarrow> suggestion_job_draws \<Rightarrow> claimed_job \<Rightarrow> suggestion_execution \<Rightarrow> 'z suggestion_db_scheme \<Rightarrow>
   (app_error + worker_outcome) \<times> 'z suggestion_db_scheme" where
  "finish_suggestions r d c x db =
     (let (res, db1) = complete_execution r d c x db in
      case res of
        Inl (StaleLeaseError _) \<Rightarrow> (Inr (suggestion_outcome c False True J_SUCCEEDED None), db1)
      | Inl e \<Rightarrow> (Inl e, db1)
      | Inr _ \<Rightarrow> (Inr (suggestion_outcome c True False J_SUCCEEDED None), db1))"

definition run_claimed_suggestions ::
  "suggestion_runner \<Rightarrow> suggestion_job_draws \<Rightarrow> (nat \<Rightarrow> 'z suggestion_db_scheme \<Rightarrow> 'z suggestion_db_scheme) \<Rightarrow> claimed_job \<Rightarrow>
   'z suggestion_db_scheme \<Rightarrow> (app_error + worker_outcome) \<times> 'z suggestion_db_scheme" where
  "run_claimed_suggestions r d env c db =
     (let db1 = env 0 db in
      case execute_suggestions r c db1 of
        Inr x \<Rightarrow> finish_suggestions r d c x (env 1 db1)
      | Inl (AutomaticSuggestionRunnerError _) \<Rightarrow> fail_suggestions r d env c suggestion_failure_code False db1
      | Inl (GenerationProviderFailure code retryable) \<Rightarrow>
          fail_suggestions r d env c code (retryable \<and> \<not> cl_generation c \<ge> max_provider_attempts) db1
      | Inl e \<Rightarrow> (Inl e, db1))"

text \<open>\<open>FencedAutomaticSuggestionWorker.run_once\<close>\<close>

definition run_suggestions ::
  "suggestion_runner \<Rightarrow> suggestion_job_draws \<Rightarrow> (nat \<Rightarrow> 'z suggestion_db_scheme \<Rightarrow> 'z suggestion_db_scheme) \<Rightarrow> ustr \<Rightarrow> int \<Rightarrow>
   'z suggestion_db_scheme \<Rightarrow> (app_error + worker_outcome) \<times> 'z suggestion_db_scheme" where
  "run_suggestions r d env owner lease_seconds db =
     (let (claim, db1) = claim_next (jw_locked d) (jw_token d) (jw_attempt d) (jw_claim_now d) (jw_claim_now' d) owner lease_seconds
            (Some [suggestion_job_kind]) db in
      case claim of
        Inl e \<Rightarrow> (Inl e, db1)
      | Inr None \<Rightarrow> (Inr idle_outcome, db1)
      | Inr (Some c) \<Rightarrow> run_claimed_suggestions r d env c db1)"

end
