(* ===== verification/Suggestion_Properties.thy ===== *)
theory Suggestion_Properties
  imports Report_Grounding Automatic_Suggestions
begin

text \<open>
  What the operations on suggestions keep: a suggestion is decided once, by the host, and its content never changes; the job
  of a report stores every proposal exactly once, however often it runs.
\<close>

section \<open>How the table evolves\<close>

definition undecided :: "suggestion_row \<Rightarrow> suggestion_row" where
  "undecided s = s\<lparr>rs_status := SG_OPEN, rs_resolved_by := None, rs_resolved_at := None\<rparr>"

definition decided_from :: "suggestion_row \<Rightarrow> suggestion_row \<Rightarrow> bool" where
  "decided_from s s' \<longleftrightarrow> s' = s \<or> rs_status s = SG_OPEN \<and> rs_status s' \<noteq> SG_OPEN \<and> undecided s' = undecided s"

definition comparison_key_of :: "suggestion_row \<Rightarrow> uuid \<times> ustr option" where
  "comparison_key_of s = (rs_snapshot s, rs_key s)"

definition keyed :: "suggestion_row \<Rightarrow> bool" where
  "keyed s \<longleftrightarrow> rs_key s \<noteq> None"

definition suggestions_sound :: "'z suggestion_db_scheme \<Rightarrow> bool" where
  "suggestions_sound db \<longleftrightarrow> distinct (map rs_id (suggestions db)) \<and> distinct (map comparison_key_of (filter keyed (suggestions db)))"

definition suggestions_evolve :: "'z suggestion_db_scheme \<Rightarrow> 'z suggestion_db_scheme \<Rightarrow> bool" where
  "suggestions_evolve db db' \<longleftrightarrow> (\<exists>old new. suggestions db' = old @ new \<and> list_all2 decided_from (suggestions db) old)"



lemma decided_from_trans: "decided_from a b \<Longrightarrow> decided_from b c \<Longrightarrow> decided_from a c"
  by (auto simp: decided_from_def)

lemma suggestions_evolve_refl [intro]: "suggestions db' = suggestions db \<Longrightarrow> suggestions_evolve db db'"
  unfolding suggestions_evolve_def by (intro exI [of _ "suggestions db"] exI [of _ "[]"]) (simp add: decided_from_def list.rel_refl)

lemma suggestions_evolve_trans:
  assumes "suggestions_evolve a b" "suggestions_evolve b c"
  shows "suggestions_evolve a c"
proof -
  from assms obtain o1 n1 o2 n2 where b: "suggestions b = o1 @ n1" "list_all2 decided_from (suggestions a) o1"
    and c: "suggestions c = o2 @ n2" "list_all2 decided_from (o1 @ n1) o2" by (auto simp: suggestions_evolve_def)
  from c(2) obtain p q where "o2 = p @ q" "list_all2 decided_from o1 p" by (auto simp: list_all2_append1)
  then show ?thesis unfolding suggestions_evolve_def
    using c(1) list_all2_trans [OF decided_from_trans b(2)] by (intro exI [of _ p] exI [of _ "q @ n2"]) simp
qed

lemma evolved_row:
  assumes "suggestions_evolve db db'" "s \<in> set (suggestions db)"
  obtains s' where "s' \<in> set (suggestions db')" "decided_from s s'"
proof -
  from assms(1) obtain old new where o: "suggestions db' = old @ new" "list_all2 decided_from (suggestions db) old"
    by (auto simp: suggestions_evolve_def)
  from assms(2) obtain k where "k < length (suggestions db)" "s = suggestions db ! k" by (auto simp: in_set_conv_nth)
  with o have "old ! k \<in> set (suggestions db')" "decided_from s (old ! k)" by (auto simp: list_all2_conv_all_nth)
  then show ?thesis by (rule that)
qed

section \<open>Single statements\<close>

lemma frame_suggestions: "activity_frame db db' \<Longrightarrow> suggestions db' = suggestions db"
  for db db' :: "'z suggestion_db_scheme"
  by (auto simp: activity_frame_def)

lemma insert_suggestion_cases:
  assumes "insert_suggestion sha256 s db = Inr (isnew, db')"
  obtains (known) "\<not> isnew" "db' = db" "\<exists>t \<in> set (suggestions db). same_comparison s t"
  | (added) "isnew" "db' = db\<lparr>suggestions := suggestions db @ [s]\<rparr>" "fresh rs_id s (suggestions db)"
      "\<forall>t \<in> set (suggestions db). \<not> same_comparison s t" "suggestion_provenance sha256 db s" "suggestion_checks s"
  using assms by (auto simp: insert_suggestion_def list_ex_iff split: if_splits)

lemma sound_append:
  assumes "suggestions_sound db" "fresh rs_id s (suggestions db)" "\<forall>t \<in> set (suggestions db). \<not> same_comparison s t"
  shows "suggestions_sound (db\<lparr>suggestions := suggestions db @ [s]\<rparr>)"
  using assms by (auto simp: suggestions_sound_def fresh_def keyed_def same_comparison_def comparison_key_of_def)

lemma create_suggestion_cases:
  assumes "create_suggestion sha256 d sid actor c db = (res, db')"
  obtains (failed) "db' = db"
  | (created) s db1 where "insert_suggestion sha256 s db = Inr (True, db1)" "suggestions db' = suggestions db1" "res = Inr s"
      "rs_status s = SG_OPEN" "member_session db actor sid \<noteq> None"
proof (cases res)
  case (Inl e)
  then show ?thesis using assms failed by (auto simp: create_suggestion_def Let_def transaction_Inl_iff split: if_splits)
next
  case (Inr s)
  let ?c = "normalized_content c"
  from Inr assms have body: "create_suggestion_body sha256 d sid actor ?c db = Inr (s, db')"
    by (auto simp: create_suggestion_def Let_def transaction_Inr_iff split: if_split_asm)
  then obtain room where room: "suggestion_member db sid actor = Inr room" by (auto simp: create_suggestion_body_def and_then_Inr)
  with body obtain report where "load_report_identity sha256 db sid = Some report"
    by (auto simp: create_suggestion_body_def split: option.split_asm)
  with body room obtain isnew db1 where m: "s = member_suggestion d sid actor report ?c" "insert_suggestion sha256 s db = Inr (isnew, db1)"
    "record_event (sgd_event d) (u ''suggestion.created'') [(''suggestion_id'', IUuid (sgd_id d))] actor SC_SESSION None (Some room) (Some sid)
       (u ''suggestion'') (sgd_id d) [(Some (u ''kind''), MStr (suggestion_kind_value (sgc_kind ?c))),
         (Some (u ''origin''), MStr (u ''member'')), (Some (u ''status''), MStr (u ''open''))] [] db1 = Inr db'"
    by (auto simp: create_suggestion_body_def Let_def and_then_Inr simp del: u_simps)
  have "rs_key s = None" "rs_status s = SG_OPEN" using m(1) by (simp_all add: member_suggestion_def)
  moreover from m(2) have "isnew" by (cases rule: insert_suggestion_cases) (use \<open>rs_key s = None\<close> in \<open>auto simp: same_comparison_def\<close>)
  moreover have "member_session db actor sid \<noteq> None" using room by (auto simp: suggestion_member_def split: option.splits)
  ultimately show ?thesis using m(2) created frame_suggestions [OF record_event_frame [OF m(3)]] Inr by simp
qed

lemma resolve_suggestion_cases:
  assumes "resolve_suggestion d i actor x db = (res, db')"
  obtains (failed) e where "res = Inl e" "db' = db"
  | (resolved) s t where "find (\<lambda>s. rs_id s = i) (suggestions db) = Some s" "find_session db (rs_session s) = Some t"
      "ts_host t = actor" "is_member db (ts_room t) actor" "rs_status s = SG_OPEN" "res = Inr (decide x actor (sgd_now d) s)"
      "suggestions db' = update_rows (\<lambda>s. rs_id s = i) (decide x actor (sgd_now d)) (suggestions db)"
proof (cases res)
  case (Inl e)
  then show ?thesis using assms failed by (auto simp: resolve_suggestion_def transaction_Inl_iff)
next
  case (Inr y)
  with assms obtain s t where s: "find (\<lambda>s. rs_id s = i) (suggestions db) = Some s" "find_session db (rs_session s) = Some t"
    "ts_host t = actor" "is_member db (ts_room t) actor" "rs_status s = SG_OPEN" "y = decide x actor (sgd_now d) s"
    "record_event (sgd_event d) (u ''suggestion.'' @ suggestion_status_value (decided_status x)) [(''suggestion_id'', IUuid i), (''version'', IInt 1)]
       actor SC_SESSION None (Some (ts_room t)) (Some (rs_session s)) (u ''suggestion'') i
       [(Some (u ''status''), MStr (suggestion_status_value (decided_status x))), (Some (u ''version''), MInt 1)] []
       (db\<lparr>suggestions := update_rows (\<lambda>s. rs_id s = i) (decide x actor (sgd_now d)) (suggestions db)\<rparr>) = Inr db'"
    by (auto simp: resolve_suggestion_def transaction_Inr_iff resolve_suggestion_body_def Let_def and_then_Inr
        split: if_split_asm option.split_asm simp del: u_simps)
  show ?thesis using resolved [OF s(1-5)] Inr s(6) frame_suggestions [OF record_event_frame [OF s(7)]] by simp
qed

section \<open>The loop of the job\<close>

text \<open>What the loop adds to a database: rows of its proposals, and nothing else to the tables a report is read from.\<close>

definition report_frame :: "'z suggestion_db_scheme \<Rightarrow> 'z suggestion_db_scheme \<Rightarrow> bool" where
  "report_frame db db' \<longleftrightarrow> snapshots db' = snapshots db \<and> runs db' = runs db \<and> documents db' = documents db \<and> pinned db' = pinned db \<and>
     anchors db' = anchors db"

lemma provenance_frame: "report_frame db db' \<Longrightarrow> suggestion_provenance sha256 db' s = suggestion_provenance sha256 db s"
  by (simp add: report_frame_def suggestion_provenance_def complete_report_def report_documents_def hash_of_kind_def anchor_in_snapshot_def
      cong: option.case_cong if_cong)

lemma frame_report: "activity_frame db db' \<Longrightarrow> report_frame db db'"
  for db db' :: "'z suggestion_db_scheme"
  by (auto simp: activity_frame_def report_frame_def)

definition stored_rows :: "suggestion_runner \<Rightarrow> suggestion_job_draws \<Rightarrow> suggestion_execution \<Rightarrow> suggestion_row list \<Rightarrow> bool" where
  "stored_rows r d x new \<longleftrightarrow> (\<forall>s \<in> set new. \<exists>p \<in> set (se_proposals x). s = automatic_row r (jw_complete_now d) x p)"

definition stored_from :: "suggestion_runner \<Rightarrow> suggestion_job_draws \<Rightarrow> suggestion_execution \<Rightarrow> 'z suggestion_db_scheme \<Rightarrow> nat \<times> 'z suggestion_db_scheme \<Rightarrow> bool" where
  "stored_from r d x db st \<longleftrightarrow> (\<exists>new. suggestions (snd st) = suggestions db @ new \<and> length new = fst st \<and> stored_rows r d x new \<and>
     (\<forall>s \<in> set new. suggestion_provenance (ar_sha256 r) db s)) \<and> report_frame db (snd st) \<and> (suggestions_sound db \<longrightarrow> suggestions_sound (snd st))"

lemma store_proposal_cases:
  assumes "store_proposal r d x (k, p) (n, db) = Inr (m, db')"
  obtains (known) "m = n" "db' = db" "\<exists>t \<in> set (suggestions db). same_comparison (automatic_row r (jw_complete_now d) x p) t"
  | (added) db1 where "m = n + 1" "insert_suggestion (ar_sha256 r) (automatic_row r (jw_complete_now d) x p) db = Inr (True, db1)"
      "activity_frame db1 db'"
proof -
  from assms obtain isnew db1 where i: "insert_suggestion (ar_sha256 r) (automatic_row r (jw_complete_now d) x p) db = Inr (isnew, db1)"
    and rest: "\<not> isnew \<Longrightarrow> m = n \<and> db' = db1" "isnew \<Longrightarrow> m = n + 1 \<and> activity_frame db1 db'"
    by (auto simp: store_proposal_def Let_def and_then_Inr split: if_splits dest: checked_append_frame)
  from i show ?thesis by (cases rule: insert_suggestion_cases) (use rest i known added in auto)
qed

lemma store_proposal_stored:
  assumes "stored_from r d x db st" "store_proposal r d x kp st = Inr st'" "snd kp \<in> set (se_proposals x)"
  shows "stored_from r d x db st'"
proof -
  obtain k p n db1 m db' where eq: "kp = (k, p)" "st = (n, db1)" "st' = (m, db')" by (metis surj_pair)
  from assms(1) eq obtain new where new: "suggestions db1 = suggestions db @ new" "length new = n" "stored_rows r d x new"
    "\<forall>s \<in> set new. suggestion_provenance (ar_sha256 r) db s" "report_frame db db1" "suggestions_sound db \<longrightarrow> suggestions_sound db1"
    by (auto simp: stored_from_def)
  from assms(2) have "store_proposal r d x (k, p) (n, db1) = Inr (m, db')" by (simp only: eq)
  then show ?thesis
  proof (cases rule: store_proposal_cases)
    case known
    then show ?thesis using assms(1) eq by simp
  next
    case (added db2)
    let ?s = "automatic_row r (jw_complete_now d) x p"
    from added(2) have i: "db2 = db1\<lparr>suggestions := suggestions db1 @ [?s]\<rparr>" "fresh rs_id ?s (suggestions db1)"
      "\<forall>t \<in> set (suggestions db1). \<not> same_comparison ?s t" "suggestion_provenance (ar_sha256 r) db1 ?s"
      by (auto elim: insert_suggestion_cases)
    have sug: "suggestions db' = suggestions db @ (new @ [?s])" using frame_suggestions [OF added(3)] i(1) new(1) by simp
    have frame: "report_frame db db'" using frame_report [OF added(3)] i(1) new(5) by (simp add: report_frame_def)
    have "suggestions_sound db' = suggestions_sound db2" using frame_suggestions [OF added(3)] by (simp add: suggestions_sound_def)
    then have "suggestions_sound db \<longrightarrow> suggestions_sound db'" using sound_append [OF _ i(2,3)] new(6) i(1) by simp
    moreover have "stored_rows r d x (new @ [?s])" using new(3) assms(3) eq(1) by (auto simp: stored_rows_def)
    moreover have "\<forall>s \<in> set (new @ [?s]). suggestion_provenance (ar_sha256 r) db s" using new(4) i(4) provenance_frame [OF new(5)] by simp
    ultimately show ?thesis using sug frame added(1) new(2) unfolding stored_from_def eq(3)
      by (intro conjI exI [of _ "new @ [?s]"]) simp_all
  qed
qed

lemma install_keeps:
  assumes "install_final_blocks d sid sn author bs db = Inr db'"
  shows "suggestions db' = suggestions db" "report_frame db db'" "audit db' = audit db"
  using assms by (auto simp: install_final_blocks_def insert_state_def report_frame_def split: if_split_asm)

lemma store_execution_stored:
  fixes db :: "'z suggestion_db_scheme"
  assumes "store_execution r d x db = Inr (n, db')"
  shows "stored_from r d x db (n, db')"
proof -
  from assms obtain db1 where i: "install_final_blocks (jw_document d) (se_session x) (se_snapshot x) (se_author x) (se_final x) db = Inr db1"
    and f: "fold_result (store_proposal r d x) (enumerate 0 (se_proposals x)) (0, db1) = Inr (n, db')"
    by (auto simp: store_execution_def and_then_Inr)
  have "stored_from r d x db (0, db1)"
    using install_keeps [OF i] by (simp add: stored_from_def stored_rows_def suggestions_sound_def)
  then show ?thesis
    by (rule fold_result_invariant [OF f]) (use store_proposal_stored in \<open>force simp: in_set_enumerate_eq\<close>)
qed

definition has_comparison :: "uuid \<Rightarrow> ustr \<Rightarrow> 'z suggestion_db_scheme \<Rightarrow> bool" where
  "has_comparison sn k db \<longleftrightarrow> (\<exists>s \<in> set (suggestions db). comparison_key_of s = (sn, Some k))"

lemma store_proposal_has:
  assumes "store_proposal r d x kp st = Inr st'"
  shows "has_comparison (se_snapshot x) (ap_key (snd kp)) (snd st')" "has_comparison sn k (snd st) \<Longrightarrow> has_comparison sn k (snd st')"
    "has_comparison (se_snapshot x) (ap_key (snd kp)) (snd st) \<Longrightarrow> st' = st"
proof -
  obtain k' p n db1 m db' where eq: "kp = (k', p)" "st = (n, db1)" "st' = (m, db')" by (metis surj_pair)
  let ?s = "automatic_row r (jw_complete_now d) x p"
  have s: "comparison_key_of ?s = (se_snapshot x, Some (ap_key p))" by (simp add: comparison_key_of_def automatic_row_def)
  have same: "same_comparison ?s t \<longleftrightarrow> comparison_key_of t = (se_snapshot x, Some (ap_key p))" for t
    by (auto simp: same_comparison_def comparison_key_of_def automatic_row_def)
  from assms have "store_proposal r d x (k', p) (n, db1) = Inr (m, db')" by (simp only: eq)
  then have "has_comparison (se_snapshot x) (ap_key p) db' \<and> (has_comparison sn k db1 \<longrightarrow> has_comparison sn k db') \<and>
      (has_comparison (se_snapshot x) (ap_key p) db1 \<longrightarrow> m = n \<and> db' = db1)"
  proof (cases rule: store_proposal_cases)
    case known
    then show ?thesis by (auto simp: has_comparison_def same)
  next
    case (added db2)
    from added(2) have "suggestions db2 = suggestions db1 @ [?s]" "\<forall>t \<in> set (suggestions db1). \<not> same_comparison ?s t"
      by (auto elim: insert_suggestion_cases)
    then show ?thesis using frame_suggestions [OF added(3)] s by (auto simp: has_comparison_def same)
  qed
  then show "has_comparison (se_snapshot x) (ap_key (snd kp)) (snd st')" "has_comparison sn k (snd st) \<Longrightarrow> has_comparison sn k (snd st')"
    "has_comparison (se_snapshot x) (ap_key (snd kp)) (snd st) \<Longrightarrow> st' = st" by (simp_all add: eq)
qed

lemma loop_has:
  assumes "fold_result (store_proposal r d x) kps st = Inr st'"
  shows "\<forall>kp \<in> set kps. has_comparison (se_snapshot x) (ap_key (snd kp)) (snd st')" "has_comparison sn k (snd st) \<Longrightarrow> has_comparison sn k (snd st')"
    "\<forall>kp \<in> set kps. has_comparison (se_snapshot x) (ap_key (snd kp)) (snd st) \<Longrightarrow> st' = st"
proof -
  have keeps: "has_comparison sn k (snd st) \<longrightarrow> has_comparison sn k (snd st')" if "fold_result (store_proposal r d x) kps st = Inr st'" for sn k st kps
    using that by (induction kps arbitrary: st) (auto simp: and_then_Inr dest: store_proposal_has(2))
  show "has_comparison sn k (snd st) \<Longrightarrow> has_comparison sn k (snd st')" using keeps [OF assms] by blast
  show "\<forall>kp \<in> set kps. has_comparison (se_snapshot x) (ap_key (snd kp)) (snd st')"
    using assms
  proof (induction kps arbitrary: st)
    case (Cons kp kps)
    then obtain st1 where st1: "store_proposal r d x kp st = Inr st1" "fold_result (store_proposal r d x) kps st1 = Inr st'"
      by (auto simp: and_then_Inr)
    with Cons.IH [OF st1(2)] keeps [OF st1(2)] store_proposal_has(1) [OF st1(1)] show ?case by auto
  qed simp
  show "\<forall>kp \<in> set kps. has_comparison (se_snapshot x) (ap_key (snd kp)) (snd st) \<Longrightarrow> st' = st"
    using assms
  proof (induction kps arbitrary: st)
    case (Cons kp kps)
    then obtain st1 where st1: "store_proposal r d x kp st = Inr st1" "fold_result (store_proposal r d x) kps st1 = Inr st'"
      by (auto simp: and_then_Inr)
    have "st1 = st" using store_proposal_has(3) [OF st1(1)] Cons.prems(1) by simp
    with Cons.IH [OF _ st1(2)] Cons.prems(1) show ?case by simp
  qed simp
qed

section \<open>The completion\<close>

lemma in_enumerate: "p \<in> set ps \<Longrightarrow> \<exists>k. (k, p) \<in> set (enumerate 0 ps)"
  by (metis in_set_conv_nth set_enumerate_conv)

lemma complete_success_Inr:
  assumes "complete_with_effects sha rid now c J_SUCCEEDED result None effect db = (Inr y, db')"
  obtains db2 row ats where "hits (holds_lease c now) (jobs db) = 1"
    "effect (db\<lparr>jobs := update_rows (holds_lease c now) (complete_job J_SUCCEEDED None now) (jobs db)\<rparr>) = Inr db2"
    "re_job_id row = cl_id c" "re_json row = JObj result" "db' = db2\<lparr>results := results db2 @ [row], attempts := ats\<rparr>"
proof -
  from assms obtain db2 bytes where e: "hits (holds_lease c now) (jobs db) = 1"
    "effect (db\<lparr>jobs := update_rows (holds_lease c now) (complete_job J_SUCCEEDED None now) (jobs db)\<rparr>) = Inr db2"
    "db' = db2\<lparr>results := results db2 @ [\<lparr>re_id = rid, re_job_id = cl_id c, re_json = JObj result, re_hash = sha bytes\<rparr>],
       attempts := update_rows (my_attempt c) (close_attempt J_SUCCEEDED None now) (attempts db2)\<rparr>"
    by (auto simp: complete_with_effects_def check_completion_def completion_states_def transaction_Inr_iff complete_body_def Let_def and_then_Inr
        insert_result_def split: option.split_asm)
  show ?thesis by (rule that [OF e(1,2) _ _ e(3)]) simp_all
qed

lemma complete_execution_cases:
  fixes db :: "'z suggestion_db_scheme"
  assumes "complete_execution r d c x db = (res, db')"
  obtains (failed) e where "res = Inl e" "db' = db"
  | (stored) y n where "res = Inr y" "hits (holds_lease c (jw_complete_now d)) (jobs db) = 1"
      "\<exists>row \<in> set (results db'). re_job_id row = cl_id c \<and> re_json row = JObj [(u ''snapshot_id'', JStr (uuid_text (se_snapshot x))),
         (u ''status'', JStr (job_state_value J_SUCCEEDED)), (u ''suggestion_count'', JInt (int n))]"
      "stored_from r d x db (n, db')" "\<forall>p \<in> set (se_proposals x). has_comparison (se_snapshot x) (ap_key p) db'"
proof (cases res)
  case (Inl e)
  then show ?thesis using assms failed
    by (auto simp: complete_execution_def complete_with_effects_def transaction_Inl_iff split: sum.split_asm)
next
  case (Inr y)
  let ?db1 = "db\<lparr>jobs := update_rows (holds_lease c (jw_complete_now d)) (complete_job J_SUCCEEDED None (jw_complete_now d)) (jobs db)\<rparr>"
  from assms Inr obtain db2 row ats where f: "hits (holds_lease c (jw_complete_now d)) (jobs db) = 1" "execution_effect r d x ?db1 = Inr db2"
    "re_job_id row = cl_id c" "re_json row = JObj (execution_result r d c x db)" "db' = db2\<lparr>results := results db2 @ [row], attempts := ats\<rparr>"
    unfolding complete_execution_def by (auto elim: complete_success_Inr)
  then obtain n where n: "store_execution r d x ?db1 = Inr (n, db2)" by (auto simp: execution_effect_def and_then_Inr)
  have "stored_from r d x ?db1 (n, db2)" by (rule store_execution_stored [OF n])
  then have kept: "stored_from r d x db (n, db')"
    using f(5) provenance_frame [of db ?db1] by (simp add: stored_from_def report_frame_def suggestions_sound_def)
  from n obtain db3 where "fold_result (store_proposal r d x) (enumerate 0 (se_proposals x)) (0, db3) = Inr (n, db2)"
    by (auto simp: store_execution_def and_then_Inr)
  from loop_has(1) [OF this] have "has_comparison (se_snapshot x) (ap_key p) db2" if "p \<in> set (se_proposals x)" for p
    using in_enumerate [OF that] by fastforce
  then have has: "\<forall>p \<in> set (se_proposals x). has_comparison (se_snapshot x) (ap_key p) db'" using f(5) by (simp add: has_comparison_def)
  show ?thesis by (rule stored [OF Inr f(1) _ kept has]) (use f(3-5) n in \<open>auto simp: execution_result_def\<close>)
qed

section \<open>Every interleaving\<close>

inductive suggestion_step :: "'z suggestion_db_scheme \<Rightarrow> 'z suggestion_db_scheme \<Rightarrow> bool" where
  T_create: "suggestion_step db (snd (create_suggestion sha256 d sid actor c db))"
| T_resolve: "suggestion_step db (snd (resolve_suggestion d i actor x db))"
| T_complete: "suggestion_step db (snd (complete_execution r d c x db))"
| T_other: "suggestions db' = suggestions db \<Longrightarrow> suggestion_step db db'"

lemma evolves_append: "suggestions db' = suggestions db @ new \<Longrightarrow> suggestions_evolve db db'"
  unfolding suggestions_evolve_def by (intro exI [of _ "suggestions db"] exI [of _ new]) (simp add: decided_from_def list.rel_refl)

lemma decide_decided_from: "rs_status s = SG_OPEN \<Longrightarrow> decided_from s (decide x actor now s)"
  by (cases x) (simp_all add: decided_from_def decide_def undecided_def)

lemma suggestion_step_sound:
  assumes "suggestion_step db db'" "suggestions_sound db"
  shows "suggestions_sound db' \<and> suggestions_evolve db db'"
  using assms
proof (induction rule: suggestion_step.induct)
  case (T_create db sha256 d sid actor c)
  obtain res db' where c: "create_suggestion sha256 d sid actor c db = (res, db')" by fastforce
  then show ?case
  proof (cases rule: create_suggestion_cases)
    case failed
    then show ?thesis using c T_create by (auto simp: suggestions_evolve_refl)
  next
    case (created s db1)
    from created(1) have a: "db1 = db\<lparr>suggestions := suggestions db @ [s]\<rparr>" "suggestions_sound db1"
      using sound_append [OF T_create] by (auto elim: insert_suggestion_cases)
    then show ?thesis using c created(2) evolves_append [of db' db "[s]"] by (simp add: suggestions_sound_def)
  qed
next
  case (T_resolve db d i actor x)
  obtain res db' where c: "resolve_suggestion d i actor x db = (res, db')" by fastforce
  then show ?case
  proof (cases rule: resolve_suggestion_cases)
    case failed
    then show ?thesis using c T_resolve by (auto simp: suggestions_evolve_refl)
  next
    case (resolved s t)
    have s: "s \<in> set (suggestions db)" "rs_id s = i" using find_Some_set [OF resolved(1)] by auto
    have unique: "y = s" if "y \<in> set (suggestions db)" "rs_id y = i" for y
      using distinct_key_unique [of rs_id "suggestions db" y s] that s T_resolve by (simp add: suggestions_sound_def)
    have e: "list_all2 decided_from (suggestions db) (suggestions db')"
      unfolding resolved(7) update_rows_def list.rel_map
    proof (rule list.rel_refl_strong)
      fix z assume "z \<in> set (suggestions db)"
      then show "decided_from z (if rs_id z = i then decide x actor (sgd_now d) z else z)"
        using unique [of z] decide_decided_from [OF resolved(5)] by (cases "rs_id z = i") (auto simp: decided_from_def)
    qed
    have "map rs_id (suggestions db') = map rs_id (suggestions db)"
      unfolding resolved(7) by (rule map_update_rows_same) (simp add: decide_def)
    moreover have "map comparison_key_of (filter keyed (update_rows (\<lambda>s. rs_id s = i) (decide x actor (sgd_now d)) rows)) =
        map comparison_key_of (filter keyed rows)" for rows
      by (induction rows) (auto simp: decide_def keyed_def comparison_key_of_def)
    then have "map comparison_key_of (filter keyed (suggestions db')) = map comparison_key_of (filter keyed (suggestions db))"
      by (simp only: resolved(7))
    ultimately show ?thesis using T_resolve e c by (auto simp: suggestions_sound_def suggestions_evolve_def)
  qed
next
  case (T_complete db r d c x)
  obtain res db' where c: "complete_execution r d c x db = (res, db')" by fastforce
  then show ?case
  proof (cases rule: complete_execution_cases)
    case failed
    then show ?thesis using c T_complete by (auto simp: suggestions_evolve_refl)
  next
    case (stored y n)
    then show ?thesis using c T_complete by (auto simp: stored_from_def intro: evolves_append)
  qed
next
  case (T_other db' db)
  then show ?case by (auto simp: suggestions_sound_def suggestions_evolve_refl)
qed

lemma suggestion_steps_sound:
  assumes "suggestion_step\<^sup>*\<^sup>* db db'" "suggestions_sound db"
  shows "suggestions_sound db' \<and> suggestions_evolve db db'"
  using assms
proof (induction rule: rtranclp_induct)
  case base
  then show ?case by (simp add: suggestions_evolve_refl)
next
  case (step b c)
  then show ?case using suggestion_step_sound [OF step(2)] suggestions_evolve_trans by blast
qed

text \<open>
  C38: A suggestion is decided once, by the host.  When a resolution succeeds, the suggestion was open, the actor is the host
  of its session and a current member of the room, and only the decision was written; whatever suggestions, resolutions,
  completed jobs and other transactions follow, the suggestion stays exactly as decided and every further resolution of it
  fails and changes nothing.
\<close>

theorem suggestions_are_decided_once:
  assumes "suggestions_sound db" and "resolve_suggestion d i actor x db = (Inr s, db1)" and "suggestion_step\<^sup>*\<^sup>* db1 db2"
  shows "(\<exists>s0 t. s0 \<in> set (suggestions db) \<and> rs_id s0 = i \<and> rs_status s0 = SG_OPEN \<and> s = decide x actor (sgd_now d) s0 \<and>
      find_session db (rs_session s0) = Some t \<and> ts_host t = actor \<and> is_member db (ts_room t) actor) \<and>
    find (\<lambda>s. rs_id s = i) (suggestions db2) = Some s \<and>
    (\<exists>e. resolve_suggestion d' i actor' x' db2 = (Inl e, db2))"
proof -
  from assms(2) obtain s0 t where r: "find (\<lambda>s. rs_id s = i) (suggestions db) = Some s0" "find_session db (rs_session s0) = Some t"
    "ts_host t = actor" "is_member db (ts_room t) actor" "rs_status s0 = SG_OPEN" "s = decide x actor (sgd_now d) s0"
    "suggestions db1 = update_rows (\<lambda>s. rs_id s = i) (decide x actor (sgd_now d)) (suggestions db)"
    by (auto elim: resolve_suggestion_cases)
  have s0: "s0 \<in> set (suggestions db)" "rs_id s0 = i" using find_Some_set [OF r(1)] by auto
  have "suggestion_step db db1" using T_resolve [of db d i actor x] assms(2) by simp
  then have sound: "suggestions_sound db1" using suggestion_step_sound assms(1) by blast
  have "s \<in> set (suggestions db1)" using s0 r(6) unfolding r(7) set_update_rows by force
  then obtain s' where s': "s' \<in> set (suggestions db2)" "decided_from s s'"
    using suggestion_steps_sound [OF assms(3) sound] evolved_row by blast
  have status: "rs_status s \<noteq> SG_OPEN" "rs_id s = i" using r(6) s0(2) by (cases x; simp add: decide_def)+
  then have "s' = s" using s'(2) by (simp add: decided_from_def)
  then have found: "find (\<lambda>s. rs_id s = i) (suggestions db2) = Some s"
    using s'(1) suggestion_steps_sound [OF assms(3) sound] find_key_unique [of rs_id "suggestions db2" s] status(2)
    by (simp add: suggestions_sound_def)
  have "\<exists>e. resolve_suggestion d' i actor' x' db2 = (Inl e, db2)"
  proof (cases "resolve_suggestion d' i actor' x' db2")
    case (Pair res db3)
    then show ?thesis by (cases rule: resolve_suggestion_cases) (use Pair found status in auto)
  qed
  then show ?thesis using r s0 found by blast
qed

text \<open>
  C39: The job stores every proposal once.  When the completion of a job succeeds, its claim held the lease; the rows it added
  are open suggestions made of its proposals, each pinned to its report by the snapshot, the hash and an anchor of the
  snapshot; every proposal has exactly one row; the stored result counts the rows added, and no other row changed.
\<close>

theorem proposals_are_stored_once:
  assumes "suggestions_sound db" and "complete_execution r d c x db = (Inr y, db')"
  shows "\<exists>new. suggestions db' = suggestions db @ new \<and> list_ex (holds_lease c (jw_complete_now d)) (jobs db) \<and>
    (\<forall>s \<in> set new. (\<exists>p \<in> set (se_proposals x). s = automatic_row r (jw_complete_now d) x p) \<and> suggestion_provenance (ar_sha256 r) db' s) \<and>
    (\<forall>p \<in> set (se_proposals x). hits (\<lambda>s. rs_snapshot s = se_snapshot x \<and> rs_key s = Some (ap_key p)) (suggestions db') = 1) \<and>
    (\<exists>row \<in> set (results db'). re_job_id row = cl_id c \<and> re_json row = JObj [(u ''snapshot_id'', JStr (uuid_text (se_snapshot x))),
       (u ''status'', JStr (job_state_value J_SUCCEEDED)), (u ''suggestion_count'', JInt (int (length new)))])"
  using assms(2)
proof (cases rule: complete_execution_cases)
  case (stored y n)
  from stored(4) obtain new where new: "suggestions db' = suggestions db @ new" "length new = n" "stored_rows r d x new"
    "\<forall>s \<in> set new. suggestion_provenance (ar_sha256 r) db s" "report_frame db db'" "suggestions_sound db'"
    using assms(1) by (auto simp: stored_from_def)
  have one: "hits (\<lambda>s. rs_snapshot s = se_snapshot x \<and> rs_key s = Some (ap_key p)) (suggestions db') = 1" if p: "p \<in> set (se_proposals x)" for p
  proof -
    let ?P = "\<lambda>s. rs_snapshot s = se_snapshot x \<and> rs_key s = Some (ap_key p)"
    obtain s where s: "s \<in> set (suggestions db')" "comparison_key_of s = (se_snapshot x, Some (ap_key p))"
      using stored(5) p by (auto simp: has_comparison_def)
    have "hits ?P (filter keyed (suggestions db')) = 1"
      by (rule hits_one_of_key [where key = comparison_key_of and r = s])
        (use new(6) s in \<open>auto simp: suggestions_sound_def keyed_def comparison_key_of_def\<close>)
    moreover have "hits ?P (filter keyed (suggestions db')) = hits ?P (suggestions db')"
      unfolding hits_def filter_filter by (intro arg_cong [where f = length] filter_cong) (auto simp: keyed_def)
    ultimately show ?thesis by simp
  qed
  have "list_ex (holds_lease c (jw_complete_now d)) (jobs db)"
    using stored(2) hits_zero_iff [of "holds_lease c (jw_complete_now d)" "jobs db"] by (auto simp: list_ex_iff)
  then show ?thesis using new one stored(3) provenance_frame [OF new(5)]
    by (intro exI [of _ new]) (simp add: stored_rows_def del: u_simps)
qed simp


text \<open>
  An invalid job is never finished.  When the payload of a claimed job names no snapshot, every poll that claims it
  raises and leaves the job as it was, so it stays running until its lease expires and is claimed again, at any generation.
\<close>

theorem invalid_report_job_never_ends:
  assumes "suggestion_identity c = Inl e"
  shows "run_claimed_suggestions r d env c db = (Inl e, env 0 db)"
proof -
  obtain m where "e = AutomaticSuggestionRunnerError m"
    using assms by (auto simp: suggestion_identity_def Let_def split: option.split_asm if_split_asm)
  then show ?thesis
    using assms by (simp add: run_claimed_suggestions_def execute_suggestions_def Let_def fail_suggestions_def attention_effect_def)
qed

section \<open>The properties at a concrete report\<close>

text \<open>The report of session 4 with a claimed job; user 5 is the host of the session.\<close>

definition sample_board :: suggestion_db where
  "sample_board = source_db.extend (sample_report\<lparr>
     jobs := [claim_update 1 (u ''A'') 41 60 0 (new_job_row 7 (u ''k'') (u ''report_suggestions'') None (JObj []) 0)],
     attempts := [\<lparr>at_id = 42, at_job_id = 7, at_generation = 1, at_token = 41, at_owner = u ''A'',
       at_ended_at = None, at_status = AT_RUNNING, at_error = None\<rparr>]\<rparr>) (suggestion_db.fields [])"

lemmas board_eval = sample_board_def source_db.defs suggestion_db.defs

lemma board_reads:
  "suggestions sample_board = []" "audit sample_board = []" "results sample_board = []" "anchors sample_board = anchors sample_report"
  "snapshots sample_board = snapshots sample_report" "runs sample_board = runs sample_report" "documents sample_board = documents sample_report"
  "pinned sample_board = pinned sample_report" "sessions sample_board = sessions sample_report" "memberships sample_board = memberships sample_report"
  "jobs sample_board = [claim_update 1 (u ''A'') 41 60 0 (new_job_row 7 (u ''k'') (u ''report_suggestions'') None (JObj []) 0)]"
  "attempts sample_board = [\<lparr>at_id = 42, at_job_id = 7, at_generation = 1, at_token = 41, at_owner = u ''A'',
     at_ended_at = None, at_status = AT_RUNNING, at_error = None\<rparr>]"
  by (simp_all add: board_eval report_eval del: u_simps)

lemma board_provenance:
  assumes "report_frame sample_board db" "rs_snapshot s = 30" "rs_session s = 4" "rs_hash s = replicate 64 48" "rs_anchor s = Some 36"
  shows "suggestion_provenance sample_digest db s"
proof -
  have "report_documents sample_board n = documents sample_report" if "n \<in> set (snapshots sample_report)" for n
    unfolding report_documents_def board_reads using that by (auto simp: report_eval)
  then have "complete_report sample_board n" if "n \<in> set (snapshots sample_report)" for n
    using that by (simp add: complete_report_def) (simp add: report_eval)
  moreover have "\<exists>n. find (\<lambda>n. sn_id n = 30) (snapshots sample_report) = Some n \<and> n \<in> set (snapshots sample_report) \<and> sn_session n = 4"
    by (simp add: report_eval)
  moreover have "anchor_in_snapshot sample_board 30 36" unfolding anchor_in_snapshot_def board_reads by (simp add: report_eval)
  ultimately have "suggestion_provenance sample_digest sample_board s"
    using assms(2-5) by (auto simp: suggestion_provenance_def board_reads report_content_hash_def sample_digest_def)
  then show ?thesis using provenance_frame [OF assms(1)] by simp
qed

definition board_proposal :: proposal where
  "board_proposal = \<lparr>ap_key = replicate 64 48, ap_kind = SK_ADD, ap_anchor = 36, ap_text = u ''hi'', ap_rationale = u ''hi'', ap_target = None\<rparr>"

definition board_execution :: suggestion_execution where
  "board_execution = \<lparr>se_snapshot = 30, se_session = 4, se_room = 3, se_author = 5, se_hash = replicate 64 48,
     se_proposals = [board_proposal], se_final = []\<rparr>"

definition board_runner :: suggestion_runner where
  "board_runner = \<lparr>ar_provider = None, ar_sha256 = sample_digest,
     ar_embedding = \<lparr>em_vector = \<lambda>_. [1], em_similarity = \<lambda>l r. 1, em_round = \<lambda>x. x\<rparr>, ar_uuid5 = \<lambda>_. 60, ar_percent = \<lambda>_. []\<rparr>"

definition board_draws :: suggestion_job_draws where
  "board_draws = \<lparr>jw_locked = \<lambda>_. False, jw_token = 41, jw_attempt = 42, jw_claim_now = 0, jw_claim_now' = 0, jw_document = sample_dw,
     jw_event = \<lambda>_. 80, jw_complete_now = 1, jw_result = 81, jw_requeue_now = 2\<rparr>"

definition board_claim :: claimed_job where
  "board_claim = \<lparr>cl_id = 7, cl_logical_key = u ''k'', cl_kind = u ''report_suggestions'', cl_payload = [], cl_owner = u ''A'',
     cl_generation = 1, cl_token = 41, cl_attempt_id = 42\<rparr>"

abbreviation board_row :: suggestion_row where
  "board_row \<equiv> automatic_row board_runner 1 board_execution board_proposal"

lemma board_row_fields: "suggestion_storable board_row" "suggestion_checks board_row" "rs_snapshot board_row = 30" "rs_session board_row = 4"
  "rs_hash board_row = replicate 64 48" "rs_anchor board_row = Some 36" "rs_text board_row = u ''hi''" "rs_id board_row = 60"
  "rs_kind board_row = SK_ADD" "ar_sha256 board_runner = sample_digest"
  by (simp_all add: automatic_row_def board_runner_def board_execution_def board_proposal_def suggestion_storable_def suggestion_checks_def
      storable_text_def is_sha256_hex_def list_all_iff)

lemma suggestion_keys:
  "build_event_key (u ''suggestion.created'') (kwargs [(''suggestion_id'', IUuid x)]) = Inr (u ''suggestion:'' @ uuid_text x @ u '':created'')"
  "build_event_key (u ''suggestion.accepted'') (kwargs [(''suggestion_id'', IUuid x), (''version'', IInt v)]) =
     Inr (u ''suggestion:'' @ uuid_text x @ u '':v'' @ int_text v @ u '':accepted'')"
proof -
  have s: "u ''suggestion.created'' \<in> set supported_event_types" "u ''suggestion.accepted'' \<in> set supported_event_types"
    by (simp_all add: supported_event_types_def del: u_simps)
  have "after_last_dot (u ''suggestion.accepted'') = u ''accepted''" by (simp add: after_last_dot_def)
  then have t: "event_template (u ''suggestion.created'') b = [Lit (u ''suggestion''), field ''suggestion_id'', Lit (u ''created'')]"
    "event_template (u ''suggestion.accepted'') b =
      [Lit (u ''suggestion''), field ''suggestion_id'', Field (u ''v'') (u ''version''), Lit (u ''accepted'')]" for b
    by (simp_all add: event_template_def startswith_u Let_def del: u_simps)
  show "build_event_key (u ''suggestion.created'') (kwargs [(''suggestion_id'', IUuid x)]) = Inr (u ''suggestion:'' @ uuid_text x @ u '':created'')"
    "build_event_key (u ''suggestion.accepted'') (kwargs [(''suggestion_id'', IUuid x), (''version'', IInt v)]) =
     Inr (u ''suggestion:'' @ uuid_text x @ u '':v'' @ int_text v @ u '':accepted'')"
    by (simp_all add: build_event_key_def s t segment_text_def field_def kwargs_def del: u_simps)
      (simp_all add: ustr_join_def)
qed

lemma board_event:
  fixes db :: "'z suggestion_db_scheme"
  assumes "audit db = []" "sessions db = sessions sample_report"
  shows "\<exists>b a. checked_append 80 (automatic_event board_execution board_row (u ''suggestion:'' @ uuid_text 60 @ u '':created'')) db = Inr (b, db\<lparr>audit := a\<rparr>)"
proof -
  let ?m = "[(Some (u ''origin''), MStr (u ''automatic_comparison'')), (Some (u ''kind''), MStr (suggestion_kind_value SK_ADD))]"
  have "storable ?m" by (simp add: storable_def metadata_eval)
  then obtain j where j: "safe_audit_metadata ?m = Inr j" "jsonb_size_at_most 4096 j" using storable_obtain by blast
  have s: "u ''suggestion.created'' \<in> set supported_event_types" by (simp add: supported_event_types_def del: u_simps)
  show ?thesis
    using j assms s unfolding automatic_event_def board_row_fields
    by (simp add: checked_append_def append_activity_def audit_checks_def new_audit_row_def scope_shape_def fresh_def board_execution_def
        report_eval del: u_simps suggestion_kind_value.simps) (rule conjI, blast, intro exI, rule refl)
qed

lemma board_stores:
  fixes db :: suggestion_db
  assumes "audit db = []" "sessions db = sessions sample_report" "suggestions db = []" "report_frame sample_board db"
  shows "\<exists>a. store_execution board_runner board_draws board_execution db = Inr (1, db\<lparr>suggestions := [board_row], audit := a\<rparr>)"
proof -
  let ?db = "db\<lparr>suggestions := [board_row]\<rparr>"
  have i: "insert_suggestion sample_digest board_row db = Inr (True, ?db)"
    using board_provenance [OF assms(4), of board_row] by (simp add: insert_suggestion_def board_row_fields assms(3) fresh_def)
  obtain b a where "checked_append 80 (automatic_event board_execution board_row (u ''suggestion:'' @ uuid_text 60 @ u '':created'')) ?db =
      Inr (b, ?db\<lparr>audit := a\<rparr>)" using board_event [of ?db] assms(1,2) by auto
  then have "store_proposal board_runner board_draws board_execution (0, board_proposal) (0, db) = Inr (1, ?db\<lparr>audit := a\<rparr>)"
    unfolding store_proposal_def Let_def by (simp add: board_draws_def board_row_fields i suggestion_keys del: u_simps)
  moreover have "se_final board_execution = []" "se_proposals board_execution = [board_proposal]" by (simp_all add: board_execution_def)
  ultimately have "store_execution board_runner board_draws board_execution db = Inr (1, ?db\<lparr>audit := a\<rparr>)"
    by (simp add: store_execution_def install_final_blocks_def)
  then show ?thesis by blast
qed

lemma board_sound: "suggestions_sound sample_board"
  by (simp add: suggestions_sound_def board_reads)

lemma board_completes:
  "\<exists>db. complete_execution board_runner board_draws board_claim board_execution sample_board = (Inr (), db)"
proof -
  let ?j = "claim_update 1 (u ''A'') 41 60 0 (new_job_row 7 (u ''k'') (u ''report_suggestions'') None (JObj []) 0)"
  let ?db = "sample_board\<lparr>jobs := [complete_job J_SUCCEEDED None 1 ?j]\<rparr>"
  have h: "holds_lease board_claim 1 ?j" by (simp add: holds_lease_def board_claim_def claim_update_def new_job_row_def micros_def)
  have now: "jw_complete_now board_draws = 1" "jw_result board_draws = 81" by (simp_all add: board_draws_def)
  obtain a where p: "store_execution board_runner board_draws board_execution ?db = Inr (1, ?db\<lparr>suggestions := [board_row], audit := a\<rparr>)"
    using board_stores [of ?db] by (auto simp: board_reads report_frame_def)
  let ?v = "JObj [(u ''snapshot_id'', JStr (uuid_text 30)), (u ''status'', JStr (job_state_value J_SUCCEEDED)), (u ''suggestion_count'', JInt 1)]"
  obtain b where b: "canonical_json_bytes ?v = Some b"
    using encodable_bytes [of ?v] set_uuid_text [of _ 30] by (force simp: encodable_def list_all_iff)
  have r: "execution_result board_runner board_draws board_claim board_execution sample_board =
      [(u ''snapshot_id'', JStr (uuid_text 30)), (u ''status'', JStr (job_state_value J_SUCCEEDED)), (u ''suggestion_count'', JInt 1)]"
    using h p by (simp add: execution_result_def now board_reads board_execution_def update_rows_def del: u_simps)
  show ?thesis
    unfolding complete_execution_def complete_with_effects_def transaction_def complete_body_def execution_effect_def r now
    using h p b by (simp add: check_completion_def completion_states_def insert_result_def Let_def fresh_def board_reads my_attempt_def
        board_claim_def open_attempt_def del: u_simps)
qed

theorem proposals_are_stored_once_witness:
  "\<exists>db s. complete_execution board_runner board_draws board_claim board_execution sample_board = (Inr (), db) \<and>
     s \<in> set (suggestions db) \<and> rs_text s = u ''hi'' \<and> rs_status s = SG_OPEN"
proof -
  obtain db where d: "complete_execution board_runner board_draws board_claim board_execution sample_board = (Inr (), db)"
    using board_completes by blast
  have ps: "se_proposals board_execution = [board_proposal]" by (simp add: board_execution_def)
  from proposals_are_stored_once [OF board_sound d] obtain new where n: "suggestions db = suggestions sample_board @ new"
    "\<forall>s \<in> set new. \<exists>p \<in> set (se_proposals board_execution). s = automatic_row board_runner (jw_complete_now board_draws) board_execution p"
    "hits (\<lambda>s. rs_snapshot s = se_snapshot board_execution \<and> rs_key s = Some (ap_key board_proposal)) (suggestions db) = 1"
    unfolding ps by auto
  then have "suggestions db \<noteq> []" by (auto simp: hits_def)
  then obtain s where "s \<in> set new" using n(1) board_reads(1) by (cases new) auto
  then have "s \<in> set (suggestions db)" "s = automatic_row board_runner (jw_complete_now board_draws) board_execution board_proposal"
    using n(1,2) by (auto simp: ps)
  then show ?thesis using d by (intro exI [of _ db] exI [of _ s]) (simp add: automatic_row_def board_proposal_def)
qed



text \<open>An open suggestion of the session, which its host accepts.\<close>

definition open_row :: suggestion_row where
  "open_row = \<lparr>rs_id = 61, rs_session = 4, rs_author = 5, rs_anchor = None, rs_target = None, rs_text = u ''hi'', rs_rationale = [],
     rs_snapshot = 30, rs_hash = replicate 64 48, rs_kind = SK_ADD, rs_origin = O_MEMBER, rs_key = None, rs_status = SG_OPEN,
     rs_resolved_by = None, rs_created_at = 7, rs_resolved_at = None\<rparr>"

definition open_draws :: suggestion_draws where
  "open_draws = \<lparr>sgd_id = 62, sgd_now = 9, sgd_event = \<lparr>dr_event = 80, dr_notification = \<lambda>x. x, dr_outbox = \<lambda>x. x, dr_now = 9\<rparr>\<rparr>"

lemma open_resolves: "\<exists>db. resolve_suggestion open_draws 61 5 ACCEPT (sample_board\<lparr>suggestions := [open_row]\<rparr>) = (Inr (decide ACCEPT 5 9 open_row), db)"
proof -
  let ?db = "sample_board\<lparr>suggestions := [open_row]\<rparr>"
  let ?db1 = "?db\<lparr>suggestions := [decide ACCEPT 5 9 open_row]\<rparr>"
  obtain t where t: "find_session ?db 4 = Some t" "ts_host t = 5" "ts_room t = 3" "is_member ?db 3 5"
    unfolding find_session_def is_member_def by (simp add: board_reads report_eval)
  have m: "storable [(Some (u ''status''), MStr (u ''accepted'')), (Some (u ''version''), MInt 1)]" by (simp add: storable_def metadata_eval)
  have ty: "u ''suggestion.accepted'' \<in> set supported_event_types" by (simp add: supported_event_types_def del: u_simps)
  obtain a where a: "record_event (sgd_event open_draws) (u ''suggestion.accepted'') [(''suggestion_id'', IUuid 61), (''version'', IInt 1)]
       5 SC_SESSION None (Some 3) (Some 4) (u ''suggestion'') 61 [(Some (u ''status''), MStr (u ''accepted'')), (Some (u ''version''), MInt 1)] [] ?db1 =
       Inr (?db1\<lparr>audit := a\<rparr>)"
    using session_event [OF ty suggestion_keys(2) _ _ m, of 61 1 "u ''suggestion''" ?db1 4 3 "sgd_event open_draws" 5 61]
    by (auto simp: board_reads int_text_def dec_digits.simps report_eval)
  have app: "u ''suggestion.'' @ u ''accepted'' = u ''suggestion.accepted''" by simp
  have row: "rs_id open_row = 61" "rs_session open_row = 4" "rs_status open_row = SG_OPEN" "sgd_now open_draws = 9"
    by (simp_all add: open_row_def open_draws_def)
  have "\<exists>db. resolve_suggestion_body open_draws 61 5 ACCEPT ?db = Inr (decide ACCEPT 5 9 open_row, db)"
    using t a unfolding resolve_suggestion_body_def Let_def
    by (simp add: row app update_rows_def del: u_simps)
  then show ?thesis by (auto simp: resolve_suggestion_def transaction_def)
qed

theorem suggestions_are_decided_once_witness:
  "\<exists>db e. resolve_suggestion open_draws 61 5 ACCEPT (sample_board\<lparr>suggestions := [open_row]\<rparr>) = (Inr (decide ACCEPT 5 9 open_row), db) \<and>
     resolve_suggestion open_draws 61 5 REJECT db = (Inl e, db)"
proof -
  have s: "suggestions_sound (sample_board\<lparr>suggestions := [open_row]\<rparr>)" by (simp add: suggestions_sound_def keyed_def open_row_def)
  obtain db where d: "resolve_suggestion open_draws 61 5 ACCEPT (sample_board\<lparr>suggestions := [open_row]\<rparr>) = (Inr (decide ACCEPT 5 9 open_row), db)"
    using open_resolves by blast
  show ?thesis using suggestions_are_decided_once [OF s d rtranclp.rtrancl_refl, where d' = open_draws and actor' = 5 and x' = REJECT] d by blast
qed

theorem invalid_report_job_never_ends_witness:
  "run_claimed_suggestions board_runner board_draws (\<lambda>k db. db) board_claim sample_board =
     (Inl (AutomaticSuggestionRunnerError (u ''automatic suggestion job identity is invalid'')), sample_board)"
proof (rule invalid_report_job_never_ends)
  show "suggestion_identity board_claim = Inl (AutomaticSuggestionRunnerError (u ''automatic suggestion job identity is invalid''))"
    by (simp add: suggestion_identity_def board_claim_def get_str_def get_key_def del: u_simps)
qed

end
