(* ===== verification/Spec2Isabelle.thy ===== *)
theory Spec2Isabelle
  imports Domain_Policies Domain_Queue Queue_Fencing Event_Keys Activity_Feed Session_Gates Context_Properties System_Properties
    Collaboration_Properties Notification_Properties Profiles_Properties File_Properties Auth_Properties Merged_Properties
    Citation_Properties Source_Properties Suggestion_Properties
begin

text \<open>
  A model of the AXit API server (\<open>apps/api/app\<close>, Python over PostgreSQL) and the theorems that make it correct.  Members of
  a room submit texts and files to a talk session; files are extracted by a worker into anchors, the smallest quotable pieces;
  the host closes the session, which pins the current revisions as a snapshot and queues a summary and a research job; a fenced
  worker runs a provider on the snapshot's anchors, checks the grounding of the answer and stores documents whose segments cite
  the anchors; the pair of documents is the report, which the members read, comment on and edit.  A last job turns the report
  into one document and proposes changes to it, as an edit agent does on request; the host accepts or rejects them.

  \<^bold>\<open>How the code is modelled.\<close>
  \<^item> A table is a list of records with the columns the code uses; the database is a record of tables that every component
    extends (\<open>queue_db\<close>, \<open>app_db\<close>, \<open>platform_db\<close>, \<open>source_db\<close>, \<open>auth_db\<close>, \<open>suggestion_db\<close>), so an operation of an earlier component applies to the
    larger state.  A statement is the corresponding list operation; an insert checks the constraints of the migrations and
    fails as the driver does (\<open>PgError\<close>, \<open>DataError\<close>).  A \<open>with connection.transaction()\<close> block is a function to an error or a
    result with the new state; \<open>transaction\<close> keeps the old state when it fails.
  \<^item> Exceptions are the constructors of \<open>app_error\<close>; every raise and early return is a branch.
  \<^item> Clock readings, drawn UUIDs and tokens are parameters; a UUID is a 128-bit word, an instant counts microseconds, a string
    is the list of its code points (\<open>ustr\<close>).  No freshness is assumed: the keys are checked where the database checks them.
  \<^item> Concurrency is interleaving of transactions.  Row locks make a transaction atomic; where the code works outside of one,
    a parameter \<open>env\<close> is what other processes commit in between, and invariants are proved for every interleaving by rule
    induction over the step relations (\<open>queue_step\<close>, \<open>app_step\<close>, \<open>collab_step\<close>, \<open>comment_step\<close>, \<open>auth_step\<close>, \<open>profile_step\<close>,
    \<open>notification_step\<close>, \<open>document_step\<close>, \<open>suggestion_step\<close>).
  \<^item> Parameters stand for code that is not in the repository or is a table of the interpreter: SHA-256, HMAC, Argon2, Unicode
    normalization, lower case and \<open>isalnum\<close> beyond ASCII, floating-point similarity, \<open>uuid5\<close>, \<open>json.loads\<close> of an answer,
    the generation provider, the transport of the report provider and the parser container.  What a theorem needs of one is a hypothesis of it.
  \<^item> Loops over lists are structural recursion, so every operation is total; no fuel is used.  The numeric bounds (20
    revisions per session, 100 000 characters, 10 000 blocks, three attempts, 500 blocks of a document) are those of the code.

  \<^bold>\<open>Theories\<close>, in dependency order (all files of \<open>apps/api/app\<close> unless said otherwise).
  \<^item> \<open>Prelude\<close>, \<open>Errors\<close>, \<open>Json\<close>, \<open>Utf8\<close>, \<open>Uuid_Text\<close>: text, results, table operations, JSON with its canonical encoding, the text
    forms of UUIDs and bytes.  \<open>Tables\<close>, \<open>Platform_Tables\<close>, \<open>Source_Tables\<close>: the rows of \<open>alembic/versions\<close> with their constraints.
  \<^item> \<open>Domain_Models\<close>, \<open>Domain_Policies\<close>, \<open>Domain_Queue\<close>: the package \<open>domain\<close> with the decision table of the generation aggregate.
  \<^item> \<open>Job_Queue\<close>, \<open>Queue_Invariant\<close>, \<open>Queue_Fencing\<close>: \<open>queue_repository.py\<close>; every interleaving keeps the queue sound, a superseded
    lease never commits, a claim takes the oldest job.
  \<^item> \<open>Activity_Policy\<close>, \<open>Event_Keys\<close>, \<open>Activity\<close>, \<open>Activity_Feed\<close>, \<open>Keyset_Page\<close>, \<open>Notification_Feed\<close>, \<open>Notification_Properties\<close>: the ledger, the
    notifications and the outbox (\<open>activity_*.py\<close>, \<open>notification_*.py\<close>); clean metadata, injective keys, exact delivery, complete and
    private paging.
  \<^item> \<open>Session_Close\<close>, \<open>Session_Facts\<close>, \<open>Session_Properties\<close>, \<open>Session_Retry\<close>, \<open>Session_Retry_Properties\<close>, \<open>Membership_Gate\<close>, \<open>Session_Gates\<close>:
    \<open>session_service.py\<close>, \<open>session_retry_service.py\<close>; what a close pins, what a retry requeues, what a stranger learns.
  \<^item> \<open>Summary_Grounding\<close>, \<open>Grounding_Properties\<close>, \<open>Generation_Context\<close>, \<open>Context_Properties\<close>, \<open>Generation_Provenance\<close>, \<open>Generation_Persist\<close>,
    \<open>Generation_Read\<close>, \<open>Generation_Read_Properties\<close>, \<open>Generation_Runner\<close>, \<open>Runner_Properties\<close>, \<open>Generation_Worker\<close>, \<open>Worker_Properties\<close>:
    \<open>summary_grounding.py\<close>, \<open>source_anchor_quality.py\<close>, \<open>generation_*.py\<close>; summaries quote the snapshot, plans keep their budgets,
    attempts end.  \<open>System\<close>, \<open>System_Properties\<close> compose sessions, retries, queue and workers and refine the abstract session machine.
  \<^item> \<open>Collaboration\<close>, \<open>Collaboration_Inv\<close>, \<open>Collaboration_Properties\<close>; \<open>Comments\<close>, \<open>Comments_Inv\<close>, \<open>Comment_Fingerprint\<close>, \<open>Comments_Properties\<close>;
    \<open>Profiles\<close>, \<open>Profiles_Properties\<close>: \<open>collaboration_service.py\<close>, \<open>comments_*.py\<close>, \<open>profile_*.py\<close>.
  \<^item> \<open>Text_Submissions\<close>, \<open>File_Submissions\<close>, \<open>File_Properties\<close>, \<open>Extraction_Worker\<close>, \<open>Source_Properties\<close>: \<open>text_submission_service.py\<close>,
    \<open>file_submission_service.py\<close> with its blob store, \<open>file_extraction_worker.py\<close>; anchors quote their source, uploads come back
    byte by byte or leave no trace, extractions are bounded, fenced and never stranded.
  \<^item> \<open>Auth\<close>, \<open>Auth_Properties\<close>: \<open>auth_service.py\<close>, \<open>security.py\<close>; one session per login, ended sessions stay ended.
  \<^item> \<open>Merged_Documents\<close>, \<open>Merged_Properties\<close>, \<open>Citation_Resolver\<close>, \<open>Citation_Properties\<close>: \<open>integrated_report.py\<close>,
    \<open>merged_document_service.py\<close>, \<open>citation_resolver.py\<close> and the source coverage of \<open>automatic_report_suggestions.py\<close>.
  \<^item> \<open>Document_Comparison\<close>, \<open>Report_Provider\<close>, \<open>Report_Suggestions\<close>, \<open>Automatic_Suggestions\<close>, \<open>Report_Grounding\<close>,
    \<open>Suggestion_Properties\<close>: \<open>document_comparison.py\<close>, \<open>grok_report_provider.py\<close>, \<open>report_suggestions.py\<close>, \<open>grok_edit_agent.py\<close>,
    \<open>automatic_report_suggestions.py\<close>; a comparison is a greedy matching, what a model answers is kept only when it cites the
    given anchors, a suggestion is decided once, and the job stores every proposal once however often it runs.

  \<^bold>\<open>Interfaces.\<close>  Each locale is interpreted on the model's own operations: \<open>lease_fencing\<close> (\<open>pgq\<close>: the job queue),
  \<open>session_gate\<close> (the operations on a session), \<open>optimistic\<close> (versioned aggregates: profiles, preferences, merged documents)
  \<open>keyset_listing\<close> (the paged listings of comments, notifications and e-mails) and \<open>anchored_proposals\<close> (the report provider and
  the edit agent as sources of suggestions).

  \<^bold>\<open>Not modelled.\<close>  HTTP routes and their schemas (\<open>contracts.py\<close>, \<open>main.py\<close>), provider clients (\<open>grok_provider.py\<close>, \<open>grok_research_provider.py\<close>,
  \<open>mock_provider.py\<close>) and all prompts and response schemas, the floating point of \<open>local_embeddings.py\<close>, full-text search, the base64 text of cursors, process loops and
  connection set-up (\<open>orchestrator*.py\<close>, \<open>db.py\<close>), the staging and supervision of the parser process in \<open>sandbox_ipc.py\<close>, the
  document parsers under \<open>spikes\<close>, tooling and the web client: they are input and output around the operations above, or Unicode
  and floating-point computation.
\<close>

end
